(* ===== verification/Prelude.thy ===== *)
theory Prelude
  imports Complex_Main
begin

text \<open>
  What the components share: the collections of simplification rules, Python's string
  operations on ASCII text, number formatting, JSON values, string enums, and tables of rows
  with a generated integer primary key together with the laws of the session operations on
  them.
\<close>

named_theorems table_simps "laws of table lookups after table updates"
named_theorems wf_intros "preservation of table well-formedness"

section \<open>Strings\<close>

text \<open>
  A Python string is a list of bytes (UTF-8).  Case mapping and stripping act on the ASCII
  letters and the ASCII white space.
\<close>

definition char_code :: "char \<Rightarrow> nat" where
  "char_code c = of_char c"

definition upper_char :: "char \<Rightarrow> char" where
  "upper_char c = (if 97 \<le> char_code c \<and> char_code c \<le> 122 then char_of (char_code c - 32) else c)"

definition lower_char :: "char \<Rightarrow> char" where
  "lower_char c = (if 65 \<le> char_code c \<and> char_code c \<le> 90 then char_of (char_code c + 32) else c)"

definition is_space :: "char \<Rightarrow> bool" where
  "is_space c \<longleftrightarrow> char_code c = 32 \<or> (9 \<le> char_code c \<and> char_code c \<le> 13) \<or> (28 \<le> char_code c \<and> char_code c \<le> 31)"

definition is_digit_char :: "char \<Rightarrow> bool" where
  "is_digit_char c \<longleftrightarrow> 48 \<le> char_code c \<and> char_code c \<le> 57"

definition str_upper :: "string \<Rightarrow> string" where "str_upper = map upper_char"
definition str_lower :: "string \<Rightarrow> string" where "str_lower = map lower_char"

definition lstrip :: "string \<Rightarrow> string" where "lstrip = dropWhile is_space"
definition strip :: "string \<Rightarrow> string" where
  "strip s = rev (dropWhile is_space (rev (dropWhile is_space s)))"

text \<open>\<open>s.strip(chars)\<close> for a given set of characters.\<close>

definition strip_chars :: "string \<Rightarrow> string \<Rightarrow> string" where
  "strip_chars cs s =
     rev (dropWhile (\<lambda>c. c \<in> set cs) (rev (dropWhile (\<lambda>c. c \<in> set cs) s)))"

fun starts_with :: "string \<Rightarrow> string \<Rightarrow> bool" where
  "starts_with [] s = True"
| "starts_with (p # ps) [] = False"
| "starts_with (p # ps) (c # cs) = (p = c \<and> starts_with ps cs)"

text \<open>\<open>sub in s\<close>.\<close>

fun contains :: "string \<Rightarrow> string \<Rightarrow> bool" where
  "contains sub [] = (sub = [])"
| "contains sub (c # cs) = (starts_with sub (c # cs) \<or> contains sub cs)"

text \<open>\<open>sep.join(xs)\<close>.\<close>

fun join :: "string \<Rightarrow> string list \<Rightarrow> string" where
  "join sep [] = []"
| "join sep [x] = x"
| "join sep (x # y # ys) = x @ sep @ join sep (y # ys)"

text \<open>\<open>s.replace(a, b)\<close> for single characters, and \<open>s.title()\<close>.\<close>

definition replace_char :: "char \<Rightarrow> char \<Rightarrow> string \<Rightarrow> string" where
  "replace_char a b = map (\<lambda>c. if c = a then b else c)"

definition is_alpha_char :: "char \<Rightarrow> bool" where
  "is_alpha_char c \<longleftrightarrow> (65 \<le> char_code c \<and> char_code c \<le> 90) \<or> (97 \<le> char_code c \<and> char_code c \<le> 122)"

fun title_from :: "bool \<Rightarrow> string \<Rightarrow> string" where
  "title_from inside [] = []"
| "title_from inside (c # cs) =
     (if inside then lower_char c else upper_char c) # title_from (is_alpha_char c) cs"

definition str_title :: "string \<Rightarrow> string" where
  "str_title = title_from False"

lemma char_code_char_of [simp]: "n < 256 \<Longrightarrow> char_code (char_of n) = n"
  by (simp add: char_code_def)

lemma upper_char_idem [simp]: "upper_char (upper_char c) = upper_char c"
  by (auto simp: upper_char_def)

lemma lower_char_idem [simp]: "lower_char (lower_char c) = lower_char c"
  by (auto simp: lower_char_def)

lemma str_upper_idem [simp]: "str_upper (str_upper s) = str_upper s"
  by (simp add: str_upper_def)

lemma str_lower_idem [simp]: "str_lower (str_lower s) = str_lower s"
  by (simp add: str_lower_def)

lemma length_str_upper [simp]: "length (str_upper s) = length s"
  by (simp add: str_upper_def)

lemma starts_with_append [simp]: "starts_with p (p @ s)"
  by (induction p) auto

lemma contains_append: "contains sub (xs @ sub @ ys)"
proof (induction xs)
  case Nil
  then show ?case by (cases "sub @ ys") (auto, metis starts_with_append)
qed auto

section \<open>Formatting numbers\<close>

fun show_nat :: "nat \<Rightarrow> string" where
  "show_nat n = (if n < 10 then [char_of (48 + n)] else show_nat (n div 10) @ [char_of (48 + n mod 10)])"

declare show_nat.simps [simp del]

definition show_int :: "int \<Rightarrow> string" where
  "show_int i = (if i < 0 then ''-'' @ show_nat (nat (- i)) else show_nat (nat i))"

text \<open>\<open>f"{n:05d}"\<close>: at least \<open>w\<close> digits, zero padded (for \<open>n \<ge> 0\<close>).\<close>

definition pad_nat :: "nat \<Rightarrow> nat \<Rightarrow> string" where
  "pad_nat w n = (let s = show_nat n in replicate (w - length s) (CHR ''0'') @ s)"

lemma show_nat_digits: "\<forall>c \<in> set (show_nat n). is_digit_char c"
proof (induction n rule: show_nat.induct)
  case (1 n)
  have d: "is_digit_char (char_of (48 + k mod 10))" for k :: nat
    by (simp add: is_digit_char_def)
  show ?case
  proof (cases "n < 10")
    case True
    then show ?thesis using d [of n] by (subst show_nat.simps) simp
  next
    case False
    with "1.IH" d [of n] show ?thesis by (subst show_nat.simps) auto
  qed
qed

lemma show_nat_nonempty [simp]: "show_nat n \<noteq> []"
  by (subst show_nat.simps) simp

text \<open>The UTF-8 bytes of the rupee sign, the middle dot and the em dash.\<close>

definition rupee :: string where "rupee = map char_of [226, 130, 185 :: nat]"
definition middot :: string where "middot = map char_of [194, 183 :: nat]"
definition emdash :: string where "emdash = map char_of [226, 128, 148 :: nat]"

section \<open>Python values\<close>

text \<open>JSON columns, event payloads and gateway responses.\<close>

datatype json = JNull | JBool bool | JInt int | JFloat rat | JStr string
  | JArr "json list" | JObj "(string \<times> json) list"

text \<open>\<open>d.get(k)\<close>, with \<open>JNull\<close> for a missing key or a value that is no object.\<close>

fun jget :: "string \<Rightarrow> json \<Rightarrow> json" where
  "jget k (JObj kvs) = (case map_of kvs k of Some v \<Rightarrow> v | None \<Rightarrow> JNull)"
| "jget k _ = JNull"

text \<open>\<open>d[k] = v\<close> on a copy of the dict.\<close>

fun jset :: "string \<Rightarrow> json \<Rightarrow> json \<Rightarrow> json" where
  "jset k v (JObj kvs) =
     (if k \<in> fst ` set kvs then JObj (map (\<lambda>(k', w). (k', if k' = k then v else w)) kvs)
      else JObj (kvs @ [(k, v)]))"
| "jset k v _ = JObj [(k, v)]"

text \<open>\<open>{**d, **e}\<close>: the entries of \<open>e\<close> win.\<close>

definition jmerge :: "json \<Rightarrow> (string \<times> json) list \<Rightarrow> json" where
  "jmerge d e = foldl (\<lambda>acc (k, v). jset k v acc) d e"

text \<open>\<open>x or {}\<close> on a JSON column.\<close>

definition jor_obj :: "json option \<Rightarrow> json" where
  "jor_obj x = (case x of None \<Rightarrow> JObj [] | Some v \<Rightarrow> v)"

text \<open>A string found in a JSON object, \<open>None\<close> when it is missing or no string.\<close>

definition jstr :: "json \<Rightarrow> string option" where
  "jstr j = (case j of JStr s \<Rightarrow> Some s | _ \<Rightarrow> None)"

definition jfloat :: "json \<Rightarrow> rat option" where
  "jfloat j = (case j of JFloat x \<Rightarrow> Some x | JInt n \<Rightarrow> Some (of_int n) | _ \<Rightarrow> None)"

definition jopt_str :: "string option \<Rightarrow> json" where
  "jopt_str x = (case x of None \<Rightarrow> JNull | Some s \<Rightarrow> JStr s)"

definition jopt_int :: "int option \<Rightarrow> json" where
  "jopt_int x = (case x of None \<Rightarrow> JNull | Some n \<Rightarrow> JInt n)"

definition jopt_float :: "rat option \<Rightarrow> json" where
  "jopt_float x = (case x of None \<Rightarrow> JNull | Some n \<Rightarrow> JFloat n)"

text \<open>\<open>x or y\<close> for optional strings and numbers: \<open>None\<close>, the empty string and 0 are false.\<close>

definition or_str :: "string option \<Rightarrow> string \<Rightarrow> string" where
  "or_str x d = (case x of None \<Rightarrow> d | Some s \<Rightarrow> if s = [] then d else s)"

definition or_zero :: "rat option \<Rightarrow> rat" where
  "or_zero x = (case x of None \<Rightarrow> 0 | Some v \<Rightarrow> v)"

definition or_zero_int :: "int option \<Rightarrow> int" where
  "or_zero_int x = (case x of None \<Rightarrow> 0 | Some v \<Rightarrow> v)"

text \<open>\<open>if x:\<close> for an optional id.\<close>

definition truthy_id :: "int option \<Rightarrow> bool" where
  "truthy_id x = (case x of None \<Rightarrow> False | Some n \<Rightarrow> n \<noteq> 0)"

definition truthy_str :: "string option \<Rightarrow> bool" where
  "truthy_str x = (case x of None \<Rightarrow> False | Some s \<Rightarrow> s \<noteq> [])"

lemma truthy_simps [simp]:
  "\<not> truthy_id None" "truthy_id (Some n) \<longleftrightarrow> n \<noteq> 0"
  "\<not> truthy_str None" "truthy_str (Some s) \<longleftrightarrow> s \<noteq> []"
  by (simp_all add: truthy_id_def truthy_str_def)

lemma or_zero_simps [simp]:
  "or_zero None = 0" "or_zero (Some v) = v" "or_zero_int None = 0" "or_zero_int (Some n) = n"
  by (simp_all add: or_zero_def or_zero_int_def)

section \<open>String enums\<close>

text \<open>\<open>X(s)\<close> for a string enum \<open>X\<close>: the member with value \<open>s\<close>, \<open>None\<close> for \<open>ValueError\<close>.\<close>

definition enum_of :: "('e \<Rightarrow> string) \<Rightarrow> 'e list \<Rightarrow> string \<Rightarrow> 'e option" where
  "enum_of val ms s = find (\<lambda>x. val x = s) ms"

locale string_enum =
  fixes val :: "'e \<Rightarrow> string" and ms :: "'e list"
  assumes val_inj: "val x = val y \<longleftrightarrow> x = y"
    and members: "x \<in> set ms"
begin

lemma of_value [simp]: "enum_of val ms (val x) = Some x"
proof -
  have "find (\<lambda>y. y = x) l = Some x" if "x \<in> set l" for l
    using that by (induction l) auto
  then show ?thesis by (simp add: enum_of_def val_inj members)
qed

lemma of_SomeD: "enum_of val ms s = Some x \<Longrightarrow> val x = s"
  by (auto simp: enum_of_def find_Some_iff)

lemma of_Some_iff: "enum_of val ms s = Some x \<longleftrightarrow> val x = s"
  using of_SomeD of_value by blast

lemma of_None_iff: "enum_of val ms s = None \<longleftrightarrow> (\<forall>x. val x \<noteq> s)"
  by (metis of_Some_iff not_None_eq)

end

section \<open>Tables\<close>

text \<open>
  A table is its rows in primary-key order and the next key of its auto-increment column.  A
  query without \<open>ORDER BY\<close> returns rows in key order; \<open>.first()\<close> is \<open>t_first\<close>, and
  \<open>ORDER BY id DESC\<close> with \<open>.first()\<close> is \<open>t_last\<close>.
\<close>

record 'r table =
  rows :: "'r list"
  next_id :: int

definition t_empty :: "'r table" where
  "t_empty = \<lparr>rows = [], next_id = 1\<rparr>"

definition t_get :: "('r \<Rightarrow> int) \<Rightarrow> int \<Rightarrow> 'r table \<Rightarrow> 'r option" where
  "t_get key k t = find (\<lambda>r. key r = k) (rows t)"

definition t_all :: "('r \<Rightarrow> bool) \<Rightarrow> 'r table \<Rightarrow> 'r list" where
  "t_all P t = filter P (rows t)"

definition t_first :: "('r \<Rightarrow> bool) \<Rightarrow> 'r table \<Rightarrow> 'r option" where
  "t_first P t = find P (rows t)"

definition t_last :: "('r \<Rightarrow> bool) \<Rightarrow> 'r table \<Rightarrow> 'r option" where
  "t_last P t = find P (rev (rows t))"

definition t_put :: "('r \<Rightarrow> int) \<Rightarrow> 'r \<Rightarrow> 'r table \<Rightarrow> 'r table" where
  "t_put key r t = t\<lparr>rows := map (\<lambda>x. if key x = key r then r else x) (rows t)\<rparr>"

definition t_insert :: "(int \<Rightarrow> 'r \<Rightarrow> 'r) \<Rightarrow> 'r \<Rightarrow> 'r table \<Rightarrow> 'r table" where
  "t_insert setid r t = t\<lparr>rows := rows t @ [setid (next_id t) r], next_id := next_id t + 1\<rparr>"

definition t_delete :: "('r \<Rightarrow> int) \<Rightarrow> int \<Rightarrow> 'r table \<Rightarrow> 'r table" where
  "t_delete key k t = t\<lparr>rows := filter (\<lambda>r. key r \<noteq> k) (rows t)\<rparr>"

text \<open>Deletion of every row in a list of keys, the loop \<open>for x in xs: session.delete(x)\<close>.\<close>

definition t_delete_all :: "('r \<Rightarrow> int) \<Rightarrow> int list \<Rightarrow> 'r table \<Rightarrow> 'r table" where
  "t_delete_all key ks t = t\<lparr>rows := filter (\<lambda>r. key r \<notin> set ks) (rows t)\<rparr>"

definition t_wf :: "('r \<Rightarrow> int) \<Rightarrow> 'r table \<Rightarrow> bool" where
  "t_wf key t \<longleftrightarrow> sorted_wrt (<) (map key (rows t)) \<and> (\<forall>r \<in> set (rows t). key r < next_id t)
     \<and> (\<forall>r \<in> set (rows t). 0 < key r) \<and> 0 < next_id t"

lemma find_map_put:
  "find (\<lambda>x. key x = k) (map (\<lambda>x. if key x = key r then r else x) xs) =
     (if k = key r then (if find (\<lambda>x. key x = k) xs = None then None else Some r)
      else find (\<lambda>x. key x = k) xs)"
  by (induction xs) auto

lemma t_get_put [table_simps, simp]:
  "t_get key k (t_put key r t) =
     (if k = key r then (if t_get key k t = None then None else Some r) else t_get key k t)"
  by (simp add: t_get_def t_put_def find_map_put)

lemma t_get_key: "t_get key k t = Some r \<Longrightarrow> key r = k"
  by (auto simp: t_get_def find_Some_iff)

lemma t_get_in: "t_get key k t = Some r \<Longrightarrow> r \<in> set (rows t)"
  by (auto simp: t_get_def find_Some_iff)

lemma t_get_None_iff: "t_get key k t = None \<longleftrightarrow> (\<forall>r \<in> set (rows t). key r \<noteq> k)"
  by (auto simp: t_get_def find_None_iff)

lemma t_first_SomeD: "t_first P t = Some r \<Longrightarrow> P r \<and> r \<in> set (rows t)"
  by (auto simp: t_first_def find_Some_iff)

lemma t_first_None_iff: "t_first P t = None \<longleftrightarrow> (\<forall>r \<in> set (rows t). \<not> P r)"
  by (auto simp: t_first_def find_None_iff)

lemma t_last_SomeD: "t_last P t = Some r \<Longrightarrow> P r \<and> r \<in> set (rows t)"
  unfolding t_last_def by (metis find_Some_iff nth_mem set_rev)

lemma t_all_iff: "r \<in> set (t_all P t) \<longleftrightarrow> r \<in> set (rows t) \<and> P r"
  by (auto simp: t_all_def)

lemma rows_t_put: "rows (t_put key r t) = map (\<lambda>x. if key x = key r then r else x) (rows t)"
  by (simp add: t_put_def)

lemma next_id_t_put [simp]: "next_id (t_put key r t) = next_id t"
  by (simp add: t_put_def)

lemma map_key_put: "map key (rows (t_put key r t)) = map key (rows t)"
  by (simp add: t_put_def)

lemma t_wf_empty [wf_intros, simp]: "t_wf key t_empty"
  by (simp add: t_wf_def t_empty_def)

lemma t_wf_put [wf_intros, simp]: "t_wf key t \<Longrightarrow> t_wf key (t_put key r t)"
proof -
  assume wf: "t_wf key t"
  have "key x < next_id t \<and> 0 < key x" if "x \<in> set (rows (t_put key r t))" for x
  proof -
    have "key x \<in> set (map key (rows t))"
      using that by (metis image_eqI image_set map_key_put)
    then show ?thesis using wf by (auto simp: t_wf_def)
  qed
  with wf show ?thesis by (simp add: t_wf_def map_key_put)
qed

lemma t_wf_delete [wf_intros, simp]: "t_wf key t \<Longrightarrow> t_wf key (t_delete key k t)"
  by (auto simp: t_wf_def t_delete_def sorted_wrt_map intro: sorted_wrt_filter)

lemma t_wf_delete_all [wf_intros, simp]: "t_wf key t \<Longrightarrow> t_wf key (t_delete_all key ks t)"
  by (auto simp: t_wf_def t_delete_all_def sorted_wrt_map intro: sorted_wrt_filter)

lemma t_wf_distinct: "t_wf key t \<Longrightarrow> distinct (map key (rows t))"
  by (auto simp: t_wf_def strict_sorted_iff)

lemma t_wf_unique:
  "t_wf key t \<Longrightarrow> x \<in> set (rows t) \<Longrightarrow> y \<in> set (rows t) \<Longrightarrow> key x = key y \<Longrightarrow> x = y"
  using t_wf_distinct [of key t] by (auto simp: distinct_map inj_on_def)

lemma t_get_Some_iff:
  "t_wf key t \<Longrightarrow> t_get key k t = Some r \<longleftrightarrow> r \<in> set (rows t) \<and> key r = k"
  by (metis option.exhaust t_get_None_iff t_get_in t_get_key t_wf_unique)

lemma t_get_next [simp]: "t_wf key t \<Longrightarrow> t_get key (next_id t) t = None"
  by (auto simp: t_wf_def t_get_None_iff)

lemma t_get_delete: "t_get key k (t_delete key j t) = (if k = j then None else t_get key k t)"
proof -
  have "find (\<lambda>r. key r = k) (filter (\<lambda>r. key r \<noteq> j) xs) =
        (if k = j then None else find (\<lambda>r. key r = k) xs)" for xs
    by (induction xs) auto
  then show ?thesis by (simp add: t_get_def t_delete_def)
qed

text \<open>What the session relies on of a row type: assigning a key sets the key.\<close>

locale keyed_row =
  fixes key :: "'r \<Rightarrow> int" and setid :: "int \<Rightarrow> 'r \<Rightarrow> 'r"
  assumes key_setid [simp]: "key (setid i r) = i"
begin

lemma wf_insert [wf_intros, simp]: "t_wf key t \<Longrightarrow> t_wf key (t_insert setid r t)"
  by (auto simp: t_wf_def t_insert_def sorted_wrt_append)

lemma get_insert_old [table_simps, simp]:
  "t_wf key t \<Longrightarrow> k \<noteq> next_id t \<Longrightarrow> t_get key k (t_insert setid r t) = t_get key k t"
proof -
  assume "t_wf key t" "k \<noteq> next_id t"
  moreover have "find (\<lambda>x. key x = k) (xs @ [y]) = find (\<lambda>x. key x = k) xs" if "key y \<noteq> k" for xs y
    using that by (induction xs) auto
  ultimately show ?thesis by (simp add: t_get_def t_insert_def)
qed

lemma get_insert_new [table_simps, simp]:
  "t_wf key t \<Longrightarrow> t_get key (next_id t) (t_insert setid r t) = Some (setid (next_id t) r)"
proof -
  assume wf: "t_wf key t"
  have "find (\<lambda>x. key x = k) (xs @ [y]) = Some y"
    if "key y = k" "\<forall>x \<in> set xs. key x \<noteq> k" for xs y k
    using that by (induction xs) auto
  moreover have "\<forall>x \<in> set (rows t). key x \<noteq> next_id t"
    using wf by (auto simp: t_wf_def)
  ultimately show ?thesis by (simp add: t_get_def t_insert_def)
qed

lemma get_insert_mono:
  "t_wf key t \<Longrightarrow> t_get key k t = Some x \<Longrightarrow> t_get key k (t_insert setid r t) = Some x"
  by (metis get_insert_old option.distinct(1) t_get_next)

lemma last_insert: "P (setid (next_id t) r) \<Longrightarrow> t_last P (t_insert setid r t) = Some (setid (next_id t) r)"
  by (simp add: t_last_def t_insert_def)

end

lemma rows_t_insert: "rows (t_insert setid r t) = rows t @ [setid (next_id t) r]"
  by (simp add: t_insert_def)

lemma next_id_t_insert [simp]: "next_id (t_insert setid r t) = next_id t + 1"
  by (simp add: t_insert_def)

lemma t_all_insert:
  "t_all P (t_insert setid r t) =
     t_all P t @ (if P (setid (next_id t) r) then [setid (next_id t) r] else [])"
  by (simp add: t_all_def t_insert_def)

lemma t_first_insert_Some: "t_first P t = Some x \<Longrightarrow> t_first P (t_insert setid r t) = Some x"
proof -
  have "find P xs = Some x \<Longrightarrow> find P (xs @ ys) = Some x" for xs ys
    by (induction xs) (auto split: if_splits)
  then show "t_first P t = Some x \<Longrightarrow> t_first P (t_insert setid r t) = Some x"
    by (simp add: t_first_def t_insert_def)
qed

lemma find_append: "find P (xs @ ys) = (case find P xs of None \<Rightarrow> find P ys | Some x \<Rightarrow> Some x)"
  by (induction xs) auto

lemma t_first_insert_None:
  "t_first P t = None \<Longrightarrow> P (setid (next_id t) r)
    \<Longrightarrow> t_first P (t_insert setid r t) = Some (setid (next_id t) r)"
  by (simp add: t_first_def rows_t_insert find_append)

text \<open>Updating a row keeps a query whose condition the update does not change.\<close>

lemma t_first_put_same:
  assumes "t_wf key t" "t_first P t = Some r" "key r' = key r" "P r'"
  shows "t_first P (t_put key r' t) = Some r'"
proof -
  have gen: "find P (map (\<lambda>x. if key x = key r' then r' else x) xs) = Some r'"
    if "find P xs = Some r" "distinct (map key xs)" for xs
    using that assms(3,4)
  proof (induction xs)
    case (Cons x xs)
    then show ?case
    proof (cases "P x")
      case False
      with Cons.prems have "find P xs = Some r" by simp
      then have "r \<in> set xs" by (auto simp: find_Some_iff)
      with Cons.prems have "key x \<noteq> key r'" by auto
      with Cons False show ?thesis by simp
    qed auto
  qed simp
  show ?thesis
    using gen [of "rows t"] assms(2) t_wf_distinct [OF assms(1)] by (simp add: t_first_def t_put_def)
qed

lemma t_first_put_other:
  assumes "\<And>x. x \<in> set (rows t) \<Longrightarrow> key x = key r' \<Longrightarrow> \<not> P x" "\<not> P r'"
  shows "t_first P (t_put key r' t) = t_first P t"
proof -
  have "find P (map (\<lambda>x. if key x = key r' then r' else x) xs) = find P xs"
    if "\<And>x. x \<in> set xs \<Longrightarrow> key x = key r' \<Longrightarrow> \<not> P x" for xs
    using that assms(2) by (induction xs) auto
  with assms(1) show ?thesis by (simp add: t_first_def t_put_def)
qed

lemma t_all_put:
  assumes "\<And>x. x \<in> set (rows t) \<Longrightarrow> key x = key r' \<Longrightarrow> P x = P r'"
  shows "t_all P (t_put key r' t) = map (\<lambda>x. if key x = key r' then r' else x) (t_all P t)"
proof -
  have "filter P (map (\<lambda>x. if key x = key r' then r' else x) xs) =
        map (\<lambda>x. if key x = key r' then r' else x) (filter P xs)"
    if "\<And>x. x \<in> set xs \<Longrightarrow> key x = key r' \<Longrightarrow> P x = P r'" for xs
    using that by (induction xs) auto
  with assms show ?thesis by (simp add: t_all_def t_put_def)
qed

section \<open>Outcomes\<close>

text \<open>A run whose outcome is known to be a success (or a failure) has that shape.\<close>

lemma run_ok: "\<not> isl (fst x) \<Longrightarrow> x = (Inr (projr (fst x)), snd x)"
  by (cases x; cases "fst x") auto

lemma run_error: "isl (fst x) \<Longrightarrow> x = (Inl (projl (fst x)), snd x)"
  by (cases x; cases "fst x") auto

text \<open>A chain of guards \<open>if bad: raise ...\<close> that ends in a success passed them all.\<close>

lemma guard_iff:
  "(if A then (Inl x, d) else r) = (Inr y, d') \<longleftrightarrow> \<not> A \<and> r = (Inr y, d')"
  "(if A then Inl x else q) = Inr z \<longleftrightarrow> \<not> A \<and> q = Inr z"
  by auto

section \<open>Sums of a list\<close>

lemma sum_list_filter_split:
  "(\<Sum>x\<leftarrow>xs. f x) = (\<Sum>x\<leftarrow>filter P xs. f x) + (\<Sum>x\<leftarrow>filter (\<lambda>x. \<not> P x) xs. (f x :: int))"
  by (induction xs) auto

end
