(* ===== verification/Enums.thy ===== *)
theory Enums
  imports Prelude
begin

text \<open>
  The string enums of \<open>app/models/enums.py\<close>.  Each Python \<open>class X(str, Enum)\<close> is a
  datatype; \<open>x_value\<close> is \<open>.value\<close>, \<open>x_members\<close> lists the members in declaration
  order, and \<open>X(s)\<close>, which raises \<open>ValueError\<close> for an unknown string, is the lookup
  \<open>enum_of x_value x_members s\<close>.
\<close>

datatype UserRole =
    UR_CUSTOMER
  | UR_ADMIN
  | UR_DELIVERY
  | UR_RETAILER

fun UserRole_value :: "UserRole \<Rightarrow> string" where
  "UserRole_value UR_CUSTOMER = ''customer''"
| "UserRole_value UR_ADMIN = ''admin''"
| "UserRole_value UR_DELIVERY = ''delivery''"
| "UserRole_value UR_RETAILER = ''retailer''"

definition UserRole_members :: "UserRole list" where
  "UserRole_members = [UR_CUSTOMER, UR_ADMIN, UR_DELIVERY, UR_RETAILER]"

lemma UserRole_members_all [simp]: "x \<in> set UserRole_members"
  by (cases x) (simp_all add: UserRole_members_def)

lemma UserRole_value_inj [simp]: "UserRole_value x = UserRole_value y \<longleftrightarrow> x = y"
  by (cases x; cases y; simp)

interpretation UserRole_enum: string_enum UserRole_value UserRole_members
  by unfold_locales simp_all

datatype StockStatus =
    SS_IN_STOCK
  | SS_LOW_STOCK
  | SS_OUT_OF_STOCK

fun StockStatus_value :: "StockStatus \<Rightarrow> string" where
  "StockStatus_value SS_IN_STOCK = ''in_stock''"
| "StockStatus_value SS_LOW_STOCK = ''low_stock''"
| "StockStatus_value SS_OUT_OF_STOCK = ''out_of_stock''"

definition StockStatus_members :: "StockStatus list" where
  "StockStatus_members = [SS_IN_STOCK, SS_LOW_STOCK, SS_OUT_OF_STOCK]"

lemma StockStatus_members_all [simp]: "x \<in> set StockStatus_members"
  by (cases x) (simp_all add: StockStatus_members_def)

lemma StockStatus_value_inj [simp]: "StockStatus_value x = StockStatus_value y \<longleftrightarrow> x = y"
  by (cases x; cases y; simp)

interpretation StockStatus_enum: string_enum StockStatus_value StockStatus_members
  by unfold_locales simp_all

datatype OrderStatus =
    OS_PLACED
  | OS_PAYMENT_RECEIVED
  | OS_ACCEPTED
  | OS_REJECTED
  | OS_PREPARING
  | OS_PACKED
  | OS_DELIVERY_OFFERED
  | OS_DELIVERY_ASSIGNED
  | OS_PICKED_UP
  | OS_OUT_FOR_DELIVERY
  | OS_NEAR_LOCATION
  | OS_DELIVERED
  | OS_CANCELLED
  | OS_RETURN_REQUESTED

fun OrderStatus_value :: "OrderStatus \<Rightarrow> string" where
  "OrderStatus_value OS_PLACED = ''placed''"
| "OrderStatus_value OS_PAYMENT_RECEIVED = ''payment_received''"
| "OrderStatus_value OS_ACCEPTED = ''accepted''"
| "OrderStatus_value OS_REJECTED = ''rejected''"
| "OrderStatus_value OS_PREPARING = ''preparing''"
| "OrderStatus_value OS_PACKED = ''packed''"
| "OrderStatus_value OS_DELIVERY_OFFERED = ''delivery_offered''"
| "OrderStatus_value OS_DELIVERY_ASSIGNED = ''delivery_assigned''"
| "OrderStatus_value OS_PICKED_UP = ''picked_up''"
| "OrderStatus_value OS_OUT_FOR_DELIVERY = ''out_for_delivery''"
| "OrderStatus_value OS_NEAR_LOCATION = ''near_location''"
| "OrderStatus_value OS_DELIVERED = ''delivered''"
| "OrderStatus_value OS_CANCELLED = ''cancelled''"
| "OrderStatus_value OS_RETURN_REQUESTED = ''return_requested''"

definition OrderStatus_members :: "OrderStatus list" where
  "OrderStatus_members = [OS_PLACED, OS_PAYMENT_RECEIVED, OS_ACCEPTED, OS_REJECTED, OS_PREPARING, OS_PACKED, OS_DELIVERY_OFFERED, OS_DELIVERY_ASSIGNED, OS_PICKED_UP, OS_OUT_FOR_DELIVERY, OS_NEAR_LOCATION, OS_DELIVERED, OS_CANCELLED, OS_RETURN_REQUESTED]"

lemma OrderStatus_members_all [simp]: "x \<in> set OrderStatus_members"
  by (cases x) (simp_all add: OrderStatus_members_def)

lemma OrderStatus_value_inj [simp]: "OrderStatus_value x = OrderStatus_value y \<longleftrightarrow> x = y"
  by (cases x; cases y; simp)

interpretation OrderStatus_enum: string_enum OrderStatus_value OrderStatus_members
  by unfold_locales simp_all

datatype PaymentStatus =
    PS_PENDING
  | PS_PROCESSING
  | PS_PAID
  | PS_PARTIALLY_PAID
  | PS_FAILED
  | PS_REFUNDED
  | PS_PARTIALLY_REFUNDED

fun PaymentStatus_value :: "PaymentStatus \<Rightarrow> string" where
  "PaymentStatus_value PS_PENDING = ''pending''"
| "PaymentStatus_value PS_PROCESSING = ''processing''"
| "PaymentStatus_value PS_PAID = ''paid''"
| "PaymentStatus_value PS_PARTIALLY_PAID = ''partially_paid''"
| "PaymentStatus_value PS_FAILED = ''failed''"
| "PaymentStatus_value PS_REFUNDED = ''refunded''"
| "PaymentStatus_value PS_PARTIALLY_REFUNDED = ''partially_refunded''"

definition PaymentStatus_members :: "PaymentStatus list" where
  "PaymentStatus_members = [PS_PENDING, PS_PROCESSING, PS_PAID, PS_PARTIALLY_PAID, PS_FAILED, PS_REFUNDED, PS_PARTIALLY_REFUNDED]"

lemma PaymentStatus_members_all [simp]: "x \<in> set PaymentStatus_members"
  by (cases x) (simp_all add: PaymentStatus_members_def)

lemma PaymentStatus_value_inj [simp]: "PaymentStatus_value x = PaymentStatus_value y \<longleftrightarrow> x = y"
  by (cases x; cases y; simp)

interpretation PaymentStatus_enum: string_enum PaymentStatus_value PaymentStatus_members
  by unfold_locales simp_all

datatype PaymentMethod =
    PM_UPI
  | PM_UPI_QR
  | PM_GOOGLE_PAY
  | PM_PHONEPE
  | PM_PAYTM
  | PM_CREDIT_CARD
  | PM_DEBIT_CARD
  | PM_NET_BANKING
  | PM_WALLET
  | PM_COD
  | PM_CREDIT
  | PM_RAZORPAY

fun PaymentMethod_value :: "PaymentMethod \<Rightarrow> string" where
  "PaymentMethod_value PM_UPI = ''upi''"
| "PaymentMethod_value PM_UPI_QR = ''upi_qr''"
| "PaymentMethod_value PM_GOOGLE_PAY = ''google_pay''"
| "PaymentMethod_value PM_PHONEPE = ''phonepe''"
| "PaymentMethod_value PM_PAYTM = ''paytm''"
| "PaymentMethod_value PM_CREDIT_CARD = ''credit_card''"
| "PaymentMethod_value PM_DEBIT_CARD = ''debit_card''"
| "PaymentMethod_value PM_NET_BANKING = ''net_banking''"
| "PaymentMethod_value PM_WALLET = ''wallet''"
| "PaymentMethod_value PM_COD = ''cod''"
| "PaymentMethod_value PM_CREDIT = ''credit''"
| "PaymentMethod_value PM_RAZORPAY = ''razorpay''"

definition PaymentMethod_members :: "PaymentMethod list" where
  "PaymentMethod_members = [PM_UPI, PM_UPI_QR, PM_GOOGLE_PAY, PM_PHONEPE, PM_PAYTM, PM_CREDIT_CARD, PM_DEBIT_CARD, PM_NET_BANKING, PM_WALLET, PM_COD, PM_CREDIT, PM_RAZORPAY]"

lemma PaymentMethod_members_all [simp]: "x \<in> set PaymentMethod_members"
  by (cases x) (simp_all add: PaymentMethod_members_def)

lemma PaymentMethod_value_inj [simp]: "PaymentMethod_value x = PaymentMethod_value y \<longleftrightarrow> x = y"
  by (cases x; cases y; simp)

interpretation PaymentMethod_enum: string_enum PaymentMethod_value PaymentMethod_members
  by unfold_locales simp_all

datatype OrderType =
    OT_B2B_SHOP_ORDER
  | OT_B2C_LOCAL_ORDER
  | OT_B2C_SHIPPING_ORDER

fun OrderType_value :: "OrderType \<Rightarrow> string" where
  "OrderType_value OT_B2B_SHOP_ORDER = ''b2b_shop_order''"
| "OrderType_value OT_B2C_LOCAL_ORDER = ''b2c_local_order''"
| "OrderType_value OT_B2C_SHIPPING_ORDER = ''b2c_shipping_order''"

definition OrderType_members :: "OrderType list" where
  "OrderType_members = [OT_B2B_SHOP_ORDER, OT_B2C_LOCAL_ORDER, OT_B2C_SHIPPING_ORDER]"

lemma OrderType_members_all [simp]: "x \<in> set OrderType_members"
  by (cases x) (simp_all add: OrderType_members_def)

lemma OrderType_value_inj [simp]: "OrderType_value x = OrderType_value y \<longleftrightarrow> x = y"
  by (cases x; cases y; simp)

interpretation OrderType_enum: string_enum OrderType_value OrderType_members
  by unfold_locales simp_all

datatype CreditEntryType =
    CE_DEBIT
  | CE_CREDIT
  | CE_ADJUSTMENT

fun CreditEntryType_value :: "CreditEntryType \<Rightarrow> string" where
  "CreditEntryType_value CE_DEBIT = ''debit''"
| "CreditEntryType_value CE_CREDIT = ''credit''"
| "CreditEntryType_value CE_ADJUSTMENT = ''adjustment''"

definition CreditEntryType_members :: "CreditEntryType list" where
  "CreditEntryType_members = [CE_DEBIT, CE_CREDIT, CE_ADJUSTMENT]"

lemma CreditEntryType_members_all [simp]: "x \<in> set CreditEntryType_members"
  by (cases x) (simp_all add: CreditEntryType_members_def)

lemma CreditEntryType_value_inj [simp]: "CreditEntryType_value x = CreditEntryType_value y \<longleftrightarrow> x = y"
  by (cases x; cases y; simp)

interpretation CreditEntryType_enum: string_enum CreditEntryType_value CreditEntryType_members
  by unfold_locales simp_all

datatype ReturnStatus =
    RS_SUBMITTED
  | RS_AI_VALIDATED
  | RS_ADMIN_REVIEW
  | RS_APPROVED
  | RS_REJECTED
  | RS_REPLACEMENT_INITIATED
  | RS_REFUND_INITIATED
  | RS_COMPLETED

fun ReturnStatus_value :: "ReturnStatus \<Rightarrow> string" where
  "ReturnStatus_value RS_SUBMITTED = ''submitted''"
| "ReturnStatus_value RS_AI_VALIDATED = ''ai_validated''"
| "ReturnStatus_value RS_ADMIN_REVIEW = ''admin_review''"
| "ReturnStatus_value RS_APPROVED = ''approved''"
| "ReturnStatus_value RS_REJECTED = ''rejected''"
| "ReturnStatus_value RS_REPLACEMENT_INITIATED = ''replacement_initiated''"
| "ReturnStatus_value RS_REFUND_INITIATED = ''refund_initiated''"
| "ReturnStatus_value RS_COMPLETED = ''completed''"

definition ReturnStatus_members :: "ReturnStatus list" where
  "ReturnStatus_members = [RS_SUBMITTED, RS_AI_VALIDATED, RS_ADMIN_REVIEW, RS_APPROVED, RS_REJECTED, RS_REPLACEMENT_INITIATED, RS_REFUND_INITIATED, RS_COMPLETED]"

lemma ReturnStatus_members_all [simp]: "x \<in> set ReturnStatus_members"
  by (cases x) (simp_all add: ReturnStatus_members_def)

lemma ReturnStatus_value_inj [simp]: "ReturnStatus_value x = ReturnStatus_value y \<longleftrightarrow> x = y"
  by (cases x; cases y; simp)

interpretation ReturnStatus_enum: string_enum ReturnStatus_value ReturnStatus_members
  by unfold_locales simp_all

datatype CustomCakeStatus =
    CC_REQUESTED
  | CC_UNDER_REVIEW
  | CC_QUOTATION_SENT
  | CC_APPROVED
  | CC_REJECTED
  | CC_PAID
  | CC_IN_PROGRESS
  | CC_COMPLETED
  | CC_CANCELLED

fun CustomCakeStatus_value :: "CustomCakeStatus \<Rightarrow> string" where
  "CustomCakeStatus_value CC_REQUESTED = ''requested''"
| "CustomCakeStatus_value CC_UNDER_REVIEW = ''under_review''"
| "CustomCakeStatus_value CC_QUOTATION_SENT = ''quotation_sent''"
| "CustomCakeStatus_value CC_APPROVED = ''approved''"
| "CustomCakeStatus_value CC_REJECTED = ''rejected''"
| "CustomCakeStatus_value CC_PAID = ''paid''"
| "CustomCakeStatus_value CC_IN_PROGRESS = ''in_progress''"
| "CustomCakeStatus_value CC_COMPLETED = ''completed''"
| "CustomCakeStatus_value CC_CANCELLED = ''cancelled''"

definition CustomCakeStatus_members :: "CustomCakeStatus list" where
  "CustomCakeStatus_members = [CC_REQUESTED, CC_UNDER_REVIEW, CC_QUOTATION_SENT, CC_APPROVED, CC_REJECTED, CC_PAID, CC_IN_PROGRESS, CC_COMPLETED, CC_CANCELLED]"

lemma CustomCakeStatus_members_all [simp]: "x \<in> set CustomCakeStatus_members"
  by (cases x) (simp_all add: CustomCakeStatus_members_def)

lemma CustomCakeStatus_value_inj [simp]: "CustomCakeStatus_value x = CustomCakeStatus_value y \<longleftrightarrow> x = y"
  by (cases x; cases y; simp)

interpretation CustomCakeStatus_enum: string_enum CustomCakeStatus_value CustomCakeStatus_members
  by unfold_locales simp_all

datatype CouponType =
    CT_PERCENTAGE
  | CT_FIXED
  | CT_BOGO
  | CT_FREE_DELIVERY
  | CT_PRODUCT
  | CT_CATEGORY
  | CT_FESTIVAL
  | CT_FIRST_ORDER

fun CouponType_value :: "CouponType \<Rightarrow> string" where
  "CouponType_value CT_PERCENTAGE = ''percentage''"
| "CouponType_value CT_FIXED = ''fixed''"
| "CouponType_value CT_BOGO = ''bogo''"
| "CouponType_value CT_FREE_DELIVERY = ''free_delivery''"
| "CouponType_value CT_PRODUCT = ''product''"
| "CouponType_value CT_CATEGORY = ''category''"
| "CouponType_value CT_FESTIVAL = ''festival''"
| "CouponType_value CT_FIRST_ORDER = ''first_order''"

definition CouponType_members :: "CouponType list" where
  "CouponType_members = [CT_PERCENTAGE, CT_FIXED, CT_BOGO, CT_FREE_DELIVERY, CT_PRODUCT, CT_CATEGORY, CT_FESTIVAL, CT_FIRST_ORDER]"

lemma CouponType_members_all [simp]: "x \<in> set CouponType_members"
  by (cases x) (simp_all add: CouponType_members_def)

lemma CouponType_value_inj [simp]: "CouponType_value x = CouponType_value y \<longleftrightarrow> x = y"
  by (cases x; cases y; simp)

interpretation CouponType_enum: string_enum CouponType_value CouponType_members
  by unfold_locales simp_all

datatype NotificationType =
    NT_ORDER
  | NT_PAYMENT
  | NT_DELIVERY
  | NT_CHAT
  | NT_CALL
  | NT_RETURN
  | NT_OFFER
  | NT_PRODUCT
  | NT_AI
  | NT_CUSTOM_CAKE
  | NT_STOCK
  | NT_SYSTEM

fun NotificationType_value :: "NotificationType \<Rightarrow> string" where
  "NotificationType_value NT_ORDER = ''order''"
| "NotificationType_value NT_PAYMENT = ''payment''"
| "NotificationType_value NT_DELIVERY = ''delivery''"
| "NotificationType_value NT_CHAT = ''chat''"
| "NotificationType_value NT_CALL = ''call''"
| "NotificationType_value NT_RETURN = ''return''"
| "NotificationType_value NT_OFFER = ''offer''"
| "NotificationType_value NT_PRODUCT = ''product''"
| "NotificationType_value NT_AI = ''ai''"
| "NotificationType_value NT_CUSTOM_CAKE = ''custom_cake''"
| "NotificationType_value NT_STOCK = ''stock''"
| "NotificationType_value NT_SYSTEM = ''system''"

definition NotificationType_members :: "NotificationType list" where
  "NotificationType_members = [NT_ORDER, NT_PAYMENT, NT_DELIVERY, NT_CHAT, NT_CALL, NT_RETURN, NT_OFFER, NT_PRODUCT, NT_AI, NT_CUSTOM_CAKE, NT_STOCK, NT_SYSTEM]"

lemma NotificationType_members_all [simp]: "x \<in> set NotificationType_members"
  by (cases x) (simp_all add: NotificationType_members_def)

lemma NotificationType_value_inj [simp]: "NotificationType_value x = NotificationType_value y \<longleftrightarrow> x = y"
  by (cases x; cases y; simp)

interpretation NotificationType_enum: string_enum NotificationType_value NotificationType_members
  by unfold_locales simp_all

datatype CustomerSegment =
    CS_NEW
  | CS_LOYAL
  | CS_HIGH_VALUE
  | CS_INACTIVE
  | CS_DISCOUNT_FOCUSED
  | CS_CAKE
  | CS_CORPORATE

fun CustomerSegment_value :: "CustomerSegment \<Rightarrow> string" where
  "CustomerSegment_value CS_NEW = ''new''"
| "CustomerSegment_value CS_LOYAL = ''loyal''"
| "CustomerSegment_value CS_HIGH_VALUE = ''high_value''"
| "CustomerSegment_value CS_INACTIVE = ''inactive''"
| "CustomerSegment_value CS_DISCOUNT_FOCUSED = ''discount_focused''"
| "CustomerSegment_value CS_CAKE = ''cake''"
| "CustomerSegment_value CS_CORPORATE = ''corporate''"

definition CustomerSegment_members :: "CustomerSegment list" where
  "CustomerSegment_members = [CS_NEW, CS_LOYAL, CS_HIGH_VALUE, CS_INACTIVE, CS_DISCOUNT_FOCUSED, CS_CAKE, CS_CORPORATE]"

lemma CustomerSegment_members_all [simp]: "x \<in> set CustomerSegment_members"
  by (cases x) (simp_all add: CustomerSegment_members_def)

lemma CustomerSegment_value_inj [simp]: "CustomerSegment_value x = CustomerSegment_value y \<longleftrightarrow> x = y"
  by (cases x; cases y; simp)

interpretation CustomerSegment_enum: string_enum CustomerSegment_value CustomerSegment_members
  by unfold_locales simp_all

end
