(* ===== verification/Float64.thy ===== *)
theory Float64
  imports Complex_Main "HOL-Library.Log_Nat"
begin

text \<open>
  Python's \<open>float\<close> is IEEE-754 binary64.  Every amount of money in the services is
  such a float, and almost every line of business logic rounds one with \<open>round(x, 2)\<close>.
  This theory models the finite doubles exactly: a double is the rational number it denotes,
  and each arithmetic operation is the exact rational operation followed by \<open>fl\<close>, rounding
  to 53 significant bits, ties to even.  Overflow to infinity, NaN and the
  subnormal range (magnitudes below \<open>2 ^ (-1022)\<close>) are outside the model; the amounts of the
  program are far from both ends.

  The lemmas: \<open>rne\<close> (round half to even on integers) and \<open>fl\<close> are monotone, odd,
  exact on representable numbers, and \<open>fl\<close> has relative error at most \<open>2 ^ (-53)\<close>.
\<close>

section \<open>Round half to even\<close>

definition rne :: "rat \<Rightarrow> int" where
  "rne x = (let f = \<lfloor>x\<rfloor>; d = x - of_int f
            in if d < 1/2 then f
               else if d > 1/2 then f + 1
               else if even f then f else f + 1)"

lemma rne_of_int [simp]: "rne (of_int n) = n"
  by (simp add: rne_def)

lemma rne_zero [simp]: "rne 0 = 0"
  using rne_of_int [of 0] by simp

lemma rne_error: "\<bar>of_int (rne x) - x\<bar> \<le> 1/2"
proof -
  have "of_int \<lfloor>x\<rfloor> \<le> x" "x < of_int \<lfloor>x\<rfloor> + 1" by linarith+
  then show ?thesis
    unfolding rne_def Let_def abs_le_iff by (auto simp del: of_int_floor_le)
qed

lemma rne_cases: "rne x = \<lfloor>x\<rfloor> \<or> rne x = \<lfloor>x\<rfloor> + 1"
  by (simp add: rne_def Let_def)

lemma rne_mono: assumes "x \<le> y" shows "rne x \<le> rne y"
proof (cases "\<lfloor>x\<rfloor> = \<lfloor>y\<rfloor>")
  case True
  with assms show ?thesis
    by (auto simp: rne_def Let_def)
next
  case False
  with assms have "\<lfloor>x\<rfloor> < \<lfloor>y\<rfloor>"
    using floor_mono [OF assms] by simp
  then show ?thesis
    using rne_cases [of x] rne_cases [of y] by linarith
qed

lemma rne_uminus: "rne (- x) = - rne x"
proof (cases "x = of_int \<lfloor>x\<rfloor>")
  case True
  then have "rne (- x) = rne (of_int (- \<lfloor>x\<rfloor>))" "rne x = rne (of_int \<lfloor>x\<rfloor>)"
    by simp_all
  then show ?thesis by (simp only: rne_of_int)
next
  case False
  then have "x \<noteq> of_int \<lfloor>x\<rfloor>" by simp
  moreover have "of_int \<lfloor>x\<rfloor> \<le> x" "x < of_int \<lfloor>x\<rfloor> + 1"
    by linarith+
  ultimately have "of_int \<lfloor>x\<rfloor> < x" "x < of_int \<lfloor>x\<rfloor> + 1"
    by linarith+
  then have f: "\<lfloor>- x\<rfloor> = - \<lfloor>x\<rfloor> - 1"
    by (intro floor_unique) auto
  show ?thesis
    unfolding rne_def Let_def f by auto
qed

lemma rne_near:
  assumes "\<bar>x - of_int n\<bar> < 1/2" shows "rne x = n"
proof -
  have "\<bar>of_int (rne x) - of_int n :: rat\<bar> < 1"
    using rne_error [of x] assms by linarith
  then have "\<bar>of_int (rne x - n) :: rat\<bar> < 1" by simp
  then have "\<bar>rne x - n\<bar> < 1"
    by (metis of_int_abs of_int_less_1_iff)
  then show ?thesis by simp
qed

section \<open>Powers of two and binary logarithm\<close>

definition pow2 :: "int \<Rightarrow> rat" where
  "pow2 e = (if 0 \<le> e then 2 ^ nat e else 1 / 2 ^ nat (- e))"

lemma pow2_power_int: "pow2 e = 2 powi e"
  by (simp add: pow2_def power_int_def field_simps)

lemma pow2_pos [simp]: "0 < pow2 e"
  by (simp add: pow2_power_int)

lemma pow2_add: "pow2 (a + b) = pow2 a * pow2 b"
  by (simp add: pow2_power_int power_int_add)

lemma pow2_diff: "pow2 (a - b) = pow2 a / pow2 b"
  by (simp add: pow2_power_int power_int_diff)

lemma pow2_mono: "a \<le> b \<Longrightarrow> pow2 a \<le> pow2 b"
  by (simp add: pow2_power_int power_int_increasing)

lemma pow2_strict: "a < b \<Longrightarrow> pow2 a < pow2 b"
  by (simp add: pow2_power_int power_int_strict_increasing)

lemma pow2_less_iff: "pow2 a < pow2 b \<longleftrightarrow> a < b"
  by (metis linorder_not_less pow2_mono pow2_strict)

lemma pow2_numerals:
  "pow2 1 = 2" "pow2 52 = 2 ^ 52" "pow2 53 = 2 ^ 53"
  by (simp_all add: pow2_def)

lemma pow2_nat: "0 \<le> e \<Longrightarrow> pow2 e = of_int (2 ^ nat e)"
  by (simp add: pow2_def)

definition ilog2 :: "rat \<Rightarrow> int" where
  "ilog2 x = (let (p, q) = quotient_of x; k = bitlen p - bitlen q
              in if x < pow2 k then k - 1 else k)"

lemma bitlen_pow2:
  assumes "0 < n" shows "pow2 (bitlen n - 1) \<le> of_int n" "of_int n < pow2 (bitlen n)"
proof -
  have b: "2 ^ nat (bitlen n - 1) \<le> n \<and> n < 2 ^ nat (bitlen n)"
    using bitlen_bounds [OF assms] .
  have "bitlen n \<noteq> 0" using assms by (simp add: bitlen_eq_zero_iff)
  then have pos: "0 \<le> bitlen n" "0 \<le> bitlen n - 1"
    using bitlen_nonneg [of n] by linarith+
  then have "pow2 (bitlen n - 1) = of_int (2 ^ nat (bitlen n - 1))"
    "pow2 (bitlen n) = of_int (2 ^ nat (bitlen n))"
    by (simp_all add: pow2_nat)
  with b show "pow2 (bitlen n - 1) \<le> of_int n" "of_int n < pow2 (bitlen n)"
    by (simp_all only: of_int_le_iff of_int_less_iff)
qed

lemma ilog2_bounds:
  assumes "0 < x" shows "pow2 (ilog2 x) \<le> x" "x < pow2 (ilog2 x + 1)"
proof -
  obtain p q where pq: "quotient_of x = (p, q)" by force
  have q: "0 < q" using quotient_of_denom_pos [OF pq] .
  have x: "x = of_int p / of_int q" using quotient_of_div [OF pq] .
  with assms q have p: "0 < p"
    by (simp add: zero_less_divide_iff)
  note P = bitlen_pow2 [OF p] and Q = bitlen_pow2 [OF q]
  have q': "(0::rat) < of_int q" and p': "(0::rat) < of_int p" using p q by simp_all
  define k where "k = bitlen p - bitlen q"
  have "pow2 (bitlen p - 1) / pow2 (bitlen q) < of_int p / of_int q"
    using P Q q' p' by (intro frac_less2) auto
  moreover have "pow2 (bitlen p - 1) / pow2 (bitlen q) = pow2 (k - 1)"
    by (simp add: k_def pow2_diff [symmetric] algebra_simps)
  ultimately have lo: "pow2 (k - 1) \<le> x" using x by simp
  have "of_int p / of_int q < pow2 (bitlen p) / pow2 (bitlen q - 1)"
    using P Q q' p' by (intro frac_less) auto
  moreover have "pow2 (bitlen p) / pow2 (bitlen q - 1) = pow2 (k + 1)"
    by (simp add: k_def pow2_diff [symmetric] algebra_simps)
  ultimately have hi: "x < pow2 (k + 1)" using x by simp
  have "ilog2 x = (if x < pow2 k then k - 1 else k)"
    by (simp add: ilog2_def pq k_def)
  with lo hi show "pow2 (ilog2 x) \<le> x" "x < pow2 (ilog2 x + 1)"
    by (auto split: if_splits)
qed

lemma ilog2_unique:
  assumes "pow2 e \<le> x" "x < pow2 (e + 1)" shows "ilog2 x = e"
proof -
  have x: "0 < x" using assms(1) pow2_pos [of e] by linarith
  note b = ilog2_bounds [OF x]
  have "pow2 e < pow2 (ilog2 x + 1)" "pow2 (ilog2 x) < pow2 (e + 1)"
    using b assms by linarith+
  then show ?thesis by (simp add: pow2_less_iff)
qed

lemma ilog2_mono:
  assumes "0 < x" "x \<le> y" shows "ilog2 x \<le> ilog2 y"
proof -
  have "pow2 (ilog2 x) < pow2 (ilog2 y + 1)"
    using ilog2_bounds(1) [OF assms(1)] ilog2_bounds(2) [of y] assms by linarith
  then show ?thesis by (simp add: pow2_less_iff)
qed

section \<open>Rounding to 53 significant bits\<close>

definition ulp :: "rat \<Rightarrow> rat" where
  "ulp x = pow2 (ilog2 x - 52)"

definition fl_pos :: "rat \<Rightarrow> rat" where
  "fl_pos x = (let u = ulp x in of_int (rne (x / u)) * u)"

definition fl :: "rat \<Rightarrow> rat" where
  "fl x = (if x = 0 then 0 else if 0 < x then fl_pos x else - fl_pos (- x))"

lemma fl_zero [simp]: "fl 0 = 0"
  by (simp add: fl_def)

lemma fl_uminus: "fl (- x) = - fl x"
  by (simp add: fl_def)

lemma ulp_pos [simp]: "0 < ulp x"
  by (simp add: ulp_def)

lemma scaled_bounds:
  assumes "0 < x" shows "2 ^ 52 \<le> x / ulp x" "x / ulp x < 2 ^ 53"
proof -
  note b = ilog2_bounds [OF assms]
  have u: "ulp x = pow2 (ilog2 x) / 2 ^ 52"
    by (simp add: ulp_def pow2_diff pow2_numerals)
  have "pow2 (ilog2 x + 1) = pow2 (ilog2 x) * 2"
    by (simp add: pow2_add pow2_numerals)
  with b u show "2 ^ 52 \<le> x / ulp x" "x / ulp x < 2 ^ 53"
    by (simp_all add: field_simps)
qed

lemma fl_pos_bounds:
  assumes "0 < x" shows "pow2 (ilog2 x) \<le> fl_pos x" "fl_pos x \<le> pow2 (ilog2 x + 1)"
proof -
  note s = scaled_bounds [OF assms]
  have "rne (of_int (2 ^ 52)) \<le> rne (x / ulp x)"
    by (intro rne_mono) (use s in simp)
  then have a: "2 ^ 52 \<le> rne (x / ulp x)" by (simp only: rne_of_int)
  have "rne (x / ulp x) \<le> rne (of_int (2 ^ 53))"
    by (intro rne_mono) (use s in simp)
  then have b: "rne (x / ulp x) \<le> 2 ^ 53" by (simp only: rne_of_int)
  have "of_int (2 ^ 52) * ulp x \<le> of_int (rne (x / ulp x)) * ulp x"
    by (intro mult_right_mono iffD2 [OF of_int_le_iff] a) (simp add: order_less_imp_le)
  moreover have "of_int (rne (x / ulp x)) * ulp x \<le> of_int (2 ^ 53) * ulp x"
    by (intro mult_right_mono iffD2 [OF of_int_le_iff] b) (simp add: order_less_imp_le)
  moreover have "of_int (2 ^ 52) * ulp x = pow2 (ilog2 x)" "of_int (2 ^ 53) * ulp x = pow2 (ilog2 x + 1)"
    by (simp_all add: ulp_def pow2_diff pow2_add pow2_numerals)
  ultimately show "pow2 (ilog2 x) \<le> fl_pos x" "fl_pos x \<le> pow2 (ilog2 x + 1)"
    unfolding fl_pos_def Let_def by (simp_all only:)
qed

lemma fl_pos_mono:
  assumes "0 < x" "x \<le> y" shows "fl_pos x \<le> fl_pos y"
proof (cases "ilog2 x = ilog2 y")
  case True
  then have u: "ulp x = ulp y" by (simp add: ulp_def)
  have "rne (x / ulp y) \<le> rne (y / ulp y)"
    by (intro rne_mono divide_right_mono) (use assms in \<open>simp_all add: order_less_imp_le\<close>)
  then show ?thesis
    by (simp add: fl_pos_def Let_def u mult_right_mono order_less_imp_le)
next
  case False
  with ilog2_mono [OF assms] have "ilog2 x + 1 \<le> ilog2 y" by simp
  then have "pow2 (ilog2 x + 1) \<le> pow2 (ilog2 y)" by (rule pow2_mono)
  with fl_pos_bounds(2) [OF assms(1)] fl_pos_bounds(1) [of y] assms show ?thesis
    by linarith
qed

lemma fl_pos_pos: "0 < x \<Longrightarrow> 0 < fl_pos x"
  using fl_pos_bounds(1) [of x] pow2_pos [of "ilog2 x"] by linarith

theorem fl_mono: "x \<le> y \<Longrightarrow> fl x \<le> fl y"
  using fl_pos_mono [of x y] fl_pos_mono [of "- y" "- x"] fl_pos_pos [of y] fl_pos_pos [of "- x"]
  unfolding fl_def by (cases "x = 0"; cases "y = 0"; cases "0 < x"; cases "0 < y") auto

lemma fl_nonneg: "0 \<le> x \<Longrightarrow> 0 \<le> fl x"
  using fl_mono [of 0 x] by simp

lemma fl_nonpos: "x \<le> 0 \<Longrightarrow> fl x \<le> 0"
  using fl_mono [of x 0] by simp

lemma fl_pos_gt: "0 < x \<Longrightarrow> 0 < fl x"
  by (simp add: fl_def fl_pos_pos)

subsection \<open>Relative error\<close>

lemma fl_pos_error: assumes "0 < x" shows "\<bar>fl_pos x - x\<bar> \<le> x / 2 ^ 53"
proof -
  have "fl_pos x - x = (of_int (rne (x / ulp x)) - x / ulp x) * ulp x"
    by (simp add: fl_pos_def Let_def algebra_simps ulp_pos [THEN order_less_imp_not_eq2])
  then have "\<bar>fl_pos x - x\<bar> = \<bar>of_int (rne (x / ulp x)) - x / ulp x\<bar> * ulp x"
    by (simp only: abs_mult abs_of_pos [OF ulp_pos])
  also have "\<dots> \<le> 1/2 * ulp x"
    by (intro mult_right_mono rne_error order_less_imp_le [OF ulp_pos])
  also have "\<dots> \<le> x / 2 ^ 53"
  proof -
    have "2 ^ 52 * ulp x \<le> x"
      using scaled_bounds(1) [OF assms] ulp_pos [of x] by (simp add: field_simps)
    then show ?thesis by simp
  qed
  finally show ?thesis .
qed

theorem fl_error: "\<bar>fl x - x\<bar> \<le> \<bar>x\<bar> / 2 ^ 53"
  using fl_pos_error [of x] fl_pos_error [of "- x"]
  by (cases "x = 0"; cases "0 < x") (auto simp: fl_def)

subsection \<open>Representable numbers\<close>

definition is_double :: "rat \<Rightarrow> bool" where
  "is_double x \<longleftrightarrow> fl x = x"

lemma fl_scaled_int:
  assumes "\<bar>m\<bar> \<le> 2 ^ 53" shows "fl (of_int m * pow2 e) = of_int m * pow2 e"
proof -
  have pos: "fl_pos (of_int n * pow2 e) = of_int n * pow2 e" if n: "0 < n" "n \<le> 2 ^ 53" for n
  proof -
    define x where "x = of_int n * pow2 e"
    have x: "0 < x" using n by (simp add: x_def)
    show ?thesis
    proof (cases "n = 2 ^ 53")
      case True
      then have "x = pow2 (e + 53)"
        by (simp add: x_def pow2_add pow2_numerals)
      then have "ilog2 x = e + 53"
        using pow2_strict [of "e + 53" "e + 53 + 1"] by (intro ilog2_unique) auto
      then have "x / ulp x = of_int (2 ^ 52)"
        using \<open>x = pow2 (e + 53)\<close> by (simp add: ulp_def pow2_diff [symmetric] pow2_numerals)
      then have "of_int (rne (x / ulp x)) = x / ulp x"
        by (simp only: rne_of_int)
      then show ?thesis
        unfolding fl_pos_def Let_def x_def [symmetric]
        by (simp add: ulp_pos [THEN order_less_imp_not_eq2])
    next
      case False
      with n have "of_int n < (2 ^ 53 :: rat)"
        by (metis of_int_less_iff of_int_numeral of_int_power order_le_less)
      then have "x < pow2 (e + 53)"
        by (simp add: x_def pow2_add pow2_numerals)
      then have "ilog2 x < e + 53"
        using ilog2_bounds(1) [OF x] by (metis linorder_not_less order_le_less_trans pow2_less_iff)
      then have d: "0 \<le> e - (ilog2 x - 52)" by simp
      have "x / ulp x = of_int n * pow2 (e - (ilog2 x - 52))"
        by (simp add: x_def ulp_def pow2_diff [of e])
      also have "\<dots> = of_int (n * 2 ^ nat (e - (ilog2 x - 52)))"
        using d by (simp add: pow2_nat)
      finally have q: "x / ulp x = of_int (n * 2 ^ nat (e - (ilog2 x - 52)))" .
      have "of_int (rne (x / ulp x)) = x / ulp x"
        by (simp only: q rne_of_int)
      then show ?thesis
        unfolding fl_pos_def Let_def x_def [symmetric] by (simp add: ulp_pos [THEN order_less_imp_not_eq2])
    qed
  qed
  consider "m = 0" | "0 < m" | "0 < - m" by linarith
  then show ?thesis
  proof cases
    case 1 then show ?thesis by simp
  next
    case 2 with pos [of m] assms show ?thesis by (simp add: fl_def)
  next
    case 3
    with pos [of "- m"] assms have "fl_pos (of_int (- m) * pow2 e) = of_int (- m) * pow2 e"
      by (simp only: abs_le_iff)
    moreover have "0 < of_int (- m) * pow2 e"
      using 3 by (intro mult_pos_pos) (simp_all only: of_int_0_less_iff pow2_pos)
    ultimately have "fl (of_int (- m) * pow2 e) = of_int (- m) * pow2 e"
      unfolding fl_def by simp
    then have "fl (- (of_int m * pow2 e)) = - (of_int m * pow2 e)" by simp
    then show ?thesis by (simp only: fl_uminus neg_equal_iff_equal)
  qed
qed

lemma is_double_scaled: "\<bar>m\<bar> \<le> 2 ^ 53 \<Longrightarrow> is_double (of_int m * pow2 e)"
  by (simp add: is_double_def fl_scaled_int)

lemma fl_of_int: "\<bar>n\<bar> \<le> 2 ^ 53 \<Longrightarrow> fl (of_int n) = of_int n"
  using fl_scaled_int [of n 0] by (simp add: pow2_def)

lemma fl_is_scaled: "\<exists>m e. \<bar>m\<bar> \<le> 2 ^ 53 \<and> fl x = of_int m * pow2 e"
proof -
  have pos: "\<exists>m e. \<bar>m\<bar> \<le> 2 ^ 53 \<and> fl_pos y = of_int m * pow2 e" if "0 < y" for y
  proof -
    note s = scaled_bounds [OF that]
    have "rne (y / ulp y) \<le> rne (of_int (2 ^ 53))" "rne (of_int 0) \<le> rne (y / ulp y)"
      using s that by (auto intro!: rne_mono simp: order_less_imp_le simp del: rne_of_int of_int_0 rne_zero)
    then have "\<bar>rne (y / ulp y)\<bar> \<le> 2 ^ 53" by (simp only: rne_of_int abs_of_nonneg)
    then show ?thesis by (auto simp: fl_pos_def Let_def ulp_def)
  qed
  consider "x = 0" | "0 < x" | "0 < - x" by linarith
  then show ?thesis
  proof cases
    case 1 then show ?thesis by (intro exI [of _ 0]) simp
  next
    case 2 with pos [OF 2] show ?thesis by (simp add: fl_def)
  next
    case 3
    from pos [OF 3] obtain m e where "\<bar>m\<bar> \<le> 2 ^ 53" "fl_pos (- x) = of_int m * pow2 e" by blast
    with 3 have "\<bar>- m\<bar> \<le> 2 ^ 53" "fl x = of_int (- m) * pow2 e" by (simp_all add: fl_def)
    then show ?thesis by blast
  qed
qed

theorem fl_idem [simp]: "fl (fl x) = fl x"
  using fl_is_scaled [of x] fl_scaled_int by force

lemma is_double_fl [simp]: "is_double (fl x)"
  by (simp add: is_double_def)

lemma is_double_zero [simp]: "is_double 0"
  by (simp add: is_double_def)

lemma fl_le_double: "is_double y \<Longrightarrow> x \<le> y \<Longrightarrow> fl x \<le> y"
  using fl_mono [of x y] by (simp add: is_double_def)

lemma fl_ge_double: "is_double y \<Longrightarrow> y \<le> x \<Longrightarrow> y \<le> fl x"
  using fl_mono [of y x] by (simp add: is_double_def)

end
