(* ===== verification/Money.thy ===== *)
theory Money
  imports Float64
begin

text \<open>
  Amounts of money.  The operators of Python's \<open>float\<close> (\<open>fadd\<close>, \<open>fsub\<close>, \<open>fmul\<close>,
  \<open>fdiv\<close>), the built-in \<open>round(x, k)\<close>, and the bridge to exact integer paise:
  \<open>cents n\<close> is the double nearest to \<open>n / 100\<close>.  As long as an amount stays within
  \<open>2 ^ 40\<close> paise (about 11 billion rupees), rounding a sum, a difference or a multiple of such
  doubles to two places gives exactly the double of the integer result, and the code's
  comparisons with tolerances \<open>0.001\<close> and \<open>0.01\<close> decide the integer comparison.
\<close>

section \<open>Float operators\<close>

definition fadd :: "rat \<Rightarrow> rat \<Rightarrow> rat" where "fadd x y = fl (x + y)"
definition fsub :: "rat \<Rightarrow> rat \<Rightarrow> rat" where "fsub x y = fl (x - y)"
definition fmul :: "rat \<Rightarrow> rat \<Rightarrow> rat" where "fmul x y = fl (x * y)"
definition fdiv :: "rat \<Rightarrow> rat \<Rightarrow> rat" where "fdiv x y = fl (x / y)"

text \<open>\<open>round(x, k)\<close> rounds the exact value of \<open>x\<close> to \<open>k\<close> decimals, half to even, and
  returns the double nearest to that decimal.\<close>

definition round_dec :: "nat \<Rightarrow> rat \<Rightarrow> rat" where
  "round_dec k x = fl (of_int (rne (x * 10 ^ k)) / 10 ^ k)"

definition round2 :: "rat \<Rightarrow> rat" where
  "round2 x = fl (of_int (rne (x * 100)) / 100)"

lemma round2_round_dec: "round2 x = round_dec 2 x"
  by (simp add: round2_def round_dec_def)

lemma round2_mono: "x \<le> y \<Longrightarrow> round2 x \<le> round2 y"
  unfolding round2_def by (intro fl_mono divide_right_mono iffD2 [OF of_int_le_iff] rne_mono) auto

lemma round2_zero [simp]: "round2 0 = 0"
  by (simp add: round2_def)

lemma round2_nonneg: "0 \<le> x \<Longrightarrow> 0 \<le> round2 x"
  using round2_mono [of 0 x] by simp

lemma is_double_ops [simp]:
  "is_double (fadd x y)" "is_double (fsub x y)" "is_double (fmul x y)" "is_double (fdiv x y)"
  "is_double (round2 x)" "is_double (round_dec k x)"
  by (simp_all add: fadd_def fsub_def fmul_def fdiv_def round2_def round_dec_def)

lemma fadd_nonneg: "0 \<le> x \<Longrightarrow> 0 \<le> y \<Longrightarrow> 0 \<le> fadd x y"
  by (simp add: fadd_def fl_nonneg)

lemma fmul_nonneg: "0 \<le> x \<Longrightarrow> 0 \<le> y \<Longrightarrow> 0 \<le> fmul x y"
  by (simp add: fmul_def fl_nonneg)

lemma fdiv_nonneg: "0 \<le> x \<Longrightarrow> 0 \<le> y \<Longrightarrow> 0 \<le> fdiv x y"
  by (simp add: fdiv_def fl_nonneg)

lemma fsub_nonneg: "y \<le> x \<Longrightarrow> 0 \<le> fsub x y"
  by (simp add: fsub_def fl_nonneg)

lemma fadd_mono: "x \<le> x' \<Longrightarrow> y \<le> y' \<Longrightarrow> fadd x y \<le> fadd x' y'"
  by (simp add: fadd_def fl_mono add_mono)

lemma fadd_ge_left: "is_double x \<Longrightarrow> 0 \<le> y \<Longrightarrow> x \<le> fadd x y"
  by (simp add: fadd_def fl_ge_double)

lemma fadd_ge_right: "is_double y \<Longrightarrow> 0 \<le> x \<Longrightarrow> y \<le> fadd x y"
  by (simp add: fadd_def fl_ge_double)

section \<open>Integer paise\<close>

definition cents :: "int \<Rightarrow> rat" where
  "cents n = fl (of_int n / 100)"

definition to_cents :: "rat \<Rightarrow> int" where
  "to_cents x = rne (x * 100)"

text \<open>The bound on amounts under which float arithmetic on paise is exact.\<close>

definition money_bound :: int where
  "money_bound = 2 ^ 40"

definition money_ok :: "int \<Rightarrow> bool" where
  "money_ok n \<longleftrightarrow> \<bar>n\<bar> \<le> money_bound"

text \<open>A float that is a whole number of paise within the bound.\<close>

definition is_money :: "rat \<Rightarrow> bool" where
  "is_money x \<longleftrightarrow> x = cents (to_cents x) \<and> money_ok (to_cents x)"

lemma round2_cents: "round2 x = cents (to_cents x)"
  by (simp add: round2_def cents_def to_cents_def)

lemma is_double_cents [simp]: "is_double (cents n)"
  by (simp add: cents_def)

lemma cents_zero [simp]: "cents 0 = 0"
  by (simp add: cents_def)

lemma cents_mono: "a \<le> b \<Longrightarrow> cents a \<le> cents b"
  unfolding cents_def by (intro fl_mono divide_right_mono) simp_all

lemma cents_nonneg: "0 \<le> a \<Longrightarrow> 0 \<le> cents a"
  using cents_mono [of 0 a] by simp

lemma cents_min: "min (cents a) (cents b) = cents (min a b)"
  using cents_mono [of a b] cents_mono [of b a] by (auto simp: min_def)

lemma cents_max: "max (cents a) (cents b) = cents (max a b)"
  using cents_mono [of a b] cents_mono [of b a] by (auto simp: max_def)

lemma cents_error:
  assumes "\<bar>n\<bar> \<le> 2 ^ 42" shows "\<bar>cents n - of_int n / 100\<bar> \<le> 1 / 204800"
proof -
  have "\<bar>of_int n :: rat\<bar> \<le> 2 ^ 42"
    using assms by (metis of_int_abs of_int_le_iff of_int_numeral of_int_power)
  then have "\<bar>of_int n / 100 :: rat\<bar> / 2 ^ 53 \<le> 1 / 204800"
    by (simp add: abs_divide field_simps)
  then show ?thesis
    using fl_error [of "of_int n / 100"] unfolding cents_def by linarith
qed

lemma round2_near: "\<bar>x - of_int n / 100\<bar> < 1 / 200 \<Longrightarrow> round2 x = cents n"
proof -
  assume "\<bar>x - of_int n / 100\<bar> < 1 / 200"
  then have "\<bar>x * 100 - of_int n\<bar> < 1/2" by (simp add: abs_if split: if_splits)
  then show ?thesis by (simp add: round2_cents to_cents_def rne_near)
qed

lemma to_cents_near: "\<bar>x - of_int n / 100\<bar> < 1 / 200 \<Longrightarrow> to_cents x = n"
  by (auto simp: to_cents_def intro!: rne_near simp: abs_if split: if_splits)

lemma to_cents_cents [simp]: "money_ok n \<Longrightarrow> to_cents (cents n) = n"
  using cents_error [of n] by (intro to_cents_near) (auto simp: money_ok_def money_bound_def)

lemma is_money_cents [simp]: "money_ok n \<Longrightarrow> is_money (cents n)"
  by (simp add: is_money_def)

lemma round2_is_money: "money_ok n \<Longrightarrow> round2 (cents n) = cents n"
  by (simp add: round2_cents)

lemma is_moneyE:
  assumes "is_money x" obtains n where "money_ok n" "x = cents n" "to_cents x = n"
  using assms by (auto simp: is_money_def)

lemma money_ok_simps:
  "money_ok 0" "money_ok (- a) \<longleftrightarrow> money_ok a"
  by (simp_all add: money_ok_def money_bound_def)

lemma money_ok_mono: "money_ok b \<Longrightarrow> 0 \<le> a \<Longrightarrow> a \<le> b \<Longrightarrow> money_ok a"
  by (auto simp: money_ok_def)

lemma fl_bounded_error:
  assumes "\<bar>x\<bar> \<le> 2 ^ 36" shows "\<bar>fl x - x\<bar> \<le> 1 / 131072"
proof -
  have "\<bar>x\<bar> / 2 ^ 53 \<le> 1 / 131072" using assms by (simp add: field_simps)
  then show ?thesis using fl_error [of x] by linarith
qed

lemma cents_small: "money_ok n \<Longrightarrow> \<bar>cents n\<bar> \<le> 2 ^ 34"
proof -
  assume ok: "money_ok n"
  then have "\<bar>of_int n :: rat\<bar> \<le> 2 ^ 40"
    unfolding money_ok_def money_bound_def
    by (metis of_int_abs of_int_le_iff of_int_numeral of_int_power)
  then show ?thesis
    using cents_error [of n] ok by (simp add: money_ok_def money_bound_def abs_if split: if_splits)
qed

lemma fadd_cents_error:
  assumes "money_ok a" "money_ok b"
  shows "\<bar>fadd (cents a) (cents b) - of_int (a + b) / 100\<bar> \<le> 1 / 50000"
proof -
  have "\<bar>cents a + cents b\<bar> \<le> 2 ^ 36"
    using cents_small [OF assms(1)] cents_small [OF assms(2)] by (simp add: abs_if split: if_splits)
  from fl_bounded_error [OF this] show ?thesis
    using cents_error [of a] cents_error [of b] assms
    unfolding fadd_def money_ok_def money_bound_def
    by (simp add: abs_if add_divide_distrib split: if_splits)
qed

theorem round2_fadd_cents:
  "money_ok a \<Longrightarrow> money_ok b \<Longrightarrow> round2 (fadd (cents a) (cents b)) = cents (a + b)"
  using fadd_cents_error [of a b] by (intro round2_near) auto

lemma fsub_cents_error:
  assumes "money_ok a" "money_ok b"
  shows "\<bar>fsub (cents a) (cents b) - of_int (a - b) / 100\<bar> \<le> 1 / 50000"
proof -
  have "\<bar>cents a - cents b\<bar> \<le> 2 ^ 36"
    using cents_small [OF assms(1)] cents_small [OF assms(2)] by (simp add: abs_if split: if_splits)
  from fl_bounded_error [OF this] show ?thesis
    using cents_error [of a] cents_error [of b] assms
    unfolding fsub_def money_ok_def money_bound_def
    by (simp add: abs_if diff_divide_distrib split: if_splits)
qed

theorem round2_fsub_cents:
  "money_ok a \<Longrightarrow> money_ok b \<Longrightarrow> round2 (fsub (cents a) (cents b)) = cents (a - b)"
  using fsub_cents_error [of a b] by (intro round2_near) auto

theorem round2_fmul_cents:
  assumes "money_ok c" "money_ok (c * q)"
  shows "round2 (fmul (cents c) (of_int q)) = cents (c * q)"
proof -
  have "\<bar>of_int (c * q) :: rat\<bar> \<le> 2 ^ 40"
    using assms(2) unfolding money_ok_def money_bound_def
    by (metis of_int_abs of_int_le_iff of_int_numeral of_int_power)
  then have cq: "\<bar>of_int c :: rat\<bar> * \<bar>of_int q\<bar> \<le> 2 ^ 40" by (simp add: abs_mult)
  have "\<bar>cents c - of_int c / 100\<bar> \<le> \<bar>of_int c\<bar> / 100 / 2 ^ 53"
    using fl_error [of "of_int c / 100"] by (simp add: cents_def)
  then have "\<bar>cents c - of_int c / 100\<bar> * \<bar>of_int q\<bar> \<le> \<bar>of_int c\<bar> / 100 / 2 ^ 53 * \<bar>of_int q\<bar>"
    by (rule mult_right_mono) simp
  also have "\<dots> = \<bar>of_int c\<bar> * \<bar>of_int q\<bar> / (100 * 2 ^ 53)" by simp
  also have "\<dots> \<le> 2 ^ 40 / (100 * 2 ^ 53)" using cq by (intro divide_right_mono) auto
  finally have e1: "\<bar>cents c * of_int q - of_int (c * q) / 100\<bar> \<le> 1 / 819200"
    by (simp add: abs_mult [symmetric] left_diff_distrib)
  have "\<bar>of_int (c * q) / 100 :: rat\<bar> \<le> 2 ^ 35" using cq by (simp add: abs_mult)
  with e1 have "\<bar>cents c * of_int q\<bar> \<le> 2 ^ 36" by (simp add: abs_if split: if_splits)
  from fl_bounded_error [OF this] e1 show ?thesis
    by (intro round2_near) (simp add: fmul_def abs_if split: if_splits)
qed

subsection \<open>Comparisons\<close>

lemma cents_less:
  assumes "money_ok a" "money_ok b" "a < b" shows "cents a + 999 / 100000 \<le> cents b"
proof -
  have "(of_int a :: rat) + 1 \<le> of_int b" using assms(3) by linarith
  then show ?thesis
    using cents_error [of a] cents_error [of b] assms(1,2)
    unfolding money_ok_def money_bound_def by (simp add: abs_if split: if_splits)
qed

theorem cents_le_iff:
  "money_ok a \<Longrightarrow> money_ok b \<Longrightarrow> cents a \<le> cents b \<longleftrightarrow> a \<le> b"
  using cents_less [of b a] cents_mono [of a b] by linarith

lemma cents_less_iff:
  "money_ok a \<Longrightarrow> money_ok b \<Longrightarrow> cents a < cents b \<longleftrightarrow> a < b"
  using cents_le_iff [of b a] by (simp add: not_le [symmetric])

lemma cents_eq_iff: "money_ok a \<Longrightarrow> money_ok b \<Longrightarrow> cents a = cents b \<longleftrightarrow> a = b"
  by (metis to_cents_cents)

text \<open>The tolerances \<open>0.001\<close> and \<open>0.01\<close> of the code.\<close>

definition eps_milli :: rat where "eps_milli = fl (1 / 1000)"
definition eps_paisa :: rat where "eps_paisa = fl (1 / 100)"

lemma eps_milli_bounds: "9 / 10000 \<le> eps_milli" "eps_milli \<le> 11 / 10000"
  using fl_error [of "1/1000"] unfolding eps_milli_def by (simp_all add: abs_if split: if_splits)

lemma eps_paisa_bounds: "99 / 10000 \<le> eps_paisa" "eps_paisa \<le> 101 / 10000"
  using fl_error [of "1/100"] unfolding eps_paisa_def by (simp_all add: abs_if split: if_splits)

lemma cents_le_eps_milli: "money_ok a \<Longrightarrow> cents a \<le> eps_milli \<longleftrightarrow> a \<le> 0"
  using cents_less [of 0 a] cents_mono [of a 0] eps_milli_bounds money_ok_simps(1)
  by (cases "a \<le> 0") auto

lemma cents_milli_ge:
  assumes "money_ok a" "money_ok b"
  shows "cents b \<le> fadd (cents a) eps_milli \<longleftrightarrow> b \<le> a"
proof
  assume "b \<le> a"
  then show "cents b \<le> fadd (cents a) eps_milli"
    using cents_mono fadd_ge_left [of "cents a" eps_milli] eps_milli_bounds by fastforce
next
  assume le: "cents b \<le> fadd (cents a) eps_milli"
  have "\<bar>cents a + eps_milli\<bar> \<le> 2 ^ 36"
    using cents_small [OF assms(1)] eps_milli_bounds by (simp add: abs_if split: if_splits)
  from fl_bounded_error [OF this] le have "cents b \<le> cents a + 2 / 1000"
    using eps_milli_bounds by (simp add: fadd_def abs_if split: if_splits)
  then show "b \<le> a" using cents_less [OF assms] by linarith
qed

lemma cents_paisa_le:
  assumes "money_ok a" "money_ok b" "cents b \<le> fadd (cents a) eps_paisa"
  shows "b \<le> a + 1"
proof (rule ccontr)
  assume "\<not> b \<le> a + 1"
  then have c: "(of_int a :: rat) + 2 \<le> of_int b" by linarith
  have "\<bar>cents a + eps_paisa\<bar> \<le> 2 ^ 36"
    using cents_small [OF assms(1)] eps_paisa_bounds by (simp add: abs_if split: if_splits)
  from fl_bounded_error [OF this] assms(3) have "cents b \<le> cents a + 11 / 1000"
    using eps_paisa_bounds by (simp add: fadd_def abs_if split: if_splits)
  then show False
    using c cents_error [of a] cents_error [of b] assms(1,2)
    unfolding money_ok_def money_bound_def by (simp add: abs_if split: if_splits)
qed

lemma cents_paisa_ge: "b \<le> a \<Longrightarrow> cents b \<le> fadd (cents a) eps_paisa"
  using cents_mono [of b a] fadd_ge_left [of "cents a" eps_paisa] eps_paisa_bounds by fastforce

end
