(* ===== verification/Schema.thy ===== *)
theory Schema
  imports Enums Money
begin

text \<open>
  The tables of the shared MySQL database: one record per SQLModel class, with the fields of
  the class in order (prefixed, because Isabelle's field names are global), and one
  constructor \<open>new_x\<close> per class that fills the \<open>Field\<close> defaults; its arguments are the fields
  without a default and, for \<open>default_factory=utc_now\<close>, the time.  The primary key of a
  new row is 0 until \<open>t_insert\<close> assigns one.  A class declared by several services is taken
  from the declaration with the most columns.

  A \<open>datetime\<close> is a number of microseconds since the epoch, a \<open>date\<close> a day number, a \<open>float\<close>
  column the double Python stored, a JSON column a \<open>json\<close> value.  The record \<open>db\<close> is the whole
  database with the log \<open>outbox\<close> of messages published to Redis.
\<close>

type_synonym datetime = int
type_synonym date = int
type_synonym daytime = int

record User =
  u_id :: int
  u_phone :: string
  u_name :: "string option"
  u_email :: "string option"
  u_email_verified :: bool
  u_password_hash :: "string option"
  u_role :: UserRole
  u_avatar_url :: "string option"
  u_language :: string
  u_is_active :: bool
  u_is_guest :: bool
  u_terms_accepted :: bool
  u_biometric_enabled :: bool
  u_segment :: "CustomerSegment option"
  u_notes :: "string option"
  u_total_orders :: int
  u_total_spent :: rat
  u_last_order_at :: "datetime option"
  u_is_online :: bool
  u_last_seen_at :: "datetime option"
  u_created_at :: datetime
  u_updated_at :: datetime

definition new_User :: "datetime \<Rightarrow> string \<Rightarrow> User" where
  "new_User now phone = \<lparr>
     u_id = 0, u_phone = phone, u_name = None, u_email = None, u_email_verified = False,
     u_password_hash = None, u_role = UR_CUSTOMER, u_avatar_url = None, u_language = ''en'',
     u_is_active = True, u_is_guest = False, u_terms_accepted = False,
     u_biometric_enabled = False, u_segment = None, u_notes = None, u_total_orders = 0,
     u_total_spent = 0, u_last_order_at = None, u_is_online = False, u_last_seen_at = None,
     u_created_at = now, u_updated_at = now\<rparr>"

record RetailerProfile =
  rp_id :: int
  rp_user_id :: int
  rp_shop_name :: string
  rp_owner_name :: "string option"
  rp_gstin :: "string option"
  rp_credit_allowed :: bool
  rp_credit_limit :: rat
  rp_outstanding_balance :: rat
  rp_payable_balance :: rat
  rp_is_wholesaler :: bool
  rp_upi_id :: "string option"
  rp_bank_account :: "string option"
  rp_is_blocked :: bool
  rp_approval_status :: string
  rp_sell_subscription_status :: string
  rp_sell_plan :: "string option"
  rp_sell_subscription_expires_at :: "datetime option"
  rp_sell_rz_pending :: "string option"
  rp_address_line :: "string option"
  rp_village :: "string option"
  rp_area :: "string option"
  rp_city :: string
  rp_state :: string
  rp_zone :: "string option"
  rp_pincode :: "string option"
  rp_latitude :: "rat option"
  rp_longitude :: "rat option"
  rp_contact_phone :: "string option"
  rp_aadhaar_number :: "string option"
  rp_aadhaar_url :: "string option"
  rp_pan_number :: "string option"
  rp_pan_url :: "string option"
  rp_shop_logo_url :: "string option"
  rp_shop_open_time :: "string option"
  rp_shop_close_time :: "string option"
  rp_shop_days :: "string option"
  rp_is_open :: bool
  rp_delivery_zones :: "string option"
  rp_delivery_charge :: rat
  rp_delivery_charge_far :: rat
  rp_delivery_radius_km :: rat
  rp_min_order_value :: rat
  rp_cancellation_policy :: "string option"
  rp_return_policy :: "string option"
  rp_refund_policy :: "string option"
  rp_chatbot_enabled :: bool
  rp_call_enabled :: bool
  rp_notifications_enabled :: bool
  rp_created_at :: datetime

definition new_RetailerProfile :: "datetime \<Rightarrow> int \<Rightarrow> string \<Rightarrow> RetailerProfile" where
  "new_RetailerProfile now user_id shop_name = \<lparr>
     rp_id = 0, rp_user_id = user_id, rp_shop_name = shop_name, rp_owner_name = None,
     rp_gstin = None, rp_credit_allowed = True, rp_credit_limit = 50000,
     rp_outstanding_balance = 0, rp_payable_balance = 0, rp_is_wholesaler = True,
     rp_upi_id = None, rp_bank_account = None, rp_is_blocked = False,
     rp_approval_status = ''approved'', rp_sell_subscription_status = ''none'',
     rp_sell_plan = None, rp_sell_subscription_expires_at = None, rp_sell_rz_pending = None,
     rp_address_line = None, rp_village = None, rp_area = None, rp_city = ''Bhubaneswar'',
     rp_state = ''Odisha'', rp_zone = None, rp_pincode = None, rp_latitude = None,
     rp_longitude = None, rp_contact_phone = None, rp_aadhaar_number = None,
     rp_aadhaar_url = None, rp_pan_number = None, rp_pan_url = None, rp_shop_logo_url = None,
     rp_shop_open_time = Some (''09:00''), rp_shop_close_time = Some (''21:00''),
     rp_shop_days = Some (''Mon-Sun''), rp_is_open = True, rp_delivery_zones = None,
     rp_delivery_charge = 0, rp_delivery_charge_far = 0, rp_delivery_radius_km = 3,
     rp_min_order_value = 0, rp_cancellation_policy = None, rp_return_policy = None,
     rp_refund_policy = None, rp_chatbot_enabled = True, rp_call_enabled = True,
     rp_notifications_enabled = True, rp_created_at = now\<rparr>"

record Address =
  ad_id :: int
  ad_user_id :: int
  ad_label :: string
  ad_full_name :: string
  ad_phone :: string
  ad_line1 :: string
  ad_line2 :: "string option"
  ad_landmark :: "string option"
  ad_city :: string
  ad_state :: string
  ad_pincode :: string
  ad_latitude :: "rat option"
  ad_longitude :: "rat option"
  ad_is_default :: bool
  ad_created_at :: datetime

definition new_Address :: "datetime \<Rightarrow> int \<Rightarrow> string \<Rightarrow> string \<Rightarrow> string \<Rightarrow> string \<Rightarrow> Address" where
  "new_Address now user_id full_name phone line1 pincode = \<lparr>
     ad_id = 0, ad_user_id = user_id, ad_label = ''Home'', ad_full_name = full_name,
     ad_phone = phone, ad_line1 = line1, ad_line2 = None, ad_landmark = None,
     ad_city = ''Mumbai'', ad_state = ''Maharashtra'', ad_pincode = pincode, ad_latitude = None,
     ad_longitude = None, ad_is_default = False, ad_created_at = now\<rparr>"

record Category =
  cat_id :: int
  cat_name :: string
  cat_slug :: string
  cat_description :: "string option"
  cat_image_url :: "string option"
  cat_display_order :: int
  cat_is_active :: bool
  cat_parent_id :: "int option"
  cat_owner_user_id :: "int option"
  cat_created_at :: datetime
  cat_updated_at :: datetime

definition new_Category :: "datetime \<Rightarrow> string \<Rightarrow> string \<Rightarrow> Category" where
  "new_Category now name slug = \<lparr>
     cat_id = 0, cat_name = name, cat_slug = slug, cat_description = None, cat_image_url = None,
     cat_display_order = 0, cat_is_active = True, cat_parent_id = None, cat_owner_user_id = None,
     cat_created_at = now, cat_updated_at = now\<rparr>"

record Product =
  p_id :: int
  p_category_id :: int
  p_brand_name :: "string option"
  p_supplier_user_id :: "int option"
  p_name :: string
  p_slug :: string
  p_short_description :: "string option"
  p_description :: "string option"
  p_ingredients :: "string option"
  p_allergens :: "string option"
  p_nutrition_info :: "json option"
  p_flavor :: "string option"
  p_weight :: "string option"
  p_unit_label :: string
  p_selling_price :: rat
  p_customer_price :: "rat option"
  p_shop_price :: "rat option"
  p_purchase_cost :: "rat option"
  p_fulfillment_type :: string
  p_min_order_qty :: int
  p_original_price :: "rat option"
  p_discount_percent :: rat
  p_gst_rate :: rat
  p_stock_qty :: int
  p_supplier_available_qty :: int
  p_stock_status :: StockStatus
  p_low_stock_threshold :: int
  p_rating :: rat
  p_review_count :: int
  p_sales_count :: int
  p_is_eggless :: bool
  p_is_sugar_free :: bool
  p_is_vegan :: bool
  p_is_freshly_baked :: bool
  p_same_day_delivery :: bool
  p_preparation_minutes :: int
  p_shelf_life_hours :: "int option"
  p_storage_instructions :: "string option"
  p_estimated_delivery_mins :: int
  p_return_eligible :: bool
  p_cover_image_url :: "string option"
  p_video_url :: "string option"
  p_tags :: "json list option"
  p_filters :: "json list option"
  p_available_sizes :: "json list option"
  p_available_flavors :: "json list option"
  p_quality_score :: "rat option"
  p_quality_suggestions :: "json list option"
  p_is_active :: bool
  p_is_draft :: bool
  p_is_trending :: bool
  p_is_bestseller :: bool
  p_is_festival :: bool
  p_created_at :: datetime
  p_updated_at :: datetime

definition new_Product :: "datetime \<Rightarrow> int \<Rightarrow> string \<Rightarrow> string \<Rightarrow> Product" where
  "new_Product now category_id name slug = \<lparr>
     p_id = 0, p_category_id = category_id, p_brand_name = None, p_supplier_user_id = None,
     p_name = name, p_slug = slug, p_short_description = None, p_description = None,
     p_ingredients = None, p_allergens = None, p_nutrition_info = None, p_flavor = None,
     p_weight = None, p_unit_label = ''pcs'', p_selling_price = 0, p_customer_price = None,
     p_shop_price = None, p_purchase_cost = None, p_fulfillment_type = ''both'',
     p_min_order_qty = 1, p_original_price = None, p_discount_percent = 0, p_gst_rate = 5,
     p_stock_qty = 0, p_supplier_available_qty = 0, p_stock_status = SS_IN_STOCK,
     p_low_stock_threshold = 5, p_rating = 0, p_review_count = 0, p_sales_count = 0,
     p_is_eggless = False, p_is_sugar_free = False, p_is_vegan = False,
     p_is_freshly_baked = True, p_same_day_delivery = True, p_preparation_minutes = 60,
     p_shelf_life_hours = Some (24), p_storage_instructions = None,
     p_estimated_delivery_mins = 45, p_return_eligible = True, p_cover_image_url = None,
     p_video_url = None, p_tags = None, p_filters = None, p_available_sizes = None,
     p_available_flavors = None, p_quality_score = None, p_quality_suggestions = None,
     p_is_active = True, p_is_draft = False, p_is_trending = False, p_is_bestseller = False,
     p_is_festival = False, p_created_at = now, p_updated_at = now\<rparr>"

record StockMovement =
  sm_id :: int
  sm_product_id :: int
  sm_change_qty :: int
  sm_reason :: string
  sm_note :: "string option"
  sm_created_by :: "int option"
  sm_created_at :: datetime

definition new_StockMovement :: "datetime \<Rightarrow> int \<Rightarrow> StockMovement" where
  "new_StockMovement now product_id = \<lparr>
     sm_id = 0, sm_product_id = product_id, sm_change_qty = 0, sm_reason = ''adjust'',
     sm_note = None, sm_created_by = None, sm_created_at = now\<rparr>"

record Cart =
  ct_id :: int
  ct_user_id :: int
  ct_coupon_code :: "string option"
  ct_updated_at :: datetime

definition new_Cart :: "datetime \<Rightarrow> int \<Rightarrow> Cart" where
  "new_Cart now user_id = \<lparr>
     ct_id = 0, ct_user_id = user_id, ct_coupon_code = None, ct_updated_at = now\<rparr>"

record CartItem =
  ci_id :: int
  ci_cart_id :: int
  ci_product_id :: int
  ci_quantity :: int
  ci_variant :: "string option"
  ci_flavor :: "string option"
  ci_is_eggless :: bool
  ci_unit_price :: rat
  ci_saved_for_later :: bool
  ci_created_at :: datetime

definition new_CartItem :: "datetime \<Rightarrow> int \<Rightarrow> int \<Rightarrow> CartItem" where
  "new_CartItem now cart_id product_id = \<lparr>
     ci_id = 0, ci_cart_id = cart_id, ci_product_id = product_id, ci_quantity = 1,
     ci_variant = None, ci_flavor = None, ci_is_eggless = False, ci_unit_price = 0,
     ci_saved_for_later = False, ci_created_at = now\<rparr>"

record Order =
  o_id :: int
  o_order_number :: string
  o_user_id :: int
  o_shop_user_id :: "int option"
  o_order_type :: string
  o_address_id :: "int option"
  o_delivery_person_id :: "int option"
  o_status :: OrderStatus
  o_payment_status :: PaymentStatus
  o_payment_method :: "PaymentMethod option"
  o_subtotal :: rat
  o_discount :: rat
  o_coupon_code :: "string option"
  o_gst_amount :: rat
  o_delivery_fee :: rat
  o_final_amount :: rat
  o_paid_amount :: rat
  o_delivery_date :: "date option"
  o_delivery_slot :: "string option"
  o_delivery_instructions :: "string option"
  o_contactless :: bool
  o_customer_phone :: "string option"
  o_address_snapshot :: "json option"
  o_estimated_delivery_at :: "datetime option"
  o_offer_expires_at :: "datetime option"
  o_delivered_at :: "datetime option"
  o_cancelled_at :: "datetime option"
  o_cancel_reason :: "string option"
  o_internal_notes :: "string option"
  o_rating :: "int option"
  o_rating_comment :: "string option"
  o_created_at :: datetime
  o_updated_at :: datetime

definition new_Order :: "datetime \<Rightarrow> string \<Rightarrow> int \<Rightarrow> Order" where
  "new_Order now order_number user_id = \<lparr>
     o_id = 0, o_order_number = order_number, o_user_id = user_id, o_shop_user_id = None,
     o_order_type = ''b2c_local_order'', o_address_id = None, o_delivery_person_id = None,
     o_status = OS_PLACED, o_payment_status = PS_PENDING, o_payment_method = None,
     o_subtotal = 0, o_discount = 0, o_coupon_code = None, o_gst_amount = 0, o_delivery_fee = 0,
     o_final_amount = 0, o_paid_amount = 0, o_delivery_date = None, o_delivery_slot = None,
     o_delivery_instructions = None, o_contactless = False, o_customer_phone = None,
     o_address_snapshot = None, o_estimated_delivery_at = None, o_offer_expires_at = None,
     o_delivered_at = None, o_cancelled_at = None, o_cancel_reason = None,
     o_internal_notes = None, o_rating = None, o_rating_comment = None, o_created_at = now,
     o_updated_at = now\<rparr>"

record OrderItem =
  oi_id :: int
  oi_order_id :: int
  oi_product_id :: int
  oi_product_name :: string
  oi_product_image :: "string option"
  oi_variant :: "string option"
  oi_flavor :: "string option"
  oi_is_eggless :: bool
  oi_quantity :: int
  oi_unit_price :: rat
  oi_total_price :: rat
  oi_unit_cost :: rat

definition new_OrderItem :: "int \<Rightarrow> int \<Rightarrow> string \<Rightarrow> OrderItem" where
  "new_OrderItem order_id product_id product_name = \<lparr>
     oi_id = 0, oi_order_id = order_id, oi_product_id = product_id,
     oi_product_name = product_name, oi_product_image = None, oi_variant = None,
     oi_flavor = None, oi_is_eggless = False, oi_quantity = 1, oi_unit_price = 0,
     oi_total_price = 0, oi_unit_cost = 0\<rparr>"

record OrderStatusHistory =
  h_id :: int
  h_order_id :: int
  h_status :: OrderStatus
  h_note :: "string option"
  h_created_by :: "int option"
  h_created_at :: datetime

definition new_OrderStatusHistory :: "datetime \<Rightarrow> int \<Rightarrow> OrderStatus \<Rightarrow> OrderStatusHistory" where
  "new_OrderStatusHistory now order_id status = \<lparr>
     h_id = 0, h_order_id = order_id, h_status = status, h_note = None, h_created_by = None,
     h_created_at = now\<rparr>"

record Coupon =
  cp_id :: int
  cp_code :: string
  cp_title :: string
  cp_description :: "string option"
  cp_coupon_type :: string
  cp_value :: rat
  cp_min_order_amount :: rat
  cp_max_discount :: "rat option"
  cp_product_ids :: "json list option"
  cp_category_ids :: "json list option"
  cp_starts_at :: "datetime option"
  cp_ends_at :: "datetime option"
  cp_usage_limit :: "int option"
  cp_used_count :: int
  cp_is_active :: bool
  cp_shop_user_id :: "int option"
  cp_created_at :: datetime

definition new_Coupon :: "datetime \<Rightarrow> string \<Rightarrow> string \<Rightarrow> Coupon" where
  "new_Coupon now code title = \<lparr>
     cp_id = 0, cp_code = code, cp_title = title, cp_description = None,
     cp_coupon_type = ''percentage'', cp_value = 0, cp_min_order_amount = 0,
     cp_max_discount = None, cp_product_ids = None, cp_category_ids = None, cp_starts_at = None,
     cp_ends_at = None, cp_usage_limit = None, cp_used_count = 0, cp_is_active = True,
     cp_shop_user_id = None, cp_created_at = now\<rparr>"

record Payment =
  pay_id :: int
  pay_order_id :: int
  pay_user_id :: int
  pay_amount :: rat
  pay_method :: "PaymentMethod option"
  pay_status :: PaymentStatus
  pay_transaction_id :: "string option"
  pay_upi_id :: "string option"
  pay_gateway_response :: "json option"
  pay_failure_reason :: "string option"
  pay_paid_at :: "datetime option"
  pay_refund_amount :: rat
  pay_created_at :: datetime
  pay_updated_at :: datetime

definition new_Payment :: "datetime \<Rightarrow> int \<Rightarrow> int \<Rightarrow> rat \<Rightarrow> Payment" where
  "new_Payment now order_id user_id amount = \<lparr>
     pay_id = 0, pay_order_id = order_id, pay_user_id = user_id, pay_amount = amount,
     pay_method = None, pay_status = PS_PENDING, pay_transaction_id = None, pay_upi_id = None,
     pay_gateway_response = None, pay_failure_reason = None, pay_paid_at = None,
     pay_refund_amount = 0, pay_created_at = now, pay_updated_at = now\<rparr>"

record Invoice =
  inv_id :: int
  inv_order_id :: "int option"
  inv_kind :: string
  inv_ref_type :: "string option"
  inv_ref_id :: "string option"
  inv_buyer_user_id :: "int option"
  inv_seller_user_id :: "int option"
  inv_invoice_number :: string
  inv_bakery_name :: string
  inv_gstin :: string
  inv_customer_name :: string
  inv_customer_phone :: string
  inv_customer_address :: "string option"
  inv_line_items :: json
  inv_subtotal :: rat
  inv_discount :: rat
  inv_gst_amount :: rat
  inv_delivery_fee :: rat
  inv_grand_total :: rat
  inv_payment_method :: "string option"
  inv_transaction_id :: "string option"
  inv_notes :: "string option"
  inv_pdf_url :: "string option"
  inv_created_at :: datetime

definition new_Invoice :: "datetime \<Rightarrow> string \<Rightarrow> string \<Rightarrow> string \<Rightarrow> string \<Rightarrow> string \<Rightarrow> Invoice" where
  "new_Invoice now invoice_number bakery_name gstin customer_name customer_phone = \<lparr>
     inv_id = 0, inv_order_id = None, inv_kind = ''customer_order'', inv_ref_type = None,
     inv_ref_id = None, inv_buyer_user_id = None, inv_seller_user_id = None,
     inv_invoice_number = invoice_number, inv_bakery_name = bakery_name, inv_gstin = gstin,
     inv_customer_name = customer_name, inv_customer_phone = customer_phone,
     inv_customer_address = None, inv_line_items = JObj [], inv_subtotal = 0, inv_discount = 0,
     inv_gst_amount = 0, inv_delivery_fee = 0, inv_grand_total = 0, inv_payment_method = None,
     inv_transaction_id = None, inv_notes = None, inv_pdf_url = None, inv_created_at = now\<rparr>"

record ReturnRequest =
  rr_id :: int
  rr_order_id :: int
  rr_user_id :: int
  rr_issue_type :: string
  rr_solution :: string
  rr_description :: "string option"
  rr_affected_item_ids :: "json list option"
  rr_evidence_urls :: "json list option"
  rr_refund_amount :: rat
  rr_status :: string
  rr_ai_assessment :: "json option"
  rr_admin_response :: "string option"
  rr_internal_note :: "string option"
  rr_deadline_at :: "datetime option"
  rr_created_at :: datetime
  rr_updated_at :: datetime

definition new_ReturnRequest :: "datetime \<Rightarrow> int \<Rightarrow> int \<Rightarrow> string \<Rightarrow> ReturnRequest" where
  "new_ReturnRequest now order_id user_id issue_type = \<lparr>
     rr_id = 0, rr_order_id = order_id, rr_user_id = user_id, rr_issue_type = issue_type,
     rr_solution = ''refund'', rr_description = None, rr_affected_item_ids = None,
     rr_evidence_urls = None, rr_refund_amount = 0, rr_status = ''submitted'',
     rr_ai_assessment = None, rr_admin_response = None, rr_internal_note = None,
     rr_deadline_at = None, rr_created_at = now, rr_updated_at = now\<rparr>"

record CustomCakeRequest =
  cc_id :: int
  cc_user_id :: int
  cc_occasion :: string
  cc_cake_type :: string
  cc_flavor :: string
  cc_weight :: string
  cc_shape :: string
  cc_is_eggless :: bool
  cc_cream_type :: "string option"
  cc_decoration_theme :: "string option"
  cc_reference_image_url :: "string option"
  cc_cake_message :: "string option"
  cc_special_instructions :: "string option"
  cc_delivery_date :: "date option"
  cc_delivery_time :: "daytime option"
  cc_budget_min :: "rat option"
  cc_budget_max :: "rat option"
  cc_estimated_price :: "rat option"
  cc_quoted_price :: "rat option"
  cc_ai_suggestions :: "json list option"
  cc_status :: CustomCakeStatus
  cc_order_id :: "int option"
  cc_created_at :: datetime
  cc_updated_at :: datetime

definition new_CustomCakeRequest :: "datetime \<Rightarrow> int \<Rightarrow> string \<Rightarrow> string \<Rightarrow> string \<Rightarrow> string \<Rightarrow> string \<Rightarrow> CustomCakeRequest" where
  "new_CustomCakeRequest now user_id occasion cake_type flavor weight shape = \<lparr>
     cc_id = 0, cc_user_id = user_id, cc_occasion = occasion, cc_cake_type = cake_type,
     cc_flavor = flavor, cc_weight = weight, cc_shape = shape, cc_is_eggless = True,
     cc_cream_type = None, cc_decoration_theme = None, cc_reference_image_url = None,
     cc_cake_message = None, cc_special_instructions = None, cc_delivery_date = None,
     cc_delivery_time = None, cc_budget_min = None, cc_budget_max = None,
     cc_estimated_price = None, cc_quoted_price = None, cc_ai_suggestions = None,
     cc_status = CC_REQUESTED, cc_order_id = None, cc_created_at = now, cc_updated_at = now\<rparr>"

record WalletAccount =
  w_id :: int
  w_user_id :: int
  w_balance :: rat
  w_updated_at :: datetime

definition new_WalletAccount :: "datetime \<Rightarrow> int \<Rightarrow> WalletAccount" where
  "new_WalletAccount now user_id = \<lparr>
     w_id = 0, w_user_id = user_id, w_balance = 0, w_updated_at = now\<rparr>"

record WalletTxn =
  wt_id :: int
  wt_user_id :: int
  wt_amount :: rat
  wt_txn_type :: string
  wt_title :: string
  wt_subtitle :: "string option"
  wt_balance_after :: rat
  wt_order_id :: "int option"
  wt_created_at :: datetime

definition new_WalletTxn :: "datetime \<Rightarrow> int \<Rightarrow> string \<Rightarrow> WalletTxn" where
  "new_WalletTxn now user_id title = \<lparr>
     wt_id = 0, wt_user_id = user_id, wt_amount = 0, wt_txn_type = ''credit'', wt_title = title,
     wt_subtitle = None, wt_balance_after = 0, wt_order_id = None, wt_created_at = now\<rparr>"

record LoyaltyAccount =
  la_id :: int
  la_user_id :: int
  la_points :: int
  la_lifetime_points :: int
  la_updated_at :: datetime

definition new_LoyaltyAccount :: "datetime \<Rightarrow> int \<Rightarrow> LoyaltyAccount" where
  "new_LoyaltyAccount now user_id = \<lparr>
     la_id = 0, la_user_id = user_id, la_points = 0, la_lifetime_points = 0, la_updated_at = now\<rparr>"

record ReferralCode =
  rc_id :: int
  rc_user_id :: int
  rc_code :: string
  rc_reward_amount :: rat
  rc_referred_count :: int
  rc_created_at :: datetime

definition new_ReferralCode :: "datetime \<Rightarrow> int \<Rightarrow> string \<Rightarrow> ReferralCode" where
  "new_ReferralCode now user_id code = \<lparr>
     rc_id = 0, rc_user_id = user_id, rc_code = code, rc_reward_amount = 100,
     rc_referred_count = 0, rc_created_at = now\<rparr>"

record SubscriptionPlan =
  pl_id :: int
  pl_name :: string
  pl_description :: "string option"
  pl_product_id :: "int option"
  pl_price :: rat
  pl_cadence :: string
  pl_is_active :: bool

definition new_SubscriptionPlan :: "string \<Rightarrow> SubscriptionPlan" where
  "new_SubscriptionPlan name = \<lparr>
     pl_id = 0, pl_name = name, pl_description = None, pl_product_id = None, pl_price = 0,
     pl_cadence = ''weekly'', pl_is_active = True\<rparr>"

record UserSubscription =
  us_id :: int
  us_user_id :: int
  us_plan_id :: int
  us_status :: string
  us_next_delivery_date :: "date option"
  us_created_at :: datetime

definition new_UserSubscription :: "datetime \<Rightarrow> int \<Rightarrow> int \<Rightarrow> UserSubscription" where
  "new_UserSubscription now user_id plan_id = \<lparr>
     us_id = 0, us_user_id = user_id, us_plan_id = plan_id, us_status = ''active'',
     us_next_delivery_date = None, us_created_at = now\<rparr>"

record CorporateInquiry =
  co_id :: int
  co_user_id :: "int option"
  co_company_name :: string
  co_contact_name :: string
  co_phone :: string
  co_email :: "string option"
  co_headcount :: "int option"
  co_occasion :: "string option"
  co_budget :: "rat option"
  co_notes :: "string option"
  co_status :: string
  co_created_at :: datetime

definition new_CorporateInquiry :: "datetime \<Rightarrow> string \<Rightarrow> string \<Rightarrow> string \<Rightarrow> CorporateInquiry" where
  "new_CorporateInquiry now company_name contact_name phone = \<lparr>
     co_id = 0, co_user_id = None, co_company_name = company_name,
     co_contact_name = contact_name, co_phone = phone, co_email = None, co_headcount = None,
     co_occasion = None, co_budget = None, co_notes = None, co_status = ''submitted'',
     co_created_at = now\<rparr>"

record ShareTrackLink =
  sl_id :: int
  sl_order_id :: int
  sl_user_id :: int
  sl_token :: string
  sl_expires_at :: "datetime option"
  sl_created_at :: datetime

definition new_ShareTrackLink :: "datetime \<Rightarrow> int \<Rightarrow> int \<Rightarrow> string \<Rightarrow> ShareTrackLink" where
  "new_ShareTrackLink now order_id user_id token = \<lparr>
     sl_id = 0, sl_order_id = order_id, sl_user_id = user_id, sl_token = token,
     sl_expires_at = None, sl_created_at = now\<rparr>"

record CreditLedgerEntry =
  le_id :: int
  le_retailer_user_id :: int
  le_entry_type :: string
  le_amount :: rat
  le_balance_after :: rat
  le_order_id :: "int option"
  le_payment_id :: "int option"
  le_note :: "string option"
  le_created_by :: "int option"
  le_created_at :: datetime

definition new_CreditLedgerEntry :: "datetime \<Rightarrow> int \<Rightarrow> string \<Rightarrow> CreditLedgerEntry" where
  "new_CreditLedgerEntry now retailer_user_id entry_type = \<lparr>
     le_id = 0, le_retailer_user_id = retailer_user_id, le_entry_type = entry_type,
     le_amount = 0, le_balance_after = 0, le_order_id = None, le_payment_id = None,
     le_note = None, le_created_by = None, le_created_at = now\<rparr>"

record SupplierPurchase =
  po_id :: int
  po_supplier_user_id :: int
  po_product_id :: int
  po_product_name :: string
  po_qty :: int
  po_unit_cost :: rat
  po_total :: rat
  po_status :: string
  po_paid_amount :: rat
  po_paid_at :: "datetime option"
  po_pay_method :: "string option"
  po_note :: "string option"
  po_created_by :: "int option"
  po_created_at :: datetime
  po_updated_at :: datetime

definition new_SupplierPurchase :: "datetime \<Rightarrow> int \<Rightarrow> int \<Rightarrow> string \<Rightarrow> SupplierPurchase" where
  "new_SupplierPurchase now supplier_user_id product_id product_name = \<lparr>
     po_id = 0, po_supplier_user_id = supplier_user_id, po_product_id = product_id,
     po_product_name = product_name, po_qty = 1, po_unit_cost = 0, po_total = 0,
     po_status = ''received'', po_paid_amount = 0, po_paid_at = None, po_pay_method = None,
     po_note = None, po_created_by = None, po_created_at = now, po_updated_at = now\<rparr>"

record Notification =
  n_id :: int
  n_user_id :: int
  n_type :: NotificationType
  n_title :: string
  n_body :: string
  n_data :: "json option"
  n_is_read :: bool
  n_created_at :: datetime

definition new_Notification :: "datetime \<Rightarrow> int \<Rightarrow> string \<Rightarrow> string \<Rightarrow> Notification" where
  "new_Notification now user_id title body = \<lparr>
     n_id = 0, n_user_id = user_id, n_type = NT_SYSTEM, n_title = title, n_body = body,
     n_data = None, n_is_read = False, n_created_at = now\<rparr>"

record BakerySettings =
  bs_id :: int
  bs_bakery_name :: string
  bs_owner_name :: string
  bs_logo_url :: "string option"
  bs_address :: string
  bs_latitude :: rat
  bs_longitude :: rat
  bs_phone :: string
  bs_email :: string
  bs_gstin :: string
  bs_upi_id :: string
  bs_bank_details :: "json option"
  bs_working_hours :: "json option"
  bs_delivery_zones :: "json list option"
  bs_delivery_charge :: rat
  bs_free_delivery_min :: rat
  bs_min_order_value :: rat
  bs_cod_enabled :: bool
  bs_tax_settings :: "json option"
  bs_cancellation_policy :: "string option"
  bs_return_policy :: "string option"
  bs_refund_policy :: "string option"
  bs_chatbot_tone :: string
  bs_chatbot_languages :: "json list option"
  bs_open_time :: "daytime option"
  bs_close_time :: "daytime option"
  bs_updated_at :: datetime

definition new_BakerySettings :: "datetime \<Rightarrow> BakerySettings" where
  "new_BakerySettings now = \<lparr>
     bs_id = 0, bs_bakery_name = ''SweetCrust Bakery'', bs_owner_name = ''Priya Sharma'',
     bs_logo_url = None, bs_address = ''12 MG Road, Andheri West, Mumbai 400058'',
     bs_latitude = fl (191197 / 10000), bs_longitude = fl (182117 / 2500),
     bs_phone = ''+919876543210'', bs_email = ''hello@sweetcrust.in'',
     bs_gstin = ''27AABCS1234A1Z5'', bs_upi_id = ''sweetcrust@upi'', bs_bank_details = None,
     bs_working_hours = Some (JObj [(''delivery_slots'', JArr [JStr ''10:00-12:00'', JStr ''12:00-14:00'', JStr ''16:00-18:00'', JStr ''18:00-20:00''])]),
     bs_delivery_zones = None, bs_delivery_charge = 40, bs_free_delivery_min = 499,
     bs_min_order_value = 149, bs_cod_enabled = True, bs_tax_settings = None,
     bs_cancellation_policy = None, bs_return_policy = None, bs_refund_policy = None,
     bs_chatbot_tone = ''warm'', bs_chatbot_languages = None, bs_open_time = None,
     bs_close_time = None, bs_updated_at = now\<rparr>"

record DeliveryPerson =
  dp_id :: int
  dp_user_id :: "int option"
  dp_name :: string
  dp_phone :: string
  dp_photo_url :: "string option"
  dp_vehicle_number :: string
  dp_is_available :: bool
  dp_default_trip_cost :: rat
  dp_current_lat :: "rat option"
  dp_current_lng :: "rat option"
  dp_created_at :: datetime

definition new_DeliveryPerson :: "datetime \<Rightarrow> string \<Rightarrow> string \<Rightarrow> string \<Rightarrow> DeliveryPerson" where
  "new_DeliveryPerson now name phone vehicle_number = \<lparr>
     dp_id = 0, dp_user_id = None, dp_name = name, dp_phone = phone, dp_photo_url = None,
     dp_vehicle_number = vehicle_number, dp_is_available = True, dp_default_trip_cost = 40,
     dp_current_lat = None, dp_current_lng = None, dp_created_at = now\<rparr>"

record DeliveryTracking =
  dt_id :: int
  dt_order_id :: int
  dt_delivery_person_id :: int
  dt_bakery_lat :: rat
  dt_bakery_lng :: rat
  dt_customer_lat :: "rat option"
  dt_customer_lng :: "rat option"
  dt_rider_lat :: "rat option"
  dt_rider_lng :: "rat option"
  dt_route_polyline :: "string option"
  dt_distance_km :: "rat option"
  dt_eta_minutes :: "int option"
  dt_updated_at :: datetime

definition new_DeliveryTracking :: "datetime \<Rightarrow> int \<Rightarrow> int \<Rightarrow> DeliveryTracking" where
  "new_DeliveryTracking now order_id delivery_person_id = \<lparr>
     dt_id = 0, dt_order_id = order_id, dt_delivery_person_id = delivery_person_id,
     dt_bakery_lat = fl (4769 / 250), dt_bakery_lng = fl (728777 / 10000),
     dt_customer_lat = None, dt_customer_lng = None, dt_rider_lat = None, dt_rider_lng = None,
     dt_route_polyline = None, dt_distance_km = None, dt_eta_minutes = None, dt_updated_at = now\<rparr>"

record Banner =
  bn_id :: int
  bn_title :: string
  bn_subtitle :: "string option"
  bn_image_url :: string
  bn_link_type :: "string option"
  bn_link_value :: "string option"
  bn_is_active :: bool
  bn_sort_order :: int
  bn_shop_user_id :: "int option"
  bn_created_at :: datetime

definition new_Banner :: "datetime \<Rightarrow> string \<Rightarrow> string \<Rightarrow> Banner" where
  "new_Banner now title image_url = \<lparr>
     bn_id = 0, bn_title = title, bn_subtitle = None, bn_image_url = image_url,
     bn_link_type = None, bn_link_value = None, bn_is_active = True, bn_sort_order = 0,
     bn_shop_user_id = None, bn_created_at = now\<rparr>"

section \<open>The database\<close>

record db =
  users :: "User table"
  profiles :: "RetailerProfile table"
  addresses :: "Address table"
  categories :: "Category table"
  products :: "Product table"
  stock_movements :: "StockMovement table"
  carts :: "Cart table"
  cart_items :: "CartItem table"
  orders :: "Order table"
  order_items :: "OrderItem table"
  histories :: "OrderStatusHistory table"
  coupons :: "Coupon table"
  payments :: "Payment table"
  invoices :: "Invoice table"
  return_requests :: "ReturnRequest table"
  cake_requests :: "CustomCakeRequest table"
  wallets :: "WalletAccount table"
  wallet_txns :: "WalletTxn table"
  loyalties :: "LoyaltyAccount table"
  referrals :: "ReferralCode table"
  plans :: "SubscriptionPlan table"
  subscriptions :: "UserSubscription table"
  inquiries :: "CorporateInquiry table"
  share_links :: "ShareTrackLink table"
  ledger_entries :: "CreditLedgerEntry table"
  purchases :: "SupplierPurchase table"
  notifications :: "Notification table"
  settings_rows :: "BakerySettings table"
  riders :: "DeliveryPerson table"
  trackings :: "DeliveryTracking table"
  banners :: "Banner table"
  outbox :: "(string \<times> json) list"

text \<open>
  Every table is addressed by its primary key: the row type's key selector and the assignment
  of the generated key form a \<open>keyed_row\<close>.
\<close>

interpretation User_row: keyed_row u_id "\<lambda>i r. r\<lparr>u_id := i\<rparr>"
  by unfold_locales simp

interpretation RetailerProfile_row: keyed_row rp_id "\<lambda>i r. r\<lparr>rp_id := i\<rparr>"
  by unfold_locales simp

interpretation Address_row: keyed_row ad_id "\<lambda>i r. r\<lparr>ad_id := i\<rparr>"
  by unfold_locales simp

interpretation Category_row: keyed_row cat_id "\<lambda>i r. r\<lparr>cat_id := i\<rparr>"
  by unfold_locales simp

interpretation Product_row: keyed_row p_id "\<lambda>i r. r\<lparr>p_id := i\<rparr>"
  by unfold_locales simp

interpretation StockMovement_row: keyed_row sm_id "\<lambda>i r. r\<lparr>sm_id := i\<rparr>"
  by unfold_locales simp

interpretation Cart_row: keyed_row ct_id "\<lambda>i r. r\<lparr>ct_id := i\<rparr>"
  by unfold_locales simp

interpretation CartItem_row: keyed_row ci_id "\<lambda>i r. r\<lparr>ci_id := i\<rparr>"
  by unfold_locales simp

interpretation Order_row: keyed_row o_id "\<lambda>i r. r\<lparr>o_id := i\<rparr>"
  by unfold_locales simp

interpretation OrderItem_row: keyed_row oi_id "\<lambda>i r. r\<lparr>oi_id := i\<rparr>"
  by unfold_locales simp

interpretation OrderStatusHistory_row: keyed_row h_id "\<lambda>i r. r\<lparr>h_id := i\<rparr>"
  by unfold_locales simp

interpretation Coupon_row: keyed_row cp_id "\<lambda>i r. r\<lparr>cp_id := i\<rparr>"
  by unfold_locales simp

interpretation Payment_row: keyed_row pay_id "\<lambda>i r. r\<lparr>pay_id := i\<rparr>"
  by unfold_locales simp

interpretation Invoice_row: keyed_row inv_id "\<lambda>i r. r\<lparr>inv_id := i\<rparr>"
  by unfold_locales simp

interpretation ReturnRequest_row: keyed_row rr_id "\<lambda>i r. r\<lparr>rr_id := i\<rparr>"
  by unfold_locales simp

interpretation CustomCakeRequest_row: keyed_row cc_id "\<lambda>i r. r\<lparr>cc_id := i\<rparr>"
  by unfold_locales simp

interpretation WalletAccount_row: keyed_row w_id "\<lambda>i r. r\<lparr>w_id := i\<rparr>"
  by unfold_locales simp

interpretation WalletTxn_row: keyed_row wt_id "\<lambda>i r. r\<lparr>wt_id := i\<rparr>"
  by unfold_locales simp

interpretation LoyaltyAccount_row: keyed_row la_id "\<lambda>i r. r\<lparr>la_id := i\<rparr>"
  by unfold_locales simp

interpretation ReferralCode_row: keyed_row rc_id "\<lambda>i r. r\<lparr>rc_id := i\<rparr>"
  by unfold_locales simp

interpretation SubscriptionPlan_row: keyed_row pl_id "\<lambda>i r. r\<lparr>pl_id := i\<rparr>"
  by unfold_locales simp

interpretation UserSubscription_row: keyed_row us_id "\<lambda>i r. r\<lparr>us_id := i\<rparr>"
  by unfold_locales simp

interpretation CorporateInquiry_row: keyed_row co_id "\<lambda>i r. r\<lparr>co_id := i\<rparr>"
  by unfold_locales simp

interpretation ShareTrackLink_row: keyed_row sl_id "\<lambda>i r. r\<lparr>sl_id := i\<rparr>"
  by unfold_locales simp

interpretation CreditLedgerEntry_row: keyed_row le_id "\<lambda>i r. r\<lparr>le_id := i\<rparr>"
  by unfold_locales simp

interpretation SupplierPurchase_row: keyed_row po_id "\<lambda>i r. r\<lparr>po_id := i\<rparr>"
  by unfold_locales simp

interpretation Notification_row: keyed_row n_id "\<lambda>i r. r\<lparr>n_id := i\<rparr>"
  by unfold_locales simp

interpretation BakerySettings_row: keyed_row bs_id "\<lambda>i r. r\<lparr>bs_id := i\<rparr>"
  by unfold_locales simp

interpretation DeliveryPerson_row: keyed_row dp_id "\<lambda>i r. r\<lparr>dp_id := i\<rparr>"
  by unfold_locales simp

interpretation DeliveryTracking_row: keyed_row dt_id "\<lambda>i r. r\<lparr>dt_id := i\<rparr>"
  by unfold_locales simp

interpretation Banner_row: keyed_row bn_id "\<lambda>i r. r\<lparr>bn_id := i\<rparr>"
  by unfold_locales simp

text \<open>\<open>session.get(X, id)\<close>, \<open>session.add(x)\<close> on a loaded row, \<open>session.add(X(...))\<close> followed by the
  flush that assigns its key, and \<open>session.delete(x)\<close>.\<close>

abbreviation get_User :: "db \<Rightarrow> int \<Rightarrow> User option" where
  "get_User d k \<equiv> t_get u_id k (users d)"
abbreviation put_User :: "User \<Rightarrow> db \<Rightarrow> db" where
  "put_User r d \<equiv> d\<lparr>users := t_put u_id r (users d)\<rparr>"
abbreviation key_User :: "User \<Rightarrow> db \<Rightarrow> User" where
  "key_User r d \<equiv> r\<lparr>u_id := next_id (users d)\<rparr>"
abbreviation add_User :: "User \<Rightarrow> db \<Rightarrow> db" where
  "add_User r d \<equiv> d\<lparr>users := t_insert (\<lambda>i r. r\<lparr>u_id := i\<rparr>) r (users d)\<rparr>"
abbreviation del_User :: "int \<Rightarrow> db \<Rightarrow> db" where
  "del_User k d \<equiv> d\<lparr>users := t_delete u_id k (users d)\<rparr>"

abbreviation get_RetailerProfile :: "db \<Rightarrow> int \<Rightarrow> RetailerProfile option" where
  "get_RetailerProfile d k \<equiv> t_get rp_id k (profiles d)"
abbreviation put_RetailerProfile :: "RetailerProfile \<Rightarrow> db \<Rightarrow> db" where
  "put_RetailerProfile r d \<equiv> d\<lparr>profiles := t_put rp_id r (profiles d)\<rparr>"
abbreviation key_RetailerProfile :: "RetailerProfile \<Rightarrow> db \<Rightarrow> RetailerProfile" where
  "key_RetailerProfile r d \<equiv> r\<lparr>rp_id := next_id (profiles d)\<rparr>"
abbreviation add_RetailerProfile :: "RetailerProfile \<Rightarrow> db \<Rightarrow> db" where
  "add_RetailerProfile r d \<equiv> d\<lparr>profiles := t_insert (\<lambda>i r. r\<lparr>rp_id := i\<rparr>) r (profiles d)\<rparr>"
abbreviation del_RetailerProfile :: "int \<Rightarrow> db \<Rightarrow> db" where
  "del_RetailerProfile k d \<equiv> d\<lparr>profiles := t_delete rp_id k (profiles d)\<rparr>"

abbreviation get_Address :: "db \<Rightarrow> int \<Rightarrow> Address option" where
  "get_Address d k \<equiv> t_get ad_id k (addresses d)"
abbreviation put_Address :: "Address \<Rightarrow> db \<Rightarrow> db" where
  "put_Address r d \<equiv> d\<lparr>addresses := t_put ad_id r (addresses d)\<rparr>"
abbreviation key_Address :: "Address \<Rightarrow> db \<Rightarrow> Address" where
  "key_Address r d \<equiv> r\<lparr>ad_id := next_id (addresses d)\<rparr>"
abbreviation add_Address :: "Address \<Rightarrow> db \<Rightarrow> db" where
  "add_Address r d \<equiv> d\<lparr>addresses := t_insert (\<lambda>i r. r\<lparr>ad_id := i\<rparr>) r (addresses d)\<rparr>"
abbreviation del_Address :: "int \<Rightarrow> db \<Rightarrow> db" where
  "del_Address k d \<equiv> d\<lparr>addresses := t_delete ad_id k (addresses d)\<rparr>"

abbreviation get_Category :: "db \<Rightarrow> int \<Rightarrow> Category option" where
  "get_Category d k \<equiv> t_get cat_id k (categories d)"
abbreviation put_Category :: "Category \<Rightarrow> db \<Rightarrow> db" where
  "put_Category r d \<equiv> d\<lparr>categories := t_put cat_id r (categories d)\<rparr>"
abbreviation key_Category :: "Category \<Rightarrow> db \<Rightarrow> Category" where
  "key_Category r d \<equiv> r\<lparr>cat_id := next_id (categories d)\<rparr>"
abbreviation add_Category :: "Category \<Rightarrow> db \<Rightarrow> db" where
  "add_Category r d \<equiv> d\<lparr>categories := t_insert (\<lambda>i r. r\<lparr>cat_id := i\<rparr>) r (categories d)\<rparr>"
abbreviation del_Category :: "int \<Rightarrow> db \<Rightarrow> db" where
  "del_Category k d \<equiv> d\<lparr>categories := t_delete cat_id k (categories d)\<rparr>"

abbreviation get_Product :: "db \<Rightarrow> int \<Rightarrow> Product option" where
  "get_Product d k \<equiv> t_get p_id k (products d)"
abbreviation put_Product :: "Product \<Rightarrow> db \<Rightarrow> db" where
  "put_Product r d \<equiv> d\<lparr>products := t_put p_id r (products d)\<rparr>"
abbreviation key_Product :: "Product \<Rightarrow> db \<Rightarrow> Product" where
  "key_Product r d \<equiv> r\<lparr>p_id := next_id (products d)\<rparr>"
abbreviation add_Product :: "Product \<Rightarrow> db \<Rightarrow> db" where
  "add_Product r d \<equiv> d\<lparr>products := t_insert (\<lambda>i r. r\<lparr>p_id := i\<rparr>) r (products d)\<rparr>"
abbreviation del_Product :: "int \<Rightarrow> db \<Rightarrow> db" where
  "del_Product k d \<equiv> d\<lparr>products := t_delete p_id k (products d)\<rparr>"

abbreviation get_StockMovement :: "db \<Rightarrow> int \<Rightarrow> StockMovement option" where
  "get_StockMovement d k \<equiv> t_get sm_id k (stock_movements d)"
abbreviation put_StockMovement :: "StockMovement \<Rightarrow> db \<Rightarrow> db" where
  "put_StockMovement r d \<equiv> d\<lparr>stock_movements := t_put sm_id r (stock_movements d)\<rparr>"
abbreviation key_StockMovement :: "StockMovement \<Rightarrow> db \<Rightarrow> StockMovement" where
  "key_StockMovement r d \<equiv> r\<lparr>sm_id := next_id (stock_movements d)\<rparr>"
abbreviation add_StockMovement :: "StockMovement \<Rightarrow> db \<Rightarrow> db" where
  "add_StockMovement r d \<equiv> d\<lparr>stock_movements := t_insert (\<lambda>i r. r\<lparr>sm_id := i\<rparr>) r (stock_movements d)\<rparr>"
abbreviation del_StockMovement :: "int \<Rightarrow> db \<Rightarrow> db" where
  "del_StockMovement k d \<equiv> d\<lparr>stock_movements := t_delete sm_id k (stock_movements d)\<rparr>"

abbreviation get_Cart :: "db \<Rightarrow> int \<Rightarrow> Cart option" where
  "get_Cart d k \<equiv> t_get ct_id k (carts d)"
abbreviation put_Cart :: "Cart \<Rightarrow> db \<Rightarrow> db" where
  "put_Cart r d \<equiv> d\<lparr>carts := t_put ct_id r (carts d)\<rparr>"
abbreviation key_Cart :: "Cart \<Rightarrow> db \<Rightarrow> Cart" where
  "key_Cart r d \<equiv> r\<lparr>ct_id := next_id (carts d)\<rparr>"
abbreviation add_Cart :: "Cart \<Rightarrow> db \<Rightarrow> db" where
  "add_Cart r d \<equiv> d\<lparr>carts := t_insert (\<lambda>i r. r\<lparr>ct_id := i\<rparr>) r (carts d)\<rparr>"
abbreviation del_Cart :: "int \<Rightarrow> db \<Rightarrow> db" where
  "del_Cart k d \<equiv> d\<lparr>carts := t_delete ct_id k (carts d)\<rparr>"

abbreviation get_CartItem :: "db \<Rightarrow> int \<Rightarrow> CartItem option" where
  "get_CartItem d k \<equiv> t_get ci_id k (cart_items d)"
abbreviation put_CartItem :: "CartItem \<Rightarrow> db \<Rightarrow> db" where
  "put_CartItem r d \<equiv> d\<lparr>cart_items := t_put ci_id r (cart_items d)\<rparr>"
abbreviation key_CartItem :: "CartItem \<Rightarrow> db \<Rightarrow> CartItem" where
  "key_CartItem r d \<equiv> r\<lparr>ci_id := next_id (cart_items d)\<rparr>"
abbreviation add_CartItem :: "CartItem \<Rightarrow> db \<Rightarrow> db" where
  "add_CartItem r d \<equiv> d\<lparr>cart_items := t_insert (\<lambda>i r. r\<lparr>ci_id := i\<rparr>) r (cart_items d)\<rparr>"
abbreviation del_CartItem :: "int \<Rightarrow> db \<Rightarrow> db" where
  "del_CartItem k d \<equiv> d\<lparr>cart_items := t_delete ci_id k (cart_items d)\<rparr>"

abbreviation get_Order :: "db \<Rightarrow> int \<Rightarrow> Order option" where
  "get_Order d k \<equiv> t_get o_id k (orders d)"
abbreviation put_Order :: "Order \<Rightarrow> db \<Rightarrow> db" where
  "put_Order r d \<equiv> d\<lparr>orders := t_put o_id r (orders d)\<rparr>"
abbreviation key_Order :: "Order \<Rightarrow> db \<Rightarrow> Order" where
  "key_Order r d \<equiv> r\<lparr>o_id := next_id (orders d)\<rparr>"
abbreviation add_Order :: "Order \<Rightarrow> db \<Rightarrow> db" where
  "add_Order r d \<equiv> d\<lparr>orders := t_insert (\<lambda>i r. r\<lparr>o_id := i\<rparr>) r (orders d)\<rparr>"
abbreviation del_Order :: "int \<Rightarrow> db \<Rightarrow> db" where
  "del_Order k d \<equiv> d\<lparr>orders := t_delete o_id k (orders d)\<rparr>"

abbreviation get_OrderItem :: "db \<Rightarrow> int \<Rightarrow> OrderItem option" where
  "get_OrderItem d k \<equiv> t_get oi_id k (order_items d)"
abbreviation put_OrderItem :: "OrderItem \<Rightarrow> db \<Rightarrow> db" where
  "put_OrderItem r d \<equiv> d\<lparr>order_items := t_put oi_id r (order_items d)\<rparr>"
abbreviation key_OrderItem :: "OrderItem \<Rightarrow> db \<Rightarrow> OrderItem" where
  "key_OrderItem r d \<equiv> r\<lparr>oi_id := next_id (order_items d)\<rparr>"
abbreviation add_OrderItem :: "OrderItem \<Rightarrow> db \<Rightarrow> db" where
  "add_OrderItem r d \<equiv> d\<lparr>order_items := t_insert (\<lambda>i r. r\<lparr>oi_id := i\<rparr>) r (order_items d)\<rparr>"
abbreviation del_OrderItem :: "int \<Rightarrow> db \<Rightarrow> db" where
  "del_OrderItem k d \<equiv> d\<lparr>order_items := t_delete oi_id k (order_items d)\<rparr>"

abbreviation get_OrderStatusHistory :: "db \<Rightarrow> int \<Rightarrow> OrderStatusHistory option" where
  "get_OrderStatusHistory d k \<equiv> t_get h_id k (histories d)"
abbreviation put_OrderStatusHistory :: "OrderStatusHistory \<Rightarrow> db \<Rightarrow> db" where
  "put_OrderStatusHistory r d \<equiv> d\<lparr>histories := t_put h_id r (histories d)\<rparr>"
abbreviation key_OrderStatusHistory :: "OrderStatusHistory \<Rightarrow> db \<Rightarrow> OrderStatusHistory" where
  "key_OrderStatusHistory r d \<equiv> r\<lparr>h_id := next_id (histories d)\<rparr>"
abbreviation add_OrderStatusHistory :: "OrderStatusHistory \<Rightarrow> db \<Rightarrow> db" where
  "add_OrderStatusHistory r d \<equiv> d\<lparr>histories := t_insert (\<lambda>i r. r\<lparr>h_id := i\<rparr>) r (histories d)\<rparr>"
abbreviation del_OrderStatusHistory :: "int \<Rightarrow> db \<Rightarrow> db" where
  "del_OrderStatusHistory k d \<equiv> d\<lparr>histories := t_delete h_id k (histories d)\<rparr>"

abbreviation get_Coupon :: "db \<Rightarrow> int \<Rightarrow> Coupon option" where
  "get_Coupon d k \<equiv> t_get cp_id k (coupons d)"
abbreviation put_Coupon :: "Coupon \<Rightarrow> db \<Rightarrow> db" where
  "put_Coupon r d \<equiv> d\<lparr>coupons := t_put cp_id r (coupons d)\<rparr>"
abbreviation key_Coupon :: "Coupon \<Rightarrow> db \<Rightarrow> Coupon" where
  "key_Coupon r d \<equiv> r\<lparr>cp_id := next_id (coupons d)\<rparr>"
abbreviation add_Coupon :: "Coupon \<Rightarrow> db \<Rightarrow> db" where
  "add_Coupon r d \<equiv> d\<lparr>coupons := t_insert (\<lambda>i r. r\<lparr>cp_id := i\<rparr>) r (coupons d)\<rparr>"
abbreviation del_Coupon :: "int \<Rightarrow> db \<Rightarrow> db" where
  "del_Coupon k d \<equiv> d\<lparr>coupons := t_delete cp_id k (coupons d)\<rparr>"

abbreviation get_Payment :: "db \<Rightarrow> int \<Rightarrow> Payment option" where
  "get_Payment d k \<equiv> t_get pay_id k (payments d)"
abbreviation put_Payment :: "Payment \<Rightarrow> db \<Rightarrow> db" where
  "put_Payment r d \<equiv> d\<lparr>payments := t_put pay_id r (payments d)\<rparr>"
abbreviation key_Payment :: "Payment \<Rightarrow> db \<Rightarrow> Payment" where
  "key_Payment r d \<equiv> r\<lparr>pay_id := next_id (payments d)\<rparr>"
abbreviation add_Payment :: "Payment \<Rightarrow> db \<Rightarrow> db" where
  "add_Payment r d \<equiv> d\<lparr>payments := t_insert (\<lambda>i r. r\<lparr>pay_id := i\<rparr>) r (payments d)\<rparr>"
abbreviation del_Payment :: "int \<Rightarrow> db \<Rightarrow> db" where
  "del_Payment k d \<equiv> d\<lparr>payments := t_delete pay_id k (payments d)\<rparr>"

abbreviation get_Invoice :: "db \<Rightarrow> int \<Rightarrow> Invoice option" where
  "get_Invoice d k \<equiv> t_get inv_id k (invoices d)"
abbreviation put_Invoice :: "Invoice \<Rightarrow> db \<Rightarrow> db" where
  "put_Invoice r d \<equiv> d\<lparr>invoices := t_put inv_id r (invoices d)\<rparr>"
abbreviation key_Invoice :: "Invoice \<Rightarrow> db \<Rightarrow> Invoice" where
  "key_Invoice r d \<equiv> r\<lparr>inv_id := next_id (invoices d)\<rparr>"
abbreviation add_Invoice :: "Invoice \<Rightarrow> db \<Rightarrow> db" where
  "add_Invoice r d \<equiv> d\<lparr>invoices := t_insert (\<lambda>i r. r\<lparr>inv_id := i\<rparr>) r (invoices d)\<rparr>"
abbreviation del_Invoice :: "int \<Rightarrow> db \<Rightarrow> db" where
  "del_Invoice k d \<equiv> d\<lparr>invoices := t_delete inv_id k (invoices d)\<rparr>"

abbreviation get_ReturnRequest :: "db \<Rightarrow> int \<Rightarrow> ReturnRequest option" where
  "get_ReturnRequest d k \<equiv> t_get rr_id k (return_requests d)"
abbreviation put_ReturnRequest :: "ReturnRequest \<Rightarrow> db \<Rightarrow> db" where
  "put_ReturnRequest r d \<equiv> d\<lparr>return_requests := t_put rr_id r (return_requests d)\<rparr>"
abbreviation key_ReturnRequest :: "ReturnRequest \<Rightarrow> db \<Rightarrow> ReturnRequest" where
  "key_ReturnRequest r d \<equiv> r\<lparr>rr_id := next_id (return_requests d)\<rparr>"
abbreviation add_ReturnRequest :: "ReturnRequest \<Rightarrow> db \<Rightarrow> db" where
  "add_ReturnRequest r d \<equiv> d\<lparr>return_requests := t_insert (\<lambda>i r. r\<lparr>rr_id := i\<rparr>) r (return_requests d)\<rparr>"
abbreviation del_ReturnRequest :: "int \<Rightarrow> db \<Rightarrow> db" where
  "del_ReturnRequest k d \<equiv> d\<lparr>return_requests := t_delete rr_id k (return_requests d)\<rparr>"

abbreviation get_CustomCakeRequest :: "db \<Rightarrow> int \<Rightarrow> CustomCakeRequest option" where
  "get_CustomCakeRequest d k \<equiv> t_get cc_id k (cake_requests d)"
abbreviation put_CustomCakeRequest :: "CustomCakeRequest \<Rightarrow> db \<Rightarrow> db" where
  "put_CustomCakeRequest r d \<equiv> d\<lparr>cake_requests := t_put cc_id r (cake_requests d)\<rparr>"
abbreviation key_CustomCakeRequest :: "CustomCakeRequest \<Rightarrow> db \<Rightarrow> CustomCakeRequest" where
  "key_CustomCakeRequest r d \<equiv> r\<lparr>cc_id := next_id (cake_requests d)\<rparr>"
abbreviation add_CustomCakeRequest :: "CustomCakeRequest \<Rightarrow> db \<Rightarrow> db" where
  "add_CustomCakeRequest r d \<equiv> d\<lparr>cake_requests := t_insert (\<lambda>i r. r\<lparr>cc_id := i\<rparr>) r (cake_requests d)\<rparr>"
abbreviation del_CustomCakeRequest :: "int \<Rightarrow> db \<Rightarrow> db" where
  "del_CustomCakeRequest k d \<equiv> d\<lparr>cake_requests := t_delete cc_id k (cake_requests d)\<rparr>"

abbreviation get_WalletAccount :: "db \<Rightarrow> int \<Rightarrow> WalletAccount option" where
  "get_WalletAccount d k \<equiv> t_get w_id k (wallets d)"
abbreviation put_WalletAccount :: "WalletAccount \<Rightarrow> db \<Rightarrow> db" where
  "put_WalletAccount r d \<equiv> d\<lparr>wallets := t_put w_id r (wallets d)\<rparr>"
abbreviation key_WalletAccount :: "WalletAccount \<Rightarrow> db \<Rightarrow> WalletAccount" where
  "key_WalletAccount r d \<equiv> r\<lparr>w_id := next_id (wallets d)\<rparr>"
abbreviation add_WalletAccount :: "WalletAccount \<Rightarrow> db \<Rightarrow> db" where
  "add_WalletAccount r d \<equiv> d\<lparr>wallets := t_insert (\<lambda>i r. r\<lparr>w_id := i\<rparr>) r (wallets d)\<rparr>"
abbreviation del_WalletAccount :: "int \<Rightarrow> db \<Rightarrow> db" where
  "del_WalletAccount k d \<equiv> d\<lparr>wallets := t_delete w_id k (wallets d)\<rparr>"

abbreviation get_WalletTxn :: "db \<Rightarrow> int \<Rightarrow> WalletTxn option" where
  "get_WalletTxn d k \<equiv> t_get wt_id k (wallet_txns d)"
abbreviation put_WalletTxn :: "WalletTxn \<Rightarrow> db \<Rightarrow> db" where
  "put_WalletTxn r d \<equiv> d\<lparr>wallet_txns := t_put wt_id r (wallet_txns d)\<rparr>"
abbreviation key_WalletTxn :: "WalletTxn \<Rightarrow> db \<Rightarrow> WalletTxn" where
  "key_WalletTxn r d \<equiv> r\<lparr>wt_id := next_id (wallet_txns d)\<rparr>"
abbreviation add_WalletTxn :: "WalletTxn \<Rightarrow> db \<Rightarrow> db" where
  "add_WalletTxn r d \<equiv> d\<lparr>wallet_txns := t_insert (\<lambda>i r. r\<lparr>wt_id := i\<rparr>) r (wallet_txns d)\<rparr>"
abbreviation del_WalletTxn :: "int \<Rightarrow> db \<Rightarrow> db" where
  "del_WalletTxn k d \<equiv> d\<lparr>wallet_txns := t_delete wt_id k (wallet_txns d)\<rparr>"

abbreviation get_LoyaltyAccount :: "db \<Rightarrow> int \<Rightarrow> LoyaltyAccount option" where
  "get_LoyaltyAccount d k \<equiv> t_get la_id k (loyalties d)"
abbreviation put_LoyaltyAccount :: "LoyaltyAccount \<Rightarrow> db \<Rightarrow> db" where
  "put_LoyaltyAccount r d \<equiv> d\<lparr>loyalties := t_put la_id r (loyalties d)\<rparr>"
abbreviation key_LoyaltyAccount :: "LoyaltyAccount \<Rightarrow> db \<Rightarrow> LoyaltyAccount" where
  "key_LoyaltyAccount r d \<equiv> r\<lparr>la_id := next_id (loyalties d)\<rparr>"
abbreviation add_LoyaltyAccount :: "LoyaltyAccount \<Rightarrow> db \<Rightarrow> db" where
  "add_LoyaltyAccount r d \<equiv> d\<lparr>loyalties := t_insert (\<lambda>i r. r\<lparr>la_id := i\<rparr>) r (loyalties d)\<rparr>"
abbreviation del_LoyaltyAccount :: "int \<Rightarrow> db \<Rightarrow> db" where
  "del_LoyaltyAccount k d \<equiv> d\<lparr>loyalties := t_delete la_id k (loyalties d)\<rparr>"

abbreviation get_ReferralCode :: "db \<Rightarrow> int \<Rightarrow> ReferralCode option" where
  "get_ReferralCode d k \<equiv> t_get rc_id k (referrals d)"
abbreviation put_ReferralCode :: "ReferralCode \<Rightarrow> db \<Rightarrow> db" where
  "put_ReferralCode r d \<equiv> d\<lparr>referrals := t_put rc_id r (referrals d)\<rparr>"
abbreviation key_ReferralCode :: "ReferralCode \<Rightarrow> db \<Rightarrow> ReferralCode" where
  "key_ReferralCode r d \<equiv> r\<lparr>rc_id := next_id (referrals d)\<rparr>"
abbreviation add_ReferralCode :: "ReferralCode \<Rightarrow> db \<Rightarrow> db" where
  "add_ReferralCode r d \<equiv> d\<lparr>referrals := t_insert (\<lambda>i r. r\<lparr>rc_id := i\<rparr>) r (referrals d)\<rparr>"
abbreviation del_ReferralCode :: "int \<Rightarrow> db \<Rightarrow> db" where
  "del_ReferralCode k d \<equiv> d\<lparr>referrals := t_delete rc_id k (referrals d)\<rparr>"

abbreviation get_SubscriptionPlan :: "db \<Rightarrow> int \<Rightarrow> SubscriptionPlan option" where
  "get_SubscriptionPlan d k \<equiv> t_get pl_id k (plans d)"
abbreviation put_SubscriptionPlan :: "SubscriptionPlan \<Rightarrow> db \<Rightarrow> db" where
  "put_SubscriptionPlan r d \<equiv> d\<lparr>plans := t_put pl_id r (plans d)\<rparr>"
abbreviation key_SubscriptionPlan :: "SubscriptionPlan \<Rightarrow> db \<Rightarrow> SubscriptionPlan" where
  "key_SubscriptionPlan r d \<equiv> r\<lparr>pl_id := next_id (plans d)\<rparr>"
abbreviation add_SubscriptionPlan :: "SubscriptionPlan \<Rightarrow> db \<Rightarrow> db" where
  "add_SubscriptionPlan r d \<equiv> d\<lparr>plans := t_insert (\<lambda>i r. r\<lparr>pl_id := i\<rparr>) r (plans d)\<rparr>"
abbreviation del_SubscriptionPlan :: "int \<Rightarrow> db \<Rightarrow> db" where
  "del_SubscriptionPlan k d \<equiv> d\<lparr>plans := t_delete pl_id k (plans d)\<rparr>"

abbreviation get_UserSubscription :: "db \<Rightarrow> int \<Rightarrow> UserSubscription option" where
  "get_UserSubscription d k \<equiv> t_get us_id k (subscriptions d)"
abbreviation put_UserSubscription :: "UserSubscription \<Rightarrow> db \<Rightarrow> db" where
  "put_UserSubscription r d \<equiv> d\<lparr>subscriptions := t_put us_id r (subscriptions d)\<rparr>"
abbreviation key_UserSubscription :: "UserSubscription \<Rightarrow> db \<Rightarrow> UserSubscription" where
  "key_UserSubscription r d \<equiv> r\<lparr>us_id := next_id (subscriptions d)\<rparr>"
abbreviation add_UserSubscription :: "UserSubscription \<Rightarrow> db \<Rightarrow> db" where
  "add_UserSubscription r d \<equiv> d\<lparr>subscriptions := t_insert (\<lambda>i r. r\<lparr>us_id := i\<rparr>) r (subscriptions d)\<rparr>"
abbreviation del_UserSubscription :: "int \<Rightarrow> db \<Rightarrow> db" where
  "del_UserSubscription k d \<equiv> d\<lparr>subscriptions := t_delete us_id k (subscriptions d)\<rparr>"

abbreviation get_CorporateInquiry :: "db \<Rightarrow> int \<Rightarrow> CorporateInquiry option" where
  "get_CorporateInquiry d k \<equiv> t_get co_id k (inquiries d)"
abbreviation put_CorporateInquiry :: "CorporateInquiry \<Rightarrow> db \<Rightarrow> db" where
  "put_CorporateInquiry r d \<equiv> d\<lparr>inquiries := t_put co_id r (inquiries d)\<rparr>"
abbreviation key_CorporateInquiry :: "CorporateInquiry \<Rightarrow> db \<Rightarrow> CorporateInquiry" where
  "key_CorporateInquiry r d \<equiv> r\<lparr>co_id := next_id (inquiries d)\<rparr>"
abbreviation add_CorporateInquiry :: "CorporateInquiry \<Rightarrow> db \<Rightarrow> db" where
  "add_CorporateInquiry r d \<equiv> d\<lparr>inquiries := t_insert (\<lambda>i r. r\<lparr>co_id := i\<rparr>) r (inquiries d)\<rparr>"
abbreviation del_CorporateInquiry :: "int \<Rightarrow> db \<Rightarrow> db" where
  "del_CorporateInquiry k d \<equiv> d\<lparr>inquiries := t_delete co_id k (inquiries d)\<rparr>"

abbreviation get_ShareTrackLink :: "db \<Rightarrow> int \<Rightarrow> ShareTrackLink option" where
  "get_ShareTrackLink d k \<equiv> t_get sl_id k (share_links d)"
abbreviation put_ShareTrackLink :: "ShareTrackLink \<Rightarrow> db \<Rightarrow> db" where
  "put_ShareTrackLink r d \<equiv> d\<lparr>share_links := t_put sl_id r (share_links d)\<rparr>"
abbreviation key_ShareTrackLink :: "ShareTrackLink \<Rightarrow> db \<Rightarrow> ShareTrackLink" where
  "key_ShareTrackLink r d \<equiv> r\<lparr>sl_id := next_id (share_links d)\<rparr>"
abbreviation add_ShareTrackLink :: "ShareTrackLink \<Rightarrow> db \<Rightarrow> db" where
  "add_ShareTrackLink r d \<equiv> d\<lparr>share_links := t_insert (\<lambda>i r. r\<lparr>sl_id := i\<rparr>) r (share_links d)\<rparr>"
abbreviation del_ShareTrackLink :: "int \<Rightarrow> db \<Rightarrow> db" where
  "del_ShareTrackLink k d \<equiv> d\<lparr>share_links := t_delete sl_id k (share_links d)\<rparr>"

abbreviation get_CreditLedgerEntry :: "db \<Rightarrow> int \<Rightarrow> CreditLedgerEntry option" where
  "get_CreditLedgerEntry d k \<equiv> t_get le_id k (ledger_entries d)"
abbreviation put_CreditLedgerEntry :: "CreditLedgerEntry \<Rightarrow> db \<Rightarrow> db" where
  "put_CreditLedgerEntry r d \<equiv> d\<lparr>ledger_entries := t_put le_id r (ledger_entries d)\<rparr>"
abbreviation key_CreditLedgerEntry :: "CreditLedgerEntry \<Rightarrow> db \<Rightarrow> CreditLedgerEntry" where
  "key_CreditLedgerEntry r d \<equiv> r\<lparr>le_id := next_id (ledger_entries d)\<rparr>"
abbreviation add_CreditLedgerEntry :: "CreditLedgerEntry \<Rightarrow> db \<Rightarrow> db" where
  "add_CreditLedgerEntry r d \<equiv> d\<lparr>ledger_entries := t_insert (\<lambda>i r. r\<lparr>le_id := i\<rparr>) r (ledger_entries d)\<rparr>"
abbreviation del_CreditLedgerEntry :: "int \<Rightarrow> db \<Rightarrow> db" where
  "del_CreditLedgerEntry k d \<equiv> d\<lparr>ledger_entries := t_delete le_id k (ledger_entries d)\<rparr>"

abbreviation get_SupplierPurchase :: "db \<Rightarrow> int \<Rightarrow> SupplierPurchase option" where
  "get_SupplierPurchase d k \<equiv> t_get po_id k (purchases d)"
abbreviation put_SupplierPurchase :: "SupplierPurchase \<Rightarrow> db \<Rightarrow> db" where
  "put_SupplierPurchase r d \<equiv> d\<lparr>purchases := t_put po_id r (purchases d)\<rparr>"
abbreviation key_SupplierPurchase :: "SupplierPurchase \<Rightarrow> db \<Rightarrow> SupplierPurchase" where
  "key_SupplierPurchase r d \<equiv> r\<lparr>po_id := next_id (purchases d)\<rparr>"
abbreviation add_SupplierPurchase :: "SupplierPurchase \<Rightarrow> db \<Rightarrow> db" where
  "add_SupplierPurchase r d \<equiv> d\<lparr>purchases := t_insert (\<lambda>i r. r\<lparr>po_id := i\<rparr>) r (purchases d)\<rparr>"
abbreviation del_SupplierPurchase :: "int \<Rightarrow> db \<Rightarrow> db" where
  "del_SupplierPurchase k d \<equiv> d\<lparr>purchases := t_delete po_id k (purchases d)\<rparr>"

abbreviation get_Notification :: "db \<Rightarrow> int \<Rightarrow> Notification option" where
  "get_Notification d k \<equiv> t_get n_id k (notifications d)"
abbreviation put_Notification :: "Notification \<Rightarrow> db \<Rightarrow> db" where
  "put_Notification r d \<equiv> d\<lparr>notifications := t_put n_id r (notifications d)\<rparr>"
abbreviation key_Notification :: "Notification \<Rightarrow> db \<Rightarrow> Notification" where
  "key_Notification r d \<equiv> r\<lparr>n_id := next_id (notifications d)\<rparr>"
abbreviation add_Notification :: "Notification \<Rightarrow> db \<Rightarrow> db" where
  "add_Notification r d \<equiv> d\<lparr>notifications := t_insert (\<lambda>i r. r\<lparr>n_id := i\<rparr>) r (notifications d)\<rparr>"
abbreviation del_Notification :: "int \<Rightarrow> db \<Rightarrow> db" where
  "del_Notification k d \<equiv> d\<lparr>notifications := t_delete n_id k (notifications d)\<rparr>"

abbreviation get_BakerySettings :: "db \<Rightarrow> int \<Rightarrow> BakerySettings option" where
  "get_BakerySettings d k \<equiv> t_get bs_id k (settings_rows d)"
abbreviation put_BakerySettings :: "BakerySettings \<Rightarrow> db \<Rightarrow> db" where
  "put_BakerySettings r d \<equiv> d\<lparr>settings_rows := t_put bs_id r (settings_rows d)\<rparr>"
abbreviation key_BakerySettings :: "BakerySettings \<Rightarrow> db \<Rightarrow> BakerySettings" where
  "key_BakerySettings r d \<equiv> r\<lparr>bs_id := next_id (settings_rows d)\<rparr>"
abbreviation add_BakerySettings :: "BakerySettings \<Rightarrow> db \<Rightarrow> db" where
  "add_BakerySettings r d \<equiv> d\<lparr>settings_rows := t_insert (\<lambda>i r. r\<lparr>bs_id := i\<rparr>) r (settings_rows d)\<rparr>"
abbreviation del_BakerySettings :: "int \<Rightarrow> db \<Rightarrow> db" where
  "del_BakerySettings k d \<equiv> d\<lparr>settings_rows := t_delete bs_id k (settings_rows d)\<rparr>"

abbreviation get_DeliveryPerson :: "db \<Rightarrow> int \<Rightarrow> DeliveryPerson option" where
  "get_DeliveryPerson d k \<equiv> t_get dp_id k (riders d)"
abbreviation put_DeliveryPerson :: "DeliveryPerson \<Rightarrow> db \<Rightarrow> db" where
  "put_DeliveryPerson r d \<equiv> d\<lparr>riders := t_put dp_id r (riders d)\<rparr>"
abbreviation key_DeliveryPerson :: "DeliveryPerson \<Rightarrow> db \<Rightarrow> DeliveryPerson" where
  "key_DeliveryPerson r d \<equiv> r\<lparr>dp_id := next_id (riders d)\<rparr>"
abbreviation add_DeliveryPerson :: "DeliveryPerson \<Rightarrow> db \<Rightarrow> db" where
  "add_DeliveryPerson r d \<equiv> d\<lparr>riders := t_insert (\<lambda>i r. r\<lparr>dp_id := i\<rparr>) r (riders d)\<rparr>"
abbreviation del_DeliveryPerson :: "int \<Rightarrow> db \<Rightarrow> db" where
  "del_DeliveryPerson k d \<equiv> d\<lparr>riders := t_delete dp_id k (riders d)\<rparr>"

abbreviation get_DeliveryTracking :: "db \<Rightarrow> int \<Rightarrow> DeliveryTracking option" where
  "get_DeliveryTracking d k \<equiv> t_get dt_id k (trackings d)"
abbreviation put_DeliveryTracking :: "DeliveryTracking \<Rightarrow> db \<Rightarrow> db" where
  "put_DeliveryTracking r d \<equiv> d\<lparr>trackings := t_put dt_id r (trackings d)\<rparr>"
abbreviation key_DeliveryTracking :: "DeliveryTracking \<Rightarrow> db \<Rightarrow> DeliveryTracking" where
  "key_DeliveryTracking r d \<equiv> r\<lparr>dt_id := next_id (trackings d)\<rparr>"
abbreviation add_DeliveryTracking :: "DeliveryTracking \<Rightarrow> db \<Rightarrow> db" where
  "add_DeliveryTracking r d \<equiv> d\<lparr>trackings := t_insert (\<lambda>i r. r\<lparr>dt_id := i\<rparr>) r (trackings d)\<rparr>"
abbreviation del_DeliveryTracking :: "int \<Rightarrow> db \<Rightarrow> db" where
  "del_DeliveryTracking k d \<equiv> d\<lparr>trackings := t_delete dt_id k (trackings d)\<rparr>"

abbreviation get_Banner :: "db \<Rightarrow> int \<Rightarrow> Banner option" where
  "get_Banner d k \<equiv> t_get bn_id k (banners d)"
abbreviation put_Banner :: "Banner \<Rightarrow> db \<Rightarrow> db" where
  "put_Banner r d \<equiv> d\<lparr>banners := t_put bn_id r (banners d)\<rparr>"
abbreviation key_Banner :: "Banner \<Rightarrow> db \<Rightarrow> Banner" where
  "key_Banner r d \<equiv> r\<lparr>bn_id := next_id (banners d)\<rparr>"
abbreviation add_Banner :: "Banner \<Rightarrow> db \<Rightarrow> db" where
  "add_Banner r d \<equiv> d\<lparr>banners := t_insert (\<lambda>i r. r\<lparr>bn_id := i\<rparr>) r (banners d)\<rparr>"
abbreviation del_Banner :: "int \<Rightarrow> db \<Rightarrow> db" where
  "del_Banner k d \<equiv> d\<lparr>banners := t_delete bn_id k (banners d)\<rparr>"

definition empty_db :: db where
  "empty_db = \<lparr>users = t_empty, profiles = t_empty, addresses = t_empty, categories = t_empty, products = t_empty, stock_movements = t_empty, carts = t_empty, cart_items = t_empty, orders = t_empty, order_items = t_empty, histories = t_empty, coupons = t_empty, payments = t_empty, invoices = t_empty, return_requests = t_empty, cake_requests = t_empty, wallets = t_empty, wallet_txns = t_empty, loyalties = t_empty, referrals = t_empty, plans = t_empty, subscriptions = t_empty, inquiries = t_empty, share_links = t_empty, ledger_entries = t_empty, purchases = t_empty, notifications = t_empty, settings_rows = t_empty, riders = t_empty, trackings = t_empty, banners = t_empty, outbox = []\<rparr>"

definition db_wf :: "db \<Rightarrow> bool" where
  "db_wf d \<longleftrightarrow>
     t_wf u_id (users d) \<and>
     t_wf rp_id (profiles d) \<and>
     t_wf ad_id (addresses d) \<and>
     t_wf cat_id (categories d) \<and>
     t_wf p_id (products d) \<and>
     t_wf sm_id (stock_movements d) \<and>
     t_wf ct_id (carts d) \<and>
     t_wf ci_id (cart_items d) \<and>
     t_wf o_id (orders d) \<and>
     t_wf oi_id (order_items d) \<and>
     t_wf h_id (histories d) \<and>
     t_wf cp_id (coupons d) \<and>
     t_wf pay_id (payments d) \<and>
     t_wf inv_id (invoices d) \<and>
     t_wf rr_id (return_requests d) \<and>
     t_wf cc_id (cake_requests d) \<and>
     t_wf w_id (wallets d) \<and>
     t_wf wt_id (wallet_txns d) \<and>
     t_wf la_id (loyalties d) \<and>
     t_wf rc_id (referrals d) \<and>
     t_wf pl_id (plans d) \<and>
     t_wf us_id (subscriptions d) \<and>
     t_wf co_id (inquiries d) \<and>
     t_wf sl_id (share_links d) \<and>
     t_wf le_id (ledger_entries d) \<and>
     t_wf po_id (purchases d) \<and>
     t_wf n_id (notifications d) \<and>
     t_wf bs_id (settings_rows d) \<and>
     t_wf dp_id (riders d) \<and>
     t_wf dt_id (trackings d) \<and>
     t_wf bn_id (banners d)"

lemma db_wf_empty: "db_wf empty_db"
  by (simp add: db_wf_def empty_db_def)

text \<open>Replacing one table by a well-formed one keeps the database well formed.\<close>

lemma db_wf_tables:
  assumes "db_wf d"
  shows "t_wf u_id (users d)"
    "t_wf rp_id (profiles d)"
    "t_wf ad_id (addresses d)"
    "t_wf cat_id (categories d)"
    "t_wf p_id (products d)"
    "t_wf sm_id (stock_movements d)"
    "t_wf ct_id (carts d)"
    "t_wf ci_id (cart_items d)"
    "t_wf o_id (orders d)"
    "t_wf oi_id (order_items d)"
    "t_wf h_id (histories d)"
    "t_wf cp_id (coupons d)"
    "t_wf pay_id (payments d)"
    "t_wf inv_id (invoices d)"
    "t_wf rr_id (return_requests d)"
    "t_wf cc_id (cake_requests d)"
    "t_wf w_id (wallets d)"
    "t_wf wt_id (wallet_txns d)"
    "t_wf la_id (loyalties d)"
    "t_wf rc_id (referrals d)"
    "t_wf pl_id (plans d)"
    "t_wf us_id (subscriptions d)"
    "t_wf co_id (inquiries d)"
    "t_wf sl_id (share_links d)"
    "t_wf le_id (ledger_entries d)"
    "t_wf po_id (purchases d)"
    "t_wf n_id (notifications d)"
    "t_wf bs_id (settings_rows d)"
    "t_wf dp_id (riders d)"
    "t_wf dt_id (trackings d)"
    "t_wf bn_id (banners d)"
  using assms by (simp_all only: db_wf_def)

lemma db_wf_update [simp]:
  assumes "db_wf d"
  shows "t_wf u_id t0 \<Longrightarrow> db_wf (d\<lparr>users := t0\<rparr>)"
    "t_wf rp_id t1 \<Longrightarrow> db_wf (d\<lparr>profiles := t1\<rparr>)"
    "t_wf ad_id t2 \<Longrightarrow> db_wf (d\<lparr>addresses := t2\<rparr>)"
    "t_wf cat_id t3 \<Longrightarrow> db_wf (d\<lparr>categories := t3\<rparr>)"
    "t_wf p_id t4 \<Longrightarrow> db_wf (d\<lparr>products := t4\<rparr>)"
    "t_wf sm_id t5 \<Longrightarrow> db_wf (d\<lparr>stock_movements := t5\<rparr>)"
    "t_wf ct_id t6 \<Longrightarrow> db_wf (d\<lparr>carts := t6\<rparr>)"
    "t_wf ci_id t7 \<Longrightarrow> db_wf (d\<lparr>cart_items := t7\<rparr>)"
    "t_wf o_id t8 \<Longrightarrow> db_wf (d\<lparr>orders := t8\<rparr>)"
    "t_wf oi_id t9 \<Longrightarrow> db_wf (d\<lparr>order_items := t9\<rparr>)"
    "t_wf h_id t10 \<Longrightarrow> db_wf (d\<lparr>histories := t10\<rparr>)"
    "t_wf cp_id t11 \<Longrightarrow> db_wf (d\<lparr>coupons := t11\<rparr>)"
    "t_wf pay_id t12 \<Longrightarrow> db_wf (d\<lparr>payments := t12\<rparr>)"
    "t_wf inv_id t13 \<Longrightarrow> db_wf (d\<lparr>invoices := t13\<rparr>)"
    "t_wf rr_id t14 \<Longrightarrow> db_wf (d\<lparr>return_requests := t14\<rparr>)"
    "t_wf cc_id t15 \<Longrightarrow> db_wf (d\<lparr>cake_requests := t15\<rparr>)"
    "t_wf w_id t16 \<Longrightarrow> db_wf (d\<lparr>wallets := t16\<rparr>)"
    "t_wf wt_id t17 \<Longrightarrow> db_wf (d\<lparr>wallet_txns := t17\<rparr>)"
    "t_wf la_id t18 \<Longrightarrow> db_wf (d\<lparr>loyalties := t18\<rparr>)"
    "t_wf rc_id t19 \<Longrightarrow> db_wf (d\<lparr>referrals := t19\<rparr>)"
    "t_wf pl_id t20 \<Longrightarrow> db_wf (d\<lparr>plans := t20\<rparr>)"
    "t_wf us_id t21 \<Longrightarrow> db_wf (d\<lparr>subscriptions := t21\<rparr>)"
    "t_wf co_id t22 \<Longrightarrow> db_wf (d\<lparr>inquiries := t22\<rparr>)"
    "t_wf sl_id t23 \<Longrightarrow> db_wf (d\<lparr>share_links := t23\<rparr>)"
    "t_wf le_id t24 \<Longrightarrow> db_wf (d\<lparr>ledger_entries := t24\<rparr>)"
    "t_wf po_id t25 \<Longrightarrow> db_wf (d\<lparr>purchases := t25\<rparr>)"
    "t_wf n_id t26 \<Longrightarrow> db_wf (d\<lparr>notifications := t26\<rparr>)"
    "t_wf bs_id t27 \<Longrightarrow> db_wf (d\<lparr>settings_rows := t27\<rparr>)"
    "t_wf dp_id t28 \<Longrightarrow> db_wf (d\<lparr>riders := t28\<rparr>)"
    "t_wf dt_id t29 \<Longrightarrow> db_wf (d\<lparr>trackings := t29\<rparr>)"
    "t_wf bn_id t30 \<Longrightarrow> db_wf (d\<lparr>banners := t30\<rparr>)"
    "db_wf (d\<lparr>outbox := ob\<rparr>)"
  using assms by (simp_all add: db_wf_def)

declare db_wf_tables [simp]

end
