(* ===== verification/Errors.thy ===== *)
theory Errors
  imports Prelude
begin

text \<open>
  The error hierarchy of \<open>package/common/errors.py\<close> and its mapping to HTTP responses.  An
  operation that can raise returns a value of \<open>exc + 'a\<close>: \<open>Inl\<close> for a raised exception,
  \<open>Inr\<close> for a result.  Operations on the database return the database too; after
  \<open>Inl\<close> it is the last committed state, since the session rolls the rest back.
\<close>

text \<open>
  The detail of an error is a text or, where an f-string ends in a float printed with Python's
  shortest representation, the text before it and the float.
\<close>

datatype detail = Msg string | MsgFloat string rat

record AppError =
  ae_detail :: detail
  ae_status_code :: int
  ae_code :: string

datatype exc = AppExc AppError
  | HTTPExc int string \<comment> \<open>\<open>fastapi.HTTPException(status_code, detail)\<close>\<close>
  | PyExc string \<comment> \<open>any other Python exception, by class name\<close>

definition NotFoundError :: "detail \<Rightarrow> AppError" where
  "NotFoundError d = \<lparr>ae_detail = d, ae_status_code = 404, ae_code = ''not_found''\<rparr>"
definition UnauthorizedError :: "detail \<Rightarrow> AppError" where
  "UnauthorizedError d = \<lparr>ae_detail = d, ae_status_code = 401, ae_code = ''unauthorized''\<rparr>"
definition ForbiddenError :: "detail \<Rightarrow> AppError" where
  "ForbiddenError d = \<lparr>ae_detail = d, ae_status_code = 403, ae_code = ''forbidden''\<rparr>"
definition ConflictError :: "detail \<Rightarrow> AppError" where
  "ConflictError d = \<lparr>ae_detail = d, ae_status_code = 409, ae_code = ''conflict''\<rparr>"
definition RateLimitError :: "detail \<Rightarrow> AppError" where
  "RateLimitError d = \<lparr>ae_detail = d, ae_status_code = 429, ae_code = ''rate_limited''\<rparr>"
definition ServiceUnavailableError :: "detail \<Rightarrow> AppError" where
  "ServiceUnavailableError d = \<lparr>ae_detail = d, ae_status_code = 503, ae_code = ''unavailable''\<rparr>"
definition BadRequestError :: "detail \<Rightarrow> AppError" where
  "BadRequestError d = \<lparr>ae_detail = d, ae_status_code = 400, ae_code = ''bad_request''\<rparr>"
definition BadGatewayError :: "detail \<Rightarrow> AppError" where
  "BadGatewayError d = \<lparr>ae_detail = d, ae_status_code = 502, ae_code = ''bad_gateway''\<rparr>"

abbreviation not_found :: "string \<Rightarrow> exc" where "not_found m \<equiv> AppExc (NotFoundError (Msg m))"
abbreviation bad_request :: "string \<Rightarrow> exc" where "bad_request m \<equiv> AppExc (BadRequestError (Msg m))"
abbreviation forbidden :: "string \<Rightarrow> exc" where "forbidden m \<equiv> AppExc (ForbiddenError (Msg m))"
abbreviation conflict :: "string \<Rightarrow> exc" where "conflict m \<equiv> AppExc (ConflictError (Msg m))"
abbreviation unauthorized :: "string \<Rightarrow> exc" where
  "unauthorized m \<equiv> AppExc (UnauthorizedError (Msg m))"
abbreviation unavailable :: "string \<Rightarrow> exc" where
  "unavailable m \<equiv> AppExc (ServiceUnavailableError (Msg m))"

section \<open>Responses\<close>

text \<open>The status and error code of the JSON envelope each handler of
  \<open>register_exception_handlers\<close> answers with.\<close>

definition http_exc_code :: "int \<Rightarrow> string" where
  "http_exc_code st =
     (case map_of [(401, ''unauthorized''), (403, ''forbidden''), (404, ''not_found''),
        (409, ''conflict''), (429, ''rate_limited''), (503, ''unavailable'')] st of
        Some c \<Rightarrow> c | None \<Rightarrow> ''http_error'')"

definition map_db_error :: "string \<Rightarrow> int \<times> string \<times> string" where
  "map_db_error cls =
     (if cls = ''IntegrityError'' then (409, ''integrity_error'', ''Database constraint violated'')
      else if cls = ''OperationalError'' then (503, ''database_unavailable'', ''Database unavailable'')
      else (500, ''database_error'', ''Database error''))"

definition sqlalchemy_classes :: "string list" where
  "sqlalchemy_classes = [''IntegrityError'', ''OperationalError'', ''SQLAlchemyError'']"

definition error_response :: "exc \<Rightarrow> int \<times> string" where
  "error_response e = (case e of
       AppExc a \<Rightarrow> (ae_status_code a, ae_code a)
     | HTTPExc st d \<Rightarrow> (st, http_exc_code st)
     | PyExc cls \<Rightarrow>
         (if cls = ''RequestValidationError'' then (422, ''validation_error'')
          else if cls \<in> set sqlalchemy_classes
          then (let (st, c, d) = map_db_error cls in (st, c))
          else (500, ''internal_error'')))"

lemma error_response_app [simp]:
  "error_response (not_found m) = (404, ''not_found'')"
  "error_response (bad_request m) = (400, ''bad_request'')"
  "error_response (forbidden m) = (403, ''forbidden'')"
  "error_response (conflict m) = (409, ''conflict'')"
  "error_response (unauthorized m) = (401, ''unauthorized'')"
  "error_response (unavailable m) = (503, ''unavailable'')"
  by (simp_all add: error_response_def NotFoundError_def BadRequestError_def ForbiddenError_def
      ConflictError_def UnauthorizedError_def ServiceUnavailableError_def)

end
