(* ===== verification/Helpers.thy ===== *)
theory Helpers
  imports Schema Errors
begin

text \<open>
  \<open>package/common/utils/helpers.py\<close>: stock status, GST and discount arithmetic, slugs, the
  generated numbers; and the formatting of floats in messages.  \<open>secrets.choice\<close> and the date
  stamp are arguments.  \<open>haversine_km\<close> (trigonometric library functions) is not modelled.
\<close>

section \<open>Formatting floats\<close>

text \<open>\<open>f"{x:.0f}"\<close> and \<open>f"{x:.2f}"\<close>: correctly rounded decimals, half to even.\<close>

definition fmt0 :: "rat \<Rightarrow> string" where
  "fmt0 x = (if x < 0 then ''-'' else []) @ show_nat (nat \<bar>rne x\<bar>)"

definition fmt2 :: "rat \<Rightarrow> string" where
  "fmt2 x = (let n = nat \<bar>rne (x * 100)\<bar> in
     (if x < 0 then ''-'' else []) @ show_nat (n div 100) @ ''.'' @ pad_nat 2 (n mod 100))"

section \<open>Stock status\<close>

definition stock_status_for :: "int \<Rightarrow> int \<Rightarrow> string" where
  "stock_status_for qty threshold =
     (if qty \<le> 0 then ''out_of_stock''
      else if qty \<le> threshold then ''low_stock''
      else ''in_stock'')"

text \<open>\<open>StockStatus(stock_status_for(...))\<close>; the lookup always succeeds.\<close>

definition to_stock_status :: "string \<Rightarrow> StockStatus" where
  "to_stock_status s = (case enum_of StockStatus_value StockStatus_members s of
     Some st \<Rightarrow> st | None \<Rightarrow> SS_IN_STOCK)"

lemma stock_status_for_parses:
  "\<exists>st. enum_of StockStatus_value StockStatus_members (stock_status_for q t) = Some st
     \<and> StockStatus_value st = stock_status_for q t"
  by (auto simp: stock_status_for_def StockStatus_enum.of_Some_iff
      intro: exI [of _ SS_OUT_OF_STOCK] exI [of _ SS_LOW_STOCK] exI [of _ SS_IN_STOCK])

lemma to_stock_status_cases:
  "to_stock_status (stock_status_for q t) =
     (if q \<le> 0 then SS_OUT_OF_STOCK else if q \<le> t then SS_LOW_STOCK else SS_IN_STOCK)"
  using StockStatus_enum.of_value [of SS_OUT_OF_STOCK] StockStatus_enum.of_value [of SS_LOW_STOCK]
    StockStatus_enum.of_value [of SS_IN_STOCK]
  by (simp add: to_stock_status_def stock_status_for_def)

section \<open>GST and discount\<close>

definition calc_discount :: "rat option \<Rightarrow> rat \<Rightarrow> rat" where
  "calc_discount original selling =
     (case original of None \<Rightarrow> 0
      | Some orig \<Rightarrow> if orig = 0 \<or> orig \<le> selling then 0
                   else round_dec 1 (fmul (fdiv (fsub orig selling) orig) 100))"

definition calc_gst :: "rat \<Rightarrow> rat \<Rightarrow> rat" where
  "calc_gst amount rate = round2 (fdiv (fmul amount rate) (fadd 100 rate))"

text \<open>The GST contained in a tax-inclusive amount is between 0 and the amount.\<close>

lemma fdiv_le_left: "0 \<le> x \<Longrightarrow> 1 \<le> y \<Longrightarrow> is_double x \<Longrightarrow> fdiv x y \<le> x"
proof -
  assume a: "0 \<le> x" "1 \<le> y" "is_double x"
  then have "x / y \<le> x / 1" by (intro divide_left_mono) auto
  with a show ?thesis by (simp add: fdiv_def fl_le_double)
qed

lemma is_double_int: "\<bar>n\<bar> \<le> 2 ^ 53 \<Longrightarrow> is_double (of_int n)"
  by (simp add: is_double_def fl_of_int)

lemma calc_discount_range:
  assumes "0 \<le> selling" "\<And>orig. original = Some orig \<Longrightarrow> is_double orig \<and> 0 \<le> orig"
  shows "0 \<le> calc_discount original selling \<and> calc_discount original selling \<le> 100"
proof (cases original)
  case (Some orig)
  show ?thesis
  proof (cases "orig = 0 \<or> orig \<le> selling")
    case False
    with Some assms have o: "0 < orig" "selling < orig" "is_double orig" by auto
    have d: "0 \<le> fsub orig selling" "fsub orig selling \<le> orig"
      using o assms(1) by (simp add: fsub_nonneg) (use o assms(1) in \<open>simp add: fsub_def fl_le_double\<close>)
    have "fdiv (fsub orig selling) orig \<le> 1"
      using d o is_double_int [of 1] by (simp add: fdiv_def fl_le_double)
    then have p: "fmul (fdiv (fsub orig selling) orig) 100 \<le> 100"
      using is_double_int [of 100] by (simp add: fmul_def fl_le_double)
    have q: "0 \<le> fmul (fdiv (fsub orig selling) orig) 100"
      using d o by (intro fmul_nonneg fdiv_nonneg) auto
    define y where "y = fmul (fdiv (fsub orig selling) orig) 100"
    have "rne (y * 10 ^ 1) \<le> rne (of_int 1000)" "rne (of_int 0) \<le> rne (y * 10 ^ 1)"
      using p q by (auto simp: y_def [symmetric] intro!: rne_mono simp del: rne_of_int rne_zero of_int_0 of_int_numeral)
    then have "rne (y * 10 ^ 1) \<le> 1000" "0 \<le> rne (y * 10 ^ 1)" by (simp_all only: rne_of_int)
    then have "0 \<le> round_dec 1 y \<and> round_dec 1 y \<le> 100"
      using is_double_int [of 100] by (simp add: round_dec_def fl_nonneg fl_le_double)
    then show ?thesis using False Some by (simp add: calc_discount_def y_def)
  qed (use Some in \<open>simp add: calc_discount_def\<close>)
qed (simp add: calc_discount_def)

section \<open>Generated numbers\<close>

definition generate_order_number :: "string \<Rightarrow> string \<Rightarrow> string" where
  "generate_order_number stamp suffix = ''SC'' @ stamp @ suffix"

definition generate_invoice_number :: "string \<Rightarrow> string \<Rightarrow> string \<Rightarrow> string" where
  "generate_invoice_number prefix stamp suffix =
     (let p = (if prefix = [] then ''INV'' else prefix);
          t = take 8 (str_upper (strip p));
          tag = (if t = [] then ''INV'' else t)
      in tag @ ''-'' @ stamp @ ''-'' @ suffix)"

definition generate_txn_id :: "string \<Rightarrow> string \<Rightarrow> string" where
  "generate_txn_id prefix hex = prefix @ str_upper hex"

section \<open>Slugs\<close>

text \<open>\<open>re.sub\<close> with the classes \<open>[^\w\s-]\<close> and \<open>[\s_-]+\<close>, on ASCII text.\<close>

definition is_word_char :: "char \<Rightarrow> bool" where
  "is_word_char c \<longleftrightarrow> is_digit_char c \<or> (65 \<le> char_code c \<and> char_code c \<le> 90)
     \<or> (97 \<le> char_code c \<and> char_code c \<le> 122) \<or> c = CHR ''_''"

definition is_sep_char :: "char \<Rightarrow> bool" where
  "is_sep_char c \<longleftrightarrow> is_space c \<or> c = CHR ''_'' \<or> c = CHR ''-''"

text \<open>Every maximal run of separators becomes one hyphen.\<close>

fun collapse_seps :: "string \<Rightarrow> string" where
  "collapse_seps [] = []"
| "collapse_seps [c] = (if is_sep_char c then ''-'' else [c])"
| "collapse_seps (c # d # cs) =
     (if is_sep_char c then (if is_sep_char d then collapse_seps (d # cs) else CHR ''-'' # collapse_seps (d # cs))
      else c # collapse_seps (d # cs))"

definition slugify :: "string \<Rightarrow> string" where
  "slugify value =
     (let v1 = strip (str_lower value);
          v2 = filter (\<lambda>c. is_word_char c \<or> is_space c \<or> c = CHR ''-'') v1;
          v3 = collapse_seps v2
      in take 200 (strip_chars ''-'' v3))"

text \<open>The characters a slug may have, and no two adjacent hyphens.\<close>

definition slug_char :: "char \<Rightarrow> bool" where
  "slug_char c \<longleftrightarrow> is_digit_char c \<or> (97 \<le> char_code c \<and> char_code c \<le> 122) \<or> c = CHR ''-''"

fun no_double_hyphen :: "string \<Rightarrow> bool" where
  "no_double_hyphen (c # d # cs) = (\<not> (c = CHR ''-'' \<and> d = CHR ''-'') \<and> no_double_hyphen (d # cs))"
| "no_double_hyphen _ = True"

lemma collapse_seps_set:
  "c \<in> set (collapse_seps s) \<Longrightarrow> c = CHR ''-'' \<or> (c \<in> set s \<and> \<not> is_sep_char c)"
  by (induction s rule: collapse_seps.induct) (auto split: if_splits)

lemma collapse_seps_hd:
  "collapse_seps (d # cs) \<noteq> [] \<and> (\<not> is_sep_char d \<longrightarrow> hd (collapse_seps (d # cs)) = d)"
  by (induction "d # cs" arbitrary: d cs rule: collapse_seps.induct) auto

lemma no_double_hyphen_Cons:
  "no_double_hyphen (c # xs) \<longleftrightarrow> (xs \<noteq> [] \<longrightarrow> \<not> (c = CHR ''-'' \<and> hd xs = CHR ''-'')) \<and> no_double_hyphen xs"
  by (cases xs) auto

lemma collapse_seps_no_double: "no_double_hyphen (collapse_seps s)"
proof (induction s rule: collapse_seps.induct)
  case (3 c d cs)
  have h: "is_sep_char (CHR ''-'')" by (simp add: is_sep_char_def)
  show ?case
    using 3 collapse_seps_hd [of d cs] h by (auto simp: no_double_hyphen_Cons)
qed auto

lemma no_double_hyphen_append:
  "no_double_hyphen (xs @ ys) \<Longrightarrow> no_double_hyphen xs \<and> no_double_hyphen ys"
proof (induction xs)
  case (Cons x xs)
  then show ?case by (cases xs) (auto simp: no_double_hyphen_Cons)
qed simp

lemma strip_chars_infix: "\<exists>a b. s = a @ strip_chars cs s @ b"
proof -
  let ?P = "\<lambda>c. c \<in> set cs"
  have "s = takeWhile ?P s @ dropWhile ?P s" by simp
  moreover have "dropWhile ?P s = rev (dropWhile ?P (rev (dropWhile ?P s))) @ rev (takeWhile ?P (rev (dropWhile ?P s)))"
    by (metis rev_append rev_rev_ident takeWhile_dropWhile_id)
  ultimately show ?thesis unfolding strip_chars_def by metis
qed

lemma take_infix: "v = a @ w @ b \<Longrightarrow> \<exists>r. v = a @ take n w @ r"
  by (metis append.assoc append_take_drop_id)

lemma slug_chars_ok:
  assumes "c \<in> set (collapse_seps v)"
    "\<forall>x \<in> set v. (is_word_char x \<or> is_space x \<or> x = CHR ''-'') \<and> \<not> (65 \<le> char_code x \<and> char_code x \<le> 90)"
  shows "slug_char c"
  using collapse_seps_set [OF assms(1)] assms(2)
  by (auto simp: slug_char_def is_sep_char_def is_word_char_def)

lemma lower_char_not_upper: "\<not> (65 \<le> char_code (lower_char c) \<and> char_code (lower_char c) \<le> 90)"
  by (auto simp: lower_char_def)

lemma strip_subset: "set (strip s) \<subseteq> set s"
  unfolding strip_def by (auto dest!: set_dropWhileD)

lemma slugify_shape:
  "(\<forall>c \<in> set (slugify v). slug_char c) \<and> no_double_hyphen (slugify v) \<and> length (slugify v) \<le> 200"
proof -
  let ?v2 = "filter (\<lambda>c. is_word_char c \<or> is_space c \<or> c = CHR ''-'') (strip (str_lower v))"
  let ?v3 = "collapse_seps ?v2"
  obtain a b where ab: "?v3 = a @ strip_chars ''-'' ?v3 @ b" using strip_chars_infix by blast
  have s: "slugify v = take 200 (strip_chars ''-'' ?v3)" by (simp add: slugify_def Let_def)
  obtain r where r: "?v3 = a @ slugify v @ r"
    using take_infix [OF ab, of 200] unfolding s by blast
  have low: "\<forall>x \<in> set ?v2. (is_word_char x \<or> is_space x \<or> x = CHR ''-'') \<and> \<not> (65 \<le> char_code x \<and> char_code x \<le> 90)"
  proof
    fix x assume x: "x \<in> set ?v2"
    then have "x \<in> set (str_lower v)" using strip_subset [of "str_lower v"] by auto
    then obtain c where "x = lower_char c" by (auto simp: str_lower_def)
    with x lower_char_not_upper [of c]
    show "(is_word_char x \<or> is_space x \<or> x = CHR ''-'') \<and> \<not> (65 \<le> char_code x \<and> char_code x \<le> 90)"
      by simp
  qed
  have "slug_char c" if "c \<in> set (slugify v)" for c
  proof -
    have "c \<in> set ?v3" by (subst r) (use that in simp)
    then show ?thesis by (rule slug_chars_ok [OF _ low])
  qed
  moreover have "no_double_hyphen (slugify v)"
    using collapse_seps_no_double [of ?v2] no_double_hyphen_append unfolding r by blast
  ultimately show ?thesis using s by simp
qed

end
