(* ===== verification/Clock.thy ===== *)
theory Clock
  imports Helpers
begin

text \<open>
  \<open>package/common/utils/datetime.py\<close> and the parts of Python's \<open>datetime\<close> the services use:
  naive UTC timestamps as microseconds since the epoch, \<open>timedelta\<close> offsets, the proleptic
  Gregorian calendar date of a timestamp, \<open>isoformat()\<close> and the \<open>strftime\<close> stamps.
  A request reads the clock once: \<open>env_now\<close>.
\<close>

definition us_seconds :: "int \<Rightarrow> int" where "us_seconds n = n * 1000000"
definition us_minutes :: "int \<Rightarrow> int" where "us_minutes n = n * 60000000"
definition us_hours :: "int \<Rightarrow> int" where "us_hours n = n * 3600000000"
definition us_days :: "int \<Rightarrow> int" where "us_days n = n * 86400000000"

text \<open>Everything a request takes from its surroundings: the clock and the random draws (the digit
  suffix for an order or invoice number, keyed by the row's primary key, and the hex strings
  behind transaction ids, tokens and referral codes), the great-circle distance
  \<open>haversine_km\<close> (trigonometry on doubles) and the configured delivery radius.\<close>

record env =
  env_now :: datetime
  draw_order :: "int \<Rightarrow> string"
  draw_invoice :: "int \<Rightarrow> string"
  draw_txn :: "int \<Rightarrow> string"
  draw_token :: "int \<Rightarrow> string"
  env_haversine :: "rat \<Rightarrow> rat \<Rightarrow> rat \<Rightarrow> rat \<Rightarrow> rat"
  env_radius_km :: rat

definition utc_day :: "datetime \<Rightarrow> date" where
  "utc_day t = t div us_days 1"

definition utc_today :: "env \<Rightarrow> date" where
  "utc_today e = utc_day (env_now e)"

definition day_bounds :: "env \<Rightarrow> date option \<Rightarrow> datetime \<times> datetime" where
  "day_bounds e d = (let day = (case d of None \<Rightarrow> utc_today e | Some x \<Rightarrow> x);
                         start = us_days day
                     in (start, start + us_days 1))"

definition days_ago :: "env \<Rightarrow> int \<Rightarrow> date" where
  "days_ago e n = utc_day (env_now e - us_days n)"

lemma us_pos [simp]: "0 < us_days 1" "0 < us_hours 24" "0 < us_seconds 45" "0 < us_minutes 60"
  by (simp_all add: us_days_def us_hours_def us_seconds_def us_minutes_def)

lemma day_bounds_contains:
  "day_bounds e (Some d) = (a, b) \<Longrightarrow> a \<le> t \<and> t < b \<longleftrightarrow> utc_day t = d"
  by (auto simp: day_bounds_def Let_def utc_day_def us_days_def)

lemma days_ago_day: "days_ago e n = utc_today e - n"
  using div_mult_self1 [of "86400000000" "env_now e" "- n"]
  by (simp add: days_ago_def utc_today_def utc_day_def us_days_def algebra_simps)

section \<open>Calendar\<close>

text \<open>Days since 1970-01-01 to year, month, day.\<close>

definition civil :: "date \<Rightarrow> int \<times> int \<times> int" where
  "civil z0 = (let z = z0 + 719468;
       era = z div 146097;
       doe = z - era * 146097;
       yoe = (doe - doe div 1460 + doe div 36524 - doe div 146096) div 365;
       doy = doe - (365 * yoe + yoe div 4 - yoe div 100);
       mp = (5 * doy + 2) div 153;
       d = doy - (153 * mp + 2) div 5 + 1;
       m = (if mp < 10 then mp + 3 else mp - 9);
       y = yoe + era * 400 + (if m \<le> 2 then 1 else 0)
     in (y, m, d))"

lemma civil_epoch: "civil 0 = (1970, 1, 1)" "civil 20655 = (2026, 7, 21)" "civil 19782 = (2024, 2, 29)"
  by code_simp+

definition pad :: "nat \<Rightarrow> int \<Rightarrow> string" where
  "pad w n = pad_nat w (nat n)"

definition iso_date :: "date \<Rightarrow> string" where
  "iso_date z = (case civil z of (y, m, d) \<Rightarrow> pad 4 y @ ''-'' @ pad 2 m @ ''-'' @ pad 2 d)"

definition isoformat :: "datetime \<Rightarrow> string" where
  "isoformat t = (let day = utc_day t; us = t mod us_days 1;
       s = us div 1000000; frac = us mod 1000000
     in iso_date day @ ''T'' @ pad 2 (s div 3600) @ '':'' @ pad 2 (s div 60 mod 60) @ '':'' @ pad 2 (s mod 60)
        @ (if frac = 0 then [] else ''.'' @ pad 6 frac))"

definition jopt_time :: "datetime option \<Rightarrow> json" where
  "jopt_time t = (case t of None \<Rightarrow> JNull | Some x \<Rightarrow> JStr (isoformat x))"

definition stamp_ymd :: "datetime \<Rightarrow> string" where
  "stamp_ymd t = (case civil (utc_day t) of (y, m, d) \<Rightarrow> pad 2 (y mod 100) @ pad 2 m @ pad 2 d)"

definition stamp_ym :: "datetime \<Rightarrow> string" where
  "stamp_ym t = (case civil (utc_day t) of (y, m, d) \<Rightarrow> pad 4 y @ pad 2 m)"

definition order_number_for :: "env \<Rightarrow> int \<Rightarrow> string" where
  "order_number_for e k = generate_order_number (stamp_ymd (env_now e)) (draw_order e k)"

definition invoice_number_for :: "env \<Rightarrow> string \<Rightarrow> int \<Rightarrow> string" where
  "invoice_number_for e prefix k = generate_invoice_number prefix (stamp_ym (env_now e)) (draw_invoice e k)"

definition txn_id_for :: "env \<Rightarrow> int \<Rightarrow> string" where
  "txn_id_for e k = generate_txn_id ''TXN'' (draw_txn e k)"

section \<open>A concrete request\<close>

text \<open>The surroundings of the worked examples: noon of 21 July 2026, and fixed draws.\<close>

definition sample_env :: env where
  "sample_env = \<lparr>env_now = us_days 20655 + us_hours 12, draw_order = (\<lambda>k. show_int (k + 100)),
     draw_invoice = (\<lambda>k. show_int (k + 200)), draw_txn = (\<lambda>k. show_int (k + 300)),
     draw_token = (\<lambda>k. show_int (k + 400)),
     env_haversine = (\<lambda>a b c d. round2 (111 * (\<bar>a - c\<bar> + \<bar>b - d\<bar>))), env_radius_km = 100\<rparr>"

end
