(* ===== verification/Events.thy ===== *)
theory Events
  imports Clock
begin

text \<open>
  \<open>app/producers/events.py\<close>: messages published through Redis to the realtime service.
  Publishing never fails the request; the model appends to the log \<open>outbox\<close> of the messages
  the code hands to \<open>redis_publish\<close>, on the topics of \<open>package/events/topics.py\<close>.
\<close>

definition ORDER_STATUS :: string where "ORDER_STATUS = ''sc:order_status''"
definition DELIVERY_LOCATION :: string where "DELIVERY_LOCATION = ''sc:delivery_location''"
definition ADMIN_EVENT :: string where "ADMIN_EVENT = ''sc:admin_event''"
definition USER_EVENT :: string where "USER_EVENT = ''sc:user_event''"

definition redis_publish :: "string \<Rightarrow> json \<Rightarrow> db \<Rightarrow> db" where
  "redis_publish topic payload d = d\<lparr>outbox := outbox d @ [(topic, payload)]\<rparr>"

definition emit_order_status :: "int \<Rightarrow> (string \<times> json) list \<Rightarrow> db \<Rightarrow> db" where
  "emit_order_status order_id payload d =
     redis_publish ORDER_STATUS (jmerge (JObj payload) [(''order_id'', JInt order_id)]) d"

definition emit_delivery_location :: "int \<Rightarrow> (string \<times> json) list \<Rightarrow> db \<Rightarrow> db" where
  "emit_delivery_location order_id payload d =
     redis_publish DELIVERY_LOCATION (jmerge (JObj payload) [(''order_id'', JInt order_id)]) d"

definition emit_admin_event :: "string \<Rightarrow> (string \<times> json) list \<Rightarrow> db \<Rightarrow> db" where
  "emit_admin_event kind payload d =
     redis_publish ADMIN_EVENT (jmerge (JObj [(''kind'', JStr kind)]) payload) d"

definition emit_user_event :: "int \<Rightarrow> string \<Rightarrow> (string \<times> json) list \<Rightarrow> db \<Rightarrow> db" where
  "emit_user_event user_id kind payload d =
     redis_publish USER_EVENT
       (jmerge (JObj [(''user_id'', JInt user_id), (''kind'', JStr kind)]) payload) d"

text \<open>Publishing changes only the log.\<close>

lemma redis_publish_update [simp]:
  "redis_publish t p d = d\<lparr>outbox := outbox d @ [(t, p)]\<rparr>"
  by (simp add: redis_publish_def)

lemmas emit_defs = emit_order_status_def emit_delivery_location_def emit_admin_event_def
  emit_user_event_def

text \<open>The topics of the messages an operation published.\<close>

definition topics :: "db \<Rightarrow> string list" where
  "topics d = map fst (outbox d)"

end
