(* ===== verification/Invoices.thy ===== *)
theory Invoices
  imports Events
begin

text \<open>
  \<open>store_ops_service/app/services/invoices.py\<close>: every paid money movement gets one invoice
  row.  \<open>issue_invoice\<close> is idempotent on the order id, and on kind and reference for movements
  without an order.  The e-mail sent after the commit changes no table and is left out; the
  unique columns of the table (invoice number, order id) make an insert fail with
  \<open>IntegrityError\<close>.
\<close>

section \<open>Kinds and templates\<close>

definition TEMPLATE_SUBSCRIPTION :: string where "TEMPLATE_SUBSCRIPTION = ''subscription_pack''"
definition TEMPLATE_PRODUCT :: string where "TEMPLATE_PRODUCT = ''product_payment''"
definition KIND_SUBSCRIPTION :: string where "KIND_SUBSCRIPTION = ''subscription_pack''"
definition KIND_B2B :: string where "KIND_B2B = ''b2b_wholesale''"
definition KIND_CUSTOMER :: string where "KIND_CUSTOMER = ''customer_order''"
definition KIND_SUPPLIER :: string where "KIND_SUPPLIER = ''supplier_settlement''"

definition invoice_prefix :: "string \<Rightarrow> string" where
  "invoice_prefix kind =
     (case map_of [(KIND_SUBSCRIPTION, ''SUB''), (KIND_B2B, ''B2B''), (KIND_CUSTOMER, ''INV''),
        (KIND_SUPPLIER, ''SP'')] kind of Some p \<Rightarrow> p | None \<Rightarrow> ''INV'')"

definition template_for_kind :: "string \<Rightarrow> string" where
  "template_for_kind kind = (if kind = KIND_SUBSCRIPTION then TEMPLATE_SUBSCRIPTION else TEMPLATE_PRODUCT)"

definition bakery :: "env \<Rightarrow> db \<Rightarrow> BakerySettings" where
  "bakery e d = (case t_first (\<lambda>_. True) (settings_rows d) of
     Some s \<Rightarrow> s | None \<Rightarrow> new_BakerySettings (env_now e))"

section \<open>Issuing\<close>

text \<open>A line of the invoice: name, quantity, unit price, total.\<close>

type_synonym invoice_item = "string \<times> rat \<times> rat \<times> rat"

text \<open>The keyword arguments of \<open>issue_invoice\<close>.\<close>

record invoice_args =
  ia_kind :: string
  ia_items :: "invoice_item list"
  ia_grand_total :: rat
  ia_customer_name :: string
  ia_customer_phone :: string
  ia_customer_address :: "string option"
  ia_buyer_user_id :: "int option"
  ia_seller_user_id :: "int option"
  ia_order_id :: "int option"
  ia_ref_type :: "string option"
  ia_ref_id :: "string option"
  ia_subtotal :: "rat option"
  ia_discount :: rat
  ia_gst_amount :: rat
  ia_delivery_fee :: rat
  ia_payment_method :: "string option"
  ia_transaction_id :: "string option"
  ia_notes :: "string option"
  ia_title :: "string option"
  ia_meta :: json

definition find_existing :: "db \<Rightarrow> int option \<Rightarrow> string \<Rightarrow> string option \<Rightarrow> string option \<Rightarrow> Invoice option" where
  "find_existing d order_id kind ref_type ref_id =
     (case (case order_id of None \<Rightarrow> None
            | Some oid \<Rightarrow> t_first (\<lambda>r. inv_order_id r = Some oid) (invoices d)) of
        Some row \<Rightarrow> Some row
      | None \<Rightarrow>
          if truthy_str ref_type \<and> truthy_str ref_id
          then t_first (\<lambda>r. inv_kind r = kind \<and> inv_ref_type r = ref_type \<and> inv_ref_id r = ref_id) (invoices d)
          else None)"

definition norm_item :: "invoice_item \<Rightarrow> json" where
  "norm_item i = (case i of (nm, qty, price, tot) \<Rightarrow>
     JObj [(''name'', JStr (if nm = [] then ''Item'' else nm)),
           (''qty'', JFloat (if qty = 0 then 1 else qty)),
           (''unit_price'', JFloat price), (''total'', JFloat tot)])"

definition invoice_row :: "env \<Rightarrow> invoice_args \<Rightarrow> db \<Rightarrow> Invoice" where
  "invoice_row e a d =
     (let s = bakery e d;
          tot = round2 (ia_grand_total a);
          sub = round2 (case ia_subtotal a of Some x \<Rightarrow> x | None \<Rightarrow> tot)
      in (new_Invoice (env_now e)
            (invoice_number_for e (invoice_prefix (ia_kind a)) (next_id (invoices d)))
            (if bs_bakery_name s = [] then ''SweetCrust'' else bs_bakery_name s)
            (bs_gstin s)
            (take 120 (if ia_customer_name a = [] then ''Customer'' else ia_customer_name a))
            (take 20 (ia_customer_phone a)))
         \<lparr>inv_order_id := ia_order_id a, inv_kind := ia_kind a, inv_ref_type := ia_ref_type a,
          inv_ref_id := ia_ref_id a, inv_buyer_user_id := ia_buyer_user_id a,
          inv_seller_user_id := ia_seller_user_id a, inv_customer_address := ia_customer_address a,
          inv_line_items := JObj [
            (''template'', JStr (template_for_kind (ia_kind a))),
            (''kind'', JStr (ia_kind a)),
            (''title'', JStr (or_str (ia_title a) (str_title (replace_char CHR ''_'' CHR '' '' (ia_kind a))))),
            (''items'', JArr (map norm_item (ia_items a))),
            (''meta'', ia_meta a)],
          inv_subtotal := sub, inv_discount := round2 (ia_discount a),
          inv_gst_amount := round2 (ia_gst_amount a), inv_delivery_fee := round2 (ia_delivery_fee a),
          inv_grand_total := tot, inv_payment_method := ia_payment_method a,
          inv_transaction_id := ia_transaction_id a, inv_notes := ia_notes a\<rparr>)"

text \<open>The unique columns of \<open>invoices\<close>.\<close>

definition invoice_clash :: "Invoice \<Rightarrow> db \<Rightarrow> bool" where
  "invoice_clash ivc d \<longleftrightarrow>
     list_ex (\<lambda>r. inv_invoice_number r = inv_invoice_number ivc
                \<or> (inv_order_id ivc \<noteq> None \<and> inv_order_id r = inv_order_id ivc)) (rows (invoices d))"

definition issue_invoice :: "env \<Rightarrow> invoice_args \<Rightarrow> db \<Rightarrow> (exc + Invoice) \<times> db" where
  "issue_invoice e a d =
     (case find_existing d (ia_order_id a) (ia_kind a) (ia_ref_type a) (ia_ref_id a) of
        Some ivc \<Rightarrow> (Inr ivc, d)
      | None \<Rightarrow>
          let ivc = invoice_row e a d in
          if invoice_clash ivc d then (Inl (PyExc ''IntegrityError''), d)
          else (Inr (key_Invoice ivc d), add_Invoice ivc d))"

section \<open>Orders\<close>

text \<open>The first true value of a chain \<open>a or b or c\<close>.\<close>

fun first_str :: "string option list \<Rightarrow> string \<Rightarrow> string" where
  "first_str [] dflt = dflt"
| "first_str (x # xs) dflt = (case x of Some s \<Rightarrow> if s = [] then first_str xs dflt else s
                              | None \<Rightarrow> first_str xs dflt)"

definition address_text :: "json \<Rightarrow> string" where
  "address_text addr = join '', '' (filter (\<lambda>s. s \<noteq> [])
     [first_str [jstr (jget ''line1'' addr), jstr (jget ''address_line'' addr)] [],
      first_str [jstr (jget ''city'' addr)] [], first_str [jstr (jget ''pincode'' addr)] []])"

definition profile_of :: "db \<Rightarrow> int \<Rightarrow> RetailerProfile option" where
  "profile_of d uid = t_first (\<lambda>r. rp_user_id r = uid) (profiles d)"

definition last_payment :: "db \<Rightarrow> int \<Rightarrow> Payment option" where
  "last_payment d oid = t_last (\<lambda>r. pay_order_id r = oid) (payments d)"

definition items_of :: "db \<Rightarrow> int \<Rightarrow> OrderItem list" where
  "items_of d oid = t_all (\<lambda>r. oi_order_id r = oid) (order_items d)"

definition order_item_line :: "OrderItem \<Rightarrow> invoice_item" where
  "order_item_line i = (oi_product_name i, of_int (oi_quantity i), oi_unit_price i, oi_total_price i)"

definition order_is_b2b :: "Order \<Rightarrow> bool" where
  "order_is_b2b ord \<longleftrightarrow> o_order_type ord = ''b2b_shop_order''"

definition b2b_customer_name :: "Order \<Rightarrow> db \<Rightarrow> string" where
  "b2b_customer_name ord d =
     first_str [map_option rp_shop_name (profile_of d (o_user_id ord)),
                Option.bind (get_User d (o_user_id ord)) u_name,
                jstr (jget ''shop_name'' (jor_obj (o_address_snapshot ord)))] ''Shop''"

definition shop_label :: "Order \<Rightarrow> db \<Rightarrow> string" where
  "shop_label ord d =
     (if truthy_id (o_shop_user_id ord)
      then first_str [map_option rp_shop_name (profile_of d (the (o_shop_user_id ord))),
                      Option.bind (get_User d (the (o_shop_user_id ord))) u_name] ''Shop''
      else ''Shop'')"

definition order_invoice_args :: "Order \<Rightarrow> db \<Rightarrow> invoice_args" where
  "order_invoice_args ord d =
     (let addr = jor_obj (o_address_snapshot ord);
          b2b = order_is_b2b ord;
          buyer = get_User d (o_user_id ord);
          own_line = (if b2b then Option.bind (profile_of d (o_user_id ord)) rp_address_line else None);
          full = first_str [own_line] (address_text addr)
      in \<lparr>ia_kind = (if b2b then KIND_B2B else KIND_CUSTOMER),
          ia_items = map order_item_line (items_of d (o_id ord)),
          ia_grand_total = o_final_amount ord,
          ia_customer_name = (if b2b then b2b_customer_name ord d
             else first_str [jstr (jget ''full_name'' addr), Option.bind buyer u_name] ''Customer''),
          ia_customer_phone = first_str [o_customer_phone ord, jstr (jget ''phone'' addr), map_option u_phone buyer] [],
          ia_customer_address = (if full = [] then None else Some full),
          ia_buyer_user_id = Some (o_user_id ord),
          ia_seller_user_id = (if b2b then None else o_shop_user_id ord),
          ia_order_id = Some (o_id ord),
          ia_ref_type = Some ''order'', ia_ref_id = Some (show_int (o_id ord)),
          ia_subtotal = Some (o_subtotal ord), ia_discount = o_discount ord,
          ia_gst_amount = o_gst_amount ord, ia_delivery_fee = o_delivery_fee ord,
          ia_payment_method = map_option PaymentMethod_value (o_payment_method ord),
          ia_transaction_id = Option.bind (last_payment d (o_id ord)) pay_transaction_id,
          ia_notes = None,
          ia_title = Some (if b2b then ''Wholesale '' @ middot @ '' '' @ o_order_number ord
             else ''Sale '' @ middot @ '' '' @ o_order_number ord @ '' '' @ middot @ '' '' @ shop_label ord d),
          ia_meta = JObj [(''order_number'', JStr (o_order_number ord)), (''order_type'', JStr (o_order_type ord))]\<rparr>)"

definition issue_from_order :: "env \<Rightarrow> Order \<Rightarrow> db \<Rightarrow> (exc + Invoice) \<times> db" where
  "issue_from_order e ord d =
     (case t_first (\<lambda>r. inv_order_id r = Some (o_id ord)) (invoices d) of
        Some ivc \<Rightarrow> (Inr ivc, d)
      | None \<Rightarrow> issue_invoice e (order_invoice_args ord d) d)"

section \<open>Subscriptions and supplier settlements\<close>

definition issue_subscription :: "env \<Rightarrow> User \<Rightarrow> RetailerProfile \<Rightarrow> string \<Rightarrow> rat \<Rightarrow> string \<Rightarrow> string \<Rightarrow> db
    \<Rightarrow> (exc + Invoice) \<times> db" where
  "issue_subscription e user profile cadence amount payment_ref expires_at_iso =
     issue_invoice e
       \<lparr>ia_kind = KIND_SUBSCRIPTION,
        ia_items = [(''Sell subscription '' @ middot @ '' '' @ cadence, 1, amount, amount)],
        ia_grand_total = amount,
        ia_customer_name = first_str [Some (rp_shop_name profile), u_name user] ''Shop'',
        ia_customer_phone = first_str [rp_contact_phone profile] (u_phone user),
        ia_customer_address = rp_address_line profile,
        ia_buyer_user_id = Some (u_id user), ia_seller_user_id = None, ia_order_id = None,
        ia_ref_type = Some ''sell_subscription'',
        ia_ref_id = Some (if payment_ref = []
           then ''user-'' @ show_int (u_id user) @ ''-'' @ cadence @ ''-'' @ expires_at_iso else payment_ref),
        ia_subtotal = Some amount, ia_discount = 0, ia_gst_amount = 0, ia_delivery_fee = 0,
        ia_payment_method = Some ''razorpay'', ia_transaction_id = Some payment_ref,
        ia_notes = (if expires_at_iso = [] then None else Some (''Active until '' @ take 10 expires_at_iso)),
        ia_title = Some (''Sell plan '' @ middot @ '' '' @ cadence),
        ia_meta = JObj [(''cadence'', JStr cadence), (''expires_at'', JStr expires_at_iso)]\<rparr>"

definition supplier_payment_ref :: "string option \<Rightarrow> int \<Rightarrow> rat \<Rightarrow> string" where
  "supplier_payment_ref transaction_id purchase_id amt =
     or_str transaction_id (''po-'' @ show_int purchase_id @ ''-pay-'' @ fmt2 amt)"

definition issue_supplier_payment :: "env \<Rightarrow> int \<Rightarrow> string \<Rightarrow> int \<Rightarrow> string \<Rightarrow> string \<Rightarrow> rat \<Rightarrow> rat \<Rightarrow> rat
    \<Rightarrow> string \<Rightarrow> string option \<Rightarrow> string \<Rightarrow> db \<Rightarrow> (exc + Invoice) \<times> db" where
  "issue_supplier_payment e purchase_id bill_no supplier shop_name product_name qty unit_cost amt
      meth transaction_id phone =
     issue_invoice e
       \<lparr>ia_kind = KIND_SUPPLIER, ia_items = [(product_name, qty, unit_cost, amt)],
        ia_grand_total = amt,
        ia_customer_name = (if shop_name = [] then ''Shop'' else shop_name),
        ia_customer_phone = phone, ia_customer_address = None,
        ia_buyer_user_id = None, ia_seller_user_id = Some supplier, ia_order_id = None,
        ia_ref_type = Some ''supplier_purchase_pay'',
        ia_ref_id = Some (take 80 (supplier_payment_ref transaction_id purchase_id amt)),
        ia_subtotal = Some amt, ia_discount = 0, ia_gst_amount = 0, ia_delivery_fee = 0,
        ia_payment_method = Some meth, ia_transaction_id = transaction_id,
        ia_notes = Some (''Admin settlement for '' @ bill_no),
        ia_title = Some (''Product payment '' @ middot @ '' '' @ bill_no),
        ia_meta = JObj [(''purchase_id'', JInt purchase_id), (''bill_no'', JStr bill_no)]\<rparr>"

section \<open>Laws\<close>

text \<open>Every outcome of \<open>issue_invoice\<close>: an existing row, a failed insert, or one new row.\<close>

lemma issue_invoice_cases:
  assumes "issue_invoice e a d = (r, d')"
  obtains (existing) ivc where "r = Inr ivc" "d' = d"
      "find_existing d (ia_order_id a) (ia_kind a) (ia_ref_type a) (ia_ref_id a) = Some ivc"
  | (clash) "r = Inl (PyExc ''IntegrityError'')" "d' = d"
  | (issued) "r = Inr (key_Invoice (invoice_row e a d) d)" "d' = add_Invoice (invoice_row e a d) d"
      "find_existing d (ia_order_id a) (ia_kind a) (ia_ref_type a) (ia_ref_id a) = None"
      "\<not> invoice_clash (invoice_row e a d) d"
  using assms by (auto simp: issue_invoice_def Let_def split: option.splits if_splits)

lemma issue_invoice_frame:
  "issue_invoice e a d = (r, d') \<Longrightarrow> \<exists>t. d' = d\<lparr>invoices := t\<rparr>"
  by (erule issue_invoice_cases) (auto intro: exI [of _ "invoices d"])

lemma issue_from_order_frame:
  "issue_from_order e ord d = (r, d') \<Longrightarrow> \<exists>t. d' = d\<lparr>invoices := t\<rparr>"
  by (auto simp: issue_from_order_def intro: exI [of _ "invoices d"] split: option.splits
      dest: issue_invoice_frame)

lemma issue_invoice_wf: "issue_invoice e a d = (r, d') \<Longrightarrow> db_wf d \<Longrightarrow> db_wf d'"
  by (erule issue_invoice_cases) simp_all

lemma issue_from_order_wf: "issue_from_order e ord d = (r, d') \<Longrightarrow> db_wf d \<Longrightarrow> db_wf d'"
  by (auto simp: issue_from_order_def split: option.splits dest: issue_invoice_wf)

lemma invoice_row_fields [simp]:
  "inv_order_id (invoice_row e a d) = ia_order_id a"
  "inv_kind (invoice_row e a d) = ia_kind a"
  "inv_ref_type (invoice_row e a d) = ia_ref_type a"
  "inv_ref_id (invoice_row e a d) = ia_ref_id a"
  "inv_grand_total (invoice_row e a d) = round2 (ia_grand_total a)"
  by (simp_all add: invoice_row_def Let_def new_Invoice_def)

text \<open>At most one invoice per order, and no invoice number twice.\<close>

definition invoices_unique :: "db \<Rightarrow> bool" where
  "invoices_unique d \<longleftrightarrow>
     distinct (map inv_invoice_number (rows (invoices d)))
     \<and> distinct (filter (\<lambda>x. x \<noteq> None) (map inv_order_id (rows (invoices d))))"

lemma issue_invoice_unique:
  assumes "invoices_unique d" "issue_invoice e a d = (r, d')"
  shows "invoices_unique d'"
  using assms(2)
proof (cases rule: issue_invoice_cases)
  case issued
  with assms(1) show ?thesis
    by (auto simp: invoices_unique_def rows_t_insert invoice_clash_def list_ex_iff image_iff)
qed (use assms(1) in simp_all)

lemma find_existing_after:
  assumes "ia_order_id a \<noteq> None \<or> (truthy_str (ia_ref_type a) \<and> truthy_str (ia_ref_id a))"
    and "issue_invoice e a d = (Inr ivc, d')"
  shows "find_existing d' (ia_order_id a) (ia_kind a) (ia_ref_type a) (ia_ref_id a) = Some ivc"
  using assms(2)
proof (cases rule: issue_invoice_cases)
  case issued
  note none = issued(3)
  have app: "find P (xs @ [y]) = Some y" if "find P xs = None" "P y" for P and xs :: "Invoice list" and y
    using that by (induction xs) (auto split: if_splits)
  show ?thesis
    using issued none assms(1)
    by (auto simp: find_existing_def t_first_def rows_t_insert app split: option.splits if_splits)
qed auto

lemma issue_invoice_idempotent:
  assumes "ia_order_id a \<noteq> None \<or> (truthy_str (ia_ref_type a) \<and> truthy_str (ia_ref_id a))"
    and "issue_invoice e a d = (Inr ivc, d')"
  shows "issue_invoice e' a d' = (Inr ivc, d')"
  using find_existing_after [OF assms] by (simp add: issue_invoice_def)

end
