(* ===== verification/Ledger.thy ===== *)
theory Ledger
  imports Events
begin

text \<open>
  The contract every balance with a journal in this system is meant to keep (shop credit,
  customer wallet): each operation appends one journal entry with a movement in paise and the balance after it, and
  moves the balance by the movement; some operations may miss it by a paisa.  \<open>running_ledger\<close> states
  the contract for one operation; its lemmas lift it to any history of operations.  The
  components interpret it on their own operations.
\<close>

text \<open>A journal entry: the movement and the balance after it, in paise.\<close>

type_synonym journal = "(int \<times> int) list"

text \<open>A journal is consistent with an opening balance.\<close>

fun journal_ok :: "int \<Rightarrow> journal \<Rightarrow> bool" where
  "journal_ok b [] = True"
| "journal_ok b ((x, after) # js) = (after = b + x \<and> journal_ok after js)"

definition journal_sum :: "journal \<Rightarrow> int" where
  "journal_sum js = sum_list (map fst js)"

lemma journal_ok_append:
  "journal_ok b (js @ [(x, a)]) \<longleftrightarrow> journal_ok b js \<and> a = b + journal_sum js + x"
  by (induction js arbitrary: b) (auto simp: journal_sum_def)

lemma journal_sum_append [simp]: "journal_sum (js @ ks) = journal_sum js + journal_sum ks"
  by (simp add: journal_sum_def)

lemma to_cents_cents_wide: "\<bar>n\<bar> \<le> 2 ^ 42 \<Longrightarrow> to_cents (cents n) = n"
  using cents_error [of n] by (intro to_cents_near) simp

text \<open>Adding any float to an amount of whole paise: the rounded sum is at most a paisa off the sum of the roundings.\<close>

lemma round2_fadd_slip:
  assumes "money_ok b" "money_ok (to_cents x)"
  shows "\<bar>to_cents (fadd (cents b) x) - (b + to_cents x)\<bar> \<le> 1"
proof -
  have x: "\<bar>of_int (to_cents x) - x * 100\<bar> \<le> 1 / 2" unfolding to_cents_def by (rule rne_error)
  have "\<bar>of_int (to_cents x) :: rat\<bar> \<le> 2 ^ 40"
    using assms(2) unfolding money_ok_def money_bound_def
    by (metis of_int_abs of_int_le_iff of_int_numeral of_int_power)
  with x have "\<bar>x\<bar> \<le> 2 ^ 34" by (simp add: abs_if split: if_splits)
  then have "\<bar>cents b + x\<bar> \<le> 2 ^ 36" using cents_small [OF assms(1)] by (simp add: abs_if split: if_splits)
  from fl_bounded_error [OF this] have "\<bar>fadd (cents b) x - (cents b + x)\<bar> \<le> 1 / 131072" by (simp add: fadd_def)
  moreover have "\<bar>cents b - of_int b / 100\<bar> \<le> 1 / 204800"
    using assms(1) by (intro cents_error) (simp add: money_ok_def money_bound_def)
  moreover have "\<bar>of_int (to_cents (fadd (cents b) x)) - fadd (cents b) x * 100\<bar> \<le> 1 / 2"
    unfolding to_cents_def by (rule rne_error)
  ultimately have "\<bar>of_int (to_cents (fadd (cents b) x) - (b + to_cents x)) :: rat\<bar> < 2"
    using x by (simp add: abs_if split: if_splits)
  then have "\<bar>to_cents (fadd (cents b) x) - (b + to_cents x)\<bar> < 2"
    by (metis of_int_abs of_int_less_iff of_int_numeral)
  then show ?thesis by simp
qed

text \<open>A run of steps, and by how many paise its steps may have missed in all.\<close>

inductive slip_run :: "(nat \<Rightarrow> 's \<Rightarrow> 's \<Rightarrow> bool) \<Rightarrow> nat \<Rightarrow> 's \<Rightarrow> 's \<Rightarrow> bool" for step where
  none: "slip_run step 0 s s"
| more: "slip_run step n s t \<Longrightarrow> step k t u \<Longrightarrow> slip_run step (n + k) s u"

lemma slip_run_one: "step k s t \<Longrightarrow> slip_run step k s t"
  using slip_run.more [OF slip_run.none] by fastforce

locale running_ledger =
  fixes ok :: "'s \<Rightarrow> bool" and bal :: "'s \<Rightarrow> int" and journal :: "'s \<Rightarrow> journal"
    and step :: "nat \<Rightarrow> 's \<Rightarrow> 's \<Rightarrow> bool"
  assumes step_ok: "ok s \<Longrightarrow> step k s t \<Longrightarrow> ok t"
    and step_journal: "ok s \<Longrightarrow> step k s t
      \<Longrightarrow> \<exists>x. journal t = journal s @ [(x, bal t)] \<and> \<bar>bal t - (bal s + x)\<bar> \<le> int k"
begin

lemma history_ok: "slip_run step n s t \<Longrightarrow> ok s \<Longrightarrow> ok t"
  by (induction rule: slip_run.induct) (auto intro: step_ok)

lemma history_journal:
  assumes "slip_run step n s t" "ok s"
  shows "\<exists>js. journal t = journal s @ js \<and> (js \<noteq> [] \<longrightarrow> snd (last js) = bal t)
     \<and> \<bar>bal t - (bal s + journal_sum js)\<bar> \<le> int n \<and> (n = 0 \<longrightarrow> journal_ok (bal s) js)"
  using assms
proof (induction rule: slip_run.induct)
  case (none s)
  show ?case by (simp add: journal_sum_def)
next
  case (more n s t k u)
  then obtain js where js: "journal t = journal s @ js"
    "\<bar>bal t - (bal s + journal_sum js)\<bar> \<le> int n" "n = 0 \<longrightarrow> journal_ok (bal s) js" by auto
  have "ok t" using more history_ok by blast
  then obtain x where x: "journal u = journal t @ [(x, bal u)]" "\<bar>bal u - (bal t + x)\<bar> \<le> int k"
    using more.hyps(2) step_journal by blast
  with js show ?case
    by (intro exI [of _ "js @ [(x, bal u)]"]) (auto simp: journal_ok_append journal_sum_def)
qed

lemma balance_near_journal_sum:
  assumes "slip_run step n s t" "ok s" "bal s = journal_sum (journal s)"
  shows "\<bar>bal t - journal_sum (journal t)\<bar> \<le> int n"
proof -
  obtain js where "journal t = journal s @ js" "\<bar>bal t - (bal s + journal_sum js)\<bar> \<le> int n"
    using history_journal [OF assms(1,2)] by blast
  with assms(3) show ?thesis by simp
qed

end

end
