(* ===== verification/Credit.thy ===== *)
theory Credit
  imports Invoices Ledger
begin

text \<open>
  \<open>store_ops_service/app/services/credit.py\<close>: the shop credit (udhaar) ledger.
  \<open>debit_credit\<close> books a credit order, \<open>credit_payment\<close> a collection, which
  \<open>_allocate_collection_to_orders\<close> spreads over the oldest unpaid B2B orders.
\<close>

section \<open>Operations\<close>

definition get_profile :: "db \<Rightarrow> int \<Rightarrow> exc + RetailerProfile" where
  "get_profile d user_id = (case profile_of d user_id of
     None \<Rightarrow> Inl (not_found ''Shop profile not found'') | Some p \<Rightarrow> Inr p)"

definition debit_credit :: "env \<Rightarrow> User \<Rightarrow> rat \<Rightarrow> int option \<Rightarrow> string option \<Rightarrow> int option \<Rightarrow> db
    \<Rightarrow> (exc + CreditLedgerEntry) \<times> db" where
  "debit_credit e user amount order_id note created_by d =
     (if amount \<le> 0 then (Inl (bad_request ''Debit amount must be positive''), d)
      else case get_profile d (u_id user) of
        Inl ex \<Rightarrow> (Inl ex, d)
      | Inr profile \<Rightarrow>
          if rp_is_blocked profile then (Inl (forbidden ''Shop is blocked''), d)
          else if \<not> rp_credit_allowed profile
          then (Inl (bad_request ''Credit not allowed for this shop''), d)
          else let projected = round2 (fadd (rp_outstanding_balance profile) amount) in
          if rp_credit_limit profile < projected
          then (Inl (bad_request (''Order '' @ rupee @ fmt0 amount @ '' would exceed credit limit (outstanding ''
                  @ rupee @ fmt0 (rp_outstanding_balance profile) @ '' / limit '' @ rupee
                  @ fmt0 (rp_credit_limit profile) @ '')'')), d)
          else let entry = (new_CreditLedgerEntry (env_now e) (u_id user) (CreditEntryType_value CE_DEBIT))
                     \<lparr>le_amount := round2 amount, le_balance_after := projected, le_order_id := order_id,
                      le_note := Some (or_str note ''B2B credit order''),
                      le_created_by := (if truthy_id created_by then created_by else Some (u_id user))\<rparr>;
                   d1 = put_RetailerProfile (profile\<lparr>rp_outstanding_balance := projected\<rparr>) d
               in (Inr (key_CreditLedgerEntry entry d1), add_CreditLedgerEntry entry d1))"

text \<open>The open B2B orders of a shop, oldest first.\<close>

definition open_statuses :: "PaymentStatus list" where
  "open_statuses = [PS_PENDING, PS_PARTIALLY_PAID, PS_PROCESSING]"

definition open_b2b_orders :: "db \<Rightarrow> int \<Rightarrow> Order list" where
  "open_b2b_orders d uid = sort_key o_created_at
     (t_all (\<lambda>r. o_user_id r = uid \<and> o_order_type r = OrderType_value OT_B2B_SHOP_ORDER
                 \<and> o_payment_status r \<in> set open_statuses) (orders d))"

definition order_due :: "Order \<Rightarrow> rat" where
  "order_due ord = round2 (fsub (round2 (o_final_amount ord)) (round2 (o_paid_amount ord)))"

definition apply_to_order :: "env \<Rightarrow> rat \<Rightarrow> Order \<Rightarrow> Order" where
  "apply_to_order e amt ord =
     (let bill = round2 (o_final_amount ord);
          paid = round2 (fadd (round2 (o_paid_amount ord)) amt)
      in ord\<lparr>o_paid_amount := paid,
             o_payment_status := (if bill \<le> fadd paid eps_milli then PS_PAID else PS_PARTIALLY_PAID),
             o_updated_at := env_now e\<rparr>)"

text \<open>The latest payment row of the order mirrors the amount and the status.\<close>

definition mirror_payment :: "Order \<Rightarrow> db \<Rightarrow> db" where
  "mirror_payment ord d = (case last_payment d (o_id ord) of
     None \<Rightarrow> d
   | Some p \<Rightarrow> put_Payment (p\<lparr>pay_amount := o_paid_amount ord, pay_status := o_payment_status ord\<rparr>) d)"

fun allocate_loop :: "env \<Rightarrow> Order list \<Rightarrow> rat \<Rightarrow> db \<Rightarrow> int list \<times> db" where
  "allocate_loop e [] remaining d = ([], d)"
| "allocate_loop e (ord # os) remaining d =
     (if remaining \<le> eps_milli then ([], d)
      else if order_due ord \<le> eps_milli then allocate_loop e os remaining d
      else let amt = round2 (min remaining (order_due ord));
               ord' = apply_to_order e amt ord;
               (ids, d') = allocate_loop e os (round2 (fsub remaining amt))
                             (mirror_payment ord' (put_Order ord' d))
           in (o_id ord # ids, d'))"

definition allocate_collection_to_orders :: "env \<Rightarrow> int \<Rightarrow> rat \<Rightarrow> db \<Rightarrow> int list \<times> db" where
  "allocate_collection_to_orders e uid amount d =
     allocate_loop e (open_b2b_orders d uid) (round2 amount) d"

text \<open>Invoices for the settled orders; the first exception ends the loop and is swallowed.\<close>

fun issue_for_orders :: "env \<Rightarrow> int list \<Rightarrow> db \<Rightarrow> db" where
  "issue_for_orders e [] d = d"
| "issue_for_orders e (oid # ids) d = (case get_Order d oid of
     None \<Rightarrow> issue_for_orders e ids d
   | Some ord \<Rightarrow> (case issue_from_order e ord d of
        (Inl _, d') \<Rightarrow> d'
      | (Inr _, d') \<Rightarrow> issue_for_orders e ids d'))"

definition collection_label :: "string option \<Rightarrow> int list \<Rightarrow> string" where
  "collection_label meth allocated =
     (let l = (if truthy_str meth then ''Collection ('' @ the meth @ '')'' else ''Collection'')
      in if allocated = [] then l
         else l @ '' '' @ middot @ '' orders '' @ join '','' (map show_int allocated))"

definition credit_payment :: "env \<Rightarrow> int \<Rightarrow> rat \<Rightarrow> string option \<Rightarrow> string option \<Rightarrow> int option \<Rightarrow> int option
    \<Rightarrow> db \<Rightarrow> (exc + json) \<times> db" where
  "credit_payment e uid amount note meth created_by payment_id d =
     (if amount \<le> 0 then (Inl (bad_request ''Collection amount must be positive''), d)
      else case get_profile d uid of
        Inl ex \<Rightarrow> (Inl ex, d)
      | Inr profile \<Rightarrow>
          let owed = round2 (rp_outstanding_balance profile); pay = round2 amount in
          if fadd owed eps_paisa < pay
          then (Inl (bad_request (''Amount '' @ rupee @ fmt0 pay @ '' exceeds receivable '' @ rupee @ fmt0 owed)), d)
          else let new_bal = round2 (max 0 (fsub owed pay));
                   d0 = put_RetailerProfile (profile\<lparr>rp_outstanding_balance := new_bal\<rparr>) d;
                   (allocated, d1) = allocate_collection_to_orders e uid pay d0;
                   entry = (new_CreditLedgerEntry (env_now e) uid (CreditEntryType_value CE_CREDIT))
                     \<lparr>le_amount := pay, le_balance_after := new_bal, le_payment_id := payment_id,
                      le_note := Some (or_str note (collection_label meth allocated)),
                      le_created_by := created_by\<rparr>;
                   d2 = add_CreditLedgerEntry entry d1;
                   d3 = issue_for_orders e allocated d2;
                   d4 = emit_admin_event ''shop_collection''
                     [(''user_id'', JInt uid), (''amount'', JFloat pay),
                      (''outstanding_balance'', JFloat new_bal), (''method'', jopt_str meth)] d3
               in (Inr (JObj [(''id'', JInt (next_id (ledger_entries d1))), (''entry_type'', JStr ''credit''),
                     (''amount'', JFloat pay), (''balance_after'', JFloat new_bal),
                     (''outstanding_balance'', JFloat new_bal), (''order_ids'', JArr (map JInt allocated)),
                     (''note'', jopt_str (le_note entry)),
                     (''created_at'', JStr (isoformat (env_now e)))]), d4))"

definition list_ledger :: "db \<Rightarrow> int \<Rightarrow> nat \<Rightarrow> CreditLedgerEntry list" where
  "list_ledger d uid n = take n (sort_key (\<lambda>r. - le_created_at r)
     (t_all (\<lambda>r. le_retailer_user_id r = uid) (ledger_entries d)))"

section \<open>Allocation: the loop implements a first-in-first-out split of paise\<close>

text \<open>Specification: each order in turn takes what it is still due, out of what is left.\<close>

fun fifo_split :: "int \<Rightarrow> (int \<times> int) list \<Rightarrow> int list" where
  "fifo_split r [] = []"
| "fifo_split r ((t, a) # xs) =
     (let p = (if r \<le> 0 \<or> t - a \<le> 0 then 0 else min r (t - a)) in p # fifo_split (r - p) xs)"

lemma length_fifo [simp]: "length (fifo_split r xs) = length xs"
  by (induction r xs rule: fifo_split.induct) (auto simp: Let_def)

lemma fifo_stop: "r \<le> 0 \<Longrightarrow> fifo_split r xs = replicate (length xs) 0"
  by (induction xs arbitrary: r) auto

lemma fifo_sum:
  "0 \<le> r \<Longrightarrow> sum_list (fifo_split r xs) = min r (\<Sum>(t, a)\<leftarrow>xs. max 0 (t - a))"
proof (induction r xs rule: fifo_split.induct)
  case (2 r t a xs)
  have nn: "0 \<le> (\<Sum>(t, a)\<leftarrow>xs. max 0 (t - a))" by (intro sum_list_nonneg) auto
  show ?case
  proof (cases "r = 0 \<or> t - a \<le> 0")
    case True
    with 2 nn show ?thesis by (auto simp: fifo_stop sum_list_replicate)
  next
    case False
    with 2 nn show ?thesis by (auto simp: Let_def)
  qed
qed simp

lemma fifo_bounds:
  "i < length xs \<Longrightarrow> 0 \<le> fifo_split r xs ! i \<and> fifo_split r xs ! i \<le> max 0 (fst (xs ! i) - snd (xs ! i))"
proof (induction r xs arbitrary: i rule: fifo_split.induct)
  case (2 r t a xs)
  then show ?case by (cases i) (auto simp: Let_def)
qed simp

text \<open>First in, first out: an order gets money only if every earlier one is fully covered.\<close>

lemma fifo_order:
  "j < length xs \<Longrightarrow> i < j \<Longrightarrow> 0 < fifo_split r xs ! j
    \<Longrightarrow> fifo_split r xs ! i = max 0 (fst (xs ! i) - snd (xs ! i))"
proof (induction xs arbitrary: r i j)
  case (Cons x xs)
  obtain t a where x: "x = (t, a)" by (cases x)
  define p where "p = (if r \<le> 0 \<or> t - a \<le> 0 then 0 else min r (t - a))"
  have eq: "fifo_split r (x # xs) = p # fifo_split (r - p) xs" by (simp add: p_def x Let_def)
  obtain j' where j: "j = Suc j'" using Cons.prems(2) by (cases j) auto
  have pos: "0 < fifo_split (r - p) xs ! j'" and j': "j' < length xs"
    using Cons.prems(1,3) unfolding eq j by simp_all
  have r: "0 < r - p"
  proof (rule ccontr)
    assume "\<not> 0 < r - p"
    then have "fifo_split (r - p) xs ! j' = 0" using j' by (simp add: fifo_stop)
    with pos show False by simp
  qed
  show ?case
  proof (cases i)
    case 0
    with r show ?thesis unfolding eq by (auto simp: p_def x)
  next
    case (Suc i')
    with Cons.IH [OF j' _ pos, of i'] Cons.prems(2) show ?thesis unfolding eq j by simp
  qed
qed simp

text \<open>An order whose amounts are whole paise within the bound.\<close>

definition order_money :: "Order \<Rightarrow> bool" where
  "order_money ord \<longleftrightarrow> is_money (o_final_amount ord) \<and> is_money (o_paid_amount ord)
     \<and> money_ok (to_cents (o_final_amount ord) - to_cents (o_paid_amount ord))"

definition order_pair :: "Order \<Rightarrow> int \<times> int" where
  "order_pair ord = (to_cents (o_final_amount ord), to_cents (o_paid_amount ord))"

lemma order_due_cents:
  "order_money ord \<Longrightarrow> order_due ord = cents (to_cents (o_final_amount ord) - to_cents (o_paid_amount ord))"
  unfolding order_money_def order_due_def
  by (elim conjE is_moneyE) (simp add: round2_is_money round2_fsub_cents)

lemma apply_to_order_paid:
  assumes "order_money ord" "money_ok p"
  shows "o_paid_amount (apply_to_order e (cents p) ord) = cents (to_cents (o_paid_amount ord) + p)"
  using assms unfolding order_money_def apply_to_order_def Let_def
  by (elim conjE is_moneyE) (simp add: round2_is_money round2_fadd_cents)

lemma apply_to_order_id [simp]: "o_id (apply_to_order e amt ord) = o_id ord"
  by (simp add: apply_to_order_def Let_def)

lemma mirror_payment_orders [simp]: "orders (mirror_payment ord d) = orders d"
  by (simp add: mirror_payment_def split: option.splits)

lemma allocate_loop_untouched:
  "allocate_loop e os r d = (ids, d') \<Longrightarrow> k \<notin> o_id ` set os \<Longrightarrow> get_Order d' k = get_Order d k"
  by (induction e os r d arbitrary: ids d' rule: allocate_loop.induct)
    (auto simp: Let_def split: if_splits prod.splits)

text \<open>What the loop leaves of an order that is given \<open>p\<close> paise.\<close>

definition settled :: "env \<Rightarrow> int \<Rightarrow> Order \<Rightarrow> Order" where
  "settled e p ord = (if p = 0 then ord else apply_to_order e (cents p) ord)"

lemma settled_paid:
  assumes "order_money ord" "money_ok p"
  shows "o_paid_amount (settled e p ord) = cents (snd (order_pair ord) + p)"
  using assms apply_to_order_paid [OF assms]
  by (auto simp: settled_def order_pair_def order_money_def is_money_def)

lemma settled_status:
  assumes "order_money ord" "money_ok p" "p \<noteq> 0" "money_ok (snd (order_pair ord) + p)"
  shows "o_payment_status (settled e p ord) =
     (if fst (order_pair ord) \<le> snd (order_pair ord) + p then PS_PAID else PS_PARTIALLY_PAID)"
proof -
  obtain t a where ta: "money_ok t" "o_final_amount ord = cents t" "money_ok a" "o_paid_amount ord = cents a"
    using assms(1) by (auto simp: order_money_def elim!: is_moneyE)
  with assms show ?thesis
    by (simp add: settled_def apply_to_order_def Let_def order_pair_def round2_is_money round2_fadd_cents
        cents_milli_ge)
qed

lemma allocate_loop_refines:
  assumes "allocate_loop e os (cents r) d = (ids, d')"
    and "distinct (map o_id os)" "\<forall>ord \<in> set os. order_money ord \<and> get_Order d (o_id ord) = Some ord"
    and "money_ok r" "0 \<le> r" "i < length os"
  shows "get_Order d' (o_id (os ! i)) = Some (settled e (fifo_split r (map order_pair os) ! i) (os ! i))"
  using assms
proof (induction os arbitrary: r d ids d' i)
  case (Cons ord os)
  have om: "order_money ord" "get_Order d (o_id ord) = Some ord" using Cons.prems by auto
  define t where "t = to_cents (o_final_amount ord)"
  define a where "a = to_cents (o_paid_amount ord)"
  have pa: "o_paid_amount ord = cents a" and ok: "money_ok (t - a)"
    using om(1) by (auto simp: order_money_def a_def t_def is_money_def)
  have due: "order_due ord = cents (t - a)" using order_due_cents [OF om(1)] by (simp add: t_def a_def)
  have pair: "order_pair ord = (t, a)" by (simp add: order_pair_def t_def a_def)
  show ?case
  proof (cases "r \<le> 0")
    case True
    then have "(ids, d') = ([], d)"
      using Cons.prems(1,4) by (simp add: cents_le_eps_milli)
    moreover have "fifo_split r (map order_pair (ord # os)) ! i = 0"
      using True Cons.prems(6) by (auto simp: fifo_stop nth_Cons simp del: fifo_split.simps split: nat.splits)
    moreover have "get_Order d (o_id ((ord # os) ! i)) = Some ((ord # os) ! i)"
      using Cons.prems(3,6) nth_mem [of i "ord # os"] by blast
    ultimately show ?thesis by (simp add: settled_def)
  next
    case r: False
    then have nr: "\<not> cents r \<le> eps_milli" using Cons.prems(4) by (simp add: cents_le_eps_milli)
    show ?thesis
    proof (cases "t - a \<le> 0")
      case True
      then have loop: "allocate_loop e os (cents r) d = (ids, d')"
        using Cons.prems(1) nr ok by (simp add: due cents_le_eps_milli)
      show ?thesis
      proof (cases i)
        case 0
        have "get_Order d' (o_id ord) = get_Order d (o_id ord)"
          using allocate_loop_untouched [OF loop, of "o_id ord"] Cons.prems(2) by auto
        with 0 om pa pair True show ?thesis by (simp add: settled_def)
      next
        case (Suc i')
        with Cons.IH [OF loop, of i'] Cons.prems True pair show ?thesis by simp
      qed
    next
      case False
      define p where "p = min r (t - a)"
      have okp: "money_ok p" "money_ok (r - p)" "0 \<le> r - p"
        using Cons.prems(4) ok r False by (auto simp: p_def money_ok_def min_def)
      have amt: "round2 (min (cents r) (order_due ord)) = cents p"
        using okp(1) by (simp add: due cents_min p_def round2_is_money)
      have rest: "round2 (fsub (cents r) (cents p)) = cents (r - p)"
        using Cons.prems(4) okp(1) by (rule round2_fsub_cents)
      define ord' where "ord' = apply_to_order e (cents p) ord"
      let ?d = "mirror_payment ord' (put_Order ord' d)"
      obtain ids' where loop: "allocate_loop e os (cents (r - p)) ?d = (ids', d')"
        using Cons.prems(1) nr ok False
        by (auto simp: due cents_le_eps_milli Let_def amt [unfolded due] rest ord'_def split: prod.splits)
      have split: "fifo_split r (map order_pair (ord # os)) = p # fifo_split (r - p) (map order_pair os)"
        using r False by (simp add: pair p_def Let_def)
      show ?thesis
      proof (cases i)
        case 0
        have "get_Order d' (o_id ord) = get_Order ?d (o_id ord)"
          using allocate_loop_untouched [OF loop, of "o_id ord"] Cons.prems(2) by auto
        also have "\<dots> = Some ord'" using om(2) by (simp add: ord'_def)
        finally show ?thesis
          using 0 r False unfolding split by (simp add: ord'_def settled_def p_def)
      next
        case (Suc i')
        have *: "\<forall>ord \<in> set os. order_money ord \<and> get_Order ?d (o_id ord) = Some ord"
        proof
          fix x assume x: "x \<in> set os"
          then have "o_id x \<noteq> o_id ord" using Cons.prems(2) by (auto dest: sym)
          moreover have "order_money x \<and> get_Order d (o_id x) = Some x" using Cons.prems(3) x by simp
          ultimately show "order_money x \<and> get_Order ?d (o_id x) = Some x" by (simp add: ord'_def)
        qed
        have "distinct (map o_id os)" "i' < length os" using Cons.prems(2,6) Suc by simp_all
        from Cons.IH [OF loop this(1) * okp(2,3) this(2)] show ?thesis
          unfolding split Suc by simp
      qed
    qed
  qed
qed simp

section \<open>What the operations change\<close>

text \<open>Frame: allocation touches the orders and payments only; invoicing the invoices only.\<close>

lemma allocate_loop_frame:
  "allocate_loop e os r d = (ids, d') \<Longrightarrow> \<exists>t p. d' = d\<lparr>orders := t, payments := p\<rparr>"
proof (induction e os r d arbitrary: ids d' rule: allocate_loop.induct)
  case (1 e r d)
  then show ?case by (intro exI [of _ "orders d"] exI [of _ "payments d"]) simp
next
  case (2 e ord os r d)
  show ?case
  proof (cases "r \<le> eps_milli \<or> order_due ord \<le> eps_milli")
    case True
    then consider "r \<le> eps_milli" | "\<not> r \<le> eps_milli" "order_due ord \<le> eps_milli" by blast
    then show ?thesis
    proof cases
      case 1
      with 2(3) show ?thesis by (intro exI [of _ "orders d"] exI [of _ "payments d"]) simp
    next
      case 2
      with "2.IH"(1) "2.prems" show ?thesis by simp
    qed
  next
    case False
    define amt where "amt = round2 (min r (order_due ord))"
    define ord' where "ord' = apply_to_order e amt ord"
    obtain ids' where loop: "allocate_loop e os (round2 (fsub r amt))
        (mirror_payment ord' (put_Order ord' d)) = (ids', d')"
      using 2(3) False by (auto simp: Let_def ord'_def amt_def split: prod.splits)
    with 2(2) [OF _ _ amt_def ord'_def] False
    obtain t p where "d' = (mirror_payment ord' (put_Order ord' d))\<lparr>orders := t, payments := p\<rparr>"
      by blast
    then show ?thesis by (auto simp: mirror_payment_def split: option.splits)
  qed
qed

lemma issue_for_orders_frame: "\<exists>t. issue_for_orders e ids d = d\<lparr>invoices := t\<rparr>"
proof (induction e ids d rule: issue_for_orders.induct)
  case (1 e d)
  then show ?case by (auto intro: exI [of _ "invoices d"])
next
  case (2 e oid ids d)
  show ?case
  proof (cases "get_Order d oid")
    case None
    with 2(1) show ?thesis by simp
  next
    case (Some ord)
    obtain r d1 where i: "issue_from_order e ord d = (r, d1)" by fastforce
    obtain t where t: "d1 = d\<lparr>invoices := t\<rparr>" using issue_from_order_frame [OF i] by blast
    show ?thesis
    proof (cases r)
      case (Inl ex)
      with Some i t show ?thesis by auto
    next
      case (Inr ivc)
      with 2(2) [OF Some i [symmetric]] Some i t show ?thesis by auto
    qed
  qed
qed

lemma mirror_payment_wf: "db_wf d \<Longrightarrow> db_wf (mirror_payment ord d)"
  by (simp add: mirror_payment_def split: option.splits)

lemma allocate_loop_wf:
  "allocate_loop e os r d = (ids, d') \<Longrightarrow> db_wf d \<Longrightarrow> db_wf d'"
  by (induction e os r d arbitrary: ids d' rule: allocate_loop.induct)
    (auto simp: Let_def mirror_payment_wf split: if_splits prod.splits)

lemma issue_for_orders_wf: "db_wf d \<Longrightarrow> db_wf (issue_for_orders e ids d)"
proof (induction e ids d rule: issue_for_orders.induct)
  case (2 e oid ids d)
  show ?case
  proof (cases "get_Order d oid")
    case None
    with 2 show ?thesis by simp
  next
    case (Some ord)
    obtain r d1 where i: "issue_from_order e ord d = (r, d1)" by fastforce
    have wf: "db_wf d1" using issue_from_order_wf [OF i 2(3)] .
    show ?thesis
    proof (cases r)
      case (Inl ex)
      with Some i wf show ?thesis by simp
    next
      case (Inr ivc)
      with 2(2) [OF Some i [symmetric] Inr wf] Some i show ?thesis by simp
    qed
  qed
qed simp

lemma debit_credit_wf:
  "debit_credit e u amount oid note cb d = (r, d') \<Longrightarrow> db_wf d \<Longrightarrow> db_wf d'"
  by (auto simp: debit_credit_def get_profile_def Let_def split: if_splits option.splits)

lemma debit_creditE:
  assumes "debit_credit e u amount oid note cb d = (Inr entry, d')"
  obtains p bal where "profile_of d (u_id u) = Some p" "\<not> rp_is_blocked p" "rp_credit_allowed p"
    "0 < amount" "bal = round2 (fadd (rp_outstanding_balance p) amount)" "bal \<le> rp_credit_limit p"
    "le_id entry = next_id (ledger_entries d)" "le_retailer_user_id entry = u_id u"
    "le_entry_type entry = CreditEntryType_value CE_DEBIT" "le_amount entry = round2 amount"
    "le_balance_after entry = bal" "le_order_id entry = oid" "db_wf d \<longrightarrow> db_wf d'"
    "d' = d\<lparr>profiles := t_put rp_id (p\<lparr>rp_outstanding_balance := bal\<rparr>) (profiles d),
            ledger_entries := (ledger_entries d)\<lparr>rows := rows (ledger_entries d) @ [entry],
               next_id := next_id (ledger_entries d) + 1\<rparr>\<rparr>"
  using assms debit_credit_wf [OF assms]
  by (auto simp: debit_credit_def get_profile_def new_CreditLedgerEntry_def t_insert_def Let_def
      split: if_splits option.splits)

lemma credit_paymentE:
  assumes "credit_payment e uid amount note meth cb pid d = (Inr j, d')"
  obtains p owed pay bal ids d1 t ob entry where "profile_of d uid = Some p" "0 < amount"
    "owed = round2 (rp_outstanding_balance p)" "pay = round2 amount" "pay \<le> fadd owed eps_paisa"
    "bal = round2 (max 0 (fsub owed pay))"
    "allocate_collection_to_orders e uid pay
       (put_RetailerProfile (p\<lparr>rp_outstanding_balance := bal\<rparr>) d) = (ids, d1)"
    "le_retailer_user_id entry = uid" "le_entry_type entry = CreditEntryType_value CE_CREDIT"
    "le_amount entry = pay" "le_balance_after entry = bal"
    "d' = (add_CreditLedgerEntry entry d1)\<lparr>invoices := t, outbox := ob\<rparr>"
    "db_wf d \<longrightarrow> db_wf d'"
proof -
  from assms obtain p where p: "profile_of d uid = Some p" and amt: "0 < amount"
    by (auto simp: credit_payment_def get_profile_def split: if_splits option.splits)
  define owed where "owed = round2 (rp_outstanding_balance p)"
  define pay where "pay = round2 amount"
  define bal where "bal = round2 (max 0 (fsub owed pay))"
  obtain ids d1 where al: "allocate_collection_to_orders e uid pay
       (put_RetailerProfile (p\<lparr>rp_outstanding_balance := bal\<rparr>) d) = (ids, d1)" by fastforce
  define entry where "entry = (new_CreditLedgerEntry (env_now e) uid (CreditEntryType_value CE_CREDIT))
                     \<lparr>le_amount := pay, le_balance_after := bal, le_payment_id := pid,
                      le_note := Some (or_str note (collection_label meth ids)),
                      le_created_by := cb\<rparr>"
  obtain t where t: "issue_for_orders e ids (add_CreditLedgerEntry entry d1) =
      (add_CreditLedgerEntry entry d1)\<lparr>invoices := t\<rparr>" using issue_for_orders_frame by blast
  have le: "pay \<le> fadd owed eps_paisa"
    using assms p amt by (auto simp: credit_payment_def get_profile_def owed_def pay_def Let_def split: if_splits)
  define d3 where "d3 = issue_for_orders e ids (add_CreditLedgerEntry entry d1)"
  have wf: "db_wf d3" if "db_wf d"
    unfolding d3_def using that allocate_loop_wf [OF al [unfolded allocate_collection_to_orders_def]]
    by (intro issue_for_orders_wf) simp
  have "\<exists>ob. d' = d3\<lparr>outbox := ob\<rparr>"
    using assms p amt le al
    by (auto simp: credit_payment_def get_profile_def Let_def emit_defs entry_def d3_def
        simp flip: owed_def pay_def bal_def)
  then obtain ob where ob: "d' = d3\<lparr>outbox := ob\<rparr>" by blast
  with t have "d' = (add_CreditLedgerEntry entry d1)\<lparr>invoices := t, outbox := ob\<rparr>" by (simp add: d3_def)
  from that [OF p amt owed_def pay_def le bal_def al _ _ _ _ this] wf ob show thesis
    by (simp add: entry_def new_CreditLedgerEntry_def)
qed

lemma profile_of_put:
  assumes "db_wf d" "profile_of d uid = Some p"
  shows "t_first (\<lambda>r. rp_user_id r = uid)
     (t_put rp_id (p\<lparr>rp_outstanding_balance := b\<rparr>) (profiles d)) = Some (p\<lparr>rp_outstanding_balance := b\<rparr>)"
  using assms t_first_SomeD [of "\<lambda>r. rp_user_id r = uid" "profiles d" p]
  by (intro t_first_put_same [where r = p]) (auto simp: profile_of_def)

section \<open>The shop account as a running ledger\<close>

text \<open>Amounts up to 2 to the 39 paise (some 5.5 billion rupees): sums of two stay within the
  range on which the double arithmetic of the code is exact to the paisa.\<close>

definition shop_amount :: "int \<Rightarrow> bool" where
  "shop_amount n \<longleftrightarrow> 0 \<le> n \<and> n \<le> 2 ^ 39"

lemma shop_amount_ok [simp]: "shop_amount n \<Longrightarrow> money_ok n"
  by (simp add: shop_amount_def money_ok_def money_bound_def)

lemma shop_amount_sum [simp]:
  "shop_amount a \<Longrightarrow> shop_amount b \<Longrightarrow> money_ok (a + b)"
  "shop_amount a \<Longrightarrow> shop_amount b \<Longrightarrow> money_ok (a - b)"
  by (auto simp: shop_amount_def money_ok_def money_bound_def)

definition shop_balance :: "int \<Rightarrow> db \<Rightarrow> int" where
  "shop_balance uid d = (case profile_of d uid of None \<Rightarrow> 0 | Some p \<Rightarrow> to_cents (rp_outstanding_balance p))"

definition entry_move :: "CreditLedgerEntry \<Rightarrow> int \<times> int" where
  "entry_move le = ((if le_entry_type le = CreditEntryType_value CE_DEBIT then 1 else - 1) * to_cents (le_amount le),
                    to_cents (le_balance_after le))"

definition shop_journal :: "int \<Rightarrow> db \<Rightarrow> journal" where
  "shop_journal uid d = map entry_move (t_all (\<lambda>r. le_retailer_user_id r = uid) (ledger_entries d))"

text \<open>The account of shop \<open>uid\<close> is sound: one profile, a whole-paisa balance and limit.\<close>

definition shop_ok :: "int \<Rightarrow> db \<Rightarrow> bool" where
  "shop_ok uid d \<longleftrightarrow> db_wf d \<and> (\<exists>p b l. profile_of d uid = Some p \<and> rp_outstanding_balance p = cents b
     \<and> shop_amount b \<and> rp_credit_limit p = cents l \<and> shop_amount l)"

text \<open>A successful operation of the account of shop \<open>uid\<close>, whatever the amount, and the paise by which it may miss: a debit
  of an amount that is not of whole paise, and a collection of a paisa more than is owed, which \<open>credit_payment\<close>
  tolerates.\<close>

definition whole_paise :: "rat \<Rightarrow> bool" where
  "whole_paise x \<longleftrightarrow> x = cents (to_cents x)"

inductive account_step :: "int \<Rightarrow> nat \<Rightarrow> db \<Rightarrow> db \<Rightarrow> bool" for uid where
  debit: "debit_credit e u x oid note cb d = (Inr entry, d') \<Longrightarrow> u_id u = uid
     \<Longrightarrow> account_step uid (if whole_paise x then 0 else 1) d d'"
| collect: "credit_payment e uid x note meth cb pid d = (Inr j, d')
     \<Longrightarrow> account_step uid (if to_cents x \<le> shop_balance uid d then 0 else 1) d d'"

lemma debit_balance:
  assumes "db_wf d" "debit_credit e u (cents a) oid note cb d = (Inr entry, d')"
    and "profile_of d (u_id u) = Some p" "rp_outstanding_balance p = cents b" "shop_amount a" "shop_amount b"
  shows "profile_of d' (u_id u) = Some (p\<lparr>rp_outstanding_balance := cents (b + a)\<rparr>)"
    and "cents (b + a) \<le> rp_credit_limit p" and "0 < a"
    and "rows (ledger_entries d') = rows (ledger_entries d) @ [entry]"
    and "le_amount entry = cents a" "le_balance_after entry = cents (b + a)" "db_wf d'"
    and "shop_journal (u_id u) d' = shop_journal (u_id u) d @ [(a, b + a)]"
proof -
  from assms(2) obtain p' bal where D: "profile_of d (u_id u) = Some p'" "0 < cents a"
    "bal = round2 (fadd (rp_outstanding_balance p') (cents a))" "bal \<le> rp_credit_limit p'"
    "le_retailer_user_id entry = u_id u" "le_entry_type entry = CreditEntryType_value CE_DEBIT"
    "db_wf d \<longrightarrow> db_wf d'" "le_amount entry = round2 (cents a)" "le_balance_after entry = bal"
    "d' = d\<lparr>profiles := t_put rp_id (p'\<lparr>rp_outstanding_balance := bal\<rparr>) (profiles d),
            ledger_entries := (ledger_entries d)\<lparr>rows := rows (ledger_entries d) @ [entry],
               next_id := next_id (ledger_entries d) + 1\<rparr>\<rparr>"
    by (rule debit_creditE) metis
  have p: "p' = p" and bal: "bal = cents (b + a)"
    using D(1,3) assms(3-6) by (auto simp: round2_fadd_cents)
  show "profile_of d' (u_id u) = Some (p\<lparr>rp_outstanding_balance := cents (b + a)\<rparr>)"
    using profile_of_put [OF assms(1,3)] by (simp add: D(10) p bal profile_of_def)
  show "cents (b + a) \<le> rp_credit_limit p" using D(4) by (simp add: p bal)
  show "0 < a" using D(2) cents_mono [of a 0] by (cases "0 < a") auto
  show "rows (ledger_entries d') = rows (ledger_entries d) @ [entry]" by (simp add: D(10))
  show "le_amount entry = cents a" using D(8) assms(5) by (simp add: round2_is_money)
  show "le_balance_after entry = cents (b + a)" using D(9) bal by simp
  show "db_wf d'" using D(7) assms(1) by simp
  show "shop_journal (u_id u) d' = shop_journal (u_id u) d @ [(a, b + a)]"
    using D(5,6,8,9) bal assms(5,6)
    by (simp add: D(10) shop_journal_def t_all_def entry_move_def round2_is_money)
qed

lemma collect_balance:
  assumes "db_wf d" "credit_payment e uid x note meth cb pid d = (Inr j, d')"
    and "profile_of d uid = Some p" "rp_outstanding_balance p = cents b" "shop_amount b" "a = to_cents x"
  shows "profile_of d' uid = Some (p\<lparr>rp_outstanding_balance := cents (max 0 (b - a))\<rparr>)"
    and "a \<le> b + 1" and "0 \<le> a" and "db_wf d'"
    and "shop_journal uid d' = shop_journal uid d @ [(- a, max 0 (b - a))]"
proof -
  from assms(2) obtain p' owed pay bal ids d1 t ob entry where D: "profile_of d uid = Some p'" "0 < x"
    "owed = round2 (rp_outstanding_balance p')" "pay = round2 x" "pay \<le> fadd owed eps_paisa"
    "bal = round2 (max 0 (fsub owed pay))"
    "allocate_collection_to_orders e uid pay
       (put_RetailerProfile (p'\<lparr>rp_outstanding_balance := bal\<rparr>) d) = (ids, d1)"
    "le_retailer_user_id entry = uid" "le_entry_type entry = CreditEntryType_value CE_CREDIT"
    "le_amount entry = pay" "le_balance_after entry = bal"
    "d' = (add_CreditLedgerEntry entry d1)\<lparr>invoices := t, outbox := ob\<rparr>"
    "db_wf d \<longrightarrow> db_wf d'"
    by (rule credit_paymentE)
  have p: "p' = p" and op: "owed = cents b" "pay = cents a"
    using D(1,3,4) assms(3-6) by (simp_all add: round2_cents)
  have mb: "money_ok (b + 2)" using assms(5) by (simp add: shop_amount_def money_ok_def money_bound_def)
  have ab: "a \<le> b + 1"
  proof (rule ccontr)
    assume "\<not> a \<le> b + 1"
    then have "cents (b + 2) \<le> fadd (cents b) eps_paisa" using D(5) op cents_mono [of "b + 2" a] by simp
    then show False using cents_paisa_le [of b "b + 2"] mb assms(5) by simp
  qed
  have a0: "0 \<le> a" using D(2) rne_mono [of 0 "x * 100"] assms(6) by (simp add: to_cents_def)
  have ma: "money_ok a" using ab a0 assms(5) by (simp add: shop_amount_def money_ok_def money_bound_def)
  have "round2 (max 0 (fsub (cents b) (cents a))) = max 0 (cents (b - a))"
    using round2_fsub_cents [of b a] round2_mono [of 0 "fsub (cents b) (cents a)"]
      round2_mono [of "fsub (cents b) (cents a)" 0] assms(5) ma
    by (auto simp: max_def)
  then have bal: "bal = cents (max 0 (b - a))"
    using D(6) op cents_max [of 0 "b - a"] by simp
  obtain ot pt where d1: "d1 = d\<lparr>profiles := t_put rp_id (p\<lparr>rp_outstanding_balance := bal\<rparr>) (profiles d),
      orders := ot, payments := pt\<rparr>"
    using allocate_loop_frame [OF D(7) [unfolded allocate_collection_to_orders_def]] p by auto
  show "profile_of d' uid = Some (p\<lparr>rp_outstanding_balance := cents (max 0 (b - a))\<rparr>)"
    using profile_of_put [OF assms(1,3)] by (simp add: D(12) d1 bal profile_of_def)
  show "a \<le> b + 1" "0 \<le> a" using ab a0 by simp_all
  show "db_wf d'" using D(13) assms(1) by simp
  have "money_ok (max 0 (b - a))" using assms(5) ab a0 by (auto simp: money_ok_def max_def shop_amount_def money_bound_def)
  then show "shop_journal uid d' = shop_journal uid d @ [(- a, max 0 (b - a))]"
    using D(8-11) bal op ma by (simp add: D(12) d1 shop_journal_def t_all_insert entry_move_def)
qed

lemma shop_balance_Some: "profile_of d uid = Some p \<Longrightarrow> rp_outstanding_balance p = cents b
    \<Longrightarrow> money_ok b \<Longrightarrow> shop_balance uid d = b"
  by (simp add: shop_balance_def)

lemma cents_le_bounded:
  assumes "cents a \<le> cents b" "\<bar>b\<bar> < money_bound" shows "a \<le> b"
proof (rule ccontr)
  assume "\<not> a \<le> b"
  then have "cents (b + 1) \<le> cents b" using assms(1) cents_mono [of "b + 1" a] by simp
  then show False using cents_le_iff [of "b + 1" b] assms(2) by (simp add: money_ok_def)
qed

lemma debit_any:
  assumes "db_wf d" "debit_credit e u x oid note cb d = (Inr entry, d')"
    and "profile_of d (u_id u) = Some p" "rp_outstanding_balance p = cents b" "shop_amount b"
    and "rp_credit_limit p = cents l" "shop_amount l"
  shows "\<exists>b'. profile_of d' (u_id u) = Some (p\<lparr>rp_outstanding_balance := cents b'\<rparr>) \<and> shop_amount b' \<and> db_wf d'
    \<and> shop_journal (u_id u) d' = shop_journal (u_id u) d @ [(to_cents x, b')]
    \<and> \<bar>b' - (b + to_cents x)\<bar> \<le> (if whole_paise x then 0 else 1)"
proof -
  from assms(2) obtain p' bal where D: "profile_of d (u_id u) = Some p'" "0 < x"
    "bal = round2 (fadd (rp_outstanding_balance p') x)" "bal \<le> rp_credit_limit p'"
    "le_retailer_user_id entry = u_id u" "le_entry_type entry = CreditEntryType_value CE_DEBIT"
    "db_wf d \<longrightarrow> db_wf d'" "le_amount entry = round2 x" "le_balance_after entry = bal"
    "d' = d\<lparr>profiles := t_put rp_id (p'\<lparr>rp_outstanding_balance := bal\<rparr>) (profiles d),
            ledger_entries := (ledger_entries d)\<lparr>rows := rows (ledger_entries d) @ [entry],
               next_id := next_id (ledger_entries d) + 1\<rparr>\<rparr>"
    by (rule debit_creditE) metis
  define b' where "b' = to_cents (fadd (cents b) x)"
  have p: "p' = p" and bal: "bal = cents b'" using D(1,3) assms(3,4) by (simp_all add: b'_def round2_cents)
  have l: "\<bar>l\<bar> < money_bound" using assms(7) by (simp add: shop_amount_def money_bound_def)
  have "b' \<le> l" using D(4) p bal assms(6) by (intro cents_le_bounded [OF _ l]) simp
  moreover have "0 \<le> b'"
    using D(2) assms(5) rne_mono [of 0 "fadd (cents b) x * 100"] fadd_nonneg [of "cents b" x] cents_nonneg [of b]
    by (simp add: b'_def to_cents_def shop_amount_def)
  ultimately have b': "shop_amount b'" using assms(7) by (simp add: shop_amount_def)
  have "x < cents (l + 1)"
  proof (rule ccontr)
    assume "\<not> x < cents (l + 1)"
    then have "cents (l + 1) \<le> fadd (cents b) x"
      using assms(5) cents_nonneg [of b] unfolding fadd_def by (intro fl_ge_double) (simp_all add: shop_amount_def)
    then have "cents (l + 1) \<le> bal"
      using round2_mono [of "cents (l + 1)"] round2_is_money [of "l + 1"] l
      by (fastforce simp: D(3) p assms(4) money_ok_def)
    then have "cents (l + 1) \<le> cents l" using D(4) p assms(6) by simp
    then show False using cents_le_bounded [OF _ l, of "l + 1"] by simp
  qed
  then have "to_cents x \<le> to_cents (cents (l + 1))" unfolding to_cents_def by (intro rne_mono) simp
  moreover have "0 \<le> to_cents x" using D(2) rne_mono [of 0 "x * 100"] by (simp add: to_cents_def)
  moreover have "money_ok (l + 1)" using l assms(7) by (simp add: money_ok_def shop_amount_def)
  ultimately have ok: "money_ok (to_cents x)" using money_ok_mono [of "l + 1" "to_cents x"] by simp
  have slip: "\<bar>b' - (b + to_cents x)\<bar> \<le> 1"
    unfolding b'_def using assms(5) ok by (intro round2_fadd_slip) simp_all
  have exact: "b' = b + to_cents x" if "whole_paise x"
  proof -
    have "cents b' = cents (b + to_cents x)"
      using round2_fadd_cents [of b "to_cents x"] assms(5) ok that [unfolded whole_paise_def, symmetric]
      by (simp add: b'_def flip: round2_cents)
    moreover have "money_ok (b + to_cents x)" using slip b' unfolding shop_amount_def money_ok_def money_bound_def by simp linarith
    ultimately show ?thesis using cents_eq_iff [of b' "b + to_cents x"] b' by simp
  qed
  have "shop_journal (u_id u) d' = shop_journal (u_id u) d @ [(to_cents x, b')]"
    using D(5,6,8,9) bal ok b'
    by (simp add: D(10) shop_journal_def t_all_def entry_move_def round2_cents)
  moreover have "profile_of d' (u_id u) = Some (p\<lparr>rp_outstanding_balance := cents b'\<rparr>)"
    using profile_of_put [OF assms(1,3)] by (simp add: D(10) p bal profile_of_def)
  ultimately show ?thesis using b' D(7) assms(1) slip exact by auto
qed

lemma account_step_effect:
  assumes "account_step uid k d d'" "db_wf d" "profile_of d uid = Some p" "rp_outstanding_balance p = cents b" "shop_amount b"
    and "rp_credit_limit p = cents l" "shop_amount l"
  shows "\<exists>x b'. profile_of d' uid = Some (p\<lparr>rp_outstanding_balance := cents b'\<rparr>) \<and> shop_amount b' \<and> db_wf d'
    \<and> shop_journal uid d' = shop_journal uid d @ [(x, b')] \<and> \<bar>b' - (b + x)\<bar> \<le> int k"
  using assms(1)
proof (cases rule: account_step.cases)
  case (debit e u x oid nt cb entry)
  obtain b' where "profile_of d' uid = Some (p\<lparr>rp_outstanding_balance := cents b'\<rparr>)" "shop_amount b'" "db_wf d'"
    "shop_journal uid d' = shop_journal uid d @ [(to_cents x, b')]" "\<bar>b' - (b + to_cents x)\<bar> \<le> (if whole_paise x then 0 else 1)"
    using debit_any [OF assms(2) debit(2) _ assms(4-7)] assms(3) unfolding debit(3) by blast
  then show ?thesis
    using debit(1) by (intro exI [of _ "to_cents x"] exI [of _ b']) (simp split: if_splits)
next
  case (collect e x nt meth cb pid j)
  note B = collect_balance [OF assms(2) collect(2) assms(3-5) refl]
  have "shop_balance uid d = b" using assms(3-5) by (simp add: shop_balance_def)
  then show ?thesis
    using B collect(1) assms(5) by (intro exI [of _ "- to_cents x"] exI [of _ "max 0 (b - to_cents x)"])
      (auto simp: shop_amount_def max_def)
qed

lemma shop_step_laws:
  assumes "shop_ok uid d" "account_step uid k d d'"
  shows "shop_ok uid d'" and "\<exists>x. shop_journal uid d' = shop_journal uid d @ [(x, shop_balance uid d')]
    \<and> \<bar>shop_balance uid d' - (shop_balance uid d + x)\<bar> \<le> int k"
proof -
  obtain p b l where p: "db_wf d" "profile_of d uid = Some p" "rp_outstanding_balance p = cents b"
    "shop_amount b" "rp_credit_limit p = cents l" "shop_amount l"
    using assms(1) by (auto simp: shop_ok_def)
  obtain x b' where b': "profile_of d' uid = Some (p\<lparr>rp_outstanding_balance := cents b'\<rparr>)"
    "shop_amount b'" "db_wf d'" "shop_journal uid d' = shop_journal uid d @ [(x, b')]" "\<bar>b' - (b + x)\<bar> \<le> int k"
    using account_step_effect [OF assms(2) p] by blast
  show "shop_ok uid d'" unfolding shop_ok_def
    using b' p by (intro conjI exI [of _ "p\<lparr>rp_outstanding_balance := cents b'\<rparr>"] exI [of _ b'] exI [of _ l]) simp_all
  have "shop_balance uid d' = b'" using b'(2) by (intro shop_balance_Some [OF b'(1)]) simp_all
  moreover have "shop_balance uid d = b" using p by (simp add: shop_balance_Some)
  ultimately show "\<exists>x. shop_journal uid d' = shop_journal uid d @ [(x, shop_balance uid d')]
    \<and> \<bar>shop_balance uid d' - (shop_balance uid d + x)\<bar> \<le> int k"
    using b'(4,5) by auto
qed

interpretation shop_account: running_ledger "shop_ok uid" "shop_balance uid" "shop_journal uid" "account_step uid"
  for uid
  by unfold_locales (fact shop_step_laws)+

section \<open>Properties\<close>

text \<open>Property C5 (debit_within_limit): a successful credit debit is of a positive amount, to a shop that is
  not blocked and may buy on credit; the new balance is exactly the old one plus the amount, it stays
  within the credit limit, and exactly one ledger entry with that amount and balance is appended.\<close>

theorem debit_within_limit:
  assumes "db_wf d" "debit_credit e u (cents a) oid note cb d = (Inr entry, d')"
    and "profile_of d (u_id u) = Some p" "rp_outstanding_balance p = cents b" "shop_amount a" "shop_amount b"
  shows "0 < a \<and> \<not> rp_is_blocked p \<and> rp_credit_allowed p \<and> cents (b + a) \<le> rp_credit_limit p
    \<and> profile_of d' (u_id u) = Some (p\<lparr>rp_outstanding_balance := cents (b + a)\<rparr>)
    \<and> rows (ledger_entries d') = rows (ledger_entries d) @ [entry]
    \<and> le_amount entry = cents a \<and> le_balance_after entry = cents (b + a)"
proof -
  have "\<not> rp_is_blocked p \<and> rp_credit_allowed p"
    using assms(2,3) by (auto elim!: debit_creditE)
  with debit_balance [OF assms] show ?thesis by simp
qed

text \<open>A refused debit changes nothing, and a debit within the limit of an
  unblocked shop that may buy on credit is never refused.\<close>

theorem debit_rejected_unchanged:
  assumes "debit_credit e u (cents a) oid note cb d = (Inl ex, d')"
    and "profile_of d (u_id u) = Some p" "rp_outstanding_balance p = cents b" "shop_amount a" "shop_amount b"
    and "rp_credit_limit p = cents l" "shop_amount l"
  shows "d' = d \<and> (a = 0 \<or> rp_is_blocked p \<or> \<not> rp_credit_allowed p \<or> l < b + a)"
proof -
  have "cents a \<le> 0 \<longleftrightarrow> a \<le> 0" using cents_le_iff [of a 0] assms(4) money_ok_simps(1) by simp
  moreover have "0 \<le> a" using assms(4) by (simp add: shop_amount_def)
  moreover have "cents l < cents (b + a) \<longleftrightarrow> l < b + a" using cents_less_iff [of l "b + a"] assms by simp
  ultimately show ?thesis
    using assms by (auto simp: debit_credit_def get_profile_def Let_def round2_fadd_cents split: if_splits)
qed

text \<open>Property C6 (collection_fifo): a successful collection of \<open>a\<close> paise is spread over the shop's open B2B
  orders first in, first out: every order ends exactly as the split says, the shares add up to the
  collection or to everything due, and an order gets a share only when each earlier one is covered.\<close>

theorem collection_fifo:
  assumes "db_wf d" "credit_payment e uid (cents a) note meth cb pid d = (Inr j, d')" "shop_amount a"
    and "os = open_b2b_orders d uid" "\<forall>ord \<in> set os. order_money ord"
    and "shares = fifo_split a (map order_pair os)"
  shows "(\<forall>i < length os. get_Order d' (o_id (os ! i)) = Some (settled e (shares ! i) (os ! i)))
    \<and> sum_list shares = min a (\<Sum>ord\<leftarrow>os. max 0 (fst (order_pair ord) - snd (order_pair ord)))
    \<and> (\<forall>i k. i < k \<and> k < length os \<and> 0 < shares ! k
        \<longrightarrow> shares ! i = max 0 (fst (order_pair (os ! i)) - snd (order_pair (os ! i))))"
proof (intro conjI allI impI)
  fix i assume i: "i < length os"
  from assms(2) obtain p bal ids d1 t ob entry where D: "profile_of d uid = Some p"
    "allocate_collection_to_orders e uid (round2 (cents a))
       (put_RetailerProfile (p\<lparr>rp_outstanding_balance := bal\<rparr>) d) = (ids, d1)"
    "d' = (add_CreditLedgerEntry entry d1)\<lparr>invoices := t, outbox := ob\<rparr>"
    by (rule credit_paymentE) metis
  have loop: "allocate_loop e os (cents a) (put_RetailerProfile (p\<lparr>rp_outstanding_balance := bal\<rparr>) d) = (ids, d1)"
    using D(2) assms(3,4) by (simp add: allocate_collection_to_orders_def open_b2b_orders_def round2_is_money)
  have mem: "ord \<in> set os \<Longrightarrow> ord \<in> set (rows (orders d))" for ord
    by (simp add: assms(4) open_b2b_orders_def t_all_iff)
  have "distinct (map o_id os)"
    using t_wf_distinct [of o_id "orders d"] assms(1)
    by (auto simp: assms(4) open_b2b_orders_def t_all_def distinct_map inj_on_def)
  moreover have "\<forall>ord \<in> set os. order_money ord \<and>
      get_Order (put_RetailerProfile (p\<lparr>rp_outstanding_balance := bal\<rparr>) d) (o_id ord) = Some ord"
    using assms(1,5) mem by (simp add: t_get_Some_iff)
  ultimately have "get_Order d1 (o_id (os ! i)) = Some (settled e (shares ! i) (os ! i))"
    using allocate_loop_refines [OF loop _ _ _ _ i] assms(3,6) by (simp add: shop_amount_def)
  then show "get_Order d' (o_id (os ! i)) = Some (settled e (shares ! i) (os ! i))" by (simp add: D(3))
next
  show "sum_list shares = min a (\<Sum>ord\<leftarrow>os. max 0 (fst (order_pair ord) - snd (order_pair ord)))"
    using fifo_sum [of a "map order_pair os"] assms(3,6)
    by (simp add: shop_amount_def case_prod_unfold comp_def)
next
  fix i k assume "i < k \<and> k < length os \<and> 0 < shares ! k"
  then show "shares ! i = max 0 (fst (order_pair (os ! i)) - snd (order_pair (os ! i)))"
    using fifo_order [of k "map order_pair os" i a] assms(6) by simp
qed

text \<open>Property C17 (shop_balance_is_history): along any history of successful debits and collections of a shop, of
  whatever amounts, the last ledger entry records the balance, and the balance differs from the sum of the movements in
  the ledger by at most one paisa for every debit that was not of whole paise and every collection of a paisa more than
  was owed; without any such step each entry records exactly the movement and the balance after it.\<close>

theorem shop_balance_is_history:
  assumes "slip_run (account_step uid) n d d'" "shop_ok uid d"
  shows "shop_ok uid d' \<and> (\<exists>js. shop_journal uid d' = shop_journal uid d @ js
     \<and> (js \<noteq> [] \<longrightarrow> snd (last js) = shop_balance uid d')
     \<and> \<bar>shop_balance uid d' - (shop_balance uid d + journal_sum js)\<bar> \<le> int n
     \<and> (n = 0 \<longrightarrow> journal_ok (shop_balance uid d) js \<and> shop_balance uid d' = shop_balance uid d + journal_sum js))"
  using shop_account.history_ok [OF assms] shop_account.history_journal [OF assms] by auto

text \<open>A collection of a paisa more than is owed is accepted; the balance ends at zero, and the paisa is in the ledger only.\<close>

lemma overpaid_paisa_lost:
  assumes "credit_payment e uid x note meth cb pid d = (Inr j, d')" "db_wf d"
    and "profile_of d uid = Some p" "rp_outstanding_balance p = cents b" "shop_amount b" "to_cents x = b + 1"
  shows "shop_balance uid d' = 0 \<and> shop_journal uid d' = shop_journal uid d @ [(- (b + 1), 0)]"
  using collect_balance [OF assms(2,1,3-5) refl] assms(6) by (simp add: shop_balance_def to_cents_def)

section \<open>Worked examples\<close>

definition shop_user :: User where
  "shop_user = (new_User 0 ''9876543210'')\<lparr>u_id := 7, u_role := UR_RETAILER\<rparr>"

definition shop_profile :: RetailerProfile where
  "shop_profile = (new_RetailerProfile 0 7 ''Asha Stores'')\<lparr>rp_id := 1\<rparr>"

definition b2b_order :: "int \<Rightarrow> rat \<Rightarrow> rat \<Rightarrow> Order" where
  "b2b_order t amt paid = (new_Order t (''SC'' @ show_int t) 7)
     \<lparr>o_order_type := OrderType_value OT_B2B_SHOP_ORDER, o_final_amount := amt, o_paid_amount := paid\<rparr>"

text \<open>One shop that owes 500.00, and two open orders of it, the second placed earlier.\<close>

definition shop_db :: db where
  "shop_db = add_Order (b2b_order 10 (cents 30000) 0) (add_Order (b2b_order 20 (cents 20000) 0)
     (add_RetailerProfile (shop_profile\<lparr>rp_outstanding_balance := cents 50000\<rparr>) empty_db))"

lemma shop_db_wf: "db_wf shop_db"
  by (simp add: shop_db_def db_wf_empty)

lemma shop_db_profile: "profile_of shop_db 7 = Some (shop_profile\<lparr>rp_outstanding_balance := cents 50000\<rparr>)"
  by code_simp

lemma shop_db_ok: "shop_ok 7 shop_db"
  unfolding shop_ok_def
  by (intro conjI shop_db_wf exI [of _ "shop_profile\<lparr>rp_outstanding_balance := cents 50000\<rparr>"]
      exI [of _ 50000] exI [of _ 5000000]; (rule shop_db_profile)?; code_simp?; simp add: shop_amount_def)

definition sample_debit :: "(exc + CreditLedgerEntry) \<times> db" where
  "sample_debit = debit_credit sample_env shop_user (cents 12550) None None None shop_db"

lemma sample_debit_ok: "\<not> isl (fst sample_debit)"
  by code_simp

lemma debit_within_limit_witness:
  "profile_of (snd sample_debit) 7 = Some (shop_profile\<lparr>rp_outstanding_balance := cents 62550\<rparr>)
   \<and> cents 62550 \<le> rp_credit_limit shop_profile
   \<and> rows (ledger_entries (snd sample_debit)) = [projr (fst sample_debit)]"
proof -
  have "debit_credit sample_env shop_user (cents 12550) None None None shop_db
      = (Inr (projr (fst sample_debit)), snd sample_debit)"
    using run_ok [OF sample_debit_ok] by (simp add: sample_debit_def)
  moreover have "u_id shop_user = 7" "rows (ledger_entries shop_db) = []" by code_simp+
  ultimately show ?thesis
    using debit_within_limit [of shop_db sample_env shop_user 12550 None None None
        "projr (fst sample_debit)" "snd sample_debit" "shop_profile\<lparr>rp_outstanding_balance := cents 50000\<rparr>" 50000]
      shop_db_wf shop_db_profile by (simp add: shop_amount_def)
qed

text \<open>A debit of 60000.00 would take the shop beyond its limit of 50000.00.\<close>

lemma debit_rejected_unchanged_witness:
  "snd (debit_credit sample_env shop_user (cents 6000000) None None None shop_db) = shop_db"
proof -
  define run where "run = debit_credit sample_env shop_user (cents 6000000) None None None shop_db"
  have u: "u_id shop_user = 7" "rp_credit_limit shop_profile = cents 5000000" by code_simp+
  have pos: "\<not> cents 6000000 \<le> 0" and lt: "cents 5000000 < cents 6050000"
    using cents_less_iff [of 0 6000000] cents_less_iff [of 5000000 6050000]
    by (simp_all add: money_ok_def money_bound_def not_le)
  have "isl (fst run)"
    using pos lt u shop_db_profile
    by (simp add: run_def debit_credit_def get_profile_def Let_def round2_fadd_cents money_ok_def money_bound_def)
  from debit_rejected_unchanged [OF run_error [OF this, unfolded run_def], of
      "shop_profile\<lparr>rp_outstanding_balance := cents 50000\<rparr>" 50000 5000000]
  show ?thesis using shop_db_profile u by (simp add: run_def shop_amount_def)
qed

lemma credit_payment_succeeds:
  assumes "profile_of d uid = Some p" "rp_outstanding_balance p = cents b" "money_ok a" "money_ok b" "0 < a" "a \<le> b"
  shows "\<exists>j d'. credit_payment e uid (cents a) note meth cb pid d = (Inr j, d')"
proof -
  have "0 < cents a" using cents_less_iff [of 0 a] assms(3,5) money_ok_simps(1) by simp
  then show ?thesis
    using assms cents_paisa_ge [of a b]
    by (simp add: credit_payment_def get_profile_def Let_def round2_is_money split: prod.splits)
qed

text \<open>350.00 collected: 300.00 for the earlier order, 50.00 towards the 200.00 of the later one.\<close>

lemma collection_fifo_witness:
  "\<exists>j d'. credit_payment sample_env 7 (cents 35000) None None None None shop_db = (Inr j, d')
     \<and> map_option o_paid_amount (get_Order d' 2) = Some (cents 30000)
     \<and> map_option o_paid_amount (get_Order d' 1) = Some (cents 5000)"
proof -
  obtain j d' where run: "credit_payment sample_env 7 (cents 35000) None None None None shop_db = (Inr j, d')"
    using credit_payment_succeeds [OF shop_db_profile, of 50000 35000 sample_env None None None None]
    by (auto simp: money_ok_def money_bound_def)
  define os where "os = open_b2b_orders shop_db 7"
  have os: "map order_pair os = [(30000, 0), (20000, 0)]" "map o_id os = [2, 1]" "list_all order_money os"
    unfolding os_def by code_simp+
  have split: "fifo_split 35000 [(30000, 0), (20000, 0)] = [30000, 5000]" by code_simp
  have all: "\<forall>ord \<in> set os. order_money ord" using os(3) by (simp add: list_all_iff)
  have len: "length os = 2" using os(2) by (metis length_map length_Cons list.size(3) One_nat_def Suc_1)
  note F = collection_fifo [OF shop_db_wf run _ os_def all refl, unfolded os(1) split]
  from F have g: "get_Order d' (o_id (os ! 0)) = Some (settled sample_env 30000 (os ! 0))"
    "get_Order d' (o_id (os ! 1)) = Some (settled sample_env 5000 (os ! 1))"
    using len by (auto simp: shop_amount_def)
  moreover have "o_id (os ! 0) = 2" "o_id (os ! 1) = 1" "order_pair (os ! 0) = (30000, 0)"
    "order_pair (os ! 1) = (20000, 0)"
    using os(1,2) len by (metis nth_map One_nat_def lessI nth_Cons_0 nth_Cons_Suc numeral_2_eq_2 zero_less_Suc)+
  moreover have "order_money (os ! 0)" "order_money (os ! 1)" using all len by simp_all
  ultimately show ?thesis
    using run settled_paid [of "os ! 0" 30000 sample_env] settled_paid [of "os ! 1" 5000 sample_env]
    by (intro exI [of _ j] exI [of _ d']) (simp add: money_ok_def money_bound_def)
qed

lemma shop_balance_is_history_witness:
  "\<exists>d'. slip_run (account_step 7) 0 shop_db d' \<and> shop_ok 7 d' \<and> shop_journal 7 d' = [(12550, 62550)]
     \<and> shop_balance 7 d' = 62550"
proof -
  have bal: "shop_balance 7 shop_db = 50000" "shop_journal 7 shop_db = []" by code_simp+
  have "debit_credit sample_env shop_user (cents 12550) None None None shop_db
      = (Inr (projr (fst sample_debit)), snd sample_debit)"
    using run_ok [OF sample_debit_ok] by (simp add: sample_debit_def)
  moreover have "u_id shop_user = 7" by code_simp
  ultimately have "account_step 7 (if whole_paise (cents 12550) then 0 else 1) shop_db (snd sample_debit)"
    by (intro account_step.debit) auto
  then have st: "slip_run (account_step 7) 0 shop_db (snd sample_debit)"
    by (intro slip_run_one) (simp add: whole_paise_def money_ok_def money_bound_def)
  note H = shop_balance_is_history [OF st shop_db_ok, unfolded bal]
  have "shop_journal 7 (snd sample_debit) = [(12550, 62550)]" by code_simp
  with H st bal show ?thesis by (intro exI [of _ "snd sample_debit"]) (auto simp: journal_sum_def)
qed

end
