(* ===== verification/Cart.thy ===== *)
theory Cart
  imports Invoices
begin

text \<open>
  \<open>checkout_service/app/services/orders.py\<close>, the cart: \<open>_settings\<close>, \<open>get_or_create_cart\<close>,
  \<open>cart_summary\<close> with its prices, \<open>add_to_cart\<close>, \<open>patch_cart_item\<close>, \<open>remove_cart_item\<close>,
  \<open>apply_coupon\<close> and \<open>_coupon_discount\<close>, and the delivery check of \<open>geo.py\<close>.
\<close>

section \<open>Settings, prices, carts\<close>

definition settings :: "env \<Rightarrow> db \<Rightarrow> BakerySettings \<times> db" where
  "settings e d = (case t_first (\<lambda>r. True) (settings_rows d) of
     Some s \<Rightarrow> (s, d)
   | None \<Rightarrow> (key_BakerySettings (new_BakerySettings (env_now e)) d,
              add_BakerySettings (new_BakerySettings (env_now e)) d))"

definition customer_unit_price :: "Product \<Rightarrow> rat" where
  "customer_unit_price p = (case p_customer_price p of Some x \<Rightarrow> x | None \<Rightarrow> p_selling_price p)"

definition cart_of :: "db \<Rightarrow> int \<Rightarrow> Cart option" where
  "cart_of d user_id = t_first (\<lambda>r. ct_user_id r = user_id) (carts d)"

definition get_or_create_cart :: "env \<Rightarrow> int \<Rightarrow> db \<Rightarrow> Cart \<times> db" where
  "get_or_create_cart e user_id d = (case cart_of d user_id of
     Some c \<Rightarrow> (c, d)
   | None \<Rightarrow> (key_Cart (new_Cart (env_now e) user_id) d, add_Cart (new_Cart (env_now e) user_id) d))"

definition active_items :: "db \<Rightarrow> int \<Rightarrow> CartItem list" where
  "active_items d cart_id = t_all (\<lambda>r. ci_cart_id r = cart_id \<and> \<not> ci_saved_for_later r) (cart_items d)"

definition saved_items :: "db \<Rightarrow> int \<Rightarrow> CartItem list" where
  "saved_items d cart_id = t_all (\<lambda>r. ci_cart_id r = cart_id \<and> ci_saved_for_later r) (cart_items d)"

section \<open>Coupons\<close>

definition coupon_discount :: "Coupon \<Rightarrow> rat \<Rightarrow> rat" where
  "coupon_discount coupon subtotal =
     (if subtotal < cp_min_order_amount coupon then 0
      else if cp_coupon_type coupon \<in> set [''percentage'', ''first_order'', ''festival'', ''category'', ''product'']
      then let disc = fdiv (fmul subtotal (cp_value coupon)) 100
           in (case cp_max_discount coupon of
                 Some m \<Rightarrow> if m \<noteq> 0 then min disc m else disc
               | None \<Rightarrow> disc)
      else if cp_coupon_type coupon = ''free_delivery'' then 0
      else min (cp_value coupon) subtotal)"

definition active_coupon :: "db \<Rightarrow> string \<Rightarrow> Coupon option" where
  "active_coupon d c = t_first (\<lambda>r. cp_code r = c \<and> cp_is_active r) (coupons d)"

section \<open>The summary\<close>

record cart_line =
  cl_id :: int
  cl_product_id :: int
  cl_product_name :: string
  cl_product_image :: "string option"
  cl_supplier_user_id :: "int option"
  cl_variant :: "string option"
  cl_flavor :: "string option"
  cl_quantity :: int
  cl_unit_price :: rat
  cl_total_price :: rat

record cart_totals =
  su_cart_id :: int
  su_shop_user_id :: "int option"
  su_shop_name :: "string option"
  su_items :: "cart_line list"
  su_saved_for_later :: "(int \<times> int \<times> int) list"
  su_coupon_code :: "string option"
  su_subtotal :: rat
  su_discount :: rat
  su_gst :: rat
  su_delivery_fee :: rat
  su_final_total :: rat

definition line_of :: "db \<Rightarrow> CartItem \<Rightarrow> cart_line" where
  "line_of d item =
     (let product = get_Product d (ci_product_id item)
      in \<lparr>cl_id = ci_id item, cl_product_id = ci_product_id item,
          cl_product_name = (case product of Some p \<Rightarrow> p_name p | None \<Rightarrow> ''Product''),
          cl_product_image = Option.bind product p_cover_image_url,
          cl_supplier_user_id = (case product of
             Some p \<Rightarrow> if truthy_id (p_supplier_user_id p) then p_supplier_user_id p else None
           | None \<Rightarrow> None),
          cl_variant = ci_variant item, cl_flavor = ci_flavor item, cl_quantity = ci_quantity item,
          cl_unit_price = ci_unit_price item,
          cl_total_price = fmul (ci_unit_price item) (of_int (ci_quantity item))\<rparr>)"

fun first_shop :: "cart_line list \<Rightarrow> int option" where
  "first_shop [] = None"
| "first_shop (l # ls) = (case cl_supplier_user_id l of Some s \<Rightarrow> Some s | None \<Rightarrow> first_shop ls)"

definition float_sum :: "rat list \<Rightarrow> rat" where
  "float_sum xs = foldl fadd 0 xs"

definition GST_5 :: rat where "GST_5 = fl (5 / 100)"

text \<open>The amounts of a summary: subtotal, discount, GST, delivery and the final total.\<close>

definition bill_of :: "rat \<Rightarrow> rat \<Rightarrow> BakerySettings \<Rightarrow> rat \<times> rat \<times> rat" where
  "bill_of subtotal discount s =
     (let delivery = (if bs_free_delivery_min s \<le> subtotal then 0 else bs_delivery_charge s);
          taxable = max (fsub subtotal discount) 0;
          gst = round2 (fmul taxable GST_5)
      in (gst, delivery, round2 (fadd (fadd taxable gst) delivery)))"

definition summarise :: "Cart \<Rightarrow> BakerySettings \<Rightarrow> db \<Rightarrow> cart_totals" where
  "summarise cart s d =
     (let lines = map (line_of d) (active_items d (ct_id cart));
          subtotal = float_sum (map cl_total_price lines);
          discount = (if truthy_str (ct_coupon_code cart)
             then (case active_coupon d (the (ct_coupon_code cart)) of
                     Some c \<Rightarrow> coupon_discount c subtotal | None \<Rightarrow> 0)
             else 0);
          (gst, delivery, final) = bill_of subtotal discount s;
          shop = first_shop lines
      in \<lparr>su_cart_id = ct_id cart, su_shop_user_id = shop,
          su_shop_name = (if truthy_id shop then map_option rp_shop_name (profile_of d (the shop)) else None),
          su_items = lines,
          su_saved_for_later = map (\<lambda>i. (ci_id i, ci_product_id i, ci_quantity i)) (saved_items d (ct_id cart)),
          su_coupon_code = ct_coupon_code cart,
          su_subtotal = round2 subtotal, su_discount = round2 discount, su_gst = gst,
          su_delivery_fee = delivery, su_final_total = final\<rparr>)"

definition cart_summary :: "env \<Rightarrow> int \<Rightarrow> db \<Rightarrow> cart_totals \<times> db" where
  "cart_summary e user_id d =
     (let (cart, d1) = get_or_create_cart e user_id d; (s, d2) = settings e d1
      in (summarise cart s d2, d2))"

section \<open>Changing the cart\<close>

text \<open>Lines of the cart whose product belongs to another shop.\<close>

definition other_shop :: "db \<Rightarrow> int \<Rightarrow> CartItem \<Rightarrow> bool" where
  "other_shop d shop_id item = (case get_Product d (ci_product_id item) of
     None \<Rightarrow> False
   | Some p \<Rightarrow> truthy_id (p_supplier_user_id p) \<and> the (p_supplier_user_id p) \<noteq> shop_id)"

definition add_line :: "env \<Rightarrow> Cart \<Rightarrow> Product \<Rightarrow> int \<Rightarrow> string option \<Rightarrow> string option \<Rightarrow> bool \<Rightarrow> db \<Rightarrow> db" where
  "add_line e cart product quantity variant flavor is_eggless d =
     (case t_first (\<lambda>r. ci_cart_id r = ct_id cart \<and> ci_product_id r = p_id product
              \<and> ci_variant r = variant \<and> \<not> ci_saved_for_later r) (cart_items d) of
        Some item \<Rightarrow> put_CartItem (item\<lparr>ci_quantity := ci_quantity item + quantity\<rparr>) d
      | None \<Rightarrow> add_CartItem ((new_CartItem (env_now e) (ct_id cart) (p_id product))
          \<lparr>ci_quantity := quantity, ci_variant := variant, ci_flavor := flavor, ci_is_eggless := is_eggless,
           ci_unit_price := customer_unit_price product\<rparr>) d)"

definition clear_other_shops :: "Cart \<Rightarrow> int \<Rightarrow> db \<Rightarrow> db" where
  "clear_other_shops cart shop_id d =
     d\<lparr>cart_items := t_delete_all ci_id
         (map ci_id (filter (other_shop d shop_id) (active_items d (ct_id cart)))) (cart_items d)\<rparr>"

definition add_to_cart :: "env \<Rightarrow> int \<Rightarrow> int \<Rightarrow> int \<Rightarrow> string option \<Rightarrow> string option \<Rightarrow> bool \<Rightarrow> db
    \<Rightarrow> (exc + cart_totals) \<times> db" where
  "add_to_cart e user_id product_id quantity variant flavor is_eggless d =
     (case get_Product d product_id of
        None \<Rightarrow> (Inl (not_found ''Product not found''), d)
      | Some product \<Rightarrow>
          if \<not> p_is_active product then (Inl (not_found ''Product not found''), d)
          else if \<not> truthy_id (p_supplier_user_id product)
          then (Inl (bad_request ''Product is not sold by a shop''), d)
          else if p_stock_qty product < quantity then (Inl (bad_request ''Insufficient stock''), d)
          else let (cart, d1) = get_or_create_cart e user_id d;
                   d2 = clear_other_shops cart (the (p_supplier_user_id product)) d1;
                   d3 = add_line e cart product quantity variant flavor is_eggless d2;
                   d4 = put_Cart (cart\<lparr>ct_updated_at := env_now e\<rparr>) d3;
                   (su, d5) = cart_summary e user_id d4
               in (Inr su, d5))"

datatype cart_reply = CartMessage string | CartSummary cart_totals

definition patch_cart_item :: "env \<Rightarrow> int \<Rightarrow> int \<Rightarrow> int option \<Rightarrow> bool option \<Rightarrow> db \<Rightarrow> cart_reply \<times> db" where
  "patch_cart_item e user_id item_id quantity saved_for_later d =
     (case get_CartItem d item_id of
        None \<Rightarrow> (CartMessage ''not found'', d)
      | Some item \<Rightarrow>
          let (cart, d1) = get_or_create_cart e user_id d
          in if ci_cart_id item \<noteq> ct_id cart then (CartMessage ''not found'', d1)
             else let item1 = (case quantity of None \<Rightarrow> item | Some q \<Rightarrow> item\<lparr>ci_quantity := q\<rparr>);
                      item2 = (case saved_for_later of None \<Rightarrow> item1 | Some b \<Rightarrow> item1\<lparr>ci_saved_for_later := b\<rparr>);
                      (su, d2) = cart_summary e user_id (put_CartItem item2 d1)
                  in (CartSummary su, d2))"

definition remove_cart_item :: "env \<Rightarrow> int \<Rightarrow> int \<Rightarrow> db \<Rightarrow> cart_totals \<times> db" where
  "remove_cart_item e user_id item_id d =
     (case get_CartItem d item_id of
        None \<Rightarrow> cart_summary e user_id d
      | Some item \<Rightarrow>
          let (cart, d1) = get_or_create_cart e user_id d
          in cart_summary e user_id (if ci_cart_id item = ct_id cart then del_CartItem item_id d1 else d1))"

definition apply_coupon :: "env \<Rightarrow> int \<Rightarrow> string \<Rightarrow> db \<Rightarrow> (exc + cart_totals) \<times> db" where
  "apply_coupon e user_id cde d = (case active_coupon d (str_upper cde) of
     None \<Rightarrow> (Inl (bad_request ''Invalid coupon''), d)
   | Some coupon \<Rightarrow>
       let (cart, d1) = get_or_create_cart e user_id d;
           (su, d2) = cart_summary e user_id (put_Cart (cart\<lparr>ct_coupon_code := Some (cp_code coupon)\<rparr>) d1)
       in (Inr su, d2))"

section \<open>Delivery check\<close>

definition bakery_coords :: "db \<Rightarrow> rat \<times> rat" where
  "bakery_coords d = (case t_first (\<lambda>r. True) (settings_rows d) of
     Some s \<Rightarrow> (bs_latitude s, bs_longitude s)
   | None \<Rightarrow> (fl (191197 / 10000), fl (728468 / 10000)))"

record delivery_check =
  dc_deliverable :: bool
  dc_distance_km :: rat
  dc_max_km :: rat
  dc_bakery_lat :: rat
  dc_bakery_lng :: rat

definition check_delivery :: "env \<Rightarrow> rat \<Rightarrow> rat \<Rightarrow> db \<Rightarrow> delivery_check" where
  "check_delivery e lat lng d =
     (let (blat, blng) = bakery_coords d
      in \<lparr>dc_deliverable = True, dc_distance_km = env_haversine e blat blng lat lng,
          dc_max_km = env_radius_km e, dc_bakery_lat = blat, dc_bakery_lng = blng\<rparr>)"

definition assert_within_radius :: "env \<Rightarrow> rat option \<Rightarrow> rat option \<Rightarrow> db \<Rightarrow> exc + delivery_check" where
  "assert_within_radius e lat lng d = (case (lat, lng) of
     (Some la, Some lo) \<Rightarrow> Inr (check_delivery e la lo d)
   | _ \<Rightarrow> Inl (bad_request ''Delivery address must include map location (latitude/longitude)''))"

section \<open>A concrete cart\<close>

text \<open>Customer 5 has 9 of product 1 at 16.08 and 1 of product 2 at 354.28 in the cart, both of shop 7,
  and an address: 499.00 in all, the threshold for free delivery.\<close>

definition bun :: Product where
  "bun = (new_Product 0 1 ''Bun'' ''bun'')
     \<lparr>p_id := 1, p_selling_price := cents 1608, p_supplier_user_id := Some 7, p_stock_qty := 20\<rparr>"

definition cake :: Product where
  "cake = (new_Product 0 1 ''Cake'' ''cake'')
     \<lparr>p_id := 2, p_selling_price := cents 35428, p_supplier_user_id := Some 7, p_stock_qty := 3\<rparr>"

definition ravi_address :: Address where
  "ravi_address = (new_Address 0 5 ''Ravi'' ''9876500000'' ''12 MG Road'' ''400001'')
     \<lparr>ad_id := 1, ad_latitude := Some 19, ad_longitude := Some 73\<rparr>"

definition cart_lines :: "CartItem list" where
  "cart_lines = [(new_CartItem 0 1 1)\<lparr>ci_id := 1, ci_unit_price := cents 1608, ci_quantity := 9\<rparr>,
     (new_CartItem 0 1 2)\<lparr>ci_id := 2, ci_unit_price := cents 35428\<rparr>]"

definition cart_db :: db where
  "cart_db = empty_db\<lparr>settings_rows := \<lparr>rows = [(new_BakerySettings 0)\<lparr>bs_id := 1\<rparr>], next_id = 2\<rparr>,
     products := \<lparr>rows = [bun, cake], next_id = 3\<rparr>,
     carts := \<lparr>rows = [(new_Cart 0 5)\<lparr>ct_id := 1\<rparr>], next_id = 2\<rparr>,
     cart_items := \<lparr>rows = cart_lines, next_id = 3\<rparr>,
     addresses := \<lparr>rows = [ravi_address], next_id = 2\<rparr>\<rparr>"

lemma cart_db_wf: "db_wf cart_db"
  by (simp add: cart_db_def db_wf_empty t_wf_def bun_def cake_def ravi_address_def cart_lines_def
      new_BakerySettings_def new_Cart_def new_CartItem_def new_Product_def new_Address_def)

end
