(* ===== verification/CartBill.thy ===== *)
theory CartBill
  imports Cart
begin

text \<open>
  The amounts of a cart summary, exact to the paisa.  \<open>cart_summary\<close> multiplies and adds doubles
  without rounding and rounds only the displayed amounts; the lemmas bound the error of the
  unrounded subtotal for carts of up to 1000 lines and \<open>2 ^ 30\<close> paise (about 10.7 million rupees).
\<close>

section \<open>Error of the unrounded sums\<close>

definition cart_bound :: int where "cart_bound = 2 ^ 30"

lemma abs_fl_error: "\<bar>x\<bar> \<le> b \<Longrightarrow> \<bar>fl x - x\<bar> \<le> b / 9007199254740992"
proof -
  assume "\<bar>x\<bar> \<le> b"
  moreover have "\<bar>fl x - x\<bar> \<le> \<bar>x\<bar> / 9007199254740992" using fl_error [of x] by simp
  ultimately show ?thesis by linarith
qed

lemma cart_cents_error:
  assumes "0 \<le> n" "n \<le> cart_bound" shows "\<bar>cents n - of_int n / 100\<bar> \<le> 1 / 536870912"
proof -
  have "\<bar>of_int n / 100 :: rat\<bar> \<le> 16777216" using assms by (simp add: cart_bound_def)
  from abs_fl_error [OF this] show ?thesis by (simp add: cents_def)
qed

lemma line_error:
  assumes "0 \<le> c" "0 \<le> q" "c * q \<le> cart_bound"
  shows "\<bar>fmul (cents c) (of_int q) - of_int (c * q) / 100\<bar> \<le> 1 / 268435456"
proof -
  have cq: "(of_int c :: rat) * of_int q \<le> 1073741824" "0 \<le> (of_int c :: rat) * of_int q"
    using assms(3) of_int_le_iff [where ?'a = rat, of "c * q" "1073741824"] assms(1,2)
    by (simp_all add: cart_bound_def)
  have "\<bar>cents c - of_int c / 100\<bar> \<le> of_int c / 100 / 9007199254740992"
    using fl_error [of "of_int c / 100"] assms(1) by (simp add: cents_def)
  then have "\<bar>cents c - of_int c / 100\<bar> * of_int q \<le> of_int c / 100 / 9007199254740992 * of_int q"
    using assms(2) by (intro mult_right_mono) simp_all
  also have "\<dots> = of_int c * of_int q / (100 * 9007199254740992)" by simp
  also have "\<dots> \<le> 1073741824 / (100 * 9007199254740992)" using cq by (intro divide_right_mono) auto
  finally have e1: "\<bar>cents c * of_int q - of_int (c * q) / 100\<bar> \<le> 1073741824 / (100 * 9007199254740992)"
    unfolding of_int_mult using assms(2) abs_mult [of "cents c - of_int c / 100" "of_int q"]
    by (simp add: left_diff_distrib)
  then have "\<bar>cents c * of_int q\<bar> \<le> 16777216" using cq unfolding of_int_mult by linarith
  from abs_fl_error [OF this] e1 show ?thesis by (simp add: fmul_def abs_if split: if_splits)
qed

lemma float_sum_snoc: "float_sum (xs @ [x]) = fadd (float_sum xs) x"
  by (simp add: float_sum_def)

lemma float_sum_error:
  assumes "list_all2 (\<lambda>x n. 0 \<le> n \<and> \<bar>x - of_int n / 100\<bar> \<le> 1 / 268435456) xs ns"
    and "sum_list ns \<le> cart_bound" "length ns \<le> 1000"
  shows "\<bar>float_sum xs - of_int (sum_list ns) / 100\<bar> \<le> of_nat (length ns) / 134217728"
  using assms
proof (induction ns arbitrary: xs rule: rev_induct)
  case Nil
  then show ?case by (simp add: float_sum_def)
next
  case (snoc n ns)
  obtain ys x where xs: "xs = ys @ [x]"
    and y: "list_all2 (\<lambda>x n. 0 \<le> n \<and> \<bar>x - of_int n / 100\<bar> \<le> 1 / 268435456) ys ns"
    and n: "0 \<le> n" "\<bar>x - of_int n / 100\<bar> \<le> 1 / 268435456"
    using snoc.prems(1) by (auto simp: list_all2_append2 list_all2_Cons2)
  have nn: "0 \<le> sum_list ns" using y by (intro sum_list_nonneg) (auto simp: list_all2_conv_all_nth in_set_conv_nth)
  define S where "S = sum_list ns"
  have IH: "\<bar>float_sum ys - of_int S / 100\<bar> \<le> of_nat (length ns) / 134217728"
    using snoc.IH [OF y] snoc.prems(2,3) n(1) by (simp add: S_def)
  have len: "(of_nat (length ns) :: rat) / 134217728 \<le> 1"
    using snoc.prems(3) of_nat_le_iff [where ?'a = rat, of "length ns" 1000] by simp
  have "(of_int (S + n) :: rat) \<le> 1073741824" "0 \<le> (of_int (S + n) :: rat)"
    using snoc.prems(2) n(1) nn of_int_le_iff [where ?'a = rat, of "S + n" "1073741824"]
    by (simp_all add: cart_bound_def S_def)
  then have "\<bar>float_sum ys + x\<bar> \<le> 33554432"
    using IH n(2) len by linarith
  from abs_fl_error [OF this] have "\<bar>fadd (float_sum ys) x - (float_sum ys + x)\<bar> \<le> 1 / 268435456"
    by (simp add: fadd_def)
  with IH n(2) have "\<bar>fadd (float_sum ys) x - of_int (S + n) / 100\<bar> \<le> (of_nat (length ns) + 1) / 134217728"
    unfolding of_int_add add_divide_distrib abs_le_iff by linarith
  then show ?case by (simp add: xs float_sum_snoc S_def add.commute)
qed

text \<open>The tolerance all of this stays in.\<close>

lemma cart_tolerance: "n \<le> 1000 \<Longrightarrow> (of_nat n :: rat) / 134217728 \<le> 1 / 131072"
  using of_nat_le_iff [where ?'a = rat, of n 1000] by simp

section \<open>The bill\<close>

text \<open>A bill in paise: what is taxed, its GST \<open>g\<close> (5 percent, to the nearest paisa) and the fee.\<close>

definition gst_paise :: "int \<Rightarrow> int \<Rightarrow> bool" where
  "gst_paise t g \<longleftrightarrow> \<bar>20 * g - t\<bar> \<le> 10"

lemma GST_5_error: "\<bar>GST_5 - 1 / 20\<bar> \<le> 1 / 9007199254740992" "0 \<le> GST_5" "GST_5 \<le> 1"
  using fl_error [of "5 / 100"] fl_nonneg [of "5 / 100"] unfolding GST_5_def
  by (simp_all add: abs_if split: if_splits)

text \<open>An amount rounded to the nearest paisa, but for ties within a hundredth of a paisa.\<close>

definition paise_near :: "int \<Rightarrow> rat \<Rightarrow> bool" where
  "paise_near n x \<longleftrightarrow> \<bar>of_int n - x\<bar> \<le> 1 / 2 + 1 / 100"

lemma paise_near_int: "paise_near n (of_int k) \<longleftrightarrow> n = k"
proof
  assume "paise_near n (of_int k)"
  then have "\<bar>of_int (n - k) :: rat\<bar> < 1" unfolding paise_near_def by simp
  then show "n = k" unfolding of_int_abs [symmetric] of_int_less_1_iff by simp
qed (simp add: paise_near_def)

lemma paise_near_to_cents: "\<bar>x - y / 100\<bar> \<le> 1 / 12000 \<Longrightarrow> paise_near (to_cents x) y"
  using rne_error [of "x * 100"] unfolding paise_near_def to_cents_def by (simp add: abs_if split: if_splits)

lemma taxable_near:
  fixes \<delta> :: rat
  assumes "\<bar>sub - of_int S / 100\<bar> \<le> 1 / 131072" "\<bar>disc - \<delta> / 100\<bar> \<le> 1 / 100000"
    and "0 \<le> \<delta>" "\<delta> \<le> of_int S" "S \<le> cart_bound"
  shows "\<bar>max (fsub sub disc) 0 - (of_int S - \<delta>) / 100\<bar> \<le> 3 / 131072" "0 \<le> max (fsub sub disc) 0"
    "(of_int S :: rat) \<le> 1073741824"
proof -
  define t where "t = of_int S - \<delta>"
  show S: "(of_int S :: rat) \<le> 1073741824"
    using assms(5) of_int_le_iff [where ?'a = rat, of S "1073741824"] by (simp add: cart_bound_def)
  have "\<bar>sub - disc\<bar> \<le> 33554432" using assms(1-4) S by linarith
  from abs_fl_error [OF this] have "\<bar>fsub sub disc - (sub - disc)\<bar> \<le> 1 / 268435456" by (simp add: fsub_def)
  then have "\<bar>fsub sub disc - t / 100\<bar> \<le> 3 / 131072"
    using assms(1,2) unfolding t_def diff_divide_distrib by linarith
  moreover have "0 \<le> t" using assms(4) by (simp add: t_def)
  ultimately show "\<bar>max (fsub sub disc) 0 - (of_int S - \<delta>) / 100\<bar> \<le> 3 / 131072" "0 \<le> max (fsub sub disc) 0"
    unfolding t_def [symmetric] by (auto simp: max_def abs_if split: if_splits)
qed

lemma gst_near:
  fixes t :: rat
  assumes "\<bar>tx - t / 100\<bar> \<le> 3 / 131072" "0 \<le> tx" "t \<le> 1073741824"
  shows "\<bar>fmul tx GST_5 - t / 2000\<bar> \<le> 1 / 131072"
proof -
  have txb: "tx \<le> 33554432" using assms(1,3) by linarith
  have "tx * GST_5 - t / 2000 = tx * (GST_5 - 1 / 20) + (tx - t / 100) * (1 / 20)"
    by (simp add: algebra_simps)
  moreover have "\<bar>tx * (GST_5 - 1 / 20)\<bar> \<le> 33554432 * (1 / 9007199254740992)"
    unfolding abs_mult using txb assms(2) GST_5_error by (intro mult_mono) auto
  moreover have "\<bar>(tx - t / 100) * (1 / 20)\<bar> \<le> 3 / 131072 * (1 / 20)"
    unfolding abs_mult using assms(1) by (intro mult_mono) auto
  ultimately have "\<bar>tx * GST_5 - t / 2000\<bar> \<le> 1 / 262144" by linarith
  moreover have "\<bar>tx * GST_5\<bar> \<le> 33554432 * 1"
    unfolding abs_mult using txb assms(2) GST_5_error by (intro mult_mono) auto
  then have "\<bar>fmul tx GST_5 - tx * GST_5\<bar> \<le> 1 / 268435456"
    unfolding fmul_def using abs_fl_error [of "tx * GST_5" "33554432"] by simp
  ultimately show ?thesis by linarith
qed

lemma final_near:
  fixes t :: rat
  assumes "\<bar>tx - t / 100\<bar> \<le> 3 / 131072" "0 \<le> tx" "t \<le> 1073741824" "0 \<le> g" "g \<le> cart_bound" "0 \<le> f" "f \<le> cart_bound"
  shows "\<bar>fadd (fadd tx (cents g)) (cents f) - (t + of_int g + of_int f) / 100\<bar> \<le> 1 / 12000"
proof -
  have g: "0 \<le> (of_int g :: rat)" "(of_int g :: rat) \<le> 1073741824" "0 \<le> (of_int f :: rat)" "(of_int f :: rat) \<le> 1073741824"
    using assms(4-) of_int_le_iff [where ?'a = rat, of g "1073741824"] of_int_le_iff [where ?'a = rat, of f "1073741824"]
    by (simp_all add: cart_bound_def)
  note c = cart_cents_error [OF assms(4,5)] cart_cents_error [OF assms(6,7)]
  have "\<bar>tx + cents g\<bar> \<le> 67108864" using assms(1-3) c g by linarith
  from abs_fl_error [OF this] have a1: "\<bar>fadd tx (cents g) - (tx + cents g)\<bar> \<le> 1 / 134217728" by (simp add: fadd_def)
  then have "\<bar>fadd tx (cents g) + cents f\<bar> \<le> 134217728" using assms(1-3) c g by linarith
  from abs_fl_error [OF this] have
    "\<bar>fadd (fadd tx (cents g)) (cents f) - (fadd tx (cents g) + cents f)\<bar> \<le> 1 / 67108864" by (simp add: fadd_def)
  with a1 assms(1) c show ?thesis unfolding add_divide_distrib abs_le_iff by linarith
qed

text \<open>A bill whose discount is \<open>\<delta>\<close> paise, not necessarily whole ones.\<close>

lemma bill_near:
  fixes \<delta> :: rat
  assumes "\<bar>sub - of_int S / 100\<bar> \<le> 1 / 131072" "\<bar>disc - \<delta> / 100\<bar> \<le> 1 / 100000"
    and "0 \<le> \<delta>" "\<delta> \<le> of_int S" "S \<le> cart_bound" and fee: "bs_delivery_charge s = cents F" "0 \<le> F" "F \<le> cart_bound"
    and bill: "bill_of sub disc s = (gst, delivery, final)"
    and f: "f = (if bs_free_delivery_min s \<le> sub then 0 else F)"
  obtains g T where "paise_near g ((of_int S - \<delta>) / 20)" "paise_near T (of_int S - \<delta> + of_int g + of_int f)"
    "gst = cents g" "delivery = cents f" "final = cents T"
proof -
  define tx where "tx = max (fsub sub disc) 0"
  note tx = taxable_near [OF assms(1-5), folded tx_def]
  have t: "of_int S - \<delta> \<le> 1073741824" using tx(3) assms(3) by linarith
  define g where "g = to_cents (fmul tx GST_5)"
  have "fmul tx GST_5 \<le> 33554432 / 16" using gst_near [OF tx(1,2) t] t unfolding diff_divide_distrib by linarith
  then have "g \<le> rne (of_int 209715200)" unfolding g_def to_cents_def by (intro rne_mono) simp
  moreover have "0 \<le> g"
    using rne_mono [of 0 "fmul tx GST_5 * 100"] fmul_nonneg [OF tx(2) GST_5_error(2)] by (simp add: g_def to_cents_def)
  ultimately have g: "0 \<le> g" "g \<le> cart_bound" unfolding rne_of_int by (simp_all add: cart_bound_def)
  have "0 \<le> f" "f \<le> cart_bound" using fee(2,3) by (auto simp: f cart_bound_def)
  note T = final_near [OF tx(1,2) t g this]
  show thesis
  proof (rule that)
    show "paise_near g ((of_int S - \<delta>) / 20)"
      unfolding g_def using gst_near [OF tx(1,2) t] by (intro paise_near_to_cents) (simp add: abs_if split: if_splits)
    show "paise_near (to_cents (fadd (fadd tx (cents g)) (cents f))) (of_int S - \<delta> + of_int g + of_int f)"
      using T by (rule paise_near_to_cents)
    show "gst = cents g" using bill by (simp add: bill_of_def Let_def g_def tx_def round2_cents)
    show "delivery = cents f" using bill fee(1) by (auto simp: bill_of_def Let_def f)
    show "final = cents (to_cents (fadd (fadd tx (cents g)) (cents f)))"
      using bill fee(1) by (auto simp: bill_of_def Let_def tx_def f g_def round2_cents)
  qed
qed

section \<open>The summary of a cart\<close>

text \<open>A cart whose unit prices are whole paise: the price and the quantity of each active line.\<close>

definition paise_lines :: "db \<Rightarrow> int \<Rightarrow> (int \<times> int) list \<Rightarrow> bool" where
  "paise_lines d cart_id cqs \<longleftrightarrow>
     list_all2 (\<lambda>it (c, q). 0 \<le> c \<and> 0 \<le> q \<and> ci_unit_price it = cents c \<and> ci_quantity it = q)
       (active_items d cart_id) cqs
     \<and> length cqs \<le> 1000 \<and> (\<Sum>(c, q)\<leftarrow>cqs. c * q) \<le> cart_bound"

lemma sum_list_member_le:
  "\<forall>y \<in> set xs. 0 \<le> f y \<Longrightarrow> x \<in> set xs \<Longrightarrow> f x \<le> (\<Sum>y\<leftarrow>xs. (f y :: int))"
proof (induction xs)
  case (Cons y ys)
  moreover have "0 \<le> (\<Sum>y\<leftarrow>ys. f y)" using Cons.prems by (intro sum_list_nonneg) auto
  ultimately show ?case by auto
qed simp

lemma paise_lines_subtotal:
  assumes "paise_lines d k cqs"
  shows "\<bar>float_sum (map (\<lambda>it. cl_total_price (line_of d it)) (active_items d k))
           - of_int (\<Sum>(c, q)\<leftarrow>cqs. c * q) / 100\<bar> \<le> 1 / 131072"
    and "0 \<le> (\<Sum>(c, q)\<leftarrow>cqs. c * q)" and "(\<Sum>(c, q)\<leftarrow>cqs. c * q) \<le> cart_bound"
proof -
  let ?ns = "map (\<lambda>(c, q). c * q) cqs"
  have nn: "\<forall>cq \<in> set cqs. 0 \<le> fst cq \<and> 0 \<le> snd cq"
    using assms by (auto simp: paise_lines_def list_all2_conv_all_nth in_set_conv_nth split: prod.splits)
  have pos: "\<forall>cq \<in> set cqs. 0 \<le> (case cq of (c, q) \<Rightarrow> c * q)"
    using nn by (auto split: prod.splits)
  have le: "(case cq of (c, q) \<Rightarrow> c * q) \<le> cart_bound" if "cq \<in> set cqs" for cq
    using sum_list_member_le [OF pos that] assms by (simp add: paise_lines_def)
  have "list_all2 (\<lambda>x n. 0 \<le> n \<and> \<bar>x - of_int n / 100\<bar> \<le> 1 / 268435456)
      (map (\<lambda>it. cl_total_price (line_of d it)) (active_items d k)) ?ns"
    unfolding list_all2_map1 list_all2_map2
  proof (rule list_all2I, clarify)
    fix it c q assume m: "(it, c, q) \<in> set (zip (active_items d k) cqs)"
    then have it: "0 \<le> c" "0 \<le> q" "ci_unit_price it = cents c" "ci_quantity it = q"
      using assms unfolding paise_lines_def list_all2_iff by fastforce+
    have "c * q \<le> cart_bound" using le [of "(c, q)"] set_zip_rightD [OF m] by simp
    from line_error [OF it(1,2) this] it
    show "0 \<le> c * q \<and> \<bar>cl_total_price (line_of d it) - of_int (c * q) / 100\<bar> \<le> 1 / 268435456"
      by (simp add: line_of_def Let_def)
  qed (use assms list_all2_lengthD in \<open>fastforce simp: paise_lines_def\<close>)
  from float_sum_error [OF this] assms
  have "\<bar>float_sum (map (\<lambda>it. cl_total_price (line_of d it)) (active_items d k))
           - of_int (sum_list ?ns) / 100\<bar> \<le> of_nat (length ?ns) / 134217728"
    by (simp add: paise_lines_def)
  also have "\<dots> \<le> 1 / 131072" using assms by (intro cart_tolerance) (simp add: paise_lines_def)
  finally show "\<bar>float_sum (map (\<lambda>it. cl_total_price (line_of d it)) (active_items d k))
           - of_int (\<Sum>(c, q)\<leftarrow>cqs. c * q) / 100\<bar> \<le> 1 / 131072" .
  show "0 \<le> (\<Sum>(c, q)\<leftarrow>cqs. c * q)" using pos by (intro sum_list_nonneg) auto
  show "(\<Sum>(c, q)\<leftarrow>cqs. c * q) \<le> cart_bound" using assms by (simp add: paise_lines_def)
qed

text \<open>What a coupon promises on a subtotal of \<open>S\<close> paise, in paise: a percentage, no more than its cap, or an amount; and
  nothing when \<open>S\<close> is below its minimum.\<close>

definition whole_bounded :: "rat \<Rightarrow> bool" where
  "whole_bounded x \<longleftrightarrow> x = cents (to_cents x) \<and> 0 \<le> to_cents x \<and> to_cents x \<le> cart_bound"

definition percent_coupon :: "Coupon \<Rightarrow> bool" where
  "percent_coupon c \<longleftrightarrow> cp_coupon_type c \<in> set [''percentage'', ''first_order'', ''festival'', ''category'', ''product'']"

definition paise_coupon :: "Coupon \<Rightarrow> bool" where
  "paise_coupon c \<longleftrightarrow> whole_bounded (cp_min_order_amount c)
     \<and> (if percent_coupon c
        then 0 \<le> cp_value c \<and> cp_value c \<le> 100 \<and> (case cp_max_discount c of Some m \<Rightarrow> whole_bounded m | None \<Rightarrow> True)
        else whole_bounded (cp_value c))"

definition coupon_share :: "Coupon \<Rightarrow> int \<Rightarrow> rat" where
  "coupon_share c S =
     (if percent_coupon c
      then let x = of_int S * cp_value c / 100
           in (case cp_max_discount c of Some m \<Rightarrow> if m \<noteq> 0 then min x (of_int (to_cents m)) else x | None \<Rightarrow> x)
      else if cp_coupon_type c = ''free_delivery'' then 0
      else min (of_int (to_cents (cp_value c))) (of_int S))"

definition coupon_paise :: "Coupon \<Rightarrow> int \<Rightarrow> rat \<Rightarrow> bool" where
  "coupon_paise c S \<delta> \<longleftrightarrow>
     (let M = to_cents (cp_min_order_amount c)
      in (S < M \<longrightarrow> \<delta> = 0) \<and> (M < S \<longrightarrow> \<delta> = coupon_share c S) \<and> \<delta> \<in> {0, coupon_share c S})"

lemma threshold_of_paise:
  fixes sub mn :: rat and S T :: int
  assumes "\<bar>sub - of_int S / 100\<bar> \<le> 1 / 131072" "\<bar>mn - of_int T / 100\<bar> \<le> 1 / 536870912"
  shows "S < T \<Longrightarrow> sub < mn" and "T < S \<Longrightarrow> mn \<le> sub"
proof -
  assume "S < T"
  then have "(of_int S :: rat) + 1 \<le> of_int T" by linarith
  with assms show "sub < mn" by linarith
next
  assume "T < S"
  then have "(of_int T :: rat) + 1 \<le> of_int S" by linarith
  with assms show "mn \<le> sub" by linarith
qed

lemma min_error:
  fixes a b a' b' e :: rat
  assumes "\<bar>a - a'\<bar> \<le> e" "\<bar>b - b'\<bar> \<le> e"
  shows "\<bar>min a b - min a' b'\<bar> \<le> e"
  using assms by (auto simp: min_def abs_le_iff)

lemma whole_bounded_error: "whole_bounded x \<Longrightarrow> \<bar>x - of_int (to_cents x) / 100\<bar> \<le> 1 / 536870912"
  using cart_cents_error [of "to_cents x"] by (simp add: whole_bounded_def)

lemma min_percent: "min (x / 100) (y / 100) = min x y / (100 :: rat)"
  by (simp add: min_def)

lemma percent_error:
  assumes "\<bar>sub - of_int S / 100\<bar> \<le> 1 / 131072" "(of_int S :: rat) \<le> 1073741824" "0 \<le> sub" "0 \<le> v" "v \<le> 100"
  shows "\<bar>fdiv (fmul sub v) 100 - of_int S * v / 100 / 100\<bar> \<le> 1 / 100000"
proof -
  have sub: "sub \<le> 16777216" using assms(1,2) by linarith
  have "\<bar>sub * v\<bar> \<le> 16777216 * 100" unfolding abs_mult using sub assms(3-5) by (intro mult_mono) auto
  from abs_fl_error [OF this] have m: "\<bar>fmul sub v - sub * v\<bar> \<le> 1 / 4194304" by (simp add: fmul_def)
  then have "\<bar>fmul sub v / 100\<bar> \<le> 33554432" using \<open>\<bar>sub * v\<bar> \<le> 16777216 * 100\<close> by linarith
  from abs_fl_error [OF this] have d: "\<bar>fdiv (fmul sub v) 100 - fmul sub v / 100\<bar> \<le> 1 / 268435456" by (simp add: fdiv_def)
  have "\<bar>(sub - of_int S / 100) * v\<bar> \<le> 1 / 131072 * 100"
    unfolding abs_mult using assms(1,4,5) by (intro mult_mono) auto
  then have "\<bar>sub * v - of_int S * v / 100\<bar> \<le> 100 / 131072" by (simp add: left_diff_distrib)
  with m d show ?thesis by linarith
qed

lemma coupon_share_error:
  assumes "paise_coupon c" "\<bar>sub - of_int S / 100\<bar> \<le> 1 / 131072" "(of_int S :: rat) \<le> 1073741824" "0 \<le> sub" "0 \<le> S"
    and "cp_min_order_amount c \<le> sub"
  shows "\<bar>coupon_discount c sub - coupon_share c S / 100\<bar> \<le> 1 / 100000" "0 \<le> coupon_share c S" "coupon_share c S \<le> of_int S"
proof -
  have S: "0 \<le> (of_int S :: rat)" using assms(5) by simp
  have "\<bar>coupon_discount c sub - coupon_share c S / 100\<bar> \<le> 1 / 100000 \<and> 0 \<le> coupon_share c S \<and> coupon_share c S \<le> of_int S"
  proof (cases "percent_coupon c")
    case True
    define x where "x = of_int S * cp_value c / 100"
    have v: "0 \<le> cp_value c" "cp_value c \<le> 100" using assms(1) True by (simp_all add: paise_coupon_def)
    have x: "\<bar>fdiv (fmul sub (cp_value c)) 100 - x / 100\<bar> \<le> 1 / 100000" "0 \<le> x" "x \<le> of_int S"
      using percent_error [OF assms(2-4) v] v S mult_left_mono [OF v(2) S] by (simp_all add: x_def)
    show ?thesis
    proof (cases "cp_max_discount c")
      case None
      then show ?thesis using True x assms(6) by (simp add: coupon_share_def coupon_discount_def percent_coupon_def Let_def x_def)
    next
      case (Some m)
      have m: "\<bar>m - of_int (to_cents m) / 100\<bar> \<le> 1 / 100000" "0 \<le> (of_int (to_cents m) :: rat)"
        using assms(1) True Some whole_bounded_error [of m] by (auto simp: paise_coupon_def whole_bounded_def)
      have cs: "coupon_share c S = (if m \<noteq> 0 then min x (of_int (to_cents m)) else x)"
        "coupon_discount c sub = (if m \<noteq> 0 then min (fdiv (fmul sub (cp_value c)) 100) m else fdiv (fmul sub (cp_value c)) 100)"
        using True Some assms(6) by (simp_all add: coupon_share_def coupon_discount_def percent_coupon_def Let_def x_def)
      show ?thesis using min_error [OF x(1) m(1), unfolded min_percent] x m(2) unfolding cs by (auto simp: min_le_iff_disj)
    qed
  next
    case False
    then have v: "\<bar>cp_value c - of_int (to_cents (cp_value c)) / 100\<bar> \<le> 1 / 100000" "0 \<le> (of_int (to_cents (cp_value c)) :: rat)"
      using assms(1) whole_bounded_error [of "cp_value c"] by (auto simp: paise_coupon_def whole_bounded_def)
    have s: "\<bar>sub - of_int S / 100\<bar> \<le> 1 / 100000" using assms(2) by linarith
    show ?thesis
      using False min_error [OF v(1) s] v(2) S assms(6)
      by (simp add: coupon_share_def coupon_discount_def percent_coupon_def Let_def min_percent)
  qed
  then show "\<bar>coupon_discount c sub - coupon_share c S / 100\<bar> \<le> 1 / 100000" "0 \<le> coupon_share c S" "coupon_share c S \<le> of_int S"
    by simp_all
qed

lemma float_sum_nonneg: "\<forall>x \<in> set xs. 0 \<le> x \<Longrightarrow> 0 \<le> float_sum xs"
  by (induction xs rule: rev_induct) (auto simp: float_sum_def fadd_nonneg)

section \<open>Properties\<close>

text \<open>The coupon that the summary applies, and the discount in paise it should take.\<close>

definition cart_coupon :: "db \<Rightarrow> Cart \<Rightarrow> Coupon option" where
  "cart_coupon d cart = (if truthy_str (ct_coupon_code cart) then active_coupon d (the (ct_coupon_code cart)) else None)"

definition cart_discount :: "db \<Rightarrow> Cart \<Rightarrow> int \<Rightarrow> rat \<Rightarrow> bool" where
  "cart_discount d cart S \<delta> \<longleftrightarrow> (case cart_coupon d cart of None \<Rightarrow> \<delta> = 0 | Some c \<Rightarrow> coupon_paise c S \<delta>)"

lemma coupon_discount_paise:
  assumes "paise_coupon c" "\<bar>sub - of_int S / 100\<bar> \<le> 1 / 131072" "(of_int S :: rat) \<le> 1073741824" "0 \<le> sub" "0 \<le> S"
  obtains \<delta> where "coupon_paise c S \<delta>" "\<bar>coupon_discount c sub - \<delta> / 100\<bar> \<le> 1 / 100000" "0 \<le> \<delta>" "\<delta> \<le> of_int S"
proof (cases "sub < cp_min_order_amount c")
  have T: "\<bar>cp_min_order_amount c - of_int (to_cents (cp_min_order_amount c)) / 100\<bar> \<le> 1 / 536870912"
    using assms(1) by (intro whole_bounded_error) (simp add: paise_coupon_def)
  case True
  then have "S \<le> to_cents (cp_min_order_amount c)"
    using threshold_of_paise(2) [OF assms(2) T] by linarith
  with True assms(5) show thesis by (intro that [of 0]) (simp_all add: coupon_paise_def coupon_discount_def)
next
  have T: "\<bar>cp_min_order_amount c - of_int (to_cents (cp_min_order_amount c)) / 100\<bar> \<le> 1 / 536870912"
    using assms(1) by (intro whole_bounded_error) (simp add: paise_coupon_def)
  case False
  then have "to_cents (cp_min_order_amount c) \<le> S"
    using threshold_of_paise(1) [OF assms(2) T] by linarith
  with False coupon_share_error [OF assms] show thesis
    by (intro that [of "coupon_share c S"]) (simp_all add: coupon_paise_def not_less)
qed

lemma summary_discount:
  assumes "\<And>c. cart_coupon d cart = Some c \<Longrightarrow> paise_coupon c"
    and "\<bar>sub - of_int S / 100\<bar> \<le> 1 / 131072" "(of_int S :: rat) \<le> 1073741824" "0 \<le> sub" "0 \<le> S"
  obtains \<delta> where "cart_discount d cart S \<delta>" "0 \<le> \<delta>" "\<delta> \<le> of_int S"
    "\<bar>(if truthy_str (ct_coupon_code cart)
       then (case active_coupon d (the (ct_coupon_code cart)) of Some c \<Rightarrow> coupon_discount c sub | None \<Rightarrow> 0)
       else 0) - \<delta> / 100\<bar> \<le> 1 / 100000"
proof (cases "cart_coupon d cart")
  case None
  with assms(5) show thesis by (intro that [of 0]) (auto simp: cart_discount_def cart_coupon_def split: if_splits)
next
  case (Some c)
  from coupon_discount_paise [OF assms(1) [OF Some] assms(2-5)] obtain \<delta> where
    "coupon_paise c S \<delta>" "\<bar>coupon_discount c sub - \<delta> / 100\<bar> \<le> 1 / 100000" "0 \<le> \<delta>" "\<delta> \<le> of_int S" .
  with Some show thesis by (intro that [of \<delta>]) (auto simp: cart_discount_def cart_coupon_def split: if_splits)
qed

lemma paise_lines_nonneg:
  assumes "paise_lines d k cqs"
  shows "0 \<le> float_sum (map (\<lambda>it. cl_total_price (line_of d it)) (active_items d k))"
proof -
  have "\<forall>it \<in> set (active_items d k). 0 \<le> cl_total_price (line_of d it)"
    using assms
    by (auto simp: paise_lines_def list_all2_conv_all_nth in_set_conv_nth line_of_def Let_def
        case_prod_unfold cents_nonneg fmul_nonneg)
  then show ?thesis by (intro float_sum_nonneg) auto
qed

text \<open>With a discount of whole paise the tolerance disappears.\<close>

lemma whole_bill:
  assumes "paise_near g ((of_int S - of_int D) / 20)" "paise_near n (of_int S - of_int D + of_int g + of_int f)"
  shows "gst_paise (S - D) g" "n = S - D + g + f"
proof -
  have "\<bar>of_int (20 * g - (S - D)) :: rat\<bar> < 11" using assms(1) unfolding paise_near_def of_int_diff of_int_mult of_int_numeral diff_divide_distrib by linarith
  then have "\<bar>20 * g - (S - D)\<bar> < 11" by (metis of_int_abs of_int_less_iff of_int_numeral)
  then show "gst_paise (S - D) g" by (simp add: gst_paise_def)
  show "n = S - D + g + f" using assms(2) paise_near_int [of n "S - D + g + f"] by simp
qed

text \<open>Property C2 (cart_bill_exact): for a cart of at most 1000 lines priced in whole paise, up to 2^30 paise, with any
  coupon of a sane value (a percentage from 0 to 100 and amounts in whole paise) or none: the subtotal is exact; discount,
  GST (5 percent of the taxable amount) and final total are the exact amounts to the nearest paisa, ties within a hundredth
  of a paisa apart, and exactly the integer results when the discount is of whole paise; the delivery is free above the
  threshold and charged below it.  At a subtotal equal to the threshold, of the free delivery or of the coupon's minimum,
  either case can occur.\<close>

theorem cart_bill_exact:
  assumes "paise_lines d (ct_id cart) cqs" "case cart_coupon d cart of None \<Rightarrow> True | Some c \<Rightarrow> paise_coupon c"
    and "bs_delivery_charge s = cents F" "0 \<le> F" "F \<le> cart_bound"
    and "bs_free_delivery_min s = cents T" "0 \<le> T" "T \<le> cart_bound"
  shows "\<exists>S \<delta> D g f n. S = (\<Sum>(c, q)\<leftarrow>cqs. c * q) \<and> cart_discount d cart S \<delta> \<and> 0 \<le> \<delta> \<and> \<delta> \<le> of_int S
     \<and> su_subtotal (summarise cart s d) = cents S \<and> su_discount (summarise cart s d) = cents D
     \<and> su_gst (summarise cart s d) = cents g \<and> su_delivery_fee (summarise cart s d) = cents f
     \<and> su_final_total (summarise cart s d) = cents n
     \<and> paise_near D \<delta> \<and> paise_near g ((of_int S - \<delta>) / 20) \<and> paise_near n (of_int S - \<delta> + of_int g + of_int f)
     \<and> (\<delta> = of_int D \<longrightarrow> gst_paise (S - D) g \<and> n = S - D + g + f)
     \<and> (S < T \<longrightarrow> f = F) \<and> (T < S \<longrightarrow> f = 0) \<and> f \<in> {0, F}"
proof -
  define S where "S = (\<Sum>(c, q)\<leftarrow>cqs. c * q)"
  define sub where "sub = float_sum (map (\<lambda>it. cl_total_price (line_of d it)) (active_items d (ct_id cart)))"
  define disc where "disc = (if truthy_str (ct_coupon_code cart)
             then (case active_coupon d (the (ct_coupon_code cart)) of
                     Some c \<Rightarrow> coupon_discount c sub | None \<Rightarrow> 0)
             else 0)"
  note sub = paise_lines_subtotal [OF assms(1), folded S_def sub_def]
  have Sb: "(of_int S :: rat) \<le> 1073741824"
    using sub(3) of_int_le_iff [where ?'a = rat, of S "1073741824"] by (simp add: cart_bound_def)
  have coup: "cart_coupon d cart = Some c \<Longrightarrow> paise_coupon c" for c using assms(2) by simp
  from summary_discount [OF coup sub(1) Sb paise_lines_nonneg [OF assms(1), folded sub_def] sub(2)]
  obtain \<delta> where \<delta>: "cart_discount d cart S \<delta>" "0 \<le> \<delta>" "\<delta> \<le> of_int S" "\<bar>disc - \<delta> / 100\<bar> \<le> 1 / 100000"
    unfolding disc_def by blast
  obtain gst dl fin where b: "bill_of sub disc s = (gst, dl, fin)" by (cases "bill_of sub disc s")
  define f where "f = (if bs_free_delivery_min s \<le> sub then 0 else F)"
  obtain g n where g: "paise_near g ((of_int S - \<delta>) / 20)" "paise_near n (of_int S - \<delta> + of_int g + of_int f)"
    "gst = cents g" "dl = cents f" "fin = cents n"
    using bill_near [OF sub(1) \<delta>(4,2,3) sub(3) assms(3-5) b f_def] .
  have su: "su_subtotal (summarise cart s d) = round2 sub" "su_discount (summarise cart s d) = cents (to_cents disc)"
    "su_gst (summarise cart s d) = gst" "su_delivery_fee (summarise cart s d) = dl"
    "su_final_total (summarise cart s d) = fin"
    using b unfolding disc_def sub_def summarise_def Let_def map_map comp_def round2_cents by simp_all
  have r: "round2 sub = cents S" "paise_near (to_cents disc) \<delta>"
    using sub(1) \<delta>(4) by (auto intro!: round2_near paise_near_to_cents)
  have T: "\<bar>bs_free_delivery_min s - of_int T / 100\<bar> \<le> 1 / 536870912"
    using cart_cents_error [OF assms(7,8)] assms(6) by simp
  have "S < T \<Longrightarrow> f = F" "T < S \<Longrightarrow> f = 0" "f \<in> {0, F}"
    using threshold_of_paise [OF sub(1) T] by (simp_all add: f_def)
  moreover have "\<delta> = of_int (to_cents disc) \<longrightarrow> gst_paise (S - to_cents disc) g \<and> n = S - to_cents disc + g + f"
    using whole_bill [of g S "to_cents disc" n f] g(1,2) by blast
  ultimately show ?thesis
    unfolding S_def [symmetric] su g(3-5) r(1)
    by (intro exI [of _ S] exI [of _ \<delta>] exI [of _ "to_cents disc"] exI [of _ g] exI [of _ f] exI [of _ n] conjI)
      (use \<delta>(1-3) g(1,2) r(2) in blast)+
qed

section \<open>Worked example\<close>


lemma cart_db_tables [simp]:
  "products cart_db = \<lparr>rows = [bun, cake], next_id = 3\<rparr>" "coupons cart_db = t_empty"
  "carts cart_db = \<lparr>rows = [(new_Cart 0 5)\<lparr>ct_id := 1\<rparr>], next_id = 2\<rparr>"
  "cart_items cart_db = \<lparr>rows = cart_lines, next_id = 3\<rparr>" "profiles cart_db = t_empty"
  "settings_rows cart_db = \<lparr>rows = [(new_BakerySettings 0)\<lparr>bs_id := 1\<rparr>], next_id = 2\<rparr>"
  "addresses cart_db = \<lparr>rows = [ravi_address], next_id = 2\<rparr>" "orders cart_db = t_empty"
  "order_items cart_db = t_empty" "payments cart_db = t_empty" "histories cart_db = t_empty"
  by (simp_all add: cart_db_def empty_db_def)

lemma cart_db_cart: "cart_of cart_db 5 = Some ((new_Cart 0 5)\<lparr>ct_id := 1\<rparr>)"
  by (simp add: cart_of_def t_first_def new_Cart_def)

lemma cart_db_active: "active_items cart_db 1 = cart_lines"
  by (simp add: active_items_def t_all_def cart_lines_def new_CartItem_def)

lemma cart_db_products: "get_Product cart_db 1 = Some bun" "get_Product cart_db 2 = Some cake"
  by (simp_all add: t_get_def bun_def cake_def)

lemma cart_db_summary: "cart_summary e 5 cart_db
   = (summarise ((new_Cart 0 5)\<lparr>ct_id := 1\<rparr>) ((new_BakerySettings 0)\<lparr>bs_id := 1\<rparr>) cart_db, cart_db)"
  by (simp add: cart_summary_def get_or_create_cart_def cart_db_cart settings_def t_first_def)

lemma cart_bill_exact_witness:
  "\<exists>g f. gst_paise 49900 g \<and> f \<in> {0, 4000}
     \<and> su_subtotal (fst (cart_summary sample_env 5 cart_db)) = cents 49900
     \<and> su_final_total (fst (cart_summary sample_env 5 cart_db)) = cents (49900 + g + f)"
proof -
  have pl: "paise_lines cart_db (ct_id ((new_Cart 0 5)\<lparr>ct_id := 1\<rparr>)) [(1608, 9), (35428, 1)]"
    using cart_db_active by (simp add: paise_lines_def cart_bound_def cart_lines_def new_CartItem_def)
  have dc: "cart_coupon cart_db ((new_Cart 0 5)\<lparr>ct_id := 1\<rparr>) = None"
    by (simp add: cart_coupon_def new_Cart_def)
  have s: "bs_delivery_charge ((new_BakerySettings 0)\<lparr>bs_id := 1\<rparr>) = cents 4000"
    "bs_free_delivery_min ((new_BakerySettings 0)\<lparr>bs_id := 1\<rparr>) = cents 49900"
    by code_simp+
  from cart_bill_exact [OF pl _ s(1) _ _ s(2)] show ?thesis
    unfolding cart_db_summary by (auto simp: cart_bound_def cart_discount_def dc paise_near_def)
qed

text \<open>The subtotal is displayed as 499.00, the free-delivery threshold, yet delivery is charged.\<close>

lemma free_delivery_missed_at_threshold:
  "su_subtotal (fst (cart_summary sample_env 5 cart_db)) = bs_free_delivery_min (new_BakerySettings 0)
   \<and> su_delivery_fee (fst (cart_summary sample_env 5 cart_db)) = 40"
proof -
  have tot: "float_sum [fmul (cents 1608) 9, fmul (cents 35428) 1] < 499" by code_simp
  have sub: "round2 (float_sum [fmul (cents 1608) 9, fmul (cents 35428) 1]) = 499" by code_simp
  show ?thesis
    unfolding cart_db_summary using cart_db_active tot sub
    by (simp add: summarise_def bill_of_def Let_def cart_lines_def line_of_def new_CartItem_def new_BakerySettings_def
        new_Cart_def)
qed

end
