(* ===== verification/CartLaws.thy ===== *)
theory CartLaws
  imports CartBill
begin

text \<open>
  What the cart operations change, and the single-shop rule: however customers add, change, save
  for later and remove lines, all active lines of a cart are products of one shop.  The code does not check the rule where
  a saved line is moved back, and there it can break (\<open>unsave_mixes_shops\<close>).
\<close>

section \<open>Frames\<close>

lemma settings_frame: "settings e d = (s, d') \<Longrightarrow> \<exists>t. d' = d\<lparr>settings_rows := t\<rparr>"
  by (auto simp: settings_def intro: exI [of _ "settings_rows d"] split: option.splits)

lemma settings_wf: "settings e d = (s, d') \<Longrightarrow> db_wf d \<Longrightarrow> db_wf d'"
  by (auto simp: settings_def split: option.splits)

lemma settings_of: "settings e d = (s, d') \<Longrightarrow> settings e' d' = (s, d')"
  by (auto simp: settings_def t_first_insert_None split: option.splits)

lemma get_or_create_cart_frame: "get_or_create_cart e u d = (c, d') \<Longrightarrow> \<exists>t. d' = d\<lparr>carts := t\<rparr>"
  by (auto simp: get_or_create_cart_def intro: exI [of _ "carts d"] split: option.splits)

lemma get_or_create_cart_wf: "get_or_create_cart e u d = (c, d') \<Longrightarrow> db_wf d \<Longrightarrow> db_wf d'"
  by (auto simp: get_or_create_cart_def split: option.splits)

lemma get_or_create_cart_of:
  assumes "get_or_create_cart e u d = (c, d')" shows "cart_of d' u = Some c \<and> ct_user_id c = u"
proof (cases "cart_of d u")
  case None
  then show ?thesis
    using assms t_first_insert_None [of "\<lambda>r. ct_user_id r = u" "carts d" "\<lambda>i r. r\<lparr>ct_id := i\<rparr>" "new_Cart (env_now e) u"]
    by (auto simp: get_or_create_cart_def cart_of_def new_Cart_def)
next
  case (Some x)
  with assms show ?thesis
    using t_first_SomeD [of "\<lambda>r. ct_user_id r = u" "carts d" x]
    by (auto simp: get_or_create_cart_def cart_of_def)
qed

lemma get_or_create_cart_old: "cart_of d u = Some c \<Longrightarrow> get_or_create_cart e u d = (c, d)"
  by (simp add: get_or_create_cart_def)

lemma cart_summary_frame:
  "cart_summary e u d = (su, d') \<Longrightarrow> \<exists>t s. d' = d\<lparr>carts := t, settings_rows := s\<rparr>"
  by (auto simp: cart_summary_def Let_def split: prod.splits
      dest!: settings_frame get_or_create_cart_frame)

lemma cart_summary_wf: "cart_summary e u d = (su, d') \<Longrightarrow> db_wf d \<Longrightarrow> db_wf d'"
  by (auto simp: cart_summary_def Let_def split: prod.splits
      dest!: get_or_create_cart_wf settings_wf)

section \<open>Effect on the lines\<close>

text \<open>The shop a line is bought from, when its product names one.\<close>

definition shop_of :: "db \<Rightarrow> CartItem \<Rightarrow> int option" where
  "shop_of d item = cl_supplier_user_id (line_of d item)"

lemma shop_of_products: "products d' = products d \<Longrightarrow> shop_of d' = shop_of d"
  by (rule ext) (simp add: shop_of_def line_of_def Let_def)

lemma other_shop_iff: "other_shop d s it \<longleftrightarrow> (\<exists>s'. shop_of d it = Some s' \<and> s' \<noteq> s)"
  by (auto simp: other_shop_def shop_of_def line_of_def Let_def truthy_id_def split: option.splits)

text \<open>\<open>add_to_cart\<close> drops the active lines of other shops and then adds to one line.\<close>

lemma add_to_cartE:
  assumes "add_to_cart e u pid q v f g d = (Inr su, d')"
  obtains p s cart d1 where "get_Product d pid = Some p" "p_is_active p" "p_supplier_user_id p = Some s"
    "q \<le> p_stock_qty p" "get_or_create_cart e u d = (cart, d1)"
    "cart_items d' = cart_items (add_line e cart p q v f g (clear_other_shops cart s d1))"
    "products d' = products d" "db_wf d \<longrightarrow> db_wf d'"
proof -
  from assms obtain p where p: "get_Product d pid = Some p" "p_is_active p" "truthy_id (p_supplier_user_id p)"
    "q \<le> p_stock_qty p"
    by (auto simp: add_to_cart_def split: option.splits if_splits)
  then obtain s where s: "p_supplier_user_id p = Some s" by (auto simp: truthy_id_def split: option.splits)
  obtain cart d1 where c: "get_or_create_cart e u d = (cart, d1)" by fastforce
  define d3 where "d3 = add_line e cart p q v f g (clear_other_shops cart s d1)"
  obtain su' d5 where su: "cart_summary e u (put_Cart (cart\<lparr>ct_updated_at := env_now e\<rparr>) d3) = (su', d5)"
    by fastforce
  have d5: "d' = d5" using assms p s c su by (auto simp: add_to_cart_def Let_def d3_def)
  obtain t1 where t1: "d1 = d\<lparr>carts := t1\<rparr>" using get_or_create_cart_frame [OF c] by blast
  have ci: "cart_items d' = cart_items d3" and pr: "products d' = products d3"
    using cart_summary_frame [OF su] d5 by auto
  have "products d3 = products d"
    by (auto simp: d3_def add_line_def clear_other_shops_def t1 split: option.splits)
  moreover have "db_wf d'" if "db_wf d"
  proof -
    have "db_wf d1" using get_or_create_cart_wf [OF c that] .
    then have "db_wf d3"
      by (auto simp: d3_def add_line_def clear_other_shops_def split: option.splits)
    then show ?thesis using cart_summary_wf [OF su] d5 by simp
  qed
  ultimately show thesis using that [OF p(1,2) s p(4) c] ci pr d3_def by simp
qed

lemma add_line_rows:
  assumes "it \<in> set (rows (cart_items (add_line e cart p q v f g d)))"
  shows "(ci_product_id it = p_id p \<and> ci_cart_id it = ct_id cart) \<or> it \<in> set (rows (cart_items d))"
  using assms
  by (auto simp: add_line_def rows_t_put rows_t_insert new_CartItem_def split: option.splits if_splits
      dest!: t_first_SomeD)

lemma clear_other_rows:
  assumes "it \<in> set (rows (cart_items (clear_other_shops cart s d)))"
    "ci_cart_id it = ct_id cart" "\<not> ci_saved_for_later it"
  shows "\<not> other_shop d s it"
  using assms by (auto simp: clear_other_shops_def t_delete_all_def active_items_def t_all_def)

lemma clear_other_subset: "set (rows (cart_items (clear_other_shops cart s d))) \<subseteq> set (rows (cart_items d))"
  by (auto simp: clear_other_shops_def t_delete_all_def)

section \<open>The single-shop rule\<close>

definition same_shop :: "int option \<Rightarrow> int option \<Rightarrow> bool" where
  "same_shop a b \<longleftrightarrow> a = None \<or> b = None \<or> a = b"

definition carts_single_shop :: "db \<Rightarrow> bool" where
  "carts_single_shop d \<longleftrightarrow> (\<forall>i \<in> set (rows (cart_items d)). \<forall>j \<in> set (rows (cart_items d)).
     ci_cart_id i = ci_cart_id j \<and> \<not> ci_saved_for_later i \<and> \<not> ci_saved_for_later j
       \<longrightarrow> same_shop (shop_of d i) (shop_of d j))"

text \<open>The operations a customer has on the cart.  \<open>patch_cart_item\<close> does not look at the shop of a line that is moved
  back: here the line must be of the shop of the active lines.\<close>

definition same_shop_line :: "db \<Rightarrow> int \<Rightarrow> bool" where
  "same_shop_line d i = (case get_CartItem d i of None \<Rightarrow> True
   | Some it \<Rightarrow> list_all (\<lambda>j. ci_cart_id j = ci_cart_id it \<and> \<not> ci_saved_for_later j
       \<longrightarrow> same_shop (shop_of d it) (shop_of d j)) (rows (cart_items d)))"

inductive cart_step :: "db \<Rightarrow> db \<Rightarrow> bool" where
  add: "add_to_cart e u pid q v f g d = (Inr su, d') \<Longrightarrow> cart_step d d'"
| patch: "patch_cart_item e u i q s d = (rep, d') \<Longrightarrow> s = Some False \<longrightarrow> same_shop_line d i \<Longrightarrow> cart_step d d'"
| remove: "remove_cart_item e u i d = (su, d') \<Longrightarrow> cart_step d d'"
| coupon: "apply_coupon e u c d = (Inr su, d') \<Longrightarrow> cart_step d d'"

inductive_cases cart_stepE: "cart_step d d'"

lemma carts_single_shop_mono:
  assumes "carts_single_shop d" "products d' = products d"
    "\<And>i. i \<in> set (rows (cart_items d')) \<Longrightarrow> \<not> ci_saved_for_later i \<Longrightarrow> \<exists>j \<in> set (rows (cart_items d)).
       ci_cart_id j = ci_cart_id i \<and> ci_product_id j = ci_product_id i \<and> \<not> ci_saved_for_later j"
  shows "carts_single_shop d'"
proof -
  have sh: "shop_of d' i = shop_of d j" if "ci_product_id j = ci_product_id i" for i j
    using that assms(2) by (simp add: shop_of_def line_of_def Let_def)
  show ?thesis unfolding carts_single_shop_def
  proof (intro ballI impI, elim conjE)
    fix i j assume m: "i \<in> set (rows (cart_items d'))" "j \<in> set (rows (cart_items d'))"
      "ci_cart_id i = ci_cart_id j" "\<not> ci_saved_for_later i" "\<not> ci_saved_for_later j"
    obtain i' where i': "i' \<in> set (rows (cart_items d))" "ci_cart_id i' = ci_cart_id i"
      "ci_product_id i' = ci_product_id i" "\<not> ci_saved_for_later i'" using assms(3) [OF m(1,4)] by blast
    obtain j' where j': "j' \<in> set (rows (cart_items d))" "ci_cart_id j' = ci_cart_id j"
      "ci_product_id j' = ci_product_id j" "\<not> ci_saved_for_later j'" using assms(3) [OF m(2,5)] by blast
    have "same_shop (shop_of d i') (shop_of d j')"
      using assms(1) i' j' m(3) by (simp add: carts_single_shop_def)
    then show "same_shop (shop_of d' i) (shop_of d' j)" using sh [OF i'(3)] sh [OF j'(3)] by simp
  qed
qed

lemma same_shop_sym: "same_shop a b \<Longrightarrow> same_shop b a"
  by (auto simp: same_shop_def)

lemma carts_single_shop_put:
  assumes "carts_single_shop d" "cart_items d' = t_put ci_id item2 (cart_items d)" "products d' = products d"
    "ci_cart_id item2 = k"
    "\<And>j. j \<in> set (rows (cart_items d)) \<Longrightarrow> ci_cart_id j = k \<Longrightarrow> \<not> ci_saved_for_later j
       \<Longrightarrow> same_shop (shop_of d item2) (shop_of d j)"
  shows "carts_single_shop d'"
proof -
  have old: "j = item2 \<or> j \<in> set (rows (cart_items d))" if "j \<in> set (rows (cart_items d'))" for j
    using that by (auto simp: assms(2) rows_t_put)
  have self: "same_shop (shop_of d item2) (shop_of d item2)" by (simp add: same_shop_def)
  show ?thesis unfolding carts_single_shop_def shop_of_products [OF assms(3)]
  proof (intro ballI impI, elim conjE)
    fix i j assume m: "i \<in> set (rows (cart_items d'))" "j \<in> set (rows (cart_items d'))"
      "ci_cart_id i = ci_cart_id j" "\<not> ci_saved_for_later i" "\<not> ci_saved_for_later j"
    from old [OF m(1)] old [OF m(2)] show "same_shop (shop_of d i) (shop_of d j)"
      using m(3-5) assms(1,4) assms(5) [of i] assms(5) [of j] self
      by (auto simp: carts_single_shop_def intro: same_shop_sym)
  qed
qed

lemma add_single_shop:
  assumes "add_to_cart e u pid q v f g d = (Inr su, d')" "carts_single_shop d"
  shows "carts_single_shop d'"
proof -
  from assms(1) obtain p s cart d1 where A: "get_Product d pid = Some p" "p_supplier_user_id p = Some s"
    "get_or_create_cart e u d = (cart, d1)"
    "cart_items d' = cart_items (add_line e cart p q v f g (clear_other_shops cart s d1))"
    "products d' = products d" by (rule add_to_cartE)
  obtain t1 where t1: "d1 = d\<lparr>carts := t1\<rparr>" using get_or_create_cart_frame [OF A(3)] by blast
  have sh: "shop_of d' = shop_of d" "shop_of d1 = shop_of d" using shop_of_products [OF A(5)] shop_of_products [of d1 d] by (simp_all add: t1)
  have pid: "p_id p = pid" using t_get_key [OF A(1)] .
  have p_shop: "shop_of d it = Some s \<or> shop_of d it = None" if "ci_product_id it = pid" for it
    using that A(1,2) by (simp add: shop_of_def line_of_def Let_def)
  have old: "(ci_product_id it = pid \<and> ci_cart_id it = ct_id cart)
        \<or> it \<in> set (rows (cart_items d)) \<and> (ci_cart_id it = ct_id cart \<and> \<not> ci_saved_for_later it
             \<longrightarrow> \<not> other_shop d1 s it)" if "it \<in> set (rows (cart_items d'))" for it
  proof -
    from add_line_rows [OF that [unfolded A(4)]] show ?thesis
    proof
      assume "it \<in> set (rows (cart_items (clear_other_shops cart s d1)))"
      moreover from this have "it \<in> set (rows (cart_items d))"
        using clear_other_subset [of cart s d1] by (auto simp: t1)
      ultimately show ?thesis using clear_other_rows by blast
    qed (simp add: pid)
  qed
  have own: "same_shop (shop_of d it) (Some s)"
    if "it \<in> set (rows (cart_items d'))" "ci_cart_id it = ct_id cart" "\<not> ci_saved_for_later it" for it
    using old [OF that(1)] that p_shop [of it]
    by (cases "shop_of d it") (auto simp: other_shop_iff sh same_shop_def)
  show ?thesis unfolding carts_single_shop_def sh
  proof (intro ballI impI, elim conjE)
    fix i j assume m: "i \<in> set (rows (cart_items d'))" "j \<in> set (rows (cart_items d'))"
      "ci_cart_id i = ci_cart_id j" "\<not> ci_saved_for_later i" "\<not> ci_saved_for_later j"
    show "same_shop (shop_of d i) (shop_of d j)"
    proof (cases "ci_cart_id i = ct_id cart")
      case True
      then show ?thesis using own [OF m(1)] own [OF m(2)] m by (auto simp: same_shop_def)
    next
      case False
      then show ?thesis using old [OF m(1)] old [OF m(2)] m assms(2) by (auto simp: carts_single_shop_def)
    qed
  qed
qed

lemma cart_summary_items: "cart_summary e u d = (su, d') \<Longrightarrow> cart_items d' = cart_items d \<and> products d' = products d"
  by (auto dest!: cart_summary_frame)

lemma cart_items_frame:
  "get_or_create_cart e u d = (c, d') \<Longrightarrow> cart_items d' = cart_items d \<and> products d' = products d"
  by (auto dest!: get_or_create_cart_frame)

lemma patch_single_shop:
  assumes "patch_cart_item e u i q s d = (rep, d')" "s = Some False \<longrightarrow> same_shop_line d i" "carts_single_shop d"
  shows "carts_single_shop d'"
proof (cases "get_CartItem d i")
  case None
  with assms show ?thesis by (simp add: patch_cart_item_def)
next
  case (Some item)
  obtain cart d1 where c: "get_or_create_cart e u d = (cart, d1)" by fastforce
  note c1 = cart_items_frame [OF c]
  show ?thesis
  proof (cases "ci_cart_id item = ct_id cart")
    case False
    with assms Some c have "d' = d1" by (simp add: patch_cart_item_def)
    with c1 assms(3) show ?thesis by (intro carts_single_shop_mono [OF assms(3)]) auto
  next
    case True
    define item1 where "item1 = (case q of None \<Rightarrow> item | Some q \<Rightarrow> item\<lparr>ci_quantity := q\<rparr>)"
    define item2 where "item2 = (case s of None \<Rightarrow> item1 | Some b \<Rightarrow> item1\<lparr>ci_saved_for_later := b\<rparr>)"
    obtain su d2 where su: "cart_summary e u (put_CartItem item2 d1) = (su, d2)" by fastforce
    have "d' = d2" using assms(1) Some c True su [unfolded item2_def item1_def]
      by (simp add: patch_cart_item_def Let_def)
    then have ci: "cart_items d' = t_put ci_id item2 (cart_items d)" "products d' = products d"
      using cart_summary_items [OF su] c1 by auto
    have it2: "ci_cart_id item2 = ci_cart_id item" "ci_product_id item2 = ci_product_id item" "ci_id item2 = i"
      "\<not> ci_saved_for_later item2 \<Longrightarrow> \<not> ci_saved_for_later item \<or> s = Some False"
      using t_get_key [OF Some] by (auto simp: item2_def item1_def split: option.splits)
    show ?thesis
    proof (cases "s = Some False")
      case True
      then have sl: "same_shop (shop_of d item2) (shop_of d j)"
        if "j \<in> set (rows (cart_items d))" "ci_cart_id j = ci_cart_id item" "\<not> ci_saved_for_later j" for j
        using that assms(2) Some it2(2) by (simp add: same_shop_line_def list_all_iff shop_of_def line_of_def Let_def)
      show ?thesis using carts_single_shop_put [OF assms(3) ci it2(1) sl] .
    next
      case False
      with t_get_in [OF Some] ci it2 show ?thesis
        by (intro carts_single_shop_mono [OF assms(3)]) (auto simp: rows_t_put)
    qed
  qed
qed

lemma remove_single_shop:
  assumes "remove_cart_item e u i d = (su, d')" "carts_single_shop d"
  shows "carts_single_shop d'"
proof (cases "get_CartItem d i")
  case None
  with assms have "cart_summary e u d = (su, d')" by (simp add: remove_cart_item_def)
  from cart_summary_items [OF this] show ?thesis by (intro carts_single_shop_mono [OF assms(2)]) auto
next
  case (Some item)
  obtain cart d1 where c: "get_or_create_cart e u d = (cart, d1)" by fastforce
  then have "cart_summary e u (if ci_cart_id item = ct_id cart then del_CartItem i d1 else d1) = (su, d')"
    using assms(1) Some by (simp add: remove_cart_item_def)
  from cart_summary_items [OF this] cart_items_frame [OF c] show ?thesis
    by (intro carts_single_shop_mono [OF assms(2)]) (auto simp: t_delete_def split: if_splits)
qed

lemma coupon_single_shop:
  assumes "apply_coupon e u c d = (Inr su, d')" "carts_single_shop d"
  shows "carts_single_shop d'"
proof -
  obtain cart d1 where g: "get_or_create_cart e u d = (cart, d1)" by fastforce
  with assms(1) obtain cp :: Coupon where "cart_summary e u (put_Cart (cart\<lparr>ct_coupon_code := Some (cp_code cp)\<rparr>) d1) = (su, d')"
    by (auto simp: apply_coupon_def Let_def split: option.splits prod.splits)
  from cart_summary_items [OF this] cart_items_frame [OF g] show ?thesis
    by (intro carts_single_shop_mono [OF assms(2)]) auto
qed

section \<open>Quantities\<close>

text \<open>How much of a product (in a variant) a cart holds among its active lines.\<close>

definition held :: "db \<Rightarrow> int \<Rightarrow> int \<Rightarrow> string option \<Rightarrow> int" where
  "held d k pid v = sum_list (map ci_quantity (t_all (\<lambda>r. ci_cart_id r = k \<and> ci_product_id r = pid
     \<and> ci_variant r = v \<and> \<not> ci_saved_for_later r) (cart_items d)))"

lemma sum_map_put:
  assumes "distinct (map key xs)" "x \<in> set xs" "key x' = key x"
  shows "(\<Sum>y\<leftarrow>map (\<lambda>y. if key y = key x' then x' else y) xs. (f y :: int)) = (\<Sum>y\<leftarrow>xs. f y) + f x' - f x"
  using assms
proof (induction xs)
  case (Cons y ys)
  show ?case
  proof (cases "key y = key x'")
    case True
    then have "y = x" "x \<notin> set ys" using Cons.prems by (auto simp: image_iff)
    moreover have "map (\<lambda>y. if key y = key x' then x' else y) ys = ys"
      using Cons.prems True by (intro map_idI) (auto simp: image_iff)
    ultimately show ?thesis using True by simp
  next
    case False
    then show ?thesis using Cons by auto
  qed
qed simp

lemma held_add_line:
  assumes "db_wf d"
  shows "held (add_line e cart p q v f g d) (ct_id cart) (p_id p) v = held d (ct_id cart) (p_id p) v + q"
proof -
  let ?P = "\<lambda>r. ci_cart_id r = ct_id cart \<and> ci_product_id r = p_id p \<and> ci_variant r = v \<and> \<not> ci_saved_for_later r"
  show ?thesis
  proof (cases "t_first ?P (cart_items d)")
    case None
    then show ?thesis by (simp add: held_def add_line_def t_all_insert new_CartItem_def)
  next
    case (Some it)
    define it' where "it' = it\<lparr>ci_quantity := ci_quantity it + q\<rparr>"
    have it: "?P it" "it \<in> set (rows (cart_items d))" using t_first_SomeD [OF Some] by auto
    have al: "t_all ?P (t_put ci_id it' (cart_items d))
        = map (\<lambda>x. if ci_id x = ci_id it' then it' else x) (t_all ?P (cart_items d))"
    proof (rule t_all_put)
      fix x assume "x \<in> set (rows (cart_items d))" "ci_id x = ci_id it'"
      then have "x = it" using t_wf_unique [of ci_id "cart_items d" x it] it(2) assms by (simp add: it'_def)
      then show "?P x = ?P it'" by (simp add: it'_def)
    qed
    have "distinct (map ci_id (t_all ?P (cart_items d)))"
      using t_wf_distinct [of ci_id "cart_items d"] assms by (simp add: t_all_def distinct_map_filter)
    from sum_map_put [OF this, of it it' ci_quantity] it
    show ?thesis using Some by (simp add: held_def add_line_def al t_all_iff flip: it'_def) (simp add: it'_def)
  qed
qed

section \<open>Properties\<close>

text \<open>Property C20 (cart_keeps_single_shop): whatever sequence of additions, quantity changes, lines saved for later and moved
  back, removals and coupons customers make, no cart ever holds active lines of two different shops, as long as a line that
  is moved back is of the shop of the cart's active lines; the code does not check that (\<open>unsave_mixes_shops\<close>).\<close>

theorem cart_keeps_single_shop:
  assumes "cart_step\<^sup>*\<^sup>* d d'" "carts_single_shop d"
  shows "carts_single_shop d'"
  using assms
proof (induction rule: rtranclp_induct)
  case (step d1 d2)
  then have "carts_single_shop d1" by simp
  with step.hyps(2) show ?case
    by (auto elim!: cart_stepE intro: add_single_shop patch_single_shop remove_single_shop coupon_single_shop)
qed simp

text \<open>\<open>add_to_cart\<close> succeeds only for an active product of a shop with at least the
  added quantity in stock; then the cart holds exactly that much more of the product.  It fails with
  nothing changed.\<close>

theorem add_to_cart_effect:
  assumes "add_to_cart e u pid q v f g d = (r, d')" "db_wf d"
  shows "case r of
      Inl ex \<Rightarrow> d' = d \<and> (\<forall>p. get_Product d pid = Some p \<and> p_is_active p \<longrightarrow>
         \<not> truthy_id (p_supplier_user_id p) \<or> p_stock_qty p < q)
    | Inr su \<Rightarrow> \<exists>p cart d1. get_Product d pid = Some p \<and> p_is_active p \<and> p_supplier_user_id p \<noteq> None
         \<and> q \<le> p_stock_qty p \<and> get_or_create_cart e u d = (cart, d1)
         \<and> held d' (ct_id cart) pid v = held d (ct_id cart) pid v + q \<and> products d' = products d \<and> db_wf d'"
proof (cases r)
  case (Inl ex)
  with assms(1) show ?thesis
    by (auto simp: add_to_cart_def Let_def split: option.splits if_splits prod.splits)
next
  case (Inr su)
  with assms(1) obtain p s cart d1 where A: "get_Product d pid = Some p" "p_is_active p" "p_supplier_user_id p = Some s"
    "q \<le> p_stock_qty p" "get_or_create_cart e u d = (cart, d1)"
    "cart_items d' = cart_items (add_line e cart p q v f g (clear_other_shops cart s d1))"
    "products d' = products d" "db_wf d \<longrightarrow> db_wf d'"
    by (auto elim: add_to_cartE)
  obtain t1 where t1: "d1 = d\<lparr>carts := t1\<rparr>" using get_or_create_cart_frame [OF A(5)] by blast
  have pid: "p_id p = pid" using t_get_key [OF A(1)] .
  have keep: "\<not> other_shop d1 s it" if "ci_product_id it = pid" for it
    using that A(1,3) by (simp add: other_shop_def t1)
  have "held (clear_other_shops cart s d1) (ct_id cart) pid v = held d (ct_id cart) pid v"
  proof -
    have "t_all P (t_delete_all ci_id (map ci_id (filter (other_shop d1 s) (active_items d1 (ct_id cart)))) (cart_items d))
        = t_all P (cart_items d)" if P: "\<And>r. P r \<Longrightarrow> ci_product_id r = pid" for P
    proof -
      have "ci_id x \<notin> ci_id ` set (filter (other_shop d1 s) (active_items d1 (ct_id cart)))"
        if "x \<in> set (rows (cart_items d))" "P x" for x
        using that keep [OF P] t_wf_unique [of ci_id "cart_items d" x] assms(2)
        by (auto simp: active_items_def t_all_def t1)
      then show ?thesis by (auto simp: t_all_def t_delete_all_def intro!: filter_cong)
    qed
    from this [of "\<lambda>r. ci_cart_id r = ct_id cart \<and> ci_product_id r = pid \<and> ci_variant r = v \<and> \<not> ci_saved_for_later r"]
    show ?thesis unfolding held_def clear_other_shops_def by (simp add: t1)
  qed
  moreover have "db_wf (clear_other_shops cart s d1)"
    using get_or_create_cart_wf [OF A(5) assms(2)] by (simp add: clear_other_shops_def)
  ultimately have "held (add_line e cart p q v f g (clear_other_shops cart s d1)) (ct_id cart) pid v
      = held d (ct_id cart) pid v + q"
    using held_add_line pid by metis
  then have "held d' (ct_id cart) pid v = held d (ct_id cart) pid v + q" by (simp add: held_def A(6))
  with Inr A assms(2) show ?thesis by auto
qed

section \<open>Worked examples\<close>

definition sample_add :: "(exc + cart_totals) \<times> db" where
  "sample_add = add_to_cart sample_env 5 1 15 None None False cart_db"

lemma sample_add_ok: "\<exists>su d'. sample_add = (Inr su, d')"
proof -
  have "p_is_active bun" "p_supplier_user_id bun = Some 7" "p_stock_qty bun = 20"
    by (simp_all add: bun_def new_Product_def)
  then show ?thesis
    by (simp add: sample_add_def add_to_cart_def cart_db_products Let_def del: cart_db_tables split: prod.splits)
qed

lemma cart_db_held: "held cart_db 1 1 None = 9"
  by (simp add: held_def t_all_def cart_lines_def new_CartItem_def)

text \<open>15 more of a product of which 9 are in the cart and 20 in stock: the check lets it pass.\<close>

lemma add_to_cart_effect_witness:
  "\<exists>su d'. sample_add = (Inr su, d') \<and> held d' 1 1 None = 24 \<and> p_stock_qty bun = 20"
proof -
  obtain su d' where r: "sample_add = (Inr su, d')" using sample_add_ok by blast
  have c: "get_or_create_cart sample_env 5 cart_db = ((new_Cart 0 5)\<lparr>ct_id := 1\<rparr>, cart_db)"
    using cart_db_cart by (rule get_or_create_cart_old)
  from add_to_cart_effect [OF r [unfolded sample_add_def] cart_db_wf] c cart_db_held r show ?thesis
    by (auto simp: bun_def)
qed

lemma cart_db_single: "carts_single_shop cart_db"
  by (auto simp: carts_single_shop_def cart_lines_def shop_of_def line_of_def t_get_def bun_def cake_def
      same_shop_def new_CartItem_def Let_def)

lemma cart_keeps_single_shop_witness: "carts_single_shop (snd sample_add) \<and> cart_step cart_db (snd sample_add)"
proof -
  obtain su d' where r: "sample_add = (Inr su, d')" using sample_add_ok by blast
  have st: "cart_step cart_db d'" using r unfolding sample_add_def by (rule cart_step.add)
  then have "carts_single_shop d'"
    by (intro cart_keeps_single_shop [of cart_db d', OF _ cart_db_single] r_into_rtranclp)
  then show ?thesis using st unfolding r by simp
qed

text \<open>Moving a saved line of another shop back breaks the rule: \<open>patch_cart_item\<close> does not check it.\<close>

definition mixed_db :: db where
  "mixed_db = cart_db\<lparr>products := \<lparr>rows = [bun, cake\<lparr>p_supplier_user_id := Some 8\<rparr>], next_id = 3\<rparr>,
     cart_items := \<lparr>rows = [cart_lines ! 0, (cart_lines ! 1)\<lparr>ci_saved_for_later := True\<rparr>], next_id = 3\<rparr>\<rparr>"

lemma unsave_mixes_shops:
  "carts_single_shop mixed_db
   \<and> \<not> carts_single_shop (snd (patch_cart_item sample_env 5 2 None (Some False) mixed_db))"
proof -
  define it where "it = (cart_lines ! 1)\<lparr>ci_saved_for_later := True\<rparr>"
  have pr: "get_Product mixed_db 1 = Some bun" "get_Product mixed_db 2 = Some (cake\<lparr>p_supplier_user_id := Some 8\<rparr>)"
    by (simp_all add: mixed_db_def t_get_def bun_def cake_def)
  have get: "get_CartItem mixed_db 2 = Some it" "get_CartItem mixed_db 1 = Some (cart_lines ! 0)"
    by (simp_all add: mixed_db_def t_get_def it_def cart_lines_def)
  have c: "get_or_create_cart sample_env 5 mixed_db = ((new_Cart 0 5)\<lparr>ct_id := 1\<rparr>, mixed_db)"
    using cart_db_cart by (intro get_or_create_cart_old) (simp add: mixed_db_def cart_of_def)
  have "ci_cart_id it = 1" by (simp add: it_def cart_lines_def new_CartItem_def)
  then obtain su d' where su: "cart_summary sample_env 5 (put_CartItem (cart_lines ! 1) mixed_db) = (su, d')"
    and d': "snd (patch_cart_item sample_env 5 2 None (Some False) mixed_db) = d'"
    using get(1) c by (cases "cart_summary sample_env 5 (put_CartItem (cart_lines ! 1) mixed_db)")
      (simp add: patch_cart_item_def it_def cart_lines_def new_CartItem_def)
  have rows: "rows (cart_items d') = cart_lines"
    using cart_summary_items [OF su] by (simp add: mixed_db_def rows_t_put cart_lines_def new_CartItem_def)
  have sh: "shop_of d' (cart_lines ! 0) = Some 7" "shop_of d' (cart_lines ! 1) = Some 8"
    using cart_summary_items [OF su] pr
    by (simp_all add: shop_of_def line_of_def Let_def cart_lines_def new_CartItem_def bun_def)
  have "\<not> carts_single_shop d'"
    unfolding carts_single_shop_def rows
  proof
    assume "\<forall>i\<in>set cart_lines. \<forall>j\<in>set cart_lines.
       ci_cart_id i = ci_cart_id j \<and> \<not> ci_saved_for_later i \<and> \<not> ci_saved_for_later j
       \<longrightarrow> same_shop (shop_of d' i) (shop_of d' j)"
    then have "same_shop (shop_of d' (cart_lines ! 0)) (shop_of d' (cart_lines ! 1))"
      by (simp add: cart_lines_def new_CartItem_def)
    with sh show False by (simp add: same_shop_def)
  qed
  moreover have "carts_single_shop mixed_db"
    by (auto simp: carts_single_shop_def mixed_db_def cart_lines_def new_CartItem_def same_shop_def)
  ultimately show ?thesis using d' by simp
qed

end
