(* ===== verification/Notify.thy ===== *)
theory Notify
  imports Events
begin

text \<open>\<open>checkout_service/app/services/notifications.py\<close>: the in-app notifications.\<close>

definition notify :: "env \<Rightarrow> int \<Rightarrow> string \<Rightarrow> string \<Rightarrow> string \<Rightarrow> json option \<Rightarrow> db \<Rightarrow> db" where
  "notify e user_id ntype title body data d =
     add_Notification ((new_Notification (env_now e) user_id title body)
       \<lparr>n_type := (case enum_of NotificationType_value NotificationType_members ntype of
                     Some t \<Rightarrow> t | None \<Rightarrow> NT_SYSTEM),
        n_data := data\<rparr>) d"

definition list_notifications :: "db \<Rightarrow> int \<Rightarrow> bool \<Rightarrow> Notification list" where
  "list_notifications d user_id unread_only =
     take 100 (filter (\<lambda>n. unread_only \<longrightarrow> \<not> n_is_read n)
       (sort_key (\<lambda>n. - n_created_at n) (t_all (\<lambda>n. n_user_id n = user_id) (notifications d))))"

definition mark_read :: "int \<Rightarrow> int option \<Rightarrow> db \<Rightarrow> json \<times> db" where
  "mark_read user_id notification_id d =
     (JObj [(''message'', JStr ''ok'')],
      if truthy_id notification_id
      then (case get_Notification d (the notification_id) of
              Some n \<Rightarrow> if n_user_id n = user_id then put_Notification (n\<lparr>n_is_read := True\<rparr>) d else d
            | None \<Rightarrow> d)
      else d\<lparr>notifications := (notifications d)\<lparr>rows :=
             map (\<lambda>n. if n_user_id n = user_id \<and> \<not> n_is_read n then n\<lparr>n_is_read := True\<rparr> else n)
               (rows (notifications d))\<rparr>\<rparr>)"

definition unread :: "db \<Rightarrow> int \<Rightarrow> nat" where
  "unread d user_id = length (t_all (\<lambda>n. n_user_id n = user_id \<and> \<not> n_is_read n) (notifications d))"

lemma notify_frame: "\<exists>t. notify e u k ti b dat d = d\<lparr>notifications := t\<rparr>"
  by (auto simp: notify_def)

lemma notify_fields [simp]:
  "orders (notify e u k ti b dat d) = orders d" "order_items (notify e u k ti b dat d) = order_items d"
  "payments (notify e u k ti b dat d) = payments d" "products (notify e u k ti b dat d) = products d"
  "histories (notify e u k ti b dat d) = histories d" "users (notify e u k ti b dat d) = users d"
  "cart_items (notify e u k ti b dat d) = cart_items d" "carts (notify e u k ti b dat d) = carts d"
  "invoices (notify e u k ti b dat d) = invoices d" "trackings (notify e u k ti b dat d) = trackings d"
  "purchases (notify e u k ti b dat d) = purchases d" "profiles (notify e u k ti b dat d) = profiles d"
  "riders (notify e u k ti b dat d) = riders d" "outbox (notify e u k ti b dat d) = outbox d"
  "settings_rows (notify e u k ti b dat d) = settings_rows d"
  by (simp_all add: notify_def)

lemma notify_wf [simp]: "db_wf d \<Longrightarrow> db_wf (notify e u k ti b dat d)"
  by (simp add: notify_def)

text \<open>Reading one notification of one's own, or all: the count falls to match.\<close>

lemma mark_all_read: "unread (snd (mark_read u None d)) u = 0"
  by (auto simp: unread_def mark_read_def t_all_def filter_empty_conv)

lemma mark_read_others: "v \<noteq> u \<Longrightarrow> db_wf d \<Longrightarrow> unread (snd (mark_read u k d)) v = unread d v"
proof -
  assume v: "v \<noteq> u" and wf: "db_wf d"
  show ?thesis
  proof (cases "truthy_id k \<and> get_Notification d (the k) \<noteq> None")
    case True
    then obtain n where n: "get_Notification d (the k) = Some n" by auto
    have u: "x = n" if "x \<in> set (rows (notifications d))" "n_id x = n_id n" for x
      using that t_wf_unique [of n_id "notifications d" x n] t_get_in [OF n] wf by simp
    then show ?thesis
      using v True n by (auto simp: unread_def mark_read_def t_all_def rows_t_put filter_map
          intro!: arg_cong [where f = length] filter_cong dest: u split: if_splits)
  next
    case False
    then show ?thesis
      using v by (auto simp: unread_def mark_read_def t_all_def filter_map
          intro!: arg_cong [where f = length] filter_cong split: option.splits)
  qed
qed

end
