(* ===== verification/Checkout.thy ===== *)
theory Checkout
  imports CartLaws Notify
begin

text \<open>
  \<open>checkout\<close> of \<open>checkout_service/app/services/orders.py\<close>: the order a cart becomes, its items,
  the stock it takes, the pending payment, the emptied cart and the messages sent.
\<close>

record checkout_in =
  in_address_id :: int
  in_delivery_date :: date
  in_delivery_slot :: string
  in_customer_phone :: string
  in_delivery_instructions :: "string option"
  in_contactless :: bool
  in_payment_method :: string
  in_coupon_code :: "string option"

definition address_snapshot :: "Address \<Rightarrow> json" where
  "address_snapshot a = JObj [(''full_name'', JStr (ad_full_name a)), (''phone'', JStr (ad_phone a)),
     (''line1'', JStr (ad_line1 a)), (''line2'', jopt_str (ad_line2 a)), (''city'', JStr (ad_city a)),
     (''state'', JStr (ad_state a)), (''pincode'', JStr (ad_pincode a)),
     (''latitude'', jopt_float (ad_latitude a)), (''longitude'', jopt_float (ad_longitude a))]"

definition checkout_order :: "env \<Rightarrow> int \<Rightarrow> checkout_in \<Rightarrow> Address \<Rightarrow> PaymentMethod \<Rightarrow> cart_totals \<Rightarrow> db \<Rightarrow> Order" where
  "checkout_order e user_id data address meth su d =
     (new_Order (env_now e) (order_number_for e (next_id (orders d))) user_id)
       \<lparr>o_shop_user_id := su_shop_user_id su, o_address_id := Some (ad_id address),
        o_status := OS_PLACED, o_payment_status := PS_PENDING, o_payment_method := Some meth,
        o_subtotal := su_subtotal su, o_discount := su_discount su, o_coupon_code := su_coupon_code su,
        o_gst_amount := su_gst su, o_delivery_fee := su_delivery_fee su, o_final_amount := su_final_total su,
        o_delivery_date := Some (in_delivery_date data), o_delivery_slot := Some (in_delivery_slot data),
        o_delivery_instructions := in_delivery_instructions data, o_contactless := in_contactless data,
        o_customer_phone := Some (in_customer_phone data), o_address_snapshot := Some (address_snapshot address),
        o_estimated_delivery_at := Some (env_now e + us_minutes 60)\<rparr>"

definition order_clash :: "Order \<Rightarrow> db \<Rightarrow> bool" where
  "order_clash ord d = list_ex (\<lambda>r. o_order_number r = o_order_number ord) (rows (orders d))"

section \<open>Lines and stock\<close>

definition item_of_line :: "int \<Rightarrow> cart_line \<Rightarrow> Product option \<Rightarrow> OrderItem" where
  "item_of_line oid line product =
     (new_OrderItem oid (cl_product_id line) (cl_product_name line))
       \<lparr>oi_product_image := cl_product_image line, oi_variant := cl_variant line, oi_flavor := cl_flavor line,
        oi_quantity := cl_quantity line, oi_unit_price := cl_unit_price line,
        oi_total_price := cl_total_price line,
        oi_unit_cost := (case product of Some p \<Rightarrow> or_zero (p_purchase_cost p) | None \<Rightarrow> 0)\<rparr>"

definition take_stock :: "int \<Rightarrow> Product \<Rightarrow> Product" where
  "take_stock qty p =
     (let q = max 0 (p_stock_qty p - qty)
      in p\<lparr>p_stock_qty := q, p_stock_status := to_stock_status (stock_status_for q (p_low_stock_threshold p)),
           p_sales_count := p_sales_count p + qty\<rparr>)"

definition place_line :: "int \<Rightarrow> cart_line \<Rightarrow> db \<Rightarrow> db" where
  "place_line oid line d =
     (let product = get_Product d (cl_product_id line);
          d1 = add_OrderItem (item_of_line oid line product) d
      in (case product of None \<Rightarrow> d1 | Some p \<Rightarrow> put_Product (take_stock (cl_quantity line) p) d1))"

definition place_lines :: "int \<Rightarrow> cart_line list \<Rightarrow> db \<Rightarrow> db" where
  "place_lines oid ls d = foldl (\<lambda>d l. place_line oid l d) d ls"

section \<open>The rest of the order\<close>

definition clear_cart :: "Cart \<Rightarrow> db \<Rightarrow> db" where
  "clear_cart cart d = put_Cart (cart\<lparr>ct_coupon_code := None\<rparr>)
     (d\<lparr>cart_items := t_delete_all ci_id (map ci_id (active_items d (ct_id cart))) (cart_items d)\<rparr>)"

definition count_order :: "int \<Rightarrow> db \<Rightarrow> db" where
  "count_order user_id d = (case get_User d user_id of
     None \<Rightarrow> d | Some u \<Rightarrow> put_User (u\<lparr>u_total_orders := u_total_orders u + 1\<rparr>) d)"

definition notify_admin :: "env \<Rightarrow> Order \<Rightarrow> db \<Rightarrow> db" where
  "notify_admin e ord d = (case t_first (\<lambda>u. u_role u = UR_ADMIN) (users d) of
     None \<Rightarrow> d
   | Some admin \<Rightarrow> notify e (u_id admin) ''order'' ''New order''
       (''Order '' @ o_order_number ord @ '' received'') (Some (JObj [(''order_id'', JInt (o_id ord))])) d)"

definition notify_shop :: "env \<Rightarrow> Order \<Rightarrow> db \<Rightarrow> db" where
  "notify_shop e ord d =
     (if truthy_id (o_shop_user_id ord)
      then notify e (the (o_shop_user_id ord)) ''order'' ''New customer order''
             (''Order '' @ o_order_number ord @ '' '' @ middot @ '' '' @ rupee @ fmt0 (o_final_amount ord))
             (Some (JObj [(''order_id'', JInt (o_id ord)), (''order_number'', JStr (o_order_number ord)),
                          (''amount'', JFloat (o_final_amount ord))])) d
      else d)"

definition announce_order :: "Order \<Rightarrow> db \<Rightarrow> db" where
  "announce_order ord d =
     (let d1 = emit_order_status (o_id ord)
            [(''status'', JStr (OrderStatus_value (o_status ord))), (''user_id'', JInt (o_user_id ord)),
             (''shop_user_id'', jopt_int (if truthy_id (o_shop_user_id ord) then o_shop_user_id ord else None))] d
      in if truthy_id (o_shop_user_id ord)
         then emit_user_event (the (o_shop_user_id ord)) ''sales_order''
            [(''order_id'', JInt (o_id ord)), (''order_number'', JStr (o_order_number ord)),
             (''amount'', JFloat (o_final_amount ord)), (''status'', JStr (OrderStatus_value (o_status ord)))] d1
         else d1)"

definition payment_of_order :: "env \<Rightarrow> Order \<Rightarrow> db \<Rightarrow> Payment" where
  "payment_of_order e ord d = (new_Payment (env_now e) (o_id ord) (o_user_id ord) (o_final_amount ord))
     \<lparr>pay_method := o_payment_method ord, pay_status := PS_PENDING,
      pay_transaction_id := Some (txn_id_for e (next_id (payments d)))\<rparr>"

definition history_row :: "env \<Rightarrow> int \<Rightarrow> OrderStatus \<Rightarrow> string option \<Rightarrow> int \<Rightarrow> OrderStatusHistory" where
  "history_row e oid st note actor = (new_OrderStatusHistory (env_now e) oid st)
     \<lparr>h_note := note, h_created_by := Some actor\<rparr>"

text \<open>Everything after the order row is committed.\<close>

definition fill_order :: "env \<Rightarrow> Order \<Rightarrow> cart_line list \<Rightarrow> db \<Rightarrow> db" where
  "fill_order e ord ls d =
     (let d1 = place_lines (o_id ord) ls d;
          d2 = add_OrderStatusHistory (history_row e (o_id ord) OS_PLACED (Some ''Order placed'') (o_user_id ord)) d1;
          d3 = add_Payment (payment_of_order e ord d2) d2;
          (cart, d4) = get_or_create_cart e (o_user_id ord) d3
      in announce_order ord (notify_shop e ord (notify_admin e ord
           (count_order (o_user_id ord) (clear_cart cart d4)))))"

definition checkout :: "env \<Rightarrow> int \<Rightarrow> checkout_in \<Rightarrow> db \<Rightarrow> (exc + Order) \<times> db" where
  "checkout e user_id data d =
     (let (su, d1) = cart_summary e user_id d in
      if su_items su = [] then (Inl (bad_request ''Cart is empty''), d1)
      else let (s, d2) = settings e d1 in
      if su_final_total su < bs_min_order_value s
      then (Inl (AppExc (BadRequestError (MsgFloat (''Minimum order value is '' @ rupee) (bs_min_order_value s)))), d2)
      else (case get_Address d2 (in_address_id data) of
        None \<Rightarrow> (Inl (not_found ''Address not found''), d2)
      | Some address \<Rightarrow>
          if ad_user_id address \<noteq> user_id then (Inl (not_found ''Address not found''), d2)
          else (case assert_within_radius e (ad_latitude address) (ad_longitude address) d2 of
            Inl ex \<Rightarrow> (Inl ex, d2)
          | Inr _ \<Rightarrow>
            (case enum_of PaymentMethod_value PaymentMethod_members (in_payment_method data) of
               None \<Rightarrow> (Inl (bad_request (''Invalid payment method: '' @ in_payment_method data)), d2)
             | Some meth \<Rightarrow>
                 if meth = PM_COD \<and> \<not> bs_cod_enabled s
                 then (Inl (bad_request ''Cash on delivery is disabled''), d2)
                 else if \<not> truthy_id (su_shop_user_id su)
                 then (Inl (bad_request ''Cart items must belong to a shop''), d2)
                 else let ord = checkout_order e user_id data address meth su d2 in
                   if order_clash ord d2 then (Inl (PyExc ''IntegrityError''), d2)
                   else (Inr (key_Order ord d2),
                         fill_order e (key_Order ord d2) (su_items su) (add_Order ord d2))))))"

section \<open>What placing the lines does\<close>

definition line_matches :: "int \<Rightarrow> OrderItem \<Rightarrow> cart_line \<Rightarrow> bool" where
  "line_matches oid it l \<longleftrightarrow> oi_order_id it = oid \<and> oi_product_id it = cl_product_id l
     \<and> oi_product_name it = cl_product_name l \<and> oi_variant it = cl_variant l \<and> oi_flavor it = cl_flavor l
     \<and> oi_quantity it = cl_quantity l \<and> oi_unit_price it = cl_unit_price l \<and> oi_total_price it = cl_total_price l"

lemma place_lines_Nil [simp]: "place_lines oid [] d = d"
  and place_lines_snoc: "place_lines oid (ls @ [l]) d = place_line oid l (place_lines oid ls d)"
  by (simp_all add: place_lines_def)

lemma place_line_frame:
  "\<exists>t p. place_line oid l d = d\<lparr>order_items := t, products := p\<rparr>"
proof (cases "get_Product d (cl_product_id l)")
  case None
  then show ?thesis
    by (intro exI [of _ "t_insert (\<lambda>i r. r\<lparr>oi_id := i\<rparr>) (item_of_line oid l None) (order_items d)"]
        exI [of _ "products d"]) (simp add: place_line_def Let_def)
next
  case (Some p)
  then show ?thesis by (simp add: place_line_def Let_def) blast
qed

lemma place_lines_frame: "\<exists>t p. place_lines oid ls d = d\<lparr>order_items := t, products := p\<rparr>"
proof (induction ls rule: rev_induct)
  case Nil
  then show ?case by (intro exI [of _ "order_items d"] exI [of _ "products d"]) simp
next
  case (snoc l ls)
  then obtain t p where tp: "place_lines oid ls d = d\<lparr>order_items := t, products := p\<rparr>" by blast
  show ?case using place_line_frame [of oid l "d\<lparr>order_items := t, products := p\<rparr>"]
    by (simp add: place_lines_snoc tp)
qed

lemma place_lines_wf: "db_wf d \<Longrightarrow> db_wf (place_lines oid ls d)"
  by (induction ls rule: rev_induct)
    (auto simp: place_lines_snoc place_line_def Let_def split: option.splits)

lemma place_line_items:
  "rows (order_items (place_line oid l d)) = rows (order_items d)
     @ [(item_of_line oid l (get_Product d (cl_product_id l)))\<lparr>oi_id := next_id (order_items d)\<rparr>]"
  by (simp add: place_line_def Let_def rows_t_insert split: option.splits)

lemma place_lines_items:
  "\<exists>its. rows (order_items (place_lines oid ls d)) = rows (order_items d) @ its
     \<and> list_all2 (line_matches oid) its ls"
proof (induction ls rule: rev_induct)
  case Nil
  then show ?case by simp
next
  case (snoc l ls)
  then show ?case
    by (auto simp: place_lines_snoc place_line_items list_all2_append line_matches_def item_of_line_def
        new_OrderItem_def intro!: list_all2_appendI)
qed

lemma take_stock_id [simp]: "p_id (take_stock q p) = p_id p"
  by (simp add: take_stock_def Let_def)

definition take_all :: "int list \<Rightarrow> Product \<Rightarrow> Product" where
  "take_all qs p = foldl (\<lambda>p q. take_stock q p) p qs"

lemma take_all_simps [simp]: "take_all [] p = p" "take_all (qs @ [q]) p = take_stock q (take_all qs p)"
  by (simp_all add: take_all_def)

lemma take_all_id [simp]: "p_id (take_all qs p) = p_id p"
  by (induction qs rule: rev_induct) simp_all

definition qtys :: "cart_line list \<Rightarrow> int \<Rightarrow> int list" where
  "qtys ls k = map cl_quantity (filter (\<lambda>l. cl_product_id l = k) ls)"

lemma place_line_product:
  "get_Product (place_line oid l d) k = (if k = cl_product_id l
     then map_option (take_stock (cl_quantity l)) (get_Product d k) else get_Product d k)"
  using t_get_key [of p_id k "products d"] t_get_key [of p_id "cl_product_id l" "products d"]
  by (auto simp: place_line_def Let_def split: option.splits)

lemma place_lines_product:
  "get_Product (place_lines oid ls d) k = map_option (take_all (qtys ls k)) (get_Product d k)"
proof (induction ls rule: rev_induct)
  case Nil
  then show ?case by (simp add: qtys_def option.map_ident)
next
  case (snoc l ls)
  then show ?case
    by (auto simp: place_lines_snoc place_line_product qtys_def option.map_comp comp_def)
qed

text \<open>Taking several quantities: the stock never goes below zero, sales count them all.\<close>

lemma take_all_stock:
  assumes "0 \<le> p_stock_qty p" "\<forall>q \<in> set qs. 0 \<le> q"
  shows "p_stock_qty (take_all qs p) = max 0 (p_stock_qty p - sum_list qs)"
    and "p_sales_count (take_all qs p) = p_sales_count p + sum_list qs"
    and "qs \<noteq> [] \<Longrightarrow> p_stock_status (take_all qs p)
       = to_stock_status (stock_status_for (p_stock_qty (take_all qs p)) (p_low_stock_threshold p))"
proof -
  have th: "p_low_stock_threshold (take_all qs p) = p_low_stock_threshold p" for qs
    by (induction qs rule: rev_induct) (simp_all add: take_stock_def Let_def)
  show "p_stock_qty (take_all qs p) = max 0 (p_stock_qty p - sum_list qs)"
    using assms
  proof (induction qs rule: rev_induct)
    case (snoc q qs)
    then have "0 \<le> sum_list qs" by (intro sum_list_nonneg) auto
    with snoc show ?case by (auto simp: take_stock_def Let_def)
  qed simp
  show "p_sales_count (take_all qs p) = p_sales_count p + sum_list qs"
    by (induction qs rule: rev_induct) (simp_all add: take_stock_def Let_def)
  show "p_stock_status (take_all qs p)
       = to_stock_status (stock_status_for (p_stock_qty (take_all qs p)) (p_low_stock_threshold p))" if "qs \<noteq> []"
    using that th by (cases qs rule: rev_cases) (simp_all add: take_stock_def Let_def)
qed

section \<open>What filling the order does\<close>

lemma clear_cart_fields [simp]:
  "orders (clear_cart c d) = orders d" "order_items (clear_cart c d) = order_items d"
  "payments (clear_cart c d) = payments d" "products (clear_cart c d) = products d"
  "histories (clear_cart c d) = histories d" "users (clear_cart c d) = users d"
  "notifications (clear_cart c d) = notifications d" "outbox (clear_cart c d) = outbox d"
  by (simp_all add: clear_cart_def)

lemma clear_cart_active: "db_wf d \<Longrightarrow> active_items (clear_cart c d) (ct_id c) = []"
  by (force simp: clear_cart_def active_items_def t_all_def t_delete_all_def filter_empty_conv)

lemma count_order_fields [simp]:
  "orders (count_order u d) = orders d" "order_items (count_order u d) = order_items d"
  "payments (count_order u d) = payments d" "products (count_order u d) = products d"
  "histories (count_order u d) = histories d" "cart_items (count_order u d) = cart_items d"
  "carts (count_order u d) = carts d" "outbox (count_order u d) = outbox d"
  "notifications (count_order u d) = notifications d"
  by (simp_all add: count_order_def split: option.splits)

lemma notify_admin_shop_fields [simp]:
  "orders (notify_admin e ord d) = orders d" "order_items (notify_admin e ord d) = order_items d"
  "payments (notify_admin e ord d) = payments d" "products (notify_admin e ord d) = products d"
  "histories (notify_admin e ord d) = histories d" "cart_items (notify_admin e ord d) = cart_items d"
  "carts (notify_admin e ord d) = carts d" "outbox (notify_admin e ord d) = outbox d"
  "orders (notify_shop e ord d) = orders d" "order_items (notify_shop e ord d) = order_items d"
  "payments (notify_shop e ord d) = payments d" "products (notify_shop e ord d) = products d"
  "histories (notify_shop e ord d) = histories d" "cart_items (notify_shop e ord d) = cart_items d"
  "carts (notify_shop e ord d) = carts d" "outbox (notify_shop e ord d) = outbox d"
  by (simp_all add: notify_admin_def notify_shop_def split: option.splits)

lemma announce_order_fields [simp]:
  "orders (announce_order ord d) = orders d" "order_items (announce_order ord d) = order_items d"
  "payments (announce_order ord d) = payments d" "products (announce_order ord d) = products d"
  "histories (announce_order ord d) = histories d" "cart_items (announce_order ord d) = cart_items d"
  "carts (announce_order ord d) = carts d"
  by (simp_all add: announce_order_def emit_defs Let_def)

lemma steps_wf [simp]:
  assumes "db_wf d"
  shows "db_wf (clear_cart c d)" "db_wf (count_order u d)" "db_wf (notify_admin e ord d)"
    "db_wf (notify_shop e ord d)" "db_wf (announce_order ord d)"
  using assms
  by (simp_all add: clear_cart_def count_order_def notify_admin_def notify_shop_def announce_order_def
      emit_defs Let_def split: option.splits)

lemma get_or_create_cart_fields:
  assumes "get_or_create_cart e u d = (c, d')"
  shows "orders d' = orders d" "order_items d' = order_items d" "payments d' = payments d"
    "products d' = products d" "histories d' = histories d" "cart_items d' = cart_items d" "outbox d' = outbox d"
  using get_or_create_cart_frame [OF assms] by auto

lemma fill_order_effect:
  assumes wf: "db_wf d" and cart: "cart_of d (o_user_id ord) = Some c"
    and d'_def: "d' = fill_order e ord ls d"
  shows "orders d' = orders d" and "db_wf d'"
    and "order_items d' = order_items (place_lines (o_id ord) ls d)"
    and "products d' = products (place_lines (o_id ord) ls d)"
    and "rows (payments d') = rows (payments d) @ [(payment_of_order e ord d)\<lparr>pay_id := next_id (payments d)\<rparr>]"
    and "rows (histories d') = rows (histories d) @ [(history_row e (o_id ord) OS_PLACED (Some ''Order placed'')
           (o_user_id ord))\<lparr>h_id := next_id (histories d)\<rparr>]"
    and "active_items d' (ct_id c) = []"
proof -
  obtain t p where pl: "place_lines (o_id ord) ls d = d\<lparr>order_items := t, products := p\<rparr>"
    using place_lines_frame by blast
  define d2 where "d2 = add_OrderStatusHistory (history_row e (o_id ord) OS_PLACED (Some ''Order placed'')
    (o_user_id ord)) (place_lines (o_id ord) ls d)"
  define d3 where "d3 = add_Payment (payment_of_order e ord d2) d2"
  have "cart_of d3 (o_user_id ord) = Some c" using cart by (simp add: d3_def d2_def pl cart_of_def)
  then have g: "get_or_create_cart e (o_user_id ord) d3 = (c, d3)" by (rule get_or_create_cart_old)
  have d': "d' = announce_order ord (notify_shop e ord (notify_admin e ord (count_order (o_user_id ord) (clear_cart c d3))))"
    unfolding d'_def fill_order_def Let_def d2_def [symmetric] d3_def [symmetric] g by simp
  have wf3: "db_wf d3" using place_lines_wf [OF wf, of "o_id ord" ls] by (simp add: d3_def d2_def)
  show "orders d' = orders d" by (simp add: d' d3_def d2_def pl)
  show "db_wf d'" using wf3 by (simp add: d')
  show "order_items d' = order_items (place_lines (o_id ord) ls d)" by (simp add: d' d3_def d2_def)
  show "products d' = products (place_lines (o_id ord) ls d)" by (simp add: d' d3_def d2_def)
  show "rows (payments d') = rows (payments d) @ [(payment_of_order e ord d)\<lparr>pay_id := next_id (payments d)\<rparr>]"
    by (simp add: d' d3_def d2_def pl rows_t_insert payment_of_order_def)
  show "rows (histories d') = rows (histories d) @ [(history_row e (o_id ord) OS_PLACED (Some ''Order placed'')
           (o_user_id ord))\<lparr>h_id := next_id (histories d)\<rparr>]"
    by (simp add: d' d3_def d2_def pl rows_t_insert)
  have "cart_items d' = cart_items (clear_cart c d3)" by (simp add: d')
  then show "active_items d' (ct_id c) = []" using clear_cart_active [OF wf3] by (simp add: active_items_def)
qed

section \<open>The checkout as a whole\<close>

lemma cart_summary_of:
  assumes "cart_summary e u d = (su, d1)"
  obtains c s where "cart_of d1 u = Some c" "ct_user_id c = u" "settings e d1 = (s, d1)" "su = summarise c s d1"
proof -
  obtain c dc s where c: "get_or_create_cart e u d = (c, dc)" and s: "settings e dc = (s, d1)"
    and su: "su = summarise c s d1"
    using assms by (auto simp: cart_summary_def Let_def split: prod.splits)
  obtain t where "d1 = dc\<lparr>settings_rows := t\<rparr>" using settings_frame [OF s] by blast
  with get_or_create_cart_of [OF c] have "cart_of d1 u = Some c" "ct_user_id c = u" by (simp_all add: cart_of_def)
  with that settings_of [OF s] su show thesis by blast
qed

lemma checkoutE:
  assumes "checkout e u data d = (Inr ord, d')"
  obtains su d1 c s address meth where "cart_summary e u d = (su, d1)" "cart_of d1 u = Some c"
    "settings e d1 = (s, d1)" "su = summarise c s d1" "su_items su \<noteq> []" "bs_min_order_value s \<le> su_final_total su"
    "get_Address d1 (in_address_id data) = Some address" "ad_user_id address = u"
    "ad_latitude address \<noteq> None" "ad_longitude address \<noteq> None"
    "PaymentMethod_value meth = in_payment_method data" "meth = PM_COD \<longrightarrow> bs_cod_enabled s"
    "truthy_id (su_shop_user_id su)"
    "\<not> order_clash (checkout_order e u data address meth su d1) d1"
    "ord = key_Order (checkout_order e u data address meth su d1) d1"
    "d' = fill_order e ord (su_items su) (add_Order (checkout_order e u data address meth su d1) d1)"
proof -
  obtain su d1 where su: "cart_summary e u d = (su, d1)" by fastforce
  obtain c s where c: "cart_of d1 u = Some c" "settings e d1 = (s, d1)" "su = summarise c s d1"
    using cart_summary_of [OF su] by metis
  from assms su c(2) obtain address meth where A: "su_items su \<noteq> []" "bs_min_order_value s \<le> su_final_total su"
    "get_Address d1 (in_address_id data) = Some address" "ad_user_id address = u"
    "ad_latitude address \<noteq> None \<and> ad_longitude address \<noteq> None"
    "enum_of PaymentMethod_value PaymentMethod_members (in_payment_method data) = Some meth"
    "meth = PM_COD \<longrightarrow> bs_cod_enabled s" "truthy_id (su_shop_user_id su)"
    "\<not> order_clash (checkout_order e u data address meth su d1) d1"
    "ord = key_Order (checkout_order e u data address meth su d1) d1"
    "d' = fill_order e ord (su_items su) (add_Order (checkout_order e u data address meth su d1) d1)"
    by (auto simp: checkout_def Let_def assert_within_radius_def split: if_splits option.splits sum.splits)
  show thesis using that [OF su c A(1-4) _ _ _ A(7-11)] A(5) PaymentMethod_enum.of_SomeD [OF A(6)] by blast
qed

text \<open>Foreign keys to orders: rows about an order belong to an order that was given out.\<close>

definition refs_ok :: "db \<Rightarrow> bool" where
  "refs_ok d \<longleftrightarrow> (\<forall>r \<in> set (rows (order_items d)). oi_order_id r < next_id (orders d))
     \<and> (\<forall>r \<in> set (rows (payments d)). pay_order_id r < next_id (orders d))
     \<and> (\<forall>r \<in> set (rows (histories d)). h_order_id r < next_id (orders d))"

lemma checkout_order_id [simp]: "o_user_id (checkout_order e u data a m su d) = u"
  by (simp add: checkout_order_def new_Order_def)

lemma line_matches_all: "list_all2 (line_matches oid) its ls \<Longrightarrow> it \<in> set its \<Longrightarrow> oi_order_id it = oid"
  by (auto simp: list_all2_conv_all_nth in_set_conv_nth line_matches_def)

section \<open>Properties\<close>

text \<open>What filling a new order leaves in the tables.\<close>

lemma fill_order_books:
  assumes wf: "db_wf d" and ok: "refs_ok d" and c: "cart_of d (o_user_id row) = Some c"
    and ord: "ord = key_Order row d" and d': "d' = fill_order e ord ls (add_Order row d)"
  shows "get_Order d (o_id ord) = None \<and> get_Order d' (o_id ord) = Some ord"
    and "\<forall>k. k \<noteq> o_id ord \<longrightarrow> get_Order d' k = get_Order d k"
    and "list_all2 (line_matches (o_id ord)) (items_of d' (o_id ord)) ls"
    and "\<exists>p. t_all (\<lambda>p. pay_order_id p = o_id ord) (payments d') = [p]
          \<and> pay_amount p = o_final_amount ord \<and> pay_status p = PS_PENDING"
    and "map h_status (t_all (\<lambda>h. h_order_id h = o_id ord) (histories d')) = [OS_PLACED]"
    and "active_items d' (ct_id c) = [] \<and> db_wf d' \<and> refs_ok d'"
proof -
  define d2 where "d2 = add_Order row d"
  have wf2: "db_wf d2" using wf by (simp add: d2_def)
  have id: "o_id ord = next_id (orders d)" by (simp add: ord)
  have c2: "cart_of d2 (o_user_id ord) = Some c" using c by (simp add: d2_def cart_of_def ord)
  have F: "orders d' = orders d2" "db_wf d'" "order_items d' = order_items (place_lines (o_id ord) ls d2)"
    "rows (payments d') = rows (payments d2) @ [(payment_of_order e ord d2)\<lparr>pay_id := next_id (payments d2)\<rparr>]"
    "rows (histories d') = rows (histories d2) @ [(history_row e (o_id ord) OS_PLACED (Some ''Order placed'')
           (o_user_id ord))\<lparr>h_id := next_id (histories d2)\<rparr>]"
    "active_items d' (ct_id c) = []"
    using fill_order_effect [OF wf2 c2 d' [folded d2_def]] by blast+
  obtain its where its: "rows (order_items d') = rows (order_items d) @ its" "list_all2 (line_matches (o_id ord)) its ls"
    using place_lines_items [of "o_id ord" ls d2] F(3) by (auto simp: d2_def)
  show "get_Order d (o_id ord) = None \<and> get_Order d' (o_id ord) = Some ord"
    "\<forall>k. k \<noteq> o_id ord \<longrightarrow> get_Order d' k = get_Order d k"
    using wf id by (simp_all add: F(1) d2_def ord)
  have "items_of d' (o_id ord) = its"
    using its line_matches_all [OF its(2)] ok id
    by (fastforce simp: items_of_def t_all_def refs_ok_def filter_id_conv filter_empty_conv)
  with its(2) show "list_all2 (line_matches (o_id ord)) (items_of d' (o_id ord)) ls" by simp
  show "\<exists>p. t_all (\<lambda>p. pay_order_id p = o_id ord) (payments d') = [p]
          \<and> pay_amount p = o_final_amount ord \<and> pay_status p = PS_PENDING"
    using ok id by (auto simp: t_all_def F(4) refs_ok_def d2_def filter_empty_conv payment_of_order_def new_Payment_def)
  show "map h_status (t_all (\<lambda>h. h_order_id h = o_id ord) (histories d')) = [OS_PLACED]"
    using ok id by (auto simp: t_all_def F(5) refs_ok_def d2_def filter_empty_conv history_row_def new_OrderStatusHistory_def)
  have nx: "next_id (orders d') = next_id (orders d) + 1" by (simp add: F(1) d2_def)
  have "refs_ok d'"
    using ok id line_matches_all [OF its(2)]
    by (auto simp: refs_ok_def nx its(1) F(4,5) d2_def payment_of_order_def new_Payment_def
        history_row_def new_OrderStatusHistory_def)
  with F(2,6) show "active_items d' (ct_id c) = [] \<and> db_wf d' \<and> refs_ok d'" by simp
qed

text \<open>Property C1 (checkout_places_order): a successful checkout adds exactly one order, with a fresh id, owned by the
  customer, in state placed and unpaid, with the amounts of the cart summary; its items are the active
  cart lines, its only payment is a pending one of the final amount, its only history entry is placed;
  no other order changes and the cart is left without active lines.\<close>

theorem checkout_places_order:
  assumes "checkout e u data d = (Inr ord, d')" "db_wf d" "refs_ok d"
  shows "\<exists>su d1 c. cart_summary e u d = (su, d1) \<and> cart_of d1 u = Some c \<and> su_items su \<noteq> []
     \<and> get_Order d (o_id ord) = None \<and> get_Order d' (o_id ord) = Some ord
     \<and> (\<forall>k. k \<noteq> o_id ord \<longrightarrow> get_Order d' k = get_Order d k)
     \<and> o_user_id ord = u \<and> o_status ord = OS_PLACED \<and> o_payment_status ord = PS_PENDING
     \<and> (o_subtotal ord, o_discount ord, o_gst_amount ord, o_delivery_fee ord, o_final_amount ord)
        = (su_subtotal su, su_discount su, su_gst su, su_delivery_fee su, su_final_total su)
     \<and> list_all2 (line_matches (o_id ord)) (items_of d' (o_id ord)) (su_items su)
     \<and> (\<exists>p. t_all (\<lambda>p. pay_order_id p = o_id ord) (payments d') = [p]
          \<and> pay_amount p = o_final_amount ord \<and> pay_status p = PS_PENDING)
     \<and> map h_status (t_all (\<lambda>h. h_order_id h = o_id ord) (histories d')) = [OS_PLACED]
     \<and> active_items d' (ct_id c) = [] \<and> db_wf d' \<and> refs_ok d'"
proof -
  from assms(1) obtain su d1 c s address meth where C: "cart_summary e u d = (su, d1)" "cart_of d1 u = Some c"
    "su_items su \<noteq> []"
    "ord = key_Order (checkout_order e u data address meth su d1) d1"
    "d' = fill_order e ord (su_items su) (add_Order (checkout_order e u data address meth su d1) d1)"
    by (elim checkoutE) blast
  obtain ts tr where d1: "d1 = d\<lparr>carts := ts, settings_rows := tr\<rparr>" using cart_summary_frame [OF C(1)] by blast
  then have "refs_ok d1" "\<And>k. get_Order d1 k = get_Order d k" using assms(3) by (simp_all add: refs_ok_def)
  moreover have "cart_of d1 (o_user_id (checkout_order e u data address meth su d1)) = Some c" using C(2) by simp
  ultimately show ?thesis
    using fill_order_books [OF cart_summary_wf [OF C(1) assms(2)] _ _ C(4,5), of c] C(1-3)
    by (intro exI [of _ su] exI [of _ d1] exI [of _ c]) (simp add: C(4) checkout_order_def new_Order_def)
qed

text \<open>Property C3 (checkout_takes_stock): a checkout takes the ordered quantities of every product out of its stock,
  never below zero, counts them as sales, and leaves the stock status of an ordered product in step.\<close>

theorem checkout_takes_stock:
  assumes "checkout e u data d = (Inr ord, d')" "db_wf d"
    and "get_Product d k = Some p" "0 \<le> p_stock_qty p"
    and "qs = qtys (su_items (fst (cart_summary e u d))) k" "\<forall>q \<in> set qs. 0 \<le> q"
  shows "\<exists>p'. get_Product d' k = Some p' \<and> p_stock_qty p' = max 0 (p_stock_qty p - sum_list qs)
     \<and> p_sales_count p' = p_sales_count p + sum_list qs
     \<and> (qs \<noteq> [] \<longrightarrow> StockStatus_value (p_stock_status p') = stock_status_for (p_stock_qty p') (p_low_stock_threshold p'))"
proof -
  from assms(1) obtain su d1 c s address meth where C: "cart_summary e u d = (su, d1)" "cart_of d1 u = Some c"
    "ord = key_Order (checkout_order e u data address meth su d1) d1"
    "d' = fill_order e ord (su_items su) (add_Order (checkout_order e u data address meth su d1) d1)"
    by (elim checkoutE) blast
  define d2 where "d2 = add_Order (checkout_order e u data address meth su d1) d1"
  have wf2: "db_wf d2" using cart_summary_wf [OF C(1) assms(2)] by (simp add: d2_def)
  obtain ts tr where d1: "d1 = d\<lparr>carts := ts, settings_rows := tr\<rparr>" using cart_summary_frame [OF C(1)] by blast
  have "o_user_id ord = u" using C(3) by simp
  then have c2: "cart_of d2 (o_user_id ord) = Some c" using C(2) by (simp add: d2_def cart_of_def)
  have qs: "qs = qtys (su_items su) k" using assms(5) C(1) by simp
  have "products d' = products (place_lines (o_id ord) (su_items su) d2)"
    using fill_order_effect(4) [OF wf2 c2 C(4) [folded d2_def]] .
  then have g: "get_Product d' k = Some (take_all qs p)"
    using place_lines_product [of k "o_id ord" "su_items su" d2] assms(3) by (simp add: qs d2_def d1)
  have th: "p_low_stock_threshold (take_all qs p) = p_low_stock_threshold p"
    by (induction qs rule: rev_induct) (simp_all add: take_stock_def Let_def)
  have st: "StockStatus_value (to_stock_status (stock_status_for a b)) = stock_status_for a b" for a b
    unfolding to_stock_status_cases by (simp add: stock_status_for_def)
  show ?thesis
    using g take_all_stock [OF assms(4,6)] by (simp add: th st)
qed

text \<open>Property C18 (checkout_rejected): a refused checkout places nothing: no order, item, payment or history row is
  added, no stock is taken and the cart lines stay.\<close>

theorem checkout_rejected:
  assumes "checkout e u data d = (Inl ex, d')"
  shows "orders d' = orders d \<and> order_items d' = order_items d \<and> payments d' = payments d
     \<and> histories d' = histories d \<and> products d' = products d \<and> cart_items d' = cart_items d"
proof -
  obtain su d1 where su: "cart_summary e u d = (su, d1)" by fastforce
  obtain s d2 where s: "settings e d1 = (s, d2)" by fastforce
  have "d' = d1 \<or> d' = d2"
    using assms su s by (auto simp: checkout_def Let_def split: if_splits option.splits sum.splits)
  then show ?thesis using cart_summary_frame [OF su] settings_frame [OF s] by auto
qed

section \<open>Worked examples\<close>

lemma checkout_succeeds:
  assumes "cart_summary e u d = (su, d1)" "settings e d1 = (s, d1)" "su_items su \<noteq> []"
    "bs_min_order_value s \<le> su_final_total su" "get_Address d1 (in_address_id data) = Some a" "ad_user_id a = u"
    "ad_latitude a \<noteq> None" "ad_longitude a \<noteq> None" "PaymentMethod_value meth = in_payment_method data"
    "meth = PM_COD \<longrightarrow> bs_cod_enabled s" "truthy_id (su_shop_user_id su)"
    "\<not> order_clash (checkout_order e u data a meth su d1) d1"
  shows "\<exists>ord d'. checkout e u data d = (Inr ord, d')"
proof -
  have "enum_of PaymentMethod_value PaymentMethod_members (in_payment_method data) = Some meth"
    using assms(9) by (simp add: PaymentMethod_enum.of_Some_iff)
  then show ?thesis
    using assms by (auto simp: checkout_def Let_def assert_within_radius_def)
qed

definition sample_checkout :: checkout_in where
  "sample_checkout = \<lparr>in_address_id = 1, in_delivery_date = 20656, in_delivery_slot = ''10:00-12:00'',
     in_customer_phone = ''9876500000'', in_delivery_instructions = None, in_contactless = False,
     in_payment_method = ''upi'', in_coupon_code = None\<rparr>"

lemma sample_bill: "bill_of (float_sum [fmul (cents 1608) 9, fmul (cents 35428) 1]) 0
    ((new_BakerySettings 0)\<lparr>bs_id := 1\<rparr>) = (cents 2495, 40, cents 56395)"
  by code_simp

lemma cart_db_totals:
  "su_items (fst (cart_summary e 5 cart_db)) = map (line_of cart_db) cart_lines"
  "su_shop_user_id (fst (cart_summary e 5 cart_db)) = Some 7"
  "su_final_total (fst (cart_summary e 5 cart_db)) = cents 56395"
proof -
  have l: "map (line_of cart_db) cart_lines \<noteq> []" by (simp add: cart_lines_def)
  have p: "get_Product cart_db 1 = Some bun" by (rule cart_db_products)
  show "su_items (fst (cart_summary e 5 cart_db)) = map (line_of cart_db) cart_lines"
    unfolding cart_db_summary using cart_db_active
    by (simp add: summarise_def Let_def case_prod_unfold new_Cart_def)
  show "su_shop_user_id (fst (cart_summary e 5 cart_db)) = Some 7"
    unfolding cart_db_summary using cart_db_active p
    by (simp add: summarise_def Let_def case_prod_unfold cart_lines_def line_of_def new_Cart_def new_CartItem_def
        bun_def del: cart_db_tables)
  show "su_final_total (fst (cart_summary e 5 cart_db)) = cents 56395"
    unfolding cart_db_summary using cart_db_active sample_bill
    by (simp add: summarise_def Let_def cart_lines_def line_of_def new_Cart_def new_CartItem_def)
qed

lemma sample_checkout_ok: "\<exists>ord d'. checkout sample_env 5 sample_checkout cart_db = (Inr ord, d')"
proof (rule checkout_succeeds)
  show "cart_summary sample_env 5 cart_db = (fst (cart_summary sample_env 5 cart_db), cart_db)"
    by (simp add: cart_db_summary)
  show "settings sample_env cart_db = ((new_BakerySettings 0)\<lparr>bs_id := 1\<rparr>, cart_db)"
    by (simp add: settings_def t_first_def)
  show "su_items (fst (cart_summary sample_env 5 cart_db)) \<noteq> []" by (simp add: cart_db_totals cart_lines_def)
  have "(149::rat) \<le> cents 56395" by code_simp
  then show "bs_min_order_value ((new_BakerySettings 0)\<lparr>bs_id := 1\<rparr>) \<le> su_final_total (fst (cart_summary sample_env 5 cart_db))"
    by (simp add: cart_db_totals new_BakerySettings_def)
  show "get_Address cart_db (in_address_id sample_checkout) = Some ravi_address"
    by (simp add: t_get_def ravi_address_def sample_checkout_def)
  show "ad_user_id ravi_address = 5" "ad_latitude ravi_address \<noteq> None" "ad_longitude ravi_address \<noteq> None"
    by (simp_all add: ravi_address_def new_Address_def)
  show "PaymentMethod_value PM_UPI = in_payment_method sample_checkout" by (simp add: sample_checkout_def)
  show "truthy_id (su_shop_user_id (fst (cart_summary sample_env 5 cart_db)))" by (simp add: cart_db_totals)
  show "\<not> order_clash (checkout_order sample_env 5 sample_checkout ravi_address PM_UPI
     (fst (cart_summary sample_env 5 cart_db)) cart_db) cart_db" by (simp add: order_clash_def t_empty_def)
qed simp

lemma cart_db_refs: "refs_ok cart_db"
  by (simp add: refs_ok_def t_empty_def)

lemma checkout_places_order_witness:
  "\<exists>ord d'. checkout sample_env 5 sample_checkout cart_db = (Inr ord, d') \<and> get_Order d' (o_id ord) = Some ord
     \<and> o_final_amount ord = cents 56395 \<and> length (items_of d' (o_id ord)) = 2 \<and> active_items d' 1 = []"
proof -
  obtain ord d' where r: "checkout sample_env 5 sample_checkout cart_db = (Inr ord, d')"
    using sample_checkout_ok by blast
  from checkout_places_order [OF r cart_db_wf cart_db_refs] obtain su d1 c where
    C: "cart_summary sample_env 5 cart_db = (su, d1)" "cart_of d1 5 = Some c" "get_Order d' (o_id ord) = Some ord"
    "o_final_amount ord = su_final_total su" "list_all2 (line_matches (o_id ord)) (items_of d' (o_id ord)) (su_items su)"
    "active_items d' (ct_id c) = []" by auto
  have d1: "d1 = cart_db" using C(1) cart_db_summary by simp
  have "length (su_items su) = 2" "su_final_total su = cents 56395"
    using cart_db_totals [of sample_env] C(1) by (simp_all add: cart_lines_def)
  moreover have "ct_id c = 1" using C(2) d1 cart_db_cart by auto
  ultimately show ?thesis using r C(3-6) list_all2_lengthD [OF C(5)] by auto
qed

lemma checkout_takes_stock_witness:
  "\<exists>ord d' p'. checkout sample_env 5 sample_checkout cart_db = (Inr ord, d') \<and> get_Product d' 1 = Some p'
     \<and> p_stock_qty p' = 11 \<and> p_sales_count p' = 9"
proof -
  obtain ord d' where r: "checkout sample_env 5 sample_checkout cart_db = (Inr ord, d')"
    using sample_checkout_ok by blast
  have qs: "[9] = qtys (su_items (fst (cart_summary sample_env 5 cart_db))) 1"
    by (simp add: cart_db_totals qtys_def cart_lines_def line_of_def new_CartItem_def Let_def)
  have b: "p_stock_qty bun = 20" "p_sales_count bun = 0" by (simp_all add: bun_def new_Product_def)
  from checkout_takes_stock [OF r cart_db_wf cart_db_products(1) _ qs] b r show ?thesis by auto
qed

lemma checkout_rejected_witness:
  "orders (snd (checkout sample_env 6 sample_checkout cart_db)) = orders cart_db"
proof -
  have "active_items d (next_id (carts cart_db)) = []" if "cart_items d = cart_items cart_db" for d
    using that by (simp add: active_items_def t_all_def cart_lines_def new_CartItem_def)
  then have "su_items (fst (cart_summary sample_env 6 cart_db)) = []"
    by (simp add: cart_summary_def get_or_create_cart_def cart_of_def t_first_def settings_def summarise_def
        Let_def case_prod_unfold new_Cart_def)
  then have "isl (fst (checkout sample_env 6 sample_checkout cart_db))"
    by (cases "cart_summary sample_env 6 cart_db") (simp add: checkout_def)
  from checkout_rejected [OF run_error [OF this]] show ?thesis by simp
qed

end
