(* ===== verification/OrderLife.thy ===== *)
theory OrderLife
  imports Checkout
begin

text \<open>
  The life of an order after checkout, \<open>checkout_service/app/services/orders.py\<close>:
  \<open>update_order_status\<close>, \<open>cancel_order\<close>, \<open>rate_order\<close>, \<open>reorder\<close>, \<open>order_detail\<close>,
  the listings and the customer invoice.
\<close>

section \<open>Reading orders\<close>

record order_view =
  od_order :: Order
  od_items :: "OrderItem list"
  od_timeline :: "OrderStatusHistory list"
  od_payment :: "Payment option"
  od_invoice :: "Invoice option"
  od_tracking :: "DeliveryTracking option"
  od_delivery_person :: "DeliveryPerson option"

definition invoice_of :: "db \<Rightarrow> int \<Rightarrow> Invoice option" where
  "invoice_of d oid = t_first (\<lambda>r. inv_order_id r = Some oid) (invoices d)"

definition tracking_of :: "db \<Rightarrow> int \<Rightarrow> DeliveryTracking option" where
  "tracking_of d oid = t_first (\<lambda>r. dt_order_id r = oid) (trackings d)"

definition order_detail :: "db \<Rightarrow> int \<Rightarrow> int option \<Rightarrow> bool \<Rightarrow> exc + order_view" where
  "order_detail d order_id user_id admin = (case get_Order d order_id of
     None \<Rightarrow> Inl (not_found ''Order not found'')
   | Some ord \<Rightarrow>
       if \<not> admin \<and> Some (o_user_id ord) \<noteq> user_id then Inl (forbidden ''Not your order'')
       else Inr \<lparr>od_order = ord, od_items = items_of d (o_id ord),
          od_timeline = sort_key h_created_at (t_all (\<lambda>r. h_order_id r = o_id ord) (histories d)),
          od_payment = last_payment d (o_id ord), od_invoice = invoice_of d (o_id ord),
          od_tracking = tracking_of d (o_id ord),
          od_delivery_person = (if truthy_id (o_delivery_person_id ord)
             then get_DeliveryPerson d (the (o_delivery_person_id ord)) else None)\<rparr>)"

definition group_filter :: "string option \<Rightarrow> Order \<Rightarrow> bool" where
  "group_filter status_group r = (case status_group of
     None \<Rightarrow> True
   | Some g \<Rightarrow>
       if g = ''active'' then o_status r \<notin> {OS_DELIVERED, OS_CANCELLED}
       else if g = ''delivered'' then o_status r = OS_DELIVERED
       else if g = ''cancelled'' then o_status r = OS_CANCELLED
       else if g = [] then True
       else (case enum_of OrderStatus_value OrderStatus_members g of
               Some st \<Rightarrow> o_status r = st | None \<Rightarrow> True))"

definition list_orders :: "db \<Rightarrow> int option \<Rightarrow> string option \<Rightarrow> Order list" where
  "list_orders d user_id status_group =
     take 100 (filter (group_filter status_group)
       (filter (\<lambda>r. truthy_id user_id \<longrightarrow> Some (o_user_id r) = user_id)
         (sort_key (\<lambda>r. - o_created_at r) (rows (orders d)))))"

datatype order_tab = TabReturns "ReturnRequest list" | TabOrders "Order list"

definition list_orders_or_returns :: "db \<Rightarrow> int \<Rightarrow> string \<Rightarrow> order_tab" where
  "list_orders_or_returns d user_id tab =
     (if tab = ''returns'' \<or> tab = ''refunds''
      then TabReturns (t_all (\<lambda>r. rr_user_id r = user_id) (return_requests d))
      else TabOrders (list_orders d (Some user_id) (Some tab)))"

section \<open>Changing the status\<close>

text \<open>The fields an update to \<open>st\<close> sets on the order.\<close>

definition set_status :: "env \<Rightarrow> OrderStatus \<Rightarrow> string option \<Rightarrow> Order \<Rightarrow> Order" where
  "set_status e st note ord =
     (let o1 = ord\<lparr>o_status := st, o_updated_at := env_now e\<rparr>;
          o2 = (if st = OS_DELIVERED
                then o1\<lparr>o_delivered_at := Some (env_now e), o_payment_status := PS_PAID\<rparr> else o1)
      in if st = OS_CANCELLED
         then o2\<lparr>o_cancelled_at := Some (env_now e), o_cancel_reason := note\<rparr> else o2)"

definition credit_spending :: "env \<Rightarrow> Order \<Rightarrow> db \<Rightarrow> db" where
  "credit_spending e ord d = (case get_User d (o_user_id ord) of
     None \<Rightarrow> d
   | Some u \<Rightarrow> put_User (u\<lparr>u_total_spent := fadd (u_total_spent u) (o_final_amount ord),
                             u_last_order_at := Some (env_now e)\<rparr>) d)"

definition assign_tracking :: "env \<Rightarrow> Order \<Rightarrow> int \<Rightarrow> db \<Rightarrow> db" where
  "assign_tracking e ord person d =
     (let addr = jor_obj (o_address_snapshot ord); (s, d1) = settings e d
      in (case tracking_of d (o_id ord) of
            None \<Rightarrow> add_DeliveryTracking ((new_DeliveryTracking (env_now e) (o_id ord) person)
               \<lparr>dt_bakery_lat := bs_latitude s, dt_bakery_lng := bs_longitude s,
                dt_customer_lat := jfloat (jget ''latitude'' addr),
                dt_customer_lng := jfloat (jget ''longitude'' addr),
                dt_rider_lat := Some (bs_latitude s), dt_rider_lng := Some (bs_longitude s),
                dt_eta_minutes := Some 35, dt_distance_km := Some (fl (42 / 10))\<rparr>) d1
          | Some t \<Rightarrow> put_DeliveryTracking (t\<lparr>dt_delivery_person_id := person\<rparr>) d1))"

definition status_title :: "OrderStatus \<Rightarrow> string" where
  "status_title st = ''Order '' @ str_title (replace_char (CHR ''_'') (CHR '' '') (OrderStatus_value st))"

definition finish_status :: "env \<Rightarrow> Order \<Rightarrow> OrderStatus \<Rightarrow> string option \<Rightarrow> int \<Rightarrow> db \<Rightarrow> db" where
  "finish_status e ord st note actor_id d =
     (let d1 = add_OrderStatusHistory (history_row e (o_id ord) st note actor_id) (put_Order ord d);
          d2 = notify e (o_user_id ord) ''order'' (status_title st)
                 (''Your order '' @ o_order_number ord @ '' is now '' @ OrderStatus_value st)
                 (Some (JObj [(''order_id'', JInt (o_id ord)), (''status'', JStr (OrderStatus_value st))])) d1
      in emit_order_status (o_id ord)
           [(''status'', JStr (OrderStatus_value st)), (''user_id'', JInt (o_user_id ord)),
            (''delivery_person_id'', jopt_int (o_delivery_person_id ord))] d2)"

definition update_order_status :: "env \<Rightarrow> int \<Rightarrow> string \<Rightarrow> int \<Rightarrow> string option \<Rightarrow> int option \<Rightarrow> db
    \<Rightarrow> (exc + Order) \<times> db" where
  "update_order_status e order_id status actor_id note delivery_person_id d =
     (case get_Order d order_id of
        None \<Rightarrow> (Inl (not_found ''Order not found''), d)
      | Some ord \<Rightarrow>
        (case enum_of OrderStatus_value OrderStatus_members status of
           None \<Rightarrow> (Inl (bad_request (''Invalid status: '' @ status)), d)
         | Some st \<Rightarrow>
             let o1 = set_status e st note ord;
                 d1 = (if st = OS_DELIVERED then credit_spending e ord d else d)
             in if truthy_id delivery_person_id
                then (case get_DeliveryPerson d (the delivery_person_id) of
                        None \<Rightarrow> (Inl (not_found ''Delivery person not found''), d)
                      | Some p \<Rightarrow>
                          let o2 = o1\<lparr>o_delivery_person_id := delivery_person_id\<rparr>
                          in (Inr o2, finish_status e o2 st note actor_id
                                (assign_tracking e o2 (the delivery_person_id) d1)))
                else (Inr o1, finish_status e o1 st note actor_id d1)))"

datatype cancel_reply = CancelMessage string | Cancelled Order

definition cancel_order :: "env \<Rightarrow> int \<Rightarrow> int \<Rightarrow> string \<Rightarrow> db \<Rightarrow> (exc + cancel_reply) \<times> db" where
  "cancel_order e order_id user_id reason d = (case order_detail d order_id (Some user_id) False of
     Inl ex \<Rightarrow> (Inl ex, d)
   | Inr v \<Rightarrow>
       if OrderStatus_value (o_status (od_order v)) \<in> set [''delivered'', ''cancelled'', ''out_for_delivery'']
       then (Inr (CancelMessage ''Cannot cancel at this stage''), d)
       else (case update_order_status e order_id ''cancelled'' user_id (Some reason) None d of
               (Inl ex, d') \<Rightarrow> (Inl ex, d')
             | (Inr ord, d') \<Rightarrow> (Inr (Cancelled ord), d')))"

definition rate_order :: "int \<Rightarrow> int \<Rightarrow> int \<Rightarrow> string option \<Rightarrow> db \<Rightarrow> (exc + json) \<times> db" where
  "rate_order order_id user_id rating comment d = (case order_detail d order_id (Some user_id) False of
     Inl ex \<Rightarrow> (Inl ex, d)
   | Inr v \<Rightarrow> (Inr (JObj [(''message'', JStr ''Thanks for rating!'')]),
              put_Order ((od_order v)\<lparr>o_rating := Some rating, o_rating_comment := comment\<rparr>) d))"

fun reorder_items :: "env \<Rightarrow> int \<Rightarrow> OrderItem list \<Rightarrow> db \<Rightarrow> (exc + unit) \<times> db" where
  "reorder_items e user_id [] d = (Inr (), d)"
| "reorder_items e user_id (it # its) d =
     (case add_to_cart e user_id (oi_product_id it) (oi_quantity it) (oi_variant it) (oi_flavor it)
             (oi_is_eggless it) d of
        (Inl ex, d') \<Rightarrow> (Inl ex, d')
      | (Inr _, d') \<Rightarrow> reorder_items e user_id its d')"

definition reorder :: "env \<Rightarrow> int \<Rightarrow> int \<Rightarrow> db \<Rightarrow> (exc + cart_totals) \<times> db" where
  "reorder e order_id user_id d = (case order_detail d order_id (Some user_id) False of
     Inl ex \<Rightarrow> (Inl ex, d)
   | Inr v \<Rightarrow> (case reorder_items e user_id (od_items v) d of
       (Inl ex, d') \<Rightarrow> (Inl ex, d')
     | (Inr _, d') \<Rightarrow> (let (su, d'') = cart_summary e user_id d' in (Inr su, d''))))"

definition TRACK_STAGES :: "string list" where
  "TRACK_STAGES = [''placed'', ''payment_received'', ''accepted'', ''preparing'', ''packed'',
     ''delivery_assigned'', ''picked_up'', ''out_for_delivery'', ''near_location'', ''delivered'']"

definition track_order :: "db \<Rightarrow> int \<Rightarrow> int \<Rightarrow> exc + order_view \<times> string list" where
  "track_order d order_id user_id = (case order_detail d order_id (Some user_id) False of
     Inl ex \<Rightarrow> Inl ex | Inr v \<Rightarrow> Inr (v, TRACK_STAGES))"

section \<open>The customer invoice\<close>

definition customer_invoice_row :: "env \<Rightarrow> Order \<Rightarrow> BakerySettings \<Rightarrow> db \<Rightarrow> Invoice" where
  "customer_invoice_row e ord s d =
     (let addr = jor_obj (o_address_snapshot ord);
          parts = filter (\<lambda>x. x \<noteq> []) (map (\<lambda>k. or_str (jstr (jget k addr)) []) [''line1'', ''city'', ''pincode''])
      in (new_Invoice (env_now e) (invoice_number_for e ''INV'' (next_id (invoices d))) (bs_bakery_name s) (bs_gstin s)
            (case jstr (jget ''full_name'' addr) of Some n \<Rightarrow> n | None \<Rightarrow> ''Customer'')
            (or_str (o_customer_phone ord) (or_str (jstr (jget ''phone'' addr)) [])))
         \<lparr>inv_order_id := Some (o_id ord), inv_customer_address := Some (join '', '' parts),
          inv_line_items := JObj [(''items'', JArr (map (\<lambda>i. JObj [(''name'', JStr (oi_product_name i)),
             (''qty'', JInt (oi_quantity i)), (''unit_price'', JFloat (oi_unit_price i)),
             (''total'', JFloat (oi_total_price i))]) (items_of d (o_id ord))))],
          inv_subtotal := o_subtotal ord, inv_discount := o_discount ord, inv_gst_amount := o_gst_amount ord,
          inv_delivery_fee := o_delivery_fee ord, inv_grand_total := o_final_amount ord,
          inv_payment_method := map_option PaymentMethod_value (o_payment_method ord),
          inv_transaction_id := Option.bind (last_payment d (o_id ord)) pay_transaction_id\<rparr>)"

definition generate_invoice :: "env \<Rightarrow> Order \<Rightarrow> db \<Rightarrow> (exc + Invoice) \<times> db" where
  "generate_invoice e ord d = (case invoice_of d (o_id ord) of
     Some i \<Rightarrow> (Inr i, d)
   | None \<Rightarrow>
       let (s, d1) = settings e d; row = customer_invoice_row e ord s d1
       in if invoice_clash row d1 then (Inl (PyExc ''IntegrityError''), d1)
          else (Inr (key_Invoice row d1), add_Invoice row d1))"

definition get_invoice :: "env \<Rightarrow> int \<Rightarrow> int \<Rightarrow> db \<Rightarrow> (exc + Invoice) \<times> db" where
  "get_invoice e order_id user_id d = (case order_detail d order_id (Some user_id) False of
     Inl ex \<Rightarrow> (Inl ex, d)
   | Inr v \<Rightarrow> (case od_invoice v of
       Some i \<Rightarrow> (Inr i, d) | None \<Rightarrow> generate_invoice e (od_order v) d))"

end
