(* ===== verification/OrderLaws.thy ===== *)
theory OrderLaws
  imports OrderLife
begin

text \<open>
  The status trail: the last history row of every order shows the status the order has.
  \<open>trail_machine\<close> is the contract of a set of operations that change orders; the services that write the history with
  every status interpret it with their own operations, and \<open>StatusTrail\<close> with all of them together.
\<close>

section \<open>The contract\<close>

definition status_trail :: "db \<Rightarrow> bool" where
  "status_trail d \<longleftrightarrow> (\<forall>ord \<in> set (rows (orders d)). \<exists>h.
     t_last (\<lambda>h. h_order_id h = o_id ord) (histories d) = Some h \<and> h_status h = o_status ord)"

text \<open>What one operation may do: append history rows such that each order with a new row has the
  status of its last one, and any other order is an old one with its old status.\<close>

definition trail_change :: "db \<Rightarrow> db \<Rightarrow> bool" where
  "trail_change d d' \<longleftrightarrow> (\<exists>hs. rows (histories d') = rows (histories d) @ hs
     \<and> (\<forall>ord' \<in> set (rows (orders d')).
          case find (\<lambda>h. h_order_id h = o_id ord') (rev hs) of
            Some h \<Rightarrow> h_status h = o_status ord'
          | None \<Rightarrow> \<exists>ord \<in> set (rows (orders d)). o_id ord = o_id ord' \<and> o_status ord = o_status ord'))"

lemma trail_change_keeps: "trail_change d d' \<Longrightarrow> status_trail d \<Longrightarrow> status_trail d'"
  by (force simp: trail_change_def status_trail_def t_last_def find_append split: option.splits)

lemma trail_quiet:
  "histories d' = histories d \<Longrightarrow>
    (\<And>o'. o' \<in> set (rows (orders d')) \<Longrightarrow> \<exists>ord \<in> set (rows (orders d)). o_id ord = o_id o' \<and> o_status ord = o_status o')
    \<Longrightarrow> trail_change d d'"
  by (auto simp: trail_change_def)

text \<open>One order updated, one history row for it.\<close>

lemma trail_update:
  assumes "rows (histories d') = rows (histories d) @ [h]" "orders d' = t_put o_id ord (orders d)"
    "h_order_id h = o_id ord" "h_status h = o_status ord"
  shows "trail_change d d'"
  using assms by (auto simp: trail_change_def rows_t_put)

text \<open>One order added, one history row for it.\<close>

lemma trail_insert:
  assumes "rows (histories d') = rows (histories d) @ [h]" "rows (orders d') = rows (orders d) @ [ord]"
    "h_order_id h = o_id ord" "h_status h = o_status ord" "\<forall>o' \<in> set (rows (orders d)). o_id o' \<noteq> o_id ord"
  shows "trail_change d d'"
  using assms by (auto simp: trail_change_def)

locale trail_machine =
  fixes ok :: "db \<Rightarrow> bool" and step :: "db \<Rightarrow> db \<Rightarrow> bool"
  assumes step_ok: "ok d \<Longrightarrow> step d d' \<Longrightarrow> ok d'"
    and step_change: "ok d \<Longrightarrow> step d d' \<Longrightarrow> trail_change d d'"
begin

lemma machine_ok: "step\<^sup>*\<^sup>* d d' \<Longrightarrow> ok d \<Longrightarrow> ok d'"
  by (induction rule: rtranclp_induct) (auto intro: step_ok)

lemma machine_trail: "step\<^sup>*\<^sup>* d d' \<Longrightarrow> ok d \<Longrightarrow> status_trail d \<Longrightarrow> status_trail d'"
proof (induction rule: rtranclp_induct)
  case (step a b)
  have "ok a" using step machine_ok by blast
  then show ?case using step step_change trail_change_keeps by blast
qed

end

section \<open>What the operations change\<close>

lemma set_status_simps [simp]:
  "o_id (set_status e st note ord) = o_id ord" "o_status (set_status e st note ord) = st"
  "o_user_id (set_status e st note ord) = o_user_id ord"
  "o_final_amount (set_status e st note ord) = o_final_amount ord"
  "o_paid_amount (set_status e st note ord) = o_paid_amount ord"
  "o_order_number (set_status e st note ord) = o_order_number ord"
  "o_payment_status (set_status e st note ord) = (if st = OS_DELIVERED then PS_PAID else o_payment_status ord)"
  "o_delivered_at (set_status e st note ord) = (if st = OS_DELIVERED then Some (env_now e) else o_delivered_at ord)"
  "o_cancelled_at (set_status e st note ord) = (if st = OS_CANCELLED then Some (env_now e) else o_cancelled_at ord)"
  "o_cancel_reason (set_status e st note ord) = (if st = OS_CANCELLED then note else o_cancel_reason ord)"
  by (simp_all add: set_status_def Let_def)

lemma credit_spending_fields [simp]:
  "orders (credit_spending e ord d) = orders d" "histories (credit_spending e ord d) = histories d"
  "payments (credit_spending e ord d) = payments d" "products (credit_spending e ord d) = products d"
  "order_items (credit_spending e ord d) = order_items d"
  by (simp_all add: credit_spending_def split: option.splits)

lemma settings_fields [simp]:
  "orders (snd (settings e d)) = orders d" "histories (snd (settings e d)) = histories d"
  "payments (snd (settings e d)) = payments d" "products (snd (settings e d)) = products d"
  "order_items (snd (settings e d)) = order_items d" "users (snd (settings e d)) = users d"
  "invoices (snd (settings e d)) = invoices d" "trackings (snd (settings e d)) = trackings d"
  by (simp_all add: settings_def split: option.splits)

lemma assign_tracking_fields [simp]:
  "orders (assign_tracking e ord p d) = orders d" "histories (assign_tracking e ord p d) = histories d"
  "payments (assign_tracking e ord p d) = payments d" "products (assign_tracking e ord p d) = products d"
  "order_items (assign_tracking e ord p d) = order_items d" "users (assign_tracking e ord p d) = users d"
  by (simp_all add: assign_tracking_def Let_def case_prod_unfold split: option.splits)

lemma assign_tracking_wf: "db_wf d \<Longrightarrow> db_wf (assign_tracking e ord p d)"
  using settings_wf [of e d] by (cases "settings e d") (auto simp: assign_tracking_def Let_def split: option.splits)

lemma credit_spending_wf: "db_wf d \<Longrightarrow> db_wf (credit_spending e ord d)"
  by (simp add: credit_spending_def split: option.splits)

lemma finish_status_fields [simp]:
  "orders (finish_status e ord st note a d) = t_put o_id ord (orders d)"
  "rows (histories (finish_status e ord st note a d))
     = rows (histories d) @ [(history_row e (o_id ord) st note a)\<lparr>h_id := next_id (histories d)\<rparr>]"
  "payments (finish_status e ord st note a d) = payments d" "products (finish_status e ord st note a d) = products d"
  "order_items (finish_status e ord st note a d) = order_items d" "users (finish_status e ord st note a d) = users d"
  by (simp_all add: finish_status_def emit_defs Let_def rows_t_insert)

lemma finish_status_wf: "db_wf d \<Longrightarrow> db_wf (finish_status e ord st note a d)"
  by (simp add: finish_status_def emit_defs Let_def)

lemma update_order_statusE:
  assumes "update_order_status e oid status actor note person d = (Inr ord', d')"
  obtains ord st d1 where "get_Order d oid = Some ord" "OrderStatus_value st = status"
    "truthy_id person \<Longrightarrow> get_DeliveryPerson d (the person) \<noteq> None"
    "ord' = (if truthy_id person then (set_status e st note ord)\<lparr>o_delivery_person_id := person\<rparr> else set_status e st note ord)"
    "d' = finish_status e ord' st note actor d1"
    "d1 = (if truthy_id person then assign_tracking e ord' (the person) (if st = OS_DELIVERED then credit_spending e ord d else d)
           else (if st = OS_DELIVERED then credit_spending e ord d else d))"
    "orders d1 = orders d" "histories d1 = histories d" "payments d1 = payments d" "products d1 = products d"
    "order_items d1 = order_items d" "users d1 = users (if st = OS_DELIVERED then credit_spending e ord d else d)"
    "db_wf d \<longrightarrow> db_wf d'"
proof -
  from assms obtain ord st where O: "get_Order d oid = Some ord"
    "enum_of OrderStatus_value OrderStatus_members status = Some st"
    "truthy_id person \<longrightarrow> get_DeliveryPerson d (the person) \<noteq> None"
    by (auto simp: update_order_status_def Let_def split: option.splits if_splits)
  define d0 where "d0 = (if st = OS_DELIVERED then credit_spending e ord d else d)"
  define o2 where "o2 = (if truthy_id person then (set_status e st note ord)\<lparr>o_delivery_person_id := person\<rparr> else set_status e st note ord)"
  define d1 where "d1 = (if truthy_id person then assign_tracking e o2 (the person) d0 else d0)"
  have r: "ord' = o2" "d' = finish_status e o2 st note actor d1"
    using assms O by (auto simp: update_order_status_def Let_def d0_def o2_def d1_def)
  have wf: "db_wf d'" if "db_wf d"
    using that by (auto simp: r d1_def d0_def intro!: finish_status_wf assign_tracking_wf credit_spending_wf)
  show thesis
    by (rule that [of ord st d1])
      (use O r wf OrderStatus_enum.of_SomeD [OF O(2)] in \<open>auto simp: o2_def d1_def d0_def\<close>)
qed

text \<open>The customer operations of the service that change orders.\<close>

inductive order_step :: "db \<Rightarrow> db \<Rightarrow> bool" where
  place: "checkout e u data d = (Inr ord, d') \<Longrightarrow> order_step d d'"
| status: "update_order_status e oid st actor note person d = (Inr ord, d') \<Longrightarrow> order_step d d'"
| cancel: "cancel_order e oid u reason d = (Inr rep, d') \<Longrightarrow> order_step d d'"
| rate: "rate_order oid u rating comment d = (Inr j, d') \<Longrightarrow> order_step d d'"

inductive_cases order_stepE: "order_step d d'"

lemma update_trail:
  assumes "update_order_status e oid status actor note person d = (Inr ord', d')"
  shows "trail_change d d'"
proof -
  from assms obtain ord st d1 where U:
    "ord' = (if truthy_id person then (set_status e st note ord)\<lparr>o_delivery_person_id := person\<rparr> else set_status e st note ord)"
    "d' = finish_status e ord' st note actor d1" "orders d1 = orders d" "histories d1 = histories d"
    by (rule update_order_statusE)
  show ?thesis
    by (rule trail_update [where ord = ord' and h = "(history_row e (o_id ord') st note actor)\<lparr>h_id := next_id (histories d1)\<rparr>"])
      (simp_all add: U history_row_def new_OrderStatusHistory_def)
qed

lemma update_wf: "update_order_status e oid status actor note person d = (Inr ord', d') \<Longrightarrow> db_wf d \<Longrightarrow> db_wf d'"
  by (auto elim: update_order_statusE)

lemma cancel_orderE:
  assumes "cancel_order e oid u reason d = (Inr rep, d')"
  obtains (refused) ord where "get_Order d oid = Some ord" "o_user_id ord = u"
      "o_status ord \<in> {OS_DELIVERED, OS_CANCELLED, OS_OUT_FOR_DELIVERY}" "d' = d"
      "rep = CancelMessage ''Cannot cancel at this stage''"
  | (cancelled) ord ord' where "get_Order d oid = Some ord" "o_user_id ord = u"
      "o_status ord \<notin> {OS_DELIVERED, OS_CANCELLED, OS_OUT_FOR_DELIVERY}"
      "update_order_status e oid ''cancelled'' u (Some reason) None d = (Inr ord', d')" "rep = Cancelled ord'"
proof -
  from assms obtain v where v: "order_detail d oid (Some u) False = Inr v"
    by (auto simp: cancel_order_def split: sum.splits)
  then obtain ord where o: "get_Order d oid = Some ord" "o_user_id ord = u" "od_order v = ord"
    by (auto simp: order_detail_def split: option.splits if_splits)
  have st: "OrderStatus_value s \<in> set [''delivered'', ''cancelled'', ''out_for_delivery''] \<longleftrightarrow>
      s \<in> {OS_DELIVERED, OS_CANCELLED, OS_OUT_FOR_DELIVERY}" for s by (cases s) simp_all
  show thesis
  proof (cases "o_status ord \<in> {OS_DELIVERED, OS_CANCELLED, OS_OUT_FOR_DELIVERY}")
    case True
    then have "rep = CancelMessage ''Cannot cancel at this stage''" "d' = d"
      using assms v o st [of "o_status ord"] by (auto simp: cancel_order_def)
    with True o refused show thesis by blast
  next
    case False
    then obtain ord' where "update_order_status e oid ''cancelled'' u (Some reason) None d = (Inr ord', d')"
      "rep = Cancelled ord'"
      using assms v o st [of "o_status ord"] by (auto simp: cancel_order_def split: prod.splits sum.splits)
    with False o cancelled show thesis by blast
  qed
qed

lemma rate_order_effect:
  assumes "rate_order oid u rating comment d = (Inr j, d')"
  shows "\<exists>ord. get_Order d oid = Some ord \<and> o_user_id ord = u
    \<and> d' = put_Order (ord\<lparr>o_rating := Some rating, o_rating_comment := comment\<rparr>) d"
  using assms by (auto simp: rate_order_def order_detail_def split: sum.splits option.splits if_splits)

lemma checkout_trail:
  assumes "checkout e u data d = (Inr ord, d')" "db_wf d"
  shows "trail_change d d' \<and> db_wf d'"
proof -
  from assms(1) obtain su d1 c s address meth where C: "cart_summary e u d = (su, d1)" "cart_of d1 u = Some c"
    "ord = key_Order (checkout_order e u data address meth su d1) d1"
    "d' = fill_order e ord (su_items su) (add_Order (checkout_order e u data address meth su d1) d1)"
    by (elim checkoutE) blast
  define d2 where "d2 = add_Order (checkout_order e u data address meth su d1) d1"
  have wf2: "db_wf d2" using cart_summary_wf [OF C(1) assms(2)] by (simp add: d2_def)
  obtain ts tr where d1: "d1 = d\<lparr>carts := ts, settings_rows := tr\<rparr>" using cart_summary_frame [OF C(1)] by blast
  have ou: "o_user_id ord = u" using C(3) by simp
  then have c2: "cart_of d2 (o_user_id ord) = Some c" using C(2) by (simp add: d2_def cart_of_def)
  note F = fill_order_effect [OF wf2 c2 C(4) [folded d2_def]]
  have "trail_change d d'"
  proof (rule trail_insert)
    show "rows (histories d') = rows (histories d) @ [(history_row e (o_id ord) OS_PLACED (Some ''Order placed'')
           (o_user_id ord))\<lparr>h_id := next_id (histories d2)\<rparr>]" using F(6) by (simp add: d2_def d1)
    show "rows (orders d') = rows (orders d) @ [ord]" using F(1) C(3) by (simp add: d2_def d1 rows_t_insert)
    show "\<forall>o'\<in>set (rows (orders d)). o_id o' \<noteq> o_id ord"
      using t_get_next [of o_id "orders d", unfolded t_get_None_iff] assms(2) C(3) by (simp add: d1)
  qed (simp_all add: history_row_def new_OrderStatusHistory_def C(3) checkout_order_def new_Order_def)
  then show ?thesis using F(2) by simp
qed

lemma order_step_laws: "db_wf d \<Longrightarrow> order_step d d' \<Longrightarrow> db_wf d' \<and> trail_change d d'"
proof (elim order_stepE)
  fix e oid u reason rep assume "db_wf d" "cancel_order e oid u reason d = (Inr rep, d')"
  then show "db_wf d' \<and> trail_change d d'"
    by (elim cancel_orderE) (auto intro: update_trail update_wf trail_quiet)
next
  fix oid u rating comment j assume "db_wf d" "rate_order oid u rating comment d = (Inr j, d')"
  then obtain ord where o: "get_Order d oid = Some ord" "db_wf d"
    "d' = put_Order (ord\<lparr>o_rating := Some rating, o_rating_comment := comment\<rparr>) d"
    using rate_order_effect by blast
  from t_get_in [OF o(1)] have "trail_change d d'"
    by (intro trail_quiet) (auto simp: o(3) rows_t_put)
  with o(2,3) show "db_wf d' \<and> trail_change d d'" by simp
qed (auto dest: checkout_trail update_trail update_wf)

interpretation checkout_orders: trail_machine db_wf order_step
  by unfold_locales (auto dest: order_step_laws)

section \<open>Properties\<close>

text \<open>Property C21 (cancel_order_outcome): a customer's cancellation either is for an order that is missing or not
  theirs (an error, nothing changes), or is refused at once for a delivered, cancelled or
  out-for-delivery order (nothing changes), or cancels the order with the given reason and records it
  in its history.\<close>

theorem cancel_order_outcome:
  assumes "cancel_order e oid u reason d = (r, d')"
  shows "case get_Order d oid of
      None \<Rightarrow> r = Inl (not_found ''Order not found'') \<and> d' = d
    | Some ord \<Rightarrow>
        if o_user_id ord \<noteq> u then r = Inl (forbidden ''Not your order'') \<and> d' = d
        else if o_status ord \<in> {OS_DELIVERED, OS_CANCELLED, OS_OUT_FOR_DELIVERY}
        then r = Inr (CancelMessage ''Cannot cancel at this stage'') \<and> d' = d
        else r = Inr (Cancelled (set_status e OS_CANCELLED (Some reason) ord))
           \<and> get_Order d' oid = Some (set_status e OS_CANCELLED (Some reason) ord)
           \<and> (\<forall>k. k \<noteq> oid \<longrightarrow> get_Order d' k = get_Order d k)
           \<and> map h_status (rows (histories d')) = map h_status (rows (histories d)) @ [OS_CANCELLED]
           \<and> products d' = products d \<and> payments d' = payments d"
proof (cases "get_Order d oid")
  case None
  with assms show ?thesis by (simp add: cancel_order_def order_detail_def)
next
  case (Some ord)
  have can: "enum_of OrderStatus_value OrderStatus_members ''cancelled'' = Some OS_CANCELLED"
    by (simp add: OrderStatus_enum.of_Some_iff)
  have st: "OrderStatus_value s \<in> set [''delivered'', ''cancelled'', ''out_for_delivery''] \<longleftrightarrow>
      s \<in> {OS_DELIVERED, OS_CANCELLED, OS_OUT_FOR_DELIVERY}" for s by (cases s) simp_all
  have id: "o_id ord = oid" using t_get_key [OF Some] .
  show ?thesis
  proof (cases "o_user_id ord \<noteq> u \<or> o_status ord \<in> {OS_DELIVERED, OS_CANCELLED, OS_OUT_FOR_DELIVERY}")
    case True
    then show ?thesis using assms Some st [of "o_status ord"]
      by (auto simp: cancel_order_def order_detail_def)
  next
    case False
    then show ?thesis using assms Some st [of "o_status ord"] id
      by (auto simp: cancel_order_def order_detail_def update_order_status_def can Let_def
          history_row_def new_OrderStatusHistory_def)
  qed
qed

text \<open>Marking an order delivered stamps it, marks it paid and adds its
  amount to the customer's total; it does so every time it is called, also for an order that was
  delivered before, and it touches neither the paid amount nor the payment rows.\<close>

theorem delivered_counts_spending:
  assumes "update_order_status e oid ''delivered'' actor note None d = (Inr ord', d')" "db_wf d"
    and "get_Order d oid = Some ord" "get_User d (o_user_id ord) = Some u"
  shows "o_status ord' = OS_DELIVERED \<and> o_payment_status ord' = PS_PAID \<and> o_delivered_at ord' = Some (env_now e)
    \<and> o_paid_amount ord' = o_paid_amount ord \<and> payments d' = payments d
    \<and> map_option u_total_spent (get_User d' (o_user_id ord)) = Some (fadd (u_total_spent u) (o_final_amount ord))"
proof -
  from assms(1) obtain o1 st d1 where U: "get_Order d oid = Some o1" "OrderStatus_value st = ''delivered''"
    "ord' = (if truthy_id None then (set_status e st note o1)\<lparr>o_delivery_person_id := None\<rparr> else set_status e st note o1)"
    "d' = finish_status e ord' st note actor d1" "payments d1 = payments d"
    "users d1 = users (if st = OS_DELIVERED then credit_spending e o1 d else d)"
    by (rule update_order_statusE)
  have st: "st = OS_DELIVERED" using U(2) by (cases st) simp_all
  have "o1 = ord" using U(1) assms(3) by simp
  then show ?thesis
    using U(3-6) st assms(2,4) t_get_key [OF assms(4)] by (simp add: credit_spending_def)
qed

text \<open>An order's customer invoice carries the order's amounts and is generated once:
  asking again returns the same row and changes nothing.\<close>

theorem invoice_once:
  assumes "get_invoice e oid u d = (Inr i, d')" "invoice_of d oid = None"
  shows "inv_order_id i = Some oid \<and> get_invoice e' oid u d' = (Inr i, d')
    \<and> (\<exists>ord. get_Order d oid = Some ord \<and> o_user_id ord = u \<and> inv_subtotal i = o_subtotal ord
        \<and> inv_discount i = o_discount ord \<and> inv_gst_amount i = o_gst_amount ord
        \<and> inv_delivery_fee i = o_delivery_fee ord \<and> inv_grand_total i = o_final_amount ord)"
proof -
  from assms obtain ord where O: "get_Order d oid = Some ord" "o_user_id ord = u" "generate_invoice e ord d = (Inr i, d')"
    by (auto simp: get_invoice_def order_detail_def dest: t_get_key split: option.splits if_splits sum.splits)
  have id: "o_id ord = oid" using t_get_key [OF O(1)] .
  obtain s d1 where s: "settings e d = (s, d1)" by fastforce
  define row where "row = customer_invoice_row e ord s d1"
  have r: "i = key_Invoice row d1" "d' = add_Invoice row d1"
    using O(3) assms(2) id s by (auto simp: generate_invoice_def row_def Let_def split: if_splits)
  have f: "inv_order_id row = Some oid" "inv_subtotal row = o_subtotal ord" "inv_discount row = o_discount ord"
    "inv_gst_amount row = o_gst_amount ord" "inv_delivery_fee row = o_delivery_fee ord"
    "inv_grand_total row = o_final_amount ord"
    by (simp_all add: row_def customer_invoice_row_def Let_def id)
  obtain t where d1: "d1 = d\<lparr>settings_rows := t\<rparr>" using settings_frame [OF s] by blast
  have "invoice_of d' oid = Some i"
    unfolding invoice_of_def r
    using t_first_insert_None [of "\<lambda>r. inv_order_id r = Some oid" "invoices d1" "\<lambda>i r. r\<lparr>inv_id := i\<rparr>" row]
      assms(2) f(1) by (simp add: invoice_of_def d1)
  moreover have "get_Order d' oid = Some ord" using O(1) by (simp add: r d1)
  ultimately have "get_invoice e' oid u d' = (Inr i, d')"
    using O(2) id by (simp add: get_invoice_def order_detail_def)
  then show ?thesis using O f r by auto
qed

section \<open>Worked examples\<close>

text \<open>Customer 5 with one placed order of 563.95.\<close>

definition placed_order :: Order where
  "placed_order = (new_Order 0 ''SC1'' 5)\<lparr>o_id := 1, o_final_amount := cents 56395, o_shop_user_id := Some 7\<rparr>"

definition ravi :: User where
  "ravi = (new_User 0 ''9876500000'')\<lparr>u_id := 5\<rparr>"

definition order_db :: db where
  "order_db = empty_db\<lparr>users := \<lparr>rows = [ravi], next_id = 6\<rparr>,
     orders := \<lparr>rows = [placed_order], next_id = 2\<rparr>,
     histories := \<lparr>rows = [(new_OrderStatusHistory 0 1 OS_PLACED)\<lparr>h_id := 1\<rparr>], next_id = 2\<rparr>\<rparr>"

lemma order_db_facts:
  "db_wf order_db" "status_trail order_db" "get_Order order_db 1 = Some placed_order"
  "get_User order_db 5 = Some ravi" "o_user_id placed_order = 5" "o_status placed_order = OS_PLACED"
  "o_id placed_order = 1"
  by (simp_all add: order_db_def db_wf_empty t_wf_def ravi_def placed_order_def new_User_def new_Order_def
      new_OrderStatusHistory_def status_trail_def t_last_def t_get_def)

lemma cancel_order_outcome_witness:
  "get_Order (snd (cancel_order sample_env 1 5 ''late'' order_db)) 1
     = Some (set_status sample_env OS_CANCELLED (Some ''late'') placed_order)"
  using cancel_order_outcome [OF prod.collapse [symmetric], of sample_env 1 5 "''late''" order_db] order_db_facts
  by simp

lemma sample_delivery: "\<exists>ord' d'. update_order_status sample_env 1 ''delivered'' 9 None None order_db = (Inr ord', d')"
  using order_db_facts by (simp add: update_order_status_def enum_of_def OrderStatus_members_def Let_def)

lemma delivered_counts_spending_witness:
  "\<exists>ord' d'. update_order_status sample_env 1 ''delivered'' 9 None None order_db = (Inr ord', d')
     \<and> map_option u_total_spent (get_User d' 5) = Some (fadd 0 (cents 56395)) \<and> o_paid_amount ord' = 0"
proof -
  obtain ord' d' where r: "update_order_status sample_env 1 ''delivered'' 9 None None order_db = (Inr ord', d')"
    using sample_delivery by blast
  have v: "u_total_spent ravi = 0" "o_final_amount placed_order = cents 56395" "o_paid_amount placed_order = 0"
    by (simp_all add: ravi_def new_User_def placed_order_def new_Order_def)
  from delivered_counts_spending [OF r order_db_facts(1,3)] order_db_facts(4,5) v r show ?thesis by auto
qed

lemma invoice_once_witness:
  "\<exists>i d'. get_invoice sample_env 1 5 order_db = (Inr i, d') \<and> inv_grand_total i = cents 56395
     \<and> get_invoice sample_env 1 5 d' = (Inr i, d')"
proof -
  have n: "invoice_of order_db 1 = None" "rows (invoices order_db) = []"
    by (simp_all add: invoice_of_def t_first_def order_db_def empty_db_def t_empty_def)
  obtain i d' where r: "get_invoice sample_env 1 5 order_db = (Inr i, d')"
  proof (cases "settings sample_env order_db")
    case (Pair s d1)
    then have "rows (invoices d1) = []" using settings_frame [OF Pair] n by auto
    with Pair n that order_db_facts show thesis
      by (auto simp: get_invoice_def order_detail_def generate_invoice_def Let_def invoice_clash_def)
  qed
  have "o_final_amount placed_order = cents 56395" by (simp add: placed_order_def)
  with invoice_once [OF r n(1)] order_db_facts r show ?thesis by auto
qed

text \<open>A second delivery update counts the amount again.\<close>

lemma delivered_twice_counts_twice:
  assumes "update_order_status e oid ''delivered'' a nt None d = (Inr o1, d1)"
    and "update_order_status e' oid ''delivered'' a nt None d1 = (Inr o2, d2)"
    and "get_Order d oid = Some ord" "get_User d (o_user_id ord) = Some u"
  shows "map_option u_total_spent (get_User d2 (o_user_id ord))
     = Some (fadd (fadd (u_total_spent u) (o_final_amount ord)) (o_final_amount ord))"
proof -
  have del: "enum_of OrderStatus_value OrderStatus_members ''delivered'' = Some OS_DELIVERED"
    by (simp add: OrderStatus_enum.of_Some_iff)
  show ?thesis
    using assms t_get_key [OF assms(3)] t_get_key [OF assms(4)]
    by (auto simp: update_order_status_def del Let_def credit_spending_def)
qed

end
