(* ===== verification/Gateway.thy ===== *)
theory Gateway
  imports Clock
begin

text \<open>
  \<open>payment_service/app/services/razorpay.py\<close> (and the same calls of
  \<open>store_ops_service/app/services/integrations.py\<close>): requests to the Razorpay API and its
  signatures.  The API itself (\<open>gw_post\<close>: path and JSON body to status, text and JSON answer) and
  HMAC-SHA256 in hexadecimal (\<open>gw_mac\<close>: key and message) are parameters.
\<close>

record gateway =
  gw_key_id :: "string option"
  gw_key_secret :: "string option"
  gw_webhook_secret :: "string option"
  gw_mac :: "string \<Rightarrow> string \<Rightarrow> string"
  gw_post :: "string \<Rightarrow> json \<Rightarrow> int \<times> string \<times> json"

definition razorpay_configured :: "gateway \<Rightarrow> bool" where
  "razorpay_configured g \<longleftrightarrow> truthy_str (gw_key_id g) \<and> truthy_str (gw_key_secret g)"

text \<open>\<open>d[k]\<close>.\<close>

definition jindex :: "string \<Rightarrow> json \<Rightarrow> exc + json" where
  "jindex k j = (case j of
     JObj kvs \<Rightarrow> (case map_of kvs k of Some v \<Rightarrow> Inr v | None \<Rightarrow> Inl (PyExc ''KeyError''))
   | _ \<Rightarrow> Inl (PyExc ''TypeError''))"

definition jget_or :: "string \<Rightarrow> json \<Rightarrow> json \<Rightarrow> json" where
  "jget_or k dflt j = (case j of JObj kvs \<Rightarrow> (case map_of kvs k of Some v \<Rightarrow> v | None \<Rightarrow> dflt) | _ \<Rightarrow> dflt)"

text \<open>\<open>max(100, int(round(float(amount_inr) * 100)))\<close>\<close>

definition gateway_paise :: "rat \<Rightarrow> int" where
  "gateway_paise amount_inr = max 100 (rne (fmul amount_inr 100))"

text \<open>A POST with credentials; the answer's JSON when the status is below 400.\<close>

definition gw_call :: "gateway \<Rightarrow> string \<Rightarrow> string \<Rightarrow> json \<Rightarrow> exc + json" where
  "gw_call g label path body =
     (if \<not> razorpay_configured g
      then Inl (unavailable ''Razorpay not configured (set RAZORPAY_KEY_ID + RAZORPAY_KEY_SECRET)'')
      else let (st, txt, data) = gw_post g path body
           in if 400 \<le> st then Inl (AppExc (BadGatewayError (Msg (label @ take 200 txt)))) else Inr data)"

definition create_order :: "gateway \<Rightarrow> rat \<Rightarrow> string \<Rightarrow> json \<Rightarrow> exc + json" where
  "create_order g amount_inr receipt notes =
     (case gw_call g ''Razorpay order failed: '' ''/orders''
             (JObj [(''amount'', JInt (gateway_paise amount_inr)), (''currency'', JStr ''INR''),
                    (''receipt'', JStr (take 40 receipt)), (''notes'', notes)]) of
        Inl ex \<Rightarrow> Inl ex
      | Inr data \<Rightarrow>
          (case jindex ''id'' data of
             Inl ex \<Rightarrow> Inl ex
           | Inr i \<Rightarrow>
               (case jindex ''amount'' data of
                  Inl ex \<Rightarrow> Inl ex
                | Inr a \<Rightarrow> Inr (JObj [(''razorpay_order_id'', i), (''amount'', a),
                    (''currency'', jget_or ''currency'' (JStr ''INR'') data), (''key_id'', jopt_str (gw_key_id g)),
                    (''receipt'', jget ''receipt'' data), (''status'', jget ''status'' data)]))))"

definition razorpay_contact :: "string option \<Rightarrow> string option" where
  "razorpay_contact phone =
     (if \<not> truthy_str phone then None
      else let digits = filter is_digit_char (the phone);
               d2 = (if 14 < length digits then drop (length digits - 10) digits else digits)
           in if 8 \<le> length d2 \<and> length d2 \<le> 14 then Some d2 else None)"

definition opt_field :: "string \<Rightarrow> json option \<Rightarrow> (string \<times> json) list" where
  "opt_field k v = (case v of None \<Rightarrow> [] | Some j \<Rightarrow> [(k, j)])"

definition create_payment_link :: "gateway \<Rightarrow> rat \<Rightarrow> string \<Rightarrow> string \<Rightarrow> string option \<Rightarrow> string option
    \<Rightarrow> string option \<Rightarrow> json \<Rightarrow> exc + json" where
  "create_payment_link g amount_inr description reference_id customer_name customer_phone callback_url notes =
     (let customer = opt_field ''name'' (if truthy_str customer_name then Some (JStr (take 50 (the customer_name))) else None)
            @ opt_field ''contact'' (map_option JStr (razorpay_contact customer_phone));
          body = JObj ([(''amount'', JInt (gateway_paise amount_inr)), (''currency'', JStr ''INR''),
              (''accept_partial'', JBool False), (''description'', JStr (take 2048 description)),
              (''reference_id'', JStr (take 40 reference_id)), (''reminder_enable'', JBool False), (''notes'', notes)]
            @ (if customer = [] then [] else [(''customer'', JObj customer)])
            @ (if truthy_str callback_url
               then [(''callback_url'', JStr (the callback_url)), (''callback_method'', JStr ''get'')] else []))
      in case gw_call g ''Razorpay payment link failed: '' ''/payment_links'' body of
           Inl ex \<Rightarrow> Inl ex
         | Inr data \<Rightarrow> Inr (JObj [(''payment_link_id'', jget ''id'' data), (''short_url'', jget ''short_url'' data),
              (''amount'', jget ''amount'' data), (''status'', jget ''status'' data),
              (''reference_id'', jget ''reference_id'' data)]))"

definition verify_payment_signature :: "gateway \<Rightarrow> string \<Rightarrow> string \<Rightarrow> string \<Rightarrow> bool" where
  "verify_payment_signature g rz_order rz_payment sig \<longleftrightarrow>
     truthy_str (gw_key_secret g) \<and> gw_mac g (the (gw_key_secret g)) (rz_order @ ''|'' @ rz_payment) = sig"

definition verify_webhook_signature :: "gateway \<Rightarrow> string \<Rightarrow> string \<Rightarrow> bool" where
  "verify_webhook_signature g body sig \<longleftrightarrow>
     truthy_str (gw_webhook_secret g) \<and> gw_mac g (the (gw_webhook_secret g)) body = sig"

definition refund_payment :: "gateway \<Rightarrow> string \<Rightarrow> rat option \<Rightarrow> exc + json" where
  "refund_payment g payment_id amount_inr =
     gw_call g ''Razorpay refund failed: '' (''/payments/'' @ payment_id @ ''/refund'')
       (JObj (opt_field ''amount'' (map_option (\<lambda>a. JInt (gateway_paise a)) amount_inr)))"

section \<open>Laws\<close>

text \<open>The paise sent to the gateway are those of the amount, at least one rupee.\<close>

lemma gateway_paise_cents:
  assumes "money_ok n" shows "gateway_paise (cents n) = max 100 n"
proof -
  have c: "\<bar>cents n - of_int n / 100\<bar> \<le> 1 / 204800"
    using assms by (intro cents_error) (simp add: money_ok_def money_bound_def)
  have "\<bar>of_int n :: rat\<bar> \<le> 2 ^ 40"
    using assms unfolding money_ok_def money_bound_def
    by (metis of_int_abs of_int_le_iff of_int_numeral of_int_power)
  with c have "\<bar>cents n * 100\<bar> \<le> 2 ^ 42" by (simp add: abs_if split: if_splits)
  moreover have "\<bar>fl (cents n * 100) - cents n * 100\<bar> \<le> \<bar>cents n * 100\<bar> / 2 ^ 53" by (rule fl_error)
  ultimately have "\<bar>fl (cents n * 100) - cents n * 100\<bar> \<le> 1 / 2048" by simp
  with c have "\<bar>fl (cents n * 100) - of_int n\<bar> < 1 / 2" by (simp add: abs_if split: if_splits)
  then show ?thesis by (simp add: gateway_paise_def fmul_def rne_near)
qed

lemma razorpay_contact_digits:
  "razorpay_contact p = Some s \<Longrightarrow> (\<forall>c \<in> set s. is_digit_char c) \<and> 8 \<le> length s \<and> length s \<le> 14"
  by (auto simp: razorpay_contact_def Let_def split: if_splits dest: in_set_dropD)

lemma create_order_amount:
  "create_order g a r nt = Inr j \<Longrightarrow> razorpay_configured g"
  by (auto simp: create_order_def gw_call_def split: if_splits)

section \<open>A concrete gateway\<close>

text \<open>The gateway of the worked examples: it accepts every order, and its code is the secret and the
  message joined.\<close>

definition test_gateway :: gateway where
  "test_gateway = \<lparr>gw_key_id = Some ''rzp_test'', gw_key_secret = Some ''s3'', gw_webhook_secret = Some ''w3'',
     gw_mac = (\<lambda>k m. k @ '':'' @ m),
     gw_post = (\<lambda>path body. (200, [], JObj [(''id'', JStr ''order_A''), (''amount'', jget ''amount'' body)]))\<rparr>"

lemma test_gateway_configured [simp]: "razorpay_configured test_gateway"
  by (simp add: razorpay_configured_def test_gateway_def)

lemma test_gateway_codes [simp]:
  "verify_payment_signature test_gateway a b sig \<longleftrightarrow> sig = ''s3:'' @ a @ ''|'' @ b"
  "verify_webhook_signature test_gateway body sig \<longleftrightarrow> sig = ''w3:'' @ body"
  by (auto simp: verify_payment_signature_def verify_webhook_signature_def test_gateway_def)

end
