(* ===== verification/PayRules.thy ===== *)
theory PayRules
  imports Helpers
begin

text \<open>
  \<open>store_ops_service/app/services/pay_rules.py\<close>: the down-payment rule for partial billing.
  The lemmas translate the float checks with their one-paisa tolerance into integer paise.
\<close>

definition MIN_FIRST_PAY_RATIO :: rat where
  "MIN_FIRST_PAY_RATIO = fl (80 / 100)"

definition min_first_pay :: "rat \<Rightarrow> rat" where
  "min_first_pay bill = round2 (fmul bill MIN_FIRST_PAY_RATIO)"

definition assert_first_or_partial_pay :: "rat \<Rightarrow> rat \<Rightarrow> rat \<Rightarrow> exc + unit" where
  "assert_first_or_partial_pay bill0 already_paid pay0 =
     (let bill = round2 bill0;
          already = round2 already_paid;
          pay = round2 pay0;
          due = round2 (fsub bill already)
      in if pay \<le> 0 then Inl (bad_request ''Pay amount must be > 0'')
         else if fadd due eps_paisa < pay
         then Inl (bad_request (''Pay amount must be at most '' @ rupee @ fmt2 due))
         else if already \<le> eps_milli
         then (let need = min_first_pay bill in
               if fadd pay eps_paisa < need \<and> fadd pay eps_paisa < due
               then Inl (bad_request (''First payment must be at least 80% ('' @ rupee @ fmt2 need
                     @ ''). Rest can be paid later.''))
               else Inr ())
         else Inr ())"

text \<open>The minimum first payment in paise: four fifths of the bill, to the nearest paisa.\<close>

definition first_pay_paise :: "int \<Rightarrow> int" where
  "first_pay_paise t = (4 * t + 2) div 5"

lemma min_first_pay_cents:
  assumes "money_ok t" "0 \<le> t"
  shows "min_first_pay (cents t) = cents (first_pay_paise t)"
proof -
  define r where "r = MIN_FIRST_PAY_RATIO"
  have r: "\<bar>r - 4/5\<bar> \<le> 1 / 2 ^ 53" "\<bar>r\<bar> \<le> 1"
    using fl_error [of "80/100"] unfolding r_def MIN_FIRST_PAY_RATIO_def
    by (simp_all add: abs_if split: if_splits)
  have c: "\<bar>cents t\<bar> \<le> 2 ^ 34" by (rule cents_small [OF assms(1)])
  have ce: "\<bar>cents t - of_int t / 100\<bar> \<le> 1 / 204800"
    using assms by (intro cents_error) (simp add: money_ok_def money_bound_def)
  have "cents t * r - of_int t * 4 / 500 = cents t * (r - 4/5) + (cents t - of_int t / 100) * (4/5)"
    by (simp add: algebra_simps)
  moreover have "\<bar>cents t * (r - 4/5)\<bar> \<le> 1 / 524288"
  proof -
    have "\<bar>cents t * (r - 4/5)\<bar> \<le> 2 ^ 34 * (1 / 2 ^ 53)"
      unfolding abs_mult using c r by (intro mult_mono) auto
    then show ?thesis by simp
  qed
  moreover have "\<bar>(cents t - of_int t / 100) * (4/5)\<bar> \<le> 1 / 204800 * (4/5)"
    unfolding abs_mult using ce by (intro mult_mono) auto
  ultimately have e1: "\<bar>cents t * r - of_int t * 4 / 500\<bar> \<le> 1 / 100000" by linarith
  have "\<bar>cents t * r\<bar> \<le> 2 ^ 34 * 1" unfolding abs_mult using c r by (intro mult_mono) auto
  then have e2: "\<bar>fmul (cents t) r - cents t * r\<bar> \<le> 1 / 131072"
    unfolding fmul_def by (intro fl_bounded_error) simp
  have "5 * first_pay_paise t \<le> 4 * t + 2" "4 * t - 2 \<le> 5 * first_pay_paise t"
    unfolding first_pay_paise_def by presburger+
  then have "5 * of_int (first_pay_paise t) \<le> 4 * of_int t + (2 :: rat)"
    "4 * of_int t - 2 \<le> 5 * (of_int (first_pay_paise t) :: rat)"
    by (simp_all flip: of_int_le_iff [where ?'a = rat])
  with e1 e2 have "\<bar>fmul (cents t) r - of_int (first_pay_paise t) / 100\<bar> < 1 / 200"
    by (simp add: abs_if split: if_splits)
  then show ?thesis by (simp add: min_first_pay_def r_def round2_near)
qed

lemma first_pay_paise_bounds: "0 \<le> t \<Longrightarrow> 0 \<le> first_pay_paise t \<and> first_pay_paise t \<le> t"
  unfolding first_pay_paise_def by presburger

text \<open>The rule in paise, with the tolerance \<open>tol\<close> of the checks.\<close>

definition pay_allowed :: "int \<Rightarrow> int \<Rightarrow> int \<Rightarrow> int \<Rightarrow> bool" where
  "pay_allowed tol t a p \<longleftrightarrow> 0 < p \<and> p \<le> t - a + tol
     \<and> (a \<le> 0 \<longrightarrow> min (first_pay_paise t) (t - a) \<le> p + tol)"

lemma assert_pay_unfold:
  assumes "money_ok t" "money_ok a" "money_ok p" "money_ok (t - a)" "0 \<le> t"
  shows "assert_first_or_partial_pay (cents t) (cents a) (cents p) = Inr () \<longleftrightarrow>
    0 < p \<and> \<not> fadd (cents (t - a)) eps_paisa < cents p
    \<and> (a \<le> 0 \<longrightarrow> \<not> (fadd (cents p) eps_paisa < cents (first_pay_paise t)
                     \<and> fadd (cents p) eps_paisa < cents (t - a)))"
proof -
  have pos: "cents p \<le> 0 \<longleftrightarrow> p \<le> 0"
    using cents_le_iff [OF assms(3) money_ok_simps(1)] by simp
  show ?thesis
    using assms pos
    by (simp add: assert_first_or_partial_pay_def Let_def round2_is_money round2_fsub_cents
        cents_le_eps_milli min_first_pay_cents)
qed

lemma assert_pay_sound:
  assumes "money_ok t" "money_ok a" "money_ok p" "money_ok (t - a)" "0 \<le> t"
    and "assert_first_or_partial_pay (cents t) (cents a) (cents p) = Inr ()"
  shows "pay_allowed 1 t a p"
proof -
  have m: "money_ok (first_pay_paise t)"
    using assms(1,5) first_pay_paise_bounds by (meson money_ok_mono)
  have p: "0 < p" "cents p \<le> fadd (cents (t - a)) eps_paisa"
    and f: "a \<le> 0 \<Longrightarrow> cents (first_pay_paise t) \<le> fadd (cents p) eps_paisa
       \<or> cents (t - a) \<le> fadd (cents p) eps_paisa"
    using assms(6) unfolding assert_pay_unfold [OF assms(1-5)] by auto
  have "p \<le> t - a + 1" using cents_paisa_le [OF assms(4,3) p(2)] .
  moreover have "min (first_pay_paise t) (t - a) \<le> p + 1" if "a \<le> 0"
    using f [OF that] cents_paisa_le [OF assms(3) m] cents_paisa_le [OF assms(3,4)] by auto
  ultimately show ?thesis using p(1) by (simp add: pay_allowed_def)
qed

lemma assert_pay_complete:
  assumes "money_ok t" "money_ok a" "money_ok p" "money_ok (t - a)" "0 \<le> t"
    and "pay_allowed 0 t a p"
  shows "assert_first_or_partial_pay (cents t) (cents a) (cents p) = Inr ()"
proof -
  have "cents p \<le> fadd (cents (t - a)) eps_paisa"
    using assms(6) by (intro cents_paisa_ge) (simp add: pay_allowed_def)
  moreover have "cents (first_pay_paise t) \<le> fadd (cents p) eps_paisa
       \<or> cents (t - a) \<le> fadd (cents p) eps_paisa" if "a \<le> 0"
    using assms(6) that cents_paisa_ge by (auto simp: pay_allowed_def min_def split: if_splits)
  ultimately show ?thesis
    unfolding assert_pay_unfold [OF assms(1-5)] using assms(6) by (auto simp: pay_allowed_def)
qed

end
