(* ===== verification/Purchases.thy ===== *)
theory Purchases
  imports Gateway Invoices PayRules
begin

text \<open>
  \<open>store_ops_service/app/services/purchases.py\<close> and \<open>supplier.py\<close>: the bakery buys stock from a
  wholesaler shop.  A purchase is pending, then rejected, or received (the warehouse stock, its
  average cost and the shop's payable balance move) and then paid in one or more payments.
\<close>

section \<open>Strings\<close>

text \<open>\<open>s.replace(sub, "")\<close> for a non-empty \<open>sub\<close>, and the text after the first \<open>sub\<close>.\<close>

fun remove_sub :: "string \<Rightarrow> string \<Rightarrow> string" where
  "remove_sub sub [] = []"
| "remove_sub sub (c # cs) =
     (if sub \<noteq> [] \<and> starts_with sub (c # cs) then remove_sub sub (drop (length sub - 1) cs)
      else c # remove_sub sub cs)"

fun after_first :: "string \<Rightarrow> string \<Rightarrow> string option" where
  "after_first sub [] = (if sub = [] then Some [] else None)"
| "after_first sub (c # cs) =
     (if starts_with sub (c # cs) then Some (drop (length sub) (c # cs)) else after_first sub cs)"

definition digits_value :: "string \<Rightarrow> int" where
  "digits_value s = foldl (\<lambda>n c. n * 10 + (int (char_code c) - 48)) 0 s"

text \<open>\<open>float(s)\<close> for a decimal numeral with an optional fraction, the form the code itself writes;
  \<open>None\<close> stands for \<open>ValueError\<close>.\<close>

definition parse_decimal :: "string \<Rightarrow> rat option" where
  "parse_decimal s0 =
     (let s = strip s0; neg = starts_with ''-'' s; u = (if neg then tl s else s);
          ip = takeWhile is_digit_char u; r = dropWhile is_digit_char u;
          fp = (if starts_with ''.'' r then takeWhile is_digit_char (tl r) else []);
          rest = (if starts_with ''.'' r then dropWhile is_digit_char (tl r) else r)
      in if rest \<noteq> [] \<or> (ip = [] \<and> fp = []) then None
         else Some ((if neg then - 1 else 1)
                * fl (of_int (digits_value (ip @ fp)) / of_int (10 ^ length fp))))"

text \<open>\<open>f"{x}"\<close> for a double that is a whole number of paise (below \<open>10 ^ 14\<close> rupees).\<close>

definition repr_paise :: "rat \<Rightarrow> string" where
  "repr_paise x = (let n = nat \<bar>to_cents x\<bar>; f = n mod 100 in
     (if x < 0 then ''-'' else []) @ show_nat (n div 100) @ ''.''
       @ (if f mod 10 = 0 then show_nat (f div 10) else pad_nat 2 f))"

section \<open>Purchases\<close>

definition PAY_METHODS :: "string list" where
  "PAY_METHODS = [''cod'', ''upi'', ''cash'', ''razorpay'']"

definition shop_of_purchase :: "db \<Rightarrow> int \<Rightarrow> exc + User \<times> RetailerProfile" where
  "shop_of_purchase d supplier_user_id = (case get_User d supplier_user_id of
     None \<Rightarrow> Inl (not_found ''Shop / wholesaler not found'')
   | Some user \<Rightarrow>
       if u_role user \<noteq> UR_RETAILER then Inl (not_found ''Shop / wholesaler not found'')
       else (case profile_of d supplier_user_id of
               None \<Rightarrow> Inl (not_found ''Shop profile not found'') | Some p \<Rightarrow> Inr (user, p)))"

definition purchase_due :: "SupplierPurchase \<Rightarrow> rat" where
  "purchase_due p = round2 (fsub (po_total p) (po_paid_amount p))"

definition payment_status_of :: "SupplierPurchase \<Rightarrow> string" where
  "payment_status_of p =
     (if po_status p = ''rejected'' then ''n/a''
      else if po_status p = ''pending'' then ''awaiting_accept''
      else if purchase_due p \<le> eps_milli then ''paid''
      else if 0 < po_paid_amount p then ''partial''
      else if po_status p \<in> set [''received'', ''partial''] then ''pending''
      else ''unpaid'')"

definition bill_no :: "SupplierPurchase \<Rightarrow> string" where
  "bill_no p = ''SP-'' @ pad 5 (po_id p)"

definition purchase_dict :: "db \<Rightarrow> SupplierPurchase \<Rightarrow> json" where
  "purchase_dict d p =
     (let profile = profile_of d (po_supplier_user_id p); product = get_Product d (po_product_id p);
          stock = (case product of Some q \<Rightarrow> JInt (p_stock_qty q) | None \<Rightarrow> JNull);
          avail = (case product of Some q \<Rightarrow> JInt (p_supplier_available_qty q) | None \<Rightarrow> JNull)
      in JObj [(''id'', JInt (po_id p)), (''bill_no'', JStr (bill_no p)),
          (''supplier_user_id'', JInt (po_supplier_user_id p)),
          (''shop_name'', jopt_str (map_option rp_shop_name profile)),
          (''product_id'', JInt (po_product_id p)), (''product_name'', JStr (po_product_name p)),
          (''qty'', JInt (po_qty p)), (''unit_cost'', JFloat (po_unit_cost p)), (''total'', JFloat (po_total p)),
          (''status'', JStr (po_status p)), (''payment_status'', JStr (payment_status_of p)),
          (''paid_amount'', JFloat (po_paid_amount p)), (''due'', JFloat (purchase_due p)),
          (''paid_at'', jopt_time (po_paid_at p)), (''pay_method'', jopt_str (po_pay_method p)),
          (''note'', jopt_str (po_note p)), (''created_at'', JStr (isoformat (po_created_at p))),
          (''payable_balance'', JFloat (case profile of Some q \<Rightarrow> rp_payable_balance q | None \<Rightarrow> 0)),
          (''warehouse_stock_qty'', stock), (''supplier_available_qty'', avail),
          (''lines'', JArr [JObj [(''product_id'', JInt (po_product_id p)), (''product_name'', JStr (po_product_name p)),
             (''qty'', JInt (po_qty p)), (''unit_cost'', JFloat (po_unit_cost p)), (''line_total'', JFloat (po_total p)),
             (''warehouse_stock_qty'', stock), (''supplier_available_qty'', avail)]])])"

definition payable_of :: "db \<Rightarrow> SupplierPurchase \<Rightarrow> json" where
  "payable_of d p = JFloat (case profile_of d (po_supplier_user_id p) of Some q \<Rightarrow> rp_payable_balance q | None \<Rightarrow> 0)"

section \<open>Receiving\<close>

definition average_cost :: "Product \<Rightarrow> int \<Rightarrow> rat \<Rightarrow> rat" where
  "average_cost product qty unit_cost =
     (let old_qty = p_stock_qty product; old_cost = or_zero (p_purchase_cost product); new_qty = old_qty + qty
      in if 0 < new_qty
         then round2 (fdiv (fadd (fmul old_cost (of_int old_qty)) (fmul unit_cost (of_int qty))) (of_int new_qty))
         else unit_cost)"

definition receive_product :: "env \<Rightarrow> int \<Rightarrow> rat \<Rightarrow> Product \<Rightarrow> Product" where
  "receive_product e qty unit_cost product =
     (let new_qty = p_stock_qty product + qty
      in product\<lparr>p_purchase_cost := Some (average_cost product qty unit_cost), p_stock_qty := new_qty,
           p_stock_status := to_stock_status (stock_status_for new_qty (p_low_stock_threshold product)),
           p_supplier_available_qty := max 0 (p_supplier_available_qty product - qty),
           p_updated_at := env_now e\<rparr>)"

definition receive_movement :: "env \<Rightarrow> SupplierPurchase \<Rightarrow> RetailerProfile \<Rightarrow> int option \<Rightarrow> StockMovement" where
  "receive_movement e purchase profile created_by =
     (new_StockMovement (env_now e) (po_product_id purchase))
       \<lparr>sm_change_qty := po_qty purchase, sm_reason := ''supplier_purchase'',
        sm_note := Some (''From '' @ rp_shop_name profile
          @ (if truthy_str (po_note purchase) then '' '' @ emdash @ '' '' @ the (po_note purchase) else [])),
        sm_created_by := created_by\<rparr>"

definition apply_receive :: "env \<Rightarrow> SupplierPurchase \<Rightarrow> RetailerProfile \<Rightarrow> int option \<Rightarrow> bool \<Rightarrow> string option \<Rightarrow> db
    \<Rightarrow> exc + SupplierPurchase \<times> db" where
  "apply_receive e purchase profile created_by mark_paid meth d =
     (if po_status purchase \<noteq> ''pending''
      then Inl (bad_request (''Cannot receive purchase in status '' @ po_status purchase))
      else (case get_Product d (po_product_id purchase) of
        None \<Rightarrow> Inl (not_found ''Product not found'')
      | Some product \<Rightarrow>
          let d1 = add_StockMovement (receive_movement e purchase profile created_by)
                     (put_Product (receive_product e (po_qty purchase) (po_unit_cost purchase) product) d);
              p1 = (if mark_paid
                    then purchase\<lparr>po_paid_amount := po_total purchase, po_paid_at := Some (env_now e),
                           po_pay_method := meth, po_status := ''paid''\<rparr>
                    else purchase\<lparr>po_status := ''received''\<rparr>);
              d2 = (if mark_paid then d1
                    else put_RetailerProfile (profile\<lparr>rp_payable_balance :=
                           round2 (fadd (rp_payable_balance profile) (po_total purchase))\<rparr>) d1);
              p2 = p1\<lparr>po_updated_at := env_now e\<rparr>
          in Inr (p2, put_SupplierPurchase p2 d2)))"

definition received_event :: "SupplierPurchase \<Rightarrow> db \<Rightarrow> db" where
  "received_event p d = emit_admin_event ''po_received''
     [(''purchase_id'', JInt (po_id p)), (''supplier_user_id'', JInt (po_supplier_user_id p)),
      (''status'', JStr (po_status p)), (''payable_balance'', payable_of d p)] d"

definition supplier_invoice :: "env \<Rightarrow> SupplierPurchase \<Rightarrow> User \<Rightarrow> RetailerProfile \<Rightarrow> rat \<Rightarrow> string \<Rightarrow> string option \<Rightarrow> db \<Rightarrow> db" where
  "supplier_invoice e p user profile amt meth txn d =
     snd (issue_supplier_payment e (po_id p) (bill_no p) (po_supplier_user_id p) (rp_shop_name profile)
            (po_product_name p) (of_int (po_qty p)) (po_unit_cost p) amt meth txn
            (or_str (rp_contact_phone profile) (u_phone user)) d)"

definition create_purchase :: "env \<Rightarrow> int \<Rightarrow> int \<Rightarrow> int \<Rightarrow> rat \<Rightarrow> string option \<Rightarrow> int option \<Rightarrow> bool \<Rightarrow> string option
    \<Rightarrow> bool \<Rightarrow> db \<Rightarrow> (exc + json) \<times> db" where
  "create_purchase e supplier_user_id product_id qty unit_cost note created_by mark_paid meth instant_receive d =
     (if qty \<le> 0 then (Inl (bad_request ''qty must be > 0''), d)
      else if unit_cost < 0 then (Inl (bad_request ''unit_cost must be >= 0''), d)
      else (case shop_of_purchase d supplier_user_id of
        Inl ex \<Rightarrow> (Inl ex, d)
      | Inr (user, profile) \<Rightarrow>
          if \<not> rp_is_wholesaler profile
          then (Inl (bad_request ''This shop is not marked as wholesaler/supplier''), d)
          else (case get_Product d product_id of
            None \<Rightarrow> (Inl (not_found ''Product not found''), d)
          | Some product \<Rightarrow>
              let row = (new_SupplierPurchase (env_now e) (u_id user) (p_id product) (p_name product))
                    \<lparr>po_qty := qty, po_unit_cost := unit_cost, po_total := round2 (fmul unit_cost (of_int qty)),
                     po_status := ''pending'', po_note := note, po_created_by := created_by\<rparr>;
                  purchase = key_SupplierPurchase row d;
                  d0 = add_SupplierPurchase row d
              in (if instant_receive \<or> mark_paid
                  then (case apply_receive e purchase profile created_by mark_paid
                               (if mark_paid then meth else None) d0 of
                          Inl ex \<Rightarrow> (Inl ex, d)
                        | Inr (p2, d2) \<Rightarrow>
                            let d3 = (if mark_paid \<and> po_status p2 = ''paid''
                                      then supplier_invoice e p2 user profile (po_total p2) (or_str meth ''cash'') None d2
                                      else d2)
                            in (Inr (purchase_dict d3 p2), received_event p2 d3))
                  else (Inr (purchase_dict d0 purchase),
                        emit_admin_event ''po_created'' [(''purchase_id'', JInt (po_id purchase)),
                          (''supplier_user_id'', JInt (po_supplier_user_id purchase))]
                        (emit_user_event (po_supplier_user_id purchase) ''po_created''
                          [(''purchase_id'', JInt (po_id purchase)), (''bill_no'', JStr (bill_no purchase)),
                           (''total'', JFloat (po_total purchase)), (''status'', JStr ''pending'')] d0))))))"

definition accept_purchase :: "env \<Rightarrow> int \<Rightarrow> int \<Rightarrow> db \<Rightarrow> (exc + json) \<times> db" where
  "accept_purchase e purchase_id supplier_user_id d = (case get_SupplierPurchase d purchase_id of
     None \<Rightarrow> (Inl (not_found ''Purchase not found''), d)
   | Some purchase \<Rightarrow>
       if po_supplier_user_id purchase \<noteq> supplier_user_id then (Inl (forbidden ''Not your purchase order''), d)
       else if po_status purchase \<noteq> ''pending''
       then (Inl (bad_request (''Cannot accept purchase in status '' @ po_status purchase)), d)
       else (case shop_of_purchase d supplier_user_id of
         Inl ex \<Rightarrow> (Inl ex, d)
       | Inr (_, profile) \<Rightarrow>
           (case apply_receive e purchase profile (Some supplier_user_id) False None d of
              Inl ex \<Rightarrow> (Inl ex, d)
            | Inr (p2, d2) \<Rightarrow> (Inr (purchase_dict d2 p2), received_event p2 d2))))"

definition reject_purchase :: "env \<Rightarrow> int \<Rightarrow> int \<Rightarrow> db \<Rightarrow> (exc + json) \<times> db" where
  "reject_purchase e purchase_id supplier_user_id d = (case get_SupplierPurchase d purchase_id of
     None \<Rightarrow> (Inl (not_found ''Purchase not found''), d)
   | Some purchase \<Rightarrow>
       if po_supplier_user_id purchase \<noteq> supplier_user_id then (Inl (forbidden ''Not your purchase order''), d)
       else if po_status purchase \<noteq> ''pending''
       then (Inl (bad_request (''Cannot reject purchase in status '' @ po_status purchase)), d)
       else let p2 = purchase\<lparr>po_status := ''rejected'', po_updated_at := env_now e\<rparr>;
                d2 = put_SupplierPurchase p2 d
            in (Inr (purchase_dict d2 p2), d2))"

section \<open>Paying\<close>

definition paid_note :: "string option \<Rightarrow> rat \<Rightarrow> string option \<Rightarrow> string option \<Rightarrow> string option" where
  "paid_note old pay note rzp =
     (let bits = (if truthy_str note then [the note] else []) @ (if truthy_str rzp then [''rzp:'' @ the rzp] else [])
      in if bits = [] then old
         else Some (strip_chars '' |'' (or_str old [] @ '' | Paid '' @ repr_paise pay @ '': '' @ join ''; '' bits)))"

definition pay_status_of :: "SupplierPurchase \<Rightarrow> string" where
  "pay_status_of p = (if po_total p \<le> fadd (po_paid_amount p) eps_milli then ''paid'' else ''partial'')"

definition already_applied :: "string option \<Rightarrow> SupplierPurchase \<Rightarrow> bool" where
  "already_applied rzp purchase \<longleftrightarrow> truthy_str rzp \<and> truthy_str (po_note purchase)
     \<and> contains (''rzp:'' @ the rzp) (the (po_note purchase))"

definition record_payment :: "env \<Rightarrow> rat \<Rightarrow> string \<Rightarrow> string option \<Rightarrow> string option \<Rightarrow> SupplierPurchase \<Rightarrow> SupplierPurchase" where
  "record_payment e pay meth note rzp purchase =
     (let p1 = purchase\<lparr>po_paid_amount := round2 (fadd (po_paid_amount purchase) pay),
                         po_paid_at := Some (env_now e), po_pay_method := Some meth\<rparr>
      in p1\<lparr>po_status := pay_status_of p1, po_note := paid_note (po_note purchase) pay note rzp,
            po_updated_at := env_now e\<rparr>)"

definition reduce_payable :: "rat \<Rightarrow> RetailerProfile \<Rightarrow> RetailerProfile" where
  "reduce_payable pay profile =
     profile\<lparr>rp_payable_balance := max 0 (round2 (fsub (rp_payable_balance profile) pay))\<rparr>"

definition paid_events :: "SupplierPurchase \<Rightarrow> rat \<Rightarrow> string \<Rightarrow> db \<Rightarrow> db" where
  "paid_events p pay meth d =
     emit_user_event (po_supplier_user_id p) ''po_paid''
       [(''purchase_id'', JInt (po_id p)), (''paid'', JFloat pay), (''due'', JFloat (purchase_due p)),
        (''status'', JStr (po_status p))]
     (emit_admin_event ''po_paid''
       [(''purchase_id'', JInt (po_id p)), (''supplier_user_id'', JInt (po_supplier_user_id p)),
        (''paid'', JFloat pay), (''due'', JFloat (purchase_due p)), (''status'', JStr (po_status p)),
        (''payable_balance'', payable_of d p), (''method'', JStr meth)] d)"

definition pay_purchase :: "env \<Rightarrow> int \<Rightarrow> rat option \<Rightarrow> string option \<Rightarrow> string option \<Rightarrow> string option \<Rightarrow> db
    \<Rightarrow> (exc + json) \<times> db" where
  "pay_purchase e purchase_id amount meth0 note rzp d = (case get_SupplierPurchase d purchase_id of
     None \<Rightarrow> (Inl (not_found ''Purchase not found''), d)
   | Some purchase \<Rightarrow>
       if po_status purchase \<notin> set [''received'', ''partial'']
       then (Inl (bad_request ''Can only pay received purchase orders''), d)
       else if already_applied rzp purchase then (Inr (purchase_dict d purchase), d)
       else let due = purchase_due purchase; meth = strip (str_lower (or_str meth0 ''upi'')) in
       if due \<le> 0 then (Inl (bad_request ''Already fully paid''), d)
       else if meth \<notin> set PAY_METHODS
       then (Inl (bad_request ''pay_method must be cod, upi, cash, or razorpay''), d)
       else if meth = ''razorpay'' \<and> \<not> truthy_str rzp
       then (Inl (bad_request ''Use Razorpay create/verify endpoints for gateway pay''), d)
       else let pay = round2 (case amount of Some a \<Rightarrow> a | None \<Rightarrow> due) in
       (case assert_first_or_partial_pay (po_total purchase) (po_paid_amount purchase) pay of
          Inl ex \<Rightarrow> (Inl ex, d)
        | Inr _ \<Rightarrow>
          (case shop_of_purchase d (po_supplier_user_id purchase) of
             Inl ex \<Rightarrow> (Inl ex, d)
           | Inr (supplier, profile) \<Rightarrow>
               let p2 = record_payment e pay meth note rzp purchase;
                   d2 = put_RetailerProfile (reduce_payable pay profile) (put_SupplierPurchase p2 d);
                   d3 = supplier_invoice e p2 supplier profile pay meth rzp d2
               in (Inr (purchase_dict d3 p2), paid_events p2 pay meth d3))))"

definition razorpay_notes :: "SupplierPurchase \<Rightarrow> rat \<Rightarrow> json" where
  "razorpay_notes p pay = JObj [(''kind'', JStr ''purchase''), (''purchase_id'', JStr (show_int (po_id p))),
     (''amount'', JStr (fmt2 pay)), (''supplier_user_id'', JStr (show_int (po_supplier_user_id p)))]"

definition create_razorpay_pay :: "gateway \<Rightarrow> env \<Rightarrow> int \<Rightarrow> rat option \<Rightarrow> db \<Rightarrow> (exc + json) \<times> db" where
  "create_razorpay_pay g e purchase_id amount d =
     (if \<not> razorpay_configured g then (Inl (unavailable ''Razorpay not configured''), d)
      else (case get_SupplierPurchase d purchase_id of
     None \<Rightarrow> (Inl (not_found ''Purchase not found''), d)
   | Some purchase \<Rightarrow>
       if po_status purchase \<notin> set [''received'', ''partial'']
       then (Inl (bad_request ''Can only pay received purchase orders''), d)
       else let due = purchase_due purchase in
       if due \<le> 0 then (Inl (bad_request ''Already fully paid''), d)
       else let pay = round2 (case amount of Some a \<Rightarrow> a | None \<Rightarrow> due) in
       (case assert_first_or_partial_pay (po_total purchase) (po_paid_amount purchase) pay of
          Inl ex \<Rightarrow> (Inl ex, d)
        | Inr _ \<Rightarrow>
          (case shop_of_purchase d (po_supplier_user_id purchase) of
             Inl ex \<Rightarrow> (Inl ex, d)
           | Inr (_, profile) \<Rightarrow>
             let receipt = take 40 (bill_no purchase @ ''-'' @ show_int (env_now e div us_seconds 1)) in
             (case create_order g pay receipt (razorpay_notes purchase pay) of
                Inl ex \<Rightarrow> (Inl ex, d)
              | Inr rz \<Rightarrow>
                (case create_payment_link g pay (''Pay supplier '' @ rp_shop_name profile @ '' '' @ middot @ '' ''
                         @ bill_no purchase) receipt None None None (razorpay_notes purchase pay) of
                   Inl ex \<Rightarrow> (Inl ex, d)
                 | Inr link \<Rightarrow>
                   let tag = ''rz_pending:'' @ or_str (jstr (jget ''razorpay_order_id'' rz)) ''None'' @ '':'' @ fmt2 pay;
                       p2 = purchase\<lparr>po_note := Some (strip_chars '' |''
                                (remove_sub tag (or_str (po_note purchase) []) @ '' | '' @ tag)),
                              po_updated_at := env_now e\<rparr>
                   in (Inr (JObj [(''purchase_id'', JInt (po_id purchase)), (''amount'', JFloat pay),
                         (''amount_paise'', jget ''amount'' rz), (''currency'', JStr ''INR''),
                         (''key_id'', jget ''key_id'' rz), (''razorpay_order_id'', jget ''razorpay_order_id'' rz),
                         (''short_url'', jget ''short_url'' link), (''payment_link'', link),
                         (''shop_name'', JStr (rp_shop_name profile)), (''bill_no'', JStr (bill_no purchase))]),
                       put_SupplierPurchase p2 d)))))))"

text \<open>The amount tagged for a gateway order in the note, when there is one.\<close>

definition pending_amount :: "string option \<Rightarrow> string \<Rightarrow> rat option" where
  "pending_amount note rz_order =
     (if truthy_str note
      then (case after_first (''rz_pending:'' @ rz_order @ '':'') (the note) of
              None \<Rightarrow> None
            | Some frag \<Rightarrow>
                let w = takeWhile (\<lambda>c. \<not> is_space c) (dropWhile is_space frag)
                in if w = [] then None else parse_decimal (takeWhile (\<lambda>c. c \<noteq> CHR ''|'') w))
      else None)"

definition verify_razorpay_pay :: "gateway \<Rightarrow> env \<Rightarrow> int \<Rightarrow> string \<Rightarrow> string \<Rightarrow> string \<Rightarrow> rat option \<Rightarrow> db
    \<Rightarrow> (exc + json) \<times> db" where
  "verify_razorpay_pay g e purchase_id rz_order rz_payment sig amount d =
     (case get_SupplierPurchase d purchase_id of
        None \<Rightarrow> (Inl (not_found ''Purchase not found''), d)
      | Some purchase \<Rightarrow>
          if already_applied (Some rz_payment) purchase then (Inr (purchase_dict d purchase), d)
          else if \<not> verify_payment_signature g rz_order rz_payment sig
          then (Inl (bad_request ''Invalid Razorpay signature''), d)
          else pay_purchase e purchase_id
                 (case amount of Some a \<Rightarrow> Some a | None \<Rightarrow> pending_amount (po_note purchase) rz_order)
                 (Some ''razorpay'') (Some (''order '' @ rz_order)) (Some rz_payment) d)"

definition list_purchases :: "db \<Rightarrow> int option \<Rightarrow> json list" where
  "list_purchases d supplier_user_id =
     map (purchase_dict d) (take 200 (filter (\<lambda>p. truthy_id supplier_user_id \<longrightarrow> Some (po_supplier_user_id p) = supplier_user_id)
       (sort_key (\<lambda>p. - po_created_at p) (rows (purchases d)))))"

section \<open>The wholesaler's own view (\<open>supplier.py\<close>)\<close>

definition wholesaler_profile :: "db \<Rightarrow> User \<Rightarrow> exc + RetailerProfile" where
  "wholesaler_profile d user = (case profile_of d (u_id user) of
     None \<Rightarrow> Inl (not_found ''Shop profile not found'')
   | Some p \<Rightarrow> if rp_is_wholesaler p then Inr p
       else Inl (forbidden ''Shop is not marked as supplier/wholesaler''))"

definition supplier_summary :: "db \<Rightarrow> User \<Rightarrow> exc + json" where
  "supplier_summary d user = (case wholesaler_profile d user of
     Inl ex \<Rightarrow> Inl ex
   | Inr p \<Rightarrow> Inr (JObj [(''is_wholesaler'', JBool True), (''shop_name'', JStr (rp_shop_name p)),
       (''payable_balance'', JFloat (rp_payable_balance p)),
       (''pending_count'', JInt (int (length (t_all (\<lambda>r. po_supplier_user_id r = u_id user
           \<and> po_status r = ''pending'') (purchases d))))),
       (''upi_id'', jopt_str (rp_upi_id p))]))"

definition supplier_accept :: "env \<Rightarrow> User \<Rightarrow> int \<Rightarrow> db \<Rightarrow> (exc + json) \<times> db" where
  "supplier_accept e user purchase_id d = (case wholesaler_profile d user of
     Inl ex \<Rightarrow> (Inl ex, d) | Inr _ \<Rightarrow> accept_purchase e purchase_id (u_id user) d)"

definition supplier_reject :: "env \<Rightarrow> User \<Rightarrow> int \<Rightarrow> db \<Rightarrow> (exc + json) \<times> db" where
  "supplier_reject e user purchase_id d = (case wholesaler_profile d user of
     Inl ex \<Rightarrow> (Inl ex, d) | Inr _ \<Rightarrow> reject_purchase e purchase_id (u_id user) d)"

definition product_offer_dict :: "Product \<Rightarrow> json" where
  "product_offer_dict p = JObj [(''id'', JInt (p_id p)), (''name'', JStr (p_name p)),
     (''brand_name'', jopt_str (p_brand_name p)), (''unit_label'', JStr (p_unit_label p)),
     (''purchase_cost'', jopt_float (p_purchase_cost p)),
     (''supplier_available_qty'', JInt (p_supplier_available_qty p)),
     (''warehouse_stock_qty'', JInt (p_stock_qty p)), (''is_active'', JBool (p_is_active p)),
     (''is_draft'', JBool (p_is_draft p)), (''cover_image_url'', jopt_str (p_cover_image_url p))]"

definition patch_my_product :: "env \<Rightarrow> User \<Rightarrow> int \<Rightarrow> int option \<Rightarrow> rat option \<Rightarrow> db \<Rightarrow> (exc + json) \<times> db" where
  "patch_my_product e user product_id avail cost d = (case wholesaler_profile d user of
     Inl ex \<Rightarrow> (Inl ex, d)
   | Inr _ \<Rightarrow> (case get_Product d product_id of
       None \<Rightarrow> (Inl (not_found ''Product not found''), d)
     | Some product \<Rightarrow>
         if p_supplier_user_id product \<noteq> Some (u_id user) then (Inl (not_found ''Product not found''), d)
         else if avail \<noteq> None \<and> the avail < 0 then (Inl (bad_request ''supplier_available_qty must be >= 0''), d)
         else if cost \<noteq> None \<and> the cost < 0 then (Inl (bad_request ''purchase_cost must be >= 0''), d)
         else let p1 = (case avail of None \<Rightarrow> product | Some q \<Rightarrow> product\<lparr>p_supplier_available_qty := q\<rparr>);
                  p2 = (case cost of None \<Rightarrow> p1 | Some c \<Rightarrow> p1\<lparr>p_purchase_cost := Some c\<rparr>);
                  p3 = p2\<lparr>p_updated_at := env_now e\<rparr>
              in (Inr (product_offer_dict p3), put_Product p3 d)))"

end
