(* ===== verification/PurchaseText.thy ===== *)
theory PurchaseText
  imports Purchases
begin

text \<open>
  The text the purchase orders keep in their note: the amount tagged for a gateway order is read
  back exactly (\<open>pending_amount_tagged\<close>), and printing an amount in paise and parsing it is the
  identity (\<open>money_text_parses\<close>).
\<close>

section \<open>Notes and amounts in text\<close>

lemma foldl_base: "foldl (\<lambda>n c. n * 10 + f c) k b = k * 10 ^ length b + foldl (\<lambda>n c. n * 10 + f c) (0 :: int) b"
proof (induction b rule: rev_induct)
  case (snoc c b)
  have "foldl (\<lambda>n c. n * 10 + f c) k (b @ [c]) = (k * 10 ^ length b + foldl (\<lambda>n c. n * 10 + f c) 0 b) * 10 + f c"
    by (simp only: foldl_append foldl.simps snoc)
  then show ?case by (simp add: distrib_right)
qed simp

lemma digits_value_append: "digits_value (a @ b) = digits_value a * 10 ^ length b + digits_value b"
  unfolding digits_value_def foldl_append by (rule foldl_base)

lemma digits_value_single: "n < 10 \<Longrightarrow> digits_value [char_of (48 + n)] = int n"
  by (simp add: digits_value_def)

lemma digits_value_show [simp]: "digits_value (show_nat n) = int n"
proof (induction n rule: show_nat.induct)
  case (1 n)
  show ?case
  proof (cases "n < 10")
    case True
    then show ?thesis by (subst show_nat.simps) (simp add: digits_value_single)
  next
    case False
    have "int (n div 10) * 10 + int (n mod 10) = int n"
      by (metis div_mult_mod_eq of_nat_add of_nat_mult of_nat_numeral)
    then show ?thesis using False 1 by (subst show_nat.simps) (simp add: digits_value_append digits_value_single)
  qed
qed

lemma pad_two: "m < 100 \<Longrightarrow> length (pad_nat 2 m) = 2 \<and> digits_value (pad_nat 2 m) = int m
    \<and> (\<forall>c \<in> set (pad_nat 2 m). is_digit_char c)"
proof -
  assume m: "m < 100"
  have l: "length (show_nat m) = (if m < 10 then 1 else 2)"
    using m by (auto simp: show_nat.simps [of m] show_nat.simps [of "m div 10"])
  have "char_code CHR ''0'' = 48" by (simp add: char_code_def)
  then have z: "digits_value (CHR ''0'' # s) = digits_value s" for s
    using digits_value_append [of "[CHR ''0'']" s] by (simp add: digits_value_def)
  have "is_digit_char CHR ''0''" by (simp add: is_digit_char_def char_code_def)
  then show ?thesis using m l show_nat_digits [of m] by (auto simp: pad_nat_def Let_def z)
qed

lemma digit_not_space: "is_digit_char c \<Longrightarrow> \<not> is_space c \<and> c \<noteq> CHR ''.'' \<and> c \<noteq> CHR ''-'' \<and> c \<noteq> CHR '' '' \<and> c \<noteq> CHR ''|''"
  by (auto simp: is_digit_char_def is_space_def char_code_def)

lemma dot_no_space: "\<not> is_space CHR ''.''"
  by (simp add: is_space_def char_code_def)

lemma strip_chars_keep:
  assumes "c \<notin> set cs" "last (c # y) \<notin> set cs"
  shows "strip_chars cs (x @ c # y) = dropWhile (\<lambda>c. c \<in> set cs) x @ c # y"
proof -
  have d: "dropWhile (\<lambda>c. c \<in> set cs) (x @ c # y) = dropWhile (\<lambda>c. c \<in> set cs) x @ c # y"
    using assms(1) by (simp add: dropWhile_append3)
  have "rev (dropWhile (\<lambda>c. c \<in> set cs) (rev z)) = z" if "z \<noteq> []" "last z \<notin> set cs" for z
    using that by (cases z rule: rev_cases) auto
  from this [of "dropWhile (\<lambda>c. c \<in> set cs) x @ c # y"] assms(2) show ?thesis
    by (simp add: strip_chars_def d)
qed

lemma strip_id: "s \<noteq> [] \<Longrightarrow> \<not> is_space (hd s) \<Longrightarrow> \<not> is_space (last s) \<Longrightarrow> strip s = s"
proof -
  assume s: "s \<noteq> []" "\<not> is_space (hd s)" "\<not> is_space (last s)"
  have "dropWhile is_space s = s" using s by (cases s) auto
  moreover have "dropWhile is_space (rev s) = rev s" using s by (cases s rule: rev_cases) auto
  ultimately show ?thesis by (simp add: strip_def)
qed

lemma money_text:
  assumes "money_ok n" "0 \<le> n"
  shows "fmt2 (cents n) = show_nat (nat n div 100) @ CHR ''.'' # pad_nat 2 (nat n mod 100)"
  using to_cents_cents [OF assms(1)] cents_nonneg [OF assms(2)] assms(2)
  by (simp add: fmt2_def Let_def to_cents_def not_less)

lemma money_text_parses:
  assumes "money_ok n" "0 \<le> n" shows "parse_decimal (fmt2 (cents n)) = Some (cents n)"
proof -
  define a b where "a = show_nat (nat n div 100)" and "b = pad_nat 2 (nat n mod 100)"
  have a: "a \<noteq> []" "\<forall>c\<in>set a. is_digit_char c" "digits_value a = int (nat n div 100)"
    using show_nat_digits by (simp_all add: a_def)
  have b: "length b = 2" "\<forall>c\<in>set b. is_digit_char c" "digits_value b = int (nat n mod 100)"
    using pad_two [of "nat n mod 100"] by (simp_all add: b_def)
  have "b \<noteq> []" using b(1) by auto
  define s where "s = a @ CHR ''.'' # b"
  have "is_digit_char (hd s)" "is_digit_char (last s)" using a b \<open>b \<noteq> []\<close> by (auto simp: s_def)
  then have st: "strip s = s" and neg: "\<not> starts_with ''-'' s"
    using digit_not_space a(1) by (auto simp: s_def intro!: strip_id) (cases a; auto dest: digit_not_space)
  have dot: "\<not> is_digit_char CHR ''.''" by (simp add: is_digit_char_def char_code_def)
  have tw: "takeWhile is_digit_char s = a" "dropWhile is_digit_char s = CHR ''.'' # b"
    using a(2) dot by (simp_all add: s_def)
  have "digits_value (a @ b) = n"
    using assms(2) by (simp add: digits_value_append a(3) b(1,3) flip: of_nat_mult of_nat_add)
       (metis div_mult_mod_eq mult.commute nat_0_le of_nat_add of_nat_mult of_nat_numeral)
  moreover have "takeWhile is_digit_char b = b" "dropWhile is_digit_char b = []" using b(2) by simp_all
  ultimately have "parse_decimal s = Some (fl (of_int n / 100))"
    using st neg tw a(1) b(1) unfolding parse_decimal_def Let_def by (simp del: takeWhile_eq_all_conv)
  then show ?thesis by (simp only: cents_def [symmetric] s_def a_def b_def money_text [OF assms])
qed

lemma contains_suffix: "contains sub t \<Longrightarrow> contains sub (a @ t)"
  by (induction a) (auto intro: contains.simps [THEN iffD2])

lemma starts_with_left: "starts_with (a @ b) s \<Longrightarrow> starts_with a s"
  by (induction a s rule: starts_with.induct) auto

lemma contains_left: "contains (a @ b) s \<Longrightarrow> contains a s"
  by (induction s) (auto dest: starts_with_left)

lemma starts_with_before: "starts_with sub (u @ x # zs) \<Longrightarrow> x \<notin> set sub \<Longrightarrow> starts_with sub u"
proof (induction sub u rule: starts_with.induct)
  case (2 p ps)
  then show ?case by (cases u) auto
qed auto

lemma after_first_sep:
  "x \<notin> set sub \<Longrightarrow> sub \<noteq> [] \<Longrightarrow> \<not> contains sub old \<Longrightarrow> after_first sub (old @ x # zs) = after_first sub zs"
proof (induction old)
  case Nil
  then show ?case by (cases sub) auto
next
  case (Cons c cs)
  then have "\<not> starts_with sub ((c # cs) @ x # zs)" using starts_with_before [of sub "c # cs"] by auto
  with Cons show ?case by simp
qed

lemma after_first_here: "sub \<noteq> [] \<Longrightarrow> after_first sub (sub @ ys) = Some ys"
proof -
  assume "sub \<noteq> []"
  then obtain c cs where "sub = c # cs" by (cases sub) auto
  then show ?thesis using starts_with_append [of sub ys] by simp
qed

lemma remove_sub_absent: "\<not> contains sub s \<Longrightarrow> remove_sub sub s = s"
  by (induction s) auto

text \<open>The note \<open>create_razorpay_pay\<close> writes.\<close>

definition tagged_note :: "string option \<Rightarrow> string \<Rightarrow> string option" where
  "tagged_note old tag = Some (strip_chars '' |'' (remove_sub tag (or_str old []) @ '' | '' @ tag))"

text \<open>The tagged note: the old one without its leading separators, a separator, and the tag.\<close>

lemma tagged_note_form:
  assumes "\<not> contains tag (or_str old [])" "tag = CHR ''r'' # y" "last tag \<notin> {CHR '' '', CHR ''|''}"
  shows "tagged_note old tag = Some tag \<or>
    (\<exists>pre. (\<exists>q. or_str old [] = q @ pre) \<and> tagged_note old tag = Some (pre @ '' | '' @ tag))"
proof -
  define P where "P = (\<lambda>c. c \<in> set '' |'')"
  have "tagged_note old tag = Some (dropWhile P (or_str old [] @ '' | '') @ tag)"
    using strip_chars_keep [of "CHR ''r''" "'' |''" y "or_str old [] @ '' | ''"] assms
    by (simp add: tagged_note_def remove_sub_absent P_def)
  moreover have "or_str old [] = takeWhile P (or_str old []) @ dropWhile P (or_str old [])" by simp
  moreover have "dropWhile P (or_str old [] @ '' | '') =
      (if \<forall>c \<in> set (or_str old []). P c then [] else dropWhile P (or_str old []) @ '' | '')"
    by (auto simp: dropWhile_append P_def)
  ultimately show ?thesis by (cases "\<forall>c \<in> set (or_str old []). P c") (simp, metis append.assoc)
qed

lemma pending_amount_tagged:
  assumes "money_ok n" "0 \<le> n" "\<forall>c \<in> set oid. c \<noteq> CHR '' '' \<and> c \<noteq> CHR ''|''"
    and "\<not> contains (''rz_pending:'' @ oid @ '':'') (or_str old [])"
  shows "pending_amount (tagged_note old (''rz_pending:'' @ oid @ '':'' @ fmt2 (cents n))) oid = Some (cents n)"
proof -
  define sub where "sub = ''rz_pending:'' @ oid @ '':''"
  define amt where "amt = fmt2 (cents n)"
  define tag where "tag = sub @ amt"
  have sub: "CHR '' '' \<notin> set sub" "CHR ''|'' \<notin> set sub" "sub \<noteq> []" using assms(3) by (auto simp: sub_def)
  have "pad_nat 2 (nat n mod 100) \<noteq> []" using pad_two [of "nat n mod 100"] by auto
  then have amt: "amt \<noteq> []" "is_digit_char (hd amt)" "is_digit_char (last amt)"
    "\<forall>c \<in> set amt. is_digit_char c \<or> c = CHR ''.''"
    using show_nat_digits [of "nat n div 100"] pad_two [of "nat n mod 100"]
    by (auto simp: amt_def money_text [OF assms(1,2)])
  have lt: "last tag \<notin> {CHR '' '', CHR ''|''}" using amt digit_not_space by (auto simp: tag_def)
  have nt: "\<not> contains tag (or_str old [])" using assms(4) contains_left unfolding tag_def sub_def by blast
  obtain y where y: "tag = CHR ''r'' # y" by (simp add: tag_def sub_def)
  have af: "\<exists>u. tagged_note old tag = Some u \<and> u \<noteq> [] \<and> after_first sub u = Some amt"
    using tagged_note_form [OF nt y lt]
  proof (elim disjE exE conjE)
    assume "tagged_note old tag = Some tag"
    then show ?thesis using y after_first_here [OF sub(3), of amt] by (simp add: tag_def)
  next
    fix pre q assume o: "or_str old [] = q @ pre" and t: "tagged_note old tag = Some (pre @ '' | '' @ tag)"
    have "\<not> contains sub pre" using assms(4) o contains_suffix unfolding sub_def by metis
    then have "after_first sub (pre @ '' | '' @ tag) = Some amt"
      using after_first_sep [OF sub(1,3), of pre "CHR ''|'' # CHR '' '' # tag"]
        after_first_sep [OF sub(2,3), of "[]" "CHR '' '' # tag"] after_first_sep [OF sub(1,3), of "[]" tag]
        after_first_here [OF sub(3), of amt] sub(3)
      by (simp add: tag_def)
    with t show ?thesis by simp
  qed
  have w: "takeWhile (\<lambda>c. \<not> is_space c) (dropWhile is_space amt) = amt"
  proof -
    have sp: "\<forall>c \<in> set amt. \<not> is_space c" using amt(4) digit_not_space dot_no_space by blast
    then have "dropWhile is_space amt = amt" using amt(1) by (cases amt) auto
    with sp show ?thesis by simp
  qed
  have v: "takeWhile (\<lambda>c. c \<noteq> CHR ''|'') amt = amt"
    using amt(4) digit_not_space unfolding takeWhile_eq_all_conv by auto
  from af obtain u where "tagged_note old tag = Some u" "u \<noteq> []" "after_first sub u = Some amt" by blast
  then have "pending_amount (tagged_note old tag) oid = parse_decimal amt"
    using w v amt(1) by (simp add: pending_amount_def sub_def Let_def del: takeWhile_eq_all_conv)
  also have "\<dots> = Some (cents n)" using money_text_parses [OF assms(1,2)] by (simp add: amt_def)
  finally show ?thesis by (simp add: tag_def sub_def amt_def)
qed

end
