(* ===== verification/Lifecycle.thy ===== *)
theory Lifecycle
  imports Prelude
begin

text \<open>
  Rows that live through a sequence of states: \<open>rows_follow\<close> says that from one table to the
  next every row is kept and moves along a relation \<open>move\<close>, and that every new row comes from a
  freshly created one.  \<open>row_lifecycle\<close> is the contract of a set of operations on such a table;
  the purchase orders, the return requests and the custom cake requests interpret it.
\<close>

definition rows_follow :: "('r \<Rightarrow> int) \<Rightarrow> ('r \<Rightarrow> 'r \<Rightarrow> bool) \<Rightarrow> ('r \<Rightarrow> bool) \<Rightarrow> 'r table \<Rightarrow> 'r table \<Rightarrow> bool" where
  "rows_follow key move fresh t t' \<longleftrightarrow>
     (\<forall>r \<in> set (rows t). \<exists>r' \<in> set (rows t'). key r' = key r \<and> move\<^sup>*\<^sup>* r r')
   \<and> (\<forall>r' \<in> set (rows t'). (\<exists>r \<in> set (rows t). move\<^sup>*\<^sup>* r r') \<or> (\<exists>r0. fresh r0 \<and> move\<^sup>*\<^sup>* r0 r'))"

lemma rows_follow_refl [simp]: "rows_follow key move fresh t t"
  by (auto simp: rows_follow_def)

lemma rows_follow_trans:
  assumes "rows_follow key move fresh t u" "rows_follow key move fresh u v"
  shows "rows_follow key move fresh t v"
proof -
  have "\<exists>r'' \<in> set (rows v). key r'' = key r \<and> move\<^sup>*\<^sup>* r r''" if r: "r \<in> set (rows t)" for r
  proof -
    obtain r' where r': "r' \<in> set (rows u)" "key r' = key r" "move\<^sup>*\<^sup>* r r'"
      using assms(1) r unfolding rows_follow_def by blast
    obtain r'' where "r'' \<in> set (rows v)" "key r'' = key r'" "move\<^sup>*\<^sup>* r' r''"
      using assms(2) r'(1) unfolding rows_follow_def by blast
    with r' show ?thesis by (metis rtranclp_trans)
  qed
  moreover have "(\<exists>r\<in>set (rows t). move\<^sup>*\<^sup>* r w) \<or> (\<exists>r0. fresh r0 \<and> move\<^sup>*\<^sup>* r0 w)" if w: "w \<in> set (rows v)" for w
  proof -
    have "(\<exists>r\<in>set (rows u). move\<^sup>*\<^sup>* r w) \<or> (\<exists>r0. fresh r0 \<and> move\<^sup>*\<^sup>* r0 w)"
      using assms(2) w unfolding rows_follow_def by blast
    then show ?thesis
    proof
      assume "\<exists>r\<in>set (rows u). move\<^sup>*\<^sup>* r w"
      then obtain r where r: "r \<in> set (rows u)" "move\<^sup>*\<^sup>* r w" by blast
      have "(\<exists>q\<in>set (rows t). move\<^sup>*\<^sup>* q r) \<or> (\<exists>r0. fresh r0 \<and> move\<^sup>*\<^sup>* r0 r)"
        using assms(1) r(1) unfolding rows_follow_def by blast
      then show ?thesis using r(2) by (meson rtranclp_trans)
    qed blast
  qed
  ultimately show ?thesis unfolding rows_follow_def by blast
qed

lemma rows_follow_put:
  assumes "t_wf key t" "t_get key (key r') t = Some r" "move r r'"
  shows "rows_follow key move fresh t (t_put key r' t)"
proof -
  have r: "r \<in> set (rows t)" "key r = key r'" using t_get_in [OF assms(2)] t_get_key [OF assms(2)] by auto
  have u: "x = r" if "x \<in> set (rows t)" "key x = key r'" for x
    using t_wf_unique [OF assms(1) that(1) r(1)] that(2) r(2) by simp
  show ?thesis
    unfolding rows_follow_def rows_t_put
  proof (intro conjI ballI)
    fix x assume x: "x \<in> set (rows t)"
    have m: "(if key x = key r' then r' else x) \<in> set (map (\<lambda>x. if key x = key r' then r' else x) (rows t))"
      using x by force
    show "\<exists>x'\<in>set (map (\<lambda>x. if key x = key r' then r' else x) (rows t)). key x' = key x \<and> move\<^sup>*\<^sup>* x x'"
      by (rule bexI [OF _ m]) (use u [OF x] assms(3) in auto)
  next
    fix x' assume "x' \<in> set (map (\<lambda>x. if key x = key r' then r' else x) (rows t))"
    then obtain x where "x \<in> set (rows t)" "x' = (if key x = key r' then r' else x)" by auto
    then have "move\<^sup>*\<^sup>* x x'" using u assms(3) by auto
    with \<open>x \<in> set (rows t)\<close>
    show "(\<exists>r\<in>set (rows t). move\<^sup>*\<^sup>* r x') \<or> (\<exists>r0. fresh r0 \<and> move\<^sup>*\<^sup>* r0 x')" by blast
  qed
qed

lemma rows_follow_insert:
  "fresh (setid (next_id t) r) \<Longrightarrow> rows_follow key move fresh t (t_insert setid r t)"
  by (auto simp: rows_follow_def rows_t_insert)

locale row_lifecycle =
  fixes ok :: "'s \<Rightarrow> bool" and step :: "'s \<Rightarrow> 's \<Rightarrow> bool" and tab :: "'s \<Rightarrow> 'r table"
    and key :: "'r \<Rightarrow> int" and move :: "'r \<Rightarrow> 'r \<Rightarrow> bool" and fresh :: "'r \<Rightarrow> bool"
  assumes ok_wf: "ok s \<Longrightarrow> t_wf key (tab s)"
    and step_keeps: "ok s \<Longrightarrow> step s s' \<Longrightarrow> ok s'"
    and step_follows: "ok s \<Longrightarrow> step s s' \<Longrightarrow> rows_follow key move fresh (tab s) (tab s')"
begin

lemma steps_ok: "step\<^sup>*\<^sup>* s s' \<Longrightarrow> ok s \<Longrightarrow> ok s'"
  by (induction rule: rtranclp_induct) (auto intro: step_keeps)

lemma steps_follow: "step\<^sup>*\<^sup>* s s' \<Longrightarrow> ok s \<Longrightarrow> rows_follow key move fresh (tab s) (tab s')"
proof (induction rule: rtranclp_induct)
  case (step a b)
  then have "ok a" using steps_ok by blast
  with step show ?case using rows_follow_trans step_follows by blast
qed simp

lemma row_history:
  assumes "step\<^sup>*\<^sup>* s s'" "ok s" "t_get key k (tab s) = Some r"
  shows "\<exists>r'. t_get key k (tab s') = Some r' \<and> move\<^sup>*\<^sup>* r r'"
proof -
  have "t_wf key (tab s')" using assms(1,2) steps_ok ok_wf by blast
  moreover have "\<exists>r' \<in> set (rows (tab s')). key r' = key r \<and> move\<^sup>*\<^sup>* r r'"
    using steps_follow [OF assms(1,2)] t_get_in [OF assms(3)] unfolding rows_follow_def by blast
  ultimately show ?thesis using t_get_key [OF assms(3)] by (metis t_get_Some_iff)
qed

text \<open>A property of rows that holds of fresh rows and is kept by every move holds of all rows.\<close>

lemma row_invariant:
  assumes "step\<^sup>*\<^sup>* s s'" "ok s" "\<And>r. r \<in> set (rows (tab s)) \<Longrightarrow> I r"
    and "\<And>r. fresh r \<Longrightarrow> I r" "\<And>r r'. I r \<Longrightarrow> move r r' \<Longrightarrow> I r'"
  shows "\<forall>r' \<in> set (rows (tab s')). I r'"
proof
  fix r' assume "r' \<in> set (rows (tab s'))"
  then have "(\<exists>r\<in>set (rows (tab s)). move\<^sup>*\<^sup>* r r') \<or> (\<exists>r0. fresh r0 \<and> move\<^sup>*\<^sup>* r0 r')"
    using steps_follow [OF assms(1,2)] unfolding rows_follow_def by blast
  then obtain r0 where r0: "I r0" "move\<^sup>*\<^sup>* r0 r'" using assms(3,4) by blast
  show "I r'" using r0(2,1) by (induction rule: rtranclp_induct) (auto intro: assms(5))
qed

end

end
