(* ===== verification/PurchaseLaws.thy ===== *)
theory PurchaseLaws
  imports PurchaseText Lifecycle
begin

text \<open>
  Laws of the purchase orders: every order keeps its terms and moves from pending to rejected, or
  to received and on to paid; the paid amount stays between nothing and one paisa more than the
  total; receiving moves the stock, its average cost and the payable balance once; a gateway
  payment is applied once.
\<close>

section \<open>The moves of one order\<close>

definition same_terms :: "SupplierPurchase \<Rightarrow> SupplierPurchase \<Rightarrow> bool" where
  "same_terms p p' \<longleftrightarrow> po_id p' = po_id p \<and> po_supplier_user_id p' = po_supplier_user_id p
     \<and> po_product_id p' = po_product_id p \<and> po_qty p' = po_qty p \<and> po_unit_cost p' = po_unit_cost p
     \<and> po_total p' = po_total p"

inductive po_move :: "SupplierPurchase \<Rightarrow> SupplierPurchase \<Rightarrow> bool" where
  receive: "\<lbrakk>same_terms p p'; po_status p = ''pending''; po_status p' = ''received'';
     po_paid_amount p' = po_paid_amount p\<rbrakk> \<Longrightarrow> po_move p p'"
| settle: "\<lbrakk>same_terms p p'; po_status p = ''pending''; po_status p' = ''paid'';
     po_paid_amount p' = po_total p\<rbrakk> \<Longrightarrow> po_move p p'"
| reject: "\<lbrakk>same_terms p p'; po_status p = ''pending''; po_status p' = ''rejected'';
     po_paid_amount p' = po_paid_amount p\<rbrakk> \<Longrightarrow> po_move p p'"
| pay: "\<lbrakk>same_terms p p'; po_status p \<in> {''received'', ''partial''}; 0 < purchase_due p;
     assert_first_or_partial_pay (po_total p) (po_paid_amount p) (round2 x) = Inr ();
     po_paid_amount p' = round2 (fadd (po_paid_amount p) (round2 x)); po_status p' = pay_status_of p'\<rbrakk>
     \<Longrightarrow> po_move p p'"
| tag: "\<lbrakk>same_terms p p'; po_status p \<in> {''received'', ''partial''}; po_status p' = po_status p;
     po_paid_amount p' = po_paid_amount p\<rbrakk> \<Longrightarrow> po_move p p'"

definition po_fresh :: "SupplierPurchase \<Rightarrow> bool" where
  "po_fresh p \<longleftrightarrow> po_status p = ''pending'' \<and> po_paid_amount p = 0
     \<and> (\<exists>x \<ge> 0. po_total p = round2 x)"

abbreviation purchases_follow :: "db \<Rightarrow> db \<Rightarrow> bool" where
  "purchases_follow d d' \<equiv> rows_follow po_id po_move po_fresh (purchases d) (purchases d')"

section \<open>What the operations change\<close>

lemma apply_receiveE:
  assumes "apply_receive e p profile created_by paid meth d = Inr (p2, d2)"
  obtains product where "po_status p = ''pending''" "get_Product d (po_product_id p) = Some product"
    "p2 = (if paid then p\<lparr>po_paid_amount := po_total p, po_paid_at := Some (env_now e),
              po_pay_method := meth, po_status := ''paid'', po_updated_at := env_now e\<rparr>
           else p\<lparr>po_status := ''received'', po_updated_at := env_now e\<rparr>)"
    "purchases d2 = t_put po_id p2 (purchases d)"
    "products d2 = t_put p_id (receive_product e (po_qty p) (po_unit_cost p) product) (products d)"
    "stock_movements d2 = stock_movements (add_StockMovement (receive_movement e p profile created_by) d)"
    "profiles d2 = (if paid then profiles d else t_put rp_id (profile\<lparr>rp_payable_balance :=
        round2 (fadd (rp_payable_balance profile) (po_total p))\<rparr>) (profiles d))"
    "users d2 = users d" "invoices d2 = invoices d" "db_wf d \<longrightarrow> db_wf d2"
proof -
  from assms obtain product where
    "po_status p = ''pending''" "get_Product d (po_product_id p) = Some product"
    by (auto simp: apply_receive_def Let_def split: if_splits option.splits)
  with assms show thesis
    by (intro that [of product]) (auto simp: apply_receive_def Let_def)
qed

lemma apply_receive_move:
  assumes "apply_receive e p profile created_by paid meth d = Inr (p2, d2)"
  shows "po_move p p2"
  using assms
  by (elim apply_receiveE) (auto simp: same_terms_def intro: po_move.receive po_move.settle)

lemma supplier_invoice_frame: "\<exists>t. supplier_invoice e p user profile amt meth txn d = d\<lparr>invoices := t\<rparr>"
  unfolding supplier_invoice_def issue_supplier_payment_def
  by (metis issue_invoice_frame prod.collapse)

lemma supplier_invoice_purchases [simp]:
  "purchases (supplier_invoice e p user profile amt meth txn d) = purchases d"
  "profiles (supplier_invoice e p user profile amt meth txn d) = profiles d"
  "products (supplier_invoice e p user profile amt meth txn d) = products d"
  using supplier_invoice_frame [of e p user profile amt meth txn d] by auto

lemma supplier_invoice_wf [simp]: "db_wf d \<Longrightarrow> db_wf (supplier_invoice e p user profile amt meth txn d)"
  unfolding supplier_invoice_def issue_supplier_payment_def by (metis issue_invoice_wf prod.collapse)

lemma received_event_fields [simp]:
  "purchases (received_event p d) = purchases d" "products (received_event p d) = products d"
  "profiles (received_event p d) = profiles d" "stock_movements (received_event p d) = stock_movements d"
  "users (received_event p d) = users d" "db_wf d \<Longrightarrow> db_wf (received_event p d)"
  by (simp_all add: received_event_def emit_defs)

lemma paid_events_fields [simp]:
  "purchases (paid_events p pay meth d) = purchases d" "products (paid_events p pay meth d) = products d"
  "profiles (paid_events p pay meth d) = profiles d" "db_wf d \<Longrightarrow> db_wf (paid_events p pay meth d)"
  by (simp_all add: paid_events_def emit_defs)

lemma create_purchase_follows:
  assumes "create_purchase e supplier pid qty cost nt cb mark_paid meth inst d = (r, d')" "db_wf d"
  shows "db_wf d' \<and> purchases_follow d d'"
proof (cases r)
  case (Inl ex)
  with assms have "d' = d"
    by (auto simp: create_purchase_def Let_def split: if_splits sum.splits option.splits prod.splits)
  with assms(2) show ?thesis by simp
next
  case (Inr j)
  with assms(1) obtain user profile product where G: "0 < qty" "0 \<le> cost"
    "shop_of_purchase d supplier = Inr (user, profile)" "rp_is_wholesaler profile"
    "get_Product d pid = Some product"
    by (auto simp: create_purchase_def Let_def not_le not_less split: if_splits sum.splits option.splits prod.splits)
  define row where "row = (new_SupplierPurchase (env_now e) (u_id user) (p_id product) (p_name product))
                    \<lparr>po_qty := qty, po_unit_cost := cost, po_total := round2 (fmul cost (of_int qty)),
                     po_status := ''pending'', po_note := nt, po_created_by := cb\<rparr>"
  define p where "p = key_SupplierPurchase row d"
  define d0 where "d0 = add_SupplierPurchase row d"
  have fresh: "po_fresh p"
    using G(1,2) by (auto simp: p_def row_def po_fresh_def new_SupplierPurchase_def
        intro!: exI [of _ "fmul cost (of_int qty)"] fmul_nonneg)
  have f0: "purchases_follow d d0"
    unfolding d0_def by (simp, rule rows_follow_insert, use fresh in \<open>simp add: p_def\<close>)
  have wf0: "db_wf d0" using assms(2) by (simp add: d0_def)
  show ?thesis
  proof (cases "inst \<or> mark_paid")
    case False
    then have "purchases d' = purchases d0 \<and> db_wf d'"
      using assms(1) G Inr wf0
      by (auto simp: create_purchase_def Let_def d0_def row_def emit_defs)
    then show ?thesis using f0 by simp
  next
    case True
    then obtain p2 d2 where R: "apply_receive e p profile cb mark_paid (if mark_paid then meth else None) d0 = Inr (p2, d2)"
      "purchases d' = purchases d2" "db_wf d2 \<longrightarrow> db_wf d'"
      using assms(1) G Inr
      by (auto simp: create_purchase_def Let_def d0_def [symmetric] row_def [symmetric] p_def [symmetric]
          split: sum.splits prod.splits if_splits)
    have "get_SupplierPurchase d0 (po_id p) = Some p"
      using assms(2) by (simp add: d0_def p_def)
    moreover have "po_id p2 = po_id p" using apply_receive_move [OF R(1)]
      by (auto elim!: po_move.cases simp: same_terms_def)
    ultimately have "rows_follow po_id po_move po_fresh (purchases d0) (t_put po_id p2 (purchases d0))"
      using wf0 apply_receive_move [OF R(1)] by (intro rows_follow_put) simp_all
    moreover have "purchases d2 = t_put po_id p2 (purchases d0)" "db_wf d2"
      using R(1) wf0 by (auto elim: apply_receiveE)
    ultimately show ?thesis using f0 R(2,3) rows_follow_trans by auto
  qed
qed

text \<open>One order replaced by a move of it.\<close>

lemma put_purchase_follows:
  assumes "db_wf d" "get_SupplierPurchase d k = Some p" "po_move p p2"
    "purchases d' = t_put po_id p2 (purchases d)"
  shows "purchases_follow d d'"
proof -
  have "po_id p2 = k" using assms(3) t_get_key [OF assms(2)] by (auto elim!: po_move.cases simp: same_terms_def)
  then show ?thesis using assms by (auto intro!: rows_follow_put)
qed

lemma accept_purchaseE:
  assumes "accept_purchase e k supplier d = (r, d')"
  obtains (failed) ex where "r = Inl ex" "d' = d"
  | (accepted) p user profile p2 d2 where "get_SupplierPurchase d k = Some p" "po_supplier_user_id p = supplier"
      "shop_of_purchase d supplier = Inr (user, profile)"
      "apply_receive e p profile (Some supplier) False None d = Inr (p2, d2)"
      "r = Inr (purchase_dict d2 p2)" "d' = received_event p2 d2"
  using assms by (auto simp: accept_purchase_def split: option.splits if_splits sum.splits prod.splits)

lemma reject_purchaseE:
  assumes "reject_purchase e k supplier d = (r, d')"
  obtains (failed) ex where "r = Inl ex" "d' = d"
  | (rejected) p where "get_SupplierPurchase d k = Some p" "po_supplier_user_id p = supplier"
      "po_status p = ''pending''"
      "d' = put_SupplierPurchase (p\<lparr>po_status := ''rejected'', po_updated_at := env_now e\<rparr>) d"
  using assms by (auto simp: reject_purchase_def Let_def split: option.splits if_splits)

lemma pay_purchaseE:
  assumes "pay_purchase e k amount meth0 nt rzp d = (r, d')"
  obtains (failed) ex where "r = Inl ex" "d' = d"
  | (already) p where "get_SupplierPurchase d k = Some p" "already_applied rzp p"
      "r = Inr (purchase_dict d p)" "d' = d"
  | (paid) p pay user profile meth p2 d2 where "get_SupplierPurchase d k = Some p"
      "po_status p \<in> {''received'', ''partial''}" "\<not> already_applied rzp p" "0 < purchase_due p"
      "meth = strip (str_lower (or_str meth0 ''upi''))" "meth \<in> set PAY_METHODS"
      "meth = ''razorpay'' \<longrightarrow> truthy_str rzp"
      "pay = round2 (case amount of Some a \<Rightarrow> a | None \<Rightarrow> purchase_due p)"
      "assert_first_or_partial_pay (po_total p) (po_paid_amount p) pay = Inr ()"
      "shop_of_purchase d (po_supplier_user_id p) = Inr (user, profile)"
      "p2 = record_payment e pay meth nt rzp p"
      "d2 = supplier_invoice e p2 user profile pay meth rzp
              (put_RetailerProfile (reduce_payable pay profile) (put_SupplierPurchase p2 d))"
      "r = Inr (purchase_dict d2 p2)" "d' = paid_events p2 pay meth d2"
proof (cases "get_SupplierPurchase d k")
  case None
  with assms show thesis by (intro failed) (auto simp: pay_purchase_def)
next
  case (Some p)
  define meth where "meth = strip (str_lower (or_str meth0 ''upi''))"
  define pay where "pay = round2 (case amount of Some a \<Rightarrow> a | None \<Rightarrow> purchase_due p)"
  show thesis
  proof (cases "already_applied rzp p \<and> po_status p \<in> {''received'', ''partial''}")
    case True
    with assms Some show thesis by (intro already [of p]) (auto simp: pay_purchase_def)
  next
    case nap: False
    show thesis
    proof (cases "po_status p \<notin> {''received'', ''partial''} \<or> purchase_due p \<le> 0 \<or> meth \<notin> set PAY_METHODS
        \<or> (meth = ''razorpay'' \<and> \<not> truthy_str rzp)
        \<or> isl (assert_first_or_partial_pay (po_total p) (po_paid_amount p) pay)
        \<or> isl (shop_of_purchase d (po_supplier_user_id p))")
      case True
      with assms Some nap have "isl r \<and> d' = d"
        by (auto simp: pay_purchase_def Let_def meth_def pay_def split: if_splits sum.splits)
      then show thesis by (intro failed [of "projl r"]) auto
    next
      case False
      then obtain user profile where G: "po_status p \<in> {''received'', ''partial''}" "0 < purchase_due p"
        "meth \<in> set PAY_METHODS" "meth = ''razorpay'' \<longrightarrow> truthy_str rzp"
        "assert_first_or_partial_pay (po_total p) (po_paid_amount p) pay = Inr ()"
        "shop_of_purchase d (po_supplier_user_id p) = Inr (user, profile)"
        by (cases "shop_of_purchase d (po_supplier_user_id p)";
            cases "assert_first_or_partial_pay (po_total p) (po_paid_amount p) pay") auto
      show thesis
        by (rule paid [of p meth pay user profile "record_payment e pay meth nt rzp p"])
          (use assms Some nap G in \<open>auto simp: pay_purchase_def Let_def meth_def pay_def\<close>)
    qed
  qed
qed

lemma record_payment_move:
  assumes "po_status p \<in> {''received'', ''partial''}" "0 < purchase_due p"
    and "assert_first_or_partial_pay (po_total p) (po_paid_amount p) (round2 x) = Inr ()"
  shows "po_move p (record_payment e (round2 x) meth nt rzp p)"
  using assms
  by (intro po_move.pay [where x = x])
    (auto simp: record_payment_def Let_def same_terms_def pay_status_of_def)

lemma pay_purchase_follows:
  assumes "pay_purchase e k amount meth0 nt rzp d = (r, d')" "db_wf d"
  shows "db_wf d' \<and> purchases_follow d d'"
  using assms(1)
proof (cases rule: pay_purchaseE)
  case (paid p pay user profile meth p2 d2)
  define x where "x = (case amount of Some a \<Rightarrow> a | None \<Rightarrow> purchase_due p)"
  have "po_move p p2"
    using record_payment_move [of p x] paid by (simp add: x_def)
  moreover have "purchases d' = t_put po_id p2 (purchases d)" by (simp add: paid)
  ultimately have "purchases_follow d d'" using put_purchase_follows [OF assms(2) paid(1)] by blast
  moreover have "db_wf d'" using assms(2) by (simp add: paid)
  ultimately show ?thesis by simp
qed (use assms(2) in auto)

lemma create_razorpay_payE:
  assumes "create_razorpay_pay g e k amount d = (r, d')"
  obtains (failed) ex where "r = Inl ex" "d' = d"
  | (tagged) p pay j tag where "get_SupplierPurchase d k = Some p" "po_status p \<in> {''received'', ''partial''}"
      "pay = round2 (case amount of Some a \<Rightarrow> a | None \<Rightarrow> purchase_due p)" "0 < purchase_due p"
      "assert_first_or_partial_pay (po_total p) (po_paid_amount p) pay = Inr ()" "r = Inr j"
      "tag = ''rz_pending:'' @ or_str (jstr (jget ''razorpay_order_id'' j)) ''None'' @ '':'' @ fmt2 pay"
      "jget ''amount'' j = JFloat pay"
      "d' = put_SupplierPurchase (p\<lparr>po_note := tagged_note (po_note p) tag, po_updated_at := env_now e\<rparr>) d"
proof (cases r)
  case (Inl ex)
  with assms have "d' = d"
    by (simp add: create_razorpay_pay_def Let_def split: option.splits if_splits sum.splits prod.splits)
  with Inl show thesis by (rule failed)
next
  case (Inr j)
  from assms [unfolded create_razorpay_pay_def Let_def Inr]
  obtain p where p: "get_SupplierPurchase d k = Some p" "po_status p \<in> {''received'', ''partial''}"
    "0 < purchase_due p"
    by (simp split: option.splits if_splits sum.splits prod.splits)
  define pay where "pay = round2 (case amount of Some a \<Rightarrow> a | None \<Rightarrow> purchase_due p)"
  from assms [unfolded create_razorpay_pay_def Let_def Inr] p
  have a: "assert_first_or_partial_pay (po_total p) (po_paid_amount p) pay = Inr ()"
    unfolding pay_def by (simp split: option.splits if_splits sum.splits prod.splits)
  show thesis
    by (rule tagged [OF p(1,2) pay_def p(3) a Inr refl],
        use assms Inr p a in \<open>simp_all add: create_razorpay_pay_def Let_def pay_def tagged_note_def
          split: option.splits if_splits sum.splits prod.splits\<close>) auto
qed

section \<open>Sequences of operations\<close>

inductive purchase_op :: "db \<Rightarrow> db \<Rightarrow> bool" where
  create: "create_purchase e supplier pid qty cost nt cb mark_paid meth inst d = (r, d') \<Longrightarrow> purchase_op d d'"
| accept: "accept_purchase e k supplier d = (r, d') \<Longrightarrow> purchase_op d d'"
| reject: "reject_purchase e k supplier d = (r, d') \<Longrightarrow> purchase_op d d'"
| pay: "pay_purchase e k amount meth nt rzp d = (r, d') \<Longrightarrow> purchase_op d d'"
| order_link: "create_razorpay_pay g e k amount d = (r, d') \<Longrightarrow> purchase_op d d'"
| verify: "verify_razorpay_pay g e k rz_order rz_payment sig amount d = (r, d') \<Longrightarrow> purchase_op d d'"

lemma verify_razorpay_payE:
  assumes "verify_razorpay_pay g e k rz_order rz_payment sig amount d = (r, d')"
  obtains (unpaid) "d' = d"
  | (pays) p where "get_SupplierPurchase d k = Some p" "\<not> already_applied (Some rz_payment) p"
      "verify_payment_signature g rz_order rz_payment sig"
      "pay_purchase e k (case amount of Some a \<Rightarrow> Some a | None \<Rightarrow> pending_amount (po_note p) rz_order)
                 (Some ''razorpay'') (Some (''order '' @ rz_order)) (Some rz_payment) d = (r, d')"
  using assms by (auto simp: verify_razorpay_pay_def split: option.splits if_splits)

lemma purchase_op_follows: "purchase_op d d' \<Longrightarrow> db_wf d \<Longrightarrow> db_wf d' \<and> purchases_follow d d'"
proof (induction rule: purchase_op.induct)
  case (accept e k supplier d r d')
  from accept(1) show ?case
  proof (cases rule: accept_purchaseE)
    case (accepted p user profile p2 d2)
    from accepted(4) have "purchases d2 = t_put po_id p2 (purchases d)" "db_wf d \<longrightarrow> db_wf d2"
      by (auto elim: apply_receiveE)
    with accepted put_purchase_follows [OF accept(2) accepted(1) apply_receive_move [OF accepted(4)]] accept(2)
    show ?thesis by simp
  qed (use accept(2) in auto)
next
  case (reject e k supplier d r d')
  from reject(1) show ?case
  proof (cases rule: reject_purchaseE)
    case (rejected p)
    have "po_move p (p\<lparr>po_status := ''rejected'', po_updated_at := env_now e\<rparr>)"
      using rejected by (auto simp: same_terms_def intro: po_move.reject)
    from put_purchase_follows [OF reject(2) rejected(1) this, of d'] rejected reject(2) show ?thesis by simp
  qed (use reject(2) in auto)
next
  case (order_link g e k amount d r d')
  from order_link(1) show ?case
  proof (cases rule: create_razorpay_payE)
    case (tagged p pay j tag)
    have "po_move p (p\<lparr>po_note := tagged_note (po_note p) tag, po_updated_at := env_now e\<rparr>)"
      using tagged(2) by (auto simp: same_terms_def intro: po_move.tag)
    from put_purchase_follows [OF order_link(2) tagged(1) this, of d'] tagged(9) order_link(2) show ?thesis by simp
  qed (use order_link(2) in auto)
next
  case (verify g e k rz_order rz_payment sig amount d r d')
  from verify(1) show ?case
    by (cases rule: verify_razorpay_payE) (use verify(2) pay_purchase_follows in auto)
qed (auto dest: create_purchase_follows pay_purchase_follows)

interpretation purchase_orders: row_lifecycle db_wf purchase_op purchases po_id po_move po_fresh
  by unfold_locales (auto dest: purchase_op_follows)

section \<open>Amounts\<close>

text \<open>What the payment rule accepts is a whole number of paise within its bounds.\<close>

lemma accepted_payment:
  assumes "assert_first_or_partial_pay (cents t) (cents a) (round2 x) = Inr ()"
    and "0 \<le> t" "t + 2 \<le> money_bound" "0 \<le> a" "a \<le> t + 1"
  obtains n where "round2 x = cents n" "money_ok n" "pay_allowed 1 t a n"
proof -
  define n where "n = to_cents x"
  define y where "y = round2 (cents n)"
  have x: "round2 x = cents n" by (simp add: n_def round2_cents)
  have m: "money_ok t" "money_ok a" "money_ok (t - a)" "money_ok money_bound"
    using assms by (auto simp: money_ok_def money_bound_def)
  have y: "0 < y" "y \<le> fadd (cents (t - a)) eps_paisa"
    using assms(1) m by (auto simp: x y_def assert_first_or_partial_pay_def Let_def round2_is_money
        round2_fsub_cents not_le not_less split: if_splits)
  have "n < money_bound"
  proof (rule ccontr)
    assume "\<not> n < money_bound"
    then have "cents money_bound \<le> y"
      using cents_mono [of money_bound n] round2_mono [of "cents money_bound" "cents n"]
      by (simp add: y_def round2_is_money [OF m(4)])
    with y(2) have "cents money_bound \<le> fadd (cents (t - a)) eps_paisa" by simp
    from cents_paisa_le [OF m(3,4) this] assms(3,4) show False by simp
  qed
  moreover have "0 < n"
  proof (rule ccontr)
    assume "\<not> 0 < n"
    then have "y \<le> 0" using round2_mono [OF cents_mono [of n 0]] by (simp add: y_def)
    with y(1) show False by simp
  qed
  ultimately have n: "money_ok n" by (simp add: money_ok_def)
  from assert_pay_sound [OF m(1,2) n m(3) assms(2)] assms(1) x n show thesis
    by (intro that [of n]) simp_all
qed

text \<open>A purchase whose books are right, in paise.  Totals that reach the bound on exact float
  arithmetic (about eleven billion rupees) are left out.\<close>

definition po_sound :: "SupplierPurchase \<Rightarrow> bool" where
  "po_sound p \<longleftrightarrow> (let t = to_cents (po_total p); a = to_cents (po_paid_amount p); st = po_status p in
     0 \<le> t
     \<and> (t + 2 \<le> money_bound \<longrightarrow> po_total p = cents t \<and> po_paid_amount p = cents a \<and> 0 \<le> a \<and> a \<le> t + 1
          \<and> st \<in> set [''pending'', ''rejected'', ''received'', ''partial'', ''paid'']
          \<and> (st \<in> set [''pending'', ''rejected'', ''received''] \<longrightarrow> a = 0)
          \<and> (st = ''partial'' \<longrightarrow> 0 < a \<and> a < t)
          \<and> (st = ''paid'' \<longrightarrow> t \<le> a)))"

lemma to_cents_zero [simp]: "to_cents 0 = 0"
  by (simp add: to_cents_def)

lemma to_cents_nonneg: "0 \<le> x \<Longrightarrow> 0 \<le> to_cents x"
  unfolding to_cents_def using rne_mono [of 0 "x * 100"] by simp

lemma to_cents_mono: "x \<le> y \<Longrightarrow> to_cents x \<le> to_cents y"
  unfolding to_cents_def by (intro rne_mono) simp

lemma to_cents_round2:
  assumes "to_cents (round2 x) < money_bound" "0 \<le> x" shows "to_cents (round2 x) = to_cents x"
proof -
  have "to_cents x < money_bound"
  proof (rule ccontr)
    assume "\<not> to_cents x < money_bound"
    then have "to_cents (cents money_bound) \<le> to_cents (round2 x)"
      by (simp add: round2_cents to_cents_mono cents_mono)
    then show False using assms(1) by (simp add: money_ok_def money_bound_def)
  qed
  then show ?thesis using to_cents_nonneg [OF assms(2)] by (simp add: round2_cents money_ok_def)
qed

lemma po_fresh_sound: "po_fresh p \<Longrightarrow> po_sound p"
proof -
  assume "po_fresh p"
  then obtain x where x: "0 \<le> x" "po_total p = round2 x" "po_status p = ''pending''" "po_paid_amount p = 0"
    by (auto simp: po_fresh_def)
  have "0 \<le> to_cents (po_total p)" unfolding x(2) by (intro to_cents_nonneg round2_nonneg x(1))
  moreover have "po_total p = cents (to_cents (po_total p))" if "to_cents (po_total p) < money_bound"
    using to_cents_round2 [OF that [unfolded x(2)] x(1)] by (simp add: x(2) round2_cents)
  ultimately show ?thesis using x(3,4) by (auto simp: po_sound_def Let_def)
qed

text \<open>A payment in paise.\<close>

lemma pay_sound:
  assumes "0 \<le> t" "t + 2 \<le> money_bound" "0 \<le> a" "a \<le> t + 1"
    "po_total p = cents t" "po_paid_amount p = cents a" "0 < purchase_due p"
    "assert_first_or_partial_pay (po_total p) (po_paid_amount p) (round2 x) = Inr ()"
    "po_total p' = po_total p" "po_paid_amount p' = round2 (fadd (po_paid_amount p) (round2 x))"
    "po_status p' = pay_status_of p'"
  obtains n where "round2 x = cents n" "pay_allowed 1 t a n" "a < t" "po_paid_amount p' = cents (a + n)"
    "money_ok (a + n)" "po_status p' = (if t \<le> a + n then ''paid'' else ''partial'')"
proof -
  from accepted_payment [OF assms(8) [unfolded assms(5,6)] assms(1-4)] obtain n where
    n: "round2 x = cents n" "money_ok n" "pay_allowed 1 t a n" by blast
  have m: "money_ok t" "money_ok a" "money_ok (t - a)" using assms(1-4) by (auto simp: money_ok_def)
  have "0 < t - a"
    using assms(7) m cents_less_iff [OF money_ok_simps(1) m(3)]
    by (simp add: purchase_due_def assms(5,6) round2_fsub_cents)
  moreover have an: "money_ok (a + n)" using n(3) assms(2,3) by (auto simp: pay_allowed_def money_ok_def)
  moreover have "po_paid_amount p' = cents (a + n)"
    using assms(10) n m by (simp add: assms(6) round2_fadd_cents)
  ultimately show thesis
    using n assms(11) cents_milli_ge [OF an m(1)]
    by (intro that [of n]) (simp_all add: pay_status_of_def assms(5,9))
qed

lemma po_move_sound:
  assumes "po_move p p'" "po_sound p" shows "po_sound p'"
  using assms(1)
proof cases
  case (pay x)
  define t a where "t = to_cents (po_total p)" and "a = to_cents (po_paid_amount p)"
  have tt: "po_total p' = po_total p" using pay(1) by (simp add: same_terms_def)
  show ?thesis
  proof (cases "t + 2 \<le> money_bound")
    case True
    with assms(2) have s: "0 \<le> t" "t + 2 \<le> money_bound" "0 \<le> a" "a \<le> t + 1" "po_total p = cents t" "po_paid_amount p = cents a"
      by (simp_all add: po_sound_def Let_def t_def a_def)
    from pay_sound [OF s pay(3,4) tt pay(5,6)] obtain n where
      "pay_allowed 1 t a n" "a < t" "po_paid_amount p' = cents (a + n)"
      "money_ok (a + n)" "po_status p' = (if t \<le> a + n then ''paid'' else ''partial'')" by blast
    moreover have "to_cents (cents t) = t" using s by (simp add: money_ok_def)
    ultimately show ?thesis using s
      by (simp add: po_sound_def Let_def tt pay_allowed_def)
  next
    case False
    with assms(2) show ?thesis by (simp add: po_sound_def Let_def tt t_def [symmetric])
  qed
qed (use assms(2) in \<open>auto simp: po_sound_def Let_def same_terms_def\<close>)

section \<open>Properties\<close>

definition po_later :: "string \<Rightarrow> string list" where
  "po_later s = (if s = ''pending'' then [''pending'', ''rejected'', ''received'', ''partial'', ''paid'']
     else if s = ''received'' then [''received'', ''partial'', ''paid'']
     else if s = ''partial'' then [''partial'', ''paid''] else [s])"

lemma pay_status_cases: "pay_status_of p = ''paid'' \<or> pay_status_of p = ''partial''"
  by (simp add: pay_status_of_def)

lemma po_moves_later:
  "po_move\<^sup>*\<^sup>* p p' \<Longrightarrow> same_terms p p' \<and> po_status p' \<in> set (po_later (po_status p))
     \<and> (po_status p \<notin> {''pending'', ''received'', ''partial''} \<longrightarrow> p' = p)"
proof (induction rule: rtranclp_induct)
  case base
  show ?case by (auto simp: same_terms_def po_later_def)
next
  case (step p1 p2)
  from step(2) have "same_terms p1 p2" "po_status p1 \<in> {''pending'', ''received'', ''partial''}"
    "po_status p2 \<in> set (po_later (po_status p1))"
    using pay_status_cases [of p2] by (auto elim!: po_move.cases simp: po_later_def)
  then show ?case using step(3) by (auto simp: same_terms_def po_later_def split: if_splits)
qed

text \<open>Property C22 (purchase_lifecycle): through any sequence of purchase operations a purchase order keeps its
  supplier, product, quantity, unit cost and total, its status only moves forward (pending to rejected,
  or to received, partial and paid), and an order that is paid or rejected is never changed again.\<close>

theorem purchase_lifecycle:
  assumes "purchase_op\<^sup>*\<^sup>* d d'" "db_wf d" "get_SupplierPurchase d k = Some p"
  shows "\<exists>p'. get_SupplierPurchase d' k = Some p' \<and> same_terms p p'
    \<and> po_status p' \<in> set (po_later (po_status p))
    \<and> (po_status p \<in> {''paid'', ''rejected''} \<longrightarrow> p' = p)"
proof -
  from purchase_orders.row_history [OF assms] obtain p' where
    "get_SupplierPurchase d' k = Some p'" "po_move\<^sup>*\<^sup>* p p'" by blast
  with po_moves_later [OF this(2)] show ?thesis by auto
qed

text \<open>Property C12 (purchase_books_sound): in a database reached from one with sound purchase books every order
  (below the float bound) has paid between nothing and its total plus one paisa, nothing while it is
  pending, rejected or just received, part of the total while partial, and at least the total when
  paid.\<close>

theorem purchase_books_sound:
  assumes "purchase_op\<^sup>*\<^sup>* d d'" "db_wf d" "\<forall>p \<in> set (rows (purchases d)). po_sound p"
  shows "\<forall>p \<in> set (rows (purchases d')). po_sound p"
  using purchase_orders.row_invariant [OF assms(1,2), of po_sound] assms(3) po_fresh_sound po_move_sound by blast

section \<open>Receiving\<close>

lemma fl_upper: "0 \<le> x \<Longrightarrow> fl x \<le> x * (1 + 1 / 2 ^ 53)"
  using fl_error [of x] by (simp add: abs_if algebra_simps split: if_splits)

lemma fl_lower: "0 \<le> x \<Longrightarrow> x * (1 - 1 / 2 ^ 53) \<le> fl x"
  using fl_error [of x] by (simp add: abs_if algebra_simps split: if_splits)

text \<open>A weighted mean computed in floats: between the bounds of its terms, up to the rounding.\<close>

lemma fl_mean_upper:
  assumes "0 \<le> x" "0 \<le> y" "x \<le> h" "y \<le> h" "0 \<le> (m :: int)" "0 \<le> n" "0 < m + n"
  shows "fdiv (fadd (fmul x (of_int m)) (fmul y (of_int n))) (of_int (m + n)) \<le> h * (1 + 1 / 2 ^ 53) ^ 3"
proof -
  define u where "u = 1 + (1 :: rat) / 2 ^ 53"
  have u: "0 < u" by (simp add: u_def)
  have mn: "0 < (of_int (m + n) :: rat)" using assms(7) by (metis of_int_0_less_iff)
  have t: "fmul z (of_int k) \<le> h * of_int k * u" if "0 \<le> z" "z \<le> h" "0 \<le> k" for z k
  proof -
    have "fmul z (of_int k) \<le> z * of_int k * u" unfolding fmul_def u_def using that by (intro fl_upper) simp
    also have "\<dots> \<le> h * of_int k * u" using that u by (intro mult_right_mono) auto
    finally show ?thesis .
  qed
  define s where "s = fadd (fmul x (of_int m)) (fmul y (of_int n))"
  have p: "0 \<le> fmul x (of_int m)" "0 \<le> fmul y (of_int n)" using assms by (simp_all add: fmul_nonneg)
  have "s \<le> (fmul x (of_int m) + fmul y (of_int n)) * u"
    unfolding s_def fadd_def u_def using p by (intro fl_upper) simp
  also have "\<dots> \<le> (h * of_int m * u + h * of_int n * u) * u"
    using t [OF assms(1,3,5)] t [OF assms(2,4,6)] u by (intro mult_right_mono) auto
  also have "\<dots> = of_int (m + n) * (h * u ^ 2)" by (simp add: algebra_simps power2_eq_square)
  finally have "s / of_int (m + n) \<le> h * u ^ 2" using mn by (simp add: divide_le_eq mult.commute)
  moreover have "0 \<le> s" using p by (simp add: s_def fadd_nonneg)
  ultimately have "fdiv s (of_int (m + n)) \<le> h * u ^ 2 * u"
    using fl_upper [of "s / of_int (m + n)"] mn u unfolding fdiv_def u_def [symmetric]
    by (meson divide_nonneg_pos mult_right_mono less_imp_le order_trans)
  then show ?thesis by (simp add: s_def u_def power3_eq_cube power2_eq_square)
qed

lemma fl_mean_lower:
  assumes "0 \<le> l" "l \<le> x" "l \<le> y" "0 \<le> (m :: int)" "0 \<le> n" "0 < m + n"
  shows "l * (1 - 1 / 2 ^ 53) ^ 3 \<le> fdiv (fadd (fmul x (of_int m)) (fmul y (of_int n))) (of_int (m + n))"
proof -
  define u where "u = 1 - (1 :: rat) / 2 ^ 53"
  have u: "0 < u" by (simp add: u_def)
  have mn: "0 < (of_int (m + n) :: rat)" using assms(6) by (metis of_int_0_less_iff)
  have t: "l * of_int k * u \<le> fmul z (of_int k)" if "l \<le> z" "0 \<le> k" for z k
  proof -
    have "l * of_int k * u \<le> z * of_int k * u" using that u by (intro mult_right_mono) auto
    also have "\<dots> \<le> fmul z (of_int k)" unfolding fmul_def u_def using that assms(1) by (intro fl_lower) simp
    finally show ?thesis .
  qed
  define s where "s = fadd (fmul x (of_int m)) (fmul y (of_int n))"
  have p: "0 \<le> fmul x (of_int m)" "0 \<le> fmul y (of_int n)" using assms by (simp_all add: fmul_nonneg)
  have "of_int (m + n) * (l * u ^ 2) = (l * of_int m * u + l * of_int n * u) * u"
    by (simp add: algebra_simps power2_eq_square)
  also have "\<dots> \<le> (fmul x (of_int m) + fmul y (of_int n)) * u"
    using t [OF assms(2,4)] t [OF assms(3,5)] u by (intro mult_right_mono) auto
  also have "\<dots> \<le> s" unfolding s_def fadd_def u_def using p by (intro fl_lower) simp
  finally have "l * u ^ 2 \<le> s / of_int (m + n)" using mn by (simp add: le_divide_eq mult.commute)
  then have "l * u ^ 2 * u \<le> s / of_int (m + n) * u" using u by (intro mult_right_mono) auto
  also have "\<dots> \<le> fdiv s (of_int (m + n))"
    unfolding fdiv_def u_def using p mn by (intro fl_lower) (simp add: s_def fadd_nonneg)
  finally show ?thesis by (simp add: s_def u_def power3_eq_cube power2_eq_square)
qed

lemma to_cents_range:
  assumes "of_int l / 100 - 1 / 250 \<le> x" "x \<le> of_int h / 100 + 1 / 250"
  shows "l \<le> to_cents x \<and> to_cents x \<le> h"
proof -
  have "rne (of_int l - 2 / 5) = l" "rne (of_int h + 2 / 5) = h" by (simp_all add: rne_near)
  moreover have "rne (of_int l - 2 / 5) \<le> rne (x * 100)" "rne (x * 100) \<le> rne (of_int h + 2 / 5)"
    using assms by (auto intro!: rne_mono)
  ultimately show ?thesis by (simp add: to_cents_def)
qed

text \<open>The average cost a receipt writes to a product is a whole number of
  paise between the smaller and the larger of the old and the new unit cost, for every non-negative
  stock and every positive quantity.\<close>

theorem average_cost_between:
  assumes "0 \<le> p_stock_qty product" "0 < qty" "or_zero (p_purchase_cost product) = cents c"
    and "0 \<le> l" "l \<le> c" "l \<le> c'" "c \<le> h" "c' \<le> h" "money_ok h"
  shows "\<exists>k. average_cost product qty (cents c') = cents k \<and> l \<le> k \<and> k \<le> h"
proof -
  define m where "m = p_stock_qty product"
  define s where "s = fdiv (fadd (fmul (cents c) (of_int m)) (fmul (cents c') (of_int qty))) (of_int (m + qty))"
  have ok: "money_ok l" using assms by (auto simp: money_ok_def)
  have z: "0 \<le> cents l" "cents l \<le> cents c" "cents l \<le> cents c'" "cents c \<le> cents h" "cents c' \<le> cents h"
    using assms by (auto intro: cents_mono cents_nonneg)
  have b: "cents h \<le> 2 ^ 34" "cents l \<le> 2 ^ 34" using cents_small [OF assms(9)] cents_small [OF ok] by simp_all
  have "s \<le> cents h * (1 + 1 / 2 ^ 53) ^ 3"
    unfolding s_def using z assms(1,2) by (intro fl_mean_upper) (auto simp: m_def)
  also have "\<dots> \<le> cents h + cents h * (4 / 2 ^ 53)"
    using z by (simp add: power3_eq_cube algebra_simps)
  finally have up: "s \<le> of_int h / 100 + 1 / 250"
    using b(1) cents_error [of h] assms(9) by (simp add: money_ok_def money_bound_def abs_if split: if_splits)
  have "cents l - cents l * (4 / 2 ^ 53) \<le> cents l * (1 - 1 / 2 ^ 53) ^ 3"
    using z by (simp add: power3_eq_cube algebra_simps)
  also have "\<dots> \<le> s" unfolding s_def using z assms(1,2) by (intro fl_mean_lower) (auto simp: m_def)
  finally have lo: "of_int l / 100 - 1 / 250 \<le> s"
    using b(2) cents_error [of l] ok by (simp add: money_ok_def money_bound_def abs_if split: if_splits)
  have "average_cost product qty (cents c') = round2 s"
    using assms(1-3) by (simp add: average_cost_def Let_def s_def m_def)
  then show ?thesis using to_cents_range [OF lo up] round2_cents by auto
qed

text \<open>Property C23 (accept_receives_once): accepting a pending purchase adds its quantity to the product's stock
  and leaves every other product alone, writes one stock movement of that quantity, raises the shop's
  payable balance by the total and marks the purchase received and unpaid; accepting it again is an
  error that changes nothing.\<close>

theorem accept_receives_once:
  assumes "accept_purchase e k supplier d = (Inr j, d')" "db_wf d"
  shows "\<exists>p q s. get_SupplierPurchase d k = Some p \<and> po_status p = ''pending''
      \<and> get_Product d (po_product_id p) = Some q \<and> profile_of d supplier = Some s
      \<and> get_SupplierPurchase d' k = Some (p\<lparr>po_status := ''received'', po_updated_at := env_now e\<rparr>)
      \<and> map_option p_stock_qty (get_Product d' (po_product_id p)) = Some (p_stock_qty q + po_qty p)
      \<and> (\<forall>i. i \<noteq> po_product_id p \<longrightarrow> get_Product d' i = get_Product d i)
      \<and> map sm_change_qty (rows (stock_movements d')) = map sm_change_qty (rows (stock_movements d)) @ [po_qty p]
      \<and> profile_of d' supplier = Some (s\<lparr>rp_payable_balance := round2 (fadd (rp_payable_balance s) (po_total p))\<rparr>)
      \<and> accept_purchase e2 k supplier d' = (Inl (bad_request ''Cannot accept purchase in status received''), d')"
proof -
  from assms(1) obtain p user s p2 d2 where A: "get_SupplierPurchase d k = Some p" "po_supplier_user_id p = supplier"
    "shop_of_purchase d supplier = Inr (user, s)" "apply_receive e p s (Some supplier) False None d = Inr (p2, d2)"
    "d' = received_event p2 d2"
    by (cases rule: accept_purchaseE) auto
  from A(4) obtain q where R: "po_status p = ''pending''" "get_Product d (po_product_id p) = Some q"
    "p2 = p\<lparr>po_status := ''received'', po_updated_at := env_now e\<rparr>"
    "purchases d2 = t_put po_id p2 (purchases d)"
    "products d2 = t_put p_id (receive_product e (po_qty p) (po_unit_cost p) q) (products d)"
    "stock_movements d2 = stock_movements (add_StockMovement (receive_movement e p s (Some supplier)) d)"
    "profiles d2 = t_put rp_id (s\<lparr>rp_payable_balance := round2 (fadd (rp_payable_balance s) (po_total p))\<rparr>) (profiles d)"
    by (cases rule: apply_receiveE) auto
  have prof: "profile_of d supplier = Some s"
    using A(3) by (auto simp: shop_of_purchase_def split: option.splits if_splits)
  have "profile_of d' supplier = Some (s\<lparr>rp_payable_balance := round2 (fadd (rp_payable_balance s) (po_total p))\<rparr>)"
    using prof t_first_SomeD [OF prof [unfolded profile_of_def]] assms(2)
    by (auto simp: profile_of_def A(5) R(7) intro!: t_first_put_same)
  moreover have "get_SupplierPurchase d' k = Some p2"
    using A(1) t_get_key [OF A(1)] by (simp add: A(5) R(3,4))
  moreover have "accept_purchase e2 k supplier d' = (Inl (bad_request ''Cannot accept purchase in status received''), d')"
    using calculation(2) A(2) by (simp add: accept_purchase_def R(3))
  moreover have "p_id q = po_product_id p" using t_get_key [OF R(2)] .
  then have "map_option p_stock_qty (get_Product d' (po_product_id p)) = Some (p_stock_qty q + po_qty p)"
    "\<forall>i. i \<noteq> po_product_id p \<longrightarrow> get_Product d' i = get_Product d i"
    using R(2) by (simp_all add: A(5) R(5) receive_product_def Let_def)
  moreover have "map sm_change_qty (rows (stock_movements d')) = map sm_change_qty (rows (stock_movements d)) @ [po_qty p]"
    by (simp add: A(5) R(6) rows_t_insert receive_movement_def)
  ultimately show ?thesis using A(1) R(1-3) prof by blast
qed

lemma paid_note_applied:
  assumes "rz \<noteq> []" "last rz \<notin> {CHR '' '', CHR ''|''}"
  shows "\<exists>n. paid_note old pay nt (Some rz) = Some n \<and> n \<noteq> [] \<and> contains (''rzp:'' @ rz) n"
proof -
  define z where "z = ''aid '' @ repr_paise pay @ '': '' @ (if truthy_str nt then the nt @ ''; '' else [])"
  define x where "x = or_str old [] @ '' | ''"
  have "paid_note old pay nt (Some rz) = Some (strip_chars '' |'' (x @ CHR ''P'' # z @ ''rzp:'' @ rz))"
    using assms(1) by (simp add: paid_note_def Let_def z_def x_def)
  also have "strip_chars '' |'' (x @ CHR ''P'' # z @ ''rzp:'' @ rz)
      = (dropWhile (\<lambda>c. c \<in> set '' |'') x @ CHR ''P'' # z) @ (''rzp:'' @ rz) @ []"
    using assms by (subst strip_chars_keep) auto
  finally show ?thesis using contains_append [of "''rzp:'' @ rz" "dropWhile (\<lambda>c. c \<in> set '' |'') x @ CHR ''P'' # z" "[]"]
    by auto
qed

text \<open>A gateway payment that was applied to a purchase is not applied twice:
  verifying the same payment id again, with whatever signature, amount and gateway order, succeeds and
  changes nothing.\<close>

theorem gateway_payment_once:
  assumes "verify_razorpay_pay g e k rz_order rz_payment sig amount d = (Inr j, d')" "db_wf d"
    and "rz_payment \<noteq> []" "last rz_payment \<notin> {CHR '' '', CHR ''|''}"
  shows "\<exists>j'. verify_razorpay_pay g2 e2 k rz_order2 rz_payment sig2 amount2 d' = (Inr j', d')"
proof -
  have "\<exists>p'. get_SupplierPurchase d' k = Some p' \<and> already_applied (Some rz_payment) p'"
  proof (cases "\<exists>p. get_SupplierPurchase d k = Some p \<and> already_applied (Some rz_payment) p")
    case True
    then show ?thesis using assms(1) by (auto simp: verify_razorpay_pay_def)
  next
    case False
    then obtain p where p: "get_SupplierPurchase d k = Some p" "\<not> already_applied (Some rz_payment) p"
      "pay_purchase e k (case amount of Some a \<Rightarrow> Some a | None \<Rightarrow> pending_amount (po_note p) rz_order)
                 (Some ''razorpay'') (Some (''order '' @ rz_order)) (Some rz_payment) d = (Inr j, d')"
      using assms(1) by (auto simp: verify_razorpay_pay_def split: option.splits if_splits)
    from p(3) show ?thesis
    proof (cases rule: pay_purchaseE)
      case (paid p' pay user profile meth p2 d2)
      have "get_SupplierPurchase d' k = Some p2"
        using p(1) t_get_key [OF paid(1)] paid by (simp add: record_payment_def Let_def)
      moreover have "already_applied (Some rz_payment) p2"
        using paid_note_applied [OF assms(3,4), of "po_note p'" pay "Some (''order '' @ rz_order)"]
        by (auto simp: already_applied_def paid(11) record_payment_def Let_def assms(3))
      ultimately show ?thesis by blast
    qed (use p in auto)
  qed
  then show ?thesis by (auto simp: verify_razorpay_pay_def)
qed

text \<open>Property C24 (tagged_amount_roundtrip): the amount a gateway order was created for is the amount a later
  verification without an amount reads back from the purchase's note, to the paisa.\<close>

theorem tagged_amount_roundtrip:
  assumes "create_razorpay_pay g e k amount d = (Inr j, d')"
    and "get_SupplierPurchase d k = Some p" "po_sound p" "to_cents (po_total p) + 2 \<le> money_bound"
    and "jget ''razorpay_order_id'' j = JStr oid" "oid \<noteq> []" "\<forall>c \<in> set oid. c \<noteq> CHR '' '' \<and> c \<noteq> CHR ''|''"
    and "\<not> contains (''rz_pending:'' @ oid @ '':'') (or_str (po_note p) [])"
  shows "\<exists>n p'. jget ''amount'' j = JFloat (cents n) \<and> get_SupplierPurchase d' k = Some p'
    \<and> pending_amount (po_note p') oid = Some (cents n)"
  using assms(1)
proof (cases rule: create_razorpay_payE)
  case (tagged q pay j' tag)
  define t a where "t = to_cents (po_total p)" and "a = to_cents (po_paid_amount p)"
  have q: "q = p" "j' = j" using tagged(1,6) assms(2) by simp_all
  have s: "0 \<le> t" "t + 2 \<le> money_bound" "0 \<le> a" "a \<le> t + 1" "po_total p = cents t" "po_paid_amount p = cents a"
    using assms(3,4) by (simp_all add: po_sound_def Let_def t_def a_def)
  have "assert_first_or_partial_pay (cents t) (cents a)
      (round2 (case amount of Some a \<Rightarrow> a | None \<Rightarrow> purchase_due p)) = Inr ()"
    using tagged(5) unfolding tagged(3) q(1) s(5,6) .
  from accepted_payment [OF this s(1-4)] obtain n where n: "pay = cents n" "money_ok n" "pay_allowed 1 t a n"
    unfolding tagged(3) q(1) by blast
  have "get_SupplierPurchase d' k = Some (p\<lparr>po_note := tagged_note (po_note p) tag, po_updated_at := env_now e\<rparr>)"
    using t_get_key [OF assms(2)] assms(2) by (simp add: tagged(9) q)
  moreover have "tag = ''rz_pending:'' @ oid @ '':'' @ fmt2 (cents n)"
    using tagged(7) assms(5,6) by (simp add: q n(1) jstr_def or_str_def)
  moreover have "0 \<le> n" using n(3) by (simp add: pay_allowed_def)
  ultimately show ?thesis
    using tagged(8) pending_amount_tagged [OF n(2) _ assms(7,8)] n(1) by (auto simp: q)
qed simp

section \<open>Worked examples\<close>

text \<open>A wholesaler with one purchase waiting for acceptance and one that was received.\<close>

definition miller :: User where
  "miller = (new_User 0 ''9876500000'')\<lparr>u_id := 7, u_role := UR_RETAILER\<rparr>"

definition mill :: RetailerProfile where
  "mill = (new_RetailerProfile 0 7 ''Ganga Mills'')\<lparr>rp_id := 1, rp_is_wholesaler := True\<rparr>"

definition flour :: Product where
  "flour = (new_Product 0 1 ''Flour'' ''flour'')
     \<lparr>p_id := 1, p_purchase_cost := Some (cents 2000), p_stock_qty := 10\<rparr>"

definition pending_order :: SupplierPurchase where
  "pending_order = (new_SupplierPurchase 0 7 1 ''Flour'')
     \<lparr>po_id := 1, po_qty := 5, po_unit_cost := cents 2600, po_total := cents 13000, po_status := ''pending''\<rparr>"

definition received_order :: SupplierPurchase where
  "received_order = (new_SupplierPurchase 0 7 1 ''Flour'')
     \<lparr>po_id := 2, po_qty := 50, po_unit_cost := cents 2000, po_total := cents 100000, po_status := ''received''\<rparr>"

definition mill_db :: db where
  "mill_db = empty_db\<lparr>users := \<lparr>rows = [miller], next_id = 8\<rparr>, profiles := \<lparr>rows = [mill], next_id = 2\<rparr>,
     products := \<lparr>rows = [flour], next_id = 2\<rparr>,
     purchases := \<lparr>rows = [pending_order, received_order], next_id = 3\<rparr>\<rparr>"

lemma mill_rows [simp]:
  "u_id miller = 7" "u_role miller = UR_RETAILER" "rp_id mill = 1" "rp_user_id mill = 7" "rp_is_wholesaler mill"
  "p_id flour = 1" "p_stock_qty flour = 10" "p_purchase_cost flour = Some (cents 2000)"
  "po_id pending_order = 1" "po_status pending_order = ''pending''" "po_supplier_user_id pending_order = 7"
  "po_product_id pending_order = 1" "po_total pending_order = cents 13000" "po_paid_amount pending_order = 0"
  "po_qty pending_order = 5"
  "po_id received_order = 2" "po_status received_order = ''received''" "po_supplier_user_id received_order = 7"
  "po_total received_order = cents 100000" "po_paid_amount received_order = 0" "po_note received_order = None"
  by (simp_all add: miller_def new_User_def mill_def new_RetailerProfile_def flour_def new_Product_def
      pending_order_def received_order_def new_SupplierPurchase_def)

lemma mill_db_facts [simp]:
  "db_wf mill_db" "get_User mill_db 7 = Some miller" "profile_of mill_db 7 = Some mill"
  "get_Product mill_db 1 = Some flour" "get_SupplierPurchase mill_db 1 = Some pending_order"
  "get_SupplierPurchase mill_db 2 = Some received_order"
  "rows (purchases mill_db) = [pending_order, received_order]"
proof -
  show "db_wf mill_db" unfolding mill_db_def
    by (intro db_wf_update db_wf_empty; simp add: t_wf_def)
qed (simp_all add: mill_db_def t_get_def profile_of_def t_first_def)

lemma sample_shop [simp]: "shop_of_purchase mill_db 7 = Inr (miller, mill)"
  by (simp add: shop_of_purchase_def)

lemma sample_accept: "\<exists>j d'. accept_purchase sample_env 1 7 mill_db = (Inr j, d')"
  by (simp add: accept_purchase_def apply_receive_def Let_def)

lemma accept_receives_once_witness:
  "\<exists>j d'. accept_purchase sample_env 1 7 mill_db = (Inr j, d')
     \<and> map_option p_stock_qty (get_Product d' 1) = Some 15
     \<and> accept_purchase sample_env 1 7 d' = (Inl (bad_request ''Cannot accept purchase in status received''), d')"
proof -
  obtain j d' where r: "accept_purchase sample_env 1 7 mill_db = (Inr j, d')" using sample_accept by blast
  from accept_receives_once [OF r mill_db_facts(1), of sample_env] r show ?thesis by auto
qed

lemma sample_orders_sound: "\<forall>p \<in> set (rows (purchases mill_db)). po_sound p"
  by (simp add: po_sound_def Let_def money_ok_def money_bound_def)

lemma purchase_lifecycle_witness:
  "\<exists>p'. get_SupplierPurchase (snd (accept_purchase sample_env 1 7 mill_db)) 1 = Some p'
     \<and> same_terms pending_order p' \<and> po_status p' \<in> set (po_later ''pending'')"
proof -
  have "purchase_op mill_db (snd (accept_purchase sample_env 1 7 mill_db))"
    by (rule purchase_op.accept) (rule prod.collapse [symmetric])
  from purchase_lifecycle [OF r_into_rtranclp [of purchase_op, OF this] mill_db_facts(1,5)]
  show ?thesis by auto
qed

lemma purchase_books_sound_witness:
  "list_all po_sound (rows (purchases (snd (accept_purchase sample_env 1 7 mill_db))))"
proof -
  have "purchase_op mill_db (snd (accept_purchase sample_env 1 7 mill_db))"
    by (rule purchase_op.accept) (rule prod.collapse [symmetric])
  from purchase_books_sound [OF r_into_rtranclp [of purchase_op, OF this] mill_db_facts(1) sample_orders_sound]
  show ?thesis by (simp add: list_all_iff)
qed

lemma average_cost_between_witness:
  "\<exists>k. average_cost flour 5 (cents 2600) = cents k \<and> 2000 \<le> k \<and> k \<le> 2600"
  by (rule average_cost_between [where c = 2000]) (simp_all add: money_ok_def money_bound_def)

lemma sample_pay_ok: "assert_first_or_partial_pay (cents 100000) 0 (cents 90000) = Inr ()"
  using assert_pay_complete [of 100000 0 90000]
  by (simp add: money_ok_def money_bound_def pay_allowed_def first_pay_paise_def)

lemma sample_due: "purchase_due received_order = cents 100000"
  using round2_fsub_cents [of 100000 0] by (simp add: purchase_due_def money_ok_def money_bound_def)

lemma sample_due_pos: "0 < cents 100000" "round2 (cents 90000) = cents 90000"
  using cents_less_iff [of 0 100000] round2_is_money [of 90000] by (simp_all add: money_ok_def money_bound_def)

lemma gateway_payment_once_witness:
  "\<exists>j d' j'. verify_razorpay_pay test_gateway sample_env 2 ''order_A'' ''pay_1'' ''s3:order_A|pay_1'' (Some (cents 90000)) mill_db
       = (Inr j, d')
     \<and> verify_razorpay_pay test_gateway sample_env 2 ''order_B'' ''pay_1'' [] None d' = (Inr j', d')"
proof -
  have "strip (str_lower ''razorpay'') = ''razorpay''" by code_simp
  then obtain j d' where r: "verify_razorpay_pay test_gateway sample_env 2 ''order_A'' ''pay_1'' ''s3:order_A|pay_1''
      (Some (cents 90000)) mill_db = (Inr j, d')"
    by (simp add: verify_razorpay_pay_def pay_purchase_def already_applied_def verify_payment_signature_def
        test_gateway_def sample_due sample_due_pos sample_pay_ok PAY_METHODS_def Let_def or_str_def not_le)
  from gateway_payment_once [OF r mill_db_facts(1), of test_gateway sample_env "''order_B''" "[]" None] r
  show ?thesis by auto
qed

lemma sample_gateway_order:
  "create_order test_gateway amt r nt = Inr (JObj [(''razorpay_order_id'', JStr ''order_A''),
     (''amount'', JInt (gateway_paise amt)), (''currency'', JStr ''INR''), (''key_id'', JStr ''rzp_test''),
     (''receipt'', JNull), (''status'', JNull)])"
  by (simp add: create_order_def gw_call_def razorpay_configured_def test_gateway_def jindex_def jget_or_def jopt_str_def)

lemma sample_gateway_link: "\<exists>j. create_payment_link test_gateway amt de rf cn cp cb nt = Inr j"
  by (simp add: create_payment_link_def gw_call_def razorpay_configured_def test_gateway_def Let_def)

lemma sample_link:
  "\<exists>j d'. create_razorpay_pay test_gateway sample_env 2 (Some (cents 90000)) mill_db = (Inr j, d')
     \<and> jget ''razorpay_order_id'' j = JStr ''order_A'' \<and> jget ''amount'' j = JFloat (cents 90000)"
proof -
  define rf nt where "rf = take 40 (bill_no received_order @ ''-'' @ show_int (env_now sample_env div us_seconds 1))"
    and "nt = razorpay_notes received_order (cents 90000)"
  obtain link where l: "create_payment_link test_gateway (cents 90000) (''Pay supplier '' @ rp_shop_name mill @ '' '' @ middot @ '' ''
                         @ bill_no received_order) rf None None None nt = Inr link"
    using sample_gateway_link by blast
  have "razorpay_configured test_gateway" by (simp add: razorpay_configured_def test_gateway_def)
  with l sample_due_pos sample_pay_ok show ?thesis
    unfolding create_razorpay_pay_def Let_def rf_def nt_def
    by (simp add: sample_due sample_gateway_order not_le [symmetric])
qed

lemma tagged_amount_roundtrip_witness:
  "\<exists>j d' p'. create_razorpay_pay test_gateway sample_env 2 (Some (cents 90000)) mill_db = (Inr j, d')
     \<and> get_SupplierPurchase d' 2 = Some p' \<and> pending_amount (po_note p') ''order_A'' = Some (cents 90000)"
proof -
  from sample_link obtain j d' where r: "create_razorpay_pay test_gateway sample_env 2 (Some (cents 90000)) mill_db = (Inr j, d')"
    and o: "jget ''razorpay_order_id'' j = JStr ''order_A''" and a: "jget ''amount'' j = JFloat (cents 90000)"
    by blast
  have s: "po_sound received_order" using sample_orders_sound by simp
  have t: "to_cents (po_total received_order) + 2 \<le> money_bound" by (simp add: money_ok_def money_bound_def)
  have c: "\<forall>c \<in> set ''order_A''. c \<noteq> CHR '' '' \<and> c \<noteq> CHR ''|''"
    "\<not> contains (''rz_pending:'' @ ''order_A'' @ '':'') (or_str (po_note received_order) [])"
    by (simp_all add: or_str_def)
  obtain n p' where "jget ''amount'' j = JFloat (cents n)" "get_SupplierPurchase d' 2 = Some p'"
    "pending_amount (po_note p') ''order_A'' = Some (cents n)"
    using tagged_amount_roundtrip [OF r mill_db_facts(6) s t o _ c] by blast
  with a r show ?thesis by auto
qed

end
