(* ===== verification/Payments.thy ===== *)
theory Payments
  imports Gateway OrderLaws
begin

text \<open>
  \<open>payment_service/app/services/payments.py\<close>: online payment of one order through Razorpay
  (create, verify, webhook), the direct confirmation, and the invoice a paid order gets.  The parse of a
  webhook body (\<open>json.loads\<close>) is the parameter \<open>loads\<close>, \<open>None\<close> for text that is no JSON; the ids in
  the gateway's messages are strings.
\<close>

section \<open>Reading messages\<close>

text \<open>\<open>bool(x)\<close> for a value of a JSON message.\<close>

fun jtruthy :: "json \<Rightarrow> bool" where
  "jtruthy JNull = False"
| "jtruthy (JBool b) = b"
| "jtruthy (JInt n) = (n \<noteq> 0)"
| "jtruthy (JFloat x) = (x \<noteq> 0)"
| "jtruthy (JStr s) = (s \<noteq> [])"
| "jtruthy (JArr xs) = (xs \<noteq> [])"
| "jtruthy (JObj kvs) = (kvs \<noteq> [])"

definition jor :: "json \<Rightarrow> json \<Rightarrow> json" where
  "jor x y = (if jtruthy x then x else y)"

text \<open>\<open>x.get(k, dflt)\<close> where \<open>x\<close> may be any JSON value.\<close>

definition jcall_get :: "string \<Rightarrow> json \<Rightarrow> json \<Rightarrow> exc + json" where
  "jcall_get k dflt j = (case j of
     JObj kvs \<Rightarrow> Inr (case map_of kvs k of Some v \<Rightarrow> v | None \<Rightarrow> dflt)
   | _ \<Rightarrow> Inl (PyExc ''AttributeError''))"

text \<open>\<open>int(s)\<close>: white space around, a sign, and digits grouped by single underscores.\<close>

fun int_digits :: "bool \<Rightarrow> int \<Rightarrow> string \<Rightarrow> int option" where
  "int_digits after_digit n [] = (if after_digit then Some n else None)"
| "int_digits after_digit n (c # cs) =
     (if is_digit_char c then int_digits True (n * 10 + (int (char_code c) - 48)) cs
      else if c = CHR ''_'' \<and> after_digit then int_digits False n cs else None)"

definition py_int :: "string \<Rightarrow> int option" where
  "py_int s0 = (case strip s0 of
     CHR ''-'' # s \<Rightarrow> map_option uminus (int_digits False 0 s)
   | CHR ''+'' # s \<Rightarrow> int_digits False 0 s
   | s \<Rightarrow> int_digits False 0 s)"

definition jint :: "json \<Rightarrow> exc + int" where
  "jint j = (case j of
     JInt n \<Rightarrow> Inr n
   | JBool b \<Rightarrow> Inr (if b then 1 else 0)
   | JFloat x \<Rightarrow> Inr (if 0 \<le> x then \<lfloor>x\<rfloor> else \<lceil>x\<rceil>)
   | JStr s \<Rightarrow> (case py_int s of Some n \<Rightarrow> Inr n | None \<Rightarrow> Inl (PyExc ''ValueError''))
   | _ \<Rightarrow> Inl (PyExc ''TypeError''))"

section \<open>The payment of an order\<close>

definition new_order_payment :: "env \<Rightarrow> Order \<Rightarrow> int \<Rightarrow> db \<Rightarrow> Payment" where
  "new_order_payment e ord user_id d =
     (new_Payment (env_now e) (o_id ord) user_id (o_final_amount ord))
       \<lparr>pay_method := Some PM_RAZORPAY, pay_status := PS_PENDING,
        pay_transaction_id := Some (txn_id_for e (next_id (payments d)))\<rparr>"

definition get_order_payment :: "env \<Rightarrow> int \<Rightarrow> int \<Rightarrow> db \<Rightarrow> (exc + Order \<times> Payment) \<times> db" where
  "get_order_payment e user_id order_id d = (case get_Order d order_id of
     None \<Rightarrow> (Inl (not_found ''Order not found''), d)
   | Some ord \<Rightarrow>
       if o_user_id ord \<noteq> user_id then (Inl (not_found ''Order not found''), d)
       else (case last_payment d order_id of
         Some p \<Rightarrow> (Inr (ord, p), d)
       | None \<Rightarrow> let p = new_order_payment e ord user_id d
                 in (Inr (ord, key_Payment p d), add_Payment p d)))"

definition payment_methods :: "gateway \<Rightarrow> string \<Rightarrow> bool \<Rightarrow> db \<Rightarrow> json" where
  "payment_methods g default_upi imagekit_configured d =
     (let s = t_first (\<lambda>_. True) (settings_rows d);
          methods = [''upi'', ''upi_qr'', ''google_pay'', ''phonepe'', ''paytm'', ''credit_card'', ''debit_card'',
              ''net_banking'', ''wallet'']
            @ (if s = None \<or> bs_cod_enabled (the s) then [''cod''] else []) @ [''credit'']
            @ (if razorpay_configured g then [''razorpay''] else [])
      in JObj [(''methods'', JArr (map JStr methods)),
          (''upi_id'', JStr (or_str (map_option bs_upi_id s) default_upi)),
          (''razorpay'', JObj [(''configured'', JBool (razorpay_configured g)),
             (''key_id'', if razorpay_configured g then jopt_str (gw_key_id g) else JNull)]),
          (''imagekit'', JObj [(''configured'', JBool imagekit_configured)]),
          (''secure'', JBool True)])"

section \<open>The invoice\<close>

definition paid_invoice_row :: "env \<Rightarrow> Order \<Rightarrow> db \<Rightarrow> Invoice" where
  "paid_invoice_row e ord d =
     (let s = bakery e d; addr = jor_obj (o_address_snapshot ord);
          is_b2b = o_order_type ord \<in> set [''b2b_shop_order'', ''B2B_SHOP_ORDER''];
          kind = (if is_b2b then ''b2b_wholesale'' else ''customer_order'');
          parts = filter (\<lambda>x. x \<noteq> []) (map (\<lambda>k. or_str (jstr (jget k addr)) []) [''line1'', ''city'', ''pincode''])
      in (new_Invoice (env_now e) (invoice_number_for e (if is_b2b then ''B2B'' else ''INV'') (next_id (invoices d)))
            (bs_bakery_name s) (bs_gstin s)
            (or_str (jstr (jget ''full_name'' addr)) (or_str (jstr (jget ''shop_name'' addr)) ''Customer''))
            (or_str (o_customer_phone ord) (or_str (jstr (jget ''phone'' addr)) [])))
         \<lparr>inv_order_id := Some (o_id ord), inv_kind := kind, inv_ref_type := Some ''order'',
          inv_ref_id := Some (show_int (o_id ord)), inv_buyer_user_id := Some (o_user_id ord),
          inv_seller_user_id := (if is_b2b then None else o_shop_user_id ord),
          inv_customer_address := Some (join '', '' parts),
          inv_line_items := JObj [(''template'', JStr ''product_payment''), (''kind'', JStr kind),
             (''title'', JStr ((if is_b2b then ''Wholesale'' else ''Sale'') @ '' '' @ middot @ '' '' @ o_order_number ord)),
             (''items'', JArr (map (\<lambda>i. JObj [(''name'', JStr (oi_product_name i)),
             (''qty'', JInt (oi_quantity i)), (''unit_price'', JFloat (oi_unit_price i)),
             (''total'', JFloat (oi_total_price i))]) (items_of d (o_id ord)))),
             (''meta'', JObj [(''order_number'', JStr (o_order_number ord)), (''order_type'', JStr (o_order_type ord))])],
          inv_subtotal := o_subtotal ord, inv_discount := o_discount ord, inv_gst_amount := o_gst_amount ord,
          inv_delivery_fee := o_delivery_fee ord, inv_grand_total := o_final_amount ord,
          inv_payment_method := map_option PaymentMethod_value (o_payment_method ord),
          inv_transaction_id := Option.bind (last_payment d (o_id ord)) pay_transaction_id\<rparr>)"

definition paid_invoice :: "env \<Rightarrow> Order \<Rightarrow> db \<Rightarrow> (exc + Invoice) \<times> db" where
  "paid_invoice e ord d = (case invoice_of d (o_id ord) of
     Some i \<Rightarrow> (Inr i, d)
   | None \<Rightarrow> let row = paid_invoice_row e ord d
       in if invoice_clash row d then (Inl (PyExc ''IntegrityError''), d)
          else (Inr (key_Invoice row d), add_Invoice row d))"

section \<open>Razorpay\<close>

definition payment_notes :: "Order \<Rightarrow> User \<Rightarrow> json" where
  "payment_notes ord user = JObj [(''order_id'', JStr (show_int (o_id ord))),
     (''order_number'', JStr (o_order_number ord)), (''user_id'', JStr (show_int (u_id user)))]"

definition jitems :: "json \<Rightarrow> (string \<times> json) list" where
  "jitems j = (case j of JObj kvs \<Rightarrow> kvs | _ \<Rightarrow> [])"

definition save_gateway_order :: "env \<Rightarrow> Order \<Rightarrow> Payment \<Rightarrow> json \<Rightarrow> db \<Rightarrow> db" where
  "save_gateway_order e ord p gw d =
     put_Order (ord\<lparr>o_payment_method := Some PM_RAZORPAY, o_updated_at := env_now e\<rparr>)
       (put_Payment (p\<lparr>pay_method := Some PM_RAZORPAY, pay_status := PS_PROCESSING,
          pay_gateway_response := Some gw, pay_updated_at := env_now e\<rparr>) d)"

definition razorpay_create :: "gateway \<Rightarrow> env \<Rightarrow> User \<Rightarrow> int \<Rightarrow> bool \<Rightarrow> db \<Rightarrow> (exc + json) \<times> db" where
  "razorpay_create g e user order_id use_payment_link d =
     (case get_order_payment e (u_id user) order_id d of
        (Inl ex, d1) \<Rightarrow> (Inl ex, d1)
      | (Inr (ord, p), d1) \<Rightarrow>
          if pay_status p = PS_PAID
          then (Inr (JObj [(''status'', JStr ''already_paid''), (''order_id'', JInt (o_id ord)),
                  (''payment_id'', JInt (pay_id p))]), d1)
          else (case create_order g (o_final_amount ord) (o_order_number ord) (payment_notes ord user) of
            Inl ex \<Rightarrow> (Inl ex, d1)
          | Inr rz \<Rightarrow>
              let gw = jset ''razorpay_order'' rz (jor_obj (pay_gateway_response p));
                  out = jmerge (JObj [(''status'', JStr ''created''), (''order_id'', JInt (o_id ord)),
                    (''payment_id'', JInt (pay_id p)), (''amount'', JFloat (o_final_amount ord))]) (jitems rz)
              in if use_payment_link
                 then (case create_payment_link g (o_final_amount ord) (''SweetCrust '' @ o_order_number ord)
                        (o_order_number ord) (u_name user)
                        (Some (or_str (o_customer_phone ord) (u_phone user))) None (payment_notes ord user) of
                         Inl ex \<Rightarrow> (Inl ex, d1)
                       | Inr link \<Rightarrow>
                           (Inr (jset ''short_url'' (jget ''short_url'' link) (jset ''payment_link'' link out)),
                            save_gateway_order e ord p (jset ''payment_link'' link gw) d1))
                 else (Inr out, save_gateway_order e ord p gw d1)))"

datatype pay_reply = AlreadyPaid int | PaidReply Order Payment Invoice | FailedReply Order Payment

definition received_row :: "env \<Rightarrow> int \<Rightarrow> string \<Rightarrow> OrderStatusHistory" where
  "received_row e order_id note_text =
     (new_OrderStatusHistory (env_now e) order_id OS_PAYMENT_RECEIVED)\<lparr>h_note := Some note_text\<rparr>"

definition order_paid_event :: "Order \<Rightarrow> string \<Rightarrow> (string \<times> json) list \<Rightarrow> db \<Rightarrow> db" where
  "order_paid_event ord source extra d = emit_admin_event ''order_paid''
     ([(''order_id'', JInt (o_id ord)), (''order_number'', JStr (o_order_number ord)),
       (''amount'', JFloat (o_final_amount ord)), (''method'', JStr ''razorpay''), (''source'', JStr source)] @ extra) d"

definition verified_payment :: "env \<Rightarrow> int \<Rightarrow> string \<Rightarrow> string \<Rightarrow> string \<Rightarrow> Payment \<Rightarrow> Payment" where
  "verified_payment e order_id rz_order rz_payment sig p =
     p\<lparr>pay_method := Some PM_RAZORPAY, pay_status := PS_PAID, pay_paid_at := Some (env_now e),
       pay_transaction_id := Some rz_payment,
       pay_gateway_response := Some (jset ''verify''
          (JObj [(''order_id'', JInt order_id), (''razorpay_order_id'', JStr rz_order),
             (''razorpay_payment_id'', JStr rz_payment), (''razorpay_signature'', JStr sig)])
          (jor_obj (pay_gateway_response p))),
       pay_updated_at := env_now e\<rparr>"

definition paid_order :: "env \<Rightarrow> PaymentMethod option \<Rightarrow> Order \<Rightarrow> Order" where
  "paid_order e meth ord = ord\<lparr>o_payment_status := PS_PAID, o_payment_method := meth,
     o_status := OS_PAYMENT_RECEIVED, o_updated_at := env_now e\<rparr>"

definition razorpay_verify :: "gateway \<Rightarrow> env \<Rightarrow> User \<Rightarrow> int \<Rightarrow> string \<Rightarrow> string \<Rightarrow> string \<Rightarrow> db
    \<Rightarrow> (exc + pay_reply) \<times> db" where
  "razorpay_verify g e user order_id rz_order rz_payment sig d =
     (case get_order_payment e (u_id user) order_id d of
        (Inl ex, d1) \<Rightarrow> (Inl ex, d1)
      | (Inr (ord, p), d1) \<Rightarrow>
          if pay_status p = PS_PAID then (Inr (AlreadyPaid (o_id ord)), d1)
          else if \<not> verify_payment_signature g rz_order rz_payment sig
          then (Inl (bad_request ''Invalid payment signature''),
                put_Order (ord\<lparr>o_payment_status := PS_FAILED, o_updated_at := env_now e\<rparr>)
                  (put_Payment (p\<lparr>pay_status := PS_FAILED, pay_failure_reason := Some ''Invalid Razorpay signature'',
                     pay_updated_at := env_now e\<rparr>) d1))
          else let p2 = verified_payment e order_id rz_order rz_payment sig p;
                   o2 = paid_order e (Some PM_RAZORPAY) ord;
                   d2 = add_OrderStatusHistory (received_row e (o_id ord) ''Razorpay payment verified'')
                          (put_Order o2 (put_Payment p2 d1))
               in (case paid_invoice e o2 d2 of
                     (Inl ex, _) \<Rightarrow> (Inl ex, d1)
                   | (Inr ivc, d3) \<Rightarrow>
                       (Inr (PaidReply o2 p2 ivc),
                        order_paid_event o2 ''verify'' []
                          (emit_order_status (o_id o2) [(''status'', JStr ''payment_received''),
                             (''payment_status'', JStr ''paid''), (''source'', JStr ''razorpay_verify'')] d3))))"

definition webhook_payment :: "env \<Rightarrow> json \<Rightarrow> json \<Rightarrow> Payment \<Rightarrow> Payment" where
  "webhook_payment e event payment_id p =
     p\<lparr>pay_method := Some PM_RAZORPAY, pay_status := PS_PAID, pay_paid_at := Some (env_now e),
       pay_transaction_id := (case payment_id of JStr s \<Rightarrow> if s = [] then pay_transaction_id p else Some s
                              | _ \<Rightarrow> pay_transaction_id p),
       pay_gateway_response := Some (jset ''webhook'' (JObj [(''event'', event), (''payment_id'', payment_id)])
          (jor_obj (pay_gateway_response p))),
       pay_updated_at := env_now e\<rparr>"

definition webhook_order :: "env \<Rightarrow> Order \<Rightarrow> Order" where
  "webhook_order e ord = ord\<lparr>o_payment_status := PS_PAID, o_payment_method := Some PM_RAZORPAY,
     o_updated_at := env_now e,
     o_status := (if o_status ord = OS_PLACED then OS_PAYMENT_RECEIVED else o_status ord)\<rparr>"

definition apply_webhook :: "env \<Rightarrow> json \<Rightarrow> json \<Rightarrow> int \<Rightarrow> db \<Rightarrow> json \<times> db" where
  "apply_webhook e event payment_id order_id d = (case get_Order d order_id of
     None \<Rightarrow> (JObj [(''ok'', JBool True), (''ignored'', JBool True), (''detail'', JStr ''order missing'')], d)
   | Some ord \<Rightarrow> (case last_payment d (o_id ord) of
       None \<Rightarrow> (JObj [(''ok'', JBool True), (''ignored'', JBool True), (''detail'', JStr ''payment missing'')], d)
     | Some p \<Rightarrow>
         if pay_status p = PS_PAID then (JObj [(''ok'', JBool True), (''already_paid'', JBool True)], d)
         else let o2 = webhook_order e ord;
                  d1 = put_Order o2 (put_Payment (webhook_payment e event payment_id p) d);
                  d2 = (if o_status ord = OS_PLACED
                        then add_OrderStatusHistory (received_row e (o_id ord) ''Razorpay webhook'') d1 else d1)
              in (JObj [(''ok'', JBool True), (''order_id'', JInt (o_id o2))],
                  order_paid_event o2 ''webhook'' [(''razorpay_payment_id'', payment_id)]
                    (emit_order_status (o_id o2) [(''status'', JStr (OrderStatus_value (o_status o2))),
                       (''payment_status'', JStr ''paid''), (''source'', JStr ''razorpay_webhook'')] d2))))"

text \<open>What the handler reads of a message: the event, the order id and the payment id.\<close>

definition webhook_fields :: "json \<Rightarrow> exc + json \<times> json \<times> json" where
  "webhook_fields payload = (case jcall_get ''event'' JNull payload of
     Inl ex \<Rightarrow> Inl ex
   | Inr event \<Rightarrow> (case jcall_get ''payload'' JNull payload of
       Inl ex \<Rightarrow> Inl ex
     | Inr pl \<Rightarrow> (case jcall_get ''payment'' (JObj []) (jor pl (JObj [])) of
         Inl ex \<Rightarrow> Inl ex
       | Inr pm \<Rightarrow> (case jcall_get ''entity'' JNull pm of
           Inl ex \<Rightarrow> Inl ex
         | Inr en \<Rightarrow> let entity = jor en (JObj []) in
             (case jcall_get ''notes'' JNull entity of
                Inl ex \<Rightarrow> Inl ex
              | Inr nts \<Rightarrow> (case jcall_get ''order_id'' JNull (jor nts (JObj [])) of
                  Inl ex \<Rightarrow> Inl ex
                | Inr oid \<Rightarrow> (case jcall_get ''id'' JNull entity of
                    Inl ex \<Rightarrow> Inl ex
                  | Inr pid \<Rightarrow> Inr (event, oid, pid))))))))"

definition razorpay_webhook :: "gateway \<Rightarrow> (string \<Rightarrow> json option) \<Rightarrow> env \<Rightarrow> string \<Rightarrow> string \<Rightarrow> db
    \<Rightarrow> (exc + json) \<times> db" where
  "razorpay_webhook g loads e body sig d =
     (if truthy_str (gw_webhook_secret g) \<and> \<not> verify_webhook_signature g body sig
      then (Inl (bad_request ''Invalid webhook signature''), d)
      else (case loads (if body = [] then ''{}'' else body) of
        None \<Rightarrow> (Inl (bad_request ''Invalid JSON''), d)
      | Some payload \<Rightarrow> (case webhook_fields payload of
          Inl ex \<Rightarrow> (Inl ex, d)
        | Inr (event, oid, pid) \<Rightarrow>
            if \<not> jtruthy oid \<or> event \<notin> set [JStr ''payment.captured'', JStr ''payment.authorized'']
            then (Inr (JObj [(''ok'', JBool True), (''ignored'', JBool True), (''event'', event)]), d)
            else (case jint oid of
              Inl ex \<Rightarrow> (Inl ex, d)
            | Inr order_id \<Rightarrow> (let (rep, d1) = apply_webhook e event pid order_id d in (Inr rep, d1))))))"

section \<open>The direct confirmation\<close>

definition process_payment :: "env \<Rightarrow> int \<Rightarrow> int \<Rightarrow> string \<Rightarrow> string option \<Rightarrow> bool \<Rightarrow> db
    \<Rightarrow> (exc + pay_reply) \<times> db" where
  "process_payment e user_id order_id meth upi_id fail d = (case get_Order d order_id of
     None \<Rightarrow> (Inl (not_found ''Order not found''), d)
   | Some ord \<Rightarrow>
     if o_user_id ord \<noteq> user_id then (Inl (not_found ''Order not found''), d)
     else (case last_payment d order_id of
       None \<Rightarrow> (Inl (not_found ''Payment not found''), d)
     | Some p \<Rightarrow> (case enum_of PaymentMethod_value PaymentMethod_members meth of
         None \<Rightarrow> (Inl (bad_request (''Invalid payment method: '' @ meth)), d)
       | Some m \<Rightarrow>
           let p1 = p\<lparr>pay_method := Some m, pay_upi_id := upi_id, pay_status := PS_PROCESSING,
                      pay_updated_at := env_now e\<rparr>;
               d1 = put_Payment p1 d
           in if fail
              then let p2 = p1\<lparr>pay_status := PS_FAILED, pay_failure_reason := Some ''Payment declined by bank / UPI''\<rparr>;
                       o2 = ord\<lparr>o_payment_status := PS_FAILED, o_updated_at := env_now e\<rparr>
                   in (Inr (FailedReply o2 p2), put_Order o2 (put_Payment p2 d1))
              else let p2 = p1\<lparr>pay_status := PS_PAID, pay_paid_at := Some (env_now e)\<rparr>;
                       o2 = paid_order e (Some m) ord;
                       d2 = notify e user_id ''payment'' ''Payment successful''
                              (rupee @ fmt0 (o_final_amount ord) @ '' paid for '' @ o_order_number ord)
                              (Some (JObj [(''order_id'', JInt (o_id ord))]))
                            (put_Order o2 (put_Payment p2
                              (add_OrderStatusHistory (received_row e (o_id ord) ''Payment received'') d1)))
                   in (case paid_invoice e o2 d2 of
                         (Inl ex, _) \<Rightarrow> (Inl ex, d1)
                       | (Inr ivc, d3) \<Rightarrow> (Inr (PaidReply o2 p2 ivc), d3)))))"

end
