(* ===== verification/PaymentLaws.thy ===== *)
theory PaymentLaws
  imports Payments
begin

text \<open>
  Laws of the online payments: a verified payment settles its order once, a payment row becomes paid
  through \<open>razorpay_verify\<close> only under a valid signature, a repeated webhook changes nothing, and
  the payment handlers keep the status trail together with the order handlers.
\<close>

section \<open>The last payment of an order\<close>

lemma t_last_put_same:
  assumes "t_wf key t" "t_last P t = Some r" "key r' = key r" "P r'"
  shows "t_last P (t_put key r' t) = Some r'"
proof -
  have gen: "find P (map (\<lambda>x. if key x = key r' then r' else x) xs) = Some r'"
    if "find P xs = Some r" "distinct (map key xs)" for xs
    using that assms(3,4)
  proof (induction xs)
    case (Cons x xs)
    then show ?case
    proof (cases "P x")
      case False
      with Cons.prems have "find P xs = Some r" by simp
      then have "r \<in> set xs" by (auto simp: find_Some_iff)
      with Cons.prems have "key x \<noteq> key r'" by auto
      with Cons False show ?thesis by simp
    qed auto
  qed simp
  have "distinct (map key (rev (rows t)))" using t_wf_distinct [OF assms(1)] by (metis distinct_rev rev_map)
  with gen assms(2) show ?thesis by (simp add: t_last_def t_put_def rev_map)
qed

lemma last_payment_put:
  assumes "db_wf d" "last_payment d k = Some p" "pay_id p' = pay_id p" "pay_order_id p' = pay_order_id p"
  shows "t_last (\<lambda>x. pay_order_id x = k) (t_put pay_id p' (payments d)) = Some p'"
  using assms t_last_SomeD [OF assms(2) [unfolded last_payment_def]]
  by (intro t_last_put_same) (auto simp: last_payment_def)

lemma last_payment_in: "last_payment d k = Some p \<Longrightarrow> p \<in> set (rows (payments d)) \<and> pay_order_id p = k"
  unfolding last_payment_def using t_last_SomeD by fastforce

lemma get_order_paymentE:
  assumes "get_order_payment e u k d = (r, d1)"
  obtains (failed) "r = Inl (not_found ''Order not found'')" "d1 = d"
  | (found) ord p where "r = Inr (ord, p)" "get_Order d k = Some ord" "o_id ord = k" "o_user_id ord = u"
      "last_payment d k = Some p" "d1 = d"
  | (opened) ord where "r = Inr (ord, key_Payment (new_order_payment e ord u d) d)" "get_Order d k = Some ord"
      "o_id ord = k" "o_user_id ord = u" "last_payment d k = None" "d1 = add_Payment (new_order_payment e ord u d) d"
proof (cases "\<exists>ord. get_Order d k = Some ord \<and> o_user_id ord = u")
  case False
  then have "get_order_payment e u k d = (Inl (not_found ''Order not found''), d)"
    by (auto simp: get_order_payment_def split: option.splits)
  with assms show thesis by (intro failed) simp_all
next
  case True
  then obtain ord where o: "get_Order d k = Some ord" "o_user_id ord = u" by blast
  have id: "o_id ord = k" using t_get_key [OF o(1)] .
  show thesis
  proof (cases "last_payment d k")
    case None
    with assms o id show thesis by (intro opened [of ord]) (simp_all add: get_order_payment_def Let_def)
  next
    case (Some p)
    with assms o id show thesis by (intro found [of ord p]) (simp_all add: get_order_payment_def)
  qed
qed

lemma get_order_payment_facts:
  assumes "get_order_payment e u k d = (r, d1)"
  shows "orders d1 = orders d" "histories d1 = histories d" "invoices d1 = invoices d" "db_wf d \<Longrightarrow> db_wf d1"
    and "\<And>ord p. r = Inr (ord, p) \<Longrightarrow> get_Order d k = Some ord \<and> o_id ord = k \<and> o_user_id ord = u
           \<and> last_payment d1 k = Some p"
    and "\<And>q. q \<in> set (rows (payments d1)) \<Longrightarrow> pay_status q = PS_PAID \<Longrightarrow> q \<in> set (rows (payments d))"
proof -
  show "orders d1 = orders d" "histories d1 = histories d" "invoices d1 = invoices d"
    using assms by (cases rule: get_order_paymentE; simp)+
  show "db_wf d1" if "db_wf d"
    using assms by (cases rule: get_order_paymentE) (simp_all add: that)
  show "get_Order d k = Some ord \<and> o_id ord = k \<and> o_user_id ord = u \<and> last_payment d1 k = Some p"
    if "r = Inr (ord, p)" for ord p
    using assms
  proof (cases rule: get_order_paymentE)
    case (opened ord')
    then show ?thesis using that
      by (simp add: last_payment_def) (rule Payment_row.last_insert, simp add: new_order_payment_def new_Payment_def)
  qed (use that in simp_all)
  show "q \<in> set (rows (payments d))" if "q \<in> set (rows (payments d1))" "pay_status q = PS_PAID" for q
    using assms
  proof (cases rule: get_order_paymentE)
    case (opened ord)
    then show ?thesis using that by (auto simp: rows_t_insert new_order_payment_def new_Payment_def)
  qed (use that in simp_all)
qed

section \<open>The invoice\<close>

lemma paid_invoiceE:
  assumes "paid_invoice e ord d = (r, d')"
  obtains (old) i where "r = Inr i" "d' = d" "invoice_of d (o_id ord) = Some i"
  | (clash) "r = Inl (PyExc ''IntegrityError'')" "d' = d"
  | (issued) "r = Inr (key_Invoice (paid_invoice_row e ord d) d)" "d' = add_Invoice (paid_invoice_row e ord d) d"
      "invoice_of d (o_id ord) = None"
proof (cases "invoice_of d (o_id ord)")
  case (Some i)
  with assms show thesis by (intro old [of i]) (simp_all add: paid_invoice_def)
next
  case None
  show thesis
  proof (cases "invoice_clash (paid_invoice_row e ord d) d")
    case True
    with assms None show thesis by (intro clash) (simp_all add: paid_invoice_def Let_def)
  next
    case False
    with assms None show thesis by (intro issued) (simp_all add: paid_invoice_def Let_def)
  qed
qed

lemma paid_invoice_facts:
  assumes "paid_invoice e ord d = (r, d')"
  shows "\<exists>t. d' = d\<lparr>invoices := t\<rparr>" "db_wf d \<Longrightarrow> db_wf d'"
    and "\<And>i. r = Inr i \<Longrightarrow> invoice_of d' (o_id ord) = Some i"
proof -
  show "\<exists>t. d' = d\<lparr>invoices := t\<rparr>"
    using assms by (cases rule: paid_invoiceE) (auto intro: exI [of _ "invoices d"])
  show "db_wf d'" if "db_wf d" using assms by (cases rule: paid_invoiceE) (simp_all add: that)
  show "invoice_of d' (o_id ord) = Some i" if "r = Inr i" for i
    using assms
  proof (cases rule: paid_invoiceE)
    case issued
    then show ?thesis using that
      by (simp add: invoice_of_def) (rule t_first_insert_None, simp_all add: paid_invoice_row_def Let_def)
  qed (use that in simp_all)
qed

section \<open>Verification\<close>

lemma razorpay_verifyE:
  assumes "razorpay_verify g e user k rz_order rz_payment sig d = (r, d')"
  obtains (missing) ex where "r = Inl ex" "get_order_payment e (u_id user) k d = (Inl ex, d')"
  | (already) ord p where "r = Inr (AlreadyPaid (o_id ord))" "get_order_payment e (u_id user) k d = (Inr (ord, p), d')"
      "pay_status p = PS_PAID"
  | (forged) ord p d1 where "r = Inl (bad_request ''Invalid payment signature'')"
      "get_order_payment e (u_id user) k d = (Inr (ord, p), d1)"
      "\<not> verify_payment_signature g rz_order rz_payment sig"
      "d' = put_Order (ord\<lparr>o_payment_status := PS_FAILED, o_updated_at := env_now e\<rparr>)
              (put_Payment (p\<lparr>pay_status := PS_FAILED, pay_failure_reason := Some ''Invalid Razorpay signature'',
                 pay_updated_at := env_now e\<rparr>) d1)"
  | (clash) ex x where "r = Inl ex" "get_order_payment e (u_id user) k d = (Inr x, d')"
  | (paid) ord p d1 d2 d3 ivc where "get_order_payment e (u_id user) k d = (Inr (ord, p), d1)" "pay_status p \<noteq> PS_PAID"
      "verify_payment_signature g rz_order rz_payment sig"
      "d2 = add_OrderStatusHistory (received_row e (o_id ord) ''Razorpay payment verified'')
              (put_Order (paid_order e (Some PM_RAZORPAY) ord)
                (put_Payment (verified_payment e k rz_order rz_payment sig p) d1))"
      "paid_invoice e (paid_order e (Some PM_RAZORPAY) ord) d2 = (Inr ivc, d3)"
      "r = Inr (PaidReply (paid_order e (Some PM_RAZORPAY) ord) (verified_payment e k rz_order rz_payment sig p) ivc)"
      "d' = order_paid_event (paid_order e (Some PM_RAZORPAY) ord) ''verify'' []
              (emit_order_status (o_id ord) [(''status'', JStr ''payment_received''),
                 (''payment_status'', JStr ''paid''), (''source'', JStr ''razorpay_verify'')] d3)"
proof (cases "get_order_payment e (u_id user) k d")
  case (Pair r1 d1)
  show thesis
  proof (cases r1)
    case (Inl ex)
    with assms Pair show thesis by (intro missing) (auto simp: razorpay_verify_def)
  next
    case (Inr x)
    obtain ord p where x: "x = (ord, p)" by (cases x)
    show thesis
    proof (cases "pay_status p = PS_PAID")
      case True
      with assms Pair Inr x show thesis by (intro already [of ord p]) (auto simp: razorpay_verify_def)
    next
      case unpaid: False
      show thesis
      proof (cases "verify_payment_signature g rz_order rz_payment sig")
        case False
        with assms Pair Inr x unpaid show thesis by (intro forged [of ord p d1]) (auto simp: razorpay_verify_def)
      next
        case True
        define o2 where "o2 = paid_order e (Some PM_RAZORPAY) ord"
        define d2 where "d2 = add_OrderStatusHistory (received_row e (o_id ord) ''Razorpay payment verified'')
              (put_Order o2 (put_Payment (verified_payment e k rz_order rz_payment sig p) d1))"
        have id: "o_id o2 = o_id ord" by (simp add: o2_def paid_order_def)
        obtain r3 d3 where i: "paid_invoice e o2 d2 = (r3, d3)" by (cases "paid_invoice e o2 d2")
        show thesis
        proof (cases r3)
          case (Inl ex)
          with assms Pair Inr x unpaid True i show thesis
            by (intro clash [of ex x]) (simp_all add: razorpay_verify_def Let_def o2_def [symmetric] d2_def)
        next
          case (Inr ivc)
          with assms Pair \<open>r1 = Inr x\<close> x unpaid True i id show thesis
            by (intro paid [of ord p d1 d2 ivc d3])
              (simp_all add: razorpay_verify_def Let_def o2_def [symmetric] d2_def)
        qed
      qed
    qed
  qed
qed

lemma verified_fields [simp]:
  "pay_id (verified_payment e k ro rp s p) = pay_id p" "pay_order_id (verified_payment e k ro rp s p) = pay_order_id p"
  "pay_status (verified_payment e k ro rp s p) = PS_PAID" "pay_transaction_id (verified_payment e k ro rp s p) = Some rp"
  "o_id (paid_order e m ord) = o_id ord" "o_status (paid_order e m ord) = OS_PAYMENT_RECEIVED"
  "o_payment_status (paid_order e m ord) = PS_PAID" "o_user_id (paid_order e m ord) = o_user_id ord"
  by (simp_all add: verified_payment_def paid_order_def)

lemma order_paid_event_fields [simp]:
  "orders (order_paid_event ord s x d) = orders d" "payments (order_paid_event ord s x d) = payments d"
  "histories (order_paid_event ord s x d) = histories d" "invoices (order_paid_event ord s x d) = invoices d"
  "orders (emit_order_status k l d) = orders d" "payments (emit_order_status k l d) = payments d"
  "histories (emit_order_status k l d) = histories d" "invoices (emit_order_status k l d) = invoices d"
  "db_wf d \<Longrightarrow> db_wf (order_paid_event ord s x d)" "db_wf d \<Longrightarrow> db_wf (emit_order_status k l d)"
  by (simp_all add: order_paid_event_def emit_defs)

section \<open>Webhooks and direct confirmation\<close>

lemma webhook_order_fields [simp]:
  "o_id (webhook_order e ord) = o_id ord"
  "o_status (webhook_order e ord) = (if o_status ord = OS_PLACED then OS_PAYMENT_RECEIVED else o_status ord)"
  "pay_id (webhook_payment e ev pid p) = pay_id p" "pay_order_id (webhook_payment e ev pid p) = pay_order_id p"
  "pay_status (webhook_payment e ev pid p) = PS_PAID"
  by (simp_all add: webhook_order_def webhook_payment_def)

lemma received_row_fields [simp]:
  "h_order_id (received_row e k nt) = k" "h_status (received_row e k nt) = OS_PAYMENT_RECEIVED"
  by (simp_all add: received_row_def new_OrderStatusHistory_def)

lemma apply_webhookE:
  assumes "apply_webhook e event pid k d = (rep, d')"
  obtains (ignored) "d' = d" "\<forall>p. last_payment d k = Some p \<longrightarrow> pay_status p = PS_PAID \<or> get_Order d k = None"
  | (applied) ord p d2 where "get_Order d k = Some ord" "o_id ord = k" "last_payment d k = Some p" "pay_status p \<noteq> PS_PAID"
      "rows (histories d2) = rows (histories d) @ (if o_status ord = OS_PLACED
          then [(received_row e k ''Razorpay webhook'')\<lparr>h_id := next_id (histories d)\<rparr>] else [])"
      "orders d2 = t_put o_id (webhook_order e ord) (orders d)"
      "payments d2 = t_put pay_id (webhook_payment e event pid p) (payments d)"
      "db_wf d \<longrightarrow> db_wf d2"
      "d' = order_paid_event (webhook_order e ord) ''webhook'' [(''razorpay_payment_id'', pid)]
                    (emit_order_status k [(''status'', JStr (OrderStatus_value (o_status (webhook_order e ord)))),
                       (''payment_status'', JStr ''paid''), (''source'', JStr ''razorpay_webhook'')] d2)"
proof (cases "\<exists>ord p. get_Order d k = Some ord \<and> last_payment d k = Some p \<and> pay_status p \<noteq> PS_PAID")
  case False
  then have "d' = d"
    using assms t_get_key [of o_id k "orders d"] by (auto simp: apply_webhook_def split: option.splits if_splits)
  with False show thesis by (intro ignored) auto
next
  case True
  then obtain ord p where o: "get_Order d k = Some ord" "last_payment d k = Some p" "pay_status p \<noteq> PS_PAID" by blast
  have id: "o_id ord = k" using t_get_key [OF o(1)] .
  define d1 where "d1 = put_Order (webhook_order e ord) (put_Payment (webhook_payment e event pid p) d)"
  define d2 where "d2 = (if o_status ord = OS_PLACED
                        then add_OrderStatusHistory (received_row e (o_id ord) ''Razorpay webhook'') d1 else d1)"
  have "d' = order_paid_event (webhook_order e ord) ''webhook'' [(''razorpay_payment_id'', pid)]
                    (emit_order_status k [(''status'', JStr (OrderStatus_value (o_status (webhook_order e ord)))),
                       (''payment_status'', JStr ''paid''), (''source'', JStr ''razorpay_webhook'')] d2)"
    using assms o id by (auto simp: apply_webhook_def Let_def d2_def d1_def)
  then show thesis
    by (intro applied [of ord p d2] o id) (auto simp: d2_def d1_def rows_t_insert id)
qed

lemma razorpay_webhookE:
  assumes "razorpay_webhook g loads e body sig d = (r, d')"
  obtains (none) "d' = d"
  | (applied) payload event oid pid k rep where "truthy_str (gw_webhook_secret g) \<longrightarrow> verify_webhook_signature g body sig"
      "loads (if body = [] then ''{}'' else body) = Some payload" "webhook_fields payload = Inr (event, oid, pid)"
      "jint oid = Inr k" "r = Inr rep" "apply_webhook e event pid k d = (rep, d')"
proof (cases "\<exists>payload event oid pid k. (truthy_str (gw_webhook_secret g) \<longrightarrow> verify_webhook_signature g body sig)
    \<and> loads (if body = [] then ''{}'' else body) = Some payload \<and> webhook_fields payload = Inr (event, oid, pid)
    \<and> jtruthy oid \<and> event \<in> set [JStr ''payment.captured'', JStr ''payment.authorized''] \<and> jint oid = Inr k")
  case True
  then obtain payload event oid pid k where f: "truthy_str (gw_webhook_secret g) \<longrightarrow> verify_webhook_signature g body sig"
    "loads (if body = [] then ''{}'' else body) = Some payload" "webhook_fields payload = Inr (event, oid, pid)"
    "jtruthy oid" "event \<in> set [JStr ''payment.captured'', JStr ''payment.authorized'']" "jint oid = Inr k" by blast
  obtain rep d1 where a: "apply_webhook e event pid k d = (rep, d1)" by (cases "apply_webhook e event pid k d")
  from assms f a have "r = Inr rep" "d' = d1" unfolding razorpay_webhook_def by auto
  with f a show thesis by (intro applied [of payload event oid pid k rep]) auto
next
  case False
  then have "d' = d"
    using assms by (auto simp: razorpay_webhook_def split: if_splits option.splits sum.splits prod.splits)
  then show thesis by (rule none)
qed

lemma process_paymentE:
  assumes "process_payment e u k meth upi fail d = (r, d')"
  obtains (failed) ex where "r = Inl ex" "d' = d"
  | (begun) ex p1 where "r = Inl ex" "d' = put_Payment p1 d"
  | (declined) ord p p2 where "r = Inr (FailedReply (ord\<lparr>o_payment_status := PS_FAILED, o_updated_at := env_now e\<rparr>) p2)"
      "get_Order d k = Some ord" "o_id ord = k" "last_payment d k = Some p" "pay_id p2 = pay_id p"
      "orders d' = t_put o_id (ord\<lparr>o_payment_status := PS_FAILED, o_updated_at := env_now e\<rparr>) (orders d)"
      "histories d' = histories d" "db_wf d \<longrightarrow> db_wf d'"
  | (received) ord p2 m ivc where "get_Order d k = Some ord" "o_id ord = k"
      "r = Inr (PaidReply (paid_order e (Some m) ord) p2 ivc)"
      "orders d' = t_put o_id (paid_order e (Some m) ord) (orders d)"
      "rows (histories d') = rows (histories d) @ [(received_row e k ''Payment received'')\<lparr>h_id := next_id (histories d)\<rparr>]"
      "db_wf d \<longrightarrow> db_wf d'"
proof (cases "\<exists>ord p m. get_Order d k = Some ord \<and> o_user_id ord = u \<and> last_payment d k = Some p
    \<and> enum_of PaymentMethod_value PaymentMethod_members meth = Some m")
  case False
  then have "isl r \<and> d' = d"
    using assms by (auto simp: process_payment_def Let_def split: option.splits if_splits)
  then show thesis by (intro failed [of "projl r"]) auto
next
  case True
  then obtain ord p m where o: "get_Order d k = Some ord" "o_user_id ord = u" "last_payment d k = Some p"
    "enum_of PaymentMethod_value PaymentMethod_members meth = Some m" by blast
  have id: "o_id ord = k" using t_get_key [OF o(1)] .
  show thesis
  proof (cases fail)
    case True
    with assms o show thesis
      by (intro declined [of ord "p\<lparr>pay_method := Some m, pay_upi_id := upi, pay_updated_at := env_now e,
          pay_status := PS_FAILED, pay_failure_reason := Some ''Payment declined by bank / UPI''\<rparr>" p,
          OF _ o(1) id o(3)]) (auto simp: process_payment_def Let_def)
  next
    case False
    define p1 where "p1 = p\<lparr>pay_method := Some m, pay_upi_id := upi, pay_status := PS_PROCESSING,
                      pay_updated_at := env_now e\<rparr>"
    define p2 where "p2 = p1\<lparr>pay_status := PS_PAID, pay_paid_at := Some (env_now e)\<rparr>"
    define d2 where "d2 = notify e u ''payment'' ''Payment successful''
                              (rupee @ fmt0 (o_final_amount ord) @ '' paid for '' @ o_order_number ord)
                              (Some (JObj [(''order_id'', JInt (o_id ord))]))
                            (put_Order (paid_order e (Some m) ord) (put_Payment p2
                              (add_OrderStatusHistory (received_row e (o_id ord) ''Payment received'') (put_Payment p1 d))))"
    obtain r3 d3 where i: "paid_invoice e (paid_order e (Some m) ord) d2 = (r3, d3)"
      by (cases "paid_invoice e (paid_order e (Some m) ord) d2")
    have a: "(r, d') = (case r3 of Inl ex \<Rightarrow> (Inl ex, put_Payment p1 d)
        | Inr ivc \<Rightarrow> (Inr (PaidReply (paid_order e (Some m) ord) p2 ivc), d3))"
      using assms o False i unfolding process_payment_def Let_def d2_def p2_def p1_def
      by (simp add: id split: sum.splits)
    show thesis
    proof (cases r3)
      case (Inl ex)
      with a show thesis by (intro begun [of ex p1]) simp_all
    next
      case (Inr ivc)
      from paid_invoice_facts(1) [OF i] obtain t where t: "d3 = d2\<lparr>invoices := t\<rparr>" by blast
      have "db_wf d \<longrightarrow> db_wf d3"
        using paid_invoice_facts(2) [OF i] by (simp add: d2_def notify_wf)
      with a Inr show thesis
        by (intro received [of ord m p2 ivc] o id) (simp_all add: t d2_def rows_t_insert id)
    qed
  qed
qed

section \<open>The status trail\<close>

inductive payment_step :: "db \<Rightarrow> db \<Rightarrow> bool" where
  create: "razorpay_create g e user k lnk d = (r, d') \<Longrightarrow> payment_step d d'"
| verify: "razorpay_verify g e user k rz_order rz_payment sig d = (r, d') \<Longrightarrow> payment_step d d'"
| webhook: "razorpay_webhook g loads e body sig d = (r, d') \<Longrightarrow> payment_step d d'"
| process: "process_payment e u k meth upi fail d = (r, d') \<Longrightarrow> payment_step d d'"

lemma trail_same: "histories d' = histories d \<Longrightarrow> orders d' = orders d \<Longrightarrow> trail_change d d'"
  by (rule trail_quiet) auto

lemma quiet_put:
  assumes "histories d' = histories d" "orders d' = t_put o_id ord' (orders d)" "get_Order d (o_id ord') = Some ord"
    "o_status ord' = o_status ord"
  shows "trail_change d d'"
proof (rule trail_quiet [OF assms(1)])
  fix o' assume "o' \<in> set (rows (orders d'))"
  then have "o' \<in> set (rows (orders d)) \<or> o' = ord'" by (auto simp: assms(2) rows_t_put)
  then show "\<exists>x\<in>set (rows (orders d)). o_id x = o_id o' \<and> o_status x = o_status o'"
    using t_get_in [OF assms(3)] t_get_key [OF assms(3)] assms(4) by auto
qed

lemma razorpay_createE:
  assumes "razorpay_create g e user k lnk d = (r, d')"
  obtains (unchanged) x where "get_order_payment e (u_id user) k d = (x, d')"
  | (saved) ord p d1 gw where "get_order_payment e (u_id user) k d = (Inr (ord, p), d1)" "pay_status p \<noteq> PS_PAID"
      "d' = save_gateway_order e ord p gw d1"
proof (cases "get_order_payment e (u_id user) k d")
  case (Pair x d1)
  show thesis
  proof (cases "d' = d1")
    case True
    with Pair show thesis by (intro unchanged) simp
  next
    case False
    with Pair assms obtain ord p where x: "x = Inr (ord, p)" "pay_status p \<noteq> PS_PAID"
      by (auto simp: razorpay_create_def split: sum.splits if_splits)
    have "\<exists>gw. d' = save_gateway_order e ord p gw d1"
      using assms Pair x False unfolding razorpay_create_def Let_def
      by (simp split: sum.splits if_splits) blast+
    with Pair x show thesis using saved by blast
  qed
qed

lemma get_order_payment_trail:
  "get_order_payment e u k d = (x, d') \<Longrightarrow> db_wf d \<Longrightarrow> db_wf d' \<and> trail_change d d'"
  using get_order_payment_facts(1,2,4) [of e u k d x d'] by (auto intro: trail_same)

lemma payment_step_laws: "payment_step d d' \<Longrightarrow> db_wf d \<Longrightarrow> db_wf d' \<and> trail_change d d'"
proof (induction rule: payment_step.induct)
  case (create g e user k lnk d r d')
  from create(1) show ?case
  proof (cases rule: razorpay_createE)
    case (saved ord p d1 gw)
    note F = get_order_payment_facts [OF saved(1)]
    have "db_wf d'" using F(4) [OF create(2)] by (simp add: saved(3) save_gateway_order_def)
    moreover have "trail_change d d'"
      using F(5) [OF refl]
      by (intro quiet_put [where ord = ord and ord' = "ord\<lparr>o_payment_method := Some PM_RAZORPAY, o_updated_at := env_now e\<rparr>"])
        (simp_all add: saved(3) save_gateway_order_def F(1,2))
    ultimately show ?thesis by simp
  qed (use create(2) get_order_payment_trail in blast)
next
  case (verify g e user k rz_order rz_payment sig d r d')
  from verify(1) show ?case
  proof (cases rule: razorpay_verifyE)
    case (forged ord p d1)
    note F = get_order_payment_facts [OF forged(2)]
    have "db_wf d'" using F(4) [OF verify(2)] by (simp add: forged(4))
    moreover have "trail_change d d'"
      using F(5) [OF refl]
      by (intro quiet_put [where ord = ord and ord' = "ord\<lparr>o_payment_status := PS_FAILED, o_updated_at := env_now e\<rparr>"])
        (simp_all add: forged(4) F(1,2))
    ultimately show ?thesis by simp
  next
    case (paid ord p d1 d2 d3 ivc)
    note F = get_order_payment_facts [OF paid(1)]
    obtain t where t: "d3 = d2\<lparr>invoices := t\<rparr>" using paid_invoice_facts(1) [OF paid(5)] by blast
    have "db_wf d2" using F(4) [OF verify(2)] by (simp add: paid(4))
    then have "db_wf d'" using paid_invoice_facts(2) [OF paid(5)] by (simp add: paid(7))
    moreover have "trail_change d d'"
      by (rule trail_update [where ord = "paid_order e (Some PM_RAZORPAY) ord"
            and h = "(received_row e (o_id ord) ''Razorpay payment verified'')\<lparr>h_id := next_id (histories d1)\<rparr>"])
        (simp_all add: paid(7) t paid(4) F(1,2) rows_t_insert)
    ultimately show ?thesis by simp
  qed (use verify(2) get_order_payment_trail in blast)+
next
  case (webhook g loads e body sig d r d')
  from webhook(1) show ?case
  proof (cases rule: razorpay_webhookE)
    case none
    then show ?thesis using webhook(2) by (auto intro: trail_same)
  next
    case (applied payload event oid pid k rep)
    from applied(6) show ?thesis
    proof (cases rule: apply_webhookE)
      case ignored
      then show ?thesis using webhook(2) by (auto intro: trail_same)
    next
      case W: (applied ord p d2)
      have "trail_change d d'"
      proof (cases "o_status ord = OS_PLACED")
        case True
        then show ?thesis
          by (intro trail_update [where ord = "webhook_order e ord"
              and h = "(received_row e k ''Razorpay webhook'')\<lparr>h_id := next_id (histories d)\<rparr>"])
            (simp_all add: W)
      next
        case False
        then have "rows (histories d2) = rows (histories d)" using W(5) by simp
        then show ?thesis using False W(1,2,6) t_get_in [OF W(1)]
          by (auto simp: trail_change_def W(9) rows_t_put)
      qed
      moreover have "db_wf d'" using W(8,9) webhook(2) by simp
      ultimately show ?thesis by simp
    qed
  qed
next
  case (process e u k meth upi fail d r d')
  from process(1) show ?case
  proof (cases rule: process_paymentE)
    case (declined ord p p2)
    then show ?thesis using process(2)
      by (auto intro!: quiet_put [where ord = ord and ord' = "ord\<lparr>o_payment_status := PS_FAILED, o_updated_at := env_now e\<rparr>"])
  next
    case (received ord p2 m ivc)
    then show ?thesis using process(2)
      by (auto intro!: trail_update [where ord = "paid_order e (Some m) ord"
              and h = "(received_row e k ''Payment received'')\<lparr>h_id := next_id (histories d)\<rparr>"])
  qed (use process(2) in \<open>auto intro: trail_same\<close>)
qed

interpretation paid_orders: trail_machine db_wf "\<lambda>d d'. order_step d d' \<or> payment_step d d'"
  by unfold_locales (auto dest: order_step_laws payment_step_laws)

section \<open>Properties\<close>

text \<open>Whatever checkouts, status updates, cancellations, ratings, gateway orders,
  verifications, webhooks and direct confirmations happen in whatever order, the last history row of
  every order shows the order's current status.\<close>

theorem payments_keep_trail:
  assumes "(\<lambda>d d'. order_step d d' \<or> payment_step d d')\<^sup>*\<^sup>* d d'" "db_wf d" "status_trail d"
  shows "status_trail d'"
  using assms by (rule paid_orders.machine_trail)

text \<open>Property C4 (verify_settles_once): when a verification reports a payment, its signature is valid, the order
  is the caller's and now paid and payment-received, the order's last payment carries the gateway's
  payment id and is paid, and the order has the reported invoice; verifying the order again, with
  whatever arguments, is answered as already paid and changes nothing.\<close>

theorem verify_settles_once:
  assumes "razorpay_verify g e user k rz_order rz_payment sig d = (Inr (PaidReply ord' p' ivc), d')" "db_wf d"
  shows "verify_payment_signature g rz_order rz_payment sig \<and> o_user_id ord' = u_id user
    \<and> get_Order d' k = Some ord' \<and> o_payment_status ord' = PS_PAID \<and> o_status ord' = OS_PAYMENT_RECEIVED
    \<and> last_payment d' k = Some p' \<and> pay_status p' = PS_PAID \<and> pay_transaction_id p' = Some rz_payment
    \<and> invoice_of d' k = Some ivc
    \<and> razorpay_verify g2 e2 user k rz_order2 rz_payment2 sig2 d' = (Inr (AlreadyPaid k), d')"
  using assms(1)
proof (cases rule: razorpay_verifyE)
  case (paid ord p d1 d2 d3 ivc2)
  note F = get_order_payment_facts [OF paid(1)]
  have o: "get_Order d k = Some ord" "o_id ord = k" "o_user_id ord = u_id user" "last_payment d1 k = Some p"
    using F(5) [OF refl] by auto
  have eq: "ord' = paid_order e (Some PM_RAZORPAY) ord" "p' = verified_payment e k rz_order rz_payment sig p" "ivc2 = ivc"
    using paid(6) by simp_all
  obtain t where t: "d3 = d2\<lparr>invoices := t\<rparr>" using paid_invoice_facts(1) [OF paid(5)] by blast
  have 1: "get_Order d' k = Some ord'" using o by (simp add: paid(7) t paid(4) F(1) eq)
  have 2: "last_payment d' k = Some p'"
    using last_payment_put [OF F(4) [OF assms(2)] o(4), of p'] by (simp add: paid(7) t paid(4) eq last_payment_def)
  have 3: "invoice_of d' k = Some ivc"
    using paid_invoice_facts(3) [OF paid(5), of ivc] o(2) by (simp add: paid(7) eq invoice_of_def)
  have 4: "o_user_id ord' = u_id user" "o_id ord' = k" "pay_status p' = PS_PAID" by (simp_all add: eq o)
  have "razorpay_verify g2 e2 user k rz_order2 rz_payment2 sig2 d' = (Inr (AlreadyPaid k), d')"
    using 1 2 4 by (simp add: razorpay_verify_def get_order_payment_def)
  with 1 2 3 4 paid(3) show ?thesis by (simp add: eq)
qed simp_all

text \<open>Property C16 (paid_only_when_signed): a verification makes a payment paid only under a valid signature; without
  one it fails, no payment or order becomes paid, and no order is added, removed or moved to another
  status.\<close>

theorem paid_only_when_signed:
  assumes "razorpay_verify g e user k rz_order rz_payment sig d = (r, d')" "db_wf d"
    and "\<not> verify_payment_signature g rz_order rz_payment sig"
  shows "(\<forall>q \<in> set (rows (payments d')). pay_status q = PS_PAID \<longrightarrow> q \<in> set (rows (payments d)))
    \<and> map o_id (rows (orders d')) = map o_id (rows (orders d))
    \<and> map o_status (rows (orders d')) = map o_status (rows (orders d))
    \<and> (\<forall>q \<in> set (rows (orders d')). o_payment_status q = PS_PAID \<longrightarrow> q \<in> set (rows (orders d)))
    \<and> (\<forall>rep. r = Inr rep \<longrightarrow> rep = AlreadyPaid k)"
  using assms(1)
proof (cases rule: razorpay_verifyE)
  case (forged ord p d1)
  note F = get_order_payment_facts [OF forged(2)]
  have o: "get_Order d k = Some ord" "o_id ord = k" using F(5) [OF refl] by auto
  have u: "o_status x = o_status ord" if "x \<in> set (rows (orders d))" "o_id x = k" for x
    using t_wf_unique [of o_id "orders d" x ord] that t_get_in [OF o(1)] assms(2) o(2) by simp
  have "map o_status (rows (orders d')) = map o_status (rows (orders d))"
    using u o(2) by (simp add: forged(4) F(1) rows_t_put)
  moreover have "q \<in> set (rows (payments d))" if "q \<in> set (rows (payments d'))" "pay_status q = PS_PAID" for q
    using that F(6) by (auto simp: forged(4) rows_t_put split: if_splits)
  ultimately show ?thesis
    by (auto simp: forged(1,4) F(1) rows_t_put)
next
  case (paid ord p d1 d2 d3 ivc)
  then show ?thesis using assms(3) by simp
next
  case (missing ex)
  note F = get_order_payment_facts [OF missing(2)]
  show ?thesis using F(1,6) missing(1) by simp
next
  case (clash ex x)
  note F = get_order_payment_facts [OF clash(2)]
  show ?thesis using F(1,6) clash(1) by simp
next
  case (already ord p)
  note F = get_order_payment_facts [OF already(2)]
  show ?thesis using F(1,6) F(5) [OF refl] already(1) by simp
qed

text \<open>Whose payment a message settles, \<open>None\<close> when the handler leaves the database alone.\<close>

definition webhook_target :: "gateway \<Rightarrow> (string \<Rightarrow> json option) \<Rightarrow> string \<Rightarrow> string \<Rightarrow> (json \<times> json \<times> int) option" where
  "webhook_target g loads body sig =
     (if truthy_str (gw_webhook_secret g) \<and> \<not> verify_webhook_signature g body sig then None
      else (case loads (if body = [] then ''{}'' else body) of None \<Rightarrow> None
      | Some payload \<Rightarrow> (case webhook_fields payload of Inl ex \<Rightarrow> None
        | Inr (event, oid, pid) \<Rightarrow>
            if \<not> jtruthy oid \<or> event \<notin> set [JStr ''payment.captured'', JStr ''payment.authorized''] then None
            else (case jint oid of Inl ex \<Rightarrow> None | Inr k \<Rightarrow> Some (event, pid, k)))))"

lemma razorpay_webhook_db:
  "snd (razorpay_webhook g loads e body sig d) = (case webhook_target g loads body sig of
     None \<Rightarrow> d | Some (event, pid, k) \<Rightarrow> snd (apply_webhook e event pid k d))"
proof (cases "truthy_str (gw_webhook_secret g) \<and> \<not> verify_webhook_signature g body sig")
  case True
  then show ?thesis by (simp add: razorpay_webhook_def webhook_target_def)
next
  case sig: False
  show ?thesis
  proof (cases "loads (if body = [] then ''{}'' else body)")
    case None
    with sig show ?thesis by (simp only: razorpay_webhook_def webhook_target_def if_False option.case snd_conv)
  next
    case (Some payload)
    show ?thesis
    proof (cases "webhook_fields payload")
      case (Inl ex)
      with sig Some show ?thesis
        by (simp only: razorpay_webhook_def webhook_target_def if_False option.case sum.case snd_conv)
    next
      case (Inr x)
      obtain event oid pid where x: "x = (event, oid, pid)" by (cases x)
      show ?thesis
        using sig Some Inr x unfolding razorpay_webhook_def webhook_target_def
        by (cases "jint oid"; cases "\<not> jtruthy oid \<or> event \<notin> set [JStr ''payment.captured'', JStr ''payment.authorized'']")
          (simp_all only: if_True if_False option.case sum.case prod.case snd_conv Let_def case_prod_unfold fst_conv
            HOL.simp_thms)
    qed
  qed
qed

lemma apply_webhook_twice:
  assumes "apply_webhook e event pid k d = (rep, d')" "db_wf d"
  shows "snd (apply_webhook e2 event pid k d') = d'"
  using assms(1)
proof (cases rule: apply_webhookE)
  case ignored
  then show ?thesis using t_get_key [of o_id k "orders d"]
    by (auto simp: apply_webhook_def split: option.splits)
next
  case (applied ord p d2)
  have "last_payment d' k = Some (webhook_payment e event pid p)"
    using last_payment_put [OF assms(2) applied(3), of "webhook_payment e event pid p"]
    by (simp add: applied(7,9) last_payment_def)
  moreover have "get_Order d' k = Some (webhook_order e ord)" using applied by simp
  ultimately show ?thesis using applied(2) by (simp add: apply_webhook_def)
qed

text \<open>Property C7 (webhook_once): delivering the same webhook message a second time changes nothing.\<close>

theorem webhook_once:
  assumes "razorpay_webhook g loads e body sig d = (r, d')" "db_wf d"
  shows "snd (razorpay_webhook g loads e2 body sig d') = d'"
proof (cases "webhook_target g loads body sig")
  case None
  then show ?thesis by (simp add: razorpay_webhook_db)
next
  case (Some x)
  obtain event pid k where x: "x = (event, pid, k)" by (cases x)
  have "apply_webhook e event pid k d = (fst (apply_webhook e event pid k d), d')"
    using razorpay_webhook_db [of g loads e body sig d] assms(1) Some x by (simp add: prod_eq_iff)
  then show ?thesis using apply_webhook_twice [OF _ assms(2)] Some x by (auto simp: razorpay_webhook_db)
qed

text \<open>The direct confirmation has no such guard: a paid order is set back to failed by a second call.\<close>

lemma declined_after_paid:
  assumes "process_payment e u k meth upi True d = (Inr rep, d')" "db_wf d"
  shows "map_option o_payment_status (get_Order d' k) = Some PS_FAILED"
  using assms(1)
proof (cases rule: process_paymentE)
  case (received ord p2 m ivc)
  then show ?thesis using assms(1) by (auto simp: process_payment_def Let_def split: option.splits if_splits)
qed simp_all

section \<open>Worked examples\<close>

text \<open>The order of the order examples with a payment that waits for the gateway.\<close>

definition waiting_payment :: Payment where
  "waiting_payment = (new_Payment 0 1 5 (cents 56395))\<lparr>pay_id := 1, pay_method := Some PM_RAZORPAY\<rparr>"

definition pay_db :: db where
  "pay_db = order_db\<lparr>payments := \<lparr>rows = [waiting_payment], next_id = 2\<rparr>\<rparr>"

lemma pay_db_facts [simp]:
  "db_wf pay_db" "status_trail pay_db" "get_Order pay_db 1 = Some placed_order" "last_payment pay_db 1 = Some waiting_payment"
  "pay_status waiting_payment = PS_PENDING" "rows (invoices pay_db) = []" "rows (payments pay_db) = [waiting_payment]"
  using order_db_facts(1-3)
  by (simp_all add: pay_db_def status_trail_def last_payment_def t_last_def waiting_payment_def new_Payment_def t_wf_def)
    (simp_all add: order_db_def empty_db_def t_empty_def)

lemma sample_owner [simp]: "u_id ravi = 5" "o_user_id placed_order = 5" "o_id placed_order = 1" "o_status placed_order = OS_PLACED"
  using order_db_facts(5-7) by (simp_all add: ravi_def)

lemma sample_verify:
  "\<exists>o2 p2 i d'. razorpay_verify test_gateway sample_env ravi 1 ''order_A'' ''pay_1'' ''s3:order_A|pay_1'' pay_db
     = (Inr (PaidReply o2 p2 i), d')"
  by (simp add: razorpay_verify_def get_order_payment_def paid_invoice_def invoice_of_def t_first_def invoice_clash_def Let_def)

lemma verify_settles_once_witness:
  "\<exists>o2 p2 i d'. razorpay_verify test_gateway sample_env ravi 1 ''order_A'' ''pay_1'' ''s3:order_A|pay_1'' pay_db
     = (Inr (PaidReply o2 p2 i), d') \<and> o_payment_status o2 = PS_PAID \<and> invoice_of d' 1 = Some i
     \<and> razorpay_verify test_gateway sample_env ravi 1 ''order_B'' ''pay_2'' [] d' = (Inr (AlreadyPaid 1), d')"
proof -
  obtain o2 p2 i d' where r: "razorpay_verify test_gateway sample_env ravi 1 ''order_A'' ''pay_1'' ''s3:order_A|pay_1'' pay_db
     = (Inr (PaidReply o2 p2 i), d')" using sample_verify by blast
  from verify_settles_once [OF r pay_db_facts(1), of test_gateway sample_env "''order_B''" "''pay_2''" "[]"] r
  show ?thesis by blast
qed

lemma payments_keep_trail_witness:
  "status_trail (snd (razorpay_verify test_gateway sample_env ravi 1 ''order_A'' ''pay_1'' ''s3:order_A|pay_1'' pay_db))"
    (is "status_trail ?d'")
proof -
  have "payment_step pay_db ?d'" by (rule payment_step.verify) (rule prod.collapse [symmetric])
  then have "(\<lambda>d d'. order_step d d' \<or> payment_step d d')\<^sup>*\<^sup>* pay_db ?d'" by (intro r_into_rtranclp disjI2)
  from payments_keep_trail [OF this pay_db_facts(1,2)] show ?thesis .
qed

lemma paid_only_when_signed_witness:
  "filter (\<lambda>q. pay_status q = PS_PAID)
     (rows (payments (snd (razorpay_verify test_gateway sample_env ravi 1 ''order_A'' ''pay_1'' ''forged'' pay_db)))) = []"
proof -
  have "\<not> verify_payment_signature test_gateway ''order_A'' ''pay_1'' ''forged''" by simp
  from paid_only_when_signed [OF prod.collapse [symmetric] pay_db_facts(1) this, of sample_env ravi 1]
  have "q = waiting_payment" if "q \<in> set (rows (payments (snd (razorpay_verify test_gateway sample_env ravi 1
      ''order_A'' ''pay_1'' ''forged'' pay_db))))" "pay_status q = PS_PAID" for q
    using that by simp
  then show ?thesis using pay_db_facts(5) unfolding filter_empty_conv by fastforce
qed

definition sample_message :: json where
  "sample_message = JObj [(''event'', JStr ''payment.captured''), (''payload'', JObj [(''payment'', JObj [(''entity'',
     JObj [(''id'', JStr ''pay_1''), (''notes'', JObj [(''order_id'', JStr ''1'')])])])])]"

lemma sample_webhook:
  "fst (razorpay_webhook test_gateway (\<lambda>s. Some sample_message) sample_env ''m'' ''w3:m'' pay_db)
     = Inr (JObj [(''ok'', JBool True), (''order_id'', JInt 1)])"
proof -
  have "webhook_fields sample_message = Inr (JStr ''payment.captured'', JStr ''1'', JStr ''pay_1'')"
    by (simp add: webhook_fields_def sample_message_def jcall_get_def jor_def)
  moreover have "jint (JStr ''1'') = Inr 1"
    by (simp add: jint_def py_int_def strip_def is_space_def is_digit_char_def char_code_def)
  ultimately show ?thesis
    by (simp add: razorpay_webhook_def apply_webhook_def case_prod_unfold Let_def)
qed

lemma webhook_once_witness:
  "\<exists>r d'. razorpay_webhook test_gateway (\<lambda>s. Some sample_message) sample_env ''m'' ''w3:m'' pay_db = (r, d')
     \<and> r = Inr (JObj [(''ok'', JBool True), (''order_id'', JInt 1)])
     \<and> snd (razorpay_webhook test_gateway (\<lambda>s. Some sample_message) sample_env ''m'' ''w3:m'' d') = d'"
proof -
  obtain r d' where r: "razorpay_webhook test_gateway (\<lambda>s. Some sample_message) sample_env ''m'' ''w3:m'' pay_db = (r, d')"
    by (cases "razorpay_webhook test_gateway (\<lambda>s. Some sample_message) sample_env ''m'' ''w3:m'' pay_db")
  with webhook_once [OF r pay_db_facts(1), of sample_env] sample_webhook show ?thesis by auto
qed

end
