(* ===== verification/Rider.thy ===== *)
theory Rider
  imports OrderLife
begin

text \<open>
  Delivery.  \<open>store_ops_service/app/services/orders.py\<close>: the shop's status updates, offers and
  assignments; \<open>rider_service/app/services/rider.py\<close>: what the rider does with them.  An offer
  lasts \<open>OFFER_TTL_SEC\<close> seconds and is taken back lazily, by the next rider operation that finds it
  expired.  Coordinates in address snapshots are JSON numbers.
\<close>

section \<open>The shop's side\<close>

definition OFFER_TTL_SEC :: int where "OFFER_TTL_SEC = 45"

text \<open>\<open>((notes or "") + "\n" + s).strip()\<close>\<close>

definition add_note :: "string \<Rightarrow> Order \<Rightarrow> Order" where
  "add_note s ord = ord\<lparr>o_internal_notes :=
     Some (strip (or_str (o_internal_notes ord) [] @ [char_of (10 :: nat)] @ s))\<rparr>"

definition customer_coord :: "Order \<Rightarrow> string \<Rightarrow> string \<Rightarrow> rat option" where
  "customer_coord ord long short =
     (let addr = jor_obj (o_address_snapshot ord)
      in case jfloat (jget long addr) of
           Some x \<Rightarrow> if x \<noteq> 0 then Some x else jfloat (jget short addr)
         | None \<Rightarrow> jfloat (jget short addr))"

definition upsert_tracking :: "env \<Rightarrow> Order \<Rightarrow> int \<Rightarrow> db \<Rightarrow> db" where
  "upsert_tracking e ord person d =
     (let s = bakery e d;
          lat = customer_coord ord ''latitude'' ''lat'';
          lng = customer_coord ord ''longitude'' ''lng''
      in case tracking_of d (o_id ord) of
           None \<Rightarrow> add_DeliveryTracking ((new_DeliveryTracking (env_now e) (o_id ord) person)
              \<lparr>dt_bakery_lat := bs_latitude s, dt_bakery_lng := bs_longitude s,
               dt_customer_lat := lat, dt_customer_lng := lng,
               dt_rider_lat := Some (bs_latitude s), dt_rider_lng := Some (bs_longitude s),
               dt_eta_minutes := Some 35, dt_distance_km := Some (fl (42 / 10))\<rparr>) d
         | Some t \<Rightarrow> put_DeliveryTracking (t\<lparr>dt_delivery_person_id := person, dt_updated_at := env_now e,
              dt_customer_lat := (if lat = None then dt_customer_lat t else lat),
              dt_customer_lng := (if lng = None then dt_customer_lng t else lng)\<rparr>) d)"

definition rider_user_id :: "db \<Rightarrow> int option \<Rightarrow> int option" where
  "rider_user_id d person =
     (if truthy_id person
      then (case get_DeliveryPerson d (the person) of
              Some p \<Rightarrow> if truthy_id (dp_user_id p) then dp_user_id p else None
            | None \<Rightarrow> None)
      else None)"

definition notify_rider :: "Order \<Rightarrow> string \<Rightarrow> string \<Rightarrow> db \<Rightarrow> db" where
  "notify_rider ord kind status d =
     (let uid = rider_user_id d (o_delivery_person_id ord);
          expires = (case o_offer_expires_at ord of None \<Rightarrow> [] | Some t \<Rightarrow> [(''expires_at'', JStr (isoformat t))]);
          d1 = emit_order_status (o_id ord)
            ([(''status'', JStr status), (''user_id'', JInt (o_user_id ord)),
              (''delivery_person_id'', jopt_int (o_delivery_person_id ord)),
              (''order_number'', JStr (o_order_number ord)), (''rider_user_id'', jopt_int uid)] @ expires) d
      in if truthy_id uid
         then emit_user_event (the uid) kind
            [(''order_id'', JInt (o_id ord)), (''order_number'', JStr (o_order_number ord)),
             (''status'', JStr status), (''expires_at'', jopt_time (o_offer_expires_at ord)),
             (''delivery_person_id'', jopt_int (o_delivery_person_id ord))] d1
         else d1)"

definition ops_event_kind :: "OrderStatus \<Rightarrow> int option \<Rightarrow> string" where
  "ops_event_kind st person =
     (if st = OS_DELIVERY_ASSIGNED \<and> person \<noteq> None then ''delivery_job''
      else if st = OS_DELIVERY_OFFERED then ''delivery_offer''
      else if st = OS_CANCELLED then ''delivery_cancelled'' else ''delivery_updated'')"

text \<open>The order after the update, its fields in the order the code sets them.\<close>

definition ops_set_status :: "env \<Rightarrow> OrderStatus \<Rightarrow> string option \<Rightarrow> int option \<Rightarrow> Order \<Rightarrow> Order" where
  "ops_set_status e st note_text person ord =
     (let o1 = ord\<lparr>o_status := st, o_updated_at := env_now e,
                   o_delivery_person_id := (if person = None then o_delivery_person_id ord else person)\<rparr>;
          o2 = (if st = OS_DELIVERY_ASSIGNED then o1\<lparr>o_offer_expires_at := None\<rparr> else o1);
          o3 = (if st = OS_DELIVERY_OFFERED
                then o2\<lparr>o_offer_expires_at := Some (env_now e + us_seconds OFFER_TTL_SEC)\<rparr> else o2);
          o4 = (if truthy_str note_text then add_note (the note_text) o3 else o3);
          o5 = (if st = OS_DELIVERED then o4\<lparr>o_delivered_at := Some (env_now e)\<rparr> else o4)
      in if st = OS_CANCELLED
         then o5\<lparr>o_cancelled_at := Some (env_now e), o_cancel_reason := note_text\<rparr> else o5)"

text \<open>The tracking row is written for a named rider, and once more for an offered or assigned order.\<close>

definition ops_tracking :: "env \<Rightarrow> OrderStatus \<Rightarrow> int option \<Rightarrow> Order \<Rightarrow> db \<Rightarrow> db" where
  "ops_tracking e st person ord2 d =
     (let d1 = (case person of None \<Rightarrow> d | Some p \<Rightarrow> upsert_tracking e ord2 p d)
      in if st \<in> set [OS_DELIVERY_ASSIGNED, OS_DELIVERY_OFFERED] \<and> truthy_id (o_delivery_person_id ord2)
         then upsert_tracking e ord2 (the (o_delivery_person_id ord2)) d1 else d1)"

definition ops_update_status :: "env \<Rightarrow> int \<Rightarrow> string \<Rightarrow> string option \<Rightarrow> int option \<Rightarrow> db
    \<Rightarrow> (exc + Order) \<times> db" where
  "ops_update_status e order_id status note_text person d = (case get_Order d order_id of
     None \<Rightarrow> (Inl (not_found ''Order not found''), d)
   | Some ord \<Rightarrow> (case enum_of OrderStatus_value OrderStatus_members status of
       None \<Rightarrow> (Inl (bad_request (''Invalid status: '' @ status)), d)
     | Some st \<Rightarrow>
         if person \<noteq> None \<and> get_DeliveryPerson d (the person) = None
         then (Inl (not_found ''Delivery person not found''), d)
         else let o2 = ops_set_status e st note_text person ord;
                  d2 = put_Order o2 (ops_tracking e st person o2 d)
              in (Inr o2, notify_rider o2 (ops_event_kind st person) (OrderStatus_value st) d2)))"

definition offer_delivery :: "env \<Rightarrow> int \<Rightarrow> int \<Rightarrow> db \<Rightarrow> (exc + Order) \<times> db" where
  "offer_delivery e order_id person d =
     ops_update_status e order_id ''delivery_offered'' (Some ''Offered to rider'') (Some person) d"

definition assign_delivery :: "env \<Rightarrow> int \<Rightarrow> int \<Rightarrow> db \<Rightarrow> (exc + Order) \<times> db" where
  "assign_delivery e order_id person d =
     ops_update_status e order_id ''delivery_assigned'' (Some ''Assigned to rider'') (Some person) d"

definition ops_list_orders :: "db \<Rightarrow> string option \<Rightarrow> Order list" where
  "ops_list_orders d status_group =
     (let rs = sort_key (\<lambda>r. - o_created_at r) (rows (orders d))
      in if status_group = Some ''pending''
         then filter (\<lambda>r. o_status r \<in> set [OS_PLACED, OS_PAYMENT_RECEIVED]) rs
         else if status_group = Some ''active''
         then filter (\<lambda>r. o_status r \<in> set [OS_ACCEPTED, OS_PREPARING, OS_PACKED, OS_DELIVERY_OFFERED,
                OS_DELIVERY_ASSIGNED, OS_PICKED_UP, OS_OUT_FOR_DELIVERY, OS_NEAR_LOCATION]) rs
         else rs)"

definition ops_order_detail :: "db \<Rightarrow> int \<Rightarrow> exc + Order \<times> OrderItem list" where
  "ops_order_detail d order_id = (case get_Order d order_id of
     None \<Rightarrow> Inl (not_found ''Order not found'') | Some ord \<Rightarrow> Inr (ord, items_of d order_id))"

definition make_invoice :: "env \<Rightarrow> int \<Rightarrow> db \<Rightarrow> (exc + Invoice) \<times> db" where
  "make_invoice e order_id d = (case ops_order_detail d order_id of
     Inl ex \<Rightarrow> (Inl ex, d) | Inr (ord, _) \<Rightarrow> issue_from_order e ord d)"

section \<open>The rider's side\<close>

definition RIDER_STATUS_STEPS :: "string list" where
  "RIDER_STATUS_STEPS = [''picked_up'', ''out_for_delivery'', ''near_location'']"

definition person_of_user :: "db \<Rightarrow> int \<Rightarrow> DeliveryPerson option" where
  "person_of_user d uid = t_first (\<lambda>p. dp_user_id p = Some uid) (riders d)"

definition person_of_phone :: "db \<Rightarrow> string \<Rightarrow> DeliveryPerson option" where
  "person_of_phone d phone = t_first (\<lambda>p. dp_phone p = phone) (riders d)"

definition person_for_user :: "env \<Rightarrow> User \<Rightarrow> db \<Rightarrow> DeliveryPerson \<times> db" where
  "person_for_user e user d = (case person_of_user d (u_id user) of
     Some p \<Rightarrow> (p, d)
   | None \<Rightarrow> (case person_of_phone d (u_phone user) of
       Some p \<Rightarrow> let p2 = p\<lparr>dp_user_id := Some (u_id user)\<rparr> in (p2, put_DeliveryPerson p2 d)
     | None \<Rightarrow>
         let nm = strip (or_str (u_name user) ''Rider'');
             p = (new_DeliveryPerson (env_now e) (if nm = [] then ''Rider'' else nm) (u_phone user) ''TBD'')
                   \<lparr>dp_user_id := Some (u_id user), dp_is_available := True\<rparr>
         in (key_DeliveryPerson p d, add_DeliveryPerson p d)))"

definition user_dict :: "User \<Rightarrow> json" where
  "user_dict u = JObj [(''id'', JInt (u_id u)), (''phone'', JStr (u_phone u)), (''name'', jopt_str (u_name u)),
     (''email'', jopt_str (u_email u)), (''email_verified'', JBool (u_email_verified u)),
     (''role'', JStr (UserRole_value (u_role u))), (''language'', JStr (u_language u)),
     (''avatar_url'', jopt_str (u_avatar_url u)), (''is_guest'', JBool (u_is_guest u)),
     (''is_online'', JBool (u_is_online u)), (''last_seen_at'', jopt_time (u_last_seen_at u))]"

definition person_dict :: "DeliveryPerson \<Rightarrow> json" where
  "person_dict p = JObj [(''id'', JInt (dp_id p)), (''name'', JStr (dp_name p)), (''phone'', JStr (dp_phone p)),
     (''vehicle_number'', JStr (dp_vehicle_number p)), (''is_available'', JBool (dp_is_available p)),
     (''current_lat'', jopt_float (dp_current_lat p)), (''current_lng'', jopt_float (dp_current_lng p)),
     (''photo_url'', jopt_str (dp_photo_url p))]"

definition get_delivery_profile :: "User \<Rightarrow> db \<Rightarrow> json \<times> db" where
  "get_delivery_profile user d =
     (let (person, d1) = (case person_of_user d (u_id user) of
        Some p \<Rightarrow> (Some p, d)
      | None \<Rightarrow> (case person_of_phone d (u_phone user) of
          None \<Rightarrow> (None, d)
        | Some p \<Rightarrow> if truthy_id (dp_user_id p) then (Some p, d)
            else let p2 = p\<lparr>dp_user_id := Some (u_id user)\<rparr> in (Some p2, put_DeliveryPerson p2 d)))
      in (JObj [(''user'', user_dict user),
           (''delivery_person'', case person of None \<Rightarrow> JNull | Some p \<Rightarrow> person_dict p)], d1))"

record rider_view =
  rv_order :: Order
  rv_items :: "OrderItem list"
  rv_payment :: "Payment option"
  rv_tracking :: "DeliveryTracking option"
  rv_delivery_person :: "DeliveryPerson option"

definition rider_order_detail :: "db \<Rightarrow> int \<Rightarrow> exc + rider_view" where
  "rider_order_detail d order_id = (case get_Order d order_id of
     None \<Rightarrow> Inl (not_found ''Order not found'')
   | Some ord \<Rightarrow> Inr \<lparr>rv_order = ord, rv_items = items_of d (o_id ord), rv_payment = last_payment d (o_id ord),
        rv_tracking = tracking_of d (o_id ord),
        rv_delivery_person = (if truthy_id (o_delivery_person_id ord)
          then get_DeliveryPerson d (the (o_delivery_person_id ord)) else None)\<rparr>)"

section \<open>Offers\<close>

definition offer_expired :: "env \<Rightarrow> Order \<Rightarrow> bool" where
  "offer_expired e ord \<longleftrightarrow> o_status ord = OS_DELIVERY_OFFERED
     \<and> (case o_offer_expires_at ord of Some t \<Rightarrow> t \<le> env_now e | None \<Rightarrow> True)"

definition release_order :: "env \<Rightarrow> string \<Rightarrow> Order \<Rightarrow> Order" where
  "release_order e why ord = add_note why (ord\<lparr>o_status := OS_PACKED, o_delivery_person_id := None,
     o_offer_expires_at := None, o_updated_at := env_now e\<rparr>)"

definition order_step_event :: "Order \<Rightarrow> string \<Rightarrow> int \<Rightarrow> db \<Rightarrow> db" where
  "order_step_event ord status uid d = emit_order_status (o_id ord)
     [(''status'', JStr status), (''user_id'', JInt (o_user_id ord)),
      (''delivery_person_id'', jopt_int (o_delivery_person_id ord)), (''rider_user_id'', JInt uid)] d"

definition released_event :: "Order \<Rightarrow> int option \<Rightarrow> db \<Rightarrow> db" where
  "released_event ord uid d = emit_order_status (o_id ord)
     [(''status'', JStr ''packed''), (''user_id'', JInt (o_user_id ord)), (''rider_user_id'', jopt_int uid)] d"

definition clear_expired_offer :: "env \<Rightarrow> Order \<Rightarrow> db \<Rightarrow> bool \<times> db" where
  "clear_expired_offer e ord d =
     (if \<not> offer_expired e ord then (False, d)
      else let uid = (if truthy_id (o_delivery_person_id ord)
                      then (case get_DeliveryPerson d (the (o_delivery_person_id ord)) of
                              Some p \<Rightarrow> dp_user_id p | None \<Rightarrow> None)
                      else None);
               d1 = put_Order (release_order e ''Offer expired'' ord) d;
               d2 = emit_admin_event ''delivery_offer_expired''
                  [(''order_id'', JInt (o_id ord)), (''order_number'', JStr (o_order_number ord)),
                   (''delivery_person_id'', jopt_int (o_delivery_person_id ord))] d1;
               d3 = (if truthy_id uid
                     then emit_user_event (the uid) ''delivery_cancelled''
                        [(''order_id'', JInt (o_id ord)), (''reason'', JStr ''expired'')] d2
                     else d2)
           in (True, released_event ord uid d3))"

fun list_trips :: "env \<Rightarrow> Order list \<Rightarrow> db \<Rightarrow> (exc + rider_view list) \<times> db" where
  "list_trips e [] d = (Inr [], d)"
| "list_trips e (ord # os) d =
     (let (cleared, d1) = clear_expired_offer e ord d
      in if cleared then list_trips e os d1
         else (case rider_order_detail d1 (o_id ord) of
                 Inl ex \<Rightarrow> (Inl ex, d1)
               | Inr v \<Rightarrow> (case list_trips e os d1 of
                   (Inl ex, d2) \<Rightarrow> (Inl ex, d2) | (Inr vs, d2) \<Rightarrow> (Inr (v # vs), d2))))"

definition orders_of_rider :: "db \<Rightarrow> int \<Rightarrow> Order list" where
  "orders_of_rider d person_id =
     take 50 (sort_key (\<lambda>r. - o_created_at r) (t_all (\<lambda>r. o_delivery_person_id r = Some person_id) (orders d)))"

definition my_orders :: "env \<Rightarrow> User \<Rightarrow> db \<Rightarrow> (exc + rider_view list) \<times> db" where
  "my_orders e user d = (case person_for_user e user d of
     (person, d1) \<Rightarrow> list_trips e (orders_of_rider d1 (dp_id person)) d1)"

text \<open>The order a rider names, when it is assigned or offered to this rider.\<close>

definition own_order :: "DeliveryPerson \<Rightarrow> int \<Rightarrow> string \<Rightarrow> db \<Rightarrow> exc + Order" where
  "own_order person order_id msg d = (case get_Order d order_id of
     None \<Rightarrow> Inl (forbidden msg)
   | Some ord \<Rightarrow> if o_delivery_person_id ord \<noteq> Some (dp_id person) then Inl (forbidden msg) else Inr ord)"

definition accept_order :: "env \<Rightarrow> User \<Rightarrow> int \<Rightarrow> db \<Rightarrow> (exc + Order) \<times> db" where
  "accept_order e user order_id d = (case person_for_user e user d of (person, d1) \<Rightarrow>
     (case own_order person order_id ''Order not offered to you'' d1 of
        Inl ex \<Rightarrow> (Inl ex, d1)
      | Inr ord \<Rightarrow>
          let (cleared, d2) = clear_expired_offer e ord d1
          in if cleared then (Inl (bad_request ''Offer expired''), d2)
             else if o_status ord \<noteq> OS_DELIVERY_OFFERED
             then (Inl (bad_request ''Order is not an open offer''), d2)
             else let o2 = add_note ''Accepted by rider'' (ord\<lparr>o_status := OS_DELIVERY_ASSIGNED,
                             o_offer_expires_at := None, o_updated_at := env_now e\<rparr>)
                  in (Inr o2,
                      emit_admin_event ''delivery_accepted''
                        [(''order_id'', JInt (o_id o2)), (''delivery_person_id'', JInt (dp_id person))]
                      (emit_user_event (u_id user) ''delivery_job''
                        [(''order_id'', JInt (o_id o2)), (''order_number'', JStr (o_order_number o2)),
                         (''status'', JStr ''delivery_assigned'')]
                      (order_step_event o2 ''delivery_assigned'' (u_id user) (put_Order o2 d2))))))"

definition reject_order :: "env \<Rightarrow> User \<Rightarrow> int \<Rightarrow> db \<Rightarrow> (exc + json) \<times> db" where
  "reject_order e user order_id d = (case person_for_user e user d of (person, d1) \<Rightarrow>
     (case own_order person order_id ''Order not offered to you'' d1 of
        Inl ex \<Rightarrow> (Inl ex, d1)
      | Inr ord \<Rightarrow>
          if o_status ord \<noteq> OS_DELIVERY_OFFERED then (Inl (bad_request ''Only open offers can be rejected''), d1)
          else (Inr (JObj [(''ok'', JBool True), (''order_id'', JInt order_id)]),
                released_event ord (Some (u_id user))
                  (emit_user_event (u_id user) ''delivery_cancelled''
                     [(''order_id'', JInt order_id), (''reason'', JStr ''rejected'')]
                  (emit_admin_event ''delivery_rejected''
                     [(''order_id'', JInt order_id), (''delivery_person_id'', JInt (dp_id person)),
                      (''order_number'', JStr (o_order_number ord))]
                  (put_Order (release_order e ''Rejected by rider'' ord) d1))))))"

section \<open>The trip\<close>

definition rider_update_status :: "env \<Rightarrow> User \<Rightarrow> int \<Rightarrow> string \<Rightarrow> db \<Rightarrow> (exc + Order) \<times> db" where
  "rider_update_status e user order_id status d = (case person_for_user e user d of (person, d1) \<Rightarrow>
     (case own_order person order_id ''Order not assigned to you'' d1 of
        Inl ex \<Rightarrow> (Inl ex, d1)
      | Inr ord \<Rightarrow>
          if o_status ord = OS_DELIVERY_OFFERED
          then (Inl (bad_request ''Accept the offer before updating trip status''), d1)
          else let key = str_lower (strip status) in
          if key = ''reached_bakery''
          then let o2 = add_note ''Reached bakery'' (ord\<lparr>o_updated_at := env_now e\<rparr>)
               in (Inr o2,
                   emit_order_status (o_id o2)
                     [(''status'', JStr (OrderStatus_value (o_status o2))), (''step'', JStr ''reached_bakery''),
                      (''user_id'', JInt (o_user_id o2)), (''delivery_person_id'', jopt_int (o_delivery_person_id o2)),
                      (''rider_user_id'', JInt (u_id user))]
                   (emit_user_event (u_id user) ''delivery_updated''
                     [(''order_id'', JInt (o_id o2)), (''status'', JStr ''reached_bakery'')] (put_Order o2 d1)))
          else if key \<notin> set RIDER_STATUS_STEPS
          then (Inl (bad_request (''Invalid status. Allowed: reached_bakery, '' @ join '', '' RIDER_STATUS_STEPS)), d1)
          else (case enum_of OrderStatus_value OrderStatus_members key of
                  None \<Rightarrow> (Inl (bad_request (''Invalid status: '' @ key)), d1)
                | Some st \<Rightarrow>
                    let o2 = ord\<lparr>o_status := st, o_updated_at := env_now e\<rparr>
                    in (Inr o2, order_step_event o2 (OrderStatus_value st) (u_id user) (put_Order o2 d1)))))"

definition delivered_order :: "env \<Rightarrow> Order \<Rightarrow> Order" where
  "delivered_order e ord = add_note ''Delivered by rider'' (ord\<lparr>o_status := OS_DELIVERED, o_updated_at := env_now e,
     o_delivered_at := Some (env_now e), o_payment_status := PS_PAID\<rparr>)"

definition mark_delivered :: "env \<Rightarrow> User \<Rightarrow> int \<Rightarrow> db \<Rightarrow> (exc + Order) \<times> db" where
  "mark_delivered e user order_id d = (case person_for_user e user d of (person, d1) \<Rightarrow>
     (case own_order person order_id ''Order not assigned to you'' d1 of
        Inl ex \<Rightarrow> (Inl ex, d1)
      | Inr ord \<Rightarrow>
          if o_status ord = OS_DELIVERY_OFFERED
          then (Inl (bad_request ''Accept the offer before delivering''), d1)
          else let o2 = delivered_order e ord
               in (Inr o2, order_step_event o2 ''delivered'' (u_id user)
                     (put_Order o2 (credit_spending e ord d1)))))"

section \<open>Availability and position\<close>

definition update_availability :: "env \<Rightarrow> User \<Rightarrow> bool \<Rightarrow> db \<Rightarrow> json \<times> db" where
  "update_availability e user is_available d = (case person_for_user e user d of (person, d1) \<Rightarrow>
     (JObj [(''is_available'', JBool is_available)],
      put_DeliveryPerson (person\<lparr>dp_is_available := is_available\<rparr>) d1))"

definition moved_track :: "env \<Rightarrow> rat \<Rightarrow> rat \<Rightarrow> int option \<Rightarrow> rat option \<Rightarrow> DeliveryTracking \<Rightarrow> DeliveryTracking" where
  "moved_track e lat lng eta km t = t\<lparr>dt_rider_lat := Some lat, dt_rider_lng := Some lng, dt_updated_at := env_now e,
     dt_eta_minutes := (if eta = None then dt_eta_minutes t else eta),
     dt_distance_km := (if km = None then dt_distance_km t else km)\<rparr>"

definition update_location :: "env \<Rightarrow> User \<Rightarrow> rat \<Rightarrow> rat \<Rightarrow> int option \<Rightarrow> int option \<Rightarrow> rat option \<Rightarrow> db
    \<Rightarrow> (exc + json) \<times> db" where
  "update_location e user lat lng order_id eta km d = (case person_for_user e user d of (person, d1) \<Rightarrow>
     let d2 = put_DeliveryPerson (person\<lparr>dp_current_lat := Some lat, dp_current_lng := Some lng\<rparr>) d1;
         answer = (\<lambda>eta km. Inr (JObj [(''delivery_person_id'', JInt (dp_id person)), (''lat'', JFloat lat),
            (''lng'', JFloat lng), (''order_id'', jopt_int order_id), (''eta_minutes'', jopt_int eta),
            (''distance_km'', jopt_float km)]));
         event = (\<lambda>eta km. emit_delivery_location (the order_id)
            [(''lat'', JFloat lat), (''lng'', JFloat lng), (''eta_minutes'', jopt_int eta),
             (''distance_km'', jopt_float km), (''delivery_person_id'', JInt (dp_id person))])
     in if truthy_id order_id
        then (case own_order person (the order_id) ''Order not assigned to you'' d1 of
                Inl ex \<Rightarrow> (Inl ex, d1)
              | Inr ord \<Rightarrow> (case tracking_of d1 (the order_id) of
                  None \<Rightarrow> (answer eta km, event eta km d2)
                | Some t \<Rightarrow> let t2 = moved_track e lat lng eta km t
                    in (answer (dt_eta_minutes t2) (dt_distance_km t2),
                        event (dt_eta_minutes t2) (dt_distance_km t2) (put_DeliveryTracking t2 d2))))
        else (answer eta km, d2))"

end
