(* ===== verification/RiderLaws.thy ===== *)
theory RiderLaws
  imports Rider OrderLaws
begin

text \<open>
  Laws of offers and trips: who can accept an offer and until when, what a rider can change, and that
  the rider's listing takes back every expired offer.
\<close>

section \<open>Small laws\<close>

lemma add_note_fields [simp]:
  "o_id (add_note s ord) = o_id ord" "o_status (add_note s ord) = o_status ord"
  "o_delivery_person_id (add_note s ord) = o_delivery_person_id ord"
  "o_offer_expires_at (add_note s ord) = o_offer_expires_at ord"
  "o_user_id (add_note s ord) = o_user_id ord" "o_payment_status (add_note s ord) = o_payment_status ord"
  by (simp_all add: add_note_def)

lemma release_fields [simp]:
  "o_id (release_order e s ord) = o_id ord" "o_status (release_order e s ord) = OS_PACKED"
  "o_delivery_person_id (release_order e s ord) = None" "o_offer_expires_at (release_order e s ord) = None"
  by (simp_all add: release_order_def)

lemma delivered_fields [simp]:
  "o_id (delivered_order e ord) = o_id ord" "o_status (delivered_order e ord) = OS_DELIVERED"
  "o_delivery_person_id (delivered_order e ord) = o_delivery_person_id ord"
  by (simp_all add: delivered_order_def)

lemma person_for_known: "person_of_user d (u_id user) = Some p \<Longrightarrow> person_for_user e user d = (p, d)"
  by (simp add: person_for_user_def)

lemma person_for_user_frame:
  assumes "person_for_user e user d = (p, d1)"
  shows "orders d1 = orders d" "histories d1 = histories d" "trackings d1 = trackings d" "users d1 = users d"
    "db_wf d \<Longrightarrow> db_wf d1"
  using assms by (auto simp: person_for_user_def Let_def split: option.splits)

lemma own_orderE:
  assumes "own_order person k msg d = r"
  obtains (denied) "r = Inl (forbidden msg)"
      "\<And>ord. get_Order d k = Some ord \<Longrightarrow> o_delivery_person_id ord \<noteq> Some (dp_id person)"
  | (own) ord where "r = Inr ord" "get_Order d k = Some ord" "o_id ord = k" "o_delivery_person_id ord = Some (dp_id person)"
  using assms t_get_key [of o_id k "orders d"] by (auto simp: own_order_def split: option.splits if_splits)

lemma clear_expired_fields:
  assumes "clear_expired_offer e ord d = (b, d1)"
  shows "b \<longleftrightarrow> offer_expired e ord"
    "orders d1 = (if offer_expired e ord then t_put o_id (release_order e ''Offer expired'' ord) (orders d) else orders d)"
    "histories d1 = histories d" "riders d1 = riders d" "db_wf d \<Longrightarrow> db_wf d1"
  using assms
  by (auto simp: clear_expired_offer_def released_event_def emit_defs Let_def split: if_splits option.splits)

section \<open>Accepting\<close>

text \<open>What a known rider's acceptance does in every case: an order that is missing or
  not offered to this rider is refused; an expired offer is refused and taken back, the order packed
  again without a rider; an order that is no open offer is refused; an open offer becomes assigned to
  this rider.  No other order changes.\<close>

theorem accept_outcome:
  assumes "accept_order e user k d = (r, d')" "person_of_user d (u_id user) = Some p"
  shows "(\<forall>i. i \<noteq> k \<longrightarrow> get_Order d' i = get_Order d i) \<and> (case get_Order d k of
      None \<Rightarrow> r = Inl (forbidden ''Order not offered to you'') \<and> d' = d
    | Some ord \<Rightarrow>
        if o_delivery_person_id ord \<noteq> Some (dp_id p)
        then r = Inl (forbidden ''Order not offered to you'') \<and> d' = d
        else if o_status ord \<noteq> OS_DELIVERY_OFFERED
        then r = Inl (bad_request ''Order is not an open offer'') \<and> d' = d
        else if offer_expired e ord
        then r = Inl (bad_request ''Offer expired'')
           \<and> get_Order d' k = Some (release_order e ''Offer expired'' ord)
        else \<exists>o2. r = Inr o2 \<and> get_Order d' k = Some o2 \<and> o_status o2 = OS_DELIVERY_ASSIGNED
           \<and> o_delivery_person_id o2 = Some (dp_id p) \<and> o_offer_expires_at o2 = None)"
proof (cases "get_Order d k")
  case None
  with assms show ?thesis by (simp add: accept_order_def person_for_known own_order_def)
next
  case (Some ord)
  have id: "o_id ord = k" using t_get_key [OF Some] .
  obtain b d2 where c: "clear_expired_offer e ord d = (b, d2)" by (cases "clear_expired_offer e ord d")
  note C = clear_expired_fields [OF c]
  have d2: "d2 = d" if "\<not> b" using c that by (auto simp: clear_expired_offer_def Let_def split: if_splits)
  have st: "o_status ord = OS_DELIVERY_OFFERED" if b using C(1) that by (simp add: offer_expired_def)
  show ?thesis
  proof (cases "o_delivery_person_id ord = Some (dp_id p) \<and> b")
    case True
    then have "r = Inl (bad_request ''Offer expired'')" "d' = d2"
      using assms Some c by (simp_all add: accept_order_def person_for_known own_order_def)
    then show ?thesis using True C(1,2) st Some id by simp
  next
    case False
    then show ?thesis using assms Some c C(1) d2 id
      by (auto simp: accept_order_def person_for_known own_order_def order_step_event_def emit_defs Let_def)
  qed
qed

lemma ops_update_statusE:
  assumes "ops_update_status e k status nt person d = (Inr o2, d2)"
  obtains ord st where "get_Order d k = Some ord" "OrderStatus_value st = status" "o2 = ops_set_status e st nt person ord"
    "person \<noteq> None \<Longrightarrow> get_DeliveryPerson d (the person) \<noteq> None"
    "d2 = notify_rider o2 (ops_event_kind st person) status (put_Order o2 (ops_tracking e st person o2 d))"
proof -
  from assms obtain ord st where s: "get_Order d k = Some ord" "enum_of OrderStatus_value OrderStatus_members status = Some st"
    "person \<noteq> None \<longrightarrow> get_DeliveryPerson d (the person) \<noteq> None" "o2 = ops_set_status e st nt person ord"
    "d2 = notify_rider o2 (ops_event_kind st person) (OrderStatus_value st) (put_Order o2 (ops_tracking e st person o2 d))"
    unfolding ops_update_status_def by (auto simp: Let_def split: option.splits if_splits)
  from OrderStatus_enum.of_SomeD [OF s(2)] have "OrderStatus_value st = status" .
  with s show thesis by (intro that [of ord st]) auto
qed

lemma upsert_tracking_fields [simp]:
  "orders (upsert_tracking e ord p d) = orders d" "riders (upsert_tracking e ord p d) = riders d"
  "histories (upsert_tracking e ord p d) = histories d" "db_wf d \<Longrightarrow> db_wf (upsert_tracking e ord p d)"
  by (auto simp: upsert_tracking_def Let_def split: option.splits)

lemma ops_tracking_fields [simp]:
  "orders (ops_tracking e st p ord d) = orders d" "riders (ops_tracking e st p ord d) = riders d"
  "histories (ops_tracking e st p ord d) = histories d" "db_wf d \<Longrightarrow> db_wf (ops_tracking e st p ord d)"
  by (auto simp: ops_tracking_def Let_def split: option.splits)

lemma notify_rider_fields [simp]:
  "orders (notify_rider ord k s d) = orders d" "riders (notify_rider ord k s d) = riders d"
  "histories (notify_rider ord k s d) = histories d" "db_wf d \<Longrightarrow> db_wf (notify_rider ord k s d)"
  by (auto simp: notify_rider_def emit_defs Let_def)

lemma ops_set_status_fields [simp]:
  "o_id (ops_set_status e st nt p ord) = o_id ord" "o_status (ops_set_status e st nt p ord) = st"
  "o_delivery_person_id (ops_set_status e st nt p ord) = (if p = None then o_delivery_person_id ord else p)"
  "o_offer_expires_at (ops_set_status e OS_DELIVERY_OFFERED nt p ord) = Some (env_now e + us_seconds OFFER_TTL_SEC)"
  by (simp_all add: ops_set_status_def Let_def)

text \<open>Property C25 (offer_window): after an order was offered to a rider, that rider's acceptance succeeds exactly in
  the 45 seconds after the offer; from then on it is refused and the order is packed again with no
  rider.\<close>

theorem offer_window:
  assumes "offer_delivery e k pid d = (Inr o1, d1)" "person_of_user d1 (u_id user) = Some p" "dp_id p = pid"
  shows "if env_now e2 < env_now e + us_seconds 45
    then \<exists>o2 d2. accept_order e2 user k d1 = (Inr o2, d2) \<and> o_status o2 = OS_DELIVERY_ASSIGNED
           \<and> o_delivery_person_id o2 = Some pid
    else \<exists>o2 d2. accept_order e2 user k d1 = (Inl (bad_request ''Offer expired''), d2)
           \<and> get_Order d2 k = Some o2 \<and> o_status o2 = OS_PACKED \<and> o_delivery_person_id o2 = None"
proof -
  from assms(1) obtain ord st where s: "get_Order d k = Some ord" "OrderStatus_value st = ''delivery_offered''"
    "o1 = ops_set_status e st (Some ''Offered to rider'') (Some pid) ord"
    "d1 = notify_rider o1 (ops_event_kind st (Some pid)) ''delivery_offered'' (put_Order o1 (ops_tracking e st (Some pid) o1 d))"
    unfolding offer_delivery_def by (rule ops_update_statusE)
  have st: "st = OS_DELIVERY_OFFERED" using s(2) by (cases st) simp_all
  have id: "o_id ord = k" using t_get_key [OF s(1)] .
  have g: "get_Order d1 k = Some o1" using s(1,3,4) id by simp
  have o: "o_id o1 = k" "o_status o1 = OS_DELIVERY_OFFERED" "o_delivery_person_id o1 = Some pid"
    "o_offer_expires_at o1 = Some (env_now e + us_seconds 45)"
    by (simp_all add: s(3) st id OFFER_TTL_SEC_def)
  show ?thesis
  proof (cases "env_now e2 < env_now e + us_seconds 45")
    case True
    then have ne: "\<not> offer_expired e2 o1" by (simp add: offer_expired_def o)
    then have "clear_expired_offer e2 o1 d1 = (False, d1)" by (simp add: clear_expired_offer_def)
    then show ?thesis using True g o assms(2,3)
      by (simp add: accept_order_def person_for_known own_order_def Let_def)
  next
    case False
    then have ex: "offer_expired e2 o1" by (simp add: offer_expired_def o)
    obtain b d2 where c: "clear_expired_offer e2 o1 d1 = (b, d2)" by (cases "clear_expired_offer e2 o1 d1")
    note C = clear_expired_fields [OF c]
    have "accept_order e2 user k d1 = (Inl (bad_request ''Offer expired''), d2)"
      using c C(1) ex g o assms(2,3) by (simp add: accept_order_def person_for_known own_order_def)
    moreover have "get_Order d2 k = Some (release_order e2 ''Offer expired'' o1)"
      using C(2) ex g o(1) by simp
    ultimately show ?thesis using False by simp
  qed
qed

section \<open>What a rider can change\<close>

text \<open>The operations of one rider.\<close>

inductive rider_step :: "User \<Rightarrow> db \<Rightarrow> db \<Rightarrow> bool" for user where
  listing: "my_orders e user d = (r, d') \<Longrightarrow> rider_step user d d'"
| accept: "accept_order e user k d = (r, d') \<Longrightarrow> rider_step user d d'"
| reject: "reject_order e user k d = (j, d') \<Longrightarrow> rider_step user d d'"
| status: "rider_update_status e user k st d = (r, d') \<Longrightarrow> rider_step user d d'"
| deliver: "mark_delivered e user k d = (r, d') \<Longrightarrow> rider_step user d d'"
| locate: "update_location e user lat lng oid eta km d = (j, d') \<Longrightarrow> rider_step user d d'"
| available: "update_availability e user b d = (i, d') \<Longrightarrow> rider_step user d d'"

text \<open>The orders of a rider, and what an operation of the rider leaves alone.\<close>

definition others_kept :: "int \<Rightarrow> db \<Rightarrow> db \<Rightarrow> bool" where
  "others_kept pid d d' \<longleftrightarrow> histories d' = histories d
     \<and> (\<forall>k ord. get_Order d k = Some ord \<longrightarrow> o_delivery_person_id ord \<noteq> Some pid \<longrightarrow> get_Order d' k = Some ord)"

lemma others_kept_put:
  assumes "histories d' = histories d" "orders d' = t_put o_id o2 (orders d)"
    and "get_Order d (o_id o2) = Some ord" "o_delivery_person_id ord = Some pid"
  shows "others_kept pid d d'"
  using assms by (auto simp: others_kept_def)

lemma others_kept_refl: "histories d' = histories d \<Longrightarrow> orders d' = orders d \<Longrightarrow> others_kept pid d d'"
  by (simp add: others_kept_def)

lemma others_kept_trans: "others_kept pid d d1 \<Longrightarrow> others_kept pid d1 d2 \<Longrightarrow> others_kept pid d d2"
  by (auto simp: others_kept_def)

lemma list_trips_effect:
  assumes "distinct (map o_id os)" "\<forall>x \<in> set os. get_Order d (o_id x) = Some x \<and> o_delivery_person_id x = Some pid"
  shows "\<exists>vs d'. list_trips e os d = (Inr vs, d') \<and> map rv_order vs = filter (\<lambda>x. \<not> offer_expired e x) os
    \<and> others_kept pid d d'
    \<and> (\<forall>k. get_Order d' k = (case get_Order d k of None \<Rightarrow> None | Some x \<Rightarrow>
          Some (if x \<in> set os \<and> offer_expired e x then release_order e ''Offer expired'' x else x)))"
  using assms
proof (induction os arbitrary: d)
  case Nil
  then show ?case by (auto simp: others_kept_def split: option.splits)
next
  case (Cons x os)
  obtain b d1 where c: "clear_expired_offer e x d = (b, d1)" by (cases "clear_expired_offer e x d")
  note C = clear_expired_fields [OF c]
  have x: "get_Order d (o_id x) = Some x" "o_delivery_person_id x = Some pid" using Cons.prems by auto
  have d1: "d1 = d" if "\<not> b" using c that by (auto simp: clear_expired_offer_def Let_def split: if_splits)
  have g1: "get_Order d1 k = (if k = o_id x \<and> b then Some (release_order e ''Offer expired'' x) else get_Order d k)" for k
    using x C(1,2) by (simp split: if_splits)
  have rest: "\<forall>y \<in> set os. get_Order d1 (o_id y) = Some y \<and> o_delivery_person_id y = Some pid"
  proof
    fix y assume y: "y \<in> set os"
    then have "o_id x \<noteq> o_id y" using Cons.prems(1) by (metis distinct.simps(2) image_eqI list.map(2) list.set_map)
    then show "get_Order d1 (o_id y) = Some y \<and> o_delivery_person_id y = Some pid"
      using bspec [OF Cons.prems(2), of y] y g1 [of "o_id y"] by simp
  qed
  have k1: "others_kept pid d d1" using x C(3) by (auto simp: others_kept_def g1)
  from Cons.IH [OF _ rest] Cons.prems(1) obtain vs d2 where I: "list_trips e os d1 = (Inr vs, d2)"
    "map rv_order vs = filter (\<lambda>x. \<not> offer_expired e x) os" "others_kept pid d1 d2"
    "\<forall>k. get_Order d2 k = (case get_Order d1 k of None \<Rightarrow> None | Some x \<Rightarrow>
          Some (if x \<in> set os \<and> offer_expired e x then release_order e ''Offer expired'' x else x))" by auto
  have kept: "others_kept pid d d2" using others_kept_trans [OF k1 I(3)] .
  have nx: "y \<in> set os \<Longrightarrow> o_id y \<noteq> o_id x" for y
    using Cons.prems(1) by (metis distinct.simps(2) image_eqI list.map(2) list.set_map)
  have rel: "\<not> offer_expired e (release_order e ''Offer expired'' x)" by (simp add: offer_expired_def)
  have g2: "get_Order d2 k = (case get_Order d k of None \<Rightarrow> None | Some y \<Rightarrow>
          Some (if y \<in> set (x # os) \<and> offer_expired e y then release_order e ''Offer expired'' y else y))" for k
  proof (cases "get_Order d k")
    case None
    then have "get_Order d1 k = None" using x by (auto simp: g1)
    then show ?thesis using I(4) None by simp
  next
    case (Some y)
    then have "o_id y = k" using t_get_key [of o_id k "orders d"] by simp
    show ?thesis
    proof (cases "k = o_id x")
      case True
      then have y: "y = x" using x(1) Some by simp
      have "get_Order d1 k = Some (if b then release_order e ''Offer expired'' x else x)"
        using g1 [of k] True Some y by simp
      then show ?thesis using I(4) [rule_format, of k] Some y C(1) rel nx [of x] by simp
    next
      case False
      then have "get_Order d1 k = Some y" "y \<noteq> x" using g1 [of k] Some \<open>o_id y = k\<close> by auto
      then show ?thesis using I(4) [rule_format, of k] Some by simp
    qed
  qed
  show ?case
  proof (cases b)
    case True
    then show ?thesis using c I(1,2) kept g2 C(1) by auto
  next
    case False
    then have "rider_order_detail d1 (o_id x) = Inr \<lparr>rv_order = x, rv_items = items_of d1 (o_id x),
        rv_payment = last_payment d1 (o_id x), rv_tracking = tracking_of d1 (o_id x),
        rv_delivery_person = (if truthy_id (o_delivery_person_id x)
          then get_DeliveryPerson d1 (the (o_delivery_person_id x)) else None)\<rparr>"
      using x(1) d1 by (simp add: rider_order_detail_def)
    then show ?thesis using False c I(1,2) kept g2 C(1) by auto
  qed
qed

lemma orders_of_rider_facts:
  assumes "db_wf d"
  shows "distinct (map o_id (orders_of_rider d pid))"
    "\<forall>x \<in> set (orders_of_rider d pid). get_Order d (o_id x) = Some x \<and> o_delivery_person_id x = Some pid"
proof -
  define xs where "xs = sort_key (\<lambda>r. - o_created_at r) (t_all (\<lambda>r. o_delivery_person_id r = Some pid) (orders d))"
  have s: "set xs = {r \<in> set (rows (orders d)). o_delivery_person_id r = Some pid}" by (auto simp: xs_def t_all_def)
  have di: "distinct (map o_id (rows (orders d)))" using t_wf_distinct [of o_id "orders d"] assms by simp
  then have "distinct xs" "inj_on o_id (set xs)"
    by (auto simp: xs_def t_all_def distinct_map inj_on_def)
  then have "distinct (map o_id xs)" by (simp add: distinct_map)
  then show "distinct (map o_id (orders_of_rider d pid))"
    by (simp add: orders_of_rider_def xs_def flip: take_map)
  have "\<forall>x \<in> set xs. get_Order d (o_id x) = Some x \<and> o_delivery_person_id x = Some pid"
    using s assms by (auto simp: t_get_Some_iff)
  then show "\<forall>x \<in> set (orders_of_rider d pid). get_Order d (o_id x) = Some x \<and> o_delivery_person_id x = Some pid"
    unfolding orders_of_rider_def xs_def by (meson in_set_takeD)
qed

text \<open>The fifty orders that are looked at are the latest ones.\<close>

lemma orders_of_rider_latest:
  fixes d pid
  defines "mine \<equiv> t_all (\<lambda>r. o_delivery_person_id r = Some pid) (orders d)"
  shows "length (orders_of_rider d pid) = min 50 (length mine)" "set (orders_of_rider d pid) \<subseteq> set mine"
    and "sorted (map (\<lambda>x. - o_created_at x) (orders_of_rider d pid))"
    and "x \<in> set (orders_of_rider d pid) \<Longrightarrow> y \<in> set mine \<Longrightarrow> y \<notin> set (orders_of_rider d pid) \<Longrightarrow> o_created_at y \<le> o_created_at x"
proof -
  define xs where "xs = sort_key (\<lambda>r. - o_created_at r) mine"
  have L: "orders_of_rider d pid = take 50 xs" by (simp add: orders_of_rider_def xs_def mine_def)
  have "sorted (map (\<lambda>r. - o_created_at r) (take 50 xs @ drop 50 xs))" by (simp add: xs_def)
  then have s: "sorted (map (\<lambda>r. - o_created_at r) (take 50 xs))"
    "\<forall>x \<in> set (take 50 xs). \<forall>y \<in> set (drop 50 xs). - o_created_at x \<le> - o_created_at y"
    unfolding map_append sorted_append by auto
  show "length (orders_of_rider d pid) = min 50 (length mine)" "sorted (map (\<lambda>x. - o_created_at x) (orders_of_rider d pid))"
    using s(1) by (simp_all add: L xs_def)
  have m: "set mine = set (take 50 xs) \<union> set (drop 50 xs)" by (metis append_take_drop_id set_append set_sort xs_def)
  then show "set (orders_of_rider d pid) \<subseteq> set mine" by (simp add: L)
  show "o_created_at y \<le> o_created_at x"
    if "x \<in> set (orders_of_rider d pid)" "y \<in> set mine" "y \<notin> set (orders_of_rider d pid)"
    using that m s(2) by (auto simp: L)
qed

text \<open>Property C26 (listing_releases_expired): a known rider's listing always answers, with exactly those of the latest fifty
  orders of the rider that are no expired offer, newest first; each expired one of the fifty is packed again and free to be
  offered, and every other order stays as it is.  So none is left expired unless the rider has more than fifty orders; an
  expired offer older than the latest fifty is not seen.\<close>

theorem listing_releases_expired:
  assumes "person_of_user d (u_id user) = Some p" "db_wf d"
  shows "\<exists>vs d' os. my_orders e user d = (Inr vs, d')
    \<and> length os = min 50 (length (t_all (\<lambda>r. o_delivery_person_id r = Some (dp_id p)) (orders d)))
    \<and> set os \<subseteq> set (t_all (\<lambda>r. o_delivery_person_id r = Some (dp_id p)) (orders d)) \<and> distinct os
    \<and> sorted (map (\<lambda>x. - o_created_at x) os)
    \<and> (\<forall>x \<in> set os. \<forall>y \<in> set (t_all (\<lambda>r. o_delivery_person_id r = Some (dp_id p)) (orders d)) - set os.
         o_created_at y \<le> o_created_at x)
    \<and> map rv_order vs = filter (\<lambda>x. \<not> offer_expired e x) os
    \<and> (\<forall>k ord. get_Order d k = Some ord \<longrightarrow>
         get_Order d' k = Some (if ord \<in> set os \<and> offer_expired e ord then release_order e ''Offer expired'' ord else ord))"
proof -
  obtain vs d' where L: "list_trips e (orders_of_rider d (dp_id p)) d = (Inr vs, d')"
    "map rv_order vs = filter (\<lambda>x. \<not> offer_expired e x) (orders_of_rider d (dp_id p))"
    "\<forall>k. get_Order d' k = (case get_Order d k of None \<Rightarrow> None | Some x \<Rightarrow>
          Some (if x \<in> set (orders_of_rider d (dp_id p)) \<and> offer_expired e x then release_order e ''Offer expired'' x else x))"
    using list_trips_effect [OF orders_of_rider_facts [OF assms(2)]] by blast
  have "distinct (orders_of_rider d (dp_id p))"
    using orders_of_rider_facts(1) [OF assms(2), of "dp_id p"] by (simp add: distinct_map)
  then show ?thesis using L assms(1) orders_of_rider_latest [where d = d and pid = "dp_id p"]
    by (intro exI [of _ vs] exI [of _ d'] exI [of _ "orders_of_rider d (dp_id p)"])
      (auto simp: my_orders_def person_for_known)
qed

lemma person_for_facts:
  "person_for_user e user d = (p, d1) \<Longrightarrow> person_of_user d (u_id user) = Some q \<Longrightarrow> p = q \<and> d1 = d"
  by (simp add: person_for_known)

text \<open>One order of the rider replaced.\<close>

lemma own_order_put:
  assumes "own_order p k msg d = Inr ord" "o_id o2 = o_id ord" "histories d' = histories d"
    "orders d' = t_put o_id o2 (orders d)"
  shows "others_kept (dp_id p) d d'"
  using assms(1)
proof (cases rule: own_orderE)
  case (own ord')
  then show ?thesis using assms by (intro others_kept_put [of d' d o2 ord]) auto
qed simp

lemma credit_spending_orders: "orders (credit_spending e ord d) = orders d" "histories (credit_spending e ord d) = histories d"
  by (simp_all add: credit_spending_def split: option.splits)

lemma rider_step_others:
  assumes "rider_step user d d'" "person_of_user d (u_id user) = Some p" "db_wf d"
  shows "others_kept (dp_id p) d d'"
  using assms
proof (induction rule: rider_step.induct)
  case (listing e d r d')
  obtain vs d2 where "list_trips e (orders_of_rider d (dp_id p)) d = (Inr vs, d2)" "others_kept (dp_id p) d d2"
    using list_trips_effect [OF orders_of_rider_facts [OF listing(3)]] by blast
  then show ?case using listing by (simp add: my_orders_def person_for_known)
next
  case (accept e k d r d')
  show ?case
  proof (cases "own_order p k ''Order not offered to you'' d")
    case (Inl ex)
    then show ?thesis using accept by (simp add: accept_order_def person_for_known others_kept_refl)
  next
    case (Inr ord)
    obtain b d2 where c: "clear_expired_offer e ord d = (b, d2)" by (cases "clear_expired_offer e ord d")
    note C = clear_expired_fields [OF c]
    have k2: "others_kept (dp_id p) d d2"
    proof (cases "offer_expired e ord")
      case True
      then show ?thesis using C by (intro own_order_put [OF Inr, of "release_order e ''Offer expired'' ord"]) simp_all
    qed (use C in \<open>simp add: others_kept_refl\<close>)
    show ?thesis
    proof (cases "b \<or> o_status ord \<noteq> OS_DELIVERY_OFFERED")
      case True
      then have "d' = d2" using accept Inr c by (auto simp: accept_order_def person_for_known split: if_splits)
      with k2 show ?thesis by simp
    next
      case False
      then have "d2 = d" using c by (auto simp: clear_expired_offer_def Let_def split: if_splits)
      with False show ?thesis using accept Inr c
        by (intro own_order_put [OF Inr, of "add_note ''Accepted by rider'' (ord\<lparr>o_status := OS_DELIVERY_ASSIGNED,
                             o_offer_expires_at := None, o_updated_at := env_now e\<rparr>)"])
          (auto simp: accept_order_def person_for_known order_step_event_def emit_defs Let_def)
    qed
  qed
next
  case (reject e k d j d')
  show ?case
  proof (cases "own_order p k ''Order not offered to you'' d")
    case (Inl ex)
    then show ?thesis using reject by (simp add: reject_order_def person_for_known others_kept_refl)
  next
    case (Inr ord)
    show ?thesis
    proof (cases "o_status ord = OS_DELIVERY_OFFERED")
      case False
      then show ?thesis using reject Inr by (simp add: reject_order_def person_for_known others_kept_refl)
    next
      case True
      then show ?thesis using reject Inr
        by (intro own_order_put [OF Inr, of "release_order e ''Rejected by rider'' ord"])
          (auto simp: reject_order_def person_for_known released_event_def emit_defs Let_def)
    qed
  qed
next
  case (status e k st d r d')
  show ?case
  proof (cases "own_order p k ''Order not assigned to you'' d")
    case (Inl ex)
    then show ?thesis using status by (simp add: rider_update_status_def person_for_known others_kept_refl)
  next
    case (Inr ord)
    have "d' = d \<or> (o_id (projr r) = o_id ord \<and> orders d' = t_put o_id (projr r) (orders d) \<and> histories d' = histories d)"
      using status Inr
      by (auto simp: rider_update_status_def person_for_known order_step_event_def emit_defs Let_def
          split: if_splits option.splits)
    then show ?thesis using own_order_put [OF Inr] others_kept_refl by blast
  qed
next
  case (deliver e k d r d')
  show ?case
  proof (cases "own_order p k ''Order not assigned to you'' d")
    case (Inl ex)
    then show ?thesis using deliver by (simp add: mark_delivered_def person_for_known others_kept_refl)
  next
    case (Inr ord)
    show ?thesis
    proof (cases "o_status ord = OS_DELIVERY_OFFERED")
      case True
      then show ?thesis using deliver Inr by (simp add: mark_delivered_def person_for_known others_kept_refl)
    next
      case False
      then show ?thesis using deliver Inr
        by (intro own_order_put [OF Inr, of "delivered_order e ord"])
          (auto simp: mark_delivered_def person_for_known order_step_event_def emit_defs Let_def credit_spending_orders)
    qed
  qed
next
  case (locate e lat lng oid eta km d j d')
  then show ?case
    by (intro others_kept_refl)
      (auto simp: update_location_def person_for_known emit_defs Let_def split: if_splits sum.splits option.splits)
next
  case (available e b d i d')
  then show ?case
    by (intro others_kept_refl) (auto simp: update_availability_def person_for_known)
qed

text \<open>Property C14 (rider_touches_own): whatever a known rider does, an order that is not assigned or offered to this
  rider keeps every field.\<close>

theorem rider_touches_own:
  assumes "rider_step user d d'" "person_of_user d (u_id user) = Some p" "db_wf d"
    and "get_Order d k = Some ord" "o_delivery_person_id ord \<noteq> Some (dp_id p)"
  shows "get_Order d' k = Some ord"
  using rider_step_others [OF assms(1-3)] assms(4,5) by (simp add: others_kept_def)

text \<open>No rider operation writes the history of an order: the timeline the customer sees lacks the trip.\<close>

lemma rider_skips_history:
  "rider_step user d d' \<Longrightarrow> person_of_user d (u_id user) = Some p \<Longrightarrow> db_wf d \<Longrightarrow> histories d' = histories d"
  using rider_step_others by (simp add: others_kept_def)

section \<open>Worked examples\<close>

definition sam :: User where "sam = (new_User 0 ''9800000009'')\<lparr>u_id := 9, u_role := UR_DELIVERY\<rparr>"

definition scooter :: DeliveryPerson where
  "scooter = (new_DeliveryPerson 0 ''Sam'' ''9800000009'' ''MH01'')\<lparr>dp_id := 3, dp_user_id := Some 9\<rparr>"

definition offered_order :: Order where
  "offered_order = placed_order\<lparr>o_status := OS_DELIVERY_OFFERED, o_delivery_person_id := Some 3,
     o_offer_expires_at := Some (env_now sample_env + us_seconds 30)\<rparr>"

text \<open>The placed order with a rider at hand, and the same order while it is offered.\<close>

definition trip_db :: db where "trip_db = order_db\<lparr>riders := \<lparr>rows = [scooter], next_id = 4\<rparr>\<rparr>"
definition offered_db :: db where "offered_db = trip_db\<lparr>orders := \<lparr>rows = [offered_order], next_id = 2\<rparr>\<rparr>"

lemma trip_rows [simp]: "u_id sam = 9" "dp_id scooter = 3" "dp_user_id scooter = Some 9"
  "o_id offered_order = 1" "o_status offered_order = OS_DELIVERY_OFFERED" "o_delivery_person_id offered_order = Some 3"
  "o_offer_expires_at offered_order = Some (env_now sample_env + us_seconds 30)"
  using order_db_facts(7)
  by (simp_all add: sam_def new_User_def scooter_def new_DeliveryPerson_def offered_order_def)

lemma trip_db_facts [simp]:
  "db_wf trip_db" "db_wf offered_db" "get_Order trip_db 1 = Some placed_order" "get_Order offered_db 1 = Some offered_order"
  "person_of_user trip_db 9 = Some scooter" "person_of_user offered_db 9 = Some scooter"
  "get_DeliveryPerson trip_db 3 = Some scooter" "rows (orders offered_db) = [offered_order]"
  using order_db_facts(1,3)
  by (simp_all add: trip_db_def offered_db_def t_wf_def person_of_user_def t_first_def t_get_def)

lemma accept_outcome_witness:
  "\<exists>o2. accept_order sample_env sam 1 offered_db = (Inr o2, snd (accept_order sample_env sam 1 offered_db))
     \<and> o_status o2 = OS_DELIVERY_ASSIGNED \<and> o_delivery_person_id o2 = Some 3"
proof -
  obtain r d' where a: "accept_order sample_env sam 1 offered_db = (r, d')" by (cases "accept_order sample_env sam 1 offered_db")
  have "person_of_user offered_db (u_id sam) = Some scooter" "\<not> offer_expired sample_env offered_order"
    by (simp_all add: offer_expired_def us_seconds_def)
  with accept_outcome [OF a] a show ?thesis by auto
qed

lemma offer_window_witness:
  "\<exists>o1 d1 o2 d2. offer_delivery sample_env 1 3 trip_db = (Inr o1, d1)
     \<and> accept_order (sample_env\<lparr>env_now := env_now sample_env + us_seconds 44\<rparr>) sam 1 d1 = (Inr o2, d2)
     \<and> o_status o2 = OS_DELIVERY_ASSIGNED"
proof -
  have en: "enum_of OrderStatus_value OrderStatus_members ''delivery_offered'' = Some OS_DELIVERY_OFFERED"
    by (simp add: OrderStatus_enum.of_Some_iff)
  then obtain o1 d1 where f: "offer_delivery sample_env 1 3 trip_db = (Inr o1, d1)"
    by (simp add: offer_delivery_def ops_update_status_def Let_def)
  then have "riders d1 = riders trip_db"
    using en by (auto simp: offer_delivery_def ops_update_status_def Let_def)
  then have "person_of_user d1 (u_id sam) = Some scooter"
    using trip_db_facts(5) by (simp add: person_of_user_def)
  from offer_window [OF f this, of "sample_env\<lparr>env_now := env_now sample_env + us_seconds 44\<rparr>"] f
  show ?thesis by (auto simp: us_seconds_def)
qed

lemma listing_releases_expired_witness:
  "\<exists>vs d'. my_orders (sample_env\<lparr>env_now := env_now sample_env + us_seconds 30\<rparr>) sam offered_db = (Inr vs, d') \<and> vs = []
     \<and> map_option o_status (get_Order d' 1) = Some OS_PACKED"
proof -
  define e where "e = sample_env\<lparr>env_now := env_now sample_env + us_seconds 30\<rparr>"
  have x: "offer_expired e offered_order" by (simp add: e_def offer_expired_def)
  have p: "person_of_user offered_db (u_id sam) = Some scooter" by simp
  have o: "t_all (\<lambda>r. o_delivery_person_id r = Some (dp_id scooter)) (orders offered_db) = [offered_order]"
    by (simp add: t_all_def)
  have one: "os = [offered_order]" if "length os = min 50 (length [offered_order])" "set os \<subseteq> set [offered_order]" for os
    using that by (cases os) auto
  from listing_releases_expired [OF p trip_db_facts(2), of e] obtain vs d' os where
    r: "my_orders e sam offered_db = (Inr vs, d')" and os: "os = [offered_order]"
    and v: "map rv_order vs = filter (\<lambda>x. \<not> offer_expired e x) os"
      "\<forall>k ord. get_Order offered_db k = Some ord \<longrightarrow>
         get_Order d' k = Some (if ord \<in> set os \<and> offer_expired e ord then release_order e ''Offer expired'' ord else ord)"
    unfolding o using one by metis
  then show ?thesis using x unfolding e_def [symmetric] by auto
qed

lemma rider_touches_own_witness:
  "get_Order (snd (mark_delivered sample_env sam 1 trip_db)) 1 = Some placed_order"
proof -
  have "rider_step sam trip_db (snd (mark_delivered sample_env sam 1 trip_db))"
    by (rule rider_step.deliver) (rule prod.collapse [symmetric])
  moreover have "person_of_user trip_db (u_id sam) = Some scooter" "o_delivery_person_id placed_order \<noteq> Some (dp_id scooter)"
    by (simp_all add: placed_order_def new_Order_def)
  ultimately show ?thesis using rider_touches_own [of sam trip_db] by simp
qed

end
