(* ===== verification/Engagement.thy ===== *)
theory Engagement
  imports OrderLife
begin

text \<open>
  \<open>cart_service/app/services/engagement.py\<close>: wallet, loyalty points, referral codes, subscription
  plans, corporate inquiries, gift hampers and shared tracking links.  \<open>secrets\<close> tokens are draws of the
  environment; the unique columns (referral code, link token) make an insert fail with
  \<open>IntegrityError\<close>.
\<close>

section \<open>Wallet and loyalty\<close>

definition wallet_of :: "db \<Rightarrow> int \<Rightarrow> WalletAccount option" where
  "wallet_of d uid = t_first (\<lambda>w. w_user_id w = uid) (wallets d)"

definition loyalty_of :: "db \<Rightarrow> int \<Rightarrow> LoyaltyAccount option" where
  "loyalty_of d uid = t_first (\<lambda>l. la_user_id l = uid) (loyalties d)"

definition wallet :: "env \<Rightarrow> int \<Rightarrow> db \<Rightarrow> WalletAccount \<times> db" where
  "wallet e uid d = (case wallet_of d uid of
     Some w \<Rightarrow> (w, d)
   | None \<Rightarrow> let w = new_WalletAccount (env_now e) uid in (key_WalletAccount w d, add_WalletAccount w d))"

definition loyalty :: "env \<Rightarrow> int \<Rightarrow> db \<Rightarrow> LoyaltyAccount \<times> db" where
  "loyalty e uid d = (case loyalty_of d uid of
     Some l \<Rightarrow> (l, d)
   | None \<Rightarrow> let l = new_LoyaltyAccount (env_now e) uid in (key_LoyaltyAccount l d, add_LoyaltyAccount l d))"

definition txn_dict :: "WalletTxn \<Rightarrow> json" where
  "txn_dict t = JObj [(''id'', JInt (wt_id t)), (''title'', JStr (wt_title t)), (''subtitle'', jopt_str (wt_subtitle t)),
     (''amount'', JFloat (wt_amount t)), (''txn_type'', JStr (wt_txn_type t)),
     (''balance_after'', JFloat (wt_balance_after t)), (''created_at'', JStr (isoformat (wt_created_at t)))]"

definition wallet_rewards :: "LoyaltyAccount \<Rightarrow> json" where
  "wallet_rewards l = JArr
     [JObj [(''id'', JStr ''free_delivery''), (''title'', JStr ''Free Delivery''), (''unlock_at'', JInt 1500),
        (''progress'', JInt (la_points l)), (''subtitle'', JStr (show_int (la_points l) @ '' / 1,500 pts''))],
      JObj [(''id'', JStr ''bday''), (''title'', JStr ''Birthday Cake Discount''),
        (''subtitle'', JStr (''15% OFF '' @ middot @ '' Valid once a year''))],
      JObj [(''id'', JStr ''refer''), (''title'', JStr ''Refer & Earn''),
        (''subtitle'', JStr (rupee @ ''100 for you & your friend''))]]"

definition wallet_summary :: "env \<Rightarrow> User \<Rightarrow> db \<Rightarrow> json \<times> db" where
  "wallet_summary e user d =
     (let (w, d1) = wallet e (u_id user) d; (l, d2) = loyalty e (u_id user) d1;
          txns = take 30 (sort_key (\<lambda>t. - wt_created_at t) (t_all (\<lambda>t. wt_user_id t = u_id user) (wallet_txns d2)))
      in (JObj [(''balance'', JFloat (w_balance w)), (''loyalty_points'', JInt (la_points l)),
            (''lifetime_points'', JInt (la_lifetime_points l)), (''rewards'', wallet_rewards l),
            (''transactions'', JArr (map txn_dict txns))], d2))"

text \<open>\<open>int(amount // 10)\<close>\<close>

definition earned_points :: "rat \<Rightarrow> int" where
  "earned_points amount = \<lfloor>amount / 10\<rfloor>"

definition credit_wallet :: "env \<Rightarrow> int \<Rightarrow> rat \<Rightarrow> string \<Rightarrow> string \<Rightarrow> bool \<Rightarrow> db \<Rightarrow> db" where
  "credit_wallet e uid amount title subtitle stamp d =
     (let (w, d1) = wallet e uid d;
          w2 = w\<lparr>w_balance := round2 (fadd (w_balance w) amount),
                 w_updated_at := (if stamp then env_now e else w_updated_at w)\<rparr>
      in put_WalletAccount w2 (add_WalletTxn ((new_WalletTxn (env_now e) uid title)
           \<lparr>wt_amount := amount, wt_txn_type := ''credit'', wt_subtitle := Some subtitle,
            wt_balance_after := w_balance w2\<rparr>) d1))"

definition wallet_add_money :: "env \<Rightarrow> User \<Rightarrow> rat \<Rightarrow> string \<Rightarrow> db \<Rightarrow> (exc + json) \<times> db" where
  "wallet_add_money e user amount meth d =
     (if amount < 1 \<or> 50000 < amount
      then (Inl (bad_request (''Amount must be between '' @ rupee @ ''1 and '' @ rupee @ ''50,000'')), d)
      else let d1 = credit_wallet e (u_id user) amount ''Added Money'' meth True d;
               (l, d2) = loyalty e (u_id user) d1;
               d3 = put_LoyaltyAccount (l\<lparr>la_points := la_points l + earned_points amount,
                      la_lifetime_points := la_lifetime_points l + earned_points amount\<rparr>) d2;
               (j, d4) = wallet_summary e user d3
           in (Inr j, d4))"

section \<open>Referrals\<close>

definition referral_of :: "db \<Rightarrow> int \<Rightarrow> ReferralCode option" where
  "referral_of d uid = t_first (\<lambda>r. rc_user_id r = uid) (referrals d)"

definition referral_by_code :: "db \<Rightarrow> string \<Rightarrow> ReferralCode option" where
  "referral_by_code d cde = t_first (\<lambda>r. rc_code r = cde) (referrals d)"

definition ensure_referral :: "env \<Rightarrow> User \<Rightarrow> db \<Rightarrow> (exc + ReferralCode) \<times> db" where
  "ensure_referral e user d = (case referral_of d (u_id user) of
     Some r \<Rightarrow> (Inr r, d)
   | None \<Rightarrow>
       let cde = ''SC'' @ show_int (u_id user) @ str_upper (draw_token e (next_id (referrals d)));
           r = new_ReferralCode (env_now e) (u_id user) cde
       in if referral_by_code d cde \<noteq> None then (Inl (PyExc ''IntegrityError''), d)
          else (Inr (key_ReferralCode r d), add_ReferralCode r d))"

definition referral_summary :: "env \<Rightarrow> User \<Rightarrow> db \<Rightarrow> (exc + json) \<times> db" where
  "referral_summary e user d = (case ensure_referral e user d of
     (Inl ex, d1) \<Rightarrow> (Inl ex, d1)
   | (Inr r, d1) \<Rightarrow> (Inr (JObj [(''code'', JStr (rc_code r)), (''reward_amount'', JFloat (rc_reward_amount r)),
        (''referred_count'', JInt (rc_referred_count r)),
        (''share_message'', JStr (''Order fresh bakery from SweetCrust with my code '' @ rc_code r @ '' '' @ emdash
           @ '' we both get '' @ rupee @ show_int \<lfloor>rc_reward_amount r\<rfloor> @ ''!''))]), d1))"

definition apply_referral :: "env \<Rightarrow> User \<Rightarrow> string \<Rightarrow> db \<Rightarrow> (exc + json) \<times> db" where
  "apply_referral e user code0 d =
     (let cde = str_upper (strip code0)
      in if cde = [] then (Inl (bad_request ''Referral code required''), d)
         else (case referral_by_code d cde of
           None \<Rightarrow> (Inl (bad_request ''Invalid referral code''), d)
         | Some ref \<Rightarrow>
             if rc_user_id ref = u_id user then (Inl (bad_request ''Invalid referral code''), d)
             else let d1 = credit_wallet e (u_id user) (rc_reward_amount ref) ''Referral bonus''
                             (''Code '' @ rc_code ref) False d;
                      d2 = credit_wallet e (rc_user_id ref) (rc_reward_amount ref) ''Referral reward''
                             (''Code '' @ rc_code ref) False d1
                  in (Inr (JObj [(''ok'', JBool True), (''credited'', JFloat (rc_reward_amount ref))]),
                      put_ReferralCode (ref\<lparr>rc_referred_count := rc_referred_count ref + 1\<rparr>) d2)))"

section \<open>Subscription plans\<close>

definition default_plans :: "SubscriptionPlan list" where
  "default_plans =
     [(new_SubscriptionPlan ''Daily Bread Box'')\<lparr>pl_description := Some ''Fresh bread every morning'',
        pl_price := 149, pl_cadence := ''daily''\<rparr>,
      (new_SubscriptionPlan ''Weekend Treats'')\<lparr>pl_description := Some ''Pastries every Saturday'',
        pl_price := 399, pl_cadence := ''weekly''\<rparr>,
      (new_SubscriptionPlan ''Monthly Cake Club'')\<lparr>pl_description := Some ''1 celebration cake / month'',
        pl_price := 899, pl_cadence := ''monthly''\<rparr>]"

definition ensure_plans :: "db \<Rightarrow> SubscriptionPlan list \<times> db" where
  "ensure_plans d =
     (let active = t_all pl_is_active (plans d)
      in if active \<noteq> [] then (active, d)
         else let d1 = fold (\<lambda>p d. add_SubscriptionPlan p d) default_plans d
              in (t_all pl_is_active (plans d1), d1))"

definition list_subscriptions :: "User \<Rightarrow> db \<Rightarrow> json \<times> db" where
  "list_subscriptions user d =
     (let (ps, d1) = ensure_plans d
      in (JObj [(''plans'', JArr (map (\<lambda>p. JObj [(''id'', JInt (pl_id p)), (''name'', JStr (pl_name p)),
             (''description'', jopt_str (pl_description p)), (''price'', JFloat (pl_price p)),
             (''cadence'', JStr (pl_cadence p))]) ps)),
           (''mine'', JArr (map (\<lambda>s. JObj [(''id'', JInt (us_id s)), (''plan_id'', JInt (us_plan_id s)),
             (''status'', JStr (us_status s)),
             (''next_delivery_date'', case us_next_delivery_date s of None \<Rightarrow> JNull | Some z \<Rightarrow> JStr (iso_date z))])
             (t_all (\<lambda>s. us_user_id s = u_id user) (subscriptions d1))))], d1))"

definition cadence_days :: "string \<Rightarrow> int" where
  "cadence_days c = (if c = ''daily'' then 1 else if c = ''weekly'' then 7 else 30)"

definition subscribe :: "env \<Rightarrow> User \<Rightarrow> int \<Rightarrow> db \<Rightarrow> (exc + json) \<times> db" where
  "subscribe e user plan_id d = (case get_SubscriptionPlan d plan_id of
     None \<Rightarrow> (Inl (not_found ''Plan not found''), d)
   | Some plan \<Rightarrow>
       if \<not> pl_is_active plan then (Inl (not_found ''Plan not found''), d)
       else let s = (new_UserSubscription (env_now e) (u_id user) plan_id)
                  \<lparr>us_status := ''active'', us_next_delivery_date := Some (utc_day (env_now e) + cadence_days (pl_cadence plan))\<rparr>;
                (j, d1) = list_subscriptions user (add_UserSubscription s d)
            in (Inr j, d1))"

section \<open>Hampers and inquiries\<close>

definition mentions_gift :: "string \<Rightarrow> bool" where
  "mentions_gift s \<longleftrightarrow> contains ''hamper'' (str_lower s) \<or> contains ''gift'' (str_lower s)"

definition gift_hampers :: "db \<Rightarrow> Product list" where
  "gift_hampers d =
     (let hamper_ids = map cat_id (filter (\<lambda>c. mentions_gift (cat_name c)) (t_all cat_is_active (categories d)));
          ps = take 80 (t_all (\<lambda>p. p_is_active p \<and> \<not> p_is_draft p) (products d));
          items = take 40 (filter (\<lambda>p. p_category_id p \<in> set hamper_ids \<or> p_is_festival p \<or> mentions_gift (p_name p)) ps)
      in if items = [] then take 12 ps else items)"

definition create_corporate :: "env \<Rightarrow> User option \<Rightarrow> json \<Rightarrow> db \<Rightarrow> (exc + CorporateInquiry) \<times> db" where
  "create_corporate e user body d =
     (let company = strip (or_str (jstr (jget ''company_name'' body)) []);
          contact = strip (or_str (jstr (jget ''contact_name'' body)) []);
          phone = strip (or_str (jstr (jget ''phone'' body)) [])
      in if company = [] \<or> contact = [] \<or> phone = []
         then (Inl (bad_request ''company_name, contact_name and phone are required''), d)
         else let row = (new_CorporateInquiry (env_now e) company contact phone)
                    \<lparr>co_user_id := map_option u_id user, co_email := jstr (jget ''email'' body),
                     co_headcount := (case jget ''headcount'' body of JInt n \<Rightarrow> Some n | _ \<Rightarrow> None),
                     co_occasion := jstr (jget ''occasion'' body), co_budget := jfloat (jget ''budget'' body),
                     co_notes := jstr (jget ''notes'' body)\<rparr>
              in (Inr (key_CorporateInquiry row d), add_CorporateInquiry row d))"

section \<open>Shared tracking links\<close>

definition link_by_token :: "db \<Rightarrow> string \<Rightarrow> ShareTrackLink option" where
  "link_by_token d token = t_first (\<lambda>l. sl_token l = token) (share_links d)"

definition create_share_link :: "env \<Rightarrow> User \<Rightarrow> int \<Rightarrow> db \<Rightarrow> (exc + json) \<times> db" where
  "create_share_link e user order_id d = (case order_detail d order_id (Some (u_id user)) False of
     Inl ex \<Rightarrow> (Inl ex, d)
   | Inr v \<Rightarrow>
       let token = draw_token e (next_id (share_links d));
           lnk = (new_ShareTrackLink (env_now e) order_id (u_id user) token)
                   \<lparr>sl_expires_at := Some (env_now e + us_days 7)\<rparr>
       in if link_by_token d token \<noteq> None then (Inl (PyExc ''IntegrityError''), d)
          else (Inr (JObj [(''token'', JStr token), (''order_id'', JInt order_id),
                  (''order_number'', JStr (o_order_number (od_order v))), (''share_url'', JStr (''/track/share/'' @ token)),
                  (''expires_at'', jopt_time (sl_expires_at lnk))]), add_ShareTrackLink lnk d))"

record shared_track =
  st_order_id :: int
  st_order_number :: string
  st_status :: OrderStatus
  st_tracking :: "DeliveryTracking option"
  st_delivery_person :: "DeliveryPerson option"
  st_timeline :: "OrderStatusHistory list"

definition link_gone :: exc where
  "link_gone = AppExc \<lparr>ae_detail = Msg ''Tracking link expired'', ae_status_code = 410, ae_code = ''gone''\<rparr>"

definition public_track :: "env \<Rightarrow> string \<Rightarrow> db \<Rightarrow> exc + shared_track" where
  "public_track e token d = (case link_by_token d token of
     None \<Rightarrow> Inl (not_found ''Tracking link not found'')
   | Some lnk \<Rightarrow>
       if (case sl_expires_at lnk of Some t \<Rightarrow> t < env_now e | None \<Rightarrow> False) then Inl link_gone
       else (case order_detail d (sl_order_id lnk) (Some (sl_user_id lnk)) False of
         Inl ex \<Rightarrow> Inl ex
       | Inr v \<Rightarrow> Inr \<lparr>st_order_id = o_id (od_order v), st_order_number = o_order_number (od_order v),
            st_status = o_status (od_order v), st_tracking = od_tracking v,
            st_delivery_person = od_delivery_person v, st_timeline = od_timeline v\<rparr>))"

end
