(* ===== verification/EngagementLaws.thy ===== *)
theory EngagementLaws
  imports Engagement Ledger OrderLaws
begin

text \<open>
  Laws of the wallet and of shared links: the wallet is a running ledger (every top-up and referral
  of a user appends one transaction with the balance after it; an amount that is not of whole paise may miss by one), a referral credits both sides
  alike, and a tracking link opens its order for seven days.
\<close>

section \<open>One wallet\<close>

lemma wallet_facts:
  assumes "wallet e uid d = (w, d1)" "db_wf d"
  shows "db_wf d1" "wallet_of d1 uid = Some w" "wallet_txns d1 = wallet_txns d" "referrals d1 = referrals d"
    "w_user_id w = uid" "w_balance w = (case wallet_of d uid of Some x \<Rightarrow> w_balance x | None \<Rightarrow> 0)"
    "\<And>v. v \<noteq> uid \<Longrightarrow> wallet_of d1 v = wallet_of d v" "orders d1 = orders d"
proof -
  have "db_wf d1 \<and> wallet_of d1 uid = Some w \<and> wallet_txns d1 = wallet_txns d \<and> referrals d1 = referrals d
    \<and> w_user_id w = uid \<and> w_balance w = (case wallet_of d uid of Some x \<Rightarrow> w_balance x | None \<Rightarrow> 0)
    \<and> (\<forall>v. v \<noteq> uid \<longrightarrow> wallet_of d1 v = wallet_of d v) \<and> orders d1 = orders d"
  proof (cases "wallet_of d uid")
    case (Some x)
    then have "w_user_id x = uid" unfolding wallet_of_def using t_first_SomeD by fastforce
    with assms Some show ?thesis by (simp add: wallet_def)
  next
    case None
    have n: "t_first (\<lambda>w. w_user_id w = uid) (wallets d1) = Some w"
      using assms(1) None
        t_first_insert_None [of "\<lambda>w. w_user_id w = uid" "wallets d" "\<lambda>i r. r\<lparr>w_id := i\<rparr>" "new_WalletAccount (env_now e) uid"]
      by (auto simp: wallet_def Let_def wallet_of_def new_WalletAccount_def)
    have o: "t_first (\<lambda>w. w_user_id w = v) (wallets d1) = t_first (\<lambda>w. w_user_id w = v) (wallets d)" if "v \<noteq> uid" for v
      using assms(1) None that
      by (auto simp: wallet_def Let_def t_first_def rows_t_insert find_append new_WalletAccount_def split: option.splits)
    show ?thesis using assms None n o
      by (auto simp: wallet_def Let_def wallet_of_def new_WalletAccount_def)
  qed
  then show "db_wf d1" "wallet_of d1 uid = Some w" "wallet_txns d1 = wallet_txns d" "referrals d1 = referrals d"
    "w_user_id w = uid" "w_balance w = (case wallet_of d uid of Some x \<Rightarrow> w_balance x | None \<Rightarrow> 0)"
    "\<And>v. v \<noteq> uid \<Longrightarrow> wallet_of d1 v = wallet_of d v" "orders d1 = orders d" by auto
qed

text \<open>The balance of a user and the user's transactions, as amounts.\<close>

definition balance_of :: "db \<Rightarrow> int \<Rightarrow> rat" where
  "balance_of d uid = (case wallet_of d uid of Some w \<Rightarrow> w_balance w | None \<Rightarrow> 0)"

definition txns_of :: "db \<Rightarrow> int \<Rightarrow> WalletTxn list" where
  "txns_of d uid = t_all (\<lambda>t. wt_user_id t = uid) (wallet_txns d)"

lemma credit_wallet_effect:
  assumes "db_wf d" "d' = credit_wallet e uid amt ti sub st d"
  shows "db_wf d'" "balance_of d' uid = round2 (fadd (balance_of d uid) amt)"
    "\<And>v. v \<noteq> uid \<Longrightarrow> balance_of d' v = balance_of d v \<and> txns_of d' v = txns_of d v"
    "\<exists>t. txns_of d' uid = txns_of d uid @ [t] \<and> wt_amount t = amt \<and> wt_balance_after t = balance_of d' uid"
    "referrals d' = referrals d" "wallet_of d' uid \<noteq> None" "orders d' = orders d"
proof -
  obtain w d1 where w: "wallet e uid d = (w, d1)" by (cases "wallet e uid d")
  note W = wallet_facts [OF w assms(1)]
  define w2 where "w2 = w\<lparr>w_balance := round2 (fadd (w_balance w) amt), w_updated_at := (if st then env_now e else w_updated_at w)\<rparr>"
  define t where "t = (new_WalletTxn (env_now e) uid ti)\<lparr>wt_amount := amt, wt_txn_type := ''credit'', wt_subtitle := Some sub,
            wt_balance_after := w_balance w2\<rparr>"
  have d': "d' = put_WalletAccount w2 (add_WalletTxn t d1)"
    by (simp add: assms(2) credit_wallet_def w Let_def w2_def t_def)
  have f: "wallet_of d' uid = Some w2"
    using W(1,2,5) unfolding d' wallet_of_def by (simp, intro t_first_put_same) (auto simp: w2_def)
  have o: "wallet_of d' v = wallet_of d v" if "v \<noteq> uid" for v
  proof -
    have "wallet_of d' v = wallet_of d1 v"
      unfolding d' wallet_of_def using W(1,2,5) that t_wf_unique [of w_id "wallets d1"]
      by (simp, intro t_first_put_other) (auto simp: w2_def wallet_of_def dest!: t_first_SomeD)
    then show ?thesis using W(7) that by simp
  qed
  show "db_wf d'" using W(1) by (simp add: d')
  show b: "balance_of d' uid = round2 (fadd (balance_of d uid) amt)"
    by (simp add: balance_of_def f w2_def W(6))
  show "balance_of d' v = balance_of d v \<and> txns_of d' v = txns_of d v" if "v \<noteq> uid" for v
    using that o by (simp add: balance_of_def txns_of_def d' W(3) t_all_insert t_def new_WalletTxn_def)
  show "\<exists>t. txns_of d' uid = txns_of d uid @ [t] \<and> wt_amount t = amt \<and> wt_balance_after t = balance_of d' uid"
  proof (intro exI conjI)
    show "txns_of d' uid = txns_of d uid @ [t\<lparr>wt_id := next_id (wallet_txns d)\<rparr>]"
      by (simp add: txns_of_def d' W(3) t_all_insert t_def new_WalletTxn_def)
    show "wt_balance_after (t\<lparr>wt_id := next_id (wallet_txns d)\<rparr>) = balance_of d' uid"
      by (simp add: t_def balance_of_def f)
  qed (simp add: t_def)
  show "referrals d' = referrals d" by (simp add: d' W(4))
  show "wallet_of d' uid \<noteq> None" by (simp add: f)
  show "orders d' = orders d" by (simp add: d' W(8))
qed

lemma loyalty_frame:
  "loyalty e uid d = (l, d1) \<Longrightarrow> \<exists>t. d1 = d\<lparr>loyalties := t\<rparr>"
  by (auto simp: loyalty_def Let_def intro: exI [of _ "loyalties d"] split: option.splits)

lemma loyalty_wf: "loyalty e uid d = (l, d1) \<Longrightarrow> db_wf d \<Longrightarrow> db_wf d1"
  by (auto simp: loyalty_def Let_def split: option.splits)

text \<open>A top-up is one credit of the wallet; the rest of it concerns the loyalty account.\<close>

lemma wallet_add_money_effect:
  assumes "wallet_add_money e user amt meth d = (Inr j, d')" "db_wf d"
  shows "1 \<le> amt" "amt \<le> 50000" "db_wf d'" "referrals d' = referrals d"
    "wallet_of d' v = wallet_of (credit_wallet e (u_id user) amt ''Added Money'' meth True d) v"
    "wallet_txns d' = wallet_txns (credit_wallet e (u_id user) amt ''Added Money'' meth True d)"
proof -
  define d1 where "d1 = credit_wallet e (u_id user) amt ''Added Money'' meth True d"
  note C = credit_wallet_effect [OF assms(2) d1_def]
  obtain l d2 where l: "loyalty e (u_id user) d1 = (l, d2)" by (cases "loyalty e (u_id user) d1")
  define d3 where "d3 = put_LoyaltyAccount (l\<lparr>la_points := la_points l + earned_points amt,
                      la_lifetime_points := la_lifetime_points l + earned_points amt\<rparr>) d2"
  have g: "1 \<le> amt" "amt \<le> 50000" "wallet_summary e user d3 = (j, d')"
    using assms(1)
    by (auto simp: wallet_add_money_def Let_def d1_def [symmetric] l d3_def [symmetric] not_less
        split: if_splits prod.splits)
  obtain t where t: "d2 = d1\<lparr>loyalties := t\<rparr>" using loyalty_frame [OF l] by blast
  have w3: "wallet_of d3 (u_id user) = wallet_of d1 (u_id user)" by (simp add: d3_def t wallet_of_def)
  obtain w where w: "wallet_of d3 (u_id user) = Some w" using C(6) w3 by auto
  obtain l2 d4 where l2: "loyalty e (u_id user) d3 = (l2, d4)" by (cases "loyalty e (u_id user) d3")
  obtain t2 where t2: "d4 = d3\<lparr>loyalties := t2\<rparr>" using loyalty_frame [OF l2] by blast
  have d': "d' = d4" using g(3) w l2 by (simp add: wallet_summary_def wallet_def Let_def)
  show "1 \<le> amt" "amt \<le> 50000" using g by simp_all
  show "db_wf d'" using C(1) loyalty_wf [OF l] loyalty_wf [OF l2] by (simp add: d' d3_def)
  show "referrals d' = referrals d" using C(5) by (simp add: d' t2 d3_def t)
  show "wallet_of d' v = wallet_of (credit_wallet e (u_id user) amt ''Added Money'' meth True d) v"
    unfolding d1_def [symmetric] by (simp add: d' t2 d3_def t wallet_of_def)
  show "wallet_txns d' = wallet_txns (credit_wallet e (u_id user) amt ''Added Money'' meth True d)"
    unfolding d1_def [symmetric] by (simp add: d' t2 d3_def t)
qed

section \<open>The wallet as a running ledger\<close>

definition wallet_journal :: "int \<Rightarrow> db \<Rightarrow> journal" where
  "wallet_journal uid d = map (\<lambda>t. (to_cents (wt_amount t), to_cents (wt_balance_after t))) (txns_of d uid)"

definition wallet_paise :: "int \<Rightarrow> db \<Rightarrow> int" where
  "wallet_paise uid d = to_cents (balance_of d uid)"

definition wallet_ok :: "int \<Rightarrow> db \<Rightarrow> bool" where
  "wallet_ok uid d \<longleftrightarrow> db_wf d \<and> is_money (balance_of d uid)"

text \<open>The operations that move the wallet of user \<open>uid\<close>: top-ups of any amount, and referrals in which the user takes
  part, as long as amount and balance stay below the float bound; and the paise by which they may miss, one where the
  amount is not of whole paise.\<close>

inductive wallet_step :: "int \<Rightarrow> nat \<Rightarrow> db \<Rightarrow> db \<Rightarrow> bool" for uid where
  top_up: "\<lbrakk>wallet_add_money e user x meth d = (Inr j, d'); u_id user = uid; money_ok (wallet_paise uid d')\<rbrakk>
     \<Longrightarrow> wallet_step uid (if is_money x then 0 else 1) d d'"
| referral: "\<lbrakk>apply_referral e user cde d = (Inr j, d'); referral_by_code d (str_upper (strip cde)) = Some ref;
     uid \<in> {u_id user, rc_user_id ref}; money_ok (to_cents (rc_reward_amount ref)); money_ok (wallet_paise uid d')\<rbrakk>
     \<Longrightarrow> wallet_step uid (if is_money (rc_reward_amount ref) then 0 else 1) d d'"

lemma credit_paise:
  assumes "wallet_ok uid d" "money_ok (to_cents x)" "money_ok (wallet_paise uid d')"
    "balance_of d' uid = round2 (fadd (balance_of d uid) x)"
    "txns_of d' uid = txns_of d uid @ [t]" "wt_amount t = x" "wt_balance_after t = balance_of d' uid" "db_wf d'"
  shows "wallet_ok uid d' \<and> (\<exists>y. wallet_journal uid d' = wallet_journal uid d @ [(y, wallet_paise uid d')]
    \<and> \<bar>wallet_paise uid d' - (wallet_paise uid d + y)\<bar> \<le> int (if is_money x then 0 else 1))"
proof -
  from assms(1) obtain b where b: "money_ok b" "balance_of d uid = cents b" "wallet_paise uid d = b"
    by (auto simp: wallet_ok_def wallet_paise_def elim: is_moneyE)
  define n where "n = to_cents (fadd (cents b) x)"
  have bal: "balance_of d' uid = cents n" using assms(4) b by (simp add: n_def round2_cents)
  have slip: "\<bar>n - (b + to_cents x)\<bar> \<le> 1" unfolding n_def using b(1) assms(2) by (rule round2_fadd_slip)
  have "(2 :: int) ^ 42 = 4 * 2 ^ 40" "(0 :: int) < 2 ^ 40" by simp_all
  then have wide: "\<bar>b + to_cents x\<bar> < 2 ^ 42"
    using b(1) assms(2) abs_triangle_ineq [of b "to_cents x"] unfolding money_ok_def money_bound_def by linarith
  with slip have "\<bar>n\<bar> \<le> 2 ^ 42" by linarith
  then have c: "to_cents (cents n) = n" by (rule to_cents_cents_wide)
  then have n: "wallet_paise uid d' = n" by (simp only: wallet_paise_def bal)
  have exact: "n = b + to_cents x" if "is_money x"
  proof -
    have "cents n = cents (b + to_cents x)"
      using round2_fadd_cents [OF b(1) assms(2)] that by (simp add: n_def is_money_def flip: round2_cents)
    moreover have "to_cents (cents (b + to_cents x)) = b + to_cents x"
      by (rule to_cents_cents_wide [OF order_less_imp_le [OF wide]])
    ultimately show ?thesis using c by (simp only:)
  qed
  have "wallet_ok uid d'" using assms(3,8) bal n by (simp add: wallet_ok_def)
  moreover have "wallet_journal uid d' = wallet_journal uid d @ [(to_cents x, wallet_paise uid d')]"
    using assms(5-7) by (simp add: wallet_journal_def wallet_paise_def)
  ultimately show ?thesis using slip exact b(3) n by auto
qed

lemma apply_referralE:
  assumes "apply_referral e user cde d = (Inr j, d')"
  obtains ref where "referral_by_code d (str_upper (strip cde)) = Some ref" "rc_user_id ref \<noteq> u_id user"
    "j = JObj [(''ok'', JBool True), (''credited'', JFloat (rc_reward_amount ref))]"
    "d' = put_ReferralCode (ref\<lparr>rc_referred_count := rc_referred_count ref + 1\<rparr>)
       (credit_wallet e (rc_user_id ref) (rc_reward_amount ref) ''Referral reward'' (''Code '' @ rc_code ref) False
       (credit_wallet e (u_id user) (rc_reward_amount ref) ''Referral bonus'' (''Code '' @ rc_code ref) False d))"
  using assms by (auto simp: apply_referral_def Let_def split: if_splits option.splits)

lemma apply_referral_effect:
  assumes "apply_referral e user cde d = (Inr j, d')" "db_wf d"
    and "referral_by_code d (str_upper (strip cde)) = Some ref" "v \<in> {u_id user, rc_user_id ref}"
  shows "db_wf d'" "balance_of d' v = round2 (fadd (balance_of d v) (rc_reward_amount ref))"
    "\<exists>t. txns_of d' v = txns_of d v @ [t] \<and> wt_amount t = rc_reward_amount ref \<and> wt_balance_after t = balance_of d' v"
proof -
  from assms(1,3) have r: "rc_user_id ref \<noteq> u_id user" and
    d': "d' = put_ReferralCode (ref\<lparr>rc_referred_count := rc_referred_count ref + 1\<rparr>)
       (credit_wallet e (rc_user_id ref) (rc_reward_amount ref) ''Referral reward'' (''Code '' @ rc_code ref) False
       (credit_wallet e (u_id user) (rc_reward_amount ref) ''Referral bonus'' (''Code '' @ rc_code ref) False d))"
    by (auto elim: apply_referralE)
  define d1 where "d1 = credit_wallet e (u_id user) (rc_reward_amount ref) ''Referral bonus'' (''Code '' @ rc_code ref) False d"
  define d2 where "d2 = credit_wallet e (rc_user_id ref) (rc_reward_amount ref) ''Referral reward'' (''Code '' @ rc_code ref) False d1"
  note C1 = credit_wallet_effect [OF assms(2) d1_def]
  note C2 = credit_wallet_effect [OF C1(1) d2_def]
  have last: "d' = put_ReferralCode (ref\<lparr>rc_referred_count := rc_referred_count ref + 1\<rparr>) d2"
    unfolding d2_def d1_def by (rule d')
  have e: "balance_of d' x = balance_of d2 x" "txns_of d' x = txns_of d2 x" for x
    by (simp_all add: last balance_of_def wallet_of_def txns_of_def)
  show "db_wf d'" using C2(1) by (simp add: last)
  show "balance_of d' v = round2 (fadd (balance_of d v) (rc_reward_amount ref))"
    using assms(4) r C1(2,3) C2(2,3) by (auto simp: e)
  show "\<exists>t. txns_of d' v = txns_of d v @ [t] \<and> wt_amount t = rc_reward_amount ref \<and> wt_balance_after t = balance_of d' v"
  proof (cases "v = u_id user")
    case True
    then show ?thesis using r C1(4) C2(3) [of v] by (auto simp: e)
  next
    case False
    then have "v = rc_user_id ref" using assms(4) by simp
    then show ?thesis using r C1(3) [of v] C2(4) by (auto simp: e)
  qed
qed

lemma wallet_step_ledger:
  assumes "wallet_step uid k d d'" "wallet_ok uid d"
  shows "wallet_ok uid d' \<and> (\<exists>y. wallet_journal uid d' = wallet_journal uid d @ [(y, wallet_paise uid d')]
    \<and> \<bar>wallet_paise uid d' - (wallet_paise uid d + y)\<bar> \<le> int k)"
  using assms(1)
proof cases
  case (top_up e user x meth j)
  have wf: "db_wf d" using assms(2) by (simp add: wallet_ok_def)
  define d1 where "d1 = credit_wallet e uid x ''Added Money'' meth True d"
  note C = credit_wallet_effect [OF wf d1_def]
  note A = wallet_add_money_effect [OF top_up(2) wf, unfolded top_up(3), folded d1_def]
  have b: "balance_of d' uid = balance_of d1 uid" "txns_of d' uid = txns_of d1 uid"
    using A(5,6) by (simp_all add: balance_of_def txns_of_def)
  from C(4) obtain t where t: "txns_of d1 uid = txns_of d uid @ [t]" "wt_amount t = x" "wt_balance_after t = balance_of d1 uid" by blast
  have "rne (of_int 100) \<le> to_cents x" "to_cents x \<le> rne (of_int 5000000)"
    using A(1,2) unfolding to_cents_def by (auto intro!: rne_mono)
  then have "money_ok (to_cents x)" unfolding rne_of_int by (simp add: money_ok_def money_bound_def)
  from credit_paise [OF assms(2) this top_up(4) _ _ t(2) _ A(3)] show ?thesis
    using C(2) t b top_up(1) by simp
next
  case (referral e user cde j ref)
  have wf: "db_wf d" using assms(2) by (simp add: wallet_ok_def)
  note R = apply_referral_effect [OF referral(2) wf referral(3,4)]
  from R(3) obtain t where "txns_of d' uid = txns_of d uid @ [t]" "wt_amount t = rc_reward_amount ref"
    "wt_balance_after t = balance_of d' uid" by blast
  then show ?thesis using credit_paise [OF assms(2) referral(5,6) R(2) _ _ _ R(1)] referral(1) by blast
qed

interpretation customer_wallet: running_ledger "wallet_ok uid" "wallet_paise uid" "wallet_journal uid" "wallet_step uid" for uid
  by unfold_locales (use wallet_step_ledger in blast)+

section \<open>Properties\<close>

text \<open>Property C19 (wallet_balance_is_history): along any sequence of a user's top-ups and referrals, of any amounts, as long
  as the balance stays below the float bound, the user's balance in paise differs from the sum of the amounts of the
  user's transactions by at most one paisa for each transaction that was not of whole paise; so it is the sum when all
  were.\<close>

theorem wallet_balance_is_history:
  assumes "slip_run (wallet_step uid) n d d'" "wallet_ok uid d"
    and "to_cents (balance_of d uid) = (\<Sum>t\<leftarrow>txns_of d uid. to_cents (wt_amount t))"
  shows "\<bar>to_cents (balance_of d' uid) - (\<Sum>t\<leftarrow>txns_of d' uid. to_cents (wt_amount t))\<bar> \<le> int n"
proof -
  have s: "journal_sum (wallet_journal uid x) = (\<Sum>t\<leftarrow>txns_of x uid. to_cents (wt_amount t))" for x
    by (simp add: journal_sum_def wallet_journal_def comp_def)
  show ?thesis
    using customer_wallet.balance_near_journal_sum [OF assms(1,2)] assms(3) by (simp add: s wallet_paise_def)
qed

text \<open>A top-up of 19.915 rupees on a balance of 1.37: the balance becomes 21.29 while the transactions are 1.37 and 19.915,
  in paise 2128.\<close>

lemma top_up_drifts:
  "to_cents (fadd (cents 137) (fl (19915 / 1000))) = 2129 \<and> to_cents (fl (19915 / 1000)) = 1991"
  by code_simp

lemma apply_referral_others:
  assumes "apply_referral e user cde d = (Inr j, d')" "db_wf d"
    and "referral_by_code d (str_upper (strip cde)) = Some ref" "v \<notin> {u_id user, rc_user_id ref}"
  shows "balance_of d' v = balance_of d v \<and> txns_of d' v = txns_of d v"
proof -
  define d1 where "d1 = credit_wallet e (u_id user) (rc_reward_amount ref) ''Referral bonus'' (''Code '' @ rc_code ref) False d"
  define d2 where "d2 = credit_wallet e (rc_user_id ref) (rc_reward_amount ref) ''Referral reward'' (''Code '' @ rc_code ref) False d1"
  note C1 = credit_wallet_effect [OF assms(2) d1_def]
  note C2 = credit_wallet_effect [OF C1(1) d2_def]
  have "d' = put_ReferralCode (ref\<lparr>rc_referred_count := rc_referred_count ref + 1\<rparr>) d2"
    unfolding d2_def d1_def using assms(1,3) by (auto elim: apply_referralE)
  then show ?thesis using C1(3) [of v] C2(3) [of v] assms(4)
    by (simp add: balance_of_def wallet_of_def txns_of_def)
qed

text \<open>A referral that succeeds names the code of another user, credits the
  caller and the owner of the code with the same reward and one transaction each, and leaves the
  wallets of everybody else alone.\<close>

theorem referral_credits_both:
  assumes "apply_referral e user cde d = (Inr j, d')" "db_wf d"
  shows "\<exists>ref. referral_by_code d (str_upper (strip cde)) = Some ref \<and> rc_user_id ref \<noteq> u_id user
    \<and> (\<forall>v. if v = u_id user \<or> v = rc_user_id ref
         then balance_of d' v = round2 (fadd (balance_of d v) (rc_reward_amount ref))
            \<and> map wt_amount (txns_of d' v) = map wt_amount (txns_of d v) @ [rc_reward_amount ref]
         else balance_of d' v = balance_of d v \<and> txns_of d' v = txns_of d v)"
proof -
  from assms(1) obtain ref where r: "referral_by_code d (str_upper (strip cde)) = Some ref" "rc_user_id ref \<noteq> u_id user"
    by (auto elim: apply_referralE)
  have "balance_of d' v = round2 (fadd (balance_of d v) (rc_reward_amount ref))
            \<and> map wt_amount (txns_of d' v) = map wt_amount (txns_of d v) @ [rc_reward_amount ref]"
    if "v = u_id user \<or> v = rc_user_id ref" for v
    using apply_referral_effect(2,3) [OF assms r(1), of v] that by auto
  moreover have "balance_of d' v = balance_of d v \<and> txns_of d' v = txns_of d v"
    if "\<not> (v = u_id user \<or> v = rc_user_id ref)" for v
    using apply_referral_others [OF assms r(1), of v] that by auto
  ultimately show ?thesis using r by auto
qed

text \<open>Nothing stops a user from applying the same code again: the reward is paid every time.\<close>

lemma referral_repeats:
  assumes "apply_referral e user cde d = (Inr j, d')" "db_wf d"
  shows "\<exists>j2 d2. apply_referral e2 user cde d' = (Inr j2, d2)"
proof -
  define c where "c = str_upper (strip cde)"
  from assms(1) obtain ref where r: "referral_by_code d c = Some ref" "rc_user_id ref \<noteq> u_id user"
    by (auto simp: c_def elim: apply_referralE)
  define d1 where "d1 = credit_wallet e (u_id user) (rc_reward_amount ref) ''Referral bonus'' (''Code '' @ rc_code ref) False d"
  define d2 where "d2 = credit_wallet e (rc_user_id ref) (rc_reward_amount ref) ''Referral reward'' (''Code '' @ rc_code ref) False d1"
  note C1 = credit_wallet_effect [OF assms(2) d1_def]
  note C2 = credit_wallet_effect [OF C1(1) d2_def]
  have d': "d' = put_ReferralCode (ref\<lparr>rc_referred_count := rc_referred_count ref + 1\<rparr>) d2"
    unfolding d2_def d1_def using assms(1) r(1) by (auto simp: c_def elim: apply_referralE)
  have "referral_by_code d' c = Some (ref\<lparr>rc_referred_count := rc_referred_count ref + 1\<rparr>)"
    unfolding referral_by_code_def d' using r(1) assms(2) t_first_SomeD [OF r(1) [unfolded referral_by_code_def]] C1(5) C2(5)
    by (simp, intro t_first_put_same) (auto simp: referral_by_code_def)
  moreover have "c \<noteq> []" using assms(1) by (auto simp: apply_referral_def c_def split: if_splits)
  ultimately show ?thesis using r(2) by (simp add: apply_referral_def c_def [symmetric] Let_def)
qed

text \<open>A shared tracking link shows the order it was created for to anyone who has
  the token, until seven days after its creation; from then on it answers 410 Gone.\<close>

theorem share_link_window:
  assumes "create_share_link e user k d = (Inr j, d')" "jget ''token'' j = JStr token" "db_wf d"
  shows "if env_now e2 \<le> env_now e + us_days 7
    then \<exists>v. public_track e2 token d' = Inr v \<and> st_order_id v = k \<and> get_Order d k \<noteq> None
           \<and> st_status v = o_status (the (get_Order d k))
    else public_track e2 token d' = Inl link_gone \<and> error_response link_gone = (410, ''gone'')"
proof -
  define tk where "tk = draw_token e (next_id (share_links d))"
  define lnk where "lnk = (new_ShareTrackLink (env_now e) k (u_id user) tk)\<lparr>sl_expires_at := Some (env_now e + us_days 7)\<rparr>"
  from assms(1) obtain v where v: "order_detail d k (Some (u_id user)) False = Inr v" "link_by_token d tk = None"
    "j = JObj [(''token'', JStr tk), (''order_id'', JInt k), (''order_number'', JStr (o_order_number (od_order v))),
        (''share_url'', JStr (''/track/share/'' @ tk)), (''expires_at'', jopt_time (sl_expires_at lnk))]"
    "d' = add_ShareTrackLink lnk d"
    by (auto simp: create_share_link_def Let_def tk_def [symmetric] lnk_def [symmetric] split: sum.splits if_splits)
  have tok: "tk = token" using assms(2) v(3) by simp
  from v(1) obtain ord where o: "get_Order d k = Some ord" "o_user_id ord = u_id user" "od_order v = ord"
    by (auto simp: order_detail_def split: option.splits if_splits)
  have id: "o_id ord = k" using t_get_key [OF o(1)] .
  have l: "link_by_token d' token = Some (lnk\<lparr>sl_id := next_id (share_links d)\<rparr>)"
    using t_first_insert_None [of "\<lambda>l. sl_token l = token" "share_links d" "\<lambda>i r. r\<lparr>sl_id := i\<rparr>" lnk] v(2) tok
    by (simp add: link_by_token_def v(4) lnk_def new_ShareTrackLink_def)
  have f: "sl_expires_at lnk = Some (env_now e + us_days 7)" "sl_order_id lnk = k" "sl_user_id lnk = u_id user"
    by (simp_all add: lnk_def new_ShareTrackLink_def)
  have "get_Order d' k = Some ord" using o(1) by (simp add: v(4))
  then show ?thesis using l f o id
    by (auto simp: public_track_def order_detail_def link_gone_def error_response_def)
qed

section \<open>Worked examples\<close>

definition asha :: User where "asha = (new_User 0 ''9876500006'')\<lparr>u_id := 6\<rparr>"

text \<open>The order examples with a referral code of customer 6.\<close>

definition club_db :: db where
  "club_db = order_db\<lparr>referrals := \<lparr>rows = [(new_ReferralCode 0 6 ''SC6AB'')\<lparr>rc_id := 1, rc_reward_amount := cents 10000\<rparr>], next_id = 2\<rparr>\<rparr>"

lemma club_facts [simp]:
  "db_wf club_db" "wallet_ok 5 club_db" "balance_of club_db v = 0" "txns_of club_db v = []"
  "referral_by_code club_db ''SC6AB'' = Some ((new_ReferralCode 0 6 ''SC6AB'')\<lparr>rc_id := 1, rc_reward_amount := cents 10000\<rparr>)"
  "get_Order club_db 1 = Some placed_order"
proof -
  show wf: "db_wf club_db" using order_db_facts(1) by (simp add: club_db_def t_wf_def new_ReferralCode_def)
  show b: "balance_of club_db v = 0" for v
    by (simp add: balance_of_def wallet_of_def club_db_def order_db_def empty_db_def t_empty_def t_first_def)
  show "wallet_ok 5 club_db" using wf is_money_cents [of 0] by (simp add: wallet_ok_def b money_ok_simps)
  show "txns_of club_db v = []" by (simp add: txns_of_def club_db_def order_db_def empty_db_def t_empty_def t_all_def)
  show "get_Order club_db 1 = Some placed_order" using order_db_facts(3) by (simp add: club_db_def)
qed (simp add: referral_by_code_def club_db_def t_first_def new_ReferralCode_def)

lemma sample_code: "str_upper (strip ''sc6ab '') = ''SC6AB''"
  by code_simp

lemma sample_referral: "\<exists>j d'. apply_referral sample_env ravi ''sc6ab '' club_db = (Inr j, d')"
  by (simp add: apply_referral_def Let_def sample_code new_ReferralCode_def ravi_def)

lemma referral_credits_both_witness:
  "\<exists>j d'. apply_referral sample_env ravi ''sc6ab '' club_db = (Inr j, d')
     \<and> balance_of d' 5 = round2 (fadd 0 (cents 10000)) \<and> balance_of d' 6 = round2 (fadd 0 (cents 10000))
     \<and> balance_of d' 7 = 0"
proof -
  obtain j d' where r: "apply_referral sample_env ravi ''sc6ab '' club_db = (Inr j, d')" using sample_referral by blast
  from referral_credits_both [OF r club_facts(1)] obtain ref where
    f: "referral_by_code club_db ''SC6AB'' = Some ref"
    and v: "if v = u_id ravi \<or> v = rc_user_id ref
         then balance_of d' v = round2 (fadd (balance_of club_db v) (rc_reward_amount ref))
            \<and> map wt_amount (txns_of d' v) = map wt_amount (txns_of club_db v) @ [rc_reward_amount ref]
         else balance_of d' v = balance_of club_db v \<and> txns_of d' v = txns_of club_db v" for v
    unfolding sample_code by blast
  have i: "rc_user_id ref = 6" "rc_reward_amount ref = cents 10000" "u_id ravi = 5"
    using f by (auto simp: new_ReferralCode_def ravi_def)
  show ?thesis using v [of 5] v [of 6] v [of 7] r by (auto simp: i)
qed

lemma wallet_balance_is_history_witness:
  "\<exists>j d'. apply_referral sample_env ravi ''sc6ab '' club_db = (Inr j, d')
     \<and> slip_run (wallet_step 5) 0 club_db d'
     \<and> to_cents (balance_of d' 5) = (\<Sum>t\<leftarrow>txns_of d' 5. to_cents (wt_amount t))"
proof -
  obtain j d' where r: "apply_referral sample_env ravi ''sc6ab '' club_db = (Inr j, d')" using sample_referral by blast
  obtain ref where f: "referral_by_code club_db (str_upper (strip ''sc6ab '')) = Some ref" "rc_reward_amount ref = cents 10000"
    using club_facts(5) unfolding sample_code by (simp add: new_ReferralCode_def)
  have v: "(5 :: int) \<in> {u_id ravi, rc_user_id ref}" by (simp add: ravi_def)
  have ok: "money_ok 10000" by (simp add: money_ok_def money_bound_def)
  have "balance_of d' 5 = cents 10000"
    using apply_referral_effect(2) [OF r club_facts(1) f(1) v] f(2) round2_fadd_cents [OF money_ok_simps(1) ok] by simp
  then have "wallet_paise 5 d' = 10000" using ok by (simp add: wallet_paise_def)
  then have "wallet_step 5 (if is_money (rc_reward_amount ref) then 0 else 1) club_db d'"
    using wallet_step.referral [OF r f(1) v] ok f(2) by simp
  then have "slip_run (wallet_step 5) 0 club_db d'" using f(2) ok by (intro slip_run_one) simp
  from wallet_balance_is_history [OF this club_facts(2)] this show ?thesis
    using r by (auto simp: to_cents_def)
qed

lemma share_link_window_witness:
  "\<exists>j d' v. create_share_link sample_env ravi 1 club_db = (Inr j, d')
     \<and> public_track (sample_env\<lparr>env_now := env_now sample_env + us_days 7\<rparr>) ''401'' d' = Inr v \<and> st_order_id v = 1"
proof -
  have "show_int 401 = ''401''" "draw_token sample_env 1 = show_int 401" by (code_simp, simp add: sample_env_def)
  then obtain j d' where r: "create_share_link sample_env ravi 1 club_db = (Inr j, d')" and t: "jget ''token'' j = JStr ''401''"
    using order_db_facts(5,7)
    by (simp add: create_share_link_def order_detail_def ravi_def link_by_token_def Let_def)
      (simp add: club_db_def order_db_def empty_db_def t_empty_def t_first_def)
  from share_link_window [OF r t club_facts(1), of "sample_env\<lparr>env_now := env_now sample_env + us_days 7\<rparr>"] r
  show ?thesis by auto
qed

end
