(* ===== verification/FloatSum.thy ===== *)
theory FloatSum
  imports CartBill
begin

text \<open>
  Python's \<open>sum\<close> on floats (version 3.12, which the services run on): Neumaier's compensated summation.
  A running sum \<open>s\<close> collects the terms, \<open>c\<close> what their roundings lost.  On amounts in whole paise the result,
  rounded to two places, is the exact sum (\<open>round2_py_sum\<close>).
\<close>

definition lost :: "rat \<Rightarrow> rat \<Rightarrow> rat" where
  "lost s x = (let t = fadd s x in if \<bar>x\<bar> \<le> \<bar>s\<bar> then fadd (fsub s t) x else fadd (fsub x t) s)"

fun neumaier :: "rat \<Rightarrow> rat \<Rightarrow> rat list \<Rightarrow> rat" where
  "neumaier s c [] = (if c = 0 then s else fadd s c)"
| "neumaier s c (x # xs) = neumaier (fadd s x) (fadd c (lost s x)) xs"

definition py_sum :: "rat list \<Rightarrow> rat" where
  "py_sum xs = (case xs of [] \<Rightarrow> 0 | x # ys \<Rightarrow> neumaier x 0 ys)"

lemma py_sum_simps [simp]: "py_sum [] = 0" "py_sum [x] = x"
  by (simp_all add: py_sum_def)

lemma lost_small:
  assumes "\<bar>s\<bar> \<le> 33554432" "\<bar>x\<bar> \<le> 33554432" shows "\<bar>lost s x\<bar> \<le> 1 / 8388608"
proof -
  define t where "t = fadd s x"
  have "\<bar>s + x\<bar> \<le> 67108864" using assms by (simp add: abs_if split: if_splits)
  from abs_fl_error [OF this] have t: "\<bar>t - (s + x)\<bar> \<le> 1 / 134217728" by (simp add: t_def fadd_def)
  have part: "\<bar>fadd (fsub a t) b\<bar> \<le> 1 / 8388608" if ab: "a + b = s + x" "\<bar>a\<bar> \<le> 33554432" "\<bar>b\<bar> \<le> 33554432" for a b
  proof -
    have "\<bar>a - t\<bar> \<le> 134217728" using ab t by (simp add: abs_if split: if_splits)
    from abs_fl_error [OF this] have f: "\<bar>fsub a t - (a - t)\<bar> \<le> 1 / 67108864" by (simp add: fsub_def)
    have "\<bar>fsub a t + b\<bar> \<le> 1 / 33554432" using f t ab(1) by (simp add: abs_if split: if_splits)
    from this abs_fl_error [OF this] show ?thesis by (simp add: fadd_def abs_if split: if_splits)
  qed
  show ?thesis
    using part [of s x] part [of x s] assms by (simp add: lost_def t_def [symmetric] Let_def add.commute)
qed

lemma neumaier_error:
  assumes "list_all2 (\<lambda>x n. 0 \<le> n \<and> \<bar>x - of_int n / 100\<bar> \<le> 1 / 268435456) xs ns"
    and "\<bar>s - of_int S / 100\<bar> \<le> of_nat k / 134217728" "\<bar>c\<bar> \<le> of_nat k / 4194304" "0 \<le> S"
    and "S + sum_list ns \<le> cart_bound" "k + length ns \<le> 1000"
  shows "\<bar>neumaier s c xs - of_int (S + sum_list ns) / 100\<bar> \<le> 1 / 1024"
  using assms
proof (induction s c xs arbitrary: S k ns rule: neumaier.induct)
  case (1 s c)
  then have ns: "ns = []" by simp
  have k: "(of_nat k :: rat) \<le> 1000" using 1(6) of_nat_le_iff [where ?'a = rat, of k 1000] by simp
  have S: "(of_int S :: rat) \<le> 1073741824" "0 \<le> (of_int S :: rat)"
    using 1(4,5) ns of_int_le_iff [where ?'a = rat, of S 1073741824] by (simp_all add: cart_bound_def)
  have "\<bar>s + c\<bar> \<le> 33554432" using 1(2,3) k S by (simp add: abs_if split: if_splits)
  from abs_fl_error [OF this] have "\<bar>fadd s c - (s + c)\<bar> \<le> 1 / 268435456" by (simp add: fadd_def)
  then show ?case using 1(2,3) k ns by (simp add: abs_if split: if_splits)
next
  case (2 s c x xs)
  obtain n ms where ns: "ns = n # ms" "0 \<le> n" "\<bar>x - of_int n / 100\<bar> \<le> 1 / 268435456"
    and rest: "list_all2 (\<lambda>x n. 0 \<le> n \<and> \<bar>x - of_int n / 100\<bar> \<le> 1 / 268435456) xs ms"
    using 2(2) by (auto simp: list_all2_Cons1)
  have "0 \<le> sum_list ms" using rest by (intro sum_list_nonneg) (auto simp: list_all2_conv_all_nth in_set_conv_nth)
  then have Sn: "S + n \<le> cart_bound" using 2(6) ns by simp
  have k: "(of_nat k :: rat) \<le> 1000" using 2(7) of_nat_le_iff [where ?'a = rat, of k 1000] by simp
  have S: "(of_int S :: rat) + of_int n \<le> 1073741824" "0 \<le> (of_int S :: rat)" "0 \<le> (of_int n :: rat)"
    using Sn 2(5) ns(2) of_int_le_iff [where ?'a = rat, of "S + n" 1073741824] by (simp_all add: cart_bound_def)
  have sx: "\<bar>s\<bar> \<le> 33554432" "\<bar>x\<bar> \<le> 33554432" "\<bar>s + x\<bar> \<le> 33554432"
    using 2(3) ns(3) k S by (simp_all add: abs_if split: if_splits)
  from abs_fl_error [OF sx(3)] have "\<bar>fadd s x - (s + x)\<bar> \<le> 1 / 268435456" by (simp add: fadd_def)
  then have s2: "\<bar>fadd s x - of_int (S + n) / 100\<bar> \<le> of_nat (Suc k) / 134217728"
    using 2(3) ns(3) unfolding of_int_add add_divide_distrib of_nat_Suc abs_le_iff by linarith
  have l: "\<bar>lost s x\<bar> \<le> 1 / 8388608" by (rule lost_small [OF sx(1,2)])
  have "\<bar>c + lost s x\<bar> \<le> 1" using 2(4) l k by (simp add: abs_if split: if_splits)
  from abs_fl_error [OF this] have "\<bar>fadd c (lost s x) - (c + lost s x)\<bar> \<le> 1 / 9007199254740992" by (simp add: fadd_def)
  then have c2: "\<bar>fadd c (lost s x)\<bar> \<le> of_nat (Suc k) / 4194304"
    using 2(4) l unfolding of_nat_Suc add_divide_distrib abs_le_iff by linarith
  have "\<bar>neumaier (fadd s x) (fadd c (lost s x)) xs - of_int ((S + n) + sum_list ms) / 100\<bar> \<le> 1 / 1024"
    by (rule 2(1) [OF rest s2 c2]) (use 2(5-7) ns in simp_all)
  then show ?case by (simp add: ns(1) add.assoc)
qed

theorem round2_py_sum:
  assumes "list_all (\<lambda>n. 0 \<le> n) ns" "sum_list ns \<le> cart_bound" "length ns \<le> 1000"
  shows "round2 (py_sum (map cents ns)) = cents (sum_list ns)"
proof (cases ns)
  case (Cons n ms)
  have nn: "0 \<le> m \<and> m \<le> cart_bound" if "m \<in> set ns" for m
    using that member_le_sum_list [of m ns] assms(1,2) by (auto simp: list_all_iff)
  then have err: "\<bar>cents m - of_int m / 100\<bar> \<le> 1 / 268435456" if "m \<in> set ns" for m
    using cart_cents_error [of m] that by force
  have "list_all2 (\<lambda>x m. 0 \<le> m \<and> \<bar>x - of_int m / 100\<bar> \<le> 1 / 268435456) (map cents ms) ms"
    using nn err Cons by (simp add: list_all2_map1 list_all2_same)
  then have "\<bar>neumaier (cents n) 0 (map cents ms) - of_int (n + sum_list ms) / 100\<bar> \<le> 1 / 1024"
    by (rule neumaier_error [where k = 1]) (use nn [of n] err [of n] Cons assms(2,3) in auto)
  then show ?thesis unfolding Cons by (intro round2_near) (simp add: py_sum_def)
qed simp

end
