(* ===== verification/Returns.thy ===== *)
theory Returns
  imports OrderLife FloatSum
begin

text \<open>
  \<open>cart_service/app/services/returns.py\<close>, \<open>custom_cakes.py\<close> and \<open>addresses.py\<close>: return requests of
  delivered orders, custom cake requests with their price estimate, and the address book.
\<close>

section \<open>Returns\<close>

record ReturnIn =
  ri_order_id :: int
  ri_affected_item_ids :: "int list"
  ri_issue_type :: string
  ri_solution :: string
  ri_description :: "string option"
  ri_evidence_urls :: "string list option"

definition RETURN_STAGES :: "string list" where
  "RETURN_STAGES = [''submitted'', ''ai_validated'', ''admin_review'', ''approved'', ''rejected'',
     ''replacement_initiated'', ''refund_initiated'', ''completed'']"

definition assess_return :: "string \<Rightarrow> string list option \<Rightarrow> string option \<Rightarrow> json" where
  "assess_return issue_type evidence_urls description = JObj [(''eligible'', JBool True), (''confidence'', JFloat (fl (7 / 10))),
     (''summary'', JStr ''Auto-assessed; pending admin review''), (''issue_type'', JStr issue_type),
     (''evidence_count'', JInt (int (length (case evidence_urls of None \<Rightarrow> [] | Some us \<Rightarrow> us)))),
     (''notes'', JStr (take 200 (or_str description [])))]"

definition refund_amount_of :: "ReturnIn \<Rightarrow> Order \<Rightarrow> OrderItem list \<Rightarrow> rat" where
  "refund_amount_of data ord items =
     (let affected = filter (\<lambda>i. oi_id i \<in> set (ri_affected_item_ids data)) items
      in if affected = [] then o_final_amount ord else py_sum (map oi_total_price affected))"

definition return_row :: "env \<Rightarrow> int \<Rightarrow> ReturnIn \<Rightarrow> Order \<Rightarrow> db \<Rightarrow> ReturnRequest" where
  "return_row e user_id data ord d =
     (new_ReturnRequest (env_now e) (o_id ord) user_id (ri_issue_type data))
       \<lparr>rr_solution := ri_solution data, rr_description := ri_description data,
        rr_affected_item_ids := Some (map JInt (ri_affected_item_ids data)),
        rr_evidence_urls := map_option (map JStr) (ri_evidence_urls data),
        rr_refund_amount := refund_amount_of data ord (items_of d (o_id ord)),
        rr_status := ''ai_validated'',
        rr_ai_assessment := Some (assess_return (ri_issue_type data) (ri_evidence_urls data) (ri_description data)),
        rr_deadline_at := Some (env_now e + us_hours 24)\<rparr>"

definition first_admin :: "db \<Rightarrow> User option" where
  "first_admin d = t_first (\<lambda>u. u_role u = UR_ADMIN) (users d)"

definition create_return :: "env \<Rightarrow> int \<Rightarrow> ReturnIn \<Rightarrow> db \<Rightarrow> (exc + ReturnRequest) \<times> db" where
  "create_return e user_id data d = (case get_Order d (ri_order_id data) of
     None \<Rightarrow> (Inl (not_found ''Order not found''), d)
   | Some ord \<Rightarrow>
       if o_user_id ord \<noteq> user_id then (Inl (not_found ''Order not found''), d)
       else if o_status ord \<noteq> OS_DELIVERED then (Inl (bad_request ''Only delivered orders can be returned''), d)
       else if (case o_delivered_at ord of Some t \<Rightarrow> t < env_now e - us_hours 24 | None \<Rightarrow> False)
       then (Inl (bad_request ''Return window (24 hours) has expired''), d)
       else let row = return_row e user_id data ord d;
                d1 = add_ReturnRequest row (put_Order (ord\<lparr>o_status := OS_RETURN_REQUESTED\<rparr>) d);
                req = (key_ReturnRequest row d)\<lparr>rr_status := ''admin_review''\<rparr>;
                d2 = notify e user_id ''return'' ''Return submitted'' ''We are reviewing your request''
                       (Some (JObj [(''return_id'', JInt (rr_id req))])) (put_ReturnRequest req d1)
            in (Inr req, case first_admin d2 of None \<Rightarrow> d2
                  | Some admin \<Rightarrow> notify e (u_id admin) ''return'' ''New return request'' (''Order '' @ o_order_number ord)
                       (Some (JObj [(''return_id'', JInt (rr_id req))])) d2))"

definition list_returns :: "db \<Rightarrow> int \<Rightarrow> ReturnRequest list" where
  "list_returns d user_id = t_all (\<lambda>r. rr_user_id r = user_id) (return_requests d)"

datatype return_reply = ReturnMissing string | ReturnView ReturnRequest "string list"

definition return_detail :: "db \<Rightarrow> int \<Rightarrow> int \<Rightarrow> return_reply" where
  "return_detail d return_id user_id = (case get_ReturnRequest d return_id of
     None \<Rightarrow> ReturnMissing ''not found''
   | Some r \<Rightarrow> if rr_user_id r \<noteq> user_id then ReturnMissing ''not found'' else ReturnView r RETURN_STAGES)"

section \<open>Custom cakes\<close>

definition cake_base_price :: "string \<Rightarrow> rat" where
  "cake_base_price weight = (case map_of [(''0.5 kg'', 549), (''1 kg'', 899), (''1.5 kg'', 1299), (''2 kg'', 1699),
     (''3 kg'', 2499)] weight of Some p \<Rightarrow> p | None \<Rightarrow> 999)"

definition estimate_price :: "string \<Rightarrow> rat option \<Rightarrow> rat" where
  "estimate_price weight budget_max = (let base = cake_base_price weight in
     (case budget_max of Some b \<Rightarrow> if b \<noteq> 0 then min base b else base | None \<Rightarrow> base))"

text \<open>The request body is the row with the columns the client sends.\<close>

definition cake_row :: "env \<Rightarrow> int \<Rightarrow> CustomCakeRequest \<Rightarrow> CustomCakeRequest" where
  "cake_row e user_id data = data\<lparr>cc_user_id := user_id,
     cc_estimated_price := Some (estimate_price (cc_weight data) (cc_budget_max data)),
     cc_quoted_price := None, cc_order_id := None,
     cc_ai_suggestions := Some
       [JObj [(''theme'', JStr ''Pastel floral with gold leaf''), (''extra'', JInt 150)],
        JObj [(''theme'', JStr ''Cartoon topper + drip''), (''extra'', JInt 200)],
        JObj [(''theme'', JStr ''Minimal elegant script''), (''extra'', JInt 0)]],
     cc_status := CC_REQUESTED, cc_created_at := env_now e, cc_updated_at := env_now e\<rparr>"

definition create_cake_request :: "env \<Rightarrow> int \<Rightarrow> CustomCakeRequest \<Rightarrow> db \<Rightarrow> CustomCakeRequest \<times> db" where
  "create_cake_request e user_id data d =
     (let row = cake_row e user_id data; req = key_CustomCakeRequest row d; d1 = add_CustomCakeRequest row d;
          d2 = (case first_admin d1 of None \<Rightarrow> d1
                | Some admin \<Rightarrow> notify e (u_id admin) ''custom_cake'' ''Custom cake request''
                     (cc_occasion data @ '' '' @ middot @ '' '' @ cc_flavor data)
                     (Some (JObj [(''id'', JInt (cc_id req))])) d1)
      in (req, notify e user_id ''custom_cake'' ''Request received'' (''We'' @ [CHR 0x27] @ ''ll share a quotation soon'')
                 (Some (JObj [(''id'', JInt (cc_id req))])) d2))"

definition list_cake_requests :: "db \<Rightarrow> int \<Rightarrow> CustomCakeRequest list" where
  "list_cake_requests d user_id = t_all (\<lambda>r. cc_user_id r = user_id) (cake_requests d)"

section \<open>Addresses\<close>

definition list_addresses :: "db \<Rightarrow> int \<Rightarrow> Address list" where
  "list_addresses d user_id = t_all (\<lambda>a. ad_user_id a = user_id) (addresses d)"

definition clear_defaults :: "int \<Rightarrow> db \<Rightarrow> db" where
  "clear_defaults user_id d = d\<lparr>addresses := (addresses d)\<lparr>rows :=
     map (\<lambda>a. if ad_user_id a = user_id then a\<lparr>ad_is_default := False\<rparr> else a) (rows (addresses d))\<rparr>\<rparr>"

definition add_address :: "env \<Rightarrow> User \<Rightarrow> Address \<Rightarrow> db \<Rightarrow> (exc + Address \<times> delivery_check) \<times> db" where
  "add_address e user body d = (case assert_within_radius e (ad_latitude body) (ad_longitude body) d of
     Inl ex \<Rightarrow> (Inl ex, d)
   | Inr coverage \<Rightarrow>
       let d1 = (if ad_is_default body then clear_defaults (u_id user) d else d);
           row = body\<lparr>ad_user_id := u_id user, ad_created_at := env_now e\<rparr>
       in (Inr (key_Address row d1, coverage), add_Address row d1))"

definition delete_address :: "int \<Rightarrow> int \<Rightarrow> db \<Rightarrow> json \<times> db" where
  "delete_address user_id address_id d =
     (JObj [(''message'', JStr ''deleted'')],
      case get_Address d address_id of
        Some a \<Rightarrow> if ad_user_id a = user_id then del_Address address_id d else d
      | None \<Rightarrow> d)"

end
