(* ===== verification/ReturnLaws.thy ===== *)
theory ReturnLaws
  imports Returns OrderLaws
begin

text \<open>
  Laws of returns: which orders can be returned and until when, and that an order is returned once; and of
  the address book: a user has at most one default address.
\<close>

text \<open>Property C27 (return_window): a return request is accepted exactly for the caller's own delivered order whose
  delivery, when it is dated, is at most 24 hours old; it then moves the order to return-requested,
  files one request under review with the refund of the affected items (of the whole order when none
  is named), and a second request for the order is refused.  A refused request changes nothing.\<close>

theorem return_window:
  assumes "create_return e u data d = (r, d')" "db_wf d"
  shows "case get_Order d (ri_order_id data) of
      None \<Rightarrow> r = Inl (not_found ''Order not found'') \<and> d' = d
    | Some ord \<Rightarrow>
        if o_user_id ord = u \<and> o_status ord = OS_DELIVERED
          \<and> (o_delivered_at ord = None \<or> env_now e \<le> the (o_delivered_at ord) + us_hours 24)
        then \<exists>req. r = Inr req \<and> get_ReturnRequest d' (rr_id req) = Some req \<and> get_ReturnRequest d (rr_id req) = None
           \<and> rr_status req = ''admin_review'' \<and> rr_order_id req = ri_order_id data \<and> rr_user_id req = u
           \<and> rr_refund_amount req = refund_amount_of data ord (items_of d (ri_order_id data))
           \<and> get_Order d' (ri_order_id data) = Some (ord\<lparr>o_status := OS_RETURN_REQUESTED\<rparr>)
           \<and> (\<forall>e2 data2. ri_order_id data2 = ri_order_id data \<longrightarrow>
                create_return e2 u data2 d' = (Inl (bad_request ''Only delivered orders can be returned''), d'))
        else isl r \<and> d' = d"
proof (cases "get_Order d (ri_order_id data)")
  case None
  with assms show ?thesis by (simp add: create_return_def)
next
  case (Some ord)
  define k where "k = ri_order_id data"
  have id: "o_id ord = k" using t_get_key [OF Some] by (simp add: k_def)
  show ?thesis
  proof (cases "o_user_id ord = u \<and> o_status ord = OS_DELIVERED
          \<and> (o_delivered_at ord = None \<or> env_now e \<le> the (o_delivered_at ord) + us_hours 24)")
    case False
    then have "isl r \<and> d' = d"
      using assms(1) Some by (auto simp: create_return_def Let_def split: if_splits option.splits)
    then show ?thesis using Some False by auto
  next
    case True
    define row where "row = return_row e u data ord d"
    define req where "req = (key_ReturnRequest row d)\<lparr>rr_status := ''admin_review''\<rparr>"
    define d1 where "d1 = add_ReturnRequest row (put_Order (ord\<lparr>o_status := OS_RETURN_REQUESTED\<rparr>) d)"
    have rid: "rr_id req = next_id (return_requests d)" by (simp add: req_def)
    have r: "r = Inr req" "orders d' = orders d1" "return_requests d' = t_put rr_id req (return_requests d1)"
      using assms(1) Some True
      by (auto simp: create_return_def Let_def row_def req_def d1_def notify_def split: option.splits if_splits)
    have f: "rr_order_id row = k" "rr_user_id row = u" "rr_refund_amount row = refund_amount_of data ord (items_of d k)"
      by (simp_all add: row_def return_row_def new_ReturnRequest_def id)
    have g: "get_Order d' k = Some (ord\<lparr>o_status := OS_RETURN_REQUESTED\<rparr>)"
      using Some id by (simp add: r(2) d1_def k_def)
    have q: "get_ReturnRequest d' (rr_id req) = Some req" "get_ReturnRequest d (rr_id req) = None"
      using assms(2) by (simp_all add: r(3) d1_def rid)
    have again: "create_return e2 u data2 d' = (Inl (bad_request ''Only delivered orders can be returned''), d')"
      if "ri_order_id data2 = k" for e2 data2
      using g that True by (simp add: create_return_def)
    show ?thesis
      unfolding k_def [symmetric]
      using True Some g q again r(1) f by (auto simp: k_def req_def)
  qed
qed

text \<open>The refund of named items is the sum of their list totals: the order's discount is not taken off, so
  it can exceed what the customer paid.\<close>

lemma refund_above_paid:
  "refund_amount_of \<lparr>ri_order_id = 1, ri_affected_item_ids = [1], ri_issue_type = ''damaged'', ri_solution = ''refund'',
       ri_description = None, ri_evidence_urls = None\<rparr>
     ((new_Order 0 ''SC1'' 5)\<lparr>o_id := 1, o_discount := 50, o_final_amount := 450\<rparr>)
     [(new_OrderItem 1 1 ''Cake'')\<lparr>oi_id := 1, oi_total_price := 500\<rparr>] = 500"
proof -
  have "fl 500 = 500" using fl_of_int [of 500] by simp
  then show ?thesis by (simp add: refund_amount_of_def new_OrderItem_def fadd_def)
qed

section \<open>The address book\<close>

definition one_default :: "db \<Rightarrow> bool" where
  "one_default d \<longleftrightarrow> (\<forall>u. length (filter ad_is_default (list_addresses d u)) \<le> 1)"

lemma clear_defaults_fields:
  "list_addresses (clear_defaults u d) v = (if v = u then map (\<lambda>a. a\<lparr>ad_is_default := False\<rparr>) (list_addresses d v)
     else list_addresses d v)"
proof -
  have "filter (\<lambda>a. ad_user_id a = v) (map (\<lambda>a. if ad_user_id a = u then a\<lparr>ad_is_default := False\<rparr> else a) xs)
      = (if v = u then map (\<lambda>a. a\<lparr>ad_is_default := False\<rparr>) (filter (\<lambda>a. ad_user_id a = v) xs)
         else filter (\<lambda>a. ad_user_id a = v) xs)" for xs :: "Address list"
    by (cases "v = u"; induction xs) simp_all
  then show ?thesis by (simp add: list_addresses_def clear_defaults_def t_all_def)
qed

lemma new_address_default:
  assumes "one_default d" "d1 = (if ad_is_default body then clear_defaults (u_id user) d else d)"
  shows "one_default (add_Address (body\<lparr>ad_user_id := u_id user, ad_created_at := now\<rparr>) d1)"
proof -
  have l: "list_addresses (add_Address (body\<lparr>ad_user_id := u_id user, ad_created_at := now\<rparr>) d1) v
      = list_addresses d1 v @ (if v = u_id user then [body\<lparr>ad_user_id := u_id user,
      ad_created_at := now, ad_id := next_id (addresses d1)\<rparr>] else [])" for v
    by (simp add: list_addresses_def t_all_insert)
  have e: "filter ad_is_default (map (\<lambda>a. a\<lparr>ad_is_default := False\<rparr>) xs) = []" for xs :: "Address list"
    by (induction xs) auto
  have "length (filter ad_is_default (list_addresses d v)) \<le> 1" for v using assms(1) by (simp only: one_default_def)
  then show ?thesis
    unfolding one_default_def l unfolding assms(2) by (simp add: clear_defaults_fields e)
qed

lemma add_address_default:
  assumes "one_default d" "add_address e user body d = (r, d')"
  shows "one_default d'"
proof (cases "ad_latitude body = None \<or> ad_longitude body = None")
  case True
  then have "d' = d" using assms(2)
    by (cases "ad_latitude body"; cases "ad_longitude body") (auto simp: add_address_def assert_within_radius_def)
  then show ?thesis using assms(1) by simp
next
  case False
  define d1 where "d1 = (if ad_is_default body then clear_defaults (u_id user) d else d)"
  have "d' = add_Address (body\<lparr>ad_user_id := u_id user, ad_created_at := env_now e\<rparr>) d1"
    using assms(2) False by (auto simp: add_address_def assert_within_radius_def Let_def d1_def split: option.splits)
  then show ?thesis using new_address_default [OF assms(1) d1_def] by simp
qed

lemma delete_address_default:
  assumes "one_default d" "delete_address u k d = (j, d')" shows "one_default d'"
proof -
  have "length (filter ad_is_default (filter (\<lambda>a. ad_user_id a = v) (filter (\<lambda>a. ad_id a \<noteq> k) xs)))
      \<le> length (filter ad_is_default (filter (\<lambda>a. ad_user_id a = v) xs))" for v xs
    by (induction xs) auto
  then have "one_default (del_Address k d)"
    using assms(1) order_trans by (fastforce simp: one_default_def list_addresses_def t_all_def t_delete_def)
  with assms show ?thesis by (auto simp: delete_address_def split: option.splits if_splits)
qed

section \<open>Worked example\<close>

definition delivered_db :: db where
  "delivered_db = order_db\<lparr>orders := \<lparr>rows = [placed_order\<lparr>o_status := OS_DELIVERED,
     o_delivered_at := Some (env_now sample_env - us_hours 23)\<rparr>], next_id = 2\<rparr>\<rparr>"

definition broken :: ReturnIn where
  "broken = \<lparr>ri_order_id = 1, ri_affected_item_ids = [], ri_issue_type = ''damaged'', ri_solution = ''refund'',
     ri_description = None, ri_evidence_urls = None\<rparr>"

lemma return_window_witness:
  "\<exists>req d'. create_return sample_env 5 broken delivered_db = (Inr req, d') \<and> rr_refund_amount req = cents 56395
     \<and> create_return sample_env 5 broken d' = (Inl (bad_request ''Only delivered orders can be returned''), d')"
proof -
  obtain r d' where c: "create_return sample_env 5 broken delivered_db = (r, d')" by (cases "create_return sample_env 5 broken delivered_db")
  have wf: "db_wf delivered_db" using order_db_facts(1) by (simp add: delivered_db_def t_wf_def order_db_facts(7))
  have g: "get_Order delivered_db 1 = Some (placed_order\<lparr>o_status := OS_DELIVERED,
     o_delivered_at := Some (env_now sample_env - us_hours 23)\<rparr>)"
    by (simp add: delivered_db_def t_get_def order_db_facts(7))
  have o: "ri_order_id broken = 1" "o_final_amount placed_order = cents 56395" "ri_affected_item_ids broken = []"
    by (simp_all add: broken_def placed_order_def)
  have t: "env_now sample_env \<le> env_now sample_env - us_hours 23 + us_hours 24" by (simp add: us_hours_def)
  from return_window [OF c wf, unfolded o(1) g] o t order_db_facts(5) obtain req where
    "r = Inr req" "rr_refund_amount req = cents 56395"
    "create_return sample_env 5 broken d' = (Inl (bad_request ''Only delivered orders can be returned''), d')"
    by (auto simp: refund_amount_of_def)
  with c show ?thesis by blast
qed

end
