(* ===== verification/Units.thy ===== *)
theory Units
  imports Invoices
begin

text \<open>
  \<open>store_ops_service/app/services/units.py\<close> (the unit labels of the catalog) and \<open>phone.py\<close>
  (the canonical form of phone numbers).
\<close>

section \<open>Unit labels\<close>

definition DEFAULT_UNIT :: string where "DEFAULT_UNIT = ''pcs''"

definition UNITS :: "(string \<times> string) list" where
  "UNITS = [(''pcs'', ''Piece (pcs)''), (''pkt'', ''Packet (pkt)''), (''pack'', ''Pack''), (''box'', ''Box''),
     (''jar'', ''Jar''), (''tin'', ''Tin''), (''bottle'', ''Bottle''), (''tray'', ''Tray''), (''dozen'', ''Dozen''),
     (''kg'', ''Kilogram (kg)''), (''g'', ''Gram (g)''), (''L'', ''Litre (L)''), (''ml'', ''Millilitre (ml)''),
     (''bunch'', ''Bunch'')]"

definition UNIT_ALIASES :: "(string \<times> string) list" where
  "UNIT_ALIASES = [(''pc'', ''pcs''), (''piece'', ''pcs''), (''pieces'', ''pcs''), (''packet'', ''pkt''),
     (''packets'', ''pkt''), (''packs'', ''pack''), (''kilogram'', ''kg''), (''kilograms'', ''kg''), (''gram'', ''g''),
     (''grams'', ''g''), (''liter'', ''L''), (''litre'', ''L''), (''liters'', ''L''), (''litres'', ''L''),
     (''milliliter'', ''ml''), (''millilitre'', ''ml'')]"

definition list_units :: "(string \<times> string) list" where
  "list_units = UNITS"

definition unit_codes :: "string list" where
  "unit_codes = map fst UNITS"

definition normalize_unit :: "string option \<Rightarrow> string" where
  "normalize_unit raw =
     (let cde = strip (or_str raw DEFAULT_UNIT)
      in if cde = [] then DEFAULT_UNIT
         else let k = str_lower cde;
                  mapped = (case map_of UNIT_ALIASES k of Some u \<Rightarrow> u
                            | None \<Rightarrow> if cde \<in> set unit_codes then cde else k)
              in (case find (\<lambda>u. str_lower (fst u) = str_lower mapped) UNITS of
                    Some u \<Rightarrow> fst u | None \<Rightarrow> DEFAULT_UNIT))"

lemma unit_codes_eq [simp]:
  "unit_codes = [''pcs'', ''pkt'', ''pack'', ''box'', ''jar'', ''tin'', ''bottle'', ''tray'', ''dozen'', ''kg'',
     ''g'', ''L'', ''ml'', ''bunch'']"
  by (simp add: unit_codes_def UNITS_def)

lemma normalize_unit_code: "normalize_unit raw \<in> set unit_codes"
proof -
  have "fst u \<in> set unit_codes" if "find P UNITS = Some u" for P u
    using that unfolding unit_codes_def by (auto simp: find_Some_iff)
  moreover have "DEFAULT_UNIT \<in> set unit_codes" by (simp add: DEFAULT_UNIT_def)
  ultimately show ?thesis by (auto simp: normalize_unit_def Let_def simp del: unit_codes_eq split: option.splits)
qed

text \<open>Every code is a fixed point: on its codes the function is the identity.\<close>

lemma normalize_unit_fixed: "list_all (\<lambda>c. normalize_unit (Some c) = c) unit_codes"
  by code_simp

lemma normalize_unit_idem: "normalize_unit (Some (normalize_unit raw)) = normalize_unit raw"
  using normalize_unit_fixed normalize_unit_code [of raw] by (simp only: list_all_iff)

section \<open>Lengths\<close>

text \<open>\<open>len(s)\<close> counts characters: the bytes that start a UTF-8 sequence.\<close>

definition py_len :: "string \<Rightarrow> nat" where
  "py_len s = length (filter (\<lambda>c. \<not> (128 \<le> char_code c \<and> char_code c < 192)) s)"

section \<open>Phone numbers\<close>

definition normalize_phone :: "string \<Rightarrow> string" where
  "normalize_phone phone =
     (let digits = filter is_digit_char phone
      in if length digits = 10 then ''+91'' @ digits
         else if starts_with ''+'' phone then phone
         else if digits \<noteq> [] then ''+'' @ digits else phone)"

lemma plus_91_digits: "filter is_digit_char (''+91'' @ s) = ''91'' @ filter is_digit_char s"
  by (simp add: is_digit_char_def char_code_def)

lemma normalize_phone_idem: "normalize_phone (normalize_phone p) = normalize_phone p"
proof -
  let ?d = "filter is_digit_char p"
  have plus: "filter is_digit_char (''+'' @ s) = filter is_digit_char s" for s
    by (simp add: is_digit_char_def char_code_def)
  consider (ten) "length ?d = 10" | (plus) "length ?d \<noteq> 10" "starts_with ''+'' p"
    | (digits) "length ?d \<noteq> 10" "\<not> starts_with ''+'' p" "?d \<noteq> []"
    | (none) "length ?d \<noteq> 10" "\<not> starts_with ''+'' p" "?d = []" by blast
  then show ?thesis
  proof cases
    case ten
    then have n: "normalize_phone p = ''+91'' @ ?d" by (simp add: normalize_phone_def)
    have "filter is_digit_char (''+91'' @ ?d) = ''91'' @ ?d" by (simp only: plus_91_digits filter_filter) simp
    then show ?thesis unfolding n using ten by (simp add: normalize_phone_def Let_def)
  next
    case plus
    then show ?thesis by (simp add: normalize_phone_def Let_def)
  next
    case digits
    then have n: "normalize_phone p = ''+'' @ ?d" by (simp add: normalize_phone_def Let_def)
    have "filter is_digit_char (''+'' @ ?d) = ?d" by (simp only: plus filter_filter) simp
    then show ?thesis unfolding n using digits by (simp add: normalize_phone_def Let_def)
  next
    case none
    then show ?thesis by (simp add: normalize_phone_def Let_def)
  qed
qed

end
