(* ===== verification/SellPlan.thy ===== *)
theory SellPlan
  imports Purchases Units
begin

text \<open>
  \<open>store_ops_service/app/services/sell.py\<close>, first part: the guards of a shop that sells to customers
  and its paid selling plan.  A plan is bought through a Razorpay payment link; the pending link is
  kept in one text column \<open>link:cadence:amount\<close>.  The GET of a payment link is the argument \<open>get_link\<close>
  (path to status, text and JSON answer).  Failures of the invoice are swallowed.
\<close>

section \<open>Guards\<close>

definition sell_shop :: "User \<Rightarrow> db \<Rightarrow> exc + RetailerProfile" where
  "sell_shop user d = (case profile_of d (u_id user) of
     None \<Rightarrow> Inl (not_found ''Shop profile not found'')
   | Some p \<Rightarrow> if rp_is_blocked p then Inl (forbidden ''Shop is blocked'') else Inr p)"

definition approved_shop :: "User \<Rightarrow> db \<Rightarrow> exc + RetailerProfile" where
  "approved_shop user d = (case sell_shop user d of
     Inl ex \<Rightarrow> Inl ex
   | Inr p \<Rightarrow> if rp_approval_status p \<noteq> ''approved''
              then Inl (forbidden ''Shop must be KYC-approved first'') else Inr p)"

text \<open>\<open>profile.sell_subscription_status or "none"\<close>, and the plan that has run out.\<close>

definition sub_status :: "RetailerProfile \<Rightarrow> string" where
  "sub_status p = or_str (Some (rp_sell_subscription_status p)) ''none''"

definition plan_over :: "env \<Rightarrow> RetailerProfile \<Rightarrow> bool" where
  "plan_over e p \<longleftrightarrow> sub_status p = ''approved''
     \<and> (case rp_sell_subscription_expires_at p of None \<Rightarrow> False | Some t \<Rightarrow> t < env_now e)"

definition expire_plan :: "env \<Rightarrow> RetailerProfile \<Rightarrow> db \<Rightarrow> RetailerProfile \<times> db" where
  "expire_plan e p d =
     (if plan_over e p
      then let p2 = p\<lparr>rp_sell_subscription_status := ''expired''\<rparr> in (p2, put_RetailerProfile p2 d)
      else (p, d))"

definition selling_shop :: "env \<Rightarrow> User \<Rightarrow> db \<Rightarrow> (exc + RetailerProfile) \<times> db" where
  "selling_shop e user d = (case approved_shop user d of
     Inl ex \<Rightarrow> (Inl ex, d)
   | Inr p \<Rightarrow> let (p2, d2) = expire_plan e p d
              in if sub_status p2 \<noteq> ''approved''
                 then (Inl (forbidden (''Active sell subscription required '' @ emdash
                        @ '' choose a plan and pay via Razorpay'')), d2)
                 else (Inr p2, d2))"

section \<open>Prices\<close>

definition DEFAULT_MONTHLY :: rat where "DEFAULT_MONTHLY = 499"
definition DEFAULT_YEARLY :: rat where "DEFAULT_YEARLY = 4990"

text \<open>\<open>float(v or default)\<close> for a value of the settings' JSON; a text that is no decimal numeral is a
  \<open>ValueError\<close>, a non-empty list or object a \<open>TypeError\<close>.\<close>

definition float_or :: "json \<Rightarrow> rat \<Rightarrow> exc + rat" where
  "float_or v dflt = (case v of
     JNull \<Rightarrow> Inr dflt
   | JBool b \<Rightarrow> Inr (if b then 1 else dflt)
   | JInt n \<Rightarrow> Inr (if n = 0 then dflt else fl (of_int n))
   | JFloat x \<Rightarrow> Inr (if x = 0 then dflt else x)
   | JStr s \<Rightarrow> if s = [] then Inr dflt
       else (case parse_decimal s of Some x \<Rightarrow> Inr x | None \<Rightarrow> Inl (PyExc ''ValueError''))
   | JArr xs \<Rightarrow> if xs = [] then Inr dflt else Inl (PyExc ''TypeError'')
   | JObj kvs \<Rightarrow> if kvs = [] then Inr dflt else Inl (PyExc ''TypeError''))"

definition plan_prices :: "db \<Rightarrow> exc + rat \<times> rat" where
  "plan_prices d =
     (let tax = (case t_first (\<lambda>_. True) (settings_rows d) of None \<Rightarrow> JObj [] | Some s \<Rightarrow> jor_obj (bs_tax_settings s))
      in case float_or (jget ''sell_monthly_price'' tax) DEFAULT_MONTHLY of
           Inl ex \<Rightarrow> Inl ex
         | Inr m \<Rightarrow> (case float_or (jget ''sell_yearly_price'' tax) DEFAULT_YEARLY of
             Inl ex \<Rightarrow> Inl ex | Inr y \<Rightarrow> Inr (m, y)))"

definition plan_row :: "string \<Rightarrow> string \<Rightarrow> rat \<Rightarrow> int \<Rightarrow> (string \<times> json) list" where
  "plan_row cadence label price days = [(''cadence'', JStr cadence), (''label'', JStr label),
     (''price'', JFloat price), (''days'', JInt days)]"

definition list_sell_plans :: "User \<Rightarrow> db \<Rightarrow> exc + json" where
  "list_sell_plans user d = (case approved_shop user d of
     Inl ex \<Rightarrow> Inl ex
   | Inr _ \<Rightarrow> (case plan_prices d of
       Inl ex \<Rightarrow> Inl ex
     | Inr (m, y) \<Rightarrow> Inr (JArr
         [JObj (plan_row ''monthly'' ''Monthly'' m 30
             @ [(''blurb'', JStr ''List products, banners & offers for 30 days'')]),
          JObj (plan_row ''yearly'' ''Yearly'' y 365
             @ [(''blurb'', JStr (''Best value '' @ emdash @ '' full year of selling tools'')),
                (''save_hint'', JStr ''Save vs monthly'')])])))"

section \<open>The subscription\<close>

definition sub_report :: "gateway \<Rightarrow> RetailerProfile \<Rightarrow> rat \<times> rat \<Rightarrow> json" where
  "sub_report g p prices = JObj
     [(''approval_status'', JStr (rp_approval_status p)),
      (''sell_subscription_status'', JStr (sub_status p)),
      (''sell_plan'', jopt_str (rp_sell_plan p)),
      (''sell_subscription_expires_at'', jopt_time (rp_sell_subscription_expires_at p)),
      (''can_sell'', JBool (rp_approval_status p = ''approved'' \<and> sub_status p = ''approved'' \<and> \<not> rp_is_blocked p)),
      (''plans'', JArr [JObj (plan_row ''monthly'' ''Monthly'' (fst prices) 30),
                        JObj (plan_row ''yearly'' ''Yearly'' (snd prices) 365)]),
      (''razorpay_configured'', JBool (razorpay_configured g))]"

definition subscription_status :: "gateway \<Rightarrow> env \<Rightarrow> User \<Rightarrow> db \<Rightarrow> (exc + json) \<times> db" where
  "subscription_status g e user d = (case sell_shop user d of
     Inl ex \<Rightarrow> (Inl ex, d)
   | Inr p \<Rightarrow> let (p2, d2) = expire_plan e p d
              in (case plan_prices d2 of
                    Inl ex \<Rightarrow> (Inl ex, d2) | Inr prices \<Rightarrow> (Inr (sub_report g p2 prices), d2)))"

definition request_sell_subscription :: "User \<Rightarrow> db \<Rightarrow> (exc + json) \<times> db" where
  "request_sell_subscription user d = (case approved_shop user d of
     Inl ex \<Rightarrow> (Inl ex, d)
   | Inr p \<Rightarrow>
       if sub_status p = ''approved''
       then (Inr (JObj [(''sell_subscription_status'', JStr ''approved''), (''message'', JStr ''Already approved to sell'')]), d)
       else (Inr (JObj [(''sell_subscription_status'', JStr ''pending''), (''message'', JStr ''Submitted for admin approval'')]),
             put_RetailerProfile (p\<lparr>rp_sell_subscription_status := ''pending''\<rparr>) d))"

definition sell_days :: "string \<Rightarrow> int" where
  "sell_days cadence = (if cadence = ''yearly'' then 365 else 30)"

text \<open>A plan that still runs is extended from its end, any other starts now.\<close>

definition plan_base :: "env \<Rightarrow> RetailerProfile \<Rightarrow> datetime" where
  "plan_base e p =
     (case rp_sell_subscription_expires_at p of
        Some t \<Rightarrow> if rp_sell_subscription_status p = ''approved'' \<and> env_now e < t then t else env_now e
      | None \<Rightarrow> env_now e)"

definition activated :: "env \<Rightarrow> string \<Rightarrow> RetailerProfile \<Rightarrow> RetailerProfile" where
  "activated e cadence p = p\<lparr>rp_sell_subscription_status := ''approved'', rp_sell_plan := Some cadence,
     rp_sell_subscription_expires_at := Some (plan_base e p + us_days (sell_days cadence)),
     rp_sell_rz_pending := None\<rparr>"

definition plan_paid_note :: "env \<Rightarrow> RetailerProfile \<Rightarrow> string \<Rightarrow> rat \<Rightarrow> string \<Rightarrow> datetime \<Rightarrow> Notification" where
  "plan_paid_note e p cadence amount payment_ref ends =
     (new_Notification (env_now e) (rp_user_id p) (''Sell plan '' @ middot @ '' '' @ cadence)
        (''Paid '' @ rupee @ fmt0 amount @ '' via Razorpay '' @ middot @ '' active until '' @ iso_date (utc_day ends)))
     \<lparr>n_type := NT_PAYMENT,
      n_data := Some (JObj [(''kind'', JStr ''sell_subscription''), (''purpose'', JStr ''subscription''),
        (''cadence'', JStr cadence), (''amount'', JFloat amount), (''payment_ref'', JStr payment_ref),
        (''expires_at'', JStr (isoformat ends)), (''paid_at'', JStr (isoformat (env_now e)))])\<rparr>"

definition activate_paid :: "env \<Rightarrow> RetailerProfile \<Rightarrow> string \<Rightarrow> rat \<Rightarrow> string \<Rightarrow> db \<Rightarrow> RetailerProfile \<times> db" where
  "activate_paid e p cadence amount payment_ref d =
     (let ends = plan_base e p + us_days (sell_days cadence);
          p2 = activated e cadence p;
          d1 = add_Notification (plan_paid_note e p cadence amount payment_ref ends) (put_RetailerProfile p2 d)
      in (p2, (case get_User d1 (rp_user_id p) of
                 None \<Rightarrow> d1
               | Some u \<Rightarrow> snd (issue_subscription e u p2 cadence amount payment_ref (isoformat ends) d1))))"

text \<open>The link id is a text; \<open>str(x or "")\<close> of any other JSON value but a number is not used.\<close>

definition json_text :: "json \<Rightarrow> string" where
  "json_text j = (case j of JStr s \<Rightarrow> s | JInt n \<Rightarrow> if n = 0 then [] else show_int n | _ \<Rightarrow> [])"

definition create_sell_subscription_payment :: "gateway \<Rightarrow> env \<Rightarrow> User \<Rightarrow> string \<Rightarrow> db \<Rightarrow> (exc + json) \<times> db" where
  "create_sell_subscription_payment g e user cadence0 d = (case approved_shop user d of
     Inl ex \<Rightarrow> (Inl ex, d)
   | Inr p \<Rightarrow>
     let cadence = str_lower (strip cadence0) in
     if cadence \<notin> set [''monthly'', ''yearly''] then (Inl (bad_request ''cadence must be monthly or yearly''), d)
     else if \<not> razorpay_configured g
     then (Inl (unavailable (''Razorpay not configured '' @ emdash @ '' ask admin to enable payments'')), d)
     else (case plan_prices d of
       Inl ex \<Rightarrow> (Inl ex, d)
     | Inr (m, y) \<Rightarrow>
       let amount = (if cadence = ''monthly'' then m else y);
           notes = JObj [(''kind'', JStr ''sell_subscription''), (''user_id'', JStr (show_int (u_id user))),
             (''cadence'', JStr cadence), (''amount'', JStr (fmt2 amount)), (''shop_name'', JStr (rp_shop_name p))];
           receipt = take 40 (''sell-'' @ show_int (u_id user) @ ''-'' @ cadence @ ''-''
                        @ show_int (env_now e div us_seconds 1))
       in (case create_payment_link g amount (''SweetCrust sell plan '' @ middot @ '' '' @ cadence @ '' '' @ middot
                   @ '' '' @ rp_shop_name p) receipt None (Some (or_str (rp_contact_phone p) (u_phone user))) None notes of
             Inl ex \<Rightarrow> (Inl ex, d)
           | Inr link \<Rightarrow>
             let link_id = json_text (jget ''payment_link_id'' link) in
             if link_id = [] then (Inl (bad_request ''Could not create Razorpay payment link''), d)
             else let p2 = p\<lparr>rp_sell_rz_pending := Some (link_id @ '':'' @ cadence @ '':'' @ fmt2 amount),
                    rp_sell_subscription_status :=
                      (if sub_status p \<noteq> ''approved'' then ''pending'' else rp_sell_subscription_status p)\<rparr>
                  in (Inr (JObj [(''cadence'', JStr cadence), (''amount'', JFloat amount), (''currency'', JStr ''INR''),
                        (''payment_link_id'', JStr link_id), (''short_url'', jget ''short_url'' link),
                        (''payment_link'', link),
                        (''sell_subscription_status'', JStr (rp_sell_subscription_status p2)),
                        (''message'', JStr ''Pay with Razorpay to activate your sell plan'')]),
                      put_RetailerProfile p2 d))))"

text \<open>\<open>pending.split(":", 2)\<close> into three parts, and the amount read as a float.\<close>

definition split_pending :: "string \<Rightarrow> (string \<times> string \<times> rat) option" where
  "split_pending s =
     (let colon = (\<lambda>c. c \<noteq> CHR '':''); r1 = dropWhile colon s; r2 = dropWhile colon (tl r1)
      in if r1 = [] \<or> r2 = [] then None
         else map_option (\<lambda>x. (takeWhile colon s, takeWhile colon (tl r1), x)) (parse_decimal (tl r2)))"

definition get_payment_link :: "gateway \<Rightarrow> (string \<Rightarrow> int \<times> string \<times> json) \<Rightarrow> string \<Rightarrow> exc + json" where
  "get_payment_link g get_link link_id =
     (if \<not> razorpay_configured g then Inl (unavailable ''Razorpay not configured'')
      else let (st, txt, data) = get_link (''/payment_links/'' @ link_id)
           in if 400 \<le> st then Inl (AppExc (BadGatewayError (Msg (''Razorpay payment link fetch failed: '' @ take 200 txt))))
              else Inr data)"

definition with_status :: "(exc + json) \<times> db \<Rightarrow> (string \<times> json) list \<Rightarrow> (exc + json) \<times> db" where
  "with_status r extra = (case r of (Inl ex, d) \<Rightarrow> (Inl ex, d) | (Inr j, d) \<Rightarrow> (Inr (jmerge j extra), d))"

definition confirm_sell_subscription_payment :: "gateway \<Rightarrow> (string \<Rightarrow> int \<times> string \<times> json) \<Rightarrow> env \<Rightarrow> User \<Rightarrow> db
    \<Rightarrow> (exc + json) \<times> db" where
  "confirm_sell_subscription_payment g get_link e user d = (case approved_shop user d of
     Inl ex \<Rightarrow> (Inl ex, d)
   | Inr p \<Rightarrow>
     let pending = strip (or_str (rp_sell_rz_pending p) []) in
     if pending = []
     then (if rp_sell_subscription_status p = ''approved''
           then with_status (subscription_status g e user d) [(''message'', JStr ''Already active'')]
           else (Inl (bad_request (''No pending sell payment '' @ emdash @ '' start checkout again'')), d))
     else (case split_pending pending of
       None \<Rightarrow> (Inl (bad_request ''Invalid pending payment state''), d)
     | Some (link_id, cadence, amount) \<Rightarrow>
       (case get_payment_link g get_link link_id of
          Inl ex \<Rightarrow> (Inl ex, d)
        | Inr data \<Rightarrow>
          let status = str_lower (json_text (jget ''status'' data)) in
          if status \<noteq> ''paid''
          then with_status (subscription_status g e user d)
                 [(''payment_status'', JStr (if status = [] then ''created'' else status)),
                  (''message'', JStr (''Payment not completed yet '' @ emdash
                     @ '' finish Razorpay checkout, then tap Confirm payment''))]
          else with_status (subscription_status g e user (snd (activate_paid e p cadence amount link_id d)))
                 [(''message'', JStr ''Sell subscription activated''), (''payment_status'', JStr ''paid'')])))"

end
