(* ===== verification/Sell.thy ===== *)
theory Sell
  imports SellPlan OrderLife PurchaseText
begin

text \<open>
  \<open>store_ops_service/app/services/sell.py\<close>, second part: what a selling shop maintains (its
  categories, products, banners and coupons) and its sales.  The request bodies are records of the
  fields of the pydantic models in \<open>app/routes/retailer.py\<close>.  \<open>coll\<close> is the collation of the
  name columns: the database compares and orders names by it.  Lengths count characters, the bytes
  of a string that start a UTF-8 sequence.
\<close>

section \<open>Text\<close>

text \<open>\<open>while slug is taken: slug = f"{base}-{i}"; i += 1\<close>\<close>

definition numbered :: "string \<Rightarrow> nat \<Rightarrow> string" where
  "numbered base i = base @ ''-'' @ show_nat i"

lemma show_nat_inj: "show_nat a = show_nat b \<Longrightarrow> a = b"
  by (metis digits_value_show of_nat_eq_iff)

lemma numbered_inj: "numbered base a = numbered base b \<Longrightarrow> a = b"
  by (simp add: numbered_def show_nat_inj)

lemma numbered_taken_finite: "finite {j. i \<le> j \<and> numbered base j \<in> set taken}"
proof -
  have "finite (numbered base -` set taken)"
    by (rule finite_vimageI) (auto intro: injI numbered_inj)
  then show ?thesis by (rule rev_finite_subset) auto
qed

function fresh_slug :: "string list \<Rightarrow> string \<Rightarrow> string \<Rightarrow> nat \<Rightarrow> string" where
  "fresh_slug taken base slug i =
     (if slug \<in> set taken then fresh_slug taken base (numbered base i) (i + 1) else slug)"
  by pat_completeness auto

termination
proof (relation "measure (\<lambda>(taken, base, slug, i).
     card {j. i \<le> j \<and> numbered base j \<in> set taken} + of_bool (slug \<in> set taken))")
  show "wf (measure (\<lambda>(taken, base, slug, i).
     card {j. i \<le> j \<and> numbered base j \<in> set taken} + of_bool (slug \<in> set taken)))" by simp
next
  fix taken :: "string list" and base slug :: string and i :: nat
  assume s: "slug \<in> set taken"
  let ?A = "{j. i \<le> j \<and> numbered base j \<in> set taken}"
  let ?B = "{j. i + 1 \<le> j \<and> numbered base j \<in> set taken}"
  have eq: "?A = (if numbered base i \<in> set taken then insert i ?B else ?B)"
    by (auto simp: Suc_le_eq le_less)
  have "card ?A = card ?B + of_bool (numbered base i \<in> set taken)"
    unfolding eq using numbered_taken_finite [of "i + 1" base taken] by simp
  then show "((taken, base, numbered base i, i + 1), taken, base, slug, i) \<in> measure (\<lambda>(taken, base, slug, i).
     card {j. i \<le> j \<and> numbered base j \<in> set taken} + of_bool (slug \<in> set taken))"
    using s by simp
qed

declare fresh_slug.simps [simp del]

text \<open>\<open>json.dumps\<close> of a text: the escapes of an ASCII-only encoder.\<close>

fun utf8_points :: "string \<Rightarrow> nat list" where
  "utf8_points [] = []"
| "utf8_points [a] = [char_code a]"
| "utf8_points [a, b] = (if 192 \<le> char_code a \<and> char_code a < 224
     then [(char_code a - 192) * 64 + (char_code b - 128)] else char_code a # utf8_points [b])"
| "utf8_points [a, b, c] =
     (if 224 \<le> char_code a then [(char_code a - 224) * 4096 + (char_code b - 128) * 64 + (char_code c - 128)]
      else if 192 \<le> char_code a then ((char_code a - 192) * 64 + (char_code b - 128)) # utf8_points [c]
      else char_code a # utf8_points [b, c])"
| "utf8_points (a # b # c # d # cs) =
     (if 240 \<le> char_code a
      then ((char_code a - 240) * 262144 + (char_code b - 128) * 4096 + (char_code c - 128) * 64 + (char_code d - 128))
             # utf8_points cs
      else if 224 \<le> char_code a
      then ((char_code a - 224) * 4096 + (char_code b - 128) * 64 + (char_code c - 128)) # utf8_points (d # cs)
      else if 192 \<le> char_code a then ((char_code a - 192) * 64 + (char_code b - 128)) # utf8_points (c # d # cs)
      else char_code a # utf8_points (b # c # d # cs))"

definition hex_digit :: "nat \<Rightarrow> char" where
  "hex_digit n = char_of (if n < 10 then 48 + n else 87 + n)"

definition u_escape :: "nat \<Rightarrow> string" where
  "u_escape n = [CHR 0x5C, CHR ''u'', hex_digit (n div 4096 mod 16), hex_digit (n div 256 mod 16),
     hex_digit (n div 16 mod 16), hex_digit (n mod 16)]"

definition escape_point :: "nat \<Rightarrow> string" where
  "escape_point n =
     (if n = 34 \<or> n = 92 then [CHR 0x5C, char_of n]
      else if n = 10 then [CHR 0x5C, CHR ''n''] else if n = 13 then [CHR 0x5C, CHR ''r'']
      else if n = 9 then [CHR 0x5C, CHR ''t''] else if n = 8 then [CHR 0x5C, CHR ''b'']
      else if n = 12 then [CHR 0x5C, CHR ''f'']
      else if 32 \<le> n \<and> n \<le> 126 then [char_of n]
      else if n < 65536 then u_escape n
      else u_escape (55296 + (n - 65536) div 1024) @ u_escape (56320 + (n - 65536) mod 1024))"

definition json_quote :: "string \<Rightarrow> string" where
  "json_quote s = [CHR 0x22] @ concat (map escape_point (utf8_points s)) @ [CHR 0x22]"

section \<open>Categories\<close>

definition top_categories :: "(string \<Rightarrow> 'k::linorder) \<Rightarrow> (Category \<Rightarrow> bool) \<Rightarrow> db \<Rightarrow> Category list" where
  "top_categories coll P d =
     sort_key cat_display_order (sort_key (\<lambda>c. coll (cat_name c)) (t_all (\<lambda>c. cat_is_active c \<and> P c) (categories d)))"

definition category_row :: "string \<Rightarrow> int option \<Rightarrow> int option \<Rightarrow> Category \<Rightarrow> json" where
  "category_row kind parent owner c = JObj [(''id'', JInt (cat_id c)), (''name'', JStr (cat_name c)),
     (''slug'', JStr (cat_slug c)), (''parent_id'', jopt_int parent), (''owner_user_id'', jopt_int owner),
     (''kind'', JStr kind)]"

definition list_categories :: "(string \<Rightarrow> 'k::linorder) \<Rightarrow> User \<Rightarrow> db \<Rightarrow> exc + json list" where
  "list_categories coll user d = (case approved_shop user d of
     Inl ex \<Rightarrow> Inl ex
   | Inr _ \<Rightarrow>
       let platform = top_categories coll (\<lambda>c. cat_parent_id c = None \<and> cat_owner_user_id c = None) d;
           mine = top_categories coll (\<lambda>c. cat_owner_user_id c = Some (u_id user) \<and> cat_parent_id c = None) d;
           subs = top_categories coll (\<lambda>c. cat_owner_user_id c = Some (u_id user) \<and> cat_parent_id c \<noteq> None) d
       in Inr (map (\<lambda>c. category_row ''shop'' None (cat_owner_user_id c) c) mine
             @ map (category_row ''admin'' None None) platform
             @ map (\<lambda>c. category_row ''sub'' (cat_parent_id c) (cat_owner_user_id c) c) subs))"

definition category_slugs :: "db \<Rightarrow> string list" where
  "category_slugs d = map cat_slug (rows (categories d))"

definition create_category :: "(string \<Rightarrow> 'k::linorder) \<Rightarrow> env \<Rightarrow> User \<Rightarrow> string \<Rightarrow> string option \<Rightarrow> string option \<Rightarrow> db
    \<Rightarrow> (exc + Category) \<times> db" where
  "create_category coll e user name0 description image_url d = (case selling_shop e user d of
     (Inl ex, d1) \<Rightarrow> (Inl ex, d1)
   | (Inr profile, d1) \<Rightarrow>
     let name = strip name0 in
     if name = [] then (Inl (bad_request ''Category name is required''), d1)
     else if py_len name < 2 then (Inl (bad_request ''Name must be at least 2 characters''), d1)
     else if 120 < py_len name then (Inl (bad_request ''Name is too long''), d1)
     else if t_first (\<lambda>c. cat_owner_user_id c = Some (u_id user) \<and> cat_parent_id c = None
               \<and> coll (cat_name c) = coll name \<and> cat_is_active c) (categories d1) \<noteq> None
     then (Inl (bad_request ''You already have this category''), d1)
     else (case t_first (\<lambda>c. cat_is_active c \<and> cat_parent_id c = None \<and> cat_owner_user_id c = None
               \<and> str_lower (strip (cat_name c)) = str_lower name) (categories d1) of
       Some clash \<Rightarrow> (Inl (bad_request (map char_of [226, 128, 156 :: nat] @ cat_name clash
           @ map char_of [226, 128, 157 :: nat] @ '' is already a platform category. Choose a different name.'')), d1)
     | None \<Rightarrow>
       let base = or_str (Some (slugify (rp_shop_name profile @ ''-'' @ name))) ''cat'';
           cat = (new_Category (env_now e) name (fresh_slug (category_slugs d1) base base 1))
             \<lparr>cat_description := description, cat_image_url := image_url, cat_owner_user_id := Some (u_id user)\<rparr>
       in (Inr (key_Category cat d1), add_Category cat d1)))"

section \<open>Products\<close>

record ShopProductIn =
  spi_category_id :: int
  spi_name :: string
  spi_selling_price :: rat
  spi_customer_price :: "rat option"
  spi_shop_price :: "rat option"
  spi_purchase_cost :: "rat option"
  spi_stock_qty :: int
  spi_short_description :: "string option"
  spi_description :: "string option"
  spi_weight :: "string option"
  spi_unit_label :: "string option"
  spi_cover_image_url :: "string option"
  spi_is_active :: bool

definition list_my_products :: "env \<Rightarrow> User \<Rightarrow> db \<Rightarrow> (exc + Product list) \<times> db" where
  "list_my_products e user d = (case selling_shop e user d of
     (Inl ex, d1) \<Rightarrow> (Inl ex, d1)
   | (Inr _, d1) \<Rightarrow> (Inr (sort_key (\<lambda>p. - p_updated_at p)
        (t_all (\<lambda>p. p_supplier_user_id p = Some (u_id user) \<and> p_is_active p) (products d1))), d1))"

text \<open>The checks of a category a product is put in: it exists and is not another shop's.\<close>

definition check_category :: "User \<Rightarrow> int \<Rightarrow> db \<Rightarrow> exc + unit" where
  "check_category user cid d =
     (if cid \<le> 0 then Inl (bad_request ''Category is required'')
      else (case get_Category d cid of
        None \<Rightarrow> Inl (bad_request ''Valid category is required'')
      | Some cat \<Rightarrow> if truthy_id (cat_owner_user_id cat) \<and> cat_owner_user_id cat \<noteq> Some (u_id user)
                   then Inl (forbidden ''Category not yours'') else Inr ()))"

definition check_name :: "string \<Rightarrow> exc + unit" where
  "check_name name =
     (if name = [] then Inl (bad_request ''Product name is required'')
      else if py_len name < 2 then Inl (bad_request ''Product name must be at least 2 characters'')
      else Inr ())"

definition product_slugs :: "db \<Rightarrow> string list" where
  "product_slugs d = map p_slug (rows (products d))"

definition check_texts :: "ShopProductIn \<Rightarrow> rat \<Rightarrow> exc + unit" where
  "check_texts b selling =
     (if selling \<le> 0 then Inl (bad_request ''Price must be greater than 0'')
      else if spi_stock_qty b < 0 then Inl (bad_request ''Stock must be 0 or more'')
      else if 300 < py_len (or_str (spi_short_description b) []) then Inl (bad_request ''Short description is too long'')
      else if 4000 < py_len (or_str (spi_description b) []) then Inl (bad_request ''Details are too long'')
      else Inr ())"

definition shop_product_row :: "env \<Rightarrow> User \<Rightarrow> RetailerProfile \<Rightarrow> string \<Rightarrow> rat \<Rightarrow> ShopProductIn \<Rightarrow> db \<Rightarrow> Product" where
  "shop_product_row e user profile name selling b d =
     (let base = or_str (Some (slugify name)) ''product''
      in (new_Product (env_now e) (spi_category_id b) name (fresh_slug (product_slugs d) base base 1))
           \<lparr>p_brand_name := Some (rp_shop_name profile), p_supplier_user_id := Some (u_id user),
            p_short_description := spi_short_description b, p_description := spi_description b,
            p_weight := spi_weight b, p_unit_label := normalize_unit (spi_unit_label b),
            p_selling_price := selling,
            p_customer_price := Some (case spi_customer_price b of Some c \<Rightarrow> c | None \<Rightarrow> selling),
            p_shop_price := spi_shop_price b, p_purchase_cost := spi_purchase_cost b,
            p_stock_qty := spi_stock_qty b,
            p_stock_status := to_stock_status (stock_status_for (spi_stock_qty b) 5),
            p_cover_image_url := spi_cover_image_url b, p_is_draft := False, p_is_active := spi_is_active b\<rparr>)"

definition create_my_product :: "env \<Rightarrow> User \<Rightarrow> ShopProductIn \<Rightarrow> db \<Rightarrow> (exc + Product) \<times> db" where
  "create_my_product e user b d = (case selling_shop e user d of
     (Inl ex, d1) \<Rightarrow> (Inl ex, d1)
   | (Inr profile, d1) \<Rightarrow>
     let name = strip (spi_name b) in
     (case check_name name of
        Inl ex \<Rightarrow> (Inl ex, d1)
      | Inr _ \<Rightarrow>
        if 160 < py_len name then (Inl (bad_request ''Product name is too long''), d1)
        else (case check_category user (spi_category_id b) d1 of
          Inl ex \<Rightarrow> (Inl ex, d1)
        | Inr _ \<Rightarrow>
          let selling = (if spi_selling_price b \<noteq> 0 then spi_selling_price b else or_zero (spi_customer_price b))
          in (case check_texts b selling of
            Inl ex \<Rightarrow> (Inl ex, d1)
          | Inr _ \<Rightarrow> let p = shop_product_row e user profile name selling b d1
                     in (Inr (key_Product p d1), add_Product p d1)))))"

record ShopProductPatchIn =
  spp_category_id :: "int option"
  spp_name :: "string option"
  spp_selling_price :: "rat option"
  spp_customer_price :: "rat option"
  spp_shop_price :: "rat option"
  spp_purchase_cost :: "rat option"
  spp_stock_qty :: "int option"
  spp_short_description :: "string option"
  spp_description :: "string option"
  spp_weight :: "string option"
  spp_unit_label :: "string option"
  spp_cover_image_url :: "string option"
  spp_is_active :: "bool option"
  spp_is_draft :: "bool option"

text \<open>A field that is given replaces the old value; \<open>None\<close> leaves it.\<close>

definition upd :: "'a option \<Rightarrow> 'a \<Rightarrow> 'a" where
  "upd x old = (case x of Some v \<Rightarrow> v | None \<Rightarrow> old)"

definition upd_opt :: "'a option \<Rightarrow> 'a option \<Rightarrow> 'a option" where
  "upd_opt x old = (case x of Some v \<Rightarrow> Some v | None \<Rightarrow> old)"

definition check_patch :: "User \<Rightarrow> ShopProductPatchIn \<Rightarrow> db \<Rightarrow> exc + unit" where
  "check_patch user b d =
     (case (case spp_name b of None \<Rightarrow> Inr () | Some n \<Rightarrow> check_name (strip n)) of
        Inl ex \<Rightarrow> Inl ex
      | Inr _ \<Rightarrow>
        (case (case spp_category_id b of None \<Rightarrow> Inr () | Some c \<Rightarrow> check_category user c d) of
           Inl ex \<Rightarrow> Inl ex
         | Inr _ \<Rightarrow>
             if (case spp_selling_price b of None \<Rightarrow> False | Some x \<Rightarrow> x \<le> 0)
             then Inl (bad_request ''Price must be greater than 0'')
             else if (case spp_stock_qty b of None \<Rightarrow> False | Some n \<Rightarrow> n < 0)
             then Inl (bad_request ''Stock must be 0 or more'') else Inr ()))"

definition patch_product_row :: "env \<Rightarrow> ShopProductPatchIn \<Rightarrow> Product \<Rightarrow> Product" where
  "patch_product_row e b p = p
     \<lparr>p_category_id := upd (spp_category_id b) (p_category_id p),
      p_name := upd (map_option strip (spp_name b)) (p_name p),
      p_short_description := upd_opt (spp_short_description b) (p_short_description p),
      p_description := upd_opt (spp_description b) (p_description p),
      p_weight := upd_opt (spp_weight b) (p_weight p),
      p_unit_label := upd (map_option (\<lambda>u. normalize_unit (Some u)) (spp_unit_label b)) (p_unit_label p),
      p_selling_price := upd (spp_selling_price b) (p_selling_price p),
      p_customer_price := upd_opt (spp_customer_price b) (p_customer_price p),
      p_shop_price := upd_opt (spp_shop_price b) (p_shop_price p),
      p_purchase_cost := upd_opt (spp_purchase_cost b) (p_purchase_cost p),
      p_stock_qty := upd (spp_stock_qty b) (p_stock_qty p),
      p_stock_status := (case spp_stock_qty b of None \<Rightarrow> p_stock_status p
         | Some n \<Rightarrow> to_stock_status (stock_status_for n 5)),
      p_cover_image_url := upd_opt (spp_cover_image_url b) (p_cover_image_url p),
      p_is_active := upd (spp_is_active b) (p_is_active p),
      p_is_draft := upd (spp_is_draft b) (p_is_draft p),
      p_updated_at := env_now e\<rparr>"

definition own_product :: "db \<Rightarrow> User \<Rightarrow> int \<Rightarrow> Product option" where
  "own_product d user product_id = (case get_Product d product_id of
     Some p \<Rightarrow> if p_supplier_user_id p = Some (u_id user) then Some p else None | None \<Rightarrow> None)"

definition sell_patch_product :: "env \<Rightarrow> User \<Rightarrow> int \<Rightarrow> ShopProductPatchIn \<Rightarrow> db \<Rightarrow> (exc + Product) \<times> db" where
  "sell_patch_product e user product_id b d = (case selling_shop e user d of
     (Inl ex, d1) \<Rightarrow> (Inl ex, d1)
   | (Inr _, d1) \<Rightarrow> (case own_product d1 user product_id of
       None \<Rightarrow> (Inl (not_found ''Product not found''), d1)
     | Some p \<Rightarrow> (case check_patch user b d1 of
         Inl ex \<Rightarrow> (Inl ex, d1)
       | Inr _ \<Rightarrow> (Inr (patch_product_row e b p), put_Product (patch_product_row e b p) d1))))"

definition delete_my_product :: "env \<Rightarrow> User \<Rightarrow> int \<Rightarrow> db \<Rightarrow> (exc + json) \<times> db" where
  "delete_my_product e user product_id d = (case selling_shop e user d of
     (Inl ex, d1) \<Rightarrow> (Inl ex, d1)
   | (Inr _, d1) \<Rightarrow> (case own_product d1 user product_id of
       None \<Rightarrow> (Inl (not_found ''Product not found''), d1)
     | Some p \<Rightarrow> (Inr (JObj [(''ok'', JBool True), (''id'', JInt product_id), (''deleted'', JBool True)]),
                 put_Product (p\<lparr>p_is_active := False, p_is_draft := True, p_updated_at := env_now e\<rparr>) d1)))"

end
