(* ===== verification/Sales.thy ===== *)
theory Sales
  imports Sell
begin

text \<open>
  \<open>store_ops_service/app/services/sell.py\<close>, third part: banners, coupons and the sales of a shop, and
  the administrator's view of them.
\<close>

section \<open>Banners\<close>

record ShopBannerIn =
  sbi_title :: string
  sbi_image_url :: "string option"
  sbi_theme_color :: "string option"
  sbi_subtitle :: "string option"
  sbi_link_type :: "string option"
  sbi_link_value :: "string option"
  sbi_is_active :: bool
  sbi_sort_order :: int

text \<open>\<open>ORDER BY sort_order, id DESC\<close>\<close>

definition shop_banners :: "db \<Rightarrow> int \<Rightarrow> Banner list" where
  "shop_banners d uid = sort_key bn_sort_order (rev (t_all (\<lambda>b. bn_shop_user_id b = Some uid) (banners d)))"

definition list_banners :: "env \<Rightarrow> User \<Rightarrow> db \<Rightarrow> (exc + Banner list) \<times> db" where
  "list_banners e user d = (case selling_shop e user d of
     (Inl ex, d1) \<Rightarrow> (Inl ex, d1) | (Inr _, d1) \<Rightarrow> (Inr (shop_banners d1 (u_id user)), d1))"

definition banner_image :: "string \<Rightarrow> string \<Rightarrow> string" where
  "banner_image image_url theme =
     (if image_url = [] \<and> theme \<noteq> []
      then let th = (if \<not> starts_with ''#'' theme \<and> \<not> starts_with ''theme:'' theme then ''#'' @ theme else theme)
           in if starts_with ''theme:'' th then th else ''theme:'' @ th
      else image_url)"

definition opt_text :: "string \<Rightarrow> string option" where
  "opt_text s = (if s = [] then None else Some s)"

definition banner_links :: "string list" where
  "banner_links = [''shop'', ''order'', ''coupon'', ''url'', ''none'']"

definition create_banner :: "env \<Rightarrow> User \<Rightarrow> ShopBannerIn \<Rightarrow> db \<Rightarrow> (exc + Banner) \<times> db" where
  "create_banner e user b d = (case selling_shop e user d of
     (Inl ex, d1) \<Rightarrow> (Inl ex, d1)
   | (Inr _, d1) \<Rightarrow>
     let title = strip (sbi_title b);
         image = banner_image (strip (or_str (sbi_image_url b) [])) (strip (or_str (sbi_theme_color b) []));
         lt = opt_text (str_lower (strip (or_str (sbi_link_type b) [])));
         lv = opt_text (strip (or_str (sbi_link_value b) []))
     in if title = [] then (Inl (bad_request ''Banner title is required''), d1)
        else if image = [] then (Inl (bad_request ''Upload an image or pick a theme color''), d1)
        else if lt \<noteq> None \<and> the lt \<notin> set banner_links then (Inl (bad_request ''Invalid banner action''), d1)
        else let lt2 = (if lt = Some ''none'' then None else lt); lv2 = (if lt = Some ''none'' then None else lv)
        in if lt2 = Some ''coupon'' \<and> lv2 = None
           then (Inl (bad_request ''Pick a coupon / offer code for this banner''), d1)
           else if lt2 = Some ''url'' \<and> lv2 = None
           then (Inl (bad_request ''Enter a link URL for this banner''), d1)
           else let bn = (new_Banner (env_now e) title image)
                  \<lparr>bn_subtitle := sbi_subtitle b, bn_link_type := lt2, bn_link_value := lv2,
                   bn_is_active := sbi_is_active b, bn_sort_order := sbi_sort_order b,
                   bn_shop_user_id := Some (u_id user)\<rparr>
                in (Inr (key_Banner bn d1), add_Banner bn d1))"

record ShopBannerPatchIn =
  sbp_title :: "string option"
  sbp_image_url :: "string option"
  sbp_subtitle :: "string option"
  sbp_link_type :: "string option"
  sbp_link_value :: "string option"
  sbp_is_active :: "bool option"
  sbp_sort_order :: "int option"

definition own_banner :: "db \<Rightarrow> int \<Rightarrow> int \<Rightarrow> Banner option" where
  "own_banner d uid banner_id = (case get_Banner d banner_id of
     Some b \<Rightarrow> if bn_shop_user_id b = Some uid then Some b else None | None \<Rightarrow> None)"

definition patch_banner_row :: "ShopBannerPatchIn \<Rightarrow> Banner \<Rightarrow> Banner" where
  "patch_banner_row b r = r
     \<lparr>bn_title := upd (sbp_title b) (bn_title r), bn_subtitle := upd_opt (sbp_subtitle b) (bn_subtitle r),
      bn_image_url := upd (sbp_image_url b) (bn_image_url r),
      bn_link_type := upd_opt (sbp_link_type b) (bn_link_type r),
      bn_link_value := upd_opt (sbp_link_value b) (bn_link_value r),
      bn_is_active := upd (sbp_is_active b) (bn_is_active r),
      bn_sort_order := upd (sbp_sort_order b) (bn_sort_order r)\<rparr>"

definition patch_banner :: "env \<Rightarrow> User \<Rightarrow> int \<Rightarrow> ShopBannerPatchIn \<Rightarrow> db \<Rightarrow> (exc + Banner) \<times> db" where
  "patch_banner e user banner_id b d = (case selling_shop e user d of
     (Inl ex, d1) \<Rightarrow> (Inl ex, d1)
   | (Inr _, d1) \<Rightarrow> (case own_banner d1 (u_id user) banner_id of
       None \<Rightarrow> (Inl (not_found ''Banner not found''), d1)
     | Some r \<Rightarrow> (Inr (patch_banner_row b r), put_Banner (patch_banner_row b r) d1)))"

section \<open>Coupons\<close>

record ShopCouponIn =
  sci_code :: string
  sci_title :: string
  sci_description :: "string option"
  sci_coupon_type :: string
  sci_value :: rat
  sci_min_order_amount :: rat
  sci_max_discount :: "rat option"
  sci_usage_limit :: "int option"
  sci_is_active :: bool
  sci_theme_color :: "string option"
  sci_link_action :: "string option"

definition shop_coupons :: "db \<Rightarrow> int \<Rightarrow> Coupon list" where
  "shop_coupons d uid = sort_key (\<lambda>c. - cp_created_at c) (t_all (\<lambda>c. cp_shop_user_id c = Some uid) (coupons d))"

definition list_coupons :: "env \<Rightarrow> User \<Rightarrow> db \<Rightarrow> (exc + Coupon list) \<times> db" where
  "list_coupons e user d = (case selling_shop e user d of
     (Inl ex, d1) \<Rightarrow> (Inl ex, d1) | (Inr _, d1) \<Rightarrow> (Inr (shop_coupons d1 (u_id user)), d1))"

definition coupon_action :: "string \<Rightarrow> string" where
  "coupon_action a = (if a \<in> set [''shop'', ''order'', ''none''] then a else ''apply'')"

definition pack_coupon_description :: "ShopCouponIn \<Rightarrow> string option" where
  "pack_coupon_description b =
     (let txt = strip (or_str (sci_description b) []);
          theme = strip (or_str (sci_theme_color b) []);
          action = coupon_action (str_lower (strip (or_str (sci_link_action b) [])))
      in if theme = [] \<and> txt = [] \<and> action = ''apply'' then None
         else Some (''{'' @ json_quote ''t'' @ '':'' @ (if theme = [] then ''null'' else json_quote theme)
                @ '','' @ json_quote ''a'' @ '':'' @ json_quote action
                @ '','' @ json_quote ''d'' @ '':'' @ json_quote txt @ ''}''))"

definition create_coupon :: "env \<Rightarrow> User \<Rightarrow> ShopCouponIn \<Rightarrow> db \<Rightarrow> (exc + Coupon) \<times> db" where
  "create_coupon e user b d = (case selling_shop e user d of
     (Inl ex, d1) \<Rightarrow> (Inl ex, d1)
   | (Inr _, d1) \<Rightarrow>
     let cde = str_upper (strip (sci_code b)); title = strip (sci_title b);
         ctype = str_lower (strip (if sci_coupon_type b = [] then ''percentage'' else sci_coupon_type b));
         val = sci_value b
     in if cde = [] \<or> title = [] then (Inl (bad_request ''code and title required''), d1)
        else if py_len cde < 3 then (Inl (bad_request ''Code must be at least 3 characters''), d1)
        else if t_first (\<lambda>c. cp_code c = cde) (coupons d1) \<noteq> None
        then (Inl (bad_request ''Coupon code already exists''), d1)
        else if ctype \<notin> set [''percentage'', ''flat'']
        then (Inl (bad_request ''coupon_type must be percentage or flat''), d1)
        else if val \<le> 0 then (Inl (bad_request ''Offer value must be greater than 0''), d1)
        else if ctype = ''percentage'' \<and> 100 < val
        then (Inl (bad_request ''Percentage cannot exceed 100''), d1)
        else let c = (new_Coupon (env_now e) cde title)
               \<lparr>cp_description := pack_coupon_description b, cp_coupon_type := ctype, cp_value := val,
                cp_min_order_amount := sci_min_order_amount b, cp_max_discount := sci_max_discount b,
                cp_usage_limit := sci_usage_limit b, cp_is_active := sci_is_active b,
                cp_shop_user_id := Some (u_id user)\<rparr>
             in (Inr (key_Coupon c d1), add_Coupon c d1))"

record ShopCouponPatchIn =
  scp_title :: "string option"
  scp_description :: "string option"
  scp_coupon_type :: "string option"
  scp_value :: "rat option"
  scp_min_order_amount :: "rat option"
  scp_max_discount :: "rat option"
  scp_usage_limit :: "int option"
  scp_is_active :: "bool option"

definition own_coupon :: "db \<Rightarrow> int \<Rightarrow> int \<Rightarrow> Coupon option" where
  "own_coupon d uid coupon_id = (case get_Coupon d coupon_id of
     Some c \<Rightarrow> if cp_shop_user_id c = Some uid then Some c else None | None \<Rightarrow> None)"

definition patch_coupon_row :: "ShopCouponPatchIn \<Rightarrow> Coupon \<Rightarrow> Coupon" where
  "patch_coupon_row b c = c
     \<lparr>cp_title := upd (scp_title b) (cp_title c), cp_description := upd_opt (scp_description b) (cp_description c),
      cp_coupon_type := upd (scp_coupon_type b) (cp_coupon_type c), cp_value := upd (scp_value b) (cp_value c),
      cp_min_order_amount := upd (scp_min_order_amount b) (cp_min_order_amount c),
      cp_max_discount := upd_opt (scp_max_discount b) (cp_max_discount c),
      cp_usage_limit := upd_opt (scp_usage_limit b) (cp_usage_limit c),
      cp_is_active := upd (scp_is_active b) (cp_is_active c)\<rparr>"

definition patch_coupon :: "env \<Rightarrow> User \<Rightarrow> int \<Rightarrow> ShopCouponPatchIn \<Rightarrow> db \<Rightarrow> (exc + Coupon) \<times> db" where
  "patch_coupon e user coupon_id b d = (case selling_shop e user d of
     (Inl ex, d1) \<Rightarrow> (Inl ex, d1)
   | (Inr _, d1) \<Rightarrow> (case own_coupon d1 (u_id user) coupon_id of
       None \<Rightarrow> (Inl (not_found ''Coupon not found''), d1)
     | Some c \<Rightarrow> (Inr (patch_coupon_row b c), put_Coupon (patch_coupon_row b c) d1)))"

section \<open>Sales\<close>

definition SALE_STEPS :: "string list" where
  "SALE_STEPS = [''placed'', ''accepted'', ''preparing'', ''packed'', ''out_for_delivery'', ''delivered'']"

fun index_of :: "'a list \<Rightarrow> 'a \<Rightarrow> int option" where
  "index_of [] x = None"
| "index_of (y # ys) x = (if y = x then Some 0 else map_option ((+) 1) (index_of ys x))"

definition json_or :: "json \<Rightarrow> json \<Rightarrow> json" where
  "json_or a b = (case a of JNull \<Rightarrow> b | JStr s \<Rightarrow> if s = [] then b else a | _ \<Rightarrow> a)"

definition sale_line :: "OrderItem \<Rightarrow> json" where
  "sale_line i = JObj [(''product_id'', JInt (oi_product_id i)), (''product_name'', JStr (oi_product_name i)),
     (''product_image'', jopt_str (oi_product_image i)), (''qty'', JInt (oi_quantity i)),
     (''unit_price'', JFloat (oi_unit_price i)), (''line_total'', JFloat (oi_total_price i)),
     (''variant'', jopt_str (oi_variant i))]"

definition sale_item :: "OrderItem \<Rightarrow> json" where
  "sale_item i = JObj [(''product_name'', JStr (oi_product_name i)), (''quantity'', JInt (oi_quantity i)),
     (''unit_price'', JFloat (oi_unit_price i)), (''total_price'', JFloat (oi_total_price i))]"

definition sale_dict :: "db \<Rightarrow> Order \<Rightarrow> json" where
  "sale_dict d ord =
     (let its = items_of d (o_id ord); addr = jor_obj (o_address_snapshot ord);
          status = OrderStatus_value (o_status ord)
      in JObj [(''id'', JInt (o_id ord)), (''order_id'', JInt (o_id ord)), (''order_number'', JStr (o_order_number ord)),
        (''status'', JStr status), (''payment_status'', JStr (PaymentStatus_value (o_payment_status ord))),
        (''payment_method'', jopt_str (map_option PaymentMethod_value (o_payment_method ord))),
        (''subtotal'', JFloat (o_subtotal ord)), (''gst_amount'', JFloat (o_gst_amount ord)),
        (''delivery_fee'', JFloat (o_delivery_fee ord)), (''discount'', JFloat (o_discount ord)),
        (''final_amount'', JFloat (o_final_amount ord)), (''paid_amount'', JFloat (o_paid_amount ord)),
        (''customer_phone'', json_or (jopt_str (o_customer_phone ord)) (jget ''phone'' addr)),
        (''customer_name'', json_or (jget ''full_name'' addr) (json_or (jget ''name'' addr) (JStr ''Customer''))),
        (''address'', addr), (''delivery_slot'', jopt_str (o_delivery_slot ord)),
        (''created_at'', JStr (isoformat (o_created_at ord))), (''updated_at'', JStr (isoformat (o_updated_at ord))),
        (''step_index'', JInt (case index_of SALE_STEPS status of Some i \<Rightarrow> i | None \<Rightarrow> - 1)),
        (''steps'', JArr (map JStr SALE_STEPS)),
        (''lines'', JArr (map sale_line its)),
        (''order'', JObj [(''id'', JInt (o_id ord)), (''order_number'', JStr (o_order_number ord)),
           (''status'', JStr status), (''final_amount'', JFloat (o_final_amount ord)),
           (''created_at'', JStr (isoformat (o_created_at ord)))]),
        (''items'', JArr (map sale_item its))])"

definition shop_sales :: "db \<Rightarrow> int \<Rightarrow> Order list" where
  "shop_sales d uid = sort_key (\<lambda>r. - o_created_at r) (t_all (\<lambda>r. o_shop_user_id r = Some uid) (orders d))"

definition list_sales_orders :: "env \<Rightarrow> User \<Rightarrow> db \<Rightarrow> (exc + json list) \<times> db" where
  "list_sales_orders e user d = (case selling_shop e user d of
     (Inl ex, d1) \<Rightarrow> (Inl ex, d1)
   | (Inr _, d1) \<Rightarrow> (Inr (map (sale_dict d1) (take 100 (shop_sales d1 (u_id user)))), d1))"

record shop_catalog =
  sc_shop_user_id :: int
  sc_shop_name :: string
  sc_products :: "Product list"
  sc_banners :: "Banner list"
  sc_coupons :: "Coupon list"
  sc_sales :: "json list"
  sc_counts :: "nat \<times> nat \<times> nat \<times> nat \<times> nat"

definition admin_shop_catalog :: "db \<Rightarrow> int \<Rightarrow> exc + shop_catalog" where
  "admin_shop_catalog d uid = (case profile_of d uid of
     None \<Rightarrow> Inl (not_found ''Shop not found'')
   | Some profile \<Rightarrow>
       let ps = sort_key (\<lambda>p. - p_updated_at p) (t_all (\<lambda>p. p_supplier_user_id p = Some uid) (products d));
           sales = take 50 (shop_sales d uid)
       in Inr \<lparr>sc_shop_user_id = uid, sc_shop_name = rp_shop_name profile, sc_products = ps,
             sc_banners = shop_banners d uid, sc_coupons = shop_coupons d uid,
             sc_sales = map (sale_dict d) sales,
             sc_counts = (length ps, length (filter p_is_active ps), length (shop_banners d uid),
                          length (shop_coupons d uid), length sales)\<rparr>)"

definition admin_set_shop_banner_active :: "int \<Rightarrow> int \<Rightarrow> bool \<Rightarrow> db \<Rightarrow> (exc + Banner) \<times> db" where
  "admin_set_shop_banner_active banner_id uid active d = (case own_banner d uid banner_id of
     None \<Rightarrow> (Inl (not_found ''Banner not found''), d)
   | Some b \<Rightarrow> (Inr (b\<lparr>bn_is_active := active\<rparr>), put_Banner (b\<lparr>bn_is_active := active\<rparr>) d))"

definition admin_set_shop_coupon_active :: "int \<Rightarrow> int \<Rightarrow> bool \<Rightarrow> db \<Rightarrow> (exc + Coupon) \<times> db" where
  "admin_set_shop_coupon_active coupon_id uid active d = (case own_coupon d uid coupon_id of
     None \<Rightarrow> (Inl (not_found ''Offer not found''), d)
   | Some c \<Rightarrow> (Inr (c\<lparr>cp_is_active := active\<rparr>), put_Coupon (c\<lparr>cp_is_active := active\<rparr>) d))"

definition SHOP_STATUSES :: "OrderStatus list" where
  "SHOP_STATUSES = [OS_PLACED, OS_ACCEPTED, OS_REJECTED, OS_PREPARING, OS_PACKED, OS_OUT_FOR_DELIVERY,
     OS_DELIVERED, OS_CANCELLED]"

definition set_sale_status :: "env \<Rightarrow> OrderStatus \<Rightarrow> string option \<Rightarrow> Order \<Rightarrow> Order" where
  "set_sale_status e st note ord =
     (let o1 = ord\<lparr>o_status := st, o_updated_at := env_now e\<rparr>;
          o2 = (if st = OS_DELIVERED then o1\<lparr>o_delivered_at := Some (env_now e)\<rparr> else o1)
      in if st = OS_CANCELLED then o2\<lparr>o_cancelled_at := Some (env_now e), o_cancel_reason := note\<rparr> else o2)"

definition sale_history :: "env \<Rightarrow> User \<Rightarrow> Order \<Rightarrow> OrderStatus \<Rightarrow> string option \<Rightarrow> OrderStatusHistory" where
  "sale_history e user ord st note = (new_OrderStatusHistory (env_now e) (o_id ord) st)
     \<lparr>h_note := Some (or_str note (''Shop updated to '' @ OrderStatus_value st)), h_created_by := Some (u_id user)\<rparr>"

definition sale_ping :: "env \<Rightarrow> Order \<Rightarrow> OrderStatus \<Rightarrow> Notification" where
  "sale_ping e ord st = (new_Notification (env_now e) (o_user_id ord) (''Order '' @ o_order_number ord)
       (''Status updated to '' @ replace_char (CHR ''_'') (CHR '' '') (OrderStatus_value st)))
     \<lparr>n_type := NT_ORDER,
      n_data := Some (JObj [(''order_id'', JInt (o_id ord)), (''status'', JStr (OrderStatus_value st))])\<rparr>"

definition sale_events :: "User \<Rightarrow> Order \<Rightarrow> OrderStatus \<Rightarrow> db \<Rightarrow> db" where
  "sale_events user ord st d =
     (let payload = [(''status'', JStr (OrderStatus_value st)), (''user_id'', JInt (o_user_id ord)),
            (''shop_user_id'', jopt_int (o_shop_user_id ord)), (''order_number'', JStr (o_order_number ord))]
      in emit_user_event (u_id user) ''sales_order_update'' ((''order_id'', JInt (o_id ord)) # payload)
           (emit_order_status (o_id ord) payload d))"

definition update_sales_status :: "env \<Rightarrow> User \<Rightarrow> int \<Rightarrow> string \<Rightarrow> string option \<Rightarrow> db \<Rightarrow> (exc + json) \<times> db" where
  "update_sales_status e user order_id status note d = (case selling_shop e user d of
     (Inl ex, d1) \<Rightarrow> (Inl ex, d1)
   | (Inr _, d1) \<Rightarrow> (case get_Order d1 order_id of
       None \<Rightarrow> (Inl (not_found ''Order not found''), d1)
     | Some ord \<Rightarrow>
         if o_shop_user_id ord \<noteq> Some (u_id user) then (Inl (not_found ''Order not found''), d1)
         else (case enum_of OrderStatus_value OrderStatus_members status of
           None \<Rightarrow> (Inl (bad_request (''Invalid status: '' @ status)), d1)
         | Some st \<Rightarrow>
             if st \<notin> set SHOP_STATUSES then (Inl (bad_request (''Shop cannot set status '' @ status)), d1)
             else let o2 = set_sale_status e st note ord;
                      d2 = add_Notification (sale_ping e o2 st)
                             (add_OrderStatusHistory (sale_history e user o2 st note) (put_Order o2 d1))
                  in (Inr (sale_dict d2 o2), sale_events user o2 st d2))))"

end
