(* ===== verification/SellLaws.thy ===== *)
theory SellLaws
  imports Sales OrderLaws
begin

text \<open>
  What a selling shop can do: the slug loop ends with a free slug, a paid link activates the plan
  once, every operation of the catalog needs a running plan and changes the shop's own rows only,
  the catalog keeps its types (slugs and codes unique, canonical units, positive prices), and a sale
  leaves the history of its order complete.
\<close>

section \<open>The slug loop\<close>

definition slug_candidate :: "string \<Rightarrow> nat \<Rightarrow> string" where
  "slug_candidate base n = (if n = 0 then base else numbered base n)"

lemma slug_candidate_inj: "slug_candidate base a = slug_candidate base b \<Longrightarrow> a = b"
  using numbered_inj [of base a b] by (auto simp: slug_candidate_def numbered_def split: if_splits)

lemma fresh_slug_first:
  assumes "\<forall>j < i. slug_candidate base j \<in> set taken"
  shows "\<exists>n. fresh_slug taken base (slug_candidate base i) (i + 1) = slug_candidate base n
     \<and> slug_candidate base n \<notin> set taken \<and> (\<forall>j < n. slug_candidate base j \<in> set taken)"
  using assms
proof (induction taken base "slug_candidate base i" "i + 1" arbitrary: i rule: fresh_slug.induct)
  case (1 taken base i)
  show ?case
  proof (cases "slug_candidate base i \<in> set taken")
    case False
    with "1.prems" show ?thesis by (subst fresh_slug.simps) (auto intro!: exI [of _ i])
  next
    case True
    have n: "numbered base (i + 1) = slug_candidate base (i + 1)" by (simp add: slug_candidate_def)
    have "\<forall>j < i + 1. slug_candidate base j \<in> set taken"
      using True "1.prems" by (auto simp: less_Suc_eq)
    then have "\<exists>n. fresh_slug taken base (slug_candidate base (i + 1)) (i + 1 + 1) = slug_candidate base n
        \<and> slug_candidate base n \<notin> set taken \<and> (\<forall>j < n. slug_candidate base j \<in> set taken)"
      by (rule "1.hyps" [OF True n refl])
    moreover have "fresh_slug taken base (slug_candidate base i) (i + 1)
        = fresh_slug taken base (slug_candidate base (i + 1)) (i + 1 + 1)"
      using True by (subst fresh_slug.simps) (simp only: if_True n)
    ultimately show ?thesis by simp
  qed
qed

lemma candidates_bounded:
  assumes "\<forall>j < n. slug_candidate base j \<in> set taken" shows "n \<le> length taken"
proof -
  have "card (slug_candidate base ` {..<n}) = n"
    by (subst card_image) (auto intro!: inj_onI dest: slug_candidate_inj)
  moreover have "card (slug_candidate base ` {..<n}) \<le> card (set taken)"
    using assms by (intro card_mono) auto
  ultimately show ?thesis using card_length [of taken] by simp
qed

text \<open>Property C29 (slug_loop_ends): the loop that looks for an unused slug ends after at most as many
  rounds as there are slugs in use: it returns the first of base, base-1, base-2, ... that no row has.\<close>

theorem slug_loop_ends:
  "\<exists>n \<le> length taken. fresh_slug taken base base 1 = slug_candidate base n
     \<and> slug_candidate base n \<notin> set taken \<and> list_all (\<lambda>j. slug_candidate base j \<in> set taken) [0..<n]"
proof -
  obtain n where n: "fresh_slug taken base base 1 = slug_candidate base n" "slug_candidate base n \<notin> set taken"
    "\<forall>j < n. slug_candidate base j \<in> set taken"
    using fresh_slug_first [of 0 base taken] by (auto simp: slug_candidate_def [of base 0])
  then show ?thesis
    using candidates_bounded [OF n(3)] by (intro exI [of _ n]) (simp add: list_all_iff)
qed

lemma fresh_slug_free [simp]:
  "fresh_slug taken base base 1 \<notin> set taken" "fresh_slug taken base base (Suc 0) \<notin> set taken"
  using fresh_slug_first [of 0 base taken] by (auto simp: slug_candidate_def [of base 0])

section \<open>The guards\<close>

lemma selling_shopE:
  assumes "selling_shop e user d = (Inr p, d1)"
  obtains "d1 = d" "profile_of d (u_id user) = Some p" "\<not> rp_is_blocked p" "rp_approval_status p = ''approved''"
    "rp_sell_subscription_status p = ''approved''"
    "\<And>t. rp_sell_subscription_expires_at p = Some t \<Longrightarrow> env_now e \<le> t"
proof -
  from assms obtain q where q: "approved_shop user d = Inr q" "\<not> plan_over e q" "p = q" "d1 = d"
    "sub_status q = ''approved''"
    by (auto simp: selling_shop_def expire_plan_def Let_def sub_status_def or_str_def split: sum.splits if_splits)
  show ?thesis
  proof (rule that)
    show "profile_of d (u_id user) = Some p" "\<not> rp_is_blocked p" "rp_approval_status p = ''approved''"
      using q by (auto simp: approved_shop_def sell_shop_def split: option.splits sum.splits if_splits)
    show "rp_sell_subscription_status p = ''approved''"
      using q by (auto simp: sub_status_def or_str_def split: if_splits)
    show "env_now e \<le> t" if "rp_sell_subscription_expires_at p = Some t" for t
      using q that by (auto simp: plan_over_def)
  qed (use q in simp)
qed

text \<open>A running plan: what every selling operation asks for.\<close>

definition may_sell :: "env \<Rightarrow> int \<Rightarrow> db \<Rightarrow> bool" where
  "may_sell e uid d \<longleftrightarrow> (case profile_of d uid of None \<Rightarrow> False
     | Some p \<Rightarrow> \<not> rp_is_blocked p \<and> rp_approval_status p = ''approved'' \<and> rp_sell_subscription_status p = ''approved''
         \<and> (case rp_sell_subscription_expires_at p of None \<Rightarrow> True | Some t \<Rightarrow> env_now e \<le> t))"

lemma selling_may_sell: "selling_shop e user d = (Inr p, d1) \<Longrightarrow> d1 = d \<and> may_sell e (u_id user) d"
  by (erule selling_shopE) (auto simp: may_sell_def split: option.splits)

section \<open>What the operations change\<close>

inductive sell_step :: "User \<Rightarrow> env \<Rightarrow> db \<Rightarrow> db \<Rightarrow> bool" for user e where
  add_category: "create_category (coll :: string \<Rightarrow> int) e user nm de im d = (Inr c, d') \<Longrightarrow> sell_step user e d d'"
| add_product: "create_my_product e user body d = (Inr p, d') \<Longrightarrow> sell_step user e d d'"
| patch_product: "sell_patch_product e user k pat d = (Inr p, d') \<Longrightarrow> sell_step user e d d'"
| delete_product: "delete_my_product e user k d = (Inr j, d') \<Longrightarrow> sell_step user e d d'"
| add_banner: "create_banner e user bb d = (Inr b, d') \<Longrightarrow> sell_step user e d d'"
| patch_banner: "patch_banner e user k bp d = (Inr b, d') \<Longrightarrow> sell_step user e d d'"
| add_coupon: "create_coupon e user cb d = (Inr c, d') \<Longrightarrow> sell_step user e d d'"
| patch_coupon: "patch_coupon e user k cp d = (Inr c, d') \<Longrightarrow> sell_step user e d d'"
| sale: "update_sales_status e user k st nt d = (Inr j, d') \<Longrightarrow> sell_step user e d d'"

text \<open>A product a shop may list.\<close>

definition listed_ok :: "Product \<Rightarrow> bool" where
  "listed_ok p \<longleftrightarrow> p_unit_label p \<in> set unit_codes \<and> 0 < p_selling_price p \<and> 0 \<le> p_stock_qty p
     \<and> 2 \<le> py_len (p_name p)"

inductive sell_effect :: "int \<Rightarrow> env \<Rightarrow> db \<Rightarrow> db \<Rightarrow> bool" for uid e d where
  category: "cat_owner_user_id c = Some uid \<Longrightarrow> cat_slug c \<notin> set (category_slugs d)
    \<Longrightarrow> sell_effect uid e d (add_Category c d)"
| product: "p_supplier_user_id p = Some uid \<Longrightarrow> p_slug p \<notin> set (product_slugs d) \<Longrightarrow> listed_ok p
    \<Longrightarrow> sell_effect uid e d (add_Product p d)"
| product_change: "get_Product d (p_id p') = Some p \<Longrightarrow> p_supplier_user_id p = Some uid
    \<Longrightarrow> p_supplier_user_id p' = Some uid \<Longrightarrow> p_slug p' = p_slug p \<Longrightarrow> (listed_ok p \<Longrightarrow> listed_ok p')
    \<Longrightarrow> sell_effect uid e d (put_Product p' d)"
| banner: "bn_shop_user_id b = Some uid \<Longrightarrow> sell_effect uid e d (add_Banner b d)"
| banner_change: "get_Banner d (bn_id b') = Some b \<Longrightarrow> bn_shop_user_id b = Some uid \<Longrightarrow> bn_shop_user_id b' = Some uid
    \<Longrightarrow> sell_effect uid e d (put_Banner b' d)"
| coupon: "cp_shop_user_id c = Some uid \<Longrightarrow> t_first (\<lambda>x. cp_code x = cp_code c) (coupons d) = None
    \<Longrightarrow> sell_effect uid e d (add_Coupon c d)"
| coupon_change: "get_Coupon d (cp_id c') = Some c \<Longrightarrow> cp_shop_user_id c = Some uid \<Longrightarrow> cp_shop_user_id c' = Some uid
    \<Longrightarrow> cp_code c' = cp_code c \<Longrightarrow> sell_effect uid e d (put_Coupon c' d)"
| sale: "get_Order d (o_id ord) = Some ord \<Longrightarrow> o_shop_user_id ord = Some uid \<Longrightarrow> st \<in> set SHOP_STATUSES
    \<Longrightarrow> d' = sale_events user (set_sale_status e st nt ord) st
          (add_Notification (sale_ping e (set_sale_status e st nt ord) st)
            (add_OrderStatusHistory (sale_history e user (set_sale_status e st nt ord) st nt)
              (put_Order (set_sale_status e st nt ord) d)))
    \<Longrightarrow> sell_effect uid e d d'"

lemma set_sale_status_simps [simp]:
  "o_id (set_sale_status e st nt ord) = o_id ord" "o_status (set_sale_status e st nt ord) = st"
  "o_shop_user_id (set_sale_status e st nt ord) = o_shop_user_id ord"
  "o_user_id (set_sale_status e st nt ord) = o_user_id ord"
  by (simp_all add: set_sale_status_def Let_def)

lemma own_productD: "own_product d user k = Some p \<Longrightarrow> get_Product d (p_id p) = Some p \<and> p_supplier_user_id p = Some (u_id user)"
  by (auto simp: own_product_def split: option.splits if_splits dest: t_get_key)

lemma own_bannerD: "own_banner d uid k = Some b \<Longrightarrow> get_Banner d (bn_id b) = Some b \<and> bn_shop_user_id b = Some uid"
  by (auto simp: own_banner_def split: option.splits if_splits dest: t_get_key)

lemma own_couponD: "own_coupon d uid k = Some c \<Longrightarrow> get_Coupon d (cp_id c) = Some c \<and> cp_shop_user_id c = Some uid"
  by (auto simp: own_coupon_def split: option.splits if_splits dest: t_get_key)

lemma or_str_Some: "or_str (Some s) t = (if s = [] then t else s)"
  by (simp add: or_str_def)

lemma create_category_effect:
  assumes "create_category (coll :: string \<Rightarrow> int) e user nm de im d = (Inr c, d')"
  shows "may_sell e (u_id user) d \<and> sell_effect (u_id user) e d d'"
proof -
  from assms obtain profile where p: "selling_shop e user d = (Inr profile, d)"
    by (auto simp: create_category_def dest: selling_may_sell split: prod.splits sum.splits)
  from assms p obtain cat where "d' = add_Category cat d" "cat_owner_user_id cat = Some (u_id user)"
    "cat_slug cat \<notin> set (category_slugs d)"
    by (auto simp: create_category_def Let_def new_Category_def split: if_splits option.splits)
  with selling_may_sell [OF p] show ?thesis by (auto intro: sell_effect.category)
qed

lemma check_nameD: "check_name n = Inr u \<Longrightarrow> 2 \<le> py_len n"
  by (auto simp: check_name_def split: if_splits)

lemma shop_product_row_facts:
  "p_supplier_user_id (shop_product_row e user profile n s b d) = Some (u_id user)"
  "p_slug (shop_product_row e user profile n s b d) \<notin> set (product_slugs d)"
  "2 \<le> py_len n \<Longrightarrow> check_texts b s = Inr u \<Longrightarrow> listed_ok (shop_product_row e user profile n s b d)"
  using normalize_unit_code [of "spi_unit_label b"]
  by (auto simp: shop_product_row_def Let_def new_Product_def listed_ok_def check_texts_def simp del: unit_codes_eq
      split: if_splits)

lemma create_my_product_effect:
  assumes "create_my_product e user b d = (Inr p, d')"
  shows "may_sell e (u_id user) d \<and> sell_effect (u_id user) e d d'"
proof -
  from assms obtain profile where p: "selling_shop e user d = (Inr profile, d)"
    by (auto simp: create_my_product_def dest: selling_may_sell split: prod.splits sum.splits)
  from assms p obtain s u v where "check_name (strip (spi_name b)) = Inr u" "check_texts b s = Inr v"
    "d' = add_Product (shop_product_row e user profile (strip (spi_name b)) s b d) d"
    by (auto simp: create_my_product_def Let_def split: if_splits sum.splits)
  with selling_may_sell [OF p] show ?thesis
    using shop_product_row_facts check_nameD by (auto intro!: sell_effect.product)
qed

lemma patch_product_row_facts:
  "p_id (patch_product_row e b p) = p_id p" "p_slug (patch_product_row e b p) = p_slug p"
  "p_supplier_user_id (patch_product_row e b p) = p_supplier_user_id p"
  "check_patch user b d = Inr u \<Longrightarrow> listed_ok p \<Longrightarrow> listed_ok (patch_product_row e b p)"
proof -
  show "listed_ok (patch_product_row e b p)" if "check_patch user b d = Inr u" "listed_ok p"
    using that normalize_unit_code
    by (auto simp: patch_product_row_def listed_ok_def upd_def check_patch_def simp del: unit_codes_eq
        split: option.splits if_splits sum.splits dest: check_nameD)
qed (simp_all add: patch_product_row_def)

lemma sell_patch_product_effect:
  assumes "sell_patch_product e user k b d = (Inr p', d')"
  shows "may_sell e (u_id user) d \<and> sell_effect (u_id user) e d d'"
proof -
  from assms obtain profile where p: "selling_shop e user d = (Inr profile, d)"
    by (auto simp: sell_patch_product_def dest: selling_may_sell split: prod.splits sum.splits)
  from assms p obtain p0 u where o: "own_product d user k = Some p0" "check_patch user b d = Inr u"
    "d' = put_Product (patch_product_row e b p0) d"
    by (auto simp: sell_patch_product_def split: option.splits sum.splits)
  show ?thesis unfolding o(3)
    using selling_may_sell [OF p] own_productD [OF o(1)] patch_product_row_facts(4) [OF o(2)]
    by (auto intro!: sell_effect.product_change [where p = p0] simp: patch_product_row_facts)
qed

lemma delete_my_product_effect:
  assumes "delete_my_product e user k d = (Inr j, d')"
  shows "may_sell e (u_id user) d \<and> sell_effect (u_id user) e d d'"
proof -
  from assms obtain profile where p: "selling_shop e user d = (Inr profile, d)"
    by (auto simp: delete_my_product_def dest: selling_may_sell split: prod.splits sum.splits)
  from assms p obtain p0 where o: "own_product d user k = Some p0"
    "d' = put_Product (p0\<lparr>p_is_active := False, p_is_draft := True, p_updated_at := env_now e\<rparr>) d"
    by (auto simp: delete_my_product_def split: option.splits sum.splits)
  show ?thesis unfolding o(2)
    using selling_may_sell [OF p] own_productD [OF o(1)]
    by (auto intro!: sell_effect.product_change [where p = p0] simp: listed_ok_def simp del: unit_codes_eq)
qed

lemma create_banner_effect:
  assumes "create_banner e user bb d = (Inr b, d')"
  shows "may_sell e (u_id user) d \<and> sell_effect (u_id user) e d d'"
proof -
  from assms obtain profile where p: "selling_shop e user d = (Inr profile, d)"
    by (auto simp: create_banner_def dest: selling_may_sell split: prod.splits sum.splits)
  obtain bn where "d' = add_Banner bn d" "bn_shop_user_id bn = Some (u_id user)"
    using assms unfolding create_banner_def Let_def p prod.case sum.case guard_iff prod.inject
    by (elim conjE) (rule that, erule sym, simp)
  with selling_may_sell [OF p] show ?thesis by (auto intro: sell_effect.banner)
qed

lemma patch_banner_effect:
  assumes "patch_banner e user k b d = (Inr b', d')"
  shows "may_sell e (u_id user) d \<and> sell_effect (u_id user) e d d'"
proof -
  from assms obtain profile where p: "selling_shop e user d = (Inr profile, d)"
    by (auto simp: patch_banner_def dest: selling_may_sell split: prod.splits sum.splits)
  from assms p obtain r where o: "own_banner d (u_id user) k = Some r" "d' = put_Banner (patch_banner_row b r) d"
    by (auto simp: patch_banner_def split: option.splits)
  show ?thesis unfolding o(2)
    using selling_may_sell [OF p] own_bannerD [OF o(1)]
    by (auto intro!: sell_effect.banner_change [where b = r] simp: patch_banner_row_def)
qed

lemma create_coupon_effect:
  assumes "create_coupon e user cb d = (Inr c, d')"
  shows "may_sell e (u_id user) d \<and> sell_effect (u_id user) e d d'"
proof -
  from assms obtain profile where p: "selling_shop e user d = (Inr profile, d)"
    by (auto simp: create_coupon_def dest: selling_may_sell split: prod.splits sum.splits)
  obtain c0 where "d' = add_Coupon c0 d" "cp_shop_user_id c0 = Some (u_id user)"
    "t_first (\<lambda>x. cp_code x = cp_code c0) (coupons d) = None"
    using assms unfolding create_coupon_def Let_def p prod.case sum.case guard_iff prod.inject
    by (elim conjE) (rule that, erule sym, simp_all add: new_Coupon_def)
  with selling_may_sell [OF p] show ?thesis by (auto intro: sell_effect.coupon)
qed

lemma patch_coupon_effect:
  assumes "patch_coupon e user k b d = (Inr c', d')"
  shows "may_sell e (u_id user) d \<and> sell_effect (u_id user) e d d'"
proof -
  from assms obtain profile where p: "selling_shop e user d = (Inr profile, d)"
    by (auto simp: patch_coupon_def dest: selling_may_sell split: prod.splits sum.splits)
  from assms p obtain c0 where o: "own_coupon d (u_id user) k = Some c0" "d' = put_Coupon (patch_coupon_row b c0) d"
    by (auto simp: patch_coupon_def split: option.splits)
  show ?thesis unfolding o(2)
    using selling_may_sell [OF p] own_couponD [OF o(1)]
    by (auto intro!: sell_effect.coupon_change [where c = c0] simp: patch_coupon_row_def)
qed

lemma update_sales_status_effect:
  assumes "update_sales_status e user k s nt d = (Inr j, d')"
  shows "may_sell e (u_id user) d \<and> sell_effect (u_id user) e d d'"
proof -
  from assms obtain profile where p: "selling_shop e user d = (Inr profile, d)"
    by (auto simp: update_sales_status_def dest: selling_may_sell split: prod.splits sum.splits)
  from assms p obtain ord st where o: "get_Order d k = Some ord" "o_shop_user_id ord = Some (u_id user)"
    "st \<in> set SHOP_STATUSES" "d' = sale_events user (set_sale_status e st nt ord) st
          (add_Notification (sale_ping e (set_sale_status e st nt ord) st)
            (add_OrderStatusHistory (sale_history e user (set_sale_status e st nt ord) st nt)
              (put_Order (set_sale_status e st nt ord) d)))"
    by (auto simp: update_sales_status_def Let_def split: option.splits if_splits)
  from o(1) have "get_Order d (o_id ord) = Some ord" using t_get_key by fastforce
  with o selling_may_sell [OF p] show ?thesis by (auto intro: sell_effect.sale)
qed

lemma sell_step_effect:
  assumes "sell_step user e d d'" shows "may_sell e (u_id user) d \<and> sell_effect (u_id user) e d d'"
  using assms
  by (rule sell_step.cases)
    (blast dest: create_category_effect create_my_product_effect sell_patch_product_effect delete_my_product_effect
      create_banner_effect patch_banner_effect create_coupon_effect patch_coupon_effect update_sales_status_effect)+

section \<open>Ownership\<close>

text \<open>Nothing but a shop's own rows differs between two tables.\<close>

definition strangers_same :: "('r \<Rightarrow> bool) \<Rightarrow> 'r table \<Rightarrow> 'r table \<Rightarrow> bool" where
  "strangers_same own t t' \<longleftrightarrow> filter (\<lambda>r. \<not> own r) (rows t') = filter (\<lambda>r. \<not> own r) (rows t)"

lemma strangers_refl [simp]: "strangers_same own t t"
  by (simp add: strangers_same_def)

lemma strangers_insert: "own (setid (next_id t) r) \<Longrightarrow> strangers_same own t (t_insert setid r t)"
  by (simp add: strangers_same_def rows_t_insert)

lemma strangers_put:
  assumes "t_wf key t" "t_get key (key r') t = Some r" "own r" "own r'"
  shows "strangers_same own t (t_put key r' t)"
proof -
  have "own x" if "x \<in> set (rows t)" "key x = key r'" for x
    using t_wf_unique [OF assms(1) that(1) t_get_in [OF assms(2)]] t_get_key [OF assms(2)] that assms(3) by simp
  moreover have "filter (\<lambda>r. \<not> own r) (map (\<lambda>x. if key x = key r' then r' else x) xs) = filter (\<lambda>r. \<not> own r) xs"
    if "\<And>x. x \<in> set xs \<Longrightarrow> key x = key r' \<Longrightarrow> own x" for xs
    using that assms(4) by (induction xs) auto
  ultimately show ?thesis by (simp add: strangers_same_def rows_t_put)
qed

text \<open>The tables a selling operation never writes.\<close>

definition sell_untouched :: "db \<Rightarrow> db \<Rightarrow> bool" where
  "sell_untouched d d' \<longleftrightarrow> profiles d' = profiles d \<and> users d' = users d \<and> order_items d' = order_items d
     \<and> payments d' = payments d \<and> invoices d' = invoices d \<and> carts d' = carts d \<and> cart_items d' = cart_items d
     \<and> settings_rows d' = settings_rows d \<and> wallets d' = wallets d \<and> ledger_entries d' = ledger_entries d
     \<and> purchases d' = purchases d"

lemma sale_events_tables:
  assumes "d' = sale_events user ord st d0"
  shows "products d' = products d0" "categories d' = categories d0" "banners d' = banners d0"
    "coupons d' = coupons d0" "orders d' = orders d0" "histories d' = histories d0" "sell_untouched d0 d'"
    "db_wf d0 \<Longrightarrow> db_wf d'"
  unfolding assms by (simp_all add: sale_events_def emit_defs Let_def sell_untouched_def)

lemma sell_effect_wf: "sell_effect uid e d d' \<Longrightarrow> db_wf d \<Longrightarrow> db_wf d'"
  by (induction rule: sell_effect.induct) (simp_all add: sale_events_tables(8))

definition own_changes :: "int \<Rightarrow> db \<Rightarrow> db \<Rightarrow> bool" where
  "own_changes uid d d' \<longleftrightarrow>
     strangers_same (\<lambda>p. p_supplier_user_id p = Some uid) (products d) (products d')
   \<and> strangers_same (\<lambda>c. cat_owner_user_id c = Some uid) (categories d) (categories d')
   \<and> strangers_same (\<lambda>b. bn_shop_user_id b = Some uid) (banners d) (banners d')
   \<and> strangers_same (\<lambda>c. cp_shop_user_id c = Some uid) (coupons d) (coupons d')
   \<and> strangers_same (\<lambda>r. o_shop_user_id r = Some uid) (orders d) (orders d')
   \<and> sell_untouched d d'"

lemma sell_effect_own:
  assumes "sell_effect uid e d d'" "db_wf d" shows "own_changes uid d d'"
  using assms(1)
proof cases
  case (product_change p' p)
  then show ?thesis using strangers_put [OF _ product_change(2), of "\<lambda>p. p_supplier_user_id p = Some uid"] assms(2)
    by (simp add: own_changes_def sell_untouched_def)
next
  case (banner_change b' b)
  then show ?thesis using strangers_put [OF _ banner_change(2), of "\<lambda>b. bn_shop_user_id b = Some uid"] assms(2)
    by (simp add: own_changes_def sell_untouched_def)
next
  case (coupon_change c' c)
  then show ?thesis using strangers_put [OF _ coupon_change(2), of "\<lambda>c. cp_shop_user_id c = Some uid"] assms(2)
    by (simp add: own_changes_def sell_untouched_def)
next
  case (sale ord st user nt)
  have "get_Order d (o_id (set_sale_status e st nt ord)) = Some ord" using sale(1) by simp
  then have "strangers_same (\<lambda>r. o_shop_user_id r = Some uid) (orders d)
      (t_put o_id (set_sale_status e st nt ord) (orders d))"
    using sale(2) assms(2) by (intro strangers_put) simp_all
  with sale_events_tables [OF sale(4)] show ?thesis by (simp add: own_changes_def sell_untouched_def)
qed (simp_all add: own_changes_def sell_untouched_def strangers_insert)

text \<open>Property C28 (sell_touches_own): an operation of a selling shop succeeds only while the shop is
  approved, not blocked and has a plan that has not run out, and it changes no other shop's product,
  category, banner, coupon or order, and none of the tables of money, users and carts.\<close>

theorem sell_touches_own:
  assumes "sell_step user e d d'" "db_wf d"
  shows "may_sell e (u_id user) d \<and> own_changes (u_id user) d d'"
  using sell_step_effect [OF assms(1)] sell_effect_own assms(2) by blast

section \<open>The types of the catalog\<close>

definition catalog_typed :: "int \<Rightarrow> db \<Rightarrow> bool" where
  "catalog_typed uid d \<longleftrightarrow> distinct (product_slugs d) \<and> distinct (category_slugs d)
     \<and> distinct (map cp_code (rows (coupons d)))
     \<and> (\<forall>p \<in> set (rows (products d)). p_supplier_user_id p = Some uid \<longrightarrow> listed_ok p)"

lemma map_put_same:
  assumes "t_wf key t" "t_get key (key r') t = Some r" "f r' = f r"
  shows "map f (rows (t_put key r' t)) = map f (rows t)"
proof -
  have "f (if key x = key r' then r' else x) = f x" if "x \<in> set (rows t)" for x
    using t_wf_unique [OF assms(1) that t_get_in [OF assms(2)]] t_get_key [OF assms(2)] assms(3) by auto
  then show ?thesis by (simp add: rows_t_put)
qed

lemma sell_effect_typed:
  assumes "sell_effect uid e d d'" "db_wf d" "catalog_typed uid d"
  shows "catalog_typed uid d'"
  using assms(1)
proof cases
  case (product_change p' p)
  have p: "p \<in> set (rows (products d))" using product_change(2) t_get_in by fastforce
  have "map p_slug (rows (t_put p_id p' (products d))) = map p_slug (rows (products d))"
    using map_put_same [OF _ product_change(2,5)] assms(2) by simp
  moreover have "listed_ok x" if "x \<in> set (rows (t_put p_id p' (products d)))" "p_supplier_user_id x = Some uid" for x
    using that assms(3) p product_change(3,6) by (auto simp: rows_t_put catalog_typed_def split: if_splits)
  ultimately show ?thesis
    using assms(3) product_change(1) by (simp add: catalog_typed_def product_slugs_def category_slugs_def)
next
  case (coupon_change c' c)
  then show ?thesis using assms(2,3) map_put_same [OF _ coupon_change(2) coupon_change(5)]
    by (simp add: catalog_typed_def product_slugs_def category_slugs_def)
next
  case (coupon c)
  then show ?thesis using assms(3)
    by (auto simp: catalog_typed_def product_slugs_def category_slugs_def rows_t_insert t_first_None_iff)
next
  case (sale ord st user nt)
  with sale_events_tables [OF sale(4)] assms(3) show ?thesis
    by (simp add: catalog_typed_def product_slugs_def category_slugs_def)
qed (use assms(3) in \<open>auto simp: catalog_typed_def product_slugs_def category_slugs_def rows_t_insert listed_ok_def
  simp del: unit_codes_eq\<close>)

text \<open>The operations of a shop over time.\<close>

definition sells :: "User \<Rightarrow> db \<Rightarrow> db \<Rightarrow> bool" where
  "sells user d d' \<longleftrightarrow> (\<exists>e. sell_step user e d d')"

lemma sells_once: "sell_step user e d d' \<Longrightarrow> (sells user)\<^sup>*\<^sup>* d d'"
  by (rule r_into_rtranclp) (auto simp: sells_def)

lemma sells_wf: "sells user d d' \<Longrightarrow> db_wf d \<Longrightarrow> db_wf d'"
  unfolding sells_def using sell_step_effect sell_effect_wf by blast

text \<open>Property C15 (catalog_stays_typed): after any number of operations of a shop no two products or categories
  share a slug and no two coupons a code, and every product of the shop has a unit of the fixed
  list, a positive price, a stock that is not negative and a name of two characters or more.\<close>

theorem catalog_stays_typed:
  assumes "(sells user)\<^sup>*\<^sup>* d d'" "db_wf d" "catalog_typed (u_id user) d"
  shows "catalog_typed (u_id user) d'"
proof -
  have "db_wf d' \<and> catalog_typed (u_id user) d'"
    using assms
  proof (induction rule: rtranclp_induct)
    case (step a b)
    then obtain e where "sell_effect (u_id user) e a b" using sell_step_effect unfolding sells_def by blast
    with step show ?case using sell_effect_typed sells_wf by blast
  qed simp
  then show ?thesis ..
qed

section \<open>The trail of a sale\<close>

lemma sells_trail:
  assumes "sells user d d'" shows "trail_change d d'"
proof -
  obtain e where "sell_effect (u_id user) e d d'" using assms sell_step_effect unfolding sells_def by blast
  then show ?thesis
  proof cases
    case (sale ord st user nt)
    note t = sale_events_tables [OF sale(4)]
    show ?thesis
      by (rule trail_update [where ord = "set_sale_status e st nt ord"
            and h = "(sale_history e user (set_sale_status e st nt ord) st nt)\<lparr>h_id := next_id (histories d)\<rparr>"])
        (simp_all add: t rows_t_insert sale_history_def new_OrderStatusHistory_def)
  qed (auto intro!: trail_quiet)
qed

interpretation shop_sales: trail_machine db_wf "sells user"
  by unfold_locales (auto dest: sells_wf sells_trail)

text \<open>Whatever a shop does to its catalog and its sales, the last history row
  of every order shows the order's current status.\<close>

theorem sales_keep_trail:
  assumes "(sells user)\<^sup>*\<^sup>* d d'" "db_wf d" "status_trail d"
  shows "status_trail d'"
  using assms by (rule shop_sales.machine_trail)

section \<open>A worked example\<close>

definition corner_user :: User where
  "corner_user = (new_User 0 ''9000000007'')\<lparr>u_id := 7, u_role := UR_RETAILER\<rparr>"

definition corner_shop :: RetailerProfile where
  "corner_shop = (new_RetailerProfile 0 7 ''Corner Shop'')
     \<lparr>rp_id := 1, rp_sell_subscription_status := ''approved'',
      rp_sell_subscription_expires_at := Some (env_now sample_env + us_days 10),
      rp_sell_rz_pending := Some (''plink_1'' @ '':'' @ ''yearly'' @ '':'' @ fmt2 (cents 499000))\<rparr>"

definition corner_bun :: Product where
  "corner_bun = (new_Product 0 1 ''Bun'' ''bun'')
     \<lparr>p_id := 1, p_supplier_user_id := Some 7, p_selling_price := 20, p_stock_qty := 9\<rparr>"

definition corner_sale :: Order where
  "corner_sale = (new_Order 0 ''SC1'' 5)\<lparr>o_id := 1, o_shop_user_id := Some 7\<rparr>"

definition sell_db :: db where
  "sell_db = empty_db\<lparr>profiles := \<lparr>rows = [corner_shop], next_id = 2\<rparr>,
     products := \<lparr>rows = [corner_bun], next_id = 2\<rparr>, orders := \<lparr>rows = [corner_sale], next_id = 2\<rparr>,
     histories := \<lparr>rows = [(new_OrderStatusHistory 0 1 OS_PLACED)\<lparr>h_id := 1\<rparr>], next_id = 2\<rparr>\<rparr>"

lemma sell_db_facts:
  "db_wf sell_db" "profile_of sell_db (u_id corner_user) = Some corner_shop" "\<not> rp_is_blocked corner_shop"
  "rp_approval_status corner_shop = ''approved''" "u_id corner_user = 7"
  "selling_shop sample_env corner_user sell_db = (Inr corner_shop, sell_db)"
  "get_Product sell_db 1 = Some corner_bun" "get_Order sell_db 1 = Some corner_sale"
proof -
  show w: "db_wf sell_db"
    by (simp add: sell_db_def db_wf_empty t_wf_def corner_shop_def corner_bun_def corner_sale_def new_Product_def
        new_RetailerProfile_def new_Order_def new_OrderStatusHistory_def)
  show u: "u_id corner_user = 7" by (simp add: corner_user_def new_User_def)
  show p: "profile_of sell_db (u_id corner_user) = Some corner_shop"
    by (simp add: u profile_of_def sell_db_def t_first_def corner_shop_def new_RetailerProfile_def)
  show f: "\<not> rp_is_blocked corner_shop" "rp_approval_status corner_shop = ''approved''"
    by (simp_all add: corner_shop_def new_RetailerProfile_def)
  have "rp_sell_subscription_status corner_shop = ''approved''"
    "rp_sell_subscription_expires_at corner_shop = Some (env_now sample_env + us_days 10)"
    by (simp_all add: corner_shop_def new_RetailerProfile_def)
  then show "selling_shop sample_env corner_user sell_db = (Inr corner_shop, sell_db)"
    using p f by (simp add: selling_shop_def approved_shop_def sell_shop_def expire_plan_def plan_over_def sub_status_def
        or_str_def us_days_def)
  show "get_Product sell_db 1 = Some corner_bun" "get_Order sell_db 1 = Some corner_sale"
    by (simp_all add: sell_db_def t_get_def corner_bun_def corner_sale_def new_Product_def new_Order_def)
qed

definition restock :: ShopProductPatchIn where
  "restock = \<lparr>spp_category_id = None, spp_name = None, spp_selling_price = None, spp_customer_price = None,
     spp_shop_price = None, spp_purchase_cost = None, spp_stock_qty = Some 4, spp_short_description = None,
     spp_description = None, spp_weight = None, spp_unit_label = None, spp_cover_image_url = None,
     spp_is_active = None, spp_is_draft = None\<rparr>"

lemma sample_restock:
  "sell_patch_product sample_env corner_user 1 restock sell_db
     = (Inr (patch_product_row sample_env restock corner_bun), put_Product (patch_product_row sample_env restock corner_bun) sell_db)"
proof -
  have "own_product sell_db corner_user 1 = Some corner_bun"
    using sell_db_facts by (simp add: own_product_def corner_bun_def new_Product_def)
  then show ?thesis using sell_db_facts(6) by (simp add: sell_patch_product_def check_patch_def restock_def)
qed

lemma sell_touches_own_witness:
  "may_sell sample_env 7 sell_db
   \<and> own_changes 7 sell_db (snd (sell_patch_product sample_env corner_user 1 restock sell_db))"
  using sell_touches_own [OF sell_step.patch_product [OF sample_restock] sell_db_facts(1)] sell_db_facts(5)
  unfolding sample_restock by simp

lemma sell_db_typed: "catalog_typed 7 sell_db"
  by (simp add: catalog_typed_def product_slugs_def category_slugs_def sell_db_def empty_db_def t_empty_def
      listed_ok_def corner_bun_def new_Product_def py_len_def char_code_def)

lemma catalog_stays_typed_witness:
  "catalog_typed 7 (snd (sell_patch_product sample_env corner_user 1 restock sell_db))
   \<and> map p_stock_qty (rows (products (snd (sell_patch_product sample_env corner_user 1 restock sell_db)))) = [4]"
proof -
  have "(sells corner_user)\<^sup>*\<^sup>* sell_db (snd (sell_patch_product sample_env corner_user 1 restock sell_db))"
    using sells_once [OF sell_step.patch_product [OF sample_restock]] unfolding sample_restock by simp
  then have "catalog_typed (u_id corner_user) (snd (sell_patch_product sample_env corner_user 1 restock sell_db))"
    by (rule catalog_stays_typed [OF _ sell_db_facts(1)]) (simp add: sell_db_facts(5) sell_db_typed)
  moreover have "map p_stock_qty (rows (products (snd (sell_patch_product sample_env corner_user 1 restock sell_db)))) = [4]"
    unfolding sample_restock
    by (simp add: rows_t_put sell_db_def corner_bun_def patch_product_row_def restock_def upd_def new_Product_def)
  ultimately show ?thesis using sell_db_facts(5) by simp
qed

lemma sell_db_trail: "status_trail sell_db"
  by (simp add: status_trail_def sell_db_def t_last_def corner_sale_def new_Order_def new_OrderStatusHistory_def)

lemma update_sales_status_run:
  assumes "selling_shop e user d = (Inr p, d)" "get_Order d k = Some ord" "o_shop_user_id ord = Some (u_id user)"
    "st \<in> set SHOP_STATUSES"
  shows "\<exists>j d'. update_sales_status e user k (OrderStatus_value st) nt d = (Inr j, d')
     \<and> map h_status (rows (histories d')) = map h_status (rows (histories d)) @ [st]"
proof -
  have "h_status (sale_history e user o2 st nt) = st" for o2
    by (simp add: sale_history_def new_OrderStatusHistory_def)
  with assms show ?thesis
    by (simp add: update_sales_status_def Let_def sale_events_tables(6) [OF refl] rows_t_insert del: set_sale_status_simps)
qed

lemma sample_sale:
  "\<exists>j d'. update_sales_status sample_env corner_user 1 ''accepted'' None sell_db = (Inr j, d')
     \<and> map h_status (rows (histories d')) = [OS_PLACED, OS_ACCEPTED]"
proof -
  have "o_shop_user_id corner_sale = Some (u_id corner_user)" using sell_db_facts(5) by (simp add: corner_sale_def)
  moreover have "OS_ACCEPTED \<in> set SHOP_STATUSES" by (simp add: SHOP_STATUSES_def)
  moreover have "map h_status (rows (histories sell_db)) = [OS_PLACED]"
    by (simp add: sell_db_def new_OrderStatusHistory_def)
  ultimately show ?thesis
    using update_sales_status_run [OF sell_db_facts(6,8), of OS_ACCEPTED None] by simp
qed

lemma sales_keep_trail_witness:
  "\<exists>j d'. update_sales_status sample_env corner_user 1 ''accepted'' None sell_db = (Inr j, d') \<and> status_trail d'
     \<and> map h_status (rows (histories d')) = [OS_PLACED, OS_ACCEPTED]"
proof -
  obtain j d' where r: "update_sales_status sample_env corner_user 1 ''accepted'' None sell_db = (Inr j, d')"
    "map h_status (rows (histories d')) = [OS_PLACED, OS_ACCEPTED]"
    using sample_sale by (elim exE conjE) (rule that)
  have "(sells corner_user)\<^sup>*\<^sup>* sell_db d'" using sell_step.sale [OF r(1)] by (rule sells_once)
  then have "status_trail d'" using sell_db_facts(1) sell_db_trail by (rule sales_keep_trail)
  with r show ?thesis by (intro exI conjI)
qed

section \<open>Findings\<close>

text \<open>The event of a sale is meant for the shop, but its payload carries the customer's \<open>user_id\<close>, and the
  entries of the payload win: the message is addressed to the customer.\<close>

lemma sale_event_to_customer:
  "jget ''user_id'' (snd (last (outbox (sale_events user ord st d)))) = JInt (o_user_id ord)"
  by (simp add: sale_events_def emit_defs Let_def jmerge_def)

text \<open>A patch of a coupon is not checked: a percentage above 100 is accepted.\<close>

lemma coupon_patch_unchecked:
  assumes "selling_shop e user d = (Inr profile, d)" "own_coupon d (u_id user) k = Some c" "scp_value b = Some 500"
    "scp_coupon_type b = Some ''percentage''"
  shows "\<exists>c' d'. patch_coupon e user k b d = (Inr c', d') \<and> cp_coupon_type c' = ''percentage'' \<and> cp_value c' = 500"
  using assms by (simp add: patch_coupon_def patch_coupon_row_def upd_def)

end
