(* ===== verification/PlanLaws.thy ===== *)
theory PlanLaws
  imports SellLaws
begin

text \<open>
  The paid selling plan: the pending payment is read back as it was written, and a paid link gives
  the shop its plan once.
\<close>

section \<open>The pending payment\<close>

lemma split_colon:
  "CHR '':'' \<notin> set a \<Longrightarrow> takeWhile (\<lambda>c. c \<noteq> CHR '':'') (a @ CHR '':'' # b) = a"
  "CHR '':'' \<notin> set a \<Longrightarrow> dropWhile (\<lambda>c. c \<noteq> CHR '':'') (a @ CHR '':'' # b) = CHR '':'' # b"
  by (induction a) auto

lemma split_pending_written:
  assumes "CHR '':'' \<notin> set a" "CHR '':'' \<notin> set b" "money_ok n" "0 \<le> n"
  shows "split_pending (a @ '':'' @ b @ '':'' @ fmt2 (cents n)) = Some (a, b, cents n)"
  using assms by (simp add: split_pending_def Let_def split_colon money_text_parses)

lemma fmt2_last: "money_ok n \<Longrightarrow> 0 \<le> n \<Longrightarrow> \<not> is_space (last (fmt2 (cents n))) \<and> fmt2 (cents n) \<noteq> []"
proof -
  assume n: "money_ok n" "0 \<le> n"
  have p: "length (pad_nat 2 (nat n mod 100)) = 2" "\<forall>c\<in>set (pad_nat 2 (nat n mod 100)). is_digit_char c"
    using pad_two [of "nat n mod 100"] by simp_all
  then have "pad_nat 2 (nat n mod 100) \<noteq> []" by auto
  with p digit_not_space show ?thesis by (auto simp: money_text [OF n])
qed

text \<open>The text written for a link is the one the confirmation reads.\<close>

lemma pending_roundtrip:
  assumes "a \<noteq> []" "\<not> is_space (hd a)" "CHR '':'' \<notin> set a" "CHR '':'' \<notin> set b" "money_ok n" "0 \<le> n"
  shows "split_pending (strip (a @ '':'' @ b @ '':'' @ fmt2 (cents n))) = Some (a, b, cents n)"
proof -
  have "strip (a @ '':'' @ b @ '':'' @ fmt2 (cents n)) = a @ '':'' @ b @ '':'' @ fmt2 (cents n)"
    using assms(1,2) fmt2_last [OF assms(5,6)] by (intro strip_id) auto
  then show ?thesis using split_pending_written [OF assms(3-6)] by simp
qed

section \<open>Activation\<close>

lemma activated_fields [simp]:
  "rp_id (activated e c p) = rp_id p" "rp_user_id (activated e c p) = rp_user_id p"
  "rp_is_blocked (activated e c p) = rp_is_blocked p" "rp_approval_status (activated e c p) = rp_approval_status p"
  "rp_sell_subscription_status (activated e c p) = ''approved''" "rp_sell_plan (activated e c p) = Some c"
  "rp_sell_rz_pending (activated e c p) = None"
  "rp_sell_subscription_expires_at (activated e c p) = Some (plan_base e p + us_days (sell_days c))"
  by (simp_all add: activated_def)

lemma plan_base_now: "env_now e \<le> plan_base e p"
  by (auto simp: plan_base_def split: option.splits)

lemma sell_days_pos: "0 < us_days (sell_days c)"
  by (simp add: us_days_def sell_days_def)

lemma put_profile_of:
  assumes "db_wf d" "profile_of d uid = Some p" "rp_id p' = rp_id p" "rp_user_id p' = uid"
  shows "t_first (\<lambda>q. rp_user_id q = uid) (t_put rp_id p' (profiles d)) = Some p'"
  using assms by (intro t_first_put_same [where r = p]) (simp_all add: profile_of_def)

lemma activate_paid_effect:
  assumes "db_wf d" "profile_of d uid = Some p" "activate_paid e p c amount ref d = (p2, d2)"
  shows "profile_of d2 uid = Some (activated e c p)" "settings_rows d2 = settings_rows d" "orders d2 = orders d"
    "length (rows (notifications d2)) = length (rows (notifications d)) + 1" "db_wf d2"
proof -
  define d1 where "d1 = add_Notification (plan_paid_note e p c amount ref (plan_base e p + us_days (sell_days c)))
      (put_RetailerProfile (activated e c p) d)"
  have u: "rp_user_id p = uid" using assms(2) t_first_SomeD unfolding profile_of_def by fastforce
  have "(\<exists>t. d2 = d1\<lparr>invoices := t\<rparr>) \<and> (db_wf d1 \<longrightarrow> db_wf d2)"
  proof (cases "get_User d1 (rp_user_id p)")
    case None
    then have "d2 = d1" using assms(3) by (auto simp: activate_paid_def Let_def d1_def)
    then show ?thesis by (auto intro: exI [of _ "invoices d1"])
  next
    case (Some usr)
    let ?i = "issue_subscription e usr (activated e c p) c amount ref
      (isoformat (plan_base e p + us_days (sell_days c))) d1"
    have "d2 = snd ?i" using Some assms(3) by (auto simp: activate_paid_def Let_def d1_def)
    then show ?thesis
      using issue_invoice_frame [OF prod.collapse [symmetric]] issue_invoice_wf [OF prod.collapse [symmetric]]
      unfolding issue_subscription_def by blast
  qed
  moreover have "db_wf d1" using assms(1) by (simp add: d1_def)
  ultimately obtain t where t: "d2 = d1\<lparr>invoices := t\<rparr>" and wf: "db_wf d2" by blast
  show "profile_of d2 uid = Some (activated e c p)"
    using put_profile_of [OF assms(1,2), of "activated e c p"] u by (simp add: t d1_def profile_of_def)
  show "settings_rows d2 = settings_rows d" "orders d2 = orders d"
    "length (rows (notifications d2)) = length (rows (notifications d)) + 1"
    by (simp_all add: t d1_def rows_t_insert)
  show "db_wf d2" by (rule wf)
qed

text \<open>A shop with a running plan and no pending link: the status report changes nothing.\<close>

lemma approved_shop_of:
  "profile_of d (u_id user) = Some p \<Longrightarrow> \<not> rp_is_blocked p \<Longrightarrow> rp_approval_status p = ''approved''
    \<Longrightarrow> approved_shop user d = Inr p \<and> sell_shop user d = Inr p"
  by (simp add: approved_shop_def sell_shop_def)

lemma confirm_without_link:
  assumes "db_wf d" "profile_of d (u_id user) = Some p" "\<not> rp_is_blocked p" "rp_approval_status p = ''approved''"
    "rp_sell_subscription_status p = ''approved''" "rp_sell_rz_pending p = None"
  shows "\<exists>p'. profile_of (snd (confirm_sell_subscription_payment g get_link e user d)) (u_id user) = Some p'
     \<and> rp_sell_subscription_expires_at p' = rp_sell_subscription_expires_at p
     \<and> notifications (snd (confirm_sell_subscription_payment g get_link e user d)) = notifications d"
proof -
  note a = approved_shop_of [OF assms(2-4)]
  have u: "rp_user_id p = u_id user" using assms(2) t_first_SomeD unfolding profile_of_def by fastforce
  have "snd (confirm_sell_subscription_payment g get_link e user d) = snd (expire_plan e p d)"
    using a assms(5,6) by (simp add: confirm_sell_subscription_payment_def Let_def or_str_def strip_def with_status_def
        subscription_status_def case_prod_unfold split: sum.splits prod.splits)
  moreover have "profile_of (snd (expire_plan e p d)) (u_id user) = Some (fst (expire_plan e p d))"
    using assms(2) u put_profile_of [OF assms(1,2), of "p\<lparr>rp_sell_subscription_status := ''expired''\<rparr>"]
    by (simp add: expire_plan_def Let_def profile_of_def)
  ultimately show ?thesis by (simp add: expire_plan_def Let_def split: if_splits)
qed

text \<open>Property C13 (plan_paid_once): confirming a paid link gives the shop the bought plan from the end of the running
  one or from now, clears the pending link, writes one billing notification and lets the shop sell;
  confirming again, at any time and whatever the gateway says, leaves the end of the plan and the
  billing history as they are.\<close>

theorem plan_paid_once:
  assumes "db_wf d" "profile_of d (u_id user) = Some p" "\<not> rp_is_blocked p" "rp_approval_status p = ''approved''"
    and "split_pending (strip (or_str (rp_sell_rz_pending p) [])) = Some (lnk, cadence, amount)"
    and "get_payment_link g get_link lnk = Inr data" "str_lower (json_text (jget ''status'' data)) = ''paid''"
    and "plan_prices d = Inr prices" "confirm_sell_subscription_payment g get_link e user d = (r, d')"
  shows "(\<exists>j. r = Inr j) \<and> may_sell e (u_id user) d' \<and> orders d' = orders d
    \<and> length (rows (notifications d')) = length (rows (notifications d)) + 1
    \<and> (\<exists>p'. profile_of d' (u_id user) = Some p' \<and> rp_sell_plan p' = Some cadence \<and> rp_sell_rz_pending p' = None
         \<and> rp_sell_subscription_expires_at p' = Some (plan_base e p + us_days (sell_days cadence))
         \<and> env_now e < plan_base e p + us_days (sell_days cadence))
    \<and> (\<exists>p''. profile_of (snd (confirm_sell_subscription_payment g get_link2 e2 user d')) (u_id user) = Some p''
         \<and> rp_sell_subscription_expires_at p'' = Some (plan_base e p + us_days (sell_days cadence))
         \<and> notifications (snd (confirm_sell_subscription_payment g get_link2 e2 user d')) = notifications d')"
proof -
  obtain p2 d2 where act: "activate_paid e p cadence amount lnk d = (p2, d2)" by (cases "activate_paid e p cadence amount lnk d")
  note eff = activate_paid_effect [OF assms(1,2) act]
  note a = approved_shop_of [OF assms(2-4)]
  have later: "env_now e < plan_base e p + us_days (sell_days cadence)"
    using plan_base_now [of e p] sell_days_pos [of cadence] by linarith
  have s2: "sell_shop user d2 = Inr (activated e cadence p)"
    using eff(1) assms(3) by (simp add: sell_shop_def)
  have over: "expire_plan e (activated e cadence p) d2 = (activated e cadence p, d2)"
    using later by (simp add: expire_plan_def plan_over_def)
  have pr: "plan_prices d2 = Inr prices" using assms(8) eff(2) by (simp add: plan_prices_def)
  have ne: "strip (or_str (rp_sell_rz_pending p) []) \<noteq> []" using assms(5) by (auto simp: split_pending_def)
  have res: "d' = d2 \<and> (\<exists>j. r = Inr j)"
    using assms(9) a ne assms(5-7) act s2 over pr
    by (auto simp: confirm_sell_subscription_payment_def Let_def with_status_def subscription_status_def)
  have again: "rp_sell_rz_pending (activated e cadence p) = None" by simp
  show ?thesis
    using res eff assms(3,4) later
      confirm_without_link [OF eff(5,1) _ _ _ again, of g get_link2 e2]
    by (auto simp: may_sell_def)
qed

section \<open>A worked example\<close>

text \<open>The sample shop has ten days left and comes back from the payment page of a yearly plan.\<close>

definition paid_link :: "string \<Rightarrow> int \<times> string \<times> json" where
  "paid_link path = (200, [], JObj [(''id'', JStr ''plink_1''), (''status'', JStr ''paid'')])"

lemma sample_pending: "split_pending (strip (or_str (rp_sell_rz_pending corner_shop) [])) = Some (''plink_1'', ''yearly'', cents 499000)"
proof -
  have "split_pending (strip (''plink_1'' @ '':'' @ ''yearly'' @ '':'' @ fmt2 (cents 499000)))
      = Some (''plink_1'', ''yearly'', cents 499000)"
    by (rule pending_roundtrip) (simp_all add: is_space_def char_code_def money_ok_def money_bound_def)
  then show ?thesis by (simp add: corner_shop_def new_RetailerProfile_def or_str_def)
qed

lemma sample_paid: "str_lower (json_text (jget ''status'' (snd (snd (paid_link path))))) = ''paid''"
  by (simp add: paid_link_def json_text_def str_lower_def lower_char_def char_code_def)

lemma plan_paid_once_witness:
  "\<exists>j d' p'. confirm_sell_subscription_payment test_gateway paid_link sample_env corner_user sell_db = (Inr j, d')
     \<and> profile_of d' 7 = Some p' \<and> rp_sell_plan p' = Some ''yearly''
     \<and> rp_sell_subscription_expires_at p' = Some (env_now sample_env + us_days 375)"
proof -
  have base: "plan_base sample_env corner_shop + us_days (sell_days ''yearly'') = env_now sample_env + us_days 375"
    by (simp add: plan_base_def corner_shop_def new_RetailerProfile_def sample_env_def us_days_def sell_days_def)
  obtain r d' where r: "confirm_sell_subscription_payment test_gateway paid_link sample_env corner_user sell_db = (r, d')"
    by (cases "confirm_sell_subscription_payment test_gateway paid_link sample_env corner_user sell_db")
  have pr: "plan_prices sell_db = Inr (499, 4990)"
    by (simp add: plan_prices_def sell_db_def empty_db_def t_empty_def t_first_def float_or_def DEFAULT_MONTHLY_def
        DEFAULT_YEARLY_def)
  have gl: "get_payment_link test_gateway paid_link ''plink_1'' = Inr (snd (snd (paid_link ''plink_1'')))"
    by (simp add: get_payment_link_def paid_link_def)
  note once = plan_paid_once [OF sell_db_facts(1-4) sample_pending gl sample_paid pr r, of paid_link sample_env]
  have "(\<exists>j. r = Inr j) \<and> (\<exists>p'. profile_of d' (u_id corner_user) = Some p' \<and> rp_sell_plan p' = Some ''yearly''
      \<and> rp_sell_subscription_expires_at p' = Some (env_now sample_env + us_days 375))"
    using once unfolding base by blast
  then show ?thesis using r sell_db_facts(5) by auto
qed

end
