(* ===== verification/Auth.thy ===== *)
theory Auth
  imports Payments Units
begin

text \<open>
  \<open>auth_service/app/services/auth.py\<close> with \<open>presence.py\<close>, and \<open>package/common/auth/jwt.py\<close> and
  \<open>blacklist.py\<close>: one-time codes, the logins of the four roles, token pairs, rotation and
  revocation.  The state is the database, the \<open>otp_codes\<close> table, the Redis keys with the time they
  expire, the request counters, and the in-process revocation list used when Redis is off.

  Parameters of \<open>auth_cfg\<close>: the settings, bcrypt, the JWT library (\<open>jwt_decode\<close>: whether to check
  the expiry, the time in seconds, the token), the random draws, Google's token check and whether the
  SMS and mail providers accept a message.  The browser side of Google sign-in is in \<open>OAuth\<close>.
\<close>

section \<open>State\<close>

record OTPCode =
  otp_id :: int
  otp_phone :: string
  otp_code :: string
  otp_purpose :: string
  otp_expires_at :: datetime
  otp_is_used :: bool
  otp_created_at :: datetime

definition new_OTPCode :: "datetime \<Rightarrow> string \<Rightarrow> string \<Rightarrow> string \<Rightarrow> datetime \<Rightarrow> OTPCode" where
  "new_OTPCode now phone cde purpose expires = \<lparr>otp_id = 0, otp_phone = phone, otp_code = cde,
     otp_purpose = purpose, otp_expires_at = expires, otp_is_used = False, otp_created_at = now\<rparr>"

interpretation OTPCode_row: keyed_row otp_id "\<lambda>i r. r\<lparr>otp_id := i\<rparr>"
  by unfold_locales simp

record auth_state =
  au_db :: db
  au_otps :: "OTPCode table"
  au_up :: bool
  au_cache :: "string \<Rightarrow> (string \<times> datetime) option"
  au_rates :: "string \<Rightarrow> (int \<times> datetime) option"
  au_revoked :: "string \<Rightarrow> datetime option"

record claims =
  cl_sub :: string
  cl_type :: string
  cl_exp :: int
  cl_jti :: string
  cl_role :: "string option"

record google_info =
  gi_email :: "string option"
  gi_name :: "string option"
  gi_picture :: "string option"
  gi_sub :: string

record auth_cfg =
  ac_dev :: bool
  ac_dev_code :: string
  ac_otp_minutes :: int
  ac_access_minutes :: int
  ac_refresh_days :: int
  ac_hash :: "string \<Rightarrow> string"
  ac_verify :: "string \<Rightarrow> string \<Rightarrow> bool"
  jwt_encode :: "claims \<Rightarrow> string"
  jwt_decode :: "bool \<Rightarrow> int \<Rightarrow> string \<Rightarrow> claims option"
  ac_uuid :: "datetime \<Rightarrow> int \<Rightarrow> string"
  ac_google :: "string \<Rightarrow> google_info option"
  ac_sms :: "string \<Rightarrow> bool"
  ac_mail :: "string \<Rightarrow> bool"

section \<open>Redis\<close>

definition cache_get :: "env \<Rightarrow> string \<Rightarrow> auth_state \<Rightarrow> string option" where
  "cache_get e k s = (if au_up s then (case au_cache s k of
       Some (v, t) \<Rightarrow> if env_now e < t then Some v else None | None \<Rightarrow> None) else None)"

definition cache_set :: "env \<Rightarrow> string \<Rightarrow> string \<Rightarrow> int \<Rightarrow> auth_state \<Rightarrow> auth_state" where
  "cache_set e k v ttl s =
     (if au_up s then s\<lparr>au_cache := (au_cache s)(k := Some (v, env_now e + us_seconds ttl))\<rparr> else s)"

definition cache_delete :: "string \<Rightarrow> auth_state \<Rightarrow> auth_state" where
  "cache_delete k s = (if au_up s then s\<lparr>au_cache := (au_cache s)(k := None)\<rparr> else s)"

definition redis_incr :: "env \<Rightarrow> string \<Rightarrow> int \<Rightarrow> auth_state \<Rightarrow> int option \<times> auth_state" where
  "redis_incr e k ttl s =
     (if \<not> au_up s then (None, s)
      else (case au_rates s k of
        Some (n, t) \<Rightarrow> if env_now e < t then (Some (n + 1), s\<lparr>au_rates := (au_rates s)(k := Some (n + 1, t))\<rparr>)
                      else (Some 1, s\<lparr>au_rates := (au_rates s)(k := Some (1, env_now e + us_seconds ttl))\<rparr>)
      | None \<Rightarrow> (Some 1, s\<lparr>au_rates := (au_rates s)(k := Some (1, env_now e + us_seconds ttl))\<rparr>)))"

section \<open>Tokens\<close>

definition now_sec :: "env \<Rightarrow> int" where
  "now_sec e = env_now e div us_seconds 1"

definition bl_key :: "string \<Rightarrow> string" where
  "bl_key jti = ''jwt:bl:'' @ jti"

definition blacklist_jti :: "env \<Rightarrow> string \<Rightarrow> int \<Rightarrow> auth_state \<Rightarrow> auth_state" where
  "blacklist_jti e jti ttl s =
     (if jti = [] \<or> ttl \<le> 0 then s
      else if au_up s then cache_set e (bl_key jti) ''1'' ttl s
      else s\<lparr>au_revoked := (\<lambda>j. case au_revoked s j of Some t \<Rightarrow> if t \<le> env_now e then None else Some t
                                  | None \<Rightarrow> None)(jti := Some (env_now e + us_seconds ttl))\<rparr>)"

definition is_blacklisted :: "env \<Rightarrow> string \<Rightarrow> auth_state \<Rightarrow> bool" where
  "is_blacklisted e jti s \<longleftrightarrow> jti \<noteq> [] \<and>
     (cache_get e (bl_key jti) s = Some ''1''
      \<or> (case au_revoked s jti of Some t \<Rightarrow> env_now e < t | None \<Rightarrow> False))"

text \<open>\<open>ttl = int(exp - time.time())\<close>: below one second it is 0 or less, and nothing is stored.\<close>

definition blacklist_token :: "auth_cfg \<Rightarrow> env \<Rightarrow> string \<Rightarrow> auth_state \<Rightarrow> auth_state" where
  "blacklist_token c e tok s = (case jwt_decode c False (now_sec e) tok of
     None \<Rightarrow> s
   | Some p \<Rightarrow> if cl_jti p = [] \<or> cl_exp p = 0 then s
              else blacklist_jti e (cl_jti p) ((us_seconds (cl_exp p) - env_now e) div us_seconds 1) s)"

definition decode_token :: "auth_cfg \<Rightarrow> env \<Rightarrow> string \<Rightarrow> auth_state \<Rightarrow> claims option" where
  "decode_token c e tok s = (case jwt_decode c True (now_sec e) tok of
     None \<Rightarrow> None | Some p \<Rightarrow> if is_blacklisted e (cl_jti p) s then None else Some p)"

definition create_access_token :: "auth_cfg \<Rightarrow> env \<Rightarrow> string \<Rightarrow> string \<Rightarrow> string" where
  "create_access_token c e subject role = jwt_encode c
     \<lparr>cl_sub = subject, cl_type = ''access'', cl_exp = (env_now e + us_minutes (ac_access_minutes c)) div us_seconds 1,
      cl_jti = ac_uuid c (env_now e) 0, cl_role = Some role\<rparr>"

definition create_refresh_token :: "auth_cfg \<Rightarrow> env \<Rightarrow> string \<Rightarrow> string" where
  "create_refresh_token c e subject = jwt_encode c
     \<lparr>cl_sub = subject, cl_type = ''refresh'', cl_exp = (env_now e + us_days (ac_refresh_days c)) div us_seconds 1,
      cl_jti = ac_uuid c (env_now e) 1, cl_role = None\<rparr>"

record token_pair =
  tk_access :: string
  tk_refresh :: string
  tk_expires_in :: int
  tk_user :: User

definition create_token_pair :: "auth_cfg \<Rightarrow> env \<Rightarrow> User \<Rightarrow> token_pair" where
  "create_token_pair c e user = \<lparr>tk_access = create_access_token c e (show_int (u_id user)) (UserRole_value (u_role user)),
     tk_refresh = create_refresh_token c e (show_int (u_id user)), tk_expires_in = ac_access_minutes c * 60,
     tk_user = user\<rparr>"

section \<open>Presence and issuing\<close>

definition set_presence :: "env \<Rightarrow> bool \<Rightarrow> int \<Rightarrow> auth_state \<Rightarrow> auth_state" where
  "set_presence e online uid s = (case get_User (au_db s) uid of
     None \<Rightarrow> s
   | Some u \<Rightarrow> s\<lparr>au_db := put_User (u\<lparr>u_is_online := online, u_last_seen_at := Some (env_now e)\<rparr>) (au_db s)\<rparr>)"

text \<open>\<open>user\<close> is the session's object, so the presence update shows in it.\<close>

definition issue_tokens :: "auth_cfg \<Rightarrow> env \<Rightarrow> User \<Rightarrow> auth_state \<Rightarrow> token_pair \<times> auth_state" where
  "issue_tokens c e user s =
     (create_token_pair c e (user\<lparr>u_is_online := True, u_last_seen_at := Some (env_now e)\<rparr>),
      set_presence e True (u_id user) s)"

section \<open>One-time codes\<close>

definition OTP_RATE_LIMIT :: int where "OTP_RATE_LIMIT = 5"
definition OTP_RATE_WINDOW_SECONDS :: int where "OTP_RATE_WINDOW_SECONDS = 600"

definition auth_phone :: "string \<Rightarrow> string" where
  "auth_phone phone =
     (let digits = filter is_digit_char phone
      in if length digits = 10 then ''+91'' @ digits
         else if starts_with ''+'' phone then phone else ''+'' @ digits)"

text \<open>A drawn code is keyed by the row it is stored in.\<close>

definition otp_draw :: "auth_cfg \<Rightarrow> env \<Rightarrow> auth_state \<Rightarrow> string" where
  "otp_draw c e s = (if ac_dev c \<and> ac_dev_code c \<noteq> [] then ac_dev_code c else draw_token e (next_id (au_otps s)))"

definition otp_key :: "string \<Rightarrow> string \<Rightarrow> string" where
  "otp_key purpose phone = ''otp:'' @ purpose @ '':'' @ phone"

definition add_otp :: "OTPCode \<Rightarrow> auth_state \<Rightarrow> auth_state" where
  "add_otp r s = s\<lparr>au_otps := t_insert (\<lambda>i r. r\<lparr>otp_id := i\<rparr>) r (au_otps s)\<rparr>"

definition use_otp :: "OTPCode \<Rightarrow> auth_state \<Rightarrow> auth_state" where
  "use_otp r s = s\<lparr>au_otps := t_put otp_id (r\<lparr>otp_is_used := True\<rparr>) (au_otps s)\<rparr>"

definition store_code :: "auth_cfg \<Rightarrow> env \<Rightarrow> string \<Rightarrow> string \<Rightarrow> auth_state \<Rightarrow> string \<times> auth_state" where
  "store_code c e phone purpose s =
     (let cde = otp_draw c e s
      in (cde, cache_set e (otp_key purpose phone) cde (ac_otp_minutes c * 60)
            (add_otp (new_OTPCode (env_now e) phone cde purpose (env_now e + us_minutes (ac_otp_minutes c))) s)))"

definition user_by_phone :: "db \<Rightarrow> string \<Rightarrow> User option" where
  "user_by_phone d phone = t_first (\<lambda>u. u_phone u = phone) (users d)"

definition user_by_email :: "db \<Rightarrow> string \<Rightarrow> User option" where
  "user_by_email d email = t_first (\<lambda>u. u_email u = Some email) (users d)"

record otp_reply =
  or_phone :: string
  or_sms_sent :: bool
  or_email_sent :: bool
  or_dev_otp :: "string option"

definition send_otp :: "auth_cfg \<Rightarrow> env \<Rightarrow> string \<Rightarrow> string \<Rightarrow> string option \<Rightarrow> auth_state \<Rightarrow> (exc + otp_reply) \<times> auth_state" where
  "send_otp c e phone0 purpose email s =
     (let phone = auth_phone phone0;
          (n, s1) = redis_incr e (''otp:rl:'' @ phone) OTP_RATE_WINDOW_SECONDS s
      in if (case n of Some k \<Rightarrow> OTP_RATE_LIMIT < k | None \<Rightarrow> False)
         then (Inl (AppExc (RateLimitError (Msg ''Too many OTP requests. Try again in a few minutes.''))), s1)
         else let (cde, s2) = store_code c e phone purpose s1
              in if ac_dev c then (Inr \<lparr>or_phone = phone, or_sms_sent = False, or_email_sent = False, or_dev_otp = Some cde\<rparr>, s2)
                 else let target = (if truthy_str email then email
                            else (case user_by_phone (au_db s2) phone of None \<Rightarrow> None | Some u \<Rightarrow> u_email u))
                      in (Inr \<lparr>or_phone = phone, or_sms_sent = ac_sms c phone,
                            or_email_sent = truthy_str target \<and> ac_mail c (the target), or_dev_otp = None\<rparr>, s2))"

text \<open>The last unused row of a phone with the code; a code still in Redis needs no row.\<close>

definition unused_otp :: "string \<Rightarrow> string \<Rightarrow> string option \<Rightarrow> OTPCode \<Rightarrow> bool" where
  "unused_otp phone cde purpose r \<longleftrightarrow> otp_phone r = phone \<and> otp_code r = cde \<and> \<not> otp_is_used r
     \<and> (truthy_str purpose \<longrightarrow> otp_purpose r = the purpose)"

definition check_otp :: "env \<Rightarrow> string \<Rightarrow> string \<Rightarrow> string option \<Rightarrow> auth_state \<Rightarrow> (exc + OTPCode) \<times> auth_state" where
  "check_otp e phone cde purpose s =
     (let pname = or_str purpose ''login''; cached = cache_get e (otp_key pname phone) s
      in if truthy_str cached \<and> cached = Some cde
         then (case t_last (unused_otp phone cde None) (au_otps s) of
                 Some r \<Rightarrow> (Inr r, s)
               | None \<Rightarrow> let r = new_OTPCode (env_now e) phone cde pname (env_now e + us_minutes 1)
                         in (Inr (r\<lparr>otp_id := next_id (au_otps s)\<rparr>), add_otp r s))
         else (case t_last (unused_otp phone cde purpose) (au_otps s) of
                 None \<Rightarrow> (Inl (bad_request ''Invalid or expired OTP''), s)
               | Some r \<Rightarrow> if otp_expires_at r < env_now e then (Inl (bad_request ''Invalid or expired OTP''), s)
                          else (Inr r, s)))"

text \<open>Both Redis keys of a login code are deleted before anything is committed.\<close>

definition drop_login_keys :: "string \<Rightarrow> OTPCode \<Rightarrow> auth_state \<Rightarrow> auth_state" where
  "drop_login_keys phone r s = cache_delete (otp_key (otp_purpose r) phone) (cache_delete (otp_key ''login'' phone) s)"

end
