(* ===== verification/Logins.thy ===== *)
theory Logins
  imports Auth
begin

text \<open>
  \<open>auth_service/app/services/auth.py\<close>: the logins built on the codes and tokens of \<open>Auth\<close>, the
  registration of the administrator, password reset, token rotation and logout.
\<close>

definition add_user :: "User \<Rightarrow> auth_state \<Rightarrow> auth_state" where
  "add_user u s = s\<lparr>au_db := add_User u (au_db s)\<rparr>"

definition put_user :: "User \<Rightarrow> auth_state \<Rightarrow> auth_state" where
  "put_user u s = s\<lparr>au_db := put_User u (au_db s)\<rparr>"

definition key_user :: "User \<Rightarrow> auth_state \<Rightarrow> User" where
  "key_user u s = key_User u (au_db s)"

section \<open>Customers\<close>

definition new_customer :: "env \<Rightarrow> string \<Rightarrow> string option \<Rightarrow> string option \<Rightarrow> bool \<Rightarrow> User" where
  "new_customer e phone name email terms = (new_User (env_now e) phone)
     \<lparr>u_name := Some (or_str name ''Guest User''), u_email := email, u_role := UR_CUSTOMER, u_terms_accepted := terms\<rparr>"

definition greet_customer :: "string option \<Rightarrow> string option \<Rightarrow> bool \<Rightarrow> User \<Rightarrow> User" where
  "greet_customer name email terms u = u
     \<lparr>u_name := (if truthy_str name then name else u_name u),
      u_email := (if truthy_str email then email else u_email u),
      u_terms_accepted := (terms \<or> u_terms_accepted u)\<rparr>"

text \<open>After a failed check the used mark of the code is rolled back; the Redis keys stay deleted.\<close>

definition verify_otp_and_login :: "auth_cfg \<Rightarrow> env \<Rightarrow> string \<Rightarrow> string \<Rightarrow> string option \<Rightarrow> string option \<Rightarrow> bool
    \<Rightarrow> auth_state \<Rightarrow> (exc + token_pair) \<times> auth_state" where
  "verify_otp_and_login c e phone0 cde name email terms s =
     (let phone = auth_phone phone0
      in case check_otp e phone cde None s of
           (Inl ex, s1) \<Rightarrow> (Inl ex, s1)
         | (Inr r, s1) \<Rightarrow>
             let s2 = drop_login_keys phone r s1; s3 = use_otp r s2
             in (case user_by_phone (au_db s1) phone of
                   None \<Rightarrow>
                     if \<not> terms then (Inl (bad_request ''Accept terms and privacy policy''), s2)
                     else let u = new_customer e phone name email terms; (t, s4) = issue_tokens c e (key_user u s3) (add_user u s3)
                          in (Inr t, s4)
                 | Some u \<Rightarrow>
                     if u_role u \<noteq> UR_CUSTOMER
                     then (Inl (forbidden (''Use the '' @ UserRole_value (u_role u) @ '' login endpoint for this account'')), s2)
                     else let u2 = greet_customer name email terms u; (t, s4) = issue_tokens c e u2 (put_user u2 s3)
                          in (Inr t, s4)))"

definition last10 :: "string \<Rightarrow> string" where
  "last10 s = drop (length s - 10) s"

definition google_login :: "auth_cfg \<Rightarrow> env \<Rightarrow> string \<Rightarrow> bool \<Rightarrow> auth_state \<Rightarrow> (exc + token_pair) \<times> auth_state" where
  "google_login c e id_token terms s = (case ac_google c id_token of
     None \<Rightarrow> (Inl (unauthorized ''Invalid Google token. Use Continue with Google (browser sign-in), or check GOOGLE_CLIENT_ID.''), s)
   | Some info \<Rightarrow>
       if \<not> truthy_str (gi_email info)
       then (Inl (unauthorized ''Invalid Google token. Use Continue with Google (browser sign-in), or check GOOGLE_CLIENT_ID.''), s)
       else let email = the (gi_email info) in (case user_by_email (au_db s) email of
         None \<Rightarrow>
           if \<not> terms then (Inl (bad_request ''Accept terms and privacy policy''), s)
           else let phone = ''+91G'' @ last10 (gi_sub info);
                    u = (new_User (env_now e) phone)
                      \<lparr>u_name := Some (or_str (gi_name info) (takeWhile (\<lambda>ch. ch \<noteq> CHR ''@'') email)), u_email := Some email,
                       u_avatar_url := gi_picture info, u_role := UR_CUSTOMER, u_terms_accepted := True\<rparr>
                in if user_by_phone (au_db s) phone \<noteq> None then (Inl (PyExc ''IntegrityError''), s)
                   else let (t, s2) = issue_tokens c e (key_user u s) (add_user u s) in (Inr t, s2)
       | Some u \<Rightarrow>
           if u_role u \<noteq> UR_CUSTOMER then (Inl (forbidden ''Google login is for customers only''), s)
           else let u2 = u\<lparr>u_name := (if truthy_str (gi_name info) then gi_name info else u_name u),
                           u_avatar_url := (if truthy_str (gi_picture info) then gi_picture info else u_avatar_url u)\<rparr>;
                    (t, s2) = issue_tokens c e u2 (put_user u2 s)
                in (Inr t, s2)))"

text \<open>\<open>strftime('%H%M%S%f')[:10]\<close>\<close>

definition guest_phone :: "env \<Rightarrow> string" where
  "guest_phone e = (let us = env_now e mod us_days 1; sec = us div 1000000
     in ''+91GUEST'' @ take 10 (pad 2 (sec div 3600) @ pad 2 (sec div 60 mod 60) @ pad 2 (sec mod 60) @ pad 6 (us mod 1000000)))"

definition guest_login :: "auth_cfg \<Rightarrow> env \<Rightarrow> auth_state \<Rightarrow> (exc + token_pair) \<times> auth_state" where
  "guest_login c e s =
     (let u = (new_User (env_now e) (guest_phone e))\<lparr>u_name := Some ''Guest'', u_role := UR_CUSTOMER, u_is_guest := True,
                u_terms_accepted := True\<rparr>
      in if user_by_phone (au_db s) (guest_phone e) \<noteq> None then (Inl (PyExc ''IntegrityError''), s)
         else (Inr (create_token_pair c e (key_user u s)), add_user u s))"

section \<open>The administrator\<close>

definition get_admin :: "db \<Rightarrow> User option" where
  "get_admin d = t_first (\<lambda>u. u_role u = UR_ADMIN) (users d)"

definition admin_by_phone :: "db \<Rightarrow> string \<Rightarrow> User option" where
  "admin_by_phone d phone = t_first (\<lambda>u. u_phone u = phone \<and> u_role u = UR_ADMIN) (users d)"

definition admin_by_email :: "db \<Rightarrow> string \<Rightarrow> User option" where
  "admin_by_email d email = t_first (\<lambda>u. u_email u = Some email \<and> u_role u = UR_ADMIN) (users d)"

definition admin_exists :: "auth_state \<Rightarrow> bool" where
  "admin_exists s \<longleftrightarrow> get_admin (au_db s) \<noteq> None"

record admin_status =
  as_admin_exists :: bool
  as_registration_open :: bool
  as_email_verified :: bool
  as_email :: "string option"

definition admin_registration_status :: "auth_state \<Rightarrow> admin_status" where
  "admin_registration_status s = (case get_admin (au_db s) of
     None \<Rightarrow> \<lparr>as_admin_exists = False, as_registration_open = True, as_email_verified = False, as_email = None\<rparr>
   | Some a \<Rightarrow> \<lparr>as_admin_exists = True, as_registration_open = False, as_email_verified = u_email_verified a,
        as_email = (if u_email_verified a then None else u_email a)\<rparr>)"

definition admin_row :: "auth_cfg \<Rightarrow> env \<Rightarrow> string \<Rightarrow> string \<Rightarrow> string \<Rightarrow> string \<Rightarrow> User" where
  "admin_row c e name phone email password = (new_User (env_now e) phone)
     \<lparr>u_name := Some (strip name), u_email := Some email, u_email_verified := False,
      u_password_hash := Some (ac_hash c password), u_role := UR_ADMIN, u_terms_accepted := True, u_is_active := True\<rparr>"

text \<open>The reply always carries the code.\<close>

definition admin_register :: "auth_cfg \<Rightarrow> env \<Rightarrow> string \<Rightarrow> string \<Rightarrow> string \<Rightarrow> string \<Rightarrow> auth_state
    \<Rightarrow> (exc + otp_reply) \<times> auth_state" where
  "admin_register c e name phone0 email0 password s =
     (if admin_exists s then (Inl (conflict ''Admin already registered. Please sign in.''), s)
      else let phone = auth_phone phone0; email = str_lower (strip email0)
      in if user_by_phone (au_db s) phone \<noteq> None then (Inl (bad_request ''Phone already in use''), s)
         else if user_by_email (au_db s) email \<noteq> None then (Inl (bad_request ''Email already in use''), s)
         else if py_len password < 6 then (Inl (bad_request ''Password must be at least 6 characters''), s)
         else let s1 = add_user (admin_row c e name phone email password) s;
                  (cde, s2) = store_code c e phone ''admin_confirm'' s1
              in (Inr \<lparr>or_phone = phone, or_sms_sent = False, or_email_sent = ac_mail c email, or_dev_otp = Some cde\<rparr>, s2))"

definition admin_confirm_email :: "auth_cfg \<Rightarrow> env \<Rightarrow> string \<Rightarrow> string \<Rightarrow> auth_state \<Rightarrow> (exc + string) \<times> auth_state" where
  "admin_confirm_email c e email0 cde s = (case admin_by_email (au_db s) (str_lower (strip email0)) of
     None \<Rightarrow> (Inl (not_found ''Admin account not found''), s)
   | Some u \<Rightarrow>
       if u_email_verified u then (Inr ''Email already confirmed'', s)
       else (case check_otp e (u_phone u) cde (Some ''admin_confirm'') s of
         (Inl ex, s1) \<Rightarrow> (Inl ex, s1)
       | (Inr r, s1) \<Rightarrow>
           (Inr ''Email confirmed. You can sign in now.'',
            cache_delete (otp_key ''admin_confirm'' (u_phone u)) (put_user (u\<lparr>u_email_verified := True\<rparr>) (use_otp r s1)))))"

definition admin_resend_confirmation :: "auth_cfg \<Rightarrow> env \<Rightarrow> string \<Rightarrow> auth_state \<Rightarrow> (exc + string option) \<times> auth_state" where
  "admin_resend_confirmation c e email0 s = (let email = str_lower (strip email0) in
     case admin_by_email (au_db s) email of
       None \<Rightarrow> (Inl (not_found ''Admin account not found''), s)
     | Some u \<Rightarrow>
         if u_email_verified u then (Inr None, s)
         else let (cde, s1) = store_code c e (u_phone u) ''admin_confirm'' s
              in (Inr (if ac_dev c \<or> \<not> ac_mail c email then Some cde else None), s1))"

definition password_ok :: "auth_cfg \<Rightarrow> string \<Rightarrow> User \<Rightarrow> bool" where
  "password_ok c password u \<longleftrightarrow> truthy_str (u_password_hash u) \<and> ac_verify c password (the (u_password_hash u))"

definition admin_login :: "auth_cfg \<Rightarrow> env \<Rightarrow> string \<Rightarrow> string option \<Rightarrow> string option \<Rightarrow> auth_state
    \<Rightarrow> (exc + token_pair) \<times> auth_state" where
  "admin_login c e password phone email s =
     (if \<not> truthy_str phone \<and> \<not> truthy_str email then (Inl (bad_request ''Phone or email is required''), s)
      else (case (if truthy_str phone then admin_by_phone (au_db s) (auth_phone (the phone))
                  else admin_by_email (au_db s) (str_lower (strip (the email)))) of
        None \<Rightarrow> (Inl (unauthorized ''Invalid credentials''), s)
      | Some u \<Rightarrow>
          if \<not> password_ok c password u then (Inl (unauthorized ''Invalid credentials''), s)
          else if \<not> u_is_active u then (Inl (forbidden ''Account disabled''), s)
          else if \<not> u_email_verified u
          then (Inl (forbidden ''Confirm your email before signing in. Check your inbox for the code.''), s)
          else let (t, s2) = issue_tokens c e u s in (Inr t, s2)))"

definition admin_otp_login :: "auth_cfg \<Rightarrow> env \<Rightarrow> string \<Rightarrow> string \<Rightarrow> auth_state \<Rightarrow> (exc + token_pair) \<times> auth_state" where
  "admin_otp_login c e phone0 cde s = (let phone = auth_phone phone0 in
     case admin_by_phone (au_db s) phone of
       None \<Rightarrow> (Inl (forbidden ''Admin account not found''), s)
     | Some u \<Rightarrow>
         if \<not> u_email_verified u then (Inl (forbidden ''Confirm your email before signing in''), s)
         else (case check_otp e phone cde None s of
           (Inl ex, s1) \<Rightarrow> (Inl ex, s1)
         | (Inr r, s1) \<Rightarrow> let (t, s2) = issue_tokens c e u (use_otp r (drop_login_keys phone r s1)) in (Inr t, s2)))"

section \<open>Retailers and riders\<close>

definition stub_profile :: "env \<Rightarrow> User \<Rightarrow> RetailerProfile" where
  "stub_profile e u = (new_RetailerProfile (env_now e) (u_id u) ''My Shop'')
     \<lparr>rp_owner_name := u_name u,
      rp_contact_phone := (if starts_with ''+91R'' (u_phone u) \<or> u_phone u = [] then None else Some (u_phone u)),
      rp_shop_logo_url := u_avatar_url u, rp_credit_allowed := False, rp_credit_limit := 0,
      rp_outstanding_balance := 0, rp_is_blocked := False, rp_approval_status := ''incomplete'', rp_is_open := True\<rparr>"

definition ensure_retailer_stub :: "env \<Rightarrow> User \<Rightarrow> db \<Rightarrow> db" where
  "ensure_retailer_stub e u d = (case profile_of d (u_id u) of
     None \<Rightarrow> add_RetailerProfile (stub_profile e u) d
   | Some p \<Rightarrow>
       let name_new = truthy_str (u_name u) \<and> (\<not> truthy_str (rp_owner_name p) \<or> rp_owner_name p = Some ''Shop Owner'');
           logo_new = truthy_str (u_avatar_url u) \<and> \<not> truthy_str (rp_shop_logo_url p)
       in if name_new \<or> logo_new
          then put_RetailerProfile (p\<lparr>rp_owner_name := (if name_new then u_name u else rp_owner_name p),
                 rp_shop_logo_url := (if logo_new then u_avatar_url u else rp_shop_logo_url p)\<rparr>) d
          else d)"

definition retailer_gate :: "RetailerProfile option \<Rightarrow> exc + unit" where
  "retailer_gate p = (case p of
     None \<Rightarrow> Inr ()
   | Some q \<Rightarrow> if rp_approval_status q = ''rejected''
              then Inl (forbidden ''Shop registration was rejected. Contact the bakery owner.'')
              else if rp_is_blocked q then Inl (forbidden ''Shop is blocked'') else Inr ())"

definition gated_tokens :: "auth_cfg \<Rightarrow> env \<Rightarrow> User \<Rightarrow> auth_state \<Rightarrow> (exc + token_pair) \<times> auth_state" where
  "gated_tokens c e u s = (case retailer_gate (profile_of (au_db s) (u_id u)) of
     Inl ex \<Rightarrow> (Inl ex, s)
   | Inr _ \<Rightarrow> let (t, s2) = issue_tokens c e u s in (Inr t, s2))"

definition with_stub :: "env \<Rightarrow> User \<Rightarrow> auth_state \<Rightarrow> auth_state" where
  "with_stub e u s = s\<lparr>au_db := ensure_retailer_stub e u (au_db s)\<rparr>"

definition retailer_otp_login :: "auth_cfg \<Rightarrow> env \<Rightarrow> string \<Rightarrow> string \<Rightarrow> string option \<Rightarrow> bool \<Rightarrow> auth_state
    \<Rightarrow> (exc + token_pair) \<times> auth_state" where
  "retailer_otp_login c e phone0 cde name terms s =
     (let phone = auth_phone phone0
      in case check_otp e phone cde None s of
           (Inl ex, s1) \<Rightarrow> (Inl ex, s1)
         | (Inr r, s1) \<Rightarrow>
             let s2 = drop_login_keys phone r s1; s3 = use_otp r s2
             in (case user_by_phone (au_db s1) phone of
                   None \<Rightarrow>
                     if \<not> terms then (Inl (bad_request ''Accept terms and privacy policy''), s2)
                     else let u = (new_User (env_now e) phone)\<lparr>u_name := Some (strip (or_str name ''Shop Owner'')),
                                    u_role := UR_RETAILER, u_terms_accepted := True, u_is_active := True, u_is_online := False\<rparr>
                          in gated_tokens c e (key_user u s3) (with_stub e (key_user u s3) (add_user u s3))
                 | Some u \<Rightarrow>
                     if u_role u \<noteq> UR_RETAILER
                     then (Inl (forbidden (''Use the '' @ UserRole_value (u_role u) @ '' login for this account'')), s2)
                     else let u2 = u\<lparr>u_name := (if truthy_str name then Some (strip (the name)) else u_name u),
                                     u_terms_accepted := (terms \<or> u_terms_accepted u)\<rparr>
                          in gated_tokens c e u2 (with_stub e u2 (put_user u2 s3))))"

definition new_google_retailer :: "env \<Rightarrow> string \<Rightarrow> string \<Rightarrow> google_info \<Rightarrow> User" where
  "new_google_retailer e phone email info = (new_User (env_now e) phone)
     \<lparr>u_name := Some (or_str (gi_name info) (takeWhile (\<lambda>ch. ch \<noteq> CHR ''@'') email)), u_email := Some email,
      u_email_verified := True, u_avatar_url := gi_picture info, u_role := UR_RETAILER, u_terms_accepted := True,
      u_is_active := True, u_is_online := False\<rparr>"

definition google_greeting :: "bool \<Rightarrow> string \<Rightarrow> string" where
  "google_greeting is_new status_val =
     (if is_new then ''Google registration successful. Complete your shop profile and KYC, then send for owner approval.''
      else if status_val = ''incomplete'' then ''Welcome back. Finish your shop profile to submit for approval.''
      else if status_val = ''pending'' then ''Welcome back. Your shop is awaiting owner approval.''
      else ''Welcome back. You are signed in with Google.'')"

record google_reply =
  gr_tokens :: token_pair
  gr_is_new :: bool
  gr_approval_status :: string
  gr_message :: string

definition google_welcome :: "auth_cfg \<Rightarrow> env \<Rightarrow> bool \<Rightarrow> User \<Rightarrow> auth_state \<Rightarrow> (exc + google_reply) \<times> auth_state" where
  "google_welcome c e is_new u s =
     (let s1 = with_stub e u s;
          status_val = (case profile_of (au_db s1) (u_id u) of None \<Rightarrow> ''incomplete'' | Some p \<Rightarrow> rp_approval_status p)
      in (case gated_tokens c e u s1 of
            (Inl ex, s2) \<Rightarrow> (Inl ex, s2)
          | (Inr t, s2) \<Rightarrow> (Inr \<lparr>gr_tokens = t, gr_is_new = is_new, gr_approval_status = status_val,
                               gr_message = google_greeting is_new status_val\<rparr>, s2)))"

text \<open>The phone drawn when the first choice is taken is keyed by the row it is stored in.\<close>

definition retailer_google_tokens_for_info :: "auth_cfg \<Rightarrow> env \<Rightarrow> google_info \<Rightarrow> bool \<Rightarrow> auth_state
    \<Rightarrow> (exc + google_reply) \<times> auth_state" where
  "retailer_google_tokens_for_info c e info is_new_hint s =
     (let email = the (gi_email info) in (case user_by_email (au_db s) email of
        None \<Rightarrow>
          let first = ''+91R'' @ last10 (gi_sub info);
              phone = (if user_by_phone (au_db s) first \<noteq> None
                       then ''+91R'' @ take 10 (draw_token e (next_id (users (au_db s)))) else first)
          in if user_by_phone (au_db s) phone \<noteq> None then (Inl (PyExc ''IntegrityError''), s)
             else let u = new_google_retailer e phone email info
                  in google_welcome c e True (key_user u s) (add_user u s)
      | Some u \<Rightarrow>
          if u_role u \<noteq> UR_RETAILER
          then (Inl (forbidden (''This Google account is already registered as '' @ UserRole_value (u_role u)
                 @ ''. Use a different Google account for retailer sign-in.'')), s)
          else let u2 = u\<lparr>u_name := (if truthy_str (gi_name info) then gi_name info else u_name u),
                          u_avatar_url := (if truthy_str (gi_picture info) then gi_picture info else u_avatar_url u),
                          u_email_verified := True\<rparr>
               in google_welcome c e is_new_hint u2 (put_user u2 s)))"

definition retailer_google_login :: "auth_cfg \<Rightarrow> env \<Rightarrow> string \<Rightarrow> bool \<Rightarrow> auth_state \<Rightarrow> (exc + google_reply) \<times> auth_state" where
  "retailer_google_login c e id_token terms s =
     (if \<not> terms then (Inl (bad_request ''Accept terms and privacy policy''), s)
      else (case ac_google c id_token of
        None \<Rightarrow> (Inl (unauthorized ''Invalid Google token. Use Continue with Google (browser sign-in), or check GOOGLE_CLIENT_ID.''), s)
      | Some info \<Rightarrow>
          if \<not> truthy_str (gi_email info)
          then (Inl (unauthorized ''Invalid Google token. Use Continue with Google (browser sign-in), or check GOOGLE_CLIENT_ID.''), s)
          else retailer_google_tokens_for_info c e info False s))"

text \<open>A password or a code; a code used is committed before the shop is looked at.\<close>

definition prove_identity :: "auth_cfg \<Rightarrow> env \<Rightarrow> string \<Rightarrow> string \<Rightarrow> User \<Rightarrow> string option \<Rightarrow> string option \<Rightarrow> auth_state
    \<Rightarrow> (exc + unit) \<times> auth_state" where
  "prove_identity c e msg phone u password cde s =
     (if truthy_str password
      then (if password_ok c (the password) u then (Inr (), s) else (Inl (unauthorized msg), s))
      else if truthy_str cde
      then (case check_otp e phone (the cde) None s of
              (Inl ex, s1) \<Rightarrow> (Inl ex, s1)
            | (Inr r, s1) \<Rightarrow> (Inr (), use_otp r (drop_login_keys phone r s1)))
      else (Inl (bad_request ''Provide password or OTP code''), s))"

definition role_user :: "db \<Rightarrow> string \<Rightarrow> UserRole \<Rightarrow> User option" where
  "role_user d phone role = t_first (\<lambda>u. u_phone u = phone \<and> u_role u = role) (users d)"

definition retailer_login :: "auth_cfg \<Rightarrow> env \<Rightarrow> string \<Rightarrow> string option \<Rightarrow> string option \<Rightarrow> auth_state
    \<Rightarrow> (exc + token_pair) \<times> auth_state" where
  "retailer_login c e phone0 password cde s = (let phone = auth_phone phone0 in
     case role_user (au_db s) phone UR_RETAILER of
       None \<Rightarrow> (Inl (unauthorized ''Invalid retailer credentials''), s)
     | Some u \<Rightarrow>
         if \<not> u_is_active u then (Inl (unauthorized ''Invalid retailer credentials''), s)
         else (case prove_identity c e ''Invalid retailer credentials'' phone u password cde s of
           (Inl ex, s1) \<Rightarrow> (Inl ex, s1) | (Inr _, s1) \<Rightarrow> gated_tokens c e u s1))"

definition delivery_login :: "auth_cfg \<Rightarrow> env \<Rightarrow> string \<Rightarrow> string option \<Rightarrow> string option \<Rightarrow> auth_state
    \<Rightarrow> (exc + token_pair) \<times> auth_state" where
  "delivery_login c e phone0 password cde s = (let phone = auth_phone phone0 in
     case role_user (au_db s) phone UR_DELIVERY of
       None \<Rightarrow> (Inl (unauthorized ''Invalid delivery credentials''), s)
     | Some u \<Rightarrow>
         if \<not> u_is_active u then (Inl (unauthorized ''Invalid delivery credentials''), s)
         else (case prove_identity c e ''Invalid delivery credentials'' phone u password cde s of
           (Inl ex, s1) \<Rightarrow> (Inl ex, s1) | (Inr _, s1) \<Rightarrow> let (t, s2) = issue_tokens c e u s1 in (Inr t, s2)))"

section \<open>Passwords and sessions\<close>

definition reset_password :: "auth_cfg \<Rightarrow> env \<Rightarrow> string \<Rightarrow> string \<Rightarrow> string \<Rightarrow> auth_state \<Rightarrow> (exc + string) \<times> auth_state" where
  "reset_password c e phone0 cde new_password s = (let phone = auth_phone phone0 in
     case check_otp e phone cde (Some ''reset'') s of
       (Inl ex, s1) \<Rightarrow> (Inl ex, s1)
     | (Inr r, s1) \<Rightarrow> (case user_by_phone (au_db s1) phone of
         None \<Rightarrow> (Inl (not_found ''User not found''), s1)
       | Some u \<Rightarrow> (Inr ''Password updated'',
           put_user (u\<lparr>u_password_hash := Some (ac_hash c new_password)\<rparr>)
             (cache_delete (otp_key ''reset'' phone) (use_otp r s1)))))"

definition refresh_tokens :: "auth_cfg \<Rightarrow> env \<Rightarrow> string \<Rightarrow> auth_state \<Rightarrow> (exc + token_pair) \<times> auth_state" where
  "refresh_tokens c e tok s = (case decode_token c e tok s of
     None \<Rightarrow> (Inl (unauthorized ''Invalid or revoked refresh token''), s)
   | Some p \<Rightarrow>
       if cl_type p \<noteq> ''refresh'' then (Inl (unauthorized ''Invalid or revoked refresh token''), s)
       else (case py_int (cl_sub p) of
         None \<Rightarrow> (Inl (PyExc ''ValueError''), s)
       | Some uid \<Rightarrow> (case get_User (au_db s) uid of
           None \<Rightarrow> (Inl (unauthorized ''User inactive''), s)
         | Some u \<Rightarrow>
             if \<not> u_is_active u then (Inl (unauthorized ''User inactive''), s)
             else let (t, s2) = issue_tokens c e u (blacklist_token c e tok s) in (Inr t, s2))))"

definition logout :: "auth_cfg \<Rightarrow> env \<Rightarrow> User \<Rightarrow> string option \<Rightarrow> string option \<Rightarrow> auth_state \<Rightarrow> string \<times> auth_state" where
  "logout c e user access refresh s =
     (let s1 = (if truthy_str access then blacklist_token c e (the access) s else s);
          s2 = (if truthy_str refresh then blacklist_token c e (the refresh) s1 else s1)
      in (''Logged out'', set_presence e False (u_id user) s2))"

end
