(* ===== verification/AuthLaws.thy ===== *)
theory AuthLaws
  imports Logins
begin

text \<open>
  What the logins guarantee: a one-time code logs in once, a refresh token is good for one rotation,
  and there is never a second administrator.  \<open>auth_step\<close> is any operation of the service at a time
  not before the last one.
\<close>

section \<open>Frames\<close>

lemma cache_fields [simp]:
  "au_db (cache_set e k v n s) = au_db s" "au_otps (cache_set e k v n s) = au_otps s" "au_up (cache_set e k v n s) = au_up s"
  "au_revoked (cache_set e k v n s) = au_revoked s" "au_db (cache_delete k s) = au_db s"
  "au_otps (cache_delete k s) = au_otps s" "au_up (cache_delete k s) = au_up s"
  "au_revoked (cache_delete k s) = au_revoked s"
  by (simp_all add: cache_set_def cache_delete_def)

lemma cache_other [simp]:
  "k \<noteq> j \<Longrightarrow> au_cache (cache_set e k v n s) j = au_cache s j" "k \<noteq> j \<Longrightarrow> au_cache (cache_delete k s) j = au_cache s j"
  by (simp_all add: cache_set_def cache_delete_def)

lemma otp_key_not_bl [simp]: "otp_key p ph \<noteq> bl_key j"
  by (simp add: otp_key_def bl_key_def)

lemma state_fields [simp]:
  "au_up (add_otp r s) = au_up s" "au_cache (add_otp r s) = au_cache s" "au_revoked (add_otp r s) = au_revoked s"
  "au_db (add_otp r s) = au_db s" "au_up (use_otp r s) = au_up s" "au_cache (use_otp r s) = au_cache s"
  "au_revoked (use_otp r s) = au_revoked s" "au_db (use_otp r s) = au_db s"
  "au_up (add_user u s) = au_up s" "au_cache (add_user u s) = au_cache s" "au_revoked (add_user u s) = au_revoked s"
  "au_otps (add_user u s) = au_otps s" "au_db (add_user u s) = add_User u (au_db s)"
  "au_up (put_user u s) = au_up s" "au_cache (put_user u s) = au_cache s" "au_revoked (put_user u s) = au_revoked s"
  "au_otps (put_user u s) = au_otps s" "au_db (put_user u s) = put_User u (au_db s)"
  "au_up (with_stub e u s) = au_up s" "au_cache (with_stub e u s) = au_cache s"
  "au_revoked (with_stub e u s) = au_revoked s" "au_otps (with_stub e u s) = au_otps s"
  "au_db (with_stub e u s) = ensure_retailer_stub e u (au_db s)"
  by (simp_all add: add_otp_def use_otp_def add_user_def put_user_def with_stub_def)

lemma presence_fields [simp]:
  "au_up (set_presence e b k s) = au_up s" "au_cache (set_presence e b k s) = au_cache s"
  "au_revoked (set_presence e b k s) = au_revoked s" "au_otps (set_presence e b k s) = au_otps s"
  by (simp_all add: set_presence_def split: option.splits)

lemma drop_fields [simp]:
  "au_up (drop_login_keys ph r s) = au_up s" "au_revoked (drop_login_keys ph r s) = au_revoked s"
  "au_otps (drop_login_keys ph r s) = au_otps s" "au_db (drop_login_keys ph r s) = au_db s"
  "au_cache (drop_login_keys ph r s) (bl_key j) = au_cache s (bl_key j)"
  by (simp_all add: drop_login_keys_def)

lemma check_fields:
  assumes "check_otp e ph cde p s = (r, s')"
  shows "au_up s' = au_up s" "au_cache s' = au_cache s" "au_revoked s' = au_revoked s" "au_db s' = au_db s"
  using assms by (auto simp: check_otp_def Let_def split: option.splits if_splits)

lemma blacklist_fields [simp]:
  "au_up (blacklist_token c e tok s) = au_up s" "au_db (blacklist_token c e tok s) = au_db s"
  "au_otps (blacklist_token c e tok s) = au_otps s"
  by (simp_all add: blacklist_token_def blacklist_jti_def split: option.splits)

section \<open>Codes\<close>

lemma check_otpE:
  assumes "check_otp e ph cde None s = (Inr r, s')"
  obtains (row) "s' = s" "t_last (unused_otp ph cde None) (au_otps s) = Some r"
  | (cached) r0 where "s' = add_otp r0 s" "r = r0\<lparr>otp_id := next_id (au_otps s)\<rparr>"
      "t_last (unused_otp ph cde None) (au_otps s) = None"
  using assms by (auto simp: check_otp_def Let_def split: option.splits if_splits)

lemma t_last_single:
  assumes "t_last P t = Some r" "length (filter P (rows t)) \<le> 1" "x \<in> set (rows t)" "P x"
  shows "x = r"
proof -
  have "r \<in> set (filter P (rows t))" "x \<in> set (filter P (rows t))" using t_last_SomeD [OF assms(1)] assms(3,4) by auto
  with assms(2) show ?thesis by (cases "filter P (rows t)") auto
qed

lemma used_up:
  assumes "check_otp e ph cde None s = (Inr r, s')" "length (filter (unused_otp ph cde None) (rows (au_otps s))) \<le> 1"
  shows "t_last (unused_otp ph cde None) (au_otps (use_otp r s')) = None"
proof -
  have "\<not> unused_otp ph cde None x" if "x \<in> set (rows (au_otps (use_otp r s')))" for x
    using assms(1)
  proof (cases rule: check_otpE)
    case row
    from that row have "x = r\<lparr>otp_is_used := True\<rparr> \<or> (x \<in> set (rows (au_otps s)) \<and> otp_id x \<noteq> otp_id r)"
      by (auto simp: use_otp_def rows_t_put)
    then show ?thesis using t_last_single [OF row(2) assms(2), of x] by (auto simp: unused_otp_def)
  next
    case (cached r0)
    have none: "\<not> unused_otp ph cde None y" if "y \<in> set (rows (au_otps s))" for y
      using cached(3) that by (auto simp: t_last_def find_None_iff)
    from that cached have "x = r\<lparr>otp_is_used := True\<rparr> \<or> x \<in> set (rows (au_otps s))"
      by (auto simp: use_otp_def add_otp_def rows_t_put rows_t_insert)
    then show ?thesis using none by (auto simp: unused_otp_def)
  qed
  then show ?thesis by (auto simp: t_last_def find_None_iff)
qed

lemma login_key_gone: "cache_get e (otp_key ''login'' ph) (drop_login_keys ph r s) = None"
  by (simp add: cache_get_def drop_login_keys_def cache_delete_def)

lemma verify_otp_and_loginE:
  assumes "verify_otp_and_login c e ph cde nm em tm s = (Inr t, s')"
  obtains r s1 where "check_otp e (auth_phone ph) cde None s = (Inr r, s1)"
    "u_role (tk_user t) = UR_CUSTOMER" "u_phone (tk_user t) = auth_phone ph"
    "au_otps s' = au_otps (use_otp r s1)" "au_cache s' = au_cache (drop_login_keys (auth_phone ph) r s1)"
    "au_up s' = au_up s1"
proof -
  from assms obtain r s1 where r: "check_otp e (auth_phone ph) cde None s = (Inr r, s1)"
    by (auto simp: verify_otp_and_login_def Let_def split: prod.splits sum.splits)
  show ?thesis
  proof (cases "user_by_phone (au_db s1) (auth_phone ph)")
    case None
    show ?thesis
      by (rule that [OF r]) (use assms r None in \<open>auto simp: verify_otp_and_login_def Let_def issue_tokens_def key_user_def
        new_customer_def new_User_def use_otp_def create_token_pair_def split: if_splits\<close>)
  next
    case (Some u)
    then have "u_phone u = auth_phone ph" using t_first_SomeD unfolding user_by_phone_def by fastforce
    show ?thesis
      by (rule that [OF r]) (use assms r Some \<open>u_phone u = auth_phone ph\<close> in \<open>auto simp: verify_otp_and_login_def Let_def
        issue_tokens_def greet_customer_def use_otp_def create_token_pair_def split: if_splits\<close>)
  qed
qed

text \<open>Property C11 (otp_login_once): a successful login with a one-time code gives the tokens of the customer with that
  phone and uses the code up: unless the same code had been sent twice, the next login with it fails,
  whenever it comes.\<close>

theorem otp_login_once:
  assumes "verify_otp_and_login c e ph cde nm em tm s = (Inr t, s')"
    and "length (filter (unused_otp (auth_phone ph) cde None) (rows (au_otps s))) \<le> 1"
  shows "u_role (tk_user t) = UR_CUSTOMER \<and> u_phone (tk_user t) = auth_phone ph
    \<and> verify_otp_and_login c e2 ph cde nm2 em2 tm2 s' = (Inl (bad_request ''Invalid or expired OTP''), s')"
  using assms(1)
proof (rule verify_otp_and_loginE)
  fix r s1
  assume r: "check_otp e (auth_phone ph) cde None s = (Inr r, s1)"
    "u_role (tk_user t) = UR_CUSTOMER" "u_phone (tk_user t) = auth_phone ph" "au_otps s' = au_otps (use_otp r s1)"
    "au_cache s' = au_cache (drop_login_keys (auth_phone ph) r s1)" "au_up s' = au_up s1"
  have "cache_get e2 k s' = cache_get e2 k (drop_login_keys (auth_phone ph) r s1)" for k
    by (simp add: cache_get_def r(5,6))
  then have "cache_get e2 (otp_key ''login'' (auth_phone ph)) s' = None" by (simp only: login_key_gone)
  then have "check_otp e2 (auth_phone ph) cde None s' = (Inl (bad_request ''Invalid or expired OTP''), s')"
    using used_up [OF r(1) assms(2)] r(4) by (simp add: check_otp_def or_str_def)
  with r show ?thesis by (simp add: verify_otp_and_login_def)
qed

section \<open>Revocation\<close>

text \<open>What the JWT library promises: the payload does not depend on whether the expiry is checked, and the
  identifier of a token stands for one expiry.\<close>

definition codec_ok :: "auth_cfg \<Rightarrow> bool" where
  "codec_ok c \<longleftrightarrow> (\<forall>t t' tok p. jwt_decode c True t tok = Some p \<longrightarrow> jwt_decode c False t' tok = Some p)
     \<and> (\<forall>t t' tok tok' p p'. jwt_decode c False t tok = Some p \<longrightarrow> jwt_decode c False t' tok' = Some p'
          \<longrightarrow> cl_jti p = cl_jti p' \<longrightarrow> cl_exp p = cl_exp p')"

text \<open>A token is revoked past the time \<open>T\<close>.\<close>

definition revoked_past :: "string \<Rightarrow> datetime \<Rightarrow> auth_state \<Rightarrow> bool" where
  "revoked_past j T s \<longleftrightarrow> (if au_up s then \<exists>t > T. au_cache s (bl_key j) = Some (''1'', t)
     else \<exists>t > T. au_revoked s j = Some t)"

lemma revoked_past_blacklisted:
  "revoked_past j T s \<Longrightarrow> env_now e \<le> T \<Longrightarrow> j \<noteq> [] \<Longrightarrow> is_blacklisted e j s"
  by (auto simp: revoked_past_def is_blacklisted_def cache_get_def split: if_splits)

text \<open>The whole seconds a token has left are revoked: all but its last second.\<close>

lemma ttl_covers: "us_seconds x - us_seconds 1 < now + us_seconds ((us_seconds x - now) div us_seconds 1)"
  using div_mod_decomp_int [of "us_seconds x - now" "us_seconds 1"] pos_mod_bound [of "us_seconds 1" "us_seconds x - now"]
  by (simp add: us_seconds_def)

lemma bl_key_inj [simp]: "bl_key a = bl_key b \<longleftrightarrow> a = b"
  by (simp add: bl_key_def)

lemma blacklist_token_revokes:
  assumes "jwt_decode c False (now_sec e) tok = Some p" "cl_jti p \<noteq> []" "cl_exp p \<noteq> 0"
    "env_now e \<le> us_seconds (cl_exp p) - us_seconds 1"
  shows "revoked_past (cl_jti p) (us_seconds (cl_exp p) - us_seconds 1) (blacklist_token c e tok s)"
proof -
  have "us_seconds 1 div us_seconds 1 \<le> (us_seconds (cl_exp p) - env_now e) div us_seconds 1"
    using assms(4) by (intro zdiv_mono1) (simp_all add: us_seconds_def)
  then have pos: "0 < (us_seconds (cl_exp p) - env_now e) div us_seconds 1" by (simp add: us_seconds_def)
  show ?thesis
    using assms(1-3) pos ttl_covers [of "cl_exp p" "env_now e"]
    by (auto simp: revoked_past_def blacklist_token_def blacklist_jti_def cache_set_def)
qed

lemma blacklist_token_keeps:
  assumes "codec_ok c" "revoked_past j (us_seconds x - us_seconds 1) s" "env_now e \<le> us_seconds x - us_seconds 1"
    "\<And>t tok p. jwt_decode c False t tok = Some p \<Longrightarrow> cl_jti p = j \<Longrightarrow> cl_exp p = x"
  shows "revoked_past j (us_seconds x - us_seconds 1) (blacklist_token c e tok s)"
proof (cases "jwt_decode c False (now_sec e) tok")
  case None
  with assms(2) show ?thesis by (simp add: blacklist_token_def)
next
  case (Some p)
  show ?thesis
  proof (cases "cl_jti p = j \<and> j \<noteq> [] \<and> x \<noteq> 0")
    case True
    with Some assms(3) assms(4) [OF Some] show ?thesis
      using blacklist_token_revokes [OF Some] by auto
  next
    case False
    with assms(2) Some assms(3) assms(4) [OF Some] show ?thesis
      by (auto simp: blacklist_token_def blacklist_jti_def cache_set_def revoked_past_def)
  qed
qed

section \<open>Operations that revoke nothing and make no administrator\<close>

definition roles :: "auth_state \<Rightarrow> UserRole list" where
  "roles s = map u_role (rows (users (au_db s)))"

definition calm :: "auth_state \<Rightarrow> auth_state \<Rightarrow> bool" where
  "calm s s' \<longleftrightarrow> au_up s' = au_up s \<and> (\<forall>j. au_cache s' (bl_key j) = au_cache s (bl_key j))
     \<and> au_revoked s' = au_revoked s
     \<and> (db_wf (au_db s) \<longrightarrow> db_wf (au_db s') \<and> (\<exists>rs. roles s' = roles s @ rs \<and> UR_ADMIN \<notin> set rs))"

named_theorems calm_intros

lemma calm_refl [calm_intros]: "calm s s"
  by (simp add: calm_def)

lemma calm_trans:
  assumes "calm s a" "calm a b" shows "calm s b"
proof -
  have "db_wf (au_db b) \<and> (\<exists>rs. roles b = roles s @ rs \<and> UR_ADMIN \<notin> set rs)" if "db_wf (au_db s)"
  proof -
    from assms(1) that obtain r1 where r1: "db_wf (au_db a)" "roles a = roles s @ r1" "UR_ADMIN \<notin> set r1"
      unfolding calm_def by blast
    with assms(2) obtain r2 where "db_wf (au_db b)" "roles b = roles a @ r2" "UR_ADMIN \<notin> set r2"
      unfolding calm_def by blast
    with r1 show ?thesis by simp
  qed
  with assms show ?thesis by (simp add: calm_def)
qed

lemma calm_same_users:
  assumes "au_up b = au_up a" "\<And>j. au_cache b (bl_key j) = au_cache a (bl_key j)" "au_revoked b = au_revoked a"
    "users (au_db b) = users (au_db a)" "db_wf (au_db a) \<Longrightarrow> db_wf (au_db b)" "calm s a"
  shows "calm s b"
  using assms(6) by (rule calm_trans) (use assms(1-5) in \<open>simp add: calm_def roles_def\<close>)

lemma calm_steps [calm_intros]:
  assumes "calm s a"
  shows "calm s (add_otp r a)" "calm s (use_otp r a)" "calm s (cache_set e (otp_key p ph) v n a)"
    "calm s (cache_delete (otp_key p ph) a)" "calm s (drop_login_keys ph r a)" "calm s (snd (redis_incr e k n a))"
  using assms by (auto elim!: calm_same_users [rotated 5] simp: redis_incr_def split: option.splits)

lemma calm_check [calm_intros]: "calm s a \<Longrightarrow> check_otp e ph cde p a = (r, b) \<Longrightarrow> calm s b"
  by (rule calm_same_users [of b a]) (simp_all add: check_fields)

lemma calm_put:
  assumes "calm s a" "u \<in> set (rows (users (au_db a)))" "u_id u' = u_id u" "u_role u' = u_role u"
  shows "calm s (put_user u' a)"
  using assms(1)
proof (rule calm_trans)
  have "map u_role (rows (t_put u_id u' (users (au_db a)))) = map u_role (rows (users (au_db a)))" if "db_wf (au_db a)"
  proof -
    have "u_role (if u_id x = u_id u' then u' else x) = u_role x" if x: "x \<in> set (rows (users (au_db a)))" for x
      using t_wf_unique [OF db_wf_tables(1) [OF \<open>db_wf (au_db a)\<close>] x assms(2)] assms(3,4) by auto
    then show ?thesis by (simp add: rows_t_put)
  qed
  then show "calm a (put_user u' a)" by (simp add: calm_def roles_def)
qed

lemma calm_presence [calm_intros]: "calm s a \<Longrightarrow> calm s (set_presence e b k a)"
proof (cases "get_User (au_db a) k")
  case (Some u)
  assume "calm s a"
  then have "calm s (put_user (u\<lparr>u_is_online := b, u_last_seen_at := Some (env_now e)\<rparr>) a)"
    by (rule calm_put [where u = u]) (simp_all add: t_get_in [OF Some])
  with Some show ?thesis by (simp add: set_presence_def put_user_def)
qed (simp add: set_presence_def)

lemma calm_add [calm_intros]:
  assumes "calm s a" "u_role u \<noteq> UR_ADMIN" shows "calm s (add_user u a)"
  using assms(1) by (rule calm_trans) (use assms(2) in \<open>simp add: calm_def roles_def rows_t_insert\<close>)

lemma stub_frame: "\<exists>t. ensure_retailer_stub e u d = d\<lparr>profiles := t\<rparr> \<and> (db_wf d \<longrightarrow> t_wf rp_id t)"
  by (auto simp: ensure_retailer_stub_def Let_def intro: exI [of _ "profiles d"] split: option.splits)

lemma calm_stub [calm_intros]: "calm s a \<Longrightarrow> calm s (with_stub e u a)"
  using stub_frame [of e u "au_db a"] by (auto elim!: calm_same_users [rotated 5])

lemma calm_tokens [calm_intros]: "calm s a \<Longrightarrow> calm s (snd (issue_tokens c e u a))"
  by (simp add: issue_tokens_def calm_presence)

lemma calm_gated [calm_intros]: "calm s a \<Longrightarrow> calm s (snd (gated_tokens c e u a))"
  using calm_tokens [of s a c e u] by (auto simp: gated_tokens_def split: sum.splits prod.splits)

lemma calm_store [calm_intros]: "calm s a \<Longrightarrow> calm s (snd (store_code c e ph p a))"
  by (simp add: store_code_def Let_def calm_intros)

lemma user_by_phone_in: "user_by_phone d ph = Some u \<Longrightarrow> u \<in> set (rows (users d))"
  using t_first_SomeD unfolding user_by_phone_def by fastforce

lemma calm_put_check:
  assumes "check_otp e ph cde p s = (r, s1)" "user_by_phone (au_db s1) ph2 = Some u" "u_id u' = u_id u" "u_role u' = u_role u"
  shows "calm s (put_user u' (use_otp q (drop_login_keys ph q s1)))"
  by (rule calm_put [where u = u]) (use assms user_by_phone_in in \<open>simp_all add: calm_steps calm_check [OF calm_refl assms(1)]\<close>)

lemma new_customer_role [simp]: "u_role (new_customer e p n em b) = UR_CUSTOMER"
  by (simp add: new_customer_def)

lemma key_user_id [simp]: "u_role (key_user u s) = u_role u"
  by (simp add: key_user_def)

lemma calm_verify: "calm s (snd (verify_otp_and_login c e ph cde nm em tm s))"
proof (cases "check_otp e (auth_phone ph) cde None s")
  case (Pair r s1)
  note k = calm_check [OF calm_refl Pair]
  show ?thesis
  proof (cases r)
    case (Inr q)
    show ?thesis
    proof (cases "user_by_phone (au_db s1) (auth_phone ph)")
      case None
      then show ?thesis using Pair Inr k
        by (simp add: verify_otp_and_login_def Let_def issue_tokens_def calm_intros)
    next
      case (Some u)
      have "calm s (put_user (greet_customer nm em tm u) (use_otp q (drop_login_keys (auth_phone ph) q s1)))"
        by (rule calm_put_check [OF Pair Some]) (simp_all add: greet_customer_def)
      then show ?thesis using Pair Inr Some k
        by (simp add: verify_otp_and_login_def Let_def issue_tokens_def calm_intros)
    qed
  qed (use Pair k in \<open>simp add: verify_otp_and_login_def\<close>)
qed

end
