(* ===== verification/Guards.thy ===== *)
theory Guards
  imports Logins
begin

text \<open>
  \<open>package/common/auth/guards.py\<close> and \<open>user_deps.py\<close>: what stands between a request and the handler of
  every service, and the profile views of \<open>auth_service\<close>.  The sub claim of a token is always a string,
  so \<open>payload.get("sub") is None\<close> does not happen; a token without a role reads as the empty role.
\<close>

section \<open>Tokens of requests\<close>

definition require_access_token :: "auth_cfg \<Rightarrow> env \<Rightarrow> string option \<Rightarrow> auth_state \<Rightarrow> exc + claims" where
  "require_access_token c e credentials s = (case credentials of
     None \<Rightarrow> Inl (HTTPExc 401 ''Not authenticated'')
   | Some tok \<Rightarrow> (case decode_token c e tok s of
       None \<Rightarrow> Inl (HTTPExc 401 ''Invalid or revoked token'')
     | Some p \<Rightarrow> if cl_type p \<noteq> ''access'' then Inl (HTTPExc 401 ''Invalid or revoked token'') else Inr p))"

definition optional_access_token :: "auth_cfg \<Rightarrow> env \<Rightarrow> string option \<Rightarrow> auth_state \<Rightarrow> claims option" where
  "optional_access_token c e credentials s = (case credentials of
     None \<Rightarrow> None
   | Some tok \<Rightarrow> (case decode_token c e tok s of
       None \<Rightarrow> None | Some p \<Rightarrow> if cl_type p \<noteq> ''access'' then None else Some p))"

definition role_claim :: "claims \<Rightarrow> string" where
  "role_claim p = or_str (cl_role p) []"

definition require_roles :: "string list \<Rightarrow> claims \<Rightarrow> exc + claims" where
  "require_roles roles p = (if role_claim p \<notin> set roles then Inl (HTTPExc 403 ''Forbidden'') else Inr p)"

section \<open>Users of requests\<close>

definition load_user :: "db \<Rightarrow> claims \<Rightarrow> exc + User" where
  "load_user d p = (case py_int (cl_sub p) of
     None \<Rightarrow> Inl (unauthorized ''Invalid token subject'')
   | Some uid \<Rightarrow> (case get_User d uid of
       None \<Rightarrow> Inl (unauthorized ''User not found'')
     | Some u \<Rightarrow> if \<not> u_is_active u then Inl (unauthorized ''User not found'') else Inr u))"

definition current_user :: "auth_cfg \<Rightarrow> env \<Rightarrow> string option \<Rightarrow> auth_state \<Rightarrow> exc + User" where
  "current_user c e credentials s = (case require_access_token c e credentials s of
     Inl ex \<Rightarrow> Inl ex | Inr p \<Rightarrow> load_user (au_db s) p)"

definition optional_user :: "auth_cfg \<Rightarrow> env \<Rightarrow> string option \<Rightarrow> auth_state \<Rightarrow> User option" where
  "optional_user c e credentials s = (case optional_access_token c e credentials s of
     None \<Rightarrow> None
   | Some p \<Rightarrow> (case load_user (au_db s) p of Inl ex \<Rightarrow> None | Inr u \<Rightarrow> Some u))"

definition for_roles :: "auth_cfg \<Rightarrow> env \<Rightarrow> string list \<Rightarrow> string option \<Rightarrow> auth_state \<Rightarrow> exc + User" where
  "for_roles c e roles credentials s = (case require_access_token c e credentials s of
     Inl ex \<Rightarrow> Inl ex
   | Inr p \<Rightarrow> if role_claim p \<notin> set roles then Inl (HTTPExc 403 ''Forbidden'') else load_user (au_db s) p)"

section \<open>Profiles\<close>

record user_view =
  uv_id :: int
  uv_phone :: string
  uv_name :: "string option"
  uv_email :: "string option"
  uv_email_verified :: bool
  uv_role :: string
  uv_language :: string
  uv_avatar_url :: "string option"
  uv_is_guest :: bool
  uv_is_online :: bool
  uv_last_seen_at :: "datetime option"

definition auth_user_dict :: "User \<Rightarrow> user_view" where
  "auth_user_dict u = \<lparr>uv_id = u_id u, uv_phone = u_phone u, uv_name = u_name u, uv_email = u_email u,
     uv_email_verified = u_email_verified u, uv_role = UserRole_value (u_role u), uv_language = u_language u,
     uv_avatar_url = u_avatar_url u, uv_is_guest = u_is_guest u, uv_is_online = u_is_online u,
     uv_last_seen_at = u_last_seen_at u\<rparr>"

definition get_retailer_profile :: "User \<Rightarrow> db \<Rightarrow> user_view \<times> RetailerProfile option" where
  "get_retailer_profile user d = (auth_user_dict user, profile_of d (u_id user))"

text \<open>A rider row with the user's phone is taken over when it belongs to nobody.\<close>

definition auth_delivery_profile :: "User \<Rightarrow> db \<Rightarrow> (user_view \<times> DeliveryPerson option) \<times> db" where
  "auth_delivery_profile user d = (case t_first (\<lambda>p. dp_user_id p = Some (u_id user)) (riders d) of
     Some p \<Rightarrow> ((auth_user_dict user, Some p), d)
   | None \<Rightarrow> (case t_first (\<lambda>p. dp_phone p = u_phone user) (riders d) of
       None \<Rightarrow> ((auth_user_dict user, None), d)
     | Some p \<Rightarrow>
         if dp_user_id p = None \<or> dp_user_id p = Some 0
         then let p2 = p\<lparr>dp_user_id := Some (u_id user)\<rparr>
              in ((auth_user_dict user, Some p2), put_DeliveryPerson p2 d)
         else ((auth_user_dict user, Some p), d)))"

end
