(* ===== verification/SessionLaws.thy ===== *)
theory SessionLaws
  imports AuthLaws Guards
begin

text \<open>
  Runs of the authentication service.  All operations but rotation, logout and the registration of the
  administrator are calm: they revoke nothing, keep every revocation, and add no administrator.
  \<open>auth_step\<close> is one operation at a time not before the last one; along its runs a rotated token
  stays dead up to one second before it expires and after it has expired (in between the revocation has lapsed), and there
  is one administrator at most.
\<close>

section \<open>Calm operations\<close>

lemma user_by_email_in: "user_by_email d em = Some u \<Longrightarrow> u \<in> set (rows (users d))"
  and admin_by_email_in: "admin_by_email d em = Some u \<Longrightarrow> u \<in> set (rows (users d))"
  using t_first_SomeD unfolding user_by_email_def admin_by_email_def by fastforce+

lemma calm_case [calm_intros]:
  "calm s (snd (issue_tokens c e u a)) \<Longrightarrow> calm s (snd (case issue_tokens c e u a of (t, b) \<Rightarrow> (Inr t, b)))"
  by (cases "issue_tokens c e u a") simp

lemma calm_send: "calm s (snd (send_otp c e ph p em s))"
proof (cases "redis_incr e (''otp:rl:'' @ auth_phone ph) OTP_RATE_WINDOW_SECONDS s")
  case (Pair n s1)
  then have "calm s s1" using calm_steps(6) [OF calm_refl] by (metis snd_conv)
  then have "calm s (snd (store_code c e (auth_phone ph) p s1))" by (rule calm_store)
  with Pair \<open>calm s s1\<close> show ?thesis
    by (cases "store_code c e (auth_phone ph) p s1") (simp add: send_otp_def Let_def)
qed

lemma calm_google: "calm s (snd (google_login c e tok tm s))"
proof (cases "ac_google c tok")
  case (Some info)
  show ?thesis
  proof (cases "user_by_email (au_db s) (the (gi_email info))")
    case None
    with Some show ?thesis by (simp add: google_login_def Let_def calm_intros)
  next
    case (Some u)
    have "calm s (put_user u' s)" if "u_id u' = u_id u" "u_role u' = u_role u" for u'
      by (rule calm_put [OF calm_refl user_by_email_in [OF Some] that])
    with Some \<open>ac_google c tok = Some info\<close> show ?thesis by (simp add: google_login_def Let_def calm_intros)
  qed
qed (simp add: google_login_def calm_refl)

lemma calm_guest: "calm s (snd (guest_login c e s))"
  by (simp add: guest_login_def Let_def calm_intros)

lemma calm_confirm: "calm s (snd (admin_confirm_email c e em cde s))"
proof (cases "admin_by_email (au_db s) (str_lower (strip em))")
  case (Some u)
  obtain r s1 where p: "check_otp e (u_phone u) cde (Some ''admin_confirm'') s = (r, s1)" by fastforce
  have "calm s (put_user (u\<lparr>u_email_verified := True\<rparr>) (use_otp q s1))" for q
    by (rule calm_put [where u = u])
      (use p admin_by_email_in [OF Some] in \<open>simp_all add: check_fields calm_steps calm_check [OF calm_refl p]\<close>)
  with Some p show ?thesis
    by (cases r) (simp_all add: admin_confirm_email_def calm_steps calm_refl calm_check [OF calm_refl p])
qed (simp add: admin_confirm_email_def calm_refl)

lemma calm_resend: "calm s (snd (admin_resend_confirmation c e em s))"
  using calm_store [OF calm_refl] by (auto simp: admin_resend_confirmation_def Let_def calm_refl split: option.splits prod.splits) (metis snd_conv)

lemma calm_admin_login: "calm s (snd (admin_login c e pw ph em s))"
  by (simp add: admin_login_def calm_intros split: option.split)

lemma calm_admin_otp: "calm s (snd (admin_otp_login c e ph cde s))"
proof (cases "check_otp e (auth_phone ph) cde None s")
  case (Pair r s1)
  note calm_check [OF calm_refl Pair]
  with Pair show ?thesis
    by (cases r) (simp_all add: admin_otp_login_def Let_def calm_intros split: option.split)
qed

lemma calm_retailer_otp: "calm s (snd (retailer_otp_login c e ph cde nm tm s))"
proof (cases "check_otp e (auth_phone ph) cde None s")
  case (Pair r s1)
  note k = calm_check [OF calm_refl Pair]
  show ?thesis
  proof (cases r)
    case (Inr q)
    show ?thesis
    proof (cases "user_by_phone (au_db s1) (auth_phone ph)")
      case None
      with Pair Inr k show ?thesis by (simp add: retailer_otp_login_def Let_def calm_intros)
    next
      case (Some u)
      have "calm s (put_user u' (use_otp q (drop_login_keys (auth_phone ph) q s1)))"
        if "u_id u' = u_id u" "u_role u' = u_role u" for u'
        by (rule calm_put_check [OF Pair Some that])
      with Pair Inr Some k show ?thesis by (simp add: retailer_otp_login_def Let_def calm_intros)
    qed
  qed (use Pair k in \<open>simp add: retailer_otp_login_def\<close>)
qed

lemma calm_identity: "prove_identity c e m ph u pw cde s = (r, b) \<Longrightarrow> calm s b"
  by (auto simp: prove_identity_def calm_intros calm_check [OF calm_refl] split: if_splits prod.splits sum.splits)

lemma calm_password_logins:
  "calm s (snd (retailer_login c e ph pw cde s))" "calm s (snd (delivery_login c e ph pw cde s))"
  by (auto simp: retailer_login_def delivery_login_def Let_def calm_intros calm_identity split: option.split prod.split sum.split)

lemma calm_reset: "calm s (snd (reset_password c e ph cde pw s))"
proof (cases "check_otp e (auth_phone ph) cde (Some ''reset'') s")
  case (Pair r s1)
  note k = calm_check [OF calm_refl Pair]
  have "calm s (put_user (u\<lparr>u_password_hash := h\<rparr>) (cache_delete (otp_key ''reset'' x) (use_otp q s1)))"
    if "user_by_phone (au_db s1) (auth_phone ph) = Some u" for u h x q
    by (rule calm_put [where u = u]) (use k user_by_phone_in [OF that] in \<open>simp_all add: calm_steps\<close>)
  with Pair k show ?thesis by (cases r) (simp_all add: reset_password_def Let_def split: option.split)
qed

lemma calm_welcome [calm_intros]: "calm s a \<Longrightarrow> calm s (snd (google_welcome c e new u a))"
  using calm_gated [OF calm_stub, of s a c e u e u]
  by (cases "gated_tokens c e u (with_stub e u a)") (auto simp: google_welcome_def Let_def split: sum.split)

lemma new_google_retailer_role [simp]: "u_role (new_google_retailer e ph em info) = UR_RETAILER"
  by (simp add: new_google_retailer_def)

lemma calm_retailer_google: "calm s (snd (retailer_google_login c e tok tm s))"
proof -
  have "calm s (snd (retailer_google_tokens_for_info c e info hint s))" for info hint
  proof (cases "user_by_email (au_db s) (the (gi_email info))")
    case None
    then show ?thesis by (simp add: retailer_google_tokens_for_info_def Let_def calm_intros)
  next
    case (Some u)
    have "calm s (put_user u' s)" if "u_id u' = u_id u" "u_role u' = u_role u" for u'
      by (rule calm_put [OF calm_refl user_by_email_in [OF Some] that])
    with Some show ?thesis by (simp add: retailer_google_tokens_for_info_def Let_def calm_intros)
  qed
  then show ?thesis by (simp add: retailer_google_login_def calm_refl split: option.split)
qed

lemmas calm_ops = calm_send calm_verify calm_google calm_guest calm_confirm calm_resend calm_admin_login calm_admin_otp
  calm_retailer_otp calm_retailer_google calm_password_logins calm_reset

section \<open>Runs\<close>

inductive auth_step :: "auth_cfg \<Rightarrow> datetime \<times> auth_state \<Rightarrow> datetime \<times> auth_state \<Rightarrow> bool" for c where
  send: "t \<le> env_now e \<Longrightarrow> auth_step c (t, s) (env_now e, snd (send_otp c e ph p em s))"
| otp_in: "t \<le> env_now e \<Longrightarrow> auth_step c (t, s) (env_now e, snd (verify_otp_and_login c e ph cde nm em tm s))"
| google: "t \<le> env_now e \<Longrightarrow> auth_step c (t, s) (env_now e, snd (google_login c e tok tm s))"
| guest: "t \<le> env_now e \<Longrightarrow> auth_step c (t, s) (env_now e, snd (guest_login c e s))"
| register: "t \<le> env_now e \<Longrightarrow> auth_step c (t, s) (env_now e, snd (admin_register c e nm2 ph eml pw s))"
| confirm: "t \<le> env_now e \<Longrightarrow> auth_step c (t, s) (env_now e, snd (admin_confirm_email c e eml cde s))"
| resend: "t \<le> env_now e \<Longrightarrow> auth_step c (t, s) (env_now e, snd (admin_resend_confirmation c e eml s))"
| admin_in: "t \<le> env_now e \<Longrightarrow> auth_step c (t, s) (env_now e, snd (admin_login c e pw nm em s))"
| admin_otp_in: "t \<le> env_now e \<Longrightarrow> auth_step c (t, s) (env_now e, snd (admin_otp_login c e ph cde s))"
| retailer_otp_in: "t \<le> env_now e \<Longrightarrow> auth_step c (t, s) (env_now e, snd (retailer_otp_login c e ph cde nm tm s))"
| retailer_google: "t \<le> env_now e \<Longrightarrow> auth_step c (t, s) (env_now e, snd (retailer_google_login c e tok tm s))"
| retailer_in: "t \<le> env_now e \<Longrightarrow> auth_step c (t, s) (env_now e, snd (retailer_login c e ph nm em s))"
| delivery_in: "t \<le> env_now e \<Longrightarrow> auth_step c (t, s) (env_now e, snd (delivery_login c e ph nm em s))"
| reset: "t \<le> env_now e \<Longrightarrow> auth_step c (t, s) (env_now e, snd (reset_password c e ph cde pw s))"
| rotate: "t \<le> env_now e \<Longrightarrow> auth_step c (t, s) (env_now e, snd (refresh_tokens c e tok s))"
| log_out: "t \<le> env_now e \<Longrightarrow> auth_step c (t, s) (env_now e, snd (logout c e u nm em s))"

text \<open>A step is calm from a state with some tokens revoked, or registers the administrator.\<close>

inductive revokes :: "auth_cfg \<Rightarrow> env \<Rightarrow> auth_state \<Rightarrow> auth_state \<Rightarrow> bool" for c e where
  no_more: "revokes c e s s"
| one_more: "revokes c e s a \<Longrightarrow> revokes c e s (blacklist_token c e tok a)"

lemma revokes_users: "revokes c e s a \<Longrightarrow> au_db a = au_db s"
  by (induction rule: revokes.induct) simp_all

lemma revokes_keeps:
  assumes "revokes c e s a" "codec_ok c" "revoked_past j (us_seconds x - us_seconds 1) s" "env_now e \<le> us_seconds x - us_seconds 1"
    "\<And>t tok p. jwt_decode c False t tok = Some p \<Longrightarrow> cl_jti p = j \<Longrightarrow> cl_exp p = x"
  shows "revoked_past j (us_seconds x - us_seconds 1) a"
  using assms by (induction rule: revokes.induct) (auto intro: blacklist_token_keeps)

lemma refresh_shape: "\<exists>a. revokes c e s a \<and> calm a (snd (refresh_tokens c e tok s))"
proof -
  have no: "\<exists>a. revokes c e s a \<and> calm a s" using revokes.no_more calm_refl by blast
  have "calm (blacklist_token c e tok s) (snd (issue_tokens c e u (blacklist_token c e tok s)))" for u
    by (intro calm_tokens calm_refl)
  then have "\<exists>a. revokes c e s a \<and> calm a (snd (issue_tokens c e u (blacklist_token c e tok s)))" for u
    by (intro exI [of _ "blacklist_token c e tok s"] conjI revokes.intros)
  with no show ?thesis by (simp add: refresh_tokens_def case_prod_unfold Let_def split: option.split)
qed

lemma logout_shape: "\<exists>a. revokes c e s a \<and> calm a (snd (logout c e u x y s))"
proof -
  define s1 where "s1 = (if truthy_str x then blacklist_token c e (the x) s else s)"
  define s2 where "s2 = (if truthy_str y then blacklist_token c e (the y) s1 else s1)"
  have "revokes c e s s2" unfolding s2_def s1_def by (auto intro: revokes.intros)
  moreover have "calm s2 (snd (logout c e u x y s))"
    by (simp add: logout_def Let_def s1_def [symmetric] s2_def [symmetric] calm_intros)
  ultimately show ?thesis by blast
qed

lemma register_frame:
  "au_up (snd (admin_register c e nm ph em pw s)) = au_up s"
  "au_cache (snd (admin_register c e nm ph em pw s)) (bl_key j) = au_cache s (bl_key j)"
  "au_revoked (snd (admin_register c e nm ph em pw s)) = au_revoked s"
  by (simp_all add: admin_register_def Let_def store_code_def)

lemma register_roles:
  "roles (snd (admin_register c e nm ph em pw s)) = roles s
   \<or> (UR_ADMIN \<notin> set (roles s) \<and> roles (snd (admin_register c e nm ph em pw s)) = roles s @ [UR_ADMIN])"
proof -
  have "\<not> admin_exists s \<Longrightarrow> UR_ADMIN \<notin> set (roles s)"
    by (auto simp: admin_exists_def get_admin_def roles_def t_first_def find_None_iff)
  then show ?thesis
    by (simp add: admin_register_def Let_def store_code_def admin_row_def roles_def rows_t_insert)
qed

lemma register_wf: "db_wf (au_db s) \<Longrightarrow> db_wf (au_db (snd (admin_register c e nm ph em pw s)))"
  by (simp add: admin_register_def Let_def store_code_def)

lemma auth_step_cases:
  assumes "auth_step c (t, s) (t2, s2)"
  obtains (quiet) e a where "t2 = env_now e" "t \<le> env_now e" "revokes c e s a" "calm a s2"
  | (admin) e nm ph em pw where "t2 = env_now e" "t \<le> env_now e" "s2 = snd (admin_register c e nm ph em pw s)"
  using assms
proof cases
  case (rotate e tok)
  with refresh_shape [of c e s tok] that(1) show ?thesis by blast
next
  case (log_out e u x y)
  with logout_shape [of c e s u x y] that(1) show ?thesis by blast
next
  case (register e)
  then show ?thesis using that(2) by blast
qed (rule that(1) [OF _ _ revokes.no_more], assumption, assumption, simp add: calm_ops)+

lemma step_clock: "auth_step c (t, s) (t2, s2) \<Longrightarrow> t \<le> t2"
  by (erule auth_step_cases) simp_all

lemma clock_runs: "(auth_step c)\<^sup>*\<^sup>* p q \<Longrightarrow> fst p \<le> fst q"
proof (induction rule: rtranclp_induct)
  case (step a b)
  with step_clock [of c "fst a" "snd a" "fst b" "snd b"] show ?case by simp
qed simp

lemma calm_revoked: "calm a b \<Longrightarrow> revoked_past j T a \<Longrightarrow> revoked_past j T b"
  by (simp add: calm_def revoked_past_def)

lemma step_keeps_revoked:
  assumes "auth_step c (t, s) (t2, s2)" "codec_ok c" "revoked_past j (us_seconds x - us_seconds 1) s"
    "t2 \<le> us_seconds x - us_seconds 1"
    "\<And>t tok p. jwt_decode c False t tok = Some p \<Longrightarrow> cl_jti p = j \<Longrightarrow> cl_exp p = x"
  shows "revoked_past j (us_seconds x - us_seconds 1) s2"
  using assms(1)
proof (cases rule: auth_step_cases)
  case (quiet e a)
  have "revoked_past j (us_seconds x - us_seconds 1) a"
    using quiet(3) assms(2,3) assms(4) [unfolded quiet(1)] assms(5) by (rule revokes_keeps)
  with quiet(4) show ?thesis by (rule calm_revoked)
next
  case (admin e nm ph em pw)
  with assms(3) show ?thesis by (simp add: revoked_past_def register_frame)
qed

lemma run_keeps_revoked:
  assumes "(auth_step c)\<^sup>*\<^sup>* p q" "codec_ok c" "revoked_past j (us_seconds x - us_seconds 1) (snd p)"
    "\<And>t tok p. jwt_decode c False t tok = Some p \<Longrightarrow> cl_jti p = j \<Longrightarrow> cl_exp p = x"
  shows "fst q \<le> us_seconds x - us_seconds 1 \<longrightarrow> revoked_past j (us_seconds x - us_seconds 1) (snd q)"
  using assms(1)
proof (induction rule: rtranclp_induct)
  case (step a b)
  have "fst a \<le> fst b" using clock_runs [OF r_into_rtranclp [where r = "auth_step c", OF step.hyps(2)]] .
  with step show ?case
    using step_keeps_revoked [OF _ assms(2), of "fst a" "snd a" "fst b" "snd b" j x] assms(4) by simp
qed (use assms(3) in simp)

lemma refresh_revokes:
  assumes "codec_ok c" "refresh_tokens c e tok s = (Inr t, s1)" "jwt_decode c True (now_sec e) tok = Some p"
    "cl_jti p \<noteq> []" "cl_exp p \<noteq> 0" "env_now e \<le> us_seconds (cl_exp p) - us_seconds 1"
  shows "revoked_past (cl_jti p) (us_seconds (cl_exp p) - us_seconds 1) s1"
proof -
  from assms(2) obtain u where s1: "s1 = snd (issue_tokens c e u (blacklist_token c e tok s))"
    by (auto simp: refresh_tokens_def case_prod_unfold Let_def split: option.splits if_splits)
  have "jwt_decode c False (now_sec e) tok = Some p" using assms(1,3) unfolding codec_ok_def by blast
  then have "revoked_past (cl_jti p) (us_seconds (cl_exp p) - us_seconds 1) (blacklist_token c e tok s)"
    using assms(4-6) by (rule blacklist_token_revokes)
  moreover have "calm (blacklist_token c e tok s) s1" unfolding s1 by (intro calm_tokens calm_refl)
  ultimately show ?thesis by (metis calm_revoked)
qed

lemma revoked_refused:
  assumes "codec_ok c" "jwt_decode c True t tok = Some p" "cl_jti p \<noteq> []" "revoked_past (cl_jti p) T s" "env_now e \<le> T"
  shows "decode_token c e tok s = None"
proof -
  have "is_blacklisted e (cl_jti p) s" using assms(4,5,3) by (rule revoked_past_blacklisted)
  moreover have "q = p" if "jwt_decode c True (now_sec e) tok = Some q" for q
    using assms(1,2) that unfolding codec_ok_def by (metis option.inject)
  ultimately show ?thesis by (auto simp: decode_token_def split: option.splits)
qed

text \<open>The library refuses a token past its expiry, to the second.\<close>

definition codec_expires :: "auth_cfg \<Rightarrow> bool" where
  "codec_expires c \<longleftrightarrow> (\<forall>t tok p. jwt_decode c True t tok = Some p \<longrightarrow> t \<le> cl_exp p)"

lemma expired_refused:
  assumes "codec_ok c" "codec_expires c" "jwt_decode c True t tok = Some p" "cl_exp p < now_sec e"
  shows "decode_token c e tok s = None"
proof -
  have "jwt_decode c True (now_sec e) tok \<noteq> Some q" for q
    using assms unfolding codec_ok_def codec_expires_def by (metis option.inject not_le)
  then show ?thesis by (auto simp: decode_token_def split: option.splits)
qed

lemma run_refused:
  assumes "(auth_step c)\<^sup>*\<^sup>* (t0, s1) (t2, s2)" "codec_ok c" "jwt_decode c True t tok = Some p" "cl_jti p \<noteq> []"
    and "revoked_past (cl_jti p) (us_seconds (cl_exp p) - us_seconds 1) s1"
    and "t2 \<le> env_now e2" "env_now e2 \<le> us_seconds (cl_exp p) - us_seconds 1"
  shows "decode_token c e2 tok s2 = None"
proof -
  have own: "cl_exp p' = cl_exp p" if "jwt_decode c False t' tok' = Some p'" "cl_jti p' = cl_jti p" for t' tok' p'
    using assms(2,3) that unfolding codec_ok_def by blast
  then have "revoked_past (cl_jti p) (us_seconds (cl_exp p) - us_seconds 1) s2"
    using run_keeps_revoked [OF assms(1,2), of "cl_jti p" "cl_exp p"] assms(5-7) by simp
  then show ?thesis using assms(7) by (rule revoked_refused [OF assms(2-4)])
qed

text \<open>Property C9 (refresh_once): after a refresh token has been rotated, every later rotation with it is refused as
  revoked, whatever the service did in between, up to one second before the token expires, and again once it has expired.
  (Between the two the revocation has lapsed while the library still takes the token: \<open>revoked_window\<close>.)  The identifier
  of a token must be its own, as the JWT library is relied on to keep it.\<close>

theorem refresh_once:
  assumes "codec_ok c" "codec_expires c" "refresh_tokens c e tok s = (Inr t, s1)" "jwt_decode c True (now_sec e) tok = Some p"
    "cl_jti p \<noteq> []" "cl_exp p \<noteq> 0"
    and "(auth_step c)\<^sup>*\<^sup>* (env_now e, s1) (t2, s2)" "t2 \<le> env_now e2"
    and "env_now e2 \<le> us_seconds (cl_exp p) - us_seconds 1 \<or> cl_exp p < now_sec e2"
  shows "refresh_tokens c e2 tok s2 = (Inl (unauthorized ''Invalid or revoked refresh token''), s2)"
proof -
  have "decode_token c e2 tok s2 = None" using assms(9)
  proof
    assume w: "env_now e2 \<le> us_seconds (cl_exp p) - us_seconds 1"
    have "env_now e \<le> us_seconds (cl_exp p) - us_seconds 1" using clock_runs [OF assms(7)] assms(8) w by simp
    then have "revoked_past (cl_jti p) (us_seconds (cl_exp p) - us_seconds 1) s1"
      using refresh_revokes [OF assms(1,3-6)] by simp
    then show ?thesis by (rule run_refused [OF assms(7,1,4,5) _ assms(8) w])
  qed (rule expired_refused [OF assms(1,2,4)])
  then show ?thesis by (simp add: refresh_tokens_def)
qed

section \<open>Requests\<close>



text \<open>A token just issued opens the door to its user, in the role it was issued for.\<close>

lemma issued_token_accepted:
  assumes "issue_tokens c e user s = (t, s')" "get_User (au_db s) (u_id user) = Some user" "u_is_active user"
    "\<And>q. cl_exp q \<ge> now_sec e2 \<Longrightarrow> jwt_decode c True (now_sec e2) (jwt_encode c q) = Some q"
    "now_sec e2 \<le> (env_now e + us_minutes (ac_access_minutes c)) div us_seconds 1"
    "py_int (show_int (u_id user)) = Some (u_id user)" "\<not> is_blacklisted e2 (ac_uuid c (env_now e) 0) s'"
  shows "for_roles c e2 [UserRole_value (u_role user)] (Some (tk_access t)) s' = Inr (tk_user t)"
proof -
  have "get_User (au_db s') (u_id user) = Some (tk_user t)"
    using assms(1,2) by (auto simp: issue_tokens_def create_token_pair_def set_presence_def t_get_put)
  with assms show ?thesis
    by (auto simp: for_roles_def require_access_token_def decode_token_def issue_tokens_def create_token_pair_def
        create_access_token_def load_user_def role_claim_def or_str_def truthy_str_def)
qed

section \<open>One administrator\<close>

definition admins :: "auth_state \<Rightarrow> User list" where
  "admins s = filter (\<lambda>u. u_role u = UR_ADMIN) (rows (users (au_db s)))"

lemma admins_roles: "length (admins s) = length (filter (\<lambda>r. r = UR_ADMIN) (roles s))"
  by (simp add: admins_def roles_def filter_map comp_def)

lemma no_admins: "UR_ADMIN \<notin> set (roles s) \<Longrightarrow> length (admins s) = 0"
  by (simp only: admins_roles) (auto simp: filter_empty_conv)

lemma step_keeps_admin:
  assumes "auth_step c (t, s) (t2, s2)" "db_wf (au_db s)"
  shows "db_wf (au_db s2) \<and> (length (admins s2) = length (admins s) \<or> (length (admins s) = 0 \<and> length (admins s2) = 1))"
  using assms(1)
proof (cases rule: auth_step_cases)
  case (quiet e a)
  then have "db_wf (au_db a)" "roles a = roles s" using assms(2) by (simp_all add: revokes_users roles_def)
  with quiet(4) obtain rs where "db_wf (au_db s2)" "roles s2 = roles s @ rs" "UR_ADMIN \<notin> set rs"
    by (auto simp: calm_def)
  then show ?thesis by (auto simp: admins_roles filter_empty_conv)
next
  case (admin e nm ph em pw)
  with register_roles [of c e nm ph em pw s] register_wf [OF assms(2), of c e nm ph em pw] no_admins [of s]
  show ?thesis by (auto simp: admins_roles)
qed

text \<open>Property C10 (one_admin): no run of the service ever has a second administrator, and once there is one the
  registration stays closed.\<close>

theorem one_admin:
  assumes "(auth_step c)\<^sup>*\<^sup>* (t, s) (t2, s2)" "db_wf (au_db s)" "length (admins s) \<le> 1"
  shows "length (admins s2) \<le> 1 \<and>
    (admins s \<noteq> [] \<longrightarrow> admin_register c e nm ph em pw s2 = (Inl (conflict ''Admin already registered. Please sign in.''), s2))"
proof -
  have "db_wf (au_db (snd q)) \<and> (length (admins (snd q)) = length (admins s) \<or> (length (admins s) = 0 \<and> length (admins (snd q)) = 1))"
    if "(auth_step c)\<^sup>*\<^sup>* (t, s) q" for q
    using that
  proof (induction rule: rtranclp_induct)
    case (step a b)
    with step_keeps_admin [of c "fst a" "snd a" "fst b" "snd b"] show ?case by auto
  qed (simp add: assms(2))
  from this [OF assms(1)] have r: "length (admins s2) = length (admins s) \<or> (length (admins s) = 0 \<and> length (admins s2) = 1)"
    by simp
  have "admin_exists s2" if "admins s2 \<noteq> []"
    using that by (auto simp: admin_exists_def get_admin_def t_first_def admins_def find_None_iff filter_empty_conv)
  moreover have "admins s \<noteq> [] \<longrightarrow> admins s2 \<noteq> []" using r by auto
  ultimately show ?thesis using r assms(3) by (auto simp: admin_register_def)
qed

section \<open>Samples\<close>

text \<open>A codec that knows a refresh token and an access token of user 1, and a state in which that user has a code waiting.\<close>

definition refresh_claims :: claims where
  "refresh_claims = \<lparr>cl_sub = ''1'', cl_type = ''refresh'', cl_exp = 1790000000, cl_jti = ''J1'', cl_role = None\<rparr>"

definition access_claims :: claims where
  "access_claims = \<lparr>cl_sub = ''1'', cl_type = ''access'', cl_exp = 1790000000, cl_jti = ''J0'', cl_role = Some ''customer''\<rparr>"

definition sample_cfg :: auth_cfg where
  "sample_cfg = \<lparr>ac_dev = True, ac_dev_code = ''1234'', ac_otp_minutes = 5, ac_access_minutes = 60, ac_refresh_days = 30,
     ac_hash = (\<lambda>p. ''h:'' @ p), ac_verify = (\<lambda>p h. h = ''h:'' @ p), jwt_encode = (\<lambda>p. cl_sub p),
     jwt_decode = (\<lambda>chk t tok. if chk \<and> 1790000000 < t then None else if tok = ''T1'' then Some refresh_claims
       else if tok = ''A1'' then Some access_claims else None),
     ac_uuid = (\<lambda>t k. ''J2''), ac_google = (\<lambda>tok. None), ac_sms = (\<lambda>p. True), ac_mail = (\<lambda>m. True)\<rparr>"

definition asha :: User where
  "asha = (new_User 0 ''+4412'')\<lparr>u_id := 1, u_name := Some ''Asha''\<rparr>"

definition door_state :: auth_state where
  "door_state = \<lparr>au_db = empty_db\<lparr>users := \<lparr>rows = [asha], next_id = 2\<rparr>\<rparr>,
     au_otps = \<lparr>rows = [(new_OTPCode (env_now sample_env) ''+4412'' ''1234'' ''login'' (env_now sample_env + us_minutes 5))\<lparr>otp_id := 1\<rparr>],
       next_id = 2\<rparr>, au_up = True, au_cache = (\<lambda>k. None), au_rates = (\<lambda>k. None), au_revoked = (\<lambda>k. None)\<rparr>"

lemma sample_now: "env_now sample_env = 1784635200000000"
  by (simp add: sample_env_def us_days_def us_hours_def)

lemma sample_codec: "codec_ok sample_cfg"
  by (auto simp: codec_ok_def sample_cfg_def refresh_claims_def access_claims_def split: if_splits)

lemma sample_expires: "codec_expires sample_cfg"
  by (auto simp: codec_expires_def sample_cfg_def refresh_claims_def access_claims_def split: if_splits)

lemma asha_id: "py_int ''1'' = Some 1"
  by (simp add: py_int_def strip_def is_space_def is_digit_char_def char_code_def)

lemma asha_phone: "auth_phone ''+4412'' = ''+4412''"
  by (simp add: auth_phone_def is_digit_char_def char_code_def)

lemma door_facts [simp]:
  "au_db door_state = empty_db\<lparr>users := \<lparr>rows = [asha], next_id = 2\<rparr>\<rparr>" "au_up door_state"
  "au_cache door_state = (\<lambda>k. None)" "au_revoked door_state = (\<lambda>k. None)"
  by (simp_all add: door_state_def)

lemma door_wf: "db_wf (au_db door_state)"
  by (simp add: db_wf_empty t_wf_def asha_def new_User_def)

lemma door_codes:
  "filter (unused_otp ''+4412'' ''1234'' None) (rows (au_otps door_state)) = rows (au_otps door_state)"
  "length (rows (au_otps door_state)) = 1"
  by (simp_all add: door_state_def unused_otp_def new_OTPCode_def)

lemma door_login:
  "\<exists>t s'. verify_otp_and_login sample_cfg sample_env ''+4412'' ''1234'' None None False door_state = (Inr t, s')"
proof -
  have "check_otp sample_env ''+4412'' ''1234'' None door_state = (Inr (hd (rows (au_otps door_state))), door_state)"
    by (simp add: check_otp_def or_str_def cache_get_def)
      (simp add: door_state_def t_last_def unused_otp_def new_OTPCode_def us_minutes_def)
  moreover have "user_by_phone (au_db door_state) ''+4412'' = Some asha"
    by (simp add: user_by_phone_def t_first_def asha_def new_User_def)
  moreover have "u_role asha = UR_CUSTOMER" by (simp add: asha_def new_User_def)
  ultimately show ?thesis by (simp add: verify_otp_and_login_def asha_phone Let_def issue_tokens_def)
qed

lemma otp_login_once_witness:
  "\<exists>t s'. verify_otp_and_login sample_cfg sample_env ''+4412'' ''1234'' None None False door_state = (Inr t, s')
     \<and> u_phone (tk_user t) = ''+4412''
     \<and> verify_otp_and_login sample_cfg sample_env ''+4412'' ''1234'' None None False s'
       = (Inl (bad_request ''Invalid or expired OTP''), s')"
proof -
  obtain t s' where r: "verify_otp_and_login sample_cfg sample_env ''+4412'' ''1234'' None None False door_state = (Inr t, s')"
    using door_login by blast
  with otp_login_once [OF r] door_codes show ?thesis by (simp add: asha_phone)
qed

lemma door_refresh: "\<exists>t s'. refresh_tokens sample_cfg sample_env ''T1'' door_state = (Inr t, s')"
  by (simp add: refresh_tokens_def decode_token_def sample_cfg_def refresh_claims_def now_sec_def sample_now us_seconds_def is_blacklisted_def cache_get_def asha_id t_get_def asha_def new_User_def issue_tokens_def)

lemma refresh_once_witness:
  "\<exists>t s'. refresh_tokens sample_cfg sample_env ''T1'' door_state = (Inr t, s')
     \<and> fst (refresh_tokens sample_cfg sample_env ''T1'' (snd (guest_login sample_cfg sample_env s')))
       = Inl (unauthorized ''Invalid or revoked refresh token'')"
proof -
  obtain t s' where r: "refresh_tokens sample_cfg sample_env ''T1'' door_state = (Inr t, s')"
    using door_refresh by blast
  have d: "jwt_decode sample_cfg True (now_sec sample_env) ''T1'' = Some refresh_claims"
    by (simp add: sample_cfg_def now_sec_def sample_now us_seconds_def)
  have "(auth_step sample_cfg)\<^sup>*\<^sup>* (env_now sample_env, s') (env_now sample_env, snd (guest_login sample_cfg sample_env s'))"
    by (intro r_into_rtranclp auth_step.guest) simp
  with r refresh_once [OF sample_codec sample_expires r d _ _ this] show ?thesis
    by (simp add: refresh_claims_def sample_now us_seconds_def)
qed



lemma door_register:
  "length (admins (snd (admin_register sample_cfg sample_env ''Meera'' ''+4413'' ''m@cafe'' ''secret'' door_state))) = 1"
proof -
  have "auth_phone ''+4413'' = ''+4413''" by (simp add: auth_phone_def is_digit_char_def char_code_def)
  moreover have "py_len ''secret'' = 6" by (simp add: py_len_def char_code_def)
  moreover have "u_role asha = UR_CUSTOMER" "u_phone asha = ''+4412''" "u_email asha = None"
    by (simp_all add: asha_def new_User_def)
  ultimately show ?thesis
    by (simp add: admin_register_def Let_def admin_exists_def get_admin_def user_by_phone_def user_by_email_def t_first_def
        store_code_def admin_row_def admins_def rows_t_insert)
qed

lemma one_admin_witness:
  "length (admins (snd (admin_register sample_cfg sample_env ''Meera'' ''+4413'' ''m@cafe'' ''secret'' door_state))) = 1
   \<and> admin_register sample_cfg sample_env ''Tom'' ''+4414'' ''t@cafe'' ''secret''
       (snd (admin_register sample_cfg sample_env ''Meera'' ''+4413'' ''m@cafe'' ''secret'' door_state))
     = (Inl (conflict ''Admin already registered. Please sign in.''),
        snd (admin_register sample_cfg sample_env ''Meera'' ''+4413'' ''m@cafe'' ''secret'' door_state))"
  (is "length (admins ?s) = 1 \<and> _")
proof -
  have w: "db_wf (au_db ?s)" by (rule register_wf [OF door_wf])
  have "length (admins ?s) \<le> 1" "admins ?s \<noteq> []" using door_register by auto
  with one_admin [where c = sample_cfg and e = sample_env and nm = "''Tom''" and ph = "''+4414''" and em = "''t@cafe''" and pw = "''secret''",
    OF rtranclp.rtrancl_refl w]
  show ?thesis using door_register by simp
qed

text \<open>In the last second of a token its remaining time rounds down to 0, nothing is revoked, and the token
  rotates again.\<close>

lemma revoked_window:
  assumes "jwt_decode c False (now_sec e) tok = Some p" "us_seconds (cl_exp p) - env_now e < us_seconds 1"
  shows "blacklist_token c e tok s = s"
proof -
  have "(us_seconds (cl_exp p) - env_now e) div us_seconds 1 < 1"
    using assms(2) zdiv_mono1 [of "us_seconds (cl_exp p) - env_now e" "us_seconds 1 - 1" "us_seconds 1"]
    by (simp add: us_seconds_def)
  with assms(1) show ?thesis by (simp add: blacklist_token_def blacklist_jti_def)
qed

end
