(* ===== verification/ShopHours.thy ===== *)
theory ShopHours
  imports Payments
begin

text \<open>
  \<open>package/common/shop_hours.py\<close>: the opening hours of a shop, in Indian Standard Time (UTC+5:30, no
  daylight saving).  A time of day is its microseconds since midnight, a weekday a number from
  Monday 0.  The window of hours is the arc of the clock from opening to closing (\<open>shop_hours_circular\<close>).
\<close>

section \<open>Times of day\<close>

fun split_on :: "char \<Rightarrow> string \<Rightarrow> string list" where
  "split_on sep [] = [[]]"
| "split_on sep (c # cs) = (if c = sep then [] # split_on sep cs
     else (case split_on sep cs of [] \<Rightarrow> [[c]] | w # ws \<Rightarrow> (c # w) # ws))"

definition time_of :: "int \<Rightarrow> int \<Rightarrow> int" where
  "time_of h m = us_hours h + us_minutes m"

definition parse_hhmm :: "string option \<Rightarrow> int \<Rightarrow> int" where
  "parse_hhmm raw dflt = (let s = strip (or_str raw []) in
     if s = [] then dflt
     else (case split_on CHR '':'' (replace_char CHR ''.'' CHR '':'' s) of
       [] \<Rightarrow> dflt
     | w # ws \<Rightarrow> (case (py_int w, case ws of [] \<Rightarrow> Some 0 | v # _ \<Rightarrow> py_int v) of
         (Some h, Some m) \<Rightarrow> if 0 \<le> h \<and> h \<le> 23 \<and> 0 \<le> m \<and> m \<le> 59 then time_of h m else dflt
       | _ \<Rightarrow> dflt)))"

definition ist :: "datetime \<Rightarrow> datetime" where
  "ist t = t + us_hours 5 + us_minutes 30"

definition ist_clock :: "datetime \<Rightarrow> int" where
  "ist_clock t = ist t mod us_days 1"

text \<open>1970-01-01 was a Thursday.\<close>

definition ist_weekday :: "datetime \<Rightarrow> int" where
  "ist_weekday t = (ist t div us_days 1 + 3) mod 7"

section \<open>Days\<close>

definition DAY_ALIASES :: "(string \<times> int) list" where
  "DAY_ALIASES = [(''mon'', 0), (''monday'', 0), (''tue'', 1), (''tues'', 1), (''tuesday'', 1), (''wed'', 2),
     (''wednesday'', 2), (''thu'', 3), (''thur'', 3), (''thurs'', 3), (''thursday'', 3), (''fri'', 4), (''friday'', 4),
     (''sat'', 5), (''saturday'', 5), (''sun'', 6), (''sunday'', 6)]"

definition days_key :: "string \<Rightarrow> string" where
  "days_key raw = filter (\<lambda>c. c \<noteq> CHR '' '') (str_lower raw)"

definition day_range :: "string \<Rightarrow> (int \<times> int) option" where
  "day_range key =
     (if CHR ''-'' \<in> set key \<and> CHR '','' \<notin> set key
      then (case (map_of DAY_ALIASES (takeWhile (\<lambda>c. c \<noteq> CHR ''-'') key),
                  map_of DAY_ALIASES (tl (dropWhile (\<lambda>c. c \<noteq> CHR ''-'') key))) of
              (Some a, Some b) \<Rightarrow> Some (a, b) | _ \<Rightarrow> None)
      else None)"

definition day_tokens :: "string \<Rightarrow> int list" where
  "day_tokens key = List.map_filter (map_of DAY_ALIASES)
     (filter (\<lambda>t. t \<noteq> []) (split_on CHR '','' (replace_char CHR ''/'' CHR '','' key)))"

definition day_allowed :: "string option \<Rightarrow> int \<Rightarrow> bool" where
  "day_allowed shop_days weekday = (let raw = strip (or_str shop_days []) in
     if raw = [] then True
     else let key = days_key raw in
       if key \<in> set [''mon-sun'', ''daily'', ''all'', ''everyday'', ''alldays''] then True
       else (case day_range key of
         Some (a, b) \<Rightarrow> if a \<le> b then a \<le> weekday \<and> weekday \<le> b else a \<le> weekday \<or> weekday \<le> b
       | None \<Rightarrow> if day_tokens key = [] then True else weekday \<in> set (day_tokens key)))"

section \<open>Hours\<close>

definition is_within_shop_hours :: "string option \<Rightarrow> string option \<Rightarrow> string option \<Rightarrow> datetime \<Rightarrow> bool" where
  "is_within_shop_hours shop_open_time shop_close_time shop_days now =
     (if \<not> day_allowed shop_days (ist_weekday now) then False
      else let open_t = parse_hhmm shop_open_time (time_of 9 0);
               close_t = parse_hhmm shop_close_time (time_of 21 0);
               cur = ist_clock now
           in if open_t = close_t then True
              else if open_t < close_t then open_t \<le> cur \<and> cur < close_t
              else open_t \<le> cur \<or> cur < close_t)"

definition profile_within_hours :: "env \<Rightarrow> RetailerProfile \<Rightarrow> bool" where
  "profile_within_hours e p =
     is_within_shop_hours (rp_shop_open_time p) (rp_shop_close_time p) (rp_shop_days p) (env_now e)"

text \<open>The profile with \<open>is_open\<close> cleared, when that changes it.\<close>

definition enforce_auto_close :: "env \<Rightarrow> RetailerProfile \<Rightarrow> RetailerProfile option" where
  "enforce_auto_close e p =
     (if \<not> rp_is_open p then None
      else if profile_within_hours e p then None
      else Some (p\<lparr>rp_is_open := False\<rparr>))"

section \<open>The window is an arc\<close>

lemma parse_hhmm_range:
  assumes "0 \<le> dflt" "dflt < us_days 1"
  shows "0 \<le> parse_hhmm raw dflt \<and> parse_hhmm raw dflt < us_days 1"
  using assms
  by (auto simp: parse_hhmm_def Let_def time_of_def us_hours_def us_minutes_def us_days_def split: list.splits option.splits)

lemma ist_clock_range: "0 \<le> ist_clock t" "ist_clock t < us_days 1"
  by (simp_all add: ist_clock_def us_days_def)

lemma mod_day: "- (n::int) < x \<Longrightarrow> x < n \<Longrightarrow> x mod n = (if x < 0 then x + n else x)"
  using mod_add_self2 [of x n] mod_pos_pos_trivial [of "x + n" n] mod_pos_pos_trivial [of x n] by auto

text \<open>Property C31 (shop_hours_circular): a shop is within its hours exactly on an open day when the time gone by on the
  clock since its opening is less than the length of its window, past midnight or not; equal times mean
  the whole day.\<close>

theorem shop_hours_circular:
  "is_within_shop_hours opens closes days now \<longleftrightarrow>
    (let a = parse_hhmm opens (time_of 9 0); z = parse_hhmm closes (time_of 21 0)
     in day_allowed days (ist_weekday now)
        \<and> (a = z \<or> (ist_clock now - a) mod us_days 1 < (z - a) mod us_days 1))"
proof -
  define a z where "a = parse_hhmm opens (time_of 9 0)" and "z = parse_hhmm closes (time_of 21 0)"
  have r: "0 \<le> a" "a < us_days 1" "0 \<le> z" "z < us_days 1"
    using parse_hhmm_range [of "time_of 9 0" opens] parse_hhmm_range [of "time_of 21 0" closes]
    by (simp_all add: a_def z_def time_of_def us_hours_def us_minutes_def us_days_def)
  have "(ist_clock now - a) mod us_days 1 = (if ist_clock now < a then ist_clock now - a + us_days 1 else ist_clock now - a)"
    using r ist_clock_range [of now] by (subst mod_day) auto
  moreover have "(z - a) mod us_days 1 = (if z < a then z - a + us_days 1 else z - a)"
    using r by (subst mod_day) auto
  ultimately show ?thesis
    using r ist_clock_range [of now] by (auto simp: is_within_shop_hours_def a_def [symmetric] z_def [symmetric] Let_def)
qed

text \<open>A range of days is an arc of the week, its last day included.\<close>

lemma day_range_circular:
  assumes "strip days \<noteq> []" "days_key (strip days) \<notin> set [''mon-sun'', ''daily'', ''all'', ''everyday'', ''alldays'']"
    and "day_range (days_key (strip days)) = Some (a, b)" "0 \<le> w" "w < 7"
  shows "day_allowed (Some days) w \<longleftrightarrow> (w - a) mod 7 \<le> (b - a) mod 7"
proof -
  have "0 \<le> v \<and> v < 7" if "map_of DAY_ALIASES k = Some v" for k v
    using map_of_SomeD [OF that] by (auto simp: DAY_ALIASES_def)
  then have r: "0 \<le> a" "a < 7" "0 \<le> b" "b < 7"
    using assms(3) by (fastforce simp: day_range_def split: if_splits option.splits)+
  have "(w - a) mod 7 = (if w < a then w - a + 7 else w - a)" "(b - a) mod 7 = (if b < a then b - a + 7 else b - a)"
    using r assms(4,5) by (simp_all add: mod_day)
  then show ?thesis using r assms by (auto simp: day_allowed_def or_str_def)
qed

lemma auto_close_only_closes:
  "enforce_auto_close e p = Some q \<Longrightarrow> q = p\<lparr>rp_is_open := False\<rparr> \<and> rp_is_open p \<and> \<not> profile_within_hours e p"
  by (simp add: enforce_auto_close_def split: if_splits)

end
