(* ===== verification/Shops.thy ===== *)
theory Shops
  imports ShopHours Sell
begin

text \<open>
  \<open>store_ops_service/app/services/shops.py\<close> and the profile part of \<open>retailer_bff.py\<close>: the owner's list of
  shops, registration, approval, the selling plan set by hand, and the shop's own view and changes of
  its profile.  Reading a shop closes it when its hours are over.  A null sent for a column that takes
  none fails at the commit.  \<open>hash\<close> is bcrypt.
\<close>

section \<open>The owner's list\<close>

definition address_display :: "RetailerProfile \<Rightarrow> string option" where
  "address_display p =
     (let parts = filter (\<lambda>x. x \<noteq> []) (map strip [or_str (rp_address_line p) [], or_str (rp_village p) [],
                    or_str (rp_area p) [], rp_city p, or_str (rp_pincode p) []])
      in if parts = [] then None else Some (join '', '' parts))"

record shop_view =
  sv_profile :: RetailerProfile
  sv_owner_name :: "string option"
  sv_phone :: "string option"
  sv_email :: "string option"
  sv_address_display :: "string option"
  sv_credit_remaining :: rat
  sv_approval_status :: string
  sv_sell_subscription_status :: string
  sv_is_online :: bool
  sv_last_seen_at :: "datetime option"

text \<open>The columns the answer copies as they are stand in \<open>sv_profile\<close>.\<close>

definition shop_row :: "db \<Rightarrow> RetailerProfile \<Rightarrow> shop_view" where
  "shop_row d p = (let u = get_User d (rp_user_id p) in
     \<lparr>sv_profile = p,
      sv_owner_name = (if truthy_str (rp_owner_name p) then rp_owner_name p else (case u of None \<Rightarrow> None | Some x \<Rightarrow> u_name x)),
      sv_phone = map_option u_phone u, sv_email = (case u of None \<Rightarrow> None | Some x \<Rightarrow> u_email x),
      sv_address_display = address_display p,
      sv_credit_remaining = max 0 (round2 (fl (rp_credit_limit p - rp_outstanding_balance p))),
      sv_approval_status = (if rp_approval_status p = [] then ''approved'' else rp_approval_status p),
      sv_sell_subscription_status =
        (if rp_sell_subscription_status p = [] then ''none'' else rp_sell_subscription_status p),
      sv_is_online = (case u of None \<Rightarrow> False | Some x \<Rightarrow> u_is_online x),
      sv_last_seen_at = (case u of None \<Rightarrow> None | Some x \<Rightarrow> u_last_seen_at x)\<rparr>)"

definition closed_now :: "env \<Rightarrow> RetailerProfile \<Rightarrow> RetailerProfile" where
  "closed_now e p = (case enforce_auto_close e p of None \<Rightarrow> p | Some q \<Rightarrow> q)"

definition list_shops :: "env \<Rightarrow> db \<Rightarrow> shop_view list \<times> db" where
  "list_shops e d =
     (let ps = map (closed_now e) (rows (profiles d))
      in (map (shop_row d) ps, d\<lparr>profiles := (profiles d)\<lparr>rows := ps\<rparr>\<rparr>))"

section \<open>Registration\<close>

record ShopCreateIn =
  sci_phone :: string
  sci_password :: string
  sci_shop_name :: string
  sci_owner_name :: string
  sci_village :: "string option"
  sci_area :: "string option"
  sci_zone :: "string option"
  sci_city :: string
  sci_state :: string
  sci_pincode :: "string option"
  sci_address_line :: "string option"
  sci_gstin :: "string option"
  sci_contact_phone :: "string option"
  sci_credit_allowed :: bool
  sci_credit_limit :: rat

definition new_shop_user :: "(string \<Rightarrow> string) \<Rightarrow> env \<Rightarrow> ShopCreateIn \<Rightarrow> User" where
  "new_shop_user hash e b = (new_User (env_now e) (normalize_phone (sci_phone b)))
     \<lparr>u_name := Some (strip (sci_owner_name b)), u_password_hash := Some (hash (sci_password b)),
      u_role := UR_RETAILER, u_terms_accepted := True, u_is_active := True\<rparr>"

definition shop_contact :: "ShopCreateIn \<Rightarrow> string" where
  "shop_contact b = (let phone = normalize_phone (sci_phone b); c = strip (or_str (sci_contact_phone b) phone)
     in if c = [] then phone else c)"

definition shop_profile_of :: "env \<Rightarrow> ShopCreateIn \<Rightarrow> int \<Rightarrow> RetailerProfile" where
  "shop_profile_of e b user_id = (new_RetailerProfile (env_now e) user_id (strip (sci_shop_name b)))
     \<lparr>rp_owner_name := Some (strip (sci_owner_name b)), rp_contact_phone := Some (shop_contact b),
      rp_village := sci_village b, rp_area := sci_area b, rp_zone := sci_zone b, rp_city := sci_city b,
      rp_state := sci_state b, rp_pincode := sci_pincode b, rp_address_line := sci_address_line b,
      rp_gstin := sci_gstin b, rp_credit_allowed := sci_credit_allowed b, rp_credit_limit := sci_credit_limit b,
      rp_approval_status := ''approved''\<rparr>"

definition create_shop :: "(string \<Rightarrow> string) \<Rightarrow> env \<Rightarrow> ShopCreateIn \<Rightarrow> db \<Rightarrow> (exc + json) \<times> db" where
  "create_shop hash e b d =
     (let phone = normalize_phone (sci_phone b)
      in if py_len (sci_password b) < 6 then (Inl (bad_request ''Password must be at least 6 characters''), d)
         else if t_first (\<lambda>u. u_phone u = phone) (users d) \<noteq> None then (Inl (conflict ''Phone already in use''), d)
         else let user = key_User (new_shop_user hash e b) d;
                  d1 = add_User (new_shop_user hash e b) d;
                  profile = shop_profile_of e b (u_id user)
              in (Inr (JObj [(''user_id'', JInt (u_id user)), (''phone'', JStr phone),
                    (''shop_name'', JStr (rp_shop_name profile)), (''approval_status'', JStr ''approved''),
                    (''message'', JStr ''Shop created. Retailer can sign in with phone + password.'')]),
                  add_RetailerProfile profile d1))"

section \<open>Approval\<close>

definition shop_status_payload :: "RetailerProfile \<Rightarrow> (string \<times> json) list" where
  "shop_status_payload p = [(''user_id'', JInt (rp_user_id p)), (''shop_name'', JStr (rp_shop_name p)),
     (''approval_status'', JStr (rp_approval_status p))]"

definition approve_shop :: "int \<Rightarrow> bool option \<Rightarrow> rat option \<Rightarrow> db \<Rightarrow> (exc + json) \<times> db" where
  "approve_shop retailer_user_id credit_allowed credit_limit d = (case profile_of d retailer_user_id of
     None \<Rightarrow> (Inl (not_found ''Shop not found''), d)
   | Some p \<Rightarrow>
       let p2 = p\<lparr>rp_approval_status := ''approved'', rp_is_blocked := False,
                  rp_credit_allowed := upd credit_allowed (rp_credit_allowed p),
                  rp_credit_limit := upd credit_limit (rp_credit_limit p)\<rparr>;
           payload = shop_status_payload p2 @ [(''credit_allowed'', JBool (rp_credit_allowed p2)),
                       (''credit_limit'', JFloat (rp_credit_limit p2))]
       in (Inr (JObj [(''user_id'', JInt (rp_user_id p2)), (''approval_status'', JStr ''approved''),
                (''message'', JStr ''Shop approved'')]),
           emit_user_event (rp_user_id p2) ''shop_status'' payload
             (emit_admin_event ''shop_approved'' payload (put_RetailerProfile p2 d))))"

definition reject_shop :: "int \<Rightarrow> db \<Rightarrow> (exc + json) \<times> db" where
  "reject_shop retailer_user_id d = (case profile_of d retailer_user_id of
     None \<Rightarrow> (Inl (not_found ''Shop not found''), d)
   | Some p \<Rightarrow>
       let p2 = p\<lparr>rp_approval_status := ''rejected''\<rparr>
       in (Inr (JObj [(''user_id'', JInt (rp_user_id p2)), (''approval_status'', JStr ''rejected'')]),
           emit_user_event (rp_user_id p2) ''shop_status'' (shop_status_payload p2)
             (emit_admin_event ''shop_rejected'' (shop_status_payload p2) (put_RetailerProfile p2 d))))"

definition set_sell_subscription :: "env \<Rightarrow> int \<Rightarrow> string \<Rightarrow> db \<Rightarrow> (exc + json) \<times> db" where
  "set_sell_subscription e retailer_user_id status0 d = (case profile_of d retailer_user_id of
     None \<Rightarrow> (Inl (not_found ''Shop not found''), d)
   | Some p \<Rightarrow>
       let status = str_lower (strip status0)
       in if status \<notin> set [''approved'', ''rejected'', ''pending'', ''none'', ''expired'']
          then (Inl (bad_request ''status must be approved|rejected|pending|none|expired''), d)
          else let p1 = p\<lparr>rp_sell_subscription_status := status\<rparr>;
                   p2 = (if status \<noteq> ''approved'' then p1
                         else if rp_sell_subscription_expires_at p1 = None
                         then p1\<lparr>rp_sell_plan := Some (or_str (rp_sell_plan p1) ''monthly''),
                                 rp_sell_subscription_expires_at := Some (env_now e + us_days 30), rp_sell_rz_pending := None\<rparr>
                         else p1\<lparr>rp_sell_rz_pending := None\<rparr>)
               in (Inr (JObj [(''user_id'', JInt (rp_user_id p2)), (''sell_subscription_status'', JStr status),
                     (''sell_plan'', jopt_str (rp_sell_plan p2)), (''message'', JStr (''Sell subscription set to '' @ status))]),
                   emit_user_event (rp_user_id p2) ''sell_subscription''
                     [(''sell_subscription_status'', JStr status), (''shop_name'', JStr (rp_shop_name p2)),
                      (''sell_plan'', jopt_str (rp_sell_plan p2))] (put_RetailerProfile p2 d)))"

section \<open>Changes by the owner\<close>

text \<open>A field of a patch is unset, null or a value.\<close>

definition upd_req :: "'a option option \<Rightarrow> 'a \<Rightarrow> 'a" where
  "upd_req x old = (case x of Some (Some v) \<Rightarrow> v | _ \<Rightarrow> old)"

record ShopPatchIn =
  shp_is_blocked :: "bool option option"
  shp_credit_allowed :: "bool option option"
  shp_credit_limit :: "rat option option"
  shp_contact_phone :: "string option option"
  shp_zone :: "string option option"
  shp_village :: "string option option"
  shp_is_wholesaler :: "bool option option"
  shp_upi_id :: "string option option"
  shp_bank_account :: "string option option"

definition shop_patched :: "ShopPatchIn \<Rightarrow> RetailerProfile \<Rightarrow> RetailerProfile" where
  "shop_patched b p = p
     \<lparr>rp_is_blocked := upd_req (shp_is_blocked b) (rp_is_blocked p),
      rp_credit_allowed := upd_req (shp_credit_allowed b) (rp_credit_allowed p),
      rp_credit_limit := upd_req (shp_credit_limit b) (rp_credit_limit p),
      rp_contact_phone := upd (map_option (map_option normalize_phone) (shp_contact_phone b)) (rp_contact_phone p),
      rp_zone := upd (shp_zone b) (rp_zone p), rp_village := upd (shp_village b) (rp_village p),
      rp_is_wholesaler := upd_req (shp_is_wholesaler b) (rp_is_wholesaler p),
      rp_upi_id := upd (shp_upi_id b) (rp_upi_id p), rp_bank_account := upd (shp_bank_account b) (rp_bank_account p)\<rparr>"

definition shop_patch_null :: "ShopPatchIn \<Rightarrow> bool" where
  "shop_patch_null b \<longleftrightarrow> shp_is_blocked b = Some None \<or> shp_credit_allowed b = Some None \<or> shp_credit_limit b = Some None
     \<or> shp_is_wholesaler b = Some None"

definition patch_shop :: "int \<Rightarrow> ShopPatchIn \<Rightarrow> db \<Rightarrow> (exc + json) \<times> db" where
  "patch_shop retailer_user_id b d = (case profile_of d retailer_user_id of
     None \<Rightarrow> (Inl (not_found ''Shop not found''), d)
   | Some p \<Rightarrow> if shop_patch_null b then (Inl (PyExc ''IntegrityError''), d)
              else (Inr (JObj [(''user_id'', JInt (rp_user_id p)), (''shop_name'', JStr (rp_shop_name p)),
                      (''message'', JStr ''Shop updated'')]), put_RetailerProfile (shop_patched b p) d))"

section \<open>The shop's own profile\<close>

record RetailerProfilePatchIn =
  rpi_shop_name :: "string option option"
  rpi_owner_name :: "string option option"
  rpi_contact_phone :: "string option option"
  rpi_email :: "string option option"
  rpi_gstin :: "string option option"
  rpi_upi_id :: "string option option"
  rpi_village :: "string option option"
  rpi_area :: "string option option"
  rpi_city :: "string option option"
  rpi_state :: "string option option"
  rpi_zone :: "string option option"
  rpi_pincode :: "string option option"
  rpi_address_line :: "string option option"
  rpi_latitude :: "rat option option"
  rpi_longitude :: "rat option option"
  rpi_shop_open_time :: "string option option"
  rpi_shop_close_time :: "string option option"
  rpi_shop_days :: "string option option"
  rpi_shop_logo_url :: "string option option"
  rpi_is_open :: "bool option option"
  rpi_delivery_zones :: "string option option"
  rpi_delivery_charge :: "rat option option"
  rpi_delivery_charge_far :: "rat option option"
  rpi_delivery_radius_km :: "rat option option"
  rpi_min_order_value :: "rat option option"
  rpi_cancellation_policy :: "string option option"
  rpi_return_policy :: "string option option"
  rpi_refund_policy :: "string option option"
  rpi_chatbot_enabled :: "bool option option"
  rpi_call_enabled :: "bool option option"
  rpi_notifications_enabled :: "bool option option"

definition profile_patched :: "RetailerProfilePatchIn \<Rightarrow> RetailerProfile \<Rightarrow> RetailerProfile" where
  "profile_patched b p = p
     \<lparr>rp_shop_name := upd_req (rpi_shop_name b) (rp_shop_name p),
      rp_owner_name := upd (rpi_owner_name b) (rp_owner_name p),
      rp_contact_phone := upd (rpi_contact_phone b) (rp_contact_phone p),
      rp_gstin := upd (rpi_gstin b) (rp_gstin p),
      rp_upi_id := upd (rpi_upi_id b) (rp_upi_id p),
      rp_village := upd (rpi_village b) (rp_village p),
      rp_area := upd (rpi_area b) (rp_area p),
      rp_city := upd_req (rpi_city b) (rp_city p),
      rp_state := upd_req (rpi_state b) (rp_state p),
      rp_zone := upd (rpi_zone b) (rp_zone p),
      rp_pincode := upd (rpi_pincode b) (rp_pincode p),
      rp_address_line := upd (rpi_address_line b) (rp_address_line p),
      rp_latitude := upd (rpi_latitude b) (rp_latitude p),
      rp_longitude := upd (rpi_longitude b) (rp_longitude p),
      rp_shop_open_time := upd (rpi_shop_open_time b) (rp_shop_open_time p),
      rp_shop_close_time := upd (rpi_shop_close_time b) (rp_shop_close_time p),
      rp_shop_days := upd (rpi_shop_days b) (rp_shop_days p),
      rp_shop_logo_url := upd (rpi_shop_logo_url b) (rp_shop_logo_url p),
      rp_delivery_zones := upd (rpi_delivery_zones b) (rp_delivery_zones p),
      rp_delivery_charge := upd_req (rpi_delivery_charge b) (rp_delivery_charge p),
      rp_delivery_charge_far := upd_req (rpi_delivery_charge_far b) (rp_delivery_charge_far p),
      rp_delivery_radius_km := upd_req (rpi_delivery_radius_km b) (rp_delivery_radius_km p),
      rp_min_order_value := upd_req (rpi_min_order_value b) (rp_min_order_value p),
      rp_cancellation_policy := upd (rpi_cancellation_policy b) (rp_cancellation_policy p),
      rp_return_policy := upd (rpi_return_policy b) (rp_return_policy p),
      rp_refund_policy := upd (rpi_refund_policy b) (rp_refund_policy p),
      rp_chatbot_enabled := upd_req (rpi_chatbot_enabled b) (rp_chatbot_enabled p),
      rp_call_enabled := upd_req (rpi_call_enabled b) (rp_call_enabled p),
      rp_notifications_enabled := upd_req (rpi_notifications_enabled b) (rp_notifications_enabled p)\<rparr>"

definition profile_patch_null :: "RetailerProfilePatchIn \<Rightarrow> bool" where
  "profile_patch_null b \<longleftrightarrow> rpi_shop_name b = Some None \<or> rpi_city b = Some None \<or> rpi_state b = Some None
     \<or> rpi_delivery_charge b = Some None \<or> rpi_delivery_charge_far b = Some None \<or> rpi_delivery_radius_km b = Some None
     \<or> rpi_min_order_value b = Some None \<or> rpi_chatbot_enabled b = Some None \<or> rpi_call_enabled b = Some None
     \<or> rpi_notifications_enabled b = Some None"

definition persist_schedule_close :: "env \<Rightarrow> RetailerProfile \<Rightarrow> db \<Rightarrow> db" where
  "persist_schedule_close e p d = (case enforce_auto_close e p of
     None \<Rightarrow> d
   | Some q \<Rightarrow> emit_admin_event ''shop_hours_closed''
       [(''user_id'', JInt (rp_user_id q)), (''shop_name'', JStr (rp_shop_name q)), (''is_open'', JBool False)]
       (put_RetailerProfile q d))"

definition retailer_me :: "env \<Rightarrow> User \<Rightarrow> db \<Rightarrow> (exc + User \<times> RetailerProfile) \<times> db" where
  "retailer_me e user d = (case profile_of d (u_id user) of
     None \<Rightarrow> (Inl (not_found ''Retailer profile not found''), d)
   | Some p \<Rightarrow> (Inr (user, closed_now e p), persist_schedule_close e p d))"

definition with_email :: "string option option \<Rightarrow> User \<Rightarrow> User" where
  "with_email email user = (case email of
     Some (Some m) \<Rightarrow> user\<lparr>u_email := (if strip m = [] then None else Some (strip m))\<rparr> | _ \<Rightarrow> user)"

definition retailer_patch_me :: "env \<Rightarrow> User \<Rightarrow> RetailerProfilePatchIn \<Rightarrow> db \<Rightarrow> (exc + User \<times> RetailerProfile) \<times> db" where
  "retailer_patch_me e user b d = (case profile_of d (u_id user) of
     None \<Rightarrow> (Inl (not_found ''Retailer profile not found''), d)
   | Some p \<Rightarrow>
       let want_open = upd (rpi_is_open b) None;
           user2 = with_email (rpi_email b) user;
           p1 = profile_patched b p
       in if want_open = Some True \<and> \<not> profile_within_hours e p1
          then (Inl (bad_request (''Outside shop hours '' @ emdash @ '' update open/close time first'')), d)
          else if profile_patch_null b then (Inl (PyExc ''IntegrityError''), d)
          else let p2 = closed_now e (p1\<lparr>rp_is_open := upd want_open (rp_is_open p1)\<rparr>)
               in retailer_me e user2 (put_RetailerProfile p2 (put_User user2 d)))"

definition shop_payload :: "User \<Rightarrow> RetailerProfile \<Rightarrow> (string \<times> json) list" where
  "shop_payload user p =
     [(''user_id'', JInt (rp_user_id p)), (''shop_name'', JStr (rp_shop_name p)),
      (''owner_name'', jopt_str (if truthy_str (rp_owner_name p) then rp_owner_name p else u_name user)),
      (''phone'', JStr (u_phone user)), (''contact_phone'', jopt_str (rp_contact_phone p)),
      (''village'', jopt_str (rp_village p)), (''zone'', jopt_str (rp_zone p)),
      (''approval_status'', JStr ''pending''), (''outstanding_balance'', JFloat (rp_outstanding_balance p)),
      (''payable_balance'', JFloat (rp_payable_balance p)), (''credit_limit'', JFloat (rp_credit_limit p)),
      (''credit_allowed'', JBool (rp_credit_allowed p)), (''is_wholesaler'', JBool (rp_is_wholesaler p)),
      (''is_blocked'', JBool (rp_is_blocked p))]"

text \<open>Every administrator is told.\<close>

definition tell_admins :: "env \<Rightarrow> User \<Rightarrow> RetailerProfile \<Rightarrow> db \<Rightarrow> db" where
  "tell_admins e user p d = fold (\<lambda>admin. add_Notification
       ((new_Notification (env_now e) (u_id admin) ''Shop approval request'' (rp_shop_name p @ '' submitted for approval''))
         \<lparr>n_type := NT_SYSTEM, n_data := Some (JObj ((''kind'', JStr ''shop_submitted'') # shop_payload user p))\<rparr>))
     (t_all (\<lambda>u. u_role u = UR_ADMIN) (users d)) d"

definition retailer_submit :: "env \<Rightarrow> User \<Rightarrow> db \<Rightarrow> (exc + json) \<times> db" where
  "retailer_submit e user d = (case profile_of d (u_id user) of
     None \<Rightarrow> (Inl (not_found ''Retailer profile not found''), d)
   | Some p0 \<Rightarrow>
       let p = p0\<lparr>rp_approval_status := ''pending''\<rparr>
       in (Inr (JObj [(''approval_status'', JStr ''pending''), (''message'', JStr ''Submitted for bakery owner approval'')]),
           emit_user_event (u_id user) ''shop_status''
             [(''approval_status'', JStr ''pending''), (''shop_name'', JStr (rp_shop_name p))]
             (emit_admin_event ''shop_submitted'' (shop_payload user p)
               (tell_admins e user p (put_RetailerProfile p d)))))"

end
