(* ===== verification/Routing.thy ===== *)
theory Routing
  imports Rider "HOL-Library.Multiset"
begin

text \<open>
  \<open>routing_service/app/services/routing.py\<close> and its repository: the open stops of the day, the greedy
  route through them, the arrival estimate and the assignment of a rider.  \<open>env_haversine\<close> is the
  rounded great-circle distance of \<open>package/common/utils\<close>.  The route visits the located stops once each
  and always goes on to a nearest one (\<open>route_is_greedy\<close>).
\<close>

section \<open>Stops\<close>

definition routing_bakery_coords :: "db \<Rightarrow> rat \<times> rat" where
  "routing_bakery_coords d = (case t_first (\<lambda>_. True) (settings_rows d) of
     Some s \<Rightarrow> (bs_latitude s, bs_longitude s)
   | None \<Rightarrow> (fl (191197 / 10000), fl (728468 / 10000)))"

definition order_coords :: "db \<Rightarrow> Order \<Rightarrow> (rat \<times> rat) option" where
  "order_coords d ord = (case tracking_of d (o_id ord) of
     Some t \<Rightarrow> (case (dt_customer_lat t, dt_customer_lng t) of
         (Some lat, Some lng) \<Rightarrow> Some (lat, lng)
       | _ \<Rightarrow> (case (customer_coord ord ''latitude'' ''lat'', customer_coord ord ''longitude'' ''lng'') of
           (Some lat, Some lng) \<Rightarrow> Some (lat, lng) | _ \<Rightarrow> None))
   | None \<Rightarrow> (case (customer_coord ord ''latitude'' ''lat'', customer_coord ord ''longitude'' ''lng'') of
       (Some lat, Some lng) \<Rightarrow> Some (lat, lng) | _ \<Rightarrow> None))"

definition open_orders :: "db \<Rightarrow> Order list" where
  "open_orders d = take 100 (t_all (\<lambda>ord. o_status ord \<in> set [OS_PACKED, OS_DELIVERY_ASSIGNED, OS_OUT_FOR_DELIVERY]) (orders d))"

record stop =
  sp_order_id :: int
  sp_status :: OrderStatus
  sp_at :: "(rat \<times> rat) option"
  sp_distance_km :: "rat option"
  sp_delivery_person_id :: "int option"

definition stop_of :: "env \<Rightarrow> db \<Rightarrow> Order \<Rightarrow> stop" where
  "stop_of e d ord = (let (blat, blng) = routing_bakery_coords d; pos = order_coords d ord in
     \<lparr>sp_order_id = o_id ord, sp_status = o_status ord, sp_at = pos,
      sp_distance_km = map_option (\<lambda>(lat, lng). round2 (env_haversine e blat blng lat lng)) pos,
      sp_delivery_person_id = o_delivery_person_id ord\<rparr>)"

definition open_stops :: "env \<Rightarrow> db \<Rightarrow> stop list" where
  "open_stops e d = map (stop_of e d) (open_orders d)"

section \<open>The route\<close>

definition leg :: "env \<Rightarrow> rat \<times> rat \<Rightarrow> stop \<Rightarrow> rat" where
  "leg e here s = (case sp_at s of Some (lat, lng) \<Rightarrow> env_haversine e (fst here) (snd here) lat lng | None \<Rightarrow> 0)"

text \<open>The loop: sort what remains by its distance from here, take the first, go on from there.  The
  result is the stops with the length of the leg to each.\<close>

function greedy_route :: "env \<Rightarrow> rat \<times> rat \<Rightarrow> stop list \<Rightarrow> (stop \<times> rat) list" where
  "greedy_route e here [] = []"
| "greedy_route e here (s # ss) = (case sort_key (leg e here) (s # ss) of
     [] \<Rightarrow> []
   | nxt # rest \<Rightarrow> (nxt, leg e here nxt) # greedy_route e (case sp_at nxt of Some p \<Rightarrow> p | None \<Rightarrow> here) rest)"
  by pat_completeness auto

termination
proof (relation "measure (\<lambda>(e, here, ss). length ss)")
  fix e here s ss nxt rest
  assume "sort_key (leg e here) (s # ss) = nxt # rest"
  then have "length (nxt # rest) = length (s # ss)" by (metis length_sort)
  then show "((e, case sp_at nxt of Some p \<Rightarrow> p | None \<Rightarrow> here, rest), e, here, s # ss) \<in> measure (\<lambda>(e, here, ss). length ss)"
    by simp
qed simp

record route_plan =
  rt_route :: "(stop \<times> rat) list"
  rt_total_km :: rat
  rt_stops :: nat

definition wanted_stops :: "env \<Rightarrow> int list option \<Rightarrow> db \<Rightarrow> stop list" where
  "wanted_stops e order_ids d =
     filter (\<lambda>s. sp_at s \<noteq> None)
       (case order_ids of
          Some (k # ks) \<Rightarrow> filter (\<lambda>s. sp_order_id s \<in> set (k # ks)) (open_stops e d)
        | _ \<Rightarrow> open_stops e d)"

definition optimize_route :: "env \<Rightarrow> int list option \<Rightarrow> db \<Rightarrow> route_plan" where
  "optimize_route e order_ids d =
     (let route = greedy_route e (routing_bakery_coords d) (wanted_stops e order_ids d)
      in \<lparr>rt_route = map (\<lambda>(s, km). (s, round2 km)) route, rt_total_km = round2 (float_sum (map snd route)),
          rt_stops = length route\<rparr>)"

section \<open>Arrival and assignment\<close>

definition route_eta :: "env \<Rightarrow> int \<Rightarrow> db \<Rightarrow> exc + int \<times> string" where
  "route_eta e order_id d = (case get_Order d order_id of
     None \<Rightarrow> Inl (not_found ''Order not found'')
   | Some ord \<Rightarrow> (case (case tracking_of d order_id of Some t \<Rightarrow> dt_eta_minutes t | None \<Rightarrow> None) of
       Some m \<Rightarrow> Inr (m, ''tracking'')
     | None \<Rightarrow> (case order_coords d ord of
         None \<Rightarrow> Inr (45, ''default'')
       | Some (lat, lng) \<Rightarrow> (let (blat, blng) = routing_bakery_coords d in
           Inr (max 15 \<lfloor>fmul (env_haversine e blat blng lat lng) 4\<rfloor>, ''distance'')))))"

definition assign_rider :: "env \<Rightarrow> int \<Rightarrow> int \<Rightarrow> db \<Rightarrow> (exc + Order) \<times> db" where
  "assign_rider e order_id delivery_person_id d = (case get_Order d order_id of
     None \<Rightarrow> (Inl (not_found ''Order not found''), d)
   | Some ord \<Rightarrow> (case get_DeliveryPerson d delivery_person_id of
       None \<Rightarrow> (Inl (not_found ''Delivery person not found''), d)
     | Some p \<Rightarrow>
         let o2 = ord\<lparr>o_delivery_person_id := Some delivery_person_id, o_status := OS_DELIVERY_ASSIGNED,
                      o_updated_at := env_now e\<rparr>;
             d1 = put_Order o2 d
         in (Inr o2, (case tracking_of d1 order_id of
              None \<Rightarrow> add_DeliveryTracking (new_DeliveryTracking (env_now e) order_id delivery_person_id) d1
            | Some t \<Rightarrow> put_DeliveryTracking (t\<lparr>dt_delivery_person_id := delivery_person_id, dt_updated_at := env_now e\<rparr>) d1))))"

section \<open>The route is greedy\<close>

text \<open>Each stop of a route is a nearest one among those still to come.\<close>

fun nearest_first :: "env \<Rightarrow> rat \<times> rat \<Rightarrow> stop list \<Rightarrow> bool" where
  "nearest_first e here [] = True"
| "nearest_first e here (s # ss) \<longleftrightarrow>
     list_all (\<lambda>t. leg e here s \<le> leg e here t) ss
     \<and> nearest_first e (case sp_at s of Some p \<Rightarrow> p | None \<Rightarrow> here) ss"

lemma sort_key_least:
  assumes "sort_key f (xs :: 'a list) = y # ys" shows "\<forall>z \<in> set ys. f y \<le> f z"
  using sorted_sort_key [of f xs] unfolding assms by simp

lemma mset_greedy_route: "mset (map fst (greedy_route e here ss)) = mset ss"
proof (induction e here ss rule: greedy_route.induct)
  case (2 e here s ss)
  obtain nxt rest where r: "sort_key (leg e here) (s # ss) = nxt # rest"
    by (cases "sort_key (leg e here) (s # ss)") (auto dest: arg_cong [of _ _ length])
  then have "mset (s # ss) = mset (nxt # rest)" by (metis mset_sort)
  with 2 [OF r] r show ?case by simp
qed simp

lemma greedy_route_nearest: "nearest_first e here (map fst (greedy_route e here ss))"
proof (induction e here ss rule: greedy_route.induct)
  case (2 e here s ss)
  obtain nxt rest where r: "sort_key (leg e here) (s # ss) = nxt # rest"
    by (cases "sort_key (leg e here) (s # ss)") (auto dest: arg_cong [of _ _ length])
  let ?tail = "map fst (greedy_route e (case sp_at nxt of Some p \<Rightarrow> p | None \<Rightarrow> here) rest)"
  have "set ?tail = set rest" using mset_greedy_route by (metis mset_eq_setD)
  then have "list_all (\<lambda>t. leg e here nxt \<le> leg e here t) ?tail"
    using sort_key_least [OF r] by (simp add: list_all_iff)
  with 2 [OF r] r show ?case by simp
qed simp

text \<open>The legs of a route walked in order.\<close>

fun legs_along :: "env \<Rightarrow> rat \<times> rat \<Rightarrow> stop list \<Rightarrow> rat list" where
  "legs_along e here [] = []"
| "legs_along e here (s # ss) = leg e here s # legs_along e (case sp_at s of Some p \<Rightarrow> p | None \<Rightarrow> here) ss"

lemma greedy_route_legs: "map snd (greedy_route e here ss) = legs_along e here (map fst (greedy_route e here ss))"
  by (induction e here ss rule: greedy_route.induct) (simp_all split: list.split)

text \<open>Property C32 (route_is_greedy): the optimized route visits every wanted open stop with a known place exactly
  once, goes each time to a nearest one of those still to come, starting from the bakery, and its length is
  the float sum of its legs.\<close>

theorem route_is_greedy:
  "let r = map fst (rt_route (optimize_route e order_ids d)) in
     mset r = mset (wanted_stops e order_ids d)
     \<and> nearest_first e (routing_bakery_coords d) r
     \<and> map snd (rt_route (optimize_route e order_ids d)) = map round2 (legs_along e (routing_bakery_coords d) r)
     \<and> rt_total_km (optimize_route e order_ids d) = round2 (float_sum (legs_along e (routing_bakery_coords d) r))
     \<and> rt_stops (optimize_route e order_ids d) = length (wanted_stops e order_ids d)"
proof -
  define g where "g = greedy_route e (routing_bakery_coords d) (wanted_stops e order_ids d)"
  have m: "mset (map fst g) = mset (wanted_stops e order_ids d)" unfolding g_def by (rule mset_greedy_route)
  then have "length g = length (wanted_stops e order_ids d)" by (metis length_map size_mset)
  moreover have "map fst (rt_route (optimize_route e order_ids d)) = map fst g"
    "map snd (rt_route (optimize_route e order_ids d)) = map round2 (map snd g)"
    by (simp_all add: optimize_route_def g_def [symmetric] case_prod_unfold comp_def)
  moreover have "nearest_first e (routing_bakery_coords d) (map fst g)" "map snd g = legs_along e (routing_bakery_coords d) (map fst g)"
    unfolding g_def by (rule greedy_route_nearest, rule greedy_route_legs)
  moreover have "rt_total_km (optimize_route e order_ids d) = round2 (float_sum (map snd g))"
    "rt_stops (optimize_route e order_ids d) = length g"
    by (simp_all add: optimize_route_def g_def [symmetric])
  ultimately show ?thesis using m by (simp only: Let_def)
qed

text \<open>The assignment looks at neither the status of the order nor its history: a delivered order goes back to
  assigned.\<close>

lemma assign_reopens:
  assumes "get_Order d k = Some ord" "o_status ord = OS_DELIVERED" "get_DeliveryPerson d r = Some p"
  shows "\<exists>o2 d2. assign_rider e k r d = (Inr o2, d2) \<and> o_status o2 = OS_DELIVERY_ASSIGNED \<and> histories d2 = histories d"
  using assms by (auto simp: assign_rider_def Let_def split: option.split)

end
