(* ===== verification/Kitchen.thy ===== *)
theory Kitchen
  imports OrderLaws
begin

text \<open>
  \<open>picking_service/app/services/picking.py\<close> and its repository: the kitchen's queue, and the two steps of an
  order there.  \<open>kitchen_step\<close> is either step; from \<open>placed\<close> on an order only moves on to \<open>preparing\<close> and
  \<open>packed\<close> (\<open>kitchen_moves\<close>).
\<close>

definition oldest_orders :: "db \<Rightarrow> Order list" where
  "oldest_orders d = take 200 (sort_key o_created_at (rows (orders d)))"

definition recent_orders :: "db \<Rightarrow> Order list" where
  "recent_orders d = take 500 (sort_key (\<lambda>ord. - o_created_at ord) (rows (orders d)))"

record queue_entry =
  qe_order :: Order
  qe_items :: "OrderItem list"
  qe_item_count :: int

definition kitchen_queue :: "string option \<Rightarrow> db \<Rightarrow> queue_entry list" where
  "kitchen_queue status d =
     map (\<lambda>ord. \<lparr>qe_order = ord, qe_items = items_of d (o_id ord),
                 qe_item_count = sum_list (map oi_quantity (items_of d (o_id ord)))\<rparr>)
       (filter (\<lambda>ord. if truthy_str status then OrderStatus_value (o_status ord) = the status
                      else o_status ord \<in> set [OS_ACCEPTED, OS_PREPARING, OS_PACKED]) (oldest_orders d))"

definition kitchen_detail :: "int \<Rightarrow> db \<Rightarrow> exc + Order \<times> OrderItem list" where
  "kitchen_detail order_id d = (case get_Order d order_id of
     None \<Rightarrow> Inl (not_found ''Order not found'') | Some ord \<Rightarrow> Inr (ord, items_of d order_id))"

definition start_picking :: "env \<Rightarrow> int \<Rightarrow> int \<Rightarrow> db \<Rightarrow> (exc + Order) \<times> db" where
  "start_picking e order_id actor_id d = (case get_Order d order_id of
     None \<Rightarrow> (Inl (not_found ''Order not found''), d)
   | Some ord \<Rightarrow>
       if o_status ord \<notin> set [OS_ACCEPTED, OS_PAYMENT_RECEIVED, OS_PLACED]
       then (Inl (bad_request (''Cannot start picking from status '' @ OrderStatus_value (o_status ord))), d)
       else let o2 = ord\<lparr>o_status := OS_PREPARING, o_updated_at := env_now e\<rparr> in (Inr o2, put_Order o2 d))"

definition pack_order :: "env \<Rightarrow> int \<Rightarrow> int \<Rightarrow> db \<Rightarrow> (exc + Order) \<times> db" where
  "pack_order e order_id actor_id d = (case get_Order d order_id of
     None \<Rightarrow> (Inl (not_found ''Order not found''), d)
   | Some ord \<Rightarrow>
       if o_status ord \<notin> set [OS_PREPARING, OS_ACCEPTED]
       then (Inl (bad_request (''Cannot pack from status '' @ OrderStatus_value (o_status ord))), d)
       else let o2 = ord\<lparr>o_status := OS_PACKED, o_updated_at := env_now e\<rparr> in (Inr o2, put_Order o2 d))"

record kitchen_counts =
  kc_accepted :: nat
  kc_preparing :: nat
  kc_packed :: nat

definition kitchen_stats :: "db \<Rightarrow> kitchen_counts" where
  "kitchen_stats d = (let count = (\<lambda>st. length (filter (\<lambda>ord. o_status ord = st) (recent_orders d))) in
     \<lparr>kc_accepted = count OS_ACCEPTED, kc_preparing = count OS_PREPARING, kc_packed = count OS_PACKED\<rparr>)"

section \<open>Laws\<close>

inductive kitchen_step :: "db \<Rightarrow> db \<Rightarrow> bool" where
  start: "start_picking e k u d = (r, d') \<Longrightarrow> kitchen_step d d'"
| pack: "pack_order e k u d = (r, d') \<Longrightarrow> kitchen_step d d'"

text \<open>Where the kitchen may take an order.\<close>

definition kitchen_ok :: "OrderStatus \<Rightarrow> OrderStatus \<Rightarrow> bool" where
  "kitchen_ok a b \<longleftrightarrow> b = a
     \<or> (a \<in> set [OS_PLACED, OS_PAYMENT_RECEIVED, OS_ACCEPTED] \<and> b \<in> set [OS_PREPARING, OS_PACKED])
     \<or> (a = OS_PREPARING \<and> b = OS_PACKED)"

lemma kitchen_ok_refl: "kitchen_ok a a"
  by (simp add: kitchen_ok_def)

lemma kitchen_ok_trans: "kitchen_ok a b \<Longrightarrow> kitchen_ok b c \<Longrightarrow> kitchen_ok a c"
  unfolding kitchen_ok_def by auto

definition kitchen_moved :: "Order \<Rightarrow> Order \<Rightarrow> bool" where
  "kitchen_moved a b \<longleftrightarrow> (\<exists>st t. b = a\<lparr>o_status := st, o_updated_at := t\<rparr> \<and> kitchen_ok (o_status a) st)"

lemma kitchen_movedI: "kitchen_ok (o_status a) st \<Longrightarrow> kitchen_moved a (a\<lparr>o_status := st, o_updated_at := t\<rparr>)"
  unfolding kitchen_moved_def by blast

lemma kitchen_moved_refl: "kitchen_moved a a"
  using kitchen_movedI [of a "o_status a" "o_updated_at a"] by (simp add: kitchen_ok_refl)

lemma kitchen_moved_trans:
  assumes "kitchen_moved a b" "kitchen_moved b c" shows "kitchen_moved a c"
proof -
  obtain st t where b: "b = a\<lparr>o_status := st, o_updated_at := t\<rparr>" "kitchen_ok (o_status a) st"
    using assms(1) unfolding kitchen_moved_def by blast
  obtain st2 t2 where c: "c = b\<lparr>o_status := st2, o_updated_at := t2\<rparr>" "kitchen_ok (o_status b) st2"
    using assms(2) unfolding kitchen_moved_def by blast
  from b c have "c = a\<lparr>o_status := st2, o_updated_at := t2\<rparr>" "kitchen_ok (o_status a) st2"
    by (simp_all add: kitchen_ok_trans [of "o_status a" st])
  then show ?thesis by (simp add: kitchen_movedI)
qed

definition same_but_orders :: "db \<Rightarrow> db \<Rightarrow> bool" where
  "same_but_orders d d' \<longleftrightarrow> (\<exists>t. d' = d\<lparr>orders := t\<rparr>)"

lemma same_but_orders_refl: "same_but_orders d d"
  unfolding same_but_orders_def by (rule exI [of _ "orders d"]) simp

lemma same_but_orders_put: "same_but_orders d (put_Order r d)"
  unfolding same_but_orders_def by (rule exI) (rule refl)

lemma same_but_orders_trans: "same_but_orders a b \<Longrightarrow> same_but_orders b c \<Longrightarrow> same_but_orders a c"
  unfolding same_but_orders_def by (elim exE, rule exI, simp)

lemma kitchen_put:
  assumes "db_wf d" "get_Order d k = Some ord" "kitchen_ok (o_status ord) st"
  shows "list_all2 kitchen_moved (rows (orders d)) (rows (orders (put_Order (ord\<lparr>o_status := st, o_updated_at := t\<rparr>) d)))"
proof -
  have "kitchen_moved x (if o_id x = o_id ord then ord\<lparr>o_status := st, o_updated_at := t\<rparr> else x)"
    if x: "x \<in> set (rows (orders d))" for x
    using t_wf_unique [OF db_wf_tables(9) [OF assms(1)] x t_get_in [OF assms(2)]] assms(3)
    by (auto simp: kitchen_moved_refl intro: kitchen_movedI)
  then show ?thesis by (simp add: rows_t_put list_all2_map2 list_all2_same)
qed

lemma kitchen_stepE:
  assumes "kitchen_step d d'"
  obtains (still) "d' = d"
  | (put) k ord st t where "get_Order d k = Some ord" "kitchen_ok (o_status ord) st"
      "d' = put_Order (ord\<lparr>o_status := st, o_updated_at := t\<rparr>) d"
  using assms
proof cases
  case (start e k u r)
  show ?thesis
  proof (cases "get_Order d k")
    case (Some ord)
    with start still put [of k ord OS_PREPARING "env_now e"] show ?thesis
      by (simp add: start_picking_def kitchen_ok_def Let_def split: if_splits) blast+
  qed (use start still in \<open>simp add: start_picking_def\<close>)
next
  case (pack e k u r)
  show ?thesis
  proof (cases "get_Order d k")
    case (Some ord)
    with pack still put [of k ord OS_PACKED "env_now e"] show ?thesis
      by (simp add: pack_order_def kitchen_ok_def Let_def split: if_splits) blast+
  qed (use pack still in \<open>simp add: pack_order_def\<close>)
qed

lemma kitchen_step_effect:
  assumes "kitchen_step d d'" "db_wf d"
  shows "db_wf d' \<and> same_but_orders d d' \<and> list_all2 kitchen_moved (rows (orders d)) (rows (orders d'))"
  using assms(1)
proof (cases rule: kitchen_stepE)
  case still
  with assms(2) show ?thesis by (simp add: same_but_orders_refl list_all2_same kitchen_moved_refl)
next
  case (put k ord st t)
  with kitchen_put [OF assms(2) put(1,2)] assms(2) show ?thesis by (simp add: same_but_orders_put)
qed

text \<open>Whatever the kitchen does, it changes orders only, of an order only the status
  and the time of the change, and the status only forward, from waiting over preparing to packed.\<close>

theorem kitchen_moves:
  assumes "kitchen_step\<^sup>*\<^sup>* d d'" "db_wf d"
  shows "same_but_orders d d' \<and> list_all2 kitchen_moved (rows (orders d)) (rows (orders d'))"
proof -
  have "db_wf d' \<and> same_but_orders d d' \<and> list_all2 kitchen_moved (rows (orders d)) (rows (orders d'))"
    using assms(1)
  proof (induction rule: rtranclp_induct)
    case base
    with assms(2) show ?case by (simp add: same_but_orders_refl list_all2_same kitchen_moved_refl)
  next
    case (step a b)
    with kitchen_step_effect [OF step.hyps(2)] have s: "db_wf b" "same_but_orders a b"
      "list_all2 kitchen_moved (rows (orders a)) (rows (orders b))" by auto
    with step.IH show ?case
      using same_but_orders_trans [of d a b] list_all2_trans [of kitchen_moved kitchen_moved kitchen_moved "rows (orders d)" "rows (orders a)"] kitchen_moved_trans
      by blast
  qed
  then show ?thesis by simp
qed

lemma kitchen_run:
  "kitchen_step\<^sup>*\<^sup>* order_db (snd (pack_order sample_env 1 9 (snd (start_picking sample_env 1 9 order_db))))"
  by (rule rtranclp_trans [OF r_into_rtranclp r_into_rtranclp], rule kitchen_step.start [OF prod.collapse [symmetric]],
      rule kitchen_step.pack [OF prod.collapse [symmetric]])

lemma kitchen_moves_witness:
  "same_but_orders order_db (snd (pack_order sample_env 1 9 (snd (start_picking sample_env 1 9 order_db))))
   \<and> map o_status (rows (orders (snd (pack_order sample_env 1 9 (snd (start_picking sample_env 1 9 order_db)))))) = [OS_PACKED]"
proof -
  have "map o_status (rows (orders (snd (pack_order sample_env 1 9 (snd (start_picking sample_env 1 9 order_db)))))) = [OS_PACKED]"
    using order_db_facts(3,6,7)
    by (simp add: start_picking_def pack_order_def Let_def rows_t_put) (simp add: order_db_def placed_order_def)
  with kitchen_moves [OF kitchen_run order_db_facts(1)] show ?thesis by blast
qed

text \<open>Neither step writes a history row: the customer's timeline lacks them, and the last row stays behind.\<close>

lemma kitchen_skips_history: "\<not> status_trail (snd (start_picking sample_env 1 9 order_db))"
  using order_db_facts(3,6,7)
  by (simp add: start_picking_def Let_def status_trail_def rows_t_put)
    (simp add: order_db_def placed_order_def t_last_def new_OrderStatusHistory_def)

end
