(* ===== verification/Promotions.thy ===== *)
theory Promotions
  imports CartBill
begin

text \<open>
  \<open>promotion_service/app/services/promotions.py\<close>: the administrator's coupons and the check of a code
  against a subtotal.  The cart prices the same coupon with \<open>coupon_discount\<close> (\<open>Cart\<close>).
\<close>

definition promo_list_coupons :: "bool \<Rightarrow> db \<Rightarrow> Coupon list" where
  "promo_list_coupons active_only d =
     filter (\<lambda>c. active_only \<longrightarrow> cp_is_active c) (sort_key (\<lambda>c. - cp_created_at c) (rows (coupons d)))"

definition coupon_by_code :: "db \<Rightarrow> string \<Rightarrow> Coupon option" where
  "coupon_by_code d code = t_first (\<lambda>c. cp_code c = str_upper (strip code)) (coupons d)"

record PromoCouponIn =
  pci_code :: string
  pci_title :: string
  pci_description :: "string option"
  pci_coupon_type :: string
  pci_value :: rat
  pci_min_order_amount :: rat
  pci_max_discount :: "rat option"
  pci_is_active :: bool

definition promo_coupon :: "env \<Rightarrow> PromoCouponIn \<Rightarrow> string \<Rightarrow> Coupon" where
  "promo_coupon e data code = (new_Coupon (env_now e) code (if pci_title data = [] then code else pci_title data))
     \<lparr>cp_description := pci_description data,
      cp_coupon_type := (if pci_coupon_type data = [] then ''percentage'' else pci_coupon_type data),
      cp_value := pci_value data, cp_min_order_amount := pci_min_order_amount data,
      cp_max_discount := pci_max_discount data, cp_is_active := pci_is_active data\<rparr>"

definition promo_create_coupon :: "env \<Rightarrow> PromoCouponIn \<Rightarrow> db \<Rightarrow> (exc + Coupon) \<times> db" where
  "promo_create_coupon e data d =
     (let code = str_upper (strip (pci_code data))
      in if code = [] then (Inl (bad_request ''code required''), d)
         else if coupon_by_code d code \<noteq> None then (Inl (bad_request ''Coupon code already exists''), d)
         else let c = promo_coupon e data code in (Inr (key_Coupon c d), add_Coupon c d))"

definition promo_set_active :: "int \<Rightarrow> bool \<Rightarrow> db \<Rightarrow> (exc + Coupon) \<times> db" where
  "promo_set_active coupon_id is_active d = (case get_Coupon d coupon_id of
     None \<Rightarrow> (Inl (not_found ''Coupon not found''), d)
   | Some c \<Rightarrow> let c2 = c\<lparr>cp_is_active := is_active\<rparr> in (Inr c2, put_Coupon c2 d))"

definition promo_discount :: "Coupon \<Rightarrow> rat \<Rightarrow> rat" where
  "promo_discount c subtotal =
     (let disc = (if cp_coupon_type c = ''flat'' then cp_value c
                  else round2 (fmul subtotal (fdiv (cp_value c) 100)))
      in (case cp_max_discount c of None \<Rightarrow> disc | Some m \<Rightarrow> min disc m))"

definition validate_code :: "db \<Rightarrow> string \<Rightarrow> rat \<Rightarrow> exc + Coupon \<times> rat" where
  "validate_code d code subtotal = (case coupon_by_code d code of
     None \<Rightarrow> Inl (not_found ''Coupon not found or inactive'')
   | Some c \<Rightarrow>
       if \<not> cp_is_active c then Inl (not_found ''Coupon not found or inactive'')
       else if cp_min_order_amount c \<noteq> 0 \<and> subtotal < cp_min_order_amount c
       then Inl (bad_request (''Minimum order '' @ rupee @ fmt0 (cp_min_order_amount c) @ '' required''))
       else Inr (c, promo_discount c subtotal))"

section \<open>Laws\<close>

lemma fmul_share: "0 \<le> x \<Longrightarrow> x \<le> 1 \<Longrightarrow> 0 \<le> s \<Longrightarrow> is_double s \<Longrightarrow> fmul s x \<le> s"
  unfolding fmul_def by (rule fl_le_double) (simp_all add: mult_left_le)

lemma fdiv_share: "v \<le> 100 \<Longrightarrow> fdiv v 100 \<le> 1"
  using fl_le_double [of 1 "v / 100"] fl_of_int [of 1] by (simp add: fdiv_def is_double_def)

text \<open>The discount promised for a code is that of an active coupon whose
  minimum the subtotal reaches; for a percentage from 0 to 100 of an amount in whole paise it is never
  negative nor above the amount, nor above the coupon's cap.\<close>

theorem validated_discount_bounds:
  assumes "validate_code d code (cents n) = Inr (c, disc)" "money_ok n" "0 \<le> n"
    and "cp_coupon_type c \<noteq> ''flat''" "0 \<le> cp_value c" "cp_value c \<le> 100"
    and "case cp_max_discount c of None \<Rightarrow> True | Some m \<Rightarrow> 0 \<le> m"
  shows "cp_is_active c \<and> cp_code c = str_upper (strip code) \<and> cp_min_order_amount c \<le> max 0 (cents n)
    \<and> 0 \<le> disc \<and> disc \<le> cents n \<and> (case cp_max_discount c of None \<Rightarrow> True | Some m \<Rightarrow> disc \<le> m)"
proof -
  from assms(1) have c: "coupon_by_code d code = Some c" "cp_is_active c"
    "\<not> (cp_min_order_amount c \<noteq> 0 \<and> cents n < cp_min_order_amount c)" "disc = promo_discount c (cents n)"
    by (auto simp: validate_code_def split: option.splits if_splits)
  define raw where "raw = round2 (fmul (cents n) (fdiv (cp_value c) 100))"
  have "cp_code c = str_upper (strip code)" using t_first_SomeD [OF c(1) [unfolded coupon_by_code_def]] by simp
  moreover have n0: "0 \<le> cents n" using assms(3) by (rule cents_nonneg)
  have "0 \<le> raw" unfolding raw_def by (intro round2_nonneg fmul_nonneg fdiv_nonneg n0 assms) simp
  moreover have "raw \<le> cents n"
  proof -
    have "fmul (cents n) (fdiv (cp_value c) 100) \<le> cents n"
      using fdiv_share [OF assms(6)] fdiv_nonneg [OF assms(5), of 100] n0 by (intro fmul_share) simp_all
    then have "raw \<le> round2 (cents n)" unfolding raw_def by (rule round2_mono)
    with assms(2) show ?thesis by (simp add: round2_is_money)
  qed
  moreover have "disc = (case cp_max_discount c of None \<Rightarrow> raw | Some m \<Rightarrow> min raw m)"
    using assms(4) c(4) by (simp add: promo_discount_def raw_def [symmetric] Let_def)
  ultimately show ?thesis using c(2,3) assms(7) n0 by (auto split: option.splits)
qed

section \<open>Worked examples\<close>

definition ten_percent :: Coupon where
  "ten_percent = (new_Coupon 0 ''TEN'' ''Ten'')\<lparr>cp_id := 1, cp_value := 10\<rparr>"

definition promo_db :: db where
  "promo_db = empty_db\<lparr>coupons := \<lparr>rows = [ten_percent], next_id = 2\<rparr>\<rparr>"

lemma promo_valid: "validate_code promo_db ''TEN'' (cents 10000) = Inr (ten_percent, promo_discount ten_percent (cents 10000))"
proof -
  have "str_upper (strip ''TEN'') = ''TEN''" by code_simp
  then show ?thesis
    by (simp add: validate_code_def coupon_by_code_def t_first_def promo_db_def ten_percent_def new_Coupon_def)
qed

lemma validated_discount_bounds_witness:
  "\<exists>disc. validate_code promo_db ''TEN'' (cents 10000) = Inr (ten_percent, disc) \<and> 0 \<le> disc \<and> disc \<le> cents 10000"
  using validated_discount_bounds [OF promo_valid]
  by (simp add: promo_valid) (simp add: ten_percent_def new_Coupon_def money_ok_def money_bound_def)

text \<open>A fixed coupon of 50 rupees is priced as 50 per cent by the check and as 50 rupees by the cart.\<close>

lemma validate_differs_from_cart:
  "promo_discount (ten_percent\<lparr>cp_coupon_type := ''fixed'', cp_value := 50\<rparr>) 1000 = 500
   \<and> coupon_discount (ten_percent\<lparr>cp_coupon_type := ''fixed'', cp_value := 50\<rparr>) 1000 = 50"
proof -
  have "round2 (fmul 1000 (fdiv 50 100)) = 500" by code_simp
  then show ?thesis by (simp add: promo_discount_def coupon_discount_def ten_percent_def new_Coupon_def)
qed

end
