(* ===== verification/Billing.thy ===== *)
theory Billing
  imports SellPlan Credit FloatSum "HOL-Library.List_Lexorder"
begin

text \<open>
  \<open>store_ops_service/app/services/billing.py\<close> with \<open>invoice_list_row\<close> of \<open>invoices.py\<close>: what a shop owes the
  bakery and is owed by it, its bills, and the history of its money by day.  Everything is read from the
  tables; only \<open>pay_udhaar\<close> writes, through the credit ledger.
\<close>

section \<open>Sorting\<close>

text \<open>\<open>xs.sort(key=k, reverse=True)\<close> keeps the order of equal keys.  Strings compare by their code
  points, as their UTF-8 bytes do.\<close>

definition sort_desc :: "('a \<Rightarrow> 'k::linorder) \<Rightarrow> 'a list \<Rightarrow> 'a list" where
  "sort_desc k xs = rev (sort_key k (rev xs))"

definition str_key :: "string \<Rightarrow> nat list" where
  "str_key s = map char_code s"

section \<open>Summary\<close>

definition shop_bill_profile :: "db \<Rightarrow> User \<Rightarrow> exc + RetailerProfile" where
  "shop_bill_profile d user = (case profile_of d (u_id user) of
     None \<Rightarrow> Inl (not_found ''Shop profile not found'') | Some p \<Rightarrow> Inr p)"

text \<open>The rows behind \<open>list_purchases\<close>.\<close>

definition purchase_rows :: "db \<Rightarrow> int \<Rightarrow> SupplierPurchase list" where
  "purchase_rows d uid = take 200 (filter (\<lambda>p. truthy_id (Some uid) \<longrightarrow> po_supplier_user_id p = uid)
     (sort_key (\<lambda>p. - po_created_at p) (rows (purchases d))))"

lemma list_purchases_rows: "list_purchases d (Some uid) = map (purchase_dict d) (purchase_rows d uid)"
  by (simp add: list_purchases_def purchase_rows_def)

record bill_summary =
  bl_shop_name :: string
  bl_is_wholesaler :: bool
  bl_outstanding_balance :: rat
  bl_credit_limit :: rat
  bl_credit_remaining :: rat
  bl_unpaid_b2b_orders :: nat
  bl_unpaid_b2b_amount :: rat
  bl_payable_balance :: rat
  bl_supplier_due :: rat
  bl_you_owe :: rat
  bl_owes_you :: rat
  bl_net_position :: rat
  bl_pending_sales :: nat

definition unpaid_b2b :: "db \<Rightarrow> int \<Rightarrow> Order list" where
  "unpaid_b2b d uid = t_all (\<lambda>r. o_user_id r = uid \<and> o_order_type r = OrderType_value OT_B2B_SHOP_ORDER
     \<and> o_payment_status r \<in> set open_statuses) (orders d)"

definition pending_sales_count :: "db \<Rightarrow> int \<Rightarrow> nat" where
  "pending_sales_count d uid =
     length (t_all (\<lambda>r. o_shop_user_id r = Some uid \<and> o_status r = OS_PLACED) (orders d))"

definition still_due :: "Order \<Rightarrow> rat" where
  "still_due ord = max 0 (fsub (o_final_amount ord) (o_paid_amount ord))"

definition bill_summary_of :: "db \<Rightarrow> int \<Rightarrow> RetailerProfile \<Rightarrow> bill_summary" where
  "bill_summary_of d uid p =
     (let pos = (if rp_is_wholesaler p then purchase_rows d uid else []);
          po_due = round2 (py_sum (map purchase_due (filter (\<lambda>r. po_status r \<in> set [''received'', ''partial'']) pos)));
          unpaid = unpaid_b2b d uid;
          unpaid_due = round2 (py_sum (map still_due unpaid));
          you_owe = round2 (fadd (rp_outstanding_balance p) unpaid_due);
          owes_you = round2 (max (rp_payable_balance p) po_due)
      in \<lparr>bl_shop_name = rp_shop_name p, bl_is_wholesaler = rp_is_wholesaler p,
          bl_outstanding_balance = rp_outstanding_balance p, bl_credit_limit = rp_credit_limit p,
          bl_credit_remaining = max 0 (round2 (fsub (rp_credit_limit p) (rp_outstanding_balance p))),
          bl_unpaid_b2b_orders = length unpaid, bl_unpaid_b2b_amount = unpaid_due,
          bl_payable_balance = rp_payable_balance p, bl_supplier_due = po_due,
          bl_you_owe = you_owe, bl_owes_you = owes_you, bl_net_position = round2 (fsub owes_you you_owe),
          bl_pending_sales = pending_sales_count d uid\<rparr>)"

definition billing_summary :: "db \<Rightarrow> User \<Rightarrow> exc + bill_summary" where
  "billing_summary d user = (case shop_bill_profile d user of
     Inl ex \<Rightarrow> Inl ex | Inr p \<Rightarrow> Inr (bill_summary_of d (u_id user) p))"

definition billing_ledger :: "db \<Rightarrow> User \<Rightarrow> nat \<Rightarrow> exc + CreditLedgerEntry list" where
  "billing_ledger d user limit = (case shop_bill_profile d user of
     Inl ex \<Rightarrow> Inl ex | Inr p \<Rightarrow> Inr (list_ledger d (u_id user) limit))"

definition supplier_bills :: "db \<Rightarrow> User \<Rightarrow> exc + json list" where
  "supplier_bills d user = (case shop_bill_profile d user of
     Inl ex \<Rightarrow> Inl ex | Inr p \<Rightarrow> Inr (if rp_is_wholesaler p then list_purchases d (Some (u_id user)) else []))"

section \<open>Bills\<close>

record bill_row =
  br_order_id :: "int option"
  br_order_number :: "string option"
  br_invoice_id :: "int option"
  br_invoice_number :: "string option"
  br_kind :: string
  br_template :: string
  br_title :: string
  br_payment_status :: string
  br_payment_method :: "string option"
  br_subtotal :: rat
  br_gst_amount :: rat
  br_final_amount :: rat
  br_paid_amount :: rat
  br_due :: rat
  br_created_at :: string
  br_lines :: "json list"

definition json_items :: "json \<Rightarrow> json list" where
  "json_items li = (case jget ''items'' li of JArr xs \<Rightarrow> xs | _ \<Rightarrow> [])"

definition invoice_list_row :: "Invoice \<Rightarrow> Order option \<Rightarrow> bill_row" where
  "invoice_list_row iv ord =
     (let li = inv_line_items iv;
          kind = (if inv_kind iv \<noteq> [] then inv_kind iv else or_str (jstr (jget ''kind'' li)) KIND_CUSTOMER);
          total = inv_grand_total iv;
          paid = (case ord of None \<Rightarrow> total | Some r \<Rightarrow> o_paid_amount r);
          due = (case ord of None \<Rightarrow> 0 | Some r \<Rightarrow> round2 (max 0 (fsub total paid)))
      in \<lparr>br_order_id = (if truthy_id (inv_order_id iv) then inv_order_id iv else map_option o_id ord),
          br_order_number = (case ord of
             Some r \<Rightarrow> if o_order_number r \<noteq> [] then Some (o_order_number r) else jstr (jget ''order_number'' (jget ''meta'' li))
           | None \<Rightarrow> jstr (jget ''order_number'' (jget ''meta'' li))),
          br_invoice_id = Some (inv_id iv), br_invoice_number = Some (inv_invoice_number iv), br_kind = kind,
          br_template = or_str (jstr (jget ''template'' li)) (template_for_kind kind),
          br_title = or_str (jstr (jget ''title'' li)) (inv_invoice_number iv),
          br_payment_status = (case ord of
             Some r \<Rightarrow> PaymentStatus_value (o_payment_status r) | None \<Rightarrow> if due \<le> eps_milli then ''paid'' else ''partial''),
          br_payment_method = (if truthy_str (inv_payment_method iv) then inv_payment_method iv
             else (case ord of None \<Rightarrow> None | Some r \<Rightarrow> map_option PaymentMethod_value (o_payment_method r))),
          br_subtotal = inv_subtotal iv, br_gst_amount = inv_gst_amount iv, br_final_amount = total,
          br_paid_amount = paid, br_due = due, br_created_at = isoformat (inv_created_at iv),
          br_lines = map (\<lambda>i. JObj [(''product_name'', jget ''name'' i), (''qty'', jget ''qty'' i),
             (''unit_price'', jget ''unit_price'' i), (''line_total'', jget ''total'' i)]) (json_items li)\<rparr>)"

definition order_line :: "OrderItem \<Rightarrow> json" where
  "order_line i = JObj [(''product_name'', JStr (oi_product_name i)), (''qty'', JInt (oi_quantity i)),
     (''unit_price'', JFloat (oi_unit_price i)), (''line_total'', JFloat (oi_total_price i))]"

text \<open>An order without an invoice.\<close>

definition draft_row :: "db \<Rightarrow> Order \<Rightarrow> bill_row" where
  "draft_row d ord =
     (let b2b = (o_order_type ord = OrderType_value OT_B2B_SHOP_ORDER) in
      \<lparr>br_order_id = Some (o_id ord), br_order_number = Some (o_order_number ord), br_invoice_id = None,
       br_invoice_number = None, br_kind = (if b2b then KIND_B2B else KIND_CUSTOMER), br_template = TEMPLATE_PRODUCT,
       br_title = (if b2b then ''Wholesale'' else ''Sale'') @ '' '' @ middot @ '' '' @ o_order_number ord,
       br_payment_status = PaymentStatus_value (o_payment_status ord),
       br_payment_method = map_option PaymentMethod_value (o_payment_method ord),
       br_subtotal = o_subtotal ord, br_gst_amount = o_gst_amount ord, br_final_amount = o_final_amount ord,
       br_paid_amount = o_paid_amount ord, br_due = round2 (still_due ord),
       br_created_at = isoformat (o_created_at ord), br_lines = map order_line (items_of d (o_id ord))\<rparr>)"

definition own_invoices :: "db \<Rightarrow> int \<Rightarrow> Invoice list" where
  "own_invoices d uid = take 150 (sort_key (\<lambda>i. - inv_created_at i)
     (t_all (\<lambda>i. inv_buyer_user_id i = Some uid \<or> inv_seller_user_id i = Some uid) (invoices d)))"

definition own_orders :: "db \<Rightarrow> int \<Rightarrow> Order list" where
  "own_orders d uid = take 100 (sort_key (\<lambda>r. - o_created_at r)
     (t_all (\<lambda>r. (o_user_id r = uid \<and> o_order_type r = OrderType_value OT_B2B_SHOP_ORDER)
        \<or> o_shop_user_id r = Some uid) (orders d)))"

definition invoice_order :: "db \<Rightarrow> Invoice \<Rightarrow> Order option" where
  "invoice_order d iv = (if truthy_id (inv_order_id iv) then get_Order d (the (inv_order_id iv)) else None)"

text \<open>The second loop: orders not seen with an invoice above, each with its invoice when it has one that
  was not listed, as a draft when it has none.\<close>

fun order_rows :: "db \<Rightarrow> int set \<Rightarrow> int set \<Rightarrow> Order list \<Rightarrow> bill_row list" where
  "order_rows d seen_inv seen_order [] = []"
| "order_rows d seen_inv seen_order (r # rs) =
     (if o_id r \<in> seen_order then order_rows d seen_inv seen_order rs
      else (case t_first (\<lambda>i. inv_order_id i = Some (o_id r)) (invoices d) of
        Some iv \<Rightarrow> if inv_id iv \<notin> seen_inv
          then invoice_list_row iv (Some r) # order_rows d (insert (inv_id iv) seen_inv) (insert (o_id r) seen_order) rs
          else order_rows d seen_inv seen_order rs
      | None \<Rightarrow> draft_row d r # order_rows d seen_inv (insert (o_id r) seen_order) rs))"

definition bill_rows :: "db \<Rightarrow> int \<Rightarrow> bill_row list" where
  "bill_rows d uid =
     (let invs = own_invoices d uid;
          seen_order = set (List.map_filter (\<lambda>i. map_option o_id (invoice_order d i)) invs)
      in take 150 (sort_desc (\<lambda>b. str_key (br_created_at b))
           (map (\<lambda>i. invoice_list_row i (invoice_order d i)) invs
            @ order_rows d (inv_id ` set invs) seen_order (own_orders d uid))))"

definition billing_invoices :: "db \<Rightarrow> User \<Rightarrow> exc + bill_row list" where
  "billing_invoices d user = (case shop_bill_profile d user of
     Inl ex \<Rightarrow> Inl ex | Inr p \<Rightarrow> Inr (bill_rows d (u_id user)))"

section \<open>Paying the bakery\<close>

text \<open>\<open>float(amount or 0)\<close>; the method falls back to upi.\<close>

definition pay_udhaar :: "env \<Rightarrow> User \<Rightarrow> rat \<Rightarrow> string option \<Rightarrow> string option \<Rightarrow> db \<Rightarrow> (exc + json) \<times> db" where
  "pay_udhaar e user amount meth note d =
     (let m0 = str_lower (strip (or_str meth ''upi''));
          m = (if m0 \<in> set [''upi'', ''cash'', ''bank'', ''razorpay'', ''other''] then m0 else ''upi'');
          n = strip (or_str note [])
      in credit_payment e (u_id user) amount (if n = [] then None else Some n) (Some m) (Some (u_id user)) None d)"

end
