(* ===== verification/BillHistory.thy ===== *)
theory BillHistory
  imports Billing "HOL-Library.Multiset"
begin

text \<open>
  \<open>store_ops_service/app/services/billing.py\<close>: \<open>payment_history\<close>, \<open>dashboard\<close> and
  \<open>admin_shop_account\<close>.  Every movement of money of a shop is an entry with a direction: \<open>in\<close> and
  \<open>out\<close> moved, \<open>due\<close> and \<open>due_in\<close> are still to move.  The days are a partition of the entries
  (\<open>history_days_partition\<close>) and the totals are exact to the paisa (\<open>history_totals_exact\<close>).
\<close>

section \<open>Entries\<close>

record money_entry =
  me_id :: string
  me_source :: string
  me_purpose :: string
  me_title :: string
  me_amount :: rat
  me_direction :: string
  me_status :: string
  me_note :: "string option"
  me_created_at :: "string option"
  me_lines :: "json list"
  me_extra :: "(string \<times> json) list"

definition me_day :: "money_entry \<Rightarrow> string option" where
  "me_day m = (let day = take 10 (or_str (me_created_at m) []) in if day = [] then None else Some day)"

definition entry_of :: "string \<Rightarrow> string \<Rightarrow> string \<Rightarrow> string \<Rightarrow> rat \<Rightarrow> string \<Rightarrow> string \<Rightarrow> string option \<Rightarrow> string option
    \<Rightarrow> json list \<Rightarrow> (string \<times> json) list \<Rightarrow> money_entry" where
  "entry_of eid source purpose title amount direction status created_at nt ls extra =
     \<lparr>me_id = eid, me_source = source, me_purpose = purpose, me_title = title, me_amount = round2 amount,
      me_direction = direction, me_status = status, me_note = nt, me_created_at = created_at, me_lines = ls, me_extra = extra\<rparr>"

section \<open>The plan\<close>

definition plan_notice :: "Notification \<Rightarrow> bool" where
  "plan_notice n \<longleftrightarrow> (let data = jor_obj (n_data n) in
     jget ''kind'' data = JStr ''sell_subscription'' \<or> jget ''purpose'' data = JStr ''subscription'')"

definition plan_notices :: "db \<Rightarrow> int \<Rightarrow> Notification list" where
  "plan_notices d uid = filter plan_notice (take 50 (sort_key (\<lambda>n. - n_created_at n)
     (t_all (\<lambda>n. n_user_id n = uid \<and> n_type n = NT_PAYMENT) (notifications d))))"

definition plan_entry :: "Notification \<Rightarrow> exc + money_entry" where
  "plan_entry n = (let data = jor_obj (n_data n) in
     case float_or (jget ''amount'' data) 0 of
       Inl ex \<Rightarrow> Inl ex
     | Inr amount \<Rightarrow> Inr (entry_of (''sub-'' @ show_int (n_id n)) ''subscription'' ''subscription''
         (if n_title n = [] then ''Sell subscription'' else n_title n) amount ''out'' ''paid''
         (Some (or_str (jstr (jget ''paid_at'' data)) (isoformat (n_created_at n)))) (Some (n_body n)) []
         [(''cadence'', jget ''cadence'' data), (''expires_at'', jget ''expires_at'' data)]))"

fun all_inr :: "('e + 'a) list \<Rightarrow> 'e + 'a list" where
  "all_inr [] = Inr []"
| "all_inr (x # xs) = (case x of Inl ex \<Rightarrow> Inl ex
     | Inr a \<Rightarrow> (case all_inr xs of Inl ex \<Rightarrow> Inl ex | Inr r \<Rightarrow> Inr (a # r)))"

definition current_plan_entry :: "db \<Rightarrow> RetailerProfile \<Rightarrow> exc + money_entry" where
  "current_plan_entry d p = (case plan_prices d of
     Inl ex \<Rightarrow> Inl ex
   | Inr (monthly, yearly) \<Rightarrow>
       let cadence = str_lower (or_str (rp_sell_plan p) ''monthly'');
           price = (if cadence = ''monthly'' then monthly else if cadence = ''yearly'' then yearly else 0);
           expires = rp_sell_subscription_expires_at p
       in Inr (entry_of ''sub-current'' ''subscription'' ''subscription'' (''Sell plan '' @ middot @ '' '' @ cadence)
            (if price = 0 then monthly else price) ''out'' ''active'' (map_option isoformat expires)
            (Some (case expires of None \<Rightarrow> ''Active sell plan'' | Some t \<Rightarrow> ''Active until '' @ iso_date (utc_day t))) []
            [(''cadence'', JStr cadence), (''expires_at'', jopt_time expires)]))"

definition plan_entries :: "db \<Rightarrow> int \<Rightarrow> RetailerProfile \<Rightarrow> exc + money_entry list" where
  "plan_entries d uid p = (let ns = plan_notices d uid in
     if ns = [] \<and> rp_sell_subscription_status p = ''approved''
     then (case current_plan_entry d p of Inl ex \<Rightarrow> Inl ex | Inr m \<Rightarrow> Inr [m])
     else all_inr (map plan_entry ns))"

section \<open>The ledger and the purchases\<close>

definition ledger_entry_of :: "CreditLedgerEntry \<Rightarrow> money_entry" where
  "ledger_entry_of le =
     (let pays = (str_lower (le_entry_type le) = ''credit'')
      in entry_of (''ledger-'' @ show_int (le_id le)) ''bakery'' (if pays then ''bakery_payment'' else ''bakery_bill'')
           (if pays then ''Paid to bakery'' else ''Bakery bill (udhaar)'') (le_amount le) (if pays then ''out'' else ''due'')
           (if pays then ''paid'' else ''due'') (Some (isoformat (le_created_at le))) (le_note le) []
           [(''balance_after'', JFloat (le_balance_after le)), (''order_id'', jopt_int (le_order_id le))])"

definition ledger_money :: "db \<Rightarrow> int \<Rightarrow> money_entry list" where
  "ledger_money d uid = map ledger_entry_of
     (filter (\<lambda>le. str_lower (le_entry_type le) \<in> set [''credit'', ''debit'']) (list_ledger d uid 200))"

definition purchase_lines :: "db \<Rightarrow> SupplierPurchase \<Rightarrow> json list" where
  "purchase_lines d po = (case jget ''lines'' (purchase_dict d po) of JArr xs \<Rightarrow> xs | _ \<Rightarrow> [])"

definition purchase_money :: "db \<Rightarrow> SupplierPurchase \<Rightarrow> money_entry list" where
  "purchase_money d po =
     (let paid = po_paid_amount po; due = purchase_due po; bill = bill_no po; ls = purchase_lines d po
      in (if 0 < paid
          then [entry_of (''po-paid-'' @ show_int (po_id po)) ''admin'' ''admin_payment'' (''Admin paid '' @ middot @ '' '' @ bill)
                  paid ''in'' (if due \<le> eps_milli then ''paid'' else ''partial'')
                  (Some (isoformat (case po_paid_at po of Some t \<Rightarrow> t | None \<Rightarrow> po_created_at po)))
                  (Some (or_str (po_pay_method po) ''admin'')) ls
                  [(''bill_no'', JStr bill), (''product_name'', JStr (po_product_name po)), (''due'', JFloat due)]]
          else [])
         @ (if eps_milli < due \<and> po_status po \<noteq> ''rejected''
            then [entry_of (''po-due-'' @ show_int (po_id po)) ''admin'' ''admin_due'' (''Due from bakery '' @ middot @ '' '' @ bill)
                    due ''due_in'' ''due'' (Some (isoformat (po_created_at po))) (Some (po_product_name po)) ls
                    [(''bill_no'', JStr bill), (''total'', JFloat (po_total po)), (''paid_amount'', JFloat paid)]]
            else []))"

section \<open>Customers and the open balance\<close>

definition customer_money :: "db \<Rightarrow> Order \<Rightarrow> money_entry list" where
  "customer_money d ord =
     map (\<lambda>y. entry_of (''pay-'' @ show_int (pay_id y)) ''customer'' ''customer_payment''
            (''Customer paid '' @ middot @ '' '' @ o_order_number ord) (pay_amount y) ''in'' ''paid''
            (Some (isoformat (case pay_paid_at y of Some t \<Rightarrow> t | None \<Rightarrow> pay_created_at y)))
            (Some (case pay_method y of None \<Rightarrow> [] | Some m \<Rightarrow> PaymentMethod_value m))
            (map order_line (items_of d (o_id ord)))
            [(''order_id'', JInt (o_id ord)), (''order_number'', JStr (o_order_number ord))])
       (filter (\<lambda>y. pay_status y \<notin> set [PS_PENDING, PS_FAILED])
         (sort_key (\<lambda>y. - pay_created_at y) (t_all (\<lambda>y. pay_order_id y = o_id ord) (payments d))))"

definition shop_sales_orders :: "db \<Rightarrow> int \<Rightarrow> Order list" where
  "shop_sales_orders d uid = take 100 (sort_key (\<lambda>r. - o_created_at r) (t_all (\<lambda>r. o_shop_user_id r = Some uid) (orders d)))"

definition open_balance :: "RetailerProfile \<Rightarrow> money_entry list" where
  "open_balance p =
     (if eps_milli < rp_outstanding_balance p
      then [entry_of ''due-bakery-outstanding'' ''bakery'' ''bakery_due'' ''Outstanding to bakery'' (rp_outstanding_balance p)
              ''due'' ''due'' None
              (Some (''Credit left '' @ rupee @ fmt0 (max 0 (fsub (rp_credit_limit p) (rp_outstanding_balance p))))) [] []]
      else [])"

section \<open>The history\<close>

record money_day =
  md_date :: string
  md_net :: rat
  md_count :: nat
  md_entries :: "money_entry list"

record money_totals =
  mt_in :: rat
  mt_out :: rat
  mt_cash_net :: rat
  mt_dues :: rat
  mt_subscription :: rat

record money_history =
  mh_days :: "money_day list"
  mh_entries :: "money_entry list"
  mh_totals :: money_totals

definition day_name :: "money_entry \<Rightarrow> string" where
  "day_name m = (case me_day m of None \<Rightarrow> ''open'' | Some day \<Rightarrow> day)"

definition day_net :: "money_entry list \<Rightarrow> rat" where
  "day_net ms = foldl (\<lambda>acc m. if me_direction m = ''in'' then fadd acc (me_amount m)
     else if me_direction m = ''out'' then fsub acc (me_amount m) else acc) 0 ms"

text \<open>The keys of the day dictionary in the order of their first use.\<close>

definition day_keys :: "money_entry list \<Rightarrow> string list" where
  "day_keys ms = rev (remdups (rev (map day_name ms)))"

definition day_rank :: "string \<Rightarrow> nat list" where
  "day_rank day = str_key (if day = ''open'' then ''0000-00-00'' else day)"

definition money_days :: "money_entry list \<Rightarrow> money_day list" where
  "money_days ms = map (\<lambda>day. let es = filter (\<lambda>m. day_name m = day) ms in
       \<lparr>md_date = day, md_net = round2 (day_net es), md_count = length es, md_entries = es\<rparr>)
     (sort_desc day_rank (day_keys ms))"

definition total_where :: "(money_entry \<Rightarrow> bool) \<Rightarrow> money_entry list \<Rightarrow> rat" where
  "total_where P ms = round2 (py_sum (map me_amount (filter P ms)))"

definition money_totals_of :: "money_entry list \<Rightarrow> money_totals" where
  "money_totals_of ms =
     (let money_in = total_where (\<lambda>m. me_direction m = ''in'') ms;
          money_out = total_where (\<lambda>m. me_direction m = ''out'') ms
      in \<lparr>mt_in = money_in, mt_out = money_out, mt_cash_net = round2 (fsub money_in money_out),
          mt_dues = total_where (\<lambda>m. me_direction m \<in> set [''due'', ''due_in'']) ms,
          mt_subscription = total_where (\<lambda>m. me_purpose m = ''subscription'') ms\<rparr>)"

definition history_of :: "money_entry list \<Rightarrow> money_history" where
  "history_of collected =
     (let ms = sort_desc (\<lambda>m. str_key (or_str (me_created_at m) [])) collected
      in \<lparr>mh_days = money_days ms, mh_entries = ms, mh_totals = money_totals_of ms\<rparr>)"

definition payment_history :: "db \<Rightarrow> User \<Rightarrow> exc + money_history" where
  "payment_history d user = (case shop_bill_profile d user of
     Inl ex \<Rightarrow> Inl ex
   | Inr p \<Rightarrow> (case plan_entries d (u_id user) p of
       Inl ex \<Rightarrow> Inl ex
     | Inr plan_ms \<Rightarrow> Inr (history_of (plan_ms @ ledger_money d (u_id user)
         @ concat (map (purchase_money d) (purchase_rows d (u_id user)))
         @ concat (map (customer_money d) (shop_sales_orders d (u_id user))) @ open_balance p))))"

section \<open>Dashboards\<close>

record dashboard_view =
  sd_summary :: bill_summary
  sd_sub_status :: string
  sd_plan :: "string option"
  sd_expires_at :: "datetime option"
  sd_can_sell :: bool
  sd_totals :: money_totals
  sd_cash_net :: rat
  sd_recent :: "money_entry list"
  sd_open_dues :: "money_entry list"

definition shop_dashboard :: "db \<Rightarrow> User \<Rightarrow> exc + dashboard_view" where
  "shop_dashboard d user = (case shop_bill_profile d user of
     Inl ex \<Rightarrow> Inl ex
   | Inr p \<Rightarrow> (case payment_history d user of
       Inl ex \<Rightarrow> Inl ex
     | Inr h \<Rightarrow> Inr \<lparr>sd_summary = bill_summary_of d (u_id user) p, sd_sub_status = sub_status p, sd_plan = rp_sell_plan p,
         sd_expires_at = rp_sell_subscription_expires_at p,
         sd_can_sell = (rp_approval_status p = ''approved'' \<and> sub_status p = ''approved'' \<and> \<not> rp_is_blocked p),
         sd_totals = mh_totals h, sd_cash_net = mt_cash_net (mh_totals h), sd_recent = take 8 (mh_entries h),
         sd_open_dues = take 6 (filter (\<lambda>m. me_direction m \<in> set [''due'', ''due_in'']) (mh_entries h))\<rparr>))"

record account_totals =
  at_orders :: nat
  at_subtotal :: rat
  at_gst :: rat
  at_billed :: rat
  at_paid_on_orders :: rat
  at_order_due :: rat
  at_ledger_debits :: rat
  at_ledger_collections :: rat

record shop_account =
  sa_owner_name :: "string option"
  sa_summary :: bill_summary
  sa_totals :: account_totals
  sa_orders :: "bill_row list"
  sa_ledger :: "CreditLedgerEntry list"
  sa_supplier_bills :: "json list"

definition admin_shop_account :: "db \<Rightarrow> int \<Rightarrow> exc + shop_account" where
  "admin_shop_account d uid = (case get_User d uid of
     None \<Rightarrow> Inl (not_found ''Shop not found'')
   | Some user \<Rightarrow> (case shop_bill_profile d user of
       Inl ex \<Rightarrow> Inl ex
     | Inr p \<Rightarrow>
         let bills = bill_rows d (u_id user); led = list_ledger d (u_id user) 100;
             total = (\<lambda>f. round2 (py_sum (map f bills)));
             moved = (\<lambda>k. round2 (py_sum (map le_amount (filter (\<lambda>le. str_lower (le_entry_type le) = k) led))))
         in Inr \<lparr>sa_owner_name = rp_owner_name p, sa_summary = bill_summary_of d (u_id user) p,
              sa_totals = \<lparr>at_orders = length bills, at_subtotal = total br_subtotal, at_gst = total br_gst_amount,
                at_billed = total br_final_amount, at_paid_on_orders = total br_paid_amount, at_order_due = total br_due,
                at_ledger_debits = moved ''debit'', at_ledger_collections = moved ''credit''\<rparr>,
              sa_orders = bills, sa_ledger = led,
              sa_supplier_bills = (if rp_is_wholesaler p then list_purchases d (Some (u_id user)) else [])\<rparr>))"

section \<open>The days partition the entries\<close>

lemma mset_sort_desc [simp]: "mset (sort_desc k xs) = mset xs"
  by (simp add: sort_desc_def)

lemma set_sort_desc [simp]: "set (sort_desc k xs) = set xs"
  by (simp add: sort_desc_def)

lemma distinct_sort_desc [simp]: "distinct (sort_desc k xs) = distinct xs"
  by (simp add: sort_desc_def distinct_sort)

lemma mset_group_cons:
  "distinct ks \<Longrightarrow> mset (concat (map (\<lambda>k. filter (\<lambda>y. f y = k) (x # xs)) ks))
     = (if f x \<in> set ks then {#x#} else {#}) + mset (concat (map (\<lambda>k. filter (\<lambda>y. f y = k) xs) ks))"
  by (induction ks) auto

lemma mset_groups:
  "distinct ks \<Longrightarrow> f ` set xs \<subseteq> set ks \<Longrightarrow> mset (concat (map (\<lambda>k. filter (\<lambda>y. f y = k) xs) ks)) = mset xs"
proof (induction xs)
  case Nil
  have "concat (map (\<lambda>k. []) ks) = []" by (induction ks) auto
  then show ?case by simp
next
  case (Cons x xs)
  then show ?case by (simp only: mset_group_cons) simp
qed

lemma day_keys_set: "set (day_keys ms) = day_name ` set ms" "distinct (day_keys ms)"
  by (simp_all add: day_keys_def)

text \<open>The entries of a payment history are those collected, and its days, each
  named once, share them out: every entry stands under its own day, once, and no day is empty.\<close>

theorem history_days_partition:
  "mset (mh_entries (history_of ms)) = mset ms
   \<and> mset (concat (map md_entries (mh_days (history_of ms)))) = mset ms
   \<and> distinct (map md_date (mh_days (history_of ms)))
   \<and> list_all (\<lambda>day. md_entries day \<noteq> [] \<and> md_count day = length (md_entries day)
        \<and> list_all (\<lambda>m. day_name m = md_date day) (md_entries day)) (mh_days (history_of ms))"
proof -
  define es where "es = sort_desc (\<lambda>m. str_key (or_str (me_created_at m) [])) ms"
  define ks where "ks = sort_desc day_rank (day_keys es)"
  have ks: "distinct ks" "set ks = day_name ` set es" by (simp_all add: ks_def day_keys_set)
  have days: "mh_days (history_of ms) = money_days es" "mh_entries (history_of ms) = es"
    by (simp_all add: history_of_def es_def Let_def)
  have "map md_entries (money_days es) = map (\<lambda>k. filter (\<lambda>m. day_name m = k) es) ks"
    "map md_date (money_days es) = ks"
    by (simp_all add: money_days_def ks_def Let_def comp_def)
  moreover have "mset (concat (map (\<lambda>k. filter (\<lambda>m. day_name m = k) es) ks)) = mset es"
    by (rule mset_groups) (use ks in auto)
  moreover have "list_all (\<lambda>day. md_entries day \<noteq> [] \<and> md_count day = length (md_entries day)
        \<and> list_all (\<lambda>m. day_name m = md_date day) (md_entries day)) (money_days es)"
    using ks by (auto simp: money_days_def ks_def [symmetric] list_all_iff Let_def filter_empty_conv)
  ultimately show ?thesis using ks(1) by (simp add: days es_def)
qed

section \<open>The totals are exact\<close>

definition entry_paise :: "money_entry \<Rightarrow> int" where
  "entry_paise m = to_cents (me_amount m)"

definition paise_where :: "(money_entry \<Rightarrow> bool) \<Rightarrow> money_entry list \<Rightarrow> int" where
  "paise_where P ms = sum_list (map entry_paise (filter P ms))"

definition sound_entries :: "money_entry list \<Rightarrow> bool" where
  "sound_entries ms \<longleftrightarrow> list_all (\<lambda>m. is_money (me_amount m) \<and> 0 \<le> entry_paise m) ms
     \<and> sum_list (map entry_paise ms) \<le> cart_bound \<and> length ms \<le> 1000"

lemma paise_where_bounds:
  assumes "sound_entries ms" shows "0 \<le> paise_where P ms \<and> paise_where P ms \<le> cart_bound"
proof -
  have nn: "0 \<le> entry_paise m" if "m \<in> set ms" for m using assms that by (auto simp: sound_entries_def list_all_iff)
  have "sum_list (map entry_paise (filter P ms)) \<le> sum_list (map entry_paise ms)" using nn
    by (induction ms) (auto intro: add_increasing)
  moreover have "0 \<le> sum_list (map entry_paise (filter P ms))" using nn by (intro sum_list_nonneg) auto
  ultimately show ?thesis using assms by (simp add: paise_where_def sound_entries_def)
qed

lemma total_where_exact:
  assumes "sound_entries ms" shows "total_where P ms = cents (paise_where P ms)"
proof -
  have "map me_amount (filter P ms) = map cents (map entry_paise (filter P ms))"
    using assms by (auto simp: sound_entries_def list_all_iff is_money_def entry_paise_def)
  moreover have "list_all (\<lambda>n. 0 \<le> n) (map entry_paise (filter P ms))"
    using assms by (auto simp: sound_entries_def list_all_iff)
  moreover have "length (map entry_paise (filter P ms)) \<le> 1000"
    using assms le_trans [OF length_filter_le [of P ms]] by (simp add: sound_entries_def)
  ultimately show ?thesis
    using round2_py_sum [of "map entry_paise (filter P ms)"] paise_where_bounds [OF assms, of P]
    by (simp only: total_where_def paise_where_def)
qed

text \<open>For at most a thousand movements of whole paise, together below the bound, the totals
  of a payment history are exact: what came in, what went out, the dues, and the cash as the difference of the
  first two to the paisa.\<close>

theorem history_totals_exact:
  assumes "payment_history d user = Inr h" "sound_entries (mh_entries h)"
  shows "mt_in (mh_totals h) = cents (paise_where (\<lambda>m. me_direction m = ''in'') (mh_entries h))
    \<and> mt_out (mh_totals h) = cents (paise_where (\<lambda>m. me_direction m = ''out'') (mh_entries h))
    \<and> mt_cash_net (mh_totals h) = cents (paise_where (\<lambda>m. me_direction m = ''in'') (mh_entries h)
         - paise_where (\<lambda>m. me_direction m = ''out'') (mh_entries h))
    \<and> mt_dues (mh_totals h) = cents (paise_where (\<lambda>m. me_direction m \<in> set [''due'', ''due_in'']) (mh_entries h))"
proof -
  from assms(1) have t: "mh_totals h = money_totals_of (mh_entries h)"
    by (auto simp: payment_history_def history_of_def Let_def split: sum.splits)
  have ok: "money_ok (paise_where P (mh_entries h))" for P
    using paise_where_bounds [OF assms(2), of P] by (auto simp: money_ok_def money_bound_def cart_bound_def)
  show ?thesis
    by (simp add: t money_totals_of_def total_where_exact [OF assms(2)] round2_fsub_cents ok Let_def)
qed

section \<open>Worked example\<close>

text \<open>A shop that paid 450.00 of its bills and owes 500.00.\<close>

definition paid_entry :: CreditLedgerEntry where
  "paid_entry = (new_CreditLedgerEntry 0 7 ''credit'')\<lparr>le_id := 1, le_amount := cents 45000, le_balance_after := cents 50000\<rparr>"

definition billed_db :: db where
  "billed_db = empty_db\<lparr>profiles := \<lparr>rows = [shop_profile\<lparr>rp_outstanding_balance := cents 50000\<rparr>], next_id = 9\<rparr>,
     ledger_entries := \<lparr>rows = [paid_entry], next_id = 2\<rparr>\<rparr>"

lemma billed_history:
  "payment_history billed_db shop_user = Inr (history_of (ledger_entry_of paid_entry # open_balance (shop_profile\<lparr>rp_outstanding_balance := cents 50000\<rparr>)))"
proof -
  have "str_lower ''credit'' = ''credit''" by code_simp
  then show ?thesis
    by (simp add: payment_history_def shop_bill_profile_def profile_of_def t_first_def billed_db_def empty_db_def shop_profile_def
        new_RetailerProfile_def shop_user_def new_User_def plan_entries_def plan_notices_def t_all_def t_empty_def
        ledger_money_def list_ledger_def paid_entry_def new_CreditLedgerEntry_def purchase_rows_def shop_sales_orders_def)
qed

definition billed_entries :: "money_entry list" where
  "billed_entries = ledger_entry_of paid_entry # open_balance (shop_profile\<lparr>rp_outstanding_balance := cents 50000\<rparr>)"

lemma billed_amounts:
  "map (\<lambda>m. (me_direction m, me_amount m)) billed_entries = [(''out'', cents 45000), (''due'', cents 50000)]"
proof -
  have "str_lower ''credit'' = ''credit''" by code_simp
  moreover have "eps_milli < cents 50000" by code_simp
  moreover have "round2 (cents 45000) = cents 45000" "round2 (cents 50000) = cents 50000"
    by (simp_all add: round2_is_money money_ok_def money_bound_def)
  ultimately show ?thesis
    by (simp add: billed_entries_def ledger_entry_of_def entry_of_def paid_entry_def new_CreditLedgerEntry_def open_balance_def)
qed

lemma history_mset: "mset (mh_entries (history_of ms)) = mset ms"
  by (simp add: history_of_def Let_def)

lemma paise_where_perm: "mset xs = mset ys \<Longrightarrow> paise_where P xs = paise_where P ys"
  by (simp add: paise_where_def sum_mset_sum_list [symmetric] mset_filter)

lemma sound_entries_perm:
  assumes "mset xs = mset ys" "sound_entries ys" shows "sound_entries xs"
proof -
  have "set xs = set ys" "length xs = length ys" using assms(1) by (auto dest: mset_eq_setD mset_eq_length)
  moreover have "sum_list (map entry_paise xs) = sum_list (map entry_paise ys)"
    using paise_where_perm [OF assms(1), of "\<lambda>m. True"] by (simp add: paise_where_def)
  ultimately show ?thesis using assms(2) by (simp add: sound_entries_def list_all_iff)
qed

lemma billed_two:
  obtains a b where "billed_entries = [a, b]" "me_direction a = ''out''" "me_amount a = cents 45000"
    "me_direction b = ''due''" "me_amount b = cents 50000"
  using billed_amounts by auto

lemma billed_paise:
  "sound_entries billed_entries" "paise_where (\<lambda>m. me_direction m = ''out'') billed_entries = 45000"
  "paise_where (\<lambda>m. me_direction m = ''in'') billed_entries = 0"
proof -
  obtain a b where ab: "billed_entries = [a, b]" "me_direction a = ''out''" "me_amount a = cents 45000"
    "me_direction b = ''due''" "me_amount b = cents 50000" by (rule billed_two)
  have "money_ok 45000" "money_ok 50000" by (simp_all add: money_ok_def money_bound_def)
  then show "sound_entries billed_entries" "paise_where (\<lambda>m. me_direction m = ''out'') billed_entries = 45000"
    "paise_where (\<lambda>m. me_direction m = ''in'') billed_entries = 0"
    unfolding ab(1) by (simp_all add: ab sound_entries_def paise_where_def entry_paise_def cart_bound_def)
qed

lemma history_totals_exact_witness:
  "\<exists>h. payment_history billed_db shop_user = Inr h \<and> mt_out (mh_totals h) = cents 45000 \<and> mt_cash_net (mh_totals h) = cents (- 45000)"
proof -
  define h where "h = history_of billed_entries"
  have h: "payment_history billed_db shop_user = Inr h" using billed_history by (simp add: h_def billed_entries_def)
  have m: "mset (mh_entries h) = mset billed_entries" by (simp only: h_def history_mset)
  note paise_where_perm [OF m]
  then show ?thesis
    using billed_paise(2,3) history_totals_exact [OF h sound_entries_perm [OF m billed_paise(1)]] h by simp
qed

end
