(* ===== verification/Pricing.thy ===== *)
theory Pricing
  imports CartBill
begin

text \<open>
  \<open>pricing_service/app/services/pricing.py\<close>: unit prices by channel, quotes, the administrator's price
  changes, the estimate for a custom cake and the paged price list; and the pages of
  \<open>assortment_service/app/services/assortment.py\<close> with the flags of a product.
\<close>

section \<open>Quotes\<close>

definition shop_unit_price :: "Product \<Rightarrow> rat" where
  "shop_unit_price p = (case p_shop_price p of Some x \<Rightarrow> x | None \<Rightarrow> p_selling_price p)"

record quote_view =
  pq_product_id :: int
  pq_name :: string
  pq_channel :: string
  pq_unit_price :: rat
  pq_selling_price :: rat
  pq_customer_price :: "rat option"
  pq_shop_price :: "rat option"
  pq_original_price :: "rat option"
  pq_purchase_cost :: "rat option"
  pq_margin :: "rat option"

definition quote_of :: "string \<Rightarrow> Product \<Rightarrow> quote_view" where
  "quote_of channel p =
     (let ch = str_lower (if channel = [] then ''customer'' else channel);
          unit = (if ch \<in> set [''shop'', ''retailer'', ''b2b''] then shop_unit_price p else customer_unit_price p)
      in \<lparr>pq_product_id = p_id p, pq_name = p_name p, pq_channel = ch, pq_unit_price = unit,
          pq_selling_price = p_selling_price p, pq_customer_price = p_customer_price p, pq_shop_price = p_shop_price p,
          pq_original_price = p_original_price p, pq_purchase_cost = p_purchase_cost p,
          pq_margin = map_option (\<lambda>c. round2 (fsub unit c)) (p_purchase_cost p)\<rparr>)"

definition price_quote :: "db \<Rightarrow> int \<Rightarrow> string \<Rightarrow> exc + quote_view" where
  "price_quote d product_id channel = (case get_Product d product_id of
     None \<Rightarrow> Inl (not_found ''Product not found'') | Some p \<Rightarrow> Inr (quote_of channel p))"

fun quote_bulk :: "db \<Rightarrow> int list \<Rightarrow> string \<Rightarrow> exc + quote_view list" where
  "quote_bulk d [] channel = Inr []"
| "quote_bulk d (k # ks) channel = (case price_quote d k channel of
     Inl ex \<Rightarrow> Inl ex
   | Inr r \<Rightarrow> (case quote_bulk d ks channel of Inl ex \<Rightarrow> Inl ex | Inr rs \<Rightarrow> Inr (r # rs)))"

section \<open>Price changes\<close>

text \<open>A change is a list of fields with a number or null; the fields are set in order, a negative price
  stops everything before the commit, a null for a column that takes none at the commit.\<close>

definition PRICE_KEYS :: "string list" where
  "PRICE_KEYS = [''selling_price'', ''customer_price'', ''shop_price'', ''original_price'', ''purchase_cost'']"

definition set_price :: "string \<Rightarrow> rat option \<Rightarrow> Product \<Rightarrow> Product" where
  "set_price k v p =
     (if k = ''selling_price'' then p\<lparr>p_selling_price := or_zero v\<rparr>
      else if k = ''customer_price'' then p\<lparr>p_customer_price := v\<rparr>
      else if k = ''shop_price'' then p\<lparr>p_shop_price := v\<rparr>
      else if k = ''original_price'' then p\<lparr>p_original_price := v\<rparr>
      else if k = ''purchase_cost'' then p\<lparr>p_purchase_cost := v\<rparr>
      else if k = ''discount_percent'' then p\<lparr>p_discount_percent := or_zero v\<rparr>
      else if k = ''gst_rate'' then p\<lparr>p_gst_rate := or_zero v\<rparr>
      else p)"

fun set_prices :: "(string \<times> rat option) list \<Rightarrow> Product \<Rightarrow> exc + Product" where
  "set_prices [] p = Inr p"
| "set_prices ((k, v) # kvs) p =
     (if k \<in> set PRICE_KEYS \<and> (case v of Some x \<Rightarrow> x < 0 | None \<Rightarrow> False)
      then Inl (bad_request (k @ '' must be >= 0''))
      else set_prices kvs (set_price k v p))"

definition last_null :: "(string \<times> rat option) list \<Rightarrow> string \<Rightarrow> bool" where
  "last_null data k \<longleftrightarrow> map_of (rev data) k = Some None"

definition update_prices :: "env \<Rightarrow> int \<Rightarrow> (string \<times> rat option) list \<Rightarrow> db \<Rightarrow> (exc + Product) \<times> db" where
  "update_prices e product_id data d = (case get_Product d product_id of
     None \<Rightarrow> (Inl (not_found ''Product not found''), d)
   | Some p \<Rightarrow> (case set_prices data p of
       Inl ex \<Rightarrow> (Inl ex, d)
     | Inr p1 \<Rightarrow>
         if list_ex (last_null data) [''selling_price'', ''discount_percent'', ''gst_rate'']
         then (Inl (PyExc ''IntegrityError''), d)
         else let p2 = p1\<lparr>p_updated_at := env_now e\<rparr> in (Inr p2, put_Product p2 d)))"

section \<open>Estimates\<close>

definition CAKE_BASE :: "(string \<times> rat) list" where
  "CAKE_BASE = [(''0.5kg'', 499), (''1kg'', 799), (''1.5kg'', 1099), (''2kg'', 1399)]"

definition estimate_custom_cake :: "string \<Rightarrow> rat option \<Rightarrow> rat" where
  "estimate_custom_cake weight budget_max =
     (let base = (case map_of CAKE_BASE (str_lower (if weight = [] then ''1kg'' else weight)) of
                    Some x \<Rightarrow> x | None \<Rightarrow> 799)
      in (case budget_max of None \<Rightarrow> base | Some b \<Rightarrow> min base b))"

section \<open>Pages\<close>

definition page_slice :: "int \<Rightarrow> int \<Rightarrow> 'a list \<Rightarrow> 'a list" where
  "page_slice page per xs = take (nat per) (drop (nat ((page - 1) * per)) xs)"

definition newest_first :: "db \<Rightarrow> Product list" where
  "newest_first d = sort_key (\<lambda>p. - p_updated_at p) (rows (products d))"

definition list_priced :: "int \<Rightarrow> int \<Rightarrow> db \<Rightarrow> (Product \<times> rat \<times> rat) list \<times> nat" where
  "list_priced page per d =
     (map (\<lambda>p. (p, customer_unit_price p, shop_unit_price p)) (page_slice page per (newest_first d)),
      length (newest_first d))"

text \<open>\<open>q\<close> is looked up in the name or the brand, without regard to case.\<close>

definition in_range :: "string option \<Rightarrow> bool option \<Rightarrow> bool option \<Rightarrow> Product \<Rightarrow> bool" where
  "in_range q active draft p \<longleftrightarrow>
     (truthy_str q \<longrightarrow> contains (str_lower (the q)) (str_lower (p_name p))
        \<or> contains (str_lower (the q)) (str_lower (or_str (p_brand_name p) [])))
     \<and> (active \<noteq> None \<longrightarrow> p_is_active p = the active) \<and> (draft \<noteq> None \<longrightarrow> p_is_draft p = the draft)"

definition list_range :: "string option \<Rightarrow> bool option \<Rightarrow> bool option \<Rightarrow> int \<Rightarrow> int \<Rightarrow> db \<Rightarrow> Product list \<times> nat" where
  "list_range q active draft page per d =
     (let rs = filter (in_range q active draft) (newest_first d) in (page_slice page per rs, length rs))"

record FlagsIn =
  fl_is_active :: "bool option"
  fl_is_draft :: "bool option"
  fl_is_trending :: "bool option"
  fl_is_bestseller :: "bool option"
  fl_category_id :: "int option"

definition set_flag :: "'a option \<Rightarrow> 'a \<Rightarrow> 'a" where
  "set_flag x old = (case x of None \<Rightarrow> old | Some v \<Rightarrow> v)"

definition set_flags :: "env \<Rightarrow> int \<Rightarrow> FlagsIn \<Rightarrow> db \<Rightarrow> (exc + Product) \<times> db" where
  "set_flags e product_id flags d = (case get_Product d product_id of
     None \<Rightarrow> (Inl (not_found ''Product not found''), d)
   | Some p \<Rightarrow>
       if (case fl_category_id flags of None \<Rightarrow> False | Some c \<Rightarrow> get_Category d c = None)
       then (Inl (not_found ''Category not found''), d)
       else let p2 = p\<lparr>p_is_active := set_flag (fl_is_active flags) (p_is_active p),
                       p_is_draft := set_flag (fl_is_draft flags) (p_is_draft p),
                       p_is_trending := set_flag (fl_is_trending flags) (p_is_trending p),
                       p_is_bestseller := set_flag (fl_is_bestseller flags) (p_is_bestseller p),
                       p_category_id := set_flag (fl_category_id flags) (p_category_id p), p_updated_at := env_now e\<rparr>
            in (Inr p2, put_Product p2 d))"

definition sellable_range :: "db \<Rightarrow> Product list" where
  "sellable_range d = t_all (\<lambda>p. p_is_active p \<and> \<not> p_is_draft p \<and> 0 < p_stock_qty p) (products d)"

definition retailer_range :: "db \<Rightarrow> Product list" where
  "retailer_range d = t_all (\<lambda>p. p_is_active p \<and> \<not> p_is_draft p) (products d)"

section \<open>Laws\<close>

definition price_fields :: "Product \<Rightarrow> rat list" where
  "price_fields p = p_selling_price p # List.map_filter id
     [p_customer_price p, p_shop_price p, p_original_price p, p_purchase_cost p]"

definition priced_ok :: "db \<Rightarrow> bool" where
  "priced_ok d \<longleftrightarrow> list_all (\<lambda>p. list_all (\<lambda>x. 0 \<le> x) (price_fields p)) (rows (products d))"

definition no_prices :: "Product \<Rightarrow> Product" where
  "no_prices p = p\<lparr>p_selling_price := 0, p_customer_price := None, p_shop_price := None, p_original_price := None,
     p_purchase_cost := None, p_discount_percent := 0, p_gst_rate := 0, p_updated_at := 0\<rparr>"

lemma price_fields_ok:
  "list_all (\<lambda>x. 0 \<le> x) (price_fields p) \<longleftrightarrow> 0 \<le> p_selling_price p
     \<and> list_all (\<lambda>v. 0 \<le> or_zero v) [p_customer_price p, p_shop_price p, p_original_price p, p_purchase_cost p]"
  by (cases "p_customer_price p"; cases "p_shop_price p"; cases "p_original_price p"; cases "p_purchase_cost p")
    (simp_all add: price_fields_def List.map_filter_def)

lemma set_price_ok:
  assumes "list_all (\<lambda>x. 0 \<le> x) (price_fields p)" "k \<in> set PRICE_KEYS \<Longrightarrow> 0 \<le> or_zero v"
  shows "list_all (\<lambda>x. 0 \<le> x) (price_fields (set_price k v p))"
  using assms by (simp add: price_fields_ok set_price_def PRICE_KEYS_def)

lemma no_prices_simps [simp]:
  "no_prices (p\<lparr>p_selling_price := x\<rparr>) = no_prices p" "no_prices (p\<lparr>p_customer_price := v\<rparr>) = no_prices p"
  "no_prices (p\<lparr>p_shop_price := v\<rparr>) = no_prices p" "no_prices (p\<lparr>p_original_price := v\<rparr>) = no_prices p"
  "no_prices (p\<lparr>p_purchase_cost := v\<rparr>) = no_prices p" "no_prices (p\<lparr>p_discount_percent := x\<rparr>) = no_prices p"
  "no_prices (p\<lparr>p_gst_rate := x\<rparr>) = no_prices p" "no_prices (p\<lparr>p_updated_at := t\<rparr>) = no_prices p"
  by (simp_all add: no_prices_def)

lemma set_price_frame: "no_prices (set_price k v p) = no_prices p" "p_id (set_price k v p) = p_id p"
  by (simp_all add: set_price_def)

lemma set_prices_ok:
  assumes "set_prices data p = Inr p'"
  shows "(list_all (\<lambda>x. 0 \<le> x) (price_fields p) \<longrightarrow> list_all (\<lambda>x. 0 \<le> x) (price_fields p'))
    \<and> no_prices p' = no_prices p \<and> p_id p' = p_id p"
  using assms
proof (induction data p rule: set_prices.induct)
  case (2 k v kvs p)
  from 2(2) have ok: "\<not> (k \<in> set PRICE_KEYS \<and> (case v of Some x \<Rightarrow> x < 0 | None \<Rightarrow> False))"
    and r: "set_prices kvs (set_price k v p) = Inr p'" by (auto split: if_splits)
  from ok have "k \<in> set PRICE_KEYS \<Longrightarrow> 0 \<le> or_zero v" by (cases v) auto
  with 2(1) [OF ok r] set_price_ok [of p k v] show ?case by (auto simp: set_price_frame)
qed simp

text \<open>A price change, accepted or refused, leaves no product with a negative
  price or cost, and changes nothing of any product but prices, rates and the time of the change; a refused one changes
  nothing at all.\<close>

theorem prices_stay_nonnegative:
  assumes "update_prices e k data d = (r, d')" "priced_ok d" "db_wf d"
  shows "priced_ok d' \<and> map no_prices (rows (products d')) = map no_prices (rows (products d)) \<and> (isl r \<longrightarrow> d' = d)"
proof (cases "get_Product d k")
  case (Some p)
  show ?thesis
  proof (cases "d' = d \<and> isl r")
    case False
    obtain p1 where p1: "set_prices data p = Inr p1" "d' = put_Product (p1\<lparr>p_updated_at := env_now e\<rparr>) d" "\<not> isl r"
    proof (cases "set_prices data p")
      case (Inr p1)
      with assms(1) Some False show ?thesis by (intro that) (auto simp: update_prices_def Let_def split: if_splits)
    next
      case (Inl ex)
      with assms(1) Some have "d' = d" "r = Inl ex" by (simp_all add: update_prices_def)
      with False show ?thesis by simp
    qed
    note ok = set_prices_ok [OF p1(1)]
    have same: "x = p" if "x \<in> set (rows (products d))" "p_id x = p_id p" for x
      using t_wf_unique [OF db_wf_tables(5) [OF assms(3)] that(1) t_get_in [OF Some]] that(2) by simp
    have new: "price_fields (p1\<lparr>p_updated_at := t\<rparr>) = price_fields p1" for t by (simp add: price_fields_def)
    have "list_all (\<lambda>x. 0 \<le> x) (price_fields p)" using assms(2) t_get_in [OF Some] by (auto simp: priced_ok_def list_all_iff)
    then have "priced_ok d'" using assms(2) p1(2) ok by (auto simp: priced_ok_def list_all_iff rows_t_put new)
    moreover have "map no_prices (rows (products d')) = map no_prices (rows (products d))"
      using p1(2) ok same by (auto simp: rows_t_put new)
    ultimately show ?thesis using p1(3) by simp
  qed (use assms(2) in simp)
qed (use assms in \<open>simp add: update_prices_def\<close>)

lemma page_slices: "0 < per \<Longrightarrow> concat (map (\<lambda>k. page_slice (int k + 1) (int per) xs) [0..<n]) = take (n * per) xs"
proof (induction n)
  case (Suc n)
  have "take (Suc n * per) xs = take (n * per) xs @ take per (drop (n * per) xs)"
    by (metis add.commute mult_Suc take_add)
  with Suc show ?case by (simp add: page_slice_def nat_mult_distrib)
qed simp

text \<open>The pages of a list, one after the other, are the list.\<close>

lemma range_pages:
  "concat (map (\<lambda>k. fst (list_range q active draft (int k + 1) (int (Suc m)) d)) [0..<n])
     = take (n * Suc m) (filter (in_range q active draft) (newest_first d))"
  by (simp only: list_range_def Let_def fst_conv page_slices zero_less_Suc)

lemma priced_pages:
  "concat (map (\<lambda>k. map fst (fst (list_priced (int k + 1) (int (Suc m)) d))) [0..<n]) = take (n * Suc m) (newest_first d)"
  using page_slices [of "Suc m"] by (simp add: list_priced_def comp_def del: of_nat_Suc)

section \<open>Worked example\<close>

definition bun_change :: "(string \<times> rat option) list" where
  "bun_change = [(''customer_price'', Some 18), (''purchase_cost'', Some 9)]"

lemma prices_stay_nonnegative_witness:
  "priced_ok (snd (update_prices sample_env 1 bun_change cart_db))
   \<and> map p_customer_price (rows (products (snd (update_prices sample_env 1 bun_change cart_db)))) = [Some 18, p_customer_price cake]"
proof -
  have "priced_ok cart_db"
    by (simp add: priced_ok_def price_fields_def bun_def cake_def new_Product_def List.map_filter_def cents_nonneg)
  moreover have "map p_customer_price (rows (products (snd (update_prices sample_env 1 bun_change cart_db)))) = [Some 18, p_customer_price cake]"
  proof -
    have u: "set_prices bun_change bun = Inr (bun\<lparr>p_customer_price := Some 18, p_purchase_cost := Some 9\<rparr>)"
      by (simp add: bun_change_def PRICE_KEYS_def set_price_def)
    have "\<not> list_ex (last_null bun_change) [''selling_price'', ''discount_percent'', ''gst_rate'']"
      by (simp add: last_null_def bun_change_def)
    then have "snd (update_prices sample_env 1 bun_change cart_db)
        = put_Product (bun\<lparr>p_customer_price := Some 18, p_purchase_cost := Some 9, p_updated_at := env_now sample_env\<rparr>) cart_db"
      by (simp only: update_prices_def cart_db_products option.case u sum.case if_False Let_def snd_conv)
    then show ?thesis by (simp add: rows_t_put) (simp add: bun_def cake_def)
  qed
  ultimately show ?thesis
    using prices_stay_nonnegative [OF prod.collapse [symmetric] _ cart_db_wf, of sample_env 1 bun_change] by simp
qed

end
