(* ===== verification/Products.thy ===== *)
theory Products
  imports Shops Pricing
begin

text \<open>
  \<open>store_ops_service/app/services/products.py\<close>: the administrator's products and categories.  The
  foreign keys of a product to its category and of a movement to its product are checked by the database
  (\<open>IntegrityError\<close>), as are the unique slugs.  \<open>publish_ai_product\<close>, whose body is an untyped answer of the AI
  service, is in \<open>Suggested\<close>.
\<close>

section \<open>Supplier and brand\<close>

text \<open>The brand without surrounding space; empty is none.\<close>

definition brand_text :: "string option \<Rightarrow> string option" where
  "brand_text s = (let t = strip (or_str s []) in if t = [] then None else Some t)"

definition resolve_brand_fields :: "string option \<Rightarrow> int option \<Rightarrow> string option \<Rightarrow> string option \<times> int option" where
  "resolve_brand_fields brand_name supplier_user_id shop_name =
     (let sid = (if truthy_id supplier_user_id then supplier_user_id else None);
          brand = brand_text brand_name
      in (if sid \<noteq> None \<and> brand = None then brand_text shop_name else brand, sid))"

definition apply_supplier_brand :: "db \<Rightarrow> string option \<Rightarrow> int option \<Rightarrow> exc + string option \<times> int option" where
  "apply_supplier_brand d brand_name supplier_user_id =
     (if \<not> truthy_id supplier_user_id then Inr (brand_text brand_name, None)
      else (case get_User d (the supplier_user_id) of
        None \<Rightarrow> Inl (bad_request ''Supplier must be a retailer/wholesaler shop'')
      | Some user \<Rightarrow>
          if u_role user \<noteq> UR_RETAILER then Inl (bad_request ''Supplier must be a retailer/wholesaler shop'')
          else (case profile_of d (u_id user) of
            None \<Rightarrow> Inl (bad_request ''Supplier shop profile not found'')
          | Some profile \<Rightarrow>
              if \<not> rp_is_wholesaler profile then Inl (bad_request ''Shop is not marked as wholesaler/supplier'')
              else Inr (resolve_brand_fields brand_name (Some (u_id user)) (Some (rp_shop_name profile))))))"

section \<open>Products\<close>

definition product_matches :: "string option \<Rightarrow> int option \<Rightarrow> int option \<Rightarrow> Product \<Rightarrow> bool" where
  "product_matches q category_id supplier_user_id p \<longleftrightarrow>
     (truthy_id category_id \<longrightarrow> Some (p_category_id p) = category_id)
     \<and> (truthy_id supplier_user_id \<longrightarrow> p_supplier_user_id p = supplier_user_id)
     \<and> in_range q None None p"

definition list_products :: "db \<Rightarrow> string option \<Rightarrow> int \<Rightarrow> int \<Rightarrow> int option \<Rightarrow> int option \<Rightarrow> Product list \<times> nat" where
  "list_products d q page page_size category_id supplier_user_id =
     (let rs = filter (product_matches q category_id supplier_user_id) (newest_first d)
      in (page_slice page page_size rs, length rs))"

record ProductIn =
  pri_category_id :: int
  pri_name :: string
  pri_brand_name :: "string option"
  pri_supplier_user_id :: "int option"
  pri_short_description :: "string option"
  pri_description :: "string option"
  pri_ingredients :: "string option"
  pri_allergens :: "string option"
  pri_flavor :: "string option"
  pri_weight :: "string option"
  pri_unit_label :: "string option"
  pri_selling_price :: rat
  pri_customer_price :: "rat option"
  pri_shop_price :: "rat option"
  pri_purchase_cost :: "rat option"
  pri_original_price :: "rat option"
  pri_gst_rate :: rat
  pri_stock_qty :: int
  pri_is_eggless :: bool
  pri_is_sugar_free :: bool
  pri_preparation_minutes :: int
  pri_shelf_life_hours :: "int option"
  pri_storage_instructions :: "string option"
  pri_tags :: "json list option"
  pri_filters :: "json list option"
  pri_cover_image_url :: "string option"
  pri_is_draft :: bool
  pri_is_active :: bool

text \<open>The defaults of the request body.\<close>

definition new_ProductIn :: "int \<Rightarrow> string \<Rightarrow> ProductIn" where
  "new_ProductIn category_id name = \<lparr>pri_category_id = category_id, pri_name = name, pri_brand_name = None,
     pri_supplier_user_id = None, pri_short_description = None, pri_description = None, pri_ingredients = None,
     pri_allergens = None, pri_flavor = None, pri_weight = None, pri_unit_label = Some ''pcs'', pri_selling_price = 0,
     pri_customer_price = None, pri_shop_price = None, pri_purchase_cost = None, pri_original_price = None,
     pri_gst_rate = 5, pri_stock_qty = 0, pri_is_eggless = False, pri_is_sugar_free = False,
     pri_preparation_minutes = 60, pri_shelf_life_hours = None, pri_storage_instructions = None, pri_tags = None,
     pri_filters = None, pri_cover_image_url = None, pri_is_draft = False, pri_is_active = True\<rparr>"

definition product_slug :: "db \<Rightarrow> string \<Rightarrow> string" where
  "product_slug d name = (let base = or_str (Some (slugify name)) ''product''
                          in fresh_slug (product_slugs d) base base 1)"

definition product_row :: "env \<Rightarrow> string \<Rightarrow> string option \<Rightarrow> int option \<Rightarrow> ProductIn \<Rightarrow> Product" where
  "product_row e slug brand sid b =
     (new_Product (env_now e) (pri_category_id b) (pri_name b) slug)
       \<lparr>p_brand_name := brand, p_supplier_user_id := sid, p_short_description := pri_short_description b,
        p_description := pri_description b, p_ingredients := pri_ingredients b, p_allergens := pri_allergens b,
        p_flavor := pri_flavor b, p_weight := pri_weight b, p_unit_label := normalize_unit (pri_unit_label b),
        p_selling_price := pri_selling_price b, p_customer_price := pri_customer_price b,
        p_shop_price := pri_shop_price b, p_purchase_cost := pri_purchase_cost b,
        p_original_price := pri_original_price b, p_gst_rate := pri_gst_rate b, p_stock_qty := pri_stock_qty b,
        p_stock_status := to_stock_status (stock_status_for (pri_stock_qty b) 5), p_is_eggless := pri_is_eggless b,
        p_is_sugar_free := pri_is_sugar_free b, p_preparation_minutes := pri_preparation_minutes b,
        p_shelf_life_hours := pri_shelf_life_hours b, p_storage_instructions := pri_storage_instructions b,
        p_tags := pri_tags b, p_filters := pri_filters b, p_cover_image_url := pri_cover_image_url b,
        p_is_draft := pri_is_draft b, p_is_active := pri_is_active b\<rparr>"

definition create_product :: "env \<Rightarrow> ProductIn \<Rightarrow> db \<Rightarrow> (exc + Product) \<times> db" where
  "create_product e b d = (case apply_supplier_brand d (pri_brand_name b) (pri_supplier_user_id b) of
     Inl ex \<Rightarrow> (Inl ex, d)
   | Inr (brand, sid) \<Rightarrow>
       if get_Category d (pri_category_id b) = None then (Inl (PyExc ''IntegrityError''), d)
       else let p = product_row e (product_slug d (pri_name b)) brand sid b
            in (Inr (key_Product p d), add_Product p d))"

record ProductPatchIn =
  pp_category_id :: "int option option"
  pp_name :: "string option option"
  pp_brand_name :: "string option option"
  pp_supplier_user_id :: "int option option"
  pp_short_description :: "string option option"
  pp_description :: "string option option"
  pp_weight :: "string option option"
  pp_unit_label :: "string option option"
  pp_selling_price :: "rat option option"
  pp_stock_qty :: "int option option"
  pp_is_active :: "bool option option"
  pp_is_draft :: "bool option option"
  pp_cover_image_url :: "string option option"
  pp_tags :: "json list option option"
  pp_shop_price :: "rat option option"
  pp_customer_price :: "rat option option"
  pp_purchase_cost :: "rat option option"

text \<open>The brand is worked out again when it or the supplier is in the patch.\<close>

definition patched_brand :: "db \<Rightarrow> ProductPatchIn \<Rightarrow> Product \<Rightarrow> exc + string option \<times> int option" where
  "patched_brand d b p =
     (if pp_brand_name b \<noteq> None \<or> pp_supplier_user_id b \<noteq> None
      then apply_supplier_brand d (upd (pp_brand_name b) (p_brand_name p)) (upd (pp_supplier_user_id b) (p_supplier_user_id p))
      else Inr (p_brand_name p, p_supplier_user_id p))"

definition patched_product :: "env \<Rightarrow> ProductPatchIn \<Rightarrow> string option \<Rightarrow> int option \<Rightarrow> Product \<Rightarrow> Product" where
  "patched_product e b brand sid p = p
     \<lparr>p_category_id := upd_req (pp_category_id b) (p_category_id p), p_name := upd_req (pp_name b) (p_name p),
      p_brand_name := brand, p_supplier_user_id := sid,
      p_short_description := upd (pp_short_description b) (p_short_description p),
      p_description := upd (pp_description b) (p_description p), p_weight := upd (pp_weight b) (p_weight p),
      p_unit_label := upd (map_option normalize_unit (pp_unit_label b)) (p_unit_label p),
      p_selling_price := upd_req (pp_selling_price b) (p_selling_price p),
      p_stock_qty := upd_req (pp_stock_qty b) (p_stock_qty p),
      p_stock_status := (case pp_stock_qty b of Some (Some n) \<Rightarrow> to_stock_status (stock_status_for n 5)
                         | _ \<Rightarrow> p_stock_status p),
      p_is_active := upd_req (pp_is_active b) (p_is_active p), p_is_draft := upd_req (pp_is_draft b) (p_is_draft p),
      p_cover_image_url := upd (pp_cover_image_url b) (p_cover_image_url p), p_tags := upd (pp_tags b) (p_tags p),
      p_shop_price := upd (pp_shop_price b) (p_shop_price p),
      p_customer_price := upd (pp_customer_price b) (p_customer_price p),
      p_purchase_cost := upd (pp_purchase_cost b) (p_purchase_cost p), p_updated_at := env_now e\<rparr>"

text \<open>What the database refuses: null in a column that must have a value, a category that does not exist.\<close>

definition product_patch_refused :: "db \<Rightarrow> ProductPatchIn \<Rightarrow> bool" where
  "product_patch_refused d b \<longleftrightarrow> pp_category_id b = Some None \<or> pp_name b = Some None \<or> pp_selling_price b = Some None
     \<or> pp_is_active b = Some None \<or> pp_is_draft b = Some None
     \<or> (case pp_category_id b of Some (Some c) \<Rightarrow> get_Category d c = None | _ \<Rightarrow> False)"

definition update_product :: "env \<Rightarrow> int \<Rightarrow> ProductPatchIn \<Rightarrow> db \<Rightarrow> (exc + Product) \<times> db" where
  "update_product e product_id b d = (case get_Product d product_id of
     None \<Rightarrow> (Inl (not_found ''Product not found''), d)
   | Some p \<Rightarrow> (case patched_brand d b p of
       Inl ex \<Rightarrow> (Inl ex, d)
     | Inr (brand, sid) \<Rightarrow>
         if pp_stock_qty b = Some None then (Inl (PyExc ''TypeError''), d)
         else if product_patch_refused d b then (Inl (PyExc ''IntegrityError''), d)
         else let p2 = patched_product e b brand sid p in (Inr p2, put_Product p2 d)))"

definition soft_delete_product :: "env \<Rightarrow> int \<Rightarrow> db \<Rightarrow> json \<times> db" where
  "soft_delete_product e product_id d =
     (JObj [(''message'', JStr ''disabled'')],
      case get_Product d product_id of None \<Rightarrow> d
      | Some p \<Rightarrow> put_Product (p\<lparr>p_is_active := False, p_updated_at := env_now e\<rparr>) d)"

definition copy_of :: "Product \<Rightarrow> ProductIn" where
  "copy_of p = (new_ProductIn (p_category_id p) (p_name p @ '' (Copy)''))
     \<lparr>pri_brand_name := p_brand_name p, pri_supplier_user_id := p_supplier_user_id p,
      pri_short_description := p_short_description p, pri_description := p_description p, pri_weight := p_weight p,
      pri_unit_label := Some (p_unit_label p), pri_selling_price := p_selling_price p,
      pri_customer_price := p_customer_price p, pri_shop_price := p_shop_price p, pri_purchase_cost := p_purchase_cost p,
      pri_original_price := p_original_price p, pri_stock_qty := p_stock_qty p, pri_is_eggless := p_is_eggless p,
      pri_cover_image_url := p_cover_image_url p, pri_tags := p_tags p, pri_filters := p_filters p, pri_is_draft := True\<rparr>"

definition duplicate_product :: "env \<Rightarrow> int \<Rightarrow> db \<Rightarrow> (exc + Product) \<times> db" where
  "duplicate_product e product_id d = (case get_Product d product_id of
     None \<Rightarrow> (Inl (not_found ''Product not found''), d)
   | Some p \<Rightarrow> create_product e (copy_of p) d)"

definition update_stock :: "env \<Rightarrow> int \<Rightarrow> int \<Rightarrow> string \<Rightarrow> string option \<Rightarrow> int option \<Rightarrow> db \<Rightarrow> (exc + Product) \<times> db" where
  "update_stock e product_id stock_qty reason note admin_id d = (case get_Product d product_id of
     None \<Rightarrow> (Inl (not_found ''Product not found''), d)
   | Some p \<Rightarrow>
       let p2 = p\<lparr>p_stock_qty := stock_qty, p_stock_status := to_stock_status (stock_status_for stock_qty 5),
                  p_updated_at := env_now e\<rparr>;
           mv = (new_StockMovement (env_now e) product_id)
                  \<lparr>sm_change_qty := stock_qty - p_stock_qty p, sm_reason := reason, sm_note := note, sm_created_by := admin_id\<rparr>
       in (Inr p2, add_StockMovement mv (put_Product p2 d)))"

section \<open>Categories\<close>

definition admin_category_row :: "(int \<times> string) list \<Rightarrow> Category \<Rightarrow> json" where
  "admin_category_row shops c = JObj [(''id'', JInt (cat_id c)), (''name'', JStr (cat_name c)), (''slug'', JStr (cat_slug c)),
     (''description'', jopt_str (cat_description c)), (''image_url'', jopt_str (cat_image_url c)),
     (''display_order'', JInt (cat_display_order c)), (''is_active'', JBool (cat_is_active c)),
     (''parent_id'', jopt_int (cat_parent_id c)), (''owner_user_id'', jopt_int (cat_owner_user_id c)),
     (''created_at'', JStr (isoformat (cat_created_at c))), (''updated_at'', JStr (isoformat (cat_updated_at c))),
     (''source'', JStr (if truthy_id (cat_owner_user_id c) then ''shop'' else ''platform'')),
     (''owner_shop_name'', if truthy_id (cat_owner_user_id c) then jopt_str (map_of shops (the (cat_owner_user_id c))) else JNull)]"

text \<open>\<open>coll\<close> is the order of the database's collation.  Of several profiles of an owner the last one names
  the shop.\<close>

definition admin_categories :: "(string \<Rightarrow> 'k::linorder) \<Rightarrow> bool \<Rightarrow> db \<Rightarrow> json list" where
  "admin_categories coll active_only d =
     (let sorted = sort_key cat_display_order (sort_key (\<lambda>c. coll (cat_name c)) (rows (categories d)));
          rs = (if active_only then filter cat_is_active sorted else sorted);
          shops = rev (map (\<lambda>rp. (rp_user_id rp, rp_shop_name rp)) (rows (profiles d)))
      in map (admin_category_row shops) rs)"

record CategoryIn =
  cti_name :: string
  cti_description :: "string option option"
  cti_image_url :: "string option option"
  cti_display_order :: "int option"
  cti_is_active :: "bool option"

definition category_named :: "env \<Rightarrow> string \<Rightarrow> db \<Rightarrow> Category" where
  "category_named e name d = (case t_first (\<lambda>c. cat_slug c = slugify name) (categories d) of
     Some c \<Rightarrow> c | None \<Rightarrow> new_Category (env_now e) name (slugify name))"

text \<open>\<open>model_dump()\<close>: a field that is not sent has its default.\<close>

definition upsert_category :: "env \<Rightarrow> CategoryIn \<Rightarrow> db \<Rightarrow> Category \<times> db" where
  "upsert_category e b d =
     (let found = t_first (\<lambda>c. cat_slug c = slugify (cti_name b)) (categories d);
          cat = (category_named e (cti_name b) d)
            \<lparr>cat_description := upd (cti_description b) None, cat_image_url := upd (cti_image_url b) None,
             cat_display_order := upd (cti_display_order b) 0, cat_is_active := upd (cti_is_active b) True,
             cat_name := cti_name b, cat_updated_at := env_now e\<rparr>
      in if found = None then (key_Category cat d, add_Category cat d) else (cat, put_Category cat d))"

definition update_category :: "env \<Rightarrow> int \<Rightarrow> CategoryIn \<Rightarrow> db \<Rightarrow> (exc + Category) \<times> db" where
  "update_category e category_id b d = (case get_Category d category_id of
     None \<Rightarrow> (Inl (not_found ''Category not found''), d)
   | Some c \<Rightarrow>
       let c1 = (if cti_name b = [] then c else c\<lparr>cat_name := cti_name b, cat_slug := slugify (cti_name b)\<rparr>);
           c2 = c1\<lparr>cat_description := upd (cti_description b) (cat_description c),
                   cat_image_url := upd (cti_image_url b) (cat_image_url c),
                   cat_display_order := upd (cti_display_order b) (cat_display_order c),
                   cat_is_active := upd (cti_is_active b) (cat_is_active c), cat_updated_at := env_now e\<rparr>
       in if t_first (\<lambda>x. cat_slug x = cat_slug c2 \<and> cat_id x \<noteq> category_id) (categories d) \<noteq> None
          then (Inl (PyExc ''IntegrityError''), d) else (Inr c2, put_Category c2 d))"

definition delete_category :: "env \<Rightarrow> int \<Rightarrow> db \<Rightarrow> (exc + json) \<times> db" where
  "delete_category e category_id d = (case get_Category d category_id of
     None \<Rightarrow> (Inl (not_found ''Category not found''), d)
   | Some c \<Rightarrow> (Inr (JObj [(''message'', JStr ''disabled'')]),
       put_Category (c\<lparr>cat_is_active := False, cat_updated_at := env_now e\<rparr>) d))"

end
