(* ===== verification/ProductLaws.thy ===== *)
theory ProductLaws
  imports Products SellLaws
begin

text \<open>
  What an edit of the catalogue may do, and that the edits of the administrator, the shops, the pricing and the assortment
  services do no more: slugs stay apart, units in their list, the stock status in step with the stock and every product in
  a category.  \<open>CatalogueEdits\<close> adds the remaining edits and the run of all of them.
\<close>

section \<open>A sound catalogue\<close>

definition category_ids :: "db \<Rightarrow> int set" where
  "category_ids d = cat_id ` set (rows (categories d))"

definition product_ok :: "db \<Rightarrow> Product \<Rightarrow> bool" where
  "product_ok d p \<longleftrightarrow> p_unit_label p \<in> set unit_codes
     \<and> p_stock_status p = to_stock_status (stock_status_for (p_stock_qty p) 5)
     \<and> p_category_id p \<in> category_ids d"

definition catalogue_sound :: "db \<Rightarrow> bool" where
  "catalogue_sound d \<longleftrightarrow> distinct (product_slugs d) \<and> distinct (category_slugs d)
     \<and> list_all (product_ok d) (rows (products d))"

lemma category_exists: "get_Category d c \<noteq> None \<longleftrightarrow> c \<in> category_ids d"
  by (auto simp: t_get_None_iff category_ids_def)

text \<open>What an edit of the catalogue may do to the tables.\<close>

inductive catalogue_change :: "db \<Rightarrow> db \<Rightarrow> bool" where
  same: "products d' = products d \<Longrightarrow> categories d' = categories d \<Longrightarrow> db_wf d' \<Longrightarrow> catalogue_change d d'"
| put_product: "products d' = t_put p_id p' (products d) \<Longrightarrow> categories d' = categories d \<Longrightarrow> db_wf d'
    \<Longrightarrow> get_Product d (p_id p') = Some p \<Longrightarrow> p_slug p' = p_slug p \<Longrightarrow> (product_ok d p \<Longrightarrow> product_ok d p')
    \<Longrightarrow> catalogue_change d d'"
| new_product: "d' = add_Product p d \<Longrightarrow> p_slug p \<notin> set (product_slugs d) \<Longrightarrow> product_ok d p \<Longrightarrow> catalogue_change d d'"
| put_category: "d' = put_Category c' d \<Longrightarrow> get_Category d (cat_id c') = Some c
    \<Longrightarrow> cat_slug c' = cat_slug c \<or> t_first (\<lambda>x. cat_slug x = cat_slug c' \<and> cat_id x \<noteq> cat_id c') (categories d) = None
    \<Longrightarrow> catalogue_change d d'"
| new_category: "d' = add_Category c d \<Longrightarrow> cat_slug c \<notin> set (category_slugs d) \<Longrightarrow> catalogue_change d d'"

lemma product_ok_categories: "category_ids d \<subseteq> category_ids d' \<Longrightarrow> product_ok d p \<Longrightarrow> product_ok d' p"
  by (auto simp: product_ok_def)

lemma product_ok_id [simp]: "product_ok d (p\<lparr>p_id := k\<rparr>) = product_ok d p"
  by (simp add: product_ok_def)

lemma catalogue_change_wf:
  assumes "catalogue_change d d'" "db_wf d" shows "db_wf d'"
  using assms by cases auto

lemma distinct_put_slug:
  assumes "t_wf cat_id t" "t_get cat_id (cat_id c') t = Some c"
    and "cat_slug c' = cat_slug c \<or> t_first (\<lambda>x. cat_slug x = cat_slug c' \<and> cat_id x \<noteq> cat_id c') t = None"
    and "distinct (map cat_slug (rows t))"
  shows "distinct (map cat_slug (rows (t_put cat_id c' t)))"
proof (cases "cat_slug c' = cat_slug c")
  case True
  then show ?thesis using map_put_same [OF assms(1,2) True] assms(4) by simp
next
  case False
  have ne: "cat_slug x \<noteq> cat_slug c'" if "x \<in> set (rows t)" "cat_id x \<noteq> cat_id c'" for x
    using assms(3) False that by (auto simp: t_first_None_iff)
  have "inj_on cat_id (set (rows t))" using t_wf_distinct [OF assms(1)] by (simp add: distinct_map)
  moreover have "inj_on cat_slug (set (rows t))" "distinct (rows t)" using assms(4) by (simp_all add: distinct_map)
  ultimately show ?thesis
    using ne by (simp add: rows_t_put distinct_map comp_def inj_on_def) (metis (no_types, lifting))
qed

lemma catalogue_change_sound:
  assumes "catalogue_change d d'" "db_wf d" "catalogue_sound d"
  shows "catalogue_sound d'"
  using assms(1)
proof cases
  case same
  then have "product_ok d' = product_ok d" by (auto simp: product_ok_def category_ids_def)
  with same assms(3) show ?thesis by (simp add: catalogue_sound_def product_slugs_def category_slugs_def)
next
  case (put_product p' p)
  have c: "category_ids d' = category_ids d" using put_product(2) by (simp add: category_ids_def)
  have "product_slugs d' = product_slugs d"
    using map_put_same [OF db_wf_tables(5) [OF assms(2)] put_product(4,5)] put_product(1) by (simp add: product_slugs_def)
  moreover have "product_ok d' x" if "x \<in> set (rows (products d'))" for x
  proof -
    have "product_ok d p" using assms(3) t_get_in [OF put_product(4)] by (auto simp: catalogue_sound_def list_all_iff)
    with put_product(6) have "product_ok d p'" .
    with that put_product(1) assms(3) have "product_ok d x"
      by (auto simp: catalogue_sound_def list_all_iff rows_t_put split: if_splits)
    with c show ?thesis by (simp add: product_ok_def)
  qed
  ultimately show ?thesis
    using assms(3) put_product(2) by (simp add: catalogue_sound_def category_slugs_def list_all_iff)
next
  case (new_product p)
  then have "category_ids d' = category_ids d" by (simp add: category_ids_def)
  with new_product assms(3) show ?thesis
    by (auto simp: catalogue_sound_def list_all_iff product_slugs_def category_slugs_def rows_t_insert product_ok_def
        simp del: unit_codes_eq)
next
  case (put_category c' c)
  have "category_ids d \<subseteq> category_ids d'" using put_category(1) by (auto simp: category_ids_def rows_t_put)
  moreover have "distinct (category_slugs d')"
    using distinct_put_slug [OF db_wf_tables(4) [OF assms(2)] put_category(2,3)] assms(3) put_category(1)
    by (simp add: catalogue_sound_def category_slugs_def)
  ultimately show ?thesis
    using assms(3) put_category(1) product_ok_categories [of d d']
    by (simp add: catalogue_sound_def product_slugs_def list_all_iff)
next
  case (new_category c)
  then have "category_ids d \<subseteq> category_ids d'" by (auto simp: category_ids_def rows_t_insert)
  with new_category assms(3) product_ok_categories [of d d'] show ?thesis
    by (auto simp: catalogue_sound_def product_slugs_def category_slugs_def rows_t_insert list_all_iff)
qed

section \<open>The operations\<close>

lemma product_slug_free: "product_slug d name \<notin> set (product_slugs d)"
  using fresh_slug_first [of 0 "or_str (Some (slugify name)) ''product''" "product_slugs d"]
  by (auto simp: product_slug_def slug_candidate_def Let_def)

lemma create_product_change:
  assumes "create_product e b d = (r, d')" "db_wf d" shows "catalogue_change d d'"
proof (cases r)
  case (Inl ex)
  with assms show ?thesis
    by (auto simp: create_product_def Let_def split: sum.splits if_splits intro!: catalogue_change.same)
next
  case (Inr p0)
  with assms(1) obtain brand sid where d': "d' = add_Product (product_row e (product_slug d (pri_name b)) brand sid b) d"
    and c: "get_Category d (pri_category_id b) \<noteq> None"
    by (auto simp: create_product_def Let_def split: sum.splits if_splits)
  from c have "pri_category_id b \<in> category_ids d" by (simp only: category_exists)
  then show ?thesis
    using d' by (intro catalogue_change.new_product [OF d'])
      (simp_all add: product_row_def new_Product_def product_slug_free product_ok_def normalize_unit_code del: unit_codes_eq)
qed

lemma update_product_change:
  assumes "update_product e k b d = (r, d')" "db_wf d" shows "catalogue_change d d'"
proof (cases r)
  case (Inl ex)
  with assms show ?thesis
    by (auto simp: update_product_def Let_def split: option.splits sum.splits if_splits intro!: catalogue_change.same)
next
  case (Inr p0)
  with assms(1) obtain p brand sid where p: "get_Product d k = Some p" "d' = put_Product (patched_product e b brand sid p) d"
    and ok: "pp_stock_qty b \<noteq> Some None" "\<not> product_patch_refused d b"
    by (auto simp: update_product_def Let_def split: option.splits sum.splits if_splits)
  have "p_category_id (patched_product e b brand sid p) \<in> category_ids d" if "p_category_id p \<in> category_ids d"
    using ok(2) that category_exists [of _ d] by (auto simp: product_patch_refused_def patched_product_def upd_req_def split: option.splits)
  moreover have "p_unit_label (patched_product e b brand sid p) \<in> set unit_codes" if "p_unit_label p \<in> set unit_codes"
    using that normalize_unit_code by (auto simp: patched_product_def upd_def simp del: unit_codes_eq split: option.splits)
  moreover have "p_stock_status (patched_product e b brand sid p) = to_stock_status (stock_status_for (p_stock_qty (patched_product e b brand sid p)) 5)"
    if "p_stock_status p = to_stock_status (stock_status_for (p_stock_qty p) 5)"
    using that ok(1) by (auto simp: patched_product_def upd_req_def split: option.splits)
  moreover have "p_id (patched_product e b brand sid p) = k" "p_slug (patched_product e b brand sid p) = p_slug p"
    using t_get_key [OF p(1)] by (simp_all add: patched_product_def)
  ultimately show ?thesis
    using p assms(2) by (intro catalogue_change.put_product [where p' = "patched_product e b brand sid p" and p = p])
      (simp_all add: product_ok_def del: unit_codes_eq)
qed

text \<open>Edits of one product that leave its slug, unit and category alone.\<close>

lemma put_product_quiet:
  assumes "get_Product d k = Some p" "db_wf d" "p_id p' = p_id p" "p_slug p' = p_slug p" "p_unit_label p' = p_unit_label p"
    and "p_category_id p' = p_category_id p"
    and "p_stock_qty p' = p_stock_qty p \<and> p_stock_status p' = p_stock_status p
      \<or> p_stock_status p' = to_stock_status (stock_status_for (p_stock_qty p') 5)"
  shows "catalogue_change d (put_Product p' d)"
  using assms t_get_key [OF assms(1)]
  by (intro catalogue_change.put_product [where p' = p' and p = p]) (auto simp: product_ok_def simp del: unit_codes_eq)

lemma soft_delete_change: "db_wf d \<Longrightarrow> catalogue_change d (snd (soft_delete_product e k d))"
  by (cases "get_Product d k") (auto simp: soft_delete_product_def intro: catalogue_change.same intro!: put_product_quiet)

lemma duplicate_change: "duplicate_product e k d = (r, d') \<Longrightarrow> db_wf d \<Longrightarrow> catalogue_change d d'"
  by (auto simp: duplicate_product_def split: option.splits intro: catalogue_change.same create_product_change)

lemma update_stock_change:
  assumes "update_stock e k q reason nt a d = (r, d')" "db_wf d" shows "catalogue_change d d'"
proof (cases "get_Product d k")
  case (Some p)
  then show ?thesis
    using assms t_get_key [OF Some]
    by (intro catalogue_change.put_product [where p = p and p' = "p\<lparr>p_stock_qty := q,
          p_stock_status := to_stock_status (stock_status_for q 5), p_updated_at := env_now e\<rparr>"])
      (auto simp: update_stock_def Let_def product_ok_def simp del: unit_codes_eq)
qed (use assms in \<open>auto simp: update_stock_def intro: catalogue_change.same\<close>)

lemma upsert_category_change: "db_wf d \<Longrightarrow> catalogue_change d (snd (upsert_category e b d))"
proof (cases "t_first (\<lambda>c. cat_slug c = slugify (cti_name b)) (categories d)")
  case None
  then have "slugify (cti_name b) \<notin> set (category_slugs d)" by (auto simp: t_first_None_iff category_slugs_def)
  then show ?thesis
    by (auto simp: upsert_category_def category_named_def None new_Category_def Let_def intro!: catalogue_change.new_category)
next
  case (Some c)
  assume wf: "db_wf d"
  note in_c = t_first_SomeD [OF Some]
  have g: "get_Category d (cat_id c) = Some c" using in_c db_wf_tables(4) [OF wf] by (auto simp: t_get_Some_iff)
  have u: "snd (upsert_category e b d) = put_Category (c\<lparr>cat_description := upd (cti_description b) None,
     cat_image_url := upd (cti_image_url b) None, cat_display_order := upd (cti_display_order b) 0,
     cat_is_active := upd (cti_is_active b) True, cat_name := cti_name b, cat_updated_at := env_now e\<rparr>) d"
    by (simp add: upsert_category_def category_named_def Some Let_def)
  show ?thesis unfolding u
    by (rule catalogue_change.put_category [OF refl, where c = c]) (simp_all add: g)
qed

lemma put_category_change:
  "get_Category d (cat_id c') = Some c
    \<Longrightarrow> cat_slug c' = cat_slug c \<or> t_first (\<lambda>x. cat_slug x = cat_slug c' \<and> cat_id x \<noteq> cat_id c') (categories d) = None
    \<Longrightarrow> catalogue_change d (put_Category c' d)"
  by (rule catalogue_change.put_category [OF refl])

lemma update_category_change:
  assumes "update_category e k b d = (r, d')" "db_wf d" shows "catalogue_change d d'"
proof (cases "get_Category d k")
  case (Some c)
  note key = t_get_key [OF Some]
  show ?thesis
  proof (cases r)
    case (Inl ex)
    with assms Some show ?thesis by (auto simp: update_category_def Let_def split: if_splits intro!: catalogue_change.same)
  next
    case (Inr c2)
    with assms(1) Some key have "d' = put_Category c2 d" "cat_id c2 = k"
      "t_first (\<lambda>x. cat_slug x = cat_slug c2 \<and> cat_id x \<noteq> cat_id c2) (categories d) = None"
      by (auto simp: update_category_def Let_def split: if_splits)
    with Some show ?thesis using put_category_change [where c' = c2 and c = c and d = d] by simp
  qed
qed (use assms in \<open>auto simp: update_category_def intro: catalogue_change.same\<close>)

lemma delete_category_change:
  assumes "delete_category e k d = (r, d')" "db_wf d" shows "catalogue_change d d'"
proof (cases "get_Category d k")
  case (Some c)
  have "catalogue_change d (put_Category (c\<lparr>cat_is_active := False, cat_updated_at := env_now e\<rparr>) d)"
    using Some t_get_key [OF Some] by (intro put_category_change [where c = c]) simp_all
  with assms(1) Some show ?thesis by (auto simp: delete_category_def)
qed (use assms in \<open>auto simp: delete_category_def intro: catalogue_change.same\<close>)

lemma update_prices_change:
  assumes "update_prices e k data d = (r, d')" "db_wf d" shows "catalogue_change d d'"
proof (cases r)
  case (Inl ex)
  with assms show ?thesis
    by (auto simp: update_prices_def Let_def split: option.splits sum.splits if_splits intro!: catalogue_change.same)
next
  case (Inr p2)
  with assms(1) obtain p p1 where p: "get_Product d k = Some p" "set_prices data p = Inr p1"
    "d' = put_Product (p1\<lparr>p_updated_at := env_now e\<rparr>) d"
    by (auto simp: update_prices_def Let_def split: option.splits sum.splits if_splits)
  from set_prices_ok [OF p(2)] have "no_prices p1 = no_prices p" by simp
  then have eq: "f (no_prices p1) = f (no_prices p)" for f :: "Product \<Rightarrow> 'a" by simp
  from eq [of p_id] eq [of p_slug] eq [of p_unit_label] eq [of p_category_id] eq [of p_stock_qty] eq [of p_stock_status]
  show ?thesis unfolding p(3) by (intro put_product_quiet [OF p(1) assms(2)]) (simp_all add: no_prices_def)
qed

lemma set_flags_change:
  assumes "set_flags e k b d = (r, d')" "db_wf d" shows "catalogue_change d d'"
proof (cases r)
  case (Inl ex)
  with assms show ?thesis
    by (auto simp: set_flags_def Let_def split: option.splits if_splits intro!: catalogue_change.same)
next
  case (Inr p2)
  with assms(1) obtain p where p: "get_Product d k = Some p" "d' = put_Product p2 d"
    and c: "case fl_category_id b of None \<Rightarrow> True | Some c \<Rightarrow> get_Category d c \<noteq> None"
    and p2: "p_id p2 = p_id p" "p_slug p2 = p_slug p" "p_unit_label p2 = p_unit_label p" "p_stock_qty p2 = p_stock_qty p"
      "p_stock_status p2 = p_stock_status p" "p_category_id p2 = set_flag (fl_category_id b) (p_category_id p)"
    by (auto simp: set_flags_def Let_def split: option.splits if_splits)
  have "product_ok d p2" if "product_ok d p"
    using that c p2 category_exists [of _ d]
    by (auto simp: product_ok_def set_flag_def simp del: unit_codes_eq split: option.splits)
  then show ?thesis
    using p p2 t_get_key [OF p(1)] assms(2) by (intro catalogue_change.put_product [where p' = p2 and p = p]) simp_all
qed

text \<open>The shops' own edits.\<close>

lemma check_category_exists: "check_category user c d = Inr x \<Longrightarrow> c \<in> category_ids d"
  using category_exists [of c d] by (auto simp: check_category_def split: if_splits option.splits)

lemma create_my_product_change:
  assumes "create_my_product e user b d = (Inr r, d')" "db_wf d" shows "catalogue_change d d'"
proof -
  from assms(1) obtain profile selling name d1 x where sel: "selling_shop e user d = (Inr profile, d1)"
    and c: "check_category user (spi_category_id b) d1 = Inr x" and d': "d' = add_Product (shop_product_row e user profile name selling b d1) d1"
    by (auto simp: create_my_product_def Let_def split: prod.splits sum.splits if_splits)
  from selling_may_sell [OF sel] have "d1 = d" by simp
  moreover have "p_slug (shop_product_row e user profile name selling b d) \<notin> set (product_slugs d)"
    using product_slug_free [of d name] by (simp add: shop_product_row_def product_slug_def new_Product_def Let_def)
  moreover have "product_ok d (shop_product_row e user profile name selling b d)"
    using check_category_exists [OF c] \<open>d1 = d\<close>
    by (simp add: shop_product_row_def new_Product_def product_ok_def normalize_unit_code Let_def del: unit_codes_eq)
  ultimately show ?thesis using d' by (auto intro: catalogue_change.new_product)
qed

lemma patch_row_ok:
  assumes "product_ok d p" "check_patch user b d = Inr x" shows "product_ok d (patch_product_row e b p)"
proof -
  have "\<And>c. spp_category_id b = Some c \<Longrightarrow> c \<in> category_ids d"
    using assms(2) check_category_exists [of user _ d] by (auto simp: check_patch_def split: option.splits sum.splits if_splits)
  with assms(1) show ?thesis
    using normalize_unit_code
    by (auto simp: product_ok_def patch_product_row_def upd_def simp del: unit_codes_eq split: option.splits)
qed

lemma sell_patch_change:
  assumes "sell_patch_product e user k b d = (Inr r, d')" "db_wf d" shows "catalogue_change d d'"
proof -
  from assms(1) obtain profile p x d1 where sel: "selling_shop e user d = (Inr profile, d1)" and own: "own_product d1 user k = Some p"
    and c: "check_patch user b d1 = Inr x" and d': "d' = put_Product (patch_product_row e b p) d1"
    by (auto simp: sell_patch_product_def split: prod.splits sum.splits option.splits)
  from selling_may_sell [OF sel] have "d1 = d" by simp
  with own have p: "get_Product d k = Some p" by (auto simp: own_product_def split: option.splits if_splits)
  show ?thesis
    using p t_get_key [OF p] patch_row_ok [of d p user b x e] c d' assms(2) \<open>d1 = d\<close>
    by (intro catalogue_change.put_product [where p' = "patch_product_row e b p" and p = p]) (auto simp: patch_product_row_def)
qed

section \<open>Movements of the stock\<close>

text \<open>A stock set by hand leaves a movement of the difference; the same stock set through the edit of the product
  leaves none.\<close>

lemma stock_movement_recorded:
  assumes "get_Product d k = Some p" "update_stock e k q reason nt a d = (r, d')"
  shows "\<exists>m. rows (stock_movements d') = rows (stock_movements d) @ [m] \<and> sm_product_id m = k \<and> sm_change_qty m = q - p_stock_qty p"
  using assms by (auto simp: update_stock_def Let_def rows_t_insert new_StockMovement_def)

lemma edited_stock_unrecorded:
  assumes "update_product e k b d = (r, d')" shows "stock_movements d' = stock_movements d"
  using assms by (auto simp: update_product_def Let_def split: option.splits sum.splits if_splits)

section \<open>Worked example\<close>

definition cakes :: Category where
  "cakes = (new_Category 0 ''Cakes'' ''cakes'')\<lparr>cat_id := 1\<rparr>"

definition plum_cake :: Product where
  "plum_cake = (new_Product 0 1 ''Plum cake'' ''plum-cake'')\<lparr>p_id := 1, p_stock_qty := 8\<rparr>"

definition shelf_db :: db where
  "shelf_db = empty_db\<lparr>categories := \<lparr>rows = [cakes], next_id = 2\<rparr>, products := \<lparr>rows = [plum_cake], next_id = 2\<rparr>\<rparr>"

lemma shelf_db_facts: "db_wf shelf_db" "get_Product shelf_db 1 = Some plum_cake" "catalogue_sound shelf_db"
proof -
  show "db_wf shelf_db"
    by (simp add: shelf_db_def db_wf_empty t_wf_def cakes_def plum_cake_def new_Product_def new_Category_def)
  show "get_Product shelf_db 1 = Some plum_cake" by (simp add: shelf_db_def t_get_def plum_cake_def new_Product_def)
  show "catalogue_sound shelf_db"
    by (simp add: catalogue_sound_def product_slugs_def category_slugs_def shelf_db_def product_ok_def category_ids_def
        cakes_def plum_cake_def new_Product_def new_Category_def to_stock_status_cases)
qed

end
