(* ===== verification/Chats.thy ===== *)
theory Chats
  imports Units Notify
begin

text \<open>
  Conversations with the bakery: the customers' side (\<open>support_service/app/services/chats.py\<close>), the shops' side
  (the chats of \<open>store_ops_service/app/services/retailer_bff.py\<close>) and the administrator's (those of \<open>misc.py\<close>).
  The three write the same two tables, kept here beside the database as \<open>ch_convs\<close> and \<open>ch_msgs\<close>; \<open>ch_calls\<close> is
  the table of call records.
\<close>

section \<open>Tables\<close>

datatype ChatCategory = CH_GENERAL | CH_ORDER | CH_CUSTOM_CAKE | CH_DELIVERY | CH_RETURN | CH_AI | CH_RETAILER | CH_RETAILER_AI

fun ChatCategory_value :: "ChatCategory \<Rightarrow> string" where
  "ChatCategory_value CH_GENERAL = ''general''"
| "ChatCategory_value CH_ORDER = ''order''"
| "ChatCategory_value CH_CUSTOM_CAKE = ''custom_cake''"
| "ChatCategory_value CH_DELIVERY = ''delivery''"
| "ChatCategory_value CH_RETURN = ''return''"
| "ChatCategory_value CH_AI = ''ai''"
| "ChatCategory_value CH_RETAILER = ''retailer''"
| "ChatCategory_value CH_RETAILER_AI = ''retailer_ai''"

definition ChatCategory_members :: "ChatCategory list" where
  "ChatCategory_members = [CH_GENERAL, CH_ORDER, CH_CUSTOM_CAKE, CH_DELIVERY, CH_RETURN, CH_AI, CH_RETAILER, CH_RETAILER_AI]"

interpretation ChatCategory_enum: string_enum ChatCategory_value ChatCategory_members
proof
  show "ChatCategory_value x = ChatCategory_value y \<longleftrightarrow> x = y" for x y by (cases x; cases y) simp_all
  show "x \<in> set ChatCategory_members" for x by (cases x) (simp_all add: ChatCategory_members_def)
qed

datatype MessageType = MT_TEXT | MT_IMAGE | MT_VIDEO | MT_VOICE | MT_PRODUCT | MT_LOCATION | MT_INVOICE
  | MT_PAYMENT_LINK | MT_ORDER_CARD | MT_RETURN_CARD | MT_SYSTEM

fun MessageType_value :: "MessageType \<Rightarrow> string" where
  "MessageType_value MT_TEXT = ''text''"
| "MessageType_value MT_IMAGE = ''image''"
| "MessageType_value MT_VIDEO = ''video''"
| "MessageType_value MT_VOICE = ''voice''"
| "MessageType_value MT_PRODUCT = ''product''"
| "MessageType_value MT_LOCATION = ''location''"
| "MessageType_value MT_INVOICE = ''invoice''"
| "MessageType_value MT_PAYMENT_LINK = ''payment_link''"
| "MessageType_value MT_ORDER_CARD = ''order_card''"
| "MessageType_value MT_RETURN_CARD = ''return_card''"
| "MessageType_value MT_SYSTEM = ''system''"

definition MessageType_members :: "MessageType list" where
  "MessageType_members = [MT_TEXT, MT_IMAGE, MT_VIDEO, MT_VOICE, MT_PRODUCT, MT_LOCATION, MT_INVOICE, MT_PAYMENT_LINK,
     MT_ORDER_CARD, MT_RETURN_CARD, MT_SYSTEM]"

interpretation MessageType_enum: string_enum MessageType_value MessageType_members
proof
  show "MessageType_value x = MessageType_value y \<longleftrightarrow> x = y" for x y by (cases x; cases y) simp_all
  show "x \<in> set MessageType_members" for x by (cases x) (simp_all add: MessageType_members_def)
qed

record Conversation =
  cv_id :: int
  cv_category :: ChatCategory
  cv_customer_id :: int
  cv_admin_id :: "int option"
  cv_order_id :: "int option"
  cv_return_id :: "int option"
  cv_custom_cake_id :: "int option"
  cv_is_ai :: bool
  cv_ai_handed_over :: bool
  cv_last_message :: "string option"
  cv_unread_customer :: int
  cv_unread_admin :: int
  cv_created_at :: datetime
  cv_updated_at :: datetime

definition new_Conversation :: "datetime \<Rightarrow> ChatCategory \<Rightarrow> int \<Rightarrow> Conversation" where
  "new_Conversation now category customer_id = \<lparr>cv_id = 0, cv_category = category, cv_customer_id = customer_id,
     cv_admin_id = None, cv_order_id = None, cv_return_id = None, cv_custom_cake_id = None, cv_is_ai = False,
     cv_ai_handed_over = False, cv_last_message = None, cv_unread_customer = 0, cv_unread_admin = 0,
     cv_created_at = now, cv_updated_at = now\<rparr>"

record ChatMessage =
  cm_id :: int
  cm_conversation_id :: int
  cm_sender_id :: "int option"
  cm_sender_role :: string
  cm_message_type :: MessageType
  cm_content :: "string option"
  cm_media_url :: "string option"
  cm_metadata_json :: "json option"
  cm_is_delivered :: bool
  cm_is_read :: bool
  cm_created_at :: datetime

definition new_ChatMessage :: "datetime \<Rightarrow> int \<Rightarrow> string \<Rightarrow> ChatMessage" where
  "new_ChatMessage now conversation_id sender_role = \<lparr>cm_id = 0, cm_conversation_id = conversation_id,
     cm_sender_id = None, cm_sender_role = sender_role, cm_message_type = MT_TEXT, cm_content = None,
     cm_media_url = None, cm_metadata_json = None, cm_is_delivered = False, cm_is_read = False, cm_created_at = now\<rparr>"

datatype CallType = CT_PHONE | CT_INTERNET_AUDIO | CT_VIDEO

fun CallType_value :: "CallType \<Rightarrow> string" where
  "CallType_value CT_PHONE = ''phone''"
| "CallType_value CT_INTERNET_AUDIO = ''internet_audio''"
| "CallType_value CT_VIDEO = ''video''"

definition CallType_members :: "CallType list" where
  "CallType_members = [CT_PHONE, CT_INTERNET_AUDIO, CT_VIDEO]"

interpretation CallType_enum: string_enum CallType_value CallType_members
proof
  show "CallType_value x = CallType_value y \<longleftrightarrow> x = y" for x y by (cases x; cases y) simp_all
  show "x \<in> set CallType_members" for x by (cases x) (simp_all add: CallType_members_def)
qed

datatype CallStatus = CS_RINGING | CS_ONGOING | CS_MISSED | CS_COMPLETED | CS_REJECTED | CS_FAILED

fun CallStatus_value :: "CallStatus \<Rightarrow> string" where
  "CallStatus_value CS_RINGING = ''ringing''"
| "CallStatus_value CS_ONGOING = ''ongoing''"
| "CallStatus_value CS_MISSED = ''missed''"
| "CallStatus_value CS_COMPLETED = ''completed''"
| "CallStatus_value CS_REJECTED = ''rejected''"
| "CallStatus_value CS_FAILED = ''failed''"

definition CallStatus_members :: "CallStatus list" where
  "CallStatus_members = [CS_RINGING, CS_ONGOING, CS_MISSED, CS_COMPLETED, CS_REJECTED, CS_FAILED]"

interpretation CallStatus_enum: string_enum CallStatus_value CallStatus_members
proof
  show "CallStatus_value x = CallStatus_value y \<longleftrightarrow> x = y" for x y by (cases x; cases y) simp_all
  show "x \<in> set CallStatus_members" for x by (cases x) (simp_all add: CallStatus_members_def)
qed

text \<open>A transcript is a list of entries with role, text and time.\<close>

record CallRecord =
  cr_id :: int
  cr_caller_id :: "int option"
  cr_callee_id :: "int option"
  cr_order_id :: "int option"
  cr_call_type :: CallType
  cr_status :: CallStatus
  cr_direction :: string
  cr_provider :: "string option"
  cr_provider_call_sid :: "string option"
  cr_to_phone :: "string option"
  cr_purpose :: "string option"
  cr_transcript :: "(string \<times> string \<times> datetime) list option"
  cr_masked_number :: "string option"
  cr_duration_seconds :: int
  cr_notes :: "string option"
  cr_started_at :: "datetime option"
  cr_ended_at :: "datetime option"
  cr_created_at :: datetime

definition new_CallRecord :: "datetime \<Rightarrow> int option \<Rightarrow> int option \<Rightarrow> CallRecord" where
  "new_CallRecord now caller callee = \<lparr>cr_id = 0, cr_caller_id = caller, cr_callee_id = callee, cr_order_id = None,
     cr_call_type = CT_PHONE, cr_status = CS_RINGING, cr_direction = ''inbound'', cr_provider = None,
     cr_provider_call_sid = None, cr_to_phone = None, cr_purpose = None, cr_transcript = None, cr_masked_number = None,
     cr_duration_seconds = 0, cr_notes = None, cr_started_at = None, cr_ended_at = None, cr_created_at = now\<rparr>"

interpretation Conversation_row: keyed_row cv_id "\<lambda>i r. r\<lparr>cv_id := i\<rparr>" by unfold_locales simp
interpretation ChatMessage_row: keyed_row cm_id "\<lambda>i r. r\<lparr>cm_id := i\<rparr>" by unfold_locales simp
interpretation CallRecord_row: keyed_row cr_id "\<lambda>i r. r\<lparr>cr_id := i\<rparr>" by unfold_locales simp

record chat_state =
  ch_db :: db
  ch_convs :: "Conversation table"
  ch_msgs :: "ChatMessage table"
  ch_calls :: "CallRecord table"

abbreviation get_conv :: "chat_state \<Rightarrow> int \<Rightarrow> Conversation option" where
  "get_conv s k \<equiv> t_get cv_id k (ch_convs s)"

abbreviation put_conv :: "Conversation \<Rightarrow> chat_state \<Rightarrow> chat_state" where
  "put_conv c s \<equiv> s\<lparr>ch_convs := t_put cv_id c (ch_convs s)\<rparr>"

abbreviation add_conv :: "Conversation \<Rightarrow> chat_state \<Rightarrow> chat_state" where
  "add_conv c s \<equiv> s\<lparr>ch_convs := t_insert (\<lambda>i r. r\<lparr>cv_id := i\<rparr>) c (ch_convs s)\<rparr>"

abbreviation key_conv :: "Conversation \<Rightarrow> chat_state \<Rightarrow> Conversation" where
  "key_conv c s \<equiv> c\<lparr>cv_id := next_id (ch_convs s)\<rparr>"

abbreviation add_msg :: "ChatMessage \<Rightarrow> chat_state \<Rightarrow> chat_state" where
  "add_msg m s \<equiv> s\<lparr>ch_msgs := t_insert (\<lambda>i r. r\<lparr>cm_id := i\<rparr>) m (ch_msgs s)\<rparr>"

abbreviation key_msg :: "ChatMessage \<Rightarrow> chat_state \<Rightarrow> ChatMessage" where
  "key_msg m s \<equiv> m\<lparr>cm_id := next_id (ch_msgs s)\<rparr>"

abbreviation on_db :: "(db \<Rightarrow> db) \<Rightarrow> chat_state \<Rightarrow> chat_state" where
  "on_db f s \<equiv> s\<lparr>ch_db := f (ch_db s)\<rparr>"

section \<open>Shared parts\<close>

text \<open>\<open>s[:n]\<close> counts characters.\<close>

fun py_take :: "nat \<Rightarrow> string \<Rightarrow> string" where
  "py_take n [] = []"
| "py_take n (c # cs) =
     (if 128 \<le> char_code c \<and> char_code c < 192 then c # py_take n cs
      else if n = 0 then [] else c # py_take (n - 1) cs)"

definition CHAT_MESSAGE :: string where "CHAT_MESSAGE = ''sc:chat_message''"
definition USER_PRESENCE :: string where "USER_PRESENCE = ''sc:user_presence''"

definition emit_chat_message :: "(string \<times> json) list \<Rightarrow> int \<Rightarrow> int option \<Rightarrow> string \<Rightarrow> db \<Rightarrow> db" where
  "emit_chat_message payload conversation_id peer_user_id sender_role d =
     redis_publish CHAT_MESSAGE (jmerge (JObj payload) [(''conversation_id'', JInt conversation_id),
       (''peer_user_id'', jopt_int peer_user_id), (''sender_role'', JStr sender_role)]) d"

definition emit_presence :: "int \<Rightarrow> bool \<Rightarrow> db \<Rightarrow> db" where
  "emit_presence user_id online d =
     redis_publish USER_PRESENCE (JObj [(''user_id'', JInt user_id), (''online'', JBool online)]) d"

definition chat_first_admin :: "db \<Rightarrow> User option" where
  "chat_first_admin d = t_first (\<lambda>u. u_role u = UR_ADMIN) (users d)"

definition parse_message_type :: "string \<Rightarrow> MessageType" where
  "parse_message_type s = (case enum_of MessageType_value MessageType_members (str_lower (strip (if s = [] then ''text'' else s))) of
     Some t \<Rightarrow> t | None \<Rightarrow> MT_TEXT)"

definition messages_of :: "chat_state \<Rightarrow> int \<Rightarrow> ChatMessage list" where
  "messages_of s k = sort_key cm_created_at (t_all (\<lambda>m. cm_conversation_id m = k) (ch_msgs s))"

text \<open>Messages of a conversation whose sender has one of the roles become read and delivered.\<close>

definition mark_seen :: "int \<Rightarrow> (string \<Rightarrow> bool) \<Rightarrow> chat_state \<Rightarrow> chat_state" where
  "mark_seen k from s = s\<lparr>ch_msgs := (ch_msgs s)\<lparr>rows := map (\<lambda>m.
     if cm_conversation_id m = k \<and> from (cm_sender_role m) \<and> \<not> cm_is_read m
     then m\<lparr>cm_is_read := True, cm_is_delivered := True\<rparr> else m) (rows (ch_msgs s))\<rparr>\<rparr>"

text \<open>The two services' dictionaries differ in the participant's role only.\<close>

definition conversation_dict :: "db \<Rightarrow> string \<Rightarrow> Conversation \<Rightarrow> json" where
  "conversation_dict d participant_role c =
     (let peer = get_User d (cv_customer_id c);
          admin = (if truthy_id (cv_admin_id c) then get_User d (the (cv_admin_id c)) else chat_first_admin d)
      in JObj [(''id'', JInt (cv_id c)), (''category'', JStr (ChatCategory_value (cv_category c))),
        (''customer_id'', JInt (cv_customer_id c)), (''participant_id'', JInt (cv_customer_id c)),
        (''participant_role'', JStr participant_role),
        (''participant_name'', JStr (case peer of None \<Rightarrow> ''User'' | Some u \<Rightarrow> or_str (u_name u) (u_phone u))),
        (''participant_phone'', jopt_str (map_option u_phone peer)),
        (''participant_online'', JBool (case peer of None \<Rightarrow> False | Some u \<Rightarrow> u_is_online u)),
        (''participant_last_seen_at'', jopt_time (Option.bind peer u_last_seen_at)),
        (''admin_id'', jopt_int (if truthy_id (cv_admin_id c) then cv_admin_id c else map_option u_id admin)),
        (''admin_online'', JBool (case admin of None \<Rightarrow> False | Some u \<Rightarrow> u_is_online u)),
        (''admin_name'', JStr (or_str (Option.bind admin u_name) ''SweetCrust'')),
        (''is_ai'', JBool (cv_is_ai c)), (''ai_handed_over'', JBool (cv_ai_handed_over c)),
        (''last_message'', jopt_str (cv_last_message c)), (''unread_customer'', JInt (cv_unread_customer c)),
        (''unread_admin'', JInt (cv_unread_admin c)), (''updated_at'', JStr (isoformat (cv_updated_at c))),
        (''created_at'', JStr (isoformat (cv_created_at c)))])"

text \<open>The shops' service tells the two kinds of participant apart by the category.\<close>

definition participant_role :: "Conversation \<Rightarrow> string" where
  "participant_role c = (if starts_with ''retailer'' (ChatCategory_value (cv_category c)) then ''retailer'' else ''customer'')"

definition own_conversations :: "chat_state \<Rightarrow> int \<Rightarrow> Conversation list" where
  "own_conversations s uid = sort_key (\<lambda>c. - cv_updated_at c) (t_all (\<lambda>c. cv_customer_id c = uid) (ch_convs s))"

section \<open>The customers' side\<close>

definition ADMIN_SIDE :: "string list" where "ADMIN_SIDE = [''admin'', ''ai'', ''system'']"

definition photo :: string where "photo = map char_of [240, 159, 147, 183 :: nat] @ '' Photo''"
definition em_dash :: string where "em_dash = map char_of [226, 128, 148 :: nat]"

text \<open>The message as it is stored; it is delivered at once to a recipient who is online.\<close>

definition chat_row :: "env \<Rightarrow> int \<Rightarrow> int option \<Rightarrow> string \<Rightarrow> string option \<Rightarrow> string \<Rightarrow> string option \<Rightarrow> json option \<Rightarrow> bool \<Rightarrow> ChatMessage" where
  "chat_row e k sender_id role content message_type media meta delivered =
     (new_ChatMessage (env_now e) k role)\<lparr>cm_sender_id := sender_id, cm_message_type := parse_message_type message_type,
        cm_content := content, cm_media_url := media, cm_metadata_json := meta, cm_is_delivered := delivered\<rparr>"

definition last_text :: "string option \<Rightarrow> string \<Rightarrow> string" where
  "last_text content message_type = py_take 500 (or_str content message_type)"

definition counted :: "string \<Rightarrow> Conversation \<Rightarrow> Conversation" where
  "counted role c =
     (if role = ''customer'' then c\<lparr>cv_unread_admin := cv_unread_admin c + 1\<rparr>
      else if role \<in> set ADMIN_SIDE then c\<lparr>cv_unread_customer := cv_unread_customer c + 1\<rparr> else c)"

text \<open>Who is told: the administrator of a customer's message, the customer of the bakery's.\<close>

definition chat_notice :: "env \<Rightarrow> string \<Rightarrow> bool \<Rightarrow> string \<Rightarrow> Conversation \<Rightarrow> db \<Rightarrow> db" where
  "chat_notice e role online preview c d =
     (let info = Some (JObj [(''conversation_id'', JInt (cv_id c)), (''offline'', JBool (\<not> online))])
      in if role = ''customer'' then (case chat_first_admin d of None \<Rightarrow> d
           | Some a \<Rightarrow> notify e (u_id a) ''chat''
               (''New customer message'' @ (if online then [] else '' (offline '' @ em_dash @ '' will see when online)'')) preview info d)
         else if role \<in> set ADMIN_SIDE then (case get_User d (cv_customer_id c) of None \<Rightarrow> d
           | Some u \<Rightarrow> notify e (u_id u) ''chat''
               (''SweetCrust replied'' @ (if online then [] else '' (you'' @ [CHR 0x27] @ ''ll see this when back online)'')) preview info d)
         else d)"

definition send_message :: "env \<Rightarrow> int \<Rightarrow> int option \<Rightarrow> string \<Rightarrow> string option \<Rightarrow> string \<Rightarrow> string option \<Rightarrow> json option
    \<Rightarrow> chat_state \<Rightarrow> (exc + ChatMessage) \<times> chat_state" where
  "send_message e k sender_id role content message_type media meta s = (case get_conv s k of
     None \<Rightarrow> (Inl (not_found ''Conversation not found''), s)
   | Some c \<Rightarrow>
     if role = ''customer'' \<and> \<not> truthy_str content \<and> message_type = ''text'' \<and> \<not> truthy_str media
     then (Inl (bad_request ''Message content required''), s)
     else let online = (case (if role = ''customer'' then chat_first_admin (ch_db s) else get_User (ch_db s) (cv_customer_id c)) of
                          None \<Rightarrow> False | Some u \<Rightarrow> u_is_online u);
              msg = key_msg (chat_row e k sender_id role content message_type media meta online) s;
              c2 = counted role (c\<lparr>cv_last_message := Some (last_text content message_type), cv_updated_at := env_now e\<rparr>);
              preview = or_str content (if message_type = ''image'' then photo else ''New message'')
          in (Inr msg,
              on_db (\<lambda>d. emit_chat_message [(''id'', JInt (cm_id msg)), (''content'', jopt_str content),
                    (''sender_id'', jopt_int sender_id), (''sender_role'', JStr role),
                    (''message_type'', JStr (MessageType_value (cm_message_type msg))),
                    (''created_at'', JStr (isoformat (cm_created_at msg)))] k (Some (cv_customer_id c)) role
                  (chat_notice e role online preview c d))
                (add_msg msg (put_conv c2 s))))"

record ConversationCreateIn =
  cci_category :: string
  cci_order_id :: "int option"
  cci_return_id :: "int option"
  cci_custom_cake_id :: "int option"
  cci_is_ai :: bool
  cci_initial_message :: "string option"

definition parse_category :: "string \<Rightarrow> ChatCategory" where
  "parse_category s = (case enum_of ChatCategory_value ChatCategory_members (str_lower (strip (if s = [] then ''general'' else s))) of
     Some c \<Rightarrow> c | None \<Rightarrow> CH_GENERAL)"

text \<open>The conversation refers to an order by a foreign key.  A first message is sent after the conversation is
  committed; the conversation is returned as the session then sees it.\<close>

definition create_conversation :: "env \<Rightarrow> int \<Rightarrow> ConversationCreateIn \<Rightarrow> chat_state \<Rightarrow> (exc + Conversation) \<times> chat_state" where
  "create_conversation e customer_id b s =
     (if (case cci_order_id b of None \<Rightarrow> False | Some k \<Rightarrow> get_Order (ch_db s) k = None)
      then (Inl (PyExc ''IntegrityError''), s)
      else let c = (new_Conversation (env_now e) (parse_category (cci_category b)) customer_id)
                     \<lparr>cv_order_id := cci_order_id b, cv_return_id := cci_return_id b,
                      cv_custom_cake_id := cci_custom_cake_id b, cv_is_ai := cci_is_ai b\<rparr>;
               k = next_id (ch_convs s);
               s1 = add_conv c s
           in if truthy_str (cci_initial_message b)
              then (case send_message e k (Some customer_id) ''customer'' (cci_initial_message b) ''text'' None None s1 of
                 (Inl ex, s2) \<Rightarrow> (Inl ex, s2)
               | (Inr _, s2) \<Rightarrow> (Inr (case get_conv s2 k of Some c2 \<Rightarrow> c2 | None \<Rightarrow> key_conv c s), s2))
              else (Inr (key_conv c s), s1))"

definition list_conversations :: "chat_state \<Rightarrow> User \<Rightarrow> json list" where
  "list_conversations s user = map (conversation_dict (ch_db s) ''customer'') (own_conversations s (u_id user))"

text \<open>Opening a conversation: its messages from the bakery are read and delivered.\<close>

definition deliver_seen :: "int \<Rightarrow> chat_state \<Rightarrow> chat_state" where
  "deliver_seen k s = s\<lparr>ch_msgs := (ch_msgs s)\<lparr>rows := map (\<lambda>m.
     if cm_conversation_id m = k \<and> cm_sender_role m \<in> set ADMIN_SIDE
     then m\<lparr>cm_is_read := True, cm_is_delivered := True\<rparr> else m) (rows (ch_msgs s))\<rparr>\<rparr>"

definition list_messages :: "int \<Rightarrow> User \<Rightarrow> chat_state \<Rightarrow> (exc + ChatMessage list) \<times> chat_state" where
  "list_messages k user s = (case get_conv s k of
     None \<Rightarrow> (Inl (not_found ''Conversation not found''), s)
   | Some c \<Rightarrow>
     if cv_customer_id c \<noteq> u_id user then (Inl (forbidden ''Forbidden''), s)
     else let s1 = deliver_seen k (put_conv (c\<lparr>cv_unread_customer := 0\<rparr>) s) in (Inr (messages_of s1 k), s1))"

section \<open>The shops' side\<close>

definition presence :: "env \<Rightarrow> User \<Rightarrow> bool \<Rightarrow> chat_state \<Rightarrow> json \<times> chat_state" where
  "presence e user online s = (JObj [(''is_online'', JBool online)],
     on_db (\<lambda>d. emit_presence (u_id user) online
       (put_User (user\<lparr>u_is_online := online, u_last_seen_at := Some (env_now e)\<rparr>) d)) s)"

text \<open>A shop's conversation with the bakery is reused, an AI conversation only until a person has taken it over.\<close>

definition get_or_create_retailer_support :: "env \<Rightarrow> int \<Rightarrow> bool \<Rightarrow> chat_state \<Rightarrow> Conversation \<times> chat_state" where
  "get_or_create_retailer_support e retailer_id ai s =
     (let cat = (if ai then CH_RETAILER_AI else CH_RETAILER);
          fresh = (new_Conversation (env_now e) cat retailer_id)\<lparr>cv_is_ai := ai\<rparr>
      in case filter (\<lambda>c. cv_category c = cat) (own_conversations s retailer_id) of
           [] \<Rightarrow> (key_conv fresh s, add_conv fresh s)
         | c # _ \<Rightarrow> if \<not> ai \<or> cv_is_ai c \<or> \<not> cv_ai_handed_over c then (c, s) else (key_conv fresh s, add_conv fresh s))"

definition list_chats :: "chat_state \<Rightarrow> User \<Rightarrow> json list" where
  "list_chats s user = map (\<lambda>c. conversation_dict (ch_db s) (participant_role c) c) (own_conversations s (u_id user))"

definition open_support :: "env \<Rightarrow> User \<Rightarrow> bool \<Rightarrow> chat_state \<Rightarrow> json \<times> chat_state" where
  "open_support e user ai s = (case get_or_create_retailer_support e (u_id user) ai s of
     (c, s1) \<Rightarrow> (conversation_dict (ch_db s1) (participant_role c) c, s1))"

definition unseen :: "chat_state \<Rightarrow> int \<Rightarrow> (string \<Rightarrow> bool) \<Rightarrow> bool" where
  "unseen s k from \<longleftrightarrow> t_all (\<lambda>m. cm_conversation_id m = k \<and> from (cm_sender_role m) \<and> \<not> cm_is_read m) (ch_msgs s) \<noteq> []"

definition shop_messages :: "int \<Rightarrow> User \<Rightarrow> chat_state \<Rightarrow> (exc + ChatMessage list) \<times> chat_state" where
  "shop_messages k user s = (case get_conv s k of
     None \<Rightarrow> (Inl (not_found ''Conversation not found''), s)
   | Some c \<Rightarrow>
     if cv_customer_id c \<noteq> u_id user then (Inl (forbidden ''Forbidden''), s)
     else let s1 = mark_seen k (\<lambda>r. r \<noteq> ''retailer'')
                     (if 0 < cv_unread_customer c then put_conv (c\<lparr>cv_unread_customer := 0\<rparr>) s else s);
              s2 = (if 0 < cv_unread_customer c \<or> unseen s k (\<lambda>r. r \<noteq> ''retailer'')
                    then on_db (emit_user_event (u_id user) ''chat_unread''
                      [(''conversation_id'', JInt k), (''unread_customer'', JInt 0)]) s1 else s1)
          in (Inr (messages_of s2 k), s2))"

text \<open>The sum of the administrator's counters over all conversations.\<close>

definition admin_unread_total :: "chat_state \<Rightarrow> int" where
  "admin_unread_total s = sum_list (map cv_unread_admin (rows (ch_convs s)))"

definition shop_send :: "env \<Rightarrow> int \<Rightarrow> User \<Rightarrow> string option \<Rightarrow> string \<Rightarrow> string option \<Rightarrow> json option \<Rightarrow> chat_state
    \<Rightarrow> (exc + ChatMessage) \<times> chat_state" where
  "shop_send e k user content message_type media meta s = (case get_conv s k of
     None \<Rightarrow> (Inl (not_found ''Conversation not found''), s)
   | Some c \<Rightarrow>
     if cv_customer_id c \<noteq> u_id user then (Inl (forbidden ''Forbidden''), s)
     else let msg = key_msg (chat_row e k (Some (u_id user)) ''retailer'' content message_type media meta False) s;
              c2 = c\<lparr>cv_last_message := Some (last_text content message_type), cv_updated_at := env_now e,
                     cv_unread_admin := cv_unread_admin c + 1\<rparr>;
              admin = chat_first_admin (ch_db s);
              note_admin = (case admin of None \<Rightarrow> (\<lambda>d. d) | Some a \<Rightarrow>
                 notify e (u_id a) ''chat'' ''New shop message'' (or_str content ''New message'')
                   (Some (JObj [(''conversation_id'', JInt k)])));
              s1 = on_db note_admin (add_msg msg (put_conv c2 s));
              s2 = on_db (emit_chat_message [(''id'', JInt (cm_id msg)), (''content'', jopt_str content),
                     (''sender_id'', JInt (u_id user)), (''created_at'', JStr (isoformat (cm_created_at msg)))]
                     k (map_option u_id admin) ''retailer'') s1
          in (Inr msg, on_db (emit_admin_event ''chat_unread'' [(''conversation_id'', JInt k),
                (''unread_admin'', JInt (cv_unread_admin c2)), (''total_unread'', JInt (admin_unread_total s2))]) s2))"

definition callback_text :: "string option \<Rightarrow> string option \<Rightarrow> string" where
  "callback_text nt phone = map char_of [240, 159, 147, 158 :: nat] @ '' Callback requested''
     @ (if truthy_str nt then '': '' @ the nt else []) @ ''. Bakery phone: '' @ or_str phone em_dash"

definition request_callback :: "env \<Rightarrow> User \<Rightarrow> string option \<Rightarrow> chat_state \<Rightarrow> (exc + json) \<times> chat_state" where
  "request_callback e user nt s =
     (let admin = chat_first_admin (ch_db s);
          set_phone = Option.bind (t_first (\<lambda>_. True) (settings_rows (ch_db s))) (\<lambda>r. Some (bs_phone r));
          bakery_phone = (if truthy_str set_phone then set_phone else map_option u_phone admin);
          who = or_str (u_name user) (u_phone user);
          rec = (new_CallRecord (env_now e) (Some (u_id user)) (map_option u_id admin))
                \<lparr>cr_id := next_id (ch_calls s), cr_provider := Some ''phone'',
                 cr_to_phone := bakery_phone, cr_purpose := Some (or_str nt ''Callback request from app''),
                 cr_notes := Some (''retailer: '' @ who), cr_started_at := Some (env_now e)\<rparr>;
          s1 = s\<lparr>ch_calls := t_insert (\<lambda>i r. r\<lparr>cr_id := i\<rparr>) rec (ch_calls s)\<rparr>;
          s2 = (case admin of None \<Rightarrow> s1 | Some a \<Rightarrow> on_db (notify e (u_id a) ''call'' ''Callback requested''
                 (who @ '' wants a call'' @ (if truthy_str nt then '' '' @ em_dash @ '' '' @ the nt else []))
                 (Some (JObj [(''call_id'', JInt (cr_id rec)), (''from_user_id'', JInt (u_id user))]))) s1)
      in (case get_or_create_retailer_support e (u_id user) False s2 of (c, s3) \<Rightarrow>
           (case shop_send e (cv_id c) user (Some (callback_text nt bakery_phone)) ''text'' None None s3 of
              (Inl ex, s4) \<Rightarrow> (Inl ex, s4)
            | (Inr _, s4) \<Rightarrow> (Inr (JObj [(''call_id'', JInt (cr_id rec)), (''status'', JStr ''requested''),
                (''bakery_phone'', jopt_str bakery_phone),
                (''message'', JStr ''Owner notified. You can also dial the bakery number shown.'')]), s4))))"

section \<open>The administrator's side\<close>

definition admin_chats :: "chat_state \<Rightarrow> json list" where
  "admin_chats s = map (\<lambda>c. conversation_dict (ch_db s) (participant_role c) c)
     (take 100 (sort_key (\<lambda>c. - cv_updated_at c) (rows (ch_convs s))))"

definition chat_messages :: "int \<Rightarrow> chat_state \<Rightarrow> (exc + ChatMessage list) \<times> chat_state" where
  "chat_messages k s = (case get_conv s k of
     None \<Rightarrow> (Inl (not_found ''Conversation not found''), s)
   | Some c \<Rightarrow>
     let s1 = mark_seen k (\<lambda>r. r \<noteq> ''admin'')
                (if 0 < cv_unread_admin c then put_conv (c\<lparr>cv_unread_admin := 0\<rparr>) s else s);
         s2 = (if 0 < cv_unread_admin c \<or> unseen s k (\<lambda>r. r \<noteq> ''admin'')
               then on_db (emit_admin_event ''chat_unread'' [(''conversation_id'', JInt k), (''unread_admin'', JInt 0),
                      (''total_unread'', JInt (admin_unread_total s1))]) s1 else s1)
     in (Inr (messages_of s2 k), s2))"

definition send_chat :: "env \<Rightarrow> int \<Rightarrow> User \<Rightarrow> string option \<Rightarrow> chat_state \<Rightarrow> (exc + ChatMessage) \<times> chat_state" where
  "send_chat e k admin content0 s = (case get_conv s k of
     None \<Rightarrow> (Inl (not_found ''Conversation not found''), s)
   | Some c \<Rightarrow>
     let content = or_str content0 [];
         msg = key_msg ((new_ChatMessage (env_now e) k ''admin'')\<lparr>cm_sender_id := Some (u_id admin), cm_content := Some content\<rparr>) s;
         c2 = c\<lparr>cv_last_message := Some (py_take 500 content), cv_unread_customer := cv_unread_customer c + 1,
                cv_ai_handed_over := True\<rparr>
     in (Inr msg, on_db (emit_chat_message [(''id'', JInt (cm_id msg)), (''content'', JStr content),
           (''sender_id'', JInt (u_id admin)), (''created_at'', JStr (isoformat (cm_created_at msg)))]
           k (Some (cv_customer_id c)) ''admin'') (add_msg msg (put_conv c2 s))))"

definition takeover :: "int \<Rightarrow> User \<Rightarrow> chat_state \<Rightarrow> (exc + json) \<times> chat_state" where
  "takeover k admin s = (case get_conv s k of
     None \<Rightarrow> (Inl (not_found ''Conversation not found''), s)
   | Some c \<Rightarrow> (Inr (JObj [(''ok'', JBool True), (''conversation_id'', JInt k)]),
       put_conv (c\<lparr>cv_ai_handed_over := True, cv_admin_id := Some (u_id admin)\<rparr>) s))"

end
