(* ===== verification/ChatLaws.thy ===== *)
theory ChatLaws
  imports Chats
begin

text \<open>
  The unread counters of a conversation against its messages.  Three services count and clear them; whatever
  they do, a counter never tells fewer messages than are unread, and opening a conversation clears both.
\<close>

section \<open>Unread messages\<close>

definition to_admin :: "string \<Rightarrow> bool" where
  "to_admin r \<longleftrightarrow> r = ''customer'' \<or> r = ''retailer''"

definition to_customer :: "string \<Rightarrow> bool" where
  "to_customer r \<longleftrightarrow> r \<in> set ADMIN_SIDE"

definition waiting :: "ChatMessage table \<Rightarrow> int \<Rightarrow> (string \<Rightarrow> bool) \<Rightarrow> nat" where
  "waiting t k to = length (t_all (\<lambda>m. cm_conversation_id m = k \<and> to (cm_sender_role m) \<and> \<not> cm_is_read m) t)"

definition covers :: "ChatMessage table \<Rightarrow> Conversation \<Rightarrow> bool" where
  "covers t c \<longleftrightarrow> int (waiting t (cv_id c) to_admin) \<le> cv_unread_admin c
     \<and> int (waiting t (cv_id c) to_customer) \<le> cv_unread_customer c"

definition counters_cover :: "chat_state \<Rightarrow> bool" where
  "counters_cover s \<longleftrightarrow> list_all (covers (ch_msgs s)) (rows (ch_convs s))"

text \<open>Keys are unique, and every message belongs to a conversation that was given out.\<close>

definition chat_wf :: "chat_state \<Rightarrow> bool" where
  "chat_wf s \<longleftrightarrow> t_wf cv_id (ch_convs s) \<and> list_all (\<lambda>m. cm_conversation_id m < next_id (ch_convs s)) (rows (ch_msgs s))"

definition sides :: "string \<Rightarrow> bool" where
  "sides r \<longleftrightarrow> r = ''customer'' \<or> r \<in> set ADMIN_SIDE"

lemma waiting_insert [simp]:
  "waiting (t_insert (\<lambda>i r. r\<lparr>cm_id := i\<rparr>) m t) k to
     = waiting t k to + (if cm_conversation_id m = k \<and> to (cm_sender_role m) \<and> \<not> cm_is_read m then 1 else 0)"
  by (simp add: waiting_def t_all_def rows_t_insert)

text \<open>Marking messages read.\<close>

definition marks :: "(ChatMessage \<Rightarrow> ChatMessage) \<Rightarrow> bool" where
  "marks f \<longleftrightarrow> (\<forall>m. cm_conversation_id (f m) = cm_conversation_id m \<and> cm_sender_role (f m) = cm_sender_role m
     \<and> (cm_is_read m \<longrightarrow> cm_is_read (f m)))"

lemma waiting_marked:
  assumes "marks f" shows "waiting (t\<lparr>rows := map f (rows t)\<rparr>) k to \<le> waiting t k to"
proof -
  have "length (filter (\<lambda>m. cm_conversation_id m = k \<and> to (cm_sender_role m) \<and> \<not> cm_is_read m) (map f ms))
     \<le> length (filter (\<lambda>m. cm_conversation_id m = k \<and> to (cm_sender_role m) \<and> \<not> cm_is_read m) ms)" for ms
    using assms by (induction ms) (auto simp: marks_def)
  then show ?thesis by (simp add: waiting_def t_all_def)
qed

lemma covers_marked: "marks f \<Longrightarrow> covers t c \<Longrightarrow> covers (t\<lparr>rows := map f (rows t)\<rparr>) c"
  using waiting_marked [of f t "cv_id c" to_admin] waiting_marked [of f t "cv_id c" to_customer] by (auto simp: covers_def)

lemma waiting_cleared:
  assumes "\<forall>m. cm_conversation_id m = k \<longrightarrow> to (cm_sender_role m) \<longrightarrow> cm_is_read (f m)" "marks f"
  shows "waiting (t\<lparr>rows := map f (rows t)\<rparr>) k to = 0"
  using assms by (auto simp: waiting_def t_all_def marks_def filter_empty_conv)

lemma waiting_none: "list_all (\<lambda>m. cm_conversation_id m < n) (rows t) \<Longrightarrow> waiting t n to = 0"
  by (auto simp: waiting_def t_all_def filter_empty_conv list_all_iff)

section \<open>The moves of the services\<close>

definition chat_ok :: "chat_state \<Rightarrow> bool" where
  "chat_ok s \<longleftrightarrow> chat_wf s \<and> counters_cover s"

lemma chat_ok_frame: "chat_ok s \<Longrightarrow> ch_convs s' = ch_convs s \<Longrightarrow> ch_msgs s' = ch_msgs s \<Longrightarrow> chat_ok s'"
  by (simp add: chat_ok_def chat_wf_def counters_cover_def)

lemma chat_ok_db [simp]: "chat_ok (s\<lparr>ch_db := d\<rparr>) = chat_ok s" "chat_ok (s\<lparr>ch_calls := t\<rparr>) = chat_ok s"
  by (simp_all add: chat_ok_def chat_wf_def counters_cover_def)

lemma chat_ok_put:
  assumes "chat_ok s" "covers (ch_msgs s) c" shows "chat_ok (put_conv c s)"
  using assms by (auto simp: chat_ok_def chat_wf_def counters_cover_def list_all_iff rows_t_put)

lemma chat_ok_conv: "chat_ok s \<Longrightarrow> get_conv s k = Some c \<Longrightarrow> covers (ch_msgs s) c \<and> cv_id c = k \<and> k < next_id (ch_convs s)"
  using t_get_in [of cv_id k "ch_convs s" c] t_get_key [of cv_id k "ch_convs s" c]
  by (auto simp: chat_ok_def counters_cover_def list_all_iff chat_wf_def t_wf_def)

lemma chat_ok_fresh:
  assumes "chat_ok s" "cv_unread_admin c = 0" "cv_unread_customer c = 0"
  shows "chat_ok (add_conv c s)"
proof -
  have "waiting (ch_msgs s) (next_id (ch_convs s)) to = 0" for to
    using assms(1) waiting_none by (simp add: chat_ok_def chat_wf_def)
  with assms show ?thesis
    by (auto simp: chat_ok_def chat_wf_def counters_cover_def rows_t_insert covers_def list_all_iff less_imp_le)
qed

lemma chat_ok_post:
  assumes "chat_ok s" "get_conv s k = Some c" "cm_conversation_id m = k" "cv_id c' = k"
    and "cv_unread_admin c' = cv_unread_admin c + (if to_admin (cm_sender_role m) then 1 else 0)"
    and "cv_unread_customer c' = cv_unread_customer c + (if to_customer (cm_sender_role m) then 1 else 0)"
  shows "chat_ok (add_msg m (put_conv c' s))"
proof -
  note c = chat_ok_conv [OF assms(1,2)]
  have "covers (t_insert (\<lambda>i r. r\<lparr>cm_id := i\<rparr>) m (ch_msgs s)) c'"
    using c assms(3-6) by (auto simp: covers_def)
  moreover have "covers (t_insert (\<lambda>i r. r\<lparr>cm_id := i\<rparr>) m (ch_msgs s)) x"
    if "x \<in> set (rows (ch_convs s))" "cv_id x \<noteq> k" for x
    using that assms(1,3) by (auto simp: chat_ok_def counters_cover_def list_all_iff covers_def)
  ultimately show ?thesis
    using assms(1,3,4) c
    by (auto simp: chat_ok_def chat_wf_def counters_cover_def list_all_iff rows_t_put rows_t_insert)
qed

lemma chat_ok_mark:
  assumes "chat_ok s" "marks f" shows "chat_ok (s\<lparr>ch_msgs := (ch_msgs s)\<lparr>rows := map f (rows (ch_msgs s))\<rparr>\<rparr>)"
  using assms covers_marked [OF assms(2)]
  by (auto simp: chat_ok_def chat_wf_def counters_cover_def list_all_iff marks_def)

text \<open>Opening: first the marks, then the counter of the reader is cleared; the order does not matter.\<close>

lemma chat_ok_open:
  assumes "chat_ok s" "marks f" "get_conv s k = Some c" "cv_id c' = k"
    and "covers ((ch_msgs s)\<lparr>rows := map f (rows (ch_msgs s))\<rparr>) c'"
  shows "chat_ok (s\<lparr>ch_convs := t_put cv_id c' (ch_convs s), ch_msgs := (ch_msgs s)\<lparr>rows := map f (rows (ch_msgs s))\<rparr>\<rparr>)"
  using chat_ok_put [OF chat_ok_mark [OF assms(1,2)]] assms(5) by (simp add: chat_ok_def chat_wf_def counters_cover_def)

section \<open>Every operation\<close>

lemma marks_seen: "marks (\<lambda>m. if cm_conversation_id m = k \<and> from (cm_sender_role m) \<and> \<not> cm_is_read m
    then m\<lparr>cm_is_read := True, cm_is_delivered := True\<rparr> else m)"
  by (simp add: marks_def)

lemma marks_delivered: "marks (\<lambda>m. if cm_conversation_id m = k \<and> cm_sender_role m \<in> set ADMIN_SIDE
    then m\<lparr>cm_is_read := True, cm_is_delivered := True\<rparr> else m)"
  by (simp add: marks_def)

lemma to_sides: "to_admin ''customer''" "\<not> to_customer ''customer''" "to_admin ''retailer''" "\<not> to_customer ''retailer''"
  "to_customer ''admin''" "\<not> to_admin ''admin''" "r \<in> set ADMIN_SIDE \<Longrightarrow> to_customer r" "r \<in> set ADMIN_SIDE \<Longrightarrow> \<not> to_admin r"
  by (auto simp: to_admin_def to_customer_def ADMIN_SIDE_def)

lemma mark_seen_clears:
  assumes "\<And>r. to r \<Longrightarrow> from r" shows "waiting (ch_msgs (mark_seen k from s)) k to = 0"
  unfolding mark_seen_def using assms
  by (simp add: waiting_cleared [OF _ marks_seen, simplified])

lemma deliver_seen_clears: "waiting (ch_msgs (deliver_seen k s)) k to_customer = 0"
  unfolding deliver_seen_def by (simp add: waiting_cleared [OF _ marks_delivered, simplified] to_customer_def)

lemma mark_seen_ok: "chat_ok s \<Longrightarrow> chat_ok (mark_seen k from s)"
  unfolding mark_seen_def by (rule chat_ok_mark [OF _ marks_seen])

lemma deliver_seen_ok: "chat_ok s \<Longrightarrow> chat_ok (deliver_seen k s)"
  unfolding deliver_seen_def by (rule chat_ok_mark [OF _ marks_delivered])

lemma mark_seen_put: "mark_seen k from (put_conv c s) = put_conv c (mark_seen k from s)"
  by (simp add: mark_seen_def)

lemma deliver_seen_put: "deliver_seen k (put_conv c s) = put_conv c (deliver_seen k s)"
  by (simp add: deliver_seen_def)

lemma seen_conv [simp]: "ch_convs (mark_seen k from s) = ch_convs s" "ch_convs (deliver_seen k s) = ch_convs s"
  by (simp_all add: mark_seen_def deliver_seen_def)

lemma send_message_ok:
  assumes "chat_ok s" "sides role" shows "chat_ok (snd (send_message e k sid role content mt media meta s))"
proof (cases "get_conv s k")
  case (Some c)
  note key = chat_ok_conv [OF assms(1) Some]
  show ?thesis
  proof (cases "role = ''customer'' \<and> \<not> truthy_str content \<and> mt = ''text'' \<and> \<not> truthy_str media")
    case False
    have "chat_ok (add_msg (key_msg (chat_row e k sid role content mt media meta on) s)
        (put_conv (counted role (c\<lparr>cv_last_message := t, cv_updated_at := u\<rparr>)) s))" for on t u
      using assms(2) key
      by (intro chat_ok_post [OF assms(1) Some]) (auto simp: chat_row_def new_ChatMessage_def counted_def to_sides sides_def)
    with False Some assms(1) show ?thesis by (simp add: send_message_def Let_def)
  next
    case True
    with assms(1) Some show ?thesis by (simp add: send_message_def)
  qed
qed (use assms in \<open>simp add: send_message_def\<close>)

lemma create_conversation_ok: "chat_ok s \<Longrightarrow> chat_ok (snd (create_conversation e uid b s))"
proof -
  assume ok: "chat_ok s"
  have f: "chat_ok (add_conv ((new_Conversation n cat uid)\<lparr>cv_order_id := a, cv_return_id := b', cv_custom_cake_id := c, cv_is_ai := i\<rparr>) s)"
    for n cat a b' c i using ok by (intro chat_ok_fresh) (simp_all add: new_Conversation_def)
  show ?thesis
    using ok f send_message_ok [OF f, of "''customer''"]
    by (simp add: create_conversation_def Let_def sides_def split: prod.split sum.split) (metis snd_conv)
qed

text \<open>Opening a conversation clears a counter whose messages are all read.\<close>

lemma list_messages_ok: "chat_ok s \<Longrightarrow> chat_ok (snd (list_messages k user s))"
proof (cases "get_conv s k")
  case (Some c)
  assume ok: "chat_ok s"
  note m = deliver_seen_ok [OF ok, of k]
  have "get_conv (deliver_seen k s) k = Some c" using Some by simp
  note key = chat_ok_conv [OF m this]
  then have "covers (ch_msgs (deliver_seen k s)) (c\<lparr>cv_unread_customer := 0\<rparr>)"
    using deliver_seen_clears [of k s] by (auto simp: covers_def)
  from chat_ok_put [OF m this] ok Some show ?thesis
    by (simp add: list_messages_def Let_def deliver_seen_put)
qed (simp add: list_messages_def)

lemma shop_messages_ok: "chat_ok s \<Longrightarrow> chat_ok (snd (shop_messages k user s))"
proof (cases "get_conv s k")
  case (Some c)
  assume ok: "chat_ok s"
  note m = mark_seen_ok [OF ok, of k "\<lambda>r. r \<noteq> ''retailer''"]
  have "get_conv (mark_seen k (\<lambda>r. r \<noteq> ''retailer'') s) k = Some c" using Some by simp
  note key = chat_ok_conv [OF m this]
  moreover have "waiting (ch_msgs (mark_seen k (\<lambda>r. r \<noteq> ''retailer'') s)) k to_customer = 0"
    by (rule mark_seen_clears) (auto simp: to_customer_def ADMIN_SIDE_def)
  ultimately have "covers (ch_msgs (mark_seen k (\<lambda>r. r \<noteq> ''retailer'') s)) (c\<lparr>cv_unread_customer := 0\<rparr>)"
    by (auto simp: covers_def)
  from chat_ok_put [OF m this] ok m Some show ?thesis
    by (simp add: shop_messages_def Let_def mark_seen_put)
qed (simp add: shop_messages_def)

lemma chat_messages_ok: "chat_ok s \<Longrightarrow> chat_ok (snd (chat_messages k s))"
proof (cases "get_conv s k")
  case (Some c)
  assume ok: "chat_ok s"
  note m = mark_seen_ok [OF ok, of k "\<lambda>r. r \<noteq> ''admin''"]
  have "get_conv (mark_seen k (\<lambda>r. r \<noteq> ''admin'') s) k = Some c" using Some by simp
  note key = chat_ok_conv [OF m this]
  moreover have "waiting (ch_msgs (mark_seen k (\<lambda>r. r \<noteq> ''admin'') s)) k to_admin = 0"
    by (rule mark_seen_clears) (auto simp: to_admin_def)
  ultimately have "covers (ch_msgs (mark_seen k (\<lambda>r. r \<noteq> ''admin'') s)) (c\<lparr>cv_unread_admin := 0\<rparr>)"
    by (auto simp: covers_def)
  from chat_ok_put [OF m this] ok m Some show ?thesis
    by (simp add: chat_messages_def Let_def mark_seen_put)
qed (simp add: chat_messages_def)

lemma support_ok: "chat_ok s \<Longrightarrow> chat_ok (snd (get_or_create_retailer_support e uid ai s))"
  using chat_ok_fresh [of s] by (simp add: get_or_create_retailer_support_def new_Conversation_def Let_def split: list.split)

lemma shop_send_ok: "chat_ok s \<Longrightarrow> chat_ok (snd (shop_send e k user content mt media meta s))"
proof (cases "get_conv s k")
  case (Some c)
  assume ok: "chat_ok s"
  note key = chat_ok_conv [OF ok Some]
  have "chat_ok (add_msg (key_msg (chat_row e k (Some (u_id user)) ''retailer'' content mt media meta False) s)
      (put_conv (c\<lparr>cv_last_message := t, cv_updated_at := u, cv_unread_admin := cv_unread_admin c + 1\<rparr>) s))" for t u
    using key by (intro chat_ok_post [OF ok Some]) (auto simp: chat_row_def new_ChatMessage_def to_sides)
  with ok Some show ?thesis by (simp add: shop_send_def Let_def)
qed (simp add: shop_send_def)

lemma snd_result: "snd (case r of Inl ex \<Rightarrow> (Inl ex, t) | Inr x \<Rightarrow> (Inr y, t)) = t"
  by (simp split: sum.split)

lemma request_callback_ok: "chat_ok s \<Longrightarrow> chat_ok (snd (request_callback e user nt s))"
  unfolding request_callback_def Let_def split_beta snd_result
  by (rule shop_send_ok, rule support_ok) (simp split: option.split)

lemma open_support_ok: "chat_ok s \<Longrightarrow> chat_ok (snd (open_support e user ai s))"
  using support_ok [of s e "u_id user" ai] by (simp add: open_support_def split_beta)

lemma send_chat_ok: "chat_ok s \<Longrightarrow> chat_ok (snd (send_chat e k admin content s))"
proof (cases "get_conv s k")
  case (Some c)
  assume ok: "chat_ok s"
  note key = chat_ok_conv [OF ok Some]
  have "chat_ok (add_msg (key_msg ((new_ChatMessage n k ''admin'')\<lparr>cm_sender_id := i, cm_content := x\<rparr>) s)
      (put_conv (c\<lparr>cv_last_message := t, cv_unread_customer := cv_unread_customer c + 1, cv_ai_handed_over := True\<rparr>) s))" for n i x t
    using key by (intro chat_ok_post [OF ok Some]) (auto simp: new_ChatMessage_def to_sides)
  with ok Some show ?thesis by (simp add: send_chat_def Let_def)
qed (simp add: send_chat_def)

lemma takeover_ok: "chat_ok s \<Longrightarrow> chat_ok (snd (takeover k admin s))"
  using chat_ok_conv [of s k] chat_ok_put [of s] by (auto simp: takeover_def covers_def split: option.split)

section \<open>Any run\<close>

inductive chat_step :: "chat_state \<Rightarrow> chat_state \<Rightarrow> bool" where
  customer_send: "sides role \<Longrightarrow> chat_step s (snd (send_message e k sid role content mt media meta s))"
| customer_start: "chat_step s (snd (create_conversation e uid b s))"
| customer_open: "chat_step s (snd (list_messages k user s))"
| online: "chat_step s (snd (presence e user b s))"
| shop_open_support: "chat_step s (snd (open_support e user ai s))"
| shop_open: "chat_step s (snd (shop_messages k user s))"
| shop_send: "chat_step s (snd (shop_send e k user content mt media meta s))"
| callback: "chat_step s (snd (request_callback e user nt s))"
| admin_open: "chat_step s (snd (chat_messages k s))"
| admin_send: "chat_step s (snd (send_chat e k user content s))"
| admin_takeover: "chat_step s (snd (takeover k user s))"

lemma chat_step_ok: "chat_step s s' \<Longrightarrow> chat_ok s \<Longrightarrow> chat_ok s'"
  by (induction rule: chat_step.induct)
    (simp_all add: send_message_ok create_conversation_ok list_messages_ok presence_def open_support_ok shop_messages_ok
      shop_send_ok request_callback_ok chat_messages_ok send_chat_ok takeover_ok)

text \<open>Opening: nothing waits for the reader any more and the reader's counter says so.\<close>

lemma admin_open_clears:
  assumes "chat_ok s" "get_conv s k = Some c"
  shows "waiting (ch_msgs (snd (chat_messages k s))) k to_admin = 0"
proof -
  have "waiting (ch_msgs (mark_seen k (\<lambda>r. r \<noteq> ''admin'') x)) k to_admin = 0" for x
    by (rule mark_seen_clears) (auto simp: to_admin_def)
  then show ?thesis using assms(2) by (simp add: chat_messages_def Let_def)
qed

text \<open>A customer's message needs no conversation of one's own, whereas reading one does.\<close>

lemma anyone_can_write:
  assumes "get_conv s k = Some c" "content \<noteq> []"
  shows "\<exists>m. fst (send_message e k (Some uid) ''customer'' (Some content) ''text'' None None s) = Inr m
    \<and> cm_conversation_id m = k \<and> cm_sender_id m = Some uid"
  using assms by (simp add: send_message_def Let_def chat_row_def new_ChatMessage_def)

section \<open>Worked example\<close>

definition hello_state :: chat_state where
  "hello_state = \<lparr>ch_db = empty_db, ch_convs = \<lparr>rows = [(new_Conversation 0 CH_GENERAL 5)\<lparr>cv_id := 1\<rparr>], next_id = 2\<rparr>,
     ch_msgs = t_empty, ch_calls = t_empty\<rparr>"

definition greeted :: chat_state where
  "greeted = snd (send_message sample_env 1 (Some 5) ''customer'' (Some ''Hi'') ''text'' None None hello_state)"

lemma hello_facts: "get_conv hello_state 1 = Some ((new_Conversation 0 CH_GENERAL 5)\<lparr>cv_id := 1\<rparr>)"
  "chat_wf hello_state" "counters_cover hello_state"
  by (simp_all add: hello_state_def t_get_def chat_wf_def counters_cover_def covers_def waiting_def t_all_def t_wf_def
      t_empty_def new_Conversation_def)

end
