(* ===== verification/RiderDesk.thy ===== *)
theory RiderDesk
  imports Shops Notify
begin

text \<open>
  The riders' accounts, kept by the administrator (\<open>store_ops_service/app/services/delivery.py\<close>): a rider is a
  row of the delivery staff linked to a user who signs in with the same phone.
\<close>

section \<open>Phones\<close>

text \<open>\<open>digits[-10:]\<close>\<close>

definition last_digits :: "string \<Rightarrow> string" where
  "last_digits s = (let ds = filter is_digit_char s in drop (length ds - 10) ds)"

definition phone_keys :: "string \<Rightarrow> string list" where
  "phone_keys phone =
     (let raw = strip phone; norm = normalize_phone raw; last10 = last_digits norm
      in filter (\<lambda>k. k \<noteq> []) [raw, norm, last10, ''+91'' @ last10, ''91'' @ last10])"

definition person_by_phone :: "db \<Rightarrow> string \<Rightarrow> DeliveryPerson option" where
  "person_by_phone d phone = t_first (\<lambda>p. dp_phone p \<in> set (phone_keys phone)
     \<or> last_digits (dp_phone p) \<in> last_digits ` set (phone_keys phone)) (riders d)"

definition login_by_phone :: "db \<Rightarrow> string \<Rightarrow> User option" where
  "login_by_phone d phone = t_first (\<lambda>u. u_phone u = phone) (users d)"

section \<open>Accounts\<close>

definition rider_login :: "(string \<Rightarrow> string) \<Rightarrow> string \<Rightarrow> string option \<Rightarrow> User \<Rightarrow> User" where
  "rider_login hash name password u = u
     \<lparr>u_password_hash := (case password of None \<Rightarrow> u_password_hash u | Some w \<Rightarrow> Some (hash (strip w))),
      u_name := (if strip name = [] then u_name u else Some (strip name)),
      u_role := UR_DELIVERY, u_is_active := True, u_terms_accepted := True\<rparr>"

definition new_rider_login :: "(string \<Rightarrow> string) \<Rightarrow> env \<Rightarrow> string \<Rightarrow> string \<Rightarrow> string \<Rightarrow> User" where
  "new_rider_login hash e name phone password = (new_User (env_now e) phone)
     \<lparr>u_name := Some (if strip name = [] then ''Rider'' else strip name), u_password_hash := Some (hash (strip password)),
      u_role := UR_DELIVERY, u_terms_accepted := True, u_is_active := True\<rparr>"

definition ensure_delivery_user :: "(string \<Rightarrow> string) \<Rightarrow> env \<Rightarrow> string \<Rightarrow> string \<Rightarrow> string option \<Rightarrow> db \<Rightarrow> (exc + User) \<times> db" where
  "ensure_delivery_user hash e name phone0 password d =
     (let phone = normalize_phone phone0; found = login_by_phone d phone in
      if (case found of None \<Rightarrow> False | Some u \<Rightarrow> u_role u \<noteq> UR_DELIVERY)
      then (Inl (conflict ''Phone already used by another account type''), d)
      else if (case password of None \<Rightarrow> False | Some w \<Rightarrow> py_len (strip w) < 6)
      then (Inl (bad_request ''Password must be at least 6 characters''), d)
      else (case found of
        Some u \<Rightarrow> let u2 = rider_login hash name password u in (Inr u2, put_User u2 d)
      | None \<Rightarrow> (case password of
          None \<Rightarrow> (Inl (bad_request ''Password is required for new rider login''), d)
        | Some w \<Rightarrow> let u = new_rider_login hash e name phone w in (Inr (key_User u d), add_User u d))))"

definition list_persons :: "db \<Rightarrow> DeliveryPerson list" where
  "list_persons d = sort_key (\<lambda>p. - dp_created_at p) (rows (riders d))"

record DeliveryPersonIn =
  dpi_name :: string
  dpi_phone :: string
  dpi_password :: string
  dpi_vehicle_number :: string
  dpi_default_trip_cost :: rat
  dpi_is_available :: bool

text \<open>The rider with this phone, or a new one, becomes the account's.\<close>

definition link_person :: "env \<Rightarrow> string \<Rightarrow> string \<Rightarrow> DeliveryPersonIn \<Rightarrow> User \<Rightarrow> db \<Rightarrow> DeliveryPerson \<times> db" where
  "link_person e name phone b user d = (case person_by_phone d phone of
     Some p \<Rightarrow> let p2 = p\<lparr>dp_name := name, dp_phone := phone, dp_user_id := Some (u_id user),
                   dp_vehicle_number := dpi_vehicle_number b, dp_default_trip_cost := dpi_default_trip_cost b,
                   dp_is_available := dpi_is_available b\<rparr> in (p2, put_DeliveryPerson p2 d)
   | None \<Rightarrow> let p = (new_DeliveryPerson (env_now e) name phone (dpi_vehicle_number b))
                   \<lparr>dp_user_id := Some (u_id user), dp_default_trip_cost := dpi_default_trip_cost b,
                    dp_is_available := dpi_is_available b\<rparr> in (key_DeliveryPerson p d, add_DeliveryPerson p d))"

definition create_person :: "(string \<Rightarrow> string) \<Rightarrow> env \<Rightarrow> DeliveryPersonIn \<Rightarrow> db \<Rightarrow> (exc + DeliveryPerson) \<times> db" where
  "create_person hash e b d =
     (let phone = normalize_phone (dpi_phone b);
          name = (if strip (dpi_name b) = [] then ''Rider'' else strip (dpi_name b));
          password = (if dpi_password b = [] then None else Some (dpi_password b))
      in case ensure_delivery_user hash e name phone password d of
           (Inl ex, d1) \<Rightarrow> (Inl ex, d1)
         | (Inr user, d1) \<Rightarrow> (case link_person e name phone b user d1 of (p, d2) \<Rightarrow> (Inr p, d2)))"

record DeliveryPersonPatchIn =
  dpp_name :: "string option option"
  dpp_phone :: "string option option"
  dpp_password :: "string option"
  dpp_vehicle_number :: "string option option"
  dpp_is_available :: "bool option option"
  dpp_default_trip_cost :: "rat option option"

definition person_patch_null :: "DeliveryPersonPatchIn \<Rightarrow> bool" where
  "person_patch_null b \<longleftrightarrow> dpp_name b = Some None \<or> dpp_phone b = Some None \<or> dpp_vehicle_number b = Some None
     \<or> dpp_is_available b = Some None \<or> dpp_default_trip_cost b = Some None"

definition person_patched :: "DeliveryPersonPatchIn \<Rightarrow> DeliveryPerson \<Rightarrow> DeliveryPerson" where
  "person_patched b p = p
     \<lparr>dp_name := upd_req (dpp_name b) (dp_name p),
      dp_phone := upd_req (map_option (map_option normalize_phone) (dpp_phone b)) (dp_phone p),
      dp_vehicle_number := upd_req (dpp_vehicle_number b) (dp_vehicle_number p),
      dp_is_available := upd_req (dpp_is_available b) (dp_is_available p),
      dp_default_trip_cost := upd_req (dpp_default_trip_cost b) (dp_default_trip_cost p)\<rparr>"

text \<open>The row of the rider is committed first; the login follows in a second transaction.\<close>

definition sync_login :: "DeliveryPersonPatchIn \<Rightarrow> DeliveryPerson \<Rightarrow> User \<Rightarrow> db \<Rightarrow> (exc + DeliveryPerson) \<times> db" where
  "sync_login b p user d =
     (let user1 = (if dpp_name b = None then user else user\<lparr>u_name := Some (dp_name p)\<rparr>);
          phone = normalize_phone (dp_phone p)
      in if dpp_phone b = None then (Inr p, put_DeliveryPerson p (put_User user1 d))
         else if (case login_by_phone d phone of None \<Rightarrow> False | Some other \<Rightarrow> u_id other \<noteq> u_id user)
         then (Inl (conflict ''Phone already used by another account''), d)
         else let p2 = p\<lparr>dp_phone := phone\<rparr>
              in (Inr p2, put_DeliveryPerson p2 (put_User (user1\<lparr>u_phone := phone\<rparr>) d)))"

definition patch_person :: "(string \<Rightarrow> string) \<Rightarrow> env \<Rightarrow> int \<Rightarrow> DeliveryPersonPatchIn \<Rightarrow> db \<Rightarrow> (exc + DeliveryPerson) \<times> db" where
  "patch_person hash e person_id b d = (case get_DeliveryPerson d person_id of
     None \<Rightarrow> (Inl (not_found ''Delivery person not found''), d)
   | Some p0 \<Rightarrow>
     if person_patch_null b then (Inl (PyExc ''IntegrityError''), d)
     else let p = person_patched b p0; d1 = put_DeliveryPerson p d in
       (case dpp_password b of
          Some w \<Rightarrow> (case ensure_delivery_user hash e (dp_name p) (dp_phone p) (Some w) d1 of
            (Inl ex, d2) \<Rightarrow> (Inl ex, d2)
          | (Inr user, d2) \<Rightarrow> let p2 = p\<lparr>dp_user_id := Some (u_id user), dp_phone := u_phone user\<rparr>
                              in (Inr p2, put_DeliveryPerson p2 d2))
        | None \<Rightarrow> if \<not> truthy_id (dp_user_id p) then (Inr p, d1)
                  else (case get_User d1 (the (dp_user_id p)) of
                    None \<Rightarrow> (Inr p, d1) | Some user \<Rightarrow> sync_login b p user d1)))"

section \<open>Where riders are\<close>

definition live_trackings :: "db \<Rightarrow> DeliveryTracking list" where
  "live_trackings d = rows (trackings d)"

definition desk_update_location :: "env \<Rightarrow> int \<Rightarrow> rat \<Rightarrow> rat \<Rightarrow> int option \<Rightarrow> db \<Rightarrow> (exc + DeliveryTracking) \<times> db" where
  "desk_update_location e order_id lat lng eta d = (case t_first (\<lambda>t. dt_order_id t = order_id) (trackings d) of
     None \<Rightarrow> (Inl (not_found ''Tracking not found''), d)
   | Some t \<Rightarrow>
       let t2 = t\<lparr>dt_rider_lat := Some lat, dt_rider_lng := Some lng, dt_eta_minutes := upd_opt eta (dt_eta_minutes t),
                  dt_updated_at := env_now e\<rparr>
       in (Inr t2, emit_delivery_location order_id [(''lat'', JFloat lat), (''lng'', JFloat lng),
             (''eta_minutes'', jopt_int (dt_eta_minutes t2)), (''delivery_person_id'', JInt (dt_delivery_person_id t2))]
             (put_DeliveryTracking t2 d)))"

section \<open>A rider can sign in\<close>

lemma login_SomeD: "login_by_phone d phone = Some u \<Longrightarrow> u_phone u = phone \<and> u \<in> set (rows (users d))"
  unfolding login_by_phone_def by (drule t_first_SomeD) simp

lemma ensure_delivery_user_cases:
  assumes "ensure_delivery_user hash e name phone password d = (r, d1)" "db_wf d"
  obtains (refused) ex where "r = Inl ex" "d1 = d"
  | (login) u where "r = Inr u" "get_User d1 (u_id u) = Some u" "u_phone u = normalize_phone phone" "u_role u = UR_DELIVERY"
      "u_is_active u" "db_wf d1" "riders d1 = riders d"
proof (cases r)
  case (Inl ex)
  with assms(1) refused show ?thesis
    by (auto simp: ensure_delivery_user_def Let_def split: if_splits option.splits)
next
  case (Inr u)
  show ?thesis
  proof (cases "login_by_phone d (normalize_phone phone)")
    case None
    with assms(1) Inr obtain w where "u = key_User (new_rider_login hash e name (normalize_phone phone) w) d"
      "d1 = add_User (new_rider_login hash e name (normalize_phone phone) w) d"
      by (auto simp: ensure_delivery_user_def Let_def split: if_splits option.splits)
    with Inr assms(2) db_wf_tables(1) [OF assms(2)] show ?thesis
      by (intro login [of u]) (simp_all add: new_rider_login_def new_User_def)
  next
    case (Some v)
    note v = login_SomeD [OF Some]
    from v db_wf_tables(1) [OF assms(2)] have g: "get_User d (u_id v) = Some v" by (auto simp: t_get_Some_iff)
    from Some assms(1) Inr have "u = rider_login hash name password v" "d1 = put_User u d"
      by (auto simp: ensure_delivery_user_def Let_def split: if_splits)
    with Inr assms(2) g v show ?thesis
      by (intro login [of u]) (simp_all add: rider_login_def)
  qed
qed

text \<open>A rider that was created is linked to an active account for deliveries with the rider's own phone; when the
  creation is refused, nothing has changed.\<close>

lemma create_person_links:
  assumes "create_person hash e b d = (r, d')" "db_wf d"
  shows "case r of Inl ex \<Rightarrow> d' = d
    | Inr p \<Rightarrow> get_DeliveryPerson d' (dp_id p) = Some p \<and> dp_phone p = normalize_phone (dpi_phone b)
        \<and> (\<exists>u. dp_user_id p = Some (u_id u) \<and> get_User d' (u_id u) = Some u \<and> u_phone u = dp_phone p
             \<and> u_role u = UR_DELIVERY \<and> u_is_active u)"
proof -
  define phone where "phone = normalize_phone (dpi_phone b)"
  define name where "name = (if strip (dpi_name b) = [] then ''Rider'' else strip (dpi_name b))"
  define password where "password = (if dpi_password b = [] then None else Some (dpi_password b))"
  have c: "create_person hash e b d = (case ensure_delivery_user hash e name phone password d of
       (Inl ex, d1) \<Rightarrow> (Inl ex, d1)
     | (Inr user, d1) \<Rightarrow> (case link_person e name phone b user d1 of (p, d2) \<Rightarrow> (Inr p, d2)))"
    unfolding create_person_def Let_def phone_def name_def password_def ..
  obtain r1 d1 where e: "ensure_delivery_user hash e name phone password d = (r1, d1)" by fastforce
  show ?thesis
  proof (rule ensure_delivery_user_cases [OF e assms(2)])
    fix ex assume "r1 = Inl ex" "d1 = d"
    with c e assms(1) show ?thesis by auto
  next
    fix u assume u: "r1 = Inr u" "get_User d1 (u_id u) = Some u" "u_phone u = normalize_phone phone" "u_role u = UR_DELIVERY"
      "u_is_active u" "db_wf d1" "riders d1 = riders d"
    have ph: "u_phone u = phone" using u(3) by (simp add: phone_def normalize_phone_idem)
    have d': "(r, d') = (Inr (fst (link_person e name phone b u d1)), snd (link_person e name phone b u d1))"
      using c e u(1) assms(1) by (simp add: split_beta)
    show ?thesis
    proof (cases "person_by_phone d1 phone")
      case (Some p)
      have "get_DeliveryPerson d1 (dp_id p) = Some p"
        using t_first_SomeD [OF Some [unfolded person_by_phone_def]] db_wf_tables [OF u(6)] by (auto simp: t_get_Some_iff)
      with Some u ph d' show ?thesis by (auto simp: link_person_def Let_def phone_def)
    next
      case None
      with u ph d' db_wf_tables [OF u(6)] show ?thesis by (auto simp: link_person_def Let_def phone_def new_DeliveryPerson_def)
    qed
  qed
qed

text \<open>A new phone that belongs to another account is refused only after the rider's row has been committed with it.\<close>

lemma refused_patch_commits:
  assumes "get_DeliveryPerson d k = Some p" "dp_user_id p = Some i" "i \<noteq> 0" "get_User d i = Some user"
    and "dpp_phone b = Some (Some phone)" "dpp_password b = None" "\<not> person_patch_null b" "login_by_phone d (normalize_phone phone) = Some other"
    and "u_id other \<noteq> u_id user" "db_wf d"
  shows "fst (patch_person hash e k b d) = Inl (conflict ''Phone already used by another account'')
    \<and> dp_phone (the (get_DeliveryPerson (snd (patch_person hash e k b d)) k)) = normalize_phone phone"
proof -
  note key = t_get_key [OF assms(1)]
  have ph: "dp_phone (person_patched b p) = normalize_phone phone" "dp_user_id (person_patched b p) = Some i"
    "dp_id (person_patched b p) = k"
    using assms(2,5) key by (simp_all add: person_patched_def upd_req_def)
  have "login_by_phone (put_DeliveryPerson (person_patched b p) d) (normalize_phone phone) = Some other"
    using assms(8) by (simp add: login_by_phone_def)
  then have s: "sync_login b (person_patched b p) user (put_DeliveryPerson (person_patched b p) d)
      = (Inl (conflict ''Phone already used by another account''), put_DeliveryPerson (person_patched b p) d)"
    using assms(5,9) ph by (simp add: sync_login_def normalize_phone_idem)
  have "patch_person hash e k b d = sync_login b (person_patched b p) user (put_DeliveryPerson (person_patched b p) d)"
    using assms(1,3,4,6,7) ph by (simp add: patch_person_def Let_def)
  then show ?thesis using s ph assms(1) by simp
qed

end
