(* ===== verification/Calendar.thy ===== *)
theory Calendar
  imports Clock
begin

text \<open>
  The calendar behind the reports: \<open>datetime.date\<close> from year, month and day, \<open>weekday\<close>, \<open>replace(day=1)\<close>, the names \<open>strftime\<close>
  prints and \<open>date.fromisoformat\<close>.  \<open>of_civil\<close> inverts \<open>civil\<close> (\<open>of_civil_civil\<close>), so months are what the calendar
  says they are.
\<close>

section \<open>From the civil date to the day\<close>

definition of_civil :: "int \<Rightarrow> int \<Rightarrow> int \<Rightarrow> date" where
  "of_civil y0 m d = (let y = (if m \<le> 2 then y0 - 1 else y0);
       era = y div 400;
       yoe = y - era * 400;
       mp = (if 2 < m then m - 3 else m + 9);
       doy = (153 * mp + 2) div 5 + d - 1
     in era * 146097 + (yoe * 365 + yoe div 4 - yoe div 100 + doy) - 719468)"

text \<open>Inside an era of 400 years, counted from March: the days before a year, the year's end, and the year of a day.\<close>

definition year_start :: "int \<Rightarrow> int" where
  "year_start y = 365 * y + y div 4 - y div 100"

definition year_end :: "int \<Rightarrow> int" where
  "year_end y = (if y = 399 then 146097 else year_start (y + 1))"

definition skew :: "int \<Rightarrow> int" where
  "skew n = n - n div 1460 + n div 36524 - n div 146096"

lemma skew_Suc: "0 \<le> n \<Longrightarrow> n < 146096 \<Longrightarrow> skew n \<le> skew (n + 1)"
proof -
  assume n: "0 \<le> n" "n < 146096"
  have step: "(n + 1) div k \<le> n div k + 1" if "0 < k" for k :: int
  proof -
    have "(n + 1) div k \<le> (n + 1 * k) div k" using that by (intro zdiv_mono1) auto
    then show ?thesis using that by simp
  qed
  show ?thesis
  proof (cases "n = 146095")
    case False
    define a a' b b' where "a = n div 1460" and "a' = (n + 1) div 1460" and "b = n div 36524" and "b' = (n + 1) div 36524"
    have "n div 146096 = 0" "(n + 1) div 146096 = 0" using n False by (simp_all add: div_pos_pos_trivial)
    then have "skew n = n - a + b" "skew (n + 1) = n + 1 - a' + b'" by (simp_all only: skew_def a_def a'_def b_def b'_def diff_zero)
    moreover have "b \<le> b'" unfolding b_def b'_def by (intro zdiv_mono1) auto
    moreover have "a' \<le> a + 1" unfolding a_def a'_def by (rule step) simp
    ultimately show ?thesis by simp
  qed (simp add: skew_def)
qed

lemma skew_mono:
  assumes "0 \<le> a" "a \<le> b" "b \<le> 146096" shows "skew a \<le> skew b"
proof -
  have "a + int k \<le> 146096 \<Longrightarrow> skew a \<le> skew (a + int k)" for k
  proof (induction k)
    case (Suc k)
    then show ?case using skew_Suc [of "a + int k"] assms(1) by (simp add: algebra_simps)
  qed simp
  from this [of "nat (b - a)"] assms show ?thesis by simp
qed

lemma div_at: "r = q * k + (s::int) \<Longrightarrow> 0 \<le> s \<Longrightarrow> s < k \<Longrightarrow> r div k = q"
  by (simp add: div_pos_pos_trivial)

lemma year_shape:
  assumes "0 \<le> y" "y < 400"
  obtains a b c where "y = 100 * c + 4 * a + b" "0 \<le> a" "a < 25" "0 \<le> b" "b < 4" "0 \<le> c" "c < 4"
    "year_start y = 36524 * c + 1461 * a + 365 * b"
proof -
  define c where "c = y div 100"
  define r where "r = y mod 100"
  define a where "a = r div 4"
  define b where "b = r mod 4"
  have "y = 100 * c + r" "0 \<le> r" "r < 100" by (simp_all only: c_def r_def mult_div_mod_eq pos_mod_sign pos_mod_bound zero_less_numeral)
  moreover have "r = 4 * a + b" "0 \<le> b" "b < 4" by (simp_all only: a_def b_def mult_div_mod_eq pos_mod_sign pos_mod_bound zero_less_numeral)
  ultimately have y: "y = 100 * c + 4 * a + b" "0 \<le> a" "a < 25" "0 \<le> b" "b < 4" "0 \<le> c" "c < 4"
    using assms by linarith+
  have "y div 4 = 25 * c + a" by (rule div_at [where s = b]) (use y in simp_all)
  moreover have "y div 100 = c" by (simp only: c_def)
  ultimately have "year_start y = 36524 * c + 1461 * a + 365 * b" using y(1) by (simp add: year_start_def)
  with y show ?thesis by (rule that)
qed

lemma skew_year_start: assumes "0 \<le> y" "y < 400" shows "skew (year_start y) = 365 * y"
proof -
  obtain a b c where y: "y = 100 * c + 4 * a + b" "0 \<le> a" "a < 25" "0 \<le> b" "b < 4" "0 \<le> c" "c < 4"
    "year_start y = 36524 * c + 1461 * a + 365 * b" by (rule year_shape [OF assms])
  have "year_start y div 1460 = 25 * c + a" by (rule div_at [where s = "24 * c + a + 365 * b"]) (use y in auto)
  moreover have "year_start y div 36524 = c" by (rule div_at [where s = "1461 * a + 365 * b"]) (use y in auto)
  moreover have "year_start y div 146096 = 0" using y by (intro div_pos_pos_trivial) auto
  ultimately show ?thesis using y by (simp add: skew_def)
qed

lemma skew_year_last: assumes "0 < y" "y < 400" shows "skew (year_start y - 1) < 365 * y"
proof -
  obtain a b c where y: "y = 100 * c + 4 * a + b" "0 \<le> a" "a < 25" "0 \<le> b" "b < 4" "0 \<le> c" "c < 4"
    "year_start y = 36524 * c + 1461 * a + 365 * b" by (rule year_shape [of y]) (use assms in auto)
  have pos: "1 \<le> 24 * c + a + 365 * b" using y assms(1) by auto
  have "(year_start y - 1) div 1460 = 25 * c + a" by (rule div_at [where s = "24 * c + a + 365 * b - 1"]) (use y pos in auto)
  moreover have "(year_start y - 1) div 36524 \<le> c"
  proof -
    have "(year_start y - 1) div 36524 \<le> year_start y div 36524" by (intro zdiv_mono1) auto
    also have "\<dots> = c" by (rule div_at [where s = "1461 * a + 365 * b"]) (use y in auto)
    finally show ?thesis .
  qed
  moreover have "(year_start y - 1) div 146096 = 0" using y pos by (intro div_pos_pos_trivial) auto
  ultimately show ?thesis using y by (simp add: skew_def)
qed
text \<open>The year of a day of the era.\<close>

lemma year_of_day:
  assumes "0 \<le> n" "n < 146097" "y = skew n div 365"
  shows "0 \<le> y" "y < 400" "year_start y \<le> n" "n < year_end y" "n \<le> year_start y + 365"
proof -
  have y365: "365 * y \<le> skew n" "skew n < 365 * (y + 1)" 
    using pos_mod_sign [of 365 "skew n"] pos_mod_bound [of 365 "skew n"] minus_mod_eq_mult_div [of "skew n" 365]
    unfolding assms(3) by simp_all
  have "skew 0 \<le> skew n" "skew n \<le> skew 146096" using assms(1,2) by (auto intro: skew_mono)
  then have "0 \<le> skew n" "skew n \<le> 145999" by (simp_all add: skew_def)
  then show y: "0 \<le> y" "y < 400" using y365 by auto
  show lo: "year_start y \<le> n"
  proof (rule ccontr)
    assume "\<not> year_start y \<le> n"
    then have "y \<noteq> 0" "n \<le> year_start y - 1" using assms(1) by (auto simp: year_start_def)
    moreover have "year_start y \<le> 146096" by (rule year_shape [OF y]) simp
    ultimately have "skew n \<le> skew (year_start y - 1)" using assms(1) by (intro skew_mono) auto
    then show False using skew_year_last [of y] y \<open>y \<noteq> 0\<close> y365 by auto
  qed
  show hi: "n < year_end y"
  proof (cases "y = 399")
    case False
    have "n < year_start (y + 1)"
    proof (rule ccontr)
      assume "\<not> n < year_start (y + 1)"
      moreover have "0 \<le> year_start (y + 1)" by (rule year_shape [of "y + 1"]) (use y False in simp_all)
      ultimately have "skew (year_start (y + 1)) \<le> skew n" using assms(2) by (intro skew_mono) auto
      then show False using skew_year_start [of "y + 1"] y False y365 by auto
    qed
    then show ?thesis using False by (simp add: year_end_def)
  qed (use assms(2) in \<open>simp add: year_end_def\<close>)
  have "year_end y \<le> year_start y + 366"
  proof (cases "y = 399")
    case False
    then show ?thesis unfolding year_end_def year_start_def by simp
  qed (simp add: year_end_def year_start_def)
  with hi show "n \<le> year_start y + 365" by simp
qed

section \<open>The round trip\<close>

text \<open>\<open>civil\<close> in these terms: era, year of the era, day of the year and month, both counted from March.\<close>

lemma civil_parts:
  obtains era yoe doy mp where "z + 719468 = era * 146097 + year_start yoe + doy" "0 \<le> yoe" "yoe < 400"
    "0 \<le> doy" "doy \<le> 365" "year_start yoe + doy < year_end yoe" "mp = (5 * doy + 2) div 153" "0 \<le> mp" "mp \<le> 11"
    "civil z = (yoe + era * 400 + (if mp < 10 then 0 else 1), if mp < 10 then mp + 3 else mp - 9,
       doy - (153 * mp + 2) div 5 + 1)"
proof -
  define era where "era = (z + 719468) div 146097"
  define doe where "doe = z + 719468 - era * 146097"
  have "doe = (z + 719468) mod 146097" by (simp add: doe_def era_def minus_div_mult_eq_mod)
  then have doe: "0 \<le> doe" "doe < 146097" by simp_all
  define yoe where "yoe = skew doe div 365"
  note y = year_of_day [OF doe yoe_def]
  define doy where "doy = doe - year_start yoe"
  define mp where "mp = (5 * doy + 2) div 153"
  have doy: "0 \<le> doy" "doy \<le> 365" "year_start yoe + doy < year_end yoe"
    "z + 719468 = era * 146097 + year_start yoe + doy"
    using y by (simp_all add: doy_def doe_def)
  have mp: "0 \<le> mp" "mp \<le> 11"
    using doy zdiv_mono1 [of "5 * doy + 2" 1827 153] by (simp_all add: mp_def pos_imp_zdiv_nonneg_iff)
  have "civil z = (yoe + era * 400 + (if (if mp < 10 then mp + 3 else mp - 9) \<le> 2 then 1 else 0),
      if mp < 10 then mp + 3 else mp - 9, doy - (153 * mp + 2) div 5 + 1)"
    unfolding civil_def Let_def mp_def doy_def year_start_def yoe_def skew_def doe_def era_def by (rule refl)
  also have "(if (if mp < 10 then mp + 3 else mp - 9) \<le> 2 then 1 else 0) = (if mp < 10 then 0 else 1 :: int)"
    using mp by auto
  finally show ?thesis
    using y(1,2) doy mp by (intro that [of era yoe doy mp]) (simp_all only: mp_def)
qed

lemma of_civil_parts:
  assumes "0 \<le> yoe" "yoe < 400" "0 \<le> mp" "mp \<le> 11"
  shows "of_civil (yoe + era * 400 + (if mp < 10 then 0 else 1)) (if mp < 10 then mp + 3 else mp - 9) d
     = era * 146097 + year_start yoe + (153 * mp + 2) div 5 + d - 1 - 719468"
proof -
  have y: "(yoe + era * 400) div 400 = era" using assms(1,2) by simp
  have "(if (if mp < 10 then mp + 3 else mp - 9) \<le> 2 then yoe + era * 400 + (if mp < 10 then 0 else 1) - 1
      else yoe + era * 400 + (if mp < 10 then 0 else 1)) = yoe + era * 400"
    using assms(3,4) by auto
  moreover have "(if 2 < (if mp < 10 then mp + 3 else mp - 9) then (if mp < 10 then mp + 3 else mp - 9) - 3
      else (if mp < 10 then mp + 3 else mp - 9) + 9) = mp"
    using assms(3,4) by auto
  ultimately show ?thesis unfolding of_civil_def Let_def by (simp only: y) (simp add: year_start_def)
qed

lemma of_civil_civil: "civil z = (y, m, d) \<Longrightarrow> of_civil y m d = z"
  by (rule civil_parts [of z]) (auto simp: of_civil_parts)

section \<open>Months and weeks\<close>

definition next_month :: "int \<Rightarrow> int \<Rightarrow> int \<times> int" where
  "next_month y m = (if m = 12 then (y + 1, 1) else (y, m + 1))"

definition prev_month :: "int \<Rightarrow> int \<Rightarrow> int \<times> int" where
  "prev_month y m = (if m = 1 then (y - 1, 12) else (y, m - 1))"

definition month_first :: "int \<times> int \<Rightarrow> date" where
  "month_first ym = of_civil (fst ym) (snd ym) 1"

text \<open>\<open>date.weekday()\<close>: Monday is 0; the epoch was a Thursday.\<close>

definition weekday :: "date \<Rightarrow> int" where
  "weekday z = (z + 3) mod 7"

lemma weekday_bounds: "0 \<le> weekday z" "weekday z < 7"
  by (simp_all add: weekday_def)

lemma week_start: "weekday (z - weekday z) = 0"
  unfolding weekday_def by (metis add.commute add_diff_eq diff_self mod_0 mod_diff_right_eq)

lemma march_first: "0 \<le> yoe \<Longrightarrow> yoe < 400 \<Longrightarrow> of_civil (yoe + era * 400 + 1) 3 1 = era * 146097 + year_end yoe - 719468"
proof -
  assume y: "0 \<le> yoe" "yoe < 400"
  show ?thesis
  proof (cases "yoe = 399")
    case True
    then show ?thesis using of_civil_parts [of 0 0 "era + 1" 1] by (simp add: year_end_def year_start_def algebra_simps)
  next
    case False
    then show ?thesis using of_civil_parts [of "yoe + 1" 0 era 1] y by (simp add: year_end_def algebra_simps)
  qed
qed

text \<open>Every day lies in its month.\<close>

lemma month_contains:
  assumes "civil z = (y, m, d)"
  shows "month_first (y, m) \<le> z" "z < month_first (next_month y m)"
proof -
  obtain era yoe doy mp where z: "z + 719468 = era * 146097 + year_start yoe + doy"
    and yoe: "0 \<le> yoe" "yoe < 400" and doy: "0 \<le> doy" "doy \<le> 365" "year_start yoe + doy < year_end yoe"
    and mp: "mp = (5 * doy + 2) div 153" "0 \<le> mp" "mp \<le> 11"
    and c: "civil z = (yoe + era * 400 + (if mp < 10 then 0 else 1), if mp < 10 then mp + 3 else mp - 9,
       doy - (153 * mp + 2) div 5 + 1)" by (rule civil_parts)
  have lo: "153 * mp \<le> 5 * doy + 2" "5 * doy + 2 < 153 * (mp + 1)"
    using mult_div_mod_eq [of 153 "5 * doy + 2"] pos_mod_sign [of 153 "5 * doy + 2"] pos_mod_bound [of 153 "5 * doy + 2"]
    unfolding mp(1) by simp_all
  have first: "(153 * mp + 2) div 5 \<le> doy" using zdiv_mono1 [of "153 * mp + 2" "5 * doy + 4" 5] lo(1) by simp
  have nxt: "doy < (153 * (mp + 1) + 2) div 5" using zdiv_mono1 [of "5 * doy + 5" "153 * (mp + 1) + 2" 5] lo(2) by simp
  have ym: "y = yoe + era * 400 + (if mp < 10 then 0 else 1)" "m = (if mp < 10 then mp + 3 else mp - 9)"
    using c assms by simp_all
  have "month_first (y, m) = era * 146097 + year_start yoe + (153 * mp + 2) div 5 - 719468"
    unfolding ym month_first_def fst_conv snd_conv by (simp add: of_civil_parts [OF yoe mp(2,3)])
  then show "month_first (y, m) \<le> z" using first z by simp
  show "z < month_first (next_month y m)"
  proof (cases "mp = 11")
    case True
    then have "month_first (next_month y m) = of_civil (yoe + era * 400 + 1) 3 1"
      by (simp add: ym next_month_def month_first_def)
    then show ?thesis using march_first [OF yoe] doy(3) z by simp
  next
    case False
    then have "next_month y m = (yoe + era * 400 + (if mp + 1 < 10 then 0 else 1), if mp + 1 < 10 then mp + 1 + 3 else mp + 1 - 9)"
      using mp(2,3) by (auto simp: ym next_month_def)
    then have "month_first (next_month y m) = era * 146097 + year_start yoe + (153 * (mp + 1) + 2) div 5 - 719468"
      using of_civil_parts [OF yoe, of "mp + 1" era 1] mp(2,3) False by (simp add: month_first_def)
    then show ?thesis using nxt z by simp
  qed
qed


lemma civil_day: "civil z = (y, m, d) \<Longrightarrow> d \<le> 31"
proof (rule civil_parts [of z])
  fix era yoe doy mp
  assume c: "civil z = (y, m, d)" and doy: "0 \<le> doy" and mp: "mp = (5 * doy + 2) div 153"
    and e: "civil z = (yoe + era * 400 + (if mp < 10 then 0 else 1), if mp < 10 then mp + 3 else mp - 9, doy - (153 * mp + 2) div 5 + 1)"
  have "5 * doy + 2 < 153 * (mp + 1)"
    using mult_div_mod_eq [of 153 "5 * doy + 2"] pos_mod_bound [of 153 "5 * doy + 2"] unfolding mp by simp
  then have "(5 * doy + 5) div 5 \<le> (153 * mp + 2 + 31 * 5) div 5" by (intro zdiv_mono1) auto
  also have "(153 * mp + 2 + 31 * 5) div 5 = 31 + (153 * mp + 2) div 5" by (rule div_mult_self1) simp
  finally show ?thesis using c e by simp
qed

text \<open>Months in a row, numbered through: each begins after the one before, so no day lies in two.\<close>

definition month_no :: "int \<Rightarrow> int \<Rightarrow> int" where
  "month_no y m = 12 * y + (m - 1)"

definition month_at :: "int \<Rightarrow> int \<times> int" where
  "month_at k = (k div 12, k mod 12 + 1)"

lemma month_at_no: "1 \<le> m \<Longrightarrow> m \<le> 12 \<Longrightarrow> month_at (month_no y m) = (y, m)"
  by (simp add: month_at_def month_no_def)

lemma next_month_no: "1 \<le> m \<Longrightarrow> m \<le> 12 \<Longrightarrow> next_month y m = month_at (month_no y m + 1)"
  by (auto simp: next_month_def month_at_def month_no_def)

lemma prev_month_no: "1 \<le> m \<Longrightarrow> m \<le> 12 \<Longrightarrow> prev_month y m = month_at (month_no y m - 1)"
proof (cases "m = 1")
  case True
  have "month_at ((y - 1) * 12 + 11) = (y - 1, 12)" by (simp add: month_at_def del: left_diff_distrib_numeral)
  moreover have "month_no y m - 1 = (y - 1) * 12 + 11" using True by (simp add: month_no_def)
  ultimately show ?thesis using True by (simp only:) (simp add: prev_month_def)
next
  case False
  assume "1 \<le> m" "m \<le> 12"
  moreover have "month_no y m - 1 = y * 12 + (m - 2)" by (simp add: month_no_def)
  ultimately show ?thesis using False by (simp only: month_at_def) (simp add: prev_month_def)
qed

lemma year_end_after:
  assumes "0 \<le> yoe" "yoe < 400" shows "year_start yoe + 365 \<le> year_end yoe"
proof (cases "yoe = 399")
  case False
  obtain a b c where y: "yoe = 100 * c + 4 * a + b" "0 \<le> a" "a < 25" "0 \<le> b" "b < 4" "0 \<le> c" "c < 4"
    "year_start yoe = 36524 * c + 1461 * a + 365 * b" by (rule year_shape [OF assms])
  have "yoe div 100 = c" "yoe div 4 = 25 * c + a" using y(1-7) by (auto intro!: div_at)
  moreover have "(yoe + 1) div 4 - (yoe + 1) div 100 \<ge> 24 * c + a"
  proof (cases "b = 3 \<and> a = 24")
    case True
    then have "yoe + 1 = (c + 1) * 100" using y(1) by simp
    then show ?thesis using True by simp
  next
    case False
    have "(yoe + 1) div 100 = c" by (rule div_at [where s = "4 * a + b + 1"]) (use y(1-7) False in auto)
    moreover have "yoe div 4 \<le> (yoe + 1) div 4" by (intro zdiv_mono1) auto
    ultimately show ?thesis using \<open>yoe div 4 = 25 * c + a\<close> by simp
  qed
  ultimately show ?thesis using False by (simp add: year_end_def year_start_def)
qed (simp add: year_end_def year_start_def)

lemma month_follows: "1 \<le> m \<Longrightarrow> m \<le> 12 \<Longrightarrow> month_first (y, m) < month_first (next_month y m)"
proof -
  assume m: "1 \<le> m" "m \<le> 12"
  define y' where "y' = (if m \<le> 2 then y - 1 else y)"
  define mp where "mp = (if m \<le> 2 then m + 9 else m - 3)"
  define yoe where "yoe = y' mod 400"
  define era where "era = y' div 400"
  have y: "y = yoe + era * 400 + (if mp < 10 then 0 else 1)" "m = (if mp < 10 then mp + 3 else mp - 9)"
    using m by (auto simp: yoe_def era_def y'_def mp_def)
  have yoe: "0 \<le> yoe" "yoe < 400" and mp: "0 \<le> mp" "mp \<le> 11" using m by (auto simp: yoe_def mp_def)
  have mf: "month_first (y, m) = era * 146097 + year_start yoe + (153 * mp + 2) div 5 - 719468"
    unfolding y month_first_def fst_conv snd_conv by (simp add: of_civil_parts [OF yoe mp])
  show ?thesis
  proof (cases "mp = 11")
    case True
    then have "month_first (next_month y m) = of_civil (yoe + era * 400 + 1) 3 1"
      by (simp add: y next_month_def month_first_def)
    then show ?thesis using march_first [OF yoe] year_end_after [OF yoe] mf True by simp
  next
    case False
    then have "next_month y m = (yoe + era * 400 + (if mp + 1 < 10 then 0 else 1), if mp + 1 < 10 then mp + 1 + 3 else mp + 1 - 9)"
      using mp by (auto simp: y next_month_def)
    then have "month_first (next_month y m) = era * 146097 + year_start yoe + (153 * (mp + 1) + 2) div 5 - 719468"
      using of_civil_parts [OF yoe, of "mp + 1" era 1] mp False by (simp add: month_first_def)
    moreover have "(153 * mp + 2 + 1 * 5) div 5 \<le> (153 * (mp + 1) + 2) div 5" by (intro zdiv_mono1) auto
    ultimately show ?thesis using mf by simp
  qed
qed

lemma months_increase: "i < j \<Longrightarrow> month_first (month_at i) < month_first (month_at j)"
proof -
  have step: "month_first (month_at k) < month_first (month_at (k + 1))" for k
    using month_follows [of "k mod 12 + 1" "k div 12"] next_month_no [of "k mod 12 + 1" "k div 12"]
      pos_mod_bound [of 12 k] by (simp add: month_at_def month_no_def)
  have "month_first (month_at i) < month_first (month_at (i + 1 + int n))" for n
  proof (induction n)
    case (Suc n)
    then show ?case using step [of "i + 1 + int n"] by (simp add: algebra_simps)
  qed (simp add: step)
  from this [of "nat (j - i - 1)"] show "i < j \<Longrightarrow> ?thesis" by simp
qed

lemma months_mono: "i \<le> j \<Longrightarrow> month_first (month_at i) \<le> month_first (month_at j)"
  using months_increase [of i j] by (cases "i = j") auto

lemma civil_month: "civil z = (y, m, d) \<Longrightarrow> 1 \<le> m \<and> m \<le> 12"
  by (rule civil_parts [of z]) (auto split: if_splits)

lemma in_month:
  assumes "civil z = (y, m, d)" "1 \<le> m'" "m' \<le> 12"
  shows "month_first (y', m') \<le> z \<and> z < month_first (next_month y' m') \<longleftrightarrow> y' = y \<and> m' = m"
proof
  note c = month_contains [OF assms(1)] civil_month [OF assms(1)]
  define i where "i = month_no y m"
  define j where "j = month_no y' m'"
  assume h: "month_first (y', m') \<le> z \<and> z < month_first (next_month y' m')"
  have z: "month_first (month_at i) \<le> z" "z < month_first (month_at (i + 1))"
    "month_first (month_at j) \<le> z" "z < month_first (month_at (j + 1))"
    using c h assms(2,3) by (simp_all add: i_def j_def month_at_no flip: next_month_no)
  have "\<not> i + 1 \<le> j" "\<not> j + 1 \<le> i" using months_mono [of "i + 1" j] months_mono [of "j + 1" i] z by auto
  then have "i = j" by linarith
  then have "month_at i = month_at j" by simp
  then show "y' = y \<and> m' = m" using c(3) assms(2,3) by (simp add: i_def j_def month_at_no)
qed (use month_contains [OF assms(1)] in auto)

section \<open>Texts of dates\<close>

text \<open>The names \<open>strftime\<close> prints under the C locale; \<open>%Y\<close> is not padded (Python 3.12 on Linux).\<close>

definition MONTHS :: "string list" where
  "MONTHS = [''January'', ''February'', ''March'', ''April'', ''May'', ''June'', ''July'', ''August'', ''September'',
     ''October'', ''November'', ''December'']"

definition WEEKDAYS :: "string list" where
  "WEEKDAYS = [''Mon'', ''Tue'', ''Wed'', ''Thu'', ''Fri'', ''Sat'', ''Sun'']"

definition month_name :: "int \<Rightarrow> string" where
  "month_name m = MONTHS ! nat (m - 1)"

definition strf_a :: "date \<Rightarrow> string" where
  "strf_a z = WEEKDAYS ! nat (weekday z)"

definition strf_d_b :: "date \<Rightarrow> string" where
  "strf_d_b z = (case civil z of (y, m, d) \<Rightarrow> pad 2 d @ '' '' @ take 3 (month_name m))"

definition strf_d_b_Y :: "date \<Rightarrow> string" where
  "strf_d_b_Y z = strf_d_b z @ '' '' @ show_int (fst (civil z))"

definition strf_B_Y :: "date \<Rightarrow> string" where
  "strf_B_Y z = (case civil z of (y, m, d) \<Rightarrow> month_name m @ '' '' @ show_int y)"

section \<open>Reading a date\<close>

definition min_date :: date where "min_date = -719162"
definition max_date :: date where "max_date = 2932896"

lemma date_range: "of_civil 1 1 1 = min_date" "of_civil 9999 12 31 = max_date"
  by (simp_all add: of_civil_def min_date_def max_date_def)

definition valid_civil :: "int \<Rightarrow> int \<Rightarrow> int \<Rightarrow> bool" where
  "valid_civil y m d \<longleftrightarrow> 1 \<le> y \<and> y \<le> 9999 \<and> 1 \<le> m \<and> m \<le> 12 \<and> 1 \<le> d
     \<and> d \<le> month_first (next_month y m) - month_first (y, m)"

definition leap_year :: "int \<Rightarrow> bool" where
  "leap_year y \<longleftrightarrow> y mod 4 = 0 \<and> (y mod 100 \<noteq> 0 \<or> y mod 400 = 0)"

text \<open>The Monday of the first ISO week of a year, and the day of an ISO week.\<close>

definition iso_week1 :: "int \<Rightarrow> date" where
  "iso_week1 y = (let first = of_civil y 1 1; w = weekday first
     in first - w + (if 3 < w then 7 else 0))"

definition long_iso_year :: "int \<Rightarrow> bool" where
  "long_iso_year y \<longleftrightarrow> (let w = weekday (of_civil y 1 1) in w = 3 \<or> (w = 2 \<and> leap_year y))"

definition iso_week_day :: "int \<Rightarrow> int \<Rightarrow> int \<Rightarrow> date option" where
  "iso_week_day y w k =
     (if 1 \<le> y \<and> 1 \<le> w \<and> (w \<le> 52 \<or> (w = 53 \<and> long_iso_year y)) \<and> 1 \<le> k \<and> k \<le> 7
      then let z = iso_week1 y + (w - 1) * 7 + (k - 1) in if z \<le> max_date then Some z else None
      else None)"

text \<open>A number of exactly \<open>n\<close> digits at the front of a text.\<close>

definition digits_at :: "nat \<Rightarrow> string \<Rightarrow> (int \<times> string) option" where
  "digits_at n s = (if n \<le> length s \<and> list_all is_digit_char (take n s)
     then Some (foldl (\<lambda>a c. a * 10 + (int (char_code c) - 48)) 0 (take n s), drop n s) else None)"

text \<open>\<open>date.fromisoformat\<close> as CPython 3.12 reads it: \<open>YYYY-MM-DD\<close>, \<open>YYYYMMDD\<close> and the forms of ISO weeks, told
  apart by the characters after the year.  After the weekday digit nothing is looked at.\<close>

definition read_week :: "int \<Rightarrow> bool \<Rightarrow> string \<Rightarrow> date option" where
  "read_week y sep s = (case digits_at 2 s of
     None \<Rightarrow> None
   | Some (w, rest) \<Rightarrow>
       if rest = [] then iso_week_day y w 1
       else if sep \<and> hd rest \<noteq> CHR ''-'' then None
       else (case digits_at 1 (if sep then tl rest else rest) of
               None \<Rightarrow> None
             | Some (k, _) \<Rightarrow> iso_week_day y w k))"

definition read_month_day :: "int \<Rightarrow> bool \<Rightarrow> string \<Rightarrow> date option" where
  "read_month_day y sep s = (case digits_at 2 s of
     None \<Rightarrow> None
   | Some (m, rest) \<Rightarrow>
       if sep \<and> (rest = [] \<or> hd rest \<noteq> CHR ''-'') then None
       else (case digits_at 2 (if sep then tl rest else rest) of
               Some (d, []) \<Rightarrow> if valid_civil y m d then Some (of_civil y m d) else None
             | _ \<Rightarrow> None))"

definition fromisoformat :: "string \<Rightarrow> date option" where
  "fromisoformat s =
     (if length s \<notin> {7, 8, 10} then None
      else (case digits_at 4 s of
        None \<Rightarrow> None
      | Some (y, rest) \<Rightarrow>
          let sep = (hd rest = CHR ''-''); r = (if sep then tl rest else rest)
          in if r \<noteq> [] \<and> hd r = CHR ''W'' then read_week y sep (tl r) else read_month_day y sep r))"

lemma fromisoformat_examples:
  "fromisoformat ''2025-05-20'' = Some 20228" "fromisoformat ''20250520'' = Some 20228"
  "fromisoformat ''2025-W21-2'' = Some 20228" "fromisoformat ''2025W21'' = Some 20227"
  "fromisoformat ''2025-02-29'' = None" "fromisoformat ''2025-5-20'' = None"
  by code_simp+

lemma weekday_examples: "strf_a 20228 = ''Tue''" "strf_d_b_Y 20228 = ''20 May 2025''"
  by code_simp+

end
