(* ===== verification/AdminDesk.thy ===== *)
theory AdminDesk
  imports Shops Payments
begin

text \<open>
  The administrator's desk of \<open>store_ops_service\<close>: coupons, banners, payments and refunds, custom cakes, returns, stock
  alerts, customers and notifications (\<open>services/misc.py\<close>), the riders' accounts (\<open>delivery.py\<close>) and the bakery's
  settings (\<open>settings_ops.py\<close>).  Reports have their own theory, chats too; support tickets are left out.
\<close>

section \<open>Coupons and banners\<close>

definition desk_coupons :: "db \<Rightarrow> Coupon list" where
  "desk_coupons d = sort_key (\<lambda>c. - cp_created_at c) (rows (coupons d))"

record DeskCouponIn =
  dci_code :: string
  dci_title :: string
  dci_description :: "string option"
  dci_coupon_type :: string
  dci_value :: rat
  dci_min_order_amount :: rat
  dci_max_discount :: "rat option"
  dci_is_active :: bool

text \<open>The code is stored as it was sent.\<close>

definition desk_create_coupon :: "env \<Rightarrow> DeskCouponIn \<Rightarrow> db \<Rightarrow> (exc + Coupon) \<times> db" where
  "desk_create_coupon e b d =
     (if t_first (\<lambda>c. cp_code c = dci_code b) (coupons d) \<noteq> None then (Inl (PyExc ''IntegrityError''), d)
      else let c = (new_Coupon (env_now e) (dci_code b) (dci_title b))
                 \<lparr>cp_description := dci_description b, cp_coupon_type := dci_coupon_type b, cp_value := dci_value b,
                  cp_min_order_amount := dci_min_order_amount b, cp_max_discount := dci_max_discount b,
                  cp_is_active := dci_is_active b\<rparr>
           in (Inr (key_Coupon c d), add_Coupon c d))"

definition desk_banners :: "int option \<Rightarrow> db \<Rightarrow> Banner list" where
  "desk_banners shop_user_id d = sort_key bn_sort_order
     (t_all (\<lambda>b. truthy_id shop_user_id \<longrightarrow> bn_shop_user_id b = shop_user_id) (banners d))"

record BannerIn =
  bni_title :: string
  bni_subtitle :: "string option"
  bni_image_url :: string
  bni_link_type :: "string option"
  bni_link_value :: "string option"
  bni_is_active :: bool
  bni_sort_order :: int

definition desk_create_banner :: "env \<Rightarrow> BannerIn \<Rightarrow> db \<Rightarrow> Banner \<times> db" where
  "desk_create_banner e b d =
     (let r = (new_Banner (env_now e) (bni_title b) (bni_image_url b))
            \<lparr>bn_subtitle := bni_subtitle b, bn_link_type := bni_link_type b, bn_link_value := bni_link_value b,
             bn_is_active := bni_is_active b, bn_sort_order := bni_sort_order b\<rparr>
      in (key_Banner r d, add_Banner r d))"

section \<open>Payments\<close>

definition list_payments :: "db \<Rightarrow> Payment list" where
  "list_payments d = take 200 (sort_key (\<lambda>p. - pay_created_at p) (rows (payments d)))"

definition gateway_refund :: "gateway \<Rightarrow> string \<Rightarrow> rat \<Rightarrow> exc + json" where
  "gateway_refund g payment_id amount_inr =
     gw_call g ''Razorpay refund failed: '' (''/payments/'' @ payment_id @ ''/refund'')
       (JObj [(''amount'', JInt (gateway_paise amount_inr))])"

definition refunds_at_gateway :: "gateway \<Rightarrow> Payment \<Rightarrow> bool" where
  "refunds_at_gateway g p \<longleftrightarrow> pay_method p = Some PM_RAZORPAY \<and> truthy_str (pay_transaction_id p)
     \<and> starts_with ''pay_'' (the (pay_transaction_id p)) \<and> razorpay_configured g"

definition refunded_row :: "env \<Rightarrow> rat \<Rightarrow> json option \<Rightarrow> Payment \<Rightarrow> Payment" where
  "refunded_row e amt answer p =
     (let p1 = p\<lparr>pay_refund_amount := amt, pay_status := PS_REFUNDED, pay_updated_at := env_now e\<rparr>
      in case answer of None \<Rightarrow> p1
         | Some j \<Rightarrow> p1\<lparr>pay_gateway_response := Some (jset ''refund'' j
             (case pay_gateway_response p of Some (JObj kvs) \<Rightarrow> JObj kvs | _ \<Rightarrow> JObj []))\<rparr>)"

text \<open>An empty answer of the gateway is not kept.\<close>

definition desk_refund_payment :: "gateway \<Rightarrow> env \<Rightarrow> int \<Rightarrow> rat option \<Rightarrow> db \<Rightarrow> (exc + Payment) \<times> db" where
  "desk_refund_payment g e payment_id amount d = (case get_Payment d payment_id of
     None \<Rightarrow> (Inl (not_found ''Payment not found''), d)
   | Some p \<Rightarrow>
       let amt = (case amount of Some a \<Rightarrow> if a \<noteq> 0 then a else pay_amount p | None \<Rightarrow> pay_amount p) in
       if refunds_at_gateway g p
       then (case gateway_refund g (the (pay_transaction_id p)) amt of
           Inl ex \<Rightarrow> (Inl ex, d)
         | Inr j \<Rightarrow> let p2 = refunded_row e amt (if jtruthy j then Some j else None) p in (Inr p2, put_Payment p2 d))
       else let p2 = refunded_row e amt None p in (Inr p2, put_Payment p2 d))"

section \<open>Customers, cakes, returns, stock, notifications\<close>

definition customer_presence :: "db \<Rightarrow> int \<Rightarrow> exc + json" where
  "customer_presence d customer_id = (case get_User d customer_id of
     None \<Rightarrow> Inl (not_found ''Customer not found'')
   | Some u \<Rightarrow> Inr (JObj [(''user_id'', JInt (u_id u)), (''is_online'', JBool (u_is_online u)),
       (''last_seen_at'', jopt_time (u_last_seen_at u)), (''name'', jopt_str (u_name u)), (''phone'', JStr (u_phone u))]))"

definition list_custom_cakes :: "db \<Rightarrow> CustomCakeRequest list" where
  "list_custom_cakes d = sort_key (\<lambda>c. - cc_created_at c) (rows (cake_requests d))"

definition cake_notice :: "CustomCakeRequest \<Rightarrow> string" where
  "cake_notice r = (let q = or_zero (cc_quoted_price r); p = (if q \<noteq> 0 then q else or_zero (cc_estimated_price r))
     in if p \<noteq> 0 then ''Quoted price: '' @ rupee @ fmt0 p else ''Updated'')"

definition patch_custom_cake :: "env \<Rightarrow> int \<Rightarrow> string \<Rightarrow> rat option \<Rightarrow> db \<Rightarrow> (exc + CustomCakeRequest) \<times> db" where
  "patch_custom_cake e req_id status quoted_price d = (case get_CustomCakeRequest d req_id of
     None \<Rightarrow> (Inl (not_found ''Request not found''), d)
   | Some r \<Rightarrow> (case enum_of CustomCakeStatus_value CustomCakeStatus_members status of
       None \<Rightarrow> (Inl (PyExc ''ValueError''), d)
     | Some st \<Rightarrow>
         let r2 = r\<lparr>cc_status := st, cc_quoted_price := upd_opt quoted_price (cc_quoted_price r), cc_updated_at := env_now e\<rparr>;
             n = (new_Notification (env_now e) (cc_user_id r) (''Custom cake '' @ CustomCakeStatus_value st) (cake_notice r2))
                   \<lparr>n_type := NT_CUSTOM_CAKE, n_data := Some (JObj [(''id'', JInt (cc_id r))])\<rparr>
         in (Inr r2, add_Notification n (put_CustomCakeRequest r2 d))))"

definition desk_returns :: "db \<Rightarrow> ReturnRequest list" where
  "desk_returns d = sort_key (\<lambda>r. - rr_created_at r) (rows (return_requests d))"

record ReturnAdminIn =
  rai_status :: string
  rai_admin_response :: "string option option"
  rai_internal_note :: "string option option"
  rai_refund_amount :: "rat option option"

definition patch_return :: "int \<Rightarrow> ReturnAdminIn \<Rightarrow> db \<Rightarrow> (exc + ReturnRequest) \<times> db" where
  "patch_return return_id b d = (case get_ReturnRequest d return_id of
     None \<Rightarrow> (Inl (not_found ''Return not found''), d)
   | Some r \<Rightarrow>
       if rai_refund_amount b = Some None then (Inl (PyExc ''IntegrityError''), d)
       else let r2 = r\<lparr>rr_status := rai_status b, rr_admin_response := upd (rai_admin_response b) (rr_admin_response r),
                       rr_internal_note := upd (rai_internal_note b) (rr_internal_note r),
                       rr_refund_amount := upd_req (rai_refund_amount b) (rr_refund_amount r)\<rparr>
            in (Inr r2, put_ReturnRequest r2 d))"

definition stock_alerts :: "db \<Rightarrow> Product list \<times> Product list" where
  "stock_alerts d = (t_all (\<lambda>p. p_stock_status p = SS_LOW_STOCK) (products d),
     t_all (\<lambda>p. p_stock_status p = SS_OUT_OF_STOCK) (products d))"

definition list_customers :: "db \<Rightarrow> User list" where
  "list_customers d = sort_key (\<lambda>u. - u_created_at u) (t_all (\<lambda>u. u_role u = UR_CUSTOMER) (users d))"

definition desk_notifications :: "db \<Rightarrow> int \<Rightarrow> Notification list" where
  "desk_notifications d user_id = take 100 (sort_key (\<lambda>n. - n_created_at n) (t_all (\<lambda>n. n_user_id n = user_id) (notifications d)))"

definition mark_notifications_read :: "int \<Rightarrow> db \<Rightarrow> json \<times> db" where
  "mark_notifications_read user_id d =
     (JObj [(''ok'', JBool True), (''count'', JInt (int (unread d user_id)))],
      d\<lparr>notifications := (notifications d)\<lparr>rows :=
        map (\<lambda>n. if n_user_id n = user_id \<and> \<not> n_is_read n then n\<lparr>n_is_read := True\<rparr> else n) (rows (notifications d))\<rparr>\<rparr>)"

section \<open>Settings\<close>

definition get_settings_row :: "env \<Rightarrow> db \<Rightarrow> BakerySettings \<times> db" where
  "get_settings_row e d = (case t_first (\<lambda>_. True) (settings_rows d) of
     Some r \<Rightarrow> (r, d)
   | None \<Rightarrow> (key_BakerySettings (new_BakerySettings (env_now e)) d, add_BakerySettings (new_BakerySettings (env_now e)) d))"

record SettingsUpdateIn =
  sui_bakery_name :: "string option option"
  sui_owner_name :: "string option option"
  sui_phone :: "string option option"
  sui_email :: "string option option"
  sui_address :: "string option option"
  sui_upi_id :: "string option option"
  sui_delivery_charge :: "rat option option"
  sui_free_delivery_min :: "rat option option"
  sui_min_order_value :: "rat option option"
  sui_cod_enabled :: "bool option option"

text \<open>Every column here must have a value.\<close>

definition settings_null :: "SettingsUpdateIn \<Rightarrow> bool" where
  "settings_null b \<longleftrightarrow> Some None \<in> set [sui_bakery_name b, sui_owner_name b, sui_phone b, sui_email b, sui_address b, sui_upi_id b]
     \<or> Some None \<in> set [sui_delivery_charge b, sui_free_delivery_min b, sui_min_order_value b] \<or> sui_cod_enabled b = Some None"

definition settings_patched :: "env \<Rightarrow> SettingsUpdateIn \<Rightarrow> BakerySettings \<Rightarrow> BakerySettings" where
  "settings_patched e b r = r
     \<lparr>bs_bakery_name := upd_req (sui_bakery_name b) (bs_bakery_name r), bs_owner_name := upd_req (sui_owner_name b) (bs_owner_name r),
      bs_phone := upd_req (sui_phone b) (bs_phone r), bs_email := upd_req (sui_email b) (bs_email r),
      bs_address := upd_req (sui_address b) (bs_address r), bs_upi_id := upd_req (sui_upi_id b) (bs_upi_id r),
      bs_delivery_charge := upd_req (sui_delivery_charge b) (bs_delivery_charge r),
      bs_free_delivery_min := upd_req (sui_free_delivery_min b) (bs_free_delivery_min r),
      bs_min_order_value := upd_req (sui_min_order_value b) (bs_min_order_value r),
      bs_cod_enabled := upd_req (sui_cod_enabled b) (bs_cod_enabled r), bs_updated_at := env_now e\<rparr>"

definition patch_settings :: "env \<Rightarrow> SettingsUpdateIn \<Rightarrow> db \<Rightarrow> (exc + BakerySettings) \<times> db" where
  "patch_settings e b d = (case get_settings_row e d of
     (r, d1) \<Rightarrow> if settings_null b then (Inl (PyExc ''IntegrityError''), d1)
               else let r2 = settings_patched e b r in (Inr r2, put_BakerySettings r2 d1))"

end
