(* ===== verification/Forecast.thy ===== *)
theory Forecast
  imports FloatSum "HOL-Library.List_Lexorder"
begin

text \<open>
  \<open>forecast_service/app/services/forecast.py\<close> and its repository: demand by day and product, stock at
  risk, and the sales of one product over the last day, week or month.  A \<open>defaultdict\<close> that adds up is
  \<open>tally\<close>, an association list in the order of first use; nothing is lost in it (\<open>demand_adds_up\<close>).
\<close>

section \<open>Sums by key\<close>

fun bump :: "('v \<Rightarrow> 'v \<Rightarrow> 'v) \<Rightarrow> 'v \<Rightarrow> 'k \<Rightarrow> 'v \<Rightarrow> ('k \<times> 'v) list \<Rightarrow> ('k \<times> 'v) list" where
  "bump f z k v [] = [(k, f z v)]"
| "bump f z k v ((j, w) # kvs) = (if j = k then (j, f w v) # kvs else (j, w) # bump f z k v kvs)"

definition tally :: "('v \<Rightarrow> 'v \<Rightarrow> 'v) \<Rightarrow> 'v \<Rightarrow> ('k \<times> 'v) list \<Rightarrow> ('k \<times> 'v) list" where
  "tally f z xs = foldl (\<lambda>acc (k, v). bump f z k v acc) [] xs"

section \<open>Sales\<close>

definition period_days :: "string \<Rightarrow> int" where
  "period_days period = (if period = ''daily'' then 1 else if period = ''monthly'' then 30 else 7)"

definition sold_order :: "Order \<Rightarrow> bool" where
  "sold_order ord \<longleftrightarrow> o_payment_status ord = PS_PAID
     \<or> (starts_with ''b2b'' (o_order_type ord) \<and> o_status ord = OS_DELIVERED)"

definition sold_since :: "env \<Rightarrow> int \<Rightarrow> db \<Rightarrow> Order list" where
  "sold_since e days d = filter sold_order (t_all (\<lambda>ord. env_now e - us_days days \<le> o_created_at ord) (orders d))"

definition items_for_orders :: "db \<Rightarrow> Order list \<Rightarrow> OrderItem list" where
  "items_for_orders d ords = t_all (\<lambda>i. oi_order_id i \<in> o_id ` set ords) (order_items d)"

section \<open>Demand\<close>

record demand_report =
  dr_days :: int
  dr_series :: "(string \<times> rat) list"
  dr_top_skus :: "(string \<times> int) list"
  dr_projected_revenue :: rat

definition revenue_by_day :: "Order list \<Rightarrow> (string \<times> rat) list" where
  "revenue_by_day ords = tally fadd 0 (map (\<lambda>ord. (iso_date (utc_day (o_created_at ord)), o_final_amount ord)) ords)"

definition units_by_sku :: "OrderItem list \<Rightarrow> (string \<times> int) list" where
  "units_by_sku its = tally (+) 0 (map (\<lambda>i. (oi_product_name i, oi_quantity i)) its)"

text \<open>\<open>sorted(by_day.items())\<close>: the keys differ, so they decide; ISO dates compare as their bytes.\<close>

definition demand :: "env \<Rightarrow> string \<Rightarrow> db \<Rightarrow> demand_report" where
  "demand e period d =
     (let days = period_days period; paid = sold_since e days d; by_day = revenue_by_day paid;
          by_sku = units_by_sku (items_for_orders d paid);
          daily_avg = (if by_day = [] then 0
                       else fdiv (py_sum (map snd by_day)) (of_int (max (int (length by_day)) 1)))
      in \<lparr>dr_days = days, dr_series = map (\<lambda>(k, v). (k, round2 v)) (sort_key (\<lambda>p. map char_code (fst p)) by_day),
          dr_top_skus = take 20 (sort_key (\<lambda>p. - snd p) by_sku),
          dr_projected_revenue = round2 (fmul daily_avg (of_int days))\<rparr>)"

section \<open>Stock at risk\<close>

record risk_row =
  rk_product :: Product
  rk_velocity_per_day :: rat
  rk_days_of_cover :: "rat option"

definition risk_row_of :: "int \<Rightarrow> (int \<times> int) list \<Rightarrow> Product \<Rightarrow> risk_row" where
  "risk_row_of days sold p =
     (let n = (case map_of sold (p_id p) of Some q \<Rightarrow> q | None \<Rightarrow> 0);
          velocity = fdiv (of_int n) (of_int (max days 1))
      in \<lparr>rk_product = p, rk_velocity_per_day = round2 velocity,
          rk_days_of_cover = (if 0 < velocity then Some (round_dec 1 (fdiv (of_int (p_stock_qty p)) velocity)) else None)\<rparr>)"

definition at_risk :: "risk_row \<Rightarrow> bool" where
  "at_risk r \<longleftrightarrow> p_stock_status (rk_product r) = SS_OUT_OF_STOCK
     \<or> (case rk_days_of_cover r of None \<Rightarrow> False | Some x \<Rightarrow> x < 3)
     \<or> p_stock_qty (rk_product r)
        \<le> (if p_low_stock_threshold (rk_product r) = 0 then 5 else p_low_stock_threshold (rk_product r))"

definition units_by_product :: "OrderItem list \<Rightarrow> (int \<times> int) list" where
  "units_by_product its = tally (+) 0 (map (\<lambda>i. (oi_product_id i, oi_quantity i)) its)"

text \<open>The key \<open>(days is None, days or 0)\<close>: two stable sorts, the first component last.\<close>

definition stockout :: "env \<Rightarrow> string \<Rightarrow> db \<Rightarrow> risk_row list \<times> nat" where
  "stockout e period d =
     (let days = period_days period;
          sold = units_by_product (items_for_orders d (sold_since e days d));
          risk = filter at_risk (map (risk_row_of days sold) (t_all p_is_active (products d)));
          ranked = sort_key (\<lambda>r. rk_days_of_cover r = None) (sort_key (\<lambda>r. or_zero (rk_days_of_cover r)) risk)
      in (take 50 ranked, length risk))"

section \<open>One product\<close>

record sku_report =
  sk_name :: "string option"
  sk_units_sold :: int
  sk_avg_per_day :: rat

definition sku_forecast :: "env \<Rightarrow> int \<Rightarrow> string \<Rightarrow> db \<Rightarrow> sku_report" where
  "sku_forecast e product_id period d =
     (let days = period_days period;
          qty = sum_list (map oi_quantity (filter (\<lambda>i. oi_product_id i = product_id)
                  (items_for_orders d (sold_since e days d))))
      in \<lparr>sk_name = map_option p_name (get_Product d product_id), sk_units_sold = qty,
          sk_avg_per_day = round2 (fdiv (of_int qty) (of_int (max days 1)))\<rparr>)"

section \<open>Nothing is lost\<close>

lemma bump_keys: "map fst (bump f z k v kvs) = (if k \<in> fst ` set kvs then map fst kvs else map fst kvs @ [k])"
  by (induction kvs) (auto simp: rev_image_eqI)

lemma bump_value:
  "distinct (map fst kvs) \<Longrightarrow> map_of (bump (+) (0::int) k v kvs) j
     = (if j = k then Some ((case map_of kvs k of Some w \<Rightarrow> w | None \<Rightarrow> 0) + v) else map_of kvs j)"
  by (induction kvs) auto

definition units_of :: "'k \<Rightarrow> ('k \<times> int) list \<Rightarrow> int" where
  "units_of k xs = sum_list (map snd (filter (\<lambda>p. fst p = k) xs))"

lemma tally_snoc: "tally f z (xs @ [(k, v)]) = bump f z k v (tally f z xs)"
  by (simp add: tally_def)

lemma tally_keys: "distinct (map fst (tally f z xs)) \<and> fst ` set (tally f z xs) = fst ` set xs"
proof (induction xs rule: rev_induct)
  case (snoc p xs)
  obtain k v where "p = (k, v)" by force
  with snoc show ?case
    using bump_keys [of f z k v "tally f z xs"] by (auto simp: tally_snoc simp flip: set_map)
qed (simp add: tally_def)

lemma tally_value:
  "map_of (tally (+) (0::int) xs) k = (if k \<in> fst ` set xs then Some (units_of k xs) else None)"
proof (induction xs rule: rev_induct)
  case (snoc p xs)
  obtain j v where p: "p = (j, v)" by force
  have "filter (\<lambda>p. fst p = j) xs = []" if "j \<notin> fst ` set xs"
    using that by (force simp: filter_empty_conv)
  then have none: "units_of j xs = 0" if "j \<notin> fst ` set xs" using that by (simp add: units_of_def)
  have "map_of (tally (+) 0 (xs @ [p])) k
      = (if k = j then Some ((case map_of (tally (+) 0 xs) j of Some w \<Rightarrow> w | None \<Rightarrow> 0) + v) else map_of (tally (+) 0 xs) k)"
    using tally_keys [of "(+)" 0 xs] unfolding p tally_snoc by (simp add: bump_value)
  with snoc none show ?case by (auto simp: p units_of_def)
qed (simp add: tally_def)

text \<open>The units of a product that the stock report counts are those of the items of the orders
  sold in the period, the same number the product's own report gives; a product it does not list sold none.\<close>

theorem demand_adds_up:
  "(case map_of (units_by_product (items_for_orders d (sold_since e (period_days period) d))) k of Some q \<Rightarrow> q | None \<Rightarrow> 0)
     = sk_units_sold (sku_forecast e k period d)
   \<and> distinct (map fst (units_by_sku (items_for_orders d (sold_since e (period_days period) d))))
   \<and> sum_list (map snd (units_by_sku (items_for_orders d (sold_since e (period_days period) d))))
     = sum_list (map oi_quantity (items_for_orders d (sold_since e (period_days period) d)))"
proof -
  define its where "its = items_for_orders d (sold_since e (period_days period) d)"
  have u: "units_of k (map (\<lambda>i. (oi_product_id i, oi_quantity i)) its)
      = sum_list (map oi_quantity (filter (\<lambda>i. oi_product_id i = k) its))"
    by (simp add: units_of_def filter_map comp_def)
  have none: "sum_list (map oi_quantity (filter (\<lambda>i. oi_product_id i = k) its)) = 0" if "k \<notin> oi_product_id ` set its"
  proof -
    have "filter (\<lambda>i. oi_product_id i = k) its = []" using that by (auto simp: filter_empty_conv)
    then show ?thesis by simp
  qed
  have one: "(case map_of (units_by_product its) k of Some q \<Rightarrow> q | None \<Rightarrow> 0) = sk_units_sold (sku_forecast e k period d)"
    using u none by (auto simp: units_by_product_def tally_value sku_forecast_def Let_def its_def image_image)
  have "sum_list (map snd (tally (+) 0 xs)) = sum_list (map snd xs)" for xs :: "(string \<times> int) list"
  proof (induction xs rule: rev_induct)
    case (snoc p xs)
    have "sum_list (map snd (bump (+) 0 k v kvs)) = sum_list (map snd kvs) + v" for k v and kvs :: "(string \<times> int) list"
      by (induction kvs) auto
    with snoc show ?case by (cases p) (simp add: tally_snoc)
  qed (simp add: tally_def)
  then have "sum_list (map snd (units_by_sku its)) = sum_list (map oi_quantity its)"
    by (simp add: units_by_sku_def comp_def)
  then show ?thesis using one tally_keys [of "(+)" 0 "map (\<lambda>i. (oi_product_name i, oi_quantity i)) its"]
    by (simp add: its_def [symmetric] units_by_sku_def)
qed

end
