(* ===== verification/Reports.thy ===== *)
theory Reports
  imports AdminDesk Forecast "HOL-Library.Multiset"
begin

text \<open>
  \<open>reports\<close> of \<open>store_ops_service/app/services/misc.py\<close>: sales, cost, profit and the tables by rider, shop and customer of
  a period.  A dictionary of buckets filled by \<open>setdefault\<close> is an association list in the order of first use.
\<close>

section \<open>Buckets\<close>

fun fill :: "'k \<Rightarrow> 'b \<Rightarrow> ('b \<Rightarrow> 'b) \<Rightarrow> ('k \<times> 'b) list \<Rightarrow> ('k \<times> 'b) list" where
  "fill k b0 f [] = [(k, f b0)]"
| "fill k b0 f ((j, b) # kvs) = (if j = k then (j, f b) # kvs else (j, b) # fill k b0 f kvs)"

lemma fill_measure:
  assumes "\<And>b. (mu (f b) :: int) = mu b + c" "mu b0 = 0"
  shows "sum_list (map (mu \<circ> snd) (fill k b0 f kvs)) = sum_list (map (mu \<circ> snd) kvs) + c"
  using assms by (induction kvs) auto

lemma fill_keys: "fst ` set (fill k b0 f kvs) = insert k (fst ` set kvs)"
proof (induction kvs)
  case (Cons p kvs)
  then show ?case by (cases p) auto
qed simp

lemma fill_distinct: "distinct (map fst kvs) \<Longrightarrow> distinct (map fst (fill k b0 f kvs))"
proof (induction kvs)
  case (Cons p kvs)
  then show ?case by (cases p) (auto simp: fill_keys)
qed simp

section \<open>Orders and their lines\<close>

text \<open>A payment on delivery counts as paid for a shop's order only.\<close>

definition report_sold :: "Order \<Rightarrow> bool" where
  "report_sold r \<longleftrightarrow> o_payment_status r = PS_PAID \<or> (o_order_type r = ''b2b_shop_order'' \<and> o_status r = OS_DELIVERED)"

definition lines_of :: "db \<Rightarrow> Order \<Rightarrow> OrderItem list" where
  "lines_of d r = t_all (\<lambda>i. oi_order_id i = o_id r) (order_items d)"

text \<open>The cost of a unit: what was noted with the line, else the product's purchase cost, else nothing.\<close>

definition line_cost :: "db \<Rightarrow> OrderItem \<Rightarrow> rat" where
  "line_cost d i = (let c = oi_unit_cost i in
     if 0 < c then c else (case get_Product d (oi_product_id i) of None \<Rightarrow> 0 | Some p \<Rightarrow> or_zero (p_purchase_cost p)))"

definition line_cogs :: "db \<Rightarrow> OrderItem \<Rightarrow> rat" where
  "line_cogs d i = fmul (line_cost d i) (fl (of_int (oi_quantity i)))"

definition line_margin :: "db \<Rightarrow> OrderItem \<Rightarrow> rat" where
  "line_margin d i = fsub (oi_total_price i) (line_cogs d i)"

text \<open>The margin in the table of riders takes the noted cost only.\<close>

definition noted_margin :: "rat \<Rightarrow> OrderItem \<Rightarrow> rat" where
  "noted_margin acc i = round2 (fsub (fadd acc (oi_total_price i)) (fmul (oi_unit_cost i) (fl (of_int (oi_quantity i)))))"

definition units_sold_by_name :: "OrderItem list \<Rightarrow> (string \<times> int) list" where
  "units_sold_by_name is = tally (+) 0 (map (\<lambda>i. (oi_product_name i, oi_quantity i)) is)"

section \<open>Riders\<close>

record rider_bucket =
  rb_rider_id :: int
  rb_name :: string
  rb_trips :: int
  rb_trip_cost :: rat
  rb_order_revenue :: rat
  rb_item_margin :: rat

definition trip_price :: "db \<Rightarrow> int \<Rightarrow> rat" where
  "trip_price d k = (case get_DeliveryPerson d k of Some p \<Rightarrow> dp_default_trip_cost p | None \<Rightarrow> 40)"

definition delivered_by :: "Order \<Rightarrow> int option" where
  "delivered_by r = (if o_status r = OS_DELIVERED \<and> truthy_id (o_delivery_person_id r) then o_delivery_person_id r else None)"

definition rider_trip :: "db \<Rightarrow> int \<Rightarrow> Order \<Rightarrow> rider_bucket \<Rightarrow> rider_bucket" where
  "rider_trip d k r b = b\<lparr>rb_trips := rb_trips b + 1, rb_trip_cost := round2 (fadd (rb_trip_cost b) (trip_price d k)),
     rb_order_revenue := round2 (fadd (rb_order_revenue b) (o_final_amount r)),
     rb_item_margin := foldl noted_margin (rb_item_margin b) (lines_of d r)\<rparr>"

definition new_rider_bucket :: "db \<Rightarrow> int \<Rightarrow> rider_bucket" where
  "new_rider_bucket d k = \<lparr>rb_rider_id = k, rb_name = (case get_DeliveryPerson d k of Some p \<Rightarrow> dp_name p | None \<Rightarrow> ''Rider''),
     rb_trips = 0, rb_trip_cost = 0, rb_order_revenue = 0, rb_item_margin = 0\<rparr>"

definition rider_tally :: "db \<Rightarrow> (int \<times> rider_bucket) list \<Rightarrow> Order \<Rightarrow> (int \<times> rider_bucket) list" where
  "rider_tally d acc r = (case delivered_by r of None \<Rightarrow> acc | Some k \<Rightarrow> fill k (new_rider_bucket d k) (rider_trip d k r) acc)"

definition rider_buckets :: "db \<Rightarrow> Order list \<Rightarrow> (int \<times> rider_bucket) list" where
  "rider_buckets d rs = foldl (rider_tally d) [] rs"

definition rider_costs :: "db \<Rightarrow> Order list \<Rightarrow> rat" where
  "rider_costs d rs = foldl (\<lambda>acc r. case delivered_by r of None \<Rightarrow> acc | Some k \<Rightarrow> fadd acc (trip_price d k)) 0 rs"

definition contribution :: "rider_bucket \<Rightarrow> rat" where
  "contribution b = round2 (fsub (rb_item_margin b) (rb_trip_cost b))"

section \<open>Buyers\<close>

record buyer_bucket =
  bb_user_id :: int
  bb_name :: string
  bb_orders :: int
  bb_revenue :: rat
  bb_margin :: rat

definition is_b2b_order :: "Order \<Rightarrow> bool" where
  "is_b2b_order r \<longleftrightarrow> starts_with ''b2b'' (o_order_type r)"

definition buyer_name :: "db \<Rightarrow> Order \<Rightarrow> string" where
  "buyer_name d r =
     (let u = get_User d (o_user_id r);
          name = or_str (Option.bind u u_name) (case u of Some x \<Rightarrow> u_phone x | None \<Rightarrow> show_int (o_user_id r))
      in if is_b2b_order r then or_str (map_option rp_shop_name (profile_of d (o_user_id r))) name else name)"

definition order_margin :: "db \<Rightarrow> Order \<Rightarrow> rat" where
  "order_margin d r = foldl (\<lambda>acc i. fadd acc (line_margin d i)) 0 (lines_of d r)"

definition buyer_order :: "db \<Rightarrow> Order \<Rightarrow> buyer_bucket \<Rightarrow> buyer_bucket" where
  "buyer_order d r b = b\<lparr>bb_orders := bb_orders b + 1, bb_revenue := round2 (fadd (bb_revenue b) (o_final_amount r)),
     bb_margin := round2 (fadd (bb_margin b) (order_margin d r))\<rparr>"

definition new_buyer_bucket :: "db \<Rightarrow> Order \<Rightarrow> buyer_bucket" where
  "new_buyer_bucket d r = \<lparr>bb_user_id = o_user_id r, bb_name = buyer_name d r, bb_orders = 0, bb_revenue = 0, bb_margin = 0\<rparr>"

definition buyer_step :: "db \<Rightarrow> (int \<times> buyer_bucket) list \<Rightarrow> Order \<Rightarrow> (int \<times> buyer_bucket) list" where
  "buyer_step d acc r = fill (o_user_id r) (new_buyer_bucket d r) (buyer_order d r) acc"

definition buyer_buckets :: "db \<Rightarrow> Order list \<Rightarrow> (int \<times> buyer_bucket) list" where
  "buyer_buckets d rs = foldl (buyer_step d) [] rs"

section \<open>The report\<close>

record sales_report =
  sr_sales_total :: rat
  sr_order_count :: nat
  sr_payment_count :: nat
  sr_return_count :: nat
  sr_gst_total :: rat
  sr_cogs :: rat
  sr_item_margin :: rat
  sr_delivery_revenue :: rat
  sr_rider_cost :: rat
  sr_gross_profit :: rat
  sr_net_profit :: rat
  sr_collections :: rat
  sr_purchase_spend :: rat
  sr_purchase_paid :: rat
  sr_payable_outstanding :: rat
  sr_product_sales :: "(string \<times> int) list"
  sr_by_rider :: "rider_bucket list"
  sr_by_retailer :: "buyer_bucket list"
  sr_by_customer :: "buyer_bucket list"

definition desc_by :: "('b \<Rightarrow> rat) \<Rightarrow> ('k \<times> 'b) list \<Rightarrow> 'b list" where
  "desc_by f kvs = rev (sort_key f (rev (map snd kvs)))"

definition report :: "env \<Rightarrow> string \<Rightarrow> db \<Rightarrow> sales_report" where
  "report e period d =
     (let since = env_now e - us_days (period_days period);
          ords = t_all (\<lambda>r. since \<le> o_created_at r) (orders d);
          sold = filter report_sold ords;
          lines = concat (map (lines_of d) sold);
          margin = round2 (foldl (\<lambda>acc i. fadd acc (line_margin d i)) 0 lines);
          delivery = round2 (py_sum (map o_delivery_fee sold));
          rider_cost = round2 (rider_costs d ords);
          gross = round2 (fadd margin delivery);
          bought = t_all (\<lambda>p. since \<le> po_created_at p) (purchases d)
      in \<lparr>sr_sales_total = round2 (py_sum (map o_final_amount sold)), sr_order_count = length ords,
          sr_payment_count = length (t_all (\<lambda>p. since \<le> pay_created_at p) (payments d)),
          sr_return_count = length (t_all (\<lambda>r. since \<le> rr_created_at r) (return_requests d)),
          sr_gst_total = round2 (py_sum (map o_gst_amount ords)),
          sr_cogs = round2 (foldl (\<lambda>acc i. fadd acc (line_cogs d i)) 0 lines), sr_item_margin = margin,
          sr_delivery_revenue = delivery, sr_rider_cost = rider_cost, sr_gross_profit = gross,
          sr_net_profit = round2 (fsub gross rider_cost),
          sr_collections = round2 (py_sum (map le_amount (t_all (\<lambda>l. since \<le> le_created_at l \<and> le_entry_type l = ''credit'') (ledger_entries d)))),
          sr_purchase_spend = round2 (py_sum (map po_total bought)), sr_purchase_paid = round2 (py_sum (map po_paid_amount bought)),
          sr_payable_outstanding = round2 (py_sum (map rp_payable_balance (rows (profiles d)))),
          sr_product_sales = units_sold_by_name (t_all (\<lambda>i. oi_order_id i \<in> o_id ` set ords) (order_items d)),
          sr_by_rider = desc_by contribution (rider_buckets d ords),
          sr_by_retailer = desc_by bb_margin (buyer_buckets d (filter is_b2b_order sold)),
          sr_by_customer = take 40 (desc_by bb_margin (buyer_buckets d (filter (\<lambda>r. \<not> is_b2b_order r) sold)))\<rparr>)"

section \<open>Nothing is lost in the tables\<close>

definition fills :: "('r \<Rightarrow> 'k option) \<Rightarrow> ('k \<Rightarrow> 'r \<Rightarrow> 'b) \<Rightarrow> ('k \<Rightarrow> 'r \<Rightarrow> 'b \<Rightarrow> 'b) \<Rightarrow> ('k \<times> 'b) list \<Rightarrow> 'r \<Rightarrow> ('k \<times> 'b) list" where
  "fills k b0 f acc r = (case k r of None \<Rightarrow> acc | Some j \<Rightarrow> fill j (b0 j r) (f j r) acc)"

lemma fills_count:
  fixes mu :: "'b \<Rightarrow> int"
  assumes "\<And>j r b. mu (f j r b) = mu b + 1" "\<And>j r. mu (b0 j r) = 0"
  shows "sum_list (map (mu \<circ> snd) (foldl (fills k b0 f) kvs rs))
     = sum_list (map (mu \<circ> snd) kvs) + int (length (filter (\<lambda>r. k r \<noteq> None) rs))"
  by (induction rs arbitrary: kvs) (auto simp: fills_def fill_measure [OF assms(1,2)] split: option.split)

lemma fills_distinct: "distinct (map fst kvs) \<Longrightarrow> distinct (map fst (foldl (fills k b0 f) kvs rs))"
  by (induction rs arbitrary: kvs) (auto simp: fills_def fill_distinct split: option.split)

lemma fills_named:
  assumes "\<And>j r b. nm (f j r b) = nm b" "\<And>j r. nm (b0 j r) = j" "list_all (\<lambda>(j, b). nm b = j) kvs"
  shows "list_all (\<lambda>(j, b). nm b = j) (foldl (fills k b0 f) kvs rs)"
proof -
  have "list_all (\<lambda>(j, b). nm b = j) xs \<Longrightarrow> list_all (\<lambda>(j, b). nm b = j) (fill i (b0 i r) (f i r) xs)" for i r xs
    using assms(1,2) by (induction xs) auto
  then show ?thesis using assms(3) by (induction rs arbitrary: kvs) (auto simp: fills_def split: option.split)
qed

lemma rider_buckets_fills: "rider_buckets d rs = foldl (fills delivered_by (\<lambda>k r. new_rider_bucket d k) (rider_trip d)) [] rs"
  by (simp add: rider_buckets_def rider_tally_def [abs_def] fills_def [abs_def])

lemma buyer_buckets_fills:
  "buyer_buckets d rs = foldl (fills (\<lambda>r. Some (o_user_id r)) (\<lambda>k r. new_buyer_bucket d r) (\<lambda>k r. buyer_order d r)) [] rs"
  by (simp add: buyer_buckets_def buyer_step_def [abs_def] fills_def [abs_def])

lemma sum_desc_by: "sum_list (map mu (desc_by f kvs)) = sum_list (map (mu \<circ> snd) kvs)" for mu :: "'b \<Rightarrow> int"
proof -
  have "mset (desc_by f kvs) = mset (map snd kvs)" by (simp add: desc_by_def)
  then have "mset (map mu (desc_by f kvs)) = mset (map (mu \<circ> snd) kvs)" by (metis list.map_comp mset_map)
  then show ?thesis by (metis sum_mset_sum_list)
qed

lemma distinct_desc_by:
  assumes "distinct (map fst kvs)" "list_all (\<lambda>(j, b). nm b = j) kvs" shows "distinct (map nm (desc_by f kvs))"
proof -
  have "map fst kvs = map nm (map snd kvs)" using assms(2) by (auto simp: list_all_iff)
  moreover have "mset (map nm (desc_by f kvs)) = mset (map nm (map snd kvs))" by (simp add: desc_by_def multiset.map_comp)
  ultimately show ?thesis using assms(1) by (metis mset_eq_imp_distinct_iff)
qed

text \<open>In a report every trip of a delivered order is counted once, under its rider, and
  every order sold once, under its buyer; no rider and no buyer has two rows.  Only the table of customers is cut,
  after forty rows.\<close>

theorem report_adds_up:
  "let rep = report e period d;
       ords = t_all (\<lambda>r. env_now e - us_days (period_days period) \<le> o_created_at r) (orders d);
       sold = filter report_sold ords;
       customers = desc_by bb_margin (buyer_buckets d (filter (\<lambda>r. \<not> is_b2b_order r) sold))
   in sum_list (map rb_trips (sr_by_rider rep)) = int (length (filter (\<lambda>r. delivered_by r \<noteq> None) ords))
      \<and> distinct (map rb_rider_id (sr_by_rider rep))
      \<and> sum_list (map bb_orders (sr_by_retailer rep)) + sum_list (map bb_orders customers) = int (length sold)
      \<and> distinct (map bb_user_id (sr_by_retailer rep)) \<and> distinct (map bb_user_id customers)
      \<and> sr_by_customer rep = take 40 customers"
proof -
  have riders: "sum_list (map (rb_trips \<circ> snd) (rider_buckets d rs)) = int (length (filter (\<lambda>r. delivered_by r \<noteq> None) rs))" for rs
    unfolding rider_buckets_fills by (subst fills_count) (simp_all add: rider_trip_def new_rider_bucket_def)
  have buyers: "sum_list (map (bb_orders \<circ> snd) (buyer_buckets d rs)) = int (length rs)" for rs
    unfolding buyer_buckets_fills by (subst fills_count) (simp_all add: buyer_order_def new_buyer_bucket_def)
  have once: "distinct (map rb_rider_id (desc_by contribution (rider_buckets d rs)))"
    "distinct (map bb_user_id (desc_by bb_margin (buyer_buckets d rs)))" for rs
  proof -
    show "distinct (map rb_rider_id (desc_by contribution (rider_buckets d rs)))"
      unfolding rider_buckets_fills
      by (rule distinct_desc_by [OF fills_distinct fills_named]) (simp_all add: rider_trip_def new_rider_bucket_def)
    have "foldl (fills (\<lambda>r. Some (o_user_id r)) (\<lambda>k r. new_buyer_bucket d r) (\<lambda>k r. buyer_order d r)) kvs rs
        = foldl (fills (\<lambda>r. Some (o_user_id r)) (\<lambda>k r. (new_buyer_bucket d r)\<lparr>bb_user_id := k\<rparr>) (\<lambda>k r. buyer_order d r)) kvs rs" for kvs
      by (induction rs arbitrary: kvs) (simp_all add: fills_def new_buyer_bucket_def)
    then show "distinct (map bb_user_id (desc_by bb_margin (buyer_buckets d rs)))"
      unfolding buyer_buckets_fills
      by (simp only:) (rule distinct_desc_by [OF fills_distinct fills_named], simp_all add: buyer_order_def)
  qed
  have halves: "length (filter P xs) + length (filter (\<lambda>x. \<not> P x) xs) = length xs" for P and xs :: "Order list"
    by (rule sum_length_filter_compl)
  show ?thesis
    unfolding Let_def
    by (simp add: report_def Let_def sum_desc_by riders buyers once halves del: filter_filter flip: of_nat_add)
qed

end
