(* ===== verification/Analytics.thy ===== *)
theory Analytics
  imports Calendar Reports Chats Sell
begin

text \<open>
  \<open>store_ops_service/app/services/analytics.py\<close>: a shop's sales of a day, a week or a month with the period before it, the
  chart of the period in windows of four hours or of a day, the busiest window, the best products and categories, and
  the advice derived from them.
\<close>

section \<open>The period\<close>

definition PERIODS :: "string list" where
  "PERIODS = [''daily'', ''weekly'', ''monthly'']"

definition analytics_shop :: "db \<Rightarrow> User \<Rightarrow> exc + RetailerProfile" where
  "analytics_shop d user = (case profile_of d (u_id user) of
     None \<Rightarrow> Inl (not_found ''Shop profile not found'') | Some p \<Rightarrow> Inr p)"

definition parse_anchor :: "env \<Rightarrow> string option \<Rightarrow> exc + date" where
  "parse_anchor e raw =
     (if \<not> truthy_str raw then Inr (utc_today e)
      else (case fromisoformat (py_take 10 (the raw)) of
              Some z \<Rightarrow> Inr z
            | None \<Rightarrow> Inl (bad_request ''anchor must be YYYY-MM-DD'')))"

record period_span =
  sp_start :: datetime
  sp_end :: datetime
  sp_prev_start :: datetime
  sp_prev_end :: datetime
  sp_label :: string

text \<open>Days outside the years 1 to 9999 overflow: \<open>timedelta\<close> arithmetic and the \<open>date\<close> constructor raise.\<close>

definition day_exists :: "date \<Rightarrow> bool" where
  "day_exists z \<longleftrightarrow> min_date \<le> z \<and> z \<le> max_date"

definition en_dash :: string where "en_dash = map char_of [226, 128, 147 :: nat]"

definition span_of :: "date \<Rightarrow> date \<Rightarrow> date \<Rightarrow> string \<Rightarrow> period_span" where
  "span_of start stop prev label = \<lparr>sp_start = us_days start, sp_end = us_days stop, sp_prev_start = us_days prev,
     sp_prev_end = us_days start, sp_label = label\<rparr>"

definition daily_bounds :: "date \<Rightarrow> exc + period_span" where
  "daily_bounds z =
     (if \<not> day_exists (z + 1) \<or> \<not> day_exists (z - 1) then Inl (PyExc ''OverflowError'')
      else Inr (span_of z (z + 1) (z - 1) (strf_d_b_Y z @ '', '' @ strf_a z)))"

definition weekly_bounds :: "date \<Rightarrow> exc + period_span" where
  "weekly_bounds z =
     (let first = z - weekday z;
          last = utc_day (us_days (first + 7) - us_seconds 1)
      in if \<not> day_exists first \<or> \<not> day_exists (first + 7) \<or> \<not> day_exists (first - 7) then Inl (PyExc ''OverflowError'')
         else Inr (span_of first (first + 7) (first - 7) (strf_d_b first @ '' '' @ en_dash @ '' '' @ strf_d_b_Y last)))"

definition monthly_bounds :: "date \<Rightarrow> exc + period_span" where
  "monthly_bounds z = (case civil z of (y, m, _) \<Rightarrow>
     let (y1, m1) = next_month y m; (y0, m0) = prev_month y m
     in if 9999 < y1 \<or> y0 < 1 then Inl (PyExc ''ValueError'')
        else Inr (span_of (month_first (y, m)) (month_first (y1, m1)) (month_first (y0, m0)) (strf_B_Y z)))"

definition period_bounds :: "string \<Rightarrow> date \<Rightarrow> exc + period_span" where
  "period_bounds period z =
     (if period = ''daily'' then daily_bounds z
      else if period = ''weekly'' then weekly_bounds z
      else monthly_bounds z)"

section \<open>Orders of a period\<close>

definition between :: "(Order \<Rightarrow> datetime) \<Rightarrow> datetime \<times> datetime \<Rightarrow> Order \<Rightarrow> bool" where
  "between f w r \<longleftrightarrow> fst w \<le> f r \<and> f r < snd w"

definition orders_between :: "db \<Rightarrow> int \<Rightarrow> datetime \<Rightarrow> datetime \<Rightarrow> Order list" where
  "orders_between d shop start stop = sort_key o_created_at
     (t_all (\<lambda>r. o_shop_user_id r = Some shop \<and> between o_created_at (start, stop) r) (orders d))"

definition is_sale :: "Order \<Rightarrow> bool" where
  "is_sale r \<longleftrightarrow> o_status r \<notin> {OS_CANCELLED, OS_REJECTED}"

section \<open>The chart\<close>

record bucket =
  bk_label :: string
  bk_amount :: rat
  bk_hour :: "int option"
  bk_day :: "string option"

text \<open>The windows of the chart; those of a month are counted in a loop up to its end.\<close>

function days_until :: "datetime \<Rightarrow> datetime \<Rightarrow> (datetime \<times> datetime) list" where
  "days_until cur stop = (if cur < stop then (cur, cur + us_days 1) # days_until (cur + us_days 1) stop else [])"
  by pat_completeness auto
termination by (relation "measure (\<lambda>(cur, stop). nat (stop - cur))") (auto simp: us_days_def)

declare days_until.simps [simp del]

definition chart_windows :: "string \<Rightarrow> datetime \<Rightarrow> datetime \<Rightarrow> (datetime \<times> datetime) list" where
  "chart_windows period start stop =
     (if period = ''daily'' then map (\<lambda>h. (start + us_hours h, start + us_hours h + us_hours 4)) [0, 4, 8, 12, 16, 20]
      else if period = ''weekly'' then map (\<lambda>i. (start + us_days i, start + us_days i + us_days 1)) [0, 1, 2, 3, 4, 5, 6]
      else days_until start stop)"

definition hour_label :: "int \<Rightarrow> string" where
  "hour_label x = (let h = x mod 24; h12 = h mod 12
     in show_int (if h12 = 0 then 12 else h12) @ '' '' @ (if h < 12 then ''AM'' else ''PM''))"

definition hour_of :: "datetime \<Rightarrow> int" where
  "hour_of t = t mod us_days 1 div us_hours 1"

definition window_amount :: "Order list \<Rightarrow> datetime \<times> datetime \<Rightarrow> rat" where
  "window_amount sales w = round2 (py_sum (map o_final_amount (filter (between o_created_at w) sales)))"

definition bucket_of :: "string \<Rightarrow> Order list \<Rightarrow> datetime \<times> datetime \<Rightarrow> bucket" where
  "bucket_of period sales w =
     (if period = ''daily''
      then \<lparr>bk_label = hour_label (hour_of (fst w)), bk_amount = window_amount sales w, bk_hour = Some (hour_of (fst w)), bk_day = None\<rparr>
      else \<lparr>bk_label = (if period = ''weekly'' then strf_a (utc_day (fst w)) else show_int (snd (snd (civil (utc_day (fst w)))))),
            bk_amount = window_amount sales w, bk_hour = None, bk_day = Some (iso_date (utc_day (fst w)))\<rparr>)"

definition bucket_series :: "string \<Rightarrow> datetime \<Rightarrow> datetime \<Rightarrow> Order list \<Rightarrow> bucket list" where
  "bucket_series period start stop ords = map (bucket_of period (filter is_sale ords)) (chart_windows period start stop)"

section \<open>The busiest window\<close>

record peak =
  pk_label :: string
  pk_amount :: rat
  pk_index :: nat

text \<open>\<open>max(range(n), key=...)\<close>: the first index of a largest value.\<close>

fun argmax :: "rat list \<Rightarrow> nat" where
  "argmax [] = 0"
| "argmax [x] = 0"
| "argmax (x # y # ys) = (let j = argmax (y # ys) in if x < (y # ys) ! j then Suc j else 0)"

definition peak_window :: "bucket list \<Rightarrow> string \<Rightarrow> peak option" where
  "peak_window series period =
     (if series = [] then None
      else let i = argmax (map bk_amount series); b = series ! i
           in if bk_amount b \<le> 0 then None
              else if period = ''daily''
              then let h = or_zero_int (bk_hour b)
                   in Some \<lparr>pk_label = hour_label h @ '' '' @ en_dash @ '' '' @ hour_label (h + 4), pk_amount = bk_amount b, pk_index = i\<rparr>
              else Some \<lparr>pk_label = bk_label b, pk_amount = bk_amount b, pk_index = i\<rparr>)"

section \<open>Products and categories\<close>

record product_sales =
  ps_product_id :: int
  ps_product_name :: string
  ps_qty :: int
  ps_amount :: rat

definition lines_in :: "db \<Rightarrow> int list \<Rightarrow> OrderItem list" where
  "lines_in d ids = t_all (\<lambda>i. oi_order_id i \<in> set ids) (order_items d)"

definition product_step :: "(int \<times> product_sales) list \<Rightarrow> OrderItem \<Rightarrow> (int \<times> product_sales) list" where
  "product_step acc i = fill (oi_product_id i)
     \<lparr>ps_product_id = oi_product_id i, ps_product_name = oi_product_name i, ps_qty = 0, ps_amount = 0\<rparr>
     (\<lambda>row. row\<lparr>ps_qty := ps_qty row + oi_quantity i, ps_amount := round2 (fadd (ps_amount row) (oi_total_price i))\<rparr>) acc"

text \<open>The name of a line's category; \<open>''Other''\<close> for a product or a category that is gone or nameless.\<close>

definition category_name :: "db \<Rightarrow> OrderItem \<Rightarrow> string" where
  "category_name d i =
     (let p = (if oi_product_id i = 0 then None else get_Product d (oi_product_id i))
      in or_str (case p of None \<Rightarrow> None | Some q \<Rightarrow> map_option cat_name (get_Category d (p_category_id q))) ''Other'')"

definition line_totals :: "db \<Rightarrow> int list \<Rightarrow> product_sales list \<times> (string \<times> rat) list" where
  "line_totals d ids =
     (if ids = [] then ([], [])
      else let is = lines_in d ids;
               by_product = foldl product_step [] is;
               by_cat = tally fadd 0 (map (\<lambda>i. (category_name d i, oi_total_price i)) is)
           in (take 8 (desc_by ps_amount by_product),
               map (\<lambda>(name, amt). (name, round2 amt)) (rev (sort_key snd (rev by_cat)))))"

section \<open>Advice\<close>

record insight =
  is_id :: string
  is_title :: string
  is_body :: string
  is_badge :: string
  is_tone :: string

text \<open>\<open>f"{x:,.0f}"\<close>: a comma before every group of three digits.\<close>

fun group_digits :: "string \<Rightarrow> string" where
  "group_digits (a # b # c # d # ds) = a # b # c # CHR '','' # group_digits (d # ds)"
| "group_digits ds = ds"

definition fmt0_commas :: "rat \<Rightarrow> string" where
  "fmt0_commas x = (if x < 0 then ''-'' else []) @ rev (group_digits (rev (show_nat (nat \<bar>rne x\<bar>))))"

definition inr :: "rat \<Rightarrow> string" where
  "inr v = rupee @ fmt0_commas v"

record stock_row =
  sk_product_id :: int
  sk_name :: string
  sk_stock_qty :: int

definition insights :: "rat \<Rightarrow> rat option \<Rightarrow> peak option \<Rightarrow> product_sales list \<Rightarrow> stock_row list \<Rightarrow> insight list" where
  "insights amount chg pk top_products low_stock =
     (let mult = (if 0 \<le> or_zero chg then fl (108 / 100) else fl (95 / 100));
          lo = round_dec 0 (fmul (fmul amount mult) (fl (95 / 100)));
          hi = round_dec 0 (fmul (fmul amount mult) (fl (108 / 100)));
          badge = (if 10 \<le> or_zero chg then ''High Growth'' else ''Steady'');
          forecast = (if 0 < amount
            then [\<lparr>is_id = ''forecast'', is_title = ''Sales Forecast'',
                   is_body = ''Next period outlook '' @ inr lo @ '' '' @ en_dash @ '' '' @ inr hi @ '' based on current pace.'',
                   is_badge = badge, is_tone = (if badge = ''High Growth'' then ''success'' else ''neutral'')\<rparr>] else []);
          busy = (case pk of
              None \<Rightarrow> []
            | Some p \<Rightarrow> if pk_label p = [] then []
                else [\<lparr>is_id = ''peak'', is_title = ''Best-selling Time'',
                       is_body = ''Peak window '' @ pk_label p @ '' '' @ middot @ '' '' @ inr (pk_amount p) @ '' in that slot.'',
                       is_badge = ''Peak'', is_tone = ''ember''\<rparr>]);
          top = (if top_products = [] then []
            else [\<lparr>is_id = ''top'', is_title = ''Top performers'',
                   is_body = ''Leaders this period: '' @ join '', '' (map ps_product_name (take 3 top_products)) @ ''. Keep these stocked.'',
                   is_badge = ''Demand'', is_tone = ''ember''\<rparr>]);
          stock = (if low_stock = [] then []
            else [\<lparr>is_id = ''stock'', is_title = ''Stock Recommendations'',
                   is_body = ''Restock '' @ show_nat (length low_stock) @ '' product'' @ (if length low_stock \<noteq> 1 then ''s'' else [])
                     @ '' running low.'',
                   is_badge = ''Action Suggested'', is_tone = ''info''\<rparr>]);
          out = forecast @ busy @ top @ stock
      in if out = []
         then [\<lparr>is_id = ''empty'', is_title = ''Getting started'',
                is_body = ''Sales insights appear after your shop records customer orders.'', is_badge = ''Tip'', is_tone = ''neutral''\<rparr>]
         else take 4 out)"

section \<open>The page\<close>

record analytics_view =
  av_period :: string
  av_anchor :: string
  av_label :: string
  av_granularity :: string
  av_total_sales :: rat
  av_order_count :: nat
  av_prev_total :: rat
  av_change_pct :: "rat option"
  av_compare_label :: string
  av_series :: "bucket list"
  av_peak :: "peak option"
  av_top_products :: "product_sales list"
  av_categories :: "(string \<times> rat) list"
  av_gst_collected :: rat
  av_gst_avg_per_order :: rat
  av_returns_count :: nat
  av_returns_amount :: rat
  av_delivered :: nat
  av_delivery_fees :: rat
  av_delivery_pending :: nat
  av_sku_count :: nat
  av_low_stock :: "stock_row list"
  av_insights :: "insight list"

definition sales_total :: "Order list \<Rightarrow> rat" where
  "sales_total rs = round2 (py_sum (map o_final_amount rs))"

definition change_pct :: "rat \<Rightarrow> rat \<Rightarrow> rat option" where
  "change_pct amount prev =
     (if 0 < prev then Some (round_dec 1 (fmul (fdiv (fsub amount prev) prev) 100))
      else if 0 < amount then Some 100 else None)"

definition low_stock_rows :: "Product list \<Rightarrow> stock_row list" where
  "low_stock_rows ps = take 12 (map (\<lambda>p. \<lparr>sk_product_id = p_id p, sk_name = p_name p, sk_stock_qty = p_stock_qty p\<rparr>)
     (filter (\<lambda>p. p_stock_qty p \<le> (if p_low_stock_threshold p = 0 then 5 else p_low_stock_threshold p)) ps))"

text \<open>The shop's own products, none when the seller's checks refuse it (a lapsed plan is written down all the same).\<close>

definition my_catalog :: "env \<Rightarrow> User \<Rightarrow> db \<Rightarrow> Product list \<times> db" where
  "my_catalog e user d = (case list_my_products e user d of (Inl _, d1) \<Rightarrow> ([], d1) | (Inr ps, d1) \<Rightarrow> (ps, d1))"

definition analytics_of :: "string \<Rightarrow> date \<Rightarrow> period_span \<Rightarrow> User \<Rightarrow> Product list \<Rightarrow> db \<Rightarrow> analytics_view" where
  "analytics_of period day sp user catalog d =
     (let cur = orders_between d (u_id user) (sp_start sp) (sp_end sp);
          sales = filter is_sale cur;
          prev = filter is_sale (orders_between d (u_id user) (sp_prev_start sp) (sp_prev_end sp));
          cancelled = filter (\<lambda>r. \<not> is_sale r) cur;
          amount = sales_total sales; prev_total = sales_total prev;
          chg = change_pct amount prev_total;
          series = bucket_series period (sp_start sp) (sp_end sp) cur;
          pk = peak_window series period;
          (top, categories) = line_totals d (map o_id sales);
          gst = round2 (py_sum (map o_gst_amount sales));
          low = low_stock_rows catalog
      in \<lparr>av_period = period, av_anchor = iso_date day, av_label = sp_label sp,
          av_granularity = (if period = ''daily'' then ''By Hour'' else ''By Day''),
          av_total_sales = amount, av_order_count = length sales, av_prev_total = prev_total, av_change_pct = chg,
          av_compare_label = (if period = ''daily'' then ''vs Yesterday'' else if period = ''weekly'' then ''vs Last week'' else ''vs Last month''),
          av_series = series, av_peak = pk, av_top_products = top, av_categories = categories,
          av_gst_collected = gst,
          av_gst_avg_per_order = (if sales = [] then 0 else round2 (fdiv gst (of_nat (length sales)))),
          av_returns_count = length cancelled, av_returns_amount = sales_total cancelled,
          av_delivered = length (filter (\<lambda>r. o_status r = OS_DELIVERED) sales),
          av_delivery_fees = round2 (py_sum (map o_delivery_fee sales)),
          av_delivery_pending = length (filter (\<lambda>r. o_status r \<in> {OS_PLACED, OS_ACCEPTED, OS_PREPARING, OS_PACKED, OS_OUT_FOR_DELIVERY}) sales),
          av_sku_count = length catalog, av_low_stock = low,
          av_insights = insights amount chg pk top low\<rparr>)"

definition shop_analytics :: "env \<Rightarrow> User \<Rightarrow> string \<Rightarrow> string option \<Rightarrow> db \<Rightarrow> (exc + analytics_view) \<times> db" where
  "shop_analytics e user period0 anchor d =
     (let period = str_lower (strip (if period0 = [] then ''daily'' else period0)) in
      if period \<notin> set PERIODS then (Inl (bad_request ''period must be daily, weekly, or monthly''), d)
      else (case analytics_shop d user of
        Inl ex \<Rightarrow> (Inl ex, d)
      | Inr _ \<Rightarrow> (case parse_anchor e anchor of
          Inl ex \<Rightarrow> (Inl ex, d)
        | Inr day \<Rightarrow> (case period_bounds period day of
            Inl ex \<Rightarrow> (Inl ex, d)
          | Inr sp \<Rightarrow> (case my_catalog e user d of (catalog, d1) \<Rightarrow>
              (Inr (analytics_of period day sp user catalog d), d1))))))"

end
