(* ===== verification/AnalyticsLaws.thy ===== *)
theory AnalyticsLaws
  imports Analytics PurchaseText "HOL-Library.Multiset"
begin

text \<open>
  The analytics page: a period is the day, week or calendar month of its anchor and the one before it
  (\<open>period_is_calendar\<close>), the windows of the chart share the period's sales out and add up to the headline total
  (\<open>chart_adds_up\<close>), and the anchor it prints is read back (\<open>anchor_read_back\<close>).
\<close>

section \<open>Weeks\<close>

definition week_of :: "date \<Rightarrow> date" where
  "week_of z = z - weekday z"

lemma week_of_range: "week_of z = w \<longleftrightarrow> weekday w = 0 \<and> w \<le> z \<and> z < w + 7"
proof
  assume "week_of z = w"
  then show "weekday w = 0 \<and> w \<le> z \<and> z < w + 7"
    using week_start [of z] weekday_bounds [of z] by (auto simp: week_of_def)
next
  assume w: "weekday w = 0 \<and> w \<le> z \<and> z < w + 7"
  then have "(w + 3) mod 7 = 0" by (simp add: weekday_def)
  then obtain k where "w + 3 = 7 * k" by (auto simp: mod_eq_0_iff_dvd elim: dvdE)
  with w show "week_of z = w" unfolding week_of_def weekday_def by presburger
qed

section \<open>The period of a day\<close>

definition period_of :: "string \<Rightarrow> date \<Rightarrow> date \<times> int" where
  "period_of period z =
     (if period = ''daily'' then (z, 0)
      else if period = ''weekly'' then (week_of z, 0)
      else (case civil z of (y, m, _) \<Rightarrow> (y, m)))"

lemma utc_day_range: "us_days a \<le> t \<and> t < us_days b \<longleftrightarrow> a \<le> utc_day t \<and> utc_day t < b"
proof -
  have t: "t = us_days (utc_day t) + t mod us_days 1" "0 \<le> t mod us_days 1" "t mod us_days 1 < us_days 1"
    by (simp_all add: utc_day_def us_days_def)
  have le: "us_days c \<le> t \<longleftrightarrow> c \<le> utc_day t" for c
  proof
    assume "us_days c \<le> t"
    then have "us_days c < us_days (utc_day t + 1)" using t by (simp add: us_days_def)
    then show "c \<le> utc_day t" by (simp add: us_days_def)
  next
    assume "c \<le> utc_day t"
    then have "us_days c \<le> us_days (utc_day t)" by (simp add: us_days_def)
    then show "us_days c \<le> t" using t(1,2) by linarith
  qed
  show ?thesis using le [of a] le [of b] by auto
qed

lemma utc_day_us [simp]: "utc_day (us_days z) = z"
  by (simp add: utc_day_def us_days_def)

text \<open>What a span's four ends have to be.\<close>

definition calendar_span :: "string \<Rightarrow> date \<Rightarrow> date \<Rightarrow> date \<Rightarrow> date \<Rightarrow> bool" where
  "calendar_span period z a b p \<longleftrightarrow> p < a \<and> (\<forall>k. a \<le> k \<and> k < b \<longleftrightarrow> period_of period k = period_of period z)
     \<and> (\<forall>k. p \<le> k \<and> k < a \<longleftrightarrow> period_of period k = period_of period (a - 1))"

lemma daily_span: "calendar_span ''daily'' z z (z + 1) (z - 1)"
  by (auto simp: calendar_span_def period_of_def)

lemma weekly_span: "calendar_span ''weekly'' z (week_of z) (week_of z + 7) (week_of z - 7)"
proof -
  define w where "w = week_of z"
  have w: "weekday w = 0" "weekday (w - 7) = 0"
    using week_start [of z] mod_diff_right_eq [of "w + 3" 7 "7 :: int"] by (simp_all add: w_def week_of_def weekday_def)
  have "period_of ''weekly'' k = period_of ''weekly'' z \<longleftrightarrow> week_of k = w" for k by (simp add: period_of_def w_def)
  moreover have "week_of (w - 1) = w - 7" by (simp add: week_of_range w)
  then have "period_of ''weekly'' k = period_of ''weekly'' (w - 1) \<longleftrightarrow> week_of k = w - 7" for k by (simp add: period_of_def)
  ultimately show ?thesis unfolding calendar_span_def w_def [symmetric] by (simp add: week_of_range w)
qed

lemma monthly_span:
  assumes c: "civil z = (y, m, d)"
  shows "calendar_span ''monthly'' z (month_first (y, m)) (month_first (next_month y m)) (month_first (prev_month y m))"
proof -
  have m: "1 \<le> m" "m \<le> 12" using civil_month [OF c] by auto
  have of: "period_of ''monthly'' k = (y', m') \<longleftrightarrow> month_first (y', m') \<le> k \<and> k < month_first (next_month y' m')"
    if "1 \<le> m'" "m' \<le> 12" for k y' m'
    by (cases "civil k") (use in_month [OF _ that] in \<open>force simp: period_of_def\<close>)
  obtain y0 m0 where p: "prev_month y m = (y0, m0)" by force
  have p': "1 \<le> m0" "m0 \<le> 12" "next_month y0 m0 = (y, m)"
    using p m by (auto simp: prev_month_def next_month_def split: if_splits)
  have less: "month_first (y0, m0) < month_first (y, m)" using month_follows [OF p'(1,2), of y0] p'(3) by simp
  then have before: "period_of ''monthly'' (month_first (y, m) - 1) = (y0, m0)" by (simp add: of p')
  have here: "period_of ''monthly'' z = (y, m)" using c by (simp add: period_of_def)
  show ?thesis unfolding calendar_span_def p before here using less by (simp add: of [OF m] of [OF p'(1,2)] p'(3))
qed

lemma period_bounds_span:
  assumes "period_bounds period z = Inr sp" "period \<in> set PERIODS"
  obtains a b p label where "sp = span_of a b p label" "calendar_span period z a b p"
proof -
  obtain y m d where c: "civil z = (y, m, d)" by (rule prod_cases3)
  show ?thesis
    using assms that daily_span [of z] weekly_span [of z] monthly_span [OF c]
    by (auto simp: period_bounds_def daily_bounds_def weekly_bounds_def monthly_bounds_def PERIODS_def Let_def c
        week_of_def [symmetric] split: if_splits prod.splits)
qed

text \<open>Property C40 (period_is_calendar): an instant lies in the period of an anchor exactly when its day is the anchor's day, lies
  in the week of the same Monday, or in the same month of the same year; and in the period compared with exactly when its day
  shares that with the day before the period, where the two meet.\<close>

theorem period_is_calendar:
  assumes "period_bounds period z = Inr sp" "period \<in> set PERIODS"
  shows "(sp_start sp \<le> t \<and> t < sp_end sp \<longleftrightarrow> period_of period (utc_day t) = period_of period z)
    \<and> (sp_prev_start sp \<le> t \<and> t < sp_prev_end sp \<longleftrightarrow> period_of period (utc_day t) = period_of period (utc_day (sp_start sp) - 1))
    \<and> sp_prev_start sp < sp_prev_end sp \<and> sp_prev_end sp = sp_start sp"
proof -
  obtain a b p label where "sp = span_of a b p label" "calendar_span period z a b p" by (rule period_bounds_span [OF assms])
  then show ?thesis by (simp add: span_of_def utc_day_range calendar_span_def) (simp add: us_days_def)
qed

theorem period_is_calendar_witness:
  "\<exists>sp. period_bounds ''monthly'' 20228 = Inr sp \<and> sp_label sp = ''May 2025''
     \<and> (sp_start sp \<le> us_days 20200 \<and> us_days 20200 < sp_end sp
        \<longleftrightarrow> period_of ''monthly'' (utc_day (us_days 20200)) = period_of ''monthly'' 20228)"
proof -
  have "map_sum id sp_label (period_bounds ''monthly'' 20228) = Inr ''May 2025''" by code_simp
  then obtain sp where sp: "period_bounds ''monthly'' 20228 = Inr sp" "sp_label sp = ''May 2025''"
    by (cases "period_bounds ''monthly'' 20228") auto
  have "''monthly'' \<in> set PERIODS" by (simp add: PERIODS_def)
  with period_is_calendar [OF sp(1), of "us_days 20200"] sp show ?thesis by blast
qed

section \<open>The chart\<close>

text \<open>Windows laid end to end.\<close>

fun abutting :: "datetime \<Rightarrow> (datetime \<times> datetime) list \<Rightarrow> datetime \<Rightarrow> bool" where
  "abutting a [] b \<longleftrightarrow> a = b"
| "abutting a (w # ws) b \<longleftrightarrow> fst w = a \<and> a \<le> snd w \<and> abutting (snd w) ws b"

lemma abutting_le: "abutting a ws b \<Longrightarrow> a \<le> b"
  by (induction ws arbitrary: a) force+

lemma abutting_partition:
  "abutting a ws b \<Longrightarrow> mset (concat (map (\<lambda>w. filter (between f w) rs) ws)) = mset (filter (between f (a, b)) rs)"
proof (induction ws arbitrary: a)
  case Nil
  then show ?case by (simp add: between_def)
next
  case (Cons w ws)
  then have w: "fst w = a" "a \<le> snd w" "snd w \<le> b" by (auto dest: abutting_le)
  have "filter_mset (between f (a, b)) M = filter_mset (between f w) M + filter_mset (between f (snd w, b)) M" for M
    using w by (induction M) (auto simp: between_def)
  with Cons show ?case by simp
qed

lemma days_until_abutting: "a \<le> b \<Longrightarrow> abutting (us_days a) (days_until (us_days a) (us_days b)) (us_days b)"
proof (induction "nat (b - a)" arbitrary: a)
  case 0
  then show ?case by (simp add: days_until.simps)
next
  case (Suc n)
  then have "us_days a < us_days b" "us_days a + us_days 1 = us_days (a + 1)" "us_days a \<le> us_days (a + 1)"
    by (simp_all add: us_days_def)
  then show ?case using Suc by (subst days_until.simps) simp
qed

lemma chart_windows_abutting:
  assumes "period_bounds period z = Inr sp" "period \<in> set PERIODS"
  shows "abutting (sp_start sp) (chart_windows period (sp_start sp) (sp_end sp)) (sp_end sp)"
proof -
  obtain y m d where c: "civil z = (y, m, d)" by (rule prod_cases3)
  have "month_first (y, m) \<le> month_first (next_month y m)" using month_contains [OF c] by simp
  from days_until_abutting [OF this] show ?thesis
    using assms by (auto simp: period_bounds_def daily_bounds_def weekly_bounds_def monthly_bounds_def PERIODS_def Let_def c
        span_of_def chart_windows_def us_days_def us_hours_def split: if_splits prod.splits)
qed

lemma windows_share_sales:
  assumes "period_bounds period z = Inr sp" "period \<in> set PERIODS"
    "sales = filter is_sale (orders_between d uid (sp_start sp) (sp_end sp))"
  shows "mset (concat (map (\<lambda>w. filter (between o_created_at w) sales) (chart_windows period (sp_start sp) (sp_end sp)))) = mset sales"
proof -
  have "filter (between o_created_at (sp_start sp, sp_end sp)) sales = sales"
    by (rule filter_True) (auto simp: assms(3) orders_between_def t_all_def)
  then show ?thesis by (simp add: abutting_partition [OF chart_windows_abutting [OF assms(1,2)]])
qed

lemma window_amount_exact:
  assumes "list_all (\<lambda>r. 0 \<le> paise r \<and> o_final_amount r = cents (paise r)) rs"
    "sum_list (map paise rs) \<le> cart_bound" "length rs \<le> 1000"
  shows "round2 (py_sum (map o_final_amount (filter P rs))) = cents (sum_list (map paise (filter P rs)))"
proof -
  have "map o_final_amount (filter P rs) = map cents (map paise (filter P rs))" using assms(1) by (auto simp: list_all_iff)
  moreover have "sum_list (map paise (filter P rs)) \<le> sum_list (map paise rs)"
    using assms(1) by (induction rs) auto
  moreover have "list_all (\<lambda>n. 0 \<le> n) (map paise (filter P rs))" using assms(1) by (auto simp: list_all_iff)
  moreover have "length (map paise (filter P rs)) \<le> 1000" using le_trans [OF length_filter_le assms(3)] by (simp only: length_map)
  ultimately show ?thesis using assms(2) by (simp only:) (intro round2_py_sum, auto)
qed

lemma analytics_of_chart:
  "av_series (analytics_of period z sp user catalog d)
     = bucket_series period (sp_start sp) (sp_end sp) (orders_between d (u_id user) (sp_start sp) (sp_end sp))"
  "av_total_sales (analytics_of period z sp user catalog d)
     = sales_total (filter is_sale (orders_between d (u_id user) (sp_start sp) (sp_end sp)))"
  by (simp_all add: analytics_of_def Let_def split: prod.split)

text \<open>Property C39 (chart_adds_up): every sale of the period stands in exactly one window of the chart; and for at most a thousand
  sales of whole paise below the bound the windows' amounts are whole paise that add up to the headline total, to the paisa.\<close>

theorem chart_adds_up:
  assumes "period_bounds period z = Inr sp" "period \<in> set PERIODS"
    "sales = filter is_sale (orders_between d (u_id user) (sp_start sp) (sp_end sp))"
    "list_all (\<lambda>r. 0 \<le> paise r \<and> o_final_amount r = cents (paise r)) sales"
    "sum_list (map paise sales) \<le> cart_bound" "length sales \<le> 1000"
  shows "let v = analytics_of period z sp user catalog d;
             shares = map (\<lambda>w. filter (between o_created_at w) sales) (chart_windows period (sp_start sp) (sp_end sp));
             ns = map (\<lambda>rs. sum_list (map paise rs)) shares
         in mset (concat shares) = mset sales \<and> map bk_amount (av_series v) = map cents ns
            \<and> av_total_sales v = cents (sum_list ns)"
proof -
  define ws where "ws = chart_windows period (sp_start sp) (sp_end sp)"
  define shares where "shares = map (\<lambda>w. filter (between o_created_at w) sales) ws"
  define ns where "ns = map (\<lambda>rs. sum_list (map paise rs)) shares"
  have parts: "mset (concat shares) = mset sales" unfolding shares_def ws_def by (rule windows_share_sales [OF assms(1-3)])
  then have "mset (map paise (concat shares)) = mset (map paise sales)" by simp
  then have "sum_list (map paise (concat shares)) = sum_list (map paise sales)" by (metis sum_mset_sum_list)
  moreover have "sum_list (map paise (concat xs)) = sum_list (map (\<lambda>rs. sum_list (map paise rs)) xs)" for xs by (induction xs) auto
  ultimately have ns: "sum_list ns = sum_list (map paise sales)" by (simp add: ns_def)
  have amounts: "map bk_amount (bucket_series period (sp_start sp) (sp_end sp) (orders_between d (u_id user) (sp_start sp) (sp_end sp)))
      = map cents ns"
    unfolding ns_def shares_def ws_def bucket_series_def assms(3) [symmetric]
    by (simp add: bucket_of_def window_amount_def window_amount_exact [OF assms(4-6)])
  have "sales_total sales = cents (sum_list (map paise sales))"
    using window_amount_exact [OF assms(4-6), of "\<lambda>_. True"] by (simp add: sales_total_def)
  then show ?thesis
    using parts amounts unfolding Let_def ws_def [symmetric] shares_def [symmetric] ns_def [symmetric] analytics_of_chart
      assms(3) [symmetric] ns by simp
qed

definition chart_order :: "int \<Rightarrow> int \<Rightarrow> int \<Rightarrow> Order" where
  "chart_order k hour paise = (new_Order (us_days 20228 + us_hours hour) (show_int k) 5)\<lparr>o_id := k, o_shop_user_id := Some 7,
     o_final_amount := cents paise\<rparr>"

definition chart_db :: db where
  "chart_db = empty_db\<lparr>orders := \<lparr>rows = [chart_order 1 17 12550, chart_order 2 9 4999, (chart_order 3 10 900)\<lparr>o_status := OS_CANCELLED\<rparr>],
     next_id = 4\<rparr>\<rparr>"

definition chart_user :: User where
  "chart_user = (new_User 0 ''9876543210'')\<lparr>u_id := 7, u_role := UR_RETAILER\<rparr>"

lemma chart_sales:
  "filter is_sale (orders_between chart_db (u_id chart_user) (us_days 20228) (us_days 20229)) = [chart_order 2 9 4999, chart_order 1 17 12550]"
  by (simp add: orders_between_def t_all_def chart_db_def chart_order_def chart_user_def new_User_def new_Order_def between_def
      is_sale_def us_days_def us_hours_def empty_db_def)

theorem chart_adds_up_witness:
  "\<exists>v. v = analytics_of ''daily'' 20228 (span_of 20228 20229 20227 ''20 May 2025, Tue'') chart_user [] chart_db
     \<and> map bk_amount (av_series v) = map cents [0, 0, 4999, 0, 12550, 0] \<and> av_total_sales v = cents 17549"
proof -
  have b: "period_bounds ''daily'' 20228 = Inr (span_of 20228 20229 20227 ''20 May 2025, Tue'')" by code_simp
  have p: "''daily'' \<in> set PERIODS" by (simp add: PERIODS_def)
  let ?sp = "span_of 20228 20229 20227 ''20 May 2025, Tue''"
  let ?paise = "\<lambda>r. if o_id r = 1 then 12550 else 4999 :: int"
  let ?sales = "[chart_order 2 9 4999, chart_order 1 17 12550]"
  have sp: "sp_start ?sp = us_days 20228" "sp_end ?sp = us_days 20229" by (simp_all add: span_of_def)
  have s: "?sales = filter is_sale (orders_between chart_db (u_id chart_user) (sp_start ?sp) (sp_end ?sp))"
    unfolding sp by (rule chart_sales [symmetric])
  have shares: "map (\<lambda>w. filter (between o_created_at w) ?sales) (chart_windows ''daily'' (us_days 20228) (us_days 20229))
      = [[], [], [chart_order 2 9 4999], [], [chart_order 1 17 12550], []]"
    by (simp add: chart_windows_def between_def chart_order_def new_Order_def us_days_def us_hours_def)
  have "list_all (\<lambda>r. 0 \<le> ?paise r \<and> o_final_amount r = cents (?paise r)) ?sales"
    "sum_list (map ?paise ?sales) \<le> cart_bound" "length ?sales \<le> 1000"
    by (simp_all add: chart_order_def cart_bound_def)
  from chart_adds_up [OF b p s this, of "[]"] show ?thesis
    unfolding sp shares Let_def by (simp add: chart_order_def)
qed

section \<open>The busiest window\<close>

lemma argmax_max:
  "xs \<noteq> [] \<Longrightarrow> argmax xs < length xs \<and> (\<forall>j < length xs. xs ! j \<le> xs ! argmax xs) \<and> (\<forall>j < argmax xs. xs ! j < xs ! argmax xs)"
proof (induction xs rule: argmax.induct)
  case (3 x y ys)
  define zs where "zs = y # ys"
  define k where "k = argmax zs"
  have k: "k < length zs" "\<And>j. j < length zs \<Longrightarrow> zs ! j \<le> zs ! k" "\<And>j. j < k \<Longrightarrow> zs ! j < zs ! k"
    using 3 by (simp_all only: k_def zs_def) auto
  have arg: "argmax (x # y # ys) = (if x < zs ! k then Suc k else 0)" by (simp add: k_def zs_def Let_def)
  have "x # y # ys = x # zs" by (simp add: zs_def)
  moreover have "(x # zs) ! j \<le> (x # zs) ! (if x < zs ! k then Suc k else 0)" if "j < length (x # zs)" for j
    using k(2) [of "j - 1"] that by (cases j) force+
  moreover have "(x # zs) ! j < (x # zs) ! Suc k" if "j < Suc k" "x < zs ! k" for j
    using k(3) [of "j - 1"] that by (cases j) force+
  ultimately show ?case using k(1) unfolding arg by simp
qed simp_all

theorem peak_is_highest:
  assumes "peak_window series period = Some p"
  shows "pk_index p < length series \<and> pk_amount p = bk_amount (series ! pk_index p) \<and> 0 < pk_amount p
    \<and> (\<forall>b \<in> set series. bk_amount b \<le> pk_amount p) \<and> (\<forall>j < pk_index p. bk_amount (series ! j) < pk_amount p)"
proof -
  have s: "series \<noteq> []" using assms by (auto simp: peak_window_def)
  then have "map bk_amount series \<noteq> []" by simp
  from argmax_max [OF this] s assms show ?thesis
    by (auto simp: peak_window_def Let_def in_set_conv_nth split: if_splits)
qed

section \<open>The anchor\<close>

lemma pad_nat_exact:
  assumes "n < 10 ^ w" "0 < w"
  shows "length (pad_nat w n) = w" "list_all is_digit_char (pad_nat w n)" "digits_value (pad_nat w n) = int n"
proof -
  have "length (show_nat n) \<le> w"
    using assms
  proof (induction w arbitrary: n)
    case (Suc w)
    show ?case
    proof (cases "n < 10")
      case False
      then have "n div 10 < 10 ^ w" "0 < w" using Suc(2) by (cases w; simp add: less_mult_imp_div_less)+
      from Suc(1) [OF this] show ?thesis using False by (subst show_nat.simps) simp
    qed (simp add: show_nat.simps)
  qed simp
  then show "length (pad_nat w n) = w" by (simp add: pad_nat_def Let_def)
  have "is_digit_char CHR ''0''" "char_code CHR ''0'' = 48" by (simp_all add: is_digit_char_def char_code_def)
  then have z: "list_all is_digit_char (replicate k CHR ''0'')" "digits_value (replicate k CHR ''0'') = 0" for k
    by (induction k) (simp_all add: digits_value_def)
  have sn: "list_all is_digit_char (show_nat n)" using show_nat_digits [of n] by (simp add: list_all_iff)
  show "list_all is_digit_char (pad_nat w n)" "digits_value (pad_nat w n) = int n"
    using z sn by (simp_all only: pad_nat_def Let_def digits_value_append list_all_append) simp_all
qed

lemma digits_at_pad:
  assumes "0 \<le> k" "k < 10 ^ w" "0 < w" shows "digits_at w (pad w k @ rest) = Some (k, rest)"
proof -
  have "nat k < 10 ^ w" using assms(1,2) by (simp add: nat_less_iff)
  note p = pad_nat_exact [OF this assms(3)]
  then show ?thesis using assms(1) by (simp add: digits_at_def pad_def flip: digits_value_def)
qed

lemma civil_in_range:
  assumes "day_exists z" "civil z = (y, m, d)"
  shows "1 \<le> y" "y \<le> 9999" "1 \<le> m" "m \<le> 12" "1 \<le> d" "d \<le> month_first (next_month y m) - month_first (y, m)" "of_civil y m d = z"
proof -
  note m = civil_month [OF assms(2)] and c = month_contains [OF assms(2)]
  show "1 \<le> m" "m \<le> 12" using m by simp_all
  have ends: "month_first (month_at (month_no 1 1)) = min_date" "month_first (month_at (month_no 10000 1)) = max_date + 1"
    by (simp_all add: month_at_no month_first_def of_civil_def min_date_def max_date_def)
  have "\<not> month_no y m + 1 \<le> month_no 1 1" "\<not> month_no 10000 1 \<le> month_no y m"
    using months_mono [of "month_no y m + 1" "month_no 1 1"] months_mono [of "month_no 10000 1" "month_no y m"] c m assms(1) ends
    by (auto simp: day_exists_def month_at_no simp flip: next_month_no)
  then show "1 \<le> y" "y \<le> 9999" using m by (simp_all add: month_no_def)
  show z: "of_civil y m d = z" by (rule of_civil_civil [OF assms(2)])
  have "z = month_first (y, m) + d - 1" unfolding z [symmetric] by (simp add: month_first_def of_civil_def Let_def)
  then show "1 \<le> d" "d \<le> month_first (next_month y m) - month_first (y, m)" using c by simp_all
qed

lemma py_take_ascii: "list_all (\<lambda>c. char_code c < 128) s \<Longrightarrow> py_take n s = take n s"
  by (induction n s rule: py_take.induct) (auto simp: take_Cons' split: nat.split)

theorem anchor_read_back:
  assumes "day_exists z"
  shows "parse_anchor e (Some (iso_date z)) = Inr z"
proof -
  obtain y m d where c: "civil z = (y, m, d)" by (rule prod_cases3)
  note r = civil_in_range [OF assms c]
  have d: "0 \<le> d" "d < 10 ^ 2" using civil_day [OF c] r by simp_all
  have iso: "iso_date z = pad 4 y @ ''-'' @ pad 2 m @ ''-'' @ pad 2 d" by (simp add: iso_date_def c)
  have len: "length (pad 4 y) = 4" "length (pad 2 m) = 2" "length (pad 2 d) = 2"
    using r d by (auto simp: pad_def intro!: pad_nat_exact)
  have ascii: "list_all is_digit_char (pad 4 y)" "list_all is_digit_char (pad 2 m)" "list_all is_digit_char (pad 2 d)"
    using r d by (auto simp: pad_def intro!: pad_nat_exact)
  then have "py_take 10 (iso_date z) = take 10 (iso_date z)"
    unfolding iso by (intro py_take_ascii) (auto simp: list_all_iff is_digit_char_def char_code_def)
  also have "\<dots> = iso_date z" unfolding iso using len by simp
  finally have cut: "py_take 10 (iso_date z) = iso_date z" .
  have y4: "digits_at 4 (iso_date z) = Some (y, ''-'' @ pad 2 m @ ''-'' @ pad 2 d)"
    unfolding iso using r by (intro digits_at_pad) simp_all
  have m2: "digits_at 2 (pad 2 m @ ''-'' @ pad 2 d) = Some (m, ''-'' @ pad 2 d)"
    using r by (intro digits_at_pad) simp_all
  have d2: "digits_at 2 (pad 2 d) = Some (d, [])" using digits_at_pad [OF d, of "[]"] by simp
  have m0: "pad 2 m \<noteq> []" using len(2) by force
  have "hd (pad 2 m) \<noteq> CHR ''W''"
    using ascii(2) m0 by (cases "pad 2 m") (auto simp: is_digit_char_def char_code_def)
  then have w: "hd (pad 2 m @ ''-'' @ pad 2 d) \<noteq> CHR ''W''" using m0 by simp
  have "length (iso_date z) = 10" unfolding iso using len by simp
  then have "fromisoformat (iso_date z) = read_month_day y True (pad 2 m @ ''-'' @ pad 2 d)"
    using w by (simp add: fromisoformat_def y4)
  also have "\<dots> = Some z" unfolding read_month_day_def m2 using r by (simp add: d2 valid_civil_def)
  finally have "fromisoformat (iso_date z) = Some z" .
  moreover have "truthy_str (Some (iso_date z))" using \<open>length (iso_date z) = 10\<close> by (auto simp: truthy_str_def)
  ultimately show ?thesis by (simp add: parse_anchor_def cut)
qed

end
