(* ===== verification/Catalog.thy ===== *)
theory Catalog
  imports Pricing Shops Billing
begin

text \<open>
  \<open>catalog_service\<close>: what customers see of the shop.  \<open>services/products.py\<close> (home feed, listing, product page, favourites,
  reviews and the cache in front of them), \<open>services/shops.py\<close> (approved shops) and \<open>services/settings_public.py\<close>; the
  reviews of \<open>rating_service/app/services/ratings.py\<close>.  Texts are compared by MySQL: \<open>coll\<close> is the order of
  its collation and \<open>like\<close> its operator of that name.  The cache holds the JSON text of an answer; the model keeps the answer,
  which is serialised the same way whether it is fresh or read back.
\<close>

section \<open>State\<close>

record ProductReview =
  pv_id :: int
  pv_product_id :: int
  pv_user_id :: int
  pv_order_id :: "int option"
  pv_rating :: int
  pv_comment :: "string option"
  pv_created_at :: datetime

record Favorite =
  fv_id :: int
  fv_user_id :: int
  fv_product_id :: int
  fv_created_at :: datetime

record RecentlyViewed =
  vw_id :: int
  vw_user_id :: int
  vw_product_id :: int
  vw_viewed_at :: datetime

record ProductImage =
  pi_id :: int
  pi_product_id :: int
  pi_url :: string
  pi_is_cover :: bool
  pi_sort_order :: int
  pi_ai_enhanced :: bool
  pi_created_at :: datetime

interpretation ProductReview_row: keyed_row pv_id "\<lambda>i r. r\<lparr>pv_id := i\<rparr>"
  by unfold_locales simp

interpretation Favorite_row: keyed_row fv_id "\<lambda>i r. r\<lparr>fv_id := i\<rparr>"
  by unfold_locales simp

interpretation RecentlyViewed_row: keyed_row vw_id "\<lambda>i r. r\<lparr>vw_id := i\<rparr>"
  by unfold_locales simp

record feed_answer =
  hf_categories :: "Category list"
  hf_banners :: "Banner list"
  hf_bestsellers :: "Product list"
  hf_freshly_baked :: "Product list"
  hf_trending :: "Product list"
  hf_festival_offers :: "Product list"
  hf_recommended :: "Product list"
  hf_recently_viewed :: "Product list"

text \<open>The answers kept in Redis under a key, each with the time it expires.\<close>

datatype cached = CCategories "Category list" | CBrands "string list" | CFeed feed_answer

record catalog_state =
  cs_db :: db
  cs_reviews :: "ProductReview table"
  cs_favorites :: "Favorite table"
  cs_views :: "RecentlyViewed table"
  cs_images :: "ProductImage table"
  cs_up :: bool
  cs_cache :: "string \<Rightarrow> (cached \<times> datetime) option"

definition HOME_FEED_TTL :: int where "HOME_FEED_TTL = 45"
definition HOME_FEED_PREFIX :: string where "HOME_FEED_PREFIX = ''catalog:home_feed''"
definition CATEGORIES_KEY :: string where "CATEGORIES_KEY = ''catalog:categories''"
definition BRANDS_KEY :: string where "BRANDS_KEY = ''catalog:brands''"

definition feed_get :: "env \<Rightarrow> string \<Rightarrow> catalog_state \<Rightarrow> cached option" where
  "feed_get e k s = (if cs_up s then (case cs_cache s k of
       Some (v, t) \<Rightarrow> if env_now e < t then Some v else None | None \<Rightarrow> None) else None)"

definition feed_set :: "env \<Rightarrow> string \<Rightarrow> cached \<Rightarrow> catalog_state \<Rightarrow> catalog_state" where
  "feed_set e k v s =
     (if cs_up s then s\<lparr>cs_cache := (cs_cache s)(k := Some (v, env_now e + us_seconds HOME_FEED_TTL))\<rparr> else s)"

definition delete_prefix :: "string \<Rightarrow> catalog_state \<Rightarrow> catalog_state" where
  "delete_prefix p s = (if cs_up s then s\<lparr>cs_cache := (\<lambda>k. if starts_with p k then None else cs_cache s k)\<rparr> else s)"

definition invalidate_catalog_cache :: "catalog_state \<Rightarrow> catalog_state" where
  "invalidate_catalog_cache s = delete_prefix BRANDS_KEY (delete_prefix CATEGORIES_KEY (delete_prefix HOME_FEED_PREFIX s))"

section \<open>Categories and brands\<close>

definition ordered_categories :: "(string \<Rightarrow> 'k::linorder) \<Rightarrow> bool \<Rightarrow> db \<Rightarrow> Category list" where
  "ordered_categories coll active_only d = sort_key cat_display_order (sort_key (\<lambda>c. coll (cat_name c))
     (t_all (\<lambda>c. active_only \<longrightarrow> cat_is_active c) (categories d)))"

definition customer_categories :: "(string \<Rightarrow> 'k::linorder) \<Rightarrow> env \<Rightarrow> bool \<Rightarrow> catalog_state \<Rightarrow> Category list \<times> catalog_state" where
  "customer_categories coll e active_only s =
     (let k = CATEGORIES_KEY @ '':'' @ (if active_only then ''1'' else ''0'')
      in case feed_get e k s of
           Some (CCategories cs) \<Rightarrow> (cs, s)
         | _ \<Rightarrow> let cs = ordered_categories coll active_only (cs_db s) in (cs, feed_set e k (CCategories cs) s))"

text \<open>\<open>sorted\<close> of Python orders texts by code point, which is the order of their UTF-8 bytes.\<close>

definition brand_names :: "db \<Rightarrow> string list" where
  "brand_names d = sort_key str_key (remdups (filter (\<lambda>n. n \<noteq> [])
     (map (\<lambda>p. strip (or_str (p_brand_name p) [])) (t_all (\<lambda>p. p_is_active p \<and> \<not> p_is_draft p) (products d)))))"

definition list_brands :: "env \<Rightarrow> catalog_state \<Rightarrow> string list \<times> catalog_state" where
  "list_brands e s = (case feed_get e BRANDS_KEY s of
     Some (CBrands bs) \<Rightarrow> (bs, s)
   | _ \<Rightarrow> let bs = brand_names (cs_db s) in (bs, feed_set e BRANDS_KEY (CBrands bs) s))"

section \<open>The listing\<close>

record ProductListQuery =
  lq_category_id :: "int option"
  lq_brand_name :: "string option"
  lq_supplier_user_id :: "int option"
  lq_q :: "string option"
  lq_min_price :: "rat option"
  lq_max_price :: "rat option"
  lq_flavor :: "string option"
  lq_weight :: "string option"
  lq_eggless :: "bool option"
  lq_sugar_free :: "bool option"
  lq_min_rating :: "rat option"
  lq_same_day :: "bool option"
  lq_in_stock :: "bool option"
  lq_offers :: "bool option"
  lq_sort :: string
  lq_page :: int
  lq_page_size :: int

text \<open>A comparison with a column that is NULL does not hold.\<close>

definition same_text :: "(string \<Rightarrow> 'k::linorder) \<Rightarrow> string option \<Rightarrow> string \<Rightarrow> bool" where
  "same_text coll col s = (case col of None \<Rightarrow> False | Some t \<Rightarrow> coll t = coll s)"

definition lower_like :: "(string \<Rightarrow> string \<Rightarrow> bool) \<Rightarrow> string \<Rightarrow> string option \<Rightarrow> bool" where
  "lower_like like pat col = (case col of None \<Rightarrow> False | Some t \<Rightarrow> like pat (str_lower t))"

definition query_matches :: "(string \<Rightarrow> 'k::linorder) \<Rightarrow> (string \<Rightarrow> string \<Rightarrow> bool) \<Rightarrow> ProductListQuery \<Rightarrow> Product \<Rightarrow> bool" where
  "query_matches coll like q p \<longleftrightarrow> p_is_active p \<and> \<not> p_is_draft p
     \<and> (truthy_id (lq_category_id q) \<longrightarrow> Some (p_category_id p) = lq_category_id q)
     \<and> (truthy_str (lq_brand_name q) \<longrightarrow> same_text coll (map_option str_lower (p_brand_name p)) (strip (str_lower (the (lq_brand_name q)))))
     \<and> (truthy_id (lq_supplier_user_id q) \<longrightarrow> p_supplier_user_id p = lq_supplier_user_id q)
     \<and> (truthy_str (lq_q q) \<longrightarrow> (let pat = ''%'' @ str_lower (the (lq_q q)) @ ''%''
           in lower_like like pat (Some (p_name p)) \<or> lower_like like pat (p_short_description p) \<or> lower_like like pat (p_brand_name p)))
     \<and> (case lq_min_price q of None \<Rightarrow> True | Some x \<Rightarrow> x \<le> p_selling_price p)
     \<and> (case lq_max_price q of None \<Rightarrow> True | Some x \<Rightarrow> p_selling_price p \<le> x)
     \<and> (truthy_str (lq_flavor q) \<longrightarrow> same_text coll (p_flavor p) (the (lq_flavor q)))
     \<and> (truthy_str (lq_weight q) \<longrightarrow> same_text coll (p_weight p) (the (lq_weight q)))
     \<and> (lq_eggless q \<noteq> None \<longrightarrow> Some (p_is_eggless p) = lq_eggless q)
     \<and> (lq_sugar_free q \<noteq> None \<longrightarrow> Some (p_is_sugar_free p) = lq_sugar_free q)
     \<and> (case lq_min_rating q of None \<Rightarrow> True | Some x \<Rightarrow> x \<le> p_rating p)
     \<and> (lq_same_day q \<noteq> None \<longrightarrow> Some (p_same_day_delivery p) = lq_same_day q)
     \<and> (lq_in_stock q = Some True \<longrightarrow> 0 < p_stock_qty p)
     \<and> (lq_offers q = Some True \<longrightarrow> 0 < p_discount_percent p)"

definition sort_products :: "string \<Rightarrow> Product list \<Rightarrow> Product list" where
  "sort_products by ps =
     (if by = ''price_asc'' then sort_key p_selling_price ps
      else if by = ''price_desc'' then sort_key (\<lambda>p. - p_selling_price p) ps
      else if by = ''newest'' then sort_key (\<lambda>p. - p_created_at p) ps
      else if by = ''rating'' then sort_key (\<lambda>p. - p_rating p) ps
      else if by = ''fastest'' then sort_key p_estimated_delivery_mins ps
      else sort_key (\<lambda>p. - p_sales_count p) ps)"

definition listing :: "(string \<Rightarrow> 'k::linorder) \<Rightarrow> (string \<Rightarrow> string \<Rightarrow> bool) \<Rightarrow> ProductListQuery \<Rightarrow> db \<Rightarrow> Product list" where
  "listing coll like q d = sort_products (lq_sort q) (t_all (query_matches coll like q) (products d))"

record product_page =
  pg_items :: "Product list"
  pg_total :: nat
  pg_page :: int
  pg_page_size :: int
  pg_has_more :: bool

text \<open>MySQL refuses a negative OFFSET or LIMIT.\<close>

definition customer_products :: "(string \<Rightarrow> 'k::linorder) \<Rightarrow> (string \<Rightarrow> string \<Rightarrow> bool) \<Rightarrow> ProductListQuery \<Rightarrow> db \<Rightarrow> exc + product_page" where
  "customer_products coll like q d =
     (let rs = listing coll like q d; page = lq_page q; per = lq_page_size q
      in if (page - 1) * per < 0 \<or> per < 0 then Inl (PyExc ''ProgrammingError'')
         else Inr \<lparr>pg_items = page_slice page per rs, pg_total = length rs, pg_page = page, pg_page_size = per,
                   pg_has_more = (page * per < int (length rs))\<rparr>)"

section \<open>The page of a product\<close>

definition get_product :: "env \<Rightarrow> int \<Rightarrow> int option \<Rightarrow> catalog_state \<Rightarrow> (exc + Product) \<times> catalog_state" where
  "get_product e product_id user_id s = (case get_Product (cs_db s) product_id of
     None \<Rightarrow> (Inl (not_found ''Product not found''), s)
   | Some p \<Rightarrow> (Inr p, if truthy_id user_id
       then s\<lparr>cs_views := t_insert (\<lambda>i r. r\<lparr>vw_id := i\<rparr>)
              \<lparr>vw_id = 0, vw_user_id = the user_id, vw_product_id = product_id, vw_viewed_at = env_now e\<rparr> (cs_views s)\<rparr>
       else s))"

record product_view =
  pw_product :: Product
  pw_images :: "ProductImage list"
  pw_reviews :: "ProductReview list"
  pw_similar :: "Product list"
  pw_frequently_bought :: "Product list"

definition product_detail :: "env \<Rightarrow> int \<Rightarrow> int option \<Rightarrow> catalog_state \<Rightarrow> (exc + product_view) \<times> catalog_state" where
  "product_detail e product_id user_id s = (case get_product e product_id user_id s of
     (Inl ex, s1) \<Rightarrow> (Inl ex, s1)
   | (Inr p, s1) \<Rightarrow>
       let similar = take 6 (t_all (\<lambda>r. p_category_id r = p_category_id p \<and> p_id r \<noteq> p_id p \<and> p_is_active r) (products (cs_db s1)))
       in (Inr \<lparr>pw_product = p, pw_images = t_all (\<lambda>i. pi_product_id i = product_id) (cs_images s1),
                pw_reviews = take 20 (t_all (\<lambda>r. pv_product_id r = product_id) (cs_reviews s1)),
                pw_similar = similar, pw_frequently_bought = take 3 similar\<rparr>, s1))"

text \<open>A second call takes the favourite back; the foreign key refuses a product that does not exist.\<close>

definition toggle_favorite :: "env \<Rightarrow> int \<Rightarrow> int \<Rightarrow> catalog_state \<Rightarrow> (exc + bool) \<times> catalog_state" where
  "toggle_favorite e user_id product_id s =
     (case t_first (\<lambda>f. fv_user_id f = user_id \<and> fv_product_id f = product_id) (cs_favorites s) of
        Some f \<Rightarrow> (Inr False, s\<lparr>cs_favorites := t_delete fv_id (fv_id f) (cs_favorites s)\<rparr>)
      | None \<Rightarrow>
          if get_Product (cs_db s) product_id = None then (Inl (PyExc ''IntegrityError''), s)
          else (Inr True, s\<lparr>cs_favorites := t_insert (\<lambda>i r. r\<lparr>fv_id := i\<rparr>)
                  \<lparr>fv_id = 0, fv_user_id = user_id, fv_product_id = product_id, fv_created_at = env_now e\<rparr> (cs_favorites s)\<rparr>))"

section \<open>Reviews\<close>

definition rated :: "int \<Rightarrow> Product \<Rightarrow> Product" where
  "rated rating p =
     (let sum = fadd (fmul (p_rating p) (fl (of_int (p_review_count p)))) (fl (of_int rating)); n = p_review_count p + 1
      in p\<lparr>p_review_count := n, p_rating := round2 (fdiv sum (fl (of_int n)))\<rparr>)"

definition new_review :: "env \<Rightarrow> int \<Rightarrow> int \<Rightarrow> int \<Rightarrow> string option \<Rightarrow> int option \<Rightarrow> ProductReview" where
  "new_review e user_id product_id rating comment order_id = \<lparr>pv_id = 0, pv_product_id = product_id, pv_user_id = user_id,
     pv_order_id = order_id, pv_rating = rating, pv_comment = comment, pv_created_at = env_now e\<rparr>"

definition write_review :: "env \<Rightarrow> int \<Rightarrow> int \<Rightarrow> int \<Rightarrow> string option \<Rightarrow> int option \<Rightarrow> Product \<Rightarrow> catalog_state \<Rightarrow> ProductReview \<times> catalog_state" where
  "write_review e user_id product_id rating comment order_id p s =
     (let row = (new_review e user_id product_id rating comment order_id)\<lparr>pv_id := next_id (cs_reviews s)\<rparr>
      in (row, s\<lparr>cs_reviews := t_insert (\<lambda>i r. r\<lparr>pv_id := i\<rparr>) row (cs_reviews s), cs_db := put_Product (rated rating p) (cs_db s)\<rparr>))"

definition add_review :: "env \<Rightarrow> int \<Rightarrow> int \<Rightarrow> int \<Rightarrow> string option \<Rightarrow> int option \<Rightarrow> catalog_state
    \<Rightarrow> (exc + ProductReview) \<times> catalog_state" where
  "add_review e user_id product_id rating comment order_id s = (case get_Product (cs_db s) product_id of
     None \<Rightarrow> (Inl (PyExc ''IntegrityError''), s)
   | Some p \<Rightarrow> (case write_review e user_id product_id rating comment order_id p s of
       (row, s1) \<Rightarrow> (Inr row, invalidate_catalog_cache s1)))"

text \<open>The rating service checks its arguments, and leaves the cache alone.\<close>

definition list_product_reviews :: "int \<Rightarrow> int \<Rightarrow> catalog_state \<Rightarrow> exc + ProductReview list" where
  "list_product_reviews product_id limit s =
     (if get_Product (cs_db s) product_id = None then Inl (not_found ''Product not found'')
      else if limit < 0 then Inl (PyExc ''ProgrammingError'')
      else Inr (take (nat limit) (rev (t_all (\<lambda>r. pv_product_id r = product_id) (cs_reviews s)))))"

definition add_product_review :: "env \<Rightarrow> int \<Rightarrow> int \<Rightarrow> int \<Rightarrow> string option \<Rightarrow> int option \<Rightarrow> catalog_state
    \<Rightarrow> (exc + ProductReview) \<times> catalog_state" where
  "add_product_review e user_id product_id rating comment order_id s =
     (if rating < 1 \<or> 5 < rating then (Inl (bad_request ''rating must be 1-5''), s)
      else (case get_Product (cs_db s) product_id of
        None \<Rightarrow> (Inl (not_found ''Product not found''), s)
      | Some p \<Rightarrow> (case write_review e user_id product_id rating comment order_id p s of (row, s1) \<Rightarrow> (Inr row, s1))))"

section \<open>The home feed\<close>

definition flagged :: "(Product \<Rightarrow> bool) \<Rightarrow> db \<Rightarrow> Product list" where
  "flagged f d = take 10 (t_all (\<lambda>p. f p \<and> p_is_active p) (products d))"

definition top_rated :: "db \<Rightarrow> Product list" where
  "top_rated d = take 10 (sort_key (\<lambda>p. - p_rating p) (t_all p_is_active (products d)))"

definition recently_viewed :: "int \<Rightarrow> catalog_state \<Rightarrow> Product list" where
  "recently_viewed user_id s =
     (let ids = map vw_product_id (take 10 (sort_key (\<lambda>v. - vw_viewed_at v) (t_all (\<lambda>v. vw_user_id v = user_id) (cs_views s))))
      in if ids = [] then [] else t_all (\<lambda>p. p_id p \<in> set ids) (products (cs_db s)))"

definition feed_of :: "(string \<Rightarrow> 'k::linorder) \<Rightarrow> int option \<Rightarrow> catalog_state \<Rightarrow> feed_answer" where
  "feed_of coll user_id s = (let d = cs_db s in
     \<lparr>hf_categories = ordered_categories coll True d,
      hf_banners = sort_key bn_sort_order (t_all bn_is_active (banners d)),
      hf_bestsellers = flagged p_is_bestseller d, hf_freshly_baked = flagged p_is_freshly_baked d,
      hf_trending = flagged p_is_trending d, hf_festival_offers = flagged p_is_festival d,
      hf_recommended = top_rated d,
      hf_recently_viewed = (if truthy_id user_id then recently_viewed (the user_id) s else [])\<rparr>)"

definition feed_key :: "int option \<Rightarrow> string" where
  "feed_key user_id = HOME_FEED_PREFIX @ '':'' @ show_int (or_zero_int user_id)"

definition home_feed :: "(string \<Rightarrow> 'k::linorder) \<Rightarrow> env \<Rightarrow> int option \<Rightarrow> catalog_state \<Rightarrow> feed_answer \<times> catalog_state" where
  "home_feed coll e user_id s = (case feed_get e (feed_key user_id) s of
     Some (CFeed f) \<Rightarrow> (f, s)
   | _ \<Rightarrow> let f = feed_of coll user_id s in (f, feed_set e (feed_key user_id) (CFeed f) s))"

section \<open>Shops\<close>

record market_shop =
  ms_user_id :: int
  ms_shop_name :: string
  ms_owner_name :: "string option"
  ms_shop_logo_url :: "string option"
  ms_village :: "string option"
  ms_area :: "string option"
  ms_city :: string
  ms_pincode :: "string option"
  ms_latitude :: "rat option"
  ms_longitude :: "rat option"
  ms_contact_phone :: "string option"
  ms_is_open :: bool
  ms_shop_open_time :: "string option"
  ms_shop_close_time :: "string option"
  ms_shop_days :: "string option"
  ms_is_wholesaler :: bool
  ms_product_count :: nat

definition shop_dict :: "RetailerProfile \<Rightarrow> nat \<Rightarrow> market_shop" where
  "shop_dict p n = \<lparr>ms_user_id = rp_user_id p, ms_shop_name = rp_shop_name p, ms_owner_name = rp_owner_name p,
     ms_shop_logo_url = rp_shop_logo_url p, ms_village = rp_village p, ms_area = rp_area p, ms_city = rp_city p,
     ms_pincode = rp_pincode p, ms_latitude = rp_latitude p, ms_longitude = rp_longitude p,
     ms_contact_phone = rp_contact_phone p, ms_is_open = rp_is_open p, ms_shop_open_time = rp_shop_open_time p,
     ms_shop_close_time = rp_shop_close_time p, ms_shop_days = rp_shop_days p, ms_is_wholesaler = rp_is_wholesaler p,
     ms_product_count = n\<rparr>"

definition on_market :: "RetailerProfile \<Rightarrow> bool" where
  "on_market p \<longleftrightarrow> rp_approval_status p = ''approved'' \<and> \<not> rp_is_blocked p"

text \<open>The shops whose hours are over are closed, and written back.\<close>

definition apply_hours :: "env \<Rightarrow> RetailerProfile list \<Rightarrow> db \<Rightarrow> db" where
  "apply_hours e ps d = foldl (\<lambda>d p. case enforce_auto_close e p of None \<Rightarrow> d | Some q \<Rightarrow> put_RetailerProfile q d) d ps"

definition shop_products :: "db \<Rightarrow> int \<Rightarrow> Product list" where
  "shop_products d uid = t_all (\<lambda>p. p_supplier_user_id p = Some uid \<and> p_is_active p \<and> \<not> p_is_draft p) (products d)"

definition market_shops :: "(string \<Rightarrow> 'k::linorder) \<Rightarrow> env \<Rightarrow> db \<Rightarrow> market_shop list \<times> db" where
  "market_shops coll e d =
     (let ps = sort_key (\<lambda>p. coll (rp_shop_name p)) (t_all on_market (profiles d)); d1 = apply_hours e ps d
      in (map (\<lambda>p. shop_dict (closed_now e p) (length (shop_products d1 (rp_user_id p)))) ps, d1))"

definition shop_detail :: "(string \<Rightarrow> 'k::linorder) \<Rightarrow> env \<Rightarrow> int \<Rightarrow> db \<Rightarrow> (exc + market_shop \<times> Product list) \<times> db" where
  "shop_detail coll e shop_user_id d =
     (case t_first (\<lambda>p. rp_user_id p = shop_user_id \<and> on_market p) (profiles d) of
        None \<Rightarrow> (Inl (not_found ''Shop not found''), d)
      | Some p \<Rightarrow>
          let d1 = apply_hours e [p] d; ps = sort_key (\<lambda>r. coll (p_name r)) (shop_products d1 shop_user_id)
          in (Inr (shop_dict (closed_now e p) (length ps), ps), d1))"

section \<open>Settings\<close>

text \<open>The slots of two hours from opening time on, in minutes of the day, as long as one fits before closing.\<close>

function slots_from :: "int \<Rightarrow> int \<Rightarrow> (int \<times> int) list" where
  "slots_from t stop = (if t + 120 \<le> stop then (t, t + 120) # slots_from (t + 120) stop else [])"
  by pat_completeness auto
termination by (relation "measure (\<lambda>(t, stop). nat (stop - t))") auto

declare slots_from.simps [simp del]

definition minute_of :: "daytime \<Rightarrow> int" where
  "minute_of t = t div us_minutes 1"

definition hhmm :: "int \<Rightarrow> string" where
  "hhmm t = pad 2 (t div 60) @ '':'' @ pad 2 (t mod 60)"

definition slots_from_hours :: "daytime option \<Rightarrow> daytime option \<Rightarrow> string list" where
  "slots_from_hours open_t close_t = (case (open_t, close_t) of
     (Some a, Some b) \<Rightarrow> if minute_of b \<le> minute_of a then []
       else map (\<lambda>(x, y). hhmm x @ ''-'' @ hhmm y) (slots_from (minute_of a) (minute_of b))
   | _ \<Rightarrow> [])"

text \<open>\<open>str\<close> of a JSON value; \<open>repr\<close> stands for Python's texts of floats, lists and dictionaries.\<close>

definition py_text :: "(json \<Rightarrow> string) \<Rightarrow> json \<Rightarrow> string" where
  "py_text repr j = (case j of JStr s \<Rightarrow> s | JInt n \<Rightarrow> show_int n | JBool b \<Rightarrow> (if b then ''True'' else ''False'') | JNull \<Rightarrow> ''None''
     | _ \<Rightarrow> repr j)"

definition noted_slots :: "(json \<Rightarrow> string) \<Rightarrow> json option \<Rightarrow> string list" where
  "noted_slots repr hours = (case hours of
     Some (JObj kvs) \<Rightarrow>
       (let h = JObj kvs; a = jget ''delivery_slots'' h; raw = (if jtruthy a then a else jget ''slots'' h)
        in case raw of JArr xs \<Rightarrow> map (py_text repr) (filter jtruthy xs) | _ \<Rightarrow> [])
   | _ \<Rightarrow> [])"

record settings_view =
  se_bakery_name :: string
  se_phone :: string
  se_email :: string
  se_address :: string
  se_latitude :: rat
  se_longitude :: rat
  se_upi_id :: string
  se_delivery_charge :: rat
  se_free_delivery_min :: rat
  se_min_order_value :: rat
  se_cod_enabled :: bool
  se_open_time :: "daytime option"
  se_close_time :: "daytime option"

text \<open>Without a row of settings only the slots (none) and \<open>cod_enabled\<close> (true) are told.\<close>

definition public_settings :: "(json \<Rightarrow> string) \<Rightarrow> db \<Rightarrow> settings_view option \<times> string list" where
  "public_settings repr d = (case t_first (\<lambda>_. True) (settings_rows d) of
     None \<Rightarrow> (None, [])
   | Some r \<Rightarrow>
       let slots = noted_slots repr (bs_working_hours r)
       in (Some \<lparr>se_bakery_name = bs_bakery_name r, se_phone = bs_phone r, se_email = bs_email r, se_address = bs_address r,
            se_latitude = bs_latitude r, se_longitude = bs_longitude r, se_upi_id = bs_upi_id r,
            se_delivery_charge = bs_delivery_charge r, se_free_delivery_min = bs_free_delivery_min r,
            se_min_order_value = bs_min_order_value r, se_cod_enabled = bs_cod_enabled r,
            se_open_time = bs_open_time r, se_close_time = bs_close_time r\<rparr>,
           if slots = [] then slots_from_hours (bs_open_time r) (bs_close_time r) else slots))"

end
