(* ===== verification/CatalogLaws.thy ===== *)
theory CatalogLaws
  imports Catalog "HOL-Library.Multiset"
begin

text \<open>
  The customers' catalogue along any run of calls: the home feed shown is one of a state less than 45 seconds old and not older
  than the last review written by the catalogue itself (\<open>home_answer_fresh\<close>); a review of the rating service does not drop
  the cached feeds (\<open>rating_leaves_feed\<close>).  A product's rating stays between one and five stars and its count is the number
  of its reviews (\<open>ratings_stay_sound\<close>).  Also: the pages share the listing out, the slots fill the opening hours.
\<close>

section \<open>A run of calls\<close>

text \<open>What reaches the catalogue, each call with its own surroundings.  \<open>Elsewhere\<close> is a change of the tables by another
  service; \<open>Rate\<close> is the review of the rating service.\<close>

datatype catalog_call = Home "int option" | Categories bool | Brands | Detail int "int option" | Favour int int
  | Review int int int "string option" "int option" | Rate int int int "string option" "int option"
  | Shops | Elsewhere "db \<Rightarrow> db"

fun catalog_step :: "(string \<Rightarrow> 'k::linorder) \<Rightarrow> env \<Rightarrow> catalog_call \<Rightarrow> catalog_state \<Rightarrow> catalog_state" where
  "catalog_step coll e (Home uid) s = snd (home_feed coll e uid s)"
| "catalog_step coll e (Categories active) s = snd (customer_categories coll e active s)"
| "catalog_step coll e Brands s = snd (list_brands e s)"
| "catalog_step coll e (Detail pid uid) s = snd (product_detail e pid uid s)"
| "catalog_step coll e (Favour uid pid) s = snd (toggle_favorite e uid pid s)"
| "catalog_step coll e (Review uid pid r c oid) s = snd (add_review e uid pid r c oid s)"
| "catalog_step coll e (Rate uid pid r c oid) s = snd (add_product_review e uid pid r c oid s)"
| "catalog_step coll e Shops s = s\<lparr>cs_db := snd (market_shops coll e (cs_db s))\<rparr>"
| "catalog_step coll e (Elsewhere f) s = s\<lparr>cs_db := f (cs_db s)\<rparr>"

text \<open>The state after a run, and the states the calls since the last review accepted by the catalogue came upon.  Only that
  review drops the cache: one accepted by the rating service leaves it.\<close>

definition accepted_review :: "catalog_call \<Rightarrow> catalog_state \<Rightarrow> bool" where
  "accepted_review c s = (case c of Review uid pid r cm oid \<Rightarrow> get_Product (cs_db s) pid \<noteq> None | _ \<Rightarrow> False)"

fun catalog_run :: "(string \<Rightarrow> 'k::linorder) \<Rightarrow> (env \<times> catalog_call) list \<Rightarrow> catalog_state \<Rightarrow> (env \<times> catalog_state) list
    \<Rightarrow> catalog_state \<times> (env \<times> catalog_state) list" where
  "catalog_run coll [] s past = (s, past)"
| "catalog_run coll ((e, c) # cs) s past =
     catalog_run coll cs (catalog_step coll e c s) (if accepted_review c s then [] else (e, s) # past)"

section \<open>The cache\<close>

text \<open>Every feed in the cache is that of a past state, and expires 45 seconds after it.\<close>

definition feeds_known :: "(string \<Rightarrow> 'k::linorder) \<Rightarrow> (env \<times> catalog_state) list \<Rightarrow> catalog_state \<Rightarrow> bool" where
  "feeds_known coll past s \<longleftrightarrow> (\<forall>k f t. cs_cache s k = Some (CFeed f, t) \<longrightarrow>
     (\<exists>uid e0 s0. (e0, s0) \<in> set past \<and> k = feed_key uid \<and> f = feed_of coll uid s0 \<and> t = env_now e0 + us_seconds HOME_FEED_TTL))"

lemma show_int_inj: assumes "show_int a = show_int b" shows "a = b"
proof -
  have d: "\<exists>c cs. show_nat n = c # cs \<and> c \<noteq> CHR ''-''" for n
  proof -
    obtain c cs where s: "show_nat n = c # cs" by (cases "show_nat n") auto
    then have "is_digit_char c" using show_nat_digits [of n] by simp
    with s show ?thesis by (auto simp: is_digit_char_def char_code_def)
  qed
  have "a < 0 \<longleftrightarrow> b < 0" using assms d [of "nat a"] d [of "nat b"] by (auto simp: show_int_def split: if_splits)
  moreover from this have "nat \<bar>a\<bar> = nat \<bar>b\<bar>" using assms by (intro show_nat_inj) (auto simp: show_int_def split: if_splits)
  ultimately show ?thesis by auto
qed

lemma feed_key_same: "feed_key a = feed_key b \<Longrightarrow> feed_of coll a s = feed_of coll b s"
proof -
  assume "feed_key a = feed_key b"
  then have eq: "or_zero_int a = or_zero_int b" by (auto simp: feed_key_def dest: show_int_inj)
  have "truthy_id c = (or_zero_int c \<noteq> 0)" "truthy_id c \<Longrightarrow> the c = or_zero_int c" for c
    by (cases c; simp add: truthy_id_def)+
  then show ?thesis using eq by (simp add: feed_of_def Let_def)
qed

lemma feeds_known_same_cache:
  assumes "feeds_known coll past s" "cs_cache s' = cs_cache s" "set past \<subseteq> set past'" shows "feeds_known coll past' s'"
  unfolding feeds_known_def
proof (intro allI impI)
  fix k f t assume "cs_cache s' k = Some (CFeed f, t)"
  then obtain uid e0 s0 where "(e0, s0) \<in> set past" "k = feed_key uid" "f = feed_of coll uid s0" "t = env_now e0 + us_seconds HOME_FEED_TTL"
    using assms(1,2) unfolding feeds_known_def by metis
  with assms(3) show "\<exists>uid e0 s0. (e0, s0) \<in> set past' \<and> k = feed_key uid \<and> f = feed_of coll uid s0 \<and> t = env_now e0 + us_seconds HOME_FEED_TTL"
    by blast
qed

lemma feeds_known_set_feed:
  "feeds_known coll past s \<Longrightarrow> feeds_known coll ((e, s) # past) (feed_set e (feed_key uid) (CFeed (feed_of coll uid s)) s)"
  using feeds_known_same_cache [of coll past s s "(e, s) # past"]
  unfolding feeds_known_def feed_set_def by (simp, blast)

lemma feeds_known_set_other:
  "feeds_known coll past s \<Longrightarrow> (\<And>f. v \<noteq> CFeed f) \<Longrightarrow> feeds_known coll ((e, s) # past) (feed_set e k v s)"
  using feeds_known_same_cache [of coll past s s "(e, s) # past"]
  unfolding feeds_known_def feed_set_def by auto

lemma feeds_gone:
  assumes "feeds_known coll past s" "cs_up s \<or> (\<forall>k. cs_cache s k = None)"
  shows "feeds_known coll [] (invalidate_catalog_cache s)"
proof -
  have "cs_cache (invalidate_catalog_cache s) k \<noteq> Some (CFeed f, t)" for k f t
  proof
    assume hit: "cs_cache (invalidate_catalog_cache s) k = Some (CFeed f, t)"
    then have old: "cs_cache s k = Some (CFeed f, t)" and out: "cs_up s \<Longrightarrow> \<not> starts_with HOME_FEED_PREFIX k"
      by (auto simp: invalidate_catalog_cache_def delete_prefix_def split: if_splits)
    from old assms(1) obtain uid where "k = feed_key uid" unfolding feeds_known_def by metis
    then have "starts_with HOME_FEED_PREFIX k" by (simp add: feed_key_def)
    then show False using out old assms(2) by auto
  qed
  then show ?thesis by (simp add: feeds_known_def)
qed

lemma feeds_known_step:
  assumes k: "feeds_known coll past s" and up: "cs_up s \<or> (\<forall>k. cs_cache s k = None)"
  shows "feeds_known coll (if accepted_review c s then [] else (e, s) # past) (catalog_step coll e c s)"
proof -
  have same: "feeds_known coll ((e, s) # past) s'" if "cs_cache s' = cs_cache s" for s'
    by (rule feeds_known_same_cache [OF k that]) auto
  note other = feeds_known_set_other [OF k, where e = e]
  show ?thesis
  proof (cases c)
    case (Home uid)
    then show ?thesis using same [of s] feeds_known_set_feed [OF k, of e uid]
      by (auto simp: accepted_review_def home_feed_def Let_def split: option.split cached.split)
  next
    case (Categories active)
    then show ?thesis using same [of s] other
      by (auto simp: accepted_review_def customer_categories_def Let_def split: option.split cached.split)
  next
    case Brands
    then show ?thesis using same [of s] other
      by (auto simp: accepted_review_def list_brands_def Let_def split: option.split cached.split)
  next
    case (Detail pid uid)
    have "cs_cache (catalog_step coll e c s) = cs_cache s"
      unfolding Detail by (simp add: product_detail_def get_product_def Let_def split: option.split)
    from same [OF this] show ?thesis using Detail by (simp add: accepted_review_def)
  next
    case (Favour uid pid)
    have "cs_cache (catalog_step coll e c s) = cs_cache s"
      unfolding Favour by (simp add: toggle_favorite_def split: option.split)
    from same [OF this] show ?thesis using Favour by (simp add: accepted_review_def)
  next
    case (Review uid pid r cm oid)
    show ?thesis
    proof (cases "get_Product (cs_db s) pid")
      case None
      then show ?thesis using Review same [of s] by (simp add: accepted_review_def add_review_def)
    next
      case (Some p)
      define s1 where "s1 = snd (write_review e uid pid r cm oid p s)"
      have "cs_cache s1 = cs_cache s" "cs_up s1 = cs_up s" by (simp_all add: s1_def write_review_def Let_def)
      then have "feeds_known coll [] (invalidate_catalog_cache s1)"
        using feeds_gone [of coll past s1] feeds_known_same_cache [OF k, of s1 past] up by simp
      then show ?thesis using Some Review by (simp add: accepted_review_def add_review_def split_beta s1_def)
    qed
  next
    case (Rate uid pid r cm oid)
    have "cs_cache (catalog_step coll e c s) = cs_cache s"
      unfolding Rate by (simp add: add_product_review_def write_review_def Let_def split: option.split)
    from same [OF this] show ?thesis using Rate by (simp add: accepted_review_def)
  qed (use same in \<open>simp_all add: accepted_review_def\<close>)
qed

text \<open>Redis keeps answering or keeps silent; while it is silent nothing is stored.\<close>

definition steady :: "catalog_state \<Rightarrow> bool" where
  "steady s \<longleftrightarrow> cs_up s \<or> (\<forall>k. cs_cache s k = None)"

lemma feed_set_simps [simp]: "cs_up (feed_set e k v s) = cs_up s" "\<not> cs_up s \<Longrightarrow> feed_set e k v s = s"
  by (simp_all add: feed_set_def)

lemma invalidate_simps [simp]:
  "cs_up (invalidate_catalog_cache s) = cs_up s" "\<not> cs_up s \<Longrightarrow> invalidate_catalog_cache s = s"
  "cs_db (invalidate_catalog_cache s) = cs_db s" "cs_reviews (invalidate_catalog_cache s) = cs_reviews s"
  by (simp_all add: invalidate_catalog_cache_def delete_prefix_def)

lemma catalog_step_steady: "steady s \<Longrightarrow> steady (catalog_step coll e c s)"
  by (cases c)
    (auto simp: steady_def home_feed_def customer_categories_def list_brands_def product_detail_def get_product_def Let_def
      toggle_favorite_def add_review_def add_product_review_def write_review_def split: option.splits cached.splits)

lemma catalog_run_known:
  "feeds_known coll past s \<Longrightarrow> steady s \<Longrightarrow> catalog_run coll cs s past = (s', past') \<Longrightarrow> feeds_known coll past' s'"
proof (induction coll cs s past arbitrary: s' past' rule: catalog_run.induct)
  case (2 coll e c cs s past)
  have "feeds_known coll (if accepted_review c s then [] else (e, s) # past) (catalog_step coll e c s)"
    by (rule feeds_known_step) (use 2(2,3) in \<open>auto simp: steady_def\<close>)
  from 2(1) [OF this catalog_step_steady [OF 2(3)]] show ?case using 2(4) by simp
qed simp

text \<open>The feeds of the cache stay through a review of the rating service: what a customer is shown afterwards is what was
  cached before it, as long as that lives.\<close>

lemma rating_leaves_feed:
  assumes "feed_get e (feed_key uid) s = Some (CFeed f)"
  shows "fst (home_feed coll e uid (snd (add_product_review e0 u pid r c oid s))) = f"
proof -
  have "cs_cache (snd (add_product_review e0 u pid r c oid s)) = cs_cache s"
    "cs_up (snd (add_product_review e0 u pid r c oid s)) = cs_up s"
    by (simp_all add: add_product_review_def write_review_def Let_def split: option.split)
  then have "feed_get e (feed_key uid) (snd (add_product_review e0 u pid r c oid s)) = Some (CFeed f)"
    using assms by (simp add: feed_get_def split: if_splits)
  then show ?thesis by (simp add: home_feed_def)
qed

text \<open>Property C33 (home_answer_fresh): whatever calls came before, from an empty cache on, the home feed a customer is shown is
  the feed of a state that a call came upon less than 45 seconds ago (or of the present one), and that state is not older
  than the last review accepted by the catalogue.  Other changes, a review accepted by the rating service among them, may be
  missing from the feed for those 45 seconds.\<close>

theorem home_answer_fresh:
  "case catalog_run coll calls (s\<lparr>cs_cache := (\<lambda>_. None)\<rparr>) [] of (s1, past) \<Rightarrow>
     \<exists>(e0, s0) \<in> set ((e, s1) # past).
       fst (home_feed coll e uid s1) = feed_of coll uid s0 \<and> env_now e < env_now e0 + us_seconds 45"
proof -
  obtain s1 past where r: "catalog_run coll calls (s\<lparr>cs_cache := (\<lambda>_. None)\<rparr>) [] = (s1, past)" by force
  have k: "feeds_known coll past s1"
    by (rule catalog_run_known [OF _ _ r]) (simp_all add: feeds_known_def steady_def)
  show ?thesis
  proof (cases "\<exists>f. feed_get e (feed_key uid) s1 = Some (CFeed f)")
    case True
    then obtain f t where f: "cs_cache s1 (feed_key uid) = Some (CFeed f, t)" "env_now e < t" "fst (home_feed coll e uid s1) = f"
      by (auto simp: feed_get_def home_feed_def split: option.splits if_splits)
    with k obtain v e0 s0 where p: "(e0, s0) \<in> set past" "feed_key uid = feed_key v" "f = feed_of coll v s0"
      "t = env_now e0 + us_seconds HOME_FEED_TTL" unfolding feeds_known_def by metis
    have "(e0, s0) \<in> set ((e, s1) # past)" using p(1) by simp
    moreover have "fst (home_feed coll e uid s1) = feed_of coll uid s0"
      unfolding f(3) p(3) by (rule feed_key_same [OF p(2), symmetric])
    moreover have "env_now e < env_now e0 + us_seconds 45" using f(2) by (simp only: p(4) HOME_FEED_TTL_def)
    ultimately show ?thesis unfolding r prod.case by (intro bexI [of _ "(e0, s0)"]) simp_all
  next
    case False
    then have "fst (home_feed coll e uid s1) = feed_of coll uid s1"
      by (auto simp: home_feed_def Let_def split: option.split cached.split)
    then show ?thesis using r by (simp add: us_seconds_def)
  qed
qed

section \<open>Ratings\<close>

text \<open>No review and no stars, or between one and five.\<close>

definition in_scale :: "Product \<Rightarrow> bool" where
  "in_scale p \<longleftrightarrow> (p_review_count p = 0 \<and> p_rating p = 0) \<or> (1 \<le> p_review_count p \<and> 1 \<le> p_rating p \<and> p_rating p \<le> 5)"

definition ratings_sound :: "catalog_state \<Rightarrow> bool" where
  "ratings_sound s \<longleftrightarrow> list_all (\<lambda>p. in_scale p
     \<and> p_review_count p = int (length (t_all (\<lambda>r. pv_product_id r = p_id p) (cs_reviews s)))) (rows (products (cs_db s)))"

lemma rated_in_scale:
  assumes "in_scale p" "p_review_count p < 2 ^ 50" "1 \<le> r" "r \<le> 5"
  shows "in_scale (rated r p)"
proof -
  define n where "n = p_review_count p"
  define x where "x = p_rating p"
  have n: "0 \<le> n" "n < 2 ^ 50" using assms(1,2) by (auto simp: in_scale_def n_def)
  have dbl: "fl (of_int m) = (of_int m :: rat)" if "0 \<le> m" "m \<le> 5 * (n + 1)" for m
    using that n by (intro fl_of_int) simp
  have x: "of_int n \<le> x * of_int n" "x * of_int n \<le> of_int (5 * n)"
    using assms(1) n by (auto simp: in_scale_def n_def x_def mult_right_mono mult_left_mono field_simps)
  have prod: "of_int n \<le> fmul x (of_int n)" "fmul x (of_int n) \<le> of_int (5 * n)"
    using fl_mono [OF x(1)] fl_mono [OF x(2)] dbl [of n] dbl [of "5 * n"] n by (simp_all add: fmul_def)
  define t where "t = fadd (fmul x (of_int n)) (of_int r)"
  have "of_int (n + 1) \<le> fmul x (of_int n) + of_int r" "fmul x (of_int n) + of_int r \<le> of_int (5 * (n + 1))"
    using prod assms(3,4) of_int_le_iff [where ?'a = rat, of 1 r] of_int_le_iff [where ?'a = rat, of r 5] by simp_all
  from fl_mono [OF this(1)] fl_mono [OF this(2)] have t: "of_int (n + 1) \<le> t" "t \<le> of_int (5 * (n + 1))"
    using dbl [of "n + 1"] dbl [of "5 * (n + 1)"] n by (simp_all add: t_def fadd_def)
  have q: "(0 :: rat) < of_int (n + 1)" using n by simp
  have "1 \<le> t / of_int (n + 1)" "t / of_int (n + 1) \<le> 5" using t q by (simp_all add: field_simps)
  from fl_mono [OF this(1)] fl_mono [OF this(2)] have "1 \<le> fdiv t (of_int (n + 1))" "fdiv t (of_int (n + 1)) \<le> 5"
    using fl_of_int [of 1] fl_of_int [of 5] by (simp_all add: fdiv_def)
  moreover have "round2 1 = 1" "round2 5 = 5" by code_simp+
  ultimately have "1 \<le> round2 (fdiv t (of_int (n + 1)))" "round2 (fdiv t (of_int (n + 1))) \<le> 5"
    using round2_mono [of 1 "fdiv t (of_int (n + 1))"] round2_mono [of "fdiv t (of_int (n + 1))" 5] by simp_all
  then show ?thesis
    using n dbl [of n] dbl [of "n + 1"] dbl [of r] assms(3,4)
    by (simp add: in_scale_def rated_def Let_def t_def x_def n_def [symmetric])
qed

lemma write_review_sound:
  assumes "ratings_sound s" "get_Product (cs_db s) pid = Some p" "1 \<le> r" "r \<le> 5" "length (rows (cs_reviews s)) < 2 ^ 50"
  shows "ratings_sound (snd (write_review e uid pid r cm oid p s))"
proof -
  have p: "p \<in> set (rows (products (cs_db s)))" "p_id p = pid" using t_get_in [OF assms(2)] t_get_key [OF assms(2)] by auto
  have ok: "in_scale q \<and> p_review_count q = int (length (filter (\<lambda>r. pv_product_id r = p_id q) (rows (cs_reviews s))))"
    if "q \<in> set (rows (products (cs_db s)))" for q
    using that assms(1) by (auto simp: ratings_sound_def list_all_iff t_all_def)
  have "length (filter (\<lambda>r. pv_product_id r = p_id p) (rows (cs_reviews s))) < 2 ^ 50"
    using le_less_trans [OF length_filter_le assms(5)] .
  then have "p_review_count p < 2 ^ 50" using ok [OF p(1)] by simp
  then have "in_scale (rated r p)" using ok [OF p(1)] assms(3,4) by (intro rated_in_scale) auto
  moreover have "p_review_count (rated r p) = p_review_count p + 1" "p_id (rated r p) = pid" by (simp_all add: rated_def Let_def p)
  ultimately show ?thesis
    using ok ok [OF p(1)] p(2)
    by (auto simp: ratings_sound_def write_review_def Let_def list_all_iff t_all_def t_put_def t_insert_def new_review_def)
qed

definition call_ok :: "catalog_call \<Rightarrow> bool" where
  "call_ok c \<longleftrightarrow> (case c of Review uid pid r cm oid \<Rightarrow> 1 \<le> r \<and> r \<le> 5 | Elsewhere f \<Rightarrow> False | _ \<Rightarrow> True)"

lemma ratings_frame: "cs_reviews s' = cs_reviews s \<Longrightarrow> products (cs_db s') = products (cs_db s) \<Longrightarrow> ratings_sound s \<Longrightarrow> ratings_sound s'"
  by (simp add: ratings_sound_def)

lemma apply_hours_products: "products (apply_hours e ps d) = products d"
proof -
  have "products (foldl (\<lambda>d p. case enforce_auto_close e p of None \<Rightarrow> d | Some q \<Rightarrow> put_RetailerProfile q d) d ps) = products d"
    by (induction ps arbitrary: d) (simp_all split: option.split)
  then show ?thesis by (simp add: apply_hours_def)
qed

lemma feed_set_frame [simp]: "cs_db (feed_set e k v s) = cs_db s" "cs_reviews (feed_set e k v s) = cs_reviews s"
  by (simp_all add: feed_set_def)

lemma ratings_step:
  assumes "ratings_sound s" "call_ok c" "length (rows (cs_reviews s)) < 2 ^ 50"
  shows "ratings_sound (catalog_step coll e c s) \<and> length (rows (cs_reviews (catalog_step coll e c s))) \<le> length (rows (cs_reviews s)) + 1"
proof -
  note frame = ratings_frame [OF _ _ assms(1)]
  have len: "length (rows (cs_reviews (snd (write_review e uid pid r cm oid p s)))) = length (rows (cs_reviews s)) + 1" for uid pid r cm oid p
    by (simp add: write_review_def Let_def t_insert_def)
  show ?thesis
  proof (cases c)
    case (Review uid pid r cm oid)
    show ?thesis
    proof (cases "get_Product (cs_db s) pid")
      case (Some p)
      have "ratings_sound (snd (write_review e uid pid r cm oid p s))"
        by (rule write_review_sound [OF assms(1) Some]) (use assms(2,3) Review in \<open>auto simp: call_ok_def\<close>)
      then have "ratings_sound (invalidate_catalog_cache (snd (write_review e uid pid r cm oid p s)))"
        by (simp add: ratings_sound_def)
      then show ?thesis using Some Review len by (simp add: add_review_def split_beta)
    qed (use Review assms(1) in \<open>simp add: add_review_def\<close>)
  next
    case (Rate uid pid r cm oid)
    show ?thesis
    proof (cases "get_Product (cs_db s) pid")
      case (Some p)
      then show ?thesis using Rate len write_review_sound [OF assms(1) Some, of r e uid cm oid] assms(1,3)
        by (auto simp: add_product_review_def split_beta)
    qed (use Rate assms(1) in \<open>simp add: add_product_review_def\<close>)
  next
    case (Home uid)
    have "cs_db (snd (home_feed coll e uid s)) = cs_db s" "cs_reviews (snd (home_feed coll e uid s)) = cs_reviews s"
      by (simp_all add: home_feed_def Let_def split: option.split cached.split)
    then show ?thesis using frame Home by simp
  next
    case (Categories active)
    have "cs_db (snd (customer_categories coll e active s)) = cs_db s" "cs_reviews (snd (customer_categories coll e active s)) = cs_reviews s"
      by (simp_all add: customer_categories_def Let_def split: option.split cached.split)
    then show ?thesis using frame Categories by simp
  next
    case Brands
    have "cs_db (snd (list_brands e s)) = cs_db s" "cs_reviews (snd (list_brands e s)) = cs_reviews s"
      by (simp_all add: list_brands_def Let_def split: option.split cached.split)
    then show ?thesis using frame Brands by simp
  next
    case (Detail pid uid)
    have "cs_db (snd (product_detail e pid uid s)) = cs_db s" "cs_reviews (snd (product_detail e pid uid s)) = cs_reviews s"
      by (simp_all add: product_detail_def get_product_def Let_def split: option.split)
    then show ?thesis using frame Detail by simp
  next
    case (Favour uid pid)
    have "cs_db (snd (toggle_favorite e uid pid s)) = cs_db s" "cs_reviews (snd (toggle_favorite e uid pid s)) = cs_reviews s"
      by (simp_all add: toggle_favorite_def split: option.split)
    then show ?thesis using frame Favour by simp
  next
    case Shops
    then show ?thesis using frame by (simp add: market_shops_def Let_def apply_hours_products)
  next
    case (Elsewhere f)
    then show ?thesis using assms(2) by (simp add: call_ok_def)
  qed
qed

text \<open>Property C34 (ratings_stay_sound): along any run of calls in which reviews give one to five stars (the request schema admits no
  other) a product's count is the number of its reviews, and its rating is 0 without reviews and from one to five with them,
  in spite of the rounding at every review.\<close>

theorem ratings_stay_sound:
  assumes "ratings_sound s" "list_all (\<lambda>(e, c). call_ok c) calls" "length (rows (cs_reviews s)) + length calls < 2 ^ 50"
  shows "ratings_sound (fst (catalog_run coll calls s past))"
  using assms
proof (induction coll calls s past rule: catalog_run.induct)
  case (2 coll e c cs s past)
  have "ratings_sound (catalog_step coll e c s) \<and> length (rows (cs_reviews (catalog_step coll e c s))) \<le> length (rows (cs_reviews s)) + 1"
    by (rule ratings_step) (use 2(2-4) in auto)
  with 2(1) 2(3,4) show ?case by simp
qed simp

section \<open>Worked example\<close>

definition review_state :: catalog_state where
  "review_state = \<lparr>cs_db = cart_db, cs_reviews = t_empty, cs_favorites = t_empty, cs_views = t_empty, cs_images = t_empty,
     cs_up = True, cs_cache = (\<lambda>_. None)\<rparr>"

definition review_calls :: "(env \<times> catalog_call) list" where
  "review_calls = map (\<lambda>r. (sample_env, Review 5 1 r None None)) [5, 4]"

theorem ratings_stay_sound_witness:
  "ratings_sound (fst (catalog_run str_key review_calls review_state []))
   \<and> map (\<lambda>p. (p_id p, p_review_count p, p_rating p)) (rows (products (cs_db (fst (catalog_run str_key review_calls review_state [])))))
       = [(1, 2, fl (9 / 2)), (2, 0, 0)]"
proof
  have "list_all in_scale (rows (products cart_db))" "list_all (\<lambda>p. p_review_count p = 0) (rows (products cart_db))"
    by (simp_all add: in_scale_def cart_db_def bun_def cake_def new_Product_def empty_db_def)
  then have "ratings_sound review_state" by (simp add: ratings_sound_def review_state_def t_all_def t_empty_def list_all_iff)
  then show "ratings_sound (fst (catalog_run str_key review_calls review_state []))"
    by (rule ratings_stay_sound) (simp_all add: review_calls_def call_ok_def review_state_def t_empty_def)
  show "map (\<lambda>p. (p_id p, p_review_count p, p_rating p)) (rows (products (cs_db (fst (catalog_run str_key review_calls review_state [])))))
       = [(1, 2, fl (9 / 2)), (2, 0, 0)]" by code_simp
qed

section \<open>Pages and slots\<close>

lemma mset_listing: "mset (listing coll like q d) = mset (t_all (query_matches coll like q) (products d))"
  by (simp add: listing_def sort_products_def)

text \<open>The pages of a listing, one after the other, are the listing; the last one says so.\<close>

theorem catalogue_pages:
  "concat (map (\<lambda>k. case customer_products coll like (q\<lparr>lq_page := int k + 1, lq_page_size := int (Suc m)\<rparr>) d of
       Inl _ \<Rightarrow> [] | Inr pg \<Rightarrow> pg_items pg) [0..<n]) = take (n * Suc m) (listing coll like q d)"
proof -
  have l: "listing coll like (q\<lparr>lq_page := a, lq_page_size := b\<rparr>) d = listing coll like q d" for a b
    by (simp add: listing_def query_matches_def [abs_def])
  have "\<not> int k * int (Suc m) < 0" for k by (simp only: not_less zero_le_mult_iff of_nat_0_le_iff simp_thms)
  then show ?thesis
    using page_slices [of "Suc m" "listing coll like q d" n] by (simp add: customer_products_def l Let_def del: of_nat_Suc)
qed

text \<open>The slots are the whole two hours counted from opening time that end by closing time.\<close>

theorem slots_are_grid:
  "slots_from a b = map (\<lambda>i. (a + 120 * int i, a + 120 * int i + 120)) [0..<nat ((b - a) div 120)]"
proof (induction a b rule: slots_from.induct)
  case (1 a b)
  show ?case
  proof (cases "a + 120 \<le> b")
    case True
    have n: "nat ((b - a) div 120) = Suc (nat ((b - (a + 120)) div 120))"
    proof -
      have "(b - a) div 120 = (b - (a + 120)) div 120 + 1" using div_add_self2 [of 120 "b - (a + 120)"] by simp
      moreover have "0 \<le> (b - (a + 120)) div 120" using True by (simp add: pos_imp_zdiv_nonneg_iff)
      ultimately show ?thesis by simp
    qed
    have "slots_from a b = (a, a + 120) # slots_from (a + 120) b" using True by (subst slots_from.simps) simp
    also have "\<dots> = map (\<lambda>i. (a + 120 * int i, a + 120 * int i + 120)) [0..<Suc (nat ((b - (a + 120)) div 120))]"
      unfolding 1 [OF True] upt_rec [of 0] map_Suc_upt [symmetric] by (simp add: algebra_simps)
    finally show ?thesis unfolding n .
  next
    case False
    then have "(b - a) div 120 \<le> 0" using zdiv_mono1 [of "b - a" 119 120] by simp
    then show ?thesis using False by (subst slots_from.simps) simp
  qed
qed

text \<open>The rows of the home feed are not asked whether a product is a draft; the listing is.\<close>

theorem feed_shows_drafts:
  "\<exists>d p. p \<in> set (flagged p_is_bestseller d) \<and> p_is_draft p \<and> (\<forall>q like. p \<notin> set (listing str_key like q d))"
proof (intro exI conjI allI)
  let ?p = "bun\<lparr>p_is_bestseller := True, p_is_draft := True\<rparr>"
  let ?d = "empty_db\<lparr>products := \<lparr>rows = [?p], next_id = 9\<rparr>\<rparr>"
  show "?p \<in> set (flagged p_is_bestseller ?d)" by (simp add: flagged_def t_all_def bun_def new_Product_def)
  show "p_is_draft ?p" by simp
  show "?p \<notin> set (listing str_key like q ?d)" for q like
    by (simp add: listing_def sort_products_def t_all_def query_matches_def)
qed

end
