(* ===== verification/Dashboard.thy ===== *)
theory Dashboard
  imports Chats Clock
begin

text \<open>
  \<open>store_ops_service/app/services/dashboard.py\<close>: the cards, lists and seven days of revenue on the administrator's first page.
  Sums are MySQL's \<open>SUM\<close> over doubles, one addition after the other in key order.
\<close>

record day_row =
  dr_date :: date
  dr_revenue :: rat
  dr_orders :: nat

record admin_dashboard =
  ad_todays_revenue :: rat
  ad_todays_orders :: nat
  ad_pending_orders :: nat
  ad_preparing_orders :: nat
  ad_out_for_delivery :: nat
  ad_delivered_orders :: nat
  ad_pending_returns :: nat
  ad_unread_chats :: nat
  ad_low_stock_products :: nat
  ad_failed_payments :: nat
  ad_revenue_graph :: "day_row list"
  ad_best_selling_products :: "Product list"
  ad_recent_orders :: "Order list"
  ad_live_deliveries :: "DeliveryTracking list"
  ad_latest_chats :: "Conversation list"
  ad_low_stock :: "Product list"

text \<open>\<open>SUM(CASE WHEN payment_status = 'paid' THEN final_amount ELSE 0 END)\<close>.\<close>

definition paid_sum :: "Order list \<Rightarrow> rat" where
  "paid_sum rs = foldl (\<lambda>acc r. fadd acc (if o_payment_status r = PS_PAID then o_final_amount r else 0)) 0 rs"

definition count_status :: "OrderStatus \<Rightarrow> db \<Rightarrow> nat" where
  "count_status st d = length (t_all (\<lambda>r. o_status r = st) (orders d))"

text \<open>The rows of a day, of those created from the first day of the series on.\<close>

definition day_row_of :: "datetime \<Rightarrow> db \<Rightarrow> date \<Rightarrow> day_row" where
  "day_row_of series_start d day =
     (let rs = filter (\<lambda>r. utc_day (o_created_at r) = day) (t_all (\<lambda>r. series_start \<le> o_created_at r) (orders d))
      in \<lparr>dr_date = day, dr_revenue = round2 (paid_sum rs), dr_orders = length rs\<rparr>)"

definition dashboard :: "env \<Rightarrow> chat_state \<Rightarrow> admin_dashboard" where
  "dashboard e s =
     (let d = ch_db s; (today_start, tomorrow_start) = day_bounds e (Some (utc_today e));
          todays = t_all (\<lambda>r. today_start \<le> o_created_at r \<and> o_created_at r < tomorrow_start) (orders d);
          low = t_all (\<lambda>p. p_stock_status p = SS_LOW_STOCK) (products d);
          series_start = today_start - us_days 6
      in \<lparr>ad_todays_revenue = round2 (paid_sum todays), ad_todays_orders = length todays,
          ad_pending_orders = count_status OS_PLACED d + count_status OS_PAYMENT_RECEIVED d,
          ad_preparing_orders = count_status OS_PREPARING d, ad_out_for_delivery = count_status OS_OUT_FOR_DELIVERY d,
          ad_delivered_orders = count_status OS_DELIVERED d,
          ad_pending_returns = length (t_all (\<lambda>r. rr_status r = ''admin_review'') (return_requests d)),
          ad_unread_chats = length (t_all (\<lambda>c. 0 < cv_unread_admin c) (ch_convs s)),
          ad_low_stock_products = length low,
          ad_failed_payments = length (t_all (\<lambda>p. pay_status p = PS_FAILED) (payments d)),
          ad_revenue_graph = map (\<lambda>i. day_row_of series_start d (days_ago e i)) [6, 5, 4, 3, 2, 1, 0],
          ad_best_selling_products = take 5 (sort_key (\<lambda>p. - p_sales_count p) (rows (products d))),
          ad_recent_orders = take 8 (sort_key (\<lambda>r. - o_created_at r) (rows (orders d))),
          ad_live_deliveries = rows (trackings d),
          ad_latest_chats = take 5 (sort_key (\<lambda>c. - cv_updated_at c) (rows (ch_convs s))),
          ad_low_stock = take 20 low\<rparr>)"

text \<open>The last day of the graph is today, and tells what the cards tell; the days before are consecutive.\<close>

theorem graph_ends_today:
  "last (ad_revenue_graph (dashboard e s))
     = \<lparr>dr_date = utc_today e, dr_revenue = ad_todays_revenue (dashboard e s), dr_orders = ad_todays_orders (dashboard e s)\<rparr>"
  "map dr_date (ad_revenue_graph (dashboard e s)) = map (\<lambda>i. utc_today e - i) [6, 5, 4, 3, 2, 1, 0]"
proof -
  obtain a b where ab: "day_bounds e (Some (utc_today e)) = (a, b)" by force
  have "a \<le> t \<and> t < b \<longleftrightarrow> a - us_days 6 \<le> t \<and> utc_day t = utc_today e" for t
    using day_bounds_contains [OF ab, of t] us_pos(1) by (auto simp: us_days_def)
  then have eq: "filter (\<lambda>r. utc_day (o_created_at r) = utc_today e) (t_all (\<lambda>r. a - us_days 6 \<le> o_created_at r) (orders (ch_db s)))
      = t_all (\<lambda>r. a \<le> o_created_at r \<and> o_created_at r < b) (orders (ch_db s))"
    by (simp add: t_all_def)
  show "last (ad_revenue_graph (dashboard e s))
     = \<lparr>dr_date = utc_today e, dr_revenue = ad_todays_revenue (dashboard e s), dr_orders = ad_todays_orders (dashboard e s)\<rparr>"
    by (simp add: dashboard_def ab day_row_of_def days_ago_day Let_def eq)
  show "map dr_date (ad_revenue_graph (dashboard e s)) = map (\<lambda>i. utc_today e - i) [6, 5, 4, 3, 2, 1, 0]"
    by (simp add: dashboard_def ab day_row_of_def days_ago_day Let_def)
qed

end
