(* ===== verification/OrderService.thy ===== *)
theory OrderService
  imports OrderLaws
begin

text \<open>
  The gateway sends \<open>/customer/orders\<close> to \<open>order_service\<close>, whose \<open>services/orders.py\<close> has its own versions of three
  operations: \<open>add_to_cart\<close>, behind \<open>reorder\<close>, without the rule of the single shop; the cart's summary without
  the shop; and \<open>generate_invoice\<close>, which notes who bought from whom.  The other functions are those of \<open>OrderLife\<close>.
  Where the cart keeps to the shop of the reordered products both versions agree (\<open>reorder_step_agrees\<close>); otherwise
  a reorder leaves lines of two shops in the cart, and the checkout sells both as the first shop's (\<open>reorder_mixes_shops\<close>).
\<close>

section \<open>Reordering\<close>

definition ordersvc_summary :: "env \<Rightarrow> int \<Rightarrow> db \<Rightarrow> cart_totals \<times> db" where
  "ordersvc_summary e user_id d = (case cart_summary e user_id d of
     (su, d1) \<Rightarrow> (su\<lparr>su_shop_user_id := None, su_shop_name := None,
        su_items := map (\<lambda>l. l\<lparr>cl_supplier_user_id := None\<rparr>) (su_items su)\<rparr>, d1))"

definition ordersvc_add :: "env \<Rightarrow> int \<Rightarrow> int \<Rightarrow> int \<Rightarrow> string option \<Rightarrow> string option \<Rightarrow> bool \<Rightarrow> db
    \<Rightarrow> (exc + cart_totals) \<times> db" where
  "ordersvc_add e user_id product_id quantity variant flavor is_eggless d =
     (case get_Product d product_id of
        None \<Rightarrow> (Inl (not_found ''Product not found''), d)
      | Some product \<Rightarrow>
          if \<not> p_is_active product then (Inl (not_found ''Product not found''), d)
          else if p_stock_qty product < quantity then (Inl (bad_request ''Insufficient stock''), d)
          else let (cart, d1) = get_or_create_cart e user_id d;
                   d2 = add_line e cart product quantity variant flavor is_eggless d1;
                   d3 = put_Cart (cart\<lparr>ct_updated_at := env_now e\<rparr>) d2;
                   (su, d4) = ordersvc_summary e user_id d3
               in (Inr su, d4))"

fun ordersvc_add_items :: "env \<Rightarrow> int \<Rightarrow> OrderItem list \<Rightarrow> db \<Rightarrow> (exc + unit) \<times> db" where
  "ordersvc_add_items e user_id [] d = (Inr (), d)"
| "ordersvc_add_items e user_id (it # its) d =
     (case ordersvc_add e user_id (oi_product_id it) (oi_quantity it) (oi_variant it) (oi_flavor it) (oi_is_eggless it) d of
        (Inl ex, d') \<Rightarrow> (Inl ex, d')
      | (Inr _, d') \<Rightarrow> ordersvc_add_items e user_id its d')"

definition ordersvc_reorder :: "env \<Rightarrow> int \<Rightarrow> int \<Rightarrow> db \<Rightarrow> (exc + cart_totals) \<times> db" where
  "ordersvc_reorder e order_id user_id d = (case order_detail d order_id (Some user_id) False of
     Inl ex \<Rightarrow> (Inl ex, d)
   | Inr v \<Rightarrow> (case ordersvc_add_items e user_id (od_items v) d of
       (Inl ex, d') \<Rightarrow> (Inl ex, d')
     | (Inr _, d') \<Rightarrow> (let (su, d'') = ordersvc_summary e user_id d' in (Inr su, d''))))"

section \<open>The invoice\<close>

definition is_wholesale :: "Order \<Rightarrow> bool" where
  "is_wholesale ord \<longleftrightarrow> o_order_type ord \<in> {''b2b_shop_order'', ''B2B_SHOP_ORDER''}"

definition ordersvc_invoice_row :: "env \<Rightarrow> Order \<Rightarrow> BakerySettings \<Rightarrow> db \<Rightarrow> Invoice" where
  "ordersvc_invoice_row e ord s d =
     (let addr = jor_obj (o_address_snapshot ord);
          txt = (\<lambda>k. or_str (jstr (jget k addr)) []);
          kind = (if is_wholesale ord then ''b2b_wholesale'' else ''customer_order'');
          buyer = (if txt ''full_name'' \<noteq> [] then txt ''full_name'' else if txt ''shop_name'' \<noteq> [] then txt ''shop_name'' else ''Customer'')
      in (new_Invoice (env_now e) (invoice_number_for e (if is_wholesale ord then ''B2B'' else ''INV'') (next_id (invoices d)))
            (bs_bakery_name s) (bs_gstin s) buyer (or_str (o_customer_phone ord) (txt ''phone'')))
         \<lparr>inv_order_id := Some (o_id ord), inv_kind := kind, inv_ref_type := Some ''order'', inv_ref_id := Some (show_int (o_id ord)),
          inv_buyer_user_id := Some (o_user_id ord), inv_seller_user_id := (if is_wholesale ord then None else o_shop_user_id ord),
          inv_customer_address := Some (join '', '' (filter (\<lambda>x. x \<noteq> []) (map txt [''line1'', ''city'', ''pincode'']))),
          inv_line_items := JObj [(''template'', JStr ''product_payment''), (''kind'', JStr kind),
             (''title'', JStr ((if is_wholesale ord then ''Wholesale'' else ''Sale'') @ '' '' @ middot @ '' '' @ o_order_number ord)),
             (''items'', JArr (map (\<lambda>i. JObj [(''name'', JStr (oi_product_name i)), (''qty'', JInt (oi_quantity i)),
                (''unit_price'', JFloat (oi_unit_price i)), (''total'', JFloat (oi_total_price i))]) (items_of d (o_id ord)))),
             (''meta'', JObj [(''order_number'', JStr (o_order_number ord)), (''order_type'', JStr (o_order_type ord))])],
          inv_subtotal := o_subtotal ord, inv_discount := o_discount ord, inv_gst_amount := o_gst_amount ord,
          inv_delivery_fee := o_delivery_fee ord, inv_grand_total := o_final_amount ord,
          inv_payment_method := map_option PaymentMethod_value (o_payment_method ord),
          inv_transaction_id := Option.bind (last_payment d (o_id ord)) pay_transaction_id\<rparr>)"

definition ordersvc_generate_invoice :: "env \<Rightarrow> Order \<Rightarrow> db \<Rightarrow> (exc + Invoice) \<times> db" where
  "ordersvc_generate_invoice e ord d = (case invoice_of d (o_id ord) of
     Some i \<Rightarrow> (Inr i, d)
   | None \<Rightarrow>
       let (s, d1) = settings e d; row = ordersvc_invoice_row e ord s d1
       in if invoice_clash row d1 then (Inl (PyExc ''IntegrityError''), d1)
          else (Inr (key_Invoice row d1), add_Invoice row d1))"

definition ordersvc_get_invoice :: "env \<Rightarrow> int \<Rightarrow> int \<Rightarrow> db \<Rightarrow> (exc + Invoice) \<times> db" where
  "ordersvc_get_invoice e order_id user_id d = (case order_detail d order_id (Some user_id) False of
     Inl ex \<Rightarrow> (Inl ex, d)
   | Inr v \<Rightarrow> (case od_invoice v of
       Some i \<Rightarrow> (Inr i, d) | None \<Rightarrow> ordersvc_generate_invoice e (od_order v) d))"

section \<open>Where both versions agree\<close>

lemma clear_other_shops_none:
  "list_all (\<lambda>it. \<not> other_shop d s it) (active_items d (ct_id cart)) \<Longrightarrow> clear_other_shops cart s d = d"
  by (simp add: clear_other_shops_def list_all_iff filter_False t_delete_all_def)

text \<open>For a shop's product and a cart without lines of other shops, the order service's \<open>add_to_cart\<close> leaves the same
  database as the cart service's, and refuses in the same cases.\<close>

theorem reorder_step_agrees:
  assumes "get_Product d pid = Some p" "truthy_id (p_supplier_user_id p)"
    "get_or_create_cart e u d = (cart, d1)"
    "list_all (\<lambda>it. \<not> other_shop d1 (the (p_supplier_user_id p)) it) (active_items d1 (ct_id cart))"
  shows "snd (ordersvc_add e u pid q v f g d) = snd (add_to_cart e u pid q v f g d)
    \<and> isl (fst (ordersvc_add e u pid q v f g d)) = isl (fst (add_to_cart e u pid q v f g d))"
  using assms(1-3) clear_other_shops_none [OF assms(4)]
  by (simp add: ordersvc_add_def add_to_cart_def ordersvc_summary_def Let_def split: prod.split)

section \<open>Where they do not\<close>

text \<open>Customer 5 has the bun of shop 7 in the cart, and once bought the cake, which is of shop 8.\<close>

definition old_cake_order :: Order where
  "old_cake_order = (new_Order 0 ''SC1'' 5)\<lparr>o_id := 1, o_final_amount := cents 35428, o_shop_user_id := Some 8, o_status := OS_DELIVERED\<rparr>"

definition two_shop_db :: db where
  "two_shop_db = cart_db\<lparr>products := \<lparr>rows = [bun, cake\<lparr>p_supplier_user_id := Some 8\<rparr>], next_id = 3\<rparr>,
     cart_items := \<lparr>rows = [cart_lines ! 0], next_id = 3\<rparr>,
     orders := \<lparr>rows = [old_cake_order], next_id = 2\<rparr>,
     order_items := \<lparr>rows = [(new_OrderItem 1 2 ''Cake'')\<lparr>oi_id := 1\<rparr>], next_id = 2\<rparr>\<rparr>"

lemma cart_summary_settled:
  "cart_of d u = Some c \<Longrightarrow> t_first (\<lambda>r. True) (settings_rows d) = Some s \<Longrightarrow> cart_summary e u d = (summarise c s d, d)"
  by (simp add: cart_summary_def settings_def get_or_create_cart_old)

lemma ordersvc_summary_settled:
  "cart_of d u = Some c \<Longrightarrow> t_first (\<lambda>r. True) (settings_rows d) = Some s \<Longrightarrow> snd (ordersvc_summary e u d) = d"
  by (simp add: ordersvc_summary_def cart_summary_settled)

definition ravi_cart :: Cart where
  "ravi_cart = (new_Cart 0 5)\<lparr>ct_id := 1\<rparr>"

definition new_line :: CartItem where
  "new_line = (new_CartItem (env_now sample_env) 1 2)\<lparr>ci_id := 3, ci_quantity := 1, ci_unit_price := cents 35428\<rparr>"

definition mixed_after :: db where
  "mixed_after = two_shop_db\<lparr>cart_items := \<lparr>rows = [cart_lines ! 0, new_line], next_id = 4\<rparr>,
     carts := \<lparr>rows = [ravi_cart\<lparr>ct_updated_at := env_now sample_env\<rparr>], next_id = 2\<rparr>\<rparr>"

lemma two_shop_tables [simp]:
  "products two_shop_db = \<lparr>rows = [bun, cake\<lparr>p_supplier_user_id := Some 8\<rparr>], next_id = 3\<rparr>"
  "cart_items two_shop_db = \<lparr>rows = [cart_lines ! 0], next_id = 3\<rparr>"
  "carts two_shop_db = \<lparr>rows = [ravi_cart], next_id = 2\<rparr>"
  "settings_rows two_shop_db = \<lparr>rows = [(new_BakerySettings 0)\<lparr>bs_id := 1\<rparr>], next_id = 2\<rparr>"
  by (simp_all add: two_shop_db_def ravi_cart_def)

lemma reorder_cake: "\<exists>su. ordersvc_add sample_env 5 2 1 None None False two_shop_db = (Inr su, mixed_after)"
proof -
  have p: "get_Product two_shop_db 2 = Some (cake\<lparr>p_supplier_user_id := Some 8\<rparr>)" by (simp add: t_get_def bun_def cake_def)
  have c: "cart_of two_shop_db 5 = Some ravi_cart" by (simp add: cart_of_def t_first_def ravi_cart_def new_Cart_def)
  have l: "put_Cart (ravi_cart\<lparr>ct_updated_at := env_now sample_env\<rparr>)
      (add_line sample_env ravi_cart (cake\<lparr>p_supplier_user_id := Some 8\<rparr>) 1 None None False two_shop_db) = mixed_after"
    by (simp add: add_line_def mixed_after_def t_first_def t_put_def t_insert_def new_line_def ravi_cart_def new_Cart_def cart_lines_def
        new_CartItem_def cake_def customer_unit_price_def new_Product_def)
  have "snd (ordersvc_summary sample_env 5 mixed_after) = mixed_after"
    by (rule ordersvc_summary_settled [of _ _ "ravi_cart\<lparr>ct_updated_at := env_now sample_env\<rparr>"])
      (simp_all add: mixed_after_def cart_of_def t_first_def ravi_cart_def new_Cart_def)
  then obtain su where "ordersvc_summary sample_env 5 mixed_after = (su, mixed_after)" by (cases "ordersvc_summary sample_env 5 mixed_after") auto
  moreover have "p_is_active cake" "1 \<le> p_stock_qty cake" by (simp_all add: cake_def new_Product_def)
  ultimately show ?thesis
    unfolding ordersvc_add_def p option.case Let_def get_or_create_cart_old [OF c] prod.case l by simp
qed

text \<open>The route of the order service breaks the rule of the single shop: a cart that keeps it
  holds lines of two shops after a reorder of a past order, and the checkout takes the whole cart for the first shop's.\<close>

theorem reorder_mixes_shops:
  "\<exists>d su d'. carts_single_shop d \<and> ordersvc_reorder sample_env 1 5 d = (Inr su, d') \<and> \<not> carts_single_shop d'
     \<and> su_shop_user_id (fst (cart_summary sample_env 5 d')) = Some 7
     \<and> map cl_supplier_user_id (su_items (fst (cart_summary sample_env 5 d'))) = [Some 7, Some 8]"
proof -
  have cake: "items_of two_shop_db 1 = [(new_OrderItem 1 2 ''Cake'')\<lparr>oi_id := 1\<rparr>]"
    by (simp add: items_of_def t_all_def two_shop_db_def new_OrderItem_def)
  then obtain v where v: "order_detail two_shop_db 1 (Some 5) False = Inr v" "od_items v = [(new_OrderItem 1 2 ''Cake'')\<lparr>oi_id := 1\<rparr>]"
    by (simp add: order_detail_def t_get_def two_shop_db_def old_cake_order_def new_Order_def)
  have c: "cart_of mixed_after 5 = Some (ravi_cart\<lparr>ct_updated_at := env_now sample_env\<rparr>)"
    by (simp add: mixed_after_def cart_of_def t_first_def ravi_cart_def new_Cart_def)
  have st: "t_first (\<lambda>r. True) (settings_rows mixed_after) = Some ((new_BakerySettings 0)\<lparr>bs_id := 1\<rparr>)"
    by (simp add: mixed_after_def t_first_def)
  obtain su where "ordersvc_summary sample_env 5 mixed_after = (su, mixed_after)"
    using ordersvc_summary_settled [OF c st, of sample_env] by (metis prod.collapse)
  then have r: "ordersvc_reorder sample_env 1 5 two_shop_db = (Inr su, mixed_after)"
    using reorder_cake by (auto simp: ordersvc_reorder_def v new_OrderItem_def)
  have items: "active_items mixed_after 1 = [cart_lines ! 0, new_line]"
    by (simp add: active_items_def t_all_def mixed_after_def cart_lines_def new_line_def new_CartItem_def)
  have pr: "get_Product mixed_after 1 = Some bun" "get_Product mixed_after 2 = Some (cake\<lparr>p_supplier_user_id := Some 8\<rparr>)"
    by (simp_all add: mixed_after_def t_get_def bun_def cake_def)
  have shops: "shop_of mixed_after (cart_lines ! 0) = Some 7" "shop_of mixed_after new_line = Some 8"
    by (simp_all add: shop_of_def line_of_def Let_def pr cart_lines_def new_line_def new_CartItem_def bun_def)
  have "su_items (fst (cart_summary sample_env 5 mixed_after)) = map (line_of mixed_after) (active_items mixed_after 1)"
    "su_shop_user_id (fst (cart_summary sample_env 5 mixed_after)) = first_shop (map (line_of mixed_after) (active_items mixed_after 1))"
    by (simp_all add: cart_summary_settled [OF c st] summarise_def Let_def ravi_cart_def split: prod.split)
  then have lines: "map cl_supplier_user_id (su_items (fst (cart_summary sample_env 5 mixed_after))) = [Some 7, Some 8]"
    "su_shop_user_id (fst (cart_summary sample_env 5 mixed_after)) = Some 7"
    using shops by (simp_all add: items shop_of_def)
  have "carts_single_shop two_shop_db"
    by (auto simp: carts_single_shop_def same_shop_def)
  moreover have "\<not> carts_single_shop mixed_after"
  proof
    assume "carts_single_shop mixed_after"
    then have "same_shop (shop_of mixed_after (cart_lines ! 0)) (shop_of mixed_after new_line)"
      unfolding carts_single_shop_def by (simp add: mixed_after_def cart_lines_def new_line_def new_CartItem_def)
    then show False by (simp add: shops same_shop_def)
  qed
  ultimately show ?thesis
    using r lines by (intro exI [where x = two_shop_db] exI [where x = su] exI [where x = mixed_after] conjI)
qed

text \<open>An invoice of the order service carries the order's amounts, names both sides of the sale and is written once.\<close>

theorem ordersvc_invoice_once:
  assumes "ordersvc_get_invoice e oid u d = (Inr i, d')" "invoice_of d oid = None"
  shows "ordersvc_get_invoice e' oid u d' = (Inr i, d') \<and> inv_order_id i = Some oid \<and> inv_buyer_user_id i = Some u
    \<and> (\<exists>ord. get_Order d oid = Some ord \<and> inv_grand_total i = o_final_amount ord
        \<and> inv_seller_user_id i = (if is_wholesale ord then None else o_shop_user_id ord))"
proof -
  from assms obtain ord where O: "get_Order d oid = Some ord" "o_user_id ord = u" "ordersvc_generate_invoice e ord d = (Inr i, d')"
    by (auto simp: ordersvc_get_invoice_def order_detail_def dest: t_get_key split: option.splits if_splits sum.splits)
  have id: "o_id ord = oid" using t_get_key [OF O(1)] .
  obtain s d1 where s: "settings e d = (s, d1)" by fastforce
  define row where "row = ordersvc_invoice_row e ord s d1"
  have r: "i = key_Invoice row d1" "d' = add_Invoice row d1"
    using O(3) assms(2) id s by (auto simp: ordersvc_generate_invoice_def row_def Let_def split: if_splits)
  have f: "inv_order_id row = Some oid" "inv_buyer_user_id row = Some u" "inv_grand_total row = o_final_amount ord"
    "inv_seller_user_id row = (if is_wholesale ord then None else o_shop_user_id ord)"
    by (simp_all add: row_def ordersvc_invoice_row_def Let_def id O(2))
  obtain t where d1: "d1 = d\<lparr>settings_rows := t\<rparr>" using settings_frame [OF s] by blast
  have "invoice_of d' oid = Some i"
    unfolding invoice_of_def r
    using t_first_insert_None [of "\<lambda>r. inv_order_id r = Some oid" "invoices d1" "\<lambda>i r. r\<lparr>inv_id := i\<rparr>" row]
      assms(2) f(1) by (simp add: invoice_of_def d1)
  moreover have "get_Order d' oid = Some ord" using O(1) by (simp add: r d1)
  ultimately have "ordersvc_get_invoice e' oid u d' = (Inr i, d')"
    using O(2) id by (simp add: ordersvc_get_invoice_def order_detail_def)
  then show ?thesis using O f r by auto
qed

end
