(* ===== verification/Location.thy ===== *)
theory Location
  imports Shops ReturnLaws
begin

text \<open>
  \<open>location_service\<close>: the customers' addresses (\<open>services/addresses.py\<close>, which the gateway routes to; a missing position is told,
  not refused) and \<open>services/geo.py\<close>, which reads the answers of Google's places and geocoding API.  The API is
  a parameter: \<open>geo_call\<close> gives the JSON of an answer, or nothing when the request fails; its answers have the documented
  shape (objects, lists and texts where the code expects them; anything else counts as missing).
\<close>

section \<open>Addresses\<close>

datatype coverage = Covered delivery_check | MissingCoordinates

definition save_address :: "env \<Rightarrow> User \<Rightarrow> Address \<Rightarrow> db \<Rightarrow> (Address \<times> coverage) \<times> db" where
  "save_address e user body d =
     (let cover = (case (ad_latitude body, ad_longitude body) of
            (Some la, Some lo) \<Rightarrow> Covered (check_delivery e la lo d) | _ \<Rightarrow> MissingCoordinates);
          d1 = (if ad_is_default body then clear_defaults (u_id user) d else d);
          row = body\<lparr>ad_user_id := u_id user, ad_created_at := env_now e\<rparr>
      in ((key_Address row d1, cover), add_Address row d1))"

section \<open>Google's answers\<close>

datatype google_call = Autocomplete string "string option" | Details string "string option" | Geocode string | Reverse rat rat bool

record geo_cfg =
  geo_key :: string
  geo_call :: "google_call \<Rightarrow> json option"

definition has_key :: "geo_cfg \<Rightarrow> bool" where
  "has_key c \<longleftrightarrow> strip (geo_key c) \<noteq> []"

record geo_row =
  ge_label :: string
  ge_address_line :: string
  ge_village :: "string option"
  ge_area :: "string option"
  ge_city :: "string option"
  ge_state :: "string option"
  ge_pincode :: "string option"
  ge_zone :: "string option"
  ge_latitude :: "rat option"
  ge_longitude :: "rat option"
  ge_place_id :: "string option"

text \<open>The first text that is not blank, stripped.\<close>

fun pick :: "string option list \<Rightarrow> string option" where
  "pick [] = None"
| "pick (v # vs) = (case v of None \<Rightarrow> pick vs | Some s \<Rightarrow> if strip s = [] then pick vs else Some (strip s))"

definition json_list :: "json \<Rightarrow> json list" where
  "json_list j = (case j of JArr xs \<Rightarrow> xs | _ \<Rightarrow> [])"

definition json_num :: "json \<Rightarrow> rat option" where
  "json_num j = (case j of JFloat x \<Rightarrow> Some x | JInt n \<Rightarrow> Some (fl (of_int n)) | _ \<Rightarrow> None)"

text \<open>The long name of each component type; a later component replaces an earlier one.\<close>

definition component_map :: "json list \<Rightarrow> string \<Rightarrow> string option" where
  "component_map components = foldl (\<lambda>m c. foldl (\<lambda>m t. case t of
       JStr k \<Rightarrow> m(k \<mapsto> or_str (jstr (jget ''long_name'' c)) []) | _ \<Rightarrow> m) m (json_list (jget ''types'' c))) Map.empty components"

definition ends_with :: "string \<Rightarrow> string \<Rightarrow> bool" where
  "ends_with suffix s \<longleftrightarrow> starts_with (rev suffix) (rev s)"

definition drop_suffix :: "string \<Rightarrow> string \<Rightarrow> string" where
  "drop_suffix suffix s = (if ends_with suffix s then strip (take (length s - length suffix) s) else s)"

definition strip_country :: "string option \<Rightarrow> string option" where
  "strip_country formatted = (if \<not> truthy_str formatted then None
     else (let s = drop_suffix '', Bharat'' (drop_suffix '', India'' (strip (the formatted))) in if s = [] then None else Some s))"

definition or_none :: "string \<Rightarrow> string option" where
  "or_none s = (if s = [] then None else Some s)"

definition from_google_result :: "json \<Rightarrow> geo_row" where
  "from_google_result result =
     (let comps = component_map (json_list (jget ''address_components'' result));
          name = pick [jstr (jget ''name'' result)];
          street = pick [or_none (strip (join '' '' (filter (\<lambda>x. x \<noteq> []) [or_str (comps ''street_number'') [], or_str (comps ''route'') []]))),
                         comps ''route''];
          area = pick [comps ''sublocality_level_1'', comps ''sublocality'', comps ''neighborhood''];
          locality = pick [comps ''locality'', comps ''postal_town''];
          district = pick [comps ''administrative_area_level_2''];
          city = (case locality of Some l \<Rightarrow> Some l | None \<Rightarrow> district);
          village0 = pick [comps ''sublocality_level_2'', area, locality];
          village = (if village0 \<noteq> None \<and> village0 = city \<and> area \<noteq> None \<and> area \<noteq> city then area else village0);
          formatted = pick [jstr (jget ''formatted_address'' result)];
          line = (case (name, street) of
              (Some n, Some s) \<Rightarrow> if contains (str_lower n) (str_lower s) then or_str (pick [name, street, strip_country formatted, locality, area]) []
                                else n @ '', '' @ s
            | _ \<Rightarrow> or_str (pick [name, street, strip_country formatted, locality, area]) []);
          loc = jget ''location'' (jget ''geometry'' result);
          (lat, lng) = (case (json_num (jget ''lat'' loc), json_num (jget ''lng'' loc)) of
              (Some a, Some b) \<Rightarrow> (Some a, Some b) | _ \<Rightarrow> (None, None))
      in \<lparr>ge_label = or_str formatted line, ge_address_line = line, ge_village = village, ge_area = area, ge_city = city,
          ge_state = pick [comps ''administrative_area_level_1''], ge_pincode = pick [comps ''postal_code''], ge_zone = None,
          ge_latitude = lat, ge_longitude = lng, ge_place_id = jstr (jget ''place_id'' result)\<rparr>)"

section \<open>Suggestions\<close>

text \<open>\<open>xs[:n]\<close> with Python's meaning of a negative bound.\<close>

definition slice_to :: "int \<Rightarrow> 'a list \<Rightarrow> 'a list" where
  "slice_to n xs = (if 0 \<le> n then take (nat n) xs else take (nat (int (length xs) + n)) xs)"

definition from_end :: "nat \<Rightarrow> 'a list \<Rightarrow> 'a option" where
  "from_end k xs = (if k \<le> length xs then Some (rev xs ! (k - 1)) else None)"

definition suggestion :: "json \<Rightarrow> geo_row option" where
  "suggestion pred =
     (let place_id = jstr (jget ''place_id'' pred); label = or_str (jstr (jget ''description'' pred)) []
      in if \<not> truthy_str place_id \<or> label = [] then None
         else let parts = filter (\<lambda>p. p \<noteq> []) (map strip (split_on CHR '','' label));
                  city0 = from_end 3 parts; state0 = from_end 2 parts;
                  abroad = (case state0 of None \<Rightarrow> False | Some s \<Rightarrow> str_lower s \<in> {''india'', ''bharat''});
                  state = (if abroad then from_end 3 parts else state0);
                  city = (if \<not> abroad then city0
                          else if 4 \<le> length parts then from_end 4 parts
                          else if parts = [] then None else Some (hd parts))
              in Some \<lparr>ge_label = label,
                       ge_address_line = or_str (jstr (jget ''main_text'' (jget ''structured_formatting'' pred))) label,
                       ge_village = None, ge_area = None, ge_city = city, ge_state = state, ge_pincode = None, ge_zone = None,
                       ge_latitude = None, ge_longitude = None, ge_place_id = place_id\<rparr>)"

definition suggest_addresses :: "geo_cfg \<Rightarrow> string \<Rightarrow> int \<Rightarrow> string option \<Rightarrow> geo_row list" where
  "suggest_addresses c q limit token =
     (let query = strip q in
      if py_len query < 2 \<or> \<not> has_key c then []
      else (case geo_call c (Autocomplete query (if truthy_str token then token else None)) of
        None \<Rightarrow> []
      | Some data \<Rightarrow>
          if jget ''status'' data \<notin> {JStr ''OK'', JStr ''ZERO_RESULTS''} then []
          else List.map_filter suggestion (slice_to limit (json_list (jget ''predictions'' data)))))"

section \<open>Places\<close>

definition place_details :: "geo_cfg \<Rightarrow> string \<Rightarrow> string option \<Rightarrow> geo_row option" where
  "place_details c place_id token =
     (if strip place_id = [] \<or> \<not> has_key c then None
      else (case geo_call c (Details (strip place_id) (if truthy_str token then token else None)) of
        None \<Rightarrow> None
      | Some data \<Rightarrow> if jget ''status'' data \<noteq> JStr ''OK'' then None else Some (from_google_result (jget ''result'' data))))"

definition geocode_query :: "geo_cfg \<Rightarrow> string \<Rightarrow> geo_row option" where
  "geocode_query c q =
     (if strip q = [] \<or> \<not> has_key c then None
      else (case geo_call c (Geocode (strip q)) of
        None \<Rightarrow> None
      | Some data \<Rightarrow> if jget ''status'' data \<noteq> JStr ''OK'' then None
                     else (case json_list (jget ''results'' data) of [] \<Rightarrow> None | r # _ \<Rightarrow> Some (from_google_result r))))"

text \<open>Without a hit the request is repeated without the filter on result types; the position asked for is kept.\<close>

definition reverse_geocode :: "geo_cfg \<Rightarrow> rat \<Rightarrow> rat \<Rightarrow> geo_row option" where
  "reverse_geocode c lat lng =
     (if \<not> has_key c then None
      else (case geo_call c (Reverse lat lng True) of
        None \<Rightarrow> None
      | Some data \<Rightarrow>
          if jget ''status'' data \<notin> {JStr ''OK'', JStr ''ZERO_RESULTS''} then None
          else let first = json_list (jget ''results'' data);
              results = (if first \<noteq> [] then first
                else (case geo_call c (Reverse lat lng False) of None \<Rightarrow> [] | Some again \<Rightarrow> json_list (jget ''results'' again)))
          in (case results of [] \<Rightarrow> None
              | r # _ \<Rightarrow> Some ((from_google_result r)\<lparr>ge_latitude := Some lat, ge_longitude := Some lng\<rparr>))))"

definition lookup_pincode :: "geo_cfg \<Rightarrow> string \<Rightarrow> geo_row option" where
  "lookup_pincode c pin = (let digits = filter is_digit_char pin in
     if length digits \<noteq> 6 then None else geocode_query c (digits @ '', India''))"

definition keep_or :: "string option \<Rightarrow> string option \<Rightarrow> string option" where
  "keep_or a b = (if truthy_str a then a else b)"

definition geocode_fill :: "geo_cfg \<Rightarrow> geo_row \<Rightarrow> geo_row" where
  "geocode_fill c parts =
     (if ge_latitude parts \<noteq> None \<and> ge_longitude parts \<noteq> None then parts
      else let bits = filter (\<lambda>b. b \<noteq> []) [ge_address_line parts, or_str (ge_village parts) [], or_str (ge_city parts) [],
                 or_str (ge_state parts) [], or_str (ge_pincode parts) [], ''India'']
      in (case geocode_query c (join '', '' bits) of
            None \<Rightarrow> parts
          | Some hit \<Rightarrow> parts\<lparr>ge_latitude := ge_latitude hit, ge_longitude := ge_longitude hit,
              ge_city := keep_or (ge_city parts) (ge_city hit), ge_state := keep_or (ge_state parts) (ge_state hit),
              ge_pincode := keep_or (ge_pincode parts) (ge_pincode hit), ge_area := keep_or (ge_area parts) (ge_area hit),
              ge_village := keep_or (ge_village parts) (ge_village hit),
              ge_address_line := (if ge_address_line parts \<noteq> [] then ge_address_line parts else ge_address_line hit),
              ge_zone := keep_or (ge_zone parts) (ge_zone hit), ge_place_id := ge_place_id hit\<rparr>))"

section \<open>Laws\<close>

text \<open>Along any interleaving of saves by either service and deletions no customer gets a second default address.\<close>

inductive address_step :: "db \<Rightarrow> db \<Rightarrow> bool" where
  save: "save_address e user body d = (r, d') \<Longrightarrow> address_step d d'"
| checked: "add_address e user body d = (res, d') \<Longrightarrow> address_step d d'"
| delete: "delete_address uid k d = (msg, d') \<Longrightarrow> address_step d d'"

lemma address_step_default: "address_step d d' \<Longrightarrow> one_default d \<Longrightarrow> one_default d'"
proof (induction rule: address_step.induct)
  case (save e user body d r d')
  then have "d' = add_Address (body\<lparr>ad_user_id := u_id user, ad_created_at := env_now e\<rparr>)
      (if ad_is_default body then clear_defaults (u_id user) d else d)"
    unfolding save_address_def Let_def by blast
  then show ?case by (simp only: new_address_default [OF save(2) refl])
qed (blast intro: add_address_default delete_address_default)+

theorem addresses_one_default:
  assumes "address_step\<^sup>*\<^sup>* d d'" "one_default d" shows "one_default d'"
  using assms by (induction rule: rtranclp_induct) (auto intro: address_step_default)

text \<open>Filling in a position never replaces what was given.\<close>

theorem fill_keeps:
  "let r = geocode_fill c parts in ge_label r = ge_label parts
     \<and> (ge_address_line parts = [] \<or> ge_address_line r = ge_address_line parts)
     \<and> (\<not> truthy_str (ge_city parts) \<or> ge_city r = ge_city parts) \<and> (\<not> truthy_str (ge_state parts) \<or> ge_state r = ge_state parts)
     \<and> (\<not> truthy_str (ge_pincode parts) \<or> ge_pincode r = ge_pincode parts)"
proof (cases "ge_latitude parts \<noteq> None \<and> ge_longitude parts \<noteq> None")
  case True
  then have "geocode_fill c parts = parts" by (simp add: geocode_fill_def)
  then show ?thesis by (simp add: Let_def)
next
  case False
  obtain q where q: "geocode_fill c parts = (case geocode_query c q of None \<Rightarrow> parts
      | Some hit \<Rightarrow> parts\<lparr>ge_latitude := ge_latitude hit, ge_longitude := ge_longitude hit,
          ge_city := keep_or (ge_city parts) (ge_city hit), ge_state := keep_or (ge_state parts) (ge_state hit),
          ge_pincode := keep_or (ge_pincode parts) (ge_pincode hit), ge_area := keep_or (ge_area parts) (ge_area hit),
          ge_village := keep_or (ge_village parts) (ge_village hit),
          ge_address_line := (if ge_address_line parts \<noteq> [] then ge_address_line parts else ge_address_line hit),
          ge_zone := keep_or (ge_zone parts) (ge_zone hit), ge_place_id := ge_place_id hit\<rparr>)"
    using False unfolding geocode_fill_def Let_def by (simp only: if_False)
  have keep: "truthy_str a \<Longrightarrow> keep_or a b = a" for a b by (simp add: keep_or_def)
  show ?thesis by (cases "geocode_query c q") (simp_all add: q Let_def keep)
qed

end
