(* ===== verification/Guardrails.thy ===== *)
theory Guardrails
  imports Units
begin

text \<open>
  \<open>ai_service/app/brain/guardrails.py\<close>: which messages the assistant takes, which of its answers it may give, which photos
  can be uploaded.  The regular expressions are written out as tests on the code points of a text.  \<open>uw\<close>, a
  parameter, tells the word characters (\<open>\w\<close>) beyond ASCII; digits and the two cases of a letter are those of ASCII.
\<close>

section \<open>Code points\<close>

function code_points :: "string \<Rightarrow> nat list" where
  "code_points [] = []"
| "code_points (c # cs) = (let n = char_code c;
       k = (if n < 192 then 0 else if n < 224 then 1 else if n < 240 then 2 else 3 :: nat);
       lead = (if n < 192 then n else if n < 224 then n - 192 else if n < 240 then n - 224 else n - 240)
     in foldl (\<lambda>acc d. acc * 64 + (char_code d - 128)) lead (take k cs) # code_points (drop k cs))"
  by pat_completeness auto
termination by (relation "measure length") auto

declare code_points.simps [simp del]

definition space_cp :: "nat \<Rightarrow> bool" where
  "space_cp n \<longleftrightarrow> (9 \<le> n \<and> n \<le> 13) \<or> (28 \<le> n \<and> n \<le> 32) \<or> (8192 \<le> n \<and> n \<le> 8202)
     \<or> n \<in> {133, 160, 5760, 8232, 8233, 8239, 8287, 12288}"

definition digit_cp :: "nat \<Rightarrow> bool" where
  "digit_cp n \<longleftrightarrow> 48 \<le> n \<and> n \<le> 57"

definition word_cp :: "(nat \<Rightarrow> bool) \<Rightarrow> nat \<Rightarrow> bool" where
  "word_cp uw n = (if n < 128 then digit_cp n \<or> (65 \<le> n \<and> n \<le> 90) \<or> (97 \<le> n \<and> n \<le> 122) \<or> n = 95 else uw n)"

text \<open>\<open>\b\<close> between a character and the next; the ends of the text are not word characters.\<close>

definition word_opt :: "(nat \<Rightarrow> bool) \<Rightarrow> nat option \<Rightarrow> bool" where
  "word_opt uw p = (case p of None \<Rightarrow> False | Some n \<Rightarrow> word_cp uw n)"

definition next_cp :: "nat list \<Rightarrow> nat option" where
  "next_cp xs = (case xs of [] \<Rightarrow> None | x # _ \<Rightarrow> Some x)"

definition boundary :: "(nat \<Rightarrow> bool) \<Rightarrow> nat option \<Rightarrow> nat list \<Rightarrow> bool" where
  "boundary uw p xs \<longleftrightarrow> word_opt uw p \<noteq> word_opt uw (next_cp xs)"

text \<open>A test on the character before a position and the text from there on, tried at every position.\<close>

fun somewhere :: "(nat option \<Rightarrow> nat list \<Rightarrow> bool) \<Rightarrow> nat option \<Rightarrow> nat list \<Rightarrow> bool" where
  "somewhere f p [] = f p []"
| "somewhere f p (x # xs) = (f p (x # xs) \<or> somewhere f (Some x) xs)"

fun at_word :: "nat list \<Rightarrow> nat list \<Rightarrow> bool" where
  "at_word [] xs = True"
| "at_word (w # ws) [] = False"
| "at_word (w # ws) (x # xs) = (if w = x then at_word ws xs else False)"

text \<open>One of the words, followed by \<open>\b\<close>.\<close>

definition word_then :: "(nat \<Rightarrow> bool) \<Rightarrow> nat list list \<Rightarrow> nat list \<Rightarrow> bool" where
  "word_then uw ws xs = list_ex (\<lambda>w. if at_word w xs then boundary uw (Some (last w)) (drop (length w) xs) else False) ws"

definition whole_word :: "(nat \<Rightarrow> bool) \<Rightarrow> nat list list \<Rightarrow> nat list \<Rightarrow> bool" where
  "whole_word uw ws xs = somewhere (\<lambda>p ys. if word_then uw ws ys then boundary uw p ys else False) None xs"

text \<open>\<open>(a|b).*(c|d)\<close>; the dot stops at the end of a line.\<close>

definition word_line_word :: "nat list list \<Rightarrow> nat list list \<Rightarrow> nat list \<Rightarrow> bool" where
  "word_line_word ws vs xs = somewhere (\<lambda>_ ys. list_ex (\<lambda>w. if at_word w ys
     then somewhere (\<lambda>_ zs. list_ex (\<lambda>v. at_word v zs) vs) None (takeWhile (\<lambda>n. n \<noteq> 10) (drop (length w) ys))
     else False) ws) None xs"

section \<open>The gate\<close>

definition ALLOWED_TOPICS :: "string list" where
  "ALLOWED_TOPICS =
    [''cake'', ''bakery'', ''pastry'', ''bread'', ''cookie'', ''donut'', ''cupcake'', ''order'', ''delivery'',
     ''payment'', ''upi'', ''refund'', ''return'', ''invoice'', ''gst'', ''eggless'', ''sugar'', ''custom'',
     ''flavour'', ''flavor'', ''weight'', ''cart'', ''coupon'', ''track'', ''hamper'', ''festival'', ''diwali'',
     ''birthday'', ''wedding'', ''sweetcrust'', ''menu'', ''stock'', ''allergen'', ''hello'', ''hi'', ''thanks'',
     ''help'', ''price'', rupee, ''rs'', ''shop'', ''retailer'', ''credit'', ''udhaar'', ''outstanding'',
     ''balance'', ''moq'', ''catalog'', ''wholesale'', ''owner'', ''callback'', ''call'', ''photo'', ''kyc'',
     ''aadhaar'', ''pan'', ''village'', ''dispatch'', ''stock'', ''sku'', ''deliver'', ''tomorrow'', ''today'',
     ''biscuit'', ''bread'', ''pak'', ''packet'', ''box'', ''qty'', ''quantity'', ''need'', ''want'', ''send'',
     ''please'', ''sir'', ''madam'', ''bhai'', ''bhabi'']"

text \<open>The five blocked patterns.\<close>

definition blocked :: "(nat \<Rightarrow> bool) \<Rightarrow> string \<Rightarrow> bool" where
  "blocked uw text = (let t = code_points (str_lower text) in
     whole_word uw (map code_points [''kill'', ''suicide'', ''nsfw'', ''porn'', ''xxx'', ''nude'']) t
     \<or> whole_word uw (map code_points [''election'', ''politics'', ''modi'', ''bjp'', ''congress'']) t
     \<or> whole_word uw (map code_points [''prescribe'', ''diagnosis'', ''lawsuit'', ''attorney'']) t
     \<or> word_line_word (map code_points [''ignore'', ''bypass'', ''jailbreak'']) (map code_points [''instruction'', ''prompt'', ''system'']) t
     \<or> whole_word uw (map code_points [''crypto'', ''bitcoin'', ''forex trading'']) t)"

definition REFUSAL :: string where
  "REFUSAL = ''I can only help with SweetCrust topics '' @ emdash @ '' products, shop orders, credit/udhaar, ''
     @ ''payments, delivery, returns, custom cakes, and invoices. ''
     @ ''Ask about your order, catalog, or say talk to owner.''"

definition is_app_related :: "(nat \<Rightarrow> bool) \<Rightarrow> string \<Rightarrow> bool" where
  "is_app_related uw text = (let t = str_lower text in
     strip t \<noteq> [] \<and> \<not> blocked uw t \<and> list_ex (\<lambda>k. contains k t) ALLOWED_TOPICS)"

text \<open>A greeting or an affirmation at the start of the text.\<close>

definition greets :: "(nat \<Rightarrow> bool) \<Rightarrow> nat list \<Rightarrow> bool" where
  "greets uw t = word_then uw (map code_points [''hi'', ''hello'', ''hey'', ''namaste'', ''thanks'', ''ok'', ''haan'', ''yes'', ''no'', ''please'', ''pls'']) t"

definition number_then :: "nat list \<Rightarrow> nat list \<Rightarrow> nat list option" where
  "number_then w xs = (if takeWhile digit_cp xs = [] then None
     else let rest = dropWhile space_cp (dropWhile digit_cp xs) in if at_word w rest then Some (drop (length w) rest) else None)"

text \<open>An order number, a word of the trade, or a quantity, between word boundaries.\<close>

definition trade_word :: "(nat \<Rightarrow> bool) \<Rightarrow> nat list list \<Rightarrow> nat option \<Rightarrow> nat list \<Rightarrow> bool" where
  "trade_word uw ws p xs = (if \<not> boundary uw p xs then False
     else (if at_word [115, 99] xs then let ds = takeWhile digit_cp (drop 2 xs) in
             6 \<le> length ds \<and> boundary uw (Some (last ds)) (drop (2 + length ds) xs) else False)
        \<or> word_then uw ws xs
        \<or> (case number_then [107, 103] xs of None \<Rightarrow> False | Some ys \<Rightarrow> boundary uw (Some 103) ys)
        \<or> (case number_then [112, 107, 116] xs of None \<Rightarrow> False | Some ys \<Rightarrow> boundary uw (Some 116) ys))"

definition TRADE_WORDS :: "string list" where
  "TRADE_WORDS = [''order'', ''cake'', ''deliver'', ''stock'', ''credit'', ''udhaar'', rupee]"

text \<open>A messenger's name followed by a number: the message passes with a note.\<close>

definition names_messenger :: "nat list list \<Rightarrow> nat list \<Rightarrow> bool" where
  "names_messenger ws t = somewhere (\<lambda>_ ys. list_ex (\<lambda>w. if at_word w ys then
       (let rest = dropWhile space_cp (drop (length w) ys); after = (if next_cp rest = Some 43 then tl rest else rest)
        in case next_cp after of None \<Rightarrow> False | Some n \<Rightarrow> digit_cp n) else False) ws) None t"

datatype gate = GateOpen string bool | GateShut string

definition filter_user_message :: "(nat \<Rightarrow> bool) \<Rightarrow> bool \<Rightarrow> bool \<Rightarrow> string \<Rightarrow> gate" where
  "filter_user_message uw enabled peer text =
     (if \<not> enabled then GateOpen text False
      else let t = strip text; cs = code_points (str_lower t)
      in if t = [] then GateShut ''empty''
         else if blocked uw t then GateShut ''blocked_topic''
         else if peer then GateOpen t False
         else if py_len t < 80 \<and> (greets uw cs \<or> list_all (\<lambda>n. n = 63) cs) then GateOpen t False
         else if somewhere (trade_word uw (map code_points TRADE_WORDS)) None cs then GateOpen t False
         else if \<not> is_app_related uw t then GateShut ''off_topic''
         else GateOpen t (names_messenger (map code_points [''whatsapp'', ''telegram'', ''personal number'', ''call me on'']) cs))"

definition filter_ai_reply :: "(nat \<Rightarrow> bool) \<Rightarrow> bool \<Rightarrow> string \<Rightarrow> string" where
  "filter_ai_reply uw enabled text = (if \<not> enabled then text else if blocked uw text then REFUSAL else text)"

section \<open>Photos\<close>

definition PHOTO_ALLOWED_PURPOSES :: "string list" where
  "PHOTO_ALLOWED_PURPOSES = [''chat'', ''custom_cake'', ''evidence'', ''kyc'', ''product'', ''profile'', ''return'', ''shop_logo'']"

definition PHOTO_ALLOWED_MIME :: "string list" where
  "PHOTO_ALLOWED_MIME = [''image/jpeg'', ''image/png'', ''image/webp'', ''image/heic'', ''image/jpg'']"

definition validate_photo_upload :: "bool \<Rightarrow> string option \<Rightarrow> string option \<Rightarrow> string option \<Rightarrow> string + string option" where
  "validate_photo_upload enabled content_type purpose0 filename =
     (if \<not> enabled then Inr None
      else let purpose = str_lower (or_str purpose0 ''chat'');
               ct = str_lower (strip (takeWhile (\<lambda>c. c \<noteq> CHR '';'') (or_str content_type [])))
      in if purpose \<notin> set PHOTO_ALLOWED_PURPOSES
         then Inl (''Photo purpose must be one of: '' @ join '', '' PHOTO_ALLOWED_PURPOSES)
         else if ct \<noteq> [] \<and> ct \<notin> set PHOTO_ALLOWED_MIME
         then Inl ''Only bakery-related images (JPEG/PNG/WebP) are allowed''
         else if list_ex (\<lambda>x. starts_with (rev x) (rev (str_lower (or_str filename [])))) [''.exe'', ''.apk'', ''.js'', ''.html'', ''.php'']
         then Inl ''File type not allowed''
         else Inr (Some purpose))"

section \<open>Laws\<close>

theorem ai_reply_passes: "filter_ai_reply uw True text = REFUSAL \<or> \<not> blocked uw (filter_ai_reply uw True text)"
  by (simp add: filter_ai_reply_def)

text \<open>A message that passes is never blocked, whoever it is for.\<close>

theorem gate_open_not_blocked:
  "filter_user_message uw True peer text = GateOpen t nt \<Longrightarrow> t = strip text \<and> t \<noteq> [] \<and> \<not> blocked uw t"
  by (auto simp: filter_user_message_def Let_def split: if_splits)

text \<open>The topic \<open>hi\<close> is looked for anywhere in the text, so the gate is open to most sentences.\<close>

lemma blocked_lower: "blocked uw (str_lower t) = blocked uw t"
  by (simp add: blocked_def)

theorem gate_takes_anything:
  "filter_user_message uw True False ''China?'' = GateOpen ''China?'' False"
proof -
  have b: "blocked uw ''China?'' = False" by code_simp
  have c: "code_points (str_lower ''China?'') = [99, 104, 105, 110, 97, 63]" by code_simp
  have g: "greets uw [99, 104, 105, 110, 97, 63] = False"
    "somewhere (trade_word uw (map code_points TRADE_WORDS)) None [99, 104, 105, 110, 97, 63] = False"
    "names_messenger (map code_points [''whatsapp'', ''telegram'', ''personal number'', ''call me on'']) [99, 104, 105, 110, 97, 63] = False"
    by code_simp+
  have l: "strip ''China?'' = ''China?''" by code_simp
  have "strip (str_lower ''China?'') \<noteq> []" by code_simp
  moreover have "contains ''hi'' (str_lower ''China?'')" by code_simp
  moreover have "''hi'' \<in> set ALLOWED_TOPICS" by (simp add: ALLOWED_TOPICS_def)
  ultimately have "is_app_related uw ''China?''"
    unfolding is_app_related_def Let_def blocked_lower b list_ex_iff by blast
  then show ?thesis unfolding filter_user_message_def Let_def l b c g by simp
qed

end
