(* ===== verification/AiChat.thy ===== *)
theory AiChat
  imports Guardrails ChatLaws
begin

text \<open>
  \<open>ai_service\<close>: the assistant's conversations (\<open>services/chat.py\<close>, the chat routes of \<open>routes/api.py\<close>), its answers by rule
  (\<open>brain/agents/chatbot_agent.py\<close>, \<open>brain/rag/pipeline.py\<close>), the facts it tells the owner (\<open>insights_agent.py\<close>) and its view of
  a return (\<open>return_agent.py\<close>).  The language model (\<open>ai_graph\<close>, nothing when it is not configured or fails) and the index
  of documents (\<open>ai_retrieve\<close>) are parameters.  Neither writes to the database.
\<close>

section \<open>State and settings\<close>

record ChatbotFAQ =
  fq_id :: int
  fq_question :: string
  fq_answer :: string
  fq_language :: string
  fq_is_active :: bool
  fq_created_at :: datetime

interpretation ChatbotFAQ_row: keyed_row fq_id "\<lambda>i r. r\<lparr>fq_id := i\<rparr>" by unfold_locales simp

record ai_state =
  as_chat :: chat_state
  as_faqs :: "ChatbotFAQ table"
  as_up :: bool
  as_rates :: "string \<Rightarrow> (int \<times> datetime) option"

record ai_result =
  ar_reply :: string
  ar_language :: string
  ar_products :: "json list"
  ar_actions :: "json list"
  ar_quick_replies :: "string list"
  ar_provider :: string
  ar_blocked :: "bool option"
  ar_reason :: "string option"

record ai_cfg =
  ai_word :: "nat \<Rightarrow> bool"
  ai_guardrails :: bool
  ai_rate_limit :: int
  ai_rate_window_sec :: int
  ai_top_k :: int
  ai_retrieve :: "string \<Rightarrow> int \<Rightarrow> string"
  ai_graph :: "ai_state \<Rightarrow> int \<Rightarrow> string \<Rightarrow> string \<Rightarrow> string \<Rightarrow> (string \<times> string) list option \<Rightarrow> ai_result option"

abbreviation as_db :: "ai_state \<Rightarrow> db" where "as_db s \<equiv> ch_db (as_chat s)"

section \<open>Requests per hour\<close>

definition rate_incr :: "env \<Rightarrow> string \<Rightarrow> int \<Rightarrow> ai_state \<Rightarrow> int option \<times> ai_state" where
  "rate_incr e k ttl s =
     (if \<not> as_up s then (None, s)
      else (case as_rates s k of
        Some (n, t) \<Rightarrow> if env_now e < t then (Some (n + 1), s\<lparr>as_rates := (as_rates s)(k := Some (n + 1, t))\<rparr>)
                      else (Some 1, s\<lparr>as_rates := (as_rates s)(k := Some (1, env_now e + us_seconds ttl))\<rparr>)
      | None \<Rightarrow> (Some 1, s\<lparr>as_rates := (as_rates s)(k := Some (1, env_now e + us_seconds ttl))\<rparr>)))"

definition enforce_rate :: "env \<Rightarrow> string \<Rightarrow> int \<Rightarrow> int \<Rightarrow> ai_state \<Rightarrow> (exc + int option) \<times> ai_state" where
  "enforce_rate e k limit window_sec s =
     (if limit \<le> 0 then (Inr None, s)
      else (case rate_incr e k window_sec s of (n, s1) \<Rightarrow>
        (case n of
           Some c \<Rightarrow> if limit < c
             then (Inl (AppExc (RateLimitError (Msg (''Rate limit exceeded ('' @ show_int limit @ ''/'' @ show_int window_sec @ ''s)'')))), s1)
             else (Inr n, s1)
         | None \<Rightarrow> (Inr n, s1))))"

definition enforce_chat_rate :: "env \<Rightarrow> ai_cfg \<Rightarrow> int \<Rightarrow> ai_state \<Rightarrow> (exc + int option) \<times> ai_state" where
  "enforce_chat_rate e c uid s = enforce_rate e (''ai:chat:'' @ show_int uid) (ai_rate_limit c) (ai_rate_window_sec c) s"

section \<open>Sending\<close>

definition FROM_OUTSIDE :: "string list" where "FROM_OUTSIDE = [''customer'', ''retailer'']"

text \<open>What is stored of a message: the words of customers and shops pass the gate (unless the caller has passed them
  already), those of the assistant the filter.\<close>

definition admitted :: "ai_cfg \<Rightarrow> Conversation \<Rightarrow> string \<Rightarrow> string option \<Rightarrow> string \<Rightarrow> bool \<Rightarrow> exc + string option" where
  "admitted c conv role content message_type skip =
     (let gated = (if \<not> skip \<and> role \<in> set FROM_OUTSIDE \<and> truthy_str content \<and> message_type = ''text''
            then (case filter_user_message (ai_word c) (ai_guardrails c)
                         (\<not> (cv_is_ai conv \<or> cv_category conv \<in> {CH_RETAILER_AI, CH_AI})) (the content) of
                    GateShut _ \<Rightarrow> Inl (bad_request REFUSAL)
                  | GateOpen t _ \<Rightarrow> Inr (if t = [] then content else Some t))
            else Inr content)
      in case gated of Inl ex \<Rightarrow> Inl ex
         | Inr t \<Rightarrow> Inr (if role = ''ai'' \<and> truthy_str t then Some (filter_ai_reply (ai_word c) (ai_guardrails c) (the t)) else t))"

definition ai_counted :: "string \<Rightarrow> Conversation \<Rightarrow> Conversation" where
  "ai_counted role c = (if role = ''retailer'' then c\<lparr>cv_unread_admin := cv_unread_admin c + 1\<rparr> else counted role c)"

definition ai_notice :: "env \<Rightarrow> string \<Rightarrow> bool \<Rightarrow> string \<Rightarrow> Conversation \<Rightarrow> db \<Rightarrow> db" where
  "ai_notice e role online preview c d =
     (if role = ''retailer'' then (case chat_first_admin d of None \<Rightarrow> d
        | Some a \<Rightarrow> notify e (u_id a) ''chat''
            (''New shop message'' @ (if online then [] else '' (offline '' @ em_dash @ '' will see when online)'')) preview
            (Some (JObj [(''conversation_id'', JInt (cv_id c)), (''offline'', JBool (\<not> online))])) d)
      else chat_notice e role online preview c d)"

definition recipient_online :: "string \<Rightarrow> Conversation \<Rightarrow> db \<Rightarrow> bool" where
  "recipient_online role c d = (case (if role \<in> set FROM_OUTSIDE then chat_first_admin d else get_User d (cv_customer_id c)) of
     None \<Rightarrow> False | Some u \<Rightarrow> u_is_online u)"

definition message_payload :: "ChatMessage \<Rightarrow> (string \<times> json) list" where
  "message_payload m = [(''id'', JInt (cm_id m)), (''conversation_id'', JInt (cm_conversation_id m)),
     (''content'', jopt_str (cm_content m)), (''message_type'', JStr (MessageType_value (cm_message_type m))),
     (''sender_role'', JStr (cm_sender_role m)), (''sender_id'', jopt_int (cm_sender_id m)),
     (''media_url'', jopt_str (cm_media_url m)), (''is_delivered'', JBool (cm_is_delivered m)),
     (''is_read'', JBool (cm_is_read m)), (''created_at'', JStr (isoformat (cm_created_at m)))]"

definition ai_send_message :: "env \<Rightarrow> ai_cfg \<Rightarrow> int \<Rightarrow> int option \<Rightarrow> string \<Rightarrow> string option \<Rightarrow> string \<Rightarrow> string option \<Rightarrow> json option
    \<Rightarrow> bool \<Rightarrow> chat_state \<Rightarrow> (exc + ChatMessage) \<times> chat_state" where
  "ai_send_message e cfg k sender_id role content0 message_type media meta skip s = (case get_conv s k of
     None \<Rightarrow> (Inl (not_found ''Conversation not found''), s)
   | Some c \<Rightarrow> (case admitted cfg c role content0 message_type skip of
       Inl ex \<Rightarrow> (Inl ex, s)
     | Inr content \<Rightarrow>
       let online = recipient_online role c (ch_db s);
           msg = key_msg (chat_row e k sender_id role content message_type media meta online) s;
           c2 = ai_counted role (c\<lparr>cv_last_message := Some (last_text content message_type), cv_updated_at := env_now e\<rparr>);
           preview = or_str content (if message_type = ''image'' then photo else ''New message'')
       in (Inr msg,
           on_db (\<lambda>d. emit_chat_message (message_payload msg) k (Some (cv_customer_id c)) role
               (ai_notice e role online preview c d))
             (add_msg msg (put_conv c2 s)))))"

section \<open>Conversations\<close>

definition ai_create_conversation :: "env \<Rightarrow> ai_cfg \<Rightarrow> int \<Rightarrow> ConversationCreateIn \<Rightarrow> chat_state \<Rightarrow> (exc + Conversation) \<times> chat_state" where
  "ai_create_conversation e cfg customer_id b s =
     (if (case cci_order_id b of None \<Rightarrow> False | Some k \<Rightarrow> get_Order (ch_db s) k = None)
      then (Inl (PyExc ''IntegrityError''), s)
      else let cat = str_lower (strip (if cci_category b = [] then ''general'' else cci_category b));
               c = (new_Conversation (env_now e) (parse_category (cci_category b)) customer_id)
                     \<lparr>cv_order_id := cci_order_id b, cv_return_id := cci_return_id b,
                      cv_custom_cake_id := cci_custom_cake_id b, cv_is_ai := cci_is_ai b\<rparr>;
               k = next_id (ch_convs s);
               s1 = add_conv c s
           in if truthy_str (cci_initial_message b)
              then (case ai_send_message e cfg k (Some customer_id) (if starts_with ''retailer'' cat then ''retailer'' else ''customer'')
                        (cci_initial_message b) ''text'' None None False s1 of
                 (Inl ex, s2) \<Rightarrow> (Inl ex, s2)
               | (Inr _, s2) \<Rightarrow> (Inr (case get_conv s2 k of Some c2 \<Rightarrow> c2 | None \<Rightarrow> key_conv c s), s2))
              else (Inr (key_conv c s), s1))"

definition require_conversation :: "chat_state \<Rightarrow> int \<Rightarrow> User \<Rightarrow> exc + Conversation" where
  "require_conversation s k user = (case get_conv s k of
     None \<Rightarrow> Inl (not_found ''Conversation not found'')
   | Some c \<Rightarrow> if u_role user \<noteq> UR_ADMIN \<and> cv_customer_id c \<noteq> u_id user then Inl (forbidden ''Forbidden'') else Inr c)"

text \<open>The last twelve messages, oldest first; those of neither side of the talk are left out.\<close>

definition turn_of :: "ChatMessage \<Rightarrow> (string \<times> string) option" where
  "turn_of m = (let text = strip (or_str (cm_content m) []) in
     if text = [] then None
     else if cm_sender_role m \<in> {''customer'', ''retailer'', ''user''} then Some (''user'', text)
     else if cm_sender_role m \<in> {''ai'', ''assistant''} then Some (''assistant'', text) else None)"

definition llm_history :: "chat_state \<Rightarrow> int \<Rightarrow> (string \<times> string) list" where
  "llm_history s k = List.map_filter turn_of (rev (take 12
     (sort_key (\<lambda>m. - cm_created_at m) (t_all (\<lambda>m. cm_conversation_id m = k) (ch_msgs s)))))"

text \<open>Opening a conversation, by its owner or by the administrator.\<close>

definition see_from :: "int \<Rightarrow> string list \<Rightarrow> chat_state \<Rightarrow> chat_state" where
  "see_from k from s = s\<lparr>ch_msgs := (ch_msgs s)\<lparr>rows := map (\<lambda>m.
     if cm_conversation_id m = k \<and> cm_sender_role m \<in> set from
     then m\<lparr>cm_is_read := True, cm_is_delivered := True\<rparr> else m) (rows (ch_msgs s))\<rparr>\<rparr>"

definition ai_list_messages :: "int \<Rightarrow> User \<Rightarrow> chat_state \<Rightarrow> (exc + ChatMessage list) \<times> chat_state" where
  "ai_list_messages k user s = (case require_conversation s k user of
     Inl ex \<Rightarrow> (Inl ex, s)
   | Inr c \<Rightarrow>
       let s1 = (if u_role user = UR_ADMIN then see_from k FROM_OUTSIDE (put_conv (c\<lparr>cv_unread_admin := 0\<rparr>) s)
                 else see_from k ADMIN_SIDE (put_conv (c\<lparr>cv_unread_customer := 0\<rparr>) s))
       in (Inr (messages_of s1 k), s1))"

definition ai_list_conversations :: "chat_state \<Rightarrow> User \<Rightarrow> json list" where
  "ai_list_conversations s user = map (\<lambda>c. conversation_dict (ch_db s) (participant_role c) c)
     (if u_role user = UR_ADMIN then sort_key (\<lambda>c. - cv_updated_at c) (rows (ch_convs s)) else own_conversations s (u_id user))"

definition HANDOVER_TEXT :: string where
  "HANDOVER_TEXT = ''Connecting you to SweetCrust bakery owner. Please wait'' @ map char_of [226, 128, 166 :: nat]"

definition handed :: "env \<Rightarrow> Conversation \<Rightarrow> chat_state \<Rightarrow> chat_state" where
  "handed e c s = (let c1 = c\<lparr>cv_is_ai := False, cv_ai_handed_over := True\<rparr> in
     case chat_first_admin (ch_db s) of None \<Rightarrow> put_conv c1 s
     | Some a \<Rightarrow> on_db (notify e (u_id a) ''ai'' ''AI chat escalated'' ''A shop/customer needs human support''
                    (Some (JObj [(''conversation_id'', JInt (cv_id c))]))) (put_conv (c1\<lparr>cv_admin_id := Some (u_id a)\<rparr>) s))"

definition handover_to_admin :: "env \<Rightarrow> ai_cfg \<Rightarrow> int \<Rightarrow> chat_state \<Rightarrow> (exc + ChatMessage) \<times> chat_state" where
  "handover_to_admin e cfg k s = (case get_conv s k of
     None \<Rightarrow> (Inl (not_found ''Conversation not found''), s)
   | Some c \<Rightarrow> ai_send_message e cfg k None ''system'' (Some HANDOVER_TEXT) ''system'' None None True (handed e c s))"

section \<open>Retrieval\<close>

definition SYNONYMS :: "(string \<times> string) list" where
  "SYNONYMS = [(''udhaar'', ''credit shop balance outstanding''), (''credit'', ''udhaar outstanding credit limit''),
     (''gst'', ''invoice tax gstin''), (''moq'', ''minimum order quantity''), (''delivery'', ''dispatch rider delivery eta''),
     (''refund'', ''return damaged replacement''), (''eggless'', ''without egg eggless cake'')]"

definition expand_query :: "string \<Rightarrow> string" where
  "expand_query query = (let q = strip query; low = str_lower q
     in strip (q @ '' '' @ join '' '' (map snd (filter (\<lambda>(k, _). contains k low) SYNONYMS))))"

text \<open>\<open>re.split(r"\W+", text)\<close>: the runs of word characters, of more than two.\<close>

fun word_runs :: "(nat \<Rightarrow> bool) \<Rightarrow> nat list \<Rightarrow> nat list \<Rightarrow> nat list list" where
  "word_runs uw acc [] = (if acc = [] then [] else [rev acc])"
| "word_runs uw acc (x # xs) = (if word_cp uw x then word_runs uw (x # acc) xs
     else (if acc = [] then [] else [rev acc]) @ word_runs uw [] xs)"

definition tokens :: "(nat \<Rightarrow> bool) \<Rightarrow> string \<Rightarrow> nat list list" where
  "tokens uw s = remdups (filter (\<lambda>t. 2 < length t) (word_runs uw [] (code_points (str_lower s))))"

definition faq_score :: "(nat \<Rightarrow> bool) \<Rightarrow> string \<Rightarrow> ChatbotFAQ \<Rightarrow> nat" where
  "faq_score uw query f =
     (let ts = tokens uw query; q = str_lower (fq_question f); a = code_points (str_lower (fq_answer f))
      in length (filter (\<lambda>t. t \<in> set (tokens uw (fq_question f))) ts)
         + (if q \<noteq> [] \<and> contains q (str_lower query) then 5 else 0)
         + length (filter (\<lambda>t. somewhere (\<lambda>_ ys. at_word t ys) None a) ts))"

record chunk =
  ck_faq :: bool
  ck_score :: int
  ck_text :: string

definition faq_chunks :: "ai_cfg \<Rightarrow> ai_state \<Rightarrow> string \<Rightarrow> int \<Rightarrow> chunk list" where
  "faq_chunks c s query k =
     (let scored = filter (\<lambda>(n, _). 0 < n) (map (\<lambda>f. (faq_score (ai_word c) query f, f)) (t_all fq_is_active (as_faqs s)))
      in map (\<lambda>(n, f). \<lparr>ck_faq = True, ck_score = int n,
           ck_text = ''Q: '' @ fq_question f @ [CHR 0x0A] @ ''A: '' @ fq_answer f\<rparr>)
         (take (nat k) (sort_key (\<lambda>(n, _). - int n) scored)))"

text \<open>\<open>text.split(sep)\<close>.\<close>

function split_sub :: "string \<Rightarrow> string \<Rightarrow> string \<Rightarrow> string list" where
  "split_sub sep acc [] = [rev acc]"
| "split_sub sep acc (c # cs) =
     (if sep \<noteq> [] \<and> starts_with sep (c # cs) then rev acc # split_sub sep [] (drop (length sep - 1) cs)
      else split_sub sep (c # acc) cs)"
  by pat_completeness auto
termination by (relation "measure (\<lambda>(_, _, cs). length cs)") auto

definition blank_line :: string where "blank_line = [CHR 0x0A, CHR 0x0A]"

definition policy_chunks :: "ai_cfg \<Rightarrow> string \<Rightarrow> int \<Rightarrow> chunk list" where
  "policy_chunks c query top_k =
     (let raw = ai_retrieve c (expand_query query) top_k
      in if raw = [] then []
         else List.map_filter (\<lambda>(i, part). let text = strip (dropWhile (\<lambda>x. x = CHR ''-'' \<or> x = CHR '' '') part)
                in if text = [] then None else Some \<lparr>ck_faq = False, ck_score = top_k - int i, ck_text = text\<rparr>)
              (enumerate 0 (split_sub blank_line [] raw)))"

text \<open>First the FAQs, then the policies, each by falling score.\<close>

definition hybrid_retrieve :: "ai_cfg \<Rightarrow> ai_state \<Rightarrow> string \<Rightarrow> string" where
  "hybrid_retrieve c s query =
     (let top_k = ai_top_k c; q = expand_query query;
          merged = faq_chunks c s q (min 3 top_k) @ policy_chunks c q top_k;
          ordered = sort_key (\<lambda>k. if ck_faq k then 0 else 1 :: int) (sort_key (\<lambda>k. - ck_score k) merged)
      in join blank_line (map (\<lambda>k. ''['' @ (if ck_faq k then ''faq'' else ''policy'') @ ''] '' @ ck_text k)
           (take (nat (top_k + 2)) ordered)))"

section \<open>Answers by rule\<close>

text \<open>The first amount after a rupee sign, after \<open>under\<close>, or before \<open>rs\<close>.\<close>

fun first_at :: "(nat list \<Rightarrow> 'a option) \<Rightarrow> nat list \<Rightarrow> 'a option" where
  "first_at f [] = f []"
| "first_at f (x # xs) = (case f (x # xs) of Some r \<Rightarrow> Some r | None \<Rightarrow> first_at f xs)"

definition cp_number :: "nat list \<Rightarrow> rat option" where
  "cp_number xs = (let ds = takeWhile digit_cp xs in
     if ds = [] then None else Some (fl (of_int (foldl (\<lambda>n d. n * 10 + (int d - 48)) 0 ds))))"

definition extract_budget :: "string \<Rightarrow> rat option" where
  "extract_budget text = (let t = code_points text;
      rup = code_points rupee; und = code_points ''under'';
      a = first_at (\<lambda>xs. if at_word rup xs then (let r = drop (length rup) xs
            in case cp_number r of Some x \<Rightarrow> Some x
               | None \<Rightarrow> (case r of y # ys \<Rightarrow> if space_cp y then cp_number ys else None | [] \<Rightarrow> None)) else None) t;
      b = first_at (\<lambda>xs. if at_word und xs \<and> takeWhile space_cp (drop 5 xs) \<noteq> []
            then cp_number (dropWhile space_cp (drop 5 xs)) else None) t;
      c = first_at (\<lambda>xs. if number_then (code_points ''rs'') xs \<noteq> None \<or> number_then (code_points ''rupees'') xs \<noteq> None
            then cp_number xs else None) t
    in case a of Some x \<Rightarrow> Some x | None \<Rightarrow> (case b of Some x \<Rightarrow> Some x | None \<Rightarrow> c))"

definition ai_product :: "Product \<Rightarrow> json" where
  "ai_product p = JObj [(''id'', JInt (p_id p)), (''name'', JStr (p_name p)), (''selling_price'', JFloat (p_selling_price p)),
     (''cover_image_url'', jopt_str (p_cover_image_url p)), (''is_eggless'', JBool (p_is_eggless p))]"

definition action :: "string \<Rightarrow> json" where "action t = JObj [(''type'', JStr t)]"

definition any_in :: "string list \<Rightarrow> string \<Rightarrow> bool" where
  "any_in ks text = list_ex (\<lambda>k. contains k text) ks"

definition credit_reply :: "RetailerProfile \<Rightarrow> string" where
  "credit_reply p = ''Your shop credit limit is '' @ rupee @ fmt0 (rp_credit_limit p) @ ''. Outstanding udhaar '' @ rupee
     @ fmt0 (rp_outstanding_balance p) @ ''. Available '' @ rupee
     @ fmt0 (max 0 (fsub (rp_credit_limit p) (rp_outstanding_balance p))) @ ''.''"

definition answer_of :: "string \<Rightarrow> string \<Rightarrow> string \<Rightarrow> Product list \<Rightarrow> json list \<Rightarrow> ai_result" where
  "answer_of language audience reply ps actions = \<lparr>ar_reply = reply, ar_language = language, ar_products = map ai_product ps,
     ar_actions = actions,
     ar_quick_replies = (if audience = ''retailer''
       then [''What is my credit balance?'', ''Where is my shop order?'', ''Talk to bakery owner'']
       else [''Eggless chocolate cakes'', ''Birthday cake under '' @ rupee @ ''1000'', ''Where is my order?'', ''Talk to bakery owner'']),
     ar_provider = ''rules+rag'', ar_blocked = None, ar_reason = None\<rparr>"

definition respond_rules :: "ai_cfg \<Rightarrow> ai_state \<Rightarrow> int \<Rightarrow> string \<Rightarrow> string \<Rightarrow> string \<Rightarrow> ai_result" where
  "respond_rules c s user_id message language audience =
     (let text = strip (str_lower message); d = as_db s; ans = answer_of language audience
      in if audience = ''retailer'' \<and> any_in [''credit'', ''udhaar'', ''balance'', ''limit''] text
         then ans (case t_first (\<lambda>p. rp_user_id p = user_id) (profiles d) of
                Some p \<Rightarrow> credit_reply p
              | None \<Rightarrow> py_take 500 (let r = hybrid_retrieve c s message
                  in if r = [] then ''Ask the bakery owner to set your credit limit.'' else r)) [] []
         else if any_in [''order'', ''where is my'', ''track'', map char_of [224, 164, 174, 224, 165, 135, 224, 164, 176, 224, 164, 190 :: nat] @ '' '' @ map char_of [224, 164, 145, 224, 164, 176, 224, 165, 141, 224, 164, 161, 224, 164, 176 :: nat]] text
         then (case sort_key (\<lambda>r. - o_created_at r) (t_all (\<lambda>r. o_user_id r = user_id) (orders d)) of
             r # _ \<Rightarrow> ans (''Your latest order '' @ o_order_number r @ '' is currently *''
                 @ replace_char CHR ''_'' CHR '' '' (OrderStatus_value (o_status r)) @ ''*.'') []
                 [JObj [(''type'', JStr ''open_tracking''), (''order_id'', JInt (o_id r))]]
           | [] \<Rightarrow> ans (''I couldn'' @ [CHR 0x27] @ ''t find an active order. Would you like help browsing cakes?'') [] [])
         else if any_in [''eggless'', map char_of [224, 164, 143, 224, 164, 151, 224, 164, 178, 224, 165, 135, 224, 164, 184 :: nat]] text
         then ans ''Here are popular eggless options from SweetCrust:''
                (take 5 (t_all (\<lambda>p. p_is_eggless p \<and> p_is_active p) (products d))) [action ''show_products'']
         else if any_in [''sugar'', ''sugar-free'', map char_of [224, 164, 161, 224, 164, 190, 224, 164, 175, 224, 164, 172, 224, 164, 191, 224, 164, 159, 224, 164, 191, 224, 164, 149 :: nat]] text
         then ans ''Sugar-free picks that still taste indulgent:''
                (take 5 (t_all (\<lambda>p. p_is_sugar_free p \<and> p_is_active p) (products d))) []
         else if any_in [''under'', rupee, ''rs'', ''budget''] text
         then (let budget = (case extract_budget text of None \<Rightarrow> 1000 | Some x \<Rightarrow> if x = 0 then 1000 else x)
               in ans (''Birthday / celebration cakes under '' @ rupee @ fmt0 budget @ '':'')
                    (take 5 (sort_key (\<lambda>p. - p_rating p) (t_all (\<lambda>p. p_selling_price p \<le> budget \<and> p_is_active p) (products d))))
                    [action ''show_products''])
         else if any_in [''return'', ''damaged'', ''refund'', map char_of [224, 164, 150, 224, 164, 176, 224, 164, 190, 224, 164, 172 :: nat]] text
         then ans (''Yes '' @ emdash @ '' if an item arrives damaged, you can request a replacement or refund within 24 hours ''
                @ ''with photos. I can open the return flow or connect you to the bakery owner.'') []
                [action ''open_return'', action ''handover_human'']
         else if any_in [''custom'', ''customise'', ''customize'', ''design''] text
         then ans (''I can help start a custom cake request '' @ emdash @ '' occasion, flavour, weight, and a reference photo.'') []
                [action ''start_custom_cake'']
         else if any_in [''human'', ''agent'', ''owner'', ''talk to'', map char_of [224, 164, 172, 224, 164, 190, 224, 164, 164 :: nat], ''call''] text
         then ans (''I'' @ [CHR 0x27] @ ''ll connect you to the SweetCrust bakery owner now.'') [] [action ''handover_human'']
         else (let r = hybrid_retrieve c s message
               in if r \<noteq> [] then ans (''From SweetCrust knowledge:'' @ [CHR 0x0A] @ py_take 600 (hd (split_sub blank_line [] r))) [] []
                  else ans (''I'' @ [CHR 0x27] @ ''m your SweetCrust assistant '' @ emdash
                         @ '' ask about products, shop orders, credit, delivery, or say talk to owner. Here are popular items:'')
                       (take 4 (t_all p_is_bestseller (products d))) [action ''show_products'']))"

definition ai_respond :: "ai_cfg \<Rightarrow> ai_state \<Rightarrow> int \<Rightarrow> string \<Rightarrow> string \<Rightarrow> string option \<Rightarrow> (string \<times> string) list option \<Rightarrow> ai_result" where
  "ai_respond c s user_id message language audience0 history =
     (let audience = (case audience0 of
            Some a \<Rightarrow> if a \<in> {''retailer'', ''customer''} then a
              else (case get_User (as_db s) user_id of Some u \<Rightarrow> if u_role u = UR_RETAILER then ''retailer'' else ''customer'' | None \<Rightarrow> ''customer'')
          | None \<Rightarrow> (case get_User (as_db s) user_id of Some u \<Rightarrow> if u_role u = UR_RETAILER then ''retailer'' else ''customer'' | None \<Rightarrow> ''customer''))
      in case filter_user_message (ai_word c) (ai_guardrails c) False message of
           GateShut reason \<Rightarrow> \<lparr>ar_reply = REFUSAL, ar_language = language, ar_products = [], ar_actions = [action ''handover_human''],
              ar_quick_replies = [''Eggless chocolate cakes'', ''Where is my order?'', ''Talk to bakery owner''],
              ar_provider = ''guardrails'', ar_blocked = Some True, ar_reason = Some reason\<rparr>
         | GateOpen t _ \<Rightarrow>
           let text = (if t = [] then message else t)
           in case ai_graph c s user_id text language audience history of
                Some r \<Rightarrow> r
              | None \<Rightarrow> (let r = respond_rules c s user_id text language audience
                  in r\<lparr>ar_reply := filter_ai_reply (ai_word c) (ai_guardrails c) (ar_reply r)\<rparr>))"

section \<open>A turn of the chat\<close>

definition chat_do :: "(chat_state \<Rightarrow> (exc + 'a) \<times> chat_state) \<Rightarrow> ai_state \<Rightarrow> (exc + 'a) \<times> ai_state" where
  "chat_do f s = (case f (as_chat s) of (r, t) \<Rightarrow> (r, s\<lparr>as_chat := t\<rparr>))"

definition chat_target :: "env \<Rightarrow> ai_cfg \<Rightarrow> User \<Rightarrow> int option \<Rightarrow> string \<Rightarrow> chat_state \<Rightarrow> (exc + int) \<times> chat_state" where
  "chat_target e c user conversation_id audience s =
     (if truthy_id conversation_id
      then (case require_conversation s (the conversation_id) user of Inl ex \<Rightarrow> (Inl ex, s) | Inr _ \<Rightarrow> (Inr (the conversation_id), s))
      else if audience = ''retailer''
      then (case get_or_create_retailer_support e (u_id user) True s of (conv, s1) \<Rightarrow> (Inr (cv_id conv), s1))
      else (case ai_create_conversation e c (u_id user) \<lparr>cci_category = ''ai'', cci_order_id = None, cci_return_id = None,
              cci_custom_cake_id = None, cci_is_ai = True, cci_initial_message = None\<rparr> s of
          (Inl ex, s1) \<Rightarrow> (Inl ex, s1) | (Inr conv, s1) \<Rightarrow> (Inr (cv_id conv), s1)))"

definition wants_human :: "ai_result \<Rightarrow> bool" where
  "wants_human r \<longleftrightarrow> list_ex (\<lambda>a. jget ''type'' a = JStr ''handover_human'') (ar_actions r) \<and> ar_blocked r \<noteq> Some True"

definition ai_metadata :: "ai_result \<Rightarrow> json" where
  "ai_metadata r = JObj [(''products'', JArr (ar_products r)), (''actions'', JArr (ar_actions r)),
     (''blocked'', case ar_blocked r of None \<Rightarrow> JNull | Some b \<Rightarrow> JBool b)]"

text \<open>The question is stored, then the answer; a wish for a person hands the conversation over.\<close>

definition ai_turn :: "env \<Rightarrow> ai_cfg \<Rightarrow> int \<Rightarrow> int \<Rightarrow> string \<Rightarrow> string \<Rightarrow> ai_result \<Rightarrow> chat_state \<Rightarrow> (exc + bool) \<times> chat_state" where
  "ai_turn e c k uid role message r s =
     (case ai_send_message e c k (Some uid) role (Some message) ''text'' None None True s of
        (Inl ex, s1) \<Rightarrow> (Inl ex, s1)
      | (Inr _, s1) \<Rightarrow>
        (case ai_send_message e c k None ''ai'' (Some (ar_reply r)) ''text'' None (Some (ai_metadata r)) True s1 of
           (Inl ex, s2) \<Rightarrow> (Inl ex, s2)
         | (Inr _, s2) \<Rightarrow>
           (if wants_human r then (case handover_to_admin e c k s2 of (Inl ex, s3) \<Rightarrow> (Inl ex, s3) | (Inr _, s3) \<Rightarrow> (Inr True, s3))
            else (Inr False, s2))))"

definition run_ai_chat :: "env \<Rightarrow> ai_cfg \<Rightarrow> User \<Rightarrow> int option \<Rightarrow> string \<Rightarrow> string \<Rightarrow> string \<Rightarrow> ai_state
    \<Rightarrow> (exc + ai_result \<times> bool \<times> int) \<times> ai_state" where
  "run_ai_chat e c user conversation_id message language audience s =
     (case enforce_chat_rate e c (u_id user) s of
        (Inl ex, s1) \<Rightarrow> (Inl ex, s1)
      | (Inr _, s1) \<Rightarrow>
        (case chat_do (chat_target e c user conversation_id audience) s1 of
           (Inl ex, s2) \<Rightarrow> (Inl ex, s2)
         | (Inr k, s2) \<Rightarrow>
           let r = ai_respond c s2 (u_id user) message language (Some audience) (Some (llm_history (as_chat s2) k));
               role = (if audience = ''retailer'' then ''retailer'' else ''customer'')
           in (case chat_do (ai_turn e c k (u_id user) role message r) s2 of
                 (Inl ex, s3) \<Rightarrow> (Inl ex, s3) | (Inr over, s3) \<Rightarrow> (Inr (r, over, k), s3))))"

section \<open>Questions and answers\<close>

definition add_faq :: "env \<Rightarrow> string \<Rightarrow> string \<Rightarrow> string \<Rightarrow> bool \<Rightarrow> ai_state \<Rightarrow> ChatbotFAQ \<times> ai_state" where
  "add_faq e question ans language is_active s =
     (let f = \<lparr>fq_id = next_id (as_faqs s), fq_question = question, fq_answer = ans, fq_language = language,
               fq_is_active = is_active, fq_created_at = env_now e\<rparr>
      in (f, s\<lparr>as_faqs := t_insert (\<lambda>i r. r\<lparr>fq_id := i\<rparr>) f (as_faqs s)\<rparr>))"

definition patch_faq :: "int \<Rightarrow> string \<Rightarrow> string \<Rightarrow> string \<Rightarrow> bool \<Rightarrow> ai_state \<Rightarrow> (exc + ChatbotFAQ) \<times> ai_state" where
  "patch_faq k question ans language is_active s = (case t_get fq_id k (as_faqs s) of
     None \<Rightarrow> (Inl (not_found ''FAQ not found''), s)
   | Some f \<Rightarrow> let g = f\<lparr>fq_question := question, fq_answer := ans, fq_language := language, fq_is_active := is_active\<rparr>
       in (Inr g, s\<lparr>as_faqs := t_put fq_id g (as_faqs s)\<rparr>))"

definition delete_faq :: "int \<Rightarrow> ai_state \<Rightarrow> (exc + unit) \<times> ai_state" where
  "delete_faq k s = (case t_get fq_id k (as_faqs s) of
     None \<Rightarrow> (Inl (not_found ''FAQ not found''), s)
   | Some f \<Rightarrow> (Inr (), s\<lparr>as_faqs := t_delete fq_id k (as_faqs s)\<rparr>))"

definition customer_faqs :: "ai_state \<Rightarrow> ChatbotFAQ list" where
  "customer_faqs s = t_all fq_is_active (as_faqs s)"

definition chatbot_counts :: "ai_state \<Rightarrow> nat \<times> nat \<times> nat" where
  "chatbot_counts s = (length (t_all cv_is_ai (ch_convs (as_chat s))), length (t_all cv_ai_handed_over (ch_convs (as_chat s))),
     length (customer_faqs s))"

section \<open>The owner's insights and returns\<close>

definition quoted :: "string \<Rightarrow> string" where
  "quoted s = map char_of [226, 128, 156 :: nat] @ s @ map char_of [226, 128, 157 :: nat]"

definition insight_facts :: "db \<Rightarrow> string list" where
  "insight_facts d =
     (let low = take 3 (t_all (\<lambda>p. p_stock_status p = SS_LOW_STOCK) (products d));
          out = take 3 (t_all (\<lambda>p. p_stock_status p = SS_OUT_OF_STOCK) (products d));
          top = (case sort_key (\<lambda>p. - p_sales_count p) (rows (products d)) of
              p # _ \<Rightarrow> if 0 < p_sales_count p then [''Top seller: '' @ p_name p @ '' ('' @ show_int (p_sales_count p) @ '' sold).''] else []
            | [] \<Rightarrow> []);
          active = length (t_all p_is_active (products d));
          opened = length (t_all (\<lambda>r. o_status r \<noteq> OS_DELIVERED \<and> o_status r \<noteq> OS_CANCELLED) (orders d))
      in take 6 (map (\<lambda>p. quoted (p_name p) @ '' is low stock ('' @ show_int (p_stock_qty p) @ '' left) '' @ emdash @ '' restock suggested.'') low
         @ map (\<lambda>p. quoted (p_name p) @ '' is out of stock.'') out @ top
         @ [''Active catalog products: '' @ show_nat active @ ''.'', ''Open orders in progress: '' @ show_nat opened @ ''.'']))"

record assessment =
  as_confidence :: rat
  as_findings :: "string list"
  as_recommendation :: string

definition assess_heuristic :: "string \<Rightarrow> string list \<Rightarrow> string option \<Rightarrow> assessment" where
  "assess_heuristic issue_type urls description =
     (let damaged = issue_type \<in> {''damaged'', ''melted'', ''packaging''};
          c1 = (if urls \<noteq> [] then fadd (fl (55 / 100)) (min (fl (25 / 100)) (fmul (fl (8 / 100)) (of_nat (length urls)))) else fl (55 / 100));
          c2 = (if damaged then fadd c1 (fl (1 / 10)) else c1);
          c3 = (if truthy_str description \<and> 20 < py_len (the description) then fadd c2 (fl (5 / 100)) else c2)
      in \<lparr>as_confidence = round2 (min c3 (fl (95 / 100))),
          as_findings = [if urls \<noteq> [] then ''Evidence images attached'' else ''Insufficient image quality / missing photos'']
            @ (if damaged then [''Visible product/packaging damage likely''] else [])
            @ (if issue_type = ''wrong_product'' then [''Possible wrong item '' @ emdash @ '' compare with order photo''] else []),
          as_recommendation = (if c3 < fl (6 / 10) then ''request_more_images''
            else if issue_type \<in> {''damaged'', ''melted'', ''wrong_product''} then ''approve_replacement'' else ''request_more_images'')\<rparr>)"

end
