(* ===== verification/PhoneCalls.thy ===== *)
theory PhoneCalls
  imports AiChat
begin

text \<open>
  Telephone calls: \<open>ai_service/app/services/calls.py\<close> (calls the assistant makes over Twilio, the dialogue by voice, Twilio's
  reports) and the call routes of \<open>routes/api.py\<close>.  Twilio is a parameter: placing a call gives the text of an error
  or the identifier of the call.
\<close>

record voice_cfg =
  vo_ai :: ai_cfg
  vo_configured :: bool
  vo_webhook_base_url :: string
  vo_bakery_name :: string
  vo_place :: "string \<Rightarrow> string \<Rightarrow> string \<Rightarrow> string + string"

abbreviation get_call :: "ai_state \<Rightarrow> int \<Rightarrow> CallRecord option" where
  "get_call s k \<equiv> t_get cr_id k (ch_calls (as_chat s))"

abbreviation put_call :: "CallRecord \<Rightarrow> ai_state \<Rightarrow> ai_state" where
  "put_call c s \<equiv> s\<lparr>as_chat := (as_chat s)\<lparr>ch_calls := t_put cr_id c (ch_calls (as_chat s))\<rparr>\<rparr>"

abbreviation add_call :: "CallRecord \<Rightarrow> ai_state \<Rightarrow> ai_state" where
  "add_call c s \<equiv> s\<lparr>as_chat := (as_chat s)\<lparr>ch_calls := t_insert (\<lambda>i r. r\<lparr>cr_id := i\<rparr>) c (ch_calls (as_chat s))\<rparr>\<rparr>"

abbreviation key_call :: "CallRecord \<Rightarrow> ai_state \<Rightarrow> CallRecord" where
  "key_call c s \<equiv> c\<lparr>cr_id := next_id (ch_calls (as_chat s))\<rparr>"

section \<open>Calls between people\<close>

definition start_call :: "env \<Rightarrow> int \<Rightarrow> int option \<Rightarrow> int option \<Rightarrow> string \<Rightarrow> string \<Rightarrow> ai_state \<Rightarrow> (exc + CallRecord) \<times> ai_state" where
  "start_call e user_id callee_id order_id call_type target s =
     (let cid = (if target = ''bakery'' then map_option u_id (chat_first_admin (as_db s)) else callee_id)
      in case enum_of CallType_value CallType_members call_type of
           None \<Rightarrow> (Inl (PyExc ''ValueError''), s)
         | Some ct \<Rightarrow>
           if (case cid of None \<Rightarrow> False | Some u \<Rightarrow> get_User (as_db s) u = None)
              \<or> (case order_id of None \<Rightarrow> False | Some k \<Rightarrow> get_Order (as_db s) k = None)
           then (Inl (PyExc ''IntegrityError''), s)
           else let row = (new_CallRecord (env_now e) (Some user_id) cid)\<lparr>cr_order_id := order_id, cr_call_type := ct,
                      cr_masked_number := Some (''+91170000'' @ pad 4 (user_id mod 10000)), cr_started_at := Some (env_now e)\<rparr>
                in (Inr (key_call row s), add_call row s))"

definition call_over :: "CallStatus \<Rightarrow> bool" where
  "call_over st \<longleftrightarrow> st \<in> {CS_COMPLETED, CS_FAILED, CS_MISSED, CS_REJECTED}"

definition update_call :: "env \<Rightarrow> int \<Rightarrow> int \<Rightarrow> string \<Rightarrow> int option \<Rightarrow> string option \<Rightarrow> ai_state \<Rightarrow> (exc + CallRecord) \<times> ai_state" where
  "update_call e k user_id status duration_seconds nt s = (case get_call s k of
     None \<Rightarrow> (Inl (not_found ''Call not found''), s)
   | Some c \<Rightarrow>
     if cr_caller_id c \<noteq> Some user_id \<and> cr_callee_id c \<noteq> Some user_id then (Inl (forbidden ''Not your call''), s)
     else (case enum_of CallStatus_value CallStatus_members status of
         None \<Rightarrow> (Inl (PyExc ''ValueError''), s)
       | Some st \<Rightarrow>
         let c1 = c\<lparr>cr_status := st\<rparr>;
             c2 = (case duration_seconds of None \<Rightarrow> c1 | Some n \<Rightarrow> c1\<lparr>cr_duration_seconds := n\<rparr>);
             c3 = (if truthy_str nt then c2\<lparr>cr_notes := nt\<rparr> else c2);
             c4 = (if status \<in> {''completed'', ''missed'', ''rejected'', ''failed''} then c3\<lparr>cr_ended_at := Some (env_now e)\<rparr> else c3)
         in (Inr c4, put_call c4 s)))"

definition call_history :: "ai_state \<Rightarrow> int \<Rightarrow> CallRecord list" where
  "call_history s user_id = sort_key (\<lambda>c. - cr_created_at c)
     (t_all (\<lambda>c. cr_caller_id c = Some user_id \<or> cr_callee_id c = Some user_id) (ch_calls (as_chat s)))"

section \<open>Calls of the assistant\<close>

definition e164 :: "string \<Rightarrow> string" where
  "e164 phone = (let digits = filter is_digit_char phone in
     if length digits = 10 then ''+91'' @ digits else if starts_with ''+'' phone then phone else ''+'' @ digits)"

definition voice_url :: "voice_cfg \<Rightarrow> string \<Rightarrow> int \<Rightarrow> string" where
  "voice_url c what k = rev (dropWhile (\<lambda>x. x = CHR ''/'') (rev (vo_webhook_base_url c))) @ ''/api/v1/voice/twilio/'' @ what
     @ ''?call_id='' @ show_int k"

text \<open>The record is committed before the call is placed; a call that cannot be placed stays on record as failed.\<close>

definition start_ai_outbound :: "env \<Rightarrow> voice_cfg \<Rightarrow> string \<Rightarrow> int option \<Rightarrow> int option \<Rightarrow> string \<Rightarrow> ai_state
    \<Rightarrow> (exc + CallRecord) \<times> ai_state" where
  "start_ai_outbound e c to_phone0 callee initiator purpose s =
     (if \<not> vo_configured c then (Inl (unavailable ''Twilio voice is not configured''), s)
      else let to_phone = e164 to_phone0;
               row = (new_CallRecord (env_now e) initiator callee)\<lparr>cr_direction := ''outbound_ai'', cr_provider := Some ''twilio'',
                 cr_to_phone := Some to_phone, cr_purpose := Some purpose, cr_transcript := Some [],
                 cr_masked_number := Some (py_take 7 to_phone @ ''****''), cr_started_at := Some (env_now e)\<rparr>;
               r = key_call row s; s1 = add_call row s
           in case vo_place c to_phone (voice_url c ''voice'' (cr_id r)) (voice_url c ''status'' (cr_id r)) of
                Inr sid \<Rightarrow> let r2 = r\<lparr>cr_provider_call_sid := Some sid, cr_status := CS_RINGING\<rparr> in (Inr r2, put_call r2 s1)
              | Inl err \<Rightarrow> (Inl (AppExc (BadGatewayError (Msg (''Failed to place AI call: '' @ err)))),
                  put_call (r\<lparr>cr_status := CS_FAILED, cr_notes := Some (py_take 500 err)\<rparr>) s1))"

definition request_ai_call_for_user :: "env \<Rightarrow> voice_cfg \<Rightarrow> User \<Rightarrow> string \<Rightarrow> ai_state \<Rightarrow> (exc + CallRecord) \<times> ai_state" where
  "request_ai_call_for_user e c user purpose = start_ai_outbound e c (u_phone user) (Some (u_id user)) (Some (u_id user)) purpose"

definition admin_ai_call :: "env \<Rightarrow> voice_cfg \<Rightarrow> User \<Rightarrow> int option \<Rightarrow> string option \<Rightarrow> string \<Rightarrow> ai_state
    \<Rightarrow> (exc + CallRecord) \<times> ai_state" where
  "admin_ai_call e c admin user_id phone purpose s =
     (if truthy_id user_id
      then (case get_User (as_db s) (the user_id) of
          None \<Rightarrow> (Inl (not_found ''Customer not found''), s)
        | Some u \<Rightarrow> if u_phone u = [] then (Inl (bad_request ''user_id or phone required''), s)
            else start_ai_outbound e c (u_phone u) (Some (u_id u)) (Some (u_id admin)) purpose s)
      else if \<not> truthy_str phone then (Inl (bad_request ''user_id or phone required''), s)
      else start_ai_outbound e c (the phone) None (Some (u_id admin)) purpose s)"

section \<open>The dialogue\<close>

fun xml_escape :: "string \<Rightarrow> string" where
  "xml_escape [] = []"
| "xml_escape (c # cs) = (if c = CHR ''&'' then ''&amp;'' else if c = CHR ''<'' then ''&lt;'' else if c = CHR ''>'' then ''&gt;'' else [c])
     @ xml_escape cs"

definition xml_head :: string where
  "xml_head = ''<?xml version='' @ [CHR 0x22] @ ''1.0'' @ [CHR 0x22] @ '' encoding='' @ [CHR 0x22] @ ''UTF-8'' @ [CHR 0x22] @ ''?>''"

definition nl :: string where "nl = [CHR 0x0A]"

definition attr :: "string \<Rightarrow> string \<Rightarrow> string" where
  "attr n v = '' '' @ n @ ''='' @ [CHR 0x22] @ v @ [CHR 0x22]"

definition say :: "string \<Rightarrow> string" where
  "say t = ''<Say'' @ attr ''voice'' ''Polly.Aditi'' @ attr ''language'' ''en-IN'' @ ''>'' @ t @ ''</Say>'' @ nl"

definition gather :: "string \<Rightarrow> string \<Rightarrow> string" where
  "gather act prompt = ''  <Gather'' @ attr ''input'' ''speech'' @ attr ''action'' (xml_escape act) @ attr ''method'' ''POST''
     @ attr ''speechTimeout'' ''auto'' @ attr ''language'' ''en-IN'' @ ''>'' @ nl @ ''    '' @ say prompt @ ''  </Gather>'' @ nl"

definition response :: "string \<Rightarrow> string" where
  "response body = xml_head @ nl @ ''<Response>'' @ nl @ body @ ''  <Hangup/>'' @ nl @ ''</Response>'' @ nl"

definition voice_twiml_welcome :: "voice_cfg \<Rightarrow> int \<Rightarrow> string" where
  "voice_twiml_welcome c k = response (''  '' @ say (xml_escape (''Hello, this is the '' @ vo_bakery_name c @ '' AI assistant. ''
       @ ''I can help with cakes, orders, delivery, and returns. Please tell me how I can help after the beep.''))
     @ gather (voice_url c ''gather'' k) ''I am listening.'' @ ''  '' @ say ''I did not catch that. Goodbye.'')"

definition append_transcript :: "env \<Rightarrow> CallRecord \<Rightarrow> string \<Rightarrow> string \<Rightarrow> CallRecord" where
  "append_transcript e c role text = c\<lparr>cr_transcript := Some ((case cr_transcript c of None \<Rightarrow> [] | Some rs \<Rightarrow> rs) @ [(role, text, env_now e)])\<rparr>"

definition voice_reply :: "voice_cfg \<Rightarrow> CallRecord \<Rightarrow> string \<Rightarrow> ai_state \<Rightarrow> string" where
  "voice_reply c r speech s =
     (case filter_user_message (ai_word (vo_ai c)) (ai_guardrails (vo_ai c)) False speech of
        GateShut _ \<Rightarrow> REFUSAL
      | GateOpen t _ \<Rightarrow>
        let user_id = (if truthy_id (cr_callee_id r) then cr_callee_id r else cr_caller_id r)
        in if truthy_id user_id
           then filter_ai_reply (ai_word (vo_ai c)) (ai_guardrails (vo_ai c))
                  (ar_reply (ai_respond (vo_ai c) s (the user_id) (if t = [] then speech else t) ''en'' None None))
           else ''Thanks for calling SweetCrust. Please open the app and sign in ''
                @ ''so I can check your orders. How else can I help with cakes or delivery?'')"

definition voice_twiml_gather :: "env \<Rightarrow> voice_cfg \<Rightarrow> int \<Rightarrow> string option \<Rightarrow> ai_state \<Rightarrow> string \<times> ai_state" where
  "voice_twiml_gather e c k speech0 s = (case get_call s k of
     None \<Rightarrow> (xml_head @ ''<Response><Say>Call not found.</Say><Hangup/></Response>'', s)
   | Some r \<Rightarrow>
     let speech = strip (or_str speech0 []);
         r1 = r\<lparr>cr_status := CS_ONGOING\<rparr>;
         r2 = append_transcript e r1 ''user'' speech;
         reply = (if speech = [] then ''Sorry, I could not hear you. Please say your question about SweetCrust Bakery.''
                  else voice_reply c r2 speech (put_call r2 s));
         r3 = (if speech = [] then r1 else append_transcript e r2 ''assistant'' reply);
         bye = speech \<noteq> [] \<and> any_in [''bye'', ''goodbye'', ''stop'', ''thank you bye''] (str_lower speech)
     in (if bye then response (''  '' @ say (xml_escape reply @ '' Goodbye from SweetCrust.''))
         else response (''  '' @ say (xml_escape reply)
                @ gather (voice_url c ''gather'' k) ''Anything else about your bakery order?''
                @ ''  '' @ say ''Thank you for calling SweetCrust. Goodbye.''),
         put_call r3 s))"

section \<open>Twilio's reports\<close>

definition TWILIO_STATUS :: "(string \<times> CallStatus) list" where
  "TWILIO_STATUS = [(''queued'', CS_RINGING), (''initiated'', CS_RINGING), (''ringing'', CS_RINGING), (''in-progress'', CS_ONGOING),
     (''answered'', CS_ONGOING), (''completed'', CS_COMPLETED), (''busy'', CS_FAILED), (''failed'', CS_FAILED),
     (''no-answer'', CS_MISSED), (''canceled'', CS_REJECTED)]"

text \<open>\<open>int\<close> of the seconds between two times, cut towards zero.\<close>

definition whole_seconds :: "int \<Rightarrow> int" where
  "whole_seconds us = (if us < 0 then - ((- us) div us_seconds 1) else us div us_seconds 1)"

definition found_call :: "ai_state \<Rightarrow> int \<Rightarrow> string option \<Rightarrow> CallRecord option" where
  "found_call s k sid = (case get_call s k of
     Some c \<Rightarrow> Some c
   | None \<Rightarrow> if truthy_str sid then t_first (\<lambda>c. cr_provider_call_sid c = sid) (ch_calls (as_chat s)) else None)"

definition reported :: "env \<Rightarrow> string \<Rightarrow> string option \<Rightarrow> CallRecord \<Rightarrow> CallRecord" where
  "reported e twilio_status sid c =
     (let c1 = c\<lparr>cr_status := (case map_of TWILIO_STATUS (str_lower twilio_status) of Some st \<Rightarrow> st | None \<Rightarrow> cr_status c)\<rparr>;
          c2 = (if truthy_str sid \<and> \<not> truthy_str (cr_provider_call_sid c1) then c1\<lparr>cr_provider_call_sid := sid\<rparr> else c1)
      in if call_over (cr_status c2)
         then c2\<lparr>cr_ended_at := Some (env_now e),
                 cr_duration_seconds := (case cr_started_at c2 of None \<Rightarrow> cr_duration_seconds c2
                   | Some t \<Rightarrow> whole_seconds (env_now e - t))\<rparr>
         else c2)"

definition update_call_status :: "env \<Rightarrow> int \<Rightarrow> string \<Rightarrow> string option \<Rightarrow> ai_state \<Rightarrow> CallRecord option \<times> ai_state" where
  "update_call_status e k twilio_status sid s = (case found_call s k sid of
     None \<Rightarrow> (None, s)
   | Some c \<Rightarrow> let c1 = reported e twilio_status sid c in (Some c1, put_call c1 s))"

end
