(* ===== verification/AiChatLaws.thy ===== *)
theory AiChatLaws
  imports PhoneCalls
begin

text \<open>
  Laws of the assistant: whatever four services write, no unread counter of a conversation tells too little; the assistant
  never stores a blocked answer; an hour admits no more turns than the limit; what a report of Twilio does to a call.
\<close>

section \<open>Unread counters\<close>

definition both_sides :: "string \<Rightarrow> bool" where
  "both_sides r \<longleftrightarrow> r \<in> set FROM_OUTSIDE \<or> r \<in> set ADMIN_SIDE"

lemma ai_counted_fields:
  assumes "both_sides r"
  shows "cv_id (ai_counted r c) = cv_id c"
    "cv_unread_admin (ai_counted r c) = cv_unread_admin c + (if to_admin r then 1 else 0)"
    "cv_unread_customer (ai_counted r c) = cv_unread_customer c + (if to_customer r then 1 else 0)"
  using assms by (auto simp: both_sides_def FROM_OUTSIDE_def ADMIN_SIDE_def ai_counted_def counted_def to_admin_def to_customer_def)

lemma ai_send_cases:
  assumes "ai_send_message e c k sid r content mt media meta skip s = (res, s')"
  obtains (kept) ex where "res = Inl ex" "s' = s"
  | (sent) conv body m d u where "get_conv s k = Some conv" "admitted c conv r content mt skip = Inr body"
      "cm_conversation_id m = k" "cm_sender_role m = r" "cm_content m = body" "\<not> cm_is_read m" "res = Inr (key_msg m s)"
      "s' = on_db (\<lambda>_. d) (add_msg (key_msg m s) (put_conv (ai_counted r (conv\<lparr>cv_last_message := u, cv_updated_at := env_now e\<rparr>)) s))"
proof (cases "get_conv s k")
  case None
  then show ?thesis using assms by (intro kept [of "not_found ''Conversation not found''"]) (simp_all add: ai_send_message_def)
next
  case (Some conv)
  show ?thesis
  proof (cases "admitted c conv r content mt skip")
    case (Inl ex)
    then show ?thesis using assms Some by (intro kept [of ex]) (simp_all add: ai_send_message_def)
  next
    case (Inr body)
    define m where "m = chat_row e k sid r body mt media meta (recipient_online r conv (ch_db s))"
    have "cm_conversation_id m = k" "cm_sender_role m = r" "cm_content m = body" "\<not> cm_is_read m"
      by (simp_all add: m_def chat_row_def new_ChatMessage_def)
    moreover have "res = Inr (key_msg m s)" "s' = on_db (\<lambda>_. ch_db s') (add_msg (key_msg m s)
        (put_conv (ai_counted r (conv\<lparr>cv_last_message := Some (last_text body mt), cv_updated_at := env_now e\<rparr>)) s))"
      using assms Some Inr by (auto simp: ai_send_message_def Let_def m_def)
    ultimately show ?thesis by (rule sent [OF Some Inr])
  qed
qed

lemma ai_send_ok:
  assumes "chat_ok s" "both_sides r" shows "chat_ok (snd (ai_send_message e c k sid r content mt media meta skip s))"
proof -
  obtain res s' where x: "ai_send_message e c k sid r content mt media meta skip s = (res, s')" by force
  from x have "chat_ok s'"
  proof (cases rule: ai_send_cases)
    case kept
    with assms(1) show ?thesis by simp
  next
    case (sent conv body m d u)
    have "chat_ok (add_msg (key_msg m s) (put_conv (ai_counted r (conv\<lparr>cv_last_message := u, cv_updated_at := env_now e\<rparr>)) s))"
      using sent chat_ok_conv [OF assms(1) sent(1)]
      by (intro chat_ok_post [OF assms(1) sent(1)]) (simp_all add: ai_counted_fields [OF assms(2)])
    with sent show ?thesis by simp
  qed
  with x show ?thesis by simp
qed

lemma roles_both: "both_sides ''customer''" "both_sides ''retailer''" "both_sides ''ai''" "both_sides ''system''"
  by (simp_all add: both_sides_def FROM_OUTSIDE_def ADMIN_SIDE_def)

lemma marks_from: "marks (\<lambda>m. if cm_conversation_id m = k \<and> cm_sender_role m \<in> set from
    then m\<lparr>cm_is_read := True, cm_is_delivered := True\<rparr> else m)"
  by (simp add: marks_def)

lemma see_from_facts:
  "chat_ok s \<Longrightarrow> chat_ok (see_from k from s)" "ch_convs (see_from k from s) = ch_convs s"
  "see_from k from (put_conv c s) = put_conv c (see_from k from s)"
  "(\<And>r. to r \<Longrightarrow> r \<in> set from) \<Longrightarrow> waiting (ch_msgs (see_from k from s)) k to = 0"
proof -
  show "chat_ok s \<Longrightarrow> chat_ok (see_from k from s)" unfolding see_from_def by (rule chat_ok_mark [OF _ marks_from])
  show "ch_convs (see_from k from s) = ch_convs s" "see_from k from (put_conv c s) = put_conv c (see_from k from s)"
    by (simp_all add: see_from_def)
  show "(\<And>r. to r \<Longrightarrow> r \<in> set from) \<Longrightarrow> waiting (ch_msgs (see_from k from s)) k to = 0"
    unfolding see_from_def by (simp add: waiting_cleared [OF _ marks_from, simplified])
qed

lemma ai_list_messages_ok:
  assumes "chat_ok s" shows "chat_ok (snd (ai_list_messages k user s))"
proof (cases "require_conversation s k user")
  case (Inr c)
  then have g: "get_conv s k = Some c" by (auto simp: require_conversation_def split: option.splits if_splits)
  have key: "covers (ch_msgs (see_from k from s)) c \<and> cv_id c = k" for "from"
    using chat_ok_conv [OF see_from_facts(1) [OF assms], of k k "from" c] g by (simp add: see_from_facts(2))
  have "covers (ch_msgs (see_from k FROM_OUTSIDE s)) (c\<lparr>cv_unread_admin := 0\<rparr>)"
    using key [of FROM_OUTSIDE] see_from_facts(4) [of to_admin FROM_OUTSIDE k s]
    by (auto simp: covers_def to_admin_def FROM_OUTSIDE_def)
  moreover have "covers (ch_msgs (see_from k ADMIN_SIDE s)) (c\<lparr>cv_unread_customer := 0\<rparr>)"
    using key [of ADMIN_SIDE] see_from_facts(4) [of to_customer ADMIN_SIDE k s] by (auto simp: covers_def to_customer_def)
  ultimately show ?thesis
    using Inr assms by (simp add: ai_list_messages_def Let_def see_from_facts(3) chat_ok_put see_from_facts(1))
qed (use assms in \<open>simp add: ai_list_messages_def\<close>)

lemma handed_ok: assumes "chat_ok s" "get_conv s k = Some c" shows "chat_ok (handed e c s)"
proof -
  have "chat_ok (put_conv (c\<lparr>cv_is_ai := False, cv_ai_handed_over := True\<rparr>) s)"
    "chat_ok (put_conv (c\<lparr>cv_is_ai := False, cv_ai_handed_over := True, cv_admin_id := a\<rparr>) s)" for a
    using chat_ok_conv [OF assms] by (auto intro!: chat_ok_put [OF assms(1)] simp: covers_def)
  then show ?thesis by (simp add: handed_def Let_def split: option.split)
qed

lemma handover_ok: "chat_ok s \<Longrightarrow> chat_ok (snd (handover_to_admin e c k s))"
  by (simp add: handover_to_admin_def ai_send_ok handed_ok roles_both split: option.split)

lemma ai_turn_ok:
  assumes "chat_ok s" "both_sides role" shows "chat_ok (snd (ai_turn e c k uid role message r s))"
proof -
  have "chat_ok t" if "ai_send_message e c k sid ro content mt media meta skip s0 = (x, t)" "chat_ok s0" "both_sides ro"
    for sid ro content mt media meta skip s0 x t using ai_send_ok [OF that(2,3), of e c k sid content mt media meta skip] that(1) by simp
  note sent = this
  have "chat_ok t" if "handover_to_admin e c k s0 = (x, t)" "chat_ok s0" for s0 x t using handover_ok [OF that(2), of e c k] that(1) by simp
  with sent assms show ?thesis unfolding ai_turn_def using roles_both
    by (auto split: prod.split sum.split)
qed

section \<open>What the assistant says\<close>

definition says_clean :: "(nat \<Rightarrow> bool) \<Rightarrow> ChatMessage \<Rightarrow> bool" where
  "says_clean uw m \<longleftrightarrow> (cm_sender_role m = ''ai'' \<longrightarrow>
     (case cm_content m of None \<Rightarrow> True | Some t \<Rightarrow> t = [] \<or> t = REFUSAL \<or> \<not> blocked uw t))"

definition ai_clean :: "(nat \<Rightarrow> bool) \<Rightarrow> chat_state \<Rightarrow> bool" where
  "ai_clean uw s \<longleftrightarrow> list_all (says_clean uw) (rows (ch_msgs s))"

lemma admitted_clean:
  assumes "admitted c conv r content mt skip = Inr body" "ai_guardrails c" "cm_sender_role m = r" "cm_content m = body"
  shows "says_clean (ai_word c) m"
  using assms ai_reply_passes [of "ai_word c" "the content"]
  by (auto simp: says_clean_def admitted_def Let_def FROM_OUTSIDE_def split: if_splits sum.splits gate.splits option.splits)

lemma ai_send_clean:
  assumes "ai_clean (ai_word c) s" "ai_guardrails c"
  shows "ai_clean (ai_word c) (snd (ai_send_message e c k sid r content mt media meta skip s))"
proof -
  obtain res s' where x: "ai_send_message e c k sid r content mt media meta skip s = (res, s')" by force
  from x have "ai_clean (ai_word c) s'"
  proof (cases rule: ai_send_cases)
    case (sent conv body m d u)
    have "says_clean (ai_word c) (m\<lparr>cm_id := i\<rparr>)" for i
      using admitted_clean [OF sent(2) assms(2)] sent(4,5) by (simp add: says_clean_def)
    with assms(1) sent(8) show ?thesis by (simp add: ai_clean_def rows_t_insert)
  qed (use assms in simp)
  with x show ?thesis by simp
qed

lemma handed_msgs [simp]: "ch_msgs (handed e c s) = ch_msgs s"
  by (simp add: handed_def Let_def split: option.split)

lemma handover_clean: "ai_clean (ai_word c) s \<Longrightarrow> ai_guardrails c \<Longrightarrow> ai_clean (ai_word c) (snd (handover_to_admin e c k s))"
  using ai_send_clean by (simp add: handover_to_admin_def ai_clean_def split: option.split)

lemma ai_turn_clean:
  assumes "ai_clean (ai_word c) s" "ai_guardrails c" shows "ai_clean (ai_word c) (snd (ai_turn e c k uid role message r s))"
proof -
  have "ai_clean (ai_word c) t" if "ai_send_message e c k sid ro content mt media meta skip s0 = (x, t)" "ai_clean (ai_word c) s0"
    for sid ro content mt media meta skip s0 x t
    using ai_send_clean [OF that(2) assms(2), of e k sid ro content mt media meta skip] that(1) by simp
  moreover have "ai_clean (ai_word c) t" if "handover_to_admin e c k s0 = (x, t)" "ai_clean (ai_word c) s0" for s0 x t
    using handover_clean [OF that(2) assms(2), of e k] that(1) by simp
  ultimately show ?thesis using assms(1) unfolding ai_turn_def by (auto split: prod.split sum.split)
qed

section \<open>Any run\<close>

lemma enforce_rate_chat: "enforce_rate e k l w s = (r, s') \<Longrightarrow> as_chat s' = as_chat s"
  by (auto simp: enforce_rate_def rate_incr_def split: if_splits option.splits)

lemma chat_target_msgs: "ch_msgs (snd (chat_target e c user k aud s)) = ch_msgs s"
  by (simp add: chat_target_def ai_create_conversation_def get_or_create_retailer_support_def truthy_str_def Let_def
      split: sum.split list.split)

lemma chat_target_ok: "chat_ok s \<Longrightarrow> chat_ok (snd (chat_target e c user k aud s))"
proof -
  assume ok: "chat_ok s"
  have "chat_ok (add_conv ((new_Conversation n cat uid)\<lparr>cv_order_id := a, cv_return_id := b', cv_custom_cake_id := x, cv_is_ai := i\<rparr>) s)"
    for n cat uid a b' x i using ok by (intro chat_ok_fresh) (simp_all add: new_Conversation_def)
  moreover have "chat_ok t" if "get_or_create_retailer_support e (u_id user) True s = (conv, t)" for conv t
    using support_ok [OF ok, of e "u_id user" True] that by simp
  ultimately show ?thesis using ok
    by (auto simp: chat_target_def ai_create_conversation_def truthy_str_def Let_def split: sum.split prod.split)
qed

lemma chat_do_snd [simp]: "as_chat (snd (chat_do f s)) = snd (f (as_chat s))"
  by (simp add: chat_do_def split_beta)

text \<open>A turn finds or opens a conversation, then writes into it.\<close>

lemma run_ai_chat_keeps:
  assumes "P (as_chat s)" "\<And>t. P t \<Longrightarrow> P (snd (chat_target e c user k aud t))"
    "\<And>t k' role r. role \<in> set FROM_OUTSIDE \<Longrightarrow> P t \<Longrightarrow> P (snd (ai_turn e c k' (u_id user) role message r t))"
  shows "P (as_chat (snd (run_ai_chat e c user k message language aud s)))"
proof -
  obtain r1 s1 where 1: "enforce_chat_rate e c (u_id user) s = (r1, s1)" by force
  then have c1: "as_chat s1 = as_chat s" by (auto simp: enforce_chat_rate_def intro: enforce_rate_chat)
  obtain r2 s2 where 2: "chat_do (chat_target e c user k aud) s1 = (r2, s2)" by force
  have p2: "P (as_chat s2)"
    using assms(2) [of "as_chat s1"] assms(1) chat_do_snd [of "chat_target e c user k aud" s1] by (simp add: c1 2)
  have p3: "P (as_chat (snd (chat_do (ai_turn e c k' (u_id user) role message r) s2)))" if "role \<in> set FROM_OUTSIDE" for k' r role
    using assms(3) [OF that p2] by simp
  show ?thesis
  proof (cases r1)
    case (Inr n)
    show ?thesis
    proof (cases r2)
      case (Inr k')
      define r where "r = ai_respond c s2 (u_id user) message language (Some aud) (Some (llm_history (as_chat s2) k'))"
      define role where "role = (if aud = ''retailer'' then ''retailer'' else ''customer'')"
      have "snd (run_ai_chat e c user k message language aud s) = snd (chat_do (ai_turn e c k' (u_id user) role message r) s2)"
        using 1 2 Inr \<open>r1 = Inr n\<close> by (simp add: run_ai_chat_def Let_def r_def role_def split_beta split: sum.split)
      then show ?thesis using p3 [of role k' r] by (simp add: role_def FROM_OUTSIDE_def)
    qed (use 1 2 p2 \<open>r1 = Inr n\<close> in \<open>simp add: run_ai_chat_def\<close>)
  qed (use 1 c1 assms(1) in \<open>simp add: run_ai_chat_def\<close>)
qed

inductive ai_step :: "ai_cfg \<Rightarrow> ai_state \<Rightarrow> ai_state \<Rightarrow> bool" for c where
  ask: "ai_step c s (snd (run_ai_chat e c user k message language audience s))"
| open_chat: "ai_step c s (snd (chat_do (ai_list_messages k user) s))"
| call_person: "ai_step c s (snd (start_call e uid callee oid ct target s))"
| call_update: "ai_step c s (snd (update_call e k uid st n nt s))"
| call_by_ai: "vo_ai v = c \<Longrightarrow> ai_step c s (snd (start_ai_outbound e v phone callee initiator purpose s))"
| call_dialogue: "vo_ai v = c \<Longrightarrow> ai_step c s (snd (voice_twiml_gather e v k speech s))"
| call_report: "ai_step c s (snd (update_call_status e k st sid s))"
| faq_add: "ai_step c s (snd (add_faq e q a l b s))"
| faq_patch: "ai_step c s (snd (patch_faq k q a l b s))"
| faq_delete: "ai_step c s (snd (delete_faq k s))"

definition same_talk :: "ai_state \<Rightarrow> ai_state \<Rightarrow> bool" where
  "same_talk s t \<longleftrightarrow> ch_convs (as_chat t) = ch_convs (as_chat s) \<and> ch_msgs (as_chat t) = ch_msgs (as_chat s)"

lemma quiet_steps:
  "same_talk s (snd (start_call e uid callee oid ct target s))"
  "same_talk s (snd (update_call e k uid st n nt s))"
  "same_talk s (snd (start_ai_outbound e v phone callee initiator purpose s))"
  "same_talk s (snd (voice_twiml_gather e v k speech s))"
  "same_talk s (snd (update_call_status e k st' sid s))"
  "same_talk s (snd (add_faq e q a l b s))"
  "same_talk s (snd (patch_faq k q a l b s))"
  "same_talk s (snd (delete_faq k s))"
  by (simp_all add: same_talk_def start_call_def update_call_def start_ai_outbound_def voice_twiml_gather_def
      update_call_status_def add_faq_def patch_faq_def delete_faq_def Let_def split: option.split sum.split)

lemma same_talk_laws: "same_talk s t \<Longrightarrow> chat_ok (as_chat s) \<Longrightarrow> chat_ok (as_chat t)"
  "same_talk s t \<Longrightarrow> ai_clean uw (as_chat s) \<Longrightarrow> ai_clean uw (as_chat t)"
  by (simp_all add: same_talk_def ai_clean_def chat_ok_frame)

lemma ai_step_ok: "ai_step c s t \<Longrightarrow> chat_ok (as_chat s) \<Longrightarrow> chat_ok (as_chat t)"
proof (induction rule: ai_step.induct)
  case (ask s e user k message language audience)
  then show ?case
    by (rule run_ai_chat_keeps) (auto intro: chat_target_ok ai_turn_ok simp: both_sides_def)
next
  case (open_chat s k user)
  then show ?case using ai_list_messages_ok [of "as_chat s" k user] by simp
qed (blast intro: quiet_steps same_talk_laws(1))+

lemma clean_frame: "ch_msgs t = ch_msgs s \<Longrightarrow> ai_clean uw t = ai_clean uw s"
  by (simp add: ai_clean_def)

lemma list_messages_clean: "ai_clean uw s \<Longrightarrow> ai_clean uw (snd (ai_list_messages k user s))"
  by (auto simp: ai_clean_def list_all_iff ai_list_messages_def see_from_def says_clean_def Let_def split: sum.split)

lemma ai_step_clean:
  "ai_step c s t \<Longrightarrow> ai_guardrails c \<Longrightarrow> ai_clean (ai_word c) (as_chat s) \<Longrightarrow> ai_clean (ai_word c) (as_chat t)"
proof (induction rule: ai_step.induct)
  case (ask s e user k message language audience)
  from ask(2) show ?case
    by (rule run_ai_chat_keeps) (use ask(1) in \<open>auto intro: ai_turn_clean simp: clean_frame [OF chat_target_msgs]\<close>)
next
  case (open_chat s k user)
  then show ?case using list_messages_clean [of "ai_word c" "as_chat s" k user] by simp
qed (blast intro: quiet_steps same_talk_laws(2))+

text \<open>People write through the services of the customers, the shops and the administrator, the assistant through its own.\<close>

inductive talk_step :: "ai_cfg \<Rightarrow> ai_state \<Rightarrow> ai_state \<Rightarrow> bool" for c where
  assistant: "ai_step c s t \<Longrightarrow> talk_step c s t"
| people: "chat_step (as_chat s) x \<Longrightarrow> talk_step c s (s\<lparr>as_chat := x\<rparr>)"

lemma talk_step_ok: "talk_step c s t \<Longrightarrow> chat_ok (as_chat s) \<Longrightarrow> chat_ok (as_chat t)"
  by (induction rule: talk_step.induct) (auto intro: ai_step_ok chat_step_ok)

lemma covers_total:
  "list_all (covers t) cs \<Longrightarrow> int (sum_list (map (\<lambda>c. waiting t (cv_id c) to_admin) cs)) \<le> sum_list (map cv_unread_admin cs)"
  by (induction cs) (auto simp: covers_def)

text \<open>Property C35 (unread_never_understated): along any interleaving of customers, shops, administrators and the assistant, no
  counter of a conversation is below the number of its messages that wait for that reader, and the administrator's
  total is at least the number of all messages that wait for the bakery.\<close>

theorem unread_never_understated:
  assumes "(talk_step c)\<^sup>*\<^sup>* s s'" "chat_wf (as_chat s)" "counters_cover (as_chat s)"
  shows "counters_cover (as_chat s')
    \<and> int (sum_list (map (\<lambda>c. waiting (ch_msgs (as_chat s')) (cv_id c) to_admin) (rows (ch_convs (as_chat s')))))
        \<le> admin_unread_total (as_chat s')"
proof -
  from assms(1) have "chat_ok (as_chat s')"
    by (induction rule: rtranclp_induct) (use assms(2,3) in \<open>simp add: chat_ok_def\<close>, blast intro: talk_step_ok)
  then have "counters_cover (as_chat s')" by (simp add: chat_ok_def)
  then show ?thesis using covers_total by (simp add: counters_cover_def admin_unread_total_def)
qed

text \<open>Property C36 (assistant_says_nothing_blocked): with the guardrails on, along any run of the assistant's service every answer
  stored as the assistant's is empty, the refusal, or free of the blocked topics, whatever the language model says.\<close>

theorem assistant_says_nothing_blocked:
  assumes "(ai_step c)\<^sup>*\<^sup>* s s'" "ai_guardrails c" "ai_clean (ai_word c) (as_chat s)"
  shows "ai_clean (ai_word c) (as_chat s')"
  using assms by (induction rule: rtranclp_induct) (auto intro: ai_step_clean)

section \<open>Turns per hour\<close>

fun rate_run :: "env list \<Rightarrow> string \<Rightarrow> int \<Rightarrow> int \<Rightarrow> ai_state \<Rightarrow> bool list" where
  "rate_run [] k l w s = []"
| "rate_run (e # es) k l w s = (case enforce_rate e k l w s of (r, s1) \<Rightarrow>
     (case r of Inl _ \<Rightarrow> False | Inr _ \<Rightarrow> True) # rate_run es k l w s1)"

lemma rate_run_counts:
  assumes "as_up s" "as_rates s k = Some (n, t)" "0 < l" "list_all (\<lambda>e. env_now e < t) es"
  shows "rate_run es k l w s = map (\<lambda>i. n + 1 + int i \<le> l) [0 ..< length es]"
  using assms
proof (induction es arbitrary: s n)
  case (Cons e es)
  define s1 where "s1 = s\<lparr>as_rates := (as_rates s)(k := Some (n + 1, t))\<rparr>"
  have i: "rate_incr e k w s = (Some (n + 1), s1)" using Cons.prems by (simp add: rate_incr_def s1_def)
  have "rate_run es k l w s1 = map (\<lambda>i. n + 1 + 1 + int i \<le> l) [0 ..< length es]"
    by (rule Cons.IH) (use Cons.prems in \<open>simp_all add: s1_def\<close>)
  moreover have "map (\<lambda>i. n + 1 + int i \<le> l) [0 ..< length (e # es)]
      = (n + 1 \<le> l) # map (\<lambda>i. n + 1 + 1 + int i \<le> l) [0 ..< length es]"
    by (simp add: upt_conv_Cons map_Suc_upt [symmetric] algebra_simps del: upt_Suc)
  ultimately show ?case using Cons.prems(3) by (simp add: enforce_rate_def i)
qed simp

text \<open>Property C37 (rate_admits_the_first): of the requests that fall into the window the first one opens, exactly the first
  \<open>l\<close> are admitted, \<open>l\<close> being the limit.\<close>

theorem rate_admits_the_first:
  assumes "as_up s" "as_rates s k = None" "0 < l" "list_all (\<lambda>e. env_now e < env_now e0 + us_seconds w) es"
  shows "rate_run (e0 # es) k l w s = map (\<lambda>i. int i < l) [0 ..< length (e0 # es)]"
proof -
  define s1 where "s1 = s\<lparr>as_rates := (as_rates s)(k := Some (1, env_now e0 + us_seconds w))\<rparr>"
  have i: "rate_incr e0 k w s = (Some 1, s1)" using assms(1,2) by (simp add: rate_incr_def s1_def)
  have "rate_run es k l w s1 = map (\<lambda>i. 1 + 1 + int i \<le> l) [0 ..< length es]"
    by (rule rate_run_counts) (use assms in \<open>simp_all add: s1_def\<close>)
  moreover have "map (\<lambda>i. int i < l) [0 ..< length (e0 # es)] = (0 < l) # map (\<lambda>i. 1 + 1 + int i \<le> l) [0 ..< length es]"
    by (simp add: upt_conv_Cons map_Suc_upt [symmetric] algebra_simps del: upt_Suc) auto
  ultimately show ?thesis using assms(3) by (simp add: enforce_rate_def i)
qed

section \<open>Reports of calls\<close>

text \<open>A report that ends a call dates its end and counts the whole seconds since its start; any other report leaves
  the dates alone.  A late report reopens a call that is over, and keeps its end.\<close>

theorem report_of_call:
  assumes "get_call s k = Some c" "update_call_status e k st sid s = (r, s')"
  shows "\<exists>c'. r = Some c' \<and> get_call s' k = Some c' \<and> cr_id c' = k
    \<and> cr_status c' = (case map_of TWILIO_STATUS (str_lower st) of Some x \<Rightarrow> x | None \<Rightarrow> cr_status c)
    \<and> (if call_over (cr_status c') then cr_ended_at c' = Some (env_now e)
         \<and> (\<forall>t. cr_started_at c = Some t \<longrightarrow> t \<le> env_now e \<longrightarrow> cr_duration_seconds c' = (env_now e - t) div us_seconds 1)
       else cr_ended_at c' = cr_ended_at c \<and> cr_duration_seconds c' = cr_duration_seconds c)"
proof -
  have k: "cr_id c = k" using assms(1) by (rule t_get_key)
  have "r = Some (reported e st sid c)" "s' = put_call (reported e st sid c) s"
    using assms by (auto simp: update_call_status_def found_call_def Let_def)
  moreover have "cr_id (reported e st sid c) = k" by (simp add: reported_def Let_def k)
  ultimately show ?thesis
    using assms(1) by (auto simp: reported_def Let_def whole_seconds_def call_over_def t_get_put split: option.split)
qed

section \<open>Worked examples\<close>

definition hello_ai :: ai_state where
  "hello_ai = \<lparr>as_chat = hello_state, as_faqs = t_empty, as_up = True, as_rates = (\<lambda>_. None)\<rparr>"

definition ravi :: User where "ravi = (new_User 0 ''9876500005'')\<lparr>u_id := 5\<rparr>"

text \<open>A model that answers every question with a blocked word.\<close>

definition rude_cfg :: ai_cfg where
  "rude_cfg = \<lparr>ai_word = (\<lambda>_. False), ai_guardrails = True, ai_rate_limit = 60, ai_rate_window_sec = 3600, ai_top_k = 4,
     ai_retrieve = (\<lambda>_ _. []),
     ai_graph = (\<lambda>_ _ _ _ _ _. Some \<lparr>ar_reply = ''Modi'', ar_language = ''en'', ar_products = [], ar_actions = [],
       ar_quick_replies = [], ar_provider = ''llm'', ar_blocked = None, ar_reason = None\<rparr>)\<rparr>"

definition asked :: ai_state where
  "asked = snd (run_ai_chat sample_env rude_cfg ravi (Some 1) ''China?'' ''en'' ''customer'' hello_ai)"

lemma unread_never_understated_witness:
  "counters_cover (as_chat asked)" (is ?t)
proof -
  have "talk_step rude_cfg hello_ai asked" unfolding asked_def by (intro talk_step.assistant ai_step.ask)
  then show ?t
    using unread_never_understated [OF r_into_rtranclp] hello_facts(2,3) by (simp add: hello_ai_def)
qed

lemma rate_admits_the_first_witness:
  "rate_run [sample_env, sample_env, sample_env] ''ai:chat:5'' 2 3600 hello_ai = [True, True, False]"
  by (subst rate_admits_the_first) (simp_all add: hello_ai_def us_seconds_def upt_rec)

lemma rude_refused: "filter_ai_reply uw True ''Modi'' = REFUSAL"
proof -
  have "blocked uw ''Modi''" by code_simp
  then show ?thesis by (simp add: filter_ai_reply_def)
qed

lemma ai_send_appends:
  assumes "get_conv s k = Some conv" "admitted c conv ro content mt skip = Inr body" "ai_send_message e c k sid ro content mt media meta skip s = (res, s')"
  shows "map cm_content (rows (ch_msgs s')) = map cm_content (rows (ch_msgs s)) @ [body]"
    "\<exists>conv'. get_conv s' k = Some conv'" "\<exists>m. res = Inr m"
  using assms t_get_key [OF assms(1)]
  by (auto simp: ai_send_message_def Let_def rows_t_insert chat_row_def new_ChatMessage_def t_get_put ai_counted_def counted_def)

lemma asked_messages: "map cm_content (rows (ch_msgs (as_chat asked))) = [Some ''China?'', Some REFUSAL]"
proof -
  define r where "r = \<lparr>ar_reply = ''Modi'', ar_language = ''en'', ar_products = [], ar_actions = [],
       ar_quick_replies = [], ar_provider = ''llm'', ar_blocked = None, ar_reason = None\<rparr>"
  have g: "ai_respond rude_cfg s u ''China?'' ''en'' (Some ''customer'') h = r" for s u h
    by (simp add: ai_respond_def rude_cfg_def gate_takes_anything r_def)
  have cfg: "ai_guardrails rude_cfg" "ai_rate_limit rude_cfg = 60" by (simp_all add: rude_cfg_def)
  have a: "admitted rude_cfg c ''customer'' (Some ''China?'') ''text'' True = Inr (Some ''China?'')"
    "admitted rude_cfg c ''ai'' (Some ''Modi'') ''text'' True = Inr (Some REFUSAL)" for c
    by (simp_all add: admitted_def cfg rude_refused)
  obtain r1 s1 where 1: "enforce_chat_rate sample_env rude_cfg 5 hello_ai = (r1, s1)" by force
  then have s1: "as_chat s1 = hello_state" "\<exists>n. r1 = Inr n"
    by (auto simp: enforce_chat_rate_def enforce_rate_def rate_incr_def cfg hello_ai_def)
  have t: "chat_target sample_env rude_cfg ravi (Some 1) ''customer'' hello_state = (Inr 1, hello_state)"
    by (simp add: chat_target_def require_conversation_def hello_facts(1) ravi_def new_Conversation_def)
  have w: "\<not> wants_human r" by (simp add: wants_human_def r_def)
  obtain m1 t1 where 2: "ai_send_message sample_env rude_cfg 1 (Some 5) ''customer'' (Some ''China?'') ''text'' None None True hello_state = (m1, t1)" by force
  note u1 = ai_send_appends [OF hello_facts(1) a(1) 2]
  then obtain c1 where c1: "get_conv t1 1 = Some c1" by blast
  obtain m2 t2 where 3: "ai_send_message sample_env rude_cfg 1 None ''ai'' (Some ''Modi'') ''text'' None (Some (ai_metadata r)) True t1 = (m2, t2)" by force
  note u2 = ai_send_appends [OF c1 a(2) 3]
  have "ar_reply r = ''Modi''" by (simp add: r_def)
  then have "snd (ai_turn sample_env rude_cfg 1 5 ''customer'' ''China?'' r hello_state) = t2"
    using 2 3 u1(3) u2(3) w by (auto simp: ai_turn_def)
  moreover have "rows (ch_msgs hello_state) = []" by (simp add: hello_state_def t_empty_def)
  ultimately have "map cm_content (rows (ch_msgs (snd (ai_turn sample_env rude_cfg 1 5 ''customer'' ''China?'' r hello_state))))
      = [Some ''China?'', Some REFUSAL]"
    using u1(1) u2(1) by simp
  then show ?thesis
    using 1 s1 t by (auto simp: asked_def run_ai_chat_def ravi_def chat_do_def g Let_def split_beta split: sum.split)
qed

lemma assistant_says_nothing_blocked_witness:
  "ai_clean (\<lambda>_. False) (as_chat asked) \<and> map cm_content (rows (ch_msgs (as_chat asked))) = [Some ''China?'', Some REFUSAL]"
proof -
  have "ai_step rude_cfg hello_ai asked" unfolding asked_def by (rule ai_step.ask)
  moreover have "ai_guardrails rude_cfg" "ai_word rude_cfg = (\<lambda>_. False)" by (simp_all add: rude_cfg_def)
  moreover have "ai_clean uw (as_chat hello_ai)" for uw by (simp add: ai_clean_def hello_ai_def hello_state_def t_empty_def)
  ultimately show ?thesis
    using assistant_says_nothing_blocked [OF r_into_rtranclp] asked_messages by metis
qed

end
