(* ===== verification/OAuth.thy ===== *)
theory OAuth
  imports SessionLaws ShopHours
begin

text \<open>
  The browser side of Google sign-in: \<open>_google_oauth_authorize_url\<close>, \<open>_google_oauth_finish\<close> and \<open>retailer_google_oauth_exchange\<close> of
  \<open>auth_service/app/services/auth.py\<close>, and \<open>ephemeral.py\<close>, which keeps their short-lived values in Redis and, beside it,
  in the memory of each worker process.  \<open>oa_token\<close>, a parameter, is Google's token endpoint; the random draws are
  arguments.  The help texts of \<open>retailer_google_oauth_setup\<close> are left out.
\<close>

section \<open>Short-lived values\<close>

datatype oauth_reply = CustomerTokens token_pair | ShopReply google_reply

datatype eph_value = EphText string | EphReply oauth_reply

record oauth_state =
  os_auth :: auth_state
  os_redis :: "string \<Rightarrow> (eph_value \<times> datetime) option"
  os_mem :: "nat \<Rightarrow> string \<Rightarrow> (eph_value \<times> datetime) option"

definition eph_put :: "env \<Rightarrow> nat \<Rightarrow> string \<Rightarrow> eph_value \<Rightarrow> int \<Rightarrow> oauth_state \<Rightarrow> oauth_state" where
  "eph_put e w k v ttl s =
     (let entry = Some (v, env_now e + us_seconds ttl);
          s1 = s\<lparr>os_mem := (os_mem s)(w := (os_mem s w)(k := entry))\<rparr>
      in if au_up (os_auth s) then s1\<lparr>os_redis := (os_redis s)(k := entry)\<rparr> else s1)"

definition eph_pop :: "env \<Rightarrow> nat \<Rightarrow> string \<Rightarrow> oauth_state \<Rightarrow> eph_value option \<times> oauth_state" where
  "eph_pop e w k s =
     (let val = (if au_up (os_auth s) then (case os_redis s k of
            Some (v, t) \<Rightarrow> if env_now e < t then Some v else None | None \<Rightarrow> None) else None);
          kept = (case os_mem s w k of Some (v, t) \<Rightarrow> if t < env_now e then None else Some v | None \<Rightarrow> None);
          s1 = s\<lparr>os_mem := (os_mem s)(w := (os_mem s w)(k := None))\<rparr>;
          s2 = (if au_up (os_auth s) then s1\<lparr>os_redis := (os_redis s)(k := None)\<rparr> else s1)
      in (case val of Some v \<Rightarrow> Some v | None \<Rightarrow> kept, s2))"

definition state_key :: "string \<Rightarrow> string" where "state_key st = ''gauth:state:'' @ st"
definition cust_state_key :: "string \<Rightarrow> string" where "cust_state_key st = ''gauth:cust:state:'' @ st"
definition finish_key :: "string \<Rightarrow> string" where "finish_key code = ''gauth:finish:'' @ code"

section \<open>Addresses\<close>

record oauth_cfg =
  oa_auth :: auth_cfg
  oa_client_id :: string
  oa_client_secret :: string
  oa_public_base_url :: string
  oa_token :: "string \<Rightarrow> string \<Rightarrow> json option"

text \<open>\<open>urlparse(url).hostname\<close>: the host of \<open>scheme://user@host:port/\<dots>\<close>, in lower case.\<close>

definition after_scheme :: "string \<Rightarrow> string" where
  "after_scheme url =
     (let sch = takeWhile (\<lambda>c. c \<noteq> CHR '':'') url
      in if sch \<noteq> [] \<and> length sch < length url \<and> is_alpha_char (hd sch)
            \<and> list_all (\<lambda>c. is_alpha_char c \<or> is_digit_char c \<or> c \<in> {CHR ''+'', CHR ''-'', CHR ''.''}) sch
         then drop (length sch + 1) url else url)"

definition hostname :: "string \<Rightarrow> string" where
  "hostname url =
     (let rest = after_scheme url
      in if \<not> starts_with ''//'' rest then []
         else let netloc = takeWhile (\<lambda>c. c \<notin> {CHR ''/'', CHR ''?'', CHR ''#''}) (drop 2 rest);
                  host = rev (takeWhile (\<lambda>c. c \<noteq> CHR ''@'') (rev netloc))
              in str_lower (if starts_with ''['' host then takeWhile (\<lambda>c. c \<noteq> CHR '']'') (tl host)
                            else takeWhile (\<lambda>c. c \<noteq> CHR '':'') host))"

definition is_private_lan_host :: "string \<Rightarrow> bool" where
  "is_private_lan_host url =
     (let host = hostname url
      in if host \<in> {''localhost'', ''127.0.0.1'', ''::1''} then False
         else if starts_with ''192.168.'' host \<or> starts_with ''10.'' host then True
         else if starts_with ''172.'' host
         then (case split_on CHR ''.'' host of _ # b # _ \<Rightarrow> (case py_int b of Some n \<Rightarrow> 16 \<le> n \<and> n \<le> 31 | None \<Rightarrow> False) | _ \<Rightarrow> False)
         else False)"

definition google_callback_uri :: "oauth_cfg \<Rightarrow> string" where
  "google_callback_uri c =
     (let base0 = (if oa_public_base_url c = [] then ''http://127.0.0.1:8080'' else oa_public_base_url c);
          base = rev (dropWhile (\<lambda>x. x = CHR ''/'') (rev base0))
      in (if is_private_lan_host base then ''http://127.0.0.1:8080'' else base) @ ''/api/v1/auth/retailer/google/callback'')"

definition hex_digit :: "nat \<Rightarrow> char" where
  "hex_digit n = char_of (if n < 10 then 48 + n else 55 + n)"

definition url_quote :: "string \<Rightarrow> string \<Rightarrow> string" where
  "url_quote extra s = concat (map (\<lambda>c. if is_alpha_char c \<or> is_digit_char c \<or> c \<in> set (''_.-~'' @ extra) then [c]
     else [CHR ''%'', hex_digit (char_code c div 16), hex_digit (char_code c mod 16)]) s)"

text \<open>\<open>quote_plus\<close>: a space becomes a plus sign.\<close>

definition quote_plus :: "string \<Rightarrow> string" where
  "quote_plus s = concat (map (\<lambda>c. if c = CHR '' '' then ''+'' else url_quote [] [c]) s)"

definition urlencode :: "(string \<times> string) list \<Rightarrow> string" where
  "urlencode kvs = join ''&'' (map (\<lambda>(k, v). quote_plus k @ ''='' @ quote_plus v) kvs)"

section \<open>The three steps\<close>

definition nl_char :: char where "nl_char = CHR 0x0A"

definition CUSTOMER_PREFIXES :: "string list" where "CUSTOMER_PREFIXES = [''usermobile:'', ''exp:'', ''http://'', ''https://'']"
definition RETAILER_PREFIXES :: "string list" where "RETAILER_PREFIXES = [''sweetcrustretailer:'', ''exp:'', ''http://'', ''https://'']"

definition oauth_authorize_url :: "oauth_cfg \<Rightarrow> env \<Rightarrow> nat \<Rightarrow> string \<Rightarrow> string \<Rightarrow> string list \<Rightarrow> string \<Rightarrow> oauth_state
    \<Rightarrow> (exc + string) \<times> oauth_state" where
  "oauth_authorize_url c e w st role prefixes app_redirect s =
     (if oa_client_id c = [] \<or> oa_client_secret c = []
      then (Inl (unavailable ''GOOGLE_CLIENT_ID / GOOGLE_CLIENT_SECRET not configured''), s)
      else if \<not> list_ex (\<lambda>p. starts_with p app_redirect) prefixes then (Inl (bad_request ''Invalid app redirect''), s)
      else let callback = google_callback_uri c
           in (Inr (''https://accounts.google.com/o/oauth2/v2/auth?'' @ urlencode [(''client_id'', oa_client_id c),
                  (''redirect_uri'', callback), (''response_type'', ''code''), (''scope'', ''openid email profile''),
                  (''state'', st), (''access_type'', ''online''), (''prompt'', ''select_account'')]),
               eph_put e w (state_key st) (EphText (role @ [nl_char] @ app_redirect @ [nl_char] @ callback)) 600 s))"

definition customer_google_oauth_authorize_url :: "oauth_cfg \<Rightarrow> env \<Rightarrow> nat \<Rightarrow> string \<Rightarrow> string \<Rightarrow> oauth_state \<Rightarrow> (exc + string) \<times> oauth_state" where
  "customer_google_oauth_authorize_url c e w st = oauth_authorize_url c e w st ''customer'' CUSTOMER_PREFIXES"

definition retailer_google_oauth_authorize_url :: "oauth_cfg \<Rightarrow> env \<Rightarrow> nat \<Rightarrow> string \<Rightarrow> string \<Rightarrow> oauth_state \<Rightarrow> (exc + string) \<times> oauth_state" where
  "retailer_google_oauth_authorize_url c e w st = oauth_authorize_url c e w st ''retailer'' RETAILER_PREFIXES"

text \<open>The state is used up before anything is asked of Google.\<close>

definition popped_state :: "env \<Rightarrow> nat \<Rightarrow> string \<Rightarrow> oauth_state \<Rightarrow> string option \<times> oauth_state" where
  "popped_state e w st s = (case eph_pop e w (state_key st) s of
     (Some (EphText t), s1) \<Rightarrow> if t = [] then (case eph_pop e w (cust_state_key st) s1 of
          (Some (EphText u), s2) \<Rightarrow> (Some u, s2) | (_, s2) \<Rightarrow> (None, s2)) else (Some t, s1)
   | (_, s1) \<Rightarrow> (case eph_pop e w (cust_state_key st) s1 of
          (Some (EphText u), s2) \<Rightarrow> (Some u, s2) | (_, s2) \<Rightarrow> (None, s2)))"

definition google_tokens :: "oauth_cfg \<Rightarrow> env \<Rightarrow> string \<Rightarrow> string \<Rightarrow> auth_state \<Rightarrow> (exc + oauth_reply) \<times> auth_state" where
  "google_tokens c e role id_token a =
     (if role = ''customer'' then (case google_login (oa_auth c) e id_token True a of
          (Inl ex, a1) \<Rightarrow> (Inl ex, a1) | (Inr t, a1) \<Rightarrow> (Inr (CustomerTokens t), a1))
      else (case retailer_google_login (oa_auth c) e id_token True a of
          (Inl ex, a1) \<Rightarrow> (Inl ex, a1) | (Inr t, a1) \<Rightarrow> (Inr (ShopReply t), a1)))"

text \<open>What Google's token endpoint answered; tokens are kept for two minutes under a fresh finish code.\<close>

definition google_answer :: "oauth_cfg \<Rightarrow> env \<Rightarrow> nat \<Rightarrow> string \<Rightarrow> string \<Rightarrow> string \<Rightarrow> json \<Rightarrow> oauth_state \<Rightarrow> (exc + string) \<times> oauth_state" where
  "google_answer c e w fresh role app_redirect data s =
     (let id_token = or_str (jstr (jget ''id_token'' data)) []
      in if id_token = []
         then (Inl (unauthorized (''Google sign-in failed: '' @ (let d = or_str (jstr (jget ''error_description'' data)) [];
                 x = or_str (jstr (jget ''error'' data)) []
               in if d \<noteq> [] then d else if x \<noteq> [] then x else ''No id_token from Google''))), s)
         else (case google_tokens c e role id_token (os_auth s) of
            (Inl ex, a1) \<Rightarrow> (Inl ex, s\<lparr>os_auth := a1\<rparr>)
          | (Inr r, a1) \<Rightarrow>
              (Inr (app_redirect @ (if CHR ''?'' \<in> set app_redirect then ''&'' else ''?'') @ ''code='' @ url_quote ''/'' fresh),
               eph_put e w (finish_key fresh) (EphReply r) 120 (s\<lparr>os_auth := a1\<rparr>))))"

text \<open>Role, redirect and callback, as they were packed.\<close>

definition unpacked :: "string \<Rightarrow> (string \<times> string \<times> string) option" where
  "unpacked t = (case split_on nl_char t of
     [role, app_redirect, callback] \<Rightarrow> Some (role, app_redirect, callback)
   | a # b # _ \<Rightarrow> Some (''retailer'', a, b)
   | _ \<Rightarrow> None)"

definition oauth_finish :: "oauth_cfg \<Rightarrow> env \<Rightarrow> nat \<Rightarrow> string \<Rightarrow> string \<Rightarrow> string \<Rightarrow> oauth_state \<Rightarrow> (exc + string) \<times> oauth_state" where
  "oauth_finish c e w fresh code st s = (case popped_state e w st s of
     (packed, s1) \<Rightarrow> (case Option.bind packed unpacked of
        None \<Rightarrow> (Inl (bad_request ''Google sign-in expired. Try again.''), s1)
      | Some (role, app_redirect, callback) \<Rightarrow> (case oa_token c code callback of
          None \<Rightarrow> (Inl (unauthorized ''Google token exchange failed''), s1)
        | Some data \<Rightarrow> google_answer c e w fresh role app_redirect data s1)))"

definition oauth_exchange :: "env \<Rightarrow> nat \<Rightarrow> string \<Rightarrow> oauth_state \<Rightarrow> (exc + oauth_reply) \<times> oauth_state" where
  "oauth_exchange e w code s = (case eph_pop e w (finish_key code) s of
     (Some (EphReply r), s1) \<Rightarrow> (Inr r, s1)
   | (_, s1) \<Rightarrow> (Inl (bad_request ''Google sign-in code expired. Try again.''), s1))"

section \<open>Laws\<close>

definition code_gone :: "nat \<Rightarrow> string \<Rightarrow> oauth_state \<Rightarrow> bool" where
  "code_gone w code s \<longleftrightarrow> os_mem s w (finish_key code) = None \<and> (au_up (os_auth s) \<longrightarrow> os_redis s (finish_key code) = None)"

lemma key_apart: "state_key a \<noteq> finish_key b" "cust_state_key a \<noteq> finish_key b" "finish_key a = finish_key b \<longleftrightarrow> a = b"
  by (simp_all add: state_key_def cust_state_key_def finish_key_def)

lemma pop_keeps_gone: "code_gone w code s \<Longrightarrow> code_gone w code (snd (eph_pop e v k s))"
  by (auto simp: code_gone_def eph_pop_def Let_def)

lemma pop_gone: "code_gone w code (snd (eph_pop e w (finish_key code) s))"
  by (simp add: code_gone_def eph_pop_def Let_def)

lemma put_keeps_gone: "code_gone w code s \<Longrightarrow> k \<noteq> finish_key code \<Longrightarrow> code_gone w code (eph_put e v k x ttl s)"
  by (auto simp: code_gone_def eph_put_def Let_def)

lemma popped_keeps_gone: "code_gone w code s \<Longrightarrow> code_gone w code (snd (popped_state e v st s))"
  using pop_keeps_gone [of w code s e v "state_key st"] pop_keeps_gone [of w code "snd (eph_pop e v (state_key st) s)" e v "cust_state_key st"]
  by (auto simp: popped_state_def split: prod.splits option.splits eph_value.splits)

lemma google_tokens_up: "google_tokens c e role tok a = (r, a1) \<Longrightarrow> au_up a1 = au_up a"
  using calm_google [of a "oa_auth c" e tok True] calm_retailer_google [of a "oa_auth c" e tok True]
  by (auto simp: google_tokens_def calm_def split: if_splits prod.splits sum.splits)

lemma google_answer_cases:
  obtains "snd (google_answer c e w fresh role app data s) = s"
  | a1 where "au_up a1 = au_up (os_auth s)" "snd (google_answer c e w fresh role app data s) = s\<lparr>os_auth := a1\<rparr>"
  | a1 x where "au_up a1 = au_up (os_auth s)"
      "snd (google_answer c e w fresh role app data s) = eph_put e w (finish_key fresh) x 120 (s\<lparr>os_auth := a1\<rparr>)"
proof (cases "or_str (jstr (jget ''id_token'' data)) [] = []")
  case True
  then show ?thesis using that(1) by (simp add: google_answer_def Let_def)
next
  case False
  obtain r a1 where t: "google_tokens c e role (or_str (jstr (jget ''id_token'' data)) []) (os_auth s) = (r, a1)" by force
  note up = google_tokens_up [OF t]
  show ?thesis
  proof (cases r)
    case (Inl ex)
    then show ?thesis using that(2) [OF up] False t by (simp add: google_answer_def)
  next
    case (Inr x)
    then show ?thesis using that(3) [OF up] False t by (simp add: google_answer_def)
  qed
qed

lemma oauth_finish_cases:
  assumes "popped_state e w st s = (packed, s1)"
  obtains "snd (oauth_finish c e w fresh code st s) = s1"
  | a1 where "au_up a1 = au_up (os_auth s1)" "snd (oauth_finish c e w fresh code st s) = s1\<lparr>os_auth := a1\<rparr>"
  | a1 x where "au_up a1 = au_up (os_auth s1)"
      "snd (oauth_finish c e w fresh code st s) = eph_put e w (finish_key fresh) x 120 (s1\<lparr>os_auth := a1\<rparr>)"
proof (cases "Option.bind packed unpacked")
  case None
  then show ?thesis using that(1) assms by (simp add: oauth_finish_def)
next
  case (Some u)
  obtain role app callback where u: "u = (role, app, callback)" by (cases u)
  show ?thesis
  proof (cases "oa_token c code callback")
    case None
    then show ?thesis using that(1) assms Some u by (simp add: oauth_finish_def)
  next
    case (Some data)
    have "oauth_finish c e w fresh code st s = google_answer c e w fresh role app data s1"
      using assms \<open>Option.bind packed unpacked = Some u\<close> u Some by (simp add: oauth_finish_def)
    then show ?thesis using that by (cases rule: google_answer_cases [of c e w fresh role app data s1]) simp_all
  qed
qed

lemma finish_keeps_gone:
  assumes "code_gone w code s" "fresh \<noteq> code" shows "code_gone w code (snd (oauth_finish c e v fresh gcode st s))"
proof -
  obtain packed s1 where p: "popped_state e v st s = (packed, s1)" by force
  have g: "code_gone w code s1" using popped_keeps_gone [OF assms(1), of e v st] p by simp
  then have g2: "code_gone w code (s1\<lparr>os_auth := a1\<rparr>)" if "au_up a1 = au_up (os_auth s1)" for a1
    using that by (simp add: code_gone_def)
  have k: "finish_key fresh \<noteq> finish_key code" using assms(2) by (simp add: key_apart)
  show ?thesis
    using oauth_finish_cases [OF p, of c fresh gcode] g g2 put_keeps_gone [OF g2 k] by metis
qed

inductive oauth_step :: "oauth_cfg \<Rightarrow> string \<Rightarrow> oauth_state \<Rightarrow> oauth_state \<Rightarrow> bool" for c code where
  start: "oauth_step c code s (snd (oauth_authorize_url c e w st role prefixes app s))"
| finish: "fresh \<noteq> code \<Longrightarrow> oauth_step c code s (snd (oauth_finish c e w fresh gcode st s))"
| exchange: "oauth_step c code s (snd (oauth_exchange e w other s))"

lemma oauth_step_gone: "oauth_step c code s s' \<Longrightarrow> code_gone w code s \<Longrightarrow> code_gone w code s'"
proof (induction rule: oauth_step.induct)
  case (start s e v st role prefixes app)
  then show ?case by (auto simp: oauth_authorize_url_def Let_def key_apart intro: put_keeps_gone)
next
  case (finish fresh s e v gcode st)
  then show ?case by (blast intro: finish_keeps_gone)
next
  case (exchange s e v other)
  then show ?case using pop_keeps_gone [of w code s e v "finish_key other"]
    by (auto simp: oauth_exchange_def split: prod.splits option.splits eph_value.splits)
qed

lemma exchange_gone: "code_gone w code s \<Longrightarrow> fst (oauth_exchange e w code s) = Inl (bad_request ''Google sign-in code expired. Try again.'')"
  by (simp add: oauth_exchange_def eph_pop_def code_gone_def Let_def split: option.split)

text \<open>A finish code is good for one exchange, whatever the service does afterwards: the same worker refuses it ever after, as long
  as the same code is not drawn again.\<close>

theorem finish_code_once:
  assumes "oauth_exchange e w code s = (r, s1)" "(oauth_step c code)\<^sup>*\<^sup>* s1 s2"
  shows "fst (oauth_exchange e' w code s2) = Inl (bad_request ''Google sign-in code expired. Try again.'')"
proof -
  have "code_gone w code s1"
    using assms(1) pop_gone [of w code e s] by (auto simp: oauth_exchange_def split: prod.splits option.splits eph_value.splits)
  with assms(2) have "code_gone w code s2"
    by (induction rule: rtranclp_induct) (auto intro: oauth_step_gone)
  then show ?thesis by (rule exchange_gone)
qed

text \<open>Across workers it is good twice: the worker that issued it keeps its copy when another worker has taken the code out
  of Redis.\<close>

theorem exchange_replayed:
  assumes "os_redis s (finish_key code) = Some (EphReply r, t)" "os_mem s 0 (finish_key code) = Some (EphReply r, t)"
    and "au_up (os_auth s)" "env_now e < t"
  shows "\<exists>s1. oauth_exchange e 1 code s = (Inr r, s1) \<and> fst (oauth_exchange e 0 code s1) = Inr r"
  using assms by (auto simp: oauth_exchange_def eph_pop_def Let_def split: option.split)

text \<open>The state is used up by the first answer of Google that names it, accepted or not.\<close>

lemma pop_up: "au_up (os_auth (snd (eph_pop e w k s))) = au_up (os_auth s)"
  by (simp add: eph_pop_def Let_def)

lemma pop_clears: "os_mem (snd (eph_pop e w k s)) w k = None"
  "au_up (os_auth s) \<Longrightarrow> os_redis (snd (eph_pop e w k s)) k = None"
  "os_mem s w k' = None \<Longrightarrow> os_mem (snd (eph_pop e w k s)) w k' = None"
  "os_redis s k' = None \<Longrightarrow> os_redis (snd (eph_pop e w k s)) k' = None"
  by (simp_all add: eph_pop_def Let_def)

lemma popped_cases:
  obtains "snd (popped_state e w st s) = snd (eph_pop e w (state_key st) s)"
  | "snd (popped_state e w st s) = snd (eph_pop e w (cust_state_key st) (snd (eph_pop e w (state_key st) s)))"
proof -
  obtain v s1 where 1: "eph_pop e w (state_key st) s = (v, s1)" by force
  obtain v2 s2 where 2: "eph_pop e w (cust_state_key st) s1 = (v2, s2)" by force
  have "snd (popped_state e w st s) = s1 \<or> snd (popped_state e w st s) = s2"
    using 1 2 by (simp add: popped_state_def split: option.split eph_value.split)
  then show ?thesis using that 1 2 by auto
qed

theorem state_used_up:
  assumes "oauth_finish c e w fresh code st s = (r, s')"
  shows "os_mem s' w (state_key st) = None \<and> (au_up (os_auth s) \<longrightarrow> os_redis s' (state_key st) = None)"
proof -
  obtain packed t where p: "popped_state e w st s = (packed, t)" by force
  have t: "os_mem t w (state_key st) = None \<and> (au_up (os_auth s) \<longrightarrow> os_redis t (state_key st) = None)"
    using pop_clears(1) [of e w "state_key st" s] pop_clears(2) [of s e w "state_key st"]
      pop_clears(3) [of "snd (eph_pop e w (state_key st) s)" w "state_key st" e "cust_state_key st"]
      pop_clears(4) [of "snd (eph_pop e w (state_key st) s)" "state_key st" e w "cust_state_key st"]
    by (cases rule: popped_cases [of e w st s]) (auto simp: p)
  have k: "finish_key fresh \<noteq> state_key st" by (simp add: state_key_def finish_key_def)
  from oauth_finish_cases [OF p, of c fresh code] show ?thesis
    using t k by cases (auto simp: assms eph_put_def Let_def)
qed

text \<open>The redirect of the app may be any address of the web: the code is then sent there.\<close>

theorem redirect_anywhere:
  assumes "oa_client_id c \<noteq> []" "oa_client_secret c \<noteq> []"
  shows "\<exists>url. fst (customer_google_oauth_authorize_url c e w st (''https://'' @ rest) s) = Inr url"
  using assms by (simp add: customer_google_oauth_authorize_url_def oauth_authorize_url_def CUSTOMER_PREFIXES_def Let_def)

end
