(* ===== verification/Suggested.thy ===== *)
theory Suggested
  imports Products Purchases Chats
begin

text \<open>
  The two operations of \<open>store_ops_service\<close> that take a free JSON body: \<open>publish_ai_product\<close> (\<open>products.py\<close>), the assistant's
  suggestion for a product, and \<open>request_product\<close> (\<open>retailer_bff.py\<close>), a shop's.  Missing and empty entries fall through
  to the next; what remains goes through Python's \<open>float\<close> and \<open>int\<close> and the types of \<open>ProductIn\<close>, whose refusal is the
  exception \<open>ValidationError\<close>.  Names, categories and addresses of pictures in the body are texts.
\<close>

section \<open>Reading a body\<close>

definition exc_bind :: "exc + 'a \<Rightarrow> ('a \<Rightarrow> exc + 'b) \<Rightarrow> exc + 'b" where
  "exc_bind r f = (case r of Inl ex \<Rightarrow> Inl ex | Inr x \<Rightarrow> f x)"

text \<open>\<open>s.get(a) or s.get(b) or \<dots>\<close>: the first entry that is true; the last one when none is.\<close>

fun first_of :: "string list \<Rightarrow> json \<Rightarrow> json" where
  "first_of [] s = JNull"
| "first_of [k] s = jget k s"
| "first_of (k # ks) s = jor (jget k s) (first_of ks s)"

definition py_float :: "json \<Rightarrow> exc + rat" where
  "py_float j = (case j of
     JInt n \<Rightarrow> Inr (fl (of_int n))
   | JFloat x \<Rightarrow> Inr x
   | JBool b \<Rightarrow> Inr (if b then 1 else 0)
   | JStr s \<Rightarrow> (case parse_decimal (strip s) of Some x \<Rightarrow> Inr x | None \<Rightarrow> Inl (PyExc ''ValueError''))
   | _ \<Rightarrow> Inl (PyExc ''TypeError''))"

definition field_str :: "json \<Rightarrow> exc + string option" where
  "field_str j = (case j of JNull \<Rightarrow> Inr None | JStr s \<Rightarrow> Inr (Some s) | _ \<Rightarrow> Inl (PyExc ''ValidationError''))"

definition field_float :: "json \<Rightarrow> exc + rat option" where
  "field_float j = (if j = JNull then Inr None
     else case py_float j of Inr x \<Rightarrow> Inr (Some x) | Inl _ \<Rightarrow> Inl (PyExc ''ValidationError''))"

definition field_int :: "json \<Rightarrow> exc + int option" where
  "field_int j = (case j of
     JNull \<Rightarrow> Inr None
   | JFloat x \<Rightarrow> if of_int \<lfloor>x\<rfloor> = x then Inr (Some \<lfloor>x\<rfloor>) else Inl (PyExc ''ValidationError'')
   | _ \<Rightarrow> (case jint j of Inr n \<Rightarrow> Inr (Some n) | Inl _ \<Rightarrow> Inl (PyExc ''ValidationError'')))"

definition field_list :: "json \<Rightarrow> exc + json list option" where
  "field_list j = (case j of JNull \<Rightarrow> Inr None | JArr xs \<Rightarrow> Inr (Some xs) | _ \<Rightarrow> Inl (PyExc ''ValidationError''))"

definition suggestions_of :: "json \<Rightarrow> exc + json" where
  "suggestions_of body = (let s = jor (jget ''suggestions'' body) body
     in case s of JObj _ \<Rightarrow> Inr s | _ \<Rightarrow> Inl (PyExc ''AttributeError''))"

text \<open>The category of that name, or a new one, which is committed.\<close>

definition category_for :: "env \<Rightarrow> string \<Rightarrow> db \<Rightarrow> (exc + int) \<times> db" where
  "category_for e nm d = (case t_first (\<lambda>c. cat_name c = nm) (categories d) of
     Some c \<Rightarrow> (Inr (cat_id c), d)
   | None \<Rightarrow>
       if t_first (\<lambda>c. cat_slug c = slugify nm) (categories d) \<noteq> None then (Inl (PyExc ''IntegrityError''), d)
       else let c = new_Category (env_now e) nm (slugify nm) in (Inr (cat_id (key_Category c d)), add_Category c d))"

section \<open>The assistant's product\<close>

definition number_of :: "string list \<Rightarrow> int \<Rightarrow> json \<Rightarrow> json" where
  "number_of ks n s = jor (first_of ks s) (JInt n)"

definition ai_product_in :: "json \<Rightarrow> json \<Rightarrow> int \<Rightarrow> exc + ProductIn" where
  "ai_product_in body s cid =
     exc_bind (py_float (number_of [''selling_price'', ''recommended_selling_price''] 299 s)) (\<lambda>price.
     exc_bind (py_float (number_of [''gst_rate''] 5 s)) (\<lambda>gst.
     exc_bind (jint (number_of [''suggested_stock''] 10 s)) (\<lambda>stock.
     exc_bind (jint (number_of [''preparation_time''] 60 s)) (\<lambda>minutes.
     exc_bind (field_str (jor (first_of [''name'', ''title''] s) (JStr ''New Product''))) (\<lambda>nm.
     exc_bind (field_str (jget ''short_description'' s)) (\<lambda>short.
     exc_bind (field_str (jget ''description'' s)) (\<lambda>descr.
     exc_bind (field_str (jget ''ingredients'' s)) (\<lambda>ingr.
     exc_bind (field_str (jget ''allergens'' s)) (\<lambda>allerg.
     exc_bind (field_str (jget ''flavor'' s)) (\<lambda>flavor.
     exc_bind (field_str (jget ''weight'' s)) (\<lambda>weight.
     exc_bind (field_str (jor (jget ''unit_label'' s) (JStr ''pcs''))) (\<lambda>unit.
     exc_bind (field_float (first_of [''original_price'', ''discount_price''] s)) (\<lambda>original.
     exc_bind (field_int (jget ''shelf_life_hours'' s)) (\<lambda>shelf.
     exc_bind (field_str (jget ''storage_instructions'' s)) (\<lambda>storage.
     exc_bind (field_list (first_of [''tags'', ''keywords''] s)) (\<lambda>tgs.
     exc_bind (field_list (jget ''filters'' s)) (\<lambda>fltrs.
     exc_bind (field_str (jor (jget ''cover_image'' body) (case jget ''image_urls'' body of JArr (u # _) \<Rightarrow> u | _ \<Rightarrow> JNull))) (\<lambda>cover.
       let shown = (case body of JObj kvs \<Rightarrow> (case map_of kvs ''publish'' of Some j \<Rightarrow> jtruthy j | None \<Rightarrow> True) | _ \<Rightarrow> True)
       in Inr ((new_ProductIn cid (or_str nm [])) \<lparr>pri_short_description := short, pri_description := descr,
            pri_ingredients := ingr, pri_allergens := allerg, pri_flavor := flavor, pri_weight := weight, pri_unit_label := unit,
            pri_selling_price := price, pri_original_price := original, pri_gst_rate := gst, pri_stock_qty := stock,
            pri_is_eggless := jtruthy (first_of [''is_eggless'', ''eggless''] s), pri_is_sugar_free := jtruthy (jget ''sugar_free'' s),
            pri_preparation_minutes := minutes, pri_shelf_life_hours := shelf, pri_storage_instructions := storage,
            pri_tags := tgs, pri_filters := fltrs, pri_cover_image_url := cover,
            pri_is_draft := \<not> shown, pri_is_active := shown\<rparr>)))))))))))))))))))"

definition publish_ai_product :: "env \<Rightarrow> json \<Rightarrow> db \<Rightarrow> (exc + Product) \<times> db" where
  "publish_ai_product e body d = (case suggestions_of body of
     Inl ex \<Rightarrow> (Inl ex, d)
   | Inr s \<Rightarrow> (case category_for e (or_str (jstr (jget ''category'' s)) ''Birthday Cakes'') d of
       (Inl ex, d1) \<Rightarrow> (Inl ex, d1)
     | (Inr k, d1) \<Rightarrow> (case ai_product_in body s k of
         Inl ex \<Rightarrow> (Inl ex, d1)
       | Inr b \<Rightarrow> (case create_product e b d1 of
           (Inl ex, d2) \<Rightarrow> (Inl ex, d2)
         | (Inr p, d2) \<Rightarrow>
             let q = jor (jget ''quality'' body) (JObj []);
                 p2 = p\<lparr>p_quality_score := jfloat (jget ''score'' q),
                        p_quality_suggestions := (case jget ''suggestions'' q of JArr xs \<Rightarrow> Some xs | _ \<Rightarrow> None)\<rparr>
             in (case q of JObj _ \<Rightarrow> (Inr p2, put_Product p2 d2) | _ \<Rightarrow> (Inl (PyExc ''AttributeError''), d2))))))"

section \<open>A shop's product\<close>

definition tagged_by :: "int \<Rightarrow> json" where
  "tagged_by uid = JStr (''requested_by_shop:'' @ show_int uid)"

definition shop_product_in :: "int \<Rightarrow> json \<Rightarrow> string \<Rightarrow> json \<Rightarrow> int \<Rightarrow> exc + ProductIn" where
  "shop_product_in uid s nm cover cid =
     exc_bind (py_float (number_of [''shop_price'', ''selling_price'', ''recommended_selling_price''] 99 s)) (\<lambda>shop_price.
     exc_bind (py_float (jor (first_of [''selling_price'', ''customer_price''] s) (JFloat shop_price))) (\<lambda>selling.
     exc_bind (case jget ''tags'' s of JArr xs \<Rightarrow> Inr xs | j \<Rightarrow> if jtruthy j then Inl (PyExc ''TypeError'') else Inr []) (\<lambda>tgs.
     exc_bind (py_float (jor (jget ''customer_price'' s) (JFloat selling))) (\<lambda>customer.
     exc_bind (jint (number_of [''suggested_stock'', ''stock_qty''] 0 s)) (\<lambda>stock.
     exc_bind (case jget ''short_description'' s of
         JStr t \<Rightarrow> Inr (let u = py_take 500 t in if u = [] then None else Some u) | j \<Rightarrow> field_str j) (\<lambda>short.
     exc_bind (field_str (jget ''description'' s)) (\<lambda>descr.
     exc_bind (field_str (jget ''flavor'' s)) (\<lambda>flavor.
     exc_bind (field_str (jget ''weight'' s)) (\<lambda>weight.
     exc_bind (field_str (jor (jget ''unit_label'' s) (JStr ''pcs''))) (\<lambda>unit.
     exc_bind (field_str cover) (\<lambda>url.
       Inr ((new_ProductIn cid (py_take 200 nm)) \<lparr>pri_short_description := short, pri_description := descr, pri_flavor := flavor,
          pri_weight := weight, pri_unit_label := unit, pri_selling_price := selling, pri_shop_price := Some shop_price,
          pri_customer_price := Some customer, pri_stock_qty := stock,
          pri_is_eggless := jtruthy (first_of [''is_eggless'', ''eggless''] s),
          pri_tags := Some (tgs @ [tagged_by uid]), pri_cover_image_url := url,
          pri_is_draft := True, pri_is_active := False\<rparr>))))))))))))"

definition request_product :: "env \<Rightarrow> int \<Rightarrow> json \<Rightarrow> db \<Rightarrow> (exc + Product) \<times> db" where
  "request_product e uid body d = (case suggestions_of body of
     Inl ex \<Rightarrow> (Inl ex, d)
   | Inr s \<Rightarrow>
       let nm = strip (or_str (jstr (first_of [''name'', ''title''] s)) []);
           urls = (case jget ''image_urls'' body of JArr xs \<Rightarrow> filter jtruthy xs | _ \<Rightarrow> []);
           cover = jor (jget ''cover_image'' body) (case urls of u # _ \<Rightarrow> u | [] \<Rightarrow> JNull);
           wanted = strip (or_str (jstr (jget ''category'' s)) ''Village Supply'')
       in if nm = [] then (Inl (bad_request ''Product name is required''), d)
          else if \<not> jtruthy cover then (Inl (bad_request ''Product photo is required''), d)
          else (case category_for e (if wanted = [] then ''Village Supply'' else wanted) d of
            (Inl ex, d1) \<Rightarrow> (Inl ex, d1)
          | (Inr k, d1) \<Rightarrow> (case shop_product_in uid s nm cover k of
              Inl ex \<Rightarrow> (Inl ex, d1) | Inr b \<Rightarrow> create_product e b d1)))"

section \<open>What a shop's request can do\<close>

lemma exc_bind_Inr [simp]: "exc_bind r f = Inr y \<longleftrightarrow> (\<exists>x. r = Inr x \<and> f x = Inr y)"
  by (simp add: exc_bind_def split: sum.split)

lemma shop_product_in_hidden:
  assumes "shop_product_in uid s nm cover cid = Inr b"
  shows "pri_is_draft b \<and> \<not> pri_is_active b \<and> pri_shop_price b \<noteq> None
    \<and> (\<exists>ts. pri_tags b = Some (ts @ [tagged_by uid]))"
  using assms by (auto simp: shop_product_in_def)

lemma create_product_Inr:
  assumes "create_product e b d = (Inr p, d')"
  obtains brand sid where "p = key_Product (product_row e (product_slug d (pri_name b)) brand sid b) d"
    "d' = add_Product (product_row e (product_slug d (pri_name b)) brand sid b) d"
  using assms by (auto simp: create_product_def Let_def split: sum.splits if_splits prod.splits)

text \<open>Whatever the body says, a shop's request is a draft that is not on sale and carries the mark of the shop.\<close>

theorem request_is_hidden:
  assumes "request_product e uid body d = (Inr p, d')"
  shows "p_is_draft p" "\<not> p_is_active p" "\<exists>ts. p_tags p = Some (ts @ [tagged_by uid])"
proof -
  obtain s nm cover k b d1 where b: "shop_product_in uid s nm cover k = Inr b"
    and p: "create_product e b d1 = (Inr p, d')"
    using assms by (auto simp: request_product_def Let_def split: sum.splits if_splits prod.splits)
  from p obtain brand sid where
    "p = key_Product (product_row e (product_slug d1 (pri_name b)) brand sid b) d1" by (rule create_product_Inr)
  with shop_product_in_hidden [OF b]
  show "p_is_draft p" "\<not> p_is_active p" "\<exists>ts. p_tags p = Some (ts @ [tagged_by uid])"
    by (auto simp: product_row_def)
qed

end
