(* ===== verification/StatusTrail.thy ===== *)
theory StatusTrail
  imports PaymentLaws SellLaws ReturnLaws RiderLaws Kitchen
begin

text \<open>
  Who keeps the status trail.  The checkout service, the payment service and the shops write a history row with every
  status they set; returns, the administrator's status changes, riders and the kitchen write none.
\<close>

section \<open>Those who write the history\<close>

inductive trail_step :: "db \<Rightarrow> db \<Rightarrow> bool" where
  order: "order_step d d' \<Longrightarrow> trail_step d d'"
| payment: "payment_step d d' \<Longrightarrow> trail_step d d'"
| sale: "sells user d d' \<Longrightarrow> trail_step d d'"

inductive_cases trail_stepE: "trail_step d d'"

interpretation trail_keepers: trail_machine db_wf trail_step
  by unfold_locales (auto elim!: trail_stepE dest: order_step_laws payment_step_laws sells_wf sells_trail)

text \<open>Property C8 (orders_keep_trail): whatever checkouts, customers' status updates, cancellations and ratings, gateway orders,
  verifications, webhooks and direct confirmations, and operations of selling shops happen, in whatever order, the last
  history row of every order shows the order's current status.  Returns, the administrator's status changes, riders and
  the kitchen are not among these operations: they move orders without a history row (\<open>return_skips_history\<close>,
  \<open>desk_skips_history\<close>, \<open>rider_skips_history\<close>, \<open>kitchen_skips_history\<close>).\<close>

theorem orders_keep_trail:
  assumes "trail_step\<^sup>*\<^sup>* d d'" "db_wf d" "status_trail d"
  shows "status_trail d'"
  using assms by (rule trail_keepers.machine_trail)

lemma orders_keep_trail_witness:
  "status_trail (snd (cancel_order sample_env 1 5 ''late'' order_db))
   \<and> rows (histories (snd (cancel_order sample_env 1 5 ''late'' order_db))) \<noteq> rows (histories order_db)"
proof -
  obtain ord' d' where r: "cancel_order sample_env 1 5 ''late'' order_db = (Inr (Cancelled ord'), d')"
    and h: "rows (histories d') \<noteq> rows (histories order_db)"
    using order_db_facts
    by (simp add: cancel_order_def order_detail_def update_order_status_def OrderStatus_enum.of_Some_iff
        enum_of_def OrderStatus_members_def Let_def)
  have "trail_step order_db d'" using r by (intro trail_step.order order_step.cancel)
  then have "status_trail d'"
    using order_db_facts by (intro orders_keep_trail [of order_db d'] r_into_rtranclp)
  with r h show ?thesis by simp
qed

section \<open>Those who do not\<close>

lemma notify_histories [simp]: "histories (notify e u ty ti b j d) = histories d"
  by (simp add: notify_def)

lemma return_skips_history:
  "create_return e u data d = (r, d') \<Longrightarrow> histories d' = histories d"
  by (auto simp: create_return_def Let_def split: option.splits if_splits)

lemma desk_skips_history:
  assumes "ops_update_status e k status nt person d = (Inr o2, d2)"
  shows "histories d2 = histories d \<and> OrderStatus_value (o_status o2) = status"
  using assms by (rule ops_update_statusE) simp

end
