(* ===== verification/CatalogueEdits.thy ===== *)
theory CatalogueEdits
  imports ProductLaws Suggested
begin

text \<open>
  Every edit of the catalogue: the operations of \<open>ProductLaws\<close>, the products from JSON bodies of \<open>Suggested\<close>, the offers of
  suppliers and what the shops do with their own products and categories, each as \<open>catalogue_change\<close>s; along any run of
  them the catalogue stays sound.
\<close>

section \<open>The remaining operations\<close>

lemma category_for_change:
  assumes "category_for e nm d = (r, d')" "db_wf d" shows "catalogue_change d d'"
proof (cases "d' = d")
  case True
  with assms(2) show ?thesis by (intro catalogue_change.same) simp_all
next
  case False
  with assms(1) have d': "d' = add_Category (new_Category (env_now e) nm (slugify nm)) d"
    and free: "t_first (\<lambda>c. cat_slug c = slugify nm) (categories d) = None"
    by (auto simp: category_for_def Let_def split: option.splits if_splits)
  have "cat_slug (new_Category (env_now e) nm (slugify nm)) \<notin> set (category_slugs d)"
    using free by (auto simp: category_slugs_def t_first_None_iff new_Category_def)
  then show ?thesis by (rule catalogue_change.new_category [OF d'])
qed

lemma category_slug_free: "fresh_slug (category_slugs d) base base 1 \<notin> set (category_slugs d)"
  using fresh_slug_first [of 0 base "category_slugs d"] by (auto simp: slug_candidate_def)

lemma shop_category_change:
  assumes "create_category coll e user nm descr img d = (Inr c, d')" shows "catalogue_change d d'"
proof -
  from assms obtain profile d1 where sel: "selling_shop e user d = (Inr profile, d1)"
    by (auto simp: create_category_def split: prod.splits sum.splits)
  from selling_may_sell [OF sel] have "d1 = d" by simp
  with assms sel obtain base cat where "d' = add_Category cat d" "cat_slug cat = fresh_slug (category_slugs d) base base 1"
    by (auto simp: create_category_def Let_def new_Category_def split: if_splits option.splits)
  then show ?thesis by (metis catalogue_change.new_category category_slug_free)
qed

lemma shop_delete_change:
  assumes "delete_my_product e user k d = (Inr j, d')" "db_wf d" shows "catalogue_change d d'"
proof -
  from assms(1) obtain profile d1 where sel: "selling_shop e user d = (Inr profile, d1)"
    by (auto simp: delete_my_product_def split: prod.splits sum.splits)
  from selling_may_sell [OF sel] have "d1 = d" by simp
  with assms(1) sel obtain p where p: "own_product d user k = Some p"
    and d': "d' = put_Product (p\<lparr>p_is_active := False, p_is_draft := True, p_updated_at := env_now e\<rparr>) d"
    by (auto simp: delete_my_product_def split: option.splits)
  from p have "get_Product d k = Some p" by (auto simp: own_product_def split: option.splits if_splits)
  from put_product_quiet [OF this assms(2)] show ?thesis unfolding d' by simp
qed

lemma offer_change:
  assumes "patch_my_product e user k avail cost d = (r, d')" "db_wf d" shows "catalogue_change d d'"
proof (cases "d' = d")
  case True
  with assms(2) show ?thesis by (intro catalogue_change.same) simp_all
next
  case False
  define offered where "offered = (\<lambda>p :: Product. (case cost of
       None \<Rightarrow> (case avail of None \<Rightarrow> p | Some q \<Rightarrow> p\<lparr>p_supplier_available_qty := q\<rparr>)
     | Some c \<Rightarrow> (case avail of None \<Rightarrow> p | Some q \<Rightarrow> p\<lparr>p_supplier_available_qty := q\<rparr>)\<lparr>p_purchase_cost := Some c\<rparr>)
       \<lparr>p_updated_at := env_now e\<rparr>)"
  from assms(1) False obtain p where p: "get_Product d k = Some p" "d' = put_Product (offered p) d"
    by (auto simp: patch_my_product_def offered_def Let_def split: sum.splits option.splits if_splits)
  show ?thesis unfolding p(2)
    by (rule put_product_quiet [OF p(1) assms(2)]) (simp_all add: offered_def split: option.split)
qed

lemma request_change:
  assumes "request_product e uid body d = (r, d')" "db_wf d" shows "catalogue_change\<^sup>*\<^sup>* d d'"
proof -
  consider "d' = d" | nm k d1 where "category_for e nm d = (k, d1)" "d' = d1"
    | nm k d1 b where "category_for e nm d = (k, d1)" "create_product e b d1 = (r, d')"
    using assms(1) by (auto simp: request_product_def Let_def split: sum.splits if_splits prod.splits)
  then show ?thesis
  proof cases
    case (2 nm k d1)
    then show ?thesis using category_for_change [OF 2(1) assms(2)] by auto
  next
    case (3 nm k d1 b)
    note c = category_for_change [OF 3(1) assms(2)]
    from create_product_change [OF 3(2) catalogue_change_wf [OF c assms(2)]] c show ?thesis by auto
  qed simp
qed

lemma quality_change:
  assumes "create_product e b d = (Inr p, d')" "db_wf d"
  shows "catalogue_change d' (put_Product (p\<lparr>p_quality_score := q, p_quality_suggestions := qs\<rparr>) d')"
proof -
  have wf: "db_wf d'" using catalogue_change_wf [OF create_product_change [OF assms] assms(2)] .
  from assms(1) have "get_Product d' (p_id p) = Some p"
    by (rule create_product_Inr) (use assms(2) in simp)
  from put_product_quiet [OF this wf] show ?thesis by simp
qed

lemma publish_ai_productE:
  assumes "publish_ai_product e body d = (r, d')"
  obtains (none) "d' = d"
  | (category) nm k d1 where "category_for e nm d = (k, d1)" "d' = d1"
  | (product) nm k d1 b r2 where "category_for e nm d = (k, d1)" "create_product e b d1 = (r2, d')"
  | (quality) nm k d1 b p d2 q qs where "category_for e nm d = (k, d1)" "create_product e b d1 = (Inr p, d2)"
      "d' = put_Product (p\<lparr>p_quality_score := q, p_quality_suggestions := qs\<rparr>) d2"
proof (cases "suggestions_of body")
  case (Inl ex)
  with assms none show thesis by (simp add: publish_ai_product_def)
next
  case s: (Inr s)
  obtain k d1 where c: "category_for e (or_str (jstr (jget ''category'' s)) ''Birthday Cakes'') d = (k, d1)" by force
  show thesis
  proof (cases k)
    case (Inl ex)
    with assms s c show thesis by (intro category [OF c]) (simp add: publish_ai_product_def)
  next
    case k: (Inr i)
    show thesis
    proof (cases "ai_product_in body s i")
      case (Inl ex)
      with assms s c k show thesis by (intro category [OF c]) (simp add: publish_ai_product_def)
    next
      case b: (Inr b)
      obtain r2 d2 where p: "create_product e b d1 = (r2, d2)" by force
      note eqs = publish_ai_product_def s c k b p
      show thesis
      proof (cases r2)
        case (Inl ex)
        with assms p have "create_product e b d1 = (r2, d')" by (simp add: eqs)
        then show thesis by (rule product [OF c])
      next
        case (Inr p0)
        show thesis
        proof (cases "\<exists>kvs. jor (jget ''quality'' body) (JObj []) = JObj kvs")
          case True
          then obtain kvs where "jor (jget ''quality'' body) (JObj []) = JObj kvs" by blast
          with assms Inr have "d' = put_Product (p0\<lparr>p_quality_score := jfloat (jget ''score'' (JObj kvs)),
              p_quality_suggestions := (case jget ''suggestions'' (JObj kvs) of JArr xs \<Rightarrow> Some xs | _ \<Rightarrow> None)\<rparr>) d2"
            by (simp add: eqs Let_def)
          with p Inr show thesis by (intro quality [OF c]) simp_all
        next
          case False
          with assms Inr have "d' = d2" by (cases "jor (jget ''quality'' body) (JObj [])") (simp_all add: eqs Let_def)
          with p have "create_product e b d1 = (r2, d')" by simp
          then show thesis by (rule product [OF c])
        qed
      qed
    qed
  qed
qed

lemma publish_change:
  assumes "publish_ai_product e body d = (r, d')" "db_wf d" shows "catalogue_change\<^sup>*\<^sup>* d d'"
  using assms(1)
proof (cases rule: publish_ai_productE)
  case (category nm k d1)
  then show ?thesis using category_for_change [OF category(1) assms(2)] by auto
next
  case (product nm k d1 b r2)
  note c = category_for_change [OF product(1) assms(2)]
  from create_product_change [OF product(2) catalogue_change_wf [OF c assms(2)]] c show ?thesis by auto
next
  case (quality nm k d1 b p d2 q qs)
  note c = category_for_change [OF quality(1) assms(2)]
  note w = catalogue_change_wf [OF c assms(2)]
  note q = quality_change [OF quality(2) w, where q = q and qs = qs, folded quality(3)]
  show ?thesis
    using c create_product_change [OF quality(2) w] q by (meson r_into_rtranclp rtranclp.rtrancl_into_rtrancl)
qed simp

section \<open>Any run\<close>

inductive catalogue_step :: "db \<Rightarrow> db \<Rightarrow> bool" where
  create: "create_product e b d = (r, d') \<Longrightarrow> catalogue_step d d'"
| update: "update_product e k pb d = (r, d') \<Longrightarrow> catalogue_step d d'"
| disable: "catalogue_step d (snd (soft_delete_product e k d))"
| duplicate: "duplicate_product e k d = (r, d') \<Longrightarrow> catalogue_step d d'"
| stock: "update_stock e k q reason nt a d = (r, d') \<Longrightarrow> catalogue_step d d'"
| upsert_category: "catalogue_step d (snd (upsert_category e cb d))"
| update_category: "update_category e k cb d = (c, d') \<Longrightarrow> catalogue_step d d'"
| delete_category: "delete_category e k d = (j, d') \<Longrightarrow> catalogue_step d d'"
| prices: "update_prices e k data d = (r, d') \<Longrightarrow> catalogue_step d d'"
| flags: "set_flags e k fb d = (r, d') \<Longrightarrow> catalogue_step d d'"
| publish: "publish_ai_product e body d = (r, d') \<Longrightarrow> catalogue_step d d'"
| request: "request_product e uid body d = (r, d') \<Longrightarrow> catalogue_step d d'"
| offer: "patch_my_product e user k avail cost d = (j, d') \<Longrightarrow> catalogue_step d d'"
| shop_create: "create_my_product e user spb d = (Inr p, d') \<Longrightarrow> catalogue_step d d'"
| shop_patch: "sell_patch_product e user k ppb d = (Inr p, d') \<Longrightarrow> catalogue_step d d'"
| shop_delete: "delete_my_product e user k d = (Inr j2, d') \<Longrightarrow> catalogue_step d d'"
| shop_category: "create_category (coll :: string \<Rightarrow> int) e user nm descr img d = (Inr cat, d') \<Longrightarrow> catalogue_step d d'"

lemma catalogue_step_change:
  assumes "catalogue_step d d'" "db_wf d" shows "catalogue_change\<^sup>*\<^sup>* d d'"
proof -
  have one: "catalogue_change d d' \<Longrightarrow> catalogue_change\<^sup>*\<^sup>* d d'" by (rule r_into_rtranclp)
  show ?thesis using assms
    by (induction rule: catalogue_step.induct)
      (blast intro: one create_product_change update_product_change soft_delete_change duplicate_change update_stock_change
        upsert_category_change update_category_change delete_category_change update_prices_change set_flags_change
        publish_change request_change offer_change create_my_product_change sell_patch_change shop_delete_change
        shop_category_change)+
qed

lemma catalogue_changes_sound:
  assumes "catalogue_change\<^sup>*\<^sup>* d d'" "db_wf d" "catalogue_sound d"
  shows "db_wf d' \<and> catalogue_sound d'"
  using assms by (induction rule: rtranclp_induct) (use catalogue_change_wf catalogue_change_sound in blast)+

text \<open>Property C38 (catalogue_stays_sound): along any run of edits of the catalogue, by the administrator (the assistant's
  suggestions included), the shops (accepted edits of their own products and categories, their offers as suppliers, their
  requests) and the pricing and assortment services, no two products and no two categories share a slug, and every product has a unit of the
  fixed list, a stock status that tells its stock, and a category that exists.  Stock sold by a checkout or received from a supplier is no
  edit here; those two take the product's own threshold of low stock.\<close>

theorem catalogue_stays_sound:
  assumes "catalogue_step\<^sup>*\<^sup>* d d'" "db_wf d" "catalogue_sound d"
  shows "catalogue_sound d'"
proof -
  have "db_wf d' \<and> catalogue_sound d'"
    using assms
    by (induction rule: rtranclp_induct) (use catalogue_step_change catalogue_changes_sound in blast)+
  then show ?thesis ..
qed

section \<open>Worked example\<close>

lemma catalogue_stays_sound_witness:
  "catalogue_sound (snd (update_stock sample_env 1 3 ''adjust'' None None shelf_db))
   \<and> map (\<lambda>p. (p_stock_qty p, p_stock_status p)) (rows (products (snd (update_stock sample_env 1 3 ''adjust'' None None shelf_db))))
     = [(3, SS_LOW_STOCK)]"
proof -
  have "catalogue_step\<^sup>*\<^sup>* shelf_db (snd (update_stock sample_env 1 3 ''adjust'' None None shelf_db))"
    by (rule r_into_rtranclp, rule catalogue_step.stock [OF prod.collapse [symmetric]])
  then have "catalogue_sound (snd (update_stock sample_env 1 3 ''adjust'' None None shelf_db))"
    by (rule catalogue_stays_sound [OF _ shelf_db_facts(1,3)])
  then show ?thesis
    by (simp add: update_stock_def shelf_db_facts(2) Let_def rows_t_put)
      (simp add: shelf_db_def plum_cake_def new_Product_def to_stock_status_cases)
qed

end
