(* ===== verification/Spec2Isabelle.thy ===== *)
theory Spec2Isabelle
  imports Credit OrderLaws PurchaseLaws PaymentLaws RiderLaws EngagementLaws ReturnLaws PlanLaws SessionLaws Shops
    Routing Kitchen Promotions BillHistory ProductLaws ChatLaws RiderDesk AnalyticsLaws
    CatalogLaws Dashboard OrderService Location AiChatLaws OAuth Suggested StatusTrail CatalogueEdits
begin

text \<open>
  Verification of the SweetCrust commerce back end: the Python services under \<open>src/services\<close> and the
  code they share under \<open>src/package\<close>.

  \<^bold>\<open>The program.\<close>  A bakery sells to customers and to retailer shops.  A customer fills a cart and
  checks out (\<open>checkout_service\<close>), pays over Razorpay (\<open>payment_service\<close>), is delivered by a rider
  (\<open>rider_service\<close>) and may return goods (\<open>cart_service\<close>); wallet, referrals and notifications go along.
  Shops buy on credit, sell their own products under a paid plan and are supplied by purchase orders
  (\<open>store_ops_service\<close>).  Accounts, one-time codes and tokens are \<open>auth_service\<close> and
  \<open>package/common/auth\<close>.  The services share one relational database and tell a realtime gateway of changes
  through Redis.

  \<^bold>\<open>Conventions.\<close>  A handler is a function \<open>env \<Rightarrow> \<dots> \<Rightarrow> db \<Rightarrow> (exc + 'a) \<times> db\<close>.  \<open>db\<close> holds every
  table as a list of rows with the next key, and \<open>outbox\<close>, the messages handed to Redis.  After an
  exception (\<open>Inl\<close>) the database is the last committed one.  \<open>env\<close> is what a request takes from outside:
  one reading of the clock, the random draws keyed by the row they are stored in, the distance function.
  Queries without ORDER BY answer in key order.  A unique column makes the insertion raise IntegrityError.
  Column widths, logging and e-mail are left out.  Strings are their UTF-8 bytes; case mapping is ASCII.
  Money is a binary64 number in the code: amounts are exact rationals rounded by \<open>fl\<close> after each
  operation, as IEEE 754 prescribes, and \<open>round2\<close> is Python's \<open>round(x, 2)\<close>.

  \<^bold>\<open>Foundations.\<close>  \<open>Prelude\<close>: strings, JSON, tables and their laws.  \<open>Float64\<close>, \<open>Money\<close>: binary64 and the
  paise a float stands for; below \<open>money_bound\<close> (2^40 paise) adding and subtracting amounts of whole
  paise and rounding to two places is exact, and the properties of sums are stated below that bound.
  \<open>Enums\<close>, \<open>Schema\<close>: enums and tables of \<open>app/models\<close>.  \<open>Errors\<close> (\<open>package/common/errors.py\<close>), \<open>Helpers\<close>,
  \<open>Clock\<close> (\<open>package/common/utils\<close>), \<open>Events\<close> (\<open>producers/events.py\<close>), \<open>Units\<close> (\<open>units.py\<close>, \<open>phone.py\<close>).

  \<^bold>\<open>Orders of customers.\<close>  \<open>Cart\<close>, \<open>CartBill\<close>, \<open>Checkout\<close>, \<open>OrderLife\<close>, \<open>Notify\<close> model \<open>orders.py\<close> and
  \<open>notifications.py\<close> of \<open>checkout_service\<close>; \<open>CartLaws\<close>, \<open>OrderLaws\<close>, \<open>Lifecycle\<close> their laws: a cart keeps to one
  shop (unless a saved line of another is moved back), the bill of prices in whole paise is exact to the nearest paisa with
  every kind of coupon (at a subtotal equal to the threshold of free delivery either fee can occur), a checkout places
  exactly the cart and empties it, cancellation by every outcome, one invoice per order.  \<open>StatusTrail\<close>: through any
  operations of the checkout, of the payments and of selling shops the last history row of an order is its status; returns,
  the administrator's desk, riders and the kitchen change statuses without a row.

  \<^bold>\<open>Payments.\<close>  \<open>Gateway\<close> (\<open>razorpay.py\<close>; the HTTP API and HMAC are parameters) and \<open>Payments\<close>
  (\<open>payments.py\<close>); \<open>PaymentLaws\<close>: nothing is paid without a valid signature, a verification and a
  webhook message act once, and the history is kept.

  \<^bold>\<open>Shops.\<close>  \<open>PayRules\<close>, \<open>Ledger\<close>, \<open>Credit\<close>, \<open>Invoices\<close> (\<open>pay_rules.py\<close>, \<open>credit.py\<close>, \<open>invoices.py\<close>): no debit beyond
  the limit, collections first in first out without losing a paisa, and the balance is the
  sum of the ledger but for a paisa at each step that was not of whole paise or overpaid.  \<open>Purchases\<close>,
  \<open>PurchaseText\<close> (\<open>purchases.py\<close>, \<open>supplier.py\<close>) with \<open>PurchaseLaws\<close>: the life of a purchase order and its
  books.  \<open>SellPlan\<close>, \<open>Sell\<close>, \<open>Sales\<close> (\<open>sell.py\<close>) with \<open>SellLaws\<close> and \<open>PlanLaws\<close>: the plan is paid once, a shop touches its
  own rows only, the catalogue stays typed, the slug loop ends.  \<open>ShopHours\<close> (\<open>shop_hours.py\<close>) and \<open>Shops\<close>
  (\<open>shops.py\<close>, profile part of \<open>retailer_bff.py\<close>): the opening window is an arc of the clock.

  \<^bold>\<open>Delivery, wallet, returns.\<close>  \<open>Rider\<close> (\<open>rider.py\<close>) with \<open>RiderLaws\<close>: the 45 seconds of an offer, no
  order of another rider is touched, and a listing releases every expired offer among the rider's latest fifty orders.  \<open>Engagement\<close> (\<open>engagement.py\<close>) with \<open>EngagementLaws\<close>: the wallet is the sum
  of its transactions, but for a paisa at each amount that was not of whole paise.  \<open>Returns\<close> (\<open>returns.py\<close>) with \<open>ReturnLaws\<close>.

  \<^bold>\<open>Money reports.\<close>  \<open>Billing\<close>, \<open>BillHistory\<close> (\<open>billing.py\<close>): what a shop owes and is owed, its bills, the history
  of its money; every movement is on exactly one day and the totals are exact sums of paise.  \<open>Forecast\<close>
  (\<open>forecast.py\<close>): units and revenue of a period add up.  \<open>FloatSum\<close> is Python's \<open>sum\<close> of floats, which since
  version 3.12 compensates the rounding of each addition.  \<open>Calendar\<close> is the part of \<open>datetime\<close> the reports use (civil
  dates, \<open>fromisoformat\<close>, \<open>strftime\<close>); \<open>Analytics\<close> (\<open>analytics.py\<close>) with \<open>AnalyticsLaws\<close>: the periods are the days, weeks and
  months of the calendar, and the windows of a chart add up to its headline.  \<open>Dashboard\<close> (\<open>dashboard.py\<close>).

  \<^bold>\<open>The administrator.\<close>  \<open>Products\<close> (\<open>products.py\<close>) with \<open>ProductLaws\<close> and \<open>CatalogueEdits\<close>: whoever edits the catalogue, slugs
  stay apart and every stock status tells its stock.  \<open>Suggested\<close> (\<open>publish_ai_product\<close>, \<open>request_product\<close>): products from free JSON
  bodies; a shop's stays hidden.  \<open>Chats\<close> (\<open>chats.py\<close> of \<open>support_service\<close>, the chats of \<open>retailer_bff.py\<close> and
  \<open>misc.py\<close>; the state adds conversations, messages and calls) with \<open>ChatLaws\<close>: no counter hides an unread
  message.  \<open>Guardrails\<close>, \<open>AiChat\<close>, \<open>PhoneCalls\<close> (\<open>guardrails.py\<close>, \<open>chat.py\<close>, \<open>chatbot_agent.py\<close>,
  \<open>pipeline.py\<close>, \<open>calls.py\<close>, \<open>api.py\<close> of \<open>ai_service\<close>) with \<open>AiChatLaws\<close>: the assistant writes into the same
  conversations, never an answer its filter blocks; the language model, the document index and Twilio are
  parameters.  \<open>AdminDesk\<close>, \<open>Reports\<close> (\<open>misc.py\<close>, \<open>settings_ops.py\<close>): refunds, cakes, returns, settings; a report
  counts every order once.  \<open>RiderDesk\<close> (\<open>delivery.py\<close>): riders and their logins.

  \<^bold>\<open>Smaller services.\<close>  \<open>Routing\<close> (\<open>routing.py\<close>): the greedy route visits every stop once, always the nearest
  next.  \<open>Kitchen\<close> (\<open>picking.py\<close>): which moves of an order the kitchen makes.  \<open>Pricing\<close> (\<open>pricing.py\<close>,
  \<open>assortment.py\<close>): no price becomes negative.  \<open>Promotions\<close> (\<open>promotions.py\<close>): bounds of a promised discount.

  \<^bold>\<open>What customers see.\<close>  \<open>Catalog\<close> (\<open>products.py\<close>, \<open>shops.py\<close>, \<open>settings_public.py\<close> of \<open>catalog_service\<close>, \<open>ratings.py\<close>
  of \<open>rating_service\<close>) with \<open>CatalogLaws\<close>: the state adds reviews, favourites, views and the Redis cache; the home feed is never
  45 seconds old nor older than the last review accepted by the catalogue (one of the rating service may be missing so long), and ratings stay the mean of one to five stars within rounding.  The
  collation and LIKE of MySQL are parameters, and ties of ORDER BY are in key order.  \<open>Location\<close> (\<open>addresses.py\<close>, \<open>geo.py\<close> of
  \<open>location_service\<close>; Google's API is a parameter): at most one default address.  \<open>OrderService\<close> (\<open>orders.py\<close> of
  \<open>order_service\<close>, where it differs from the checkout's): its reorder can fill a cart from two shops.

  \<^bold>\<open>Accounts.\<close>  \<open>Auth\<close>, \<open>Logins\<close>, \<open>Guards\<close> (\<open>auth.py\<close>, \<open>presence.py\<close>, \<open>jwt.py\<close>, \<open>blacklist.py\<close>, \<open>guards.py\<close>,
  \<open>user_deps.py\<close>).  The state adds the codes, the Redis keys with their expiry and the in-process
  revocation list; whether Redis answers does not change during a run.  bcrypt, the JWT codec and Google's token
  check are parameters; the codec is assumed to give one payload per token and one expiry per token
  identifier (\<open>codec_ok\<close>).  \<open>AuthLaws\<close>, \<open>SessionLaws\<close>: a code logs in once, a rotated or logged-out token stays dead
  along any run but for the last second before its expiry, one administrator at most.  \<open>OAuth\<close> (\<open>auth.py\<close>, \<open>ephemeral.py\<close>): the browser
  side of Google sign-in, whose states and codes are used up.

  \<^bold>\<open>Not modelled.\<close>  The prompts and parsers of the AI service around the language model and image models; the
  TypeScript gateways and deployment; the search service's copy of the listing; support tickets; dispatch (routes
  over \<open>delivery.live\<close> and \<open>update_order_status\<close>); mail, SMS and uploads (I/O of providers); the help texts for
  setting up Google sign-in; the HTTP layer and the database session.  Many services carry copies of the order and
  account code; the copies the gateway routes to are modelled.
\<close>

end
